(* ===== verification/Prelude.thy ===== *)
theory Prelude
  imports Main "HOL-Library.Char_ord" "HOL-Library.Multiset"
begin

text \<open>
  The shared library of the development: the parts of JavaScript that the sources rely on.

  \<^item> Strings.  A JavaScript string is a \<^typ>\<open>string\<close> whose characters are the code units
    0..255 (Latin-1); \<open>trim\<close>, \<open>toLowerCase\<close>, \<open>startsWith\<close>, \<open>includes\<close>, \<open>split\<close> and
    \<open>slice\<close> follow ECMAScript on that range.  The few literals of the sources outside it
    occur only in texts shown to the user and are written by their UTF-8 bytes.
  \<^item> Truthiness.  \<open>a || b\<close> on strings and on optional strings.
  \<^item> \<open>Map\<close>, \<open>Set\<close> and plain objects with non-numeric keys.  All iterate in insertion order,
    and storing under a present key keeps its position: association lists with
    \<open>map_set\<close> and \<open>map_delete\<close>, given to clients through the locale \<open>js_map\<close>.
  \<^item> \<open>Array.prototype.sort\<close> with a key: a stable sort.
  \<^item> JSON values, as \<open>JSON.parse\<close> produces them (numbers are integers here).
\<close>

named_theorems js_defs \<open>definitions of the JavaScript library functions\<close>
named_theorems inv_intros \<open>preservation of component invariants\<close>

section \<open>Strings\<close>

definition is_ws :: "char \<Rightarrow> bool" where
  "is_ws c \<longleftrightarrow> of_char c \<in> {9::nat, 10, 11, 12, 13, 32, 160}"

definition trim :: "string \<Rightarrow> string" where
  "trim s = rev (dropWhile is_ws (rev (dropWhile is_ws s)))"

definition lower_char :: "char \<Rightarrow> char" where
  "lower_char c =
     (let n = of_char c :: nat
      in if (65 \<le> n \<and> n \<le> 90) \<or> (192 \<le> n \<and> n \<le> 214) \<or> (216 \<le> n \<and> n \<le> 222)
         then char_of (n + 32) else c)"

definition toLowerCase :: "string \<Rightarrow> string" where
  "toLowerCase s = map lower_char s"

fun startsWith :: "string \<Rightarrow> string \<Rightarrow> bool" where
  "startsWith s [] = True"
| "startsWith [] (p # ps) = False"
| "startsWith (c # cs) (p # ps) = (c = p \<and> startsWith cs ps)"

definition endsWith :: "string \<Rightarrow> string \<Rightarrow> bool" where
  "endsWith s p = startsWith (rev s) (rev p)"

fun str_includes :: "string \<Rightarrow> string \<Rightarrow> bool" where
  "str_includes [] p = (p = [])"
| "str_includes (c # cs) p = (startsWith (c # cs) p \<or> str_includes cs p)"

text \<open>\<open>s.split(d)\<close> for a separator of one character: never empty.\<close>

fun split_on :: "char \<Rightarrow> string \<Rightarrow> string list" where
  "split_on d [] = [[]]"
| "split_on d (c # cs) =
     (if c = d then [] # split_on d cs
      else case split_on d cs of [] \<Rightarrow> [[c]] | w # ws \<Rightarrow> (c # w) # ws)"

text \<open>\<open>split\<close> at the characters of a class, and \<open>join\<close>.\<close>

fun split_where :: "(char \<Rightarrow> bool) \<Rightarrow> string \<Rightarrow> string list" where
  "split_where p [] = [[]]"
| "split_where p (c # cs) =
     (if p c then [] # split_where p cs
      else case split_where p cs of [] \<Rightarrow> [[c]] | w # ws \<Rightarrow> (c # w) # ws)"

fun join_with :: "string \<Rightarrow> string list \<Rightarrow> string" where
  "join_with d [] = []" | "join_with d [x] = x" | "join_with d (x # y # zs) = x @ d @ join_with d (y # zs)"

definition is_digit :: "char \<Rightarrow> bool" where
  "is_digit c \<longleftrightarrow> 48 \<le> (of_char c :: nat) \<and> (of_char c :: nat) \<le> 57"

definition digit_val :: "char \<Rightarrow> nat" where
  "digit_val c = of_char c - 48"

definition is_alpha :: "char \<Rightarrow> bool" where
  "is_alpha c \<longleftrightarrow> (65 \<le> (of_char c :: nat) \<and> (of_char c :: nat) \<le> 90)
              \<or> (97 \<le> (of_char c :: nat) \<and> (of_char c :: nat) \<le> 122)"

text \<open>The regular-expression class \<open>\w\<close>.\<close>

definition is_word :: "char \<Rightarrow> bool" where
  "is_word c \<longleftrightarrow> is_alpha c \<or> is_digit c \<or> c = CHR ''_''"

text \<open>Decimal printing of a number, as in a template literal.\<close>

definition digit_char :: "nat \<Rightarrow> char" where
  "digit_char d = char_of (48 + d)"

fun nat_str :: "nat \<Rightarrow> string" where
  "nat_str n = (if n < 10 then [digit_char n] else nat_str (n div 10) @ [digit_char (n mod 10)])"

declare nat_str.simps [simp del]

definition int_str :: "int \<Rightarrow> string" where
  "int_str i = (if i < 0 then CHR ''-'' # nat_str (nat (- i)) else nat_str (nat i))"

text \<open>The value of a run of decimal digits, as \<open>parseInt(s, 10)\<close> reads it.\<close>

definition digits_val :: "string \<Rightarrow> nat" where
  "digits_val s = foldl (\<lambda>n c. 10 * n + digit_val c) 0 s"

section \<open>Truthiness\<close>

text \<open>\<open>a || b\<close> where \<open>a\<close> is a string (the empty string is falsy) or may be absent.\<close>

definition or_str :: "string \<Rightarrow> string \<Rightarrow> string" where
  "or_str a b = (if a = [] then b else a)"

text \<open>\<open>s || undefined\<close> and \<open>s || null\<close>.\<close>

definition text_or_none :: "string \<Rightarrow> string option" where "text_or_none s = (if s = [] then None else Some s)"

fun opt_or :: "string option \<Rightarrow> string option \<Rightarrow> string option" where
  "opt_or None b = b"
| "opt_or (Some a) b = (if a = [] then b else Some a)"

fun truthy :: "string option \<Rightarrow> bool" where
  "truthy None = False"
| "truthy (Some a) = (a \<noteq> [])"

section \<open>Maps in insertion order\<close>

type_synonym ('k, 'v) jsmap = "('k \<times> 'v) list"

definition map_get :: "('k, 'v) jsmap \<Rightarrow> 'k \<Rightarrow> 'v option" where
  "map_get m k = map_of m k"

fun map_set :: "('k, 'v) jsmap \<Rightarrow> 'k \<Rightarrow> 'v \<Rightarrow> ('k, 'v) jsmap" where
  "map_set [] k v = [(k, v)]"
| "map_set ((a, b) # m) k v = (if a = k then (k, v) # m else (a, b) # map_set m k v)"

definition map_delete :: "('k, 'v) jsmap \<Rightarrow> 'k \<Rightarrow> ('k, 'v) jsmap" where
  "map_delete m k = filter (\<lambda>p. fst p \<noteq> k) m"

definition map_has :: "('k, 'v) jsmap \<Rightarrow> 'k \<Rightarrow> bool" where
  "map_has m k = (k \<in> set (map fst m))"

definition map_keys :: "('k, 'v) jsmap \<Rightarrow> 'k list" where
  "map_keys m = map fst m"

definition map_wf :: "('k, 'v) jsmap \<Rightarrow> bool" where
  "map_wf m = distinct (map fst m)"

lemma map_get_Nil [simp]: "map_get [] k = None"
  by (simp add: map_get_def)

lemma map_get_set [simp]: "map_get (map_set m k v) k' = (if k' = k then Some v else map_get m k')"
  by (induction m k v rule: map_set.induct) (auto simp: map_get_def)

lemma map_get_delete [simp]: "map_get (map_delete m k) k' = (if k' = k then None else map_get m k')"
  by (induction m) (auto simp: map_get_def map_delete_def)

lemma map_keys_set:
  "map_keys (map_set m k v) = (if k \<in> set (map_keys m) then map_keys m else map_keys m @ [k])"
  by (induction m k v rule: map_set.induct) (auto simp: map_keys_def)

lemma map_keys_delete: "map_keys (map_delete m k) = filter (\<lambda>a. a \<noteq> k) (map_keys m)"
  by (induction m) (auto simp: map_keys_def map_delete_def)

lemma map_has_iff_get: "map_has m k \<longleftrightarrow> map_get m k \<noteq> None"
  by (auto simp: map_has_def map_get_def map_of_eq_None_iff)

lemma map_has_keys: "map_has m k \<longleftrightarrow> k \<in> set (map_keys m)"
  by (simp add: map_has_def map_keys_def)

lemma map_wf_set [simp]: "map_wf m \<Longrightarrow> map_wf (map_set m k v)"
  using map_keys_set [of m k v] by (auto simp: map_wf_def map_keys_def split: if_splits)

lemma map_wf_delete [simp]: "map_wf m \<Longrightarrow> map_wf (map_delete m k)"
  by (simp add: map_wf_def map_delete_def distinct_map_filter)

lemma map_wf_Nil [simp]: "map_wf []"
  by (simp add: map_wf_def)

lemma length_map_keys [simp]: "length (map_keys m) = length m"
  by (simp add: map_keys_def)

lemma length_map_set: "length (map_set m k v) = (if map_has m k then length m else Suc (length m))"
  by (induction m k v rule: map_set.induct) (auto simp: map_has_def)

lemma length_map_delete_le: "length (map_delete m k) \<le> length m"
  by (simp add: map_delete_def)

lemma length_filter_neq:
  "distinct xs \<Longrightarrow> x \<in> set xs \<Longrightarrow> Suc (length (filter (\<lambda>a. a \<noteq> x) xs)) = length xs"
proof (induction xs)
  case (Cons y ys)
  show ?case
  proof (cases "y = x")
    case True
    with Cons.prems have "filter (\<lambda>a. a \<noteq> x) ys = ys" by (auto intro!: filter_True)
    with True show ?thesis by simp
  next
    case False
    with Cons show ?thesis by simp
  qed
qed simp

lemma length_map_delete:
  "map_wf m \<Longrightarrow> map_has m k \<Longrightarrow> Suc (length (map_delete m k)) = length m"
  using length_filter_neq [of "map_keys m" k] map_keys_delete [of m k]
  by (metis length_map_keys map_has_keys map_keys_def map_wf_def)

lemma map_set_absent: "\<not> map_has m k \<Longrightarrow> map_set m k v = m @ [(k, v)]"
  by (induction m k v rule: map_set.induct) (auto simp: map_has_def)

lemma map_delete_absent: "\<not> map_has m k \<Longrightarrow> map_delete m k = m"
  by (induction m) (auto simp: map_has_def map_delete_def)

lemma map_has_delete: "map_has (map_delete m k) k' \<longleftrightarrow> k' \<noteq> k \<and> map_has m k'"
  by (auto simp: map_has_iff_get)

lemma map_has_set: "map_has (map_set m k v) k' \<longleftrightarrow> k' = k \<or> map_has m k'"
  by (auto simp: map_has_iff_get)

lemma list_all_map_set:
  "list_all (\<lambda>p. P (snd p)) m \<Longrightarrow> P v \<Longrightarrow> list_all (\<lambda>p. P (snd p)) (map_set m k v)"
  by (induction m k v rule: map_set.induct) auto

subsection \<open>The interface of \<open>Map\<close>\<close>

locale js_map =
  fixes get :: "'m \<Rightarrow> 'k \<Rightarrow> 'v option"
    and put :: "'m \<Rightarrow> 'k \<Rightarrow> 'v \<Rightarrow> 'm"
    and del :: "'m \<Rightarrow> 'k \<Rightarrow> 'm"
    and keys :: "'m \<Rightarrow> 'k list"
    and ok :: "'m \<Rightarrow> bool"
  assumes get_put: "get (put m k v) k' = (if k' = k then Some v else get m k')"
    and get_del: "get (del m k) k' = (if k' = k then None else get m k')"
    and keys_put: "keys (put m k v) = (if k \<in> set (keys m) then keys m else keys m @ [k])"
    and keys_del: "keys (del m k) = filter (\<lambda>a. a \<noteq> k) (keys m)"
    and keys_get: "k \<in> set (keys m) \<longleftrightarrow> get m k \<noteq> None"
    and ok_put: "ok m \<Longrightarrow> ok (put m k v)"
    and ok_del: "ok m \<Longrightarrow> ok (del m k)"
    and ok_keys: "ok m \<Longrightarrow> distinct (keys m)"
begin

text \<open>Deleting a key and storing it again makes it the most recent one.\<close>

lemma refresh_get: "get m k = Some v \<Longrightarrow> get (put (del m k) k v) k' = get m k'"
  by (simp add: get_put get_del)

lemma refresh_keys: "keys (put (del m k) k v) = filter (\<lambda>a. a \<noteq> k) (keys m) @ [k]"
  by (simp add: keys_put keys_del)

lemma refresh_length:
  assumes "ok m" "get m k \<noteq> None"
  shows "length (keys (put (del m k) k v)) = length (keys m)"
proof -
  have "Suc (length (filter (\<lambda>a. a \<noteq> k) (keys m))) = length (keys m)"
    using assms by (intro length_filter_neq) (simp_all add: ok_keys keys_get)
  then show ?thesis by (simp add: refresh_keys)
qed

text \<open>Deleting the oldest key before storing a new one keeps the size.\<close>

lemma evict_length:
  assumes "ok m" "keys m = a # ks" "k \<notin> set (keys m)"
  shows "keys (put (del m a) k v) = ks @ [k]"
proof -
  have "a \<notin> set ks" "k \<notin> set ks"
    using ok_keys [OF assms(1)] assms(2,3) by auto
  then have "filter (\<lambda>b. b \<noteq> a) ks = ks" by (auto intro: filter_True)
  then show ?thesis using assms(2,3) \<open>k \<notin> set ks\<close> by (simp add: keys_put keys_del)
qed

end

lemma map_keys_get: "k \<in> set (map_keys m) \<longleftrightarrow> map_get m k \<noteq> None"
  using map_has_iff_get [of m k] by (simp add: map_has_keys)

lemma map_wf_keys: "map_wf m \<Longrightarrow> distinct (map_keys m)"
  by (simp add: map_wf_def map_keys_def)

interpretation jm: js_map map_get map_set map_delete map_keys map_wf
  by (unfold_locales; simp add: map_keys_set map_keys_delete map_keys_get map_wf_keys)

section \<open>Stable sorting by a key\<close>

text \<open>\<open>xs.sort((a, b) => key(a) - key(b))\<close>: the sort of ECMAScript is stable, so an element
  moves left over a strictly greater key only.\<close>

fun insert_by :: "('a \<Rightarrow> 'k::linorder) \<Rightarrow> 'a \<Rightarrow> 'a list \<Rightarrow> 'a list" where
  "insert_by f x [] = [x]"
| "insert_by f x (y # ys) = (if f x \<le> f y then x # y # ys else y # insert_by f x ys)"

definition js_sort :: "('a \<Rightarrow> 'k::linorder) \<Rightarrow> 'a list \<Rightarrow> 'a list" where
  "js_sort f xs = foldr (insert_by f) xs []"

lemma set_insert_by [simp]: "set (insert_by f x xs) = insert x (set xs)"
  by (induction xs) auto

lemma length_insert_by [simp]: "length (insert_by f x xs) = Suc (length xs)"
  by (induction xs) auto

lemma set_js_sort [simp]: "set (js_sort f xs) = set xs"
  by (induction xs) (auto simp: js_sort_def)

lemma length_js_sort [simp]: "length (js_sort f xs) = length xs"
  by (induction xs) (auto simp: js_sort_def)

lemma distinct_insert_by [simp]: "distinct (insert_by f x xs) \<longleftrightarrow> x \<notin> set xs \<and> distinct xs"
  by (induction xs) auto

lemma distinct_js_sort [simp]: "distinct (js_sort f xs) = distinct xs"
proof (induction xs)
  case (Cons x xs)
  then show ?case using set_js_sort [of f xs] by (simp add: js_sort_def)
qed (simp add: js_sort_def)

lemma sorted_insert_by: "sorted (map f xs) \<Longrightarrow> sorted (map f (insert_by f x xs))"
  by (induction xs) auto

lemma sorted_js_sort: "sorted (map f (js_sort f xs))"
  by (induction xs) (auto simp: js_sort_def sorted_insert_by)

text \<open>Stability: the elements of one key keep their order.\<close>

lemma filter_insert_by:
  "sorted (map f xs) \<Longrightarrow>
   filter (\<lambda>y. f y = k) (insert_by f x xs) = filter (\<lambda>y. f y = k) (x # xs)"
  by (induction xs) force+

lemma js_sort_stable: "filter (\<lambda>y. f y = k) (js_sort f xs) = filter (\<lambda>y. f y = k) xs"
proof (induction xs)
  case (Cons x xs)
  have "js_sort f (x # xs) = insert_by f x (js_sort f xs)" by (simp add: js_sort_def)
  then show ?case using Cons.IH filter_insert_by [where f = f and k = k and x = x, OF sorted_js_sort] by simp
qed (simp add: js_sort_def)

lemma mset_insert_by: "mset (insert_by f x xs) = add_mset x (mset xs)"
  by (induction xs) auto

lemma mset_js_sort: "mset (js_sort f xs) = mset xs"
  by (induction xs) (simp_all add: js_sort_def mset_insert_by)

section \<open>JSON values\<close>

datatype json =
    JNull
  | JBool bool
  | JNum int
  | JStr string
  | JArr "json list"
  | JObj "(string \<times> json) list"

text \<open>Property access on a parsed value: \<open>None\<close> is \<open>undefined\<close>.  Reading a property of
  \<open>null\<close> throws in the source; the components test for it where it can occur.\<close>

fun jget :: "json \<Rightarrow> string \<Rightarrow> json option" where
  "jget (JObj fs) k = map_get fs k"
| "jget _ k = None"

fun jtruthy :: "json \<Rightarrow> bool" where
  "jtruthy JNull = False"
| "jtruthy (JBool b) = b"
| "jtruthy (JNum n) = (n \<noteq> 0)"
| "jtruthy (JStr s) = (s \<noteq> [])"
| "jtruthy (JArr _) = True"
| "jtruthy (JObj _) = True"

fun opt_truthy :: "json option \<Rightarrow> bool" where
  "opt_truthy None = False"
| "opt_truthy (Some v) = jtruthy v"

text \<open>\<open>a ?? b\<close>: the right operand replaces \<open>null\<close> and \<open>undefined\<close> only.\<close>

fun nullish :: "json option \<Rightarrow> bool" where
  "nullish None = True"
| "nullish (Some JNull) = True"
| "nullish (Some _) = False"

definition coalesce :: "json option \<Rightarrow> json option \<Rightarrow> json option" where
  "coalesce a b = (if nullish a then b else a)"

text \<open>\<open>a || b\<close> on parsed values.\<close>

definition jor :: "json option \<Rightarrow> json option \<Rightarrow> json option" where
  "jor a b = (if opt_truthy a then a else b)"

section \<open>Lemmas on strings\<close>

lemma startsWith_iff: "startsWith s p \<longleftrightarrow> (\<exists>r. s = p @ r)"
  by (induction s p rule: startsWith.induct) auto

lemma startsWith_append [simp]: "startsWith (p @ r) p"
  by (auto simp: startsWith_iff)

lemma endsWith_iff: "endsWith s p \<longleftrightarrow> (\<exists>r. s = r @ p)"
  by (simp add: endsWith_def startsWith_iff) (metis rev_append rev_rev_ident)

lemma str_includes_iff: "str_includes s p \<longleftrightarrow> (\<exists>a b. s = a @ p @ b)"
proof (induction s)
  case (Cons c s)
  note IH = Cons.IH
  show ?case
  proof
    assume "str_includes (c # s) p"
    then consider "startsWith (c # s) p" | "str_includes s p" by auto
    then show "\<exists>a b. c # s = a @ p @ b"
      using Cons.IH by cases (metis append_Nil startsWith_iff, metis append_Cons)
  next
    assume "\<exists>a b. c # s = a @ p @ b"
    then obtain a b where ab: "c # s = a @ p @ b" by blast
    show "str_includes (c # s) p"
    proof (cases a)
      case Nil
      with ab have "startsWith (c # s) p" by (metis append_Nil startsWith_append)
      then show ?thesis by simp
    next
      case (Cons d ds)
      with ab have "\<exists>a b. s = a @ p @ b" by auto
      with IH show ?thesis by simp
    qed
  qed
qed auto

lemma lower_mark: "lower_char c = d \<Longrightarrow> \<not> (97 \<le> (of_char d :: nat)) \<Longrightarrow> c = d"
  by (auto simp: lower_char_def Let_def split: if_splits)

lemma split_on_nonempty [simp]: "split_on d s \<noteq> []"
  by (induction s) (auto split: list.splits)

lemma split_on_no_sep: "d \<notin> set s \<Longrightarrow> split_on d s = [s]"
  by (induction s) auto

lemma split_on_append_sep: "d \<notin> set w \<Longrightarrow> split_on d (w @ d # s) = w # split_on d s"
  by (induction w) auto

lemma split_on_parts: "w \<in> set (split_on d s) \<Longrightarrow> d \<notin> set w"
  by (induction s arbitrary: w) (auto split: list.splits if_splits)

lemma split_where_nonempty [simp]: "split_where p s \<noteq> []"
  by (induction s) (auto split: list.splits)

lemma split_where_no_sep: "list_all (\<lambda>c. \<not> p c) s \<Longrightarrow> split_where p s = [s]"
  by (induction s) auto

lemma split_where_append_sep: "list_all (\<lambda>c. \<not> p c) w \<Longrightarrow> p d \<Longrightarrow> split_where p (w @ d # s) = w # split_where p s"
  by (induction w) auto

lemma set_join_with: "set (join_with d ws) \<subseteq> set d \<union> \<Union> (set ` set ws)"
  by (induction d ws rule: join_with.induct) auto

text \<open>Lines that are joined are split again.\<close>

lemma split_on_join: "ws \<noteq> [] \<Longrightarrow> list_all (\<lambda>w. d \<notin> set w) ws \<Longrightarrow> split_on d (join_with [d] ws) = ws"
  by (induction "[d]" ws rule: join_with.induct) (simp_all add: split_on_no_sep split_on_append_sep)

lemma dropWhile_id: "s = [] \<or> \<not> p (hd s) \<Longrightarrow> dropWhile p s = s"
  by (cases s) auto

lemma dropWhile_shorter: "s \<noteq> [] \<Longrightarrow> p (hd s) \<Longrightarrow> length (dropWhile p s) < length s"
  by (cases s) (simp_all add: less_Suc_eq_le length_dropWhile_le)

lemma trim_id: "s = [] \<or> (\<not> is_ws (hd s) \<and> \<not> is_ws (last s)) \<Longrightarrow> trim s = s"
  by (auto simp: trim_def dropWhile_id hd_rev)

lemma trim_ends:
  assumes "trim s = s" "s \<noteq> []" shows "\<not> is_ws (hd s) \<and> \<not> is_ws (last s)"
proof -
  have len: "length (dropWhile is_ws (rev (dropWhile is_ws s))) = length s"
    using arg_cong [OF assms(1), of length] by (simp add: trim_def)
  have h: "\<not> is_ws (hd s)"
    using len dropWhile_shorter [of s is_ws] length_dropWhile_le [of is_ws "rev (dropWhile is_ws s)"] assms(2) by fastforce
  then have "dropWhile is_ws s = s" by (simp add: dropWhile_id)
  then have "\<not> is_ws (hd (rev s))" using len dropWhile_shorter [of "rev s" is_ws] assms(2) by auto
  with h assms(2) show ?thesis by (simp add: hd_rev)
qed

lemma trim_idem [simp]: "trim (trim s) = trim s"
proof -
  have dd: "dropWhile is_ws (dropWhile is_ws t) = dropWhile is_ws t" for t
    by (induction t) auto
  have hd_ok: "dropWhile is_ws u = u \<Longrightarrow> dropWhile is_ws (rev (dropWhile is_ws (rev u))) =
      rev (dropWhile is_ws (rev u))" for u
  proof -
    assume u: "dropWhile is_ws u = u"
    define v where "v = rev (dropWhile is_ws (rev u))"
    have "\<exists>w. u = v @ w"
      unfolding v_def by (metis rev_append rev_rev_ident takeWhile_dropWhile_id)
    then obtain w where w: "u = v @ w" by blast
    show "dropWhile is_ws (rev (dropWhile is_ws (rev u))) = rev (dropWhile is_ws (rev u))"
    proof (cases v)
      case Nil
      then show ?thesis unfolding v_def [symmetric] by simp
    next
      case (Cons c cs)
      with w u have "\<not> is_ws c" by (metis append_Cons dropWhile.simps(2) hd_dropWhile list.distinct(1) list.sel(1))
      with Cons show ?thesis unfolding v_def [symmetric] by simp
    qed
  qed
  show ?thesis
    unfolding trim_def using hd_ok [OF dd [of s]] dd by simp
qed

section \<open>Machines\<close>

text \<open>The states a labelled step relation reaches, and runs with the labels they produce.\<close>

inductive reach :: "('s \<Rightarrow> bool) \<Rightarrow> ('s \<Rightarrow> 'l \<Rightarrow> 's \<Rightarrow> bool) \<Rightarrow> 's \<Rightarrow> bool" for start step where
  reach_start: "start s \<Longrightarrow> reach start step s"
| reach_step: "reach start step s \<Longrightarrow> step s l t \<Longrightarrow> reach start step t"

inductive run :: "('s \<Rightarrow> 'l \<Rightarrow> 's \<Rightarrow> bool) \<Rightarrow> 's \<Rightarrow> 'l list \<Rightarrow> 's \<Rightarrow> bool" for step where
  run_done: "run step s [] s"
| run_step: "step s l t \<Longrightarrow> run step t ls u \<Longrightarrow> run step s (l # ls) u"

inductive_simps run_simps [simp]: "run step s [] t" "run step s (l # ls) t"

locale machine =
  fixes start :: "'s \<Rightarrow> bool" and step :: "'s \<Rightarrow> 'l \<Rightarrow> 's \<Rightarrow> bool" and inv :: "'s \<Rightarrow> bool"
  assumes start_inv: "start s \<Longrightarrow> inv s"
    and step_inv: "inv s \<Longrightarrow> step s l t \<Longrightarrow> inv t"
begin

lemma reach_inv: "reach start step s \<Longrightarrow> inv s"
  by (induction rule: reach.induct) (auto intro: start_inv step_inv)

lemma run_inv: "run step s ls t \<Longrightarrow> inv s \<Longrightarrow> inv t"
  by (induction rule: run.induct) (auto intro: step_inv)

text \<open>A second predicate that a step keeps below the invariant is kept by every run, and so is a
  property of the labels it implies.\<close>

lemma run_keeps:
  assumes "\<forall>s l t. inv s \<longrightarrow> P s \<longrightarrow> step s l t \<longrightarrow> P t \<and> Q l"
  shows "run step s ls t \<Longrightarrow> inv s \<Longrightarrow> P s \<Longrightarrow> P t \<and> list_all Q ls"
proof (induction rule: run.induct)
  case (run_step s l t ls u)
  then show ?case using assms step_inv by auto
qed simp

end

text \<open>A machine that implements a functional specification: every step changes the abstract state as the
  specification of its label says.  Then so does every run.\<close>

locale simulation = machine start step inv
  for start :: "'s \<Rightarrow> bool" and step :: "'s \<Rightarrow> 'l \<Rightarrow> 's \<Rightarrow> bool" and inv :: "'s \<Rightarrow> bool" +
  fixes abs :: "'s \<Rightarrow> 'a" and spec :: "'l \<Rightarrow> 'a \<Rightarrow> 'a"
  assumes step_sim: "inv s \<Longrightarrow> step s l t \<Longrightarrow> abs t = spec l (abs s)"
begin

lemma run_sim: "run step s ls t \<Longrightarrow> inv s \<Longrightarrow> abs t = fold spec ls (abs s)"
  by (induction rule: run.induct) (auto simp: step_sim intro: step_inv)

end

end
