(* ===== verification/BruteForce.thy ===== *)
theory BruteForce
  imports Prelude
begin

text \<open>
  Account lockout, \<open>src/frontend/src/lib/brute-force.ts\<close>.

  The state is the Better Auth table \<open>"user"\<close>, a list of rows.  An SQL \<open>UPDATE ... WHERE\<close> maps
  over the rows that match, \<open>SELECT\<close> and \<open>RETURNING\<close> filter them.  The comparison
  \<open>LOWER(email) = LOWER($1)\<close> depends on the collation of the database, so \<open>lower\<close> is an argument
  of every operation.  Two clocks are involved: \<open>NOW()\<close> of the database, in microseconds
  (\<open>TIMESTAMPTZ\<close>), and \<open>new Date()\<close> of the process, in milliseconds.  Every query may fail; the
  record \<open>db_env\<close> says for each query of a call whether it succeeds and what \<open>NOW()\<close> was, and what
  the process's clock showed.  \<open>failedLoginAttempts\<close> is an \<open>INTEGER\<close>, so an increment past
  \<open>2\<^sup>3\<^sup>1 - 1\<close> fails the statement.
\<close>

record user_row =
  ur_id :: string
  ur_email :: string
  ur_name :: string
  ur_role :: string
  failedLoginAttempts :: int
  lastFailedLoginAt :: "int option"
  lockedUntil :: "int option"

type_synonym user_table = "user_row list"

record db_env =
  q_ok :: "nat \<Rightarrow> bool"
  q_now :: "nat \<Rightarrow> int"
  js_now :: int

record LockoutTier =
  threshold :: int
  durationSeconds :: int

definition LOCKOUT_TIERS :: "LockoutTier list" where
  "LOCKOUT_TIERS =
     [\<lparr>threshold = 5, durationSeconds = 900\<rparr>,
      \<lparr>threshold = 10, durationSeconds = 3600\<rparr>,
      \<lparr>threshold = 15, durationSeconds = 86400\<rparr>]"

record CheckLockoutResult =
  clr_locked :: bool
  clr_lockedUntil :: "int option"
  clr_remainingSeconds :: "int option"

record RecordFailedResult =
  failedAttempts :: int
  isNowLocked :: bool
  lockDuration :: "int option"

definition not_locked :: CheckLockoutResult where
  "not_locked = \<lparr>clr_locked = False, clr_lockedUntil = None, clr_remainingSeconds = None\<rparr>"

definition zero_result :: RecordFailedResult where
  "zero_result = \<lparr>failedAttempts = 0, isNowLocked = False, lockDuration = None\<rparr>"

text \<open>\<open>Date.prototype.getTime\<close> of a database timestamp: milliseconds.\<close>

definition getTime :: "int \<Rightarrow> int" where
  "getTime us = us div 1000"

text \<open>\<open>Math.ceil(a / b)\<close> for integers.\<close>

definition ceil_div :: "int \<Rightarrow> int \<Rightarrow> int" where
  "ceil_div a b = - ((- a) div b)"

section \<open>Queries\<close>

definition same_email :: "(string \<Rightarrow> string) \<Rightarrow> string \<Rightarrow> user_row \<Rightarrow> bool" where
  "same_email lower e r \<longleftrightarrow> lower (ur_email r) = lower e"

definition select_email :: "(string \<Rightarrow> string) \<Rightarrow> user_table \<Rightarrow> string \<Rightarrow> user_row list" where
  "select_email lower tbl e = filter (same_email lower e) tbl"

definition update_email ::
    "(string \<Rightarrow> string) \<Rightarrow> (user_row \<Rightarrow> user_row) \<Rightarrow> user_table \<Rightarrow> string \<Rightarrow> user_table" where
  "update_email lower f tbl e = map (\<lambda>r. if same_email lower e r then f r else r) tbl"

definition max_integer :: int where
  "max_integer = 2147483647"

section \<open>The operations\<close>

definition checkLockout ::
    "(string \<Rightarrow> string) \<Rightarrow> user_table \<Rightarrow> db_env \<Rightarrow> string \<Rightarrow> CheckLockoutResult" where
  "checkLockout lower tbl env email =
     (if \<not> q_ok env 0 then not_locked
      else case select_email lower tbl email of
        [] \<Rightarrow> not_locked
      | r # _ \<Rightarrow>
          (case lockedUntil r of
             None \<Rightarrow> not_locked
           | Some until \<Rightarrow>
               (if getTime until \<le> js_now env then not_locked
                else \<lparr>clr_locked = True, clr_lockedUntil = Some until,
                      clr_remainingSeconds = Some (ceil_div (getTime until - js_now env) 1000)\<rparr>)))"

text \<open>The first \<open>UPDATE\<close> of \<open>recordFailedAttempt\<close>, on one row.\<close>

definition bump_row :: "int \<Rightarrow> user_row \<Rightarrow> user_row" where
  "bump_row now r =
     r\<lparr>failedLoginAttempts := failedLoginAttempts r + 1,
       lastFailedLoginAt := Some now,
       lockedUntil := (case lockedUntil r of
                         Some until \<Rightarrow> (if until > now then Some until else None)
                       | None \<Rightarrow> None)\<rparr>"

definition lock_row :: "int \<Rightarrow> int \<Rightarrow> user_row \<Rightarrow> user_row" where
  "lock_row now secs r = r\<lparr>lockedUntil := Some (now + 1000000 * secs)\<rparr>"

definition find_tier :: "int \<Rightarrow> LockoutTier option" where
  "find_tier attempts = find (\<lambda>t. attempts \<ge> threshold t) (rev LOCKOUT_TIERS)"

definition recordFailedAttempt ::
    "(string \<Rightarrow> string) \<Rightarrow> user_table \<Rightarrow> db_env \<Rightarrow> string \<Rightarrow> user_table \<times> RecordFailedResult" where
  "recordFailedAttempt lower tbl env email =
     (if \<not> q_ok env 0 \<or>
         list_ex (\<lambda>r. failedLoginAttempts r \<ge> max_integer) (select_email lower tbl email)
      then (tbl, zero_result)
      else
        let tbl1 = update_email lower (bump_row (q_now env 0)) tbl email
        in case select_email lower tbl1 email of
          [] \<Rightarrow> (tbl1, zero_result)
        | r # _ \<Rightarrow>
            let attempts = failedLoginAttempts r;
                unlocked = \<lparr>failedAttempts = attempts, isNowLocked = False, lockDuration = None\<rparr>
            in case find_tier attempts of
              None \<Rightarrow> (tbl1, unlocked)
            | Some tier \<Rightarrow>
                (if \<not> q_ok env 1 then (tbl1, zero_result)
                 else if (case lockedUntil r of None \<Rightarrow> True
                          | Some until \<Rightarrow> getTime until \<le> js_now env)
                 then (if \<not> q_ok env 2 then (tbl1, zero_result)
                       else (update_email lower (lock_row (q_now env 2) (durationSeconds tier)) tbl1 email,
                             \<lparr>failedAttempts = attempts, isNowLocked = True,
                               lockDuration = Some (durationSeconds tier)\<rparr>))
                 else (tbl1, unlocked)))"

definition reset_row :: "user_row \<Rightarrow> user_row" where
  "reset_row r = r\<lparr>failedLoginAttempts := 0, lockedUntil := None, lastFailedLoginAt := None\<rparr>"

definition resetFailedAttempts ::
    "(string \<Rightarrow> string) \<Rightarrow> user_table \<Rightarrow> db_env \<Rightarrow> string \<Rightarrow> user_table" where
  "resetFailedAttempts lower tbl env email =
     (if q_ok env 0 then update_email lower reset_row tbl email else tbl)"

definition getUserName ::
    "(string \<Rightarrow> string) \<Rightarrow> user_table \<Rightarrow> db_env \<Rightarrow> string \<Rightarrow> string" where
  "getUserName lower tbl env email =
     (if \<not> q_ok env 0 then email
      else case select_email lower tbl email of
        [] \<Rightarrow> email
      | r # _ \<Rightarrow> or_str (ur_name r) email)"

section \<open>Lemmas on the table\<close>

lemma row_email_frame [simp]:
  "ur_email (bump_row n r) = ur_email r" "ur_email (lock_row n d r) = ur_email r"
  "ur_email (reset_row r) = ur_email r"
  by (simp_all add: bump_row_def lock_row_def reset_row_def)

lemma row_lockedUntil [simp]:
  "lockedUntil (lock_row n d r) = Some (n + 1000000 * d)" "lockedUntil (reset_row r) = None"
  "failedLoginAttempts (bump_row n r) = failedLoginAttempts r + 1"
  "failedLoginAttempts (lock_row n d r) = failedLoginAttempts r"
  "failedLoginAttempts (reset_row r) = 0"
  by (simp_all add: bump_row_def lock_row_def reset_row_def)

lemma select_update_same:
  assumes "\<And>r. ur_email (f r) = ur_email r"
  shows "select_email lower (update_email lower f tbl e) e = map f (select_email lower tbl e)"
  by (induction tbl) (auto simp: select_email_def update_email_def same_email_def assms)

lemma select_update_other:
  assumes "\<And>r. ur_email (f r) = ur_email r" and "lower e \<noteq> lower e'"
  shows "select_email lower (update_email lower f tbl e) e' = select_email lower tbl e'"
  using assms(2) by (induction tbl) (auto simp: select_email_def update_email_def same_email_def assms(1))

lemma length_update_email [simp]: "length (update_email lower f tbl e) = length tbl"
  by (simp add: update_email_def)

lemma emails_update_email:
  assumes "\<And>r. ur_email (f r) = ur_email r"
  shows "map ur_email (update_email lower f tbl e) = map ur_email tbl"
  by (simp add: update_email_def assms)

lemma select_email_cong: "lower e = lower e' \<Longrightarrow> select_email lower tbl e = select_email lower tbl e'"
  by (simp add: select_email_def same_email_def [abs_def])

lemma checkLockout_cong:
  assumes "lower e = lower e'"
  shows "checkLockout lower tbl env e = checkLockout lower tbl env e'"
  by (simp add: checkLockout_def select_email_cong [of lower e e', OF assms])

lemma update_email_no_match: "select_email lower tbl e = [] \<Longrightarrow> update_email lower f tbl e = tbl"
  by (induction tbl) (auto simp: select_email_def update_email_def split: if_splits)

text \<open>The tiers in closed form.\<close>

lemma find_tier_eq:
  "find_tier n =
     (if n \<ge> 15 then Some \<lparr>threshold = 15, durationSeconds = 86400\<rparr>
      else if n \<ge> 10 then Some \<lparr>threshold = 10, durationSeconds = 3600\<rparr>
      else if n \<ge> 5 then Some \<lparr>threshold = 5, durationSeconds = 900\<rparr> else None)"
  by (simp add: find_tier_def LOCKOUT_TIERS_def)

lemma ceil_div_bounds:
  assumes "0 < b"
  shows "a \<le> b * ceil_div a b" "b * ceil_div a b < a + b"
proof -
  define q r where "q = (- a) div b" and "r = (- a) mod b"
  have "b * q + r = - a" "0 \<le> r" "r < b"
    using assms by (simp_all add: q_def r_def)
  then have "a \<le> b * - q" "b * - q < a + b" by simp_all
  then show "a \<le> b * ceil_div a b" "b * ceil_div a b < a + b"
    by (simp_all add: ceil_div_def q_def)
qed

section \<open>What a call does to the table\<close>

text \<open>The three possible effects of \<open>recordFailedAttempt\<close> on the table: none, the increment
  alone, or the increment and a lock.\<close>

lemma recordFailedAttempt_cases:
  obtains (none) "fst (recordFailedAttempt lower tbl env e) = tbl"
      "\<not> isNowLocked (snd (recordFailedAttempt lower tbl env e))"
  | (bump) "fst (recordFailedAttempt lower tbl env e) = update_email lower (bump_row (q_now env 0)) tbl e"
      "\<not> isNowLocked (snd (recordFailedAttempt lower tbl env e))"
  | (lock) r rs tier where "select_email lower tbl e = r # rs"
      "find_tier (failedLoginAttempts r + 1) = Some tier"
      "\<forall>until. lockedUntil r = Some until \<longrightarrow> until \<le> q_now env 0 \<or> getTime until \<le> js_now env"
      "fst (recordFailedAttempt lower tbl env e) =
         update_email lower (lock_row (q_now env 2) (durationSeconds tier))
           (update_email lower (bump_row (q_now env 0)) tbl e) e"
      "snd (recordFailedAttempt lower tbl env e) =
         \<lparr>failedAttempts = failedLoginAttempts r + 1, isNowLocked = True,
           lockDuration = Some (durationSeconds tier)\<rparr>"
proof -
  let ?bump = "bump_row (q_now env 0)"
  let ?res = "recordFailedAttempt lower tbl env e"
  have sel: "select_email lower (update_email lower ?bump tbl e) e = map ?bump (select_email lower tbl e)"
    by (rule select_update_same) simp
  show thesis
  proof (cases "\<not> q_ok env 0 \<or>
      list_ex (\<lambda>r. failedLoginAttempts r \<ge> max_integer) (select_email lower tbl e)")
    case True
    then show ?thesis by (intro none) (simp_all add: recordFailedAttempt_def zero_result_def)
  next
    case False
    then have res: "?res = (let tbl1 = update_email lower ?bump tbl e
        in case map ?bump (select_email lower tbl e) of
          [] \<Rightarrow> (tbl1, zero_result)
        | r # _ \<Rightarrow>
            let attempts = failedLoginAttempts r;
                unlocked = \<lparr>failedAttempts = attempts, isNowLocked = False, lockDuration = None\<rparr>
            in case find_tier attempts of
              None \<Rightarrow> (tbl1, unlocked)
            | Some tier \<Rightarrow>
                (if \<not> q_ok env 1 then (tbl1, zero_result)
                 else if (case lockedUntil r of None \<Rightarrow> True
                          | Some until \<Rightarrow> getTime until \<le> js_now env)
                 then (if \<not> q_ok env 2 then (tbl1, zero_result)
                       else (update_email lower (lock_row (q_now env 2) (durationSeconds tier)) tbl1 e,
                             \<lparr>failedAttempts = attempts, isNowLocked = True,
                               lockDuration = Some (durationSeconds tier)\<rparr>))
                 else (tbl1, unlocked)))"
      by (auto simp: recordFailedAttempt_def sel)
    show ?thesis
    proof (cases "isNowLocked (snd ?res)")
      case False
      then show ?thesis using res
        by (intro bump) (auto simp: Let_def split: list.splits option.splits if_splits)
    next
      case True
      then obtain r rs tier where
        "select_email lower tbl e = r # rs" "find_tier (failedLoginAttempts r + 1) = Some tier"
        "case lockedUntil (?bump r) of None \<Rightarrow> True | Some until \<Rightarrow> getTime until \<le> js_now env"
        "?res = (update_email lower (lock_row (q_now env 2) (durationSeconds tier))
                   (update_email lower ?bump tbl e) e,
                 \<lparr>failedAttempts = failedLoginAttempts r + 1, isNowLocked = True,
                   lockDuration = Some (durationSeconds tier)\<rparr>)"
        using res by (auto simp: Let_def zero_result_def Cons_eq_map_conv
            split: list.splits option.splits if_splits)
      then show ?thesis
        by (intro lock [of r rs tier]) (auto simp: bump_row_def split: option.splits if_splits)
    qed
  qed
qed

section \<open>The lockout contract\<close>

text \<open>Whether sign-in for \<open>e\<close> is refused at the process time \<open>t\<close>.\<close>

definition is_locked :: "(string \<Rightarrow> string) \<Rightarrow> user_table \<Rightarrow> string \<Rightarrow> int \<Rightarrow> bool" where
  "is_locked lower tbl e t =
     (case select_email lower tbl e of
        [] \<Rightarrow> False
      | r # _ \<Rightarrow> (case lockedUntil r of None \<Rightarrow> False | Some until \<Rightarrow> getTime until > t))"

definition failed :: "(string \<Rightarrow> string) \<Rightarrow> user_table \<Rightarrow> db_env \<Rightarrow> string \<Rightarrow> user_table" where
  "failed lower tbl env e = fst (recordFailedAttempt lower tbl env e)"

text \<open>Both clocks of a call are at most the process time \<open>t\<close>.\<close>

definition clocks_before :: "db_env \<Rightarrow> int \<Rightarrow> bool" where
  "clocks_before env t \<longleftrightarrow> q_now env 0 \<le> 1000 * t \<and> js_now env \<le> t"

lemma checkLockout_iff:
  "clr_locked (checkLockout lower tbl env e) \<longleftrightarrow> q_ok env 0 \<and> is_locked lower tbl e (js_now env)"
  by (auto simp: checkLockout_def is_locked_def not_locked_def split: list.splits option.splits)

lemma is_locked_select:
  "select_email lower tbl e = select_email lower tbl' e' \<Longrightarrow>
   is_locked lower tbl e t = is_locked lower tbl' e' t"
  by (simp add: is_locked_def)

lemma select_failed_other:
  assumes "lower e \<noteq> lower e'"
  shows "select_email lower (failed lower tbl env e) e' = select_email lower tbl e'"
  using assms by (cases lower tbl env e rule: recordFailedAttempt_cases)
    (simp_all add: failed_def select_update_other)

lemma getTime_less: "getTime u > t \<Longrightarrow> n \<le> 1000 * t \<Longrightarrow> n < u"
  by (simp add: getTime_def)

lemma is_locked_bump:
  assumes "is_locked lower tbl e t" and "n \<le> 1000 * t"
  shows "is_locked lower (update_email lower (bump_row n) tbl e) e t"
  using assms getTime_less [OF _ assms(2)]
  by (auto simp: is_locked_def select_update_same bump_row_def split: list.splits option.splits)

lemma is_locked_failed:
  assumes locked: "is_locked lower tbl e t" and clocks: "clocks_before env t"
  shows "is_locked lower (failed lower tbl env e') e t"
proof (cases "lower e' = lower e")
  case False
  then show ?thesis
    using locked is_locked_select [OF select_failed_other [of lower e' e tbl env, OF False]] by simp
next
  case True
  have eq: "is_locked lower (failed lower tbl env e') e t = is_locked lower (failed lower tbl env e') e' t"
    and locked': "is_locked lower tbl e' t"
    using True locked by (simp_all add: is_locked_def select_email_cong [of lower e' e, OF True])
  show ?thesis
  proof (cases lower tbl env e' rule: recordFailedAttempt_cases)
    case none
    then show ?thesis using locked by (simp add: failed_def)
  next
    case bump
    then show ?thesis
      using is_locked_bump [OF locked'] clocks eq by (simp add: failed_def clocks_before_def)
  next
    case (lock r rs tier)
    from locked' lock(1) obtain until where until: "lockedUntil r = Some until" "getTime until > t"
      by (auto simp: is_locked_def split: option.splits)
    then have False
      using lock(3) clocks getTime_less [OF until(2), of "q_now env 0"]
      by (auto simp: clocks_before_def)
    then show ?thesis ..
  qed
qed

text \<open>What the sign-in route relies on: recording failures never ends a lock that is running,
  for the same account or another.\<close>

locale lockout_store =
  fixes locked :: "'s \<Rightarrow> 'e \<Rightarrow> int \<Rightarrow> bool"
    and fail :: "'s \<Rightarrow> 'c \<Rightarrow> 'e \<Rightarrow> 's"
    and before :: "'c \<Rightarrow> int \<Rightarrow> bool"
    and same :: "'e \<Rightarrow> 'e \<Rightarrow> bool"
  assumes fail_keeps: "locked s e t \<Longrightarrow> before c t \<Longrightarrow> locked (fail s c e') e t"
    and fail_other: "\<not> same e' e \<Longrightarrow> locked (fail s c e') e t = locked s e t"
begin

lemma fails_keep:
  "locked s e t \<Longrightarrow> \<forall>(c, e')\<in>set xs. before c t \<Longrightarrow>
   locked (fold (\<lambda>(c, e') s. fail s c e') xs s) e t"
  by (induction xs arbitrary: s) (auto intro: fail_keeps)

lemma fails_other:
  "\<forall>(c, e')\<in>set xs. \<not> same e' e \<Longrightarrow>
   locked (fold (\<lambda>(c, e') s. fail s c e') xs s) e t = locked s e t"
  by (induction xs arbitrary: s) (auto simp: fail_other)

end

interpretation bf: lockout_store "is_locked lower" "failed lower" clocks_before
    "\<lambda>e e'. lower e = lower e'" for lower
proof unfold_locales
  fix s e t c e'
  show "is_locked lower s e t \<Longrightarrow> clocks_before c t \<Longrightarrow> is_locked lower (failed lower s c e') e t"
    by (rule is_locked_failed)
  show "lower e' \<noteq> lower e \<Longrightarrow> is_locked lower (failed lower s c e') e t = is_locked lower s e t"
    by (rule is_locked_select) (rule select_failed_other)
qed

text \<open>When \<open>recordFailedAttempt\<close> reports that it locked the account for \<open>d\<close> seconds, a
  \<open>checkLockout\<close> before those seconds are over refuses and announces between 1 and \<open>d\<close> seconds.\<close>

lemma record_then_check_locked:
  assumes rec: "recordFailedAttempt lower tbl env e = (tbl', res)" "isNowLocked res"
      "lockDuration res = Some d"
    and check: "q_ok env' 0" "getTime (q_now env 2) \<le> js_now env'"
      "js_now env' < getTime (q_now env 2) + 1000 * d"
  shows "\<exists>until rem. checkLockout lower tbl' env' e =
      \<lparr>clr_locked = True, clr_lockedUntil = Some until, clr_remainingSeconds = Some rem\<rparr>
      \<and> 1 \<le> rem \<and> rem \<le> d"
proof (cases lower tbl env e rule: recordFailedAttempt_cases)
  case (lock r rs tier)
  define until where "until = q_now env 2 + 1000000 * d"
  define rem where "rem = ceil_div (getTime until - js_now env') 1000"
  have d: "durationSeconds tier = d" using lock rec by simp
  have tbl': "tbl' = update_email lower (lock_row (q_now env 2) d)
      (update_email lower (bump_row (q_now env 0)) tbl e) e"
    using lock rec d by simp
  have sel: "select_email lower tbl' e = lock_row (q_now env 2) d (bump_row (q_now env 0) r)
      # map (lock_row (q_now env 2) d) (map (bump_row (q_now env 0)) rs)"
    by (simp add: tbl' select_update_same lock(1))
  have time: "getTime until = getTime (q_now env 2) + 1000 * d"
    by (simp add: until_def getTime_def)
  have "checkLockout lower tbl' env' e =
      \<lparr>clr_locked = True, clr_lockedUntil = Some until, clr_remainingSeconds = Some rem\<rparr>"
    using check by (simp add: checkLockout_def sel until_def [symmetric] rem_def time)
  moreover have "1 \<le> rem" "rem \<le> d"
    using check time ceil_div_bounds [of 1000 "getTime until - js_now env'"] by (auto simp: rem_def)
  ultimately show ?thesis by blast
qed (use rec in auto)

text \<open>A failed attempt on an account that is not locked, with a working database, adds one and
  locks as soon as a tier is reached.\<close>

lemma record_unlocked:
  assumes ok: "\<forall>k. q_ok env k" and sel: "select_email lower tbl e = r # rs"
    and small: "\<forall>x\<in>set (r # rs). failedLoginAttempts x < max_integer"
    and free: "\<forall>until. lockedUntil r = Some until \<longrightarrow> until \<le> q_now env 0 \<or> getTime until \<le> js_now env"
  shows "recordFailedAttempt lower tbl env e =
    (case find_tier (failedLoginAttempts r + 1) of
       None \<Rightarrow> (update_email lower (bump_row (q_now env 0)) tbl e,
          \<lparr>failedAttempts = failedLoginAttempts r + 1, isNowLocked = False, lockDuration = None\<rparr>)
     | Some tier \<Rightarrow> (update_email lower (lock_row (q_now env 2) (durationSeconds tier))
           (update_email lower (bump_row (q_now env 0)) tbl e) e,
          \<lparr>failedAttempts = failedLoginAttempts r + 1, isNowLocked = True,
            lockDuration = Some (durationSeconds tier)\<rparr>))"
proof -
  have noover: "\<not> list_ex (\<lambda>r. failedLoginAttempts r \<ge> max_integer) (select_email lower tbl e)"
    using small by (auto simp: sel list_ex_iff)
  have "case lockedUntil (bump_row (q_now env 0) r) of None \<Rightarrow> True
        | Some until \<Rightarrow> getTime until \<le> js_now env"
    using free by (auto simp: bump_row_def split: option.splits if_splits)
  then show ?thesis
    using ok noover
    by (simp add: recordFailedAttempt_def select_update_same sel Let_def split: option.splits)
qed

lemma find_tier_duration: "find_tier n = Some t \<Longrightarrow> 900 \<le> durationSeconds t \<and> durationSeconds t \<le> 86400"
  by (auto simp: find_tier_eq split: if_splits)

section \<open>Properties\<close>

text \<open>A concrete table for the witnesses.\<close>

definition demo_row :: user_row where
  "demo_row = \<lparr>ur_id = ''u1'', ur_email = ''a@b.c'', ur_name = ''Ana'', ur_role = ''pro'',
     failedLoginAttempts = 4, lastFailedLoginAt = None, lockedUntil = None\<rparr>"

definition demo_env :: "int \<Rightarrow> db_env" where
  "demo_env ms = \<lparr>q_ok = (\<lambda>_. True), q_now = (\<lambda>_. 1000 * ms), js_now = ms\<rparr>"

lemmas brute_force_defs =
  checkLockout_def recordFailedAttempt_def resetFailedAttempts_def getUserName_def select_email_def
  update_email_def same_email_def bump_row_def lock_row_def reset_row_def find_tier_eq
  not_locked_def zero_result_def getTime_def ceil_div_def max_integer_def demo_row_def demo_env_def
  is_locked_def failed_def clocks_before_def

text \<open>C7: a running lock survives any sequence of failed attempts, on this account or on others,
  recorded while it runs.\<close>

theorem lock_survives_failures:
  assumes "is_locked lower tbl e t" and "\<forall>(env, e')\<in>set xs. clocks_before env t"
  shows "is_locked lower (fold (\<lambda>(env, e') tbl. failed lower tbl env e') xs tbl) e t"
  using assms by (rule bf.fails_keep)

theorem lock_survives_failures_witness:
  "is_locked toLowerCase (fold (\<lambda>(env, e') tbl. failed toLowerCase tbl env e')
     [(demo_env 3, ''A@b.c''), (demo_env 4, ''x@y.z'')]
     [demo_row\<lparr>lockedUntil := Some 900000000\<rparr>]) ''a@b.c'' 4"
  by (rule lock_survives_failures) (simp_all add: brute_force_defs)

text \<open>Recording failures of other accounts never locks or unlocks an account.\<close>

theorem lock_frame:
  assumes "\<forall>(env, e')\<in>set xs. lower e' \<noteq> lower e"
  shows "is_locked lower (fold (\<lambda>(env, e') tbl. failed lower tbl env e') xs tbl) e t
       = is_locked lower tbl e t"
  using assms by (rule bf.fails_other)

theorem lock_frame_witness:
  "is_locked toLowerCase (fold (\<lambda>(env, e') tbl. failed toLowerCase tbl env e')
      [(demo_env 3, ''x@y.z'')] [demo_row]) ''a@b.c'' 9
   = is_locked toLowerCase [demo_row] ''a@b.c'' 9"
  by (rule lock_frame) (simp add: toLowerCase_def lower_char_def)

end
