(* ===== verification/AuthRoute.thy ===== *)
theory AuthRoute
  imports BruteForce
begin

text \<open>
  The wrapped authentication route, \<open>src/frontend/src/app/api/auth/[...all]/route.ts\<close>.

  \<open>originalPost\<close>, the handler of the Better Auth package, is a parameter \<open>betterAuth\<close>: given the
  request and the user table it throws or returns a response, and may change the table.
  The notifications that \<open>maybeNotify\<close> fires without waiting are collected in \<open>pr_mails\<close>, by
  recipient, subject, template and the template's arguments; whether their delivery succeeds does
  not reach the response.  \<open>resetFailedAttempts\<close> is not awaited either: \<open>pr_resets\<close> lists the addresses for which
  it has been started, the table of the result is the one without it, and \<open>run_resets\<close> runs what was started.
\<close>

datatype 'a outcome = Threw string | Returned 'a

record http_request =
  req_pathname :: string
  req_body :: "json option"

record http_response =
  resp_status :: int
  resp_body :: json

definition resp_ok :: "http_response \<Rightarrow> bool" where
  "resp_ok r \<longleftrightarrow> 200 \<le> resp_status r \<and> resp_status r \<le> 299"

datatype mail_template =
    AccountLockedEmail string string int int
  | SuspiciousLoginActivityEmail string string int

record sent_mail =
  mail_to :: string
  mail_subject :: string
  mail_html :: mail_template

type_synonym better_auth = "http_request \<Rightarrow> user_table \<Rightarrow> http_response outcome \<times> user_table"

record route_env =
  e_check :: db_env
  e_record :: db_env
  e_reset :: db_env
  e_name :: db_env
  e_mail_now :: int

record post_result =
  pr_out :: "http_response outcome"
  pr_table :: user_table
  pr_mails :: "sent_mail list"
  pr_resets :: "string list"

section \<open>Notification\<close>

definition maybeNotify ::
    "(string \<Rightarrow> string) \<Rightarrow> user_table \<Rightarrow> route_env \<Rightarrow> string \<Rightarrow> RecordFailedResult \<Rightarrow> sent_mail list" where
  "maybeNotify lower tbl env email res =
     (let name = getUserName lower tbl (e_name env) email
      in case (isNowLocked res, lockDuration res) of
        (True, Some d) \<Rightarrow>
          (if d \<noteq> 0
           then [\<lparr>mail_to = email, mail_subject = ''Akun Anda Dikunci Sementara - TeleBos'',
                  mail_html = AccountLockedEmail name email (e_mail_now env + d * 1000) (failedAttempts res)\<rparr>]
           else if failedAttempts res = 3
           then [\<lparr>mail_to = email, mail_subject = ''Peringatan: Aktivitas Login Mencurigakan - TeleBos'',
                  mail_html = SuspiciousLoginActivityEmail name email (failedAttempts res)\<rparr>]
           else [])
      | _ \<Rightarrow>
          (if failedAttempts res = 3
           then [\<lparr>mail_to = email, mail_subject = ''Peringatan: Aktivitas Login Mencurigakan - TeleBos'',
                  mail_html = SuspiciousLoginActivityEmail name email (failedAttempts res)\<rparr>]
           else []))"

section \<open>The handler\<close>

text \<open>The e-mail address of a sign-in body; \<open>None\<close> when the body is no JSON or has no string there.\<close>

definition signin_email :: "json option \<Rightarrow> string option" where
  "signin_email body =
     (case body of
        None \<Rightarrow> None
      | Some b \<Rightarrow> (case jget b ''email'' of Some (JStr s) \<Rightarrow> Some (trim (toLowerCase s)) | _ \<Rightarrow> None))"

definition uniform_reset_response :: http_response where
  "uniform_reset_response =
     \<lparr>resp_status = 200,
       resp_body = JObj [(''message'',
         JStr ''If an account with this email exists, a password reset link has been sent.'')]\<rparr>"

definition retry_minutes :: "int option \<Rightarrow> int" where
  "retry_minutes rem =
     max 1 (ceil_div (case rem of None \<Rightarrow> 60 | Some s \<Rightarrow> if s = 0 then 60 else s) 60)"

definition locked_response :: "int \<Rightarrow> http_response" where
  "locked_response minutes =
     \<lparr>resp_status = 429,
       resp_body = JObj [
         (''message'', JStr (''Akun dikunci sementara karena terlalu banyak percobaan login. Coba lagi dalam ''
            @ int_str minutes @ '' menit.'')),
         (''code'', JStr ''ACCOUNT_LOCKED''),
         (''retryAfterMinutes'', JNum minutes)]\<rparr>"

definition safePost ::
    "(string \<Rightarrow> string) \<Rightarrow> better_auth \<Rightarrow> route_env \<Rightarrow> user_table \<Rightarrow> http_request \<Rightarrow> post_result" where
  "safePost lower betterAuth env tbl req =
     (if endsWith (req_pathname req) ''/forget-password''
         \<or> endsWith (req_pathname req) ''/request-password-reset''
      then
        (case betterAuth req tbl of
           (Threw err, tbl1) \<Rightarrow> \<lparr>pr_out = Returned uniform_reset_response, pr_table = tbl1, pr_mails = [], pr_resets = []\<rparr>
         | (Returned ignored, tbl1) \<Rightarrow>
             \<lparr>pr_out = Returned uniform_reset_response, pr_table = tbl1, pr_mails = [], pr_resets = []\<rparr>)
      else
        let forward = (let (out, tbl1) = betterAuth req tbl
                       in \<lparr>pr_out = out, pr_table = tbl1, pr_mails = [], pr_resets = []\<rparr>)
        in if \<not> endsWith (req_pathname req) ''/sign-in/email'' then forward
           else case signin_email (req_body req) of
             None \<Rightarrow> forward
           | Some email \<Rightarrow>
               (if email = [] then forward
                else
                  let lockout = checkLockout lower tbl (e_check env) email
                  in if clr_locked lockout
                     then \<lparr>pr_out = Returned (locked_response (retry_minutes (clr_remainingSeconds lockout))),
                           pr_table = tbl, pr_mails = [], pr_resets = []\<rparr>
                     else
                       let (out, tbl1) = betterAuth req tbl;
                           failure = (let (tbl2, res) = recordFailedAttempt lower tbl1 (e_record env) email
                                      in \<lparr>pr_out = out, pr_table = tbl2,
                                          pr_mails = maybeNotify lower tbl2 env email res, pr_resets = []\<rparr>)
                       in case out of
                            Threw err \<Rightarrow> failure
                          | Returned r \<Rightarrow>
                              (if resp_ok r
                               then \<lparr>pr_out = out, pr_table = tbl1, pr_mails = [], pr_resets = [email]\<rparr>
                               else failure)))"

text \<open>The resets that a request has started run, each at a time and with an outcome of its own.\<close>

definition run_resets :: "(string \<Rightarrow> string) \<Rightarrow> db_env \<Rightarrow> string list \<Rightarrow> user_table \<Rightarrow> user_table" where
  "run_resets lower env emails tbl = fold (\<lambda>email tbl1. resetFailedAttempts lower tbl1 env email) emails tbl"

section \<open>Lemmas\<close>

text \<open>A sign-in request for \<open>email\<close>: what the second half of the handler works on.\<close>

definition signin_request :: "http_request \<Rightarrow> string \<Rightarrow> bool" where
  "signin_request req email \<longleftrightarrow>
     endsWith (req_pathname req) ''/sign-in/email'' \<and> signin_email (req_body req) = Some email
     \<and> email \<noteq> []"

lemma not_both_suffixes:
  assumes "endsWith p ''/sign-in/email''"
  shows "\<not> endsWith p ''/forget-password''" "\<not> endsWith p ''/request-password-reset''"
  using assms by (auto simp: endsWith_iff dest!: arg_cong [where f = last])

lemma safePost_signin:
  assumes "signin_request req email"
  shows "safePost lower betterAuth env tbl req =
    (let lockout = checkLockout lower tbl (e_check env) email
     in if clr_locked lockout
        then \<lparr>pr_out = Returned (locked_response (retry_minutes (clr_remainingSeconds lockout))),
              pr_table = tbl, pr_mails = [], pr_resets = []\<rparr>
        else
          let (out, tbl1) = betterAuth req tbl;
              failure = (let (tbl2, res) = recordFailedAttempt lower tbl1 (e_record env) email
                         in \<lparr>pr_out = out, pr_table = tbl2,
                             pr_mails = maybeNotify lower tbl2 env email res, pr_resets = []\<rparr>)
          in case out of
               Threw err \<Rightarrow> failure
             | Returned r \<Rightarrow>
                 (if resp_ok r
                  then \<lparr>pr_out = out, pr_table = tbl1, pr_mails = [], pr_resets = [email]\<rparr>
                  else failure))"
  using assms not_both_suffixes [of "req_pathname req"]
  by (simp add: safePost_def signin_request_def Let_def)

lemma maybeNotify_at_most_one: "length (maybeNotify lower tbl env email res) \<le> 1"
  by (auto simp: maybeNotify_def Let_def split: bool.splits option.splits)

definition failed_outcome :: "http_response outcome \<Rightarrow> bool" where
  "failed_outcome out = (case out of Threw _ \<Rightarrow> True | Returned r \<Rightarrow> \<not> resp_ok r)"

lemma safePost_failed:
  assumes "signin_request req email" "\<not> clr_locked (checkLockout lower tbl (e_check env) email)"
    and "betterAuth req tbl = (out, tbl1)" "failed_outcome out"
    and "recordFailedAttempt lower tbl1 (e_record env) email = (tbl2, res)"
  shows "safePost lower betterAuth env tbl req =
    \<lparr>pr_out = out, pr_table = tbl2, pr_mails = maybeNotify lower tbl2 env email res, pr_resets = []\<rparr>"
  using assms by (auto simp: safePost_signin failed_outcome_def Let_def split: outcome.splits)

lemma safePost_ok:
  assumes "signin_request req email" "\<not> clr_locked (checkLockout lower tbl (e_check env) email)"
    and "betterAuth req tbl = (Returned r, tbl1)" "resp_ok r"
  shows "safePost lower betterAuth env tbl req =
    \<lparr>pr_out = Returned r, pr_table = tbl1, pr_mails = [], pr_resets = [email]\<rparr>"
  using assms by (simp add: safePost_signin Let_def)

lemma retry_minutes_bounds: "1 \<le> s \<Longrightarrow> s \<le> 86400 \<Longrightarrow> 1 \<le> retry_minutes (Some s) \<and> retry_minutes (Some s) \<le> 1440"
  using ceil_div_bounds [of 60 s] by (auto simp: retry_minutes_def)

lemma safePost_blocked:
  assumes "signin_request req email"
    and "checkLockout lower tbl (e_check env) email =
      \<lparr>clr_locked = True, clr_lockedUntil = until, clr_remainingSeconds = rem\<rparr>"
  shows "safePost lower betterAuth env tbl req =
    \<lparr>pr_out = Returned (locked_response (retry_minutes rem)), pr_table = tbl, pr_mails = [], pr_resets = []\<rparr>"
  using assms by (simp add: safePost_signin)

section \<open>Properties\<close>

definition demo_req :: http_request where
  "demo_req = \<lparr>req_pathname = ''/api/auth/sign-in/email'',
     req_body = Some (JObj [(''email'', JStr '' A@b.c'')])\<rparr>"

definition demo_renv :: "int \<Rightarrow> route_env" where
  "demo_renv ms = \<lparr>e_check = demo_env ms, e_record = demo_env ms, e_reset = demo_env ms,
     e_name = demo_env ms, e_mail_now = ms\<rparr>"

definition demo_ba :: "int \<Rightarrow> better_auth" where
  "demo_ba st req tbl = (Returned \<lparr>resp_status = st, resp_body = JNull\<rparr>, tbl)"

lemma demo_signin: "signin_request demo_req ''a@b.c''"
  by code_simp

lemma lower_demo: "toLowerCase ''a@b.c'' = ''a@b.c''"
  by (simp add: toLowerCase_def lower_char_def)

text \<open>C1: after the failed sign-in that brings an account to its fifth (or a later) consecutive
  failure, every sign-in for that account in the following 15 minutes is answered with status 429
  and a waiting time between 1 minute and 24 hours, whatever Better Auth would say, so also with
  the right password.\<close>

theorem fifth_failure_blocks_signin:
  assumes first: "signin_request req email" "\<not> clr_locked (checkLockout lower tbl (e_check env) email)"
      "betterAuth req tbl = (out, tbl)" "failed_outcome out"
    and row: "select_email lower tbl email = r # rs" "4 \<le> failedLoginAttempts r" "lockedUntil r = None"
      "\<forall>x\<in>set (r # rs). failedLoginAttempts x < max_integer"
    and db: "\<forall>k. q_ok (e_record env) k" "q_ok (e_check env') 0"
    and later: "signin_request req' email'" "lower email' = lower email"
      "getTime (q_now (e_record env) 2) \<le> js_now (e_check env')"
      "js_now (e_check env') < getTime (q_now (e_record env) 2) + 1000 * 900"
  shows "\<exists>m. safePost lower betterAuth' env' (pr_table (safePost lower betterAuth env tbl req)) req' =
      \<lparr>pr_out = Returned (locked_response m),
        pr_table = pr_table (safePost lower betterAuth env tbl req), pr_mails = [], pr_resets = []\<rparr>
      \<and> 1 \<le> m \<and> m \<le> 1440"
proof -
  have "find_tier (failedLoginAttempts r + 1) \<noteq> None" using row(2) by (auto simp: find_tier_eq)
  then obtain tier where tier: "find_tier (failedLoginAttempts r + 1) = Some tier" by blast
  note dur = find_tier_duration [OF tier]
  obtain tbl2 res where rec: "recordFailedAttempt lower tbl (e_record env) email = (tbl2, res)"
      "isNowLocked res" "lockDuration res = Some (durationSeconds tier)"
    using record_unlocked [OF db(1) row(1) row(4)] row(3) tier by simp
  have t2: "pr_table (safePost lower betterAuth env tbl req) = tbl2"
    using safePost_failed [of req email lower tbl env betterAuth out tbl tbl2 res] first rec(1) by simp
  obtain until rem where chk: "checkLockout lower tbl2 (e_check env') email =
      \<lparr>clr_locked = True, clr_lockedUntil = Some until, clr_remainingSeconds = Some rem\<rparr>"
      and bounds: "1 \<le> rem" "rem \<le> durationSeconds tier"
    using record_then_check_locked [OF rec db(2) later(3)] later(4) dur by fastforce
  have chk': "checkLockout lower tbl2 (e_check env') email' =
      \<lparr>clr_locked = True, clr_lockedUntil = Some until, clr_remainingSeconds = Some rem\<rparr>"
    using chk checkLockout_cong [of lower email' email, OF later(2)] by simp
  show ?thesis
    using safePost_blocked [OF later(1) chk'] retry_minutes_bounds [of rem] bounds dur t2 by auto
qed

theorem fifth_failure_blocks_signin_witness:
  "\<exists>m. safePost toLowerCase (demo_ba 200) (demo_renv 60000)
        (pr_table (safePost toLowerCase (demo_ba 401) (demo_renv 0) [demo_row] demo_req)) demo_req =
      \<lparr>pr_out = Returned (locked_response m),
        pr_table = pr_table (safePost toLowerCase (demo_ba 401) (demo_renv 0) [demo_row] demo_req),
        pr_mails = [], pr_resets = []\<rparr> \<and> 1 \<le> m \<and> m \<le> 1440"
  by (rule fifth_failure_blocks_signin [where r = demo_row and rs = "[]" and
        out = "Returned \<lparr>resp_status = 401, resp_body = JNull\<rparr>", OF demo_signin _ _ _ _ _ _ _ _ _ demo_signin])
    (simp_all add: brute_force_defs demo_renv_def demo_ba_def failed_outcome_def resp_ok_def)

text \<open>The answer to a password-reset request is one fixed response.\<close>

theorem password_reset_uniform:
  assumes "endsWith (req_pathname req) ''/forget-password'' \<or>
      endsWith (req_pathname req) ''/request-password-reset''"
  shows "pr_out (safePost lower betterAuth env tbl req) = Returned uniform_reset_response
    \<and> pr_mails (safePost lower betterAuth env tbl req) = []"
  using assms by (simp add: safePost_def split: prod.splits outcome.splits)

theorem password_reset_uniform_witness:
  "pr_out (safePost toLowerCase (demo_ba 500) (demo_renv 0) [demo_row]
      \<lparr>req_pathname = ''/api/auth/forget-password'', req_body = None\<rparr>) = Returned uniform_reset_response
   \<and> pr_mails (safePost toLowerCase (demo_ba 500) (demo_renv 0) [demo_row]
      \<lparr>req_pathname = ''/api/auth/forget-password'', req_body = None\<rparr>) = []"
  by (rule password_reset_uniform) (simp add: endsWith_def)

text \<open>A successful sign-in returns Better Auth's response unchanged, and once the reset it has started is through,
  every row of the account has a counter of zero and no lock, so that the account is not locked at any time.\<close>

theorem success_resets_lockout:
  assumes "signin_request req email" "\<not> clr_locked (checkLockout lower tbl (e_check env) email)"
    and "betterAuth req tbl = (Returned r, tbl1)" "resp_ok r" "q_ok (e_reset env) 0"
  shows "pr_out (safePost lower betterAuth env tbl req) = Returned r
    \<and> (let res = safePost lower betterAuth env tbl req; tbl2 = run_resets lower (e_reset env) (pr_resets res) (pr_table res)
       in list_all (\<lambda>x. failedLoginAttempts x = 0 \<and> lockedUntil x = None) (select_email lower tbl2 email)
          \<and> \<not> is_locked lower tbl2 email t)"
  using safePost_ok [of req email lower tbl env betterAuth r tbl1, OF assms(1-4)] assms(5)
  by (auto simp: run_resets_def resetFailedAttempts_def select_update_same is_locked_def list_all_iff Let_def split: list.splits)

theorem success_resets_lockout_witness:
  "pr_out (safePost toLowerCase (demo_ba 200) (demo_renv 0) [demo_row] demo_req)
     = Returned \<lparr>resp_status = 200, resp_body = JNull\<rparr>
   \<and> (let res = safePost toLowerCase (demo_ba 200) (demo_renv 0) [demo_row] demo_req;
          tbl2 = run_resets toLowerCase (e_reset (demo_renv 0)) (pr_resets res) (pr_table res)
      in list_all (\<lambda>x. failedLoginAttempts x = 0 \<and> lockedUntil x = None) (select_email toLowerCase tbl2 ''a@b.c'')
         \<and> \<not> is_locked toLowerCase tbl2 ''a@b.c'' 0)"
  by (rule success_resets_lockout [OF demo_signin])
    (simp_all add: brute_force_defs demo_renv_def demo_ba_def resp_ok_def)

text \<open>The reset of a successful sign-in is not awaited, so that one that runs after a later failure has locked the account
  lifts that lock.\<close>

theorem late_reset_lifts_lock:
  assumes "signin_request req email" "\<not> clr_locked (checkLockout lower tbl (e_check env) email)"
    and "betterAuth req tbl = (Returned r, tbl1)" "resp_ok r" "q_ok reset_env 0"
  shows "\<not> is_locked lower (run_resets lower reset_env (pr_resets (safePost lower betterAuth env tbl req)) locked_tbl) email t"
  using safePost_ok [of req email lower tbl env betterAuth r tbl1, OF assms(1-4)] assms(5)
  by (auto simp: run_resets_def resetFailedAttempts_def select_update_same is_locked_def split: list.splits)

theorem late_reset_lifts_lock_witness:
  "\<not> is_locked toLowerCase (run_resets toLowerCase (demo_env 1) (pr_resets (safePost toLowerCase (demo_ba 200) (demo_renv 0) [demo_row] demo_req))
      [demo_row\<lparr>lockedUntil := Some 900\<rparr>]) ''a@b.c'' 5"
  by (rule late_reset_lifts_lock [where r = "\<lparr>resp_status = 200, resp_body = JNull\<rparr>", OF demo_signin])
    (simp_all add: brute_force_defs demo_renv_def demo_ba_def resp_ok_def)

text \<open>C6: a failed sign-in on an unlocked account adds exactly one to the counter of every row of the
  account and leaves the rows of other accounts alone; it sends one mail when it locks the account
  or when this is the third failure, and none otherwise, and it starts no reset.\<close>

theorem failure_counts_and_notifies:
  assumes "signin_request req email" "\<not> clr_locked (checkLockout lower tbl (e_check env) email)"
    and "betterAuth req tbl = (out, tbl)" "failed_outcome out"
    and "select_email lower tbl email = r # rs" "lockedUntil r = None"
      "\<forall>x\<in>set (r # rs). failedLoginAttempts x < max_integer" "\<forall>k. q_ok (e_record env) k"
    and "lower other \<noteq> lower email"
  shows "map failedLoginAttempts (select_email lower (pr_table (safePost lower betterAuth env tbl req)) email)
        = map (\<lambda>x. failedLoginAttempts x + 1) (r # rs)
    \<and> select_email lower (pr_table (safePost lower betterAuth env tbl req)) other
        = select_email lower tbl other
    \<and> length (pr_mails (safePost lower betterAuth env tbl req))
        = (if failedLoginAttempts r + 1 = 3 \<or> failedLoginAttempts r + 1 \<ge> 5 then 1 else 0)
    \<and> pr_resets (safePost lower betterAuth env tbl req) = []"
proof -
  note rec = record_unlocked [where env = "e_record env" and lower = lower and e = email
      and tbl = tbl and r = r and rs = rs, OF assms(8,5,7)]
  show ?thesis
  proof (cases "find_tier (failedLoginAttempts r + 1)")
    case None
    then have "\<not> failedLoginAttempts r + 1 \<ge> 5" by (auto simp: find_tier_eq split: if_splits)
    with None show ?thesis
      using safePost_failed [of req email lower tbl env betterAuth out tbl, OF assms(1-4)] rec assms(5,6,9)
      by (simp add: select_update_same select_update_other maybeNotify_def Let_def)
  next
    case (Some tier)
    then have "failedLoginAttempts r + 1 \<ge> 5" by (auto simp: find_tier_eq split: if_splits)
    with Some show ?thesis
      using safePost_failed [of req email lower tbl env betterAuth out tbl, OF assms(1-4)] rec assms(5,6,9) find_tier_duration [OF Some]
      by (simp add: select_update_same select_update_other maybeNotify_def Let_def)
  qed
qed

theorem failure_counts_and_notifies_witness:
  "map failedLoginAttempts (select_email toLowerCase
      (pr_table (safePost toLowerCase (demo_ba 401) (demo_renv 0) [demo_row] demo_req)) ''a@b.c'')
        = map (\<lambda>x. failedLoginAttempts x + 1) [demo_row]
    \<and> select_email toLowerCase
      (pr_table (safePost toLowerCase (demo_ba 401) (demo_renv 0) [demo_row] demo_req)) ''z''
        = select_email toLowerCase [demo_row] ''z''
    \<and> length (pr_mails (safePost toLowerCase (demo_ba 401) (demo_renv 0) [demo_row] demo_req))
        = (if failedLoginAttempts demo_row + 1 = 3 \<or> failedLoginAttempts demo_row + 1 \<ge> 5 then 1 else 0)
    \<and> pr_resets (safePost toLowerCase (demo_ba 401) (demo_renv 0) [demo_row] demo_req) = []"
  by (rule failure_counts_and_notifies [where
        out = "Returned \<lparr>resp_status = 401, resp_body = JNull\<rparr>", OF demo_signin])
    (simp_all add: brute_force_defs demo_renv_def demo_ba_def failed_outcome_def resp_ok_def lower_demo,
     simp add: toLowerCase_def)

end
