(* ===== verification/JsNumber.thy ===== *)
theory JsNumber
  imports Complex_Main Prelude "HOL-Library.Product_Lexorder"
begin

text \<open>
  Numbers read from text: \<open>Number(s)\<close>, \<open>parseInt(s, 10)\<close> and the order in which
  \<open>(a, b) => b - a\<close> sorts.  A finite number is a rational; the rounding to the nearest double is not
  modelled.
\<close>

datatype jsnum = NaN | NegInf | Fin rat | PosInf

section \<open>Number\<close>

definition pow10 :: "int \<Rightarrow> rat" where
  "pow10 e = (if e \<ge> 0 then 10 ^ nat e else 1 / 10 ^ nat (- e))"

text \<open>The exponent part of a decimal literal; \<open>None\<close> when the text is malformed.\<close>

definition parse_exponent :: "string \<Rightarrow> int option" where
  "parse_exponent s =
     (case s of
        [] \<Rightarrow> Some 0
      | c # t \<Rightarrow>
          (if c = CHR ''e'' \<or> c = CHR ''E''
           then (let (sg, ds) = (case t of
                     CHR ''-'' # u \<Rightarrow> (-1, u)
                   | CHR ''+'' # u \<Rightarrow> (1, u)
                   | _ \<Rightarrow> (1 :: int, t))
                 in if ds \<noteq> [] \<and> list_all is_digit ds then Some (sg * int (digits_val ds)) else None)
           else None))"

definition parse_unsigned :: "string \<Rightarrow> jsnum" where
  "parse_unsigned s =
     (if s = ''Infinity'' then PosInf
      else
        let ip = takeWhile is_digit s; r1 = dropWhile is_digit s;
            (fp, r2) = (case r1 of
                CHR ''.'' # t \<Rightarrow> (takeWhile is_digit t, dropWhile is_digit t)
              | _ \<Rightarrow> ([], r1))
        in if ip = [] \<and> fp = [] then NaN
           else case parse_exponent r2 of
             None \<Rightarrow> NaN
           | Some e \<Rightarrow> Fin (of_nat (digits_val (ip @ fp)) * pow10 (e - int (length fp))))"

fun js_neg :: "jsnum \<Rightarrow> jsnum" where
  "js_neg NaN = NaN" | "js_neg NegInf = PosInf" | "js_neg PosInf = NegInf" | "js_neg (Fin q) = Fin (- q)"

definition radix_digit :: "nat \<Rightarrow> char \<Rightarrow> nat option" where
  "radix_digit radix c =
     (let n = of_char (lower_char c) :: nat;
          d = (if is_digit c then Some (digit_val c)
               else if 97 \<le> n \<and> n \<le> 102 then Some (n - 87) else None)
      in case d of None \<Rightarrow> None | Some v \<Rightarrow> if v < radix then Some v else None)"

definition parse_radix :: "nat \<Rightarrow> string \<Rightarrow> jsnum" where
  "parse_radix radix s =
     (if s = [] \<or> list_ex (\<lambda>c. radix_digit radix c = None) s then NaN
      else Fin (of_nat (foldl (\<lambda>n c. radix * n + the (radix_digit radix c)) 0 s)))"

definition js_Number :: "string \<Rightarrow> jsnum" where
  "js_Number s =
     (let t = trim s
      in if t = [] then Fin 0
         else if startsWith (toLowerCase t) ''0x'' then parse_radix 16 (drop 2 t)
         else if startsWith (toLowerCase t) ''0o'' then parse_radix 8 (drop 2 t)
         else if startsWith (toLowerCase t) ''0b'' then parse_radix 2 (drop 2 t)
         else case t of
             CHR ''-'' # u \<Rightarrow> js_neg (parse_unsigned u)
           | CHR ''+'' # u \<Rightarrow> parse_unsigned u
           | _ \<Rightarrow> parse_unsigned t)"

text \<open>Descending order of the numbers that are not \<open>NaN\<close>.\<close>

fun desc_key :: "jsnum \<Rightarrow> int \<times> rat" where
  "desc_key PosInf = (0, 0)" | "desc_key (Fin q) = (1, - q)" | "desc_key NegInf = (2, 0)" | "desc_key NaN = (3, 0)"

section \<open>parseInt with radix 10\<close>

definition parseInt10 :: "string \<Rightarrow> int option" where
  "parseInt10 s =
     (let t = dropWhile is_ws s;
          (sg, u) = (case t of
              CHR ''-'' # v \<Rightarrow> (-1, v) | CHR ''+'' # v \<Rightarrow> (1 :: int, v) | _ \<Rightarrow> (1, t));
          ds = takeWhile is_digit u
      in if ds = [] then None else Some (sg * int (digits_val ds)))"

section \<open>Printing and reading back\<close>

text \<open>\<open>parseInt(v) || d\<close>.\<close>

definition int_or :: "string \<Rightarrow> int \<Rightarrow> int" where
  "int_or v d = (case parseInt10 v of None \<Rightarrow> d | Some n \<Rightarrow> (if n = 0 then d else n))"

lemma of_char_digit_char: "d < 10 \<Longrightarrow> (of_char (digit_char d) :: nat) = 48 + d"
  by (simp add: digit_char_def)

lemma is_digit_digit_char [simp]: "d < 10 \<Longrightarrow> is_digit (digit_char d)"
  by (simp add: is_digit_def of_char_digit_char)

lemma digit_val_digit_char [simp]: "d < 10 \<Longrightarrow> digit_val (digit_char d) = d"
  by (simp add: digit_val_def of_char_digit_char)

lemma digits_val_snoc: "digits_val (s @ [c]) = 10 * digits_val s + digit_val c"
  by (simp add: digits_val_def)

lemma nat_str_digits: "list_all is_digit (nat_str n)" and nat_str_nonempty [simp]: "nat_str n \<noteq> []"
proof -
  show "list_all is_digit (nat_str n)"
  proof (induction n rule: nat_str.induct)
    case (1 n)
    show ?case
    proof (cases "n < 10")
      case False
      then show ?thesis using 1 by (subst nat_str.simps) simp
    qed (subst nat_str.simps, simp)
  qed
  show "nat_str n \<noteq> []" by (subst nat_str.simps) simp
qed

lemma digits_val_nat_str [simp]: "digits_val (nat_str n) = n"
proof (induction n rule: nat_str.induct)
  case (1 n)
  show ?case
  proof (cases "n < 10")
    case True
    then show ?thesis by (subst nat_str.simps) (simp add: digits_val_def)
  next
    case False
    then show ?thesis using 1 by (subst nat_str.simps) (simp add: digits_val_snoc)
  qed
qed

lemma takeWhile_all: "list_all P xs \<Longrightarrow> takeWhile P xs = xs"
  by (simp add: list_all_iff takeWhile_eq_all_conv)

lemma digit_not_special: "is_digit c \<Longrightarrow> \<not> is_ws c" "is_digit c \<Longrightarrow> c \<noteq> CHR ''-''" "is_digit c \<Longrightarrow> c \<noteq> CHR ''+''"
  by (auto simp: is_digit_def is_ws_def)

lemma parseInt10_digits:
  assumes "list_all is_digit s" "s \<noteq> []"
  shows "parseInt10 s = Some (int (digits_val s))"
proof (cases s)
  case (Cons c cs)
  then have "is_digit c" using assms(1) by simp
  then have "\<not> is_ws c" "c \<noteq> CHR ''-''" "c \<noteq> CHR ''+''" by (rule digit_not_special)+
  then have "dropWhile is_ws s = s"
    "(case s of CHR ''-'' # v \<Rightarrow> (-1, v) | CHR ''+'' # v \<Rightarrow> (1 :: int, v) | _ \<Rightarrow> (1, s)) = (1, s)"
    unfolding Cons by (auto split: char.splits bool.splits)
  then show ?thesis using assms by (simp add: parseInt10_def takeWhile_all)
qed (use assms in simp)

lemma parseInt10_nat_str [simp]: "parseInt10 (nat_str n) = Some (int n)"
  using parseInt10_digits [OF nat_str_digits nat_str_nonempty] by simp

lemma parseInt10_int_str [simp]: "parseInt10 (int_str i) = Some i"
proof (cases "i < 0")
  case True
  have "\<not> is_ws CHR ''-''" by (simp add: is_ws_def)
  with True show ?thesis
    by (simp add: int_str_def parseInt10_def takeWhile_all [OF nat_str_digits])
qed (simp add: int_str_def)

section \<open>Digits of a text\<close>

text \<open>\<open>replace(/[^0-9]/g, "")\<close>.\<close>

definition only_digits :: "string \<Rightarrow> string" where "only_digits s = filter is_digit s"

lemma only_digits_idem [simp]: "only_digits (only_digits s) = only_digits s"
  by (simp add: only_digits_def)

lemma only_digits_id: "list_all is_digit s \<Longrightarrow> only_digits s = s"
  by (simp add: only_digits_def list_all_iff)

lemma digits_only_digits [simp]: "list_all is_digit (only_digits s)"
  by (simp add: only_digits_def list_all_iff)

lemma dot_not_digit [simp]: "\<not> is_digit (CHR ''.'')"
  by (simp add: is_digit_def)

lemma trim_digits: "list_all is_digit s \<Longrightarrow> trim s = s"
proof -
  assume s: "list_all is_digit s"
  have "dropWhile is_ws t = t" if "list_all is_digit t" for t
    using that by (cases t) (auto dest: digit_not_special)
  then show ?thesis using s by (simp add: trim_def list_all_rev)
qed

definition padStart2 :: "string \<Rightarrow> string" where
  "padStart2 s = replicate (2 - length s) (CHR ''0'') @ s"

end
