(* ===== verification/JsValue.thy ===== *)
theory JsValue
  imports JsNumber
begin

text \<open>
  Values that come from outside the program (server answers, local storage) and that the sources use
  unchecked: their conversion to strings and numbers, their own properties, object spread, and what a
  read of local storage can give.
\<close>

datatype js_error = TypeError

fun js_bool_str :: "bool \<Rightarrow> string" where
  "js_bool_str True = ''true''" | "js_bool_str False = ''false''"

fun join_comma :: "string list \<Rightarrow> string" where
  "join_comma [] = []" | "join_comma [x] = x" | "join_comma (x # y # zs) = x @ '','' @ join_comma (y # zs)"

text \<open>\<open>String(v)\<close>; inside an array \<open>null\<close> prints as nothing.\<close>

fun js_String :: "json \<Rightarrow> string" where
  "js_String JNull = ''null''"
| "js_String (JBool b) = js_bool_str b"
| "js_String (JNum n) = int_str n"
| "js_String (JStr s) = s"
| "js_String (JArr xs) = join_comma (map (\<lambda>x. if x = JNull then [] else js_String x) xs)"
| "js_String (JObj _) = ''[object Object]''"

fun opt_String :: "json option \<Rightarrow> string" where
  "opt_String None = ''undefined''" | "opt_String (Some v) = js_String v"

text \<open>The number an arithmetic operator makes of a value; \<open>undefined\<close> gives \<open>NaN\<close>.\<close>

fun to_number :: "json option \<Rightarrow> jsnum" where
  "to_number None = NaN"
| "to_number (Some JNull) = Fin 0"
| "to_number (Some (JBool b)) = Fin (if b then 1 else 0)"
| "to_number (Some (JNum n)) = Fin (of_int n)"
| "to_number (Some (JStr s)) = js_Number s"
| "to_number (Some (JArr xs)) = js_Number (js_String (JArr xs))"
| "to_number (Some (JObj _)) = NaN"

text \<open>Ascending order of the numbers that are not \<open>NaN\<close>.\<close>

fun asc_key :: "jsnum \<Rightarrow> int \<times> rat" where
  "asc_key NegInf = (0, 0)" | "asc_key (Fin q) = (1, q)" | "asc_key PosInf = (2, 0)" | "asc_key NaN = (3, 0)"

type_synonym object = "(string, json) jsmap"

text \<open>The own enumerable properties of a value, and the spread \<open>{ ...a, ...b }\<close>.\<close>

fun entries :: "json \<Rightarrow> object" where
  "entries (JObj fs) = fs"
| "entries (JArr xs) = zip (map nat_str [0..<length xs]) xs"
| "entries (JStr s) = zip (map nat_str [0..<length s]) (map (\<lambda>c. JStr [c]) s)"
| "entries _ = []"

definition spread :: "object \<Rightarrow> object \<Rightarrow> object" where
  "spread a b = fold (\<lambda>(k, v) m. map_set m k v) b a"

text \<open>What \<open>getItem\<close> followed by \<open>JSON.parse\<close> gives: it may throw, find nothing or find a value.\<close>

datatype stored_item = ReadThrows | Missing | Parsed json

fun is_object :: "json \<Rightarrow> bool" where
  "is_object (JObj _) = True" | "is_object (JArr _) = True" | "is_object _ = False"

end
