(* ===== verification/AuthHooks.thy ===== *)
theory AuthHooks
  imports BruteForce JsValue
begin

text \<open>
  The Better Auth configuration, \<open>src/frontend/src/lib/auth.ts\<close>: the trusted origins, the verification
  link and the database hooks that keep the Better Auth table \<open>"user"\<close> and the backend's table
  \<open>users\<close> in step.

  \<open>users\<close> has \<open>UNIQUE(id)\<close> and \<open>UNIQUE(email)\<close>.  A query fails with an error object, of which the
  code reads only the property \<open>code\<close>: \<open>fails n = Some c\<close> says that the \<open>n\<close>-th query of a hook fails
  for a reason outside the data (connection, cast), with code \<open>c\<close> when the error has one.  The insert that
  Better Auth makes between its two hooks is the argument \<open>ba_insert\<close>; \<open>None\<close> means that it throws.
\<close>

record legacy_user =
  lu_id :: string
  lu_email :: string
  full_name :: "string option"
  is_active :: bool
  lu_role :: string
  balance :: int
  subscription_expires_at :: "int option"
  password_hash :: "string option"

record auth_db =
  ba_users :: "user_row list"
  users :: "legacy_user list"

record hook_env =
  fails :: "nat \<Rightarrow> string option option"
  db_now :: int

datatype hook_error = BadRequest string | QueryFailed

section \<open>Configuration values\<close>

text \<open>\<open>Set.prototype.add\<close>; objects are equal only to themselves.\<close>

definition set_add :: "json list \<Rightarrow> json \<Rightarrow> json list" where
  "set_add s v = (if v \<in> set s \<and> \<not> is_object v then s else s @ [v])"

definition trustedOrigins :: "string option \<Rightarrow> stored_item \<Rightarrow> json list" where
  "trustedOrigins better_auth_url cors =
     (let origins = [JStr ''http://localhost:3000'', JStr ''https://telebos.app''];
          o1 = (if truthy better_auth_url then set_add origins (JStr (the better_auth_url)) else origins)
      in case cors of Parsed (JArr parsed) \<Rightarrow> foldl set_add o1 parsed | _ \<Rightarrow> o1)"

definition verificationUrl :: "string option \<Rightarrow> string \<Rightarrow> string" where
  "verificationUrl better_auth_url token =
     (let baseUrl = (if truthy better_auth_url then the better_auth_url else ''http://localhost:3000'')
      in baseUrl @ ''/api/auth/verify-email?token='' @ token @ ''&callbackURL='' @ baseUrl @ ''/login?verified=true'')"

section \<open>Hooks\<close>

text \<open>\<open>sha256\<close> is the hexadecimal SHA-256 digest.\<close>

definition session_create_before :: "(string \<Rightarrow> string) \<Rightarrow> string \<Rightarrow> (string \<times> string) list" where
  "session_create_before sha256 token = [(''token_hash'', sha256 token)]"

definition update_users :: "string \<Rightarrow> (legacy_user \<Rightarrow> legacy_user) \<Rightarrow> auth_db \<Rightarrow> auth_db" where
  "update_users i f db = db\<lparr>users := map (\<lambda>u. if lu_id u = i then f u else u) (users db)\<rparr>"

definition user_update_after :: "hook_env \<Rightarrow> string \<Rightarrow> string option \<Rightarrow> auth_db \<Rightarrow> auth_db" where
  "user_update_after env i name db =
     (if \<not> truthy name then db
      else case fails env 0 of Some _ \<Rightarrow> db | None \<Rightarrow> update_users i (\<lambda>u. u\<lparr>full_name := name\<rparr>) db)"

definition duplicate_message :: string where
  "duplicate_message = ''Email sudah terdaftar. Silakan login atau gunakan email lain.''"

definition email_taken :: "(string \<Rightarrow> string) \<Rightarrow> string \<Rightarrow> auth_db \<Rightarrow> bool" where
  "email_taken lower e db =
     (list_ex (\<lambda>r. lower (ur_email r) = lower e) (ba_users db) \<or> list_ex (\<lambda>u. lower (lu_email u) = lower e) (users db))"

definition user_create_before :: "(string \<Rightarrow> string) \<Rightarrow> hook_env \<Rightarrow> string \<Rightarrow> auth_db \<Rightarrow> hook_error option" where
  "user_create_before lower env e db =
     (case fails env 0 of
        Some _ \<Rightarrow> Some QueryFailed
      | None \<Rightarrow> (if email_taken lower e db then Some (BadRequest duplicate_message) else None))"

definition five_hours :: int where "five_hours = 5 * 60 * 60 * 1000000"

definition new_legacy :: "int \<Rightarrow> user_row \<Rightarrow> legacy_user" where
  "new_legacy now u =
     \<lparr>lu_id = ur_id u, lu_email = ur_email u, full_name = (if ur_name u = [] then None else Some (ur_name u)),
      is_active = True, lu_role = ''freetrial'', balance = 0, subscription_expires_at = Some (now + five_hours),
      password_hash = None\<rparr>"

text \<open>\<open>INSERT INTO users ... ON CONFLICT (id) DO NOTHING\<close>: the error is the one of \<open>UNIQUE(email)\<close>.\<close>

definition insert_legacy :: "int \<Rightarrow> user_row \<Rightarrow> auth_db \<Rightarrow> string option + auth_db" where
  "insert_legacy now u db =
     (if list_ex (\<lambda>l. lu_id l = ur_id u) (users db) then Inr db
      else if list_ex (\<lambda>l. lu_email l = ur_email u) (users db) then Inl (Some ''23505'')
      else Inr (db\<lparr>users := users db @ [new_legacy now u]\<rparr>))"

definition set_freetrial :: "string \<Rightarrow> auth_db \<Rightarrow> auth_db" where
  "set_freetrial i db = db\<lparr>ba_users := map (\<lambda>r. if ur_id r = i then r\<lparr>ur_role := ''freetrial''\<rparr> else r) (ba_users db)\<rparr>"

text \<open>The \<open>catch\<close> block.\<close>

definition sync_failed :: "hook_env \<Rightarrow> string option \<Rightarrow> string \<Rightarrow> auth_db \<Rightarrow> auth_db" where
  "sync_failed env code i db =
     (if code = Some ''23505''
      then (case fails env 3 of
              Some _ \<Rightarrow> db
            | None \<Rightarrow> db\<lparr>ba_users := filter (\<lambda>r. ur_id r \<noteq> i) (ba_users db)\<rparr>)
      else db)"

definition user_create_after :: "hook_env \<Rightarrow> user_row \<Rightarrow> auth_db \<Rightarrow> auth_db" where
  "user_create_after env u db =
     (case fails env 1 of
        Some code \<Rightarrow> sync_failed env code (ur_id u) db
      | None \<Rightarrow>
          let db1 = set_freetrial (ur_id u) db
          in case fails env 2 of
               Some code \<Rightarrow> sync_failed env code (ur_id u) db1
             | None \<Rightarrow>
                 (case insert_legacy (db_now env) u db1 of
                    Inl code \<Rightarrow> sync_failed env code (ur_id u) db1
                  | Inr db2 \<Rightarrow> db2))"

text \<open>The hooks of \<open>account.create\<close> and \<open>account.update\<close>; each has its own copy of the code.\<close>

definition account_create_after :: "hook_env \<Rightarrow> string \<Rightarrow> string option \<Rightarrow> string \<Rightarrow> auth_db \<Rightarrow> auth_db" where
  "account_create_after env providerId password userId db =
     (if providerId = ''credential'' \<and> truthy password
      then (case fails env 0 of Some _ \<Rightarrow> db | None \<Rightarrow> update_users userId (\<lambda>u. u\<lparr>password_hash := password\<rparr>) db)
      else db)"

definition account_update_after :: "hook_env \<Rightarrow> string \<Rightarrow> string option \<Rightarrow> string \<Rightarrow> auth_db \<Rightarrow> auth_db" where
  "account_update_after env providerId password userId db =
     (if providerId = ''credential'' \<and> truthy password
      then (case fails env 0 of Some _ \<Rightarrow> db | None \<Rightarrow> update_users userId (\<lambda>u. u\<lparr>password_hash := password\<rparr>) db)
      else db)"

section \<open>Creating a user\<close>

text \<open>What Better Auth does when a user is created, by the documentation of its \<open>databaseHooks\<close>: the hook
  \<open>user.create.before\<close>, which may refuse by throwing, its own insert, then the hook \<open>user.create.after\<close> on the inserted
  row.  Only this order is Better Auth's; the insert is an argument and the hooks are the repository's.\<close>

definition create_user ::
    "(string \<Rightarrow> string) \<Rightarrow> (user_row \<Rightarrow> user_row list \<Rightarrow> user_row list option) \<Rightarrow> hook_env \<Rightarrow> user_row \<Rightarrow> auth_db
     \<Rightarrow> hook_error option \<times> auth_db" where
  "create_user lower ba_insert env u db =
     (case user_create_before lower env (ur_email u) db of
        Some e \<Rightarrow> (Some e, db)
      | None \<Rightarrow>
          (case ba_insert u (ba_users db) of
             None \<Rightarrow> (Some QueryFailed, db)
           | Some rows \<Rightarrow> (None, user_create_after env u (db\<lparr>ba_users := rows\<rparr>))))"

definition ids_of :: "auth_db \<Rightarrow> string set" where
  "ids_of db = ur_id ` set (ba_users db) \<union> lu_id ` set (users db)"

text \<open>Every Better Auth user has a row in \<open>users\<close> with the same e-mail address.\<close>

definition in_step :: "auth_db \<Rightarrow> bool" where
  "in_step db = list_all (\<lambda>r. list_ex (\<lambda>u. lu_id u = ur_id r \<and> lu_email u = ur_email r) (users db)) (ba_users db)"

definition emails_unique :: "(string \<Rightarrow> string) \<Rightarrow> auth_db \<Rightarrow> bool" where
  "emails_unique lower db \<longleftrightarrow> distinct (map (\<lambda>u. lower (lu_email u)) (users db))"

lemmas hook_defs = create_user_def user_create_before_def user_create_after_def set_freetrial_def
  insert_legacy_def sync_failed_def Let_def

lemma new_legacy_simps [simp]:
  "lu_id (new_legacy now u) = ur_id u" "lu_email (new_legacy now u) = ur_email u"
  by (simp_all add: new_legacy_def)

lemma update_users_ba [simp]: "ba_users (update_users i f db) = ba_users db"
  by (simp add: update_users_def)

text \<open>Updating other columns keeps the tables in step.\<close>

lemma update_users_in_step:
  assumes "\<And>u. lu_id (f u) = lu_id u" "\<And>u. lu_email (f u) = lu_email u" "in_step db"
  shows "in_step (update_users i f db)"
proof -
  define g where "g = (\<lambda>u. if lu_id u = i then f u else u)"
  have "lu_id (g u) = lu_id u" "lu_email (g u) = lu_email u" for u using assms(1,2) by (simp_all add: g_def)
  then show ?thesis
    using assms(3) unfolding in_step_def update_users_def g_def [symmetric] by (simp add: list_all_iff list_ex_iff)
qed

lemma hooks_in_step:
  assumes "in_step db"
  shows "in_step (user_update_after env i name db)" "in_step (account_create_after env p pw i db)"
    "in_step (account_update_after env p pw i db)"
  using assms
  by (auto simp: user_update_after_def account_create_after_def account_update_after_def
      update_users_in_step split: option.splits)

text \<open>Changing rows of \<open>"user"\<close> without touching id and e-mail and adding
  the same user to both keep the tables in step.\<close>

lemma in_step_set_freetrial: "in_step (set_freetrial i db) = in_step db"
proof -
  define g where "g = (\<lambda>r :: user_row. if ur_id r = i then r\<lparr>ur_role := ''freetrial''\<rparr> else r)"
  have "ur_id (g r) = ur_id r" "ur_email (g r) = ur_email r" for r by (simp_all add: g_def)
  then show ?thesis
    unfolding in_step_def set_freetrial_def g_def [symmetric] by (simp add: list_all_iff)
qed

lemma freetrial_others:
  "i \<notin> ur_id ` set rs \<Longrightarrow>
   filter (\<lambda>r. ur_id r \<noteq> i) (map (\<lambda>r. if ur_id r = i then r\<lparr>ur_role := ''freetrial''\<rparr> else r) rs) = rs"
  by (induction rs) auto

lemma in_step_new:
  "in_step db \<Longrightarrow> in_step (db\<lparr>ba_users := ba_users db @ [u], users := users db @ [new_legacy now u]\<rparr>)"
  by (auto simp: in_step_def list_all_iff list_ex_iff)

lemma fresh_id:
  "i \<notin> ids_of db \<Longrightarrow> i \<notin> ur_id ` set (ba_users db) \<and> \<not> list_ex (\<lambda>l. lu_id l = i) (users db)"
  unfolding ids_of_def list_ex_iff by blast

lemma after_hook_in_step:
  assumes "\<forall>n. fails env n = None" "in_step db" "ur_id u \<notin> ids_of db"
  shows "in_step (user_create_after env u (db\<lparr>ba_users := ba_users db @ [u]\<rparr>))"
proof (cases "list_ex (\<lambda>l. lu_email l = ur_email u) (users db)")
  case True
  have new: "ur_id u \<notin> ur_id ` set (ba_users db)" "\<not> list_ex (\<lambda>l. lu_id l = ur_id u) (users db)"
    using fresh_id [OF assms(3)] by auto
  then have "user_create_after env u (db\<lparr>ba_users := ba_users db @ [u]\<rparr>) = db"
    using True assms(1) freetrial_others [OF new(1)] by (simp add: hook_defs)
  then show ?thesis using assms(2) by simp
next
  case False
  have "\<not> list_ex (\<lambda>l. lu_id l = ur_id u) (users db)"
    using fresh_id [OF assms(3)] by auto
  then have "user_create_after env u (db\<lparr>ba_users := ba_users db @ [u]\<rparr>) =
      set_freetrial (ur_id u) (db\<lparr>ba_users := ba_users db @ [u], users := users db @ [new_legacy (db_now env) u]\<rparr>)"
    using False assms(1) by (simp add: hook_defs)
  then show ?thesis using in_step_new [OF assms(2)] by (simp add: in_step_set_freetrial)
qed

section \<open>Properties\<close>

definition append_row :: "user_row \<Rightarrow> user_row list \<Rightarrow> user_row list option" where
  "append_row u rows = Some (rows @ [u])"

definition demo_user :: user_row where
  "demo_user = \<lparr>ur_id = ''u1'', ur_email = ''a@b.c'', ur_name = ''Ann'', ur_role = ''user'', failedLoginAttempts = 0,
     lastFailedLoginAt = None, lockedUntil = None\<rparr>"

definition empty_db :: auth_db where "empty_db = \<lparr>ba_users = [], users = []\<rparr>"

definition quiet :: "int \<Rightarrow> hook_env" where "quiet now = \<lparr>fails = (\<lambda>_. None), db_now = now\<rparr>"

text \<open>C8: creating a user while the database answers.  When its address is in use in either table,
  ignoring case, the sign-up is refused and nothing changes.  Otherwise the user is in both tables under
  one id and address, as an active free trial with no balance that ends five hours later, and the tables
  stay in step.\<close>

theorem signup_syncs_tables:
  assumes "\<forall>r rows. ba_insert r rows = Some (rows @ [r])" "\<forall>n. fails env n = None"
    "in_step db" "ur_id u \<notin> ids_of db"
  shows "create_user lower ba_insert env u db =
      (if email_taken lower (ur_email u) db then (Some (BadRequest duplicate_message), db)
       else (None, user_create_after env u (db\<lparr>ba_users := ba_users db @ [u]\<rparr>)))
    \<and> (\<not> email_taken lower (ur_email u) db \<longrightarrow>
        ba_users (snd (create_user lower ba_insert env u db)) = ba_users db @ [u\<lparr>ur_role := ''freetrial''\<rparr>]
        \<and> users (snd (create_user lower ba_insert env u db)) = users db @ [new_legacy (db_now env) u])
    \<and> in_step (snd (create_user lower ba_insert env u db))"
proof -
  have new: "ur_id u \<notin> ur_id ` set (ba_users db)" "\<not> list_ex (\<lambda>l. lu_id l = ur_id u) (users db)"
    using fresh_id [OF assms(4)] by auto
  have same: "map (\<lambda>r. if ur_id r = ur_id u then r\<lparr>ur_role := ''freetrial''\<rparr> else r) (ba_users db) = ba_users db"
    using new(1) by (intro map_idI) (metis imageI)
  have eq: "create_user lower ba_insert env u db =
      (if email_taken lower (ur_email u) db then (Some (BadRequest duplicate_message), db)
       else (None, user_create_after env u (db\<lparr>ba_users := ba_users db @ [u]\<rparr>)))"
    using assms(1,2) by (simp add: create_user_def user_create_before_def)
  moreover have "\<not> list_ex (\<lambda>l. lu_email l = ur_email u) (users db)" if "\<not> email_taken lower (ur_email u) db"
    using that by (auto simp: email_taken_def list_ex_iff)
  then have "\<not> email_taken lower (ur_email u) db \<longrightarrow>
      ba_users (user_create_after env u (db\<lparr>ba_users := ba_users db @ [u]\<rparr>)) = ba_users db @ [u\<lparr>ur_role := ''freetrial''\<rparr>]
      \<and> users (user_create_after env u (db\<lparr>ba_users := ba_users db @ [u]\<rparr>)) = users db @ [new_legacy (db_now env) u]"
    using new same assms(2) by (simp add: hook_defs)
  moreover have "in_step (user_create_after env u (db\<lparr>ba_users := ba_users db @ [u]\<rparr>))"
    by (rule after_hook_in_step [OF assms(2-4)])
  ultimately show ?thesis using assms(3) by simp
qed

theorem signup_syncs_tables_witness:
  "users (snd (create_user toLowerCase append_row (quiet 7) demo_user empty_db)) = [new_legacy 7 demo_user]
   \<and> in_step (snd (create_user toLowerCase append_row (quiet 7) demo_user empty_db))"
proof -
  have "\<forall>r rows. append_row r rows = Some (rows @ [r])" "\<forall>n. fails (quiet 7) n = None"
    "in_step empty_db" "ur_id demo_user \<notin> ids_of empty_db"
    by (simp_all add: append_row_def quiet_def empty_db_def in_step_def ids_of_def)
  note all = signup_syncs_tables [OF this, of toLowerCase]
  have "\<not> email_taken toLowerCase (ur_email demo_user) empty_db" "users empty_db = []" "db_now (quiet 7) = 7"
    by (simp_all add: email_taken_def empty_db_def quiet_def)
  with all show ?thesis by (metis append_Nil)
qed

text \<open>When another sign-up takes the address in \<open>users\<close> after the check and before the second hook,
  the second hook removes the Better Auth user again and leaves both tables as the other sign-up left
  them.\<close>

theorem lost_race_is_undone:
  assumes "\<forall>n. fails env n = None" "ur_id u \<notin> ids_of db" "list_ex (\<lambda>l. lu_email l = ur_email u) (users db)"
  shows "user_create_after env u (db\<lparr>ba_users := ba_users db @ [u]\<rparr>) = db"
proof -
  have new: "ur_id u \<notin> ur_id ` set (ba_users db)" "\<not> list_ex (\<lambda>l. lu_id l = ur_id u) (users db)"
    using fresh_id [OF assms(2)] by auto
  then show ?thesis using assms(1,3) freetrial_others [OF new(1)] by (simp add: hook_defs)
qed

definition raced_db :: auth_db where
  "raced_db = empty_db\<lparr>users := [new_legacy 1 (demo_user\<lparr>ur_id := ''u2''\<rparr>)]\<rparr>"

theorem lost_race_is_undone_witness:
  "user_create_after (quiet 7) demo_user (raced_db\<lparr>ba_users := ba_users raced_db @ [demo_user]\<rparr>) = raced_db"
  by (rule lost_race_is_undone) (simp_all add: quiet_def raced_db_def empty_db_def demo_user_def ids_of_def)

text \<open>C40: when the insert into \<open>users\<close> fails for any other reason, the sign-up still succeeds and the
  Better Auth user stays without a row in \<open>users\<close>.\<close>

theorem failed_sync_leaves_orphan:
  assumes "fails env 0 = None" "fails env 1 = None" "fails env 2 = Some code" "code \<noteq> Some ''23505''"
    "ba_insert u (ba_users db) = Some (ba_users db @ [u])" "\<not> email_taken lower (ur_email u) db" "ur_id u \<notin> ids_of db"
  shows "fst (create_user lower ba_insert env u db) = None
    \<and> \<not> in_step (snd (create_user lower ba_insert env u db))"
proof -
  have "\<not> list_ex (\<lambda>l. lu_id l = ur_id u \<and> lu_email l = ur_email u) (users db)"
    using fresh_id [OF assms(7)] by (auto simp: list_ex_iff)
  then have "\<not> in_step (set_freetrial (ur_id u) (db\<lparr>ba_users := ba_users db @ [u]\<rparr>))"
    by (simp add: in_step_set_freetrial) (simp add: in_step_def)
  then show ?thesis
    using assms(1-6) by (simp add: create_user_def user_create_before_def user_create_after_def sync_failed_def)
qed

theorem failed_sync_leaves_orphan_witness:
  "\<not> in_step (snd (create_user toLowerCase append_row
       ((quiet 7)\<lparr>fails := (\<lambda>n. if n = 2 then Some None else None)\<rparr>) demo_user empty_db))"
  using failed_sync_leaves_orphan [of "(quiet 7)\<lparr>fails := (\<lambda>n. if n = 2 then Some None else None)\<rparr>" None
      append_row demo_user empty_db toLowerCase]
  by (simp add: append_row_def empty_db_def ids_of_def email_taken_def quiet_def)

end
