(* ===== verification/Socket.thy ===== *)
theory Socket
  imports Prelude
begin

text \<open>
  The reconnecting WebSocket client, class \<open>ReconnectingWebSocket\<close> of
  \<open>src/frontend/src/lib/socket.ts\<close>.

  An object owns the native sockets it has created (\<open>natives\<close>, indexed by creation), of which
  \<open>rws_ws\<close> is the current one.  A native socket keeps its \<open>readyState\<close> and whether the callbacks
  are still attached (\<open>disconnect\<close> sets them to \<open>null\<close>).  The callbacks write to the object and not
  to the native socket that fired, as in the source.  Every operation returns the new object and the
  effects it has outside: sockets opened and closed, messages sent, handlers called.  Handlers are
  identified by numbers; a handler that itself calls \<open>on\<close> or \<open>off\<close> is a later step.
  The value of \<open>Math.floor(Math.random() * 1000)\<close> is the argument \<open>jitter\<close>, and the module variable
  \<open>sessionToken\<close> the argument \<open>token\<close>.
\<close>

datatype ready_state = CONNECTING | OPEN | CLOSING | CLOSED

record native =
  readyState :: ready_state
  attached :: bool

record rws =
  rws_url :: string
  natives :: "native list"
  rws_ws :: "nat option"
  handlers :: "(string, nat list) jsmap"
  reconnectTimer :: "int option"
  pingTimer :: "nat option"
  intervals :: "nat list"
  next_interval :: nat
  rws_connected :: bool
  intentionalClose :: bool
  authenticated :: bool
  reconnectAttempts :: nat

datatype effect =
    NewWebSocket nat string
  | SendMessage nat json
  | CloseWebSocket nat
  | CallHandler nat json

definition maxReconnectAttempts :: nat where "maxReconnectAttempts = 10"
definition baseReconnectDelay :: int where "baseReconnectDelay = 1000"
definition maxReconnectDelay :: int where "maxReconnectDelay = 30000"

definition new_rws :: "string \<Rightarrow> rws" where
  "new_rws url =
     \<lparr>rws_url = url, natives = [], rws_ws = None, handlers = [], reconnectTimer = None,
      pingTimer = None, intervals = [], next_interval = 0, rws_connected = False,
      intentionalClose = False, authenticated = False, reconnectAttempts = 0\<rparr>"

section \<open>Operations\<close>

definition current :: "rws \<Rightarrow> native option" where
  "current s = (case rws_ws s of None \<Rightarrow> None
                | Some i \<Rightarrow> if i < length (natives s) then Some (natives s ! i) else None)"

definition send :: "rws \<Rightarrow> json \<Rightarrow> effect list" where
  "send s data =
     (case rws_ws s of
        None \<Rightarrow> []
      | Some i \<Rightarrow> (case current s of
                     Some n \<Rightarrow> (if readyState n = OPEN then [SendMessage i data] else [])
                   | None \<Rightarrow> []))"

definition emit :: "rws \<Rightarrow> string \<Rightarrow> json \<Rightarrow> effect list" where
  "emit s event data =
     (case map_get (handlers s) event of None \<Rightarrow> [] | Some hs \<Rightarrow> map (\<lambda>h. CallHandler h data) hs)"

definition on :: "rws \<Rightarrow> string \<Rightarrow> nat \<Rightarrow> rws" where
  "on s event h =
     (let hs = (case map_get (handlers s) event of None \<Rightarrow> [] | Some hs \<Rightarrow> hs)
      in s\<lparr>handlers := map_set (handlers s) event (if h \<in> set hs then hs else hs @ [h])\<rparr>)"

definition off :: "rws \<Rightarrow> string \<Rightarrow> nat \<Rightarrow> rws" where
  "off s event h =
     (case map_get (handlers s) event of
        None \<Rightarrow> s
      | Some hs \<Rightarrow> s\<lparr>handlers := map_set (handlers s) event (filter (\<lambda>x. x \<noteq> h) hs)\<rparr>)"

definition connect :: "rws \<Rightarrow> rws \<times> effect list" where
  "connect s =
     (if (case current s of
            None \<Rightarrow> False
          | Some n \<Rightarrow> readyState n = OPEN \<or> readyState n = CONNECTING)
      then (s, [])
      else
        let i = length (natives s)
        in (s\<lparr>intentionalClose := False, authenticated := False,
              natives := natives s @ [\<lparr>readyState = CONNECTING, attached = True\<rparr>],
              rws_ws := Some i\<rparr>,
            [NewWebSocket i (rws_url s)]))"

definition auth_message :: "string \<Rightarrow> json" where
  "auth_message token = JObj [(''type'', JStr ''auth''), (''token'', JStr token)]"

definition onopen :: "string option \<Rightarrow> rws \<Rightarrow> rws \<times> effect list" where
  "onopen token s =
     (let s1 = s\<lparr>rws_connected := True, reconnectAttempts := 0\<rparr>;
          out1 = emit s1 ''open'' (JObj [(''type'', JStr ''open'')]);
          (s2, out2) =
            (if truthy token then (s1\<lparr>authenticated := True\<rparr>, send s1 (auth_message (the token)))
             else (s1, []));
          p = next_interval s2
      in (s2\<lparr>pingTimer := Some p, intervals := intervals s2 @ [p], next_interval := Suc p\<rparr>,
          out1 @ out2))"

text \<open>\<open>None\<close> is a message that is no JSON.  Reading \<open>data.type\<close> of \<open>null\<close> throws, which the
  handler ignores as well; a truthy type that is no string finds no handlers.\<close>

definition onmessage :: "string option \<Rightarrow> rws \<Rightarrow> json option \<Rightarrow> rws \<times> effect list" where
  "onmessage token s payload =
     (case payload of
        None \<Rightarrow> (s, [])
      | Some JNull \<Rightarrow> (s, [])
      | Some data \<Rightarrow>
          (if jget data ''type'' = Some (JStr ''auth_required'') \<and> truthy token \<and> \<not> authenticated s
           then (s\<lparr>authenticated := True\<rparr>, send s (auth_message (the token)))
           else
             (s, (case jget data ''type'' of
                    Some (JStr ty) \<Rightarrow> emit s (if ty = [] then ''raw'' else ty) data
                  | Some v \<Rightarrow> (if jtruthy v then [] else emit s ''raw'' data)
                  | None \<Rightarrow> emit s ''raw'' data)
                 @ emit s ''all'' data)))"

definition clear_ping :: "rws \<Rightarrow> rws" where
  "clear_ping s =
     (case pingTimer s of
        None \<Rightarrow> s
      | Some p \<Rightarrow> s\<lparr>intervals := filter (\<lambda>q. q \<noteq> p) (intervals s), pingTimer := None\<rparr>)"

definition backoff :: "nat \<Rightarrow> int \<Rightarrow> int" where
  "backoff attempts jitter =
     min maxReconnectDelay (baseReconnectDelay * 2 ^ attempts + jitter)"

definition scheduleReconnect :: "int \<Rightarrow> rws \<Rightarrow> rws" where
  "scheduleReconnect jitter s =
     (if intentionalClose s then s
      else if reconnectTimer s \<noteq> None then s
      else if reconnectAttempts s \<ge> maxReconnectAttempts then s
      else s\<lparr>reconnectTimer := Some (backoff (reconnectAttempts s) jitter),
             reconnectAttempts := Suc (reconnectAttempts s)\<rparr>)"

definition onclose :: "int \<Rightarrow> rws \<Rightarrow> rws \<times> effect list" where
  "onclose jitter s =
     (let s1 = clear_ping (s\<lparr>rws_connected := False, authenticated := False\<rparr>);
          out = emit s1 ''close'' (JObj [(''type'', JStr ''close'')])
      in (if intentionalClose s1 then s1 else scheduleReconnect jitter s1, out))"

text \<open>The callback of the reconnect timer.\<close>

definition reconnect_fires :: "rws \<Rightarrow> rws \<times> effect list" where
  "reconnect_fires s = connect (s\<lparr>reconnectTimer := None\<rparr>)"

definition ping_fires :: "rws \<Rightarrow> effect list" where
  "ping_fires s = send s (JObj [(''type'', JStr ''ping'')])"

text \<open>\<open>close()\<close> moves a native socket that is not closed to \<open>CLOSING\<close>.\<close>

definition close_native :: "native \<Rightarrow> native" where
  "close_native n =
     n\<lparr>attached := False, readyState := (if readyState n = CLOSED then CLOSED else CLOSING)\<rparr>"

definition disconnect :: "rws \<Rightarrow> rws \<times> effect list" where
  "disconnect s =
     (let s1 = clear_ping (s\<lparr>intentionalClose := True, reconnectAttempts := 0, reconnectTimer := None\<rparr>);
          (s2, out) =
            (case rws_ws s1 of
               None \<Rightarrow> (s1, [])
             | Some i \<Rightarrow> (s1\<lparr>natives := (natives s1)[i := close_native (natives s1 ! i)], rws_ws := None\<rparr>,
                          [CloseWebSocket i]))
      in (s2\<lparr>rws_connected := False, authenticated := False\<rparr>, out))"

section \<open>The machine\<close>

text \<open>What the browser and the owner can do to an object: a native socket opens, receives, starts
  closing or closes (the callbacks run when attached); a timer fires; the owner subscribes,
  unsubscribes or disconnects.  \<open>connect\<close> is called on creation and by the reconnect timer only.\<close>

definition set_native :: "nat \<Rightarrow> ready_state \<Rightarrow> rws \<Rightarrow> rws" where
  "set_native i st s = s\<lparr>natives := (natives s)[i := (natives s ! i)\<lparr>readyState := st\<rparr>]\<rparr>"

inductive ws_step :: "rws \<Rightarrow> effect list \<Rightarrow> rws \<Rightarrow> bool" where
  native_open: "i < length (natives s) \<Longrightarrow> readyState (natives s ! i) = CONNECTING \<Longrightarrow>
     attached (natives s ! i) \<Longrightarrow> onopen token (set_native i OPEN s) = (t, out) \<Longrightarrow> ws_step s out t"
| native_message: "i < length (natives s) \<Longrightarrow> readyState (natives s ! i) = OPEN \<Longrightarrow>
     attached (natives s ! i) \<Longrightarrow> onmessage token s payload = (t, out) \<Longrightarrow> ws_step s out t"
| native_closing: "i < length (natives s) \<Longrightarrow> readyState (natives s ! i) = OPEN \<Longrightarrow>
     ws_step s [] (set_native i CLOSING s)"
| native_close: "i < length (natives s) \<Longrightarrow> readyState (natives s ! i) \<noteq> CLOSED \<Longrightarrow>
     attached (natives s ! i) \<Longrightarrow> 0 \<le> jitter \<Longrightarrow> jitter < 1000 \<Longrightarrow>
     onclose jitter (set_native i CLOSED s) = (t, out) \<Longrightarrow> ws_step s out t"
| native_close_detached: "i < length (natives s) \<Longrightarrow> \<not> attached (natives s ! i) \<Longrightarrow>
     ws_step s [] (set_native i CLOSED s)"
| timer: "reconnectTimer s \<noteq> None \<Longrightarrow> reconnect_fires s = (t, out) \<Longrightarrow> ws_step s out t"
| ping: "p \<in> set (intervals s) \<Longrightarrow> ws_step s (ping_fires s) s"
| subscribe: "ws_step s [] (on s event h)"
| unsubscribe: "ws_step s [] (off s event h)"
| disconnects: "disconnect s = (t, out) \<Longrightarrow> ws_step s out t"

text \<open>An object starts its life with \<open>new ReconnectingWebSocket(url)\<close> and \<open>connect()\<close>.\<close>

definition ws_created :: "string \<Rightarrow> rws \<Rightarrow> bool" where
  "ws_created url s \<longleftrightarrow> s = fst (connect (new_rws url))"

section \<open>The invariant of an object\<close>

definition cur_state :: "rws \<Rightarrow> ready_state option" where
  "cur_state s = map_option readyState (current s)"

definition live :: "rws \<Rightarrow> nat \<Rightarrow> bool" where
  "live s i \<longleftrightarrow> i < length (natives s) \<and> attached (natives s ! i) \<and> readyState (natives s ! i) \<noteq> CLOSED"

definition ws_inv :: "rws \<Rightarrow> bool" where
  "ws_inv s \<longleftrightarrow>
     (\<forall>i. rws_ws s = Some i \<longrightarrow> i < length (natives s) \<and> attached (natives s ! i))
     \<and> (\<forall>i. live s i \<longrightarrow> rws_ws s = Some i)
     \<and> (rws_connected s \<longleftrightarrow> cur_state s = Some OPEN \<or> cur_state s = Some CLOSING)
     \<and> (pingTimer s \<noteq> None \<longleftrightarrow> rws_connected s)
     \<and> intervals s = (case pingTimer s of None \<Rightarrow> [] | Some p \<Rightarrow> [p])
     \<and> (\<forall>d. reconnectTimer s = Some d \<longrightarrow> cur_state s = Some CLOSED \<and> 1000 \<le> d \<and> d \<le> 30000)
     \<and> (intentionalClose s \<longleftrightarrow> rws_ws s = None)
     \<and> (authenticated s \<longrightarrow> rws_connected s)
     \<and> reconnectAttempts s \<le> 10
     \<and> (cur_state s = Some CLOSED \<longrightarrow> reconnectTimer s \<noteq> None \<or> reconnectAttempts s = 10)"

lemma ws_invD:
  assumes "ws_inv s"
  shows "rws_ws s = Some i \<Longrightarrow> i < length (natives s)"
    and "rws_ws s = Some i \<Longrightarrow> attached (natives s ! i)"
    and "live s i \<Longrightarrow> rws_ws s = Some i"
    and "rws_connected s \<longleftrightarrow> cur_state s = Some OPEN \<or> cur_state s = Some CLOSING"
    and "pingTimer s \<noteq> None \<longleftrightarrow> rws_connected s"
    and "intervals s = (case pingTimer s of None \<Rightarrow> [] | Some p \<Rightarrow> [p])"
    and "reconnectTimer s = Some d \<Longrightarrow> cur_state s = Some CLOSED \<and> 1000 \<le> d \<and> d \<le> 30000"
    and "intentionalClose s \<longleftrightarrow> rws_ws s = None"
    and "authenticated s \<Longrightarrow> rws_connected s"
    and "reconnectAttempts s \<le> 10"
    and "cur_state s = Some CLOSED \<Longrightarrow> reconnectTimer s \<noteq> None \<or> reconnectAttempts s = 10"
  using assms unfolding ws_inv_def by blast+

lemma cur_state_Some:
  "rws_ws s = Some i \<Longrightarrow> i < length (natives s) \<Longrightarrow> cur_state s = Some (readyState (natives s ! i))"
  by (simp add: cur_state_def current_def)

lemma set_native_simps [simp]:
  "rws_ws (set_native i st s) = rws_ws s" "rws_connected (set_native i st s) = rws_connected s"
  "pingTimer (set_native i st s) = pingTimer s" "intervals (set_native i st s) = intervals s"
  "reconnectTimer (set_native i st s) = reconnectTimer s"
  "intentionalClose (set_native i st s) = intentionalClose s"
  "authenticated (set_native i st s) = authenticated s"
  "reconnectAttempts (set_native i st s) = reconnectAttempts s"
  "next_interval (set_native i st s) = next_interval s" "rws_url (set_native i st s) = rws_url s"
  "handlers (set_native i st s) = handlers s"
  "length (natives (set_native i st s)) = length (natives s)"
  by (simp_all add: set_native_def)

lemma set_native_nth:
  "j < length (natives s) \<Longrightarrow>
   natives (set_native i st s) ! j = (if j = i then (natives s ! i)\<lparr>readyState := st\<rparr> else natives s ! j)"
  by (simp add: set_native_def nth_list_update)

lemma cur_state_set_native:
  "i < length (natives s) \<Longrightarrow>
   cur_state (set_native i st s) = (if rws_ws s = Some i then Some st else cur_state s)"
  by (auto simp: cur_state_def current_def set_native_nth split: option.splits)

lemma live_set_native:
  "live (set_native i st s) j \<longleftrightarrow>
   j < length (natives s) \<and> attached (natives s ! j) \<and>
   (if j = i then st \<noteq> CLOSED else readyState (natives s ! j) \<noteq> CLOSED)"
  by (auto simp: live_def set_native_nth)

text \<open>Operations that keep the fields the invariant reads from.\<close>

lemma cur_state_cong: "rws_ws t = rws_ws s \<Longrightarrow> natives t = natives s \<Longrightarrow> cur_state t = cur_state s"
  by (simp add: cur_state_def current_def split: option.splits)

lemma live_cong: "natives t = natives s \<Longrightarrow> live t i = live s i"
  by (simp add: live_def)

lemma ws_inv_cong:
  assumes "rws_ws t = rws_ws s" "natives t = natives s" "rws_connected t = rws_connected s"
    "pingTimer t = pingTimer s" "intervals t = intervals s" "reconnectTimer t = reconnectTimer s"
    "intentionalClose t = intentionalClose s" "authenticated t = authenticated s"
    "reconnectAttempts t = reconnectAttempts s"
  shows "ws_inv t = ws_inv s"
  unfolding ws_inv_def assms cur_state_cong [OF assms(1,2)] live_cong [OF assms(2)] by (rule refl)

lemma ws_inv_on [inv_intros]: "ws_inv (on s event h) = ws_inv s"
  by (rule ws_inv_cong) (simp_all add: on_def Let_def)

lemma ws_inv_off [inv_intros]: "ws_inv (off s event h) = ws_inv s"
  by (rule ws_inv_cong) (simp_all add: off_def split: option.splits)

lemma connect_fresh:
  "cur_state s \<noteq> Some OPEN \<Longrightarrow> cur_state s \<noteq> Some CONNECTING \<Longrightarrow>
   fst (connect s) = s\<lparr>intentionalClose := False, authenticated := False,
              natives := natives s @ [\<lparr>readyState = CONNECTING, attached = True\<rparr>],
              rws_ws := Some (length (natives s))\<rparr>"
  by (auto simp: connect_def cur_state_def Let_def split: option.splits)

text \<open>Connecting when no earlier socket is live.\<close>

lemma ws_inv_connect_fresh:
  assumes "\<forall>i. \<not> live s i" "cur_state s = None \<or> cur_state s = Some CLOSED"
    "\<not> rws_connected s" "pingTimer s = None" "intervals s = []" "reconnectTimer s = None"
    "reconnectAttempts s \<le> 10"
  shows "ws_inv (fst (connect s))"
proof -
  let ?n = "length (natives s)"
  have eq: "fst (connect s) = s\<lparr>intentionalClose := False, authenticated := False,
      natives := natives s @ [\<lparr>readyState = CONNECTING, attached = True\<rparr>], rws_ws := Some ?n\<rparr>"
    by (rule connect_fresh) (use assms(2) in auto)
  have "cur_state (fst (connect s)) = Some CONNECTING"
    by (simp add: eq cur_state_def current_def)
  moreover have "live (fst (connect s)) i \<longleftrightarrow> i = ?n" for i
    using assms(1) by (auto simp: eq live_def nth_append less_Suc_eq)
  ultimately show ?thesis
    using assms by (simp add: ws_inv_def eq)
qed

lemma ws_inv_new: "ws_inv (fst (connect (new_rws url)))"
  by (rule ws_inv_connect_fresh) (simp_all add: new_rws_def live_def cur_state_def current_def)

lemma ws_inv_timer:
  assumes "ws_inv s" "reconnectTimer s \<noteq> None"
  shows "ws_inv (fst (reconnect_fires s))"
proof -
  have cl: "cur_state s = Some CLOSED" using assms by (auto dest: ws_invD(7))
  then obtain i where i: "rws_ws s = Some i" "readyState (natives s ! i) = CLOSED"
    by (auto simp: cur_state_def current_def split: option.splits if_splits)
  have "\<forall>j. \<not> live s j"
  proof
    fix j show "\<not> live s j"
      using ws_invD(3) [OF assms(1), of j] i by (auto simp: live_def)
  qed
  then show ?thesis
    unfolding reconnect_fires_def
    using cl ws_invD(4,5,6,10) [OF assms(1)]
      cur_state_cong [of "s\<lparr>reconnectTimer := None\<rparr>" s] live_cong [of "s\<lparr>reconnectTimer := None\<rparr>" s]
    by (intro ws_inv_connect_fresh) simp_all
qed

lemma clear_ping_simps [simp]:
  "rws_ws (clear_ping s) = rws_ws s" "natives (clear_ping s) = natives s"
  "rws_connected (clear_ping s) = rws_connected s" "pingTimer (clear_ping s) = None"
  "reconnectTimer (clear_ping s) = reconnectTimer s"
  "intentionalClose (clear_ping s) = intentionalClose s"
  "authenticated (clear_ping s) = authenticated s" "reconnectAttempts (clear_ping s) = reconnectAttempts s"
  by (simp_all add: clear_ping_def split: option.splits)

lemma clear_ping_intervals:
  "intervals s = (case pingTimer s of None \<Rightarrow> [] | Some p \<Rightarrow> [p]) \<Longrightarrow> intervals (clear_ping s) = []"
  by (simp add: clear_ping_def split: option.splits)

lemma cur_state_clear_ping [simp]: "cur_state (clear_ping s) = cur_state s"
  by (rule cur_state_cong) simp_all

lemma live_clear_ping [simp]: "live (clear_ping s) = live s"
  by (simp add: live_def fun_eq_iff)

lemma backoff_bounds:
  assumes "0 \<le> jitter" "jitter < 1000"
  shows "1000 \<le> backoff k jitter \<and> backoff k jitter \<le> 30000"
proof -
  have "(1000::int) * 1 \<le> 1000 * 2 ^ k" by (intro mult_left_mono) simp_all
  then show ?thesis using assms
    unfolding backoff_def maxReconnectDelay_def baseReconnectDelay_def by linarith
qed

lemma ws_inv_open:
  assumes inv: "ws_inv s" and i: "i < length (natives s)" "readyState (natives s ! i) = CONNECTING"
    "attached (natives s ! i)"
  shows "ws_inv (fst (onopen token (set_native i OPEN s)))"
proof -
  let ?s = "set_native i OPEN s"
  let ?t = "fst (onopen token ?s)"
  have ws: "rws_ws s = Some i" using ws_invD(3) [OF inv, of i] i by (simp add: live_def)
  have cur: "cur_state s = Some CONNECTING" using cur_state_Some [OF ws i(1)] i(2) by simp
  have disc: "\<not> rws_connected s" and png: "pingTimer s = None" "intervals s = []"
    using cur ws_invD(4,5,6) [OF inv] by auto
  have tm: "reconnectTimer s = None"
    using cur ws_invD(7) [OF inv] by (cases "reconnectTimer s") auto
  have t: "rws_ws ?t = Some i" "natives ?t = natives ?s" "rws_connected ?t" "intervals ?t = [next_interval s]"
    "pingTimer ?t = Some (next_interval s)" "reconnectTimer ?t = None" "\<not> intentionalClose ?t"
    "reconnectAttempts ?t = 0"
    using ws png tm ws_invD(8) [OF inv] by (simp_all add: onopen_def Let_def)
  have "cur_state ?t = Some OPEN"
    using cur_state_cong [of ?t ?s] t ws i(1) by (simp add: cur_state_set_native)
  moreover have "live ?t j \<longleftrightarrow> live s j" for j
    unfolding live_cong [OF t(2)] live_set_native using i by (auto simp: live_def)
  ultimately show ?thesis
    unfolding ws_inv_def using t ws i ws_invD(1,2,3) [OF inv]
    by (auto simp: set_native_nth)
qed

lemma ws_inv_message:
  assumes inv: "ws_inv s" and i: "i < length (natives s)" "readyState (natives s ! i) = OPEN"
    "attached (natives s ! i)"
  shows "ws_inv (fst (onmessage token s payload))"
proof -
  have ws: "rws_ws s = Some i" using ws_invD(3) [OF inv, of i] i by (simp add: live_def)
  have con: "rws_connected s"
    using cur_state_Some [OF ws i(1)] i(2) ws_invD(4) [OF inv] by simp
  have "ws_inv (s\<lparr>authenticated := True\<rparr>)"
    using inv con cur_state_cong [of "s\<lparr>authenticated := True\<rparr>" s] live_cong [of "s\<lparr>authenticated := True\<rparr>" s]
    unfolding ws_inv_def by simp
  then show ?thesis using inv
    by (auto simp: onmessage_def split: option.splits json.splits)
qed

lemma ws_inv_closing:
  assumes inv: "ws_inv s" and i: "i < length (natives s)" "readyState (natives s ! i) = OPEN"
  shows "ws_inv (set_native i CLOSING s)"
proof -
  have live_eq: "live (set_native i CLOSING s) j \<longleftrightarrow> live s j" for j
    unfolding live_set_native using i by (auto simp: live_def)
  have att: "j < length (natives s) \<Longrightarrow> attached (natives (set_native i CLOSING s) ! j) = attached (natives s ! j)" for j
    by (simp add: set_native_nth)
  have cur: "cur_state (set_native i CLOSING s) =
      (if rws_ws s = Some i then Some CLOSING else cur_state s)"
    using i(1) by (rule cur_state_set_native)
  show ?thesis
  proof (cases "rws_ws s = Some i")
    case True
    then have old: "cur_state s = Some OPEN" using cur_state_Some [OF True i(1)] i(2) by simp
    have tm: "reconnectTimer s = None" using old ws_invD(7) [OF inv] by (cases "reconnectTimer s") auto
    show ?thesis
      unfolding ws_inv_def live_eq using ws_invD [OF inv] old cur True att tm by simp
  next
    case False
    with inv cur show ?thesis unfolding ws_inv_def live_eq using att by auto
  qed
qed

lemma ws_inv_close_detached:
  assumes inv: "ws_inv s" and i: "i < length (natives s)" "\<not> attached (natives s ! i)"
  shows "ws_inv (set_native i CLOSED s)"
proof -
  have live_eq: "live (set_native i CLOSED s) j \<longleftrightarrow> live s j" for j
    unfolding live_set_native using i by (auto simp: live_def)
  have att: "j < length (natives s) \<Longrightarrow> attached (natives (set_native i CLOSED s) ! j) = attached (natives s ! j)" for j
    by (simp add: set_native_nth)
  have "rws_ws s \<noteq> Some i" using ws_invD(2) [OF inv, of i] i(2) by auto
  with inv show ?thesis
    unfolding ws_inv_def live_eq using att cur_state_set_native [OF i(1), of CLOSED] by auto
qed

lemma scheduleReconnect_simps [simp]:
  "rws_ws (scheduleReconnect j s) = rws_ws s" "natives (scheduleReconnect j s) = natives s"
  "rws_connected (scheduleReconnect j s) = rws_connected s" "pingTimer (scheduleReconnect j s) = pingTimer s"
  "intervals (scheduleReconnect j s) = intervals s"
  "intentionalClose (scheduleReconnect j s) = intentionalClose s"
  "authenticated (scheduleReconnect j s) = authenticated s"
  by (simp_all add: scheduleReconnect_def)

lemma ws_inv_close:
  assumes inv: "ws_inv s" and i: "i < length (natives s)" "readyState (natives s ! i) \<noteq> CLOSED"
    "attached (natives s ! i)" and j: "0 \<le> jitter" "jitter < 1000"
  shows "ws_inv (fst (onclose jitter (set_native i CLOSED s)))"
proof -
  let ?s = "set_native i CLOSED s"
  let ?t = "fst (onclose jitter ?s)"
  define u where "u = clear_ping (?s\<lparr>rws_connected := False, authenticated := False\<rparr>)"
  have ws: "rws_ws s = Some i" using ws_invD(3) [OF inv, of i] i by (simp add: live_def)
  have ic: "\<not> intentionalClose s" using ws_invD(8) [OF inv] ws by simp
  have tm: "reconnectTimer s = None"
    using ws_invD(7) [OF inv] cur_state_Some [OF ws i(1)] i(2) by (cases "reconnectTimer s") auto
  have u: "rws_ws u = Some i" "natives u = natives ?s" "\<not> rws_connected u" "pingTimer u = None"
    "\<not> authenticated u" "\<not> intentionalClose u" "reconnectTimer u = None" "reconnectAttempts u \<le> 10"
    "intervals u = []"
    using ws ic tm ws_invD(6,10) [OF inv] by (simp_all add: u_def clear_ping_intervals)
  have t: "?t = scheduleReconnect jitter u"
    using u(6) by (simp add: onclose_def Let_def u_def)
  have "cur_state ?t = Some CLOSED"
    using cur_state_cong [of ?t ?s] u(1,2) t ws i(1) by (simp add: cur_state_set_native)
  moreover have "\<not> live ?t k" for k
  proof (cases "k = i")
    case True
    then show ?thesis using live_cong [of ?t ?s] u(2) t by (simp add: live_set_native)
  next
    case False
    then have "\<not> live s k" using ws_invD(3) [OF inv, of k] ws by auto
    then show ?thesis using live_cong [of ?t ?s] u(2) t False by (simp add: live_set_native) (simp add: live_def)
  qed
  moreover have "(reconnectTimer ?t = Some (backoff (reconnectAttempts u) jitter) \<and>
        reconnectAttempts ?t = Suc (reconnectAttempts u) \<and> reconnectAttempts u < 10) \<or>
      (reconnectTimer ?t = None \<and> reconnectAttempts ?t = 10)"
    using u t by (simp add: scheduleReconnect_def maxReconnectAttempts_def)
  ultimately show ?thesis
    unfolding ws_inv_def using u t ws i ws_invD(2) [OF inv] backoff_bounds [OF j]
    by (auto simp: set_native_nth)
qed

lemma ws_inv_disconnect:
  assumes inv: "ws_inv s"
  shows "ws_inv (fst (disconnect s))"
proof -
  let ?t = "fst (disconnect s)"
  define u where "u = clear_ping (s\<lparr>intentionalClose := True, reconnectAttempts := 0, reconnectTimer := None\<rparr>)"
  have u: "rws_ws u = rws_ws s" "natives u = natives s" "pingTimer u = None" "reconnectTimer u = None"
    "intentionalClose u" "reconnectAttempts u = 0" "intervals u = []"
    using ws_invD(6) [OF inv] by (simp_all add: u_def clear_ping_intervals)
  have t: "rws_ws ?t = None" "\<not> rws_connected ?t" "pingTimer ?t = None" "intervals ?t = []"
    "reconnectTimer ?t = None" "intentionalClose ?t" "\<not> authenticated ?t" "reconnectAttempts ?t = 0"
    using u by (auto simp: disconnect_def u_def [symmetric] Let_def split: option.splits)
  have nat: "natives ?t = (case rws_ws s of None \<Rightarrow> natives s
      | Some i \<Rightarrow> (natives s)[i := close_native (natives s ! i)])"
    using u(1,2) by (auto simp: disconnect_def u_def [symmetric] Let_def split: option.splits)
  have "\<not> live ?t k" for k
  proof (cases "rws_ws s = Some k")
    case True
    then show ?thesis by (auto simp: live_def nat close_native_def)
  next
    case False
    then have "\<not> live s k" using ws_invD(3) [OF inv, of k] by auto
    with False show ?thesis by (auto simp: live_def nat split: option.splits)
  qed
  moreover have "cur_state ?t = None" using t(1) by (simp add: cur_state_def current_def)
  ultimately show ?thesis unfolding ws_inv_def using t by simp
qed

lemma ws_step_inv: "ws_step s out t \<Longrightarrow> ws_inv s \<Longrightarrow> ws_inv t"
proof (induction rule: ws_step.induct)
  case (native_open i s token t out)
  then show ?case using ws_inv_open [of s i token] by simp
next
  case (native_message i s token payload t out)
  then show ?case using ws_inv_message [of s i token payload] by simp
next
  case (native_close i s jitter t out)
  then show ?case using ws_inv_close [of s i jitter] by simp
next
  case (timer s t out)
  then show ?case using ws_inv_timer [of s] by simp
next
  case (disconnects s t out)
  then show ?case using ws_inv_disconnect [of s] by simp
qed (simp_all add: ws_inv_closing ws_inv_close_detached ws_inv_on ws_inv_off)

interpretation wsm: machine "ws_created url" ws_step ws_inv for url
  by unfold_locales (auto simp: ws_created_def ws_inv_new intro: ws_step_inv)

section \<open>Closed for good\<close>

text \<open>After \<open>disconnect\<close> the object has no socket.\<close>

lemma closed_no_live: "ws_inv s \<Longrightarrow> intentionalClose s \<Longrightarrow> \<not> live s i"
  using ws_invD(3,8) [of s] by fastforce

lemma closed_idle:
  assumes "ws_inv s" "intentionalClose s"
  shows "reconnectTimer s = None" "intervals s = []" "rws_ws s = None"
proof -
  show ws: "rws_ws s = None" using ws_invD(8) [OF assms(1)] assms(2) by simp
  then have cur: "cur_state s = None" by (simp add: cur_state_def current_def)
  show "reconnectTimer s = None" using ws_invD(7) [OF assms(1)] cur by (cases "reconnectTimer s") auto
  show "intervals s = []" using ws_invD(4,5,6) [OF assms(1)] cur by auto
qed

lemma closed_step:
  assumes "ws_inv s" "intentionalClose s" "ws_step s out t"
  shows "intentionalClose t \<and> out = []"
  using assms(3)
proof (cases rule: ws_step.cases)
  case (native_open i token)
  then show ?thesis using closed_no_live [OF assms(1,2), of i] by (simp add: live_def)
next
  case (native_message i token payload)
  then show ?thesis using closed_no_live [OF assms(1,2), of i] by (simp add: live_def)
next
  case (native_close i jitter)
  then show ?thesis using closed_no_live [OF assms(1,2), of i] by (simp add: live_def)
next
  case disconnects
  then show ?thesis using closed_idle [OF assms(1,2)]
    by (auto simp: disconnect_def Let_def split: option.splits)
qed (use assms closed_idle [OF assms(1,2)] in \<open>auto simp: on_def off_def Let_def split: option.splits\<close>)

lemma disconnect_closes: "intentionalClose (fst (disconnect s))"
  by (auto simp: disconnect_def Let_def split: option.splits)

section \<open>Halted for good\<close>

text \<open>The state after the last allowed reconnect attempt has failed.\<close>

definition halted :: "rws \<Rightarrow> bool" where
  "halted s \<longleftrightarrow> cur_state s = Some CLOSED \<and> reconnectTimer s = None"

definition opens_socket :: "effect list \<Rightarrow> bool" where
  "opens_socket out \<longleftrightarrow> list_ex (\<lambda>e. case e of NewWebSocket _ _ \<Rightarrow> True | _ \<Rightarrow> False) out"

lemma halted_no_live: "ws_inv s \<Longrightarrow> halted s \<Longrightarrow> \<not> live s i"
  using ws_invD(3) [of s i] by (auto simp: halted_def live_def cur_state_def current_def split: option.splits if_splits)

lemma opens_socket_disconnect: "\<not> opens_socket (snd (disconnect s))"
  by (auto simp: opens_socket_def disconnect_def Let_def split: option.splits)

lemma halted_step:
  assumes "ws_inv s" "halted s \<or> intentionalClose s" "ws_step s out t"
  shows "(halted t \<or> intentionalClose t) \<and> \<not> opens_socket out"
proof (cases "intentionalClose s")
  case True
  then show ?thesis using closed_step [OF assms(1) True assms(3)] by (simp add: opens_socket_def)
next
  case False
  with assms(2) have h: "halted s" by simp
  have noping: "intervals s = []" using ws_invD(4,5,6) [OF assms(1)] h by (auto simp: halted_def)
  show ?thesis
    using assms(3)
  proof (cases rule: ws_step.cases)
    case (native_open i token)
    then show ?thesis using halted_no_live [OF assms(1) h, of i] by (simp add: live_def)
  next
    case (native_message i token payload)
    then show ?thesis using halted_no_live [OF assms(1) h, of i] by (simp add: live_def)
  next
    case (native_close i jitter)
    then show ?thesis using halted_no_live [OF assms(1) h, of i] by (simp add: live_def)
  next
    case (native_closing i)
    then show ?thesis using h cur_state_set_native [of i s CLOSING] ws_invD(2) [OF assms(1), of i]
        halted_no_live [OF assms(1) h, of i]
      by (auto simp: halted_def opens_socket_def live_def)
  next
    case (native_close_detached i)
    then show ?thesis using h cur_state_set_native [of i s CLOSED]
      by (auto simp: halted_def opens_socket_def)
  next
    case (timer)
    then show ?thesis using h by (simp add: halted_def)
  next
    case (ping p)
    then show ?thesis using noping by simp
  next
    case (subscribe event h')
    then show ?thesis using h cur_state_cong [of t s] by (simp add: halted_def opens_socket_def on_def Let_def)
  next
    case (unsubscribe event h')
    then show ?thesis using h cur_state_cong [of t s]
      by (simp add: halted_def opens_socket_def off_def split: option.splits)
  next
    case disconnects
    then show ?thesis using disconnect_closes [of s] opens_socket_disconnect [of s] by simp
  qed
qed

section \<open>Reconnecting\<close>

lemma closed_has_current:
  "cur_state s = Some CLOSED \<Longrightarrow> \<exists>i. rws_ws s = Some i \<and> i < length (natives s)"
  by (auto simp: cur_state_def current_def split: option.splits if_splits)

lemma reconnect_fires_closed:
  assumes "cur_state s = Some CLOSED"
  shows "snd (reconnect_fires s) = [NewWebSocket (length (natives s)) (rws_url s)]"
    and "cur_state (fst (reconnect_fires s)) = Some CONNECTING"
    and "reconnectAttempts (fst (reconnect_fires s)) = reconnectAttempts s"
proof -
  have "current (s\<lparr>reconnectTimer := None\<rparr>) = current s" by (simp add: current_def split: option.splits)
  moreover obtain n where n: "current s = Some n" "readyState n = CLOSED"
    using assms by (auto simp: cur_state_def)
  ultimately have eq: "reconnect_fires s =
      (s\<lparr>reconnectTimer := None, intentionalClose := False, authenticated := False,
         natives := natives s @ [\<lparr>readyState = CONNECTING, attached = True\<rparr>],
         rws_ws := Some (length (natives s))\<rparr>, [NewWebSocket (length (natives s)) (rws_url s)])"
    by (simp add: reconnect_fires_def connect_def Let_def)
  show "snd (reconnect_fires s) = [NewWebSocket (length (natives s)) (rws_url s)]"
    and "cur_state (fst (reconnect_fires s)) = Some CONNECTING"
    and "reconnectAttempts (fst (reconnect_fires s)) = reconnectAttempts s"
    by (simp_all add: eq cur_state_def current_def)
qed

text \<open>A connection attempt that fails while attempts are left.\<close>

lemma connecting_closes:
  assumes inv: "ws_inv s" and cur: "cur_state s = Some CONNECTING"
  shows "\<exists>t out. ws_step s out t \<and> cur_state t = Some CLOSED
    \<and> reconnectAttempts t = (if reconnectAttempts s < 10 then Suc (reconnectAttempts s) else reconnectAttempts s)
    \<and> (reconnectTimer t \<noteq> None \<longleftrightarrow> reconnectAttempts s < 10)"
proof -
  obtain i where i: "rws_ws s = Some i" "i < length (natives s)" "readyState (natives s ! i) = CONNECTING"
    using cur by (auto simp: cur_state_def current_def split: option.splits if_splits)
  have att: "attached (natives s ! i)" by (rule ws_invD(2) [OF inv i(1)])
  have ic: "\<not> intentionalClose s" using ws_invD(8) [OF inv] i(1) by simp
  have tm: "reconnectTimer s = None" using ws_invD(7) [OF inv] cur by (cases "reconnectTimer s") auto
  let ?r = "onclose 0 (set_native i CLOSED s)"
  have step: "ws_step s (snd ?r) (fst ?r)"
    by (rule ws_step.native_close [of i _ 0]) (use i att in auto)
  have "cur_state (fst ?r) = Some CLOSED"
    using cur_state_cong [of "fst ?r" "set_native i CLOSED s"] cur_state_set_native [OF i(2), of CLOSED] i(1)
    by (simp add: onclose_def Let_def)
  moreover have "reconnectAttempts (fst ?r) =
        (if reconnectAttempts s < 10 then Suc (reconnectAttempts s) else reconnectAttempts s)"
      "reconnectTimer (fst ?r) \<noteq> None \<longleftrightarrow> reconnectAttempts s < 10"
    using ic tm by (simp_all add: onclose_def Let_def scheduleReconnect_def maxReconnectAttempts_def)
  ultimately show ?thesis using step by blast
qed

lemma retry_reachable:
  "k \<le> 10 \<Longrightarrow> \<exists>s. reach (ws_created url) ws_step s \<and> cur_state s = Some CONNECTING \<and> reconnectAttempts s = k"
proof (induction k)
  case 0
  have "cur_state (fst (connect (new_rws url))) = Some CONNECTING"
    "reconnectAttempts (fst (connect (new_rws url))) = 0"
    by (simp_all add: connect_def new_rws_def current_def cur_state_def Let_def)
  then show ?case by (metis reach_start ws_created_def)
next
  case (Suc k)
  then obtain s where s: "reach (ws_created url) ws_step s" "cur_state s = Some CONNECTING"
    "reconnectAttempts s = k" by auto
  obtain t out where t: "ws_step s out t" "cur_state t = Some CLOSED" "reconnectAttempts t = Suc k"
      "reconnectTimer t \<noteq> None"
    using connecting_closes [OF wsm.reach_inv [OF s(1)] s(2)] s(3) Suc.prems by (auto split: if_splits)
  have "ws_step t (snd (reconnect_fires t)) (fst (reconnect_fires t))"
    by (rule ws_step.timer [OF t(4)]) simp
  then show ?case
    using reconnect_fires_closed [OF t(2)] t(3) reach_step [OF reach_step [OF s(1) t(1)]] by metis
qed

lemma halted_reachable: "\<exists>s. reach (ws_created url) ws_step s \<and> halted s"
proof -
  obtain s where s: "reach (ws_created url) ws_step s" "cur_state s = Some CONNECTING"
    "reconnectAttempts s = 10" using retry_reachable [of 10] by auto
  obtain t out where "ws_step s out t" "cur_state t = Some CLOSED" "reconnectTimer t = None"
    using connecting_closes [OF wsm.reach_inv [OF s(1)] s(2)] s(3) by auto
  then show ?thesis using reach_step [OF s(1)] by (auto simp: halted_def)
qed

lemma halted_run:
  assumes "ws_inv s" "halted s" "run ws_step s outs t"
  shows "list_all (\<lambda>out. \<not> opens_socket out) outs \<and> \<not> rws_connected t"
proof -
  have "(halted t \<or> intentionalClose t) \<and> list_all (\<lambda>out. \<not> opens_socket out) outs"
    using wsm.run_keeps [of "\<lambda>s. halted s \<or> intentionalClose s" "\<lambda>out. \<not> opens_socket out", OF _ assms(3,1)]
      halted_step assms(2) by blast
  moreover have "rws_connected t \<Longrightarrow> \<not> (halted t \<or> intentionalClose t)"
    using ws_invD(4,8) [OF wsm.run_inv [OF assms(3,1)]]
    by (auto simp: halted_def cur_state_def current_def)
  ultimately show ?thesis by blast
qed

text \<open>A disconnected object stays silent.\<close>

lemma closed_run:
  assumes "ws_inv s" "intentionalClose s" "run ws_step s outs t"
  shows "list_all (\<lambda>out. out = []) outs \<and> \<not> rws_connected t"
proof -
  have "intentionalClose t \<and> list_all (\<lambda>out. out = []) outs"
    using wsm.run_keeps [of intentionalClose "\<lambda>out. out = []", OF _ assms(3,1,2)] closed_step by blast
  moreover have "rws_connected t \<longrightarrow> \<not> intentionalClose t"
    using ws_invD(4,8) [OF wsm.run_inv [OF assms(3,1)]] by (auto simp: cur_state_def current_def)
  ultimately show ?thesis by blast
qed

section \<open>Properties\<close>

definition demo_ws :: rws where
  "demo_ws = fst (connect (new_rws ''ws://h/ws/chats/1''))"

lemma demo_ws_reach: "reach (ws_created ''ws://h/ws/chats/1'') ws_step demo_ws"
  by (rule reach_start) (simp add: ws_created_def demo_ws_def)

text \<open>C3: in every reachable state of a socket object at most one native socket is attached and not
  closed, at most one keep-alive interval runs and it runs exactly while \<open>connected\<close> holds, at most
  ten reconnect attempts are counted, and a pending reconnect waits between 1 and 30 seconds.\<close>

theorem socket_reachable_safe:
  assumes "reach (ws_created url) ws_step s"
  shows "card {i. live s i} \<le> 1 \<and> length (intervals s) \<le> 1 \<and> (rws_connected s \<longleftrightarrow> intervals s \<noteq> [])
    \<and> reconnectAttempts s \<le> 10 \<and> (reconnectTimer s = None \<or> the (reconnectTimer s) \<in> {1000..30000})"
proof -
  note inv = wsm.reach_inv [OF assms]
  have "{i. live s i} \<subseteq> set_option (rws_ws s)" using ws_invD(3) [OF inv] by auto
  then have "card {i. live s i} \<le> card (set_option (rws_ws s))" by (rule card_mono [rotated]) simp
  also have "\<dots> \<le> 1" by (cases "rws_ws s") auto
  finally have "card {i. live s i} \<le> 1" .
  then show ?thesis using ws_invD(5,6,7,10) [OF inv] by (auto split: option.splits)
qed

theorem socket_reachable_safe_witness:
  "card {i. live demo_ws i} \<le> 1 \<and> length (intervals demo_ws) \<le> 1
    \<and> (rws_connected demo_ws \<longleftrightarrow> intervals demo_ws \<noteq> []) \<and> reconnectAttempts demo_ws \<le> 10
    \<and> (reconnectTimer demo_ws = None \<or> the (reconnectTimer demo_ws) \<in> {1000..30000})"
  by (rule socket_reachable_safe [OF demo_ws_reach])

text \<open>C4: after \<open>disconnect()\<close> the object is inert: whatever the browser and its owner do later, it
  opens no socket, sends nothing and calls no handler, and it is never connected again.\<close>

theorem disconnect_is_final:
  assumes "reach (ws_created url) ws_step s" and "run ws_step (fst (disconnect s)) outs t"
  shows "list_all (\<lambda>out. out = []) outs \<and> \<not> rws_connected t"
  by (rule closed_run [OF ws_inv_disconnect [OF wsm.reach_inv [OF assms(1)]] disconnect_closes assms(2)])

theorem disconnect_is_final_witness:
  "list_all (\<lambda>out. out = ([] :: effect list)) [[]] \<and> \<not> rws_connected (on (fst (disconnect demo_ws)) ''all'' 7)"
  by (rule disconnect_is_final [OF demo_ws_reach]) (simp add: ws_step.subscribe)

text \<open>Once the last of the ten reconnect attempts has failed the object stays dead: no later step
  opens a socket, and it is never connected again.\<close>

theorem halted_never_reconnects:
  assumes "reach (ws_created url) ws_step s" "halted s" and "run ws_step s outs t"
  shows "list_all (\<lambda>out. \<not> opens_socket out) outs \<and> \<not> rws_connected t"
  by (rule halted_run [OF wsm.reach_inv [OF assms(1)] assms(2,3)])

theorem halted_never_reconnects_witness:
  "\<exists>s. halted s \<and> list_all (\<lambda>out. \<not> opens_socket out) [[]] \<and> \<not> rws_connected (on s ''open'' 1)"
proof -
  obtain s where s: "reach (ws_created ''u'') ws_step s" "halted s" using halted_reachable by blast
  have "run ws_step s [[]] (on s ''open'' 1)" by (simp add: ws_step.subscribe)
  then show ?thesis using s halted_never_reconnects [OF s] by blast
qed

text \<open>C38: a connection that was lost while attempts are left has a reconnect pending, and when its
  timer fires exactly one new socket is opened, to the same address.\<close>

theorem lost_connection_is_retried:
  assumes "reach (ws_created url) ws_step s" "cur_state s = Some CLOSED" "reconnectAttempts s < 10"
  shows "\<exists>d t. reconnectTimer s = Some d \<and>
    ws_step s [NewWebSocket (length (natives s)) (rws_url s)] t \<and> cur_state t = Some CONNECTING"
proof -
  obtain d where d: "reconnectTimer s = Some d"
    using ws_invD(11) [OF wsm.reach_inv [OF assms(1)] assms(2)] assms(3) by auto
  have "ws_step s (snd (reconnect_fires s)) (fst (reconnect_fires s))"
    by (rule ws_step.timer) (simp_all add: d)
  then show ?thesis using d reconnect_fires_closed [OF assms(2)] by auto
qed

theorem lost_connection_is_retried_witness:
  "\<exists>s d t. reconnectTimer s = Some d \<and>
    ws_step s [NewWebSocket (length (natives s)) (rws_url s)] t \<and> cur_state t = Some CONNECTING"
proof -
  obtain s where s: "reach (ws_created ''u'') ws_step s" "cur_state s = Some CONNECTING"
    "reconnectAttempts s = 3" using retry_reachable [of 3] by auto
  obtain t out where t: "ws_step s out t" "cur_state t = Some CLOSED" "reconnectAttempts t = 4"
    using connecting_closes [OF wsm.reach_inv [OF s(1)] s(2)] s(3) by auto
  have "\<exists>d u. reconnectTimer t = Some d \<and>
    ws_step t [NewWebSocket (length (natives t)) (rws_url t)] u \<and> cur_state u = Some CONNECTING"
    by (rule lost_connection_is_retried [OF reach_step [OF s(1) t(1)] t(2)]) (simp add: t(3))
  then show ?thesis by blast
qed

text \<open>The session token is sent at most once per connection: a step that sends it starts from an
  object that has not authenticated on its current socket and ends in one that has.\<close>

theorem auth_sent_once:
  assumes "reach (ws_created url) ws_step s" "ws_step s out t" "SendMessage i (auth_message tok) \<in> set out"
  shows "\<not> authenticated s \<and> authenticated t \<and> rws_ws s = Some i"
proof -
  note inv = wsm.reach_inv [OF assms(1)]
  have emit: "SendMessage i d \<notin> set (emit u e x)" for u e x d by (auto simp: emit_def split: option.splits)
  have send: "SendMessage i d \<in> set (send u x) \<Longrightarrow> rws_ws u = Some i \<and> x = d" for u x d
    by (auto simp: send_def split: option.splits if_splits)
  show ?thesis
    using assms(2)
  proof (cases rule: ws_step.cases)
    case (native_open j token)
    have "rws_ws s = Some j" using ws_invD(3) [OF inv, of j] native_open by (simp add: live_def)
    then have "\<not> rws_connected s"
      using ws_invD(4) [OF inv] cur_state_Some [of s j] native_open by simp
    then show ?thesis
      using native_open(4) assms(3) emit send ws_invD(9) [OF inv]
      by (fastforce simp: onopen_def Let_def split: if_splits)
  next
    case (native_message j token payload)
    then show ?thesis using assms(3) emit send
      by (fastforce simp: onmessage_def split: option.splits json.splits if_splits)
  next
    case (native_close j jitter)
    then show ?thesis using assms(3) emit by (auto simp: onclose_def Let_def)
  next
    case timer
    then show ?thesis using assms(3)
      by (auto simp: reconnect_fires_def connect_def Let_def split: if_splits)
  next
    case (ping p)
    then show ?thesis using assms(3) send by (fastforce simp: ping_fires_def auth_message_def)
  next
    case disconnects
    then show ?thesis using assms(3) by (auto simp: disconnect_def Let_def split: option.splits)
  qed (use assms(3) in auto)
qed

theorem auth_sent_once_witness:
  "\<not> authenticated demo_ws \<and> authenticated (fst (onopen (Some ''tok'') (set_native 0 OPEN demo_ws)))
    \<and> rws_ws demo_ws = Some 0"
proof (rule auth_sent_once [OF demo_ws_reach])
  let ?r = "onopen (Some ''tok'') (set_native 0 OPEN demo_ws)"
  show "ws_step demo_ws (snd ?r) (fst ?r)"
    by (rule ws_step.native_open [of 0 _ "Some ''tok''"])
      (simp_all add: demo_ws_def connect_def new_rws_def current_def Let_def)
  show "SendMessage 0 (auth_message ''tok'') \<in> set (snd ?r)"
    by (simp add: demo_ws_def connect_def new_rws_def current_def Let_def onopen_def send_def set_native_def)
qed

end
