(* ===== verification/SocketPool.thy ===== *)
theory SocketPool
  imports Socket
begin

text \<open>
  The cache of socket objects of \<open>src/frontend/src/lib/socket.ts\<close> (the module map \<open>sockets\<close> with
  least-recently-used eviction) and the functions that the hooks call.  Components may hold an object that
  has left the cache, so the objects live in a store of their own: every \<open>new ReconnectingWebSocket\<close> appends
  to \<open>objects\<close>, a reference is a position of this list, and the cache maps keys to references.  Nothing
  ever leaves the store; an object that the cache no longer mentions is found by \<open>dropped\<close>.
\<close>

record location =
  loc_protocol :: string
  loc_hostname :: string
  loc_host :: string

definition getBaseWsAddress :: "string option \<Rightarrow> location option \<Rightarrow> string" where
  "getBaseWsAddress env_url win =
     (case win of
        None \<Rightarrow> (case env_url of None \<Rightarrow> ''ws://localhost:8000'' | Some u \<Rightarrow> or_str u ''ws://localhost:8000'')
      | Some loc \<Rightarrow>
          let protocol = (if loc_protocol loc = ''https:'' then ''wss:'' else ''ws:'');
              hostname = loc_hostname loc
          in if hostname = ''localhost'' \<or> hostname = ''127.0.0.1''
                \<or> startsWith hostname ''192.168.'' \<or> startsWith hostname ''10.''
             then protocol @ ''//'' @ hostname @ '':8000''
             else protocol @ ''//'' @ loc_host loc)"

record pool =
  objects :: "rws list"
  sockets :: "(string, nat) jsmap"

definition empty_pool :: pool where
  "empty_pool = \<lparr>objects = [], sockets = []\<rparr>"

definition change_object :: "pool \<Rightarrow> nat \<Rightarrow> (rws \<Rightarrow> rws) \<Rightarrow> pool" where
  "change_object p a f = p\<lparr>objects := (objects p)[a := f (objects p ! a)]\<rparr>"

definition disconnect_object :: "pool \<Rightarrow> nat \<Rightarrow> pool" where
  "disconnect_object p a = change_object p a (\<lambda>ws. fst (disconnect ws))"

text \<open>The objects the cache mentions, and those that it does not.\<close>

definition cached :: "pool \<Rightarrow> string \<Rightarrow> rws option" where
  "cached p key = map_option (\<lambda>a. objects p ! a) (map_get (sockets p) key)"

definition dropped :: "pool \<Rightarrow> rws list" where
  "dropped p = map (\<lambda>a. objects p ! a) (filter (\<lambda>a. a \<notin> set (map snd (sockets p))) [0..<length (objects p)])"

definition MAX_CACHED_SOCKETS :: nat where "MAX_CACHED_SOCKETS = 5"

definition getSocket :: "pool \<Rightarrow> string \<Rightarrow> pool \<times> nat option" where
  "getSocket p key =
     (case map_get (sockets p) key of
        None \<Rightarrow> (p, None)
      | Some ws \<Rightarrow> (p\<lparr>sockets := map_set (map_delete (sockets p) key) key ws\<rparr>, Some ws))"

definition retire :: "pool \<Rightarrow> string \<Rightarrow> pool" where
  "retire p key =
     (case map_get (sockets p) key of
        None \<Rightarrow> p
      | Some ws \<Rightarrow> (disconnect_object p ws)\<lparr>sockets := map_delete (sockets p) key\<rparr>)"

definition registerSocket :: "pool \<Rightarrow> string \<Rightarrow> nat \<Rightarrow> pool" where
  "registerSocket p key ws =
     (let p1 =
        (if map_has (sockets p) key then p\<lparr>sockets := map_delete (sockets p) key\<rparr>
         else if length (sockets p) \<ge> MAX_CACHED_SOCKETS
         then (case map_keys (sockets p) of
                 [] \<Rightarrow> p
               | oldestKey # _ \<Rightarrow> (if oldestKey = [] then p else retire p oldestKey))
         else p)
      in p1\<lparr>sockets := map_set (sockets p1) key ws\<rparr>)"

text \<open>The five connect functions differ in the channel only, which is both the prefix of the key
  and the segment of the address.\<close>

definition connectSocket :: "string \<Rightarrow> string \<Rightarrow> pool \<Rightarrow> string \<Rightarrow> pool \<times> nat" where
  "connectSocket base channel p ident =
     (let key = channel @ '':'' @ ident;
          (p1, existing) = getSocket p key
      in case existing of
           Some ws \<Rightarrow> (p1, ws)
         | None \<Rightarrow>
             let ws = length (objects p1);
                 p2 = p1\<lparr>objects := objects p1 @ [new_rws (base @ ''/ws/'' @ channel @ ''/'' @ ident)]\<rparr>;
                 p3 = change_object p2 ws (\<lambda>s. fst (connect s))
             in (registerSocket p3 key ws, ws))"

definition connectChatSocket :: "string \<Rightarrow> pool \<Rightarrow> string \<Rightarrow> pool \<times> nat" where
  "connectChatSocket base = connectSocket base ''chats''"
definition connectBroadcastSocket :: "string \<Rightarrow> pool \<Rightarrow> string \<Rightarrow> pool \<times> nat" where
  "connectBroadcastSocket base = connectSocket base ''broadcast''"
definition connectInviteSocket :: "string \<Rightarrow> pool \<Rightarrow> string \<Rightarrow> pool \<times> nat" where
  "connectInviteSocket base = connectSocket base ''invite''"
definition connectAutoJoinSocket :: "string \<Rightarrow> pool \<Rightarrow> string \<Rightarrow> pool \<times> nat" where
  "connectAutoJoinSocket base = connectSocket base ''autojoin''"
definition connectAutoLeaveSocket :: "string \<Rightarrow> pool \<Rightarrow> string \<Rightarrow> pool \<times> nat" where
  "connectAutoLeaveSocket base = connectSocket base ''autoleave''"

definition disconnectSocket :: "pool \<Rightarrow> string \<Rightarrow> pool" where
  "disconnectSocket p key = retire p key"

definition disconnectAll :: "pool \<Rightarrow> pool" where
  "disconnectAll p = (fold (\<lambda>kv q. disconnect_object q (snd kv)) (sockets p) p)\<lparr>sockets := []\<rparr>"

definition socket_channels :: "string list" where
  "socket_channels = [''chats'', ''broadcast'', ''invite'', ''autojoin'', ''autoleave'']"

section \<open>The cache as a machine\<close>

inductive pool_step :: "pool \<Rightarrow> unit \<Rightarrow> pool \<Rightarrow> bool" where
  connects: "channel \<in> set socket_channels \<Longrightarrow> pool_step p () (fst (connectSocket base channel p ident))"
| drops: "pool_step p () (disconnectSocket p key)"
| drops_all: "pool_step p () (disconnectAll p)"
| moves: "a < length (objects p) \<Longrightarrow> ws_step (objects p ! a) out ws' \<Longrightarrow>
     pool_step p () (change_object p a (\<lambda>_. ws'))"

text \<open>The references of the cache exist and are different for different keys, and what the cache does not
  mention is disconnected for good.\<close>

definition pool_inv :: "pool \<Rightarrow> bool" where
  "pool_inv p \<longleftrightarrow>
     map_wf (sockets p) \<and> length (sockets p) \<le> MAX_CACHED_SOCKETS
     \<and> [] \<notin> set (map_keys (sockets p))
     \<and> (\<forall>ws\<in>set (objects p). ws_inv ws)
     \<and> (\<forall>k a. map_get (sockets p) k = Some a \<longrightarrow> a < length (objects p))
     \<and> (\<forall>k k' a. map_get (sockets p) k = Some a \<longrightarrow> map_get (sockets p) k' = Some a \<longrightarrow> k' = k)
     \<and> (\<forall>a<length (objects p). (\<forall>k. map_get (sockets p) k \<noteq> Some a) \<longrightarrow> intentionalClose (objects p ! a))"

lemma pool_invD:
  assumes "pool_inv p"
  shows "map_wf (sockets p)" "length (sockets p) \<le> 5" "[] \<notin> set (map_keys (sockets p))"
    "a < length (objects p) \<Longrightarrow> ws_inv (objects p ! a)"
    "map_get (sockets p) k = Some a \<Longrightarrow> a < length (objects p)"
    "map_get (sockets p) k = Some a \<Longrightarrow> map_get (sockets p) k' = Some a \<Longrightarrow> k' = k"
    "a < length (objects p) \<Longrightarrow> (\<And>k. map_get (sockets p) k \<noteq> Some a) \<Longrightarrow> intentionalClose (objects p ! a)"
  using assms by (auto simp: pool_inv_def MAX_CACHED_SOCKETS_def)

lemma change_object_simps [simp]:
  "sockets (change_object p a f) = sockets p" "length (objects (change_object p a f)) = length (objects p)"
  "b < length (objects p) \<Longrightarrow> objects (change_object p a f) ! b = (if b = a then f (objects p ! a) else objects p ! b)"
  by (simp_all add: change_object_def)

lemma retire_sockets: "sockets (retire p key) = map_delete (sockets p) key"
  by (auto simp: retire_def disconnect_object_def map_delete_absent map_has_iff_get split: option.splits)

lemma retire_objects:
  "objects (retire p key) =
    (case map_get (sockets p) key of None \<Rightarrow> objects p | Some a \<Rightarrow> objects (disconnect_object p a))"
  by (simp add: retire_def split: option.splits)

lemma all_nth: "(\<forall>x\<in>set xs. P x) \<longleftrightarrow> (\<forall>a<length xs. P (xs ! a))"
  by (simp add: all_set_conv_all_nth)

lemma pool_inv_change:
  assumes inv: "pool_inv p" and f: "a < length (objects p) \<Longrightarrow> ws_inv (f (objects p ! a))"
    and closed: "a < length (objects p) \<Longrightarrow> intentionalClose (objects p ! a) \<Longrightarrow> intentionalClose (f (objects p ! a))"
  shows "pool_inv (change_object p a f)"
  using inv f closed unfolding pool_inv_def all_nth by simp

lemma pool_inv_disconnect: "pool_inv p \<Longrightarrow> pool_inv (disconnect_object p a)"
  unfolding disconnect_object_def
  by (rule pool_inv_change) (simp_all add: pool_invD(4) ws_inv_disconnect disconnect_closes)

text \<open>A key may leave the cache when its object is disconnected.\<close>

lemma pool_inv_delete:
  assumes inv: "pool_inv p" and closed: "\<And>a. map_get (sockets p) key = Some a \<Longrightarrow> intentionalClose (objects p ! a)"
  shows "pool_inv (p\<lparr>sockets := map_delete (sockets p) key\<rparr>)"
proof -
  have "length (map_delete (sockets p) key) \<le> 5"
    using pool_invD(2) [OF inv] length_map_delete_le [of "sockets p" key] by simp
  moreover have "intentionalClose (objects p ! a)"
    if a: "a < length (objects p)" "\<forall>k. k \<noteq> key \<longrightarrow> map_get (sockets p) k \<noteq> Some a" for a
  proof (cases "map_get (sockets p) key = Some a")
    case False
    then have "map_get (sockets p) k \<noteq> Some a" for k using a(2) by (cases "k = key") simp_all
    then show ?thesis by (rule pool_invD(7) [OF inv a(1)])
  qed (rule closed)
  ultimately show ?thesis
    using inv by (simp add: pool_inv_def MAX_CACHED_SOCKETS_def map_keys_delete)
qed

lemma pool_inv_retire:
  assumes inv: "pool_inv p"
  shows "pool_inv (retire p key)"
proof (cases "map_get (sockets p) key")
  case (Some a)
  then have "a < length (objects p)" by (rule pool_invD(5) [OF inv])
  then have "pool_inv ((disconnect_object p a)\<lparr>sockets := map_delete (sockets (disconnect_object p a)) key\<rparr>)"
    using Some by (intro pool_inv_delete [OF pool_inv_disconnect [OF inv]]) (simp add: disconnect_object_def disconnect_closes)
  then show ?thesis using Some by (simp add: retire_def disconnect_object_def)
qed (use inv in \<open>simp add: retire_def\<close>)

lemma pool_inv_same:
  assumes "pool_inv p" "map_wf m" "length m = length (sockets p)" "set (map_keys m) = set (map_keys (sockets p))"
    "\<And>k. map_get m k = map_get (sockets p) k"
  shows "pool_inv (p\<lparr>sockets := m\<rparr>)"
  using assms by (simp add: pool_inv_def)

lemma getSocket_refresh:
  assumes "map_get (sockets p) key = Some a"
  shows "getSocket p key = (p\<lparr>sockets := map_set (map_delete (sockets p) key) key a\<rparr>, Some a)"
  using assms by (simp add: getSocket_def)

lemma pool_inv_getSocket: "pool_inv p \<Longrightarrow> pool_inv (fst (getSocket p key))"
proof (cases "map_get (sockets p) key")
  case (Some a)
  assume inv: "pool_inv p"
  let ?m = "map_set (map_delete (sockets p) key) key a"
  have len: "length ?m = length (sockets p)"
    using jm.refresh_length [OF pool_invD(1) [OF inv], of key a] Some by simp
  have keys: "set (map_keys ?m) = set (map_keys (sockets p))"
    using Some by (auto simp: jm.refresh_keys map_keys_get)
  have same: "map_get ?m k = map_get (sockets p) k" for k using jm.refresh_get [OF Some] by simp
  have "pool_inv (p\<lparr>sockets := ?m\<rparr>)"
    using pool_invD(1) [OF inv] by (intro pool_inv_same [OF inv _ len keys same]) simp
  then show ?thesis by (simp add: getSocket_refresh [OF Some])
qed (simp add: getSocket_def)

text \<open>Registering a key that is not cached: the oldest entry makes room when the cache is full.\<close>

lemma registerSocket_new:
  assumes inv: "[] \<notin> set (map_keys (sockets p))" "map_wf (sockets p)" and new: "\<not> map_has (sockets p) key"
  shows "map_keys (sockets (registerSocket p key ws)) =
    (if length (sockets p) < MAX_CACHED_SOCKETS then map_keys (sockets p) @ [key]
     else tl (map_keys (sockets p)) @ [key])"
proof (cases "length (sockets p) < MAX_CACHED_SOCKETS")
  case True
  then show ?thesis using new by (simp add: registerSocket_def Let_def map_keys_set map_has_keys)
next
  case False
  then have "sockets p \<noteq> []" by (cases "sockets p") (simp_all add: MAX_CACHED_SOCKETS_def)
  then obtain a ks where ks: "map_keys (sockets p) = a # ks"
    by (cases "sockets p") (simp_all add: map_keys_def)
  have "a \<noteq> []" using inv(1) ks by auto
  then have reg: "sockets (registerSocket p key ws) = map_set (map_delete (sockets p) a) key ws"
    using False new ks by (simp add: registerSocket_def Let_def retire_sockets)
  have "key \<notin> set (map_keys (sockets p))" using new by (simp add: map_has_keys)
  then show ?thesis
    using jm.evict_length [OF inv(2) ks] False by (simp add: reg ks)
qed

text \<open>A new object is the last one of the store and is connected before it is registered.\<close>

definition grown :: "pool \<Rightarrow> string \<Rightarrow> pool" where
  "grown p url = p\<lparr>objects := objects p @ [fst (connect (new_rws url))]\<rparr>"

definition evicted :: "pool \<Rightarrow> pool" where
  "evicted p = (if length (sockets p) \<ge> MAX_CACHED_SOCKETS
     then (case map_keys (sockets p) of [] \<Rightarrow> p | oldestKey # _ \<Rightarrow> (if oldestKey = [] then p else retire p oldestKey))
     else p)"

lemma registerSocket_evicts:
  "\<not> map_has (sockets p) key \<Longrightarrow>
   registerSocket p key ws = (evicted p)\<lparr>sockets := map_set (sockets (evicted p)) key ws\<rparr>"
  by (simp add: registerSocket_def evicted_def Let_def)

lemma connectSocket_new:
  assumes "map_get (sockets p) (channel @ '':'' @ ident) = None"
  shows "connectSocket base channel p ident =
    (registerSocket (grown p (base @ ''/ws/'' @ channel @ ''/'' @ ident)) (channel @ '':'' @ ident) (length (objects p)),
     length (objects p))"
  using assms by (simp add: connectSocket_def getSocket_def change_object_def grown_def Let_def)

lemma connectSocket_cached:
  assumes "map_get (sockets p) (channel @ '':'' @ ident) = Some a"
  shows "connectSocket base channel p ident =
    (p\<lparr>sockets := map_set (map_delete (sockets p) (channel @ '':'' @ ident)) (channel @ '':'' @ ident) a\<rparr>, a)"
  using assms by (simp add: connectSocket_def getSocket_def Let_def)

lemma evicted_commutes: "pool_inv p \<Longrightarrow> evicted (grown p url) = grown (evicted p) url"
proof -
  assume inv: "pool_inv p"
  have "retire (grown p url) key = grown (retire p key) url" for key
    using pool_invD(5) [OF inv, of key]
    by (auto simp: retire_def grown_def disconnect_object_def change_object_def list_update_append nth_append split: option.splits)
  then show ?thesis by (auto simp: evicted_def grown_def split: list.splits)
qed

lemma evicted_length [simp]: "length (objects (evicted p)) = length (objects p)"
  by (auto simp: evicted_def retire_objects disconnect_object_def split: list.splits option.splits)

lemma pool_inv_evicted: "pool_inv p \<Longrightarrow> pool_inv (evicted p)"
  by (auto simp: evicted_def pool_inv_retire split: list.splits)

lemma evicted_has: "map_has (sockets (evicted p)) k \<Longrightarrow> map_has (sockets p) k"
  by (auto simp: evicted_def retire_sockets map_has_delete split: list.splits if_splits)

lemma pool_inv_register:
  assumes inv: "pool_inv p" and new: "\<not> map_has (sockets p) key" and key: "key \<noteq> []"
  shows "pool_inv (registerSocket (grown p url) key (length (objects p)))"
proof -
  let ?e = "evicted p" and ?n = "length (objects p)"
  have einv: "pool_inv ?e" by (rule pool_inv_evicted [OF inv])
  have enew: "\<not> map_has (sockets ?e) key" using new evicted_has by blast
  have reg: "registerSocket (grown p url) key ?n = (grown ?e url)\<lparr>sockets := map_set (sockets ?e) key ?n\<rparr>"
    using new registerSocket_evicts [of "grown p url" key ?n] evicted_commutes [OF inv, of url]
    by (simp add: grown_def)
  have "map_keys (sockets (registerSocket (grown p url) key ?n)) =
      (if length (sockets p) < MAX_CACHED_SOCKETS then map_keys (sockets p) @ [key] else tl (map_keys (sockets p)) @ [key])"
    using registerSocket_new [of "grown p url" key ?n] pool_invD(1,3) [OF inv] new by (simp add: grown_def)
  then have "length (map_keys (map_set (sockets ?e) key ?n)) \<le> 5"
    using pool_invD(2) [OF inv] by (simp add: reg MAX_CACHED_SOCKETS_def split: if_splits)
  then have len: "length (map_set (sockets ?e) key ?n) \<le> 5" by simp
  have below: "a < ?n" if "map_get (sockets ?e) k = Some a" for k a using pool_invD(5) [OF einv that] by simp
  have reach: "map_get (map_set (sockets ?e) key ?n) k = Some a \<longleftrightarrow> k = key \<and> a = ?n \<or> k \<noteq> key \<and> map_get (sockets ?e) k = Some a"
    for k a by auto
  let ?q = "(grown ?e url)\<lparr>sockets := map_set (sockets ?e) key ?n\<rparr>"
  have objs: "objects ?q = objects ?e @ [fst (connect (new_rws url))]" by (simp add: grown_def)
  have socks: "sockets ?q = map_set (sockets ?e) key ?n" by simp
  show ?thesis
    unfolding pool_inv_def reg objs socks
  proof (intro conjI allI impI)
    fix a
    assume a: "a < length (objects ?e @ [fst (connect (new_rws url))])"
      and none: "\<forall>k. map_get (map_set (sockets ?e) key ?n) k \<noteq> Some a"
    have a': "a < ?n" using a none [rule_format, of key] by (simp add: less_Suc_eq)
    have "map_get (sockets ?e) k \<noteq> Some a" for k
      using none [rule_format, of k] enew by (cases "k = key") (simp_all add: map_has_iff_get)
    then have "intentionalClose (objects ?e ! a)" using pool_invD(7) [OF einv, of a] a' by simp
    then show "intentionalClose ((objects ?e @ [fst (connect (new_rws url))]) ! a)" using a' by (simp add: nth_append)
  next
    fix k k' a
    assume "map_get (map_set (sockets ?e) key ?n) k = Some a" "map_get (map_set (sockets ?e) key ?n) k' = Some a"
    then show "k' = k" using pool_invD(6) [OF einv, of k a k'] below [of k a] below [of k' a] unfolding reach by auto
  next
    fix k a
    assume "map_get (map_set (sockets ?e) key ?n) k = Some a"
    then show "a < length (objects ?e @ [fst (connect (new_rws url))])" using below [of k a] unfolding reach by auto
  next
    show "\<forall>ws\<in>set (objects ?e @ [fst (connect (new_rws url))]). ws_inv ws"
      using einv by (auto simp: pool_inv_def ws_inv_new)
  next
    show "[] \<notin> set (map_keys (map_set (sockets ?e) key ?n))" using pool_invD(3) [OF einv] key by (simp add: map_keys_set)
  qed (use pool_invD(1) [OF einv] len in \<open>simp_all add: MAX_CACHED_SOCKETS_def\<close>)
qed

lemma channel_key_nonempty: "channel \<in> set socket_channels \<Longrightarrow> channel @ '':'' @ ident \<noteq> []"
  by simp

lemma pool_inv_connect: "pool_inv p \<Longrightarrow> pool_inv (fst (connectSocket base channel p ident))"
proof (cases "map_get (sockets p) (channel @ '':'' @ ident)")
  case None
  assume inv: "pool_inv p"
  have "\<not> map_has (sockets p) (channel @ '':'' @ ident)" using None by (simp add: map_has_iff_get)
  then show ?thesis using pool_inv_register [OF inv] by (simp add: connectSocket_new [OF None])
next
  case (Some a)
  assume inv: "pool_inv p"
  show ?thesis using pool_inv_getSocket [OF inv, of "channel @ '':'' @ ident"] Some
    by (simp add: connectSocket_def getSocket_def Let_def)
qed

text \<open>Disconnecting everything: no object is lost, and those that were cached are closed.\<close>

lemma disconnect_each:
  "pool_inv p \<Longrightarrow> pool_inv (fold (\<lambda>kv q. disconnect_object q (snd kv)) m p)"
  "sockets (fold (\<lambda>kv q. disconnect_object q (snd kv)) m p) = sockets p"
  "length (objects (fold (\<lambda>kv q. disconnect_object q (snd kv)) m p)) = length (objects p)"
  "a < length (objects p) \<Longrightarrow> intentionalClose (objects p ! a) \<or> a \<in> snd ` set m \<Longrightarrow>
     intentionalClose (objects (fold (\<lambda>kv q. disconnect_object q (snd kv)) m p) ! a)"
proof (induction m arbitrary: p)
  case (Cons kv m)
  { case 1 then show ?case using Cons.IH(1) [OF pool_inv_disconnect] by simp
  next case 2 then show ?case using Cons.IH(2) by (simp add: disconnect_object_def)
  next case 3 then show ?case using Cons.IH(3) by (simp add: disconnect_object_def)
  next case 4 then show ?case
      using Cons.IH(4) [of "disconnect_object p (snd kv)"] by (auto simp: disconnect_object_def disconnect_closes) }
qed simp_all

lemma disconnectAll_closes:
  assumes inv: "pool_inv p" and a: "a < length (objects (disconnectAll p))"
  shows "ws_inv (objects (disconnectAll p) ! a) \<and> intentionalClose (objects (disconnectAll p) ! a)"
proof
  let ?q = "fold (\<lambda>kv q. disconnect_object q (snd kv)) (sockets p) p"
  have len: "a < length (objects p)" using a by (simp add: disconnectAll_def disconnect_each(3))
  show "ws_inv (objects (disconnectAll p) ! a)"
    using pool_invD(4) [OF disconnect_each(1) [OF inv]] a by (simp add: disconnectAll_def)
  have "intentionalClose (objects p ! a) \<or> a \<in> snd ` set (sockets p)"
  proof (cases "\<exists>k. map_get (sockets p) k = Some a")
    case True
    then show ?thesis by (force simp: map_get_def dest: map_of_SomeD)
  next
    case False
    then show ?thesis using pool_invD(7) [OF inv len] by blast
  qed
  then show "intentionalClose (objects (disconnectAll p) ! a)"
    using disconnect_each(4) [OF len] by (simp add: disconnectAll_def)
qed

lemma pool_inv_disconnectAll: "pool_inv p \<Longrightarrow> pool_inv (disconnectAll p)"
proof -
  assume inv: "pool_inv p"
  have none: "sockets (disconnectAll p) = []" by (simp add: disconnectAll_def)
  show ?thesis
    using disconnectAll_closes [OF inv] unfolding pool_inv_def none all_nth by (simp add: map_keys_def)
qed

lemma pool_step_inv: "pool_step p u q \<Longrightarrow> pool_inv p \<Longrightarrow> pool_inv q"
proof (induction rule: pool_step.induct)
  case (moves a p out ws')
  have "ws_inv ws'" "intentionalClose (objects p ! a) \<Longrightarrow> intentionalClose ws'"
    using ws_step_inv [OF moves(2)] closed_step [OF _ _ moves(2)] pool_invD(4) [OF moves(3,1)] by blast+
  then show ?case by (intro pool_inv_change [OF moves(3)])
qed (simp_all add: pool_inv_connect disconnectSocket_def pool_inv_retire pool_inv_disconnectAll)

lemma pool_inv_empty: "pool_inv empty_pool"
  by (simp add: pool_inv_def empty_pool_def map_keys_def)

text \<open>What the cache does not mention is closed.\<close>

lemma dropped_closed:
  assumes inv: "pool_inv p" and "ws \<in> set (dropped p)"
  shows "ws_inv ws \<and> intentionalClose ws"
proof -
  obtain a where a: "a < length (objects p)" "ws = objects p ! a" "a \<notin> snd ` set (sockets p)"
    using assms(2) by (auto simp: dropped_def)
  then have "map_get (sockets p) k \<noteq> Some a" for k by (force simp: map_get_def dest: map_of_SomeD)
  then show ?thesis using pool_invD(4,7) [OF inv a(1)] a(2) by blast
qed

interpretation plm: machine "\<lambda>p. p = empty_pool" pool_step pool_inv
  by unfold_locales (auto simp: pool_inv_empty intro: pool_step_inv)

section \<open>Properties\<close>

lemma split_first_colon:
  assumes "CHR '':'' \<notin> set a" "CHR '':'' \<notin> set b" "a @ CHR '':'' # x = b @ CHR '':'' # y"
  shows "a = b \<and> x = y"
  using assms by (induction a arbitrary: b) (case_tac b; auto)+

definition demo_pool :: pool where
  "demo_pool = fst (connectSocket ''ws://h'' ''chats'' empty_pool ''1'')"

lemma demo_pool_reach: "reach (\<lambda>p. p = empty_pool) pool_step demo_pool"
  unfolding demo_pool_def
  by (rule reach_step [where s = empty_pool and l = "()"])
    (auto intro!: reach_start pool_step.connects simp: socket_channels_def)

text \<open>C12: however the cache is used, it never holds more than five sockets, under distinct keys and each
  socket once, and every socket ever created that it no longer holds, whether evicted or dropped, is disconnected
  for good: not connected, without a reconnect timer or a running ping.\<close>

theorem pool_bounded:
  assumes "reach (\<lambda>p. p = empty_pool) pool_step p"
  shows "length (sockets p) \<le> 5 \<and> distinct (map_keys (sockets p)) \<and> distinct (map snd (sockets p))
    \<and> list_all (\<lambda>ws. \<not> rws_connected ws \<and> reconnectTimer ws = None \<and> intervals ws = []) (dropped p)"
proof -
  note inv = plm.reach_inv [OF assms]
  have "\<not> rws_connected ws \<and> reconnectTimer ws = None \<and> intervals ws = []" if "ws \<in> set (dropped p)" for ws
    using dropped_closed [OF inv that] closed_idle [of ws] ws_invD(4) [of ws]
    by (auto simp: cur_state_def current_def)
  moreover have "inj_on snd (set (sockets p))"
  proof (rule inj_onI)
    fix x y
    assume xy: "x \<in> set (sockets p)" "y \<in> set (sockets p)" "snd x = snd y"
    have "map_get (sockets p) (fst z) = Some (snd z)" if "z \<in> set (sockets p)" for z
      using that pool_invD(1) [OF inv] by (simp add: map_get_def map_wf_def)
    then show "x = y" using pool_invD(6) [OF inv, of "fst x" "snd x" "fst y"] xy by (simp add: prod_eq_iff)
  qed
  ultimately show ?thesis
    using pool_invD(1,2) [OF inv] by (simp add: list_all_iff map_wf_keys distinct_map map_wf_def)
qed

theorem pool_bounded_witness:
  "length (sockets demo_pool) \<le> 5 \<and> distinct (map_keys (sockets demo_pool)) \<and> distinct (map snd (sockets demo_pool))
    \<and> list_all (\<lambda>ws. \<not> rws_connected ws \<and> reconnectTimer ws = None \<and> intervals ws = []) (dropped demo_pool)"
  by (rule pool_bounded [OF demo_pool_reach])

section \<open>The cache as an implementation of least recently used\<close>

text \<open>Connecting to a channel that is not cached when the cache is full drops exactly the least
  recently used socket and appends the new one; a cached channel becomes the most recently used.\<close>

lemma connect_keys:
  assumes inv: "pool_inv p"
  shows "map_keys (sockets (fst (connectSocket base channel p ident))) =
    (let key = channel @ '':'' @ ident; ks = map_keys (sockets p)
     in if key \<in> set ks then filter (\<lambda>k. k \<noteq> key) ks @ [key]
        else (if length ks < 5 then ks else tl ks) @ [key])"
proof (cases "map_get (sockets p) (channel @ '':'' @ ident)")
  case None
  then have new: "\<not> map_has (sockets p) (channel @ '':'' @ ident)" by (simp add: map_has_iff_get)
  then show ?thesis
    using registerSocket_new [of "grown p (base @ ''/ws/'' @ channel @ ''/'' @ ident)"] pool_invD(1,3) [OF inv] None
    by (simp add: connectSocket_new [OF None] grown_def Let_def MAX_CACHED_SOCKETS_def map_has_keys)
next
  case (Some a)
  then have "channel @ '':'' @ ident \<in> set (map_keys (sockets p))" by (simp add: map_keys_get)
  then show ?thesis by (simp add: connectSocket_cached [OF Some] Let_def jm.refresh_keys)
qed

text \<open>The specification: the keys from the most to the least recently used, of which five are kept.\<close>

datatype pool_op = Use string | Drop string | DropAll | Idle

fun lru :: "pool_op \<Rightarrow> string list \<Rightarrow> string list" where
  "lru (Use k) ks = take 5 (k # removeAll k ks)"
| "lru (Drop k) ks = removeAll k ks"
| "lru DropAll ks = []"
| "lru Idle ks = ks"

text \<open>The steps of the cache with their operation; what the sockets do themselves is idle.\<close>

inductive pool_does :: "pool \<Rightarrow> pool_op \<Rightarrow> pool \<Rightarrow> bool" where
  does_connect: "channel \<in> set socket_channels \<Longrightarrow>
     pool_does p (Use (channel @ '':'' @ ident)) (fst (connectSocket base channel p ident))"
| does_drop: "pool_does p (Drop key) (disconnectSocket p key)"
| does_drop_all: "pool_does p DropAll (disconnectAll p)"
| does_move: "a < length (objects p) \<Longrightarrow> ws_step (objects p ! a) out ws' \<Longrightarrow>
     pool_does p Idle (change_object p a (\<lambda>_. ws'))"

definition by_recency :: "pool \<Rightarrow> string list" where
  "by_recency p = rev (map_keys (sockets p))"

lemma pool_does_step: "pool_does p l q \<Longrightarrow> pool_step p () q"
  by (induction rule: pool_does.induct) (auto intro: pool_step.intros)

lemma removeAll_rev: "removeAll k (rev ks) = rev (removeAll k ks)"
  by (simp add: removeAll_filter_not_eq rev_filter)

lemma take_rev_tl: "length ks = Suc n \<Longrightarrow> take n (rev ks) = rev (tl ks)"
  by (cases ks) simp_all

lemma by_recency_connect:
  assumes inv: "pool_inv p"
  shows "by_recency (fst (connectSocket base channel p ident)) = lru (Use (channel @ '':'' @ ident)) (by_recency p)"
proof -
  let ?ks = "map_keys (sockets p)" and ?k = "channel @ '':'' @ ident"
  have len: "length ?ks \<le> 5" and dist: "distinct ?ks" using pool_invD(1,2) [OF inv] by (simp_all add: map_wf_keys)
  show ?thesis
  proof (cases "?k \<in> set ?ks")
    case True
    then have "length (removeAll ?k ?ks) < length ?ks" by (rule length_removeAll_less)
    then have "length (removeAll ?k ?ks) \<le> 4" using len by simp
    moreover have "filter (\<lambda>k. k \<noteq> ?k) ?ks = removeAll ?k ?ks" by (simp add: removeAll_filter_not_eq eq_commute)
    ultimately show ?thesis using True
      by (simp add: by_recency_def connect_keys [OF inv] Let_def removeAll_rev del: removeAll.simps)
  next
    case False
    then have "removeAll ?k (rev ?ks) = rev ?ks" by simp
    then show ?thesis using False len take_rev_tl [of ?ks 4]
      by (cases "length ?ks < 5") (simp_all add: by_recency_def connect_keys [OF inv] Let_def)
  qed
qed

lemma by_recency_step: "pool_does p l q \<Longrightarrow> pool_inv p \<Longrightarrow> by_recency q = lru l (by_recency p)"
proof (induction rule: pool_does.induct)
  case (does_drop p key)
  then show ?case
    by (simp add: by_recency_def disconnectSocket_def retire_sockets map_keys_delete rev_filter removeAll_filter_not_eq eq_commute)
qed (simp_all add: by_recency_connect, simp_all add: by_recency_def disconnectAll_def map_keys_def)

interpretation lrs: simulation "\<lambda>p. p = empty_pool" pool_does pool_inv by_recency lru
  by unfold_locales (auto simp: pool_inv_empty by_recency_step intro: pool_step_inv pool_does_step)

text \<open>C11: the cache implements least recently used: over every sequence of connects, drops and moves of the
  sockets, its keys, from the most recently used on, are those of the specification.\<close>

theorem pool_refines_lru:
  assumes "run pool_does empty_pool ops p"
  shows "rev (map_keys (sockets p)) = fold lru ops []"
  using lrs.run_sim [OF assms pool_inv_empty] by (simp add: by_recency_def empty_pool_def map_keys_def)

theorem pool_refines_lru_witness:
  "rev (map_keys (sockets (disconnectSocket (fst (connectSocket ''ws://h'' ''invite'' demo_pool ''9'')) ''chats:1'')))
    = fold lru [Use (''chats'' @ '':'' @ ''1''), Use (''invite'' @ '':'' @ ''9''), Drop ''chats:1''] []"
proof (rule pool_refines_lru)
  have "pool_does empty_pool (Use (''chats'' @ '':'' @ ''1'')) demo_pool"
    unfolding demo_pool_def by (rule does_connect) (simp add: socket_channels_def)
  moreover have "pool_does demo_pool (Use (''invite'' @ '':'' @ ''9'')) (fst (connectSocket ''ws://h'' ''invite'' demo_pool ''9''))"
    by (rule does_connect) (simp add: socket_channels_def)
  ultimately show "run pool_does empty_pool [Use (''chats'' @ '':'' @ ''1''), Use (''invite'' @ '':'' @ ''9''), Drop ''chats:1'']
      (disconnectSocket (fst (connectSocket ''ws://h'' ''invite'' demo_pool ''9'')) ''chats:1'')"
    by (meson does_drop run_done run_step)
qed

section \<open>Properties of the keys and of dead sockets\<close>

text \<open>Asking again for a channel whose cached socket has run out of reconnect attempts opens nothing
  and returns that same dead socket, which never connects again: the channel stays silent until the entry
  is evicted or dropped.\<close>

theorem halted_socket_is_reused:
  assumes "reach (\<lambda>p. p = empty_pool) pool_step p" "map_get (sockets p) (channel @ '':'' @ ident) = Some a"
    "halted (objects p ! a)"
    "run ws_step (objects (fst (connectSocket base channel p ident)) ! snd (connectSocket base channel p ident)) outs t"
  shows "snd (connectSocket base channel p ident) = a
    \<and> objects (fst (connectSocket base channel p ident)) = objects p
    \<and> list_all (\<lambda>out. \<not> opens_socket out) outs \<and> \<not> rws_connected t"
proof -
  note inv = plm.reach_inv [OF assms(1)]
  have "ws_inv (objects p ! a)" using pool_invD(4) [OF inv pool_invD(5) [OF inv assms(2)]] .
  then show ?thesis
    using halted_run [of "objects p ! a" outs t] assms(3,4) by (simp add: connectSocket_cached [OF assms(2)])
qed

text \<open>Such a cache is reachable: a socket of the cache moves like a socket on its own.\<close>

lemma demo_pool_eq:
  "demo_pool = \<lparr>objects = [fst (connect (new_rws ''ws://h/ws/chats/1''))], sockets = [(''chats:1'', 0)]\<rparr>"
  by (simp add: demo_pool_def connectSocket_def getSocket_def registerSocket_def empty_pool_def change_object_def
      MAX_CACHED_SOCKETS_def map_has_def map_get_def Let_def)

lemma cached_socket_runs:
  "reach (ws_created ''ws://h/ws/chats/1'') ws_step ws \<Longrightarrow>
   \<exists>p. reach (\<lambda>p. p = empty_pool) pool_step p \<and> sockets p = [(''chats:1'', 0)] \<and> objects p = [ws]"
proof (induction rule: reach.induct)
  case (reach_start s)
  then show ?case using demo_pool_reach by (intro exI [of _ demo_pool]) (simp add: demo_pool_eq ws_created_def)
next
  case (reach_step s l t)
  then obtain p where p: "reach (\<lambda>p. p = empty_pool) pool_step p" "sockets p = [(''chats:1'', 0)]" "objects p = [s]" by blast
  have "pool_step p () (change_object p 0 (\<lambda>_. t))"
    using p(3) reach_step.hyps(2) by (intro pool_step.moves) simp_all
  then have "reach (\<lambda>p. p = empty_pool) pool_step (change_object p 0 (\<lambda>_. t))"
    by (rule reach.reach_step [OF p(1)])
  then show ?case using p(2,3) by (intro exI [of _ "change_object p 0 (\<lambda>_. t)"]) (simp add: change_object_def)
qed

theorem halted_socket_is_reused_witness:
  "\<exists>p ws. halted ws \<and> snd (connectSocket ''ws://h'' ''chats'' p ''1'') = 0
    \<and> objects (fst (connectSocket ''ws://h'' ''chats'' p ''1'')) = objects p \<and> objects p = [ws]
    \<and> list_all (\<lambda>out. \<not> opens_socket out) [[]] \<and> \<not> rws_connected (on ws ''all'' 1)"
proof -
  obtain ws where ws: "reach (ws_created ''ws://h/ws/chats/1'') ws_step ws" "halted ws"
    using halted_reachable by blast
  obtain p where p: "reach (\<lambda>p. p = empty_pool) pool_step p" "sockets p = [(''chats:1'', 0)]" "objects p = [ws]"
    using cached_socket_runs [OF ws(1)] by blast
  have key: "map_get (sockets p) (''chats'' @ '':'' @ ''1'') = Some 0" using p(2) by (simp add: map_get_def)
  have h: "halted (objects p ! 0)" using p(3) ws(2) by simp
  have "run ws_step (objects (fst (connectSocket ''ws://h'' ''chats'' p ''1'')) ! snd (connectSocket ''ws://h'' ''chats'' p ''1''))
      [[]] (on ws ''all'' 1)"
    using p(3) by (simp add: connectSocket_cached [OF key] ws_step.subscribe)
  from halted_socket_is_reused [OF p(1) key h this] show ?thesis using ws(2) p(3) by blast
qed

text \<open>The keys of two channels never collide: the channel and the identifier can be read back
  from the key, whatever the identifiers contain.\<close>

theorem socket_keys_injective:
  assumes "c \<in> set socket_channels" "c' \<in> set socket_channels"
  shows "(c @ '':'' @ i = c' @ '':'' @ i') = (c = c' \<and> i = i')"
proof -
  have colon: "\<And>x. x \<in> set socket_channels \<Longrightarrow> CHR '':'' \<notin> set x" by (auto simp: socket_channels_def)
  show ?thesis
    using split_first_colon [OF colon colon, OF assms, of i i'] by auto
qed

theorem socket_keys_injective_witness:
  "(''chats'' @ '':'' @ ''a:b'' = ''invite'' @ '':'' @ ''a:b'') = (''chats'' = ''invite'' \<and> ''a:b'' = ''a:b'')"
  by (rule socket_keys_injective) (simp_all add: socket_channels_def)

end
