(* ===== verification/AuthStore.thy ===== *)
theory AuthStore
  imports SocketPool
begin

text \<open>
  The session of the browser: \<open>src/frontend/src/lib/api.ts\<close> (token interceptor and 401 handling) and
  \<open>src/frontend/src/store/auth-store.ts\<close>, on top of the socket cache.

  The Better Auth client and the backend are outside: what \<open>signIn.email\<close>, \<open>signUp.email\<close>,
  \<open>getSession\<close> and \<open>api.get("/auth/me")\<close> answer are arguments of the operations.  The module
  variables \<open>sessionToken\<close> of \<open>api.ts\<close> and of \<open>socket.ts\<close> and the socket cache are part of the
  state.  Each operation also returns the calls it makes, in order, with the header the request
  interceptor adds.

  An operation awaits several answers, and another one may run in between.  \<open>login\<close>, \<open>register\<close>, \<open>logout\<close> and
  \<open>fetchMe\<close> describe a call during which nothing else happens; the machine below runs their parts between two
  awaits (\<open>login_signed_in\<close>, \<open>login_session\<close> and so on) in any order, and the lemmas \<open>login_parts\<close> to
  \<open>logout_parts\<close> say that the parts in sequence are the operation.
\<close>

section \<open>api.ts\<close>

text \<open>The \<open>x-better-auth-token\<close> header the request interceptor sets.\<close>

definition request_header :: "string option \<Rightarrow> string option" where
  "request_header sessionToken = (if truthy sessionToken then sessionToken else None)"

text \<open>The response interceptor: where the browser is sent on a failed request; the error itself is
  always passed on.  \<open>status\<close> is absent when there was no response, \<open>pathname\<close> outside a browser.\<close>

definition response_error :: "int option \<Rightarrow> string option \<Rightarrow> string option" where
  "response_error status pathname =
     (case pathname of
        None \<Rightarrow> None
      | Some p \<Rightarrow>
          (if status = Some 401 \<and> p \<noteq> ''/login'' \<and> p \<noteq> ''/register'' then Some ''/login'' else None))"

section \<open>auth-store.ts: data\<close>

record User =
  user_id :: string
  user_email :: string
  full_name :: "string option"
  user_role :: string
  is_active :: bool
  user_balance :: int
  user_created_at :: "string option"
  onboarding_completed :: "bool option"
  user_image :: "string option"
  avatar_url :: "string option"

record ba_user =
  ba_id :: string
  ba_email :: string
  ba_name :: "string option"
  ba_image :: "string option"
  ba_role :: "string option"

datatype session_result = SessionThrows | NoSession | HasSession ba_user "string option"

record auth_api_error =
  err_message :: "string option"
  err_code :: "string option"
  err_retryAfterMinutes :: "int option"

datatype signin_result = SignInError auth_api_error | SignInTwoFactor | SignInDone

datatype signup_result = SignUpError auth_api_error | SignUpDone

text \<open>The exceptions that leave the store: its own, with message, code and waiting time, and the one
  of a rejected call.\<close>

datatype auth_error = AuthError string "string option" "int option" | Rejected

datatype auth_call =
    CallSignIn | CallSignUp | CallGetSession | CallSignOut
  | CallBackend string string "string option"

record auth_state =
  st_user :: "User option"
  isAuthenticated :: bool
  isLoading :: bool
  api_token :: "string option"
  socket_token :: "string option"
  st_pool :: pool

definition init_auth :: auth_state where
  "init_auth = \<lparr>st_user = None, isAuthenticated = False, isLoading = True, api_token = None,
     socket_token = None, st_pool = empty_pool\<rparr>"

section \<open>auth-store.ts: operations\<close>

definition syncSessionToken :: "string option \<Rightarrow> auth_state \<Rightarrow> auth_state" where
  "syncSessionToken token s = s\<lparr>api_token := token, socket_token := token\<rparr>"

text \<open>The profile: the backend's answer (\<open>None\<close> when the request fails or answers \<open>null\<close>), else a
  minimal user from the session.\<close>

definition hydrateUserFromBackend :: "User option \<Rightarrow> ba_user \<Rightarrow> User" where
  "hydrateUserFromBackend me b =
     (case me of
        Some data \<Rightarrow> data\<lparr>user_image := opt_or (user_image data) (opt_or (ba_image b) None),
                          avatar_url := opt_or (avatar_url data) None\<rparr>
      | None \<Rightarrow>
          \<lparr>user_id = ba_id b, user_email = ba_email b, full_name = opt_or (ba_name b) None,
           user_role = (case ba_role b of None \<Rightarrow> ''freetrial'' | Some r \<Rightarrow> or_str r ''freetrial''),
           is_active = True, user_balance = 0, user_created_at = None,
           onboarding_completed = Some False, user_image = opt_or (ba_image b) None, avatar_url = None\<rparr>)"

definition signed_out :: "auth_state \<Rightarrow> auth_state" where
  "signed_out s = (syncSessionToken None s)\<lparr>st_user := None, isAuthenticated := False, isLoading := False\<rparr>"

text \<open>The common part of \<open>login\<close>, \<open>register\<close> and \<open>fetchMe\<close>: adopt a session.\<close>

definition adopt_session ::
    "User option \<Rightarrow> ba_user \<Rightarrow> string option \<Rightarrow> auth_state \<Rightarrow> auth_state \<times> auth_call list" where
  "adopt_session me b token s =
     (let s1 = (if truthy token then syncSessionToken token s else s)
      in (s1\<lparr>st_user := Some (hydrateUserFromBackend me b), isAuthenticated := True, isLoading := False\<rparr>,
          [CallBackend ''GET'' ''/auth/me'' (request_header (api_token s1))]))"

definition login ::
    "signin_result \<Rightarrow> session_result \<Rightarrow> User option \<Rightarrow> auth_state
      \<Rightarrow> auth_state \<times> auth_error option \<times> auth_call list" where
  "login signIn session me s =
     (case signIn of
        SignInError e \<Rightarrow>
          (s, Some (AuthError (case err_message e of None \<Rightarrow> ''Login failed'' | Some m \<Rightarrow> or_str m ''Login failed'')
                     (err_code e) (err_retryAfterMinutes e)), [CallSignIn])
      | SignInTwoFactor \<Rightarrow>
          (s, Some (AuthError ''2FA verification required'' (Some ''TWO_FACTOR_REQUIRED'') None), [CallSignIn])
      | SignInDone \<Rightarrow>
          (case session of
             SessionThrows \<Rightarrow> (s, Some Rejected, [CallSignIn, CallGetSession])
           | NoSession \<Rightarrow>
               (signed_out s, Some (AuthError ''Login succeeded but no session was created'' None None),
                [CallSignIn, CallGetSession])
           | HasSession b token \<Rightarrow>
               (let (s1, calls) = adopt_session me b token s
                in (s1, None, [CallSignIn, CallGetSession] @ calls))))"

definition register ::
    "signup_result \<Rightarrow> session_result \<Rightarrow> User option \<Rightarrow> auth_state
      \<Rightarrow> auth_state \<times> auth_error option \<times> auth_call list" where
  "register signUp session me s =
     (case signUp of
        SignUpError e \<Rightarrow>
          (s, Some (AuthError (case err_message e of None \<Rightarrow> ''Registration failed''
                               | Some m \<Rightarrow> or_str m ''Registration failed'') None None), [CallSignUp])
      | SignUpDone \<Rightarrow>
          (case session of
             HasSession b token \<Rightarrow>
               (let (s1, calls) = adopt_session me b token s
                in (s1, None, [CallSignUp, CallGetSession] @ calls))
           | _ \<Rightarrow> (s\<lparr>isLoading := False\<rparr>, None, [CallSignUp, CallGetSession])))"

text \<open>The results of the two requests of \<open>logout\<close> are ignored.\<close>

definition logout :: "auth_state \<Rightarrow> auth_state \<times> auth_call list" where
  "logout s =
     ((let s1 = syncSessionToken None s
       in s1\<lparr>st_pool := disconnectAll (st_pool s1), st_user := None, isAuthenticated := False,
             isLoading := False\<rparr>),
      [CallBackend ''POST'' ''/auth/logout'' (request_header (api_token s)), CallSignOut])"

definition fetchMe ::
    "session_result \<Rightarrow> User option \<Rightarrow> auth_state \<Rightarrow> auth_state \<times> auth_call list" where
  "fetchMe session me s =
     (case session of
        HasSession b token \<Rightarrow>
          (let (s1, calls) = adopt_session me b token s in (s1, CallGetSession # calls))
      | _ \<Rightarrow> (signed_out s, [CallGetSession]))"

section \<open>The parts between two awaits\<close>

text \<open>What an operation is waiting for, with the variables it has captured.\<close>

datatype auth_wait =
    Login_signin | Login_session | Login_profile ba_user
  | Register_signup | Register_session | Register_profile ba_user
  | Logout_post | Logout_signout
  | Fetch_session | Fetch_profile ba_user

datatype auth_flow = Raises auth_error | Finished | Waits auth_wait

text \<open>A part takes the answer that was awaited and returns the new state, how the operation goes on and the
  calls made.\<close>

type_synonym auth_part = "auth_state \<times> auth_flow \<times> auth_call list"

definition take_token :: "string option \<Rightarrow> auth_state \<Rightarrow> auth_state" where
  "take_token token s = (if truthy token then syncSessionToken token s else s)"

definition profile_call :: "auth_state \<Rightarrow> auth_call" where
  "profile_call s = CallBackend ''GET'' ''/auth/me'' (request_header (api_token s))"

definition profile_arrives :: "User option \<Rightarrow> ba_user \<Rightarrow> auth_state \<Rightarrow> auth_part" where
  "profile_arrives me b s =
     (s\<lparr>st_user := Some (hydrateUserFromBackend me b), isAuthenticated := True, isLoading := False\<rparr>, Finished, [])"

definition login_signed_in :: "signin_result \<Rightarrow> auth_state \<Rightarrow> auth_part" where
  "login_signed_in signIn s =
     (case signIn of
        SignInError e \<Rightarrow>
          (s, Raises (AuthError (case err_message e of None \<Rightarrow> ''Login failed'' | Some m \<Rightarrow> or_str m ''Login failed'')
                     (err_code e) (err_retryAfterMinutes e)), [])
      | SignInTwoFactor \<Rightarrow> (s, Raises (AuthError ''2FA verification required'' (Some ''TWO_FACTOR_REQUIRED'') None), [])
      | SignInDone \<Rightarrow> (s, Waits Login_session, [CallGetSession]))"

definition login_session :: "session_result \<Rightarrow> auth_state \<Rightarrow> auth_part" where
  "login_session session s =
     (case session of
        SessionThrows \<Rightarrow> (s, Raises Rejected, [])
      | NoSession \<Rightarrow> (signed_out s, Raises (AuthError ''Login succeeded but no session was created'' None None), [])
      | HasSession b token \<Rightarrow> (take_token token s, Waits (Login_profile b), [profile_call (take_token token s)]))"

definition register_signed_up :: "signup_result \<Rightarrow> auth_state \<Rightarrow> auth_part" where
  "register_signed_up signUp s =
     (case signUp of
        SignUpError e \<Rightarrow>
          (s, Raises (AuthError (case err_message e of None \<Rightarrow> ''Registration failed''
                                 | Some m \<Rightarrow> or_str m ''Registration failed'') None None), [])
      | SignUpDone \<Rightarrow> (s, Waits Register_session, [CallGetSession]))"

definition register_session :: "session_result \<Rightarrow> auth_state \<Rightarrow> auth_part" where
  "register_session session s =
     (case session of
        HasSession b token \<Rightarrow> (take_token token s, Waits (Register_profile b), [profile_call (take_token token s)])
      | _ \<Rightarrow> (s\<lparr>isLoading := False\<rparr>, Finished, []))"

definition logout_posted :: "auth_state \<Rightarrow> auth_part" where
  "logout_posted s = (s, Waits Logout_signout, [CallSignOut])"

definition logout_ended :: "auth_state \<Rightarrow> auth_part" where
  "logout_ended s =
     (let s1 = syncSessionToken None s
      in s1\<lparr>st_pool := disconnectAll (st_pool s1), st_user := None, isAuthenticated := False, isLoading := False\<rparr>,
      Finished, [])"

definition fetch_session :: "session_result \<Rightarrow> auth_state \<Rightarrow> auth_part" where
  "fetch_session session s =
     (case session of
        HasSession b token \<Rightarrow> (take_token token s, Waits (Fetch_profile b), [profile_call (take_token token s)])
      | _ \<Rightarrow> (signed_out s, Finished, []))"

lemmas auth_op_defs = login_def register_def logout_def fetchMe_def adopt_session_def signed_out_def
  syncSessionToken_def

lemmas auth_part_defs = login_signed_in_def login_session_def register_signed_up_def register_session_def
  logout_posted_def logout_ended_def fetch_session_def profile_arrives_def take_token_def profile_call_def

text \<open>The parts one after the other are the operations.\<close>

lemma login_parts:
  "login signIn session me s =
    (case login_signed_in signIn s of
       (s1, Waits _, calls) \<Rightarrow>
         (case login_session session s1 of
            (s2, Waits (Login_profile b), calls') \<Rightarrow>
              (fst (profile_arrives me b s2), None, CallSignIn # calls @ calls')
          | (s2, Raises e, calls') \<Rightarrow> (s2, Some e, CallSignIn # calls @ calls'))
     | (s1, Raises e, calls) \<Rightarrow> (s1, Some e, CallSignIn # calls))"
  by (cases signIn; cases session) (simp_all add: auth_op_defs auth_part_defs Let_def)

lemma register_parts:
  "register signUp session me s =
    (case register_signed_up signUp s of
       (s1, Waits _, calls) \<Rightarrow>
         (case register_session session s1 of
            (s2, Waits (Register_profile b), calls') \<Rightarrow>
              (fst (profile_arrives me b s2), None, CallSignUp # calls @ calls')
          | (s2, _, calls') \<Rightarrow> (s2, None, CallSignUp # calls @ calls'))
     | (s1, Raises e, calls) \<Rightarrow> (s1, Some e, CallSignUp # calls))"
  by (cases signUp; cases session) (simp_all add: auth_op_defs auth_part_defs Let_def)

lemma fetchMe_parts:
  "fetchMe session me s =
    (case fetch_session session s of
       (s1, Waits (Fetch_profile b), calls) \<Rightarrow> (fst (profile_arrives me b s1), CallGetSession # calls)
     | (s1, _, calls) \<Rightarrow> (s1, CallGetSession # calls))"
  by (cases session) (simp_all add: auth_op_defs auth_part_defs Let_def)

lemma logout_parts:
  "logout s = (fst (logout_ended (fst (logout_posted s))),
     CallBackend ''POST'' ''/auth/logout'' (request_header (api_token s)) # snd (snd (logout_posted s)))"
  by (simp add: auth_op_defs auth_part_defs Let_def)

section \<open>The store as a machine\<close>

text \<open>The store with the operations that are under way.  Any operation may start at any time, any of those under
  way may get its answer next, and other components use the socket cache in between.\<close>

record auth_world =
  aw_state :: auth_state
  aw_waiting :: "auth_wait list"

definition new_session :: auth_world where
  "new_session = \<lparr>aw_state = init_auth, aw_waiting = []\<rparr>"

definition entry_points :: "auth_wait list" where
  "entry_points = [Login_signin, Register_signup, Logout_post, Fetch_session]"

datatype auth_op = Starts auth_wait | Resumes auth_wait | UsePool

inductive auth_resumes :: "auth_wait \<Rightarrow> auth_state \<Rightarrow> auth_part \<Rightarrow> bool" where
  "auth_resumes Login_signin s (login_signed_in r s)"
| "auth_resumes Login_session s (login_session session s)"
| "auth_resumes Register_signup s (register_signed_up r' s)"
| "auth_resumes Register_session s (register_session session s)"
| "auth_resumes Logout_post s (logout_posted s)"
| "auth_resumes Logout_signout s (logout_ended s)"
| "auth_resumes Fetch_session s (fetch_session session s)"
| "auth_resumes (Login_profile b) s (profile_arrives me b s)"
| "auth_resumes (Register_profile b) s (profile_arrives me b s)"
| "auth_resumes (Fetch_profile b) s (profile_arrives me b s)"

inductive auth_step :: "auth_world \<Rightarrow> auth_op \<Rightarrow> auth_world \<Rightarrow> bool" where
  starts: "wt \<in> set entry_points \<Longrightarrow> auth_step w (Starts wt) (w\<lparr>aw_waiting := aw_waiting w @ [wt]\<rparr>)"
| resumes: "i < length (aw_waiting w) \<Longrightarrow> auth_resumes (aw_waiting w ! i) (aw_state w) (s', flow, calls) \<Longrightarrow>
     auth_step w (Resumes (aw_waiting w ! i))
       (w\<lparr>aw_state := s',
          aw_waiting := (case flow of Waits wt \<Rightarrow> (aw_waiting w)[i := wt]
                         | _ \<Rightarrow> take i (aw_waiting w) @ drop (Suc i) (aw_waiting w))\<rparr>)"
| uses_pool: "pool_step (st_pool (aw_state w)) () q \<Longrightarrow> auth_step w UsePool (w\<lparr>aw_state := (aw_state w)\<lparr>st_pool := q\<rparr>\<rparr>)"

lemma resumes_at:
  assumes "i < length (aw_waiting w)" "auth_resumes (aw_waiting w ! i) (aw_state w) (s', flow, calls)"
  shows "auth_step w (Resumes (aw_waiting w ! i)) \<lparr>aw_state = s',
     aw_waiting = (case flow of Waits wt \<Rightarrow> (aw_waiting w)[i := wt]
                   | _ \<Rightarrow> take i (aw_waiting w) @ drop (Suc i) (aw_waiting w))\<rparr>"
proof (cases w)
  case (fields s wts)
  then show ?thesis using auth_step.resumes [OF assms] by simp
qed

definition auth_inv :: "auth_state \<Rightarrow> bool" where
  "auth_inv s \<longleftrightarrow> api_token s = socket_token s \<and> (isAuthenticated s \<longleftrightarrow> st_user s \<noteq> None) \<and> pool_inv (st_pool s)"

lemma auth_resumes_inv: "auth_resumes wt s r \<Longrightarrow> auth_inv s \<Longrightarrow> auth_inv (fst r)"
  by (induction rule: auth_resumes.induct)
    (auto simp: auth_inv_def auth_part_defs signed_out_def syncSessionToken_def Let_def pool_inv_disconnectAll
      split: signin_result.splits signup_result.splits session_result.splits)

lemma auth_step_inv: "auth_step w a w' \<Longrightarrow> auth_inv (aw_state w) \<Longrightarrow> auth_inv (aw_state w')"
proof (induction rule: auth_step.induct)
  case (resumes i w s' flow calls)
  then show ?case using auth_resumes_inv [OF resumes(2)] by simp
next
  case (uses_pool w q)
  then show ?case using pool_step_inv by (auto simp: auth_inv_def)
qed simp

lemma auth_inv_init: "auth_inv init_auth"
  by (simp add: auth_inv_def init_auth_def pool_inv_empty)

interpretation aum: machine "\<lambda>w. w = new_session" auth_step "\<lambda>w. auth_inv (aw_state w)"
  by unfold_locales (auto simp: auth_inv_init new_session_def intro: auth_step_inv)

section \<open>Properties\<close>

definition demo_ba_user :: ba_user where
  "demo_ba_user = \<lparr>ba_id = ''u1'', ba_email = ''a@b.c'', ba_name = Some ''Ana'', ba_image = None, ba_role = None\<rparr>"

definition demo_session :: auth_state where
  "demo_session = (fst (fetchMe (HasSession demo_ba_user (Some ''tok'')) None init_auth))"

definition demo_world :: auth_world where
  "demo_world = \<lparr>aw_state = demo_session, aw_waiting = []\<rparr>"

lemma demo_waiting_reach:
  "reach (\<lambda>w. w = new_session) auth_step
     \<lparr>aw_state = fst (fetch_session (HasSession demo_ba_user (Some ''tok'')) init_auth), aw_waiting = [Fetch_profile demo_ba_user]\<rparr>"
proof -
  note step = reach_step [where start = "\<lambda>w. w = new_session" and step = auth_step]
  let ?w1 = "\<lparr>aw_state = init_auth, aw_waiting = [Fetch_session]\<rparr>"
  have "auth_step new_session (Starts Fetch_session) ?w1"
    using starts [of Fetch_session new_session] by (simp add: entry_points_def new_session_def)
  moreover have "reach (\<lambda>w. w = new_session) auth_step new_session" by (rule reach_start) simp
  ultimately have r1: "reach (\<lambda>w. w = new_session) auth_step ?w1" using step by blast
  have "auth_step ?w1 (Resumes Fetch_session)
      \<lparr>aw_state = fst (fetch_session (HasSession demo_ba_user (Some ''tok'')) init_auth), aw_waiting = [Fetch_profile demo_ba_user]\<rparr>"
    using resumes_at [of 0 ?w1 "fst (fetch_session (HasSession demo_ba_user (Some ''tok'')) init_auth)" "Waits (Fetch_profile demo_ba_user)"]
      auth_resumes.intros(7) [of init_auth "HasSession demo_ba_user (Some ''tok'')"]
    by (simp add: fetch_session_def)
  then show ?thesis by (rule step [OF r1])
qed

lemma demo_session_parts:
  "demo_session = fst (profile_arrives None demo_ba_user (fst (fetch_session (HasSession demo_ba_user (Some ''tok'')) init_auth)))"
  by (simp add: demo_session_def fetchMe_parts fetch_session_def)

lemma demo_world_reach: "reach (\<lambda>w. w = new_session) auth_step demo_world"
proof (rule reach_step [OF demo_waiting_reach])
  let ?s = "fst (fetch_session (HasSession demo_ba_user (Some ''tok'')) init_auth)"
  show "auth_step \<lparr>aw_state = ?s, aw_waiting = [Fetch_profile demo_ba_user]\<rparr> (Resumes (Fetch_profile demo_ba_user)) demo_world"
    using resumes_at [of 0 "\<lparr>aw_state = ?s, aw_waiting = [Fetch_profile demo_ba_user]\<rparr>" "fst (profile_arrives None demo_ba_user ?s)" Finished]
      auth_resumes.intros(10) [of demo_ba_user ?s None]
    by (simp add: demo_world_def demo_session_parts) (simp add: profile_arrives_def)
qed

text \<open>C10: in every reachable state of the session the axios client and the socket client hold the
  same token, and the user is present exactly when the store says it is authenticated.\<close>

theorem tokens_in_sync:
  assumes "reach (\<lambda>w. w = new_session) auth_step w"
  shows "api_token (aw_state w) = socket_token (aw_state w) \<and> (isAuthenticated (aw_state w) \<longleftrightarrow> st_user (aw_state w) \<noteq> None)"
  using aum.reach_inv [OF assms] by (simp add: auth_inv_def)

theorem tokens_in_sync_witness:
  "api_token (aw_state demo_world) = socket_token (aw_state demo_world)
    \<and> (isAuthenticated (aw_state demo_world) \<longleftrightarrow> st_user (aw_state demo_world) \<noteq> None)"
  by (rule tokens_in_sync [OF demo_world_reach])

text \<open>A profile that arrives after a logout brings the session back in the store: the user is signed in again there
  although both tokens are gone and nothing is under way any more.\<close>

theorem late_profile_outlives_logout:
  "\<exists>w. reach (\<lambda>w. w = new_session) auth_step w \<and> aw_waiting w = [] \<and> isAuthenticated (aw_state w)
    \<and> st_user (aw_state w) = Some (hydrateUserFromBackend None demo_ba_user) \<and> api_token (aw_state w) = None"
proof -
  let ?s1 = "fst (fetch_session (HasSession demo_ba_user (Some ''tok'')) init_auth)"
  let ?w2 = "\<lparr>aw_state = ?s1, aw_waiting = [Fetch_profile demo_ba_user]\<rparr>"
  let ?w5 = "\<lparr>aw_state = fst (logout_ended ?s1), aw_waiting = [Fetch_profile demo_ba_user]\<rparr>"
  let ?w6 = "\<lparr>aw_state = fst (profile_arrives None demo_ba_user (fst (logout_ended ?s1))), aw_waiting = []\<rparr>"
  note step = reach_step [where start = "\<lambda>w. w = new_session" and step = auth_step]
  have "auth_step ?w2 (Starts Logout_post) \<lparr>aw_state = ?s1, aw_waiting = [Fetch_profile demo_ba_user, Logout_post]\<rparr>"
    using starts [of Logout_post ?w2] by (simp add: entry_points_def)
  note r3 = step [OF demo_waiting_reach this]
  have "auth_step \<lparr>aw_state = ?s1, aw_waiting = [Fetch_profile demo_ba_user, Logout_post]\<rparr> (Resumes Logout_post)
      \<lparr>aw_state = ?s1, aw_waiting = [Fetch_profile demo_ba_user, Logout_signout]\<rparr>"
    using resumes_at [of 1 "\<lparr>aw_state = ?s1, aw_waiting = [Fetch_profile demo_ba_user, Logout_post]\<rparr>" "fst (logout_posted ?s1)" "Waits Logout_signout"] auth_resumes.intros(5) [of ?s1]
    by (simp add: logout_posted_def)
  note r4 = step [OF r3 this]
  have "auth_step \<lparr>aw_state = ?s1, aw_waiting = [Fetch_profile demo_ba_user, Logout_signout]\<rparr> (Resumes Logout_signout) ?w5"
    using resumes_at [of 1 "\<lparr>aw_state = ?s1, aw_waiting = [Fetch_profile demo_ba_user, Logout_signout]\<rparr>"
        "fst (logout_ended ?s1)" Finished] auth_resumes.intros(6) [of ?s1]
    by (simp add: logout_ended_def)
  note r5 = step [OF r4 this]
  have "auth_step ?w5 (Resumes (Fetch_profile demo_ba_user)) ?w6"
    using resumes_at [of 0 ?w5 "fst (profile_arrives None demo_ba_user (fst (logout_ended ?s1)))" Finished]
      auth_resumes.intros(10) [of demo_ba_user "fst (logout_ended ?s1)" None]
    by (simp add: profile_arrives_def)
  note r6 = step [OF r5 this]
  show ?thesis
  proof (intro exI [of _ ?w6] conjI)
    show "reach (\<lambda>w. w = new_session) auth_step ?w6" by (rule r6)
  qed (simp_all add: profile_arrives_def logout_ended_def syncSessionToken_def Let_def)
qed

text \<open>Logging out, from any state and whatever its two requests answer, leaves no user, no token
  in either client and no cached socket; the cache has disconnected every socket; and the
  backend request that deletes the session still carries the old token and comes first.\<close>

theorem logout_clears_session:
  "st_user (fst (logout s)) = None \<and> \<not> isAuthenticated (fst (logout s))
   \<and> api_token (fst (logout s)) = None \<and> socket_token (fst (logout s)) = None
   \<and> st_pool (fst (logout s)) = disconnectAll (st_pool s) \<and> sockets (st_pool (fst (logout s))) = []
   \<and> snd (logout s) = [CallBackend ''POST'' ''/auth/logout'' (request_header (api_token s)), CallSignOut]"
  by (simp add: logout_def syncSessionToken_def disconnectAll_def Let_def)

text \<open>A session that has ended is noticed by \<open>fetchMe\<close>, which signs the user out and drops both
  tokens, but the cached sockets stay as they were: a socket authenticated for the old session
  remains connected.\<close>

theorem session_loss_keeps_sockets:
  assumes "session = NoSession \<or> session = SessionThrows"
  shows "st_user (fst (fetchMe session me s)) = None \<and> \<not> isAuthenticated (fst (fetchMe session me s))
    \<and> api_token (fst (fetchMe session me s)) = None \<and> socket_token (fst (fetchMe session me s)) = None
    \<and> st_pool (fst (fetchMe session me s)) = st_pool s"
  using assms by (auto simp: fetchMe_def signed_out_def syncSessionToken_def)

theorem session_loss_keeps_sockets_witness:
  "st_user (fst (fetchMe NoSession None demo_session)) = None
    \<and> \<not> isAuthenticated (fst (fetchMe NoSession None demo_session))
    \<and> api_token (fst (fetchMe NoSession None demo_session)) = None
    \<and> socket_token (fst (fetchMe NoSession None demo_session)) = None
    \<and> st_pool (fst (fetchMe NoSession None demo_session)) = st_pool demo_session"
  by (rule session_loss_keeps_sockets) simp

text \<open>A login that does not throw ends authenticated, as the user of the session; when the session
  has a token, both clients hold it and the profile request is made with it, otherwise they keep the
  token they had.\<close>

theorem login_outcome:
  assumes "login signIn session me s = (s', None, calls)"
  shows "\<exists>b token. signIn = SignInDone \<and> session = HasSession b token
    \<and> isAuthenticated s' \<and> st_user s' = Some (hydrateUserFromBackend me b)
    \<and> api_token s' = (if truthy token then token else api_token s)
    \<and> socket_token s' = (if truthy token then token else socket_token s)
    \<and> last calls = CallBackend ''GET'' ''/auth/me'' (request_header (api_token s'))"
proof (cases signIn)
  case SignInDone
  with assms obtain b token where "session = HasSession b token"
    by (cases session) (auto simp: login_def)
  with SignInDone show ?thesis using assms
    by (auto simp: login_def adopt_session_def syncSessionToken_def Let_def)
qed (use assms in \<open>simp_all add: login_def\<close>)

theorem login_outcome_witness:
  "\<exists>b token. SignInDone = SignInDone \<and> HasSession demo_ba_user (Some ''tok'') = HasSession b token
    \<and> isAuthenticated demo_session \<and> st_user demo_session = Some (hydrateUserFromBackend None b)
    \<and> api_token demo_session = (if truthy token then token else api_token init_auth)
    \<and> socket_token demo_session = (if truthy token then token else socket_token init_auth)
    \<and> last [CallSignIn, CallGetSession, CallBackend ''GET'' ''/auth/me'' (Some ''tok'')]
        = CallBackend ''GET'' ''/auth/me'' (request_header (api_token demo_session))"
  by (rule login_outcome) (simp add: demo_session_def auth_op_defs Let_def request_header_def)

end
