(* ===== verification/SocketHooks.thy ===== *)
theory SocketHooks
  imports SocketPool
begin

text \<open>
  The React hooks over the socket cache, \<open>src/frontend/src/hooks/use-socket.ts\<close>.

  A hook instance keeps its React state (\<open>job_view\<close>) and the identifier of the effect that is mounted
  (\<open>None\<close> when there is none).  Mounting an effect creates three closures, which get the numbers
  \<open>3 n\<close> (open), \<open>3 n + 1\<close> (close) and \<open>3 n + 2\<close> (all) for a fresh \<open>n\<close>; the cleanup removes them and,
  for a job, disconnects the socket and resets the state.  The calls of \<open>setTimeout\<close> wait in
  \<open>hw_timers\<close>.  A change of the dependencies of an effect is a cleanup followed by a mount.
\<close>

datatype job_type = Broadcast_job | Invite_job | Autojoin_job | Autoleave_job

fun jobType_name :: "job_type \<Rightarrow> string" where
  "jobType_name Broadcast_job = ''broadcast''"
| "jobType_name Invite_job = ''invite''"
| "jobType_name Autojoin_job = ''autojoin''"
| "jobType_name Autoleave_job = ''autoleave''"

text \<open>The state of both hooks.  The chat hook uses \<open>v_connected\<close> and \<open>v_handler\<close>, its \<open>handlerRef\<close>;
  the calls of that handler are recorded in \<open>v_forwarded\<close>.\<close>

record job_view =
  v_connected :: bool
  v_progress :: json
  v_logs :: "json list"
  v_phaseMessage :: json
  v_handler :: "nat option"
  v_forwarded :: "(nat \<times> json) list"

definition initial_view :: job_view where
  "initial_view = \<lparr>v_connected = False, v_progress = JNull, v_logs = [], v_phaseMessage = JStr [],
     v_handler = None, v_forwarded = []\<rparr>"

section \<open>The effects\<close>

text \<open>\<open>ws.on\<close> and \<open>ws.off\<close> for the three closures, on the object to which the effect holds a reference.\<close>

definition attach :: "pool \<Rightarrow> nat \<Rightarrow> nat \<Rightarrow> pool" where
  "attach p ws n =
     change_object p ws (\<lambda>s. on (on (on s ''open'' (3 * n)) ''close'' (3 * n + 1)) ''all'' (3 * n + 2))"

definition detach_ws :: "nat \<Rightarrow> rws \<Rightarrow> rws" where
  "detach_ws n ws = off (off (off ws ''open'' (3 * n)) ''close'' (3 * n + 1)) ''all'' (3 * n + 2)"

definition detach :: "pool \<Rightarrow> nat \<Rightarrow> nat \<Rightarrow> pool" where
  "detach p ws n = change_object p ws (detach_ws n)"

text \<open>An effect returns the new cache, the reference its cleanup captures, if it has a cleanup, and the new state.\<close>

definition useChatSocket :: "string \<Rightarrow> string option \<Rightarrow> nat \<Rightarrow> pool \<Rightarrow> job_view \<Rightarrow> pool \<times> nat option \<times> job_view" where
  "useChatSocket base accountId n p v =
     (if \<not> truthy accountId then (p, None, v)
      else
        let (p1, ws) = connectChatSocket base p (the accountId)
        in (attach p1 ws n, Some ws, v\<lparr>v_connected := rws_connected (objects p1 ! ws)\<rparr>))"

definition useChatSocket_cleanup :: "nat \<Rightarrow> nat \<Rightarrow> pool \<Rightarrow> job_view \<Rightarrow> pool \<times> job_view" where
  "useChatSocket_cleanup ws n p v = (detach p ws n, v)"

definition useChatSocket_event :: "json \<Rightarrow> job_view \<Rightarrow> job_view" where
  "useChatSocket_event data v =
     (case v_handler v of None \<Rightarrow> v | Some f \<Rightarrow> v\<lparr>v_forwarded := v_forwarded v @ [(f, data)]\<rparr>)"

definition job_key :: "job_type \<Rightarrow> string \<Rightarrow> string" where
  "job_key jobType jobId = jobType_name jobType @ '':'' @ jobId"

definition connect_job :: "string \<Rightarrow> job_type \<Rightarrow> pool \<Rightarrow> string \<Rightarrow> pool \<times> nat" where
  "connect_job base jobType p jobId =
     (case jobType of
        Broadcast_job \<Rightarrow> connectBroadcastSocket base p jobId
      | Invite_job \<Rightarrow> connectInviteSocket base p jobId
      | Autojoin_job \<Rightarrow> connectAutoJoinSocket base p jobId
      | Autoleave_job \<Rightarrow> connectAutoLeaveSocket base p jobId)"

definition useJobSocket ::
  "string \<Rightarrow> job_type \<Rightarrow> string option \<Rightarrow> nat \<Rightarrow> pool \<Rightarrow> job_view \<Rightarrow> pool \<times> nat option \<times> job_view" where
  "useJobSocket base jobType jobId n p v =
     (if \<not> truthy jobId then (p, None, v)
      else
        let (p1, ws) = connect_job base jobType p (the jobId)
        in (attach p1 ws n, Some ws, v\<lparr>v_connected := rws_connected (objects p1 ! ws)\<rparr>))"

definition useJobSocket_cleanup ::
  "job_type \<Rightarrow> string \<Rightarrow> nat \<Rightarrow> nat \<Rightarrow> pool \<Rightarrow> job_view \<Rightarrow> pool \<times> job_view" where
  "useJobSocket_cleanup jobType jobId ws n p v =
     (disconnectSocket (detach p ws n) (job_key jobType jobId),
      v\<lparr>v_logs := [], v_phaseMessage := JStr [], v_progress := JNull\<rparr>)"

text \<open>The new state and the keys of the sockets that will be disconnected in a second.\<close>

definition handleEvent :: "job_type \<Rightarrow> string \<Rightarrow> json \<Rightarrow> job_view \<Rightarrow> job_view \<times> string list" where
  "handleEvent jobType jobId data v =
     (if jget data ''type'' = Some (JStr ''progress'') then (v\<lparr>v_progress := data\<rparr>, [])
      else if jget data ''type'' = Some (JStr ''log'') then (v\<lparr>v_logs := v_logs v @ [data]\<rparr>, [])
      else if jget data ''type'' = Some (JStr ''completed'') \<or> jget data ''type'' = Some (JStr ''error'')
      then (v\<lparr>v_progress := data\<rparr>, [job_key jobType jobId])
      else if opt_truthy (jget data ''message'')
      then (v\<lparr>v_phaseMessage := the (jget data ''message'')\<rparr>, [])
      else (v, []))"

text \<open>The four job hooks return parts of this state.\<close>

definition useBroadcastSocket :: "job_view \<Rightarrow> bool \<times> json \<times> json list" where
  "useBroadcastSocket v = (v_connected v, v_progress v, v_logs v)"
definition useInviteSocket :: "job_view \<Rightarrow> bool \<times> json \<times> json list \<times> string \<times> json" where
  "useInviteSocket v = (v_connected v, v_progress v, v_logs v, [], v_phaseMessage v)"
definition useAutoJoinSocket :: "job_view \<Rightarrow> bool \<times> json \<times> json list \<times> json" where
  "useAutoJoinSocket v = (v_connected v, v_progress v, v_logs v, v_phaseMessage v)"
definition useAutoLeaveSocket :: "job_view \<Rightarrow> bool \<times> json \<times> json list \<times> json" where
  "useAutoLeaveSocket v = (v_connected v, v_progress v, v_logs v, v_phaseMessage v)"

section \<open>The page\<close>

text \<open>All hook instances of a page with the cache and the pending timeouts.\<close>

datatype hook_kind = Chat_hook | Job_hook job_type

record hook =
  hk_kind :: hook_kind
  hk_ident :: "string option"
  hk_closures :: nat
  hk_socket :: "nat option"
  hk_view :: job_view

record hook_world =
  hw_pool :: pool
  hw_hooks :: "hook list"
  hw_timers :: "string list"
  hw_next :: nat

definition empty_world :: hook_world where
  "empty_world = \<lparr>hw_pool = empty_pool, hw_hooks = [], hw_timers = [], hw_next = 0\<rparr>"

fun kind_channel :: "hook_kind \<Rightarrow> string" where
  "kind_channel Chat_hook = ''chats''"
| "kind_channel (Job_hook jobType) = jobType_name jobType"

definition mount :: "string \<Rightarrow> nat \<Rightarrow> string \<Rightarrow> hook_world \<Rightarrow> hook_world" where
  "mount base i ident w =
     (let hk = hw_hooks w ! i; n = hw_next w;
          (p, ws, v) = (case hk_kind hk of
                      Chat_hook \<Rightarrow> useChatSocket base (Some ident) n (hw_pool w) (hk_view hk)
                    | Job_hook jobType \<Rightarrow> useJobSocket base jobType (Some ident) n (hw_pool w) (hk_view hk))
      in w\<lparr>hw_pool := p, hw_next := Suc n,
           hw_hooks := (hw_hooks w)[i := hk\<lparr>hk_ident := Some ident, hk_closures := n, hk_socket := ws, hk_view := v\<rparr>]\<rparr>)"

definition unmount :: "nat \<Rightarrow> string \<Rightarrow> hook_world \<Rightarrow> hook_world" where
  "unmount i ident w =
     (let hk = hw_hooks w ! i; n = hk_closures hk; ws = the (hk_socket hk);
          (p, v) = (case hk_kind hk of
                      Chat_hook \<Rightarrow> useChatSocket_cleanup ws n (hw_pool w) (hk_view hk)
                    | Job_hook jobType \<Rightarrow> useJobSocket_cleanup jobType ident ws n (hw_pool w) (hk_view hk))
      in w\<lparr>hw_pool := p, hw_hooks := (hw_hooks w)[i := hk\<lparr>hk_ident := None, hk_socket := None, hk_view := v\<rparr>]\<rparr>)"

text \<open>One call of a closure, on the state of the hook that owns it.\<close>

definition run_closure :: "nat \<Rightarrow> json \<Rightarrow> hook \<Rightarrow> hook \<times> string list" where
  "run_closure h data hk =
     (case hk_ident hk of
        None \<Rightarrow> (hk, [])
      | Some ident \<Rightarrow>
          if h = 3 * hk_closures hk then (hk\<lparr>hk_view := (hk_view hk)\<lparr>v_connected := True\<rparr>\<rparr>, [])
          else if h = 3 * hk_closures hk + 1 then (hk\<lparr>hk_view := (hk_view hk)\<lparr>v_connected := False\<rparr>\<rparr>, [])
          else if h = 3 * hk_closures hk + 2 then
            (case hk_kind hk of
               Chat_hook \<Rightarrow> (hk\<lparr>hk_view := useChatSocket_event data (hk_view hk)\<rparr>, [])
             | Job_hook jobType \<Rightarrow>
                 let (v, ks) = handleEvent jobType ident data (hk_view hk) in (hk\<lparr>hk_view := v\<rparr>, ks))
          else (hk, []))"

fun deliver :: "effect list \<Rightarrow> hook_world \<Rightarrow> hook_world" where
  "deliver [] w = w"
| "deliver (CallHandler h data # out) w =
     deliver out (w\<lparr>hw_hooks := map (\<lambda>hk. fst (run_closure h data hk)) (hw_hooks w),
                    hw_timers := hw_timers w @ concat (map (\<lambda>hk. snd (run_closure h data hk)) (hw_hooks w))\<rparr>)"
| "deliver (_ # out) w = deliver out w"

text \<open>What the browser does to an object leaves the registered closures alone.\<close>

definition browser_step :: "rws \<Rightarrow> effect list \<Rightarrow> rws \<Rightarrow> bool" where
  "browser_step s out t \<longleftrightarrow> ws_step s out t \<and> handlers t = handlers s"

inductive page_step :: "hook_world \<Rightarrow> effect list \<Rightarrow> hook_world \<Rightarrow> bool" where
  renders: "page_step w [] (w\<lparr>hw_hooks := hw_hooks w @
      [\<lparr>hk_kind = kind, hk_ident = None, hk_closures = 0, hk_socket = None, hk_view = initial_view\<rparr>]\<rparr>)"
| mounts: "i < length (hw_hooks w) \<Longrightarrow> hk_ident (hw_hooks w ! i) = None \<Longrightarrow> ident \<noteq> [] \<Longrightarrow>
     page_step w [] (mount base i ident w)"
| unmounts: "i < length (hw_hooks w) \<Longrightarrow> hk_ident (hw_hooks w ! i) = Some ident \<Longrightarrow>
     page_step w [] (unmount i ident w)"
| sets_handler: "i < length (hw_hooks w) \<Longrightarrow> hk_kind (hw_hooks w ! i) = Chat_hook \<Longrightarrow>
     page_step w [] (w\<lparr>hw_hooks := (hw_hooks w)[i := (hw_hooks w ! i)\<lparr>hk_view :=
       (hk_view (hw_hooks w ! i))\<lparr>v_handler := Some f\<rparr>\<rparr>]\<rparr>)"
| socket_moves: "a < length (objects (hw_pool w)) \<Longrightarrow> browser_step (objects (hw_pool w) ! a) out ws' \<Longrightarrow>
     page_step w out (deliver out (w\<lparr>hw_pool := change_object (hw_pool w) a (\<lambda>_. ws')\<rparr>))"
| timeout: "j < length (hw_timers w) \<Longrightarrow>
     page_step w [] (w\<lparr>hw_timers := take j (hw_timers w) @ drop (Suc j) (hw_timers w),
                       hw_pool := disconnectSocket (hw_pool w) (hw_timers w ! j)\<rparr>)"
| logs_out: "page_step w [] (w\<lparr>hw_pool := disconnectAll (hw_pool w)\<rparr>)"

section \<open>Closures and the objects that hold them\<close>

definition held :: "rws \<Rightarrow> string \<Rightarrow> nat \<Rightarrow> bool" where
  "held ws event h \<longleftrightarrow> (case map_get (handlers ws) event of None \<Rightarrow> False | Some hs \<Rightarrow> h \<in> set hs)"

definition closures :: "nat \<Rightarrow> (string \<times> nat) list" where
  "closures n = [(''open'', 3 * n), (''close'', 3 * n + 1), (''all'', 3 * n + 2)]"

lemma closures_div: "(event, h) \<in> set (closures n) \<Longrightarrow> h div 3 = n"
  by (auto simp: closures_def)

lemma held_on: "held (on ws event h) event' h' \<longleftrightarrow> held ws event' h' \<or> event' = event \<and> h' = h"
  by (auto simp: held_def on_def Let_def split: option.splits)

lemma held_off: "held (off ws event h) event' h' \<longleftrightarrow> held ws event' h' \<and> \<not> (event' = event \<and> h' = h)"
  by (auto simp: held_def off_def split: option.splits)

lemma held_detach: "held (detach_ws n ws) event h \<longleftrightarrow> held ws event h \<and> (event, h) \<notin> set (closures n)"
  by (auto simp: detach_ws_def held_off closures_def)

lemma held_cong: "handlers t = handlers s \<Longrightarrow> held t event h = held s event h"
  by (simp add: held_def)

lemma held_new [simp]: "\<not> held (fst (connect (new_rws url))) event h"
  by (simp add: held_def connect_def new_rws_def current_def Let_def)

lemma disconnect_handlers [simp]: "handlers (fst (disconnect ws)) = handlers ws"
  by (simp add: disconnect_def clear_ping_def Let_def split: option.splits)

lemma held_disconnect [simp]: "held (fst (disconnect ws)) event h = held ws event h"
  by (rule held_cong) simp

lemma emit_not_held: "\<not> held s event h \<Longrightarrow> CallHandler h data \<notin> set (emit s event d)"
  by (auto simp: emit_def held_def split: option.splits)

lemma send_no_call [simp]: "CallHandler h data \<notin> set (send s d)"
  by (simp add: send_def split: option.splits)

text \<open>Every handler that a step of an object calls is registered on it.\<close>

lemma step_calls_held:
  assumes "ws_step s out t" "CallHandler h data \<in> set out"
  shows "\<exists>event. held s event h"
proof (rule ccontr)
  assume "\<nexists>event. held s event h"
  then have none: "\<not> held u event h" if "handlers u = handlers s" for u event
    using held_cong [OF that] by simp
  have quiet: "CallHandler h data \<notin> set (emit u event d)" if "handlers u = handlers s" for u event d
    by (rule emit_not_held [OF none [OF that]])
  from assms(1) have "CallHandler h data \<notin> set out"
  proof (cases rule: ws_step.cases)
    case (native_open i token)
    then show ?thesis by (auto simp: onopen_def Let_def quiet split: if_splits)
  next
    case (native_message i token payload)
    then show ?thesis by (auto simp: onmessage_def quiet split: option.splits json.splits if_splits)
  next
    case (native_close i jitter)
    then show ?thesis by (auto simp: onclose_def Let_def quiet clear_ping_def split: option.splits)
  qed (auto simp: reconnect_fires_def connect_def ping_fires_def disconnect_def Let_def split: if_splits option.splits)
  then show False using assms(2) by simp
qed

section \<open>The invariant of a page\<close>

text \<open>The hook with closures \<open>n\<close> is mounted on the channel with this key and holds the object \<open>a\<close>.\<close>

definition mounted_on :: "hook list \<Rightarrow> nat \<Rightarrow> nat \<Rightarrow> string \<Rightarrow> bool" where
  "mounted_on hks n a key \<longleftrightarrow> list_ex (\<lambda>hk. hk_closures hk = n \<and> hk_socket hk = Some a \<and>
     (case hk_ident hk of None \<Rightarrow> False | Some ident \<Rightarrow> key = kind_channel (hk_kind hk) @ '':'' @ ident)) hks"

definition mounted_closures :: "hook list \<Rightarrow> nat list" where
  "mounted_closures hks = map hk_closures (filter (\<lambda>hk. hk_ident hk \<noteq> None) hks)"

definition held_at :: "pool \<Rightarrow> nat \<Rightarrow> string \<Rightarrow> nat \<Rightarrow> bool" where
  "held_at p a event h \<longleftrightarrow> a < length (objects p) \<and> held (objects p ! a) event h"

definition page_inv :: "hook_world \<Rightarrow> bool" where
  "page_inv w \<longleftrightarrow>
     pool_inv (hw_pool w)
     \<and> distinct (mounted_closures (hw_hooks w)) \<and> list_all (\<lambda>n. n < hw_next w) (mounted_closures (hw_hooks w))
     \<and> (\<forall>a event h. held_at (hw_pool w) a event h \<longrightarrow>
          (\<exists>n key. mounted_on (hw_hooks w) n a key \<and> (event, h) \<in> set (closures n)))
     \<and> (\<forall>n a key. mounted_on (hw_hooks w) n a key \<longrightarrow> a < length (objects (hw_pool w)))
     \<and> (\<forall>n a key key'. mounted_on (hw_hooks w) n a key \<longrightarrow> map_get (sockets (hw_pool w)) key' = Some a \<longrightarrow> key' = key)"

lemma page_invD:
  assumes "page_inv w"
  shows "pool_inv (hw_pool w)" "distinct (mounted_closures (hw_hooks w))"
    "n \<in> set (mounted_closures (hw_hooks w)) \<Longrightarrow> n < hw_next w"
    "held_at (hw_pool w) a event h \<Longrightarrow>
       \<exists>n key. mounted_on (hw_hooks w) n a key \<and> (event, h) \<in> set (closures n)"
    "mounted_on (hw_hooks w) n a key \<Longrightarrow> a < length (objects (hw_pool w))"
    "mounted_on (hw_hooks w) n a key \<Longrightarrow> map_get (sockets (hw_pool w)) key' = Some a \<Longrightarrow> key' = key"
  using assms unfolding page_inv_def list_all_iff by blast+

text \<open>A change of the objects and of the cache that registers no closure and caches no old object.\<close>

definition holds_less :: "pool \<Rightarrow> pool \<Rightarrow> bool" where
  "holds_less q p \<longleftrightarrow>
     (\<forall>a event h. held_at q a event h \<longrightarrow> held_at p a event h)
     \<and> length (objects p) \<le> length (objects q)
     \<and> (\<forall>key a. map_get (sockets q) key = Some a \<longrightarrow> a < length (objects p) \<longrightarrow> map_get (sockets p) key = Some a)"

lemma holds_lessD:
  assumes "holds_less q p"
  shows "held_at q a event h \<Longrightarrow> held_at p a event h" "length (objects p) \<le> length (objects q)"
    "map_get (sockets q) key = Some a \<Longrightarrow> a < length (objects p) \<Longrightarrow> map_get (sockets p) key = Some a"
  using assms unfolding holds_less_def by blast+

lemma holds_less_trans: "holds_less r q \<Longrightarrow> holds_less q p \<Longrightarrow> holds_less r p"
  unfolding holds_less_def by (meson le_trans order_less_le_trans)

lemma holds_less_refl [simp]: "holds_less p p"
  unfolding holds_less_def by blast

lemma holds_less_change:
  assumes "\<And>event h. held (f (objects p ! a)) event h \<Longrightarrow> held (objects p ! a) event h"
  shows "holds_less (change_object p a f) p"
  using assms by (auto simp: holds_less_def held_at_def split: if_splits)

lemma holds_less_browser: "browser_step (objects p ! a) out ws' \<Longrightarrow> holds_less (change_object p a (\<lambda>_. ws')) p"
  by (rule holds_less_change) (simp add: browser_step_def held_def)

lemma holds_less_delete: "holds_less (p\<lparr>sockets := map_delete (sockets p) key\<rparr>) p"
  by (auto simp: holds_less_def held_at_def split: if_splits)

lemma holds_less_disconnect: "holds_less (disconnect_object p a) p"
  unfolding disconnect_object_def by (rule holds_less_change) simp

lemma holds_less_retire: "holds_less (retire p key) p"
proof (cases "map_get (sockets p) key")
  case (Some a)
  then have "retire p key = (disconnect_object p a)\<lparr>sockets := map_delete (sockets (disconnect_object p a)) key\<rparr>"
    by (simp add: retire_def disconnect_object_def)
  then show ?thesis using holds_less_trans [OF holds_less_delete holds_less_disconnect] by metis
qed (simp add: retire_def)

lemma holds_less_grown: "holds_less (grown p url) p"
  by (auto simp: holds_less_def held_at_def grown_def nth_append less_Suc_eq)

lemma holds_less_set:
  assumes "holds_less q p" "length (objects p) \<le> a \<or> map_get (sockets p) key = Some a"
  shows "holds_less (q\<lparr>sockets := map_set (sockets q) key a\<rparr>) p"
  using assms by (auto simp: holds_less_def held_at_def split: if_splits)

lemma registerSocket_get: "map_get (sockets (registerSocket p key ws)) key = Some ws"
  by (simp add: registerSocket_def Let_def)

lemma holds_less_evicted: "holds_less (evicted p) p"
  by (auto simp: evicted_def holds_less_retire split: list.splits)

lemma connectSocket_held:
  assumes inv: "pool_inv p"
  shows "holds_less (fst (connectSocket base channel p ident)) p
   \<and> map_get (sockets (fst (connectSocket base channel p ident))) (channel @ '':'' @ ident)
     = Some (snd (connectSocket base channel p ident))
   \<and> snd (connectSocket base channel p ident) < length (objects (fst (connectSocket base channel p ident)))
   \<and> (snd (connectSocket base channel p ident) < length (objects p) \<longrightarrow>
       map_get (sockets p) (channel @ '':'' @ ident) = Some (snd (connectSocket base channel p ident)))"
proof (cases "map_get (sockets p) (channel @ '':'' @ ident)")
  case None
  let ?url = "base @ ''/ws/'' @ channel @ ''/'' @ ident" and ?k = "channel @ '':'' @ ident"
  have new: "\<not> map_has (sockets (grown p ?url)) ?k" using None by (simp add: map_has_iff_get grown_def)
  have "holds_less (registerSocket (grown p ?url) ?k (length (objects p))) p"
    unfolding registerSocket_evicts [OF new]
    by (rule holds_less_set [OF holds_less_trans [OF holds_less_evicted holds_less_grown]]) simp
  moreover have "length (objects (registerSocket (grown p ?url) ?k (length (objects p)))) = Suc (length (objects p))"
    unfolding registerSocket_evicts [OF new] by (simp add: grown_def)
  ultimately show ?thesis by (simp add: connectSocket_new [OF None] registerSocket_get)
next
  case (Some a)
  have "holds_less (p\<lparr>sockets := map_set (sockets (p\<lparr>sockets := map_delete (sockets p) (channel @ '':'' @ ident)\<rparr>)) (channel @ '':'' @ ident) a\<rparr>) p"
    using holds_less_set [OF holds_less_delete, of p a "channel @ '':'' @ ident" "channel @ '':'' @ ident"] Some by simp
  then show ?thesis using pool_invD(5) [OF inv Some] Some by (simp add: connectSocket_cached [OF Some])
qed

lemma holds_less_all: "holds_less (disconnectAll p) p"
proof -
  have "holds_less (fold (\<lambda>kv q. disconnect_object q (snd kv)) m q) q" for m q
    by (induction m arbitrary: q) (auto intro: holds_less_trans holds_less_disconnect)
  then have less: "holds_less (fold (\<lambda>kv q. disconnect_object q (snd kv)) (sockets p) p) p" .
  show ?thesis
    using holds_lessD(1,2) [OF less] by (auto simp: disconnectAll_def holds_less_def held_at_def)
qed

lemma mounted_on_in: "mounted_on hks n a key \<Longrightarrow> n \<in> set (mounted_closures hks)"
  by (force simp: mounted_on_def mounted_closures_def list_ex_iff split: option.splits)

text \<open>The closures of a hook list change only where a hook is mounted or unmounted.\<close>

lemma mounted_split:
  assumes "i < length hks"
  shows "mounted_closures (hks[i := hk]) =
      mounted_closures (take i hks) @ (if hk_ident hk = None then [] else [hk_closures hk]) @ mounted_closures (drop (Suc i) hks)"
    and "mounted_closures hks =
      mounted_closures (take i hks) @ (if hk_ident (hks ! i) = None then [] else [hk_closures (hks ! i)]) @ mounted_closures (drop (Suc i) hks)"
    and "mounted_on (hks[i := hk]) n a key \<longleftrightarrow>
      mounted_on (take i hks) n a key \<or> mounted_on [hk] n a key \<or> mounted_on (drop (Suc i) hks) n a key"
    and "mounted_on hks n a key \<longleftrightarrow>
      mounted_on (take i hks) n a key \<or> mounted_on [hks ! i] n a key \<or> mounted_on (drop (Suc i) hks) n a key"
proof -
  have upd: "hks[i := hk] = take i hks @ [hk] @ drop (Suc i) hks" using assms by (simp add: upd_conv_take_nth_drop)
  have id: "hks = take i hks @ [hks ! i] @ drop (Suc i) hks" using assms by (simp add: id_take_nth_drop)
  show "mounted_closures (hks[i := hk]) =
      mounted_closures (take i hks) @ (if hk_ident hk = None then [] else [hk_closures hk]) @ mounted_closures (drop (Suc i) hks)"
    unfolding upd by (simp add: mounted_closures_def)
  show "mounted_closures hks =
      mounted_closures (take i hks) @ (if hk_ident (hks ! i) = None then [] else [hk_closures (hks ! i)]) @ mounted_closures (drop (Suc i) hks)"
    by (subst id) (simp add: mounted_closures_def)
  show "mounted_on (hks[i := hk]) n a key \<longleftrightarrow>
      mounted_on (take i hks) n a key \<or> mounted_on [hk] n a key \<or> mounted_on (drop (Suc i) hks) n a key"
    unfolding upd by (simp add: mounted_on_def)
  show "mounted_on hks n a key \<longleftrightarrow>
      mounted_on (take i hks) n a key \<or> mounted_on [hks ! i] n a key \<or> mounted_on (drop (Suc i) hks) n a key"
    by (subst id) (simp add: mounted_on_def)
qed

lemma mounted_unique:
  assumes "distinct (mounted_closures hks)" "i < length hks" "hk_ident (hks ! i) = Some ident"
    "mounted_on hks (hk_closures (hks ! i)) a key"
  shows "key = kind_channel (hk_kind (hks ! i)) @ '':'' @ ident \<and> hk_socket (hks ! i) = Some a"
proof -
  let ?n = "hk_closures (hks ! i)"
  have "?n \<notin> set (mounted_closures (take i hks))" "?n \<notin> set (mounted_closures (drop (Suc i) hks))"
    using assms(1) mounted_split(2) [OF assms(2)] assms(3) by (auto dest: arg_cong [where f = distinct])
  then have "mounted_on [hks ! i] ?n a key"
    using assms(4) mounted_split(4) [OF assms(2)] mounted_on_in by blast
  then show ?thesis using assms(3) by (simp add: mounted_on_def)
qed

text \<open>Running closures changes views and timeouts only.\<close>

lemma run_closure_keeps [simp]:
  "hk_ident (fst (run_closure h data hk)) = hk_ident hk"
  "hk_closures (fst (run_closure h data hk)) = hk_closures hk"
  "hk_kind (fst (run_closure h data hk)) = hk_kind hk"
  "hk_socket (fst (run_closure h data hk)) = hk_socket hk"
  by (simp_all add: run_closure_def case_prod_beta Let_def split: option.splits hook_kind.splits)

lemma deliver_keeps:
  "hw_pool (deliver out w) = hw_pool w" "hw_next (deliver out w) = hw_next w"
  "length (hw_hooks (deliver out w)) = length (hw_hooks w)"
  by (induction out w rule: deliver.induct) simp_all

lemma deliver_hook:
  "i < length (hw_hooks w) \<Longrightarrow>
   hk_ident (hw_hooks (deliver out w) ! i) = hk_ident (hw_hooks w ! i)
   \<and> hk_closures (hw_hooks (deliver out w) ! i) = hk_closures (hw_hooks w ! i)
   \<and> hk_kind (hw_hooks (deliver out w) ! i) = hk_kind (hw_hooks w ! i)"
  by (induction out w rule: deliver.induct) simp_all

lemma mounted_map:
  assumes "\<And>hk. hk_ident (f hk) = hk_ident hk \<and> hk_closures (f hk) = hk_closures hk \<and> hk_kind (f hk) = hk_kind hk
    \<and> hk_socket (f hk) = hk_socket hk"
  shows "mounted_closures (map f hks) = mounted_closures hks" "mounted_on (map f hks) n a key = mounted_on hks n a key"
  using assms by (induction hks) (simp_all add: mounted_closures_def mounted_on_def split: option.splits)

lemma deliver_mounted:
  "mounted_closures (hw_hooks (deliver out w)) = mounted_closures (hw_hooks w)"
  "mounted_on (hw_hooks (deliver out w)) n a key = mounted_on (hw_hooks w) n a key"
  by (induction out w rule: deliver.induct) (simp_all add: mounted_map)

text \<open>A step that mounts nothing and registers nothing keeps the invariant.\<close>

lemma page_inv_less:
  assumes "page_inv w" "pool_inv (hw_pool w')" "holds_less (hw_pool w') (hw_pool w)"
    "mounted_closures (hw_hooks w') = mounted_closures (hw_hooks w)" "hw_next w' = hw_next w"
    "\<And>n a key. mounted_on (hw_hooks w') n a key = mounted_on (hw_hooks w) n a key"
  shows "page_inv w'"
proof -
  note less = holds_lessD [OF assms(3)] and inv = page_invD [OF assms(1)]
  have "a < length (objects (hw_pool w'))" if "mounted_on (hw_hooks w) n a key" for n a key
    using inv(5) [OF that] less(2) by simp
  moreover have "key' = key"
    if "mounted_on (hw_hooks w) n a key" "map_get (sockets (hw_pool w')) key' = Some a" for n a key key'
    using inv(6) [OF that(1)] less(3) [OF that(2) inv(5) [OF that(1)]] by blast
  moreover have "\<exists>n key. mounted_on (hw_hooks w) n a key \<and> (event, h) \<in> set (closures n)"
    if "held_at (hw_pool w') a event h" for a event h
    using inv(4) less(1) that by blast
  ultimately show ?thesis
    using assms(2) inv(2,3) unfolding page_inv_def list_all_iff assms(4,5,6) by simp
qed

section \<open>Mounting and unmounting\<close>

lemma connect_job_eq: "connect_job base jobType p jobId = connectSocket base (jobType_name jobType) p jobId"
  by (cases jobType) (simp_all add: connect_job_def connectBroadcastSocket_def connectInviteSocket_def
      connectAutoJoinSocket_def connectAutoLeaveSocket_def)

lemma mount_eq:
  assumes "ident \<noteq> []"
  shows "mount base i ident w =
    (let hk = hw_hooks w ! i; c = kind_channel (hk_kind hk); r = connectSocket base c (hw_pool w) ident
     in w\<lparr>hw_pool := attach (fst r) (snd r) (hw_next w), hw_next := Suc (hw_next w),
          hw_hooks := (hw_hooks w)[i := hk\<lparr>hk_ident := Some ident, hk_closures := hw_next w, hk_socket := Some (snd r),
            hk_view := (hk_view hk)\<lparr>v_connected := rws_connected (objects (fst r) ! snd r)\<rparr>\<rparr>]\<rparr>)"
  using assms
  by (simp add: mount_def useChatSocket_def useJobSocket_def connectChatSocket_def connect_job_eq job_key_def
      case_prod_beta Let_def split: hook_kind.splits)

lemma unmount_eq:
  "unmount i ident w =
    (let hk = hw_hooks w ! i; p = detach (hw_pool w) (the (hk_socket hk)) (hk_closures hk)
     in w\<lparr>hw_pool := (case hk_kind hk of Chat_hook \<Rightarrow> p | Job_hook jobType \<Rightarrow> retire p (job_key jobType ident)),
          hw_hooks := (hw_hooks w)[i := hk\<lparr>hk_ident := None, hk_socket := None, hk_view :=
            (case hk_kind hk of Chat_hook \<Rightarrow> hk_view hk
             | Job_hook _ \<Rightarrow> (hk_view hk)\<lparr>v_logs := [], v_phaseMessage := JStr [], v_progress := JNull\<rparr>)\<rparr>]\<rparr>)"
  by (simp add: unmount_def useChatSocket_cleanup_def useJobSocket_cleanup_def disconnectSocket_def Let_def
      split: hook_kind.splits)

lemma attach_held:
  assumes "ws < length (objects p)"
  shows "held_at (attach p ws n) a event h \<longleftrightarrow> held_at p a event h \<or> a = ws \<and> (event, h) \<in> set (closures n)"
  using assms by (cases "a = ws") (auto simp: attach_def held_at_def held_on closures_def)

lemma detach_held:
  "held_at (detach p ws n) a event h \<longleftrightarrow> held_at p a event h \<and> \<not> (a = ws \<and> (event, h) \<in> set (closures n))"
  by (cases "a = ws") (auto simp: detach_def held_at_def held_detach)

lemma attach_keeps [simp]:
  "sockets (attach p ws n) = sockets p" "length (objects (attach p ws n)) = length (objects p)"
  "sockets (detach p ws n) = sockets p" "length (objects (detach p ws n)) = length (objects p)"
  by (simp_all add: attach_def detach_def)

lemma on_keeps: "intentionalClose (on ws event h) = intentionalClose ws"
  by (simp add: on_def Let_def)

lemma pool_inv_attach: "pool_inv p \<Longrightarrow> pool_inv (attach p ws n)"
  unfolding attach_def by (rule pool_inv_change) (simp_all add: ws_inv_on on_keeps pool_invD(4))

lemma detach_ws_keeps: "ws_inv (detach_ws n ws) = ws_inv ws" "intentionalClose (detach_ws n ws) = intentionalClose ws"
  by (simp_all add: detach_ws_def ws_inv_off) (simp add: off_def split: option.splits)

lemma pool_inv_detach: "pool_inv p \<Longrightarrow> pool_inv (detach p ws n)"
  unfolding detach_def by (rule pool_inv_change) (simp_all add: detach_ws_keeps pool_invD(4))

lemma holds_less_detach: "holds_less (detach p ws n) p"
  unfolding detach_def by (rule holds_less_change) (simp add: held_detach)

lemma page_inv_mount:
  assumes inv: "page_inv w" and i: "i < length (hw_hooks w)" "hk_ident (hw_hooks w ! i) = None" and "ident \<noteq> []"
  shows "page_inv (mount base i ident w)"
proof -
  define hk where "hk = hw_hooks w ! i"
  define c where "c = kind_channel (hk_kind hk)"
  define r where "r = connectSocket base c (hw_pool w) ident"
  define hk' where "hk' = hk\<lparr>hk_ident := Some ident, hk_closures := hw_next w, hk_socket := Some (snd r),
    hk_view := (hk_view hk)\<lparr>v_connected := rws_connected (objects (fst r) ! snd r)\<rparr>\<rparr>"
  have w': "mount base i ident w = w\<lparr>hw_pool := attach (fst r) (snd r) (hw_next w),
      hw_next := Suc (hw_next w), hw_hooks := (hw_hooks w)[i := hk']\<rparr>"
    by (simp add: mount_eq [OF assms(4)] hk'_def r_def c_def hk_def Let_def)
  note r = connectSocket_held [OF page_invD(1) [OF inv], of base c ident, folded r_def]
  note less = holds_lessD [OF r [THEN conjunct1]]
  have fresh: "hw_next w \<notin> set (mounted_closures (hw_hooks w))" using page_invD(3) [OF inv] by blast
  have closures': "distinct (mounted_closures ((hw_hooks w)[i := hk'])) \<and>
      set (mounted_closures ((hw_hooks w)[i := hk'])) = insert (hw_next w) (set (mounted_closures (hw_hooks w)))"
    using page_invD(2) [OF inv] fresh i(2) mounted_split(1,2) [OF i(1)] by (auto simp: hk'_def)
  have on: "mounted_on ((hw_hooks w)[i := hk']) n a key \<longleftrightarrow>
      mounted_on (hw_hooks w) n a key \<or> n = hw_next w \<and> a = snd r \<and> key = c @ '':'' @ ident" for n a key
    using i(2) mounted_split(3,4) [OF i(1)] by (auto simp: mounted_on_def hk'_def c_def hk_def)
  have pinv: "pool_inv (fst r)" using pool_inv_connect page_invD(1) [OF inv] unfolding r_def by blast
  have held: "\<exists>n key. mounted_on ((hw_hooks w)[i := hk']) n a key \<and> (event, h) \<in> set (closures n)"
    if "held_at (attach (fst r) (snd r) (hw_next w)) a event h" for a event h
  proof -
    have "held_at (hw_pool w) a event h \<or> a = snd r \<and> (event, h) \<in> set (closures (hw_next w))"
      using that attach_held [of "snd r" "fst r"] r less(1) by blast
    then show ?thesis using page_invD(4) [OF inv] unfolding on by blast
  qed
  have below: "a < length (objects (fst r))" if "mounted_on ((hw_hooks w)[i := hk']) n a key" for n a key
    using that page_invD(5) [OF inv, of n a key] less(2) r unfolding on by auto
  have keyed: "key' = key"
    if "mounted_on ((hw_hooks w)[i := hk']) n a key" "map_get (sockets (fst r)) key' = Some a" for n a key key'
    using that(1) unfolding on
  proof
    assume m: "mounted_on (hw_hooks w) n a key"
    then show ?thesis using page_invD(6) [OF inv m] less(3) [OF that(2) page_invD(5) [OF inv m]] by blast
  next
    assume "n = hw_next w \<and> a = snd r \<and> key = c @ '':'' @ ident"
    then show ?thesis using pool_invD(6) [OF pinv, of key a key'] that(2) r by simp
  qed
  have "list_all (\<lambda>n. n < Suc (hw_next w)) (mounted_closures ((hw_hooks w)[i := hk']))"
    using closures' page_invD(3) [OF inv] by (auto simp: list_all_iff less_Suc_eq)
  then show ?thesis
    using closures' pool_inv_attach [OF pinv] held below keyed unfolding page_inv_def w' by simp
qed

lemma page_inv_unmount:
  assumes inv: "page_inv w" and i: "i < length (hw_hooks w)" "hk_ident (hw_hooks w ! i) = Some ident"
  shows "page_inv (unmount i ident w)"
proof -
  define n where "n = hk_closures (hw_hooks w ! i)"
  define ws where "ws = the (hk_socket (hw_hooks w ! i))"
  define hk' where "hk' = hw_hooks (unmount i ident w) ! i"
  define p' where "p' = hw_pool (unmount i ident w)"
  have w': "unmount i ident w = w\<lparr>hw_pool := p', hw_hooks := (hw_hooks w)[i := hk']\<rparr>"
    and hk': "hk_ident hk' = None"
    using i(1) by (simp_all add: p'_def hk'_def unmount_eq Let_def)
  have p': "p' = detach (hw_pool w) ws n \<or> (\<exists>key. p' = retire (detach (hw_pool w) ws n) key)"
    by (auto simp: p'_def n_def ws_def unmount_eq Let_def split: hook_kind.splits)
  have less1: "holds_less p' (detach (hw_pool w) ws n)" using p' holds_less_retire by auto
  note less = holds_lessD [OF holds_less_trans [OF less1 holds_less_detach]]
  have pinv: "pool_inv p'" using p' pool_inv_detach pool_inv_retire page_invD(1) [OF inv] by blast
  have cl: "distinct (mounted_closures ((hw_hooks w)[i := hk']))"
      "set (mounted_closures ((hw_hooks w)[i := hk'])) \<subseteq> set (mounted_closures (hw_hooks w))"
    using page_invD(2) [OF inv] hk' mounted_split(1,2) [OF i(1)] by auto
  have on: "mounted_on ((hw_hooks w)[i := hk']) m a key" if "mounted_on (hw_hooks w) m a key" "m \<noteq> n" for m a key
    using that i(2) hk' mounted_split(3,4) [OF i(1)] by (auto simp: mounted_on_def n_def)
  have on': "mounted_on (hw_hooks w) m a key" if "mounted_on ((hw_hooks w)[i := hk']) m a key" for m a key
    using that hk' mounted_split(3,4) [OF i(1)] by (auto simp: mounted_on_def)
  have held: "\<exists>m key. mounted_on ((hw_hooks w)[i := hk']) m a key \<and> (event, h) \<in> set (closures m)"
    if held: "held_at p' a event h" for a event h
  proof -
    have h: "held_at (hw_pool w) a event h" "\<not> (a = ws \<and> (event, h) \<in> set (closures n))"
      using holds_lessD(1) [OF less1 held] by (simp_all add: detach_held)
    then obtain m key where m: "mounted_on (hw_hooks w) m a key" "(event, h) \<in> set (closures m)"
      using page_invD(4) [OF inv] by blast
    have "m \<noteq> n"
      using h(2) m mounted_unique [OF page_invD(2) [OF inv] i, of a key] by (auto simp: n_def ws_def)
    then show ?thesis using m on by blast
  qed
  have below: "a < length (objects p')" if "mounted_on ((hw_hooks w)[i := hk']) m a key" for m a key
    using page_invD(5) [OF inv on' [OF that]] less(2) by simp
  have keyed: "key' = key"
    if "mounted_on ((hw_hooks w)[i := hk']) m a key" "map_get (sockets p') key' = Some a" for m a key key'
    using page_invD(6) [OF inv on' [OF that(1)]] less(3) [OF that(2) page_invD(5) [OF inv on' [OF that(1)]]] by blast
  show ?thesis
    using pinv cl held below keyed page_invD(3) [OF inv] unfolding page_inv_def w' list_all_iff by auto
qed

section \<open>Every step\<close>

text \<open>A handler is registered at most once for an event.\<close>

definition once :: "rws \<Rightarrow> bool" where
  "once ws \<longleftrightarrow> (\<forall>event hs. map_get (handlers ws) event = Some hs \<longrightarrow> distinct hs)"

definition pool_once :: "pool \<Rightarrow> bool" where
  "pool_once p \<longleftrightarrow> (\<forall>ws\<in>set (objects p). once ws)"

lemma once_on: "once ws \<Longrightarrow> once (on ws event h)"
  by (auto simp: once_def on_def Let_def split: option.splits)

lemma once_off: "once ws \<Longrightarrow> once (off ws event h)"
  by (auto simp: once_def off_def split: option.splits)

lemma once_new [simp]: "once (fst (connect (new_rws url)))"
  by (simp add: once_def connect_def new_rws_def current_def Let_def)

lemma pool_once_change: "pool_once p \<Longrightarrow> (\<And>ws. once ws \<Longrightarrow> once (f ws)) \<Longrightarrow> pool_once (change_object p a f)"
  unfolding pool_once_def all_nth by simp

lemma pool_once_disconnect: "pool_once p \<Longrightarrow> pool_once (disconnect_object p a)"
  unfolding disconnect_object_def by (rule pool_once_change) (simp_all add: once_def)

lemma pool_once_retire: "pool_once p \<Longrightarrow> pool_once (retire p key)"
  using pool_once_disconnect [of p] by (simp add: pool_once_def retire_objects split: option.splits)

lemma pool_once_connect:
  assumes "pool_once p"
  shows "pool_once (fst (connectSocket base channel p ident))"
proof (cases "map_get (sockets p) (channel @ '':'' @ ident)")
  case None
  have grown: "pool_once (grown p url)" for url using assms by (auto simp: pool_once_def grown_def)
  have "pool_once (evicted q)" if "pool_once q" for q
    using that pool_once_retire [OF that] by (auto simp: evicted_def split: list.splits)
  then have "pool_once (evicted (grown p url))" for url using grown by blast
  then show ?thesis
    using None by (simp add: connectSocket_new registerSocket_evicts map_has_iff_get grown_def) (simp add: pool_once_def)
next
  case (Some a)
  then show ?thesis using assms by (simp add: connectSocket_cached pool_once_def)
qed

lemma pool_once_mount:
  assumes "pool_once (hw_pool w)" "ident \<noteq> []"
  shows "pool_once (hw_pool (mount base i ident w))"
  using assms pool_once_connect [OF assms(1)]
  by (simp add: mount_eq Let_def attach_def pool_once_change once_on)

lemma pool_once_unmount:
  assumes "pool_once (hw_pool w)"
  shows "pool_once (hw_pool (unmount i ident w))"
proof -
  have "once (detach_ws n ws)" if "once ws" for n ws using that by (simp add: detach_ws_def once_off)
  then have "pool_once (detach (hw_pool w) ws n)" for ws n
    using assms by (simp add: detach_def pool_once_change)
  then show ?thesis by (auto simp: unmount_eq Let_def pool_once_retire split: hook_kind.splits)
qed

lemma pool_once_all: "pool_once p \<Longrightarrow> pool_once (disconnectAll p)"
proof -
  have "pool_once q \<Longrightarrow> pool_once (fold (\<lambda>kv q. disconnect_object q (snd kv)) m q)" for m q
    by (induction m arbitrary: q) (simp_all add: pool_once_disconnect)
  then show "pool_once p \<Longrightarrow> pool_once (disconnectAll p)" by (simp add: disconnectAll_def pool_once_def)
qed

lemma pool_once_step: "page_step w out w' \<Longrightarrow> pool_once (hw_pool w) \<Longrightarrow> pool_once (hw_pool w')"
proof (induction rule: page_step.induct)
  case (socket_moves a w out ws')
  then have "once (objects (hw_pool w) ! a)" by (simp add: pool_once_def)
  then have "once ws'" using socket_moves(2) by (simp add: once_def browser_step_def)
  then show ?case using socket_moves by (simp add: deliver_keeps pool_once_change)
qed (simp_all add: deliver_keeps pool_once_mount pool_once_unmount disconnectSocket_def pool_once_retire pool_once_all)

lemma mounted_append:
  "mounted_closures (hks @ [hk]) = mounted_closures hks @ (if hk_ident hk = None then [] else [hk_closures hk])"
  "mounted_on (hks @ [hk]) n a key \<longleftrightarrow> mounted_on hks n a key \<or> mounted_on [hk] n a key"
  by (simp_all add: mounted_closures_def mounted_on_def)

lemma mounted_same:
  assumes "i < length hks" "hk_ident hk = hk_ident (hks ! i)" "hk_closures hk = hk_closures (hks ! i)"
    "hk_kind hk = hk_kind (hks ! i)" "hk_socket hk = hk_socket (hks ! i)"
  shows "mounted_closures (hks[i := hk]) = mounted_closures hks" "mounted_on (hks[i := hk]) n a key = mounted_on hks n a key"
proof -
  show "mounted_closures (hks[i := hk]) = mounted_closures hks"
    unfolding mounted_split(1) [OF assms(1)] assms mounted_split(2) [OF assms(1), symmetric] by (rule refl)
  have "mounted_on [hk] n a key = mounted_on [hks ! i] n a key" by (simp add: mounted_on_def assms split: option.splits)
  then show "mounted_on (hks[i := hk]) n a key = mounted_on hks n a key"
    using mounted_split(3,4) [OF assms(1)] by blast
qed

lemma page_step_inv: "page_step w out w' \<Longrightarrow> page_inv w \<Longrightarrow> page_inv w'"
proof (induction rule: page_step.induct)
  case (renders w kind)
  show ?case by (rule page_inv_less [OF renders])
    (simp_all add: page_invD(1) [OF renders] mounted_append mounted_on_def)
next
  case (sets_handler i w f)
  then show ?case
    by (intro page_inv_less [OF sets_handler(3)])
      (simp_all add: page_invD(1) mounted_same)
next
  case (socket_moves a w out ws')
  have "pool_inv (change_object (hw_pool w) a (\<lambda>_. ws'))"
    using pool_step.moves [OF socket_moves(1)] socket_moves(2) pool_step_inv page_invD(1) [OF socket_moves(3)]
    unfolding browser_step_def by blast
  moreover have "holds_less (change_object (hw_pool w) a (\<lambda>_. ws')) (hw_pool w)"
    using socket_moves(2) by (rule holds_less_browser)
  ultimately show ?case
    by (intro page_inv_less [OF socket_moves(3)]) (simp_all add: deliver_keeps deliver_mounted)
next
  case (timeout j w)
  then show ?case
    by (intro page_inv_less [OF timeout(2)])
      (simp_all add: disconnectSocket_def holds_less_retire pool_inv_retire page_invD(1))
next
  case (logs_out w)
  then show ?case
    by (intro page_inv_less [OF logs_out])
      (simp_all add: holds_less_all pool_inv_disconnectAll page_invD(1))
qed (simp_all add: page_inv_mount page_inv_unmount)

interpretation pgm: machine "\<lambda>w. w = empty_world" page_step "\<lambda>w. page_inv w \<and> pool_once (hw_pool w)"
proof
  show "page_inv w \<and> pool_once (hw_pool w)" if "w = empty_world" for w
    using that pool_inv_empty
    by (simp add: page_inv_def empty_world_def mounted_closures_def held_at_def mounted_on_def pool_once_def empty_pool_def)
qed (blast intro: page_step_inv pool_once_step)

section \<open>Hooks whose socket is gone\<close>

lemma run_closure_other: "h div 3 \<noteq> hk_closures hk \<Longrightarrow> run_closure h data hk = (hk, [])"
  by (auto simp: run_closure_def split: option.splits)

lemma deliver_untouched:
  "i < length (hw_hooks w) \<Longrightarrow> \<forall>h data. CallHandler h data \<in> set out \<longrightarrow> h div 3 \<noteq> hk_closures (hw_hooks w ! i) \<Longrightarrow>
   hw_hooks (deliver out w) ! i = hw_hooks w ! i"
  by (induction out w rule: deliver.induct) (auto simp: run_closure_other)

text \<open>No cached object calls the closures \<open>n\<close>.\<close>

definition stranded :: "pool \<Rightarrow> nat \<Rightarrow> bool" where
  "stranded p n \<longleftrightarrow> (\<forall>key a event h. map_get (sockets p) key = Some a \<longrightarrow> held_at p a event h \<longrightarrow> (event, h) \<notin> set (closures n))"

lemma stranded_less:
  assumes "stranded p n" "holds_less q p"
  shows "stranded q n"
  unfolding stranded_def
proof (intro allI impI)
  fix key a event h
  assume a: "map_get (sockets q) key = Some a" "held_at q a event h"
  note less = holds_lessD [OF assms(2)]
  have "held_at p a event h" by (rule less(1) [OF a(2)])
  moreover from this have "a < length (objects p)" by (simp add: held_at_def)
  ultimately show "(event, h) \<notin> set (closures n)"
    using less(3) [OF a(1)] assms(1) unfolding stranded_def by blast
qed

lemma stranded_mount:
  assumes "stranded (hw_pool w) n" "n < hw_next w" "ident \<noteq> []" "pool_inv (hw_pool w)"
  shows "stranded (hw_pool (mount base j ident w)) n"
proof -
  let ?c = "kind_channel (hk_kind (hw_hooks w ! j))"
  let ?r = "connectSocket base ?c (hw_pool w) ident"
  note r = connectSocket_held [OF assms(4), of base ?c ident]
  have str: "stranded (fst ?r) n" using stranded_less assms(1) r by blast
  have other: "(event, h) \<notin> set (closures n)" if "(event, h) \<in> set (closures (hw_next w))" for event h
    using that closures_div [of event h n] closures_div [of event h "hw_next w"] assms(2) by auto
  have "stranded (attach (fst ?r) (snd ?r) (hw_next w)) n"
    unfolding stranded_def
  proof (intro allI impI)
    fix key a event h
    assume "map_get (sockets (attach (fst ?r) (snd ?r) (hw_next w))) key = Some a"
      "held_at (attach (fst ?r) (snd ?r) (hw_next w)) a event h"
    then show "(event, h) \<notin> set (closures n)"
      using str other attach_held [of "snd ?r" "fst ?r"] r unfolding stranded_def by (simp, blast)
  qed
  then show ?thesis using assms(3) by (simp add: mount_eq Let_def)
qed

lemma stranded_unmount:
  assumes "stranded (hw_pool w) n"
  shows "stranded (hw_pool (unmount j ident w)) n"
proof -
  have "stranded (detach (hw_pool w) ws m) n" for ws m by (rule stranded_less [OF assms holds_less_detach])
  then show ?thesis
    using stranded_less [OF _ holds_less_retire] by (auto simp: unmount_eq Let_def split: hook_kind.splits)
qed

text \<open>As long as job hook \<open>i\<close> stays mounted with its closures \<open>n\<close>, its state is \<open>v\<close>.\<close>

definition frozen :: "nat \<Rightarrow> nat \<Rightarrow> job_view \<Rightarrow> hook_world \<Rightarrow> bool" where
  "frozen i n v w \<longleftrightarrow>
     i < length (hw_hooks w) \<and> n < hw_next w \<and> hk_kind (hw_hooks w ! i) \<noteq> Chat_hook \<and> stranded (hw_pool w) n
     \<and> (hk_ident (hw_hooks w ! i) \<noteq> None \<longrightarrow> hk_closures (hw_hooks w ! i) = n \<longrightarrow> hk_view (hw_hooks w ! i) = v)"

lemma frozen_deliver:
  assumes "frozen i n v w" "\<And>h data. CallHandler h data \<in> set out \<Longrightarrow> h div 3 \<noteq> n"
  shows "frozen i n v (deliver out w)"
proof (cases "hk_closures (hw_hooks w ! i) = n")
  case True
  then show ?thesis using assms deliver_untouched [of i w out] by (simp add: frozen_def deliver_keeps)
next
  case False
  then show ?thesis using assms(1) deliver_hook [of i w out] by (simp add: frozen_def deliver_keeps)
qed

lemma frozen_step:
  "page_step w out w' \<Longrightarrow> page_inv w \<Longrightarrow> frozen i n v w \<Longrightarrow> frozen i n v w'"
proof (induction rule: page_step.induct)
  case (renders w kind)
  then show ?case by (simp add: frozen_def nth_append)
next
  case (mounts j w ident base)
  moreover from this have "stranded (hw_pool (mount base j ident w)) n" by (simp add: frozen_def stranded_mount page_invD(1))
  ultimately show ?case by (auto simp: frozen_def mount_eq Let_def nth_list_update)
next
  case (unmounts j w ident)
  moreover from this have "stranded (hw_pool (unmount j ident w)) n" by (simp add: frozen_def stranded_unmount)
  ultimately show ?case by (auto simp: frozen_def unmount_eq Let_def nth_list_update)
next
  case (sets_handler j w f)
  then show ?case by (auto simp: frozen_def nth_list_update)
next
  case (socket_moves a w out ws')
  let ?w = "w\<lparr>hw_pool := change_object (hw_pool w) a (\<lambda>_. ws')\<rparr>" and ?ws = "objects (hw_pool w) ! a"
  have "holds_less (hw_pool ?w) (hw_pool w)"
    using socket_moves(2) by (simp add: holds_less_browser)
  then have "frozen i n v ?w" using socket_moves(4) by (auto simp: frozen_def intro: stranded_less)
  moreover have "h div 3 \<noteq> n" if call: "CallHandler h data \<in> set out" for h data
  proof (cases "\<exists>key. map_get (sockets (hw_pool w)) key = Some a")
    case True
    then obtain event where "held_at (hw_pool w) a event h"
      using step_calls_held [OF _ call] socket_moves(1,2) by (auto simp: browser_step_def held_at_def)
    then show ?thesis
      using page_invD(4) [OF socket_moves(3)] socket_moves(4) closures_div True unfolding frozen_def stranded_def by blast
  next
    case False
    note pinv = page_invD(1) [OF socket_moves(3)]
    have "intentionalClose ?ws" using pool_invD(7) [OF pinv socket_moves(1)] False by blast
    then have "out = []"
      using closed_step [OF pool_invD(4) [OF pinv socket_moves(1)]] socket_moves(2) unfolding browser_step_def by blast
    then show ?thesis using call by simp
  qed
  ultimately show ?case by (rule frozen_deliver)
next
  case (timeout j w)
  then show ?case using stranded_less [OF _ holds_less_retire] by (simp add: frozen_def disconnectSocket_def)
next
  case (logs_out w)
  have "holds_less (disconnectAll (hw_pool w)) (hw_pool w)" by (rule holds_less_all)
  then show ?case using logs_out(2) by (auto simp: frozen_def intro: stranded_less)
qed

lemma frozen_run:
  "run page_step w outs w' \<Longrightarrow> page_inv w \<and> pool_once (hw_pool w) \<Longrightarrow> frozen i n v w \<Longrightarrow> frozen i n v w'"
  using pgm.run_keeps [of "frozen i n v" "\<lambda>_. True" w outs w'] frozen_step by simp

section \<open>Delivery of a message\<close>

text \<open>A list of handlers that holds one closure of a hook runs that closure once on its state.\<close>

lemma deliver_one:
  assumes "i < length (hw_hooks w)" "distinct hs" "h \<in> set hs" "h div 3 = hk_closures (hw_hooks w ! i)"
    "\<forall>h'\<in>set hs. h' div 3 = h div 3 \<longrightarrow> h' = h"
  shows "hw_hooks (deliver (map (\<lambda>h. CallHandler h data) hs) w) ! i = fst (run_closure h data (hw_hooks w ! i))"
  using assms
proof (induction hs arbitrary: w)
  case (Cons x hs)
  let ?w = "deliver [CallHandler x data] w"
  have split: "deliver (map (\<lambda>h. CallHandler h data) (x # hs)) w = deliver (map (\<lambda>h. CallHandler h data) hs) ?w" by simp
  have len: "i < length (hw_hooks ?w)" using Cons.prems(1) by (simp add: deliver_keeps)
  have at: "hw_hooks ?w ! i = fst (run_closure x data (hw_hooks w ! i))" using Cons.prems(1) by simp
  show ?case
  proof (cases "x = h")
    case True
    then have "\<forall>h' d. CallHandler h' d \<in> set (map (\<lambda>h. CallHandler h data) hs) \<longrightarrow> h' div 3 \<noteq> hk_closures (hw_hooks ?w ! i)"
      using Cons.prems by (auto simp: at)
    from deliver_untouched [OF len this] have "hw_hooks (deliver (map (\<lambda>h. CallHandler h data) hs) ?w) ! i = hw_hooks ?w ! i" .
    then show ?thesis by (simp only: split at) (simp only: True)
  next
    case False
    then have "hw_hooks ?w ! i = hw_hooks w ! i" using Cons.prems(1,4,5) by (auto simp: run_closure_other)
    moreover have "hw_hooks (deliver (map (\<lambda>h. CallHandler h data) hs) ?w) ! i = fst (run_closure h data (hw_hooks ?w ! i))"
    proof (rule Cons.IH [OF len])
      show "distinct hs" "h \<in> set hs" using Cons.prems(2,3) False by simp_all
      show "h div 3 = hk_closures (hw_hooks ?w ! i)" using Cons.prems(4) by (simp only: at run_closure_keeps)
      show "\<forall>h'\<in>set hs. h' div 3 = h div 3 \<longrightarrow> h' = h" using Cons.prems(5) by (meson list.set_intros(2))
    qed
    ultimately show ?thesis by (simp only: split)
  qed
qed simp

section \<open>A page in use\<close>

text \<open>An invite job is watched: the hook renders and mounts, its socket opens, the job completes and the
  delayed disconnect fires.\<close>

definition page_rendered :: hook_world where
  "page_rendered = empty_world\<lparr>hw_hooks := [\<lparr>hk_kind = Job_hook Invite_job, hk_ident = None, hk_closures = 0, hk_socket = None, hk_view = initial_view\<rparr>]\<rparr>"

definition page_mounted :: hook_world where
  "page_mounted = mount ''ws://h'' 0 ''7'' page_rendered"

definition page_socket :: "hook_world \<Rightarrow> rws" where
  "page_socket w = objects (hw_pool w) ! 0"

definition put_socket :: "hook_world \<Rightarrow> rws \<Rightarrow> hook_world" where
  "put_socket w ws = w\<lparr>hw_pool := change_object (hw_pool w) 0 (\<lambda>_. ws)\<rparr>"

definition page_open :: hook_world where
  "page_open = (let (ws, out) = onopen None (set_native 0 OPEN (page_socket page_mounted))
                in deliver out (put_socket page_mounted ws))"

definition job_done :: json where
  "job_done = JObj [(''type'', JStr ''completed'')]"

definition page_done :: hook_world where
  "page_done = (let (ws, out) = onmessage None (page_socket page_open) (Some job_done)
                in deliver out (put_socket page_open ws))"

definition page_dropped :: hook_world where
  "page_dropped = page_done\<lparr>hw_timers := [], hw_pool := disconnectSocket (hw_pool page_done) ''invite:7''\<rparr>"

lemma page_mounted_reach: "reach (\<lambda>w. w = empty_world) page_step page_mounted"
proof -
  have "page_step empty_world [] page_rendered"
    using page_step.renders [of empty_world "Job_hook Invite_job"] by (simp add: page_rendered_def empty_world_def)
  moreover have "reach (\<lambda>w. w = empty_world) page_step empty_world" by (rule reach_start) simp
  ultimately have rendered: "reach (\<lambda>w. w = empty_world) page_step page_rendered" by (blast intro: reach_step)
  have "page_step page_rendered [] page_mounted"
    unfolding page_mounted_def by (rule page_step.mounts) (simp_all add: page_rendered_def)
  then show ?thesis by (rule reach_step [OF rendered])
qed

lemma page_socket_cached:
  "0 < length (objects (hw_pool page_mounted))" "0 < length (objects (hw_pool page_open))"
  "cached (hw_pool page_open) ''invite:7'' = Some (page_socket page_open)"
  by code_simp+

lemma page_open_step: "page_step page_mounted [CallHandler 0 (JObj [(''type'', JStr ''open'')])] page_open"
proof -
  define ws where "ws = fst (onopen None (set_native 0 OPEN (page_socket page_mounted)))"
  define out where "out = snd (onopen None (set_native 0 OPEN (page_socket page_mounted)))"
  have facts: "0 < length (natives (page_socket page_mounted))" "readyState (natives (page_socket page_mounted) ! 0) = CONNECTING"
    "attached (natives (page_socket page_mounted) ! 0)" by code_simp+
  have "handlers ws = handlers (page_socket page_mounted)" unfolding ws_def by code_simp
  then have "browser_step (page_socket page_mounted) out ws"
    using ws_step.native_open [OF facts] by (simp add: browser_step_def ws_def out_def)
  from page_step.socket_moves [OF page_socket_cached(1) this [unfolded page_socket_def]]
  have "page_step page_mounted out page_open" by (simp only: page_open_def put_socket_def ws_def out_def case_prod_beta Let_def)
  moreover have "out = [CallHandler 0 (JObj [(''type'', JStr ''open'')])]" unfolding out_def by code_simp
  ultimately show ?thesis by simp
qed

lemma page_open_reach: "reach (\<lambda>w. w = empty_world) page_step page_open"
  using page_open_step by (rule reach_step [OF page_mounted_reach])

lemma page_done_step: "\<exists>out. page_step page_open out page_done"
proof -
  define ws where "ws = fst (onmessage None (page_socket page_open) (Some job_done))"
  define out where "out = snd (onmessage None (page_socket page_open) (Some job_done))"
  have facts: "0 < length (natives (page_socket page_open))" "readyState (natives (page_socket page_open) ! 0) = OPEN"
    "attached (natives (page_socket page_open) ! 0)" by code_simp+
  have "handlers ws = handlers (page_socket page_open)" unfolding ws_def by code_simp
  then have "browser_step (page_socket page_open) out ws"
    using ws_step.native_message [OF facts] by (simp add: browser_step_def ws_def out_def)
  from page_step.socket_moves [OF page_socket_cached(2) this [unfolded page_socket_def]]
  have "page_step page_open out page_done" by (simp only: page_done_def put_socket_def ws_def out_def case_prod_beta Let_def)
  then show ?thesis by blast
qed

lemma page_dropped_reach: "reach (\<lambda>w. w = empty_world) page_step page_dropped"
proof -
  have fin: "reach (\<lambda>w. w = empty_world) page_step page_done"
    using page_done_step reach_step [OF page_open_reach] by blast
  have timers: "hw_timers page_done = [''invite:7'']" by code_simp
  have "page_step page_done [] page_dropped"
    using page_step.timeout [of 0 page_done] by (simp add: timers page_dropped_def)
  then show ?thesis by (rule reach_step [OF fin])
qed

section \<open>Properties\<close>

text \<open>C13: a closure that a socket calls always belongs to a hook that is mounted at that moment: an
  unmounted component is never called back, however mounts, cleanups, evictions, delayed
  disconnects and socket events interleave.\<close>

theorem closures_never_leak:
  assumes "reach (\<lambda>w. w = empty_world) page_step w" "page_step w out w'"
  shows "list_all (\<lambda>e. case e of CallHandler h data \<Rightarrow> h div 3 \<in> set (mounted_closures (hw_hooks w)) | _ \<Rightarrow> True) out"
proof -
  have inv: "page_inv w" using pgm.reach_inv [OF assms(1)] by simp
  have "h div 3 \<in> set (mounted_closures (hw_hooks w))" if call: "CallHandler h data \<in> set out" for h data
    using assms(2)
  proof (cases rule: page_step.cases)
    case (socket_moves a ws')
    then obtain event where "held_at (hw_pool w) a event h"
      using step_calls_held [OF _ call] by (auto simp: browser_step_def held_at_def)
    then show ?thesis using page_invD(4) [OF inv] closures_div mounted_on_in by blast
  qed (use call in auto)
  then show ?thesis by (auto simp: list_all_iff split: effect.splits)
qed

theorem closures_never_leak_witness:
  "list_all (\<lambda>e. case e of CallHandler h data \<Rightarrow> h div 3 \<in> set (mounted_closures (hw_hooks page_mounted)) | _ \<Rightarrow> True)
     [CallHandler 0 (JObj [(''type'', JStr ''open'')])]"
  by (rule closures_never_leak [OF page_mounted_reach page_open_step])

text \<open>C14: a job message that arrives on the cached socket on which a mounted hook listens updates the state of
  the hook by \<open>handleEvent\<close>, exactly once, whatever other hooks share the socket.\<close>

theorem message_reaches_hook:
  assumes "reach (\<lambda>w. w = empty_world) page_step w" "i < length (hw_hooks w)"
    "hk_kind (hw_hooks w ! i) = Job_hook jobType" "hk_ident (hw_hooks w ! i) = Some jobId"
    "cached (hw_pool w) key = Some ws" "held ws ''all'' (3 * hk_closures (hw_hooks w ! i) + 2)"
    "jget data ''type'' = Some (JStr ty)" "ty \<notin> {''auth_required'', ''open'', ''close'', ''all''}"
  shows "hk_view (hw_hooks (deliver (snd (onmessage token ws (Some data))) w) ! i)
    = fst (handleEvent jobType jobId data (hk_view (hw_hooks w ! i)))"
proof -
  let ?n = "hk_closures (hw_hooks w ! i)"
  have inv: "page_inv w" "pool_once (hw_pool w)" using pgm.reach_inv [OF assms(1)] by simp_all
  obtain a where a: "ws = objects (hw_pool w) ! a" "a < length (objects (hw_pool w))"
    using assms(5) pool_invD(5) [OF page_invD(1) [OF inv(1)]] by (auto simp: cached_def)
  have own: "\<exists>m. (event, h) \<in> set (closures m)" if "held ws event h" for event h
    using page_invD(4) [OF inv(1), of a event h] that a by (auto simp: held_at_def)
  have none: "emit ws event data = []" if "event \<notin> {''open'', ''close'', ''all''}" for event
  proof (cases "map_get (handlers ws) event")
    case (Some hs)
    have "h \<notin> set hs" for h using own [of event h] that Some by (auto simp: held_def closures_def)
    then show ?thesis using Some by (cases hs) (auto simp: emit_def)
  qed (simp add: emit_def)
  obtain hs where hs: "map_get (handlers ws) ''all'' = Some hs" "3 * ?n + 2 \<in> set hs"
    using assms(6) by (auto simp: held_def split: option.splits)
  have all: "\<forall>h\<in>set hs. \<exists>m. h = 3 * m + 2"
    using own [of "''all''"] hs(1) by (fastforce simp: held_def closures_def)
  have "once ws" using inv(2) a by (simp add: pool_once_def)
  then have "distinct hs" using hs(1) by (simp add: once_def)
  have out: "snd (onmessage token ws (Some data)) = map (\<lambda>h. CallHandler h data) hs"
    using assms(7,8) none [of "if ty = [] then ''raw'' else ty"] hs(1)
    by (cases data) (auto simp: onmessage_def emit_def [of ws "''all''"] split: if_splits)
  have "hw_hooks (deliver (map (\<lambda>h. CallHandler h data) hs) w) ! i = fst (run_closure (3 * ?n + 2) data (hw_hooks w ! i))"
  proof (rule deliver_one [OF assms(2) \<open>distinct hs\<close> hs(2)])
    show "\<forall>h'\<in>set hs. h' div 3 = (3 * ?n + 2) div 3 \<longrightarrow> h' = 3 * ?n + 2" using all by fastforce
  qed simp
  then show ?thesis using assms(3,4) by (simp add: out run_closure_def case_prod_beta)
qed

theorem message_reaches_hook_witness:
  "hk_view (hw_hooks (deliver (snd (onmessage None (page_socket page_open) (Some job_done))) page_open) ! 0)
    = fst (handleEvent Invite_job ''7'' job_done (hk_view (hw_hooks page_open ! 0)))"
proof (rule message_reaches_hook [OF page_open_reach _ _ _ page_socket_cached(3)])
  show "0 < length (hw_hooks page_open)" "hk_kind (hw_hooks page_open ! 0) = Job_hook Invite_job"
    "hk_ident (hw_hooks page_open ! 0) = Some ''7''"
    "held (page_socket page_open) ''all'' (3 * hk_closures (hw_hooks page_open ! 0) + 2)" by code_simp+
  show "jget job_done ''type'' = Some (JStr ''completed'')" by code_simp
qed simp

text \<open>Once the socket of a mounted job hook has left the cache, whether evicted, disconnected by the
  cleanup of another component on the same job or by the delayed disconnect of an earlier mount, or dropped at
  logout, the state of the hook is frozen for as long as it stays mounted: \<open>connected\<close> keeps the value it had,
  also when that value is true.\<close>

theorem dropped_socket_freezes_hook:
  assumes "reach (\<lambda>w. w = empty_world) page_step w" "i < length (hw_hooks w)"
    "hk_kind (hw_hooks w ! i) = Job_hook jobType" "hk_ident (hw_hooks w ! i) = Some jobId"
    "map_get (sockets (hw_pool w)) (job_key jobType jobId) = None"
    "run page_step w outs w'" "hk_ident (hw_hooks w' ! i) \<noteq> None"
    "hk_closures (hw_hooks w' ! i) = hk_closures (hw_hooks w ! i)"
  shows "hk_view (hw_hooks w' ! i) = hk_view (hw_hooks w ! i)"
proof -
  let ?n = "hk_closures (hw_hooks w ! i)"
  have inv: "page_inv w \<and> pool_once (hw_pool w)" by (rule pgm.reach_inv [OF assms(1)])
  note pinv = conjunct1 [OF inv]
  have "(event, h) \<notin> set (closures ?n)"
    if cached: "map_get (sockets (hw_pool w)) key = Some a" and held: "held_at (hw_pool w) a event h" for key a event h
  proof
    assume "(event, h) \<in> set (closures ?n)"
    moreover obtain m key' where m: "mounted_on (hw_hooks w) m a key'" "(event, h) \<in> set (closures m)"
      using page_invD(4) [OF pinv held] by blast
    ultimately have "mounted_on (hw_hooks w) ?n a key'" using closures_div by metis
    then have "key' = job_key jobType jobId"
      using mounted_unique [OF page_invD(2) [OF pinv] assms(2,4)] assms(3) by (simp add: job_key_def)
    then show False using page_invD(6) [OF pinv m(1) cached] cached assms(5) by simp
  qed
  then have "stranded (hw_pool w) ?n" unfolding stranded_def by blast
  moreover have "?n \<in> set (mounted_closures (hw_hooks w))"
    using assms(2,4) by (force simp: mounted_closures_def)
  ultimately have "frozen i ?n (hk_view (hw_hooks w ! i)) w"
    using assms(2,3) page_invD(3) [OF pinv] by (simp add: frozen_def)
  from frozen_run [OF assms(6) inv this] have "frozen i ?n (hk_view (hw_hooks w ! i)) w'" .
  then show ?thesis using assms(7,8) by (simp add: frozen_def)
qed

theorem dropped_socket_freezes_hook_witness:
  "hk_view (hw_hooks (page_dropped\<lparr>hw_pool := disconnectAll (hw_pool page_dropped)\<rparr>) ! 0) = hk_view (hw_hooks page_dropped ! 0)
   \<and> v_connected (hk_view (hw_hooks page_dropped ! 0))"
proof
  have facts: "0 < length (hw_hooks page_dropped)" "hk_kind (hw_hooks page_dropped ! 0) = Job_hook Invite_job"
    "hk_ident (hw_hooks page_dropped ! 0) = Some ''7''"
    "map_get (sockets (hw_pool page_dropped)) (job_key Invite_job ''7'') = None" by code_simp+
  let ?w = "page_dropped\<lparr>hw_pool := disconnectAll (hw_pool page_dropped)\<rparr>"
  have "run page_step page_dropped [[]] ?w" by (simp add: page_step.logs_out)
  from dropped_socket_freezes_hook [OF page_dropped_reach facts this]
  show "hk_view (hw_hooks ?w ! 0) = hk_view (hw_hooks page_dropped ! 0)" using facts(3) by simp
  show "v_connected (hk_view (hw_hooks page_dropped ! 0))" by code_simp
qed

end
