(* ===== verification/Middleware.thy ===== *)
theory Middleware
  imports JsNumber
begin

text \<open>
  The request middleware, \<open>src/frontend/src/middleware.ts\<close>: locale negotiation, the public paths,
  the session check and the \<open>/id\<close> rewriting.  A request has the path and search parameters of its
  URL, its cookies and its headers; the answer is one of the forms of \<open>NextResponse\<close>.
\<close>

datatype locale_tag = En | Id

definition PUBLIC_PATHS :: "string list" where
  "PUBLIC_PATHS =
     [''/login'', ''/register'', ''/forgot-password'', ''/reset-password'', ''/privacy-policy'',
      ''/terms-of-service'', ''/privacy'', ''/tos'', ''/help'', ''/pricing'', ''/api/auth'',
      ''/api/v1/health'', ''/_next/static'', ''/favicon.ico'', ''/og-image.png'', ''/monitoring'',
      ''/401'', ''/403'', ''/404'', ''/500'', ''/500-error'', ''/503'']"

section \<open>Locale negotiation\<close>

record ranked_tag =
  rt_tag :: string
  rt_q :: jsnum

definition parse_language :: "string \<Rightarrow> ranked_tag" where
  "parse_language part =
     (let pieces = split_on (CHR '';'') (trim part);
          q = map_option (drop 2) (find (\<lambda>p. startsWith p ''q='') (map trim (tl pieces)))
      in \<lparr>rt_tag = toLowerCase (trim (hd pieces)),
          rt_q = (case q of None \<Rightarrow> Fin 1 | Some s \<Rightarrow> if s = [] then Fin 1 else js_Number s)\<rparr>)"

definition ranked_languages :: "string \<Rightarrow> ranked_tag list" where
  "ranked_languages header =
     js_sort (desc_key \<circ> rt_q)
       (filter (\<lambda>r. rt_tag r \<noteq> [] \<and> rt_q r \<noteq> NaN) (map parse_language (split_on (CHR '','') header)))"

definition is_indonesian :: "string \<Rightarrow> bool" where
  "is_indonesian tag = (let lang = hd (split_on (CHR ''-'') tag) in lang = ''id'' \<or> lang = ''in'')"

definition negotiateLocale :: "string option \<Rightarrow> locale_tag" where
  "negotiateLocale acceptLanguage =
     (case acceptLanguage of
        None \<Rightarrow> En
      | Some header \<Rightarrow>
          (if header = [] then En
           else if list_ex (\<lambda>r. is_indonesian (rt_tag r)) (ranked_languages header) then Id else En))"

section \<open>Requests and responses\<close>

record req_url =
  url_path :: string
  url_search :: "(string \<times> string) list"

record next_request =
  nr_url :: req_url
  nr_cookies :: "(string, string) jsmap"
  nr_headers :: "(string, string) jsmap"

datatype next_response =
    Redirect req_url int
  | Next
  | NextWithHeaders "(string, string) jsmap"
  | Rewrite req_url "(string, string) jsmap" "(string \<times> string) list"

text \<open>\<open>URLSearchParams.set\<close>: the first entry is replaced, the others are removed.\<close>

fun search_set :: "(string \<times> string) list \<Rightarrow> string \<Rightarrow> string \<Rightarrow> (string \<times> string) list" where
  "search_set [] k v = [(k, v)]"
| "search_set ((a, b) # xs) k v =
     (if a = k then (k, v) # filter (\<lambda>p. fst p \<noteq> k) xs else (a, b) # search_set xs k v)"

fun locale_str :: "locale_tag \<Rightarrow> string" where
  "locale_str En = ''en''" | "locale_str Id = ''id''"

section \<open>The middleware\<close>

definition isIdSubpath :: "string \<Rightarrow> bool" where
  "isIdSubpath pathname \<longleftrightarrow> pathname = ''/id'' \<or> startsWith pathname ''/id/''"

definition unlocalizedPath :: "string \<Rightarrow> string" where
  "unlocalizedPath pathname =
     (if isIdSubpath pathname then (if pathname = ''/id'' then ''/'' else drop 3 pathname) else pathname)"

definition isPublic :: "string \<Rightarrow> bool" where
  "isPublic unlocalized \<longleftrightarrow> unlocalized = ''/'' \<or> list_ex (\<lambda>p. startsWith unlocalized p) PUBLIC_PATHS"

definition handleLocalizedRoute :: "next_request \<Rightarrow> bool \<Rightarrow> string \<Rightarrow> next_response" where
  "handleLocalizedRoute request idSub unlocalized =
     (let stored = map_get (nr_cookies request) ''telebo_locale'';
          locale = (if isPublic unlocalized then (if idSub then Id else En)
                    else if stored = Some ''id'' then Id
                    else if stored = Some ''en'' then En
                    else negotiateLocale (map_get (nr_headers request) ''accept-language''));
          hs = map_set (map_set (nr_headers request) ''x-telebos-locale'' (locale_str locale))
                 ''x-telebos-pathname'' (url_path (nr_url request))
      in if idSub then Rewrite ((nr_url request)\<lparr>url_path := unlocalized\<rparr>) hs [(''telebo_locale'', ''id'')]
         else NextWithHeaders hs)"

definition session_cookie :: "next_request \<Rightarrow> string option" where
  "session_cookie request =
     opt_or (map_get (nr_cookies request) ''better-auth.session_token'')
            (map_get (nr_cookies request) ''__Secure-better-auth.session_token'')"

definition is_static :: "string \<Rightarrow> bool" where
  "is_static pathname \<longleftrightarrow>
     startsWith pathname ''/_next'' \<or> startsWith pathname ''/api'' \<or> str_includes pathname ''.''"

definition middleware :: "next_request \<Rightarrow> next_response" where
  "middleware request =
     (let pathname = url_path (nr_url request);
          idSub = isIdSubpath pathname;
          unlocalized = unlocalizedPath pathname
      in if idSub \<and> unlocalized = ''/privacy''
         then Redirect ((nr_url request)\<lparr>url_path := ''/id/privacy-policy''\<rparr>) 301
         else if idSub \<and> unlocalized = ''/tos''
         then Redirect ((nr_url request)\<lparr>url_path := ''/id/terms-of-service''\<rparr>) 301
         else if is_static pathname then Next
         else if isPublic unlocalized then handleLocalizedRoute request idSub unlocalized
         else if \<not> truthy (session_cookie request)
         then Redirect \<lparr>url_path = (if idSub then ''/id/login'' else ''/login''),
                        url_search = search_set (url_search (nr_url request)) ''redirect'' pathname\<rparr> 307
         else handleLocalizedRoute request idSub unlocalized)"

section \<open>Lemmas\<close>

lemma set_ranked_languages:
  "set (ranked_languages header) =
     {r \<in> parse_language ` set (split_on (CHR '','') header). rt_tag r \<noteq> [] \<and> rt_q r \<noteq> NaN}"
  by (auto simp: ranked_languages_def)

lemma handleLocalizedRoute_no_redirect [simp]: "handleLocalizedRoute request b u \<noteq> Redirect url st"
  by (simp add: handleLocalizedRoute_def Let_def)

lemma search_set_get: "map_of (search_set xs k v) k = Some v"
  by (induction xs k v rule: search_set.induct) auto

lemma public_id_paths: "isIdSubpath ''/id/login''" "unlocalizedPath ''/id/login'' = ''/login''"
  "\<not> isIdSubpath ''/login''" "unlocalizedPath ''/login'' = ''/login''" "isPublic ''/login''"
  "\<not> is_static ''/login''" "\<not> is_static ''/id/login''"
  by (simp_all add: isIdSubpath_def unlocalizedPath_def isPublic_def PUBLIC_PATHS_def is_static_def)

section \<open>Properties\<close>

definition demo_request :: "string \<Rightarrow> next_request" where
  "demo_request p = \<lparr>nr_url = \<lparr>url_path = p, url_search = [(''tab'', ''1'')]\<rparr>, nr_cookies = [], nr_headers = []\<rparr>"

lemmas middleware_eval = middleware_def demo_request_def isIdSubpath_def unlocalizedPath_def isPublic_def
  PUBLIC_PATHS_def is_static_def session_cookie_def map_get_def handleLocalizedRoute_def Let_def

text \<open>C2: a page that is neither public nor a static or API path is never served without a session
  cookie: the answer is a temporary redirect to the login page of the same language, with the page
  asked for in the parameter \<open>redirect\<close> and the other parameters kept.\<close>

theorem protected_needs_session:
  assumes "\<not> is_static (url_path (nr_url request))"
    and "\<not> isPublic (unlocalizedPath (url_path (nr_url request)))"
    and "\<not> truthy (session_cookie request)"
  shows "middleware request =
      Redirect \<lparr>url_path = (if isIdSubpath (url_path (nr_url request)) then ''/id/login'' else ''/login''),
                url_search = search_set (url_search (nr_url request)) ''redirect'' (url_path (nr_url request))\<rparr> 307
    \<and> map_of (search_set (url_search (nr_url request)) ''redirect'' (url_path (nr_url request))) ''redirect''
      = Some (url_path (nr_url request))"
proof -
  have "isPublic ''/privacy''" "isPublic ''/tos''" by (simp_all add: isPublic_def PUBLIC_PATHS_def)
  then show ?thesis using assms by (auto simp: middleware_def Let_def search_set_get)
qed

theorem protected_needs_session_witness:
  "middleware (demo_request ''/id/wallet'') =
      Redirect \<lparr>url_path = (if isIdSubpath (url_path (nr_url (demo_request ''/id/wallet'')))
                            then ''/id/login'' else ''/login''),
                url_search = search_set (url_search (nr_url (demo_request ''/id/wallet''))) ''redirect''
                  (url_path (nr_url (demo_request ''/id/wallet'')))\<rparr> 307
    \<and> map_of (search_set (url_search (nr_url (demo_request ''/id/wallet''))) ''redirect''
        (url_path (nr_url (demo_request ''/id/wallet'')))) ''redirect''
      = Some (url_path (nr_url (demo_request ''/id/wallet'')))"
  by (rule protected_needs_session) (simp_all add: middleware_eval)

text \<open>The login pages that the middleware redirects to are served by it to everyone, so a
  redirect is never followed by another one, whatever cookies the browser sends.\<close>

theorem login_redirect_is_served:
  assumes "middleware request = Redirect url 307"
  shows "\<forall>st url'. middleware (request\<lparr>nr_url := url\<rparr>) \<noteq> Redirect url' st"
proof -
  from assms have "url_path url = ''/login'' \<or> url_path url = ''/id/login''"
    by (auto simp: middleware_def Let_def split: if_splits)
  then show ?thesis
    by (auto simp: middleware_def public_id_paths Let_def)
qed

theorem login_redirect_is_served_witness:
  "\<forall>st url'. middleware ((demo_request ''/wallet'')\<lparr>nr_url := \<lparr>url_path = ''/login'',
      url_search = [(''tab'', ''1''), (''redirect'', ''/wallet'')]\<rparr>\<rparr>) \<noteq> Redirect url' st"
  by (rule login_redirect_is_served) (simp add: middleware_eval)

text \<open>On a public page the language is decided by the address alone: Indonesian exactly under
  \<open>/id\<close>, whatever the browser or a stored choice prefers; under \<open>/id\<close> the page served is the one
  without the prefix and the choice is stored in the cookie.\<close>

theorem public_locale_by_path:
  assumes "isPublic (unlocalizedPath p)" "\<not> is_static p" "unlocalizedPath p \<notin> {''/privacy'', ''/tos''}"
    and "p = url_path (nr_url request)"
  shows "middleware request =
    (let hs = map_set (map_set (nr_headers request) ''x-telebos-locale''
                (if isIdSubpath p then ''id'' else ''en'')) ''x-telebos-pathname'' p
     in if isIdSubpath p
        then Rewrite ((nr_url request)\<lparr>url_path := unlocalizedPath p\<rparr>) hs [(''telebo_locale'', ''id'')]
        else NextWithHeaders hs)"
  using assms by (simp add: middleware_def handleLocalizedRoute_def Let_def)

theorem public_locale_by_path_witness:
  "middleware (demo_request ''/id/pricing'') =
    (let hs = map_set (map_set (nr_headers (demo_request ''/id/pricing'')) ''x-telebos-locale''
                (if isIdSubpath ''/id/pricing'' then ''id'' else ''en'')) ''x-telebos-pathname'' ''/id/pricing''
     in if isIdSubpath ''/id/pricing''
        then Rewrite ((nr_url (demo_request ''/id/pricing''))\<lparr>url_path := unlocalizedPath ''/id/pricing''\<rparr>) hs
               [(''telebo_locale'', ''id'')]
        else NextWithHeaders hs)"
  by (rule public_locale_by_path) (simp_all add: middleware_eval)

text \<open>The negotiated language does not depend on the ranking: it is Indonesian exactly when some
  entry of the header has an Indonesian tag and a readable weight, however low, even zero.\<close>

theorem negotiation_ignores_ranking:
  "negotiateLocale (Some header) = Id \<longleftrightarrow>
    list_ex (\<lambda>part. let r = parse_language part
       in rt_tag r \<noteq> [] \<and> rt_q r \<noteq> NaN \<and> is_indonesian (rt_tag r)) (split_on (CHR '','') header)"
proof (cases "header = []")
  case True
  then show ?thesis
    by (simp add: negotiateLocale_def parse_language_def trim_def toLowerCase_def Let_def)
next
  case False
  have "list_ex (\<lambda>r. is_indonesian (rt_tag r)) (ranked_languages header) \<longleftrightarrow>
    list_ex (\<lambda>part. let r = parse_language part
       in rt_tag r \<noteq> [] \<and> rt_q r \<noteq> NaN \<and> is_indonesian (rt_tag r)) (split_on (CHR '','') header)"
    by (auto simp: list_ex_iff set_ranked_languages Let_def)
  with False show ?thesis by (simp add: negotiateLocale_def)
qed

text \<open>Every path with a dot passes the session check, because it counts as a static asset: also
  a page address that only carries a dot in one of its segments.\<close>

theorem dotted_path_skips_session_check:
  assumes "CHR ''.'' \<in> set (url_path (nr_url request))"
    and "unlocalizedPath (url_path (nr_url request)) \<notin> {''/privacy'', ''/tos''}"
  shows "middleware request = Next"
proof -
  from split_list [OF assms(1)] have "str_includes (url_path (nr_url request)) ''.''"
    by (auto simp: str_includes_iff)
  then show ?thesis using assms(2) by (simp add: middleware_def is_static_def Let_def)
qed

theorem dotted_path_skips_session_check_witness:
  "middleware (demo_request ''/admin/users/a.b'') = Next"
  by (rule dotted_path_skips_session_check) (simp_all add: middleware_eval)

end
