(* ===== verification/I18n.thy ===== *)
theory I18n
  imports Middleware
begin

text \<open>
  Translations and the language store, \<open>src/frontend/src/lib/i18n/index.ts\<close>.

  A dictionary is a nested object whose leaves are strings; the two dictionaries are arguments of
  \<open>translate\<close> (the source's \<open>t\<close>).  Indexing a string with a decimal index gives its character, as in
  the source; properties that objects and strings inherit from their prototypes are not modelled.
  The browser state that the store touches is \<open>browser\<close>: the local-storage entry and the cookie
  \<open>telebo_locale\<close> and the \<open>lang\<close> attribute; \<open>storage_ok\<close> says whether \<open>localStorage\<close> may be written.
\<close>

section \<open>Detection\<close>

definition id_tag :: "string \<Rightarrow> bool" where
  "id_tag tag = (let lang = toLowerCase (take 2 tag) in lang = ''id'' \<or> lang = ''in'')"

text \<open>\<open>navigator\<close>: the list \<open>languages\<close> (absent in some browsers) and \<open>language\<close>.\<close>

record navigator_info =
  nav_languages :: "string list option"
  nav_language :: "string option"

definition getSystemLocale :: "navigator_info option \<Rightarrow> locale_tag" where
  "getSystemLocale nav =
     (case nav of
        None \<Rightarrow> En
      | Some n \<Rightarrow>
          let candidates = (case nav_languages n of
                Some (l # ls) \<Rightarrow> l # ls
              | _ \<Rightarrow> [case nav_language n of None \<Rightarrow> [] | Some l \<Rightarrow> l])
          in if list_ex id_tag candidates then Id else En)"

definition read_locale :: "string option \<Rightarrow> locale_tag option" where
  "read_locale v = (if v = Some ''id'' then Some Id else if v = Some ''en'' then Some En else None)"

text \<open>On the server: the header the middleware set; \<open>None\<close> when the headers cannot be read.\<close>

definition getRequestLocale :: "bool \<Rightarrow> (string, string) jsmap option \<Rightarrow> locale_tag option" where
  "getRequestLocale in_browser headers =
     (if in_browser then None
      else case headers of None \<Rightarrow> None | Some hs \<Rightarrow> read_locale (map_get hs ''x-telebos-locale''))"

definition getRequestPathname :: "bool \<Rightarrow> (string, string) jsmap option \<Rightarrow> string option" where
  "getRequestPathname in_browser headers =
     (if in_browser then None
      else case headers of None \<Rightarrow> None | Some hs \<Rightarrow> opt_or (map_get hs ''x-telebos-pathname'') None)"

record page_env =
  server_locale :: "string option"
  html_lang :: "string option"
  stored_locale :: "string option option"
  page_nav :: "navigator_info option"

text \<open>\<open>stored_locale\<close> is \<open>None\<close> when reading local storage throws.\<close>

definition getInitialLocale :: "page_env option \<Rightarrow> (string, string) jsmap option \<Rightarrow> locale_tag" where
  "getInitialLocale page headers =
     (case page of
        Some w \<Rightarrow>
          (case read_locale (server_locale w) of
             Some l \<Rightarrow> l
           | None \<Rightarrow>
               (case read_locale (html_lang w) of
                  Some l \<Rightarrow> l
                | None \<Rightarrow>
                    (case stored_locale w of
                       Some v \<Rightarrow> (case read_locale v of Some l \<Rightarrow> l | None \<Rightarrow> getSystemLocale (page_nav w))
                     | None \<Rightarrow> getSystemLocale (page_nav w))))
      | None \<Rightarrow> (case getRequestLocale False headers of Some l \<Rightarrow> l | None \<Rightarrow> En))"

section \<open>The store\<close>

datatype preference = PrefSystem | Pref locale_tag

fun preference_str :: "preference \<Rightarrow> string" where
  "preference_str PrefSystem = ''system''" | "preference_str (Pref l) = locale_str l"

record i18n_state =
  cur_locale :: locale_tag
  cur_preference :: preference

record browser =
  storage_ok :: bool
  b_storage :: "string option"
  b_cookie :: "string option"
  b_lang :: "string option"
  b_nav :: "navigator_info option"

definition locale_cookie :: "string \<Rightarrow> string" where
  "locale_cookie l = ''telebo_locale='' @ l @ ''; path=/; max-age=31536000; SameSite=Lax''"

definition setLocale :: "locale_tag \<Rightarrow> i18n_state \<Rightarrow> browser \<Rightarrow> i18n_state \<times> browser" where
  "setLocale l s b =
     (\<lparr>cur_locale = l, cur_preference = Pref l\<rparr>,
      if storage_ok b
      then b\<lparr>b_storage := Some (locale_str l), b_cookie := Some (locale_cookie (locale_str l)),
             b_lang := Some (locale_str l)\<rparr>
      else b)"

definition resolve_preference :: "preference \<Rightarrow> browser \<Rightarrow> locale_tag" where
  "resolve_preference p b = (case p of PrefSystem \<Rightarrow> getSystemLocale (b_nav b) | Pref l \<Rightarrow> l)"

definition setPreference :: "preference \<Rightarrow> i18n_state \<Rightarrow> browser \<Rightarrow> i18n_state \<times> browser" where
  "setPreference p s b =
     (let resolved = resolve_preference p b
      in (\<lparr>cur_locale = resolved, cur_preference = p\<rparr>,
          if storage_ok b
          then b\<lparr>b_storage := Some (preference_str p), b_cookie := Some (locale_cookie (locale_str resolved)),
                 b_lang := Some (locale_str resolved)\<rparr>
          else b))"

section \<open>Translation\<close>

datatype dict = Text string | Group "(string \<times> dict) list"

text \<open>A canonical array index, as a property name of a string.\<close>

definition string_index :: "string \<Rightarrow> nat option" where
  "string_index k =
     (if k \<noteq> [] \<and> list_all is_digit k \<and> nat_str (digits_val k) = k then Some (digits_val k) else None)"

fun dict_get :: "dict option \<Rightarrow> string \<Rightarrow> dict option" where
  "dict_get None k = None"
| "dict_get (Some (Group fs)) k = map_of fs k"
| "dict_get (Some (Text s)) k =
     (case string_index k of
        None \<Rightarrow> None
      | Some i \<Rightarrow> if i < length s then Some (Text [s ! i]) else None)"

definition dict_lookup :: "dict \<Rightarrow> string list \<Rightarrow> dict option" where
  "dict_lookup d keys = foldl dict_get (Some d) keys"

lemma tl_dropWhile_shorter [simp]: "length (dropWhile P xs) - Suc 0 < Suc (length xs)"
  using length_dropWhile_le [of P xs] by linarith

text \<open>\<open>value.replace(/\{(\w+)\}/g, ...)\<close>: a brace, the longest run of word characters, a closing
  brace.\<close>

function fill :: "(string \<Rightarrow> string option) \<Rightarrow> string \<Rightarrow> string" where
  "fill params [] = []"
| "fill params (c # cs) =
     (let key = takeWhile is_word cs; rest = dropWhile is_word cs
      in if c = CHR ''{'' \<and> key \<noteq> [] \<and> rest \<noteq> [] \<and> hd rest = CHR ''}''
         then (case params key of Some v \<Rightarrow> v | None \<Rightarrow> CHR ''{'' # key @ ''}'') @ fill params (tl rest)
         else c # fill params cs)"
  by pat_completeness auto
termination
  by (relation "measure (\<lambda>(p, s). length s)") simp_all

declare fill.simps [simp del]

definition translate ::
    "dict \<Rightarrow> dict \<Rightarrow> locale_tag \<Rightarrow> string \<Rightarrow> (string \<Rightarrow> string option) option \<Rightarrow> string" where
  "translate en ind loc path params =
     (let keys = split_on (CHR ''.'') path;
          value = (case dict_lookup (case loc of En \<Rightarrow> en | Id \<Rightarrow> ind) keys of
                     Some (Text s) \<Rightarrow> s
                   | _ \<Rightarrow> (case dict_lookup en keys of Some (Text s) \<Rightarrow> s | _ \<Rightarrow> path))
      in case params of None \<Rightarrow> value | Some ps \<Rightarrow> fill ps value)"

text \<open>The hook \<open>useT\<close> has its own copy of the walk; \<open>loc\<close> is the locale it last rendered with.\<close>

definition useT ::
    "dict \<Rightarrow> dict \<Rightarrow> locale_tag \<Rightarrow> string \<Rightarrow> (string \<Rightarrow> string option) option \<Rightarrow> string" where
  "useT en ind loc path params =
     (let keys = split_on (CHR ''.'') path;
          found = foldl dict_get (Some (case loc of En \<Rightarrow> en | Id \<Rightarrow> ind)) keys;
          fallback = foldl dict_get (Some en) keys;
          value = (case found of Some (Text s) \<Rightarrow> s | _ \<Rightarrow> (case fallback of Some (Text s) \<Rightarrow> s | _ \<Rightarrow> path))
      in case params of None \<Rightarrow> value | Some ps \<Rightarrow> fill ps value)"

section \<open>Lemmas\<close>

text \<open>The hook and the function translate alike.\<close>

lemma useT_translate: "useT en ind loc path params = translate en ind loc path params"
  unfolding useT_def translate_def dict_lookup_def Let_def by (rule refl)

lemma fill_Nil [simp]: "fill ps [] = []"
  by (simp add: fill.simps)

lemma fill_plain: "c \<noteq> CHR ''{'' \<Longrightarrow> fill ps (c # s) = c # fill ps s"
  by (simp add: fill.simps)

lemma fill_placeholder:
  assumes "list_all is_word k" "k \<noteq> []"
  shows "fill ps (CHR ''{'' # k @ CHR ''}'' # s) =
    (case ps k of Some v \<Rightarrow> v | None \<Rightarrow> CHR ''{'' # k @ ''}'') @ fill ps s"
proof -
  have w: "\<not> is_word (CHR ''}'')" by (simp add: is_word_def is_alpha_def is_digit_def)
  have "takeWhile is_word (k @ CHR ''}'' # s) = k" "dropWhile is_word (k @ CHR ''}'' # s) = CHR ''}'' # s"
    using assms w by (simp_all add: list_all_iff takeWhile_append2 dropWhile_append2)
  then show ?thesis using assms(2) by (simp add: fill.simps(2) Let_def)
qed

lemma fill_append_plain: "CHR ''{'' \<notin> set a \<Longrightarrow> fill ps (a @ s) = a @ fill ps s"
  by (induction a) (simp_all add: fill_plain not_sym)

lemma read_locale_str [simp]: "read_locale (Some (locale_str l)) = Some l"
  by (cases l) (simp_all add: read_locale_def)

section \<open>Properties\<close>

text \<open>Filling a text in which no parameter is given changes nothing: every placeholder, and every
  brace that is none, is reproduced as it is.\<close>

theorem fill_without_params: "fill (\<lambda>_. None) s = s"
proof (induction "\<lambda>_ :: string. None :: string option" s rule: fill.induct)
  case (2 c cs)
  let ?k = "takeWhile is_word cs" and ?r = "dropWhile is_word cs"
  show ?case
  proof (cases "c = CHR ''{'' \<and> ?k \<noteq> [] \<and> ?r \<noteq> [] \<and> hd ?r = CHR ''}''")
    case True
    then have "fill (\<lambda>_. None) (c # cs) = CHR ''{'' # ?k @ ''}'' @ fill (\<lambda>_. None) (tl ?r)"
      by (simp add: fill.simps(2) Let_def)
    also have "\<dots> = CHR ''{'' # ?k @ CHR ''}'' # tl ?r"
      using 2(1) [OF refl refl True] by simp
    also have "\<dots> = CHR ''{'' # ?k @ ?r" using True by (metis list.collapse)
    finally show ?thesis using True by simp
  next
    case False
    then have "fill (\<lambda>_. None) (c # cs) = c # fill (\<lambda>_. None) cs"
      by (simp only: fill.simps(2) Let_def if_False)
    then show ?thesis using 2(2) [OF refl refl False] by simp
  qed
qed simp

text \<open>A placeholder is replaced by the value of its parameter, once: what stands before it and
  the value itself are not read again, so a value with braces is shown as it is.\<close>

theorem fill_replaces_once:
  assumes "CHR ''{'' \<notin> set a" "list_all is_word k" "k \<noteq> []" "ps k = Some v"
  shows "fill ps (a @ ''{'' @ k @ ''}'' @ rest) = a @ v @ fill ps rest"
  using fill_append_plain [OF assms(1)] fill_placeholder [OF assms(2,3)] assms(4) by simp

theorem fill_replaces_once_witness:
  "fill [''name'' \<mapsto> ''{x}''] (''Delete '' @ ''{'' @ ''name'' @ ''}'' @ ''?'') = ''Delete '' @ ''{x}'' @ fill [''name'' \<mapsto> ''{x}''] ''?''"
  by (rule fill_replaces_once) (simp_all add: is_word_def is_alpha_def)

text \<open>The server and the browser do not detect the same language: for a visitor whose only
  language is Ingush (\<open>inh\<close>) the middleware answers English and the page then picks Indonesian.\<close>

theorem detection_disagrees:
  "negotiateLocale (Some ''inh'') = En \<and>
   getSystemLocale (Some \<lparr>nav_languages = Some [''inh''], nav_language = Some ''inh''\<rparr>) = Id"
  by code_simp

end
