(* ===== verification/BankAccounts.thy ===== *)
theory BankAccounts
  imports JsValue
begin

text \<open>
  The wallet's client store, \<open>src/frontend/src/store/bank-account-store.ts\<close>: payout accounts, deposit
  settings and transactions.

  What the code takes over unchecked from the server or from local storage stays a JSON value
  (\<open>undefined\<close> is \<open>None\<close>).  The result of an API call is an argument: \<open>None\<close> when the request fails.
  \<open>now\<close> is \<open>new Date().toISOString()\<close>, \<open>stamp\<close> is \<open>Date.now()\<close> and \<open>rnd\<close> the random part of a
  transaction id.  Local storage is a map from keys to the JSON stored there; \<open>can_store\<close> says whether
  \<open>setItem\<close> succeeds in a browser.  The warnings written to the console are left out.
\<close>

section \<open>Data\<close>

record UserBankAccount =
  acc_id :: string
  acc_type :: "json option"
  acc_provider :: "json option"
  accountNumber :: json
  accountHolder :: json
  isDefault :: bool
  acc_createdAt :: json

definition DEFAULT_DEPOSIT_SETTINGS :: object where
  "DEFAULT_DEPOSIT_SETTINGS =
     [(''merchantName'', JStr ''TELEBOS''), (''nmid'', JStr ''ID1020042918290''),
      (''qrisEnabled'', JBool True), (''bankName'', JStr ''Mandiri''),
      (''bankAccountNumber'', JStr ''1400 0019 4488 2''), (''bankAccountHolder'', JStr ''TeleBos Official'')]"

definition seed_tx :: "string \<Rightarrow> string \<Rightarrow> int \<Rightarrow> string \<Rightarrow> string \<Rightarrow> string \<Rightarrow> string \<Rightarrow> json" where
  "seed_tx i ty amount meth note created status =
     JObj [(''id'', JStr i), (''type'', JStr ty), (''amount'', JNum amount), (''method'', JStr meth),
           (''note'', JStr note), (''createdAt'', JStr created), (''status'', JStr status)]"

text \<open>The note of the fifth entry contains a bullet (U+2022), written by its UTF-8 bytes.\<close>

definition SEED_TRANSACTIONS :: "json list" where
  "SEED_TRANSACTIONS =
     [seed_tx ''wrn_8fd21a'' ''topup'' 250000 ''QRIS'' ''TRX 4471 2209'' ''2026-09-28T14:22:00Z'' ''approved'',
      seed_tx ''wrn_3c07be'' ''withdraw'' 150000 ''ewallet'' ''0812 3456 7890'' ''2026-09-26T09:05:00Z'' ''pending'',
      seed_tx ''wrn_9b41c7'' ''withdraw'' 75000 ''bank'' ''Mandiri 1122 0098 7712'' ''2026-09-21T18:40:00Z'' ''rejected'',
      seed_tx ''wrn_4a1f82'' ''topup'' 500000 ''QRIS'' ''Top Up QRIS TeleBos'' ''2026-09-18T11:10:00Z'' ''approved'',
      seed_tx ''wrn_7e3d19'' ''withdraw'' 200000 ''Mandiri''
        (''Mandiri '' @ [CHR 0xE2, CHR 0x80, CHR 0xA2] @ '' 1400 0192 8331 1'') ''2026-09-14T16:45:00Z'' ''approved'',
      seed_tx ''wrn_rd102a'' ''redeem'' 50000 ''Voucher Redeem'' ''TELEBOS-WELCOME50K'' ''2026-09-12T10:00:00Z'' ''approved'',
      seed_tx ''wrn_2b8c94'' ''topup'' 100000 ''QRIS'' ''Isi Saldo QRIS'' ''2026-09-10T08:30:00Z'' ''approved'',
      seed_tx ''wrn_ad441b'' ''admin_adjustment'' 100000 ''Admin System''
        ''Penyesuaian saldo bonus oleh Administrator'' ''2026-09-08T09:15:00Z'' ''approved'']"

record bank_state =
  accounts :: "UserBankAccount list"
  depositSettings :: object
  transactions :: "json list"
  isHydrated :: bool
  local_storage :: "(string, json) jsmap"

definition STORAGE_KEY_ACCOUNTS :: string where "STORAGE_KEY_ACCOUNTS = ''telebos_user_bank_accounts''"
definition STORAGE_KEY_DEPOSIT_SETTINGS :: string where
  "STORAGE_KEY_DEPOSIT_SETTINGS = ''telebos_deposit_settings''"
definition STORAGE_KEY_TRANSACTIONS :: string where
  "STORAGE_KEY_TRANSACTIONS = ''telebos_wallet_transactions''"
definition LEGACY_KEY_ACCOUNTS :: string where "LEGACY_KEY_ACCOUNTS = ''telebos_bank_accounts''"

definition init_bank :: "(string, json) jsmap \<Rightarrow> bank_state" where
  "init_bank storage =
     \<lparr>accounts = [], depositSettings = DEFAULT_DEPOSIT_SETTINGS, transactions = SEED_TRANSACTIONS,
      isHydrated = False, local_storage = storage\<rparr>"

section \<open>hydrate\<close>

text \<open>One element of the server's list; \<open>null\<close> has no properties and throws.\<close>

definition fetched_account :: "string \<Rightarrow> json \<Rightarrow> js_error + UserBankAccount" where
  "fetched_account now item =
     (if item = JNull then Inl TypeError
      else Inr
        \<lparr>acc_id = opt_String (jget item ''id''),
         acc_type = Some (JStr (if jget item ''type'' = Some (JStr ''ewallet'') then ''ewallet'' else ''bank'')),
         acc_provider = jget item ''provider'',
         accountNumber = the (jor (jor (jget item ''account_number'') (jget item ''accountNumber'')) (Some (JStr []))),
         accountHolder = the (jor (jor (jget item ''account_holder'') (jget item ''accountHolder'')) (Some (JStr []))),
         isDefault = opt_truthy (coalesce (jget item ''is_default'') (jget item ''isDefault'')),
         acc_createdAt = the (jor (jor (jget item ''created_at'') (jget item ''createdAt'')) (Some (JStr now)))\<rparr>)"

fun fetched_accounts :: "string \<Rightarrow> json list \<Rightarrow> js_error + UserBankAccount list" where
  "fetched_accounts now [] = Inr []"
| "fetched_accounts now (x # xs) =
     (case fetched_account now x of
        Inl e \<Rightarrow> Inl e
      | Inr a \<Rightarrow> (case fetched_accounts now xs of Inl e \<Rightarrow> Inl e | Inr as \<Rightarrow> Inr (a # as)))"

definition read_settings :: "stored_item \<Rightarrow> object" where
  "read_settings dep =
     (case dep of
        Parsed v \<Rightarrow> (if is_object v then spread DEFAULT_DEPOSIT_SETTINGS (entries v) else DEFAULT_DEPOSIT_SETTINGS)
      | _ \<Rightarrow> DEFAULT_DEPOSIT_SETTINGS)"

definition read_transactions :: "stored_item \<Rightarrow> stored_item \<Rightarrow> json list" where
  "read_transactions dep tx =
     (if dep = ReadThrows then SEED_TRANSACTIONS
      else case tx of Parsed (JArr xs) \<Rightarrow> (if xs = [] then SEED_TRANSACTIONS else xs) | _ \<Rightarrow> SEED_TRANSACTIONS)"

definition hydrate ::
    "bool \<Rightarrow> bool \<Rightarrow> stored_item \<Rightarrow> stored_item \<Rightarrow> json option \<Rightarrow> string \<Rightarrow> bank_state \<Rightarrow> bank_state" where
  "hydrate in_browser can_remove dep tx response now s =
     (if \<not> in_browser then s
      else
        let s1 = s\<lparr>local_storage :=
                (if can_remove
                 then map_delete (map_delete (local_storage s) STORAGE_KEY_ACCOUNTS) LEGACY_KEY_ACCOUNTS
                 else local_storage s),
              depositSettings := read_settings dep,
              transactions := read_transactions dep tx,
              isHydrated := True\<rparr>
        in case response of
             Some (JArr items) \<Rightarrow>
               (case fetched_accounts now items of Inl _ \<Rightarrow> s1 | Inr as \<Rightarrow> s1\<lparr>accounts := as\<rparr>)
           | _ \<Rightarrow> s1)"

section \<open>Account operations\<close>

record new_account =
  na_type :: string
  na_provider :: string
  na_number :: string
  na_holder :: string
  na_default :: bool

text \<open>The account that \<open>addAccount\<close> stores: the server's answer when it has one, else the local
  data.\<close>

definition saved_account :: "int \<Rightarrow> string \<Rightarrow> json option \<Rightarrow> new_account \<Rightarrow> UserBankAccount" where
  "saved_account stamp now response data =
     (let local_acc =
        \<lparr>acc_id = ''acc_'' @ int_str stamp, acc_type = Some (JStr (na_type data)),
         acc_provider = Some (JStr (na_provider data)), accountNumber = JStr (na_number data),
         accountHolder = JStr (na_holder data), isDefault = na_default data, acc_createdAt = JStr now\<rparr>
      in if opt_truthy response
         then
           let saved = the response
           in \<lparr>acc_id = opt_String (jget saved ''id''), acc_type = jget saved ''type'',
               acc_provider = jget saved ''provider'',
               accountNumber = the (jor (jor (jget saved ''account_number'') (jget saved ''accountNumber''))
                                     (Some (JStr (na_number data)))),
               accountHolder = the (jor (jor (jget saved ''account_holder'') (jget saved ''accountHolder''))
                                     (Some (JStr (na_holder data)))),
               isDefault = opt_truthy (coalesce (jget saved ''is_default'') (jget saved ''isDefault'')),
               acc_createdAt = the (jor (jget saved ''created_at'') (Some (JStr now)))\<rparr>
         else local_acc)"

definition insert_account :: "UserBankAccount \<Rightarrow> UserBankAccount list \<Rightarrow> UserBankAccount list" where
  "insert_account a as =
     (let updated = (if isDefault a then map (\<lambda>x. x\<lparr>isDefault := False\<rparr>) as else as);
          a1 = (if \<not> isDefault a \<and> as = [] then a\<lparr>isDefault := True\<rparr> else a)
      in a1 # filter (\<lambda>x. acc_id x \<noteq> acc_id a1) updated)"

definition addAccount ::
    "int \<Rightarrow> string \<Rightarrow> json option \<Rightarrow> new_account \<Rightarrow> bank_state \<Rightarrow> bank_state" where
  "addAccount stamp now response data s =
     s\<lparr>accounts := insert_account (saved_account stamp now response data) (accounts s)\<rparr>"

text \<open>\<open>Partial<UserBankAccount>\<close>: the properties an update carries.\<close>

record account_updates =
  up_id :: "string option"
  up_type :: "json option"
  up_provider :: "json option"
  up_number :: "json option"
  up_holder :: "json option"
  up_default :: "bool option"
  up_createdAt :: "json option"

definition or_keep :: "'a option \<Rightarrow> 'a \<Rightarrow> 'a" where
  "or_keep u x = (case u of None \<Rightarrow> x | Some v \<Rightarrow> v)"

definition merge_account :: "account_updates \<Rightarrow> UserBankAccount \<Rightarrow> UserBankAccount" where
  "merge_account u a =
     \<lparr>acc_id = or_keep (up_id u) (acc_id a),
      acc_type = (if up_type u = None then acc_type a else up_type u),
      acc_provider = (if up_provider u = None then acc_provider a else up_provider u),
      accountNumber = or_keep (up_number u) (accountNumber a),
      accountHolder = or_keep (up_holder u) (accountHolder a),
      isDefault = or_keep (up_default u) (isDefault a),
      acc_createdAt = or_keep (up_createdAt u) (acc_createdAt a)\<rparr>"

definition update_accounts ::
    "string \<Rightarrow> account_updates \<Rightarrow> UserBankAccount list \<Rightarrow> UserBankAccount list" where
  "update_accounts i u as =
     (let updated = map (\<lambda>a. if acc_id a = i then merge_account u a else a) as
      in if up_default u = Some True
         then map (\<lambda>a. if acc_id a = i then a else a\<lparr>isDefault := False\<rparr>) updated
         else updated)"

definition updateAccount :: "string \<Rightarrow> account_updates \<Rightarrow> bank_state \<Rightarrow> bank_state" where
  "updateAccount i u s = s\<lparr>accounts := update_accounts i u (accounts s)\<rparr>"

definition delete_account :: "string \<Rightarrow> UserBankAccount list \<Rightarrow> UserBankAccount list" where
  "delete_account i as =
     (let remaining = filter (\<lambda>a. acc_id a \<noteq> i) as
      in case remaining of
           [] \<Rightarrow> []
         | a # rest \<Rightarrow> (if list_ex isDefault remaining then remaining else a\<lparr>isDefault := True\<rparr> # rest))"

definition deleteAccount :: "string \<Rightarrow> bank_state \<Rightarrow> bank_state" where
  "deleteAccount i s = s\<lparr>accounts := delete_account i (accounts s)\<rparr>"

definition set_default :: "string \<Rightarrow> UserBankAccount list \<Rightarrow> UserBankAccount list" where
  "set_default i as = map (\<lambda>a. a\<lparr>isDefault := (acc_id a = i)\<rparr>) as"

definition setDefaultAccount :: "string \<Rightarrow> bank_state \<Rightarrow> bank_state" where
  "setDefaultAccount i s = s\<lparr>accounts := set_default i (accounts s)\<rparr>"

section \<open>Settings and transactions\<close>

definition store :: "bool \<Rightarrow> string \<Rightarrow> json \<Rightarrow> bank_state \<Rightarrow> bank_state" where
  "store can_store key v s =
     (if can_store then s\<lparr>local_storage := map_set (local_storage s) key v\<rparr> else s)"

definition updateDepositSettings :: "bool \<Rightarrow> object \<Rightarrow> bank_state \<Rightarrow> bank_state" where
  "updateDepositSettings can_store updates s =
     (let new = spread (depositSettings s) updates
      in (store can_store STORAGE_KEY_DEPOSIT_SETTINGS (JObj new) s)\<lparr>depositSettings := new\<rparr>)"

definition new_transaction :: "string \<Rightarrow> string \<Rightarrow> object \<Rightarrow> json" where
  "new_transaction rnd now tx =
     JObj (spread tx
       [(''id'', the (jor (map_get tx ''id'') (Some (JStr (''wrn_'' @ rnd))))),
        (''createdAt'', the (jor (map_get tx ''createdAt'') (Some (JStr now))))])"

definition addTransaction ::
    "bool \<Rightarrow> string \<Rightarrow> string \<Rightarrow> object \<Rightarrow> bank_state \<Rightarrow> js_error + bank_state \<times> json" where
  "addTransaction can_store rnd now tx s =
     (let newTx = new_transaction rnd now tx
      in if JNull \<in> set (transactions s) then Inl TypeError
         else
           let new = newTx # filter (\<lambda>t. jget t ''id'' \<noteq> jget newTx ''id'') (transactions s)
           in Inr ((store can_store STORAGE_KEY_TRANSACTIONS (JArr new) s)\<lparr>transactions := new\<rparr>, newTx))"

definition processed :: "string \<Rightarrow> string option \<Rightarrow> string \<Rightarrow> json \<Rightarrow> json" where
  "processed status adminNote now t =
     JObj (spread (entries t)
       ([(''status'', JStr status)]
        @ (case adminNote of None \<Rightarrow> [] | Some n \<Rightarrow> [(''adminNote'', JStr n)])
        @ [(''processedAt'', JStr now)]))"

definition updateTransactionStatus ::
    "bool \<Rightarrow> string \<Rightarrow> string \<Rightarrow> string \<Rightarrow> string option \<Rightarrow> bank_state \<Rightarrow> js_error + bank_state" where
  "updateTransactionStatus can_store now i status adminNote s =
     (if JNull \<in> set (transactions s) then Inl TypeError
      else
        let new = map (\<lambda>t. if jget t ''id'' = Some (JStr i) then processed status adminNote now t else t)
                    (transactions s)
        in Inr ((store can_store STORAGE_KEY_TRANSACTIONS (JArr new) s)\<lparr>transactions := new\<rparr>))"

section \<open>Steps of the store\<close>

text \<open>The operations a client calls, each at the moment its request is through: with any arguments, any answer of the
  server, and on whatever the accounts have become meanwhile.\<close>

datatype bank_op =
    Add int string "json option" new_account
  | Update string account_updates
  | Delete string
  | SetDefault string
  | Settings bool object
  | AddTx bool string string object
  | TxStatus bool string string string "string option"

fun bank_apply :: "bank_op \<Rightarrow> bank_state \<Rightarrow> bank_state" where
  "bank_apply (Add stamp now response data) s = addAccount stamp now response data s"
| "bank_apply (Update i u) s = updateAccount i u s"
| "bank_apply (Delete i) s = deleteAccount i s"
| "bank_apply (SetDefault i) s = setDefaultAccount i s"
| "bank_apply (Settings c u) s = updateDepositSettings c u s"
| "bank_apply (AddTx c rnd now tx) s = (case addTransaction c rnd now tx s of Inl _ \<Rightarrow> s | Inr (t, _) \<Rightarrow> t)"
| "bank_apply (TxStatus c now i st n) s = (case updateTransactionStatus c now i st n s of Inl _ \<Rightarrow> s | Inr t \<Rightarrow> t)"

inductive bank_step :: "bank_state \<Rightarrow> bank_op \<Rightarrow> bank_state \<Rightarrow> bool" where
  bank_stepI: "bank_step s opn (bank_apply opn s)"

inductive_cases bank_stepE: "bank_step s opn t"

text \<open>An update that does not change the id; no caller passes one, though the type allows it.\<close>

fun keeps_id :: "bank_op \<Rightarrow> bool" where
  "keeps_id (Update i u) = (up_id u = None)"
| "keeps_id opn = True"

definition defaults :: "UserBankAccount list \<Rightarrow> nat" where
  "defaults as = length (filter isDefault as)"

text \<open>Distinct ids and at most one default.\<close>

definition few_defaults :: "UserBankAccount list \<Rightarrow> bool" where
  "few_defaults as \<longleftrightarrow> distinct (map acc_id as) \<and> defaults as \<le> 1"

subsection \<open>The default account\<close>

lemma defaults_Nil [simp]: "defaults [] = 0"
  by (simp add: defaults_def)

lemma defaults_Cons [simp]: "defaults (a # as) = (if isDefault a then Suc (defaults as) else defaults as)"
  by (simp add: defaults_def)

lemma defaults_cleared [simp]: "defaults (map (\<lambda>x. x\<lparr>isDefault := False\<rparr>) as) = 0"
  by (induction as) auto

lemma acc_id_comp [simp]: "acc_id \<circ> isDefault_update f = acc_id"
  by (rule ext) simp

lemma ids_cleared [simp]: "map acc_id (map (\<lambda>x. x\<lparr>isDefault := False\<rparr>) as) = map acc_id as"
  by (induction as) auto

lemma fresh_kept: "i \<notin> acc_id ` set as \<Longrightarrow> filter (\<lambda>x. acc_id x \<noteq> i) as = as"
  by (rule filter_True) auto

lemma defaults_zero: "defaults as = 0 \<longleftrightarrow> \<not> list_ex isDefault as"
  by (induction as) auto

lemma defaults_filter_le: "defaults (filter P as) \<le> defaults as"
  by (induction as) auto

lemma few_insert:
  assumes "few_defaults as"
  shows "few_defaults (insert_account a as)"
proof -
  have rest: "distinct (map acc_id (filter (\<lambda>x. acc_id x \<noteq> i) bs))" "i \<notin> acc_id ` set (filter (\<lambda>x. acc_id x \<noteq> i) bs)"
    if "map acc_id bs = map acc_id as" for i and bs :: "UserBankAccount list"
    using that assms by (auto simp: few_defaults_def distinct_map_filter)
  let ?cl = "map (\<lambda>x. x\<lparr>isDefault := False\<rparr>) as"
  show ?thesis
  proof (cases "isDefault a")
    case True
    then have "insert_account a as = a # filter (\<lambda>x. acc_id x \<noteq> acc_id a) ?cl" by (simp add: insert_account_def)
    then show ?thesis
      using True rest [OF ids_cleared] defaults_filter_le [of "\<lambda>x. acc_id x \<noteq> acc_id a" ?cl] by (simp add: few_defaults_def)
  next
    case False
    show ?thesis
    proof (cases "as = []")
      case True
      then show ?thesis by (simp add: insert_account_def few_defaults_def Let_def)
    next
      case False
      then have "insert_account a as = a # filter (\<lambda>x. acc_id x \<noteq> acc_id a) as"
        using \<open>\<not> isDefault a\<close> by (simp add: insert_account_def)
      then show ?thesis
        using \<open>\<not> isDefault a\<close> rest [of as] assms defaults_filter_le [of "\<lambda>x. acc_id x \<noteq> acc_id a" as]
        by (simp add: few_defaults_def)
    qed
  qed
qed

text \<open>A deletion leaves exactly one default when it leaves any account.\<close>

lemma few_delete:
  assumes "few_defaults as"
  shows "few_defaults (delete_account i as) \<and> defaults (delete_account i as) = (if delete_account i as = [] then 0 else 1)"
proof -
  let ?r = "filter (\<lambda>a. acc_id a \<noteq> i) as"
  have d: "distinct (map acc_id ?r)" and le: "defaults ?r \<le> 1"
    using assms defaults_filter_le [of "\<lambda>a. acc_id a \<noteq> i" as]
    by (auto simp: few_defaults_def distinct_map_filter)
  show ?thesis
  proof (cases ?r)
    case (Cons a rest)
    then show ?thesis
      using d le defaults_zero [of "a # rest"] unfolding delete_account_def Let_def
      by (auto simp: few_defaults_def split: if_splits)
  qed (simp add: delete_account_def few_defaults_def)
qed

text \<open>The number of defaults depends on the flags alone.\<close>

lemma defaults_by_flags: "map isDefault as = map isDefault bs \<Longrightarrow> defaults as = defaults bs"
proof -
  have "defaults xs = length (filter id (map isDefault xs))" for xs
    by (simp add: defaults_def filter_map)
  then show "map isDefault as = map isDefault bs \<Longrightarrow> defaults as = defaults bs" by metis
qed

text \<open>Marking exactly the account of one id leaves one default.\<close>

lemma defaults_marked:
  "distinct (map acc_id as) \<Longrightarrow>
   defaults (map (\<lambda>a. a\<lparr>isDefault := (acc_id a = i)\<rparr>) as) = (if i \<in> acc_id ` set as then 1 else 0)"
  by (induction as) auto

lemma few_set: "few_defaults as \<Longrightarrow> few_defaults (set_default i as)"
  by (auto simp: few_defaults_def set_default_def defaults_marked comp_def)

lemma set_default_marks:
  "filter isDefault (set_default i as) = map (\<lambda>a. a\<lparr>isDefault := True\<rparr>) (filter (\<lambda>a. acc_id a = i) as)"
  by (induction as) (auto simp: set_default_def)

lemma merge_id: "up_id u = None \<Longrightarrow> acc_id (merge_account u a) = acc_id a"
  by (simp add: merge_account_def or_keep_def)

lemma merge_default: "isDefault (merge_account u a) = or_keep (up_default u) (isDefault a)"
  by (simp add: merge_account_def)

lemma update_accounts_ids:
  "up_id u = None \<Longrightarrow> map acc_id (update_accounts i u as) = map acc_id as"
  by (induction as) (auto simp: update_accounts_def Let_def merge_id)

lemma defaults_cleared_at:
  assumes "\<And>a. a \<in> set as \<Longrightarrow> acc_id a = i \<Longrightarrow> \<not> isDefault (f a)"
  shows "defaults (map (\<lambda>a. if acc_id a = i then f a else a) as) \<le> defaults as"
  using assms by (induction as) auto

lemma few_update:
  assumes "up_id u = None" "few_defaults as"
  shows "few_defaults (update_accounts i u as)"
proof -
  have dist: "distinct (map acc_id as)" "defaults as \<le> 1" using assms(2) by (simp_all add: few_defaults_def)
  have "defaults (update_accounts i u as) \<le> 1"
  proof (cases "up_default u")
    case None
    then have "map isDefault (update_accounts i u as) = map isDefault as"
      by (auto simp: update_accounts_def Let_def merge_default or_keep_def)
    from defaults_by_flags [OF this] show ?thesis using dist(2) by simp
  next
    case (Some b)
    show ?thesis
    proof (cases b)
      case True
      have "map isDefault (update_accounts i u as) = map isDefault (map (\<lambda>a. a\<lparr>isDefault := (acc_id a = i)\<rparr>) as)"
        using True Some assms(1) by (auto simp: update_accounts_def Let_def merge_id merge_default or_keep_def)
      from defaults_by_flags [OF this] show ?thesis using defaults_marked [OF dist(1), of i] by simp
    next
      case False
      then have "update_accounts i u as = map (\<lambda>a. if acc_id a = i then merge_account u a else a) as"
        using Some by (simp add: update_accounts_def Let_def)
      moreover have "\<not> isDefault (merge_account u a)" for a using False Some by (simp add: merge_default or_keep_def)
      ultimately show ?thesis using defaults_cleared_at [of as i "merge_account u"] dist(2) by simp
    qed
  qed
  then show ?thesis using dist(1) by (simp add: few_defaults_def update_accounts_ids [OF assms(1)])
qed

text \<open>Settings and transactions do not touch the accounts.\<close>

lemma store_accounts [simp]: "accounts (store c k v s) = accounts s"
  by (simp add: store_def)

lemma settings_accounts [simp]: "accounts (updateDepositSettings c u s) = accounts s"
  by (simp add: updateDepositSettings_def Let_def)

lemma addTransaction_accounts: "addTransaction c rnd now tx s = Inr (t, n) \<Longrightarrow> accounts t = accounts s"
  by (auto simp: addTransaction_def Let_def split: if_splits)

lemma status_accounts: "updateTransactionStatus c now i st n s = Inr t \<Longrightarrow> accounts t = accounts s"
  by (auto simp: updateTransactionStatus_def Let_def split: if_splits)

lemma bank_apply_few: "keeps_id opn \<Longrightarrow> few_defaults (accounts s) \<Longrightarrow> few_defaults (accounts (bank_apply opn s))"
  by (cases opn)
    (auto simp: addAccount_def updateAccount_def deleteAccount_def setDefaultAccount_def
      few_insert few_update few_delete few_set
      dest: addTransaction_accounts status_accounts split: sum.splits prod.splits)

interpretation bam: machine "\<lambda>s. few_defaults (accounts s)" "\<lambda>s opn t. keeps_id opn \<and> bank_step s opn t"
  "\<lambda>s. few_defaults (accounts s)"
  by unfold_locales (auto intro: bank_apply_few elim: bank_stepE)

lemma run_keeping: "run bank_step s ops t \<Longrightarrow> list_all keeps_id ops \<Longrightarrow> run (\<lambda>s opn t. keeps_id opn \<and> bank_step s opn t) s ops t"
  by (induction rule: run.induct) (auto intro: run.intros)

subsection \<open>Storage and transactions\<close>

text \<open>No operation writes under another key than those of the settings and the transactions.\<close>

lemma store_get:
  "map_get (local_storage (store c k v s)) k' = (if c \<and> k' = k then Some v else map_get (local_storage s) k')"
  by (simp add: store_def)

lemmas storage_key_defs = STORAGE_KEY_ACCOUNTS_def STORAGE_KEY_DEPOSIT_SETTINGS_def
  STORAGE_KEY_TRANSACTIONS_def LEGACY_KEY_ACCOUNTS_def

lemma bank_apply_storage:
  assumes "k \<noteq> STORAGE_KEY_DEPOSIT_SETTINGS" "k \<noteq> STORAGE_KEY_TRANSACTIONS"
  shows "map_get (local_storage (bank_apply opn s)) k = map_get (local_storage s) k"
proof (cases opn)
  case (Settings c u)
  then show ?thesis using assms by (simp add: updateDepositSettings_def store_get Let_def)
qed (use assms in \<open>auto simp: addAccount_def updateAccount_def deleteAccount_def setDefaultAccount_def
      addTransaction_def updateTransactionStatus_def store_get Let_def\<close>)

lemma fold_bank_apply_storage:
  "k \<noteq> STORAGE_KEY_DEPOSIT_SETTINGS \<Longrightarrow> k \<noteq> STORAGE_KEY_TRANSACTIONS \<Longrightarrow>
   map_get (local_storage (fold bank_apply ops s)) k = map_get (local_storage s) k"
  by (induction ops arbitrary: s) (simp_all add: bank_apply_storage)

lemma hydrate_purges:
  "k = STORAGE_KEY_ACCOUNTS \<or> k = LEGACY_KEY_ACCOUNTS \<Longrightarrow>
   map_get (local_storage (hydrate True True dep tx response now s)) k = None"
  by (auto simp: hydrate_def Let_def split: option.splits json.splits sum.splits)

lemma processed_get:
  assumes "k \<notin> {''status'', ''adminNote'', ''processedAt''}"
  shows "jget (processed st n now t) k = map_get (entries t) k"
  using assms by (cases n) (simp_all add: processed_def spread_def)

text \<open>The id a new transaction gets.\<close>

lemma new_transaction_get:
  "jget (new_transaction rnd now tx) ''id'' = jor (map_get tx ''id'') (Some (JStr (''wrn_'' @ rnd)))"
  "k \<notin> {''id'', ''createdAt''} \<Longrightarrow> jget (new_transaction rnd now tx) k = map_get tx k"
  by (cases "map_get tx ''id''") (simp_all add: new_transaction_def spread_def jor_def)

section \<open>Properties\<close>

definition demo_data :: new_account where
  "demo_data = \<lparr>na_type = ''bank'', na_provider = ''BCA'', na_number = ''123'', na_holder = ''A'', na_default = False\<rparr>"

definition demo_saved :: json where
  "demo_saved = JObj [(''id'', JNum 7), (''type'', JStr ''bank''), (''is_default'', JBool True)]"

definition demo_ops :: "bank_op list" where
  "demo_ops = [Add 1 ''now'' None demo_data, Add 2 ''now'' (Some demo_saved) demo_data, SetDefault ''acc_1'', Delete ''acc_1'']"

definition demo_bank :: bank_state where
  "demo_bank = fold bank_apply demo_ops (init_bank [])"

lemmas bank_op_defs = addAccount_def insert_account_def saved_account_def updateAccount_def
  update_accounts_def deleteAccount_def delete_account_def setDefaultAccount_def set_default_def Let_def

lemma demo_int_str: "int_str 1 = ''1''" "int_str 2 = ''2''" "int_str 7 = ''7''"
  by code_simp+

lemma demo_run: "run bank_step (init_bank []) demo_ops demo_bank"
proof -
  have "run bank_step s ops (fold bank_apply ops s)" for ops s
    by (induction ops arbitrary: s) (auto intro: run.intros bank_stepI)
  then show ?thesis by (simp add: demo_bank_def)
qed

text \<open>C33: never two default accounts: from accounts with distinct ids and at most one default on, after any sequence of
  additions, updates that change no id, deletions and choices of a default, whatever the server answers and in whatever order the requests
  complete, the ids are distinct and at most one account is the default; a deletion then leaves exactly one default if
  it leaves any account, a choice leaves exactly the chosen account as default (none when it is gone), and adding an
  account as default leaves exactly that one.\<close>

theorem one_default_account:
  assumes "run bank_step s ops t" "list_all keeps_id ops" "distinct (map acc_id (accounts s))" "defaults (accounts s) \<le> 1"
  shows "distinct (map acc_id (accounts t)) \<and> defaults (accounts t) \<le> 1
    \<and> defaults (accounts (deleteAccount i t)) = (if accounts (deleteAccount i t) = [] then 0 else 1)
    \<and> filter isDefault (accounts (setDefaultAccount i t))
        = map (\<lambda>a. a\<lparr>isDefault := True\<rparr>) (filter (\<lambda>a. acc_id a = i) (accounts t))
    \<and> length (filter (\<lambda>a. acc_id a = i) (accounts t)) \<le> 1
    \<and> filter isDefault (insert_account (a\<lparr>isDefault := True\<rparr>) (accounts t)) = [a\<lparr>isDefault := True\<rparr>]"
proof -
  have few: "few_defaults (accounts t)"
    using bam.run_inv [OF run_keeping [OF assms(1,2)]] assms(3,4) by (simp add: few_defaults_def)
  moreover have "length (filter (\<lambda>a. acc_id a = i) as) \<le> 1" if "distinct (map acc_id as)" for as :: "UserBankAccount list"
    using that by (induction as) (fastforce simp: filter_empty_conv image_iff)+
  moreover have "filter isDefault (filter P (map (\<lambda>x. x\<lparr>isDefault := False\<rparr>) as)) = []" for P and as :: "UserBankAccount list"
    by (induction as) auto
  ultimately show ?thesis
    using few_delete [OF few, of i]
    by (simp add: deleteAccount_def setDefaultAccount_def set_default_marks insert_account_def few_defaults_def)
qed

theorem one_default_account_witness:
  "distinct (map acc_id (accounts demo_bank)) \<and> defaults (accounts demo_bank) \<le> 1
    \<and> defaults (accounts (deleteAccount ''7'' demo_bank)) = (if accounts (deleteAccount ''7'' demo_bank) = [] then 0 else 1)
    \<and> filter isDefault (accounts (setDefaultAccount ''7'' demo_bank))
        = map (\<lambda>a. a\<lparr>isDefault := True\<rparr>) (filter (\<lambda>a. acc_id a = ''7'') (accounts demo_bank))
    \<and> length (filter (\<lambda>a. acc_id a = ''7'') (accounts demo_bank)) \<le> 1
    \<and> filter isDefault (insert_account ((saved_account 3 ''now'' None demo_data)\<lparr>isDefault := True\<rparr>) (accounts demo_bank))
        = [(saved_account 3 ''now'' None demo_data)\<lparr>isDefault := True\<rparr>]"
  by (rule one_default_account [OF demo_run]) (simp_all add: init_bank_def demo_ops_def)

text \<open>When a deletion completes before the request that makes the same account the default, no
  account is the default afterwards, whatever accounts remain.\<close>

theorem default_lost_by_race:
  "defaults (accounts (setDefaultAccount i (deleteAccount i s))) = 0"
proof -
  have "i \<notin> acc_id ` set (delete_account i as)" for as
  proof -
    have "i \<notin> acc_id ` set (filter (\<lambda>a. acc_id a \<noteq> i) as)" by auto
    then show ?thesis
      by (cases "filter (\<lambda>a. acc_id a \<noteq> i) as") (auto simp: delete_account_def Let_def)
  qed
  then have "list_all (\<lambda>a. \<not> isDefault a) (set_default i (delete_account i (accounts s)))"
    by (auto simp: set_default_def list_all_iff)
  then show ?thesis
    by (simp add: setDefaultAccount_def deleteAccount_def defaults_zero list_all_iff list_ex_iff)
qed

text \<open>After \<open>hydrate\<close> has run in a browser whose storage can be changed, neither key that held bank
  credentials is in local storage, and no later operation of the store brings one back.\<close>

theorem credentials_stay_purged:
  assumes "k = STORAGE_KEY_ACCOUNTS \<or> k = LEGACY_KEY_ACCOUNTS"
  shows "map_get (local_storage (fold bank_apply ops (hydrate True True dep tx response now s))) k = None"
proof -
  have "k \<noteq> STORAGE_KEY_DEPOSIT_SETTINGS" "k \<noteq> STORAGE_KEY_TRANSACTIONS"
    using assms by (auto simp: storage_key_defs)
  then show ?thesis by (simp add: fold_bank_apply_storage hydrate_purges [OF assms])
qed

theorem credentials_stay_purged_witness:
  "map_get (local_storage (fold bank_apply demo_ops (hydrate True True Missing Missing None ''now''
      (init_bank [(''telebos_bank_accounts'', JStr ''secret'')])))) LEGACY_KEY_ACCOUNTS = None"
  by (rule credentials_stay_purged) simp

text \<open>Deciding a transaction changes only its status, its admin note and its processing time: the
  history keeps its length and order, every other property of every entry (id, type, amount) is
  unchanged, entries with another id are untouched, and what local storage holds afterwards is the new
  history.\<close>

theorem status_update_audit:
  assumes "updateTransactionStatus True now i st nt s = Inr t" "j < length (transactions s)"
    "k \<notin> {''status'', ''adminNote'', ''processedAt''}"
  shows "length (transactions t) = length (transactions s)
    \<and> jget (transactions t ! j) k = jget (transactions s ! j) k
    \<and> (jget (transactions s ! j) ''id'' = Some (JStr i)
       \<and> jget (transactions t ! j) ''status'' = Some (JStr st)
       \<and> jget (transactions t ! j) ''processedAt'' = Some (JStr now)
       \<or> jget (transactions s ! j) ''id'' \<noteq> Some (JStr i) \<and> transactions t ! j = transactions s ! j)
    \<and> map_get (local_storage t) STORAGE_KEY_TRANSACTIONS = Some (JArr (transactions t))"
proof -
  let ?old = "transactions s ! j"
  have t: "transactions t = map (\<lambda>t. if jget t ''id'' = Some (JStr i) then processed st nt now t else t) (transactions s)"
    "map_get (local_storage t) STORAGE_KEY_TRANSACTIONS = Some (JArr (transactions t))"
    using assms(1) by (auto simp: updateTransactionStatus_def Let_def store_get split: if_splits)
  have "jget ?old ''id'' = Some (JStr i) \<Longrightarrow> entries ?old = (case ?old of JObj fs \<Rightarrow> fs | _ \<Rightarrow> [])"
    by (cases ?old) auto
  then have "jget ?old ''id'' = Some (JStr i) \<Longrightarrow> map_get (entries ?old) k = jget ?old k"
    by (cases ?old) auto
  moreover have "jget (processed st nt now ?old) ''status'' = Some (JStr st)"
    "jget (processed st nt now ?old) ''processedAt'' = Some (JStr now)"
    by (cases nt, simp_all add: processed_def spread_def)+
  ultimately show ?thesis using t assms(2) processed_get [OF assms(3), of st nt now ?old] by auto
qed

definition demo_settled :: bank_state where
  "demo_settled = projr (updateTransactionStatus True ''now'' ''wrn_3c07be'' ''approved'' None (init_bank []))"

lemma demo_settled_eq:
  "updateTransactionStatus True ''now'' ''wrn_3c07be'' ''approved'' None (init_bank []) = Inr demo_settled"
  by (simp add: demo_settled_def updateTransactionStatus_def init_bank_def SEED_TRANSACTIONS_def seed_tx_def Let_def)

theorem status_update_audit_witness:
  "length (transactions demo_settled) = 8
    \<and> jget (transactions demo_settled ! 1) ''amount'' = Some (JNum 150000)
    \<and> jget (transactions demo_settled ! 1) ''status'' = Some (JStr ''approved'')"
  using status_update_audit [where j = 1 and k = "''amount''", OF demo_settled_eq]
  by (simp add: init_bank_def SEED_TRANSACTIONS_def seed_tx_def map_get_def)

end
