(* ===== verification/Drafts.thy ===== *)
theory Drafts
  imports JsValue
begin

text \<open>
  Message drafts, \<open>src/frontend/src/lib/drafts.ts\<close>: the drafts shown to the user, their metadata
  (\<open>activeMeta\<close>) and the copy in local storage under \<open>telebos-drafts\<close>.

  The metadata of a loaded draft is the object found in storage, so it is a JSON value.  \<open>now\<close> is
  \<open>Date.now()\<close>; \<open>can_store\<close> says that the code runs in a browser and \<open>setItem\<close> succeeds.
\<close>

definition MAX_DRAFTS :: nat where "MAX_DRAFTS = 50"

definition DRAFT_TTL_MS :: int where "DRAFT_TTL_MS = 14 * 24 * 60 * 60 * 1000"

definition mk_meta :: "string \<Rightarrow> int \<Rightarrow> json" where
  "mk_meta txt now = JObj [(''text'', JStr txt), (''updatedAt'', JNum now)]"

definition meta_text :: "json \<Rightarrow> json option" where "meta_text m = jget m ''text''"

definition meta_time :: "json \<Rightarrow> jsnum" where "meta_time m = to_number (jget m ''updatedAt'')"

text \<open>\<open>now - t < DRAFT_TTL_MS\<close>.\<close>

fun within_ttl :: "int \<Rightarrow> jsnum \<Rightarrow> bool" where
  "within_ttl now (Fin q) = (of_int now - q < of_int DRAFT_TTL_MS)"
| "within_ttl now PosInf = True"
| "within_ttl now NegInf = False"
| "within_ttl now NaN = False"

type_synonym draft_maps = "(string, json) jsmap \<times> (string, json) jsmap"

section \<open>Loading\<close>

fun load_v2 :: "int \<Rightarrow> object \<Rightarrow> draft_maps \<Rightarrow> draft_maps" where
  "load_v2 now [] (d, m) = (d, m)"
| "load_v2 now ((k, item) # rest) (d, m) =
     (if jtruthy item \<and> opt_truthy (meta_text item) \<and> within_ttl now (meta_time item)
      then load_v2 now rest (map_set d k (the (meta_text item)), map_set m k item)
      else load_v2 now rest (d, m))"

fun load_legacy :: "int \<Rightarrow> object \<Rightarrow> draft_maps \<Rightarrow> draft_maps" where
  "load_legacy now [] (d, m) = (d, m)"
| "load_legacy now ((k, v) # rest) (d, m) =
     (case v of
        JStr txt \<Rightarrow>
          (if trim txt \<noteq> [] then load_legacy now rest (map_set d k v, map_set m k (mk_meta txt now))
           else load_legacy now rest (d, m))
      | _ \<Rightarrow> load_legacy now rest (d, m))"

definition loadInitialDrafts :: "bool \<Rightarrow> stored_item \<Rightarrow> int \<Rightarrow> draft_maps" where
  "loadInitialDrafts in_browser stored now =
     (if \<not> in_browser then ([], [])
      else case stored of
        Parsed parsed \<Rightarrow>
          (if jget parsed ''version'' = Some (JNum 2) \<and> opt_truthy (jget parsed ''items'')
           then load_v2 now (entries (the (jget parsed ''items''))) ([], [])
           else if is_object parsed then load_legacy now (entries parsed) ([], [])
           else ([], []))
      | _ \<Rightarrow> ([], []))"

section \<open>The store\<close>

record draft_state =
  drafts :: "(string, json) jsmap"
  activeMeta :: "(string, json) jsmap"
  draft_storage :: stored_item

definition init_drafts :: "bool \<Rightarrow> stored_item \<Rightarrow> int \<Rightarrow> draft_state" where
  "init_drafts in_browser stored now =
     \<lparr>drafts = fst (loadInitialDrafts in_browser stored now),
      activeMeta = snd (loadInitialDrafts in_browser stored now), draft_storage = stored\<rparr>"

definition persistDrafts :: "bool \<Rightarrow> (string, json) jsmap \<Rightarrow> stored_item \<Rightarrow> stored_item" where
  "persistDrafts can_store meta old =
     (if can_store then Parsed (JObj [(''version'', JNum 2), (''items'', JObj meta)]) else old)"

definition draft_key :: "string \<Rightarrow> int \<Rightarrow> string" where
  "draft_key accountId chatId = accountId @ '':'' @ int_str chatId"

definition delete_all :: "('k, 'v) jsmap \<Rightarrow> 'k list \<Rightarrow> ('k, 'v) jsmap" where
  "delete_all m ks = fold (\<lambda>k m. map_delete m k) ks m"

text \<open>The keys over the limit, oldest first.\<close>

definition surplus :: "(string, json) jsmap \<Rightarrow> string list" where
  "surplus meta =
     (if MAX_DRAFTS < length (map_keys meta)
      then take (length (map_keys meta) - MAX_DRAFTS)
             (js_sort (\<lambda>k. asc_key (meta_time (the (map_get meta k)))) (map_keys meta))
      else [])"

definition setDraft :: "bool \<Rightarrow> int \<Rightarrow> string \<Rightarrow> int \<Rightarrow> string \<Rightarrow> draft_state \<Rightarrow> draft_state" where
  "setDraft can_store now accountId chatId txt s =
     (let key = draft_key accountId chatId;
          (nextDrafts, nextMeta) =
            (if trim txt = [] then (map_delete (drafts s) key, map_delete (activeMeta s) key)
             else
               let d = map_set (drafts s) key (JStr txt);
                   m = map_set (activeMeta s) key (mk_meta txt now)
               in (delete_all d (surplus m), delete_all m (surplus m)))
      in s\<lparr>activeMeta := nextMeta, draft_storage := persistDrafts can_store nextMeta (draft_storage s),
           drafts := nextDrafts\<rparr>)"

definition getDraft :: "string \<Rightarrow> int \<Rightarrow> draft_state \<Rightarrow> json" where
  "getDraft accountId chatId s = the (jor (map_get (drafts s) (draft_key accountId chatId)) (Some (JStr [])))"

section \<open>The two maps agree\<close>

definition texts :: "(string, json) jsmap \<Rightarrow> (string, json) jsmap" where
  "texts meta = map (\<lambda>(k, m). (k, the (meta_text m))) meta"

definition meta_ok :: "json \<Rightarrow> bool" where
  "meta_ok m \<longleftrightarrow> jtruthy m \<and> opt_truthy (meta_text m) \<and> meta_time m \<noteq> NaN"

definition draft_inv :: "draft_state \<Rightarrow> bool" where
  "draft_inv s \<longleftrightarrow> map_wf (activeMeta s) \<and> list_all (\<lambda>p. meta_ok (snd p)) (activeMeta s)
     \<and> drafts s = texts (activeMeta s)"

lemma texts_set: "map_set (texts m) k (the (meta_text x)) = texts (map_set m k x)"
  by (induction m) (auto simp: texts_def)

lemma texts_delete: "map_delete (texts m) k = texts (map_delete m k)"
  by (induction m) (auto simp: texts_def map_delete_def)

lemma delete_all_filter: "delete_all m ks = filter (\<lambda>p. fst p \<notin> set ks) m"
proof -
  have "fold (\<lambda>k m. map_delete m k) ks m = filter (\<lambda>p. fst p \<notin> set ks) m"
    by (induction ks arbitrary: m) (auto simp: map_delete_def intro: filter_cong)
  then show ?thesis by (simp add: delete_all_def)
qed

lemma texts_delete_all: "delete_all (texts m) ks = texts (delete_all m ks)"
  unfolding delete_all_filter texts_def by (induction m) auto

lemma map_get_texts: "map_get (texts m) k = map_option (\<lambda>x. the (meta_text x)) (map_get m k)"
  by (induction m) (auto simp: texts_def map_get_def)

lemma meta_mk [simp]: "meta_text (mk_meta t n) = Some (JStr t)" "meta_time (mk_meta t n) = Fin (of_int n)"
  by (simp_all add: mk_meta_def meta_text_def meta_time_def map_get_def)

lemma meta_ok_mk: "t \<noteq> [] \<Longrightarrow> meta_ok (mk_meta t n)"
  by (simp add: meta_ok_def) (simp add: mk_meta_def)

lemma list_all_map_delete: "list_all P m \<Longrightarrow> list_all P (map_delete m k)"
  by (simp add: list_all_iff map_delete_def)

lemma trim_nonempty: "trim t \<noteq> [] \<Longrightarrow> t \<noteq> []"
  by (auto simp: trim_def)

lemma within_ttl_number: "within_ttl now t \<Longrightarrow> t \<noteq> NaN"
  by auto

text \<open>Loading, as one statement for both formats.\<close>

definition maps_ok :: "draft_maps \<Rightarrow> bool" where
  "maps_ok dm \<longleftrightarrow> map_wf (snd dm) \<and> list_all (\<lambda>p. meta_ok (snd p)) (snd dm) \<and> fst dm = texts (snd dm)"

lemma load_v2_ok: "maps_ok (d, m) \<Longrightarrow> maps_ok (load_v2 now items (d, m))"
proof (induction now items "(d, m)" arbitrary: d m rule: load_v2.induct)
  case (2 now k item rest d m)
  have "meta_ok item" if "jtruthy item \<and> opt_truthy (meta_text item) \<and> within_ttl now (meta_time item)"
    using that by (auto simp: meta_ok_def)
  then show ?case using 2 by (auto simp: maps_ok_def texts_set list_all_map_set)
qed simp

lemma load_legacy_ok: "maps_ok (d, m) \<Longrightarrow> maps_ok (load_legacy now items (d, m))"
proof (induction now items "(d, m)" arbitrary: d m rule: load_legacy.induct)
  case (2 now k v rest d m)
  have set_ok: "maps_ok (map_set d k (JStr t), map_set m k (mk_meta t now))" if "trim t \<noteq> []" for t
    using 2(8) that texts_set [of m k "mk_meta t now"]
    by (auto simp: maps_ok_def list_all_map_set meta_ok_mk trim_nonempty)
  show ?case using 2 set_ok by (cases v) auto
qed simp

lemma init_inv: "draft_inv (init_drafts in_browser stored now)"
proof -
  have "maps_ok ([], [])" by (simp add: maps_ok_def texts_def)
  then have "maps_ok (loadInitialDrafts in_browser stored now)"
    by (auto simp: loadInitialDrafts_def load_v2_ok load_legacy_ok split: stored_item.splits)
  then show ?thesis by (simp add: maps_ok_def draft_inv_def init_drafts_def)
qed

lemma map_wf_filter: "map_wf m \<Longrightarrow> map_wf (filter P m)"
  by (simp add: map_wf_def distinct_map_filter)

lemma delete_all_ok: "map_wf m \<Longrightarrow> map_wf (delete_all m ks)" "list_all P m \<Longrightarrow> list_all P (delete_all m ks)"
  by (simp_all add: delete_all_filter map_wf_filter list_all_iff)

lemma setDraft_inv: "draft_inv s \<Longrightarrow> draft_inv (setDraft c now a i t s)"
proof (cases "trim t = []")
  case True
  moreover assume "draft_inv s"
  ultimately show ?thesis
    by (simp add: setDraft_def draft_inv_def texts_delete list_all_map_delete Let_def)
next
  case False
  assume s: "draft_inv s"
  let ?m = "map_set (activeMeta s) (draft_key a i) (mk_meta t now)"
  have "map_set (drafts s) (draft_key a i) (JStr t) = texts ?m"
    using s texts_set [of "activeMeta s" "draft_key a i" "mk_meta t now"] by (simp add: draft_inv_def)
  moreover have "list_all (\<lambda>p. meta_ok (snd p)) ?m" "map_wf ?m"
    using s False by (auto simp: draft_inv_def list_all_map_set meta_ok_mk trim_nonempty)
  ultimately show ?thesis
    using False by (simp add: setDraft_def draft_inv_def texts_delete_all Let_def delete_all_ok)
qed

section \<open>Eviction\<close>

lemma map_keys_delete_all: "map_keys (delete_all m ks) = filter (\<lambda>k. k \<notin> set ks) (map_keys m)"
  by (induction m) (auto simp: delete_all_filter map_keys_def)

lemma length_filter_notin:
  "distinct xs \<Longrightarrow> distinct ys \<Longrightarrow> set ys \<subseteq> set xs \<Longrightarrow>
   length (filter (\<lambda>x. x \<notin> set ys) xs) = length xs - length ys"
proof -
  assume a: "distinct xs" "distinct ys" "set ys \<subseteq> set xs"
  have "set (filter (\<lambda>x. x \<notin> set ys) xs) = set xs - set ys" by auto
  then have "length (filter (\<lambda>x. x \<notin> set ys) xs) = card (set xs - set ys)"
    using a(1) by (metis distinct_card distinct_filter)
  then show ?thesis using a by (simp add: card_Diff_subset distinct_card)
qed

definition age_key :: "(string, json) jsmap \<Rightarrow> string \<Rightarrow> int \<times> rat" where
  "age_key m k = asc_key (meta_time (the (map_get m k)))"

lemma surplus_eq: "surplus m = take (length m - MAX_DRAFTS) (js_sort (age_key m) (map_keys m))"
  by (simp add: surplus_def age_key_def [abs_def])

lemma surplus_props:
  assumes "map_wf m"
  shows "distinct (surplus m)" "set (surplus m) \<subseteq> set (map_keys m)" "length (surplus m) = length m - MAX_DRAFTS"
proof -
  show "distinct (surplus m)" using map_wf_keys [OF assms] by (simp add: surplus_def)
  show "set (surplus m) \<subseteq> set (map_keys m)"
    using set_take_subset by (fastforce simp: surplus_def)
  show "length (surplus m) = length m - MAX_DRAFTS" by (simp add: surplus_def)
qed

lemma length_evicted:
  assumes "map_wf m"
  shows "length (delete_all m (surplus m)) = min (length m) MAX_DRAFTS"
proof -
  have "length (map_keys (delete_all m (surplus m))) = length m - (length m - MAX_DRAFTS)"
    using length_filter_notin [OF map_wf_keys [OF assms] surplus_props(1,2) [OF assms]] surplus_props(3) [OF assms]
    by (simp add: map_keys_delete_all)
  then show ?thesis by simp
qed

text \<open>An evicted draft is not newer than one that stays.\<close>

lemma surplus_oldest:
  assumes "e \<in> set (surplus m)" "r \<in> set (map_keys m)" "r \<notin> set (surplus m)"
  shows "age_key m e \<le> age_key m r"
proof -
  let ?n = "length m - MAX_DRAFTS" and ?xs = "js_sort (age_key m) (map_keys m)"
  have "r \<in> set ?xs" using assms(2) by simp
  then have "r \<in> set (drop ?n ?xs)"
    using assms(3) unfolding surplus_eq by (metis Un_iff append_take_drop_id set_append)
  moreover have "sorted (map (age_key m) (take ?n ?xs) @ map (age_key m) (drop ?n ?xs))"
    using sorted_js_sort [of "age_key m" "map_keys m"] by (metis append_take_drop_id map_append)
  ultimately show ?thesis using assms(1) unfolding surplus_eq by (auto simp: sorted_append)
qed

text \<open>The newest key is sorted last, ties included, and so is never over the limit.\<close>

lemma insert_by_snoc: "f y \<le> f x \<Longrightarrow> insert_by f y (xs @ [x]) = insert_by f y xs @ [x]"
  by (induction xs) auto

lemma js_sort_snoc: "(\<forall>y\<in>set xs. f y \<le> f x) \<Longrightarrow> js_sort f (xs @ [x]) = js_sort f xs @ [x]"
  by (induction xs) (auto simp: js_sort_def insert_by_snoc)

lemma surplus_newest:
  assumes "map_wf m" "map_keys m = ks @ [k]" "\<forall>y\<in>set ks. age_key m y \<le> age_key m k"
  shows "k \<notin> set (surplus m)"
proof -
  have "k \<notin> set ks" using map_wf_keys [OF assms(1)] assms(2) by auto
  moreover have "length m = Suc (length ks)" using assms(2) length_map_keys [of m] by simp
  ultimately have "k \<notin> set (take (length m - MAX_DRAFTS) (js_sort (age_key m) ks @ [k]))"
    by (auto simp: MAX_DRAFTS_def dest: in_set_takeD)
  then show ?thesis
    using js_sort_snoc [OF assms(3)] by (simp add: surplus_eq assms(2))
qed

section \<open>Keys\<close>

lemma colon_split:
  assumes "xs @ CHR '':'' # ys = us @ CHR '':'' # vs" "CHR '':'' \<notin> set ys" "CHR '':'' \<notin> set vs"
  shows "xs = us \<and> ys = vs"
proof -
  let ?P = "\<lambda>c. c \<noteq> CHR '':''"
  have tail: "takeWhile ?P (rev (l @ CHR '':'' # r)) = rev r" if "CHR '':'' \<notin> set r" for l r
    using that takeWhile_append2 [of "rev r" ?P "CHR '':'' # rev l"] by auto
  have "rev ys = rev vs" using tail [OF assms(2), of xs] tail [OF assms(3), of us] assms(1) by simp
  then show ?thesis using assms(1) by simp
qed

lemma int_str_no_colon: "CHR '':'' \<notin> set (int_str i)"
proof -
  have "CHR '':'' \<notin> set (nat_str n)" for n
    using nat_str_digits [of n] by (auto simp: list_all_iff is_digit_def)
  then show ?thesis by (simp add: int_str_def)
qed

lemma int_str_inj: "int_str i = int_str j \<Longrightarrow> i = j"
  using parseInt10_int_str by (metis option.inject)

lemma draft_key_inj: "draft_key a i = draft_key b j \<longleftrightarrow> a = b \<and> i = j"
  using colon_split [of a "int_str i" b "int_str j"] int_str_no_colon int_str_inj
  by (auto simp: draft_key_def)

section \<open>What the operations do\<close>

definition stamps_upto :: "int \<Rightarrow> draft_state \<Rightarrow> bool" where
  "stamps_upto now s = list_all (\<lambda>p. asc_key (meta_time (snd p)) \<le> asc_key (Fin (of_int now))) (activeMeta s)"

abbreviation next_meta :: "int \<Rightarrow> string \<Rightarrow> int \<Rightarrow> string \<Rightarrow> draft_state \<Rightarrow> (string, json) jsmap" where
  "next_meta now a i t s \<equiv> map_set (activeMeta s) (draft_key a i) (mk_meta t now)"

lemma setDraft_meta:
  "trim t \<noteq> [] \<Longrightarrow> activeMeta (setDraft c now a i t s) =
     delete_all (next_meta now a i t s) (surplus (next_meta now a i t s))"
  "trim t = [] \<Longrightarrow> activeMeta (setDraft c now a i t s) = map_delete (activeMeta s) (draft_key a i)"
  by (simp_all add: setDraft_def Let_def)

lemma getDraft_meta:
  assumes "draft_inv s"
  shows "getDraft a i s = (case map_get (activeMeta s) (draft_key a i) of None \<Rightarrow> JStr [] | Some m \<Rightarrow> the (meta_text m))"
proof -
  have "opt_truthy (meta_text m)" if "map_get (activeMeta s) k = Some m" for k m
    using assms that by (auto simp: draft_inv_def list_all_iff meta_ok_def map_get_def dest!: map_of_SomeD)
  then show ?thesis
    using assms by (auto simp: getDraft_def draft_inv_def map_get_texts jor_def split: option.splits)
       (metis opt_truthy.elims(2) option.sel)
qed

lemma map_get_delete_all: "map_get (delete_all m ks) k = (if k \<in> set ks then None else map_get m k)"
  by (induction m) (auto simp: delete_all_filter map_get_def)

lemma surplus_small: "length m \<le> MAX_DRAFTS \<Longrightarrow> surplus m = []"
  by (simp add: surplus_def)

text \<open>In a store within its limit, a draft written with the latest time stamp is not evicted.\<close>

lemma written_kept:
  assumes "draft_inv s" "length (activeMeta s) \<le> MAX_DRAFTS" "stamps_upto now s"
  shows "draft_key a i \<notin> set (surplus (next_meta now a i t s))"
proof (cases "map_has (activeMeta s) (draft_key a i)")
  case True
  then show ?thesis using assms(2) by (simp add: surplus_small length_map_set)
next
  case False
  let ?m = "next_meta now a i t s" and ?k = "draft_key a i"
  have keys: "map_keys ?m = map_keys (activeMeta s) @ [?k]"
    using False by (simp add: map_keys_set map_has_keys)
  have "age_key ?m y \<le> age_key ?m ?k" if y: "y \<in> set (map_keys (activeMeta s))" for y
  proof -
    obtain x where "map_get (activeMeta s) y = Some x" using y by (auto simp: map_keys_get)
    moreover from this have "asc_key (meta_time x) \<le> asc_key (Fin (of_int now))"
      using assms(3) by (auto simp: stamps_upto_def list_all_iff map_get_def dest!: map_of_SomeD)
    moreover have "y \<noteq> ?k" using y False by (auto simp: map_has_keys)
    ultimately show ?thesis by (simp add: age_key_def)
  qed
  then show ?thesis
    using surplus_newest [OF _ keys] assms(1) by (simp add: draft_inv_def)
qed

text \<open>What is stored loads again as it is while no draft has expired.\<close>

lemma load_v2_all:
  "map_wf (m @ rest) \<Longrightarrow> list_all (\<lambda>p. meta_ok (snd p) \<and> within_ttl now (meta_time (snd p))) rest \<Longrightarrow>
   load_v2 now rest (texts m, m) = (texts (m @ rest), m @ rest)"
proof (induction rest arbitrary: m)
  case (Cons p rest)
  obtain k x where p: "p = (k, x)" by force
  have "map_set m k x = m @ [(k, x)]"
    using Cons.prems(1) p by (intro map_set_absent) (auto simp: map_wf_def map_has_def)
  moreover have "map_wf ((m @ [(k, x)]) @ rest)" using Cons.prems(1) p by simp
  ultimately show ?case
    using Cons.IH [of "m @ [(k, x)]"] Cons.prems p texts_set [of m k x] by (simp add: meta_ok_def)
qed simp

section \<open>Histories\<close>

datatype draft_op = SetDraft bool int string int string

inductive draft_step :: "draft_state \<Rightarrow> draft_op \<Rightarrow> draft_state \<Rightarrow> bool" where
  "draft_step s (SetDraft c now a i t) (setDraft c now a i t s)"

inductive_cases draft_stepE: "draft_step s l t"

definition draft_start :: "draft_state \<Rightarrow> bool" where
  "draft_start s \<longleftrightarrow> (\<exists>b stored now. s = init_drafts b stored now)"

interpretation drm: machine draft_start draft_step draft_inv
  by unfold_locales (auto simp: draft_start_def init_inv setDraft_inv elim: draft_stepE)

lemma length_drafts: "draft_inv s \<Longrightarrow> length (drafts s) = length (activeMeta s)"
  by (simp add: draft_inv_def texts_def)

lemma drafts_get: "draft_inv s \<Longrightarrow> map_has (drafts s) k \<longleftrightarrow> map_has (activeMeta s) k"
  by (simp add: draft_inv_def map_has_iff_get map_get_texts)

definition demo_drafts :: draft_state where
  "demo_drafts = init_drafts True (Parsed (JObj [(''a:1'', JStr ''hi'')])) 5"

lemma demo_reach: "reach draft_start draft_step demo_drafts"
  unfolding demo_drafts_def by (rule reach_start) (auto simp: draft_start_def)

lemma demo_drafts_eq:
  "demo_drafts = \<lparr>drafts = [(''a:1'', JStr ''hi'')], activeMeta = [(''a:1'', mk_meta ''hi'' 5)],
     draft_storage = Parsed (JObj [(''a:1'', JStr ''hi'')])\<rparr>"
  by (simp add: demo_drafts_def init_drafts_def loadInitialDrafts_def map_get_def trim_def is_ws_def)

lemma demo_trim: "trim ''yo'' = ''yo''" by code_simp

text \<open>As long as the store has room, what \<open>getDraft\<close> returns after \<open>setDraft\<close> is the text just
  written for that chat (nothing when the text is blank), and the draft of every other account or chat
  is the one it was.\<close>

theorem draft_get_set:
  assumes "reach draft_start draft_step s" "length (drafts s) < MAX_DRAFTS"
  shows "getDraft b j (setDraft c now a i t s) =
    (if b = a \<and> j = i then JStr (if trim t = [] then [] else t) else getDraft b j s)"
proof -
  have inv: "draft_inv s" using drm.reach_inv [OF assms(1)] .
  have "length (next_meta now a i t s) \<le> MAX_DRAFTS"
    using assms(2) by (simp add: length_map_set length_drafts [OF inv])
  note get = getDraft_meta [OF inv] getDraft_meta [OF setDraft_inv [OF inv]] and small = surplus_small [OF this]
  show ?thesis
    by (cases "trim t = []") (auto simp: get setDraft_meta small map_get_delete_all draft_key_inj)
qed

theorem draft_get_set_witness:
  "getDraft ''a'' 1 (setDraft True 6 ''a'' 2 ''yo'' demo_drafts) = JStr ''hi''
   \<and> getDraft ''a'' 2 (setDraft True 6 ''a'' 2 ''yo'' demo_drafts) = JStr ''yo''"
proof -
  have "getDraft ''a'' 1 demo_drafts = JStr ''hi''" unfolding demo_drafts_eq by code_simp
  then show ?thesis
    using draft_get_set [OF demo_reach, of "''a''" 1 True 6 "''a''" 2 "''yo''"]
      draft_get_set [OF demo_reach, of "''a''" 2 True 6 "''a''" 2 "''yo''"]
    by (simp add: demo_drafts_eq demo_trim MAX_DRAFTS_def)
qed

text \<open>C35: writing a draft leaves at most 50; a draft that was dropped is not newer than any draft that
  stayed; and when the store was within its limit and no clock ran ahead, the draft just written is not
  the one dropped.\<close>

theorem draft_eviction:
  assumes "reach draft_start draft_step s" "trim t \<noteq> []"
  shows "length (drafts (setDraft c now a i t s)) \<le> MAX_DRAFTS
    \<and> (\<forall>e r. map_has (drafts s) e \<and> e \<noteq> draft_key a i \<and> \<not> map_has (drafts (setDraft c now a i t s)) e
          \<and> map_has (drafts (setDraft c now a i t s)) r \<longrightarrow>
          age_key (next_meta now a i t s) e \<le> age_key (next_meta now a i t s) r)
    \<and> (length (drafts s) \<le> MAX_DRAFTS \<and> stamps_upto now s \<longrightarrow>
         getDraft a i (setDraft c now a i t s) = JStr t)"
proof -
  let ?m = "next_meta now a i t s" and ?s = "setDraft c now a i t s"
  have inv: "draft_inv s" using drm.reach_inv [OF assms(1)] .
  have inv': "draft_inv ?s" by (rule setDraft_inv [OF inv])
  have wf: "map_wf ?m" using inv by (simp add: draft_inv_def)
  have has: "map_has (drafts ?s) k \<longleftrightarrow> map_has ?m k \<and> k \<notin> set (surplus ?m)" for k
    using drafts_get [OF inv', of k] by (simp add: setDraft_meta(1) [OF assms(2)] map_has_keys map_keys_delete_all)
  have "length (drafts ?s) \<le> MAX_DRAFTS"
    by (simp add: length_drafts [OF inv'] setDraft_meta(1) [OF assms(2)] length_evicted [OF wf])
  moreover have "age_key ?m e \<le> age_key ?m r"
    if "map_has (drafts s) e" "e \<noteq> draft_key a i" "\<not> map_has (drafts ?s) e" "map_has (drafts ?s) r" for e r
    using that surplus_oldest [of e ?m r]
    by (simp add: has drafts_get [OF inv] map_has_set) (simp add: map_has_keys [symmetric] map_has_set)
  moreover have "getDraft a i ?s = JStr t" if "length (drafts s) \<le> MAX_DRAFTS" "stamps_upto now s"
    using written_kept [OF inv _ that(2), of a i t] that(1)
    by (simp add: getDraft_meta [OF inv'] setDraft_meta(1) [OF assms(2)] map_get_delete_all length_drafts [OF inv])
  ultimately show ?thesis by blast
qed

theorem draft_eviction_witness:
  "length (drafts (setDraft True 6 ''a'' 2 ''yo'' demo_drafts)) \<le> MAX_DRAFTS
   \<and> getDraft ''a'' 2 (setDraft True 6 ''a'' 2 ''yo'' demo_drafts) = JStr ''yo''"
  using draft_eviction [OF demo_reach, of "''yo''" True 6 "''a''" 2]
  by (simp add: demo_drafts_eq demo_trim MAX_DRAFTS_def stamps_upto_def)

text \<open>C36: after a write that reached local storage, loading the page again before any draft expires
  restores exactly the drafts and the metadata that were there.\<close>

theorem drafts_survive_reload:
  assumes "reach draft_start draft_step s"
    and "list_all (\<lambda>p. within_ttl later (meta_time (snd p))) (activeMeta (setDraft True now a i t s))"
  shows "init_drafts True (draft_storage (setDraft True now a i t s)) later = setDraft True now a i t s"
proof -
  let ?s = "setDraft True now a i t s"
  have inv: "draft_inv ?s" using setDraft_inv [OF drm.reach_inv [OF assms(1)]] .
  have st: "draft_storage ?s = Parsed (JObj [(''version'', JNum 2), (''items'', JObj (activeMeta ?s))])"
    by (simp add: setDraft_def persistDrafts_def Let_def split: prod.splits)
  have "load_v2 later (activeMeta ?s) (texts [], []) = (texts (activeMeta ?s), activeMeta ?s)"
    using load_v2_all [of "[]" "activeMeta ?s" later] inv assms(2) by (simp add: draft_inv_def list_all_iff)
  then have "loadInitialDrafts True (draft_storage ?s) later = (drafts ?s, activeMeta ?s)"
    unfolding st using inv by (simp add: loadInitialDrafts_def map_get_def draft_inv_def texts_def)
  then show ?thesis by (simp add: init_drafts_def)
qed

theorem drafts_survive_reload_witness:
  "init_drafts True (draft_storage (setDraft True 6 ''a'' 1 ''yo'' demo_drafts)) 7 = setDraft True 6 ''a'' 1 ''yo'' demo_drafts"
proof (rule drafts_survive_reload [OF demo_reach])
  have "draft_key ''a'' 1 = ''a:1''" by code_simp
  then show "list_all (\<lambda>p. within_ttl 7 (meta_time (snd p))) (activeMeta (setDraft True 6 ''a'' 1 ''yo'' demo_drafts))"
    by (simp add: setDraft_meta demo_trim demo_drafts_eq surplus_def MAX_DRAFTS_def map_keys_def delete_all_def DRAFT_TTL_MS_def)
qed

end
