(* ===== verification/JsUri.thy ===== *)
theory JsUri
  imports Prelude
begin

text \<open>
  \<open>encodeURIComponent\<close> on strings of code units 0..255 and its inverse: a code unit below 128 is one
  UTF-8 byte, the others are two.
\<close>

definition unreserved :: "char \<Rightarrow> bool" where
  "unreserved c \<longleftrightarrow> is_alpha c \<or> is_digit c \<or> c \<in> set ''-_.!~*()'' \<or> c = CHR 0x27"

definition hex_digit :: "nat \<Rightarrow> char" where
  "hex_digit d = (if d < 10 then char_of (48 + d) else char_of (55 + d))"

definition percent :: "nat \<Rightarrow> string" where
  "percent b = [CHR ''%'', hex_digit (b div 16), hex_digit (b mod 16)]"

definition encode_char :: "char \<Rightarrow> string" where
  "encode_char c =
     (let n = of_char c :: nat
      in if unreserved c then [c]
         else if n < 128 then percent n
         else percent (192 + n div 64) @ percent (128 + n mod 64))"

definition encodeURIComponent :: "string \<Rightarrow> string" where
  "encodeURIComponent s = concat (map encode_char s)"

definition hex_val :: "char \<Rightarrow> nat" where
  "hex_val c = (let n = of_char c in if n < 58 then n - 48 else n - 55)"

fun decode_bytes :: "string \<Rightarrow> nat list" where
  "decode_bytes (c # a # b # s) =
     (if c = CHR ''%'' then (16 * hex_val a + hex_val b) # decode_bytes s else of_char c # decode_bytes (a # b # s))"
| "decode_bytes (c # s) = of_char c # decode_bytes s"
| "decode_bytes [] = []"

fun utf8_decode :: "nat list \<Rightarrow> string" where
  "utf8_decode (a # b # s) =
     (if a < 128 then char_of a # utf8_decode (b # s) else char_of ((a - 192) * 64 + (b - 128)) # utf8_decode s)"
| "utf8_decode [a] = [char_of a]"
| "utf8_decode [] = []"

lemma of_hex_digit: "d < 16 \<Longrightarrow> (of_char (hex_digit d) :: nat) = (if d < 10 then 48 + d else 55 + d)"
  by (simp add: hex_digit_def)

lemma hex_val_digit [simp]: "d < 16 \<Longrightarrow> hex_val (hex_digit d) = d"
  by (simp add: hex_val_def of_hex_digit Let_def)

lemma decode_percent: "b < 256 \<Longrightarrow> decode_bytes (percent b @ s) = b # decode_bytes s"
  by (simp add: percent_def)

lemma decode_plain: "c \<noteq> CHR ''%'' \<Longrightarrow> decode_bytes (c # s) = of_char c # decode_bytes s"
  by (cases s rule: decode_bytes.cases) auto

lemma of_char_256: "(of_char c :: nat) < 256"
  using range_nat_of_char by auto

lemma byte_bounds:
  "(n :: nat) < 256 \<Longrightarrow> n div 64 < 64" "n < 256 \<Longrightarrow> n div 16 < 16"
  "n < 256 \<Longrightarrow> (192 + n div 64) div 16 < 16" "n < 256 \<Longrightarrow> 192 + n div 64 < 256"
  by auto

lemmas char_bounds = byte_bounds [OF of_char_256]

lemma unreserved_ascii: "unreserved c \<Longrightarrow> (of_char c :: nat) < 128 \<and> c \<noteq> CHR ''%''"
  by (auto simp: unreserved_def is_alpha_def is_digit_def)

lemma utf8_one: "a < 128 \<Longrightarrow> utf8_decode (a # s) = char_of a # utf8_decode s"
  by (cases s) auto

lemma decode_encode_char:
  "utf8_decode (decode_bytes (encode_char c @ s)) = c # utf8_decode (decode_bytes s)"
proof -
  let ?n = "of_char c :: nat"
  have n: "?n < 256" by (rule of_char_256)
  consider "unreserved c" | "\<not> unreserved c" "?n < 128" | "\<not> unreserved c" "\<not> ?n < 128" by blast
  then show ?thesis
  proof cases
    case 1
    then show ?thesis using unreserved_ascii [OF 1] by (simp add: encode_char_def decode_plain utf8_one)
  next
    case 2
    then show ?thesis by (simp add: encode_char_def decode_percent utf8_one)
  next
    case 3
    then show ?thesis
      by (simp add: encode_char_def decode_percent char_bounds mult.commute Let_def)
  qed
qed

text \<open>Encoding is reversible, and its result has only characters that stay within one query value.\<close>

lemma decode_encode: "utf8_decode (decode_bytes (encodeURIComponent s)) = s"
  by (induction s) (simp_all add: encodeURIComponent_def decode_encode_char)

lemma encodeURIComponent_inj: "encodeURIComponent s = encodeURIComponent t \<Longrightarrow> s = t"
  by (metis decode_encode)

lemma hex_digit_unreserved: "d < 16 \<Longrightarrow> unreserved (hex_digit d)"
  by (auto simp: unreserved_def is_alpha_def is_digit_def of_hex_digit)

lemma encodeURIComponent_chars:
  "list_all (\<lambda>c. unreserved c \<or> c = CHR ''%'') (encodeURIComponent s)"
proof (induction s)
  case (Cons c s)
  have "list_all (\<lambda>c. unreserved c \<or> c = CHR ''%'') (encode_char c)"
    by (auto simp: encode_char_def percent_def Let_def char_bounds intro!: hex_digit_unreserved)
  with Cons show ?case by (simp add: encodeURIComponent_def)
qed (simp add: encodeURIComponent_def)

section \<open>URLSearchParams\<close>

definition form_char :: "char \<Rightarrow> string" where
  "form_char c =
     (let n = of_char c :: nat
      in if is_alpha c \<or> is_digit c \<or> c \<in> set ''*-._'' then [c]
         else if c = CHR '' '' then ''+''
         else if n < 128 then percent n
         else percent (192 + n div 64) @ percent (128 + n mod 64))"

definition form_encode :: "string \<Rightarrow> string" where
  "form_encode s = concat (map form_char s)"

fun search_string :: "(string \<times> string) list \<Rightarrow> string" where
  "search_string [] = []"
| "search_string [(k, v)] = form_encode k @ ''='' @ form_encode v"
| "search_string ((k, v) # p # ps) = form_encode k @ ''='' @ form_encode v @ ''&'' @ search_string (p # ps)"

end
