(* ===== verification/MediaToken.thy ===== *)
theory MediaToken
  imports JsValue JsUri
begin

text \<open>
  Media tokens, \<open>src/frontend/src/lib/media-token.ts\<close>: the token cache, the set of account ids waiting
  for the next batch request and the microtask that sends it.

  A microtask is one step; so is each answer to a request in flight.  The answer to a request is
  \<open>None\<close> when the call is rejected and otherwise the parsed body.  \<open>now\<close> is \<open>Date.now()\<close> at the
  moment the code reads the clock.
\<close>

definition CACHE_TTL_MS :: int where "CACHE_TTL_MS = 5 * 60 * 1000 - 30 * 1000"

type_synonym token_entry = "json option \<times> jsnum"

record media_state =
  cache :: "(string, token_entry) jsmap"
  pendingIds :: "string list"
  flushScheduled :: bool
  batches :: "string list list"
  singles :: "string list"

definition init_media :: media_state where
  "init_media = \<lparr>cache = [], pendingIds = [], flushScheduled = False, batches = [], singles = []\<rparr>"

text \<open>\<open>x > now\<close> and \<open>x <= now\<close>; both are false of \<open>NaN\<close>.\<close>

fun num_gt :: "jsnum \<Rightarrow> int \<Rightarrow> bool" where
  "num_gt (Fin q) now = (q > of_int now)" | "num_gt PosInf now = True" | "num_gt _ now = False"

fun num_le :: "jsnum \<Rightarrow> int \<Rightarrow> bool" where
  "num_le (Fin q) now = (q \<le> of_int now)" | "num_le NegInf now = True" | "num_le _ now = False"

text \<open>\<open>Date.now() + Math.min((data.expires_in ?? 300) * 1000, CACHE_TTL_MS)\<close>.\<close>

definition expires_at :: "int \<Rightarrow> json \<Rightarrow> jsnum" where
  "expires_at now data =
     (case to_number (coalesce (jget data ''expires_in'') (Some (JNum 300))) of
        Fin q \<Rightarrow> Fin (of_int now + min (q * 1000) (of_int CACHE_TTL_MS))
      | PosInf \<Rightarrow> Fin (of_int now + of_int CACHE_TTL_MS)
      | NegInf \<Rightarrow> NegInf
      | NaN \<Rightarrow> NaN)"

section \<open>The batch request\<close>

text \<open>The microtask up to its first \<open>await\<close>.\<close>

definition flush_start :: "media_state \<Rightarrow> media_state" where
  "flush_start s =
     (let idsToFetch = pendingIds s; s1 = s\<lparr>flushScheduled := False, pendingIds := []\<rparr>
      in if idsToFetch = [] then s1 else s1\<lparr>batches := batches s @ [idsToFetch]\<rparr>)"

definition store_tokens :: "jsnum \<Rightarrow> object \<Rightarrow> (string, token_entry) jsmap \<Rightarrow> (string, token_entry) jsmap" where
  "store_tokens expiresAt tokens c =
     fold (\<lambda>(accId, token) c. if jtruthy token then map_set c accId (Some token, expiresAt) else c) tokens c"

text \<open>The answer to the batch request for \<open>ids\<close>.  A rejected call and a \<open>null\<close> body take the
  \<open>catch\<close> branch, which asks for every id on its own.\<close>

definition batch_reply :: "int \<Rightarrow> string list \<Rightarrow> json option \<Rightarrow> media_state \<Rightarrow> media_state" where
  "batch_reply now ids answer s =
     (let s1 = s\<lparr>batches := remove1 ids (batches s)\<rparr>
      in case answer of
           Some data \<Rightarrow>
             (if data = JNull then s1\<lparr>singles := singles s @ ids\<rparr>
              else
                let tokens = the (coalesce (jget data ''tokens'') (Some (JObj [])))
                in s1\<lparr>cache := store_tokens (expires_at now data) (entries tokens) (cache s)\<rparr>)
         | None \<Rightarrow> s1\<lparr>singles := singles s @ ids\<rparr>)"

definition single_reply :: "int \<Rightarrow> string \<Rightarrow> json option \<Rightarrow> media_state \<Rightarrow> media_state" where
  "single_reply now accountId answer s =
     (let s1 = s\<lparr>singles := remove1 accountId (singles s)\<rparr>
      in case answer of
           Some data \<Rightarrow>
             (if data = JNull then s1
              else s1\<lparr>cache := map_set (cache s) accountId (jget data ''token'', expires_at now data)\<rparr>)
         | None \<Rightarrow> s1)"

definition scheduleBatchFlush :: "media_state \<Rightarrow> media_state" where
  "scheduleBatchFlush s = (if flushScheduled s then s else s\<lparr>flushScheduled := True\<rparr>)"

section \<open>The client side\<close>

definition ensureToken :: "int \<Rightarrow> string \<Rightarrow> media_state \<Rightarrow> media_state" where
  "ensureToken now accountId s =
     (if accountId = [] then s
      else if (case map_get (cache s) accountId of Some (_, e) \<Rightarrow> num_gt e now | None \<Rightarrow> False) then s
      else if accountId \<in> set (pendingIds s) then s
      else scheduleBatchFlush (s\<lparr>pendingIds := pendingIds s @ [accountId]\<rparr>))"

text \<open>Each id is looked up with the clock at its turn.\<close>

definition prefetchMediaTokens :: "(int \<times> string option) list \<Rightarrow> media_state \<Rightarrow> media_state" where
  "prefetchMediaTokens accountIds s =
     fold (\<lambda>(now, i) s. if truthy i then ensureToken now (the i) s else s) accountIds s"

text \<open>\<open>now\<close> is the clock of the lookup, \<open>now'\<close> that of the \<open>ensureToken\<close> call.\<close>

definition getAuthParam :: "int \<Rightarrow> int \<Rightarrow> string option \<Rightarrow> media_state \<Rightarrow> media_state \<times> string" where
  "getAuthParam now now' accountId s =
     (if \<not> truthy accountId then (s, [])
      else case map_get (cache s) (the accountId) of
        None \<Rightarrow> (ensureToken now' (the accountId) s, [])
      | Some (token, e) \<Rightarrow>
          (if num_le e now then (ensureToken now' (the accountId) s, [])
           else (s, ''?t='' @ encodeURIComponent (opt_String token))))"

definition clearMediaTokenCache :: "media_state \<Rightarrow> media_state" where
  "clearMediaTokenCache s = s\<lparr>cache := []\<rparr>"

section \<open>Steps\<close>

datatype media_event =
    Prefetch "(int \<times> string option) list"
  | AuthParam int int "string option"
  | Flush
  | BatchReply int "string list" "json option"
  | SingleReply int string "json option"
  | ClearCache

definition has_lifetime :: "json option \<Rightarrow> bool" where
  "has_lifetime answer =
     (case answer of
        None \<Rightarrow> True
      | Some data \<Rightarrow> to_number (coalesce (jget data ''expires_in'') (Some (JNum 300))) \<noteq> NaN)"

text \<open>A reply belongs to a request in flight, and its \<open>expires_in\<close>, when present, is a number.\<close>

inductive media_step :: "media_state \<Rightarrow> media_event \<Rightarrow> media_state \<Rightarrow> bool" where
  prefetch: "media_step s (Prefetch ids) (prefetchMediaTokens ids s)"
| auth_param: "now \<le> now' \<Longrightarrow> media_step s (AuthParam now now' i) (fst (getAuthParam now now' i s))"
| flush: "flushScheduled s \<Longrightarrow> media_step s Flush (flush_start s)"
| batch: "ids \<in> set (batches s) \<Longrightarrow> has_lifetime answer \<Longrightarrow> media_step s (BatchReply now ids answer) (batch_reply now ids answer s)"
| single: "i \<in> set (singles s) \<Longrightarrow> has_lifetime answer \<Longrightarrow> media_step s (SingleReply now i answer) (single_reply now i answer s)"
| clear: "media_step s ClearCache (clearMediaTokenCache s)"

inductive_cases media_stepE: "media_step s l t"

text \<open>A waiting id always has a scheduled microtask, and no id waits twice or is empty.\<close>

definition media_inv :: "media_state \<Rightarrow> bool" where
  "media_inv s \<longleftrightarrow> flushScheduled s = (pendingIds s \<noteq> []) \<and> distinct (pendingIds s) \<and> [] \<notin> set (pendingIds s)
     \<and> [] \<notin> set (batches s) \<and> list_all (\<lambda>p. snd (snd p) \<noteq> NaN) (cache s)"

section \<open>Invariant\<close>

lemma expires_at_number: "has_lifetime (Some data) \<Longrightarrow> expires_at now data \<noteq> NaN"
  by (auto simp: has_lifetime_def expires_at_def split: jsnum.splits)

lemma store_tokens_all:
  "list_all (\<lambda>p. P (snd p)) c \<Longrightarrow> (\<And>t. P (Some t, e)) \<Longrightarrow> list_all (\<lambda>p. P (snd p)) (store_tokens e ts c)"
  unfolding store_tokens_def
  by (induction ts arbitrary: c) (auto simp: list_all_map_set)

lemma ensureToken_inv: "media_inv s \<Longrightarrow> media_inv (ensureToken now i s)"
  by (auto simp: ensureToken_def scheduleBatchFlush_def media_inv_def)

lemma prefetch_inv: "media_inv s \<Longrightarrow> media_inv (prefetchMediaTokens ids s)"
  unfolding prefetchMediaTokens_def
  by (induction ids arbitrary: s) (auto simp: ensureToken_inv)

lemma getAuthParam_inv: "media_inv s \<Longrightarrow> media_inv (fst (getAuthParam now now' i s))"
  by (auto simp: getAuthParam_def ensureToken_inv split: option.splits prod.splits)

lemma batch_reply_inv: "media_inv s \<Longrightarrow> has_lifetime answer \<Longrightarrow> media_inv (batch_reply now ids answer s)"
  using store_tokens_all [where P = "\<lambda>p. snd p \<noteq> NaN"]
  by (auto simp: batch_reply_def media_inv_def expires_at_number Let_def split: option.splits dest: notin_set_remove1)

lemma single_reply_inv: "media_inv s \<Longrightarrow> has_lifetime answer \<Longrightarrow> media_inv (single_reply now i answer s)"
  by (auto simp: single_reply_def media_inv_def expires_at_number Let_def split: option.splits
      intro!: list_all_map_set [where P = "\<lambda>p. snd p \<noteq> NaN"])

lemma flush_inv: "media_inv s \<Longrightarrow> media_inv (flush_start s)"
  by (auto simp: flush_start_def media_inv_def Let_def)

lemma clear_inv: "media_inv s \<Longrightarrow> media_inv (clearMediaTokenCache s)"
  by (simp add: clearMediaTokenCache_def media_inv_def)

lemma media_step_inv: "media_inv s \<Longrightarrow> media_step s l t \<Longrightarrow> media_inv t"
  by (erule media_stepE)
    (auto simp: prefetch_inv getAuthParam_inv flush_inv batch_reply_inv single_reply_inv clear_inv)

lemma media_init_inv: "media_inv init_media"
  by (simp add: media_inv_def init_media_def)

interpretation mtm: machine "\<lambda>s. s = init_media" media_step media_inv
  by unfold_locales (auto simp: media_init_inv intro: media_step_inv)

section \<open>Where cached tokens come from\<close>

fun delivers :: "media_event \<Rightarrow> string \<Rightarrow> json option \<Rightarrow> jsnum \<Rightarrow> int \<Rightarrow> bool" where
  "delivers (BatchReply t ids (Some data)) i token e now =
     (now = t \<and> e = expires_at t data \<and> token \<noteq> None
      \<and> (i, the token) \<in> set (entries (the (coalesce (jget data ''tokens'') (Some (JObj []))))))"
| "delivers (SingleReply t j (Some data)) i token e now =
     (now = t \<and> e = expires_at t data \<and> j = i \<and> token = jget data ''token'')"
| "delivers _ i token e now = False"

definition from_events :: "media_event list \<Rightarrow> media_state \<Rightarrow> bool" where
  "from_events L s \<longleftrightarrow> (\<forall>i token e. map_get (cache s) i = Some (token, e) \<longrightarrow>
     (\<exists>ev\<in>set L. \<exists>t. delivers ev i token e t))"

lemma store_tokens_get:
  "map_get (store_tokens e ts c) i = Some x \<Longrightarrow>
   map_get c i = Some x \<or> (\<exists>t. x = (Some t, e) \<and> (i, t) \<in> set ts)"
  unfolding store_tokens_def
proof (induction ts arbitrary: c)
  case (Cons p ts)
  obtain k t where "p = (k, t)" by force
  with Cons show ?case by (fastforce split: if_splits)
qed simp

lemma ensureToken_cache [simp]: "cache (ensureToken now i s) = cache s"
  by (simp add: ensureToken_def scheduleBatchFlush_def)

lemma prefetch_cache [simp]: "cache (prefetchMediaTokens ids s) = cache s"
  unfolding prefetchMediaTokens_def by (induction ids arbitrary: s) auto

lemma getAuthParam_cache [simp]: "cache (fst (getAuthParam now now' i s)) = cache s"
  by (auto simp: getAuthParam_def split: option.splits)

lemma flush_cache [simp]: "cache (flush_start s) = cache s"
  by (simp add: flush_start_def Let_def)

lemma batch_reply_cache:
  "map_get (cache (batch_reply now ids answer s)) i = Some (token, e) \<Longrightarrow>
   map_get (cache s) i = Some (token, e) \<or> delivers (BatchReply now ids answer) i token e now"
  by (auto simp: batch_reply_def Let_def split: option.splits if_splits dest!: store_tokens_get)

lemma single_reply_cache:
  "map_get (cache (single_reply now j answer s)) i = Some (token, e) \<Longrightarrow>
   map_get (cache s) i = Some (token, e) \<or> delivers (SingleReply now j answer) i token e now"
  by (auto simp: single_reply_def Let_def split: option.splits if_splits)

lemma from_events_step:
  assumes "from_events L s" "media_step s l t"
  shows "from_events (L @ [l]) t"
proof -
  have "map_get (cache s) i = Some (token, e) \<or> (\<exists>u. delivers l i token e u)"
    if "map_get (cache t) i = Some (token, e)" for i token e
    using assms(2) that
    by (cases rule: media_step.cases)
      (auto simp: clearMediaTokenCache_def dest: batch_reply_cache single_reply_cache)
  then show ?thesis using assms(1) unfolding from_events_def by fastforce
qed

lemma from_events_run: "run media_step s ls t \<Longrightarrow> from_events L s \<Longrightarrow> from_events (L @ ls) t"
proof (induction arbitrary: L rule: run.induct)
  case (run_step s l t ls u)
  then show ?case using from_events_step [OF run_step.prems run_step.hyps(1)] by fastforce
qed simp

lemma expires_at_bound: "expires_at t data = e \<Longrightarrow> \<not> num_le e now \<Longrightarrow> e \<noteq> NaN \<Longrightarrow> now < t + CACHE_TTL_MS"
proof -
  have "of_int now < of_int t + (of_int CACHE_TTL_MS :: rat) \<Longrightarrow> now < t + CACHE_TTL_MS"
    by (metis of_int_add of_int_less_iff)
  then show "expires_at t data = e \<Longrightarrow> \<not> num_le e now \<Longrightarrow> e \<noteq> NaN \<Longrightarrow> now < t + CACHE_TTL_MS"
    by (auto simp: expires_at_def split: jsnum.splits)
qed

section \<open>Properties\<close>

definition demo_answer :: json where
  "demo_answer = JObj [(''tokens'', JObj [(''a1'', JStr ''x y'')]), (''expires_in'', JNum 300)]"

definition demo_events :: "media_event list" where
  "demo_events = [Prefetch [(0, Some ''a1'')], Flush, BatchReply 100 [''a1''] (Some demo_answer)]"

definition demo_media :: media_state where
  "demo_media = init_media\<lparr>cache := [(''a1'', (Some (JStr ''x y''), Fin 270100))]\<rparr>"

lemma demo_media_run: "run media_step init_media demo_events demo_media"
proof -
  let ?s1 = "prefetchMediaTokens [(0, Some ''a1'')] init_media" and ?b = "[''a1'']"
  have 1: "?s1 = init_media\<lparr>pendingIds := ?b, flushScheduled := True\<rparr>"
    by (simp add: prefetchMediaTokens_def ensureToken_def scheduleBatchFlush_def init_media_def)
  have 2: "flush_start ?s1 = init_media\<lparr>batches := [?b]\<rparr>"
    unfolding 1 by (simp add: flush_start_def init_media_def)
  have 3: "batch_reply 100 ?b (Some demo_answer) (init_media\<lparr>batches := [?b]\<rparr>) = demo_media"
    by (simp add: batch_reply_def demo_answer_def demo_media_def init_media_def store_tokens_def expires_at_def
        map_get_def coalesce_def CACHE_TTL_MS_def)
  have "media_step init_media (Prefetch [(0, Some ''a1'')]) ?s1" by (rule media_step.prefetch)
  moreover have "media_step ?s1 Flush (init_media\<lparr>batches := [?b]\<rparr>)"
    using media_step.flush [of ?s1] unfolding 2 by (simp add: 1)
  moreover have "media_step (init_media\<lparr>batches := [?b]\<rparr>) (BatchReply 100 ?b (Some demo_answer)) demo_media"
    unfolding 3 [symmetric]
    by (rule media_step.batch) (simp_all add: has_lifetime_def demo_answer_def map_get_def coalesce_def)
  ultimately show ?thesis unfolding demo_events_def by auto
qed

text \<open>C31: a URL carries a token only within 270 seconds after the answer that delivered this token for
  this account, 30 seconds less than the token lives, and the token is percent-encoded.\<close>

theorem media_token_fresh:
  assumes "run media_step init_media events s" "snd (getAuthParam now now' (Some i) s) = q" "q \<noteq> []"
  shows "\<exists>ev token e t. ev \<in> set events \<and> delivers ev i token e t
    \<and> now < t + CACHE_TTL_MS \<and> q = ''?t='' @ encodeURIComponent (opt_String token)"
proof -
  have "media_inv s" using mtm.run_inv [OF assms(1)] media_init_inv by simp
  obtain token e where hit: "map_get (cache s) i = Some (token, e)" "\<not> num_le e now"
    "q = ''?t='' @ encodeURIComponent (opt_String token)"
    using assms(2,3) by (auto simp: getAuthParam_def split: option.splits if_splits)
  have "from_events ([] @ events) s"
    by (rule from_events_run [OF assms(1)]) (simp add: from_events_def init_media_def)
  then obtain ev t where ev: "ev \<in> set events" "delivers ev i token e t"
    using hit(1) unfolding from_events_def append_Nil by metis
  have "e \<noteq> NaN"
    using \<open>media_inv s\<close> hit(1) by (auto simp: media_inv_def list_all_iff map_get_def dest!: map_of_SomeD)
  moreover obtain data where "e = expires_at t data"
    using ev(2) by (cases ev rule: media_event.exhaust) (auto elim!: delivers.elims)
  ultimately have "now < t + CACHE_TTL_MS" using expires_at_bound hit(2) by blast
  with ev hit(3) show ?thesis by blast
qed

theorem media_token_fresh_witness:
  "\<exists>ev token e t. ev \<in> set demo_events \<and> delivers ev ''a1'' token e t
    \<and> 200 < t + CACHE_TTL_MS \<and> ''?t=x%20y'' = ''?t='' @ encodeURIComponent (opt_String token)"
proof (rule media_token_fresh [OF demo_media_run])
  have "encodeURIComponent ''x y'' = ''x%20y''" by code_simp
  then show "snd (getAuthParam 200 200 (Some ''a1'') demo_media) = ''?t=x%20y''"
    by (simp add: getAuthParam_def demo_media_def map_get_def)
qed simp

text \<open>Whenever a URL is built without a token for an account, the account waits for the next batch
  and the microtask that sends the batch is scheduled; that microtask puts the id into a request.\<close>

theorem missing_token_is_requested:
  assumes "reach (\<lambda>s. s = init_media) media_step s" "i \<noteq> []" "now \<le> now'"
    "getAuthParam now now' (Some i) s = (s', [])"
  shows "i \<in> set (pendingIds s') \<and> flushScheduled s' \<and> i \<in> set (last (batches (flush_start s')))"
proof -
  have e: "num_le e now \<Longrightarrow> \<not> num_gt e now'" for e
    using assms(3) by (cases e) (auto simp: not_less intro: order_trans)
  have "s' = ensureToken now' i s" and miss: "\<forall>tok e. map_get (cache s) i = Some (tok, e) \<longrightarrow> \<not> num_gt e now'"
    using assms(2,4) e by (auto simp: getAuthParam_def split: option.splits if_splits)
  then have "i \<in> set (pendingIds s')"
    using assms(2) by (auto simp: ensureToken_def scheduleBatchFlush_def split: option.splits)
  moreover have "media_inv s'"
    using getAuthParam_inv [OF mtm.reach_inv [OF assms(1)], of now now' "Some i"] assms(4) by simp
  ultimately show ?thesis by (auto simp: media_inv_def flush_start_def Let_def)
qed

theorem missing_token_is_requested_witness:
  "''a1'' \<in> set (pendingIds (ensureToken 5 ''a1'' init_media)) \<and> flushScheduled (ensureToken 5 ''a1'' init_media)
    \<and> ''a1'' \<in> set (last (batches (flush_start (ensureToken 5 ''a1'' init_media))))"
  by (rule missing_token_is_requested [of init_media "''a1''" 5 5])
    (auto intro: reach_start simp: getAuthParam_def init_media_def)

text \<open>When the single-account request answers without a token, the cache keeps the missing token
  and URLs carry the text \<open>undefined\<close> as their credential until it expires.\<close>

theorem missing_token_sent_as_undefined:
  assumes "data \<noteq> JNull" "jget data ''token'' = None" "\<not> num_le (expires_at t data) now" "i \<noteq> []"
  shows "snd (getAuthParam now now' (Some i) (single_reply t i (Some data) s)) = ''?t=undefined''"
proof -
  have "encodeURIComponent ''undefined'' = ''undefined''" by code_simp
  then show ?thesis using assms by (simp add: getAuthParam_def single_reply_def Let_def)
qed

theorem missing_token_sent_as_undefined_witness:
  "snd (getAuthParam 20 20 (Some ''a1'') (single_reply 10 ''a1'' (Some (JObj [(''detail'', JStr ''none'')])) init_media)) = ''?t=undefined''"
  by (rule missing_token_sent_as_undefined)
    (simp_all add: map_get_def expires_at_def coalesce_def CACHE_TTL_MS_def)

end
