(* ===== verification/QueryCache.thy ===== *)
theory QueryCache
  imports JsValue JsUri "HOL-Library.Sublist"
begin

text \<open>
  What the data hooks under \<open>src/frontend/src/hooks\<close> hand to React Query: queries and mutations as
  values.

  A query key is the array that \<open>queryKey\<close> holds, as \<open>JSON.stringify\<close> prints it (an undefined property
  is absent, an undefined element is \<open>null\<close>; objects list their properties in one fixed order).
  \<open>q_url\<close> and \<open>q_params\<close> are the arguments of \<open>api.get\<close>, \<open>q_result\<close> is what \<open>queryFn\<close> makes of the
  answer's body (\<open>None\<close> when it throws) and \<open>q_options\<close> holds the remaining options.  A mutation is its
  request and the keys it invalidates when the request succeeds or fails.

  React Query itself is not part of the repository.  The only thing used of it is which cached keys
  \<open>invalidateQueries\<close> selects, the argument \<open>matches\<close>; its documented behaviour, on keys of strings, is
  that a filter selects the keys it is a prefix of.
\<close>

type_synonym qkey = "json list"

record query =
  q_key :: qkey
  q_url :: string
  q_params :: "(string \<times> string) list"
  q_result :: "json \<Rightarrow> json option"
  q_enabled :: bool
  q_options :: "(string \<times> json) list"

record mutation =
  m_method :: string
  m_url :: string
  m_body :: "json option"
  m_success :: "json \<Rightarrow> qkey list"
  m_error :: "qkey list"

section \<open>Building blocks\<close>

definition whole :: "json \<Rightarrow> json option" where "whole d = Some d"

text \<open>\<open>data || []\<close> and \<open>data.f || []\<close>.\<close>

definition or_empty :: "json \<Rightarrow> json option" where
  "or_empty d = Some (if jtruthy d then d else JArr [])"

definition field_or_empty :: "string \<Rightarrow> json \<Rightarrow> json option" where
  "field_or_empty f d = (if d = JNull then None else Some (the (jor (jget d f) (Some (JArr [])))))"

definition skey :: "string list \<Rightarrow> qkey" where "skey xs = map JStr xs"

definition get_query :: "qkey \<Rightarrow> string \<Rightarrow> query" where
  "get_query k url = \<lparr>q_key = k, q_url = url, q_params = [], q_result = whole, q_enabled = True, q_options = []\<rparr>"

text \<open>A mutation whose success handler does not look at the answer.\<close>

definition mutate :: "string \<Rightarrow> string \<Rightarrow> json option \<Rightarrow> qkey list \<Rightarrow> mutation" where
  "mutate meth url body keys =
     \<lparr>m_method = meth, m_url = url, m_body = body, m_success = (\<lambda>_. keys), m_error = []\<rparr>"

definition opt_prop :: "string \<Rightarrow> json option \<Rightarrow> (string \<times> json) list" where
  "opt_prop k v = (case v of None \<Rightarrow> [] | Some x \<Rightarrow> [(k, x)])"

definition key_or_null :: "json option \<Rightarrow> json" where
  "key_or_null v = (case v of None \<Rightarrow> JNull | Some x \<Rightarrow> x)"

definition str_list :: "string list \<Rightarrow> json" where "str_list xs = JArr (map JStr xs)"

section \<open>Invalidation\<close>

fun is_JStr :: "json \<Rightarrow> bool" where
  "is_JStr (JStr _) = True" | "is_JStr _ = False"

definition prefix_matching :: "(qkey \<Rightarrow> qkey \<Rightarrow> bool) \<Rightarrow> bool" where
  "prefix_matching matches \<longleftrightarrow> (\<forall>k f. list_all is_JStr f \<longrightarrow> matches k f = prefix f k)"

definition refreshes :: "(qkey \<Rightarrow> qkey \<Rightarrow> bool) \<Rightarrow> qkey list \<Rightarrow> query \<Rightarrow> bool" where
  "refreshes matches fs q = list_ex (matches (q_key q)) fs"

text \<open>The cache: keys with their stale flags.\<close>

type_synonym query_cache = "(qkey \<times> bool) list"

definition invalidateQueries :: "(qkey \<Rightarrow> qkey \<Rightarrow> bool) \<Rightarrow> qkey \<Rightarrow> query_cache \<Rightarrow> query_cache" where
  "invalidateQueries matches f c = map (\<lambda>(k, stale). (k, stale \<or> matches k f)) c"

definition settle :: "(qkey \<Rightarrow> qkey \<Rightarrow> bool) \<Rightarrow> qkey list \<Rightarrow> query_cache \<Rightarrow> query_cache" where
  "settle matches fs c = fold (invalidateQueries matches) fs c"

lemma settle_map: "settle matches fs c = map (\<lambda>(k, stale). (k, stale \<or> list_ex (matches k) fs)) c"
proof -
  have "fold (invalidateQueries matches) fs c = map (\<lambda>(k, stale). (k, stale \<or> list_ex (matches k) fs)) c"
    by (induction fs arbitrary: c) (auto simp: invalidateQueries_def)
  then show ?thesis by (simp add: settle_def)
qed

text \<open>A cached query is stale after the handler exactly when it was before or one of the keys selects it.\<close>

lemma settle_stale:
  "(q_key q, b) \<in> set (settle matches fs c) \<longleftrightarrow>
   (\<exists>b0. (q_key q, b0) \<in> set c \<and> b = (b0 \<or> refreshes matches fs q))"
  by (force simp: settle_map refreshes_def)

lemma list_all_skey [simp]: "list_all is_JStr (skey xs)"
  by (simp add: skey_def list_all_iff)

lemma refreshes_skeys:
  "prefix_matching matches \<Longrightarrow>
   refreshes matches (map skey fs) q \<longleftrightarrow> list_ex (\<lambda>f. prefix (skey f) (q_key q)) fs"
  by (auto simp: refreshes_def prefix_matching_def list_ex_iff)

lemma prefix_matching_prefix: "prefix_matching (\<lambda>k f. prefix f k)"
  by (simp add: prefix_matching_def)

lemmas key_simps = skey_def key_or_null_def opt_prop_def

end
