(* ===== verification/AccountHooks.thy ===== *)
theory AccountHooks
  imports QueryCache
begin

text \<open>
  The hooks on Telegram accounts: \<open>use-accounts.ts\<close>, \<open>use-account-stats.ts\<close>, \<open>use-account-otp.ts\<close>
  and \<open>use-account-folders.ts\<close> under \<open>src/frontend/src/hooks\<close>.  \<open>null\<close> and an absent property of a
  parameter object are told apart as \<open>Some JNull\<close> and \<open>None\<close> where the type allows both.
\<close>

section \<open>use-accounts.ts\<close>

record UseAccountsParams =
  ap_limit :: "int option"
  ap_status :: "string option"
  ap_is_active :: "bool option"

definition useAccounts :: "UseAccountsParams option \<Rightarrow> query" where
  "useAccounts params =
     (let limit = (case params of None \<Rightarrow> 1000 | Some p \<Rightarrow> (case ap_limit p of None \<Rightarrow> 1000 | Some l \<Rightarrow> l));
          status = (case params of None \<Rightarrow> None | Some p \<Rightarrow> ap_status p);
          isActive = (case params of None \<Rightarrow> None | Some p \<Rightarrow> ap_is_active p);
          searchParams =
            [(''limit'', int_str limit)]
            @ (if truthy status then [(''status'', the status)] else [])
            @ (case isActive of None \<Rightarrow> [] | Some b \<Rightarrow> [(''is_active'', js_bool_str b)])
      in (get_query
            [JStr ''accounts'',
             JObj ((''limit'', JNum limit) # opt_prop ''status'' (map_option JStr status)
                   @ opt_prop ''is_active'' (map_option JBool isActive))]
            (''/accounts?'' @ search_string searchParams))
          \<lparr>q_result := field_or_empty ''accounts''\<rparr>)"

definition useAccountsSummary :: query where
  "useAccountsSummary = get_query (skey [''accounts'', ''summary'']) ''/accounts/summary''"

record paginated_params =
  pp_page :: int
  pp_limit :: int
  pp_search :: "string option"
  pp_folder_id :: "json option"
  pp_status :: "json option"

text \<open>\<open>append\<close> of an optional value that may also be \<open>null\<close>.\<close>

definition append_truthy :: "string \<Rightarrow> json option \<Rightarrow> (string \<times> string) list" where
  "append_truthy k v = (if opt_truthy v then [(k, opt_String v)] else [])"

definition useAccountsPaginated :: "paginated_params \<Rightarrow> query" where
  "useAccountsPaginated p =
     get_query
       [JStr ''accounts'', JStr ''paginated'',
        JObj ([(''page'', JNum (pp_page p)), (''limit'', JNum (pp_limit p))]
              @ opt_prop ''search'' (map_option JStr (pp_search p))
              @ opt_prop ''folder_id'' (pp_folder_id p) @ opt_prop ''status'' (pp_status p))]
       (''/accounts?'' @ search_string
          ([(''page'', int_str (pp_page p)), (''limit'', int_str (pp_limit p))]
           @ append_truthy ''search'' (map_option JStr (pp_search p))
           @ append_truthy ''folder_id'' (pp_folder_id p) @ append_truthy ''status'' (pp_status p)))"

definition useAccountTwoFAStatus :: "string \<Rightarrow> query" where
  "useAccountTwoFAStatus i =
     (get_query (skey [''2fa'', i]) (''/accounts/'' @ i @ ''/2fa''))
     \<lparr>q_enabled := (i \<noteq> []),
      q_options := [(''staleTime'', JNum (6 * 60 * 60 * 1000)), (''gcTime'', JNum (12 * 60 * 60 * 1000)),
        (''refetchOnWindowFocus'', JBool False), (''refetchOnMount'', JBool False), (''refetchOnReconnect'', JBool False)]\<rparr>"

definition useAccount :: "string \<Rightarrow> query" where
  "useAccount i = (get_query (skey [''accounts'', i]) (''/accounts/'' @ i))\<lparr>q_enabled := (i \<noteq> [])\<rparr>"

definition useDeleteAccount :: "string \<Rightarrow> mutation" where
  "useDeleteAccount i = mutate ''DELETE'' (''/accounts/'' @ i) None (map skey [[''accounts'']])"

text \<open>The uploaded file is the form field \<open>file\<close>.\<close>

definition useUploadProfilePhoto :: "string \<Rightarrow> json \<Rightarrow> mutation" where
  "useUploadProfilePhoto accountId file =
     mutate ''POST'' (''/accounts/'' @ accountId @ ''/photo'') (Some (JObj [(''file'', file)]))
       (map skey [[''accounts'', accountId]])"

definition useDeleteProfilePhoto :: "string \<Rightarrow> mutation" where
  "useDeleteProfilePhoto accountId =
     mutate ''DELETE'' (''/accounts/'' @ accountId @ ''/photo'') None (map skey [[''accounts'', accountId]])"

text \<open>\<open>text || null\<close>.\<close>

definition text_or_null :: "string option \<Rightarrow> json" where
  "text_or_null t = (if truthy t then JStr (the t) else JNull)"

definition useUpdateAutoReply :: "string \<Rightarrow> bool \<Rightarrow> string option \<Rightarrow> mutation" where
  "useUpdateAutoReply accountId enabled txt =
     mutate ''PUT'' (''/accounts/'' @ accountId @ ''/auto-reply'')
       (Some (JObj [(''auto_reply_enabled'', JBool enabled), (''auto_reply_text'', text_or_null txt)]))
       (map skey [[''accounts'', accountId]])"

definition useCheckSpam :: "string \<Rightarrow> mutation" where
  "useCheckSpam accountId =
     mutate ''POST'' (''/accounts/'' @ accountId @ ''/check-spam'') None
       (map skey [[''accounts'', accountId], [''accounts'']])"

text \<open>\<open>useProfileSync\<close>: the handler registered for \<open>profile_sync\<close> events of one account; a \<open>null\<close>
  message would throw inside the socket's \<open>try\<close>.\<close>

definition useProfileSync :: "string \<Rightarrow> json \<Rightarrow> qkey list" where
  "useProfileSync accountId data =
     (if jget data ''type'' = Some (JStr ''profile_sync'') \<and> jget data ''account_id'' = Some (JStr accountId)
      then map skey [[''accounts''], [''accounts'', accountId]] else [])"

definition useStartSpamAppeal :: "string \<Rightarrow> string \<Rightarrow> string option \<Rightarrow> bool option \<Rightarrow> mutation" where
  "useStartSpamAppeal accountId reason presetId force =
     mutate ''POST'' (''/accounts/'' @ accountId @ ''/appeal/start'')
       (Some (JObj ([(''reason'', JStr reason)] @ opt_prop ''preset_id'' (map_option JStr presetId)
              @ [(''force'', JBool (case force of None \<Rightarrow> False | Some b \<Rightarrow> b))])))
       (map skey [[''accounts'', accountId], [''accounts'']])"

definition useResumeSpamAppeal :: "string \<Rightarrow> string \<Rightarrow> mutation" where
  "useResumeSpamAppeal accountId reason =
     mutate ''POST'' (''/accounts/'' @ accountId @ ''/appeal/resume'') (Some (JObj [(''reason'', JStr reason)]))
       (map skey [[''accounts'', accountId], [''accounts'']])"

definition useBulkUpdateAutoReply :: "string list \<Rightarrow> bool \<Rightarrow> string option \<Rightarrow> mutation" where
  "useBulkUpdateAutoReply accountIds enabled txt =
     mutate ''POST'' ''/accounts/auto-reply/bulk''
       (Some (JObj [(''account_ids'', str_list accountIds), (''auto_reply_enabled'', JBool enabled),
                    (''auto_reply_text'', text_or_null txt)]))
       (map skey [[''accounts'']])"

definition useTransferAccounts :: "json \<Rightarrow> mutation" where
  "useTransferAccounts payload =
     mutate ''POST'' ''/accounts/transfer'' (Some payload)
       (map skey [[''accounts''], [''accounts-paginated''], [''accounts-summary''], [''account-folders'']])"

section \<open>use-account-stats.ts and use-account-otp.ts\<close>

definition useAccountStats :: "string \<Rightarrow> bool option \<Rightarrow> query" where
  "useAccountStats accountId enabled =
     (get_query (skey [''accounts'', accountId, ''stats'']) (''/accounts/'' @ accountId @ ''/stats''))
     \<lparr>q_enabled := (accountId \<noteq> [] \<and> (case enabled of None \<Rightarrow> False | Some b \<Rightarrow> b)),
      q_options := [(''staleTime'', JNum (5 * 60 * 1000))]\<rparr>"

definition useAccountOTP :: "string \<Rightarrow> bool option \<Rightarrow> query" where
  "useAccountOTP accountId enabled =
     (get_query (skey [''accounts'', accountId, ''otp'']) (''/accounts/'' @ accountId @ ''/otp''))
     \<lparr>q_enabled := (accountId \<noteq> [] \<and> (case enabled of None \<Rightarrow> False | Some b \<Rightarrow> b)),
      q_options := [(''staleTime'', JNum 0), (''gcTime'', JNum (1000 * 60 * 5)), (''refetchOnWindowFocus'', JBool False)]\<rparr>"

section \<open>use-account-folders.ts\<close>

definition useAccountFolders :: "bool \<Rightarrow> query" where
  "useAccountFolders includeAccounts =
     (get_query [JStr ''account-folders'', JObj [(''includeAccounts'', JBool includeAccounts)]] ''/account-folders'')
     \<lparr>q_params := (if includeAccounts then [(''include_accounts'', ''true'')] else []),
      q_result := field_or_empty ''folders''\<rparr>"

definition useCreateFolder :: "string \<Rightarrow> mutation" where
  "useCreateFolder name =
     mutate ''POST'' ''/account-folders'' (Some (JObj [(''name'', JStr name)])) (map skey [[''account-folders'']])"

definition useRenameFolder :: "string \<Rightarrow> string \<Rightarrow> mutation" where
  "useRenameFolder folderId name =
     mutate ''PUT'' (''/account-folders/'' @ folderId) (Some (JObj [(''name'', JStr name)])) (map skey [[''account-folders'']])"

definition useDeleteFolder :: "string \<Rightarrow> mutation" where
  "useDeleteFolder folderId =
     mutate ''DELETE'' (''/account-folders/'' @ folderId) None (map skey [[''account-folders'']])"

definition useAddAccountsToFolder :: "string \<Rightarrow> string list \<Rightarrow> mutation" where
  "useAddAccountsToFolder folderId accountIds =
     mutate ''POST'' (''/account-folders/'' @ folderId @ ''/accounts'')
       (Some (JObj [(''account_ids'', str_list accountIds)])) (map skey [[''account-folders''], [''accounts'']])"

definition useRemoveAccountsFromFolder :: "string \<Rightarrow> string list \<Rightarrow> mutation" where
  "useRemoveAccountsFromFolder folderId accountIds =
     mutate ''DELETE'' (''/account-folders/'' @ folderId @ ''/accounts'')
       (Some (JObj [(''account_ids'', str_list accountIds)])) (map skey [[''account-folders''], [''accounts'']])"

lemmas account_query_defs = useAccounts_def useAccountsSummary_def useAccountsPaginated_def
  useAccountTwoFAStatus_def useAccount_def useAccountStats_def useAccountOTP_def useAccountFolders_def

lemmas account_mutation_defs = useDeleteAccount_def useUploadProfilePhoto_def useDeleteProfilePhoto_def
  useUpdateAutoReply_def useCheckSpam_def useStartSpamAppeal_def useResumeSpamAppeal_def
  useBulkUpdateAutoReply_def useTransferAccounts_def useCreateFolder_def useRenameFolder_def
  useDeleteFolder_def useAddAccountsToFolder_def useRemoveAccountsFromFolder_def

text \<open>The queries of these files.\<close>

inductive account_query :: "query \<Rightarrow> bool" where
  "account_query (useAccounts p)" | "account_query useAccountsSummary"
| "account_query (useAccountsPaginated pp)" | "account_query (useAccountTwoFAStatus i)"
| "account_query (useAccount i)" | "account_query (useAccountStats i b)"
| "account_query (useAccountOTP i b)" | "account_query (useAccountFolders f)"

inductive_cases account_queryE: "account_query q"

text \<open>The queries that show a given account: the lists it may be in and its own.\<close>

inductive shows_account :: "string \<Rightarrow> query \<Rightarrow> bool" for i where
  "shows_account i (useAccounts p)" | "shows_account i useAccountsSummary"
| "shows_account i (useAccountsPaginated pp)" | "shows_account i (useAccount i)"

end
