(* ===== verification/BroadcastHooks.thy ===== *)
theory BroadcastHooks
  imports QueryCache
begin

text \<open>The broadcast hooks, \<open>src/frontend/src/hooks/use-broadcast.ts\<close>: group lists, text lists, jobs, logs
  and the free-tier budget.\<close>

section \<open>Group lists and text lists\<close>

definition useGroupLists :: query where
  "useGroupLists = get_query (skey [''group-lists'']) ''/group-lists''"

definition useCreateGroupList :: "json \<Rightarrow> mutation" where
  "useCreateGroupList payload = mutate ''POST'' ''/group-lists'' (Some payload) (map skey [[''group-lists'']])"

text \<open>The body is the argument without its \<open>id\<close>.\<close>

definition useUpdateGroupList :: "string \<Rightarrow> object \<Rightarrow> mutation" where
  "useUpdateGroupList i payload =
     mutate ''PUT'' (''/group-lists/'' @ i) (Some (JObj (map_delete payload ''id''))) (map skey [[''group-lists'']])"

definition useDeleteGroupList :: "string \<Rightarrow> mutation" where
  "useDeleteGroupList i = mutate ''DELETE'' (''/group-lists/'' @ i) None (map skey [[''group-lists'']])"

definition useTextLists :: query where
  "useTextLists = get_query (skey [''text-lists'']) ''/text-lists''"

definition useCreateTextList :: "json \<Rightarrow> mutation" where
  "useCreateTextList payload = mutate ''POST'' ''/text-lists'' (Some payload) (map skey [[''text-lists'']])"

definition useUpdateTextList :: "string \<Rightarrow> object \<Rightarrow> mutation" where
  "useUpdateTextList i payload =
     mutate ''PUT'' (''/text-lists/'' @ i) (Some (JObj (map_delete payload ''id''))) (map skey [[''text-lists'']])"

definition useDeleteTextList :: "string \<Rightarrow> mutation" where
  "useDeleteTextList i = mutate ''DELETE'' (''/text-lists/'' @ i) None (map skey [[''text-lists'']])"

section \<open>Jobs\<close>

text \<open>A limit of zero is falsy.\<close>

definition useBroadcastJobs :: "int option \<Rightarrow> query" where
  "useBroadcastJobs limit =
     (case limit of
        Some l \<Rightarrow>
          (if l \<noteq> 0
           then get_query [JStr ''broadcast-jobs'', JObj [(''limit'', JNum l)]] (''/broadcast/history?limit='' @ int_str l)
           else get_query (skey [''broadcast-jobs'']) ''/broadcast/history'')
      | None \<Rightarrow> get_query (skey [''broadcast-jobs'']) ''/broadcast/history'')"

definition useBroadcastSummary :: query where
  "useBroadcastSummary =
     (get_query (skey [''broadcast'', ''summary'']) ''/broadcast/summary'')\<lparr>q_options := [(''refetchInterval'', JNum 10000)]\<rparr>"

definition useBroadcastJob :: "string \<Rightarrow> query" where
  "useBroadcastJob jobId =
     (get_query (skey [''broadcast-jobs'', jobId]) (''/broadcast/'' @ jobId))\<lparr>q_enabled := (jobId \<noteq> [])\<rparr>"

definition job_keys :: "qkey list" where
  "job_keys = map skey [[''broadcast-jobs''], [''broadcast'', ''summary'']]"

definition useStartBroadcast :: "json \<Rightarrow> mutation" where
  "useStartBroadcast payload = mutate ''POST'' ''/broadcast/start'' (Some payload) job_keys"

definition useBroadcastAction :: "string \<Rightarrow> string \<Rightarrow> mutation" where
  "useBroadcastAction jobId action = mutate ''POST'' (''/broadcast/'' @ jobId @ ''/'' @ action) None job_keys"

definition useDeleteBroadcastJob :: "string \<Rightarrow> mutation" where
  "useDeleteBroadcastJob i = mutate ''DELETE'' (''/broadcast/'' @ i) None job_keys"

definition useRetryBroadcastJob :: "string \<Rightarrow> mutation" where
  "useRetryBroadcastJob jobId = mutate ''POST'' (''/broadcast/'' @ jobId @ ''/retry'') None job_keys"

section \<open>Logs and budget\<close>

definition filters_json :: "(string \<times> string) list option \<Rightarrow> json" where
  "filters_json filters = key_or_null (map_option (\<lambda>fs. JObj (map (\<lambda>(k, v). (k, JStr v)) fs)) filters)"

definition useBroadcastLogs :: "string \<Rightarrow> (string \<times> string) list option \<Rightarrow> query" where
  "useBroadcastLogs jobId filters =
     (get_query [JStr ''broadcast-logs'', JStr jobId, filters_json filters]
        (''/broadcast/'' @ jobId @ ''/logs?'' @ search_string (case filters of None \<Rightarrow> [] | Some fs \<Rightarrow> fs)))
     \<lparr>q_enabled := (jobId \<noteq> [])\<rparr>"

definition useBroadcastEntitlement :: query where
  "useBroadcastEntitlement =
     (get_query (skey [''broadcast'', ''entitlement'']) ''/broadcast/entitlement'')\<lparr>q_options := [(''staleTime'', JNum 60000)]\<rparr>"

lemmas broadcast_query_defs = useGroupLists_def useTextLists_def useBroadcastJobs_def useBroadcastSummary_def
  useBroadcastJob_def useBroadcastLogs_def useBroadcastEntitlement_def

lemmas job_mutation_defs = useStartBroadcast_def useBroadcastAction_def useDeleteBroadcastJob_def useRetryBroadcastJob_def

inductive broadcast_query :: "query \<Rightarrow> bool" where
  "broadcast_query useGroupLists" | "broadcast_query useTextLists" | "broadcast_query (useBroadcastJobs l)"
| "broadcast_query useBroadcastSummary" | "broadcast_query (useBroadcastJob j)"
| "broadcast_query (useBroadcastLogs j fs)" | "broadcast_query useBroadcastEntitlement"

inductive_cases broadcast_queryE: "broadcast_query q"

text \<open>The queries that show the state of a job, and the mutations that change it.\<close>

inductive shows_jobs :: "query \<Rightarrow> bool" where
  "shows_jobs (useBroadcastJobs l)" | "shows_jobs useBroadcastSummary" | "shows_jobs (useBroadcastJob j)"

inductive changes_jobs :: "mutation \<Rightarrow> bool" where
  "changes_jobs (useStartBroadcast p)" | "changes_jobs (useBroadcastAction j a)"
| "changes_jobs (useDeleteBroadcastJob j)" | "changes_jobs (useRetryBroadcastJob j)"

lemma job_keys_select: "shows_jobs q \<Longrightarrow> list_ex (\<lambda>f. prefix (skey f) (q_key q)) [[''broadcast-jobs''], [''broadcast'', ''summary'']]"
  by (cases rule: shows_jobs.cases) (auto simp: broadcast_query_defs get_query_def skey_def split: option.splits)

lemma changes_jobs_keys: "changes_jobs m \<Longrightarrow> m_success m answer = job_keys"
  by (cases rule: changes_jobs.cases) (auto simp: job_mutation_defs mutate_def)

text \<open>Starting, steering, deleting or retrying a broadcast makes every cached view of jobs stale:
  the job list with any limit, each single job and the summary.\<close>

theorem broadcast_views_refreshed:
  assumes "prefix_matching matches" "changes_jobs m" "shows_jobs q" "(q_key q, b) \<in> set (settle matches (m_success m answer) cache)"
  shows "b"
proof -
  have "refreshes matches job_keys q"
    unfolding job_keys_def refreshes_skeys [OF assms(1)] by (rule job_keys_select [OF assms(3)])
  then show ?thesis using assms(4) changes_jobs_keys [OF assms(2)] by (auto simp: settle_stale)
qed

theorem broadcast_views_refreshed_witness:
  "snd (hd (settle (\<lambda>k f. prefix f k) (m_success (useRetryBroadcastJob ''j'') JNull) [(q_key (useBroadcastJob ''j''), False)]))"
proof (rule broadcast_views_refreshed [OF prefix_matching_prefix, of "useRetryBroadcastJob ''j''" "useBroadcastJob ''j''"])
  show "(q_key (useBroadcastJob ''j''),
      snd (hd (settle (\<lambda>k f. prefix f k) (m_success (useRetryBroadcastJob ''j'') JNull) [(q_key (useBroadcastJob ''j''), False)])))
    \<in> set (settle (\<lambda>k f. prefix f k) (m_success (useRetryBroadcastJob ''j'') JNull) [(q_key (useBroadcastJob ''j''), False)])"
    by (simp add: settle_map)
qed (rule changes_jobs.intros shows_jobs.intros)+

end
