(* ===== verification/JobHooks.thy ===== *)
theory JobHooks
  imports BroadcastHooks
begin

text \<open>
  The hooks on invite, auto-join and auto-leave jobs and on contacts: \<open>use-invite.ts\<close>,
  \<open>use-auto-join.ts\<close>, \<open>use-auto-leave.ts\<close> and \<open>use-contacts.ts\<close> under \<open>src/frontend/src/hooks\<close>.  A job id that
  may be \<open>null\<close> is an option; in a template it prints as \<open>null\<close>.  Notices and the download of a contact
  export are left out.
\<close>

definition id_key :: "string option \<Rightarrow> json" where
  "id_key i = (case i of None \<Rightarrow> JNull | Some s \<Rightarrow> JStr s)"

definition id_text :: "string option \<Rightarrow> string" where
  "id_text i = (case i of None \<Rightarrow> ''null'' | Some s \<Rightarrow> s)"

section \<open>use-invite.ts\<close>

definition useInviteJobs :: query where
  "useInviteJobs = get_query (skey [''invite-jobs'']) ''/invite/history''"

definition useInviteJob :: "string \<Rightarrow> query" where
  "useInviteJob jobId = (get_query (skey [''invite-jobs'', jobId]) (''/invite/'' @ jobId))\<lparr>q_enabled := (jobId \<noteq> [])\<rparr>"

definition useStartInvite :: "json \<Rightarrow> mutation" where
  "useStartInvite payload = mutate ''POST'' ''/invite/start'' (Some payload) (map skey [[''invite-jobs'']])"

definition useInviteAction :: "string \<Rightarrow> string \<Rightarrow> mutation" where
  "useInviteAction jobId action = mutate ''POST'' (''/invite/'' @ jobId @ ''/'' @ action) None (map skey [[''invite-jobs'']])"

definition useDeleteInviteJob :: "string \<Rightarrow> mutation" where
  "useDeleteInviteJob i = mutate ''DELETE'' (''/invite/'' @ i) None (map skey [[''invite-jobs'']])"

definition useRetryInviteJob :: "string \<Rightarrow> mutation" where
  "useRetryInviteJob jobId = mutate ''POST'' (''/invite/'' @ jobId @ ''/retry'') None (map skey [[''invite-jobs'']])"

definition useInviteLogs :: "string \<Rightarrow> (string \<times> string) list option \<Rightarrow> query" where
  "useInviteLogs jobId filters =
     (get_query [JStr ''invite-logs'', JStr jobId, filters_json filters]
        (''/invite/'' @ jobId @ ''/logs?'' @ search_string (case filters of None \<Rightarrow> [] | Some fs \<Rightarrow> fs)))
     \<lparr>q_enabled := (jobId \<noteq> [])\<rparr>"

section \<open>use-auto-join.ts\<close>

definition useAutoJoinJobs :: "int \<Rightarrow> query" where
  "useAutoJoinJobs limit =
     (get_query [JStr ''auto-join-jobs'', JNum limit] (''/auto-join/history?limit='' @ int_str limit))\<lparr>q_result := or_empty\<rparr>"

definition useAutoJoinJob :: "string option \<Rightarrow> query" where
  "useAutoJoinJob jobId =
     (get_query [JStr ''auto-join-job'', id_key jobId] (''/auto-join/'' @ id_text jobId))\<lparr>q_enabled := truthy jobId\<rparr>"

definition useStartAutoJoin :: "json \<Rightarrow> mutation" where
  "useStartAutoJoin payload = mutate ''POST'' ''/auto-join/start'' (Some payload) (map skey [[''auto-join-jobs'']])"

definition useAutoJoinAction :: "string \<Rightarrow> string \<Rightarrow> mutation" where
  "useAutoJoinAction jobId action =
     mutate ''POST'' (''/auto-join/'' @ jobId @ ''/'' @ action) None (map skey [[''auto-join-job'', jobId], [''auto-join-jobs'']])"

definition useAutoJoinLogs :: "string option \<Rightarrow> int \<Rightarrow> query" where
  "useAutoJoinLogs jobId limit =
     (get_query [JStr ''auto-join-logs'', id_key jobId, JNum limit]
        (''/auto-join/'' @ id_text jobId @ ''/logs?limit='' @ int_str limit))
     \<lparr>q_result := or_empty, q_enabled := truthy jobId, q_options := [(''refetchOnMount'', JStr ''always'')]\<rparr>"

definition useDeleteAutoJoinJob :: "string \<Rightarrow> mutation" where
  "useDeleteAutoJoinJob jobId = mutate ''DELETE'' (''/auto-join/'' @ jobId) None (map skey [[''auto-join-jobs'']])"

section \<open>use-auto-leave.ts\<close>

definition useAutoLeaveScan :: "string list \<Rightarrow> mutation" where
  "useAutoLeaveScan account_ids = mutate ''POST'' ''/auto-leave/scan'' (Some (JObj [(''account_ids'', str_list account_ids)])) []"

definition useAutoLeaveJobs :: "int \<Rightarrow> query" where
  "useAutoLeaveJobs limit =
     (get_query [JStr ''auto-leave-jobs'', JNum limit] (''/auto-leave/history?limit='' @ int_str limit))\<lparr>q_result := or_empty\<rparr>"

definition useAutoLeaveJob :: "string option \<Rightarrow> query" where
  "useAutoLeaveJob jobId =
     (get_query [JStr ''auto-leave-job'', id_key jobId] (''/auto-leave/'' @ id_text jobId))\<lparr>q_enabled := truthy jobId\<rparr>"

definition useStartAutoLeave :: "json \<Rightarrow> mutation" where
  "useStartAutoLeave payload = mutate ''POST'' ''/auto-leave/start'' (Some payload) (map skey [[''auto-leave-jobs'']])"

definition useAutoLeaveAction :: "string \<Rightarrow> string \<Rightarrow> mutation" where
  "useAutoLeaveAction jobId action =
     mutate ''POST'' (''/auto-leave/'' @ jobId @ ''/'' @ action) None (map skey [[''auto-leave-job'', jobId], [''auto-leave-jobs'']])"

text \<open>The polling interval is a function that always answers 3000.\<close>

definition useAutoLeaveLogs :: "string option \<Rightarrow> int \<Rightarrow> query" where
  "useAutoLeaveLogs jobId limit =
     (get_query [JStr ''auto-leave-logs'', id_key jobId, JNum limit]
        (''/auto-leave/'' @ id_text jobId @ ''/logs?limit='' @ int_str limit))
     \<lparr>q_result := or_empty, q_enabled := truthy jobId, q_options := [(''refetchInterval'', JNum 3000)]\<rparr>"

definition useDeleteAutoLeaveJob :: "string \<Rightarrow> mutation" where
  "useDeleteAutoLeaveJob jobId = mutate ''DELETE'' (''/auto-leave/'' @ jobId) None (map skey [[''auto-leave-jobs'']])"

section \<open>use-contacts.ts\<close>

definition useContacts :: "string \<Rightarrow> int \<Rightarrow> int \<Rightarrow> string option \<Rightarrow> query" where
  "useContacts accountId page pageSize search =
     (get_query [JStr ''contacts'', JStr accountId, JNum page, JNum pageSize, JStr (if truthy search then the search else [])]
        (''/accounts/'' @ accountId @ ''/contacts?'' @ search_string
           ([(''page'', int_str page), (''page_size'', int_str pageSize)]
            @ (if truthy search then [(''search'', the search)] else []))))
     \<lparr>q_enabled := (accountId \<noteq> [])\<rparr>"

definition useContactDetail :: "string \<Rightarrow> int option \<Rightarrow> query" where
  "useContactDetail accountId contactId =
     (get_query [JStr ''contacts'', JStr accountId, JStr ''detail'', key_or_null (map_option JNum contactId)]
        (''/accounts/'' @ accountId @ ''/contacts/'' @ (case contactId of None \<Rightarrow> ''null'' | Some n \<Rightarrow> int_str n)))
     \<lparr>q_enabled := (accountId \<noteq> [] \<and> contactId \<noteq> None)\<rparr>"

definition useDeleteContact :: "string \<Rightarrow> int \<Rightarrow> mutation" where
  "useDeleteContact accountId contactId =
     mutate ''DELETE'' (''/accounts/'' @ accountId @ ''/contacts/'' @ int_str contactId) None (map skey [[''contacts'', accountId]])"

definition useImportContacts :: "string \<Rightarrow> json list \<Rightarrow> mutation" where
  "useImportContacts accountId contacts =
     mutate ''POST'' (''/accounts/'' @ accountId @ ''/contacts/import'') (Some (JObj [(''contacts'', JArr contacts)]))
       (map skey [[''contacts'', accountId], [''accounts'']])"

lemmas job_query_defs = useInviteJobs_def useInviteJob_def useInviteLogs_def useAutoJoinJobs_def useAutoJoinJob_def
  useAutoJoinLogs_def useAutoLeaveJobs_def useAutoLeaveJob_def useAutoLeaveLogs_def useContacts_def useContactDetail_def

inductive job_query :: "query \<Rightarrow> bool" where
  "job_query useInviteJobs" | "job_query (useInviteJob j)" | "job_query (useInviteLogs j fs)"
| "job_query (useAutoJoinJobs l)" | "job_query (useAutoJoinJob i)" | "job_query (useAutoJoinLogs i l)"
| "job_query (useAutoLeaveJobs l)" | "job_query (useAutoLeaveJob i)" | "job_query (useAutoLeaveLogs i l)"
| "job_query (useContacts a p n s)" | "job_query (useContactDetail a c)"

inductive_cases job_queryE: "job_query q"

section \<open>Keys\<close>

text \<open>The request a key of these hooks stands for, read from the key.\<close>

definition module_path :: "string \<Rightarrow> string" where
  "module_path a = (if startsWith a ''auto-join'' then ''/auto-join/'' else if startsWith a ''auto-leave'' then ''/auto-leave/'' else ''/invite/'')"

definition job_request :: "qkey \<Rightarrow> string" where
  "job_request k =
     (if length k = 1 then ''/invite/history''
      else if length k = 2
      then module_path (js_String (k ! 0)) @ (case k ! 1 of JNum l \<Rightarrow> ''history?limit='' @ int_str l | i \<Rightarrow> js_String i)
      else if length k = 3
      then module_path (js_String (k ! 0)) @ js_String (k ! 1) @
        (case k ! 2 of
           JNum l \<Rightarrow> ''/logs?limit='' @ int_str l
         | c \<Rightarrow> ''/logs?'' @ search_string (map (\<lambda>(k, v). (k, js_String v)) (entries c)))
      else if length k = 4 then ''/accounts/'' @ js_String (k ! 1) @ ''/contacts/'' @ js_String (k ! 3)
      else ''/accounts/'' @ js_String (k ! 1) @ ''/contacts?'' @ search_string
        ([(''page'', js_String (k ! 2)), (''page_size'', js_String (k ! 3))]
         @ (if js_String (k ! 4) \<noteq> [] then [(''search'', js_String (k ! 4))] else [])))"

lemma read_filters: "map (\<lambda>(k, v). (k, js_String v)) (entries (filters_json fs)) = (case fs of None \<Rightarrow> [] | Some xs \<Rightarrow> xs)"
proof -
  have "map (\<lambda>(k, v). (k, js_String v)) (map (\<lambda>(k, v). (k, JStr v)) xs) = xs" for xs :: "(string \<times> string) list"
    by (induction xs) auto
  then show ?thesis by (cases fs) (simp_all add: filters_json_def key_or_null_def)
qed

lemma logs_keys: "job_request (q_key (useInviteLogs j fs)) = q_url (useInviteLogs j fs)"
proof -
  have "(case filters_json fs of JNum l \<Rightarrow> ''/logs?limit='' @ int_str l
      | c \<Rightarrow> ''/logs?'' @ search_string (map (\<lambda>(k, v). (k, js_String v)) (entries c)))
    = ''/logs?'' @ search_string (map (\<lambda>(k, v). (k, js_String v)) (entries (filters_json fs)))"
    by (cases fs) (simp_all add: filters_json_def key_or_null_def)
  then show ?thesis unfolding read_filters
    by (simp add: useInviteLogs_def get_query_def job_request_def module_path_def)
qed

lemma job_key_request: "job_query q \<Longrightarrow> job_request (q_key q) = q_url q \<and> q_params q = []"
proof (induction rule: job_query.induct)
  case (3 j fs)
  show ?case using logs_keys [of j fs] by (simp add: useInviteLogs_def get_query_def)
next
  case (10 a p n s)
  then show ?case by (cases s) (auto simp: useContacts_def get_query_def job_request_def)
qed (auto simp: job_query_defs get_query_def skey_def id_key_def id_text_def job_request_def module_path_def key_or_null_def
    split: option.splits)

definition job_heads :: "string list" where
  "job_heads = [''invite-jobs'', ''invite-logs'', ''auto-join-jobs'', ''auto-join-job'', ''auto-join-logs'', ''auto-leave-jobs'',
     ''auto-leave-job'', ''auto-leave-logs'', ''contacts'']"

lemma job_key_heads: "job_query q \<Longrightarrow> q_key q \<noteq> [] \<and> hd (q_key q) \<in> JStr ` set job_heads"
  by (auto elim!: job_queryE simp: job_query_defs get_query_def skey_def job_heads_def)

text \<open>Deleting an auto-join or auto-leave job refreshes the lists but not the cached job itself, while an
  action on it refreshes both.\<close>

lemma delete_keeps_job_view:
  assumes "prefix_matching matches"
  shows "\<not> refreshes matches (m_success (useDeleteAutoJoinJob j) answer) (useAutoJoinJob (Some j))"
    "refreshes matches (m_success (useAutoJoinAction j a) answer) (useAutoJoinJob (Some j))"
    "refreshes matches (m_success (useAutoJoinAction j a) answer) (useAutoJoinJobs l)"
  unfolding useDeleteAutoJoinJob_def useAutoJoinAction_def mutate_def mutation.simps refreshes_skeys [OF assms]
  by (simp_all add: job_query_defs get_query_def skey_def id_key_def)

end
