(* ===== verification/CommerceHooks.thy ===== *)
theory CommerceHooks
  imports QueryCache
begin

text \<open>
  The hooks on money: \<open>use-notifications.ts\<close>, \<open>use-wallet.ts\<close>, \<open>use-subscriptions.ts\<close>,
  \<open>use-orders.ts\<close> and \<open>use-marketplace.ts\<close> under \<open>src/frontend/src/hooks\<close>.  The notices shown to the user
  on errors are left out, except for the choice that \<open>useSellAccounts\<close> makes.
\<close>

section \<open>use-notifications.ts\<close>

definition NOTIFICATIONS_QUERY_KEY :: "string list" where "NOTIFICATIONS_QUERY_KEY = [''notifications'']"

definition useNotifications :: query where
  "useNotifications =
     (get_query (skey NOTIFICATIONS_QUERY_KEY) ''/notifications'')
     \<lparr>q_options := [(''refetchInterval'', JNum 30000), (''refetchOnWindowFocus'', JBool True)]\<rparr>"

datatype notification_action = MarkRead string | MarkAllRead | Remove string | Clear

definition useNotificationActions :: "notification_action \<Rightarrow> mutation" where
  "useNotificationActions a =
     (let refresh = map skey [NOTIFICATIONS_QUERY_KEY]
      in case a of
           MarkRead i \<Rightarrow> mutate ''PATCH'' (''/notifications/'' @ i @ ''/read'') None refresh
         | MarkAllRead \<Rightarrow> mutate ''PATCH'' ''/notifications/read-all'' None refresh
         | Remove i \<Rightarrow> mutate ''DELETE'' (''/notifications/'' @ i) None refresh
         | Clear \<Rightarrow> mutate ''DELETE'' ''/notifications'' None refresh)"

section \<open>use-wallet.ts\<close>

record wallet_params =
  wp_type :: "string option"
  wp_status :: "string option"
  wp_search :: "string option"
  wp_limit :: "int option"
  wp_offset :: "int option"

definition not_all :: "string \<Rightarrow> string option \<Rightarrow> (string \<times> string) list" where
  "not_all k v = (if truthy v \<and> the v \<noteq> ''all'' then [(k, the v)] else [])"

definition set_truthy :: "string \<Rightarrow> string option \<Rightarrow> (string \<times> string) list" where
  "set_truthy k v = (if truthy v then [(k, the v)] else [])"

definition set_number :: "string \<Rightarrow> int option \<Rightarrow> (string \<times> string) list" where
  "set_number k v = (case v of None \<Rightarrow> [] | Some n \<Rightarrow> (if n = 0 then [] else [(k, int_str n)]))"

definition with_search :: "string \<Rightarrow> (string \<times> string) list \<Rightarrow> string" where
  "with_search url ps = url @ (if search_string ps = [] then [] else ''?'' @ search_string ps)"

definition wallet_key :: "wallet_params option \<Rightarrow> json" where
  "wallet_key params = key_or_null (map_option (\<lambda>p. JObj (opt_prop ''type'' (map_option JStr (wp_type p))
       @ opt_prop ''status'' (map_option JStr (wp_status p)) @ opt_prop ''search'' (map_option JStr (wp_search p))
       @ opt_prop ''limit'' (map_option JNum (wp_limit p)) @ opt_prop ''offset'' (map_option JNum (wp_offset p)))) params)"

text \<open>The parameter object of \<open>useWalletTransactions\<close> has no \<open>search\<close>; one that is there is part of the
  key but not of the request.\<close>

definition useWalletTransactions :: "wallet_params option \<Rightarrow> query" where
  "useWalletTransactions params =
     (get_query [JStr ''wallet'', JStr ''transactions'', wallet_key params]
        (with_search ''/wallet/transactions''
           (case params of None \<Rightarrow> [] | Some p \<Rightarrow>
              not_all ''type'' (wp_type p) @ not_all ''status'' (wp_status p)
              @ set_number ''limit'' (wp_limit p) @ set_number ''offset'' (wp_offset p))))
     \<lparr>q_options := [(''staleTime'', JNum 10000)]\<rparr>"

definition money_keys :: "qkey list" where
  "money_keys = map skey [[''wallet'', ''transactions''], [''auth'', ''user''], [''notifications'']]"

definition useRequestTopup :: "json \<Rightarrow> mutation" where
  "useRequestTopup payload = mutate ''POST'' ''/wallet/topup'' (Some payload) money_keys"

definition useRequestWithdrawOtp :: "json \<Rightarrow> mutation" where
  "useRequestWithdrawOtp payload = mutate ''POST'' ''/wallet/withdraw/otp/request'' (Some payload) []"

definition useRequestWithdraw :: "json \<Rightarrow> mutation" where
  "useRequestWithdraw payload = mutate ''POST'' ''/wallet/withdraw'' (Some payload) money_keys"

definition useAdminWalletTransactions :: "wallet_params option \<Rightarrow> query" where
  "useAdminWalletTransactions params =
     (get_query [JStr ''admin'', JStr ''wallet-transactions'', wallet_key params]
        (with_search ''/admin/transactions''
           (case params of None \<Rightarrow> [] | Some p \<Rightarrow>
              not_all ''type'' (wp_type p) @ not_all ''status'' (wp_status p) @ set_truthy ''search'' (wp_search p)
              @ set_number ''limit'' (wp_limit p) @ set_number ''offset'' (wp_offset p))))
     \<lparr>q_options := [(''staleTime'', JNum 10000)]\<rparr>"

definition useAdminUpdateTransactionStatus :: "string \<Rightarrow> string \<Rightarrow> string option \<Rightarrow> mutation" where
  "useAdminUpdateTransactionStatus txId status adminNote =
     mutate ''PUT'' (''/admin/transactions/'' @ txId @ ''/status'')
       (Some (JObj ((''status'', JStr status) # opt_prop ''admin_note'' (map_option JStr adminNote))))
       (map skey [[''admin'', ''wallet-transactions''], [''admin'', ''users''], [''wallet'', ''transactions''], [''notifications'']])"

definition paid_keys :: "qkey list" where
  "paid_keys = map skey [[''wallet'', ''transactions''], [''auth'', ''user''], [''notifications''], [''subscriptions''],
     [''orders''], [''marketplace''], [''accounts'']]"

text \<open>The status check is a GET request made by a mutation; only a paid top-up invalidates.  A \<open>null\<close>
  answer throws before anything is invalidated.\<close>

definition useCheckTopupStatus :: "string \<Rightarrow> mutation" where
  "useCheckTopupStatus orderId =
     \<lparr>m_method = ''GET'', m_url = ''/wallet/topup/'' @ orderId @ ''/status'', m_body = None,
      m_success = (\<lambda>data. if opt_truthy (jget data ''is_paid'') then paid_keys else []), m_error = []\<rparr>"

definition usePaymentConfig :: query where
  "usePaymentConfig =
     (get_query (skey [''wallet'', ''payment-config'']) ''/wallet/payment-config'')\<lparr>q_options := [(''staleTime'', JNum 30000)]\<rparr>"

definition useAdminCryptoWallet :: "bool \<Rightarrow> query" where
  "useAdminCryptoWallet enabled =
     (get_query (skey [''admin'', ''crypto-wallet'']) ''/admin/crypto-wallet'')
     \<lparr>q_enabled := enabled, q_options := [(''staleTime'', JNum 15000)]\<rparr>"

definition useUpdateCryptoWalletRate :: "int \<Rightarrow> mutation" where
  "useUpdateCryptoWalletRate rate =
     mutate ''PUT'' ''/admin/crypto-wallet/rate'' (Some (JObj [(''usdt_rate_idr'', JNum rate)]))
       (map skey [[''admin'', ''crypto-wallet''], [''wallet'', ''payment-config'']])"

definition useRequestCryptoWalletRevealOtp :: mutation where
  "useRequestCryptoWalletRevealOtp = mutate ''POST'' ''/admin/crypto-wallet/reveal/otp'' None []"

definition useRevealCryptoWalletSecrets :: "string \<Rightarrow> mutation" where
  "useRevealCryptoWalletSecrets otp_code =
     mutate ''POST'' ''/admin/crypto-wallet/reveal'' (Some (JObj [(''otp_code'', JStr otp_code)])) []"

section \<open>use-subscriptions.ts\<close>

definition useMySubscription :: query where
  "useMySubscription =
     (get_query (skey [''subscription'', ''me'']) ''/subscriptions/me'')\<lparr>q_options := [(''staleTime'', JNum 30000)]\<rparr>"

definition useRedeemCode :: "string \<Rightarrow> mutation" where
  "useRedeemCode code =
     mutate ''POST'' ''/redeem'' (Some (JObj [(''code'', JStr code)])) (map skey [[''subscription'', ''me''], [''admin'', ''stats'']])"

definition useCheckoutSubscription :: "json \<Rightarrow> mutation" where
  "useCheckoutSubscription params =
     mutate ''POST'' ''/subscriptions/checkout'' (Some params) (map skey [[''subscription'', ''me''], [''auth'']])"

section \<open>use-orders.ts\<close>

text \<open>\<open>{ ...s, id: Number(s.id), price: ..., min: ..., max: ... }\<close>, as the list of the converted numbers
  and the object they are written into; spreading \<open>null\<close> gives an empty object but reading \<open>s.id\<close>
  throws.\<close>

definition service_numbers :: "json \<Rightarrow> (string \<times> jsnum) list option" where
  "service_numbers s =
     (if s = JNull then None else Some (map (\<lambda>k. (k, to_number (jget s k))) [''id'', ''price'', ''min'', ''max'']))"

definition parse_services :: "json \<Rightarrow> (json \<times> (string \<times> jsnum) list) list option" where
  "parse_services data =
     (case field_or_empty ''services'' data of
        Some (JArr svcs) \<Rightarrow> those (map (\<lambda>s. map_option (Pair s) (service_numbers s)) svcs)
      | _ \<Rightarrow> None)"

text \<open>\<open>q_result\<close> of the two service queries is the array before the numbers are converted.\<close>

definition services_query :: "string \<Rightarrow> string \<Rightarrow> query" where
  "services_query which url =
     (get_query (skey [''smm-services'', which]) url)
     \<lparr>q_result := field_or_empty ''services'', q_options := [(''staleTime'', JNum (5 * 60 * 1000))]\<rparr>"

definition useTelegramServices :: query where
  "useTelegramServices = services_query ''telegram'' ''/orders/services''"

definition useAllServices :: query where
  "useAllServices = services_query ''all'' ''/orders/services/all''"

definition useOrderHistory :: "int \<Rightarrow> int \<Rightarrow> string option \<Rightarrow> query" where
  "useOrderHistory limit offset category =
     get_query
       [JStr ''orders'', JStr ''history'',
        JObj ([(''limit'', JNum limit), (''offset'', JNum offset)] @ opt_prop ''category'' (map_option JStr category))]
       (''/orders?'' @ search_string ([(''limit'', int_str limit), (''offset'', int_str offset)] @ set_truthy ''category'' category))"

definition useOrderDetail :: "string \<Rightarrow> query" where
  "useOrderDetail orderId =
     (get_query (skey [''orders'', orderId]) (''/orders/'' @ orderId))\<lparr>q_enabled := (orderId \<noteq> [])\<rparr>"

definition usePlaceOrder :: "json \<Rightarrow> mutation" where
  "usePlaceOrder payload =
     mutate ''POST'' ''/orders'' (Some payload) (map skey [[''orders''], [''auth''], NOTIFICATIONS_QUERY_KEY])"

definition usePlaceMassOrder :: "json list \<Rightarrow> mutation" where
  "usePlaceMassOrder orders =
     mutate ''POST'' ''/orders/mass'' (Some (JObj [(''orders'', JArr orders)]))
       (map skey [[''orders''], [''auth''], NOTIFICATIONS_QUERY_KEY])"

definition useRefreshOrderStatus :: "string \<Rightarrow> mutation" where
  "useRefreshOrderStatus orderId =
     mutate ''POST'' (''/orders/'' @ orderId @ ''/refresh'') None (map skey [[''orders''], NOTIFICATIONS_QUERY_KEY])"

definition useRefreshAllOrders :: mutation where
  "useRefreshAllOrders = mutate ''POST'' ''/orders/refresh-all'' None (map skey [[''orders'']])"

section \<open>use-marketplace.ts\<close>

definition useMarketplacePricing :: query where
  "useMarketplacePricing =
     (get_query (skey [''marketplace'', ''pricing'']) ''/marketplace/pricing'')\<lparr>q_options := [(''staleTime'', JNum (5 * 60 * 1000))]\<rparr>"

definition useMarketplaceStock :: query where
  "useMarketplaceStock =
     (get_query (skey [''marketplace'', ''stock'']) ''/marketplace/stock'')\<lparr>q_result := or_empty\<rparr>"

definition stock_url :: "string \<Rightarrow> string" where
  "stock_url code = ''/marketplace/stock/'' @ encodeURIComponent code @ ''/accounts''"

definition country_code_of :: "json \<Rightarrow> string" where
  "country_code_of cat = opt_String (jget cat ''country_code'')"

text \<open>\<open>cat.ready_stock > 0\<close>.\<close>

fun positive :: "jsnum \<Rightarrow> bool" where
  "positive (Fin q) = (q > 0)" | "positive PosInf = True" | "positive _ = False"

text \<open>One account of a category's answer, with the category's country where it has none; a property
  set to \<open>undefined\<close> is absent.\<close>

definition set_prop :: "object \<Rightarrow> string \<Rightarrow> json option \<Rightarrow> object" where
  "set_prop obj k v = (case v of None \<Rightarrow> map_delete obj k | Some x \<Rightarrow> map_set obj k x)"

definition with_country :: "json \<Rightarrow> json \<Rightarrow> json" where
  "with_country cat acc =
     JObj (set_prop
       (set_prop (entries acc) ''country_code'' (jor (jget acc ''country_code'') (jget cat ''country_code'')))
       ''country_name'' (jor (jget acc ''country_name'') (jget cat ''country_name'')))"

text \<open>The accounts of one category: a failed request and a malformed answer give none.  \<open>api_get\<close> answers
  a GET request with its body, or \<open>None\<close> when it is rejected.\<close>

definition category_accounts :: "(string \<Rightarrow> json option) \<Rightarrow> json \<Rightarrow> json list" where
  "category_accounts api_get cat =
     (case api_get (stock_url (country_code_of cat)) of
        None \<Rightarrow> []
      | Some data \<Rightarrow>
          (case (if jtruthy data then data else JArr []) of
             JArr accs \<Rightarrow> (if JNull \<in> set accs then [] else map (with_country cat) accs)
           | _ \<Rightarrow> []))"

text \<open>The aggregation over all categories with stock; \<open>stock\<close> is the answer to \<open>/marketplace/stock\<close>.  A
  value that is no array has no \<open>filter\<close> method and throws, as does a \<open>null\<close> category; both end in the
  empty list.\<close>

definition aggregate_stock :: "(string \<Rightarrow> json option) \<Rightarrow> json list" where
  "aggregate_stock api_get =
     (case api_get ''/marketplace/stock'' of
        Some (JArr stock) \<Rightarrow>
          (if JNull \<in> set stock then []
           else concat (map (category_accounts api_get)
                  (filter (\<lambda>cat. positive (to_number (jget cat ''ready_stock''))) stock)))
      | _ \<Rightarrow> [])"

text \<open>\<open>queryFn\<close> of \<open>useMarketplaceStockAccounts\<close>; \<open>None\<close> when it throws.\<close>

definition stock_accounts :: "(string \<Rightarrow> json option) \<Rightarrow> string \<Rightarrow> json list option" where
  "stock_accounts api_get countryCode =
     (let code = or_str countryCode ''all''
      in case api_get (stock_url code) of
           Some (JArr (a # as)) \<Rightarrow> Some (a # as)
         | Some _ \<Rightarrow> Some (if code = ''all'' then aggregate_stock api_get else [])
         | None \<Rightarrow> (if code = ''all'' then Some (aggregate_stock api_get) else None))"

text \<open>The query; \<open>q_url\<close> is its first request.\<close>

definition useMarketplaceStockAccounts :: "string \<Rightarrow> query" where
  "useMarketplaceStockAccounts countryCode =
     get_query (skey [''marketplace'', ''stock'', countryCode]) (stock_url (or_str countryCode ''all''))"

definition useSellEligibleAccounts :: query where
  "useSellEligibleAccounts =
     (get_query (skey [''marketplace'', ''sell-eligible'']) ''/marketplace/sell-eligible'')\<lparr>q_result := or_empty\<rparr>"

record api_failure =
  f_status :: "int option"
  f_code :: "string option"
  f_detail :: "json option"

definition isMarketplaceSellUnknownOutcome :: "api_failure \<Rightarrow> bool" where
  "isMarketplaceSellUnknownOutcome e = (f_status e = Some 504 \<or> f_code e = Some ''ECONNABORTED'')"

definition reconcile_keys :: "qkey list" where
  "reconcile_keys = map skey [[''accounts''], [''marketplace'', ''sell-eligible''], [''marketplace'', ''stock''], [''marketplace'', ''history'']]"

definition useSellAccounts :: "string list \<Rightarrow> mutation" where
  "useSellAccounts accountIds =
     \<lparr>m_method = ''POST'', m_url = ''/marketplace/sell'', m_body = Some (JObj [(''account_ids'', str_list accountIds)]),
      m_success = (\<lambda>_. reconcile_keys @ map skey [NOTIFICATIONS_QUERY_KEY]), m_error = reconcile_keys\<rparr>"

text \<open>The notice of a failed sale: a warning that the outcome is open, or an error with its text, which is
  a translation key or the server's own words.\<close>

datatype sell_notice = PendingWarning | FailureText string | FailureKey string

definition sell_error_notice :: "api_failure \<Rightarrow> sell_notice" where
  "sell_error_notice e =
     (if isMarketplaceSellUnknownOutcome e then PendingWarning
      else case f_detail e of
        Some (JStr raw) \<Rightarrow>
          (if trim raw \<noteq> []
           then (if str_includes (toLowerCase raw) ''inactive account'' then FailureKey ''orders.accountExpiredCannotSell''
                 else FailureText raw)
           else FailureKey ''orders.notificationSellFailedMessage'')
      | _ \<Rightarrow> FailureKey ''orders.notificationSellFailedMessage'')"

definition useBuyAccount :: "string \<Rightarrow> string option \<Rightarrow> mutation" where
  "useBuyAccount accountId payment_method =
     mutate ''POST'' (''/marketplace/buy/'' @ accountId)
       (if truthy payment_method then Some (JObj [(''payment_method'', JStr (the payment_method))]) else None)
       (map skey [[''accounts''], [''marketplace'', ''stock''], [''marketplace'', ''history''], NOTIFICATIONS_QUERY_KEY])"

definition useCancelSellAccount :: "string \<Rightarrow> mutation" where
  "useCancelSellAccount accountId =
     mutate ''POST'' (''/marketplace/cancel/'' @ accountId) None
       (map skey [[''accounts''], [''marketplace'', ''sell-eligible''], [''marketplace'', ''history''], NOTIFICATIONS_QUERY_KEY])"

definition useMarketplaceHistory :: query where
  "useMarketplaceHistory =
     (get_query (skey [''marketplace'', ''history'']) ''/marketplace/history'')\<lparr>q_result := or_empty\<rparr>"

lemmas commerce_query_defs = useNotifications_def useWalletTransactions_def useAdminWalletTransactions_def
  usePaymentConfig_def useAdminCryptoWallet_def useMySubscription_def useTelegramServices_def useAllServices_def
  services_query_def useOrderHistory_def useOrderDetail_def useMarketplacePricing_def useMarketplaceStock_def
  useMarketplaceStockAccounts_def useSellEligibleAccounts_def useMarketplaceHistory_def

inductive commerce_query :: "query \<Rightarrow> bool" where
  "commerce_query useNotifications" | "commerce_query (useWalletTransactions p)"
| "commerce_query (useAdminWalletTransactions p)" | "commerce_query usePaymentConfig"
| "commerce_query (useAdminCryptoWallet e)" | "commerce_query useMySubscription"
| "commerce_query useTelegramServices" | "commerce_query useAllServices"
| "commerce_query (useOrderHistory l off c)" | "commerce_query (useOrderDetail i)"
| "commerce_query useMarketplacePricing" | "commerce_query useMarketplaceStock"
| "commerce_query (useMarketplaceStockAccounts cc)" | "commerce_query useSellEligibleAccounts"
| "commerce_query useMarketplaceHistory"

inductive_cases commerce_queryE: "commerce_query q"

section \<open>The marketplace's stock\<close>

lemma with_country_code: "opt_truthy (jget cat ''country_code'') \<Longrightarrow> opt_truthy (jget (with_country cat acc) ''country_code'')"
  by (auto simp: with_country_def set_prop_def jor_def split: option.splits)

lemma category_accounts_mem: "acc \<in> set (category_accounts api_get cat) \<Longrightarrow> \<exists>a. acc = with_country cat a"
  by (auto simp: category_accounts_def split: option.splits json.splits if_splits)

lemma aggregate_mem:
  assumes "acc \<in> set (aggregate_stock api_get)"
  shows "\<exists>stock cat a. api_get ''/marketplace/stock'' = Some (JArr stock) \<and> cat \<in> set stock
    \<and> positive (to_number (jget cat ''ready_stock'')) \<and> acc = with_country cat a"
proof -
  obtain stock where stock: "api_get ''/marketplace/stock'' = Some (JArr stock)"
    using assms by (auto simp: aggregate_stock_def split: option.splits json.splits) metis
  with assms obtain cat where "cat \<in> set stock" "positive (to_number (jget cat ''ready_stock''))"
    "acc \<in> set (category_accounts api_get cat)"
    by (auto simp: aggregate_stock_def split: if_splits)
  with stock category_accounts_mem show ?thesis by blast
qed

text \<open>Asked for all countries, the stock query always succeeds, whatever the server answers.  When the
  server has no direct answer, every account returned comes from a category that has stock and carries a
  country code whenever its category does.  Asked for one country, it returns the server's list, and
  fails exactly when that request fails.\<close>

theorem stock_accounts_outcome:
  assumes "api_get (stock_url (or_str c ''all'')) = answer"
  shows "(or_str c ''all'' \<noteq> ''all'' \<longrightarrow>
       stock_accounts api_get c = map_option (\<lambda>d. case d of JArr accs \<Rightarrow> accs | _ \<Rightarrow> []) answer)
    \<and> (or_str c ''all'' = ''all'' \<longrightarrow> stock_accounts api_get c \<noteq> None
       \<and> (\<forall>acc. (\<forall>a as. answer \<noteq> Some (JArr (a # as))) \<and> acc \<in> set (the (stock_accounts api_get c)) \<longrightarrow>
            (\<exists>stock cat. api_get ''/marketplace/stock'' = Some (JArr stock) \<and> cat \<in> set stock
               \<and> positive (to_number (jget cat ''ready_stock''))
               \<and> (opt_truthy (jget cat ''country_code'') \<longrightarrow> opt_truthy (jget acc ''country_code'')))))"
proof -
  have one: "stock_accounts api_get c = map_option (\<lambda>d. case d of JArr accs \<Rightarrow> accs | _ \<Rightarrow> []) answer"
    if "or_str c ''all'' \<noteq> ''all''"
    using that assms by (auto simp: stock_accounts_def Let_def split: option.splits json.splits list.splits)
  have total: "stock_accounts api_get c \<noteq> None" if "or_str c ''all'' = ''all''"
    using that by (auto simp: stock_accounts_def Let_def split: option.splits json.splits list.splits)
  have agg: "stock_accounts api_get c = Some (aggregate_stock api_get)"
    if "or_str c ''all'' = ''all''" "\<forall>a as. answer \<noteq> Some (JArr (a # as))"
    using that assms by (auto simp: stock_accounts_def Let_def split: option.splits json.splits list.splits)
  show ?thesis
    using one total agg aggregate_mem with_country_code by (metis option.sel)
qed

definition demo_api :: "string \<Rightarrow> json option" where
  "demo_api url =
     (if url = ''/marketplace/stock'' then Some (JArr [JObj [(''country_code'', JStr ''62''), (''ready_stock'', JNum 1)]])
      else if url = ''/marketplace/stock/62/accounts'' then Some (JArr [JObj [(''id'', JStr ''x'')]]) else None)"

theorem stock_accounts_outcome_witness: "stock_accounts demo_api [] \<noteq> None \<and> stock_accounts demo_api ''7'' = None"
proof -
  have "stock_url ''7'' \<noteq> ''/marketplace/stock''" "stock_url ''7'' \<noteq> ''/marketplace/stock/62/accounts''" by code_simp+
  then have "demo_api (stock_url (or_str ''7'' ''all'')) = None" by (simp add: demo_api_def or_str_def)
  from stock_accounts_outcome [of demo_api "''7''", OF this] stock_accounts_outcome [of demo_api "[]", OF refl]
  show ?thesis by (simp add: or_str_def)
qed

text \<open>A sale of unknown outcome is never reported as failed, and every outcome reconciles the marketplace
  views.\<close>

lemma sell_notice_pending: "sell_error_notice e = PendingWarning \<longleftrightarrow> isMarketplaceSellUnknownOutcome e"
  by (auto simp: sell_error_notice_def split: option.splits json.splits)

end
