(* ===== verification/Hooks.thy ===== *)
theory Hooks
  imports AccountHooks JobHooks CommerceHooks
begin

text \<open>
  The chat hooks, \<open>src/frontend/src/hooks/use-chats.ts\<close>, and what the data hooks show together: that
  cached answers belong to the request they are shown for, and which views a mutation refreshes.
\<close>

definition useChats :: "string \<Rightarrow> int \<Rightarrow> int \<Rightarrow> string option \<Rightarrow> bool \<Rightarrow> query" where
  "useChats accountId page pageSize chatType enabled =
     (get_query
        [JStr ''chats'', JStr accountId, JNum page, JNum pageSize, JStr (if truthy chatType then the chatType else ''all'')]
        (''/accounts/'' @ accountId @ ''/chats?page='' @ int_str page @ ''&page_size='' @ int_str pageSize
         @ (if truthy chatType then ''&chat_type='' @ encodeURIComponent (the chatType) else [])))
     \<lparr>q_enabled := (accountId \<noteq> [] \<and> enabled)\<rparr>"

definition usePublicChatsIndex :: "int \<Rightarrow> int \<Rightarrow> string option \<Rightarrow> string option \<Rightarrow> string \<Rightarrow> query" where
  "usePublicChatsIndex page pageSize search chatType sortBy =
     get_query
       [JStr ''public-chats-index'', JNum page, JNum pageSize, JStr (if truthy search then the search else []),
        JStr (if truthy chatType then the chatType else ''all''), JStr sortBy]
       (''/chats/public-index?page='' @ int_str page @ ''&page_size='' @ int_str pageSize @ ''&sort_by='' @ sortBy
        @ (if truthy search then ''&search='' @ encodeURIComponent (the search) else [])
        @ (if truthy chatType then ''&chat_type='' @ encodeURIComponent (the chatType) else []))"

section \<open>Cache keys\<close>

definition same_request :: "query \<Rightarrow> query \<Rightarrow> bool" where
  "same_request q q' \<longleftrightarrow> q_url q = q_url q' \<and> q_params q = q_params q'"

definition data_query :: "query \<Rightarrow> bool" where
  "data_query q \<longleftrightarrow> account_query q \<or> broadcast_query q \<or> commerce_query q \<or> job_query q"

text \<open>Equal keys give equal parameters: every property can be read back.\<close>

lemma map_get_Cons: "map_get ((k, v) # m) k' = (if k' = k then Some v else map_get m k')"
  by (simp add: map_get_def)

lemma map_get_opt_prop: "map_get (opt_prop k v @ m) k' = (if k' = k \<and> v \<noteq> None then v else map_get m k')"
  by (auto simp: opt_prop_def map_get_def split: option.splits)

lemma map_get_opt_prop_last: "map_get (opt_prop k v) k' = (if k' = k then v else None)"
  using map_get_opt_prop [of k v "[]" k'] by auto

lemmas read_back = map_get_Cons map_get_opt_prop map_get_opt_prop_last

text \<open>The request a key stands for, read from the key alone.\<close>

definition str_at :: "object \<Rightarrow> string \<Rightarrow> string option" where
  "str_at fs k = (case map_get fs k of Some (JStr s) \<Rightarrow> Some s | _ \<Rightarrow> None)"

definition num_at :: "object \<Rightarrow> string \<Rightarrow> int option" where
  "num_at fs k = (case map_get fs k of Some (JNum n) \<Rightarrow> Some n | _ \<Rightarrow> None)"

definition bool_at :: "object \<Rightarrow> string \<Rightarrow> bool option" where
  "bool_at fs k = (case map_get fs k of Some (JBool b) \<Rightarrow> Some b | _ \<Rightarrow> None)"

definition accounts_request :: "object \<Rightarrow> string" where
  "accounts_request fs =
     ''/accounts?'' @ search_string ([(''limit'', int_str (the (num_at fs ''limit'')))]
       @ set_truthy ''status'' (str_at fs ''status'')
       @ (case bool_at fs ''is_active'' of None \<Rightarrow> [] | Some b \<Rightarrow> [(''is_active'', js_bool_str b)]))"

definition paginated_request :: "object \<Rightarrow> string" where
  "paginated_request fs =
     ''/accounts?'' @ search_string
       ([(''page'', int_str (the (num_at fs ''page''))), (''limit'', int_str (the (num_at fs ''limit'')))]
        @ append_truthy ''search'' (map_get fs ''search'') @ append_truthy ''folder_id'' (map_get fs ''folder_id'')
        @ append_truthy ''status'' (map_get fs ''status''))"

definition wallet_request :: "bool \<Rightarrow> object \<Rightarrow> (string \<times> string) list" where
  "wallet_request admin fs =
     not_all ''type'' (str_at fs ''type'') @ not_all ''status'' (str_at fs ''status'')
     @ (if admin then set_truthy ''search'' (str_at fs ''search'') else [])
     @ set_number ''limit'' (num_at fs ''limit'') @ set_number ''offset'' (num_at fs ''offset'')"

definition history_request :: "object \<Rightarrow> string" where
  "history_request fs =
     ''/orders?'' @ search_string ([(''limit'', int_str (the (num_at fs ''limit''))), (''offset'', int_str (the (num_at fs ''offset'')))]
       @ set_truthy ''category'' (str_at fs ''category''))"

definition request1 :: "string \<Rightarrow> string" where
  "request1 a = (if a = ''broadcast-jobs'' then ''/broadcast/history'' else ''/'' @ a)"

definition request2 :: "string \<Rightarrow> string \<Rightarrow> string" where
  "request2 a b =
     (if a = ''2fa'' then ''/accounts/'' @ b @ ''/2fa''
      else if a = ''broadcast-jobs'' then ''/broadcast/'' @ b
      else if a = ''subscription'' then ''/subscriptions/me''
      else if a = ''smm-services'' then (if b = ''all'' then ''/orders/services/all'' else ''/orders/services'')
      else ''/'' @ a @ ''/'' @ b)"

definition request2_obj :: "string \<Rightarrow> object \<Rightarrow> string \<times> (string \<times> string) list" where
  "request2_obj a fs =
     (if a = ''accounts'' then (accounts_request fs, [])
      else if a = ''account-folders''
      then (''/account-folders'', if bool_at fs ''includeAccounts'' = Some True then [(''include_accounts'', ''true'')] else [])
      else (''/broadcast/history?limit='' @ int_str (the (num_at fs ''limit'')), []))"

definition request3 :: "string \<Rightarrow> string \<Rightarrow> json \<Rightarrow> string" where
  "request3 a b c =
     (if a = ''marketplace'' then stock_url (or_str (js_String c) ''all'')
      else if a = ''broadcast-logs''
      then ''/broadcast/'' @ b @ ''/logs?'' @ search_string (map (\<lambda>(k, v). (k, js_String v)) (entries c))
      else if a = ''wallet'' then with_search ''/wallet/transactions'' (wallet_request False (entries c))
      else if a = ''admin'' then with_search ''/admin/transactions'' (wallet_request True (entries c))
      else if a = ''orders'' then history_request (entries c)
      else case c of JObj fs \<Rightarrow> paginated_request fs | _ \<Rightarrow> ''/accounts/'' @ b @ ''/'' @ js_String c)"

fun request_of :: "qkey \<Rightarrow> string \<times> (string \<times> string) list" where
  "request_of [JStr a] = (request1 a, [])"
| "request_of [JStr a, JStr b] = (request2 a b, [])"
| "request_of [JStr a, JObj fs] = request2_obj a fs"
| "request_of [JStr a, JStr b, c] = (request3 a b c, [])"
| "request_of _ = ([], [])"

lemmas request_defs = request1_def request2_def request2_obj_def request3_def


lemma accounts_request_key: "request_of (q_key (useAccounts p)) = (q_url (useAccounts p), q_params (useAccounts p))"
  by (cases p) (auto simp: useAccounts_def get_query_def Let_def request_defs accounts_request_def
      str_at_def num_at_def bool_at_def read_back set_truthy_def split: option.splits)

lemma paginated_request_key:
  "request_of (q_key (useAccountsPaginated p)) = (q_url (useAccountsPaginated p), q_params (useAccountsPaginated p))"
  by (simp add: useAccountsPaginated_def get_query_def request_defs paginated_request_def num_at_def read_back)

lemma at_opt_prop:
  "str_at (opt_prop k (map_option JStr v) @ m) k' = (if k' = k \<and> v \<noteq> None then v else str_at m k')"
  "k \<noteq> k' \<Longrightarrow> str_at (opt_prop k x @ m) k' = str_at m k'"
  "num_at (opt_prop k (map_option JNum n) @ m) k' = (if k' = k \<and> n \<noteq> None then n else num_at m k')"
  "k \<noteq> k' \<Longrightarrow> num_at (opt_prop k x @ m) k' = num_at m k'"
  "str_at (opt_prop k (map_option JNum n)) k' = None"
  "num_at (opt_prop k (map_option JNum n)) k' = (if k' = k then n else None)"
  by (auto simp: str_at_def num_at_def read_back split: option.splits)

lemma keep_option: "(if v \<noteq> None then v else None) = v"
  by simp

lemma wallet_request_some:
  "wallet_key (Some p) = JObj fs \<Longrightarrow>
   str_at fs ''type'' = wp_type p \<and> str_at fs ''status'' = wp_status p \<and> str_at fs ''search'' = wp_search p
   \<and> num_at fs ''limit'' = wp_limit p \<and> num_at fs ''offset'' = wp_offset p"
  by (simp add: wallet_key_def key_or_null_def) (auto simp: at_opt_prop keep_option)

lemma wallet_request_key:
  "request_of (q_key (useWalletTransactions p)) = (q_url (useWalletTransactions p), q_params (useWalletTransactions p))"
  "request_of (q_key (useAdminWalletTransactions p)) = (q_url (useAdminWalletTransactions p), q_params (useAdminWalletTransactions p))"
proof -
  have "wallet_request b (entries (wallet_key p)) =
      (case p of None \<Rightarrow> [] | Some p \<Rightarrow> not_all ''type'' (wp_type p) @ not_all ''status'' (wp_status p)
         @ (if b then set_truthy ''search'' (wp_search p) else [])
         @ set_number ''limit'' (wp_limit p) @ set_number ''offset'' (wp_offset p))" for b
  proof (cases p)
    case None
    then show ?thesis
      by (simp add: wallet_key_def key_or_null_def wallet_request_def str_at_def num_at_def not_all_def set_number_def set_truthy_def)
  next
    case (Some a)
    obtain fs where "wallet_key (Some a) = JObj fs" by (simp add: wallet_key_def key_or_null_def)
    then show ?thesis using Some wallet_request_some by (simp add: wallet_request_def)
  qed
  from this [of False] this [of True] show
    "request_of (q_key (useWalletTransactions p)) = (q_url (useWalletTransactions p), q_params (useWalletTransactions p))"
    "request_of (q_key (useAdminWalletTransactions p)) = (q_url (useAdminWalletTransactions p), q_params (useAdminWalletTransactions p))"
    by (simp_all add: useWalletTransactions_def useAdminWalletTransactions_def get_query_def request_defs split: option.splits)
qed

lemma history_request_key:
  "request_of (q_key (useOrderHistory l off c)) = (q_url (useOrderHistory l off c), q_params (useOrderHistory l off c))"
  by (simp add: useOrderHistory_def get_query_def request_defs history_request_def num_at_def str_at_def read_back split: option.splits)

lemma logs_request_key:
  "request_of (q_key (useBroadcastLogs j fs)) = (q_url (useBroadcastLogs j fs), q_params (useBroadcastLogs j fs))"
proof -
  have "map (\<lambda>(k, v). (k, js_String v)) (map (\<lambda>(k, v). (k, JStr v)) xs) = xs" for xs :: "(string \<times> string) list"
    by (induction xs) auto
  then show ?thesis
    by (cases fs) (simp_all add: useBroadcastLogs_def get_query_def request_defs filters_json_def key_or_null_def)
qed

text \<open>Every data query fetches what its key stands for.\<close>

lemma account_request: "account_query q \<Longrightarrow> request_of (q_key q) = (q_url q, q_params q)"
  by (induction rule: account_query.induct)
    (rule accounts_request_key paginated_request_key
     | simp add: account_query_defs get_query_def skey_def request_defs bool_at_def map_get_def)+

lemma broadcast_request: "broadcast_query q \<Longrightarrow> request_of (q_key q) = (q_url q, q_params q)"
  by (induction rule: broadcast_query.induct)
    (rule logs_request_key
     | simp add: broadcast_query_defs get_query_def skey_def request_defs num_at_def map_get_def split: option.splits)+

lemma commerce_request: "commerce_query q \<Longrightarrow> request_of (q_key q) = (q_url q, q_params q)"
  by (induction rule: commerce_query.induct)
    (rule wallet_request_key history_request_key
     | simp add: commerce_query_defs get_query_def skey_def request_defs NOTIFICATIONS_QUERY_KEY_def)+

text \<open>The keys with which the queries start.\<close>

lemma key_heads:
  "account_query q \<Longrightarrow> q_key q \<noteq> [] \<and> hd (q_key q) \<in> JStr ` {''accounts'', ''2fa'', ''account-folders''}"
  "broadcast_query q \<Longrightarrow> q_key q \<noteq> [] \<and>
     hd (q_key q) \<in> JStr ` {''group-lists'', ''text-lists'', ''broadcast-jobs'', ''broadcast'', ''broadcast-logs''}"
  "commerce_query q \<Longrightarrow> q_key q \<noteq> [] \<and>
     hd (q_key q) \<in> JStr ` {''notifications'', ''wallet'', ''admin'', ''subscription'', ''smm-services'', ''orders'', ''marketplace''}"
  by (auto elim!: account_queryE broadcast_queryE commerce_queryE
      simp: account_query_defs broadcast_query_defs commerce_query_defs get_query_def skey_def NOTIFICATIONS_QUERY_KEY_def Let_def
      split: option.splits if_splits)

lemma job_query_head: "data_query q \<Longrightarrow> job_query q \<longleftrightarrow> hd (q_key q) \<in> JStr ` set job_heads"
  unfolding data_query_def
  by (elim disjE; frule key_heads job_key_heads; auto simp: job_heads_def dest: job_key_heads)

lemma prefix_skey:
  "prefix (skey [a]) k \<longleftrightarrow> k \<noteq> [] \<and> hd k = JStr a"
  "prefix (skey [a, b]) k \<longleftrightarrow> take 2 k = skey [a, b]"
  by (cases k; cases "tl k"; auto simp: skey_def)+

section \<open>Properties\<close>

text \<open>Two queries of these hooks that share a cache entry send the same request.\<close>

lemma data_keys_sound:
  assumes "data_query q" "data_query q'" "q_key q = q_key q'"
  shows "q_url q = q_url q' \<and> q_params q = q_params q'"
proof -
  have main: "request_of (q_key r) = (q_url r, q_params r)" if "data_query r" "\<not> job_query r" for r
    using that account_request broadcast_request commerce_request by (auto simp: data_query_def)
  have "job_query q \<longleftrightarrow> job_query q'"
    using job_query_head [OF assms(1)] job_query_head [OF assms(2)] assms(3) by simp
  then show ?thesis
    using main [OF assms(1)] main [OF assms(2)] job_key_request [of q] job_key_request [of q'] assms(3)
    by (cases "job_query q") auto
qed

text \<open>The chat list without a type and the chat list of type \<open>all\<close> share a cache entry although
  they send different requests, in both chat hooks.\<close>

theorem chat_keys_collide:
  "q_key (useChats a p n None e) = q_key (useChats a p n (Some ''all'') e)
   \<and> q_url (useChats a p n None e) \<noteq> q_url (useChats a p n (Some ''all'') e)
   \<and> q_key (usePublicChatsIndex p n s None srt) = q_key (usePublicChatsIndex p n s (Some ''all'') srt)
   \<and> q_url (usePublicChatsIndex p n s None srt) \<noteq> q_url (usePublicChatsIndex p n s (Some ''all'') srt)"
  by (simp add: useChats_def usePublicChatsIndex_def get_query_def)

text \<open>Changing the photo or the auto-reply of one account refreshes the view of that account but
  neither the account lists nor the pages of the account table, which show the same data.\<close>

theorem account_change_misses_lists:
  assumes "prefix_matching matches"
    "m \<in> {useUploadProfilePhoto i f, useDeleteProfilePhoto i, useUpdateAutoReply i on_off txt}" "i \<noteq> ''paginated''"
  shows "refreshes matches (m_success m answer) (useAccount i)
    \<and> \<not> refreshes matches (m_success m answer) (useAccounts p)
    \<and> \<not> refreshes matches (m_success m answer) (useAccountsPaginated pp)"
proof -
  have keys: "m_success m answer = map skey [[''accounts'', i]]"
    using assms(2) by (auto simp: account_mutation_defs mutate_def)
  show ?thesis
    unfolding keys refreshes_skeys [OF assms(1)] using assms(3)
    by (simp add: account_query_defs get_query_def skey_def Let_def)
qed

theorem account_change_misses_lists_witness:
  "refreshes (\<lambda>k f. prefix f k) (m_success (useDeleteProfilePhoto ''a1'') JNull) (useAccount ''a1'')
    \<and> \<not> refreshes (\<lambda>k f. prefix f k) (m_success (useDeleteProfilePhoto ''a1'') JNull) (useAccounts None)"
  using account_change_misses_lists [OF prefix_matching_prefix, of "useDeleteProfilePhoto ''a1''" "''a1''" JNull True None JNull None]
  by simp

text \<open>A top-up found paid refreshes the wallet's transactions, the notifications, the orders, the
  marketplace and every account view, but neither the subscription that may have been paid for nor any
  query that holds the balance: no data query has a key that starts with \<open>auth\<close>.\<close>

theorem paid_topup_refreshes:
  assumes "prefix_matching matches" "opt_truthy (jget answer ''is_paid'')" "data_query q"
  shows "refreshes matches (m_success (useCheckTopupStatus order_id) answer) q \<longleftrightarrow>
    take 2 (q_key q) = skey [''wallet'', ''transactions'']
    \<or> hd (q_key q) \<in> JStr ` {''notifications'', ''orders'', ''marketplace'', ''accounts''}"
proof -
  have keys: "m_success (useCheckTopupStatus order_id) answer = paid_keys"
    using assms(2) by (simp add: useCheckTopupStatus_def)
  have heads: "q_key q \<noteq> []" "hd (q_key q) \<notin> JStr ` {''auth'', ''subscriptions''}"
    using assms(3) by (auto simp: data_query_def job_heads_def dest: key_heads job_key_heads)
  have "take 2 (q_key q) \<noteq> skey [''auth'', ''user'']" using heads by (cases "q_key q") (auto simp: skey_def)
  then show ?thesis
    unfolding keys paid_keys_def refreshes_skeys [OF assms(1)] using heads by (auto simp: prefix_skey)
qed

theorem paid_topup_refreshes_witness:
  "refreshes (\<lambda>k f. prefix f k) (m_success (useCheckTopupStatus ''o'') (JObj [(''is_paid'', JBool True)])) useMarketplaceHistory
   \<and> \<not> refreshes (\<lambda>k f. prefix f k) (m_success (useCheckTopupStatus ''o'') (JObj [(''is_paid'', JBool True)])) useMySubscription"
proof -
  let ?a = "JObj [(''is_paid'', JBool True)]"
  have paid: "opt_truthy (jget ?a ''is_paid'')" by (simp add: map_get_def)
  have "data_query useMarketplaceHistory" "data_query useMySubscription"
    by (auto simp: data_query_def intro: commerce_query.intros)
  from this [THEN paid_topup_refreshes [OF prefix_matching_prefix paid, of _ "''o''"]]
  show ?thesis by (simp add: useMarketplaceHistory_def useMySubscription_def get_query_def skey_def)
qed

end
