(* ===== verification/AdminHooks.thy ===== *)
theory AdminHooks
  imports Hooks
begin

text \<open>
  The hooks of the administration pages: \<open>use-admin.ts\<close>, \<open>use-admin-smm.ts\<close>, \<open>use-admin-redeem.ts\<close> and
  \<open>use-admin-analytics.ts\<close> under \<open>src/frontend/src/hooks\<close>.  Their parameter objects, which enter the cache key
  as they are, are JSON objects; a property that is undefined is absent.
\<close>

section \<open>Search parameters read from an object\<close>

definition if_truthy :: "object \<Rightarrow> string \<Rightarrow> (string \<times> string) list" where
  "if_truthy fs k = append_truthy k (map_get fs k)"

definition if_not_all :: "object \<Rightarrow> string \<Rightarrow> (string \<times> string) list" where
  "if_not_all fs k = (if map_get fs k = Some (JStr ''all'') then [] else if_truthy fs k)"

definition if_defined :: "object \<Rightarrow> string \<Rightarrow> (string \<times> string) list" where
  "if_defined fs k = (case map_get fs k of None \<Rightarrow> [] | Some v \<Rightarrow> [(k, js_String v)])"

definition number_or :: "object \<Rightarrow> string \<Rightarrow> int \<Rightarrow> (string \<times> string) list" where
  "number_or fs k d = [(k, case map_get fs k of None \<Rightarrow> int_str d | Some JNull \<Rightarrow> int_str d | Some v \<Rightarrow> js_String v)]"

definition params_key :: "object option \<Rightarrow> json" where
  "params_key params = key_or_null (map_option JObj params)"

definition stale_time :: "int \<Rightarrow> (string \<times> json) list" where
  "stale_time n = [(''staleTime'', JNum n)]"

section \<open>use-admin.ts\<close>

definition useAdminStats :: query where
  "useAdminStats = (get_query (skey [''admin'', ''stats'']) ''/admin/stats'')\<lparr>q_options := stale_time 30000\<rparr>"

definition useAdminOnboardingAnalytics :: "int \<Rightarrow> query" where
  "useAdminOnboardingAnalytics limit =
     (get_query [JStr ''admin'', JStr ''onboarding-analytics'', JNum limit] (''/admin/onboarding/analytics?limit='' @ int_str limit))
     \<lparr>q_options := stale_time 30000\<rparr>"

definition useAdminUsers :: "string option \<Rightarrow> int \<Rightarrow> int \<Rightarrow> query" where
  "useAdminUsers search limit offset =
     get_query
       [JStr ''admin'', JStr ''users'',
        JObj (opt_prop ''search'' (map_option JStr search) @ [(''limit'', JNum limit), (''offset'', JNum offset)])]
       (''/admin/users?'' @ search_string ([(''limit'', int_str limit), (''offset'', int_str offset)] @ set_truthy ''search'' search))"

definition useUpdateBalance :: "string \<Rightarrow> int \<Rightarrow> mutation" where
  "useUpdateBalance userId amount =
     mutate ''POST'' ''/admin/users/balance'' (Some (JObj [(''user_id'', JStr userId), (''amount'', JNum amount)]))
       (map skey [[''admin'', ''users''], [''admin'', ''wallet-transactions''], [''wallet'', ''transactions'']])"

definition useUpdateRole :: "string \<Rightarrow> string \<Rightarrow> mutation" where
  "useUpdateRole userId role =
     mutate ''PUT'' ''/admin/users/role'' (Some (JObj [(''user_id'', JStr userId), (''role'', JStr role)]))
       (map skey [[''admin'', ''users'']])"

definition useDeleteUser :: "string \<Rightarrow> mutation" where
  "useDeleteUser userId = mutate ''DELETE'' (''/admin/users/'' @ userId) None (map skey [[''admin'', ''users'']])"

definition useSuspendUser :: "string \<Rightarrow> string \<Rightarrow> int option \<Rightarrow> mutation" where
  "useSuspendUser userId reason durationDays =
     mutate ''POST'' (''/admin/users/'' @ userId @ ''/suspend'')
       (Some (JObj [(''reason'', JStr reason),
          (''duration_days'', case durationDays of None \<Rightarrow> JNull | Some n \<Rightarrow> if n = 0 then JNull else JNum n)]))
       (map skey [[''admin'', ''users''], [''admin'', ''stats'']])"

definition useUnsuspendUser :: "string \<Rightarrow> mutation" where
  "useUnsuspendUser userId =
     mutate ''POST'' (''/admin/users/'' @ userId @ ''/unsuspend'') None (map skey [[''admin'', ''users''], [''admin'', ''stats'']])"

definition usePrefixPrices :: query where
  "usePrefixPrices = (get_query (skey [''admin'', ''prefix-prices'']) ''/admin/account-prices'')\<lparr>q_result := or_empty\<rparr>"

definition useCreatePrefixPrice :: "json \<Rightarrow> mutation" where
  "useCreatePrefixPrice payload = mutate ''POST'' ''/admin/account-prices'' (Some payload) (map skey [[''admin'', ''prefix-prices'']])"

definition useUpdatePrefixPrice :: "string \<Rightarrow> int \<Rightarrow> json option \<Rightarrow> string option \<Rightarrow> mutation" where
  "useUpdatePrefixPrice id_prefix sell_price buy_price nt =
     mutate ''PUT'' (''/admin/account-prices/'' @ id_prefix)
       (Some (JObj ((''sell_price'', JNum sell_price) # opt_prop ''buy_price'' buy_price @ opt_prop ''note'' (map_option JStr nt))))
       (map skey [[''admin'', ''prefix-prices'']])"

definition useDeletePrefixPrice :: "string \<Rightarrow> mutation" where
  "useDeletePrefixPrice id_prefix =
     mutate ''DELETE'' (''/admin/account-prices/'' @ id_prefix) None (map skey [[''admin'', ''prefix-prices'']])"

definition useAdminBroadcasts :: "object option \<Rightarrow> query" where
  "useAdminBroadcasts params =
     (let fs = (case params of None \<Rightarrow> [] | Some fs \<Rightarrow> fs)
      in get_query [JStr ''admin'', JStr ''broadcasts'', params_key params]
           (''/admin/broadcasts?'' @ search_string
              (if_truthy fs ''page'' @ if_truthy fs ''limit'' @ if_truthy fs ''search'' @ if_not_all fs ''status''
               @ if_defined fs ''loop_enabled''
               @ (if opt_truthy (map_get fs ''duplicates_only'') then [(''duplicates_only'', ''true'')] else [])
               @ if_truthy fs ''user_id'' @ if_truthy fs ''sort_by'' @ if_truthy fs ''sort_order'')))"

definition useAdminBroadcastStats :: query where
  "useAdminBroadcastStats = get_query (skey [''admin'', ''broadcasts'', ''stats'']) ''/admin/broadcasts/stats''"

definition broadcast_keys :: "qkey list" where
  "broadcast_keys = map skey [[''admin'', ''broadcasts''], [''admin'', ''stats'']]"

definition useAdminPauseBroadcast :: "string \<Rightarrow> mutation" where
  "useAdminPauseBroadcast jobId = mutate ''POST'' (''/admin/broadcasts/'' @ jobId @ ''/pause'') None broadcast_keys"

definition useAdminResumeBroadcast :: "string \<Rightarrow> mutation" where
  "useAdminResumeBroadcast jobId = mutate ''POST'' (''/admin/broadcasts/'' @ jobId @ ''/resume'') None broadcast_keys"

definition useAdminStopBroadcast :: "string \<Rightarrow> mutation" where
  "useAdminStopBroadcast jobId = mutate ''POST'' (''/admin/broadcasts/'' @ jobId @ ''/stop'') None broadcast_keys"

definition useAdminDeleteBroadcast :: "string \<Rightarrow> mutation" where
  "useAdminDeleteBroadcast jobId = mutate ''DELETE'' (''/admin/broadcasts/'' @ jobId) None broadcast_keys"

definition useAdminBulkBroadcastAction :: "json \<Rightarrow> mutation" where
  "useAdminBulkBroadcastAction payload = mutate ''POST'' ''/admin/broadcasts/bulk-action'' (Some payload) broadcast_keys"

definition auto_reply_params :: "object \<Rightarrow> (string \<times> string) list" where
  "auto_reply_params fs =
     if_truthy fs ''page'' @ if_truthy fs ''limit'' @ if_truthy fs ''search'' @ if_not_all fs ''status''
     @ if_truthy fs ''user_id'' @ if_truthy fs ''sort_by'' @ if_truthy fs ''sort_order''"

definition useAdminAutoReplies :: "object option \<Rightarrow> query" where
  "useAdminAutoReplies params =
     (let qs = search_string (auto_reply_params (case params of None \<Rightarrow> [] | Some fs \<Rightarrow> fs))
      in (get_query (skey [''admin'', ''auto-replies'', qs]) (''/admin/auto-replies'' @ (if qs \<noteq> [] then ''?'' @ qs else [])))
         \<lparr>q_options := [(''refetchInterval'', JNum 15000)]\<rparr>)"

definition useAdminToggleAutoReply :: "string \<Rightarrow> mutation" where
  "useAdminToggleAutoReply accountId =
     mutate ''POST'' (''/admin/auto-replies/'' @ accountId @ ''/toggle'') None
       (map skey [[''admin'', ''auto-replies''], [''admin'', ''stats'']])"

section \<open>use-admin-smm.ts\<close>

definition useAdminSmmProfile :: query where
  "useAdminSmmProfile = get_query (skey [''admin'', ''smm'', ''profile'']) ''/admin/smm/profile''"

definition useAdminSmmServices :: "object option \<Rightarrow> query" where
  "useAdminSmmServices opts =
     (let fs = (case opts of None \<Rightarrow> [] | Some fs \<Rightarrow> fs)
      in get_query [JStr ''admin'', JStr ''smm'', JStr ''services'', params_key opts]
           (''/admin/smm/services?'' @ search_string
              (if_truthy fs ''search'' @ if_truthy fs ''category'' @ if_defined fs ''is_active'' @ number_or fs ''limit'' 50
               @ number_or fs ''offset'' 0)))"

definition smm_services_keys :: "qkey list" where
  "smm_services_keys = map skey [[''admin'', ''smm'', ''services'']]"

definition useAdminSyncServices :: mutation where
  "useAdminSyncServices = mutate ''POST'' ''/admin/smm/services/sync'' None smm_services_keys"

definition useAdminUpdateService :: "int \<Rightarrow> object \<Rightarrow> mutation" where
  "useAdminUpdateService serviceId updates =
     mutate ''PUT'' (''/admin/smm/services/'' @ int_str serviceId) (Some (JObj updates)) smm_services_keys"

definition useAdminBulkUpdateServices :: "json \<Rightarrow> mutation" where
  "useAdminBulkUpdateServices updates = mutate ''PUT'' ''/admin/smm/services/bulk/update'' (Some updates) smm_services_keys"

definition useAdminSmmOrders :: "object option \<Rightarrow> query" where
  "useAdminSmmOrders opts =
     (let fs = (case opts of None \<Rightarrow> [] | Some fs \<Rightarrow> fs)
      in get_query [JStr ''admin'', JStr ''smm'', JStr ''orders'', params_key opts]
           (''/admin/smm/orders?'' @ search_string
              (if_truthy fs ''search'' @ if_truthy fs ''status'' @ if_truthy fs ''service_id'' @ if_truthy fs ''user_id''
               @ number_or fs ''limit'' 50 @ number_or fs ''offset'' 0)))"

definition useAdminRefreshOrder :: "string \<Rightarrow> mutation" where
  "useAdminRefreshOrder orderId =
     mutate ''POST'' (''/admin/smm/orders/'' @ orderId @ ''/refresh'') None (map skey [[''admin'', ''smm'', ''orders'']])"

definition useAdminRefreshAllOrders :: mutation where
  "useAdminRefreshAllOrders = mutate ''POST'' ''/admin/smm/orders/refresh-all'' None (map skey [[''admin'', ''smm'', ''orders'']])"

definition useAdminSmmStats :: query where
  "useAdminSmmStats = get_query (skey [''admin'', ''smm'', ''stats'']) ''/admin/smm/stats''"

definition useAdminSmmSettings :: query where
  "useAdminSmmSettings = get_query (skey [''admin'', ''smm'', ''settings'']) ''/admin/smm/settings''"

definition useAdminUpdateSmmSettings :: "json \<Rightarrow> mutation" where
  "useAdminUpdateSmmSettings settings =
     mutate ''PUT'' ''/admin/smm/settings'' (Some settings) (map skey [[''admin'', ''smm'', ''settings'']])"

section \<open>use-admin-redeem.ts\<close>

definition useAdminRedeemCodes :: "string option \<Rightarrow> int \<Rightarrow> int \<Rightarrow> query" where
  "useAdminRedeemCodes search page limit =
     get_query
       [JStr ''admin'', JStr ''redeem-codes'',
        JObj (opt_prop ''search'' (map_option JStr search) @ [(''page'', JNum page), (''limit'', JNum limit)])]
       (''/admin/redeem-codes?'' @ search_string ([(''page'', int_str page), (''limit'', int_str limit)] @ set_truthy ''search'' search))"

definition useAdminCreateRedeemCode :: "json \<Rightarrow> mutation" where
  "useAdminCreateRedeemCode payload =
     mutate ''POST'' ''/admin/redeem-codes'' (Some payload) (map skey [[''admin'', ''redeem-codes''], [''admin'', ''stats'']])"

definition useAdminDeleteRedeemCode :: "string \<Rightarrow> mutation" where
  "useAdminDeleteRedeemCode codeId = mutate ''DELETE'' (''/admin/redeem-codes/'' @ codeId) None (map skey [[''admin'', ''redeem-codes'']])"

definition useAdminRedeemLogs :: "int \<Rightarrow> int \<Rightarrow> query" where
  "useAdminRedeemLogs page limit =
     get_query [JStr ''admin'', JStr ''redeem-logs'', JObj [(''page'', JNum page), (''limit'', JNum limit)]]
       (''/admin/redeem-logs?'' @ search_string [(''page'', int_str page), (''limit'', int_str limit)])"

section \<open>use-admin-analytics.ts\<close>

text \<open>The period of a report; \<open>range\<close> is always there.\<close>

definition range_params :: "object \<Rightarrow> (string \<times> string) list" where
  "range_params fs =
     (''range'', opt_String (map_get fs ''range''))
     # (if map_get fs ''range'' = Some (JStr ''custom'') then if_truthy fs ''start_date'' @ if_truthy fs ''end_date'' else [])"

definition report_query :: "string \<Rightarrow> object \<Rightarrow> int \<Rightarrow> query" where
  "report_query nm params stale =
     (get_query [JStr ''admin'', JStr ''analytics'', JStr nm, JObj params]
        (''/admin/analytics/'' @ nm @ ''?'' @ search_string (range_params params)))
     \<lparr>q_options := stale_time stale\<rparr>"

definition useAdminAnalyticsOverview :: "object \<Rightarrow> query" where
  "useAdminAnalyticsOverview params = report_query ''overview'' params 30000"

definition useAdminAnalyticsTimeseries :: "string \<Rightarrow> object \<Rightarrow> query" where
  "useAdminAnalyticsTimeseries metric params =
     (get_query [JStr ''admin'', JStr ''analytics'', JStr ''timeseries'', JStr metric, JObj params]
        (''/admin/analytics/timeseries?'' @ search_string ((''metric'', metric) # range_params params)))
     \<lparr>q_options := stale_time 30000\<rparr>"

definition useAdminAnalyticsAutomation :: "object \<Rightarrow> query" where
  "useAdminAnalyticsAutomation params = report_query ''automation'' params 30000"

definition useAdminUserAnalytics :: "object \<Rightarrow> query" where
  "useAdminUserAnalytics params = report_query ''users'' params 30000"

definition useAdminTelegramAccountsAnalytics :: "object \<Rightarrow> query" where
  "useAdminTelegramAccountsAnalytics params = report_query ''telegram-accounts'' params 30000"

definition useAdminFinancialAnalytics :: "object \<Rightarrow> query" where
  "useAdminFinancialAnalytics params = report_query ''financial'' params 30000"

definition useAdminSecurityAnalytics :: "object \<Rightarrow> query" where
  "useAdminSecurityAnalytics params = report_query ''security'' params 15000"

definition directory_query :: "string \<Rightarrow> string \<Rightarrow> object \<Rightarrow> (string \<times> string) list \<Rightarrow> int \<Rightarrow> query" where
  "directory_query nm sub params ps stale =
     (get_query [JStr ''admin'', JStr ''analytics'', JStr nm, JStr sub, JObj params]
        (''/admin/analytics/'' @ nm @ ''/'' @ sub @ ''?'' @ search_string ps))
     \<lparr>q_options := stale_time stale\<rparr>"

definition accounts_directory_params :: "object \<Rightarrow> (string \<times> string) list" where
  "accounts_directory_params fs =
     if_truthy fs ''search'' @ if_not_all fs ''status'' @ if_not_all fs ''role'' @ if_truthy fs ''page'' @ if_truthy fs ''page_size''"

definition tasks_directory_params :: "object \<Rightarrow> (string \<times> string) list" where
  "tasks_directory_params fs =
     if_truthy fs ''search'' @ if_not_all fs ''automation_type'' @ if_not_all fs ''status'' @ if_truthy fs ''page'' @ if_truthy fs ''page_size''"

definition transactions_directory_params :: "object \<Rightarrow> (string \<times> string) list" where
  "transactions_directory_params fs =
     if_truthy fs ''search'' @ if_not_all fs ''tx_type'' @ if_not_all fs ''status'' @ if_truthy fs ''page'' @ if_truthy fs ''page_size''"

definition audit_params :: "object \<Rightarrow> (string \<times> string) list" where
  "audit_params fs =
     if_truthy fs ''range'' @ if_truthy fs ''start_date'' @ if_truthy fs ''end_date'' @ if_truthy fs ''actor''
     @ if_not_all fs ''action'' @ if_not_all fs ''outcome'' @ if_not_all fs ''severity'' @ if_truthy fs ''search''
     @ if_truthy fs ''page'' @ if_truthy fs ''page_size''"

definition useAdminTelegramAccountsDirectory :: "object \<Rightarrow> query" where
  "useAdminTelegramAccountsDirectory params =
     directory_query ''telegram-accounts'' ''directory'' params (accounts_directory_params params) 15000"

definition useAdminAutomationTasksDirectory :: "object \<Rightarrow> query" where
  "useAdminAutomationTasksDirectory params = directory_query ''automation'' ''tasks'' params (tasks_directory_params params) 15000"

definition useAdminFinancialTransactionsDirectory :: "object \<Rightarrow> query" where
  "useAdminFinancialTransactionsDirectory params =
     directory_query ''financial'' ''transactions'' params (transactions_directory_params params) 15000"

definition useAdminSecurityAuditLogs :: "object \<Rightarrow> query" where
  "useAdminSecurityAuditLogs params = directory_query ''security'' ''logs'' params (audit_params params) 10000"

definition useAdminSystemHealthAnalytics :: "int option \<Rightarrow> query" where
  "useAdminSystemHealthAnalytics refreshIntervalMs =
     (get_query (skey [''admin'', ''analytics'', ''system-health'']) ''/admin/analytics/system-health'')
     \<lparr>q_options := (''refetchInterval'', case refreshIntervalMs of None \<Rightarrow> JBool False | Some n \<Rightarrow> JNum n) # stale_time 5000\<rparr>"

section \<open>Requests and keys\<close>

inductive admin_query :: "query \<Rightarrow> bool" where
  "admin_query useAdminStats" | "admin_query (useAdminOnboardingAnalytics n)" | "admin_query (useAdminUsers s l off)"
| "admin_query usePrefixPrices" | "admin_query (useAdminBroadcasts fs)" | "admin_query useAdminBroadcastStats"
| "admin_query (useAdminAutoReplies fs)" | "admin_query useAdminSmmProfile" | "admin_query (useAdminSmmServices fs)"
| "admin_query (useAdminSmmOrders fs)" | "admin_query useAdminSmmStats" | "admin_query useAdminSmmSettings"
| "admin_query (useAdminRedeemCodes s pg l)" | "admin_query (useAdminRedeemLogs pg l)"
| "admin_query (useAdminAnalyticsOverview ps)" | "admin_query (useAdminAnalyticsTimeseries m ps)"
| "admin_query (useAdminAnalyticsAutomation ps)" | "admin_query (useAdminUserAnalytics ps)"
| "admin_query (useAdminTelegramAccountsAnalytics ps)" | "admin_query (useAdminTelegramAccountsDirectory ps)"
| "admin_query (useAdminAutomationTasksDirectory ps)" | "admin_query (useAdminFinancialAnalytics ps)"
| "admin_query (useAdminFinancialTransactionsDirectory ps)" | "admin_query (useAdminSystemHealthAnalytics r)"
| "admin_query (useAdminSecurityAnalytics ps)" | "admin_query (useAdminSecurityAuditLogs ps)"

lemmas admin_query_defs = useAdminStats_def useAdminOnboardingAnalytics_def useAdminUsers_def usePrefixPrices_def
  useAdminBroadcasts_def useAdminBroadcastStats_def useAdminAutoReplies_def useAdminSmmProfile_def useAdminSmmServices_def
  useAdminSmmOrders_def useAdminSmmStats_def useAdminSmmSettings_def useAdminRedeemCodes_def useAdminRedeemLogs_def
  useAdminAnalyticsOverview_def useAdminAnalyticsTimeseries_def useAdminAnalyticsAutomation_def useAdminUserAnalytics_def
  useAdminTelegramAccountsAnalytics_def useAdminTelegramAccountsDirectory_def useAdminAutomationTasksDirectory_def
  useAdminFinancialAnalytics_def useAdminFinancialTransactionsDirectory_def useAdminSystemHealthAnalytics_def
  useAdminSecurityAnalytics_def useAdminSecurityAuditLogs_def report_query_def directory_query_def

text \<open>The request a key stands for, read from the key alone.\<close>

definition paged_request :: "string \<Rightarrow> string list \<Rightarrow> object \<Rightarrow> string" where
  "paged_request url ks fs =
     url @ search_string (map (\<lambda>k. (k, int_str (the (num_at fs k)))) ks @ set_truthy ''search'' (str_at fs ''search''))"

fun jstring :: "json \<Rightarrow> string" where
  "jstring (JStr s) = s" | "jstring _ = []"

fun jparams :: "json \<Rightarrow> object option" where
  "jparams (JObj fs) = Some fs" | "jparams _ = None"

definition request_3 :: "string \<Rightarrow> json \<Rightarrow> string" where
  "request_3 b c =
     (if b = ''users'' then paged_request ''/admin/users?'' [''limit'', ''offset''] (entries c)
      else if b = ''redeem-codes'' then paged_request ''/admin/redeem-codes?'' [''page'', ''limit''] (entries c)
      else if b = ''redeem-logs'' then paged_request ''/admin/redeem-logs?'' [''page'', ''limit''] (entries c)
      else if b = ''onboarding-analytics'' then ''/admin/onboarding/analytics?limit='' @ js_String c
      else if b = ''auto-replies'' then ''/admin/auto-replies'' @ (if jstring c \<noteq> [] then ''?'' @ jstring c else [])
      else if b = ''broadcasts'' \<and> c \<noteq> JStr ''stats'' then q_url (useAdminBroadcasts (jparams c))
      else ''/admin/'' @ b @ ''/'' @ jstring c)"

definition request_4 :: "string \<Rightarrow> string \<Rightarrow> json \<Rightarrow> string" where
  "request_4 b c d =
     (if b = ''smm'' then (if c = ''services'' then q_url (useAdminSmmServices (jparams d)) else q_url (useAdminSmmOrders (jparams d)))
      else q_url (report_query c (entries d) 0))"

definition request_5 :: "string \<Rightarrow> string \<Rightarrow> object \<Rightarrow> string" where
  "request_5 c d fs =
     (if c = ''timeseries'' then q_url (useAdminAnalyticsTimeseries d fs)
      else if c = ''telegram-accounts'' then q_url (useAdminTelegramAccountsDirectory fs)
      else if c = ''automation'' then q_url (useAdminAutomationTasksDirectory fs)
      else if c = ''financial'' then q_url (useAdminFinancialTransactionsDirectory fs)
      else q_url (useAdminSecurityAuditLogs fs))"

definition admin_request :: "qkey \<Rightarrow> string" where
  "admin_request k =
     (if length k = 2 then (if k ! 1 = JStr ''stats'' then ''/admin/stats'' else ''/admin/account-prices'')
      else if length k = 3 then request_3 (jstring (k ! 1)) (k ! 2)
      else if length k = 4 then request_4 (jstring (k ! 1)) (jstring (k ! 2)) (k ! 3)
      else request_5 (jstring (k ! 2)) (jstring (k ! 3)) (entries (k ! 4)))"

lemmas admin_request_defs = admin_request_def request_3_def request_4_def request_5_def

lemma params_key_cases:
  "params_key None = JNull" "params_key (Some fs) = JObj fs"
  by (simp_all add: params_key_def key_or_null_def)

lemma paged_request_key:
  "a \<noteq> ''search'' \<Longrightarrow> b \<noteq> ''search'' \<Longrightarrow> a \<noteq> b \<Longrightarrow>
   paged_request url [a, b] (opt_prop ''search'' (map_option JStr s) @ [(a, JNum m), (b, JNum n)]) =
   url @ search_string ([(a, int_str m), (b, int_str n)] @ set_truthy ''search'' s)"
  by (cases s) (simp_all add: paged_request_def num_at_def str_at_def opt_prop_def map_get_def)

lemma admin_request_key: "admin_query q \<Longrightarrow> admin_request (q_key q) = q_url q \<and> q_params q = []"
proof (induction rule: admin_query.induct)
  case (5 fs)
  then show ?case by (cases fs) (simp_all add: admin_request_defs useAdminBroadcasts_def get_query_def Let_def params_key_cases)
next
  case (9 fs)
  then show ?case by (cases fs) (simp_all add: admin_request_defs useAdminSmmServices_def get_query_def Let_def params_key_cases)
next
  case (10 fs)
  then show ?case by (cases fs) (simp_all add: admin_request_defs useAdminSmmOrders_def get_query_def Let_def params_key_cases)
next
  case (14 pg l)
  then show ?case
    by (simp add: admin_request_defs useAdminRedeemLogs_def get_query_def paged_request_def num_at_def str_at_def map_get_def set_truthy_def)
qed (simp_all add: admin_request_defs admin_query_defs get_query_def skey_def Let_def paged_request_key)

text \<open>The administration keys and the others do not meet.\<close>

lemma admin_key_second:
  "admin_query q \<Longrightarrow> hd (q_key q) = JStr ''admin'' \<and>
     (\<exists>b rest. q_key q = JStr ''admin'' # JStr b # rest \<and> b \<notin> {''wallet-transactions'', ''crypto-wallet''})"
  by (induction rule: admin_query.induct) (simp_all add: admin_query_defs get_query_def skey_def Let_def)

lemma data_key_second:
  "data_query q \<Longrightarrow> q_key q = JStr ''admin'' # JStr b # rest \<Longrightarrow> b \<in> {''wallet-transactions'', ''crypto-wallet''}"
  unfolding data_query_def
proof (elim disjE)
  assume q: "commerce_query q" "q_key q = JStr ''admin'' # JStr b # rest"
  then show ?thesis
    by (auto elim!: commerce_queryE simp: commerce_query_defs get_query_def skey_def NOTIFICATIONS_QUERY_KEY_def split: option.splits)
qed (auto dest: key_heads job_key_heads simp: job_heads_def)

section \<open>Properties\<close>

text \<open>C32: two queries of the data hooks that share a cache entry send the same request, so a cached answer is
  never shown for another request; this covers the accounts, broadcasts, jobs, commerce and administration.\<close>

theorem cache_keys_sound:
  assumes "data_query q \<or> admin_query q" "data_query q' \<or> admin_query q'" "q_key q = q_key q'"
  shows "q_url q = q_url q' \<and> q_params q = q_params q'"
proof (cases "admin_query q \<longleftrightarrow> admin_query q'")
  case True
  then show ?thesis
    using assms admin_request_key [of q] admin_request_key [of q'] data_keys_sound [of q q'] by metis
next
  case False
  then obtain r r' where "admin_query r" "data_query r'" "q_key r = q_key r'" using assms by metis
  then show ?thesis using admin_key_second [of r] data_key_second [of r'] by auto
qed

theorem cache_keys_sound_witness:
  "q_url (useAccount ''summary'') = q_url useAccountsSummary \<and> q_params (useAccount ''summary'') = q_params useAccountsSummary"
proof (rule cache_keys_sound)
  show "q_key (useAccount ''summary'') = q_key useAccountsSummary"
    by (simp add: useAccount_def useAccountsSummary_def get_query_def)
qed (auto simp: data_query_def intro: account_query.intros)

text \<open>What a mutation with fixed keys refreshes.\<close>

lemma mutate_refreshes:
  "prefix_matching matches \<Longrightarrow>
   refreshes matches (m_success (mutate meth url body (map skey fs)) answer) q \<longleftrightarrow> list_ex (\<lambda>f. prefix (skey f) (q_key q)) fs"
  unfolding mutate_def mutation.simps by (rule refreshes_skeys)

text \<open>Deleting a user or changing a role refreshes the list of users but not the counts of users by role on the
  same page, while suspending refreshes both.\<close>

theorem user_changes_miss_stats:
  assumes "prefix_matching matches"
  shows "\<not> refreshes matches (m_success (useDeleteUser u) a) useAdminStats
    \<and> \<not> refreshes matches (m_success (useUpdateRole u role) a) useAdminStats
    \<and> refreshes matches (m_success (useSuspendUser u why n) a) useAdminStats
    \<and> refreshes matches (m_success (useDeleteUser u) a) (useAdminUsers s l off)"
  unfolding useDeleteUser_def useUpdateRole_def useSuspendUser_def mutate_refreshes [OF assms]
  by (simp add: useAdminStats_def useAdminUsers_def get_query_def skey_def)

text \<open>Changing a service or the global markup does not refresh the figures that depend on it.\<close>

theorem smm_changes_miss_views:
  assumes "prefix_matching matches"
  shows "\<not> refreshes matches (m_success (useAdminUpdateService i u) a) useAdminSmmStats
    \<and> \<not> refreshes matches (m_success (useAdminUpdateSmmSettings st) a) (useAdminSmmServices opts)
    \<and> refreshes matches (m_success (useAdminUpdateSmmSettings st) a) useAdminSmmSettings"
  unfolding useAdminUpdateService_def smm_services_keys_def useAdminUpdateSmmSettings_def mutate_refreshes [OF assms]
  by (simp add: useAdminSmmStats_def useAdminSmmServices_def useAdminSmmSettings_def get_query_def Let_def skey_def)

end
