(* ===== verification/ActivityHooks.thy ===== *)
theory ActivityHooks
  imports AdminHooks
begin

text \<open>
  The activity history, \<open>src/frontend/src/hooks/use-activity-history.ts\<close>, with the conversion of its answer, and the
  cache updates of \<open>use-twofa-status-sync.ts\<close>.  A \<open>Date\<close> is not a JSON value; what \<open>new Date\<close> makes of a text
  is the argument \<open>date\<close>.
\<close>

section \<open>use-activity-history.ts\<close>

record activity_params =
  ah_tab :: "string option"
  ah_search :: "string option"
  ah_status :: "string option"
  ah_startDate :: "string option"
  ah_endDate :: "string option"
  ah_sortBy :: "string option"
  ah_sortOrder :: "string option"
  ah_page :: "int option"
  ah_pageSize :: "int option"
  ah_locale :: "string option"

definition default_to :: "'a option \<Rightarrow> 'a \<Rightarrow> 'a" where
  "default_to v d = (case v of None \<Rightarrow> d | Some x \<Rightarrow> x)"

definition activity_key :: "activity_params \<Rightarrow> object" where
  "activity_key p =
     [(''tab'', JStr (default_to (ah_tab p) ''all'')), (''search'', JStr (default_to (ah_search p) [])),
      (''status'', JStr (default_to (ah_status p) ''all''))]
     @ opt_prop ''startDate'' (map_option JStr (ah_startDate p)) @ opt_prop ''endDate'' (map_option JStr (ah_endDate p))
     @ [(''sortBy'', JStr (default_to (ah_sortBy p) ''date'')), (''sortOrder'', JStr (default_to (ah_sortOrder p) ''desc'')),
        (''page'', JNum (default_to (ah_page p) 1)), (''pageSize'', JNum (default_to (ah_pageSize p) 10)),
        (''locale'', JStr (default_to (ah_locale p) ''id''))]"

definition set_if :: "string \<Rightarrow> string \<Rightarrow> (string \<times> string) list" where
  "set_if k v = (if v \<noteq> [] then [(k, v)] else [])"

definition activity_search :: "activity_params \<Rightarrow> (string \<times> string) list" where
  "activity_search p =
     set_if ''tab'' (default_to (ah_tab p) ''all'')
     @ set_if ''search'' (trim (default_to (ah_search p) []))
     @ (let status = default_to (ah_status p) ''all'' in if status = ''all'' then [] else set_if ''status'' status)
     @ set_if ''start_date'' (default_to (ah_startDate p) []) @ set_if ''end_date'' (default_to (ah_endDate p) [])
     @ set_if ''sort_by'' (default_to (ah_sortBy p) ''date'') @ set_if ''sort_order'' (default_to (ah_sortOrder p) ''desc'')
     @ [(''page'', int_str (default_to (ah_page p) 1)), (''page_size'', int_str (default_to (ah_pageSize p) 10)),
        (''locale'', default_to (ah_locale p) ''id'')]"

text \<open>An object built from properties of another one, as \<open>{ a: it.x, b: it.y }\<close>.\<close>

definition pick :: "(string \<times> string) list \<Rightarrow> json \<Rightarrow> object" where
  "pick names it = concat (map (\<lambda>(new, old). opt_prop new (jget it old)) names)"

definition or_undefined :: "json option \<Rightarrow> json option" where
  "or_undefined v = (if opt_truthy v then v else None)"

definition activity_item :: "(json option \<Rightarrow> json) \<Rightarrow> json \<Rightarrow> json option" where
  "activity_item date it =
     (if it = JNull then None
      else Some (JObj
        (pick [(''id'', ''id''), (''orderIdDisplay'', ''order_id_display''), (''type'', ''type''), (''typeName'', ''type_name''),
               (''serviceName'', ''service_name''), (''serviceSublabel'', ''service_sublabel''), (''detail'', ''detail''),
               (''quantityDisplay'', ''quantity_display''), (''quantityRaw'', ''quantity_raw''), (''priceDisplay'', ''price_display''),
               (''priceRaw'', ''price_raw''), (''status'', ''status''), (''statusRaw'', ''status_raw'')] it
         @ [(''dateRaw'', date (jget it ''created_at''))]
         @ pick [(''dateStr'', ''date_str''), (''timeStr'', ''time_str''), (''telegramId'', ''telegram_id''), (''phone'', ''phone''),
                 (''smmOrderId'', ''smm_order_id''), (''remains'', ''remains''), (''startCount'', ''start_count'')] it
         @ opt_prop ''targetUrl'' (or_undefined (jget it ''target_url''))
         @ opt_prop ''paymentMethod'' (or_undefined (jget it ''payment_method''))
         @ opt_prop ''adminNote'' (or_undefined (jget it ''admin_note''))
         @ [(''originalItem'', it)])))"

definition activity_metrics :: "json \<Rightarrow> json option" where
  "activity_metrics m =
     (if m = JNull then None
      else Some (JObj (pick [(''totalOrders'', ''total_orders''), (''totalAccounts'', ''total_accounts''), (''totalSmm'', ''total_smm''),
        (''totalDeposits'', ''total_deposits''), (''totalWithdrawals'', ''total_withdrawals''), (''totalBalanceAdj'', ''total_balance_adj''),
        (''totalSpend'', ''total_spend''), (''inProgressCount'', ''in_progress_count''), (''completedCount'', ''completed_count''),
        (''successRate'', ''success_rate'')] m)))"

definition activity_pagination :: "json \<Rightarrow> json option" where
  "activity_pagination g =
     (if g = JNull then None
      else Some (JObj (pick [(''page'', ''page''), (''pageSize'', ''page_size''), (''totalItems'', ''total_items''),
        (''totalPages'', ''total_pages'')] g)))"

text \<open>The conversion throws, and the query fails, when a part of the answer is missing.\<close>

definition activity_result :: "(json option \<Rightarrow> json) \<Rightarrow> json \<Rightarrow> json option" where
  "activity_result date data =
     (case (jget data ''items'', jget data ''metrics'', jget data ''pagination'') of
        (Some (JArr its), Some m, Some g) \<Rightarrow>
          (case (those (map (activity_item date) its), activity_metrics m, activity_pagination g) of
             (Some items, Some metrics, Some pagination) \<Rightarrow>
               Some (JObj [(''items'', JArr items), (''metrics'', metrics), (''pagination'', pagination)])
           | _ \<Rightarrow> None)
      | _ \<Rightarrow> None)"

definition useActivityHistory :: "(json option \<Rightarrow> json) \<Rightarrow> activity_params \<Rightarrow> query" where
  "useActivityHistory date p =
     (get_query [JStr ''orders'', JStr ''activity-history'', JObj (activity_key p)]
        (''/orders/activity-history?'' @ search_string (activity_search p)))
     \<lparr>q_result := activity_result date, q_options := stale_time 30000\<rparr>"

section \<open>use-twofa-status-sync.ts\<close>

text \<open>The cached answers by key.\<close>

type_synonym answers = "qkey \<Rightarrow> json option"

definition or_null :: "json option \<Rightarrow> json" where
  "or_null v = (case v of None \<Rightarrow> JNull | Some x \<Rightarrow> x)"

definition twofa_status :: "json \<Rightarrow> json" where
  "twofa_status data =
     JObj [(''enabled'', JBool (opt_truthy (jget data ''enabled''))), (''live_checked'', JBool True),
       (''has_recovery'', or_null (jget data ''has_recovery'')), (''hint'', or_null (jget data ''hint'')),
       (''login_email_pattern'', or_null (jget data ''login_email_pattern'')),
       (''unconfirmed_email_pattern'', or_null (jget data ''unconfirmed_email_pattern'')),
       (''synced_at'', or_null (jget data ''synced_at''))]"

definition twofa_handler :: "string \<Rightarrow> json \<Rightarrow> answers \<Rightarrow> answers" where
  "twofa_handler accountId data c =
     (if jget data ''type'' \<noteq> Some (JStr ''twofa_status_sync'') \<or> jget data ''account_id'' \<noteq> Some (JStr accountId) then c
      else
        let status = twofa_status data;
            c1 = c(skey [''2fa'', accountId] \<mapsto> status)
        in case c1 (skey [''accounts'', accountId]) of
             None \<Rightarrow> c1
           | Some account \<Rightarrow>
               if jtruthy account
               then c1(skey [''accounts'', accountId] \<mapsto>
                        JObj (spread (entries account) (opt_prop ''twofa_enabled'' (jget status ''enabled''))))
               else c1)"

section \<open>Properties\<close>

text \<open>Defaults and what is sent are determined by the key.\<close>

lemma activity_key_reads:
  "str_at (activity_key p) ''tab'' = Some (default_to (ah_tab p) ''all'')"
  "str_at (activity_key p) ''search'' = Some (default_to (ah_search p) [])"
  "str_at (activity_key p) ''status'' = Some (default_to (ah_status p) ''all'')"
  "str_at (activity_key p) ''startDate'' = ah_startDate p" "str_at (activity_key p) ''endDate'' = ah_endDate p"
  "str_at (activity_key p) ''sortBy'' = Some (default_to (ah_sortBy p) ''date'')"
  "str_at (activity_key p) ''sortOrder'' = Some (default_to (ah_sortOrder p) ''desc'')"
  "num_at (activity_key p) ''page'' = Some (default_to (ah_page p) 1)"
  "num_at (activity_key p) ''pageSize'' = Some (default_to (ah_pageSize p) 10)"
  "str_at (activity_key p) ''locale'' = Some (default_to (ah_locale p) ''id'')"
  by (simp_all add: activity_key_def str_at_def num_at_def read_back split: option.splits)

theorem activity_key_sound:
  assumes "q_key (useActivityHistory date p) = q_key (useActivityHistory date' p')"
  shows "q_url (useActivityHistory date p) = q_url (useActivityHistory date' p')"
proof -
  have k: "activity_key p = activity_key p'" using assms by (simp add: useActivityHistory_def get_query_def)
  have "activity_search p = activity_search p'"
    using activity_key_reads [of p] activity_key_reads [of p'] unfolding k by (simp add: activity_search_def)
  then show ?thesis by (simp add: useActivityHistory_def get_query_def)
qed

text \<open>Two searches that differ in surrounding white space send one request but are cached apart.\<close>

theorem activity_search_cached_twice:
  "q_url (useActivityHistory date (p\<lparr>ah_search := Some '' a''\<rparr>)) = q_url (useActivityHistory date (p\<lparr>ah_search := Some ''a''\<rparr>))"
  "q_key (useActivityHistory date (p\<lparr>ah_search := Some '' a''\<rparr>)) \<noteq> q_key (useActivityHistory date (p\<lparr>ah_search := Some ''a''\<rparr>))"
proof -
  have "trim '' a'' = trim ''a''" by code_simp
  then show "q_url (useActivityHistory date (p\<lparr>ah_search := Some '' a''\<rparr>)) = q_url (useActivityHistory date (p\<lparr>ah_search := Some ''a''\<rparr>))"
    by (simp add: useActivityHistory_def get_query_def activity_search_def default_to_def)
qed (simp add: useActivityHistory_def get_query_def activity_key_def default_to_def)

text \<open>After a status event of the account both cached views agree on whether two-factor authentication is on, and
  nothing else in the cache has changed.\<close>

lemma spread_one: "map_get (spread fs [(k, v)]) k = Some v"
  by (simp add: spread_def)

theorem twofa_sync_agrees:
  assumes "jget data ''type'' = Some (JStr ''twofa_status_sync'')" "jget data ''account_id'' = Some (JStr i)"
    "c (skey [''accounts'', i]) = Some account" "jtruthy account"
  shows "\<exists>status view. twofa_handler i data c (skey [''2fa'', i]) = Some status
    \<and> twofa_handler i data c (skey [''accounts'', i]) = Some view
    \<and> jget status ''enabled'' = jget view ''twofa_enabled''
    \<and> (\<forall>k. k \<noteq> skey [''2fa'', i] \<longrightarrow> k \<noteq> skey [''accounts'', i] \<longrightarrow> twofa_handler i data c k = c k)"
proof -
  have ne: "skey [''accounts'', i] \<noteq> skey [''2fa'', i]" by (simp add: skey_def)
  have en: "jget (twofa_status data) ''enabled'' = Some (JBool (opt_truthy (jget data ''enabled'')))"
    by (simp add: twofa_status_def map_get_def)
  show ?thesis
    using assms ne by (simp add: twofa_handler_def en opt_prop_def spread_one)
qed

end
