(* ===== verification/Helpers.thy ===== *)
theory Helpers
  imports JsNumber JsUri "HOL-Library.Word"
begin

text \<open>
  Small pure modules: \<open>components/orders/smm-quantity.ts\<close>, the join plan
  \<open>app/(dashboard)/groups-channels/auto-join/autoJoinTaskPlan.ts\<close>, \<open>lib/avatar.ts\<close>,
  \<open>lib/telegram-target.ts\<close> and \<open>lib/safe-url.ts\<close> under \<open>src/frontend/src\<close>.
\<close>

section \<open>smm-quantity.ts\<close>

definition parseQuantityInput :: "string \<Rightarrow> int option" where
  "parseQuantityInput raw = (let trimmed = trim raw in if trimmed = [] then None else parseInt10 trimmed)"

definition clampQuantity :: "string \<Rightarrow> int \<Rightarrow> int \<Rightarrow> int" where
  "clampQuantity raw mn mx = (case parseQuantityInput raw of None \<Rightarrow> mn | Some parsed \<Rightarrow> min mx (max mn parsed))"

definition needsClamp :: "string \<Rightarrow> int \<Rightarrow> int \<Rightarrow> bool" where
  "needsClamp raw mn mx = (case parseQuantityInput raw of None \<Rightarrow> True | Some parsed \<Rightarrow> parsed < mn \<or> parsed > mx)"

section \<open>autoJoinTaskPlan.ts\<close>

text \<open>An element of an array is an object, compared by identity.  Indexing beyond the array, as
  \<open>accounts[idx % accounts.length]\<close> does when there is no account, gives \<open>undefined\<close>.\<close>

datatype distribution_mode = AllMode | Distribute

record ('a, 't) join_task =
  task_account :: "'a option"
  task_target :: 't

definition js_index :: "'a list \<Rightarrow> nat \<Rightarrow> 'a option" where
  "js_index xs i = (if i < length xs then Some (xs ! i) else None)"

definition buildJoinTasks :: "'t list \<Rightarrow> 'a list \<Rightarrow> distribution_mode \<Rightarrow> ('a, 't) join_task list" where
  "buildJoinTasks targets accounts mode =
     (case mode of
        AllMode \<Rightarrow> concat (map (\<lambda>target. map (\<lambda>account. \<lparr>task_account = Some account, task_target = target\<rparr>) accounts) targets)
      | Distribute \<Rightarrow>
          map (\<lambda>(idx, target).
                \<lparr>task_account = (if accounts = [] then None else js_index accounts (idx mod length accounts)),
                 task_target = target\<rparr>)
            (zip [0..<length targets] targets))"

definition shouldDelayBeforeNext :: "('a, 't) join_task list \<Rightarrow> nat \<Rightarrow> bool" where
  "shouldDelayBeforeNext tasks index =
     (case js_index tasks (index + 1) of
        None \<Rightarrow> False
      | Some nxt \<Rightarrow> task_target nxt \<noteq> task_target (tasks ! index))"

definition countDelays :: "('a, 't) join_task list \<Rightarrow> nat" where
  "countDelays tasks = foldl (\<lambda>delays i. if shouldDelayBeforeNext tasks i then delays + 1 else delays) 0 [0..<length tasks]"

section \<open>avatar.ts\<close>

definition TELEGRAM_AVATAR_COLORS :: "string list" where
  "TELEGRAM_AVATAR_COLORS = [''#D45246'', ''#F68136'', ''#6C61DF'', ''#46BA43'', ''#28C9B7'', ''#408ACF'', ''#D95574'']"

text \<open>\<open>version ?? 0\<close> in a template.\<close>

definition version_str :: "int option \<Rightarrow> string" where
  "version_str v = int_str (case v of None \<Rightarrow> 0 | Some n \<Rightarrow> n)"

definition getAccountPhotoUrl :: "string \<Rightarrow> string \<Rightarrow> int option \<Rightarrow> string" where
  "getAccountPhotoUrl baseUrl accountId version = baseUrl @ ''/accounts/'' @ accountId @ ''/photo?v='' @ version_str version"

definition getChatPhotoUrl :: "string \<Rightarrow> string \<Rightarrow> int \<Rightarrow> int option \<Rightarrow> string" where
  "getChatPhotoUrl baseUrl accountId chatId version =
     baseUrl @ ''/accounts/'' @ accountId @ ''/chats/'' @ int_str chatId @ ''/photo?v='' @ version_str version"

text \<open>One optional character at the beginning.\<close>

definition strip1 :: "char \<Rightarrow> string \<Rightarrow> string" where
  "strip1 p s = (if s \<noteq> [] \<and> hd s = p then tl s else s)"

definition getPublicChatPhotoUrl :: "string \<Rightarrow> string \<Rightarrow> string" where
  "getPublicChatPhotoUrl baseUrl username =
     (let cleanUsername = trim (strip1 (CHR ''@'') username)
      in baseUrl @ ''/chats/public/'' @ encodeURIComponent cleanUsername @ ''/photo'')"

text \<open>\<open>hash = (hash * 31 + code) | 0\<close>: a 32-bit signed integer.  The product is below \<open>2\<^sup>5\<^sup>3\<close>, so
  no digit is lost before the truncation.\<close>

definition stableHash :: "string \<Rightarrow> 32 word" where
  "stableHash value = foldl (\<lambda>hash c. hash * 31 + of_nat (of_char c)) 0 value"

definition getTelegramAvatarColor :: "string \<Rightarrow> int option \<Rightarrow> string" where
  "getTelegramAvatarColor stableId colorId =
     (let value = (case colorId of None \<Rightarrow> sint (stableHash stableId) | Some c \<Rightarrow> c)
      in TELEGRAM_AVATAR_COLORS ! nat (\<bar>value\<bar> mod int (length TELEGRAM_AVATAR_COLORS)))"

text \<open>\<open>toUpperCase\<close> of one code unit: the sharp s becomes two letters, the micro sign and \<open>y\<close> with
  diaeresis leave the Latin-1 range and are kept here.\<close>

definition upper_char :: "char \<Rightarrow> string" where
  "upper_char c =
     (let n = of_char c :: nat
      in if n = 223 then ''SS''
         else if (97 \<le> n \<and> n \<le> 122) \<or> (224 \<le> n \<and> n \<le> 246) \<or> (248 \<le> n \<and> n \<le> 254) then [char_of (n - 32)] else [c])"

definition toUpperCase :: "string \<Rightarrow> string" where "toUpperCase s = concat (map upper_char s)"

definition getAvatarInitial :: "string option \<Rightarrow> string option \<Rightarrow> string" where
  "getAvatarInitial firstName fallback =
     (let name = the (opt_or firstName (opt_or fallback (Some ''T'')))
      in or_str (case trim name of [] \<Rightarrow> [] | c # _ \<Rightarrow> upper_char c) ''T'')"

section \<open>telegram-target.ts\<close>

definition link_char :: "char \<Rightarrow> bool" where
  "link_char c = (is_alpha c \<or> is_digit c \<or> c \<in> set ''_+/=?.&-'')"

text \<open>The three regular expressions; the first one has six possible beginnings.\<close>

definition tme_prefixes :: "string list" where
  "tme_prefixes =
     [''t.me/'', ''telegram.me/'', ''http://t.me/'', ''http://telegram.me/'', ''https://t.me/'', ''https://telegram.me/'']"

definition tme_link :: "string \<Rightarrow> bool" where
  "tme_link s = list_ex (\<lambda>p. startsWith s p \<and> drop (length p) s \<noteq> [] \<and> list_all link_char (drop (length p) s))
     tme_prefixes"

definition username_re :: "string \<Rightarrow> bool" where
  "username_re s =
     (let u = strip1 (CHR ''@'') s
      in case u of [] \<Rightarrow> False | c # r \<Rightarrow> is_alpha c \<and> list_all is_word r \<and> 2 \<le> length r \<and> length r \<le> 63)"

definition numeric_id_re :: "string \<Rightarrow> bool" where
  "numeric_id_re s =
     (let d = strip1 (CHR ''-'') s
      in list_all is_digit d \<and> 1 \<le> length d \<and> length d \<le> 20)"

definition isValidTelegramTarget :: "string option \<Rightarrow> bool" where
  "isValidTelegramTarget value =
     (let target = trim (case value of None \<Rightarrow> [] | Some v \<Rightarrow> v)
      in if target = [] \<or> length target > 500 then False
         else if list_ex (\<lambda>c. c \<in> set [CHR ''<'', CHR ''>'', CHR 0x22, CHR 0x27, CHR 0x60, CHR 0x5C]) target
           \<or> list_ex (\<lambda>c. (of_char c :: nat) \<le> 31) target then False
         else tme_link target \<or> username_re target \<or> numeric_id_re target)"

section \<open>safe-url.ts\<close>

definition safeHttpUrl :: "string option \<Rightarrow> string option" where
  "safeHttpUrl url =
     (if \<not> truthy url then None
      else
        let trimmed = trim (the url); low = toLowerCase trimmed
        in if startsWith low ''http://'' \<or> startsWith low ''https://'' then Some trimmed else None)"

section \<open>Lemmas\<close>

subsection \<open>Quantities\<close>

lemma trim_no_ws: "list_all (\<lambda>c. \<not> is_ws c) s \<Longrightarrow> trim s = s"
proof -
  have keep: "list_all (\<lambda>c. \<not> is_ws c) t \<Longrightarrow> dropWhile is_ws t = t" for t by (cases t) auto
  assume "list_all (\<lambda>c. \<not> is_ws c) s"
  then show ?thesis using keep [of s] keep [of "rev s"] by (simp add: trim_def list_all_iff)
qed

lemma trim_int_str [simp]: "trim (int_str i) = int_str i"
proof -
  have "list_all (\<lambda>c. \<not> is_ws c) (nat_str n)" for n
    using nat_str_digits [of n] digit_not_special(1) by (auto simp: list_all_iff)
  then show ?thesis by (intro trim_no_ws) (simp add: int_str_def is_ws_def)
qed

lemma int_str_nonempty [simp]: "int_str i \<noteq> []"
  by (simp add: int_str_def)

lemma parse_printed: "parseQuantityInput (int_str i) = Some i"
  by (simp add: parseQuantityInput_def)

subsection \<open>The join plan\<close>

fun changes :: "'t list \<Rightarrow> nat" where
  "changes (x # y # zs) = (if y \<noteq> x then 1 else 0) + changes (y # zs)"
| "changes _ = 0"

lemma foldl_count: "foldl (\<lambda>d i. if P i then d + 1 else d) n xs = n + length (filter P xs)"
  by (induction xs arbitrary: n) auto

lemma delay_Cons: "shouldDelayBeforeNext (x # xs) (Suc i) = shouldDelayBeforeNext xs i"
  by (simp add: shouldDelayBeforeNext_def js_index_def)

lemma countDelays_changes: "countDelays tasks = changes (map task_target tasks)"
proof -
  have "length (filter (shouldDelayBeforeNext tasks) [0..<length tasks]) = changes (map task_target tasks)"
  proof (induction tasks)
    case (Cons x xs)
    have "[0..<length (x # xs)] = 0 # map Suc [0..<length xs]" by (simp add: upt_conv_Cons map_Suc_upt del: upt_Suc)
    then have "length (filter (shouldDelayBeforeNext (x # xs)) [0..<length (x # xs)])
        = (if shouldDelayBeforeNext (x # xs) 0 then 1 else 0) + changes (map task_target xs)"
      using Cons.IH by (simp add: filter_map comp_def delay_Cons)
    moreover have "(if shouldDelayBeforeNext (x # xs) 0 then 1 else 0) + changes (map task_target xs)
        = changes (map task_target (x # xs))"
      by (cases xs) (simp_all add: shouldDelayBeforeNext_def js_index_def)
    ultimately show ?case by (simp only:)
  qed simp
  then show ?thesis unfolding countDelays_def by (simp add: foldl_count)
qed

lemma changes_distinct: "distinct ts \<Longrightarrow> changes ts = length ts - 1"
  by (induction ts rule: changes.induct) auto

lemma changes_replicate: "0 < n \<Longrightarrow> changes (replicate n t @ r) = changes (t # r)"
proof (induction n)
  case (Suc n)
  then show ?case by (cases n) auto
qed simp

lemma changes_blocks: "0 < n \<Longrightarrow> changes (concat (map (replicate n) ts)) = changes ts"
proof (induction ts rule: changes.induct)
  case (1 x y zs)
  obtain k where k: "n = Suc k" using 1(2) gr0_implies_Suc by blast
  have "concat (map (replicate n) (y # zs)) = y # replicate k y @ concat (map (replicate n) zs)" by (simp add: k)
  then show ?case using 1 changes_replicate [OF 1(2), of x "concat (map (replicate n) (y # zs))"] by simp
qed (use changes_replicate [of n _ "[]"] in auto)

lemma targets_all:
  "map task_target (buildJoinTasks ts as AllMode) = concat (map (replicate (length as)) ts)"
  by (induction ts) (simp_all add: buildJoinTasks_def comp_def map_replicate_const)

lemma targets_distribute: "map task_target (buildJoinTasks ts as Distribute) = ts"
  by (simp add: buildJoinTasks_def comp_def case_prod_beta)

section \<open>Properties\<close>

text \<open>A clamped quantity lies in the service's range, equals the number typed when that needs no
  clamp, and printed back into the field needs no further clamp.\<close>

theorem quantity_clamped:
  assumes "mn \<le> mx"
  shows "mn \<le> clampQuantity raw mn mx \<and> clampQuantity raw mn mx \<le> mx
    \<and> (needsClamp raw mn mx \<or> parseQuantityInput raw = Some (clampQuantity raw mn mx))
    \<and> \<not> needsClamp (int_str (clampQuantity raw mn mx)) mn mx"
  using assms by (auto simp: clampQuantity_def needsClamp_def parse_printed split: option.splits)

theorem quantity_clamped_witness:
  "clampQuantity ''7'' 10 500 = 10 \<and> \<not> needsClamp (int_str (clampQuantity ''7'' 10 500)) 10 500"
proof -
  have "clampQuantity ''7'' 10 500 = 10" by code_simp
  then show ?thesis using quantity_clamped [of 10 500 "''7''"] by simp
qed

text \<open>In both modes a plan over distinct groups pauses exactly between groups, one pause less than
  there are groups; it joins every selected account to every group, or every group once.\<close>

theorem join_plan_delays:
  assumes "distinct targets" "accounts \<noteq> []"
  shows "countDelays (buildJoinTasks targets accounts mode) = length targets - 1
    \<and> (mode = AllMode \<and> (\<lambda>t. (task_account t, task_target t)) ` set (buildJoinTasks targets accounts mode)
          = Some ` set accounts \<times> set targets
       \<or> mode = Distribute \<and> map task_target (buildJoinTasks targets accounts mode) = targets
          \<and> list_all (\<lambda>t. task_account t \<in> Some ` set accounts) (buildJoinTasks targets accounts mode))"
proof (cases mode)
  case AllMode
  then show ?thesis
    using assms by (auto simp: countDelays_changes targets_all changes_blocks changes_distinct)
      (force simp: buildJoinTasks_def)+
next
  case Distribute
  have "list_all (\<lambda>t. task_account t \<in> Some ` set accounts) (buildJoinTasks targets accounts Distribute)"
    using assms(2) by (auto simp: buildJoinTasks_def list_all_iff js_index_def)
  then show ?thesis
    using assms Distribute by (simp add: countDelays_changes targets_distribute changes_distinct)
qed

theorem join_plan_delays_witness:
  "countDelays (buildJoinTasks [''g1'', ''g2'', ''g3''] [''a'', ''b''] AllMode) = 2
   \<and> countDelays (buildJoinTasks [''g1'', ''g2'', ''g3''] [''a'', ''b''] Distribute) = 2"
  using join_plan_delays [of "[''g1'', ''g2'', ''g3'']" "[''a'', ''b'']" AllMode]
    join_plan_delays [of "[''g1'', ''g2'', ''g3'']" "[''a'', ''b'']" Distribute] by simp

text \<open>Every account gets one of the seven colours, whatever its id hashes to.\<close>

lemma avatar_color_member: "getTelegramAvatarColor i c \<in> set TELEGRAM_AVATAR_COLORS"
proof -
  have "nat (\<bar>v\<bar> mod int (length TELEGRAM_AVATAR_COLORS)) < length TELEGRAM_AVATAR_COLORS" for v :: int
    by (simp add: TELEGRAM_AVATAR_COLORS_def nat_less_iff)
  then show ?thesis by (simp add: getTelegramAvatarColor_def Let_def)
qed

definition target_char :: "char \<Rightarrow> bool" where
  "target_char c = (link_char c \<or> c = CHR ''@'' \<or> c = CHR '':'')"

text \<open>An accepted target has 1 to 500 characters, all of them letters, digits or one of
  \<open>_+/=?.&-@:\<close>: no space, quote or markup passes.\<close>

theorem valid_target_is_clean:
  assumes "isValidTelegramTarget input"
  shows "\<exists>v. input = Some v \<and> list_all target_char (trim v) \<and> 1 \<le> length (trim v) \<and> length (trim v) \<le> 500"
proof -
  obtain v where v: "input = Some v" using assms by (cases input) (auto simp: isValidTelegramTarget_def trim_def)
  define t where "t = trim v"
  have t: "t \<noteq> []" "length t \<le> 500" "tme_link t \<or> username_re t \<or> numeric_id_re t"
    using assms v by (auto simp: isValidTelegramTarget_def t_def Let_def split: if_splits)
  have word: "is_word c \<Longrightarrow> target_char c" "is_digit c \<Longrightarrow> target_char c" "is_alpha c \<Longrightarrow> target_char c" for c
    by (auto simp: target_char_def link_char_def is_word_def)
  have pre: "list_all target_char p" if "p \<in> set tme_prefixes" for p
    using that by (auto simp: tme_prefixes_def target_char_def link_char_def is_alpha_def)
  have strip: "list_all target_char (strip1 p u) \<Longrightarrow> target_char p \<Longrightarrow> list_all target_char u" for p u
    by (cases u) (auto simp: strip1_def split: if_splits)
  have "list_all target_char t" using t(3)
  proof (elim disjE)
    assume "tme_link t"
    then obtain p r where "t = p @ r" "list_all link_char r"
"p \<in> set tme_prefixes"
      by (auto simp: tme_link_def startsWith_iff list_ex_iff)
    then show ?thesis using pre by (auto simp: target_char_def list_all_iff)
  next
    assume "username_re t"
    then have "list_all target_char (strip1 (CHR ''@'') t)"
      by (auto simp: username_re_def Let_def list_all_iff word split: list.splits)
    then show ?thesis by (rule strip) (simp add: target_char_def)
  next
    assume "numeric_id_re t"
    then have "list_all target_char (strip1 (CHR ''-'') t)"
      by (auto simp: numeric_id_re_def Let_def list_all_iff word)
    then show ?thesis by (rule strip) (simp add: target_char_def link_char_def)
  qed
  then show ?thesis using v t by (auto simp: t_def Suc_le_eq)
qed

theorem valid_target_is_clean_witness:
  "\<exists>v. Some '' https://t.me/news '' = Some v \<and> list_all target_char (trim v) \<and> 1 \<le> length (trim v) \<and> length (trim v) \<le> 500"
  by (rule valid_target_is_clean) code_simp

text \<open>A URL that passes \<open>safeHttpUrl\<close> starts with an http scheme, so no other scheme reaches a link.\<close>

lemma safe_url_scheme:
  "safeHttpUrl u = Some s \<Longrightarrow> startsWith (toLowerCase s) ''http://'' \<or> startsWith (toLowerCase s) ''https://''"
  by (auto simp: safeHttpUrl_def Let_def split: if_splits)

end
