(* ===== verification/VoiceRecorder.thy ===== *)
theory VoiceRecorder
  imports Prelude
begin

text \<open>
  Voice notes of the message pane, \<open>startRecording\<close>, \<open>stopRecording\<close> and the cleanup effect of
  \<open>src/frontend/src/components/chat/MessagePane.tsx\<close>.

  The microphone streams and the recorders are numbered by creation; the two callbacks of a recorder close
  over the stream of the same number and share the array \<open>audioChunksRef.current\<close>.  \<open>MediaRecorder\<close> is a
  browser interface: started without a time slice it gathers the data itself; \<open>stop\<close> makes it inactive
  and queues a task that fires \<open>dataavailable\<close> with everything gathered and then \<open>stop\<close>.  Sound is a list of
  bytes.  The reply of \<open>getUserMedia\<close> is the argument \<open>granted\<close>.
\<close>

datatype recorder_state = RecInactive | RecRecording

record recorder =
  rec_state :: recorder_state
  gathered :: "nat list"

datatype rec_event = DataAvailable "nat list" | RecStopped nat

record voice =
  vr_recorders :: "recorder list"
  vr_live :: "bool list"
  mediaRecorderRef :: "nat option"
  mediaStreamRef :: "nat option"
  audioChunksRef :: "nat list list"
  isRecording :: bool
  vr_queue :: "rec_event list"
  voice_sent :: "nat list list"

definition new_voice :: voice where
  "new_voice = \<lparr>vr_recorders = [], vr_live = [], mediaRecorderRef = None, mediaStreamRef = None,
     audioChunksRef = [], isRecording = False, vr_queue = [], voice_sent = []\<rparr>"

section \<open>Operations\<close>

definition startRecording :: "bool \<Rightarrow> voice \<Rightarrow> voice" where
  "startRecording granted s =
     (if \<not> granted then s
      else
        let i = length (vr_recorders s)
        in s\<lparr>vr_live := vr_live s @ [True], mediaStreamRef := Some i,
             vr_recorders := vr_recorders s @ [\<lparr>rec_state = RecRecording, gathered = []\<rparr>],
             mediaRecorderRef := Some i, audioChunksRef := [], isRecording := True\<rparr>)"

definition recorder_stop :: "nat \<Rightarrow> voice \<Rightarrow> voice" where
  "recorder_stop i s =
     (let r = vr_recorders s ! i
      in s\<lparr>vr_recorders := (vr_recorders s)[i := r\<lparr>rec_state := RecInactive\<rparr>],
           vr_queue := vr_queue s @ [DataAvailable (gathered r), RecStopped i]\<rparr>)"

definition stop_stream :: "voice \<Rightarrow> voice" where
  "stop_stream s =
     (case mediaStreamRef s of
        None \<Rightarrow> s
      | Some i \<Rightarrow> s\<lparr>vr_live := (vr_live s)[i := False], mediaStreamRef := None\<rparr>)"

definition stop_recorder :: "bool \<Rightarrow> voice \<Rightarrow> voice" where
  "stop_recorder shouldSend s =
     (case mediaRecorderRef s of
        None \<Rightarrow> s
      | Some i \<Rightarrow>
          if rec_state (vr_recorders s ! i) \<noteq> RecInactive
          then recorder_stop i (if shouldSend then s else s\<lparr>audioChunksRef := []\<rparr>)
          else s)"

definition stopRecording :: "bool \<Rightarrow> voice \<Rightarrow> voice" where
  "stopRecording shouldSend s = (stop_stream (stop_recorder shouldSend s))\<lparr>isRecording := False\<rparr>"

text \<open>The effect's cleanup; the component is gone afterwards and shows no banner.\<close>

definition voice_cleanup :: "voice \<Rightarrow> voice" where
  "voice_cleanup s = (stop_stream (stop_recorder False s))\<lparr>isRecording := False\<rparr>"

definition ondataavailable :: "nat list \<Rightarrow> voice \<Rightarrow> voice" where
  "ondataavailable data s = (if length data > 0 then s\<lparr>audioChunksRef := audioChunksRef s @ [data]\<rparr> else s)"

definition onstop :: "nat \<Rightarrow> voice \<Rightarrow> voice" where
  "onstop i s =
     (let s1 = (if length (audioChunksRef s) > 0
                then s\<lparr>voice_sent := voice_sent s @ [concat (audioChunksRef s)]\<rparr> else s);
          s2 = s1\<lparr>vr_live := (vr_live s1)[i := False]\<rparr>
      in if mediaStreamRef s2 = Some i then s2\<lparr>mediaStreamRef := None\<rparr> else s2)"

fun fire :: "rec_event \<Rightarrow> voice \<Rightarrow> voice" where
  "fire (DataAvailable data) s = ondataavailable data s"
| "fire (RecStopped i) s = onstop i s"

text \<open>The microphone delivers sound to every recorder that records.\<close>

definition capture :: "nat list \<Rightarrow> voice \<Rightarrow> voice" where
  "capture data s =
     s\<lparr>vr_recorders := map (\<lambda>r. if rec_state r = RecRecording then r\<lparr>gathered := gathered r @ data\<rparr> else r) (vr_recorders s)\<rparr>"

text \<open>The event loop runs the queued events in order.\<close>

definition drain :: "voice \<Rightarrow> voice" where
  "drain s = fold fire (vr_queue s) (s\<lparr>vr_queue := []\<rparr>)"

section \<open>The machine\<close>

text \<open>The button that starts a recording is shown only while none runs; the banner that stops it only while one
  runs.\<close>

inductive voice_step :: "voice \<Rightarrow> unit \<Rightarrow> voice \<Rightarrow> bool" where
  starts: "\<not> isRecording s \<Longrightarrow> voice_step s () (startRecording granted s)"
| stops: "isRecording s \<Longrightarrow> voice_step s () (stopRecording shouldSend s)"
| cleans: "voice_step s () (voice_cleanup s)"
| hears: "voice_step s () (capture data s)"
| fires: "vr_queue s = e # es \<Longrightarrow> voice_step s () (fire e (s\<lparr>vr_queue := es\<rparr>))"

definition voice_inv :: "voice \<Rightarrow> bool" where
  "voice_inv s \<longleftrightarrow>
     length (vr_live s) = length (vr_recorders s)
     \<and> (case mediaStreamRef s of
           None \<Rightarrow> \<forall>j<length (vr_live s). \<not> vr_live s ! j
         | Some i \<Rightarrow> i < length (vr_live s) \<and> isRecording s \<and> (\<forall>j<length (vr_live s). vr_live s ! j \<longrightarrow> j = i))"

lemma stop_recorder_keeps [simp]:
  "vr_live (stop_recorder b s) = vr_live s" "mediaStreamRef (stop_recorder b s) = mediaStreamRef s"
  "length (vr_recorders (stop_recorder b s)) = length (vr_recorders s)"
  by (simp_all add: stop_recorder_def recorder_stop_def Let_def split: option.splits)

lemma switched_off: "j < length xs \<Longrightarrow> xs[i := False] ! j \<longleftrightarrow> xs ! j \<and> j \<noteq> i"
  by (cases "i = j") auto

lemma voice_inv_stop: "voice_inv s \<Longrightarrow> voice_inv ((stop_stream (stop_recorder b s))\<lparr>isRecording := False\<rparr>)"
  by (cases "mediaStreamRef s") (auto simp: voice_inv_def stop_stream_def nth_list_update)

lemma voice_inv_start: "voice_inv s \<Longrightarrow> \<not> isRecording s \<Longrightarrow> voice_inv (startRecording granted s)"
  by (cases "mediaStreamRef s") (auto simp: voice_inv_def startRecording_def Let_def nth_append less_Suc_eq)

lemma voice_inv_fire: "voice_inv s \<Longrightarrow> voice_inv (fire e s)"
  by (cases e; cases "mediaStreamRef s")
    (auto simp: voice_inv_def ondataavailable_def onstop_def Let_def switched_off)

lemma voice_step_inv: "voice_step s u t \<Longrightarrow> voice_inv s \<Longrightarrow> voice_inv t"
proof (induction rule: voice_step.induct)
  case (hears s data)
  then show ?case by (simp add: voice_inv_def capture_def split: option.splits)
next
  case (fires s e es)
  then have "voice_inv (s\<lparr>vr_queue := es\<rparr>)" by (simp add: voice_inv_def split: option.splits)
  then show ?case by (rule voice_inv_fire)
qed (simp_all add: stopRecording_def voice_cleanup_def voice_inv_stop voice_inv_start)

interpretation vrm: machine "\<lambda>s. s = new_voice" voice_step voice_inv
proof
  show "voice_inv s" if "s = new_voice" for s using that by (simp add: voice_inv_def new_voice_def)
qed (rule voice_step_inv)

section \<open>A recording from start to stop\<close>

lemma start_facts:
  fixes s :: voice
  defines "t \<equiv> startRecording True s"
  shows "mediaRecorderRef t = Some (length (vr_recorders s))" "audioChunksRef t = []" "vr_queue t = vr_queue s"
    "voice_sent t = voice_sent s" "length (vr_recorders s) < length (vr_recorders t)"
    "vr_recorders t ! length (vr_recorders s) = \<lparr>rec_state = RecRecording, gathered = []\<rparr>"
  by (simp_all add: t_def startRecording_def Let_def)

lemma capture_all:
  "i < length (vr_recorders s) \<Longrightarrow> vr_recorders s ! i = \<lparr>rec_state = RecRecording, gathered = d\<rparr> \<Longrightarrow>
   vr_recorders (fold capture ds s) ! i = \<lparr>rec_state = RecRecording, gathered = d @ concat ds\<rparr>
   \<and> i < length (vr_recorders (fold capture ds s))
   \<and> mediaRecorderRef (fold capture ds s) = mediaRecorderRef s \<and> audioChunksRef (fold capture ds s) = audioChunksRef s
   \<and> vr_queue (fold capture ds s) = vr_queue s \<and> voice_sent (fold capture ds s) = voice_sent s"
  by (induction ds arbitrary: s d) (simp_all add: capture_def)

lemma stop_then_drain:
  assumes "mediaRecorderRef s = Some i" "vr_recorders s ! i = \<lparr>rec_state = RecRecording, gathered = d\<rparr>" "d \<noteq> []"
    "audioChunksRef s = []" "vr_queue s = []"
  shows "voice_sent (drain (stopRecording b s)) = voice_sent s @ [d]"
  using assms
  by (auto simp: drain_def stopRecording_def stop_recorder_def recorder_stop_def stop_stream_def ondataavailable_def
      onstop_def Let_def split: option.splits)

section \<open>Properties\<close>

text \<open>The microphone is live only while the recording banner is shown: however starts, stops, cleanups and
  the recorder's events interleave, every stream that is not the one being recorded has been stopped.\<close>

theorem microphone_released:
  assumes "reach (\<lambda>s. s = new_voice) voice_step s" "\<not> isRecording s"
  shows "list_all (\<lambda>live. \<not> live) (vr_live s)"
  using vrm.reach_inv [OF assms(1)] assms(2) by (auto simp: voice_inv_def list_all_length split: option.splits)

theorem microphone_released_witness:
  "list_all (\<lambda>live. \<not> live) (vr_live (voice_cleanup (startRecording True new_voice)))"
proof (rule microphone_released)
  have "reach (\<lambda>s. s = new_voice) voice_step new_voice" by (rule reach_start) simp
  moreover have "voice_step new_voice () (startRecording True new_voice)"
    by (rule voice_step.starts) (simp add: new_voice_def)
  ultimately have "reach (\<lambda>s. s = new_voice) voice_step (startRecording True new_voice)" by (rule reach_step)
  then show "reach (\<lambda>s. s = new_voice) voice_step (voice_cleanup (startRecording True new_voice))"
    by (rule reach_step) (rule voice_step.cleans)
qed (simp add: voice_cleanup_def)

text \<open>Cancelling a recording sends it: once the recorder's events have run, exactly the recorded sound has
  been sent, whether the user pressed send (\<open>True\<close>) or cancel (\<open>False\<close>), because the cancelled array is cleared
  before the recorder delivers its data.\<close>

theorem cancelled_voice_is_sent:
  assumes "vr_queue s = []" "concat datas \<noteq> []"
  shows "voice_sent (drain (stopRecording shouldSend (fold capture datas (startRecording True s))))
    = voice_sent s @ [concat datas]"
proof -
  let ?i = "length (vr_recorders s)" and ?t = "startRecording True s"
  note c = capture_all [OF start_facts(5,6) [of s], of datas]
  show ?thesis
    using stop_then_drain [of "fold capture datas ?t" ?i "concat datas" shouldSend] c assms
    by (simp add: start_facts)
qed

theorem cancelled_voice_is_sent_witness:
  "voice_sent (drain (stopRecording False (fold capture [[1, 2], [3]] (startRecording True new_voice))))
    = voice_sent new_voice @ [concat [[1, 2], [3]]]"
  by (rule cancelled_voice_is_sent) (simp_all add: new_voice_def)

end
