(* ===== verification/ChatPane.thy ===== *)
theory ChatPane
  imports Drafts QueryCache
begin

text \<open>
  The message pane of a chat, \<open>src/frontend/src/components/chat/MessagePane.tsx\<close>: its React state as a
  record, the effects and handlers as functions on it, and its queries and mutations as values.

  The fields of server answers and of live events have the types of \<open>types.ts\<close> and of the backend's
  schema; a property that the code reads with a fallback is an option, and fields that are only rendered
  (polls, service texts) are left out.  The draft store is part of the
  state, as the pane reads and writes it.  \<open>now\<close> is \<open>new Date().toISOString()\<close> or \<open>Date.now()\<close>,
  \<open>locale_date\<close> the function \<open>(s) => new Date(s).toLocaleDateString("en-US", ...)\<close>, which depends on the
  time zone of the browser, and \<open>time\<close> the function \<open>(s) => new Date(s).getTime()\<close> on valid dates.
  Scrolling is left out except for the message that a jump highlights.
\<close>

record message =
  msg_id :: int
  sender_id :: "int option"
  sender_name :: "string option"
  msg_text :: "string option"
  msg_date :: string
  is_outgoing :: bool
  reply_to_msg_id :: "int option"
  reply_preview :: "string option"
  media_type :: "string option"
  media_filename :: "string option"
  stripped_thumb :: "string option"
  waveform_levels :: "int list"
  file_size :: "int option"
  mime_type :: "string option"

datatype suggest_kind = Members | Commands | Emoji

record pane =
  messageText :: json
  replyTo :: "message option"
  offsetId :: int
  allMessages :: "message list"
  hasMore :: bool
  isInitialLoad :: bool
  attachedFile :: "json option"
  onlineStatus :: "string option"
  msgSelectionMode :: bool
  selectedMsgIds :: "int list"
  showSuggest :: "suggest_kind option"
  suggestQuery :: string
  pendingJump :: "int option"
  lightboxMedia :: "(string \<times> string) option"
  send_pending :: bool
  draft_store :: draft_state

definition new_pane :: "draft_state \<Rightarrow> pane" where
  "new_pane d = \<lparr>messageText = JStr [], replyTo = None, offsetId = 0, allMessages = [], hasMore = False,
     isInitialLoad = True, attachedFile = None, onlineStatus = None, msgSelectionMode = False, selectedMsgIds = [],
     showSuggest = None, suggestQuery = [], pendingJump = None, lightboxMedia = None, send_pending = False, draft_store = d\<rparr>"

text \<open>\<open>accountId && chatId\<close>.\<close>

definition chat_given :: "string \<Rightarrow> int \<Rightarrow> bool" where
  "chat_given accountId chatId \<longleftrightarrow> accountId \<noteq> [] \<and> chatId \<noteq> 0"

section \<open>Opening a chat\<close>

definition load_draft :: "string \<Rightarrow> int \<Rightarrow> pane \<Rightarrow> pane" where
  "load_draft accountId chatId s =
     (if chat_given accountId chatId then s\<lparr>messageText := getDraft accountId chatId (draft_store s)\<rparr> else s)"

definition reset_messages :: "pane \<Rightarrow> pane" where
  "reset_messages s = s\<lparr>offsetId := 0, allMessages := [], isInitialLoad := True, replyTo := None\<rparr>"

definition open_chat :: "string \<Rightarrow> int \<Rightarrow> pane \<Rightarrow> pane" where
  "open_chat accountId chatId s = reset_messages (load_draft accountId chatId s)"

section \<open>The message list\<close>

text \<open>The answer of the message query.\<close>

record message_page =
  pg_messages :: "message list option"
  pg_chat_id :: int
  pg_has_more :: bool

text \<open>The effect that merges a fetched page, and the message it highlights when a jump was pending and the
  message is on the page now.\<close>

definition take_page :: "int \<Rightarrow> message_page \<Rightarrow> pane \<Rightarrow> pane \<times> int option" where
  "take_page chatId pg s =
     (case pg_messages pg of
        None \<Rightarrow> (s, None)
      | Some newMsgs \<Rightarrow>
          if pg_chat_id pg \<noteq> 0 \<and> pg_chat_id pg \<noteq> chatId then (s, None)
          else
            let s1 = s\<lparr>hasMore := pg_has_more pg\<rparr>;
                s2 = (if offsetId s1 = 0 then s1\<lparr>allMessages := newMsgs, isInitialLoad := True\<rparr>
                      else
                        let existingIds = map msg_id (allMessages s1);
                            uniqueNew = filter (\<lambda>m. msg_id m \<notin> set existingIds) newMsgs
                        in s1\<lparr>allMessages := uniqueNew @ allMessages s1, isInitialLoad := False\<rparr>)
            in case pendingJump s2 of
                 None \<Rightarrow> (s2, None)
               | Some j \<Rightarrow> (if j = 0 then (s2, None)
                            else (s2\<lparr>pendingJump := None\<rparr>,
                                  if j \<in> set (map msg_id (allMessages s2)) then Some j else None)))"

definition scrollToMessage :: "int \<Rightarrow> pane \<Rightarrow> pane \<times> int option" where
  "scrollToMessage msgId s =
     (if msgId \<in> set (map msg_id (allMessages s)) then (s, Some msgId)
      else (s\<lparr>pendingJump := Some msgId, offsetId := max 0 (msgId - 5)\<rparr>, None))"

definition handleLoadOlder :: "pane \<Rightarrow> pane" where
  "handleLoadOlder s = (case allMessages s of [] \<Rightarrow> s | m # _ \<Rightarrow> s\<lparr>offsetId := msg_id m\<rparr>)"

section \<open>Live events\<close>

record chat_event =
  ev_type :: string
  ev_user_id :: "int option"
  ev_status :: "string option"
  ev_action :: "string option"
  ev_chat_id :: "int option"
  ev_message_id :: int
  ev_sender_id :: "int option"
  ev_sender_name :: "string option"
  ev_text :: "string option"
  ev_date :: "string option"
  ev_is_outgoing :: "bool option"
  ev_reply_to_msg_id :: "int option"
  ev_media_type :: "string option"
  ev_media_filename :: "string option"
  ev_stripped_thumb :: "string option"
  ev_waveform_levels :: "int list option"
  ev_file_size :: "int option"
  ev_mime_type :: "string option"

text \<open>\<open>x || null\<close>.\<close>

definition num_or_null :: "int option \<Rightarrow> int option" where
  "num_or_null x = (if x = Some 0 then None else x)"

definition str_or_null :: "string option \<Rightarrow> string option" where
  "str_or_null x = (if x = Some [] then None else x)"

definition event_message :: "string \<Rightarrow> chat_event \<Rightarrow> message" where
  "event_message now ev =
     \<lparr>msg_id = ev_message_id ev, sender_id = num_or_null (ev_sender_id ev),
      sender_name = Some (if truthy (ev_sender_name ev) then the (ev_sender_name ev)
                          else if ev_type ev = ''outgoing_message'' then ''You'' else ''Unknown''),
      msg_text = ev_text ev, msg_date = (if truthy (ev_date ev) then the (ev_date ev) else now),
      is_outgoing = (case ev_is_outgoing ev of None \<Rightarrow> ev_type ev = ''outgoing_message'' | Some b \<Rightarrow> b),
      reply_to_msg_id = num_or_null (ev_reply_to_msg_id ev), reply_preview = None, media_type = str_or_null (ev_media_type ev),
      media_filename = str_or_null (ev_media_filename ev), stripped_thumb = str_or_null (ev_stripped_thumb ev),
      waveform_levels = (case ev_waveform_levels ev of None \<Rightarrow> [] | Some ws \<Rightarrow> ws),
      file_size = num_or_null (ev_file_size ev), mime_type = str_or_null (ev_mime_type ev)\<rparr>"

text \<open>The new state and the addresses posted to.\<close>

definition handleRealtimeEventInPane ::
  "string \<Rightarrow> int \<Rightarrow> string \<Rightarrow> chat_event \<Rightarrow> pane \<Rightarrow> pane \<times> string list" where
  "handleRealtimeEventInPane accountId chatId now ev s =
     (if ev_type ev = [] then (s, [])
      else if ev_type ev = ''user_update'' \<and> ev_user_id ev = Some chatId
      then (s\<lparr>onlineStatus := ev_status ev\<rparr>, [])
      else if (ev_type ev = ''new_message'' \<or> ev_type ev = ''outgoing_message'') \<and> ev_chat_id ev = Some chatId
      then (let newMsgItem = event_message now ev
            in (if msg_id newMsgItem \<in> set (map msg_id (allMessages s)) then s
                else s\<lparr>allMessages := allMessages s @ [newMsgItem]\<rparr>,
                [''/accounts/'' @ accountId @ ''/chats/'' @ int_str chatId @ ''/read'']))
      else (s, []))"

section \<open>Sending\<close>

text \<open>The request that \<open>sendMutation\<close> makes; a form has its fields in order.\<close>

definition sendMutation :: "string \<Rightarrow> int \<Rightarrow> string \<Rightarrow> int option \<Rightarrow> json option \<Rightarrow> mutation" where
  "sendMutation accountId chatId txt reply_to file =
     (let base = ''/accounts/'' @ accountId @ ''/chats/'' @ int_str chatId
      in case file of
           Some f \<Rightarrow>
             mutate ''POST'' (base @ ''/media'')
               (Some (JObj ([(''file'', f)] @ (if txt \<noteq> [] then [(''caption'', JStr txt)] else [])
                  @ (case num_or_null reply_to of None \<Rightarrow> [] | Some r \<Rightarrow> [(''reply_to'', JStr (int_str r))]))))
               [skey [''chats'', accountId]]
         | None \<Rightarrow>
             mutate ''POST'' (base @ ''/messages'')
               (Some (JObj ((''text'', JStr txt) # opt_prop ''reply_to'' (map_option JNum reply_to))))
               [skey [''chats'', accountId]])"

definition handleSend :: "string \<Rightarrow> int \<Rightarrow> pane \<Rightarrow> js_error + (pane \<times> mutation option)" where
  "handleSend accountId chatId s =
     (case messageText s of
        JStr t \<Rightarrow>
          let txt = trim t
          in if (txt = [] \<and> attachedFile s = None) \<or> send_pending s then Inr (s, None)
             else Inr (s\<lparr>send_pending := True\<rparr>,
                       Some (sendMutation accountId chatId txt (map_option msg_id (replyTo s)) (attachedFile s)))
      | _ \<Rightarrow> Inl TypeError)"

record send_reply =
  sr_id :: int
  sr_text :: "string option"
  sr_date :: string
  sr_media_type :: "string option"
  sr_media_filename :: "string option"

definition sent_message :: "pane \<Rightarrow> send_reply \<Rightarrow> message" where
  "sent_message s r =
     \<lparr>msg_id = sr_id r, sender_id = None, sender_name = Some ''You'', msg_text = sr_text r, msg_date = sr_date r,
      is_outgoing = True, reply_to_msg_id = num_or_null (map_option msg_id (replyTo s)), reply_preview = None,
      media_type = str_or_null (sr_media_type r), media_filename = str_or_null (sr_media_filename r),
      stripped_thumb = None, waveform_levels = [], file_size = None, mime_type = None\<rparr>"

definition send_success :: "bool \<Rightarrow> int \<Rightarrow> string \<Rightarrow> int \<Rightarrow> send_reply \<Rightarrow> pane \<Rightarrow> pane" where
  "send_success can_store now accountId chatId r s =
     s\<lparr>allMessages := allMessages s @ [sent_message s r], messageText := JStr [],
       draft_store := (if chat_given accountId chatId then setDraft can_store now accountId chatId [] (draft_store s)
                       else draft_store s),
       replyTo := None, attachedFile := None, send_pending := False\<rparr>"

definition send_failure :: "pane \<Rightarrow> pane" where
  "send_failure s = s\<lparr>send_pending := False\<rparr>"

section \<open>Typing\<close>

text \<open>\<open>s.split(/\s+/)\<close>.\<close>

function (sequential) split_ws :: "string \<Rightarrow> string list" where
  "split_ws [] = [[]]"
| "split_ws (c # cs) =
     (if is_ws c then [] # split_ws (dropWhile is_ws cs)
      else case split_ws cs of [] \<Rightarrow> [[c]] | w # ws \<Rightarrow> (c # w) # ws)"
  by pat_completeness auto
termination by (relation "measure length") (auto simp: less_Suc_eq_le length_dropWhile_le)

definition handleSelectSuggestion :: "string \<Rightarrow> pane \<Rightarrow> js_error + pane" where
  "handleSelectSuggestion val s =
     (case messageText s of
        JStr t \<Rightarrow> Inr (s\<lparr>messageText := JStr (join_with '' '' (butlast (split_ws t) @ [val]) @ '' ''), showSuggest := None\<rparr>)
      | _ \<Rightarrow> Inl TypeError)"

definition handleInputChange :: "bool \<Rightarrow> int \<Rightarrow> string \<Rightarrow> int \<Rightarrow> string \<Rightarrow> pane \<Rightarrow> pane" where
  "handleInputChange can_store now accountId chatId val s =
     (let s1 = s\<lparr>messageText := JStr val,
                 draft_store := (if chat_given accountId chatId then setDraft can_store now accountId chatId val (draft_store s)
                                 else draft_store s)\<rparr>;
          lastWord = last (split_ws val)
      in if startsWith lastWord ''@'' \<and> length lastWord > 1
         then s1\<lparr>showSuggest := Some Members, suggestQuery := drop 1 lastWord\<rparr>
         else if startsWith lastWord ''/'' \<and> length lastWord > 1
         then s1\<lparr>showSuggest := Some Commands, suggestQuery := drop 1 lastWord\<rparr>
         else if startsWith lastWord '':'' \<and> length lastWord > 1
         then s1\<lparr>showSuggest := Some Emoji, suggestQuery := drop 1 lastWord\<rparr>
         else s1\<lparr>showSuggest := None\<rparr>)"

definition command_suggestions :: "string \<Rightarrow> string list" where
  "command_suggestions q =
     filter (\<lambda>cmd. str_includes (toLowerCase cmd) (toLowerCase q))
       [''/start'', ''/help'', ''/settings'', ''/stats'', ''/broadcast'']"

section \<open>Dates and groups\<close>

type_synonym date_cache = "(string, string) jsmap"

definition getFormattedDate :: "(string \<Rightarrow> string) \<Rightarrow> string \<Rightarrow> date_cache \<Rightarrow> string \<times> date_cache" where
  "getFormattedDate locale_date dateStrRaw cache =
     (let cacheKey = (if dateStrRaw \<noteq> [] then take 10 dateStrRaw else [])
      in if cacheKey \<noteq> [] \<and> map_has cache cacheKey then (the (map_get cache cacheKey), cache)
         else
           let formatted = locale_date dateStrRaw
           in (formatted,
               if cacheKey \<noteq> []
               then map_set (if length cache > 200 then [] else cache) cacheKey formatted
               else cache))"

text \<open>The loop of \<open>groupedMessages\<close>.  Pushing to the last group throws when there is none.\<close>

fun group_loop ::
  "(string \<Rightarrow> string) \<Rightarrow> message list \<Rightarrow> string \<Rightarrow> (string \<times> message list) list \<Rightarrow> date_cache \<Rightarrow>
   js_error + (string \<times> message list) list \<times> date_cache" where
  "group_loop locale_date [] currentDate groups cache = Inr (groups, cache)"
| "group_loop locale_date (msg # msgs) currentDate groups cache =
     (let (dateStr, cache1) = getFormattedDate locale_date (msg_date msg) cache;
          groups1 = (if dateStr \<noteq> currentDate then groups @ [(dateStr, [])] else groups)
      in if groups1 = [] then Inl TypeError
         else group_loop locale_date msgs dateStr
                (butlast groups1 @ [(fst (last groups1), snd (last groups1) @ [msg])]) cache1)"

definition groupedMessages ::
  "(string \<Rightarrow> string) \<Rightarrow> message list \<Rightarrow> date_cache \<Rightarrow> js_error + (string \<times> message list) list \<times> date_cache" where
  "groupedMessages locale_date msgs cache = group_loop locale_date msgs [] [] cache"

text \<open>Whether a message starts or ends a run of one sender within five minutes.\<close>

definition run_gap :: "(string \<Rightarrow> int) \<Rightarrow> message \<Rightarrow> message \<Rightarrow> bool" where
  "run_gap time a b \<longleftrightarrow> sender_id a \<noteq> sender_id b \<or> time (msg_date b) - time (msg_date a) > 5 * 60 * 1000"

definition bubble_isFirst :: "(string \<Rightarrow> int) \<Rightarrow> message list \<Rightarrow> nat \<Rightarrow> bool" where
  "bubble_isFirst time ms idx \<longleftrightarrow> idx = 0 \<or> run_gap time (ms ! (idx - 1)) (ms ! idx)"

definition bubble_isLast :: "(string \<Rightarrow> int) \<Rightarrow> message list \<Rightarrow> nat \<Rightarrow> bool" where
  "bubble_isLast time ms idx \<longleftrightarrow> Suc idx = length ms \<or> run_gap time (ms ! idx) (ms ! Suc idx)"

definition bubble_showName :: "(string \<Rightarrow> int) \<Rightarrow> string \<Rightarrow> message list \<Rightarrow> nat \<Rightarrow> bool" where
  "bubble_showName time chatType ms idx \<longleftrightarrow>
     \<not> is_outgoing (ms ! idx) \<and> (chatType = ''group'' \<or> chatType = ''supergroup'') \<and> bubble_isFirst time ms idx"

definition getReplyText :: "pane \<Rightarrow> int option \<Rightarrow> string option" where
  "getReplyText s msgId =
     (case num_or_null msgId of
        None \<Rightarrow> None
      | Some i \<Rightarrow>
          (case find (\<lambda>m. msg_id m = i) (allMessages s) of
             None \<Rightarrow> None
           | Some m \<Rightarrow> Some (if truthy (msg_text m) then the (msg_text m) else ''[media]'')))"

section \<open>Media\<close>

definition mediaList :: "pane \<Rightarrow> message list" where
  "mediaList s =
     filter (\<lambda>m. media_type m = Some ''photo'' \<or> media_type m = Some ''video'' \<or> media_type m = Some ''animation'') (allMessages s)"

definition media_url :: "string \<Rightarrow> string \<Rightarrow> string \<Rightarrow> int \<Rightarrow> message \<Rightarrow> string" where
  "media_url apiUrl auth accountId chatId m =
     apiUrl @ ''/accounts/'' @ accountId @ ''/chats/'' @ int_str chatId @ ''/messages/'' @ int_str (msg_id m) @ ''/media'' @ auth"

fun findIndex :: "('a \<Rightarrow> bool) \<Rightarrow> 'a list \<Rightarrow> int" where
  "findIndex P [] = -1"
| "findIndex P (x # xs) = (if P x then 0 else let i = findIndex P xs in if i = -1 then -1 else i + 1)"

definition currentMediaIndex :: "string \<Rightarrow> string \<Rightarrow> string \<Rightarrow> int \<Rightarrow> pane \<Rightarrow> int" where
  "currentMediaIndex apiUrl auth accountId chatId s =
     (case lightboxMedia s of
        None \<Rightarrow> -1
      | Some (url, _) \<Rightarrow>
          findIndex (\<lambda>m. media_url apiUrl auth accountId chatId m = url
                         \<or> (truthy (media_filename m) \<and> str_includes url (int_str (msg_id m)))) (mediaList s))"

definition navigateMedia :: "string \<Rightarrow> string \<Rightarrow> string \<Rightarrow> int \<Rightarrow> bool \<Rightarrow> pane \<Rightarrow> pane" where
  "navigateMedia apiUrl auth accountId chatId prev s =
     (let i = currentMediaIndex apiUrl auth accountId chatId s
      in if i = -1 then s
         else
           let targetIdx = (if prev then i - 1 else i + 1)
           in if targetIdx \<ge> 0 \<and> targetIdx < int (length (mediaList s))
              then let targetMsg = mediaList s ! nat targetIdx
                   in s\<lparr>lightboxMedia := Some (media_url apiUrl auth accountId chatId targetMsg,
                          if media_type targetMsg = Some ''photo'' then ''photo'' else ''video'')\<rparr>
              else s)"

section \<open>Selecting messages\<close>

definition select_message :: "int \<Rightarrow> pane \<Rightarrow> pane" where
  "select_message i s = s\<lparr>msgSelectionMode := True, selectedMsgIds := [i]\<rparr>"

definition toggle_message :: "int \<Rightarrow> pane \<Rightarrow> pane" where
  "toggle_message i s =
     (if msgSelectionMode s
      then s\<lparr>selectedMsgIds := (if i \<in> set (selectedMsgIds s) then filter (\<lambda>j. j \<noteq> i) (selectedMsgIds s)
                                else selectedMsgIds s @ [i])\<rparr>
      else s)"

definition cancel_selection :: "pane \<Rightarrow> pane" where
  "cancel_selection s = s\<lparr>msgSelectionMode := False, selectedMsgIds := []\<rparr>"

section \<open>Queries and mutations\<close>

definition chat_base :: "string \<Rightarrow> int \<Rightarrow> string" where
  "chat_base accountId chatId = ''/accounts/'' @ accountId @ ''/chats/'' @ int_str chatId"

text \<open>\<open>Array.isArray(data) ? data : []\<close>.\<close>

fun array_or_empty :: "json \<Rightarrow> json option" where
  "array_or_empty (JArr xs) = Some (JArr xs)" | "array_or_empty _ = Some (JArr [])"

definition messagesQuery :: "string \<Rightarrow> int \<Rightarrow> int \<Rightarrow> query" where
  "messagesQuery accountId chatId offset =
     (get_query [JStr ''messages'', JStr accountId, JNum chatId, JNum offset]
        (chat_base accountId chatId @ ''/messages?limit=50&offset_id='' @ int_str offset))
     \<lparr>q_enabled := chat_given accountId chatId, q_options := [(''staleTime'', JNum 0)]\<rparr>"

text \<open>\<open>seconds\<close> is \<open>(s) => Math.floor(new Date(s).getTime() / 1000)\<close>, with \<open>None\<close> for \<open>NaN\<close>.\<close>

definition searchQuery :: "(string \<Rightarrow> int option) \<Rightarrow> string \<Rightarrow> int \<Rightarrow> bool \<Rightarrow> string \<Rightarrow> string option \<Rightarrow> string \<Rightarrow> string \<Rightarrow> query" where
  "searchQuery seconds accountId chatId panel q mediaType dateFrom dateTo =
     (get_query [JStr ''chat-search'', JStr accountId, JNum chatId, JStr q, key_or_null (map_option JStr mediaType), JStr dateFrom, JStr dateTo]
        (chat_base accountId chatId @ ''/messages/search''))
     \<lparr>q_params := (if q \<noteq> [] then [(''q'', q)] else [])
        @ (if truthy mediaType then [(''media_type'', the mediaType)] else [])
        @ (if dateFrom \<noteq> [] then (case seconds dateFrom of None \<Rightarrow> [] | Some n \<Rightarrow> [(''date_from'', int_str n)]) else [])
        @ (if dateTo \<noteq> [] then (case seconds dateTo of None \<Rightarrow> [] | Some n \<Rightarrow> [(''date_to'', int_str n)]) else []),
      q_result := array_or_empty,
      q_enabled := chat_given accountId chatId \<and> panel \<and> (q \<noteq> [] \<or> truthy mediaType \<or> dateFrom \<noteq> [] \<or> dateTo \<noteq> [])\<rparr>"

definition scheduledQuery :: "string \<Rightarrow> int \<Rightarrow> query" where
  "scheduledQuery accountId chatId =
     (get_query [JStr ''scheduled-messages'', JStr accountId, JNum chatId] (chat_base accountId chatId @ ''/messages/scheduled''))
     \<lparr>q_result := array_or_empty, q_enabled := chat_given accountId chatId\<rparr>"

definition membersQuery :: "string \<Rightarrow> int \<Rightarrow> suggest_kind option \<Rightarrow> query" where
  "membersQuery accountId chatId suggest =
     (get_query [JStr ''chat-members-suggest'', JStr accountId, JNum chatId] (chat_base accountId chatId @ ''/members?limit=100''))
     \<lparr>q_result := (\<lambda>d. Some (the (jor (jget d ''members'') (Some (JArr []))))),
      q_enabled := chat_given accountId chatId \<and> suggest = Some Members\<rparr>"

definition pinnedQuery :: "string \<Rightarrow> int \<Rightarrow> query" where
  "pinnedQuery accountId chatId =
     (get_query [JStr ''pinnedMessages'', JStr accountId, JNum chatId] (chat_base accountId chatId @ ''/pinned''))
     \<lparr>q_result := array_or_empty, q_enabled := chat_given accountId chatId\<rparr>"

definition pinned_key :: "string \<Rightarrow> int \<Rightarrow> qkey" where
  "pinned_key accountId chatId = [JStr ''pinnedMessages'', JStr accountId, JNum chatId]"

definition messages_key :: "string \<Rightarrow> int \<Rightarrow> qkey" where
  "messages_key accountId chatId = [JStr ''messages'', JStr accountId, JNum chatId]"

definition pinMessage :: "string \<Rightarrow> int \<Rightarrow> int \<Rightarrow> mutation" where
  "pinMessage accountId chatId msgId =
     mutate ''POST'' (chat_base accountId chatId @ ''/messages/'' @ int_str msgId @ ''/pin'') None [pinned_key accountId chatId]"

definition unpinMessage :: "string \<Rightarrow> int \<Rightarrow> int \<Rightarrow> mutation" where
  "unpinMessage accountId chatId msgId =
     mutate ''POST'' (chat_base accountId chatId @ ''/messages/'' @ int_str msgId @ ''/unpin'') None [pinned_key accountId chatId]"

definition deleteMessage :: "string \<Rightarrow> int \<Rightarrow> int \<Rightarrow> mutation" where
  "deleteMessage accountId chatId msgId =
     mutate ''DELETE'' (chat_base accountId chatId @ ''/messages/'' @ int_str msgId) None [messages_key accountId chatId]"

definition batchDeleteMessages :: "string \<Rightarrow> int \<Rightarrow> int list \<Rightarrow> mutation" where
  "batchDeleteMessages accountId chatId msgIds =
     mutate ''POST'' (chat_base accountId chatId @ ''/messages/batch-delete'')
       (Some (JObj [(''message_ids'', JArr (map JNum msgIds))])) [messages_key accountId chatId]"

definition sendVoice :: "string \<Rightarrow> int \<Rightarrow> json \<Rightarrow> mutation" where
  "sendVoice accountId chatId blob =
     mutate ''POST'' (chat_base accountId chatId @ ''/voice'') (Some (JObj [(''file'', blob)])) [messages_key accountId chatId]"

definition vote :: "string \<Rightarrow> int \<Rightarrow> int \<Rightarrow> string list \<Rightarrow> mutation" where
  "vote accountId chatId messageId options =
     mutate ''POST'' (chat_base accountId chatId @ ''/messages/'' @ int_str messageId @ ''/votes'')
       (Some (JObj [(''options'', str_list options)])) [messages_key accountId chatId]"

section \<open>The pane as a machine\<close>

text \<open>What happens to a pane of one chat: it opens, a page arrives (a page lists each message once), a live event
  arrives, the answer to a message sent arrives, and the user types, jumps and asks for older messages.  The step of an
  answer is labelled with the id it carries.\<close>

definition page_ok :: "message_page \<Rightarrow> bool" where
  "page_ok pg \<longleftrightarrow> (case pg_messages pg of None \<Rightarrow> True | Some ms \<Rightarrow> distinct (map msg_id ms))"

inductive pane_step :: "pane \<Rightarrow> int option \<Rightarrow> pane \<Rightarrow> bool" where
  opens: "pane_step s None (open_chat accountId chatId s)"
| page_arrives: "page_ok pg \<Longrightarrow> pane_step s None (fst (take_page chatId pg s))"
| event_arrives: "pane_step s None (fst (handleRealtimeEventInPane accountId chatId now ev s))"
| sent: "pane_step s (Some (sr_id r)) (send_success c t accountId chatId r s)"
| send_fails: "pane_step s None (send_failure s)"
| jumps: "pane_step s None (fst (scrollToMessage i s))"
| loads_older: "pane_step s None (handleLoadOlder s)"
| types: "pane_step s None (handleInputChange c t accountId chatId val s)"
| submits: "handleSend accountId chatId s = Inr (s', req) \<Longrightarrow> pane_step s None s'"
| suggestion: "handleSelectSuggestion val s = Inr s' \<Longrightarrow> pane_step s None s'"
| selects: "pane_step s None (select_message i s)"
| toggles: "pane_step s None (toggle_message i s)"
| cancels: "pane_step s None (cancel_selection s)"
| replies: "pane_step s None (s\<lparr>replyTo := m\<rparr>)"
| attaches: "pane_step s None (s\<lparr>attachedFile := f\<rparr>)"
| opens_media: "pane_step s None (s\<lparr>lightboxMedia := l\<rparr>)"
| navigates: "pane_step s None (navigateMedia apiUrl auth accountId chatId prev s)"

definition ids :: "pane \<Rightarrow> int list" where
  "ids s = map msg_id (allMessages s)"

lemma take_page_all:
  "allMessages (fst (take_page chatId pg s)) =
     (case pg_messages pg of
        None \<Rightarrow> allMessages s
      | Some ms \<Rightarrow> if pg_chat_id pg \<noteq> 0 \<and> pg_chat_id pg \<noteq> chatId then allMessages s
          else if offsetId s = 0 then ms
          else filter (\<lambda>m. msg_id m \<notin> set (ids s)) ms @ allMessages s)"
  by (simp add: take_page_def Let_def ids_def split: option.splits)

lemma event_all:
  "ids (fst (handleRealtimeEventInPane accountId chatId now ev s)) =
     (if ev_type ev \<in> {''new_message'', ''outgoing_message''} \<and> ev_chat_id ev = Some chatId \<and> ev_message_id ev \<notin> set (ids s)
      then ids s @ [ev_message_id ev] else ids s)"
  by (auto simp: handleRealtimeEventInPane_def Let_def ids_def event_message_def)

lemma send_success_ids: "ids (send_success c t accountId chatId r s) = ids s @ [sr_id r]"
  by (simp add: send_success_def ids_def sent_message_def)

lemma ids_unchanged [simp]:
  "ids (send_failure s) = ids s" "ids (fst (scrollToMessage i s)) = ids s" "ids (handleLoadOlder s) = ids s"
  "ids (handleInputChange c t accountId chatId val s) = ids s" "ids (select_message i s) = ids s"
  "ids (toggle_message i s) = ids s" "ids (cancel_selection s) = ids s" "ids (open_chat accountId chatId s) = []"
  "ids (navigateMedia apiUrl auth accountId chatId prev s) = ids s"
  by (simp_all add: ids_def send_failure_def scrollToMessage_def handleLoadOlder_def handleInputChange_def Let_def
      select_message_def toggle_message_def cancel_selection_def open_chat_def reset_messages_def navigateMedia_def
      split: list.splits)

lemma ids_submitted: "handleSend accountId chatId s = Inr (s', req) \<Longrightarrow> ids s' = ids s"
  by (auto simp: handleSend_def ids_def Let_def split: json.splits if_splits)

lemma ids_suggested: "handleSelectSuggestion val s = Inr s' \<Longrightarrow> ids s' = ids s"
  by (auto simp: handleSelectSuggestion_def ids_def split: json.splits)

lemma take_page_distinct: "page_ok pg \<Longrightarrow> distinct (ids s) \<Longrightarrow> distinct (ids (fst (take_page chatId pg s)))"
proof -
  have sub: "distinct (map msg_id ms) \<Longrightarrow> distinct (map msg_id (filter P ms))" for P ms
    by (simp add: distinct_map inj_on_def)
  assume "page_ok pg" "distinct (ids s)"
  then show ?thesis
    using sub by (auto simp: ids_def take_page_all page_ok_def split: option.splits)
qed

text \<open>How often a message is shown, and the invariant: once, and once more for every answer that carried its id.\<close>

definition shown :: "int \<Rightarrow> pane \<Rightarrow> nat" where
  "shown i s = count_list (ids s) i"

lemma count_list_filter: "count_list (map f (filter P xs)) i \<le> count_list (map f xs) i"
  by (induction xs) auto

lemma count_list_distinct: "distinct xs \<Longrightarrow> count_list xs i \<le> 1"
  by (induction xs) (auto simp: count_list_0_iff)

lemma take_page_shown:
  assumes "page_ok pg"
  shows "shown i (fst (take_page chatId pg s)) \<le> max 1 (shown i s)"
proof (cases "pg_messages pg")
  case (Some ms)
  have once: "count_list (map msg_id ms) i \<le> 1" using assms Some by (intro count_list_distinct) (simp add: page_ok_def)
  have "count_list (map msg_id (filter (\<lambda>m. msg_id m \<notin> set (ids s)) ms)) i + count_list (ids s) i \<le> max 1 (count_list (ids s) i)"
  proof (cases "i \<in> set (ids s)")
    case True
    then have "i \<notin> set (map msg_id (filter (\<lambda>m. msg_id m \<notin> set (ids s)) ms))" by auto
    then have "count_list (map msg_id (filter (\<lambda>m. msg_id m \<notin> set (ids s)) ms)) i = 0" by (simp only: count_list_0_iff) simp
    then show ?thesis by simp
  next
    case False
    then have "count_list (ids s) i = 0" by (simp add: count_list_0_iff)
    then show ?thesis using count_list_filter [of msg_id "\<lambda>m. msg_id m \<notin> set (ids s)" ms i] once by simp
  qed
  then show ?thesis using once Some by (auto simp: shown_def ids_def take_page_all le_max_iff_disj)
qed (simp add: shown_def ids_def take_page_all)

lemma pane_step_shown:
  "pane_step s l t \<Longrightarrow> shown i t \<le> max 1 (shown i s) + (if l = Some i then 1 else 0)"
proof (induction rule: pane_step.induct)
  case (sent s r c t accountId chatId)
  then show ?case by (simp add: shown_def send_success_ids)
next
  case (event_arrives s accountId chatId now ev)
  then show ?case by (auto simp: shown_def event_all count_list_0_iff)
next
  case (submits accountId chatId s s' req)
  then show ?case using ids_submitted by (simp add: shown_def)
next
  case (suggestion val s s')
  then show ?case using ids_suggested by (simp add: shown_def)
next
  case (page_arrives pg s chatId)
  then show ?case using take_page_shown [of pg i chatId s] by simp
qed (simp_all add: shown_def, simp_all add: ids_def)

lemma pane_run_shown:
  "run pane_step s ls t \<Longrightarrow> shown i t \<le> max 1 (shown i s) + count_list ls (Some i)"
proof (induction rule: run.induct)
  case (run_step s l t ls u)
  then show ?case using pane_step_shown [OF run_step.hyps(1), of i] by (simp split: if_splits)
qed simp

section \<open>Formatting with a cache\<close>

text \<open>The cache holds what the formatter gives for the day of its key.\<close>

definition cache_ok :: "(string \<Rightarrow> string) \<Rightarrow> date_cache \<Rightarrow> bool" where
  "cache_ok f c \<longleftrightarrow> (\<forall>k v. map_get c k = Some v \<longrightarrow> (\<forall>d. d \<noteq> [] \<longrightarrow> take 10 d = k \<longrightarrow> f d = v))"

definition by_day :: "(string \<Rightarrow> string) \<Rightarrow> bool" where
  "by_day f \<longleftrightarrow> (\<forall>a b. take 10 a = take 10 b \<longrightarrow> f a = f b)"

lemma cache_ok_empty [simp]: "cache_ok f []"
  by (simp add: cache_ok_def)

lemma formatted_ok:
  assumes "by_day f" "cache_ok f c"
  shows "fst (getFormattedDate f d c) = f d \<and> cache_ok f (snd (getFormattedDate f d c))"
proof (cases "d \<noteq> [] \<and> map_has c (take 10 d)")
  case True
  then obtain v where v: "map_get c (take 10 d) = Some v" by (auto simp: map_has_iff_get)
  then have "f d = v" using assms(2) True unfolding cache_ok_def by blast
  then show ?thesis using True v assms(2) by (simp add: getFormattedDate_def Let_def)
next
  case False
  then have out: "getFormattedDate f d c =
      (f d, if d \<noteq> [] then map_set (if length c > 200 then [] else c) (take 10 d) (f d) else c)"
    by (auto simp: getFormattedDate_def Let_def)
  have day: "f e = f d" if "take 10 e = take 10 d" for e using assms(1) that unfolding by_day_def by blast
  have "cache_ok f (map_set (if length c > 200 then [] else c) (take 10 d) (f d))"
    unfolding cache_ok_def
  proof (intro allI impI)
    fix k v e assume "map_get (map_set (if length c > 200 then [] else c) (take 10 d) (f d)) k = Some v"
      and e: "e \<noteq> []" "take 10 e = k"
    then have "k = take 10 d \<and> v = f d \<or> map_get c k = Some v" by (auto split: if_splits)
    then show "f e = v" using day e assms(2) unfolding cache_ok_def by blast
  qed
  then show ?thesis unfolding out using assms(2) by simp
qed

lemma cache_bound: "length c \<le> 201 \<Longrightarrow> length (snd (getFormattedDate f d c)) \<le> 201"
  by (auto simp: getFormattedDate_def Let_def length_map_set map_has_def)

text \<open>Grouping into maximal runs of one date, as a specification.\<close>

function runs :: "(message \<Rightarrow> string) \<Rightarrow> message list \<Rightarrow> (string \<times> message list) list" where
  "runs f [] = []"
| "runs f (m # ms) = (f m, m # takeWhile (\<lambda>x. f x = f m) ms) # runs f (dropWhile (\<lambda>x. f x = f m) ms)"
  by pat_completeness auto
termination by (relation "measure (length \<circ> snd)") (auto simp: less_Suc_eq_le length_dropWhile_le)

lemma group_loop_runs:
  assumes "by_day f" "\<And>d. f d \<noteq> []"
  shows "cache_ok f c \<Longrightarrow> length c \<le> 201 \<Longrightarrow>
    \<exists>c'. group_loop f msgs d (gs @ [(d, g)]) c =
      Inr (gs @ [(d, g @ takeWhile (\<lambda>m. f (msg_date m) = d) msgs)]
           @ runs (\<lambda>m. f (msg_date m)) (dropWhile (\<lambda>m. f (msg_date m) = d) msgs), c')
      \<and> cache_ok f c' \<and> length c' \<le> 201"
proof (induction msgs arbitrary: d gs g c)
  case (Cons m msgs)
  let ?f = "f (msg_date m)"
  obtain c1 where get: "getFormattedDate f (msg_date m) c = (?f, c1)"
    and c1: "cache_ok f c1" "length c1 \<le> 201"
    using formatted_ok [OF assms(1) Cons.prems(1), of "msg_date m"] cache_bound [OF Cons.prems(2), of f "msg_date m"]
    by (cases "getFormattedDate f (msg_date m) c") auto
  show ?case
  proof (cases "?f = d")
    case True
    have "group_loop f (m # msgs) d (gs @ [(d, g)]) c = group_loop f msgs d (gs @ [(d, g @ [m])]) c1"
      by (simp add: get True)
    then show ?thesis using Cons.IH [OF c1, of d gs "g @ [m]"] True by (simp del: group_loop.simps)
  next
    case False
    have "group_loop f (m # msgs) d (gs @ [(d, g)]) c = group_loop f msgs ?f ((gs @ [(d, g)]) @ [(?f, [m])]) c1"
      using False by (simp add: get butlast_append)
    then show ?thesis using Cons.IH [OF c1, of ?f "gs @ [(d, g)]" "[m]"] False by (simp del: group_loop.simps)
  qed
qed simp

section \<open>Groups in any time zone\<close>

text \<open>The day of a message as the cache sees it, and a cache whose every label was given to some time stamp of its day.\<close>

definition utc_day :: "message \<Rightarrow> string" where
  "utc_day m = take 10 (msg_date m)"

definition day_label :: "(string \<Rightarrow> string) \<Rightarrow> string \<Rightarrow> string \<Rightarrow> bool" where
  "day_label locale_date day label \<longleftrightarrow> (\<exists>d. take 10 d = day \<and> locale_date d = label)"

definition labels_ok :: "(string \<Rightarrow> string) \<Rightarrow> date_cache \<Rightarrow> bool" where
  "labels_ok locale_date cache \<longleftrightarrow> (\<forall>k v. map_get cache k = Some v \<longrightarrow> day_label locale_date k v)"

lemma labels_ok_empty [simp]: "labels_ok f []"
  by (simp add: labels_ok_def)

text \<open>One message: its label belongs to its day, and the cache holds it afterwards.\<close>

lemma formatted_label:
  assumes "labels_ok f c"
  shows "day_label f (take 10 d) (fst (getFormattedDate f d c))" "labels_ok f (snd (getFormattedDate f d c))"
    "take 10 e = take 10 d \<Longrightarrow> fst (getFormattedDate f e (snd (getFormattedDate f d c))) = fst (getFormattedDate f d c)"
proof -
  have "day_label f (take 10 d) (fst (getFormattedDate f d c)) \<and> labels_ok f (snd (getFormattedDate f d c)) \<and>
    (take 10 e = take 10 d \<longrightarrow> fst (getFormattedDate f e (snd (getFormattedDate f d c))) = fst (getFormattedDate f d c))"
  proof (cases "d = []")
    case True
    then show ?thesis using assms by (auto simp: getFormattedDate_def day_label_def Let_def)
  next
    case d: False
    show ?thesis
    proof (cases "map_get c (take 10 d)")
      case (Some v)
      then have "getFormattedDate f d c = (v, c)" using d by (simp add: getFormattedDate_def map_has_iff_get Let_def)
      then show ?thesis using assms Some d
        by (auto simp: labels_ok_def getFormattedDate_def map_has_iff_get Let_def)
    next
      case None
      let ?c = "map_set (if length c > 200 then [] else c) (take 10 d) (f d)"
      have eq: "getFormattedDate f d c = (f d, ?c)" using d None by (simp add: getFormattedDate_def map_has_iff_get Let_def)
      have "labels_ok f ?c"
        using assms by (auto simp: labels_ok_def day_label_def split: if_splits)
      moreover have "fst (getFormattedDate f e ?c) = f d" if "take 10 e = take 10 d" for e
        using that d by (cases "e = []") (auto simp: getFormattedDate_def map_has_iff_get Let_def)
      ultimately show ?thesis unfolding eq by (auto simp: day_label_def)
    qed
  qed
  then show "day_label f (take 10 d) (fst (getFormattedDate f d c))" "labels_ok f (snd (getFormattedDate f d c))"
    "take 10 e = take 10 d \<Longrightarrow> fst (getFormattedDate f e (snd (getFormattedDate f d c))) = fst (getFormattedDate f d c)"
    by blast+
qed

text \<open>What the groups of a list of messages are: all messages in order, no empty group, neighbours under different
  labels, every label belonging to the day of each of its messages, and no two neighbouring messages of one day apart.\<close>

definition groups_ok :: "(string \<Rightarrow> string) \<Rightarrow> message list \<Rightarrow> (string \<times> message list) list \<Rightarrow> bool" where
  "groups_ok locale_date msgs gs \<longleftrightarrow>
     concat (map snd gs) = msgs \<and> list_all (\<lambda>g. snd g \<noteq> []) gs \<and> distinct_adj (map fst gs)
     \<and> list_all (\<lambda>g. list_all (\<lambda>m. day_label locale_date (utc_day m) (fst g)) (snd g)) gs
     \<and> successively (\<lambda>g h. utc_day (last (snd g)) \<noteq> utc_day (hd (snd h))) gs"

lemma groups_ok_extend:
  assumes "groups_ok f msgs (gs @ [(d, g)])" "day_label f (utc_day m) d"
  shows "groups_ok f (msgs @ [m]) (gs @ [(d, g @ [m])])"
  using assms by (cases g) (auto simp: groups_ok_def successively_append_iff)

lemma groups_ok_open:
  assumes "groups_ok f msgs (gs @ [(d, g)])" "day_label f (utc_day m) d'" "d' \<noteq> d" "utc_day (last g) \<noteq> utc_day m"
  shows "groups_ok f (msgs @ [m]) ((gs @ [(d, g)]) @ [(d', [m])])"
  using assms by (auto simp: groups_ok_def successively_append_iff distinct_adj_append_iff)

text \<open>The loop, from a state in which the last message was given the label of the last group.\<close>

lemma group_loop_ok:
  assumes "labels_ok f c" "length c \<le> 201" "groups_ok f done_msgs (gs @ [(d, g)])"
    "\<And>e. take 10 e = utc_day (last g) \<Longrightarrow> fst (getFormattedDate f e c) = d"
  shows "\<exists>gs' c'. group_loop f msgs d (gs @ [(d, g)]) c = Inr (gs', c') \<and> groups_ok f (done_msgs @ msgs) gs'
    \<and> labels_ok f c' \<and> length c' \<le> 201"
  using assms
proof (induction msgs arbitrary: d gs g c done_msgs)
  case (Cons m msgs)
  obtain l c1 where get: "getFormattedDate f (msg_date m) c = (l, c1)" by fastforce
  have c1: "labels_ok f c1" "length c1 \<le> 201" "day_label f (utc_day m) l"
    "\<And>e. take 10 e = utc_day m \<Longrightarrow> fst (getFormattedDate f e c1) = l"
    using formatted_label [OF Cons.prems(1), where d = "msg_date m"] cache_bound [OF Cons.prems(2), of f "msg_date m"]
    by (simp_all add: get utc_day_def)
  show ?case
  proof (cases "l = d")
    case True
    have "group_loop f (m # msgs) d (gs @ [(d, g)]) c = group_loop f msgs d (gs @ [(d, g @ [m])]) c1"
      by (simp add: get True)
    then show ?thesis
      using Cons.IH [OF c1(1,2) groups_ok_extend [OF Cons.prems(3), of m]] c1(3,4) True by (simp del: group_loop.simps)
  next
    case False
    have "utc_day (last g) \<noteq> utc_day m" using Cons.prems(4) [of "msg_date m"] get False by (auto simp: utc_day_def)
    note new = groups_ok_open [OF Cons.prems(3) c1(3) False this]
    have "group_loop f (m # msgs) d (gs @ [(d, g)]) c = group_loop f msgs l ((gs @ [(d, g)]) @ [(l, [m])]) c1"
      using False by (simp add: get butlast_append)
    then show ?thesis using Cons.IH [OF c1(1,2) new] c1(4) by (simp del: group_loop.simps)
  qed
qed auto

section \<open>Properties\<close>

definition mk_message :: "int \<Rightarrow> string \<Rightarrow> message" where
  "mk_message i d = \<lparr>msg_id = i, sender_id = None, sender_name = None, msg_text = Some ''hi'', msg_date = d, is_outgoing = False,
     reply_to_msg_id = None, reply_preview = None, media_type = None, media_filename = None, stripped_thumb = None, waveform_levels = [],
     file_size = None, mime_type = None\<rparr>"

definition mk_page :: "message list \<Rightarrow> message_page" where
  "mk_page ms = \<lparr>pg_messages = Some ms, pg_chat_id = 7, pg_has_more = True\<rparr>"

definition mk_event :: "int \<Rightarrow> chat_event" where
  "mk_event i = \<lparr>ev_type = ''outgoing_message'', ev_user_id = None, ev_status = None, ev_action = None, ev_chat_id = Some 7, ev_message_id = i,
     ev_sender_id = None, ev_sender_name = None, ev_text = Some ''hi'', ev_date = None, ev_is_outgoing = None,
     ev_reply_to_msg_id = None, ev_media_type = None, ev_media_filename = None, ev_stripped_thumb = None,
     ev_waveform_levels = None, ev_file_size = None, ev_mime_type = None\<rparr>"

definition mk_reply :: "int \<Rightarrow> send_reply" where
  "mk_reply i = \<lparr>sr_id = i, sr_text = Some ''hi'', sr_date = ''2026-01-01T00:00:00Z'', sr_media_type = None, sr_media_filename = None\<rparr>"

definition demo_pane :: pane where
  "demo_pane = fst (take_page 7 (mk_page [mk_message 40 ''2026-01-01T10:00:00Z'', mk_message 41 ''2026-01-01T11:00:00Z'']) (new_pane demo_drafts))"

lemma demo_pane_step: "pane_step (new_pane demo_drafts) None demo_pane"
  unfolding demo_pane_def by (rule pane_step.page_arrives) (simp add: page_ok_def mk_page_def mk_message_def)

lemma demo_pane_facts:
  "ids demo_pane = [40, 41]" "offsetId demo_pane = 0" "pendingJump demo_pane = None"
  by (simp_all add: demo_pane_def take_page_def mk_page_def mk_message_def new_pane_def ids_def Let_def)

text \<open>C28: whatever pages (each without repeated ids of its own), live events, answers, jumps and inputs come in whatever
  order, no page and no live event shows a message a second time: from an empty pane on, the number of times an id is shown is at most one more than the number of
  answers to the user's own messages that carried this id.  So each message is shown once as long as no such answer
  names it, and the answers are the only source of duplicates.\<close>

theorem pane_ids_counted:
  assumes "run pane_step (new_pane d) ls s"
  shows "length (filter (\<lambda>m. msg_id m = i) (allMessages s)) \<le> 1 + length (filter (\<lambda>l. l = Some i) ls)"
proof -
  have count: "length (filter (\<lambda>m. f m = x) ms) = count_list (map f ms) x" for f :: "'x \<Rightarrow> 'y" and x ms
    by (induction ms) auto
  show ?thesis
    using pane_run_shown [OF assms, of i] count [of msg_id i "allMessages s"] count [of id "Some i" ls]
    by (simp add: shown_def ids_def new_pane_def)
qed

theorem pane_ids_counted_witness:
  "length (filter (\<lambda>m. msg_id m = 42) (allMessages (send_success True 5 ''a'' 7 (mk_reply 42)
      (fst (handleRealtimeEventInPane ''a'' 7 ''now'' (mk_event 42) demo_pane))))) \<le> 1 + length (filter (\<lambda>l. l = Some 42) [None, None, Some (42 :: int)])"
proof (rule pane_ids_counted)
  let ?s = "fst (handleRealtimeEventInPane ''a'' 7 ''now'' (mk_event 42) demo_pane)"
  have "pane_step ?s (Some 42) (send_success True 5 ''a'' 7 (mk_reply 42) ?s)"
    using pane_step.sent [of ?s "mk_reply 42"] by (simp add: mk_reply_def)
  moreover have "pane_step demo_pane None ?s" by (rule pane_step.event_arrives)
  ultimately show "run pane_step (new_pane demo_drafts) [None, None, Some 42] (send_success True 5 ''a'' 7 (mk_reply 42) ?s)"
    using demo_pane_step by auto
qed

text \<open>The bound is reached: when the live event of a message the user has just sent arrives before the
  answer to the request, the message is appended a second time with the same id.\<close>

theorem sent_message_shown_twice:
  assumes "ev_type ev = ''outgoing_message''" "ev_chat_id ev = Some chatId" "ev_message_id ev = sr_id r"
    "sr_id r \<notin> set (map msg_id (allMessages s))"
  shows "length (filter (\<lambda>m. msg_id m = sr_id r)
      (allMessages (send_success c t accountId chatId r (fst (handleRealtimeEventInPane accountId chatId now ev s))))) = 2"
proof -
  let ?u = "send_success c t accountId chatId r (fst (handleRealtimeEventInPane accountId chatId now ev s))"
  have count: "length (filter (\<lambda>m. msg_id m = i) ms) = length (filter (\<lambda>j. j = i) (map msg_id ms))" for i ms
    by (induction ms) simp_all
  have new: "sr_id r \<notin> set (ids s)" using assms(4) by (simp only: ids_def) simp
  then have "ids ?u = ids s @ [sr_id r, sr_id r]" using assms(1-3) by (simp add: send_success_ids event_all)
  moreover have "filter (\<lambda>j. j = sr_id r) (ids s) = []" using new by (auto simp: filter_empty_conv)
  ultimately show ?thesis unfolding count ids_def by simp
qed

theorem sent_message_shown_twice_witness:
  "length (filter (\<lambda>m. msg_id m = sr_id (mk_reply 42))
      (allMessages (send_success True 5 ''a'' 7 (mk_reply 42) (fst (handleRealtimeEventInPane ''a'' 7 ''now'' (mk_event 42) demo_pane))))) = 2"
  by (rule sent_message_shown_twice)
    (use demo_pane_facts in \<open>simp_all add: mk_event_def mk_reply_def ids_def\<close>)

text \<open>Asking for older messages keeps the history in order: when the list and the page the server returns
  (messages before the offset) are in ascending order, so is the merged list, nothing shown is lost
  and nothing of the page is missing.\<close>

theorem older_page_keeps_order:
  assumes "sorted (map msg_id (allMessages s))" "allMessages s \<noteq> []" "offsetId (handleLoadOlder s) \<noteq> 0"
    "pg_messages pg = Some ms" "pg_chat_id pg = chatId"
    "sorted (map msg_id ms)" "list_all (\<lambda>m. msg_id m < offsetId (handleLoadOlder s)) ms"
  shows "allMessages (fst (take_page chatId pg (handleLoadOlder s))) = ms @ allMessages s
    \<and> sorted (map msg_id (ms @ allMessages s))"
proof -
  obtain m rest where all: "allMessages s = m # rest" using assms(2) by (cases "allMessages s") auto
  then have off: "offsetId (handleLoadOlder s) = msg_id m" and same: "allMessages (handleLoadOlder s) = allMessages s"
    by (simp_all add: handleLoadOlder_def)
  have below: "msg_id x < msg_id y" if "x \<in> set ms" "y \<in> set (allMessages s)" for x y
    using that assms(1,7) all off by (fastforce simp: list_all_iff)
  then have "filter (\<lambda>x. msg_id x \<notin> set (ids (handleLoadOlder s))) ms = ms"
    by (fastforce simp: ids_def same filter_id_conv)
  then have "allMessages (fst (take_page chatId pg (handleLoadOlder s))) = ms @ allMessages s"
    using assms(3-5) by (simp add: take_page_all same)
  moreover have "sorted (map msg_id (ms @ allMessages s))"
    using assms(1,6) below by (fastforce simp: sorted_append)
  ultimately show ?thesis by simp
qed

theorem older_page_keeps_order_witness:
  "allMessages (fst (take_page 7 (mk_page [mk_message 38 ''x'', mk_message 39 ''y'']) (handleLoadOlder demo_pane)))
     = [mk_message 38 ''x'', mk_message 39 ''y''] @ allMessages demo_pane
   \<and> sorted (map msg_id ([mk_message 38 ''x'', mk_message 39 ''y''] @ allMessages demo_pane))"
proof (rule older_page_keeps_order)
  have all: "allMessages demo_pane = [mk_message 40 ''2026-01-01T10:00:00Z'', mk_message 41 ''2026-01-01T11:00:00Z'']"
    by (simp add: demo_pane_def take_page_def mk_page_def new_pane_def Let_def)
  show "sorted (map msg_id (allMessages demo_pane))" "allMessages demo_pane \<noteq> []"
    "offsetId (handleLoadOlder demo_pane) \<noteq> 0"
    "list_all (\<lambda>m. msg_id m < offsetId (handleLoadOlder demo_pane)) [mk_message 38 ''x'', mk_message 39 ''y'']"
    by (simp_all add: all handleLoadOlder_def mk_message_def)
qed (simp_all add: mk_page_def mk_message_def)

text \<open>A jump to a message that is not loaded never shows it: the request asks for messages before
  \<open>id - 5\<close>, so the answer of a server that returns messages before the offset does not contain it; the
  jump is forgotten and nothing is highlighted.\<close>

theorem jump_misses_target:
  assumes "msgId \<notin> set (map msg_id (allMessages s))" "5 < msgId"
    "pg_messages pg = Some ms" "pg_chat_id pg = chatId"
    "list_all (\<lambda>m. msg_id m < offsetId (fst (scrollToMessage msgId s))) ms"
  shows "snd (take_page chatId pg (fst (scrollToMessage msgId s))) = None
    \<and> msgId \<notin> set (map msg_id (allMessages (fst (take_page chatId pg (fst (scrollToMessage msgId s))))))
    \<and> pendingJump (fst (take_page chatId pg (fst (scrollToMessage msgId s)))) = None"
proof -
  have jump: "fst (scrollToMessage msgId s) = s\<lparr>pendingJump := Some msgId, offsetId := msgId - 5\<rparr>"
    using assms(1,2) by (simp add: scrollToMessage_def)
  have "msgId \<notin> set (map msg_id ms)" using assms(5) by (auto simp: jump list_all_iff)
  then show ?thesis using assms(1-4) by (auto simp: jump take_page_def Let_def)
qed

theorem jump_misses_target_witness:
  "snd (take_page 7 (mk_page [mk_message 14 ''x'']) (fst (scrollToMessage 20 demo_pane))) = None
    \<and> 20 \<notin> set (map msg_id (allMessages (fst (take_page 7 (mk_page [mk_message 14 ''x'']) (fst (scrollToMessage 20 demo_pane))))))
    \<and> pendingJump (fst (take_page 7 (mk_page [mk_message 14 ''x'']) (fst (scrollToMessage 20 demo_pane)))) = None"
proof (rule jump_misses_target)
  show fresh: "20 \<notin> set (map msg_id (allMessages demo_pane))" using demo_pane_facts by (simp add: ids_def)
  show "list_all (\<lambda>m. msg_id m < offsetId (fst (scrollToMessage 20 demo_pane))) [mk_message 14 ''x'']"
    using fresh by (simp add: scrollToMessage_def mk_message_def)
qed (simp_all add: mk_page_def)

text \<open>Once older messages have been loaded, refetching the current page never removes a message: whatever
  the server answers, everything shown stays, so a message deleted on the server stays in the pane.\<close>

theorem deleted_message_stays:
  assumes "offsetId s \<noteq> 0"
  shows "set (allMessages s) \<subseteq> set (allMessages (fst (take_page chatId pg s)))
    \<and> offsetId (fst (take_page chatId pg s)) = offsetId s"
  using assms by (auto simp: take_page_def Let_def split: option.splits)

theorem deleted_message_stays_witness:
  "set (allMessages (handleLoadOlder demo_pane)) \<subseteq> set (allMessages (fst (take_page 7 (mk_page []) (handleLoadOlder demo_pane))))
    \<and> offsetId (fst (take_page 7 (mk_page []) (handleLoadOlder demo_pane))) = offsetId (handleLoadOlder demo_pane)"
  by (rule deleted_message_stays)
    (simp add: demo_pane_def take_page_def mk_page_def new_pane_def Let_def handleLoadOlder_def mk_message_def)

text \<open>C29: the grouping loop with its cache of formatted dates, for a formatter whose labels depend on the time zone and
  are never empty: it never fails, keeps the cache below 202 entries, and yields all messages in order in groups without
  an empty one, where neighbouring groups have different labels, two neighbouring messages of one UTC day are never
  separated, and the label of a group is for each of its messages the date of some time on the same UTC day (so in UTC
  its own date, elsewhere it may be off by a day).\<close>

theorem grouping_keeps_days:
  assumes "\<And>d. locale_date d \<noteq> []" "labels_ok locale_date cache" "length cache \<le> 201"
  shows "\<exists>gs cache'. groupedMessages locale_date msgs cache = Inr (gs, cache')
    \<and> concat (map snd gs) = msgs \<and> list_all (\<lambda>g. snd g \<noteq> []) gs \<and> distinct_adj (map fst gs)
    \<and> list_all (\<lambda>g. list_all (\<lambda>m. \<exists>d. take 10 d = take 10 (msg_date m) \<and> locale_date d = fst g) (snd g)) gs
    \<and> successively (\<lambda>g h. take 10 (msg_date (last (snd g))) \<noteq> take 10 (msg_date (hd (snd h)))) gs
    \<and> labels_ok locale_date cache' \<and> length cache' \<le> 201"
proof -
  have "\<exists>gs cache'. groupedMessages locale_date msgs cache = Inr (gs, cache') \<and> groups_ok locale_date msgs gs
    \<and> labels_ok locale_date cache' \<and> length cache' \<le> 201"
  proof (cases msgs)
    case (Cons m ms)
    obtain l c1 where get: "getFormattedDate locale_date (msg_date m) cache = (l, c1)" by fastforce
    have c1: "labels_ok locale_date c1" "length c1 \<le> 201" "day_label locale_date (utc_day m) l"
      "\<And>e. take 10 e = utc_day m \<Longrightarrow> fst (getFormattedDate locale_date e c1) = l"
      using formatted_label [OF assms(2), where d = "msg_date m"] cache_bound [OF assms(3), of locale_date "msg_date m"]
      by (simp_all add: get utc_day_def)
    then have "l \<noteq> []" using assms(1) by (auto simp: day_label_def)
    then have "groupedMessages locale_date msgs cache = group_loop locale_date ms l ([] @ [(l, [m])]) c1"
      by (simp add: Cons groupedMessages_def get)
    moreover have "groups_ok locale_date [m] ([] @ [(l, [m])])" using c1(3) by (simp add: groups_ok_def)
    ultimately show ?thesis
      using group_loop_ok [OF c1(1,2), of "[m]" "[]" l "[m]" ms] c1(4) by (simp add: Cons)
  qed (use assms in \<open>simp add: groupedMessages_def groups_ok_def\<close>)
  then show ?thesis unfolding groups_ok_def day_label_def utc_day_def by blast
qed

definition jakarta_date :: "string \<Rightarrow> string" where
  "jakarta_date d = (if d = ''2026-01-01T20:00:00Z'' then ''January 2, 2026'' else CHR ''d'' # take 10 d)"

theorem grouping_keeps_days_witness:
  "\<exists>gs cache'. groupedMessages jakarta_date (allMessages demo_pane) [] = Inr (gs, cache')
    \<and> concat (map snd gs) = allMessages demo_pane \<and> list_all (\<lambda>g. snd g \<noteq> []) gs \<and> distinct_adj (map fst gs)
    \<and> list_all (\<lambda>g. list_all (\<lambda>m. \<exists>d. take 10 d = take 10 (msg_date m) \<and> jakarta_date d = fst g) (snd g)) gs
    \<and> successively (\<lambda>g h. take 10 (msg_date (last (snd g))) \<noteq> take 10 (msg_date (hd (snd h)))) gs
    \<and> labels_ok jakarta_date cache' \<and> length cache' \<le> 201"
  by (rule grouping_keeps_days) (simp_all add: jakarta_date_def)

text \<open>Where the formatted date depends on the first ten characters of the time stamp only, as in the time zone UTC, the
  groups are the maximal runs of messages of one date.\<close>

theorem grouping_is_runs:
  assumes "by_day locale_date" "\<And>d. locale_date d \<noteq> []" "cache_ok locale_date cache" "length cache \<le> 201"
  shows "\<exists>cache'. groupedMessages locale_date msgs cache = Inr (runs (\<lambda>m. locale_date (msg_date m)) msgs, cache')
    \<and> cache_ok locale_date cache' \<and> length cache' \<le> 201"
proof (cases msgs)
  case (Cons m ms)
  let ?f = "locale_date (msg_date m)"
  obtain c1 where get: "getFormattedDate locale_date (msg_date m) cache = (?f, c1)"
    and c1: "cache_ok locale_date c1" "length c1 \<le> 201"
    using formatted_ok [OF assms(1,3), of "msg_date m"] cache_bound [OF assms(4), of locale_date "msg_date m"]
    by (cases "getFormattedDate locale_date (msg_date m) cache") auto
  have "groupedMessages locale_date msgs cache = group_loop locale_date ms ?f ([] @ [(?f, [m])]) c1"
    using assms(2) by (simp add: Cons groupedMessages_def get)
  then show ?thesis
    using group_loop_runs [OF assms(1,2) c1, of ms ?f "[]" "[m]"] by (simp add: Cons)
qed (use assms in \<open>simp add: groupedMessages_def\<close>)

theorem grouping_is_runs_witness:
  "\<exists>cache'. groupedMessages (\<lambda>d. CHR ''d'' # take 10 d) (allMessages demo_pane) []
      = Inr (runs (\<lambda>m. CHR ''d'' # take 10 (msg_date m)) (allMessages demo_pane), cache')
    \<and> cache_ok (\<lambda>d. CHR ''d'' # take 10 d) cache' \<and> length cache' \<le> 201"
  by (rule grouping_is_runs) (simp_all add: by_day_def)

text \<open>In another time zone labels are wrong: after a message of the same ten characters has been formatted, every
  other one gets its label, whatever date the formatter would give it in the browser's time zone.\<close>

theorem cached_label_ignores_time:
  assumes "a \<noteq> []" "b \<noteq> []" "take 10 a = take 10 b"
  shows "fst (getFormattedDate locale_date b (snd (getFormattedDate locale_date a []))) = locale_date a"
  using assms by (simp add: getFormattedDate_def Let_def map_has_def map_get_def)

theorem cached_label_ignores_time_witness:
  "fst (getFormattedDate (\<lambda>d. if d = ''2026-01-01T20:00:00Z'' then ''January 2, 2026'' else ''January 1, 2026'')
      ''2026-01-01T20:00:00Z'' (snd (getFormattedDate (\<lambda>d. if d = ''2026-01-01T20:00:00Z'' then ''January 2, 2026'' else ''January 1, 2026'')
      ''2026-01-01T10:00:00Z'' []))) = ''January 1, 2026''"
  by (subst cached_label_ignores_time) simp_all

text \<open>Text typed into a chat is there again when the chat is opened later, in whatever pane, as long as the
  draft store has room, and it is gone once it has been sent.\<close>

theorem typed_text_survives_switch:
  assumes "reach draft_start draft_step (draft_store s)" "length (drafts (draft_store s)) < MAX_DRAFTS"
    "accountId \<noteq> []" "chatId \<noteq> 0"
  shows "messageText (open_chat accountId chatId
      (new_pane (draft_store (handleInputChange can_store now accountId chatId val s)))) = JStr (if trim val = [] then [] else val)
    \<and> messageText (open_chat accountId chatId
      (new_pane (draft_store (send_success can_store now accountId chatId r s)))) = JStr []"
proof -
  have "draft_store (handleInputChange can_store now accountId chatId val s) = setDraft can_store now accountId chatId val (draft_store s)"
    using assms(3,4) by (simp add: handleInputChange_def chat_given_def Let_def)
  moreover have "draft_store (send_success can_store now accountId chatId r s) = setDraft can_store now accountId chatId [] (draft_store s)"
    using assms(3,4) by (simp add: send_success_def chat_given_def)
  moreover have "trim [] = []" by (simp add: trim_def)
  ultimately show ?thesis
    using assms(3,4) draft_get_set [OF assms(1,2)]
    by (simp add: open_chat_def load_draft_def reset_messages_def chat_given_def new_pane_def)
qed

theorem typed_text_survives_switch_witness:
  "messageText (open_chat ''a'' 7 (new_pane (draft_store (handleInputChange True 6 ''a'' 7 ''yo'' (new_pane demo_drafts)))))
     = JStr (if trim ''yo'' = [] then [] else ''yo'')
    \<and> messageText (open_chat ''a'' 7 (new_pane (draft_store (send_success True 6 ''a'' 7 (mk_reply 3) (new_pane demo_drafts))))) = JStr []"
  by (rule typed_text_survives_switch)
    (simp_all add: new_pane_def demo_reach, simp_all add: demo_drafts_eq MAX_DRAFTS_def)

section \<open>Two slips\<close>

lemma split_ws_clean: "list_all (list_all (\<lambda>c. \<not> is_ws c)) (split_ws s)"
proof (induction s rule: split_ws.induct)
  case (2 c cs)
  then show ?case by (cases "is_ws c"; cases "split_ws cs") simp_all
qed simp

lemma split_ws_parts: "w \<in> set (split_ws s) \<Longrightarrow> c \<in> set w \<Longrightarrow> \<not> is_ws c"
  using split_ws_clean [of s] by (auto simp: list_all_iff)

text \<open>Choosing a suggestion flattens the text: every line break and tab that was typed becomes a
  single space.\<close>

theorem suggestion_flattens_text:
  assumes "messageText s = JStr t" "handleSelectSuggestion val s = Inr s'"
  shows "\<exists>t'. messageText s' = JStr t' \<and> (\<forall>c\<in>set t'. is_ws c \<longrightarrow> c = CHR '' '' \<or> c \<in> set val)"
proof -
  let ?t = "join_with '' '' (butlast (split_ws t) @ [val]) @ '' ''"
  have "messageText s' = JStr ?t" using assms by (auto simp: handleSelectSuggestion_def)
  moreover have "c = CHR '' '' \<or> c \<in> set val" if c: "c \<in> set ?t" "is_ws c" for c
    using c set_join_with [of "'' ''" "butlast (split_ws t) @ [val]"] split_ws_parts [of _ t c]
    by (auto dest: in_set_butlastD)
  ultimately show ?thesis by blast
qed

text \<open>The gallery finds its position by searching the id of a message in the address shown, so a message with
  a file name whose id is part of another id is taken for it.\<close>

theorem media_position_confused:
  assumes "mediaList s = m # ms" "truthy (media_filename m)" "str_includes url (int_str (msg_id m))"
    "lightboxMedia s = Some (url, k)"
  shows "currentMediaIndex apiUrl auth accountId chatId s = 0"
  using assms by (simp add: currentMediaIndex_def)

end
