(* ===== verification/ChatList.thy ===== *)
theory ChatList
  imports ChatPane "HOL-Library.Multiset" "HOL-Library.Product_Lexorder"
begin

text \<open>
  The list of chats, \<open>src/frontend/src/components/chat/ChatsContent.tsx\<close>: the state of the component, its
  effects in the order React runs them, the live events, the filter and order of the list, and the
  mutations as values.  \<open>time\<close> is \<open>(s) => new Date(s).getTime()\<close> on valid dates.  The fields of accounts,
  chats and folders have the types of \<open>types.ts\<close>, less those that are only rendered; \<open>lm_now\<close> is \<open>new Date().toISOString()\<close>.
\<close>

record chat_item =
  chat_id :: int
  title :: "string option"
  username :: "string option"
  chat_type :: string
  last_message :: "string option"
  last_message_time :: "string option"
  unread_count :: int
  is_archived :: "bool option"
  is_pinned :: "bool option"
  is_muted :: "bool option"
  photo_version :: "int option"

record folder_item =
  folder_id :: int
  folder_title :: string
  included_chat_ids :: "int list"

datatype folder_filter = FilterAll | FilterArchived | FilterFolder int string

record chats_state =
  selectedAccount :: string
  page_no :: int
  search :: string
  selectedChatId :: "int option"
  selectedChatTitle :: string
  selectedChatType :: string
  selectedChatPhotoVersion :: "int option"
  folderFilter :: folder_filter
  typingChats :: "(int, string) jsmap"
  typing_timers :: "int list"
  onlineUsers :: "(int, bool) jsmap"
  selectionMode :: bool
  selectedChatIds :: "int list"
  deleteChatOpen :: bool
  deleteChatTarget :: "chat_item option"
  batchDeleteOpen :: bool
  loadedChats :: "chat_item list"

text \<open>The initial state from the address parameters \<open>account\<close> and \<open>chat\<close> (\<open>Number\<close> of it).\<close>

definition initial_chats :: "string option \<Rightarrow> int option \<Rightarrow> chats_state" where
  "initial_chats accountParam chatParam =
     \<lparr>selectedAccount = (if truthy accountParam then the accountParam else []), page_no = 1, search = [],
      selectedChatId = chatParam, selectedChatTitle = [], selectedChatType = [], selectedChatPhotoVersion = None,
      folderFilter = FilterAll, typingChats = [], typing_timers = [], onlineUsers = [], selectionMode = False,
      selectedChatIds = [], deleteChatOpen = False, deleteChatTarget = None, batchDeleteOpen = False, loadedChats = []\<rparr>"

section \<open>Effects\<close>

record account_item =
  acc_id :: string
  acc_is_active :: bool
  acc_for_sale :: bool

definition auto_select_account :: "account_item list option \<Rightarrow> chats_state \<Rightarrow> chats_state" where
  "auto_select_account accounts s =
     (let activeAccs = (case accounts of None \<Rightarrow> [] | Some as \<Rightarrow> filter (\<lambda>a. acc_is_active a \<and> \<not> acc_for_sale a) as);
          isSelectedActive = list_ex (\<lambda>a. acc_id a = selectedAccount s) activeAccs
      in case activeAccs of
           [] \<Rightarrow> s
         | a # _ \<Rightarrow> if selectedAccount s = [] \<or> \<not> isSelectedActive then s\<lparr>selectedAccount := acc_id a\<rparr> else s)"

definition reset_selection :: "chats_state \<Rightarrow> chats_state" where
  "reset_selection s = s\<lparr>selectionMode := False, selectedChatIds := []\<rparr>"

definition merge_chats :: "chat_item list option \<Rightarrow> chats_state \<Rightarrow> chats_state" where
  "merge_chats chatsData s =
     (case chatsData of
        None \<Rightarrow> s
      | Some cs \<Rightarrow>
          if page_no s = 1 then s\<lparr>loadedChats := cs\<rparr>
          else
            let existingIds = map chat_id (loadedChats s);
                uniqueNew = filter (\<lambda>c. chat_id c \<notin> set existingIds) cs
            in s\<lparr>loadedChats := loadedChats s @ uniqueNew\<rparr>)"

definition account_switched :: "chats_state \<Rightarrow> chats_state" where
  "account_switched s = s\<lparr>page_no := 1, selectedChatId := None, selectedChatPhotoVersion := None\<rparr>"

text \<open>The title, type and picture of a chat that the address names; the result has the addresses posted to.
  \<open>unknown\<close> is the translated text.\<close>

definition title_or :: "string \<Rightarrow> chat_item \<Rightarrow> string" where
  "title_or unknown c = (if truthy (title c) then the (title c) else unknown)"

definition populate_selected :: "string \<Rightarrow> chats_state \<Rightarrow> chats_state \<times> string list" where
  "populate_selected unknown s =
     (case num_or_null (selectedChatId s) of
        None \<Rightarrow> (s, [])
      | Some i \<Rightarrow>
          if selectedChatTitle s \<noteq> [] then (s, [])
          else (case find (\<lambda>c. chat_id c = i) (loadedChats s) of
                  None \<Rightarrow> (s, [])
                | Some c \<Rightarrow>
                    (s\<lparr>selectedChatTitle := title_or unknown c, selectedChatType := chat_type c,
                       selectedChatPhotoVersion := photo_version c\<rparr>,
                     [''/accounts/'' @ selectedAccount s @ ''/chats/'' @ int_str i @ ''/read''])))"

text \<open>The effects of the first render, in order.  Every effect reads the values of that render; what it sets
  is combined, the later call winning.  Neither the chats nor the folders are loaded then.\<close>

definition mount_effects :: "account_item list option \<Rightarrow> string \<Rightarrow> chats_state \<Rightarrow> chats_state" where
  "mount_effects accounts unknown s =
     (let s1 = s\<lparr>selectedAccount := selectedAccount (auto_select_account accounts s)\<rparr>;
          s2 = reset_selection s1;
          s3 = s2\<lparr>loadedChats := loadedChats (merge_chats None s)\<rparr>;
          s4 = account_switched s3;
          found = fst (populate_selected unknown s)
      in if found = s then s4
         else s4\<lparr>selectedChatTitle := selectedChatTitle found, selectedChatType := selectedChatType found,
                 selectedChatPhotoVersion := selectedChatPhotoVersion found\<rparr>)"

section \<open>Live events\<close>

definition bump_chat :: "string \<Rightarrow> int option \<Rightarrow> chat_event \<Rightarrow> chat_item \<Rightarrow> chat_item" where
  "bump_chat now selected ev c =
     c\<lparr>last_message := Some (if truthy (ev_text ev) then the (ev_text ev)
                             else if truthy (ev_media_type ev) then ''['' @ the (ev_media_type ev) @ '']'' else []),
       last_message_time := Some (if truthy (ev_date ev) then the (ev_date ev) else now),
       unread_count := (if ev_chat_id ev = selected then 0
                        else unread_count c + (if ev_is_outgoing ev = Some True then 0 else 1))\<rparr>"

text \<open>The new state and the keys that are invalidated.  A status that is absent makes the handler throw,
  which the socket ignores.\<close>

definition handleRealtimeEvent :: "string \<Rightarrow> chat_event \<Rightarrow> chats_state \<Rightarrow> chats_state \<times> qkey list" where
  "handleRealtimeEvent now ev s =
     (if ev_type ev = [] then (s, [])
      else if ev_type ev = ''typing'' then
        (case ev_chat_id ev of
           None \<Rightarrow> (s, [])
         | Some i \<Rightarrow>
             (s\<lparr>typingChats := map_set (typingChats s) i (if truthy (ev_action ev) then the (ev_action ev) else ''typing''),
                typing_timers := typing_timers s @ [i]\<rparr>, []))
      else if ev_type ev = ''user_update'' then
        (case (ev_user_id ev, ev_status ev) of
           (Some u, Some st) \<Rightarrow>
             (s\<lparr>onlineUsers := map_set (onlineUsers s) u (str_includes st ''Online'' \<or> str_includes st ''online'')\<rparr>, [])
         | _ \<Rightarrow> (s, []))
      else if ev_type ev = ''new_message'' \<or> ev_type ev = ''outgoing_message'' then
        (s\<lparr>loadedChats := map (\<lambda>c. if Some (chat_id c) = ev_chat_id ev then bump_chat now (selectedChatId s) ev c else c)
              (loadedChats s)\<rparr>, [])
      else (s, [skey [''chats'', selectedAccount s], skey [''folders'', selectedAccount s]]))"

text \<open>The callback of the first pending timeout of four seconds.\<close>

definition typing_timeout :: "chats_state \<Rightarrow> chats_state" where
  "typing_timeout s =
     (case typing_timers s of
        [] \<Rightarrow> s
      | i # is \<Rightarrow> s\<lparr>typing_timers := is, typingChats := map_delete (typingChats s) i\<rparr>)"

section \<open>Filter and order\<close>

definition folderFilters :: "folder_item list \<Rightarrow> folder_filter list" where
  "folderFilters folders = [FilterAll, FilterArchived] @ map (\<lambda>f. FilterFolder (folder_id f) (folder_title f)) folders"

definition matches_search :: "string \<Rightarrow> chat_item \<Rightarrow> bool" where
  "matches_search q c \<longleftrightarrow>
     (case title c of None \<Rightarrow> False | Some t \<Rightarrow> str_includes (toLowerCase t) (toLowerCase q))
     \<or> (case username c of None \<Rightarrow> False | Some u \<Rightarrow> str_includes (toLowerCase u) (toLowerCase q))"

definition in_folder :: "folder_item list \<Rightarrow> folder_filter \<Rightarrow> chat_item \<Rightarrow> bool" where
  "in_folder folders flt c =
     (case flt of
        FilterArchived \<Rightarrow> is_archived c = Some True
      | FilterFolder i _ \<Rightarrow>
          (case find (\<lambda>f. folder_id f = i) folders of None \<Rightarrow> False | Some f \<Rightarrow> chat_id c \<in> set (included_chat_ids f))
      | FilterAll \<Rightarrow> is_archived c \<noteq> Some True)"

definition chat_pinned :: "chat_item \<Rightarrow> int" where
  "chat_pinned c = (if is_pinned c = Some True then 1 else 0)"

definition chat_time :: "(string \<Rightarrow> int) \<Rightarrow> chat_item \<Rightarrow> int" where
  "chat_time time c = (if truthy (last_message_time c) then time (the (last_message_time c)) else 0)"

definition filteredChats :: "(string \<Rightarrow> int) \<Rightarrow> folder_item list \<Rightarrow> chats_state \<Rightarrow> chat_item list" where
  "filteredChats time folders s =
     (let r1 = (if search s \<noteq> [] then filter (matches_search (search s)) (loadedChats s) else loadedChats s);
          r2 = filter (in_folder folders (folderFilter s)) r1
      in js_sort (\<lambda>c. (- chat_pinned c, - chat_time time c)) r2)"

section \<open>Handlers\<close>

definition handleSelectChat :: "string \<Rightarrow> chat_item \<Rightarrow> chats_state \<Rightarrow> chats_state \<times> string list" where
  "handleSelectChat unknown c s =
     (if selectionMode s
      then (s\<lparr>selectedChatIds := (if chat_id c \<in> set (selectedChatIds s) then filter (\<lambda>i. i \<noteq> chat_id c) (selectedChatIds s)
                                  else selectedChatIds s @ [chat_id c])\<rparr>, [])
      else (s\<lparr>selectedChatId := Some (chat_id c), selectedChatTitle := title_or unknown c, selectedChatType := chat_type c,
              selectedChatPhotoVersion := photo_version c\<rparr>,
            if selectedAccount s \<noteq> []
            then [''/accounts/'' @ selectedAccount s @ ''/chats/'' @ int_str (chat_id c) @ ''/read''] else []))"

text \<open>What selecting a chat writes into the cached page of chats.\<close>

definition mark_read :: "int \<Rightarrow> chat_item list option \<Rightarrow> chat_item list option" where
  "mark_read i old = map_option (map (\<lambda>c. if chat_id c = i then c\<lparr>unread_count := 0\<rparr> else c)) old"

definition handleBackToList :: "chats_state \<Rightarrow> chats_state" where
  "handleBackToList s = s\<lparr>selectedChatId := None, selectedChatPhotoVersion := None\<rparr>"

definition chats_mutation :: "string \<Rightarrow> string \<Rightarrow> json option \<Rightarrow> mutation" where
  "chats_mutation account path body =
     mutate ''POST'' (''/accounts/'' @ account @ ''/chats/'' @ path) body [skey [''chats'', account]]"

definition chatsQuery :: "string \<Rightarrow> int \<Rightarrow> query" where
  "chatsQuery account p =
     (get_query [JStr ''chats'', JStr account, JNum p] (''/accounts/'' @ account @ ''/chats?page='' @ int_str p @ ''&page_size=50''))
     \<lparr>q_enabled := (account \<noteq> [])\<rparr>"

definition foldersQuery :: "string \<Rightarrow> query" where
  "foldersQuery account =
     (get_query (skey [''folders'', account]) (''/accounts/'' @ account @ ''/folders''))\<lparr>q_enabled := (account \<noteq> [])\<rparr>"

definition archive_chat :: "string \<Rightarrow> int \<Rightarrow> mutation" where
  "archive_chat account i = chats_mutation account (int_str i @ ''/archive'') None"
definition unarchive_chat :: "string \<Rightarrow> int \<Rightarrow> mutation" where
  "unarchive_chat account i = chats_mutation account (int_str i @ ''/unarchive'') None"
definition pin_chat :: "string \<Rightarrow> int \<Rightarrow> mutation" where
  "pin_chat account i = chats_mutation account (int_str i @ ''/pin'') None"
definition unpin_chat :: "string \<Rightarrow> int \<Rightarrow> mutation" where
  "unpin_chat account i = chats_mutation account (int_str i @ ''/unpin'') None"
definition mute_chat :: "string \<Rightarrow> int \<Rightarrow> int option \<Rightarrow> mutation" where
  "mute_chat account i duration =
     chats_mutation account (int_str i @ ''/mute'') (Some (JObj (opt_prop ''duration'' (map_option JNum duration))))"
definition unmute_chat :: "string \<Rightarrow> int \<Rightarrow> mutation" where
  "unmute_chat account i = chats_mutation account (int_str i @ ''/unmute'') None"
definition delete_chat :: "string \<Rightarrow> int \<Rightarrow> mutation" where
  "delete_chat account i =
     mutate ''DELETE'' (''/accounts/'' @ account @ ''/chats/'' @ int_str i) None [skey [''chats'', account]]"

definition id_list :: "int list \<Rightarrow> json" where "id_list is = JObj [(''chat_ids'', JArr (map JNum is))]"

definition batch_archive :: "string \<Rightarrow> int list \<Rightarrow> mutation" where
  "batch_archive account is = chats_mutation account ''batch/archive'' (Some (id_list is))"
definition batch_unarchive :: "string \<Rightarrow> int list \<Rightarrow> mutation" where
  "batch_unarchive account is = chats_mutation account ''batch/unarchive'' (Some (id_list is))"
definition batch_delete :: "string \<Rightarrow> int list \<Rightarrow> mutation" where
  "batch_delete account is = chats_mutation account ''batch/delete'' (Some (id_list is))"

text \<open>When one of the batch mutations succeeds.\<close>

definition batch_done :: "chats_state \<Rightarrow> chats_state" where
  "batch_done s = s\<lparr>selectedChatIds := []\<rparr>"

definition handleArchiveClick :: "chat_item \<Rightarrow> chats_state \<Rightarrow> mutation" where
  "handleArchiveClick c s =
     (if is_archived c = Some True then unarchive_chat (selectedAccount s) (chat_id c)
      else archive_chat (selectedAccount s) (chat_id c))"

definition handlePinClick :: "chat_item \<Rightarrow> chats_state \<Rightarrow> mutation" where
  "handlePinClick c s =
     (if is_pinned c = Some True then unpin_chat (selectedAccount s) (chat_id c) else pin_chat (selectedAccount s) (chat_id c))"

definition handleMuteClick :: "chat_item \<Rightarrow> int option \<Rightarrow> chats_state \<Rightarrow> mutation" where
  "handleMuteClick c duration s =
     (if is_muted c = Some True then unmute_chat (selectedAccount s) (chat_id c)
      else mute_chat (selectedAccount s) (chat_id c) duration)"

definition handleDeleteClick :: "chat_item \<Rightarrow> chats_state \<Rightarrow> chats_state" where
  "handleDeleteClick c s = s\<lparr>deleteChatTarget := Some c, deleteChatOpen := True\<rparr>"

definition handleConfirmDeleteChat :: "chats_state \<Rightarrow> chats_state \<times> mutation option" where
  "handleConfirmDeleteChat s =
     (s\<lparr>deleteChatOpen := False, deleteChatTarget := None\<rparr>,
      map_option (\<lambda>c. delete_chat (selectedAccount s) (chat_id c)) (deleteChatTarget s))"

definition handleBatchArchive :: "chats_state \<Rightarrow> mutation option" where
  "handleBatchArchive s =
     (if selectedChatIds s = [] then None
      else if folderFilter s = FilterArchived then Some (batch_unarchive (selectedAccount s) (selectedChatIds s))
      else Some (batch_archive (selectedAccount s) (selectedChatIds s)))"

definition handleBatchDelete :: "chats_state \<Rightarrow> chats_state" where
  "handleBatchDelete s = (if selectedChatIds s = [] then s else s\<lparr>batchDeleteOpen := True\<rparr>)"

definition handleConfirmBatchDelete :: "chats_state \<Rightarrow> chats_state \<times> mutation" where
  "handleConfirmBatchDelete s = (s\<lparr>batchDeleteOpen := False\<rparr>, batch_delete (selectedAccount s) (selectedChatIds s))"

definition getApiUrl :: "string option \<Rightarrow> bool \<Rightarrow> string" where
  "getApiUrl env in_browser =
     (let apiUrl = (if truthy env then the env else ''/api/v1'')
      in if in_browser \<and> str_includes apiUrl ''backend:8000'' then ''/api/v1'' else apiUrl)"

section \<open>Lemmas\<close>

definition chat_before :: "(string \<Rightarrow> int) \<Rightarrow> chat_item \<Rightarrow> chat_item \<Rightarrow> bool" where
  "chat_before time a b \<longleftrightarrow>
     chat_pinned b < chat_pinned a \<or> (chat_pinned a = chat_pinned b \<and> chat_time time b \<le> chat_time time a)"

definition feed :: "string \<Rightarrow> chat_event list \<Rightarrow> chats_state \<Rightarrow> chats_state" where
  "feed now evs s = fold (\<lambda>ev s. fst (handleRealtimeEvent now ev s)) evs s"

text \<open>An event that counts as unread in chat \<open>k\<close>.\<close>

definition incoming :: "int \<Rightarrow> chat_event \<Rightarrow> bool" where
  "incoming k ev \<longleftrightarrow> ev_type ev \<in> {''new_message'', ''outgoing_message''} \<and> ev_chat_id ev = Some k \<and> ev_is_outgoing ev \<noteq> Some True"

lemma event_keeps:
  "selectedChatId (fst (handleRealtimeEvent now ev s)) = selectedChatId s"
  "map chat_id (loadedChats (fst (handleRealtimeEvent now ev s))) = map chat_id (loadedChats s)"
  by (auto simp: handleRealtimeEvent_def bump_chat_def split: option.splits)

lemma event_unread:
  assumes "i < length (loadedChats s)" "chat_id (loadedChats s ! i) = k" "selectedChatId s \<noteq> Some k"
  shows "unread_count (loadedChats (fst (handleRealtimeEvent now ev s)) ! i) =
    unread_count (loadedChats s ! i) + (if incoming k ev then 1 else 0)"
  using assms by (auto simp: handleRealtimeEvent_def incoming_def bump_chat_def split: option.splits)

lemma event_chat:
  assumes "i < length (loadedChats s)"
  shows "i < length (loadedChats (fst (handleRealtimeEvent now ev s)))"
    "chat_id (loadedChats (fst (handleRealtimeEvent now ev s)) ! i) = chat_id (loadedChats s ! i)"
  using assms event_keeps(2) [of now ev s] by (metis length_map, metis length_map nth_map)

section \<open>Properties\<close>

definition mk_chat :: "int \<Rightarrow> bool \<Rightarrow> string \<Rightarrow> chat_item" where
  "mk_chat i pinned t = \<lparr>chat_id = i, title = Some ''c'', username = None, chat_type = ''user'', last_message = None,
     last_message_time = Some t, unread_count = 2, is_archived = None, is_pinned = Some pinned, is_muted = None, photo_version = None\<rparr>"

definition demo_chats :: chats_state where
  "demo_chats = (initial_chats (Some ''a'') None)\<lparr>loadedChats := [mk_chat 7 False ''1'', mk_chat 8 True ''2'']\<rparr>"

text \<open>C30: the list shows exactly the loaded chats that match the search and the folder, each as often as it is
  loaded, pinned chats first and in each group the newest message first.\<close>

theorem chat_list_ordered:
  "mset (filteredChats time folders s) =
     mset (filter (\<lambda>c. (search s = [] \<or> matches_search (search s) c) \<and> in_folder folders (folderFilter s) c) (loadedChats s))
   \<and> sorted_wrt (chat_before time) (filteredChats time folders s)"
proof
  let ?r1 = "if search s \<noteq> [] then filter (matches_search (search s)) (loadedChats s) else loadedChats s"
  let ?r2 = "filter (in_folder folders (folderFilter s)) ?r1"
  let ?key = "\<lambda>c. (- chat_pinned c, - chat_time time c)"
  have r: "filteredChats time folders s = js_sort ?key ?r2" by (simp add: filteredChats_def Let_def)
  have "?r2 = filter (\<lambda>c. (search s = [] \<or> matches_search (search s) c) \<and> in_folder folders (folderFilter s) c) (loadedChats s)"
    by (auto simp: conj_commute)
  then show "mset (filteredChats time folders s) =
     mset (filter (\<lambda>c. (search s = [] \<or> matches_search (search s) c) \<and> in_folder folders (folderFilter s) c) (loadedChats s))"
    by (simp add: r mset_js_sort)
  have "sorted_wrt (\<lambda>a b. ?key a \<le> ?key b) (js_sort ?key ?r2)"
    using sorted_js_sort [of ?key ?r2] by (simp add: sorted_wrt_map)
  then show "sorted_wrt (chat_before time) (filteredChats time folders s)"
    unfolding r by (rule sorted_wrt_mono_rel [rotated]) (auto simp: chat_before_def less_eq_prod_def)
qed

text \<open>The unread counter of a chat that is not open counts exactly the incoming messages: after any sequence of
  live events it has grown by the number of messages for that chat that are not marked as outgoing.\<close>

theorem unread_counts_incoming:
  assumes "i < length (loadedChats s)" "selectedChatId s \<noteq> Some (chat_id (loadedChats s ! i))"
  shows "unread_count (loadedChats (feed now evs s) ! i) =
    unread_count (loadedChats s ! i) + int (length (filter (incoming (chat_id (loadedChats s ! i))) evs))"
  using assms
proof (induction evs arbitrary: s)
  case (Cons ev evs)
  let ?s = "fst (handleRealtimeEvent now ev s)"
  have at: "i < length (loadedChats ?s)" "chat_id (loadedChats ?s ! i) = chat_id (loadedChats s ! i)"
    using event_chat [OF Cons.prems(1)] by blast+
  have "feed now (ev # evs) s = feed now evs ?s" by (simp add: feed_def)
  then show ?case
    using Cons.IH [OF at(1)] Cons.prems event_unread [OF Cons.prems(1) refl, of now ev] at(2)
    by (simp add: event_keeps(1))
qed (simp add: feed_def)

theorem unread_counts_incoming_witness:
  "unread_count (loadedChats (feed ''n'' [mk_event 1, mk_event 2] demo_chats) ! 0) =
    unread_count (loadedChats demo_chats ! 0) + int (length (filter (incoming (chat_id (loadedChats demo_chats ! 0))) [mk_event 1, mk_event 2]))"
  by (rule unread_counts_incoming) (simp_all add: demo_chats_def initial_chats_def)

text \<open>A chat named in the address is never opened: the effect that runs when the account changes runs after
  the first render too and deselects it, before any chat is loaded.\<close>

theorem url_chat_is_dropped:
  "selectedChatId (mount_effects accounts unknown (initial_chats accountParam chatParam)) = None
   \<and> selectedChatTitle (mount_effects accounts unknown (initial_chats accountParam chatParam)) = []"
proof -
  have "fst (populate_selected unknown (initial_chats accountParam chatParam)) = initial_chats accountParam chatParam"
    by (simp add: populate_selected_def initial_chats_def split: option.splits)
  then show ?thesis
    by (simp add: mount_effects_def account_switched_def reset_selection_def Let_def) (simp add: initial_chats_def)
qed

text \<open>Once a second page of chats is loaded, a refetch never changes a chat that is shown: pinning, archiving,
  muting or deleting it on the server has no effect on the list.\<close>

theorem later_page_keeps_stale_chats:
  assumes "page_no s \<noteq> 1"
  shows "\<exists>new. loadedChats (merge_chats answer s) = loadedChats s @ new
    \<and> list_all (\<lambda>c. chat_id c \<notin> set (map chat_id (loadedChats s))) new"
  using assms by (auto simp: merge_chats_def Let_def list_all_iff split: option.splits)

theorem later_page_keeps_stale_chats_witness:
  "\<exists>new. loadedChats (merge_chats (Some [mk_chat 7 True ''9'']) (demo_chats\<lparr>page_no := 2\<rparr>)) = loadedChats (demo_chats\<lparr>page_no := 2\<rparr>) @ new
    \<and> list_all (\<lambda>c. chat_id c \<notin> set (map chat_id (loadedChats (demo_chats\<lparr>page_no := 2\<rparr>)))) new"
  by (rule later_page_keeps_stale_chats) simp

text \<open>A message for a chat that is not loaded changes nothing and refreshes nothing: a new
  conversation appears only when something else reloads the list.\<close>

theorem message_of_new_chat_ignored:
  assumes "ev_type ev = ''new_message''" "list_all (\<lambda>c. ev_chat_id ev \<noteq> Some (chat_id c)) (loadedChats s)"
  shows "handleRealtimeEvent now ev s = (s, [])"
proof -
  have "map (\<lambda>c. if Some (chat_id c) = ev_chat_id ev then bump_chat now (selectedChatId s) ev c else c) (loadedChats s) = loadedChats s"
    by (rule map_idI) (use assms(2) in \<open>auto simp: list_all_iff\<close>)
  then show ?thesis using assms(1) by (simp add: handleRealtimeEvent_def)
qed

text \<open>The timeout of an earlier typing event hides a later one: two events for a chat, and the first
  timeout removes the indicator although the second event is newer.\<close>

theorem typing_hidden_early:
  assumes "ev_type ev = ''typing''" "ev_type ev' = ''typing''" "ev_chat_id ev = Some k" "ev_chat_id ev' = Some k"
    "typing_timers s = []"
  shows "map_get (typingChats (typing_timeout (feed now [ev, ev'] s))) k = None
    \<and> typing_timers (typing_timeout (feed now [ev, ev'] s)) = [k]"
  using assms by (simp add: feed_def handleRealtimeEvent_def typing_timeout_def)

end
