(* ===== verification/PageLanguage.thy ===== *)
theory PageLanguage
  imports I18n
begin

text \<open>
  How a page gets its language: the root layout \<open>src/frontend/src/app/layout.tsx\<close>, which the server renders with
  the headers of the middleware, the language store of \<open>src/frontend/src/lib/i18n/index.ts\<close>, which is created when
  its module is loaded (once in a server process, once in every page that the browser opens), and the component
  \<open>LanguageSync\<close> of \<open>src/frontend/src/app/providers.tsx\<close>, whose effects run when the page is mounted.

  \<open>headers\<close> are the request headers the page is rendered with, \<open>None\<close> when they cannot be read.
\<close>

section \<open>The store and its module\<close>

definition useI18nStore :: "page_env option \<Rightarrow> (string, string) jsmap option \<Rightarrow> i18n_state" where
  "useI18nStore page headers = \<lparr>cur_locale = getInitialLocale page headers, cur_preference = PrefSystem\<rparr>"

text \<open>The instance of the module in a server process, once it is loaded.\<close>

type_synonym server_module = "i18n_state option"

definition load_module :: "(string, string) jsmap option \<Rightarrow> server_module \<Rightarrow> server_module" where
  "load_module headers m = (case m of None \<Rightarrow> Some (useI18nStore None headers) | Some st \<Rightarrow> Some st)"

section \<open>The layout\<close>

text \<open>The parts of the rendered document that depend on the language: the \<open>lang\<close> attribute, the value that the
  inline script gives to \<open>__TELEBOS_LOCALE__\<close>, and two entries of the JSON-LD block.\<close>

record html_page =
  hp_lang :: string
  hp_script :: string
  ld_url :: string
  ld_inLanguage :: string

definition RootLayout :: "string \<Rightarrow> (string, string) jsmap option \<Rightarrow> html_page" where
  "RootLayout siteUrl headers =
     (let requestLocale = getRequestLocale False headers;
          shown = (case requestLocale of None \<Rightarrow> ''en'' | Some l \<Rightarrow> locale_str l)
      in \<lparr>hp_lang = shown, hp_script = shown,
          ld_url = (if requestLocale = Some Id then siteUrl @ ''/id'' else siteUrl),
          ld_inLanguage = (if requestLocale = Some Id then ''id-ID'' else ''en-US'')\<rparr>)"

text \<open>\<open>p.replace(/^\/id(\/|$)/, "/")\<close> and \<open>p.replace(/\/$/, "")\<close>.\<close>

definition strip_id :: "string \<Rightarrow> string" where
  "strip_id p =
     (if startsWith p ''/id/'' then CHR ''/'' # drop 4 p else if p = ''/id'' then ''/'' else p)"

definition strip_slash :: "string \<Rightarrow> string" where
  "strip_slash p = (if p \<noteq> [] \<and> last p = CHR ''/'' then butlast p else p)"

record page_metadata =
  md_isId :: bool
  md_canonical :: string
  md_en :: string
  md_id :: string

definition generateMetadata :: "string \<Rightarrow> (string, string) jsmap option \<Rightarrow> page_metadata" where
  "generateMetadata siteUrl headers =
     (let requestLocale = (case getRequestLocale False headers of None \<Rightarrow> En | Some l \<Rightarrow> l);
          requestPathname = (case getRequestPathname False headers of None \<Rightarrow> ''/'' | Some p \<Rightarrow> p);
          isId = (requestLocale = Id \<or> startsWith requestPathname ''/id'');
          unlocalized =
            (if isId then (if requestPathname = ''/id'' \<or> requestPathname = ''/id/'' then ''/'' else strip_id requestPathname)
             else requestPathname);
          cleanPath = (if unlocalized = ''/'' then [] else strip_slash unlocalized)
      in \<lparr>md_isId = isId,
          md_canonical = (if isId then siteUrl @ ''/id'' @ cleanPath else siteUrl @ cleanPath),
          md_en = siteUrl @ cleanPath,
          md_id = siteUrl @ ''/id'' @ cleanPath\<rparr>)"

section \<open>The page in the browser\<close>

text \<open>The browser evaluates the inline script before the modules: what the store's initial state can read.  The
  entry of local storage is readable when \<open>storage_ok\<close> holds.\<close>

definition stored_entry :: "browser \<Rightarrow> string option option" where
  "stored_entry b = (if storage_ok b then Some (b_storage b) else None)"

definition opened :: "html_page \<Rightarrow> browser \<Rightarrow> page_env" where
  "opened page b =
     \<lparr>server_locale = Some (hp_script page), html_lang = Some (hp_lang page), stored_locale = stored_entry b,
      page_nav = b_nav b\<rparr>"

text \<open>The first effect of \<open>LanguageSync\<close>.\<close>

definition hydrate_language :: "string \<Rightarrow> string option \<Rightarrow> i18n_state \<Rightarrow> browser \<Rightarrow> i18n_state \<times> browser" where
  "hydrate_language pathname fromServer s b =
     (if pathname = ''/id'' \<or> startsWith pathname ''/id/'' then setLocale Id s b
      else case stored_entry b of
             None \<Rightarrow> (s, b)
           | Some stored \<Rightarrow>
               (if stored = Some ''system'' then setPreference PrefSystem s b
                else case read_locale stored of
                       Some l \<Rightarrow> setPreference (Pref l) s b
                     | None \<Rightarrow>
                         (case read_locale fromServer of
                            Some l \<Rightarrow> setLocale l s b
                          | None \<Rightarrow> setPreference PrefSystem s b)))"

text \<open>The second effect listens while the preference is \<open>system\<close>; the third keeps the \<open>lang\<close> attribute.\<close>

definition languagechange :: "i18n_state \<Rightarrow> browser \<Rightarrow> i18n_state \<times> browser" where
  "languagechange s b = (if cur_preference s = PrefSystem then setPreference PrefSystem s b else (s, b))"

definition sync_lang :: "i18n_state \<times> browser \<Rightarrow> i18n_state \<times> browser" where
  "sync_lang sb = (fst sb, (snd sb)\<lparr>b_lang := Some (locale_str (cur_locale (fst sb)))\<rparr>)"

text \<open>Opening a page at an address: the document, the module, the first render and the effects.\<close>

definition open_page :: "string \<Rightarrow> html_page \<Rightarrow> browser \<Rightarrow> i18n_state \<times> browser" where
  "open_page pathname page b =
     (let s = useI18nStore (Some (opened page b)) None
      in sync_lang (hydrate_language pathname (Some (hp_script page)) s (b\<lparr>b_lang := Some (hp_lang page)\<rparr>)))"

section \<open>Lemmas\<close>

lemma stored_entry_lang [simp]: "stored_entry (b\<lparr>b_lang := l\<rparr>) = stored_entry b"
  by (simp add: stored_entry_def)

lemma layout_lang [simp]: "hp_script (RootLayout siteUrl headers) = hp_lang (RootLayout siteUrl headers)"
  by (simp add: RootLayout_def Let_def)

lemma layout_reads:
  assumes "map_get hs ''x-telebos-locale'' = Some (locale_str l)"
  shows "hp_lang (RootLayout siteUrl (Some hs)) = locale_str l"
  using assms by (simp add: RootLayout_def getRequestLocale_def Let_def)

text \<open>A page starts in the language of its document, and ends, once mounted, in Indonesian under \<open>/id\<close>, else in
  the stored language if there is one.\<close>

lemma opened_starts:
  "hp_lang page = locale_str l \<Longrightarrow> hp_script page = locale_str l \<Longrightarrow>
   cur_locale (useI18nStore (Some (opened page b)) None) = l"
  by (simp add: useI18nStore_def getInitialLocale_def opened_def)

definition mounted_language :: "string \<Rightarrow> locale_tag \<Rightarrow> browser \<Rightarrow> locale_tag" where
  "mounted_language pathname l b =
     (if isIdSubpath pathname then Id
      else if \<not> storage_ok b then l
      else if b_storage b = Some ''system'' then getSystemLocale (b_nav b)
      else case read_locale (b_storage b) of Some choice \<Rightarrow> choice | None \<Rightarrow> l)"

lemma open_page_ends:
  assumes "hp_lang page = locale_str l" "hp_script page = locale_str l"
  shows "cur_locale (fst (open_page pathname page b)) = mounted_language pathname l b
    \<and> b_lang (snd (open_page pathname page b)) = Some (locale_str (mounted_language pathname l b))"
proof -
  have "read_locale (Some ''system'') = None" by (simp add: read_locale_def)
  then show ?thesis
    using opened_starts [OF assms, of b]
    by (auto simp: open_page_def hydrate_language_def mounted_language_def isIdSubpath_def sync_lang_def stored_entry_def
        setLocale_def setPreference_def resolve_preference_def Let_def assms(2) split: option.splits)
qed

section \<open>Properties\<close>

text \<open>A choice of language survives a reload on every page outside \<open>/id\<close>: with working local storage, whatever
  language the server renders, the page ends in the language that the choice resolves to, \<open>system\<close> included, and so
  does its \<open>lang\<close> attribute.\<close>

theorem choice_survives_reload:
  assumes "storage_ok b" "setPreference p s b = (s', b')" "\<not> isIdSubpath pathname"
    "map_get hs ''x-telebos-locale'' = Some (locale_str l)"
  shows "cur_locale (fst (open_page pathname (RootLayout siteUrl (Some hs)) b')) = cur_locale s'
    \<and> b_lang (snd (open_page pathname (RootLayout siteUrl (Some hs)) b')) = Some (locale_str (cur_locale s'))"
proof -
  have "hp_lang (RootLayout siteUrl (Some hs)) = locale_str l" by (rule layout_reads [OF assms(4)])
  moreover have "mounted_language pathname l b' = cur_locale s'"
  proof (cases p)
    case PrefSystem
    then show ?thesis using assms(1-3) by (auto simp: mounted_language_def setPreference_def resolve_preference_def Let_def)
  next
    case (Pref c)
    moreover have "locale_str c \<noteq> ''system''" by (cases c) simp_all
    ultimately show ?thesis using assms(1-3) by (auto simp: mounted_language_def setPreference_def resolve_preference_def Let_def)
  qed
  ultimately show ?thesis using open_page_ends [of "RootLayout siteUrl (Some hs)" l pathname b'] by simp
qed

definition demo_browser :: browser where
  "demo_browser = \<lparr>storage_ok = True, b_storage = None, b_cookie = None, b_lang = None, b_nav = None\<rparr>"

theorem choice_survives_reload_witness:
  "cur_locale (fst (open_page ''/wallet'' (RootLayout ''s'' (Some [(''x-telebos-locale'', ''en'')]))
      (snd (setPreference (Pref Id) (useI18nStore None None) demo_browser)))) = Id"
proof -
  have "cur_locale (fst (setPreference (Pref Id) (useI18nStore None None) demo_browser)) = Id"
    by (simp add: setPreference_def resolve_preference_def Let_def)
  then show ?thesis
    using choice_survives_reload [of demo_browser "Pref Id" "useI18nStore None None" _ _ "''/wallet''"
        "[(''x-telebos-locale'', ''en'')]" En "''s''", OF _ prod.collapse [symmetric]]
    by (simp add: demo_browser_def isIdSubpath_def map_get_def)
qed

text \<open>The server renders texts in the language of the first request that loaded the module: every later page is
  announced in its own language and rendered in that one.\<close>

theorem server_keeps_first_language:
  assumes "map_get hs ''x-telebos-locale'' = Some (locale_str l)" "map_get hs' ''x-telebos-locale'' = Some (locale_str l')"
  shows "map_option cur_locale (load_module (Some hs') (load_module (Some hs) None)) = Some l
    \<and> hp_lang (RootLayout siteUrl (Some hs')) = locale_str l'"
  using assms layout_reads [OF assms(2)]
  by (simp add: load_module_def useI18nStore_def getInitialLocale_def getRequestLocale_def)

theorem server_keeps_first_language_witness:
  "map_option cur_locale (load_module (Some [(''x-telebos-locale'', ''id'')]) (load_module (Some [(''x-telebos-locale'', ''en'')]) None)) = Some En
    \<and> hp_lang (RootLayout ''s'' (Some [(''x-telebos-locale'', ''id'')])) = locale_str Id"
  by (rule server_keeps_first_language) (simp_all add: map_get_def)

text \<open>The English page and the Indonesian page of one address name each other: both list the same two alternates,
  and the canonical address of each is its own alternate.\<close>

theorem alternates_are_reciprocal:
  assumes "startsWith p ''/''" "\<not> startsWith p ''/id''"
    "map_get en ''x-telebos-locale'' = Some ''en''" "map_get en ''x-telebos-pathname'' = Some p"
    "map_get ind ''x-telebos-locale'' = Some ''id''" "map_get ind ''x-telebos-pathname'' = Some (''/id'' @ (if p = ''/'' then [] else p))"
  shows "md_en (generateMetadata siteUrl (Some en)) = md_en (generateMetadata siteUrl (Some ind))
    \<and> md_id (generateMetadata siteUrl (Some en)) = md_id (generateMetadata siteUrl (Some ind))
    \<and> md_canonical (generateMetadata siteUrl (Some en)) = md_en (generateMetadata siteUrl (Some en))
    \<and> md_canonical (generateMetadata siteUrl (Some ind)) = md_id (generateMetadata siteUrl (Some ind))"
proof -
  obtain r where p: "p = CHR ''/'' # r" using assms(1) by (cases p rule: list.exhaust) simp_all
  have "strip_id (''/id'' @ p) = p" by (simp add: strip_id_def p)
  moreover have "read_locale (Some ''en'') = Some En" "read_locale (Some ''id'') = Some Id" by (simp_all add: read_locale_def)
  ultimately show ?thesis
    using assms(2-) p
    by (cases "r = []") (simp_all add: generateMetadata_def getRequestLocale_def getRequestPathname_def Let_def)
qed

theorem alternates_are_reciprocal_witness:
  "md_en (generateMetadata ''s'' (Some [(''x-telebos-locale'', ''en''), (''x-telebos-pathname'', ''/pricing'')]))
      = md_en (generateMetadata ''s'' (Some [(''x-telebos-locale'', ''id''), (''x-telebos-pathname'', ''/id/pricing'')]))
    \<and> md_id (generateMetadata ''s'' (Some [(''x-telebos-locale'', ''en''), (''x-telebos-pathname'', ''/pricing'')]))
      = md_id (generateMetadata ''s'' (Some [(''x-telebos-locale'', ''id''), (''x-telebos-pathname'', ''/id/pricing'')]))
    \<and> md_canonical (generateMetadata ''s'' (Some [(''x-telebos-locale'', ''en''), (''x-telebos-pathname'', ''/pricing'')]))
      = md_en (generateMetadata ''s'' (Some [(''x-telebos-locale'', ''en''), (''x-telebos-pathname'', ''/pricing'')]))
    \<and> md_canonical (generateMetadata ''s'' (Some [(''x-telebos-locale'', ''id''), (''x-telebos-pathname'', ''/id/pricing'')]))
      = md_id (generateMetadata ''s'' (Some [(''x-telebos-locale'', ''id''), (''x-telebos-pathname'', ''/id/pricing'')]))"
  by (rule alternates_are_reciprocal [where p = "''/pricing''"]) (simp_all add: map_get_def)

text \<open>An English page whose address merely begins with the letters \<open>/id\<close> is declared Indonesian.\<close>

theorem id_letters_count_as_language:
  assumes "map_get hs ''x-telebos-locale'' = Some ''en''" "map_get hs ''x-telebos-pathname'' = Some (''/id'' @ c # r)" "c \<noteq> CHR ''/''"
  shows "md_isId (generateMetadata siteUrl (Some hs)) \<and> hp_lang (RootLayout siteUrl (Some hs)) = ''en''
    \<and> md_canonical (generateMetadata siteUrl (Some hs)) = siteUrl @ ''/id'' @ strip_slash (''/id'' @ c # r)"
  using assms layout_reads [of hs En siteUrl]
  by (auto simp: generateMetadata_def getRequestLocale_def getRequestPathname_def strip_id_def read_locale_def Let_def)

theorem id_letters_count_as_language_witness:
  "md_isId (generateMetadata ''s'' (Some [(''x-telebos-locale'', ''en''), (''x-telebos-pathname'', ''/ideas'')]))
    \<and> hp_lang (RootLayout ''s'' (Some [(''x-telebos-locale'', ''en''), (''x-telebos-pathname'', ''/ideas'')])) = ''en''
    \<and> md_canonical (generateMetadata ''s'' (Some [(''x-telebos-locale'', ''en''), (''x-telebos-pathname'', ''/ideas'')]))
      = ''s'' @ ''/id'' @ strip_slash (''/id'' @ CHR ''e'' # ''as'')"
  by (rule id_letters_count_as_language) (simp_all add: map_get_def)

end
