(* ===== verification/Regex.thy ===== *)
theory Regex
  imports Prelude
begin

text \<open>
  Regular expressions as the sources use them, with the backtracking semantics of ECMAScript.

  \<open>steps r st\<close> lists, in the order in which the engine tries them, the states after \<open>r\<close> has matched: the
  rest of the input and the captures so far.  Repetitions in the sources range over single characters, so
  every expression is a structural recursion and the list is finite.  \<open>exec\<close> is the search for the leftmost
  match; its result has the captured texts.
\<close>

datatype regex =
    Cls "char \<Rightarrow> bool"
  | Txt string
  | Seq regex regex
  | Alt regex regex
  | Star "char \<Rightarrow> bool"
  | Plus "char \<Rightarrow> bool"
  | LazyPlus "char \<Rightarrow> bool"
  | Maybe "char \<Rightarrow> bool"
  | Between "char \<Rightarrow> bool" nat nat
  | Capture regex
  | Eos

type_synonym re_state = "string \<times> string list"

definition run_length :: "(char \<Rightarrow> bool) \<Rightarrow> string \<Rightarrow> nat" where
  "run_length p s = length (takeWhile p s)"

text \<open>\<open>s\<close> without its suffix \<open>r\<close>.\<close>

definition consumed :: "string \<Rightarrow> string \<Rightarrow> string" where
  "consumed s r = take (length s - length r) s"

fun steps :: "regex \<Rightarrow> re_state \<Rightarrow> re_state list" where
  "steps (Cls p) (s, cs) = (case s of [] \<Rightarrow> [] | c # t \<Rightarrow> if p c then [(t, cs)] else [])"
| "steps (Txt w) (s, cs) = (if startsWith s w then [(drop (length w) s, cs)] else [])"
| "steps (Seq r1 r2) st = concat (map (steps r2) (steps r1 st))"
| "steps (Alt r1 r2) st = steps r1 st @ steps r2 st"
| "steps (Star p) (s, cs) = map (\<lambda>n. (drop n s, cs)) (rev [0..<Suc (run_length p s)])"
| "steps (Plus p) (s, cs) = map (\<lambda>n. (drop n s, cs)) (rev [1..<Suc (run_length p s)])"
| "steps (LazyPlus p) (s, cs) = map (\<lambda>n. (drop n s, cs)) [1..<Suc (run_length p s)]"
| "steps (Maybe p) (s, cs) = (case s of [] \<Rightarrow> [(s, cs)] | c # t \<Rightarrow> if p c then [(t, cs), (s, cs)] else [(s, cs)])"
| "steps (Between p lo hi) (s, cs) = map (\<lambda>n. (drop n s, cs)) (rev [lo..<Suc (min hi (run_length p s))])"
| "steps (Capture r) (s, cs) = map (\<lambda>(t, cs'). (t, cs' @ [consumed s t])) (steps r (s, cs))"
| "steps Eos (s, cs) = (if s = [] then [([], cs)] else [])"

text \<open>The leftmost match: the captures of the first state that is reached at the first position that has one.\<close>

fun exec :: "regex \<Rightarrow> string \<Rightarrow> string list option" where
  "exec r [] = (case steps r ([], []) of [] \<Rightarrow> None | (_, cs) # _ \<Rightarrow> Some cs)"
| "exec r (c # s) = (case steps r (c # s, []) of [] \<Rightarrow> exec r s | (_, cs) # _ \<Rightarrow> Some cs)"

text \<open>All matches of an expression with the flag \<open>g\<close>, from left to right: the search goes on where the last match
  ended, and one character later after an empty match.\<close>

function match_all :: "regex \<Rightarrow> string \<Rightarrow> string list" where
  "match_all r s =
     (case steps r (s, []) of
        [] \<Rightarrow> (case s of [] \<Rightarrow> [] | _ # t \<Rightarrow> match_all r t)
      | (t, _) # _ \<Rightarrow>
          if length t < length s then consumed s t # match_all r t
          else [] # (case s of [] \<Rightarrow> [] | _ # u \<Rightarrow> match_all r u))"
  by pat_completeness auto
termination by (relation "measure (\<lambda>(r, s). length s)") auto

declare match_all.simps [simp del]

definition Opt :: "regex \<Rightarrow> regex" where "Opt r = Alt r (Txt [])"

fun seqs :: "regex list \<Rightarrow> regex" where
  "seqs [] = Txt []" | "seqs [r] = r" | "seqs (r # rs) = Seq r (seqs rs)"

fun alts :: "string list \<Rightarrow> regex" where
  "alts [] = Cls (\<lambda>_. False)" | "alts [w] = Txt w" | "alts (w # ws) = Alt (Txt w) (alts ws)"

text \<open>A letter-by-letter word without regard to case, the flag \<open>i\<close>.\<close>

definition iword :: "string \<Rightarrow> regex" where
  "iword w = seqs (map (\<lambda>c. Cls (\<lambda>d. lower_char d = lower_char c)) w)"

section \<open>Lemmas\<close>

text \<open>A match consumes a prefix: what is left is a suffix of the input.\<close>

lemma steps_suffix: "(t, cs') \<in> set (steps r (s, cs)) \<Longrightarrow> \<exists>n. t = drop n s"
proof (induction r arbitrary: s cs t cs')
  case (Seq r1 r2)
  then obtain u cs1 where u: "(u, cs1) \<in> set (steps r1 (s, cs))" "(t, cs') \<in> set (steps r2 (u, cs1))" by auto
  obtain n where "u = drop n s" using Seq.IH(1) [OF u(1)] by blast
  moreover obtain m where "t = drop m u" using Seq.IH(2) [OF u(2)] by blast
  ultimately show ?case by (auto simp: drop_drop)
next
  case (Maybe p)
  then show ?case by (cases s) (auto split: if_splits intro: exI [of _ 0] exI [of _ 1])
next
  case (Cls p)
  then show ?case by (cases s) (auto split: if_splits intro: exI [of _ 1])
next
  case (Capture r)
  then obtain cs1 where "(t, cs1) \<in> set (steps r (s, cs))" by auto
  then show ?case by (rule Capture.IH)
next
  case Eos
  then show ?case by (auto split: if_splits intro: exI [of _ 0])
qed (auto split: if_splits)

lemma steps_SeqE:
  assumes "x \<in> set (steps (Seq r1 r2) st)"
  obtains v d where "(v, d) \<in> set (steps r1 st)" "x \<in> set (steps r2 (v, d))"
  using assms by auto

lemma run_length_append: "list_all p u \<Longrightarrow> (s = [] \<or> \<not> p (hd s)) \<Longrightarrow> run_length p (u @ s) = length u"
  by (induction u) (cases s, auto simp: run_length_def)+

lemma startsWith_drop: "startsWith s w \<Longrightarrow> s = w @ drop (length w) s"
  by (auto simp: startsWith_iff)

text \<open>A repetition followed by something that cannot start inside the run takes the whole run.\<close>

lemma steps_hd_Seq:
  assumes "steps r1 st = x # xs" "steps r2 x = y # ys"
  shows "\<exists>zs. steps (Seq r1 r2) st = y # zs"
  using assms by simp

text \<open>An expression that needs a character of a class matches nothing where the class does not occur.\<close>

definition needs :: "(char \<Rightarrow> bool) \<Rightarrow> regex \<Rightarrow> bool" where
  "needs P r \<longleftrightarrow> (\<forall>u cs. list_all (\<lambda>c. \<not> P c) u \<longrightarrow> steps r (u, cs) = [])"

lemma list_all_drop: "list_all P u \<Longrightarrow> list_all P (drop n u)"
  by (auto simp: list_all_iff dest: in_set_dropD)

lemma needs_Cls: "(\<And>c. p c \<Longrightarrow> P c) \<Longrightarrow> needs P (Cls p)"
  unfolding needs_def by (auto split: list.splits)

lemma needs_Seq1: "needs P r1 \<Longrightarrow> needs P (Seq r1 r2)"
  by (simp add: needs_def)

lemma needs_Seq2: "needs P r2 \<Longrightarrow> needs P (Seq r1 r2)"
  unfolding needs_def by (auto dest!: steps_suffix simp: list_all_drop)

lemma exec_none: "(\<And>n. steps r (drop n s, []) = []) \<Longrightarrow> exec r s = None"
proof (induction s)
  case Nil
  from Nil [of 0] show ?case by simp
next
  case (Cons c s)
  have "steps r (drop n s, []) = []" for n using Cons.prems [of "Suc n"] by simp
  then show ?case using Cons.IH Cons.prems [of 0] by simp
qed

lemma needs_none: "needs P r \<Longrightarrow> list_all (\<lambda>c. \<not> P c) s \<Longrightarrow> exec r s = None"
  by (intro exec_none) (simp add: needs_def list_all_drop)

lemma exec_at_start: "steps r (s, []) = (t, cs) # xs \<Longrightarrow> exec r s = Some cs"
  by (cases s) simp_all

lemma dead_after:
  assumes "\<And>m cs. steps r2 (drop m s, cs) = []"
  shows "steps (Seq r1 r2) (drop n s, cs) = []"
proof -
  have "steps r2 (t, cs') = []" if "(t, cs') \<in> set (steps r1 (drop n s, cs))" for t cs'
    using steps_suffix [OF that] assms by (auto simp: drop_drop)
  then show ?thesis by auto
qed

lemma startsWith_included: "startsWith (drop n s) w \<Longrightarrow> str_includes s w"
  by (metis append_take_drop_id startsWith_iff str_includes_iff)

lemma match_all_miss: "steps r (s, []) = [] \<Longrightarrow> match_all r s = (case s of [] \<Rightarrow> [] | _ # t \<Rightarrow> match_all r t)"
  by (subst match_all.simps) simp

lemma match_all_hit:
  "steps r (s, []) = (t, cs) # xs \<Longrightarrow> length t < length s \<Longrightarrow> match_all r s = consumed s t # match_all r t"
  by (subst match_all.simps) simp

lemma match_all_none: "(\<And>n. steps r (drop n s, []) = []) \<Longrightarrow> match_all r s = []"
proof (induction s)
  case Nil
  from Nil [of 0] show ?case by (simp add: match_all.simps)
next
  case (Cons c s)
  have "steps r (drop n s, []) = []" for n using Cons.prems [of "Suc n"] by simp
  then show ?case using Cons.IH Cons.prems [of 0] by (simp add: match_all.simps)
qed

lemma needs_match_all: "needs P r \<Longrightarrow> list_all (\<lambda>c. \<not> P c) s \<Longrightarrow> match_all r s = []"
  by (intro match_all_none) (simp add: needs_def list_all_drop)

text \<open>Every match is what one of the ways to match consumes, somewhere in the input.\<close>

lemma match_all_mem:
  "m \<in> set (match_all r s) \<Longrightarrow> \<exists>n t cs. (t, cs) \<in> set (steps r (drop n s, [])) \<and> (m = consumed (drop n s) t \<or> m = [])"
proof (induction r s rule: match_all.induct)
  case (1 r s)
  have later: ?case if "\<exists>n t cs. (t, cs) \<in> set (steps r (drop n (drop k s), [])) \<and> (m = consumed (drop n (drop k s)) t \<or> m = [])" for k
    using that by (metis drop_drop)
  show ?case
  proof (cases "steps r (s, [])")
    case Nil
    then obtain c u where s: "s = c # u" "m \<in> set (match_all r u)"
      using "1.prems" by (cases s) (simp_all add: match_all.simps)
    then show ?thesis using "1.IH"(1) [OF Nil s(1) s(2)] later [of 1] by simp
  next
    case (Cons x xs)
    obtain t cs where x: "x = (t, cs)" by (cases x)
    have here: "(t, cs) \<in> set (steps r (drop 0 s, []))" using Cons x by simp
    show ?thesis
    proof (cases "length t < length s")
      case True
      then consider "m = consumed s t" | "m \<in> set (match_all r t)"
        using "1.prems" Cons x by (auto simp: match_all.simps [of r s])
      then show ?thesis
      proof cases
        case 1
        then show ?thesis using here by (metis drop0)
      next
        case 2
        obtain k where "t = drop k s" using steps_suffix here by fastforce
        then show ?thesis using "1.IH"(2) [OF Cons x [symmetric] True 2] later [of k] by simp
      qed
    next
      case False
      then have "match_all r s = [] # (case s of [] \<Rightarrow> [] | _ # u \<Rightarrow> match_all r u)"
        using Cons x by (subst match_all.simps) simp
      then consider "m = []" | c u where "s = c # u" "m \<in> set (match_all r u)"
        using "1.prems" by (cases s) auto
      then show ?thesis
      proof cases
        case 1
        then show ?thesis using here by blast
      next
        case (2 c u)
        then show ?thesis using "1.IH"(3) [OF Cons x [symmetric] False 2] later [of 1] by simp
      qed
    qed
  qed
qed

text \<open>The characters an expression can consume.\<close>

fun over :: "(char \<Rightarrow> bool) \<Rightarrow> regex \<Rightarrow> bool" where
  "over P (Cls p) = (\<forall>c. p c \<longrightarrow> P c)"
| "over P (Txt w) = list_all P w"
| "over P (Seq r1 r2) = (over P r1 \<and> over P r2)"
| "over P (Alt r1 r2) = (over P r1 \<and> over P r2)"
| "over P (Star p) = (\<forall>c. p c \<longrightarrow> P c)"
| "over P (Plus p) = (\<forall>c. p c \<longrightarrow> P c)"
| "over P (LazyPlus p) = (\<forall>c. p c \<longrightarrow> P c)"
| "over P (Maybe p) = (\<forall>c. p c \<longrightarrow> P c)"
| "over P (Between p lo hi) = (\<forall>c. p c \<longrightarrow> P c)"
| "over P (Capture r) = over P r"
| "over P Eos = True"

lemma run_take: "n \<le> run_length p s \<Longrightarrow> list_all p (take n s)"
  unfolding run_length_def by (induction s arbitrary: n) (auto simp: take_Cons split: nat.splits if_splits)

lemma run_prefix:
  assumes "n \<le> run_length p s" "\<forall>c. p c \<longrightarrow> P c"
  shows "\<exists>m. drop n s = drop m s \<and> m \<le> length s \<and> list_all P (take m s)"
proof (intro exI conjI)
  show "n \<le> length s" using assms(1) length_takeWhile_le [of p s] by (simp add: run_length_def)
  show "list_all P (take n s)" using run_take [OF assms(1)] assms(2) by (auto simp: list_all_iff)
qed simp

lemma steps_over:
  "over P r \<Longrightarrow> (t, cs') \<in> set (steps r (s, cs)) \<Longrightarrow> \<exists>n. t = drop n s \<and> n \<le> length s \<and> list_all P (take n s)"
proof (induction r arbitrary: s cs t cs')
  case (Seq r1 r2)
  then obtain u cs1 where u: "(u, cs1) \<in> set (steps r1 (s, cs))" "(t, cs') \<in> set (steps r2 (u, cs1))" by auto
  obtain n where n: "u = drop n s" "n \<le> length s" "list_all P (take n s)" using Seq.IH(1) [OF _ u(1)] Seq.prems by auto
  obtain m where m: "t = drop m u" "m \<le> length u" "list_all P (take m u)" using Seq.IH(2) [OF _ u(2)] Seq.prems by auto
  have "list_all P (take (n + m) s)" using n m by (simp add: take_add)
  moreover have "t = drop (n + m) s" using n(1) m(1) by (simp add: drop_drop add.commute)
  moreover have "n + m \<le> length s" using n(1,2) m(2) by simp
  ultimately show ?case by blast
next
  case (Alt r1 r2)
  then show ?case by auto
next
  case (Capture r)
  then obtain cs1 where "(t, cs1) \<in> set (steps r (s, cs))" by auto
  then show ?case using Capture by simp
next
  case (Cls p)
  then show ?case by (cases s) (auto split: if_splits intro: exI [of _ 1])
next
  case (Txt w)
  then have "t = drop (length w) s" "startsWith s w" by (auto split: if_splits)
  then show ?case using Txt(1) by (intro exI [of _ "length w"]) (auto simp: startsWith_iff)
next
  case (Maybe p)
  then show ?case by (cases s) (auto split: if_splits intro: exI [of _ 0] exI [of _ 1])
next
  case Eos
  then show ?case by (auto split: if_splits intro: exI [of _ 0])
next
  case (Star p)
  then show ?case by (auto intro!: run_prefix [of _ p s P])
next
  case (Plus p)
  then show ?case by (auto intro!: run_prefix [of _ p s P])
next
  case (LazyPlus p)
  then show ?case by (auto intro!: run_prefix [of _ p s P])
next
  case (Between p lo hi)
  then show ?case by (auto intro!: run_prefix [of _ p s P])
qed

lemma consumed_drop: "n \<le> length s \<Longrightarrow> consumed s (drop n s) = take n s"
  by (simp add: consumed_def)

lemma match_all_over:
  assumes "over P r" "m \<in> set (match_all r s)"
  shows "list_all P m"
proof -
  obtain n t cs where t: "(t, cs) \<in> set (steps r (drop n s, []))" "m = consumed (drop n s) t \<or> m = []"
    using match_all_mem [OF assms(2)] by blast
  obtain k where "t = drop k (drop n s)" "k \<le> length (drop n s)" "list_all P (take k (drop n s))"
    using steps_over [OF assms(1) t(1)] by blast
  then show ?thesis using t(2) consumed_drop [of k "drop n s"] by auto
qed

text \<open>A word without regard to case.\<close>

lemma steps_iword: "steps (iword w) (s, cs) = (if toLowerCase (take (length w) s) = toLowerCase w then [(drop (length w) s, cs)] else [])"
proof (induction w arbitrary: s)
  case Nil
  then show ?case by (simp add: iword_def toLowerCase_def)
next
  case (Cons c w)
  have "steps (iword (c # w)) (s, cs) = concat (map (steps (iword w)) (steps (Cls (\<lambda>d. lower_char d = lower_char c)) (s, cs)))"
    by (cases w; cases s) (simp_all add: iword_def)
  then show ?case by (cases s) (simp_all add: Cons.IH toLowerCase_def)
qed

end
