(* ===== verification/SpeedParser.thy ===== *)
theory SpeedParser
  imports Regex JsNumber
begin

text \<open>
  The delivery speeds of the order services, \<open>src/frontend/src/lib/smm-speed-parser.ts\<close>, with its regular
  expressions.  A duration is a number of seconds or infinity.  The bullet of the tooltip is not a
  character up to 255; it is the argument \<open>bullet\<close>.
\<close>

definition no_speed :: "string \<Rightarrow> bool" where
  "no_speed t \<longleftrightarrow> t = [] \<or> t = ''-'' \<or> t = ''0'' \<or> t = ''null'' \<or> t = ''undefined''"

text \<open>\<open>([^.]+?)(?:\s*\.|$)\<close>.\<close>

definition until_dot :: regex where
  "until_dot = Seq (Capture (LazyPlus (\<lambda>c. c \<noteq> CHR ''.''))) (Alt (Seq (Star is_ws) (Cls (\<lambda>c. c = CHR ''.''))) Eos)"

definition rata_rata :: regex where
  "rata_rata = seqs [iword ''rata'', Maybe (\<lambda>c. c = CHR ''-''), iword ''rata'', Star is_ws, Cls (\<lambda>c. c = CHR ''=''), Star is_ws]"

definition order_re :: regex where
  "order_re = seqs [iword ''jumlah'', Plus is_ws, iword ''order'', Plus is_ws, iword ''selesai'', Plus is_ws, rata_rata, until_dot]"

definition speed_re :: regex where
  "speed_re = seqs [iword ''kecepatan'', Plus is_ws, rata_rata, until_dot]"

section \<open>parseSmmSpeed\<close>

record SmmSpeedInfo =
  avgOrders :: "string option"
  avgSpeed :: "string option"
  displayText :: string
  isFast :: bool
  raw_speed :: string
  tooltip :: string

definition fast_text :: "string \<Rightarrow> bool" where
  "fast_text l \<longleftrightarrow> str_includes l ''menit'' \<or> str_includes l ''detik'' \<or> str_includes l ''instan'' \<or> str_includes l ''instant''"

definition parseSmmSpeed :: "string \<Rightarrow> string option \<Rightarrow> SmmSpeedInfo option" where
  "parseSmmSpeed bullet rawSpeed =
     (case rawSpeed of
        None \<Rightarrow> None
      | Some s \<Rightarrow>
          let trimmed = trim s
          in if trimmed = [] \<or> trimmed = ''-'' \<or> trimmed = ''0'' \<or> toLowerCase trimmed = ''null'' \<or> toLowerCase trimmed = ''undefined''
             then None
             else
               let orderMatch = exec order_re trimmed; speedMatch = exec speed_re trimmed
               in if orderMatch \<noteq> None \<or> speedMatch \<noteq> None
                  then
                    let orders = map_option (\<lambda>m. trim (hd m)) orderMatch;
                        speed = map_option (\<lambda>m. trim (hd m)) speedMatch
                    in Some \<lparr>avgOrders = orders, avgSpeed = speed,
                         displayText = (if truthy speed then the speed
                                        else if truthy orders then the orders @ '' Order Selesai'' else trimmed),
                         isFast = fast_text (toLowerCase (if truthy speed then the speed else [])),
                         raw_speed = trimmed,
                         tooltip = (if truthy speed \<and> truthy orders
                                    then ''Kecepatan Rata-Rata: '' @ the speed @ '' '' @ bullet @ '' Total Order Selesai: '' @ the orders
                                    else if truthy speed then ''Kecepatan Rata-Rata: '' @ the speed
                                    else if truthy orders then ''Total Order Selesai Rata-Rata: '' @ the orders
                                    else trimmed)\<rparr>
                  else Some \<lparr>avgOrders = None, avgSpeed = Some trimmed, displayText = trimmed, isFast = fast_text (toLowerCase trimmed),
                         raw_speed = trimmed, tooltip = ''Estimasi Kecepatan: '' @ trimmed\<rparr>)"

section \<open>parseDurationToSeconds\<close>

definition count_re :: "string list \<Rightarrow> regex" where
  "count_re units = seqs [Capture (Plus is_digit), Star is_ws, alts units]"

definition range_re :: "string list \<Rightarrow> regex" where
  "range_re units = seqs [Capture (Plus is_digit), Star is_ws, Cls (\<lambda>c. c = CHR ''-''), Star is_ws, Capture (Plus is_digit), Star is_ws, alts units]"

definition day_units :: "string list" where "day_units = [''hari'', ''day'', ''days'']"
definition hour_units :: "string list" where "hour_units = [''jam'', ''hour'', ''hours'', ''hr'', ''hrs'']"
definition minute_units :: "string list" where "minute_units = [''menit'', ''minute'', ''minutes'', ''min'', ''mins'']"
definition second_units :: "string list" where "second_units = [''detik'', ''second'', ''seconds'', ''sec'', ''secs'']"

definition digits_rat :: "string \<Rightarrow> rat" where "digits_rat ds = of_nat (digits_val ds)"

text \<open>What one unit adds, if its expression matches; hours and minutes try a range first.\<close>

definition count_part :: "string list \<Rightarrow> rat \<Rightarrow> string \<Rightarrow> rat option" where
  "count_part units seconds target = map_option (\<lambda>m. digits_rat (hd m) * seconds) (exec (count_re units) target)"

definition range_part :: "string list \<Rightarrow> rat \<Rightarrow> string \<Rightarrow> rat option" where
  "range_part units seconds target =
     (case exec (range_re units) target of
        Some m \<Rightarrow> Some ((digits_rat (m ! 0) + digits_rat (m ! 1)) / 2 * seconds)
      | None \<Rightarrow> count_part units seconds target)"

definition duration_parts :: "string \<Rightarrow> rat option list" where
  "duration_parts target =
     [count_part day_units 86400 target, range_part hour_units 3600 target, range_part minute_units 60 target,
      count_part second_units 1 target]"

definition sum_parts :: "rat option list \<Rightarrow> rat" where
  "sum_parts ps = sum_list (map (\<lambda>p. case p of None \<Rightarrow> 0 | Some q \<Rightarrow> q) ps)"

definition parseDurationToSeconds :: "string option \<Rightarrow> jsnum" where
  "parseDurationToSeconds rawSpeed =
     (case rawSpeed of
        None \<Rightarrow> PosInf
      | Some s \<Rightarrow>
          let trimmed = toLowerCase (trim s)
          in if no_speed trimmed then PosInf
             else
               let target = (case exec speed_re trimmed of None \<Rightarrow> trimmed | Some m \<Rightarrow> toLowerCase (trim (hd m)))
               in if str_includes target ''instant'' \<or> str_includes target ''instan'' then Fin 0
                  else if list_ex (\<lambda>p. p \<noteq> None) (duration_parts target) then Fin (sum_parts (duration_parts target))
                  else (case parseInt10 target of
                          Some n \<Rightarrow> if n > 0 then Fin (of_int (n * 60)) else PosInf
                        | None \<Rightarrow> PosInf))"

section \<open>getFastestSpeedDisplay\<close>

definition getFastestSpeedDisplay :: "string \<Rightarrow> string option list \<Rightarrow> string" where
  "getFastestSpeedDisplay bullet speeds =
     (let parsedList = filter (\<lambda>p. truthy (avgSpeed p)) (concat (map (\<lambda>s. case parseSmmSpeed bullet s of None \<Rightarrow> [] | Some p \<Rightarrow> [p]) speeds))
      in if parsedList = [] then ''Real-time''
         else
           let minuteSpeeds = filter (\<lambda>p. let l = toLowerCase (the (avgSpeed p))
                 in str_includes l ''menit'' \<or> str_includes l ''detik'' \<or> str_includes l ''instan'') parsedList
           in if minuteSpeeds \<noteq> [] then the (avgSpeed (hd minuteSpeeds)) else the (avgSpeed (hd parsedList)))"

section \<open>What the expressions match\<close>

text \<open>A range needs a hyphen, the wrapped form an equals sign.\<close>

lemma range_needs: "needs (\<lambda>c. c = CHR ''-'') (range_re units)"
  unfolding range_re_def seqs.simps by (intro needs_Seq2 needs_Seq1 needs_Cls)

lemma speed_needs: "needs (\<lambda>c. c = CHR ''='') speed_re"
proof -
  have "needs (\<lambda>c. c = CHR ''='') rata_rata"
    unfolding rata_rata_def seqs.simps by (rule needs_Seq2, rule needs_Seq2, rule needs_Seq2, rule needs_Seq2, rule needs_Seq1, rule needs_Cls)
  then show ?thesis
    unfolding speed_re_def seqs.simps by (simp add: needs_Seq1 needs_Seq2)
qed

text \<open>A count needs one of its units.\<close>

lemma alts_none: "\<forall>u\<in>set units. \<not> startsWith s u \<Longrightarrow> steps (alts units) (s, cs) = []"
  by (induction units rule: alts.induct) (auto split: list.splits)

lemma alts_some: "u \<in> set units \<Longrightarrow> startsWith s u \<Longrightarrow> \<exists>t xs. steps (alts units) (s, cs) = (t, cs) # xs"
proof (induction units rule: alts.induct)
  case (3 w v ws)
  then show ?case by (cases "startsWith s w") auto
qed auto

lemma count_none: "\<forall>u\<in>set units. \<not> str_includes s u \<Longrightarrow> exec (count_re units) s = None"
  unfolding count_re_def seqs.simps using startsWith_included
  by (intro exec_none dead_after alts_none) blast

text \<open>Digits, a space and a unit.\<close>

lemma count_some:
  assumes "list_all is_digit ds" "ds \<noteq> []" "u \<in> set units" "u \<noteq> []" "\<not> is_ws (hd u)"
  shows "exec (count_re units) (ds @ '' '' @ u) = Some [ds]"
proof -
  have sp: "is_ws CHR '' ''" "\<not> is_digit CHR '' ''" by (auto simp: is_ws_def is_digit_def)
  have d: "run_length is_digit (ds @ '' '' @ u) = length ds"
    using assms(1) sp by (intro run_length_append) auto
  have w: "run_length is_ws ('' '' @ u) = 1"
    using assms(4,5) sp run_length_append [of is_ws "'' ''" u] by simp
  obtain t xs where "steps (alts units) (u, [ds]) = (t, [ds]) # xs"
    using alts_some [OF assms(3), of u] by (metis append_Nil2 startsWith_append)
  then have "\<exists>ys. steps (Seq (Star is_ws) (alts units)) ('' '' @ u, [ds]) = (t, [ds]) # ys"
    using w by (simp add: upt_rec)
  moreover have "\<exists>ys. steps (Capture (Plus is_digit)) (ds @ '' '' @ u, []) = ('' '' @ u, [ds]) # ys"
    using d assms(2) by (cases ds) (simp_all add: consumed_def)
  ultimately have "\<exists>ys. steps (count_re units) (ds @ '' '' @ u, []) = (t, [ds]) # ys"
    unfolding count_re_def seqs.simps by (meson steps_hd_Seq)
  then show ?thesis using exec_at_start by blast
qed

text \<open>A word that starts with a letter is not found inside the digits.\<close>

lemma includes_after_digits:
  assumes "list_all is_digit ds" "w \<noteq> []" "\<not> is_digit (hd w)" "hd w \<noteq> CHR '' ''"
  shows "str_includes (ds @ '' '' @ u) w = str_includes u w"
  using assms(1)
proof (induction ds)
  case Nil
  then show ?case using assms by (cases w) auto
next
  case (Cons d ds)
  then show ?case using assms by (cases w) auto
qed

lemma lower_digits: "list_all is_digit ds \<Longrightarrow> toLowerCase ds = ds"
  by (induction ds) (auto simp: toLowerCase_def lower_char_def is_digit_def)

lemma lower_ws: "is_ws c \<Longrightarrow> is_ws (lower_char c)"
  by (auto simp: lower_char_def is_ws_def)

section \<open>Durations\<close>

definition unit_seconds :: "(string \<times> rat) list" where
  "unit_seconds = [(''hari'', 86400), (''jam'', 3600), (''menit'', 60), (''detik'', 1)]"

text \<open>What the parser sees of a number and a unit.\<close>

lemma count_in_unit:
  assumes "list_all is_digit ds" "ds \<noteq> []" "u \<in> set units" "u \<noteq> []" "\<not> is_ws (hd u)"
  shows "count_part units q (ds @ '' '' @ u) = Some (digits_rat ds * q)"
  using count_some [OF assms] by (simp add: count_part_def)

lemma count_other_unit:
  assumes "list_all is_digit ds" "\<forall>w\<in>set units. w \<noteq> [] \<and> \<not> is_digit (hd w) \<and> hd w \<noteq> CHR '' '' \<and> \<not> str_includes u w"
  shows "count_part units q (ds @ '' '' @ u) = None"
  using assms includes_after_digits [OF assms(1)] by (simp add: count_part_def count_none)

lemma range_is_count:
  assumes "list_all is_digit ds" "CHR ''-'' \<notin> set u"
  shows "range_part units q (ds @ '' '' @ u) = count_part units q (ds @ '' '' @ u)"
proof -
  have "list_all (\<lambda>c. c \<noteq> CHR ''-'') (ds @ '' '' @ u)"
    using assms by (auto simp: list_all_iff is_digit_def)
  then show ?thesis using needs_none [OF range_needs] by (simp add: range_part_def)
qed

lemmas unit_defs = day_units_def hour_units_def minute_units_def second_units_def

lemma duration_of_unit:
  assumes "(u, q) \<in> set unit_seconds" "list_all is_digit ds" "ds \<noteq> []"
  shows "list_ex (\<lambda>p. p \<noteq> None) (duration_parts (ds @ '' '' @ u))"
    and "sum_parts (duration_parts (ds @ '' '' @ u)) = digits_rat ds * q"
proof -
  have hyphen: "CHR ''-'' \<notin> set u" using assms(1) by (auto simp: unit_seconds_def)
  consider "u = ''hari'' \<and> q = 86400" | "u = ''jam'' \<and> q = 3600" | "u = ''menit'' \<and> q = 60" | "u = ''detik'' \<and> q = 1"
    using assms(1) by (auto simp: unit_seconds_def)
  then have "list_ex (\<lambda>p. p \<noteq> None) (duration_parts (ds @ '' '' @ u)) \<and>
      sum_parts (duration_parts (ds @ '' '' @ u)) = digits_rat ds * q"
    unfolding duration_parts_def range_is_count [OF assms(2) hyphen]
    using count_in_unit [OF assms(2,3)] count_other_unit [OF assms(2)]
    by cases (simp_all add: unit_defs sum_parts_def is_digit_def is_ws_def)
  then show "list_ex (\<lambda>p. p \<noteq> None) (duration_parts (ds @ '' '' @ u))"
    and "sum_parts (duration_parts (ds @ '' '' @ u)) = digits_rat ds * q" by auto
qed

lemma spelled_duration:
  assumes "(u, q) \<in> set unit_seconds" "toLowerCase v = u" "list_all is_digit ds" "ds \<noteq> []"
  shows "toLowerCase (trim (ds @ '' '' @ v)) = ds @ '' '' @ u"
proof -
  have v: "v \<noteq> []" using assms(1,2) by (auto simp: unit_seconds_def toLowerCase_def)
  have "\<not> is_ws (last u)" using assms(1) by (auto simp: unit_seconds_def is_ws_def)
  then have "\<not> is_ws (last v)" using lower_ws v assms(2) by (auto simp: toLowerCase_def last_map)
  moreover have "\<not> is_ws (hd ds)" using assms(3,4) digit_not_special(1) by (cases ds) auto
  ultimately have "trim (ds @ '' '' @ v) = ds @ '' '' @ v" using assms(4) v by (intro trim_id disjI2) auto
  then show ?thesis using lower_digits [OF assms(3)] assms(2) by (simp add: toLowerCase_def lower_char_def)
qed

lemma not_wrapped:
  assumes "(u, q) \<in> set unit_seconds" "list_all is_digit ds"
  shows "exec speed_re (ds @ '' '' @ u) = None"
proof -
  have "CHR ''='' \<notin> set u" using assms(1) by (auto simp: unit_seconds_def)
  then have "list_all (\<lambda>c. c \<noteq> CHR ''='') (ds @ '' '' @ u)"
    using assms(2) by (auto simp: list_all_iff is_digit_def)
  then show ?thesis using needs_none [OF speed_needs] by blast
qed

lemma not_instant:
  assumes "(u, q) \<in> set unit_seconds" "list_all is_digit ds"
  shows "\<not> str_includes (ds @ '' '' @ u) ''instan''" "\<not> str_includes (ds @ '' '' @ u) ''instant''"
  using assms(1) includes_after_digits [OF assms(2)]
  by (auto simp: unit_seconds_def is_digit_def simp del: append.simps)

lemma no_speed_one_word: "no_speed t \<Longrightarrow> CHR '' '' \<notin> set t"
  by (auto simp: no_speed_def)

lemma spelled_is_speed: "\<not> no_speed (ds @ '' '' @ u)"
  using no_speed_one_word [of "ds @ '' '' @ u"] by auto

text \<open>C39: A delivery time written as a number and one of the Indonesian units, in any spelling of its letters,
  is read back as that many seconds: the sort of the services by speed compares the times the supplier
  wrote.\<close>

theorem duration_roundtrip:
  assumes "(u, q) \<in> set unit_seconds" "toLowerCase v = u"
  shows "parseDurationToSeconds (Some (nat_str n @ '' '' @ v)) = Fin (of_nat n * q)"
proof -
  let ?ds = "nat_str n"
  have ds: "list_all is_digit ?ds" "?ds \<noteq> []" by (simp_all add: nat_str_digits)
  show ?thesis
    unfolding parseDurationToSeconds_def Let_def option.case spelled_duration [OF assms ds]
      not_wrapped [OF assms(1) ds(1)]
    using spelled_is_speed [of ?ds u] not_instant [OF assms(1) ds(1)] duration_of_unit [OF assms(1) ds]
    by (simp add: digits_rat_def)
qed

theorem duration_roundtrip_witness:
  "parseDurationToSeconds (Some (nat_str 90 @ '' '' @ ''Menit'')) = Fin (of_nat 90 * 60)"
proof (rule duration_roundtrip [where u = "''menit''"])
  show "toLowerCase ''Menit'' = ''menit''" by code_simp
qed (simp add: unit_seconds_def)

text \<open>The display shows the first entry that mentions a short unit, whatever its number.\<close>

theorem fastest_is_first:
  "getFastestSpeedDisplay bullet [Some ''50 Menit'', Some ''1 Menit''] = ''50 Menit''"
  by code_simp

text \<open>Ninety minutes count as fast.\<close>

theorem any_minutes_are_fast: "map_option isFast (parseSmmSpeed bullet (Some ''90 Menit'')) = Some True"
  by code_simp

text \<open>Only hours and minutes have ranges: of a range of days the second number alone is read.\<close>

theorem day_range_reads_upper: "parseDurationToSeconds (Some ''1-3 Hari'') = Fin (3 * 86400)"
  "parseDurationToSeconds (Some ''1-3 Jam'') = Fin (2 * 3600)"
  by code_simp+

end
