(* ===== verification/LoginFlow.thy ===== *)
theory LoginFlow
  imports Prelude
begin

text \<open>
  Adding a Telegram account by phone, \<open>src/frontend/src/components/accounts/telegram-login-flow.tsx\<close>.

  The component's state variables are the record \<open>login_flow\<close>; three fields are the world around it: the
  requests it has sent, the addresses it has navigated to, and the requests still in flight.  A handler that
  awaits is two operations, the part up to the request and \<open>settle_request\<close>, which runs when the answer or the
  failure arrives.  The texts of the interface are the argument \<open>tr\<close>.  A failure carries the \<open>detail\<close> of the
  response, if it has one.  State changes of an unmounted component have no effect; navigation has.
\<close>

datatype login_stage = Phone | Code | SetupEmail | SetupEmailCode | Twofa

datatype sent_stage = Enter_code | Setup_email | Setup_email_code

datatype input_mode = Numeric | Alphabetic | Alphanumeric | Pattern

record sent_code =
  login_id :: string
  sent_stage :: sent_stage
  delivery_type :: "string option"
  next_delivery_type :: "string option"
  sent_timeout :: "int option"
  code_length :: "int option"
  sent_input_mode :: "input_mode option"
  input_pattern :: "string option"
  email_pattern :: "string option"
  google_signin_allowed :: bool
  apple_signin_allowed :: bool

datatype login_request =
    Send_code string
  | Resend_code string
  | Setup_email_start string string
  | Setup_email_verify string string
  | Verify_code string string
  | Verify_2fa string string
  | Cancel_login string

datatype login_answer =
    Sent sent_code
  | Requires_2fa "string option"
  | Account string
  | Failed "string option"

record login_flow =
  lf_step :: login_stage
  lf_phone :: string
  lf_flow :: "sent_code option"
  lf_code :: string
  lf_email :: string
  twofaPassword :: string
  showPassword :: bool
  lf_error :: string
  lf_loading :: bool
  timeLeft :: int
  v2lHint :: "string option"
  lf_mounted :: bool
  lf_pending :: "login_request list"
  lf_cancels :: nat
  lf_posts :: "login_request list"
  lf_pushed :: "string list"
  lf_adopted :: "string list"

definition new_flow :: login_flow where
  "new_flow = \<lparr>lf_step = Phone, lf_phone = [], lf_flow = None, lf_code = [], lf_email = [], twofaPassword = [],
     showPassword = False, lf_error = [], lf_loading = False, timeLeft = 0, v2lHint = None, lf_mounted = True,
     lf_pending = [], lf_cancels = 0, lf_posts = [], lf_pushed = [], lf_adopted = []\<rparr>"

section \<open>Values computed in a render\<close>

text \<open>The label of a delivery type, which is one of the backend's and not the name of an inherited property.\<close>

definition deliveryLabel :: "string option \<Rightarrow> string" where
  "deliveryLabel delivery =
     (case map_of [(''app'', ''Telegram''), (''sms'', ''SMS''), (''call'', ''panggilan''), (''email_code'', ''email''),
                   (''fragment_sms'', ''Fragment''), (''missed_call'', ''panggilan tidak terjawab'')]
             (case delivery of None \<Rightarrow> [] | Some d \<Rightarrow> d) of
        None \<Rightarrow> ''Telegram'' | Some l \<Rightarrow> l)"

definition codeLength :: "login_flow \<Rightarrow> int option" where
  "codeLength s = Option.bind (lf_flow s) code_length"

definition inputMode :: "login_flow \<Rightarrow> input_mode" where
  "inputMode s = (case Option.bind (lf_flow s) sent_input_mode of None \<Rightarrow> Alphanumeric | Some m \<Rightarrow> m)"

definition flow_id :: "login_flow \<Rightarrow> string option" where
  "flow_id s = map_option login_id (lf_flow s)"

text \<open>The number of cells of the code field; with none it is a plain field.\<close>

definition cells :: "login_flow \<Rightarrow> nat" where
  "cells s = (case codeLength s of None \<Rightarrow> 0 | Some n \<Rightarrow> nat n)"

fun accepts :: "input_mode \<Rightarrow> string \<Rightarrow> bool" where
  "accepts Numeric val = list_all is_digit val"
| "accepts Alphabetic val = list_all is_alpha val"
| "accepts Alphanumeric val = list_all (\<lambda>c. is_alpha c \<or> is_digit c) val"
| "accepts Pattern val = list_all (\<lambda>c. is_alpha c \<or> is_digit c) val"

text \<open>\<open>value.slice(0, n)\<close>; a negative end counts from the back.\<close>

definition slice0 :: "int \<Rightarrow> 'a list \<Rightarrow> 'a list" where
  "slice0 n xs = (if n \<ge> 0 then take (nat n) xs else take (nat (int (length xs) + n)) xs)"

definition ready :: "login_flow \<Rightarrow> bool" where
  "ready s \<longleftrightarrow> lf_code s \<noteq> [] \<and> (case codeLength s of None \<Rightarrow> True | Some n \<Rightarrow> n = 0 \<or> int (length (lf_code s)) = n)"

definition time_text :: "int \<Rightarrow> string" where
  "time_text t =
     (let sec = int_str (t mod 60)
      in int_str (t div 60) @ '':'' @ (if length sec < 2 then CHR ''0'' # sec else sec))"

section \<open>Handlers\<close>

definition post :: "login_request \<Rightarrow> login_flow \<Rightarrow> login_flow" where
  "post r s = s\<lparr>lf_posts := lf_posts s @ [r]\<rparr>"

text \<open>\<open>cancel\<close> up to its request; whether there is one is the second component.  The request is best effort: it may fail,
  and as its \<open>catch\<close> block is empty, what awaits it goes on in the same way.\<close>

definition cancel :: "string option \<Rightarrow> login_flow \<Rightarrow> login_flow \<times> bool" where
  "cancel i s = (if truthy i then (post (Cancel_login (the i)) s, True) else (s, False))"

text \<open>Setting \<open>flow\<close>.  When the id changes, the cleanup of the effect on \<open>cancel\<close> runs with the old one.\<close>

definition setFlow :: "sent_code option \<Rightarrow> login_flow \<Rightarrow> login_flow" where
  "setFlow f s =
     (let s' = s\<lparr>lf_flow := f, lf_adopted := lf_adopted s @ (case f of None \<Rightarrow> [] | Some d \<Rightarrow> [login_id d])\<rparr>
      in if flow_id s' \<noteq> flow_id s then fst (cancel (flow_id s) s') else s')"

definition resetFlow :: "login_flow \<Rightarrow> login_flow" where
  "resetFlow s =
     (setFlow None s)\<lparr>lf_code := [], lf_email := [], twofaPassword := [], v2lHint := None, timeLeft := 0, lf_step := Phone\<rparr>"

definition applySentCode :: "sent_code \<Rightarrow> login_flow \<Rightarrow> login_flow" where
  "applySentCode data s =
     (setFlow (Some data) s)\<lparr>lf_code := [], timeLeft := (case sent_timeout data of None \<Rightarrow> 0 | Some t \<Rightarrow> t),
        lf_step := (if sent_stage data = Setup_email then SetupEmail else Code)\<rparr>"

definition start_request :: "login_request \<Rightarrow> login_flow \<Rightarrow> login_flow" where
  "start_request r s = post r (s\<lparr>lf_error := [], lf_loading := True, lf_pending := lf_pending s @ [r]\<rparr>)"

definition cleaned :: "string \<Rightarrow> string" where
  "cleaned p = filter (\<lambda>c. \<not> is_ws c) p"

definition sendCode :: "login_flow \<Rightarrow> login_flow" where
  "sendCode s = start_request (Send_code (cleaned (lf_phone s))) s"

definition resend :: "login_flow \<Rightarrow> login_flow" where
  "resend s = (case lf_flow s of None \<Rightarrow> s | Some f \<Rightarrow> start_request (Resend_code (login_id f)) s)"

definition startSetupEmail :: "login_flow \<Rightarrow> login_flow" where
  "startSetupEmail s = (case lf_flow s of None \<Rightarrow> s | Some f \<Rightarrow> start_request (Setup_email_start (login_id f) (lf_email s)) s)"

definition verifySetupEmail :: "login_flow \<Rightarrow> login_flow" where
  "verifySetupEmail s = (case lf_flow s of None \<Rightarrow> s | Some f \<Rightarrow> start_request (Setup_email_verify (login_id f) (lf_code s)) s)"

definition verifyCode :: "login_flow \<Rightarrow> login_flow" where
  "verifyCode s = (case lf_flow s of None \<Rightarrow> s | Some f \<Rightarrow> start_request (Verify_code (login_id f) (lf_code s)) s)"

definition verifyTwofa :: "login_flow \<Rightarrow> login_flow" where
  "verifyTwofa s = (case lf_flow s of None \<Rightarrow> s | Some f \<Rightarrow> start_request (Verify_2fa (login_id f) (twofaPassword s)) s)"

definition complete :: "string \<Rightarrow> login_flow \<Rightarrow> login_flow" where
  "complete account_id s = s\<lparr>lf_pushed := lf_pushed s @ [''/accounts/'' @ account_id]\<rparr>"

definition setCodeValue :: "string \<Rightarrow> login_flow \<Rightarrow> login_flow" where
  "setCodeValue val s =
     (if accepts (inputMode s) val
      then s\<lparr>lf_code := slice0 (case codeLength s of None \<Rightarrow> 64 | Some n \<Rightarrow> n) val\<rparr> else s)"

fun failure_key :: "login_request \<Rightarrow> string" where
  "failure_key (Send_code _) = ''addAccount.failedSendOtp''"
| "failure_key (Resend_code _) = ''addAccount.failedSendOtp''"
| "failure_key _ = ''addAccount.failedVerify''"

text \<open>What a handler does with its answer.\<close>

fun on_answer :: "(string \<Rightarrow> string) \<Rightarrow> login_request \<Rightarrow> login_answer \<Rightarrow> login_flow \<Rightarrow> login_flow" where
  "on_answer tr r (Failed detail) s = s\<lparr>lf_error := (if truthy detail then the detail else tr (failure_key r))\<rparr>"
| "on_answer tr (Send_code p) (Sent data) s = applySentCode data (s\<lparr>lf_phone := p\<rparr>)"
| "on_answer tr (Resend_code _) (Sent data) s = applySentCode data s"
| "on_answer tr (Setup_email_start _ _) (Sent data) s =
     (setFlow (Some data) s)\<lparr>lf_code := [], timeLeft := (case sent_timeout data of None \<Rightarrow> 0 | Some t \<Rightarrow> t), lf_step := SetupEmailCode\<rparr>"
| "on_answer tr (Setup_email_verify _ _) (Sent data) s = applySentCode data s"
| "on_answer tr (Verify_code _ _) (Requires_2fa hint) s = s\<lparr>v2lHint := (if truthy hint then hint else None), lf_step := Twofa\<rparr>"
| "on_answer tr (Verify_code _ _) (Account a) s = complete a s"
| "on_answer tr (Verify_2fa _ _) (Account a) s = complete a s"
| "on_answer tr _ _ s = s"

fun answers :: "login_request \<Rightarrow> login_answer \<Rightarrow> bool" where
  "answers _ (Failed _) = True"
| "answers (Verify_code _ _) a = (case a of Sent _ \<Rightarrow> False | _ \<Rightarrow> True)"
| "answers (Verify_2fa _ _) a = (case a of Account _ \<Rightarrow> True | _ \<Rightarrow> False)"
| "answers (Cancel_login _) a = False"
| "answers _ a = (case a of Sent _ \<Rightarrow> True | _ \<Rightarrow> False)"

text \<open>Navigation is the only effect that outlives the component.\<close>

fun settle_unmounted :: "login_request \<Rightarrow> login_answer \<Rightarrow> login_flow \<Rightarrow> login_flow" where
  "settle_unmounted r (Account a) s = complete a s"
| "settle_unmounted r _ s = s"

definition settle_request :: "(string \<Rightarrow> string) \<Rightarrow> login_request \<Rightarrow> login_answer \<Rightarrow> login_flow \<Rightarrow> login_flow" where
  "settle_request tr r a s =
     (let s' = s\<lparr>lf_pending := remove1 r (lf_pending s)\<rparr>
      in if lf_mounted s then (on_answer tr r a s')\<lparr>lf_loading := False\<rparr> else settle_unmounted r a s')"

text \<open>The button that goes back to the phone number awaits the cancellation and then resets; \<open>change_phone_settled\<close> is
  what runs when the request has been answered and when it has failed.\<close>

definition change_phone :: "login_flow \<Rightarrow> login_flow" where
  "change_phone s =
     (let (s', asked) = cancel (flow_id s) s
      in if asked then s'\<lparr>lf_cancels := Suc (lf_cancels s')\<rparr> else resetFlow s')"

definition change_phone_settled :: "login_flow \<Rightarrow> login_flow" where
  "change_phone_settled s =
     (let s' = s\<lparr>lf_cancels := lf_cancels s - 1\<rparr> in if lf_mounted s then resetFlow s' else s')"

definition lf_tick :: "login_flow \<Rightarrow> login_flow" where
  "lf_tick s = s\<lparr>timeLeft := max 0 (timeLeft s - 1)\<rparr>"

definition lf_unmount :: "login_flow \<Rightarrow> login_flow" where
  "lf_unmount s = fst (cancel (flow_id s) (s\<lparr>lf_mounted := False\<rparr>))"

section \<open>The machine\<close>

text \<open>What the user and the environment can do: each control is enabled as the markup says.\<close>

inductive login_step :: "(string \<Rightarrow> string) \<Rightarrow> login_flow \<Rightarrow> unit \<Rightarrow> login_flow \<Rightarrow> bool" for tr where
  types_phone: "lf_mounted s \<Longrightarrow> lf_step s = Phone \<Longrightarrow> \<not> lf_loading s \<Longrightarrow> login_step tr s () (s\<lparr>lf_phone := v\<rparr>)"
| sends: "lf_mounted s \<Longrightarrow> lf_step s = Phone \<Longrightarrow> \<not> lf_loading s \<Longrightarrow> lf_phone s \<noteq> [] \<Longrightarrow> login_step tr s () (sendCode s)"
| types_email: "lf_mounted s \<Longrightarrow> lf_step s = SetupEmail \<Longrightarrow> login_step tr s () (s\<lparr>lf_email := v\<rparr>)"
| starts_email: "lf_mounted s \<Longrightarrow> lf_step s = SetupEmail \<Longrightarrow> \<not> lf_loading s \<Longrightarrow> lf_email s \<noteq> [] \<Longrightarrow>
    login_step tr s () (startSetupEmail s)"
| types_code: "lf_mounted s \<Longrightarrow> lf_step s \<in> {Code, SetupEmailCode} \<Longrightarrow> login_step tr s () (setCodeValue v s)"
| pastes_code: "lf_mounted s \<Longrightarrow> lf_step s \<in> {Code, SetupEmailCode} \<Longrightarrow> cells s > 0 \<Longrightarrow>
    login_step tr s () (setCodeValue (trim v) s)"
| resends: "lf_mounted s \<Longrightarrow> lf_step s = Code \<Longrightarrow> timeLeft s \<le> 0 \<Longrightarrow> \<not> lf_loading s \<Longrightarrow> login_step tr s () (resend s)"
| verifies_email: "lf_mounted s \<Longrightarrow> lf_step s = SetupEmailCode \<Longrightarrow> \<not> lf_loading s \<Longrightarrow> ready s \<Longrightarrow>
    login_step tr s () (verifySetupEmail s)"
| verifies: "lf_mounted s \<Longrightarrow> lf_step s = Code \<Longrightarrow> \<not> lf_loading s \<Longrightarrow> ready s \<Longrightarrow> login_step tr s () (verifyCode s)"
| changes_phone: "lf_mounted s \<Longrightarrow> lf_step s \<in> {Code, SetupEmailCode} \<Longrightarrow> login_step tr s () (change_phone s)"
| types_twofa: "lf_mounted s \<Longrightarrow> lf_step s = Twofa \<Longrightarrow> login_step tr s () (s\<lparr>twofaPassword := v\<rparr>)"
| toggles: "lf_mounted s \<Longrightarrow> lf_step s = Twofa \<Longrightarrow> login_step tr s () (s\<lparr>showPassword := \<not> showPassword s\<rparr>)"
| verifies_twofa: "lf_mounted s \<Longrightarrow> lf_step s = Twofa \<Longrightarrow> \<not> lf_loading s \<Longrightarrow> twofaPassword s \<noteq> [] \<Longrightarrow>
    login_step tr s () (verifyTwofa s)"
| ticks: "lf_mounted s \<Longrightarrow> timeLeft s > 0 \<Longrightarrow> login_step tr s () (lf_tick s)"
| answered: "r \<in> set (lf_pending s) \<Longrightarrow> answers r a \<Longrightarrow> login_step tr s () (settle_request tr r a s)"
| cancelled: "lf_cancels s > 0 \<Longrightarrow> login_step tr s () (change_phone_settled s)"
| unmounts: "lf_mounted s \<Longrightarrow> login_step tr s () (lf_unmount s)"

section \<open>Invariant\<close>

text \<open>The code fits the field it is typed into.\<close>

definition code_ok :: "login_flow \<Rightarrow> bool" where
  "code_ok s \<longleftrightarrow> accepts (inputMode s) (lf_code s) \<and>
     (case codeLength s of None \<Rightarrow> length (lf_code s) \<le> 64 | Some n \<Rightarrow> n < 0 \<or> int (length (lf_code s)) \<le> n)"

text \<open>A login that was taken up is the current one or has been given back.\<close>

definition given_back :: "login_flow \<Rightarrow> bool" where
  "given_back s \<longleftrightarrow> (\<forall>i\<in>set (lf_adopted s). i = [] \<or> (lf_mounted s \<and> flow_id s = Some i) \<or> Cancel_login i \<in> set (lf_posts s))"

fun proper_request :: "login_request \<Rightarrow> bool" where
  "proper_request (Send_code p) = list_all (\<lambda>c. \<not> is_ws c) p"
| "proper_request (Setup_email_verify i c) = (c \<noteq> [] \<and> accepts Alphanumeric c)"
| "proper_request (Verify_code i c) = (c \<noteq> [] \<and> accepts Alphanumeric c)"
| "proper_request (Verify_2fa i p) = (p \<noteq> [])"
| "proper_request (Setup_email_start i e) = (e \<noteq> [])"
| "proper_request (Cancel_login i) = (i \<noteq> [])"
| "proper_request (Resend_code i) = True"

text \<open>One request of the form at a time, as long as the component is there.\<close>

definition one_request :: "login_flow \<Rightarrow> bool" where
  "one_request s \<longleftrightarrow> length (lf_pending s) \<le> 1 \<and> (lf_mounted s \<longrightarrow> lf_loading s = (lf_pending s \<noteq> []))"

definition flow_present :: "login_flow \<Rightarrow> bool" where
  "flow_present s \<longleftrightarrow> lf_step s \<in> {Phone, Twofa} \<or> lf_flow s \<noteq> None"

definition login_inv :: "login_flow \<Rightarrow> bool" where
  "login_inv s \<longleftrightarrow> code_ok s \<and> given_back s \<and> one_request s \<and> flow_present s \<and> list_all proper_request (lf_posts s)"

text \<open>Each part of the invariant reads few fields.\<close>

lemma accepts_widen: "accepts m c \<Longrightarrow> accepts Alphanumeric c"
  by (cases m) (auto simp: list_all_iff)

lemma accepts_Nil [simp]: "accepts m []"
  by (cases m) simp_all

lemma accepts_take: "accepts m v \<Longrightarrow> accepts m (slice0 n v)"
  by (cases m) (auto simp: slice0_def list_all_iff dest: in_set_takeD)

lemma code_ok_empty: "lf_code s = [] \<Longrightarrow> code_ok s"
  by (auto simp: code_ok_def split: option.splits)

lemma code_ok_cong: "lf_code t = lf_code s \<Longrightarrow> lf_flow t = lf_flow s \<Longrightarrow> code_ok t = code_ok s"
  by (simp add: code_ok_def inputMode_def codeLength_def cong: option.case_cong)

lemma code_ok_typed: "code_ok s \<Longrightarrow> code_ok (setCodeValue v s)"
proof -
  assume a: "code_ok s"
  show ?thesis
  proof (cases "accepts (inputMode s) v")
    case True
    let ?t = "s\<lparr>lf_code := slice0 (case codeLength s of None \<Rightarrow> 64 | Some n \<Rightarrow> n) v\<rparr>"
    have "inputMode ?t = inputMode s" "codeLength ?t = codeLength s" by (simp_all add: inputMode_def codeLength_def)
    then have "code_ok ?t" using accepts_take [OF True]
      by (auto simp: code_ok_def slice0_def split: option.splits)
    then show ?thesis using True by (simp add: setCodeValue_def)
  qed (use a in \<open>simp add: setCodeValue_def\<close>)
qed

lemma given_back_mono:
  assumes "given_back s" "set (lf_posts s) \<subseteq> set (lf_posts t)" "lf_adopted t = lf_adopted s" "flow_id t = flow_id s"
    "lf_mounted t = lf_mounted s"
  shows "given_back t"
  using assms by (auto simp: given_back_def)

text \<open>What setting the flow touches.\<close>

lemma setFlow_fields [simp]:
  "lf_step (setFlow f s) = lf_step s" "lf_code (setFlow f s) = lf_code s" "lf_flow (setFlow f s) = f"
  "lf_loading (setFlow f s) = lf_loading s" "lf_mounted (setFlow f s) = lf_mounted s"
  "lf_pending (setFlow f s) = lf_pending s" "flow_id (setFlow f s) = map_option login_id f"
  by (simp_all add: setFlow_def cancel_def post_def flow_id_def Let_def)

lemma setFlow_update [simp]:
  "setFlow f (s\<lparr>lf_pending := p\<rparr>) = (setFlow f s)\<lparr>lf_pending := p\<rparr>"
  "setFlow f (s\<lparr>lf_phone := q\<rparr>) = (setFlow f s)\<lparr>lf_phone := q\<rparr>"
  "setFlow f (s\<lparr>lf_cancels := n\<rparr>) = (setFlow f s)\<lparr>lf_cancels := n\<rparr>"
  by (simp_all add: setFlow_def cancel_def post_def flow_id_def Let_def)

lemma setFlow_posts: "list_all proper_request (lf_posts s) \<Longrightarrow> list_all proper_request (lf_posts (setFlow f s))"
  by (cases "flow_id s") (auto simp: setFlow_def cancel_def post_def Let_def)

lemma setFlow_given_back:
  assumes "given_back s" "lf_mounted s"
  shows "given_back (setFlow f s)"
  unfolding given_back_def
proof
  fix i assume i: "i \<in> set (lf_adopted (setFlow f s))"
  have posts: "set (lf_posts s) \<subseteq> set (lf_posts (setFlow f s))"
    by (auto simp: setFlow_def cancel_def post_def Let_def)
  have old: "Cancel_login j \<in> set (lf_posts (setFlow f s))"
    if "flow_id s = Some j" "j \<noteq> []" "map_option login_id f \<noteq> Some j" for j
    using that by (auto simp: setFlow_def cancel_def post_def flow_id_def Let_def)
  consider "i \<in> set (lf_adopted s)" | d where "f = Some d" "i = login_id d"
    using i by (cases f) (auto simp: setFlow_def cancel_def post_def Let_def split: if_splits)
  then show "i = [] \<or> (lf_mounted (setFlow f s) \<and> flow_id (setFlow f s) = Some i) \<or> Cancel_login i \<in> set (lf_posts (setFlow f s))"
  proof cases
    case 1
    then have "i = [] \<or> flow_id s = Some i \<or> Cancel_login i \<in> set (lf_posts s)" using assms(1) by (auto simp: given_back_def)
    then show ?thesis using posts old assms(2) by auto
  qed (use assms(2) in simp)
qed

text \<open>Steps that change the flow keep the invariant if they empty the code and end in a step that fits.\<close>

lemma login_inv_new_flow:
  assumes "login_inv s" "lf_mounted s" "lf_code t = []" "lf_flow t = f" "lf_posts t = lf_posts (setFlow f s)"
    "lf_adopted t = lf_adopted (setFlow f s)" "lf_mounted t" "flow_present t" "one_request t"
  shows "login_inv t"
proof -
  have "given_back (setFlow f s)" using assms(1,2) by (simp add: login_inv_def setFlow_given_back)
  moreover have "flow_id t = flow_id (setFlow f s)" using assms(4) by (simp add: flow_id_def)
  ultimately have "given_back t" using given_back_mono [of "setFlow f s" t] assms by simp
  then show ?thesis
    using assms code_ok_empty setFlow_posts by (simp add: login_inv_def)
qed

text \<open>Steps that leave the flow and the code alone.\<close>

lemma login_inv_same_flow:
  assumes "login_inv s" "lf_code t = lf_code s" "lf_flow t = lf_flow s" "lf_adopted t = lf_adopted s" "lf_mounted t = lf_mounted s"
    "lf_posts t = lf_posts s @ ps" "list_all proper_request ps" "flow_present t" "one_request t"
  shows "login_inv t"
proof -
  have "flow_id t = flow_id s" using assms(3) by (simp add: flow_id_def)
  then have "given_back t" using given_back_mono [of s t] assms by (simp add: login_inv_def)
  then show ?thesis using assms code_ok_cong [of t s] by (simp add: login_inv_def)
qed

lemma login_inv_unchanged:
  assumes "login_inv s" "lf_code t = lf_code s" "lf_flow t = lf_flow s" "lf_adopted t = lf_adopted s" "lf_mounted t = lf_mounted s"
    "lf_posts t = lf_posts s" "lf_step t = lf_step s" "lf_loading t = lf_loading s" "lf_pending t = lf_pending s"
  shows "login_inv t"
  using assms by (intro login_inv_same_flow [of s t "[]"]) (simp_all add: login_inv_def flow_present_def one_request_def)

lemma login_inv_start:
  assumes "login_inv s" "lf_mounted s" "\<not> lf_loading s" "proper_request r"
  shows "login_inv (start_request r s)"
proof -
  have "flow_present s" "lf_pending s = []" using assms(1-3) by (simp_all add: login_inv_def one_request_def)
  then show ?thesis using assms(2,4)
    by (intro login_inv_same_flow [OF assms(1), of _ "[r]"])
      (simp_all add: start_request_def post_def one_request_def flow_present_def)
qed

lemma login_inv_handler:
  assumes "login_inv s" "lf_mounted s" "\<not> lf_loading s" "\<And>f. lf_flow s = Some f \<Longrightarrow> proper_request (r f)"
  shows "login_inv (case lf_flow s of None \<Rightarrow> s | Some f \<Rightarrow> start_request (r f) s)"
  using assms login_inv_start by (cases "lf_flow s") simp_all

lemmas handler_defs = resend_def startSetupEmail_def verifySetupEmail_def verifyCode_def verifyTwofa_def

text \<open>An answer.\<close>

lemma one_request_settled:
  assumes "one_request s" "r \<in> set (lf_pending s)"
  shows "remove1 r (lf_pending s) = []"
  using assms by (cases "lf_pending s") (auto simp: one_request_def)

lemma login_inv_settle:
  assumes inv: "login_inv s" and r: "r \<in> set (lf_pending s)"
  shows "login_inv (settle_request tr r a s)"
proof -
  have none: "remove1 r (lf_pending s) = []" using inv r one_request_settled by (auto simp: login_inv_def)
  have sent: "login_inv t"
    if "lf_mounted s" "lf_code t = []" "lf_flow t = Some d" "lf_posts t = lf_posts (setFlow (Some d) s)"
      "lf_adopted t = lf_adopted (setFlow (Some d) s)" "lf_mounted t" "\<not> lf_loading t" "lf_pending t = []" for t d
    using that by (intro login_inv_new_flow [OF inv that(1), of t "Some d"]) (simp_all add: flow_present_def one_request_def)
  have same: "login_inv t"
    if "lf_code t = lf_code s" "lf_flow t = lf_flow s" "lf_posts t = lf_posts s" "lf_step t = lf_step s \<or> lf_step t = Twofa"
      "lf_adopted t = lf_adopted s" "lf_mounted t = lf_mounted s" "lf_mounted s \<longrightarrow> \<not> lf_loading t" "lf_pending t = []" for t
    using that inv by (intro login_inv_same_flow [of s t "[]"]) (auto simp: login_inv_def flow_present_def one_request_def)
  show ?thesis
  proof (cases "lf_mounted s")
    case False
    then show ?thesis unfolding settle_request_def Let_def none
      by (cases a) (simp_all add: complete_def same)
  next
    case True
    have "login_inv ((on_answer tr r a (s\<lparr>lf_pending := []\<rparr>))\<lparr>lf_loading := False\<rparr>)"
    proof (cases a)
      case (Sent d)
      then show ?thesis using True by (cases r; simp add: applySentCode_def) (simp_all add: sent same)
    next
      case (Account i)
      then show ?thesis using True by (cases r; simp add: complete_def) (simp_all add: same)
    next
      case (Requires_2fa h)
      then show ?thesis using True by (cases r; simp) (simp_all add: same)
    qed (simp add: same)
    then show ?thesis using True by (simp add: settle_request_def Let_def none)
  qed
qed

lemma login_inv_reset:
  assumes "login_inv s" "lf_mounted s"
  shows "login_inv (resetFlow s)"
proof -
  have "one_request s" using assms(1) by (simp add: login_inv_def)
  then show ?thesis using assms(2)
    by (intro login_inv_new_flow [OF assms, of _ None]) (simp_all add: resetFlow_def flow_present_def one_request_def)
qed

lemma login_inv_unmount:
  assumes "login_inv s"
  shows "login_inv (lf_unmount s)"
proof -
  let ?t = "lf_unmount s"
  have "lf_posts ?t = lf_posts s @ (if truthy (flow_id s) then [Cancel_login (the (flow_id s))] else [])"
    "lf_adopted ?t = lf_adopted s" "\<not> lf_mounted ?t" "flow_id ?t = flow_id s" "lf_step ?t = lf_step s"
    "lf_code ?t = lf_code s" "lf_flow ?t = lf_flow s" "lf_pending ?t = lf_pending s"
    by (simp_all add: lf_unmount_def cancel_def post_def flow_id_def)
  note t = this
  have "given_back ?t"
    unfolding given_back_def
  proof
    fix i assume "i \<in> set (lf_adopted ?t)"
    then have "i = [] \<or> flow_id s = Some i \<or> Cancel_login i \<in> set (lf_posts s)"
      using assms t(2) by (auto simp: login_inv_def given_back_def)
    then show "i = [] \<or> (lf_mounted ?t \<and> flow_id ?t = Some i) \<or> Cancel_login i \<in> set (lf_posts ?t)"
      unfolding t(1) by (cases "i = []") auto
  qed
  moreover have "list_all proper_request (lf_posts ?t)"
    unfolding t(1) using assms by (cases "flow_id s") (simp_all add: login_inv_def)
  ultimately show ?thesis
    using assms t code_ok_cong [of ?t s] by (simp add: login_inv_def one_request_def flow_present_def)
qed

lemma login_inv_change_phone:
  assumes "login_inv s" "lf_mounted s"
  shows "login_inv (change_phone s)"
proof (cases "truthy (flow_id s)")
  case True
  then obtain i where i: "flow_id s = Some i" "i \<noteq> []" by (cases "flow_id s") auto
  have "flow_present s" "one_request s" using assms(1) by (simp_all add: login_inv_def)
  then show ?thesis using i
    by (intro login_inv_same_flow [OF assms(1), of _ "[Cancel_login i]"])
      (simp_all add: change_phone_def cancel_def post_def one_request_def flow_present_def)
next
  case False
  then show ?thesis using login_inv_reset [OF assms] by (simp add: change_phone_def cancel_def)
qed

lemma login_inv_settled_change:
  assumes "login_inv s"
  shows "login_inv (change_phone_settled s)"
proof -
  have "login_inv (s\<lparr>lf_cancels := lf_cancels s - 1\<rparr>)" by (rule login_inv_unchanged [OF assms]) simp_all
  then show ?thesis using login_inv_reset by (simp add: change_phone_settled_def Let_def)
qed

lemma ready_code: "login_inv s \<Longrightarrow> ready s \<Longrightarrow> lf_code s \<noteq> [] \<and> accepts Alphanumeric (lf_code s)"
  using accepts_widen by (auto simp: login_inv_def code_ok_def ready_def)

lemma login_inv_typed_code: "login_inv s \<Longrightarrow> login_inv (setCodeValue v s)"
proof -
  assume a: "login_inv s"
  let ?t = "setCodeValue v s"
  have t: "lf_flow ?t = lf_flow s" "lf_posts ?t = lf_posts s" "lf_adopted ?t = lf_adopted s" "lf_mounted ?t = lf_mounted s"
    "lf_step ?t = lf_step s" "lf_pending ?t = lf_pending s" "lf_loading ?t = lf_loading s" "flow_id ?t = flow_id s"
    by (simp_all add: setCodeValue_def flow_id_def)
  have "given_back ?t" using a t given_back_mono [of s ?t] by (simp add: login_inv_def)
  then show "login_inv ?t"
    using a t code_ok_typed [of s v] by (simp add: login_inv_def one_request_def flow_present_def)
qed

lemma login_step_inv: "login_step tr s u t \<Longrightarrow> login_inv s \<Longrightarrow> login_inv t"
proof (induction rule: login_step.induct)
  case (sends s)
  then show ?case unfolding sendCode_def by (intro login_inv_start) (auto simp: cleaned_def list_all_iff)
next
  case (verifies_email s)
  then show ?case unfolding handler_defs using ready_code by (intro login_inv_handler) auto
next
  case (verifies s)
  then show ?case unfolding handler_defs using ready_code by (intro login_inv_handler) auto
next
  case (starts_email s)
  then show ?case unfolding handler_defs by (intro login_inv_handler) auto
next
  case (verifies_twofa s)
  then show ?case unfolding handler_defs by (intro login_inv_handler) auto
next
  case (resends s)
  then show ?case unfolding handler_defs by (intro login_inv_handler) auto
next
  case (types_phone s v)
  show ?case by (rule login_inv_unchanged [OF types_phone.prems]) simp_all
next
  case (types_email s v)
  show ?case by (rule login_inv_unchanged [OF types_email.prems]) simp_all
next
  case (types_twofa s v)
  show ?case by (rule login_inv_unchanged [OF types_twofa.prems]) simp_all
next
  case (toggles s)
  show ?case by (rule login_inv_unchanged [OF toggles.prems]) simp_all
next
  case (ticks s)
  show ?case by (rule login_inv_unchanged [OF ticks.prems]) (simp_all add: lf_tick_def)
qed (simp_all add: login_inv_typed_code login_inv_change_phone login_inv_settle login_inv_settled_change login_inv_unmount)

lemma new_flow_inv: "login_inv new_flow"
  by (simp add: login_inv_def new_flow_def code_ok_def given_back_def one_request_def flow_present_def codeLength_def)

interpretation lfm: machine "\<lambda>s. s = new_flow" "login_step tr" login_inv for tr
  by unfold_locales (simp_all add: new_flow_inv login_step_inv)

section \<open>A login on a concrete input\<close>

definition demo_code :: sent_code where
  "demo_code = \<lparr>login_id = ''a1'', sent_stage = Enter_code, delivery_type = Some ''app'', next_delivery_type = None,
     sent_timeout = Some 0, code_length = Some 5, sent_input_mode = Some Numeric, input_pattern = None, email_pattern = None,
     google_signin_allowed = False, apple_signin_allowed = False\<rparr>"

definition demo_asked :: login_flow where
  "demo_asked = sendCode (new_flow\<lparr>lf_phone := ''+62 8''\<rparr>)"

definition demo_entering :: "(string \<Rightarrow> string) \<Rightarrow> login_flow" where
  "demo_entering tr = settle_request tr (Send_code ''+628'') (Sent demo_code) demo_asked"

definition demo_typed :: "(string \<Rightarrow> string) \<Rightarrow> login_flow" where
  "demo_typed tr = setCodeValue ''12345'' (demo_entering tr)"

definition demo_verifying :: "(string \<Rightarrow> string) \<Rightarrow> login_flow" where
  "demo_verifying tr = verifyCode (demo_typed tr)"

definition demo_left :: "(string \<Rightarrow> string) \<Rightarrow> login_flow" where
  "demo_left tr = change_phone_settled (change_phone (demo_verifying tr))"

definition demo_stranded :: "(string \<Rightarrow> string) \<Rightarrow> login_flow" where
  "demo_stranded tr = settle_request tr (Verify_code ''a1'' ''12345'') (Requires_2fa None) (demo_left tr)"

abbreviation login_reach :: "(string \<Rightarrow> string) \<Rightarrow> login_flow \<Rightarrow> bool" where
  "login_reach tr \<equiv> reach (\<lambda>s. s = new_flow) (login_step tr)"

lemma demo_guards:
  "lf_mounted new_flow \<and> lf_step new_flow = Phone \<and> \<not> lf_loading new_flow"
  "lf_mounted demo_asked \<and> Send_code ''+628'' \<in> set (lf_pending demo_asked)"
  "lf_mounted (demo_entering tr) \<and> lf_step (demo_entering tr) = Code"
  "lf_mounted (demo_typed tr) \<and> lf_step (demo_typed tr) = Code \<and> \<not> lf_loading (demo_typed tr) \<and> ready (demo_typed tr)"
  "lf_mounted (demo_verifying tr) \<and> lf_step (demo_verifying tr) = Code"
  "lf_cancels (change_phone (demo_verifying tr)) > 0"
  "Verify_code ''a1'' ''12345'' \<in> set (lf_pending (demo_left tr))"
  by code_simp+

lemma demo_entering_reach: "login_reach tr (demo_entering tr)"
proof -
  have "login_reach tr new_flow" by (rule reach_start) simp
  moreover have "login_step tr new_flow () (new_flow\<lparr>lf_phone := ''+62 8''\<rparr>)"
    using demo_guards(1) by (intro login_step.types_phone) auto
  ultimately have "login_reach tr (new_flow\<lparr>lf_phone := ''+62 8''\<rparr>)" by (rule reach_step)
  moreover have "login_step tr (new_flow\<lparr>lf_phone := ''+62 8''\<rparr>) () demo_asked"
    unfolding demo_asked_def using demo_guards(1) by (intro login_step.sends) auto
  ultimately have "login_reach tr demo_asked" by (rule reach_step)
  moreover have "login_step tr demo_asked () (demo_entering tr)"
    unfolding demo_entering_def using demo_guards(2) by (intro login_step.answered) auto
  ultimately show ?thesis by (rule reach_step)
qed

lemma demo_left_reach: "login_reach tr (demo_left tr)"
proof -
  have "login_step tr (demo_entering tr) () (demo_typed tr)"
    unfolding demo_typed_def using demo_guards(3) [of tr] by (intro login_step.types_code) auto
  with demo_entering_reach have "login_reach tr (demo_typed tr)" by (rule reach_step)
  moreover have "login_step tr (demo_typed tr) () (demo_verifying tr)"
    unfolding demo_verifying_def using demo_guards(4) [of tr] by (intro login_step.verifies) auto
  ultimately have "login_reach tr (demo_verifying tr)" by (rule reach_step)
  moreover have "login_step tr (demo_verifying tr) () (change_phone (demo_verifying tr))"
    using demo_guards(5) [of tr] by (intro login_step.changes_phone) auto
  ultimately have "login_reach tr (change_phone (demo_verifying tr))" by (rule reach_step)
  moreover have "login_step tr (change_phone (demo_verifying tr)) () (demo_left tr)"
    unfolding demo_left_def using demo_guards(6) [of tr] by (rule login_step.cancelled)
  ultimately show ?thesis by (rule reach_step)
qed

lemma demo_stranded_reach: "login_reach tr (demo_stranded tr)"
proof -
  have "login_step tr (demo_left tr) () (demo_stranded tr)"
    unfolding demo_stranded_def using demo_guards(7) [of tr] by (intro login_step.answered) auto
  with demo_left_reach show ?thesis by (rule reach_step)
qed

section \<open>Properties\<close>

text \<open>C15: a login that the form has taken up and that is not its current one any more, because the number was
  changed, a new code replaced it or the form is gone, has been given back: its cancellation has been posted to the
  backend (best effort: whether that request succeeds is not looked at).\<close>

theorem abandoned_login_cancelled:
  assumes "login_reach tr s" "i \<in> set (lf_adopted s)" "i \<noteq> []" "\<not> lf_mounted s \<or> flow_id s \<noteq> Some i"
  shows "Cancel_login i \<in> set (lf_posts s)"
  using lfm.reach_inv [OF assms(1)] assms(2-4) by (auto simp: login_inv_def given_back_def)

theorem abandoned_login_cancelled_witness: "Cancel_login ''a1'' \<in> set (lf_posts (demo_left (\<lambda>k. k)))"
proof (rule abandoned_login_cancelled [OF demo_left_reach])
  show "''a1'' \<in> set (lf_adopted (demo_left (\<lambda>k. k)))" by code_simp
  show "\<not> lf_mounted (demo_left (\<lambda>k. k)) \<or> flow_id (demo_left (\<lambda>k. k)) \<noteq> Some ''a1''" by code_simp
qed simp

text \<open>The code in the field always has the characters and the length that Telegram announced for it,
  and every request carries data of its kind: a phone number without white space, a code that is not empty and
  alphanumeric, a password, an address, a login.\<close>

theorem code_fits_field:
  assumes "login_reach tr s"
  shows "accepts (inputMode s) (lf_code s)
    \<and> (case codeLength s of None \<Rightarrow> length (lf_code s) \<le> 64 | Some n \<Rightarrow> n < 0 \<or> int (length (lf_code s)) \<le> n)
    \<and> list_all proper_request (lf_posts s)"
  using lfm.reach_inv [OF assms] by (simp add: login_inv_def code_ok_def)

theorem code_fits_field_witness:
  "accepts (inputMode (demo_left (\<lambda>k. k))) (lf_code (demo_left (\<lambda>k. k)))
   \<and> list_all proper_request (lf_posts (demo_left (\<lambda>k. k)))"
  using code_fits_field [OF demo_left_reach] by blast

text \<open>While the form is shown it has at most one request under way and shows itself busy exactly then,
  and outside the first and the password step it knows its login.\<close>

theorem one_login_request:
  assumes "login_reach tr s" "lf_mounted s"
  shows "length (lf_pending s) \<le> 1 \<and> lf_loading s = (lf_pending s \<noteq> []) \<and> (lf_step s \<in> {Phone, Twofa} \<or> lf_flow s \<noteq> None)"
  using lfm.reach_inv [OF assms(1)] assms(2) by (simp add: login_inv_def one_request_def flow_present_def)

theorem one_login_request_witness:
  "length (lf_pending (demo_left (\<lambda>k. k))) \<le> 1 \<and> lf_loading (demo_left (\<lambda>k. k)) = (lf_pending (demo_left (\<lambda>k. k)) \<noteq> [])"
proof -
  have "lf_mounted (demo_left (\<lambda>k. k))" by code_simp
  from one_login_request [OF demo_left_reach this] show ?thesis by blast
qed

text \<open>The password step without a login: nothing leads out of it but leaving the page, and no request is
  sent from it.\<close>

definition stranded :: "login_flow \<Rightarrow> bool" where
  "stranded s \<longleftrightarrow> lf_flow s = None \<and> lf_pending s = [] \<and> lf_cancels s = 0 \<and> timeLeft s \<le> 0 \<and> (\<not> lf_mounted s \<or> lf_step s = Twofa)"

lemma stranded_step: "login_step tr s u t \<Longrightarrow> stranded s \<Longrightarrow> stranded t \<and> lf_posts t = lf_posts s"
  by (induction rule: login_step.induct)
    (auto simp: stranded_def verifyTwofa_def lf_tick_def lf_unmount_def cancel_def flow_id_def)

text \<open>The form can strand: when the number is changed while a code is being verified and the answer
  then asks for the password, the password step has no login; from then on the form sends nothing and never
  leaves that step.\<close>

theorem late_password_step_strands:
  assumes "run (login_step tr) (demo_stranded tr) ls t"
  shows "lf_posts t = lf_posts (demo_stranded tr) \<and> (lf_mounted t \<longrightarrow> lf_step t = Twofa \<and> lf_flow t = None)"
proof -
  have "stranded (demo_stranded tr)" by code_simp
  then have "stranded t \<and> lf_posts t = lf_posts (demo_stranded tr)"
    using assms lfm.run_keeps [where P = "\<lambda>s. stranded s \<and> lf_posts s = lf_posts (demo_stranded tr)" and Q = "\<lambda>_. True"]
      lfm.reach_inv [OF demo_stranded_reach] stranded_step by metis
  then show ?thesis by (simp add: stranded_def)
qed

text \<open>An answer to a resend that arrives after the number was changed brings the cancelled login back.\<close>

theorem late_resend_revives_cancelled:
  fixes tr :: "string \<Rightarrow> string"
  defines "s \<equiv> settle_request tr (Resend_code ''a1'') (Sent demo_code) (change_phone_settled (change_phone (resend (demo_entering tr))))"
  shows "lf_step s = Code" "flow_id s = Some ''a1''" "Cancel_login ''a1'' \<in> set (lf_posts s)"
  unfolding s_def by code_simp+

end
