(* ===== verification/OrderManager.thy ===== *)
theory OrderManager
  imports Helpers SpeedParser "HOL-Library.List_Lexorder" "HOL-Library.Char_ord"
begin

text \<open>
  The order page of the SMM services, \<open>src/frontend/src/components/orders/smm-order-manager.tsx\<close>, with the tables
  of \<open>src/frontend/src/lib/services-filter.ts\<close>.

  A service has the numbers that \<open>useTelegramServices\<close> converts; prices are rationals.  The page's state, that
  of the catalogue and that of the order dialog are the record \<open>order_page\<close>; a dialog that is opened is a new
  component with a new number, and the orders in flight remember which dialog sent them, because its \<open>isPending\<close>
  is its own while the answer acts on the page.  Notices are recorded by the keys of their texts.
\<close>

section \<open>Tables\<close>

definition TELEGRAM_MEMBERS_IDS :: "int list" where
  "TELEGRAM_MEMBERS_IDS =
     [34794, 55678, 34795, 34519, 65572, 65497, 50131, 67394, 57127, 34134, 67393, 33857, 34048, 34291, 34329, 34213,
      34214, 34327, 34328, 55679, 34049, 34050, 55680, 33689, 34216, 67392, 36222, 67391, 24568, 24569, 24570]"

definition TELEGRAM_AUTO_REACTIONS_IDS :: "int list" where
  "TELEGRAM_AUTO_REACTIONS_IDS = [48899, 48900, 48901, 48903, 48907]"

definition TELEGRAM_REACTIONS_IDS :: "int list" where
  "TELEGRAM_REACTIONS_IDS =
     [36431, 36432, 36433, 36439, 36441, 36442, 36445, 36447, 36453, 36459, 47285, 47287, 47288, 47291, 47292, 47295,
      47300, 47302, 47319, 47320, 47327, 47328, 47329, 47331, 32321, 35034]"

definition TELEGRAM_POST_VIEWS_IDS :: "int list" where
  "TELEGRAM_POST_VIEWS_IDS =
     [7836, 7837, 7838, 7839, 7840, 7841, 7842, 7985, 8044, 10808, 10809, 25690, 29540, 32147, 33862, 34293, 34672,
      45340, 45341, 47040, 47041, 47051, 47052, 47117, 52806, 65659, 65752, 68116, 78615, 78699]"

definition TELEGRAM_AUTO_POST_VIEWS_IDS :: "int list" where
  "TELEGRAM_AUTO_POST_VIEWS_IDS =
     [48471, 48472, 48474, 22785, 48475, 22790, 48476, 22786, 22792, 22787, 22794, 22788, 48478, 22789]"

definition ALL_ALLOWED_SMM_SERVICE_IDS :: "int list" where
  "ALL_ALLOWED_SMM_SERVICE_IDS =
     TELEGRAM_MEMBERS_IDS @ TELEGRAM_AUTO_REACTIONS_IDS @ TELEGRAM_REACTIONS_IDS @ TELEGRAM_POST_VIEWS_IDS
     @ TELEGRAM_AUTO_POST_VIEWS_IDS"

section \<open>The catalogue\<close>

record smm_service =
  svc_id :: int
  svc_name :: string
  svc_price :: rat
  svc_min :: int
  svc_max :: int
  svc_note :: string
  svc_category :: string
  svc_speed :: "string option"

datatype SortOption = SortDefault | Price_asc | Price_desc | Speed | Min_asc

definition filteredServices :: "smm_service list option \<Rightarrow> int list \<Rightarrow> smm_service list" where
  "filteredServices services allowedServiceIds =
     (case services of None \<Rightarrow> [] | Some ss \<Rightarrow> filter (\<lambda>s. svc_id s \<in> set allowedServiceIds) ss)"

record order_stats =
  stat_total :: nat
  stat_minPrice :: rat
  stat_fastestSpeed :: string
  stat_activeCount :: nat

definition stats :: "string \<Rightarrow> smm_service list \<Rightarrow> order_stats" where
  "stats bullet ss =
     (if ss = [] then \<lparr>stat_total = 0, stat_minPrice = 0, stat_fastestSpeed = ''Real-time'', stat_activeCount = 0\<rparr>
      else \<lparr>stat_total = length ss, stat_minPrice = foldr min (map svc_price ss) (svc_price (hd ss)),
            stat_fastestSpeed = getFastestSpeedDisplay bullet (map svc_speed ss), stat_activeCount = length ss\<rparr>)"

definition availableCategories :: "smm_service list \<Rightarrow> string list" where
  "availableCategories ss =
     js_sort (\<lambda>c. c) (foldl (\<lambda>set s. if svc_category s \<noteq> [] \<and> svc_category s \<notin> List.set set then set @ [svc_category s] else set) [] ss)"

definition service_matches :: "string \<Rightarrow> string \<Rightarrow> smm_service \<Rightarrow> bool" where
  "service_matches search selectedCategoryFilter s \<longleftrightarrow>
     (search = [] \<or> str_includes (toLowerCase (svc_name s)) (toLowerCase search)
        \<or> str_includes (toLowerCase (svc_category s)) (toLowerCase search)
        \<or> str_includes (int_str (svc_id s)) search)
     \<and> (selectedCategoryFilter = ''all'' \<or> svc_category s = selectedCategoryFilter)"

text \<open>The key by which the comparison of speeds orders: unknown speeds are infinite and come last, the price
  decides between equals.\<close>

definition speed_key :: "smm_service \<Rightarrow> (int \<times> rat) \<times> rat" where
  "speed_key s = (case parseDurationToSeconds (svc_speed s) of Fin q \<Rightarrow> (0, q) | _ \<Rightarrow> (1, 0), svc_price s)"

definition processedServices :: "string \<Rightarrow> string \<Rightarrow> SortOption \<Rightarrow> smm_service list \<Rightarrow> smm_service list" where
  "processedServices search selectedCategoryFilter sortBy ss =
     (let result = filter (service_matches search selectedCategoryFilter) ss
      in case sortBy of
           SortDefault \<Rightarrow> result
         | Price_asc \<Rightarrow> js_sort svc_price result
         | Price_desc \<Rightarrow> js_sort (\<lambda>s. - svc_price s) result
         | Min_asc \<Rightarrow> js_sort svc_min result
         | Speed \<Rightarrow> js_sort speed_key result)"

definition toggleNote :: "int \<Rightarrow> (int \<Rightarrow> bool option) \<Rightarrow> int \<Rightarrow> bool option" where
  "toggleNote serviceId prev = prev(serviceId \<mapsto> prev serviceId \<noteq> Some True)"

section \<open>The page and the order dialog\<close>

datatype pay_method = Auto | Qris | Usdt_bep20 | Usdt_trc20 | Usdt_polygon

record order_payload =
  pl_service_id :: int
  pl_payment_method :: "pay_method option"
  pl_data_target :: string
  pl_quantity :: int

datatype notice =
    InvalidTarget
  | BelowMinimum
  | AboveMaximum
  | AwaitingPayment
  | OrderPlaced string int
  | OrderFailed "string option"

record order_page =
  selectedService :: "smm_service option"
  isModalOpen :: bool
  dialog :: nat
  dataTarget :: string
  selectedPayMethod :: pay_method
  quantityInput :: string
  inflight :: "(nat \<times> smm_service \<times> order_payload) list"
  op_posts :: "(smm_service \<times> order_payload) list"
  op_notices :: "notice list"
  op_pushed :: "string list"

definition new_page :: order_page where
  "new_page = \<lparr>selectedService = None, isModalOpen = False, dialog = 0, dataTarget = [], selectedPayMethod = Auto, quantityInput = [],
     inflight = [], op_posts = [], op_notices = [], op_pushed = []\<rparr>"

text \<open>Choosing a service opens the dialog with fresh state.\<close>

definition handleOrderSelect :: "smm_service \<Rightarrow> order_page \<Rightarrow> order_page" where
  "handleOrderSelect service p =
     p\<lparr>selectedService := Some service, isModalOpen := True, dialog := Suc (dialog p), dataTarget := [], selectedPayMethod := Auto,
       quantityInput := int_str (svc_min service)\<rparr>"

definition onClose :: "order_page \<Rightarrow> order_page" where
  "onClose p = p\<lparr>isModalOpen := False, selectedService := None\<rparr>"

definition notify :: "notice \<Rightarrow> order_page \<Rightarrow> order_page" where
  "notify n p = p\<lparr>op_notices := op_notices p @ [n]\<rparr>"

definition targetInvalid :: "order_page \<Rightarrow> bool" where
  "targetInvalid p \<longleftrightarrow> length (trim (dataTarget p)) > 0 \<and> \<not> isValidTelegramTarget (Some (trim (dataTarget p)))"

definition isPending :: "order_page \<Rightarrow> bool" where
  "isPending p \<longleftrightarrow> list_ex (\<lambda>x. fst x = dialog p) (inflight p)"

definition commitQuantity :: "smm_service \<Rightarrow> string \<Rightarrow> order_page \<Rightarrow> order_page" where
  "commitQuantity service raw p = p\<lparr>quantityInput := int_str (clampQuantity raw (svc_min service) (svc_max service))\<rparr>"

definition setQuantity :: "smm_service \<Rightarrow> int \<Rightarrow> order_page \<Rightarrow> order_page" where
  "setQuantity service nxt p = p\<lparr>quantityInput := int_str (min (svc_max service) (max (svc_min service) nxt))\<rparr>"

definition quantity :: "smm_service \<Rightarrow> order_page \<Rightarrow> int" where
  "quantity service p = (case parseQuantityInput (quantityInput p) of None \<Rightarrow> svc_min service | Some q \<Rightarrow> q)"

definition handleQuickAdd :: "smm_service \<Rightarrow> int \<Rightarrow> order_page \<Rightarrow> order_page" where
  "handleQuickAdd service amount p = setQuantity service (quantity service p + amount) p"

definition handleSetMax :: "smm_service \<Rightarrow> order_page \<Rightarrow> order_page" where
  "handleSetMax service p = setQuantity service (svc_max service) p"

definition handleSetMin :: "smm_service \<Rightarrow> order_page \<Rightarrow> order_page" where
  "handleSetMin service p = setQuantity service (svc_min service) p"

definition stepDown :: "smm_service \<Rightarrow> order_page \<Rightarrow> order_page" where
  "stepDown service p = setQuantity service (max (svc_min service) (quantity service p - 100)) p"

definition stepUp :: "smm_service \<Rightarrow> order_page \<Rightarrow> order_page" where
  "stepUp service p = setQuantity service (min (svc_max service) (quantity service p + 100)) p"

definition estimatedPrice :: "smm_service \<Rightarrow> int \<Rightarrow> int" where
  "estimatedPrice service q = max 1 \<lfloor>svc_price service * of_int q / 1000 + 1 / 2\<rfloor>"

definition hasSufficientBalance :: "int option \<Rightarrow> smm_service \<Rightarrow> int \<Rightarrow> bool" where
  "hasSufficientBalance balance service q \<longleftrightarrow> (case balance of None \<Rightarrow> 0 | Some b \<Rightarrow> b) \<ge> estimatedPrice service q"

text \<open>\<open>handleSubmit\<close> up to its request.\<close>

definition handleSubmit :: "smm_service \<Rightarrow> order_page \<Rightarrow> order_page" where
  "handleSubmit service p =
     (if trim (dataTarget p) = [] then p
      else if \<not> isValidTelegramTarget (Some (dataTarget p)) then notify InvalidTarget p
      else
        let parsed = parseQuantityInput (quantityInput p)
        in if parsed = None \<or> the parsed < svc_min service
           then commitQuantity service (quantityInput p) (notify BelowMinimum p)
           else if the parsed > svc_max service
           then commitQuantity service (quantityInput p) (notify AboveMaximum p)
           else
             let payload = \<lparr>pl_service_id = svc_id service,
                   pl_payment_method = (if selectedPayMethod p = Auto then None else Some (selectedPayMethod p)),
                   pl_data_target = trim (dataTarget p), pl_quantity = quantity service p\<rparr>
             in p\<lparr>op_posts := op_posts p @ [(service, payload)], inflight := inflight p @ [(dialog p, service, payload)]\<rparr>)"

datatype order_answer = Invoice string | Placed | Refused "string option"

text \<open>\<open>handleSubmit\<close> after its request; closing acts on the page, whichever dialog it shows by now.\<close>

fun order_answered :: "smm_service \<Rightarrow> order_payload \<Rightarrow> order_answer \<Rightarrow> order_page \<Rightarrow> order_page" where
  "order_answered service pl (Invoice i) p =
     (if i \<noteq> [] then (let p' = onClose (notify AwaitingPayment p) in p'\<lparr>op_pushed := op_pushed p' @ [''/wallet/invoice/'' @ i]\<rparr>)
      else onClose (notify (OrderPlaced (svc_name service) (pl_quantity pl)) p))"
| "order_answered service pl Placed p = onClose (notify (OrderPlaced (svc_name service) (pl_quantity pl)) p)"
| "order_answered service pl (Refused detail) p = notify (OrderFailed (if truthy detail then detail else None)) p"

definition order_settled :: "nat \<times> smm_service \<times> order_payload \<Rightarrow> order_answer \<Rightarrow> order_page \<Rightarrow> order_page" where
  "order_settled x a p = order_answered (fst (snd x)) (snd (snd x)) a (p\<lparr>inflight := remove1 x (inflight p)\<rparr>)"

section \<open>The page as a machine\<close>

text \<open>The user orders from the services \<open>ss\<close>.  The dialog is modal; dismissing it is possible at any time, its
  own buttons as the markup enables them.\<close>

inductive order_step :: "smm_service list \<Rightarrow> order_page \<Rightarrow> unit \<Rightarrow> order_page \<Rightarrow> bool" for ss where
  selects: "\<not> isModalOpen p \<Longrightarrow> s \<in> set ss \<Longrightarrow> order_step ss p () (handleOrderSelect s p)"
| dismisses: "isModalOpen p \<Longrightarrow> order_step ss p () (onClose p)"
| types_target: "isModalOpen p \<Longrightarrow> order_step ss p () (p\<lparr>dataTarget := v\<rparr>)"
| types_quantity: "isModalOpen p \<Longrightarrow> order_step ss p () (p\<lparr>quantityInput := v\<rparr>)"
| blurs: "isModalOpen p \<Longrightarrow> selectedService p = Some s \<Longrightarrow> order_step ss p () (commitQuantity s v p)"
| sets_quantity: "isModalOpen p \<Longrightarrow> selectedService p = Some s \<Longrightarrow>
    q \<in> {handleQuickAdd s a p, handleSetMax s p, handleSetMin s p, stepDown s p, stepUp s p} \<Longrightarrow> order_step ss p () q"
| pays_by: "isModalOpen p \<Longrightarrow> order_step ss p () (p\<lparr>selectedPayMethod := m\<rparr>)"
| submits: "isModalOpen p \<Longrightarrow> selectedService p = Some s \<Longrightarrow> \<not> isPending p \<Longrightarrow> trim (dataTarget p) \<noteq> [] \<Longrightarrow> \<not> targetInvalid p \<Longrightarrow>
    order_step ss p () (handleSubmit s p)"
| settles: "x \<in> set (inflight p) \<Longrightarrow> order_step ss p () (order_settled x a p)"

definition order_ok :: "smm_service list \<Rightarrow> smm_service \<times> order_payload \<Rightarrow> bool" where
  "order_ok ss x \<longleftrightarrow>
     (let s = fst x; pl = snd x
      in s \<in> set ss \<and> pl_service_id pl = svc_id s \<and> svc_min s \<le> pl_quantity pl \<and> pl_quantity pl \<le> svc_max s
         \<and> isValidTelegramTarget (Some (pl_data_target pl)) \<and> trim (pl_data_target pl) = pl_data_target pl
         \<and> pl_payment_method pl \<noteq> Some Auto)"

definition order_inv :: "smm_service list \<Rightarrow> order_page \<Rightarrow> bool" where
  "order_inv ss p \<longleftrightarrow>
     list_all (order_ok ss) (op_posts p) \<and> distinct (map fst (inflight p)) \<and> list_all (\<lambda>x. fst x \<le> dialog p) (inflight p)
     \<and> (case selectedService p of None \<Rightarrow> True | Some s \<Rightarrow> s \<in> set ss)"

lemma order_inv_cong:
  assumes "op_posts q = op_posts p" "inflight q = inflight p" "dialog q = dialog p" "selectedService q = selectedService p"
  shows "order_inv ss q = order_inv ss p"
  unfolding order_inv_def assms ..

lemma order_inv_close: "order_inv ss p \<Longrightarrow> order_inv ss (onClose (notify n p))" "order_inv ss p \<Longrightarrow> order_inv ss (onClose p)"
  by (simp_all add: order_inv_def onClose_def notify_def)

lemma order_inv_settled:
  assumes "order_inv ss p"
  shows "order_inv ss (order_settled x a p)"
proof -
  let ?p = "p\<lparr>inflight := remove1 x (inflight p)\<rparr>"
  have "inj_on fst (set (inflight p) - {x})" if "inj_on fst (set (inflight p))" using that by (auto simp: inj_on_def)
  then have "distinct (map fst (remove1 x (inflight p)))"
    using assms by (simp add: order_inv_def distinct_map distinct_remove1)
  then have p: "order_inv ss ?p"
    using assms by (auto simp: order_inv_def list_all_iff dest: notin_set_remove1 set_remove1_subset [THEN subsetD])
  have pushed: "order_inv ss (q\<lparr>op_pushed := u\<rparr>) = order_inv ss q" for q u by (rule order_inv_cong) simp_all
  have noticed: "order_inv ss (notify n q) = order_inv ss q" for n q by (rule order_inv_cong) (simp_all add: notify_def)
  show ?thesis unfolding order_settled_def
    using p order_inv_close by (cases a) (simp_all add: Let_def pushed noticed)
qed

lemma valid_trimmed: "isValidTelegramTarget (Some (trim v)) = isValidTelegramTarget (Some v)"
  by (simp add: isValidTelegramTarget_def)

lemma order_inv_submit:
  assumes inv: "order_inv ss p" and s: "selectedService p = Some s" and free: "\<not> isPending p"
  shows "order_inv ss (handleSubmit s p)"
proof -
  have committed: "order_inv ss (commitQuantity s v (notify n p)) = order_inv ss p" for v n
    by (rule order_inv_cong) (simp_all add: commitQuantity_def notify_def)
  have noticed: "order_inv ss (notify n p) = order_inv ss p" for n by (rule order_inv_cong) (simp_all add: notify_def)
  have sent: "order_inv ss (p\<lparr>op_posts := op_posts p @ [(s, pl)], inflight := inflight p @ [(dialog p, s, pl)]\<rparr>)"
    if "order_ok ss (s, pl)" for pl
    using inv that free by (auto simp: order_inv_def isPending_def list_all_iff list_ex_iff split: option.splits)
  have member: "s \<in> set ss" using inv s by (simp add: order_inv_def)
  show ?thesis
  proof (cases "parseQuantityInput (quantityInput p)")
    case None
    then show ?thesis using inv by (simp add: handleSubmit_def committed noticed)
  next
    case (Some n)
    then show ?thesis
      using inv member unfolding handleSubmit_def Let_def
      by (auto simp: committed noticed quantity_def order_ok_def valid_trimmed intro!: sent)
  qed
qed

lemma order_step_inv: "order_step ss p u q \<Longrightarrow> order_inv ss p \<Longrightarrow> order_inv ss q"
proof (induction rule: order_step.induct)
  case (selects p s)
  then show ?case by (auto simp: order_inv_def handleOrderSelect_def list_all_iff)
next
  case (sets_quantity p s q a)
  then obtain n where "q = setQuantity s n p"
    by (auto simp: handleQuickAdd_def handleSetMax_def handleSetMin_def stepDown_def stepUp_def)
  then have "order_inv ss q = order_inv ss p" by (intro order_inv_cong) (simp_all add: setQuantity_def)
  then show ?case using sets_quantity by simp
next
  case (blurs p s v)
  then show ?case using order_inv_cong [of "commitQuantity s v p" p] by (simp add: commitQuantity_def)
qed (simp_all add: order_inv_close order_inv_settled order_inv_submit, simp_all add: order_inv_def)

interpretation opm: machine "\<lambda>p. p = new_page" "order_step ss" "order_inv ss" for ss
proof
  show "order_inv ss p" if "p = new_page" for p using that by (simp add: order_inv_def new_page_def)
qed (rule order_step_inv)

section \<open>Properties\<close>

definition demo_service :: smm_service where
  "demo_service = \<lparr>svc_id = 34794, svc_name = ''Members'', svc_price = 1500, svc_min = 100, svc_max = 5000, svc_note = [],
     svc_category = ''Members'', svc_speed = Some ''8 Menit''\<rparr>"

definition demo_ordered :: order_page where
  "demo_ordered = handleSubmit demo_service ((handleOrderSelect demo_service new_page)\<lparr>dataTarget := '' @channel ''\<rparr>)"

lemma demo_ordered_reach: "reach (\<lambda>p. p = new_page) (order_step [demo_service]) demo_ordered"
proof -
  let ?p = "handleOrderSelect demo_service new_page"
  have "reach (\<lambda>p. p = new_page) (order_step [demo_service]) new_page" by (rule reach_start) simp
  moreover have "order_step [demo_service] new_page () ?p" by (rule order_step.selects) (simp_all add: new_page_def)
  ultimately have "reach (\<lambda>p. p = new_page) (order_step [demo_service]) ?p" by (rule reach_step)
  moreover have "order_step [demo_service] ?p () (?p\<lparr>dataTarget := '' @channel ''\<rparr>)"
    by (rule order_step.types_target) (simp add: handleOrderSelect_def)
  ultimately have "reach (\<lambda>p. p = new_page) (order_step [demo_service]) (?p\<lparr>dataTarget := '' @channel ''\<rparr>)" by (rule reach_step)
  moreover have "order_step [demo_service] (?p\<lparr>dataTarget := '' @channel ''\<rparr>) () demo_ordered"
    unfolding demo_ordered_def
  proof (rule order_step.submits)
    show "\<not> targetInvalid (?p\<lparr>dataTarget := '' @channel ''\<rparr>)" by code_simp
    show "trim (dataTarget (?p\<lparr>dataTarget := '' @channel ''\<rparr>)) \<noteq> []" by code_simp
  qed (simp_all add: handleOrderSelect_def isPending_def new_page_def)
  ultimately show ?thesis by (rule reach_step)
qed

text \<open>C24: whatever is typed, pasted, pressed and answered in whatever order, every order that leaves the page is
  for a service of the page, with a quantity within its limits and a valid, trimmed Telegram target, and no
  dialog has two orders under way.\<close>

theorem orders_within_limits:
  assumes "reach (\<lambda>p. p = new_page) (order_step ss) p"
  shows "list_all (order_ok ss) (op_posts p) \<and> distinct (map fst (inflight p))"
  using opm.reach_inv [OF assms] by (simp add: order_inv_def)

theorem orders_within_limits_witness:
  "list_all (order_ok [demo_service]) (op_posts demo_ordered) \<and> distinct (map fst (inflight demo_ordered)) \<and> op_posts demo_ordered =
     [(demo_service, \<lparr>pl_service_id = 34794, pl_payment_method = None, pl_data_target = ''@channel'', pl_quantity = 100\<rparr>)]"
proof -
  have "op_posts demo_ordered =
     [(demo_service, \<lparr>pl_service_id = 34794, pl_payment_method = None, pl_data_target = ''@channel'', pl_quantity = 100\<rparr>)]"
    by code_simp
  then show ?thesis using orders_within_limits [OF demo_ordered_reach] by blast
qed

text \<open>The catalogue shows exactly the services that match the search and the category, each as often as it
  is offered, in the order asked for; sorted by speed no service comes before a faster one, unknown speeds come
  last and the cheaper comes first among equals.  Services that the order does not tell apart stay as offered.\<close>

theorem catalogue_sorted:
  "mset (processedServices search cat opt ss) = mset (filter (service_matches search cat) ss)
   \<and> sorted (map speed_key (processedServices search cat Speed ss))
   \<and> sorted (map svc_price (processedServices search cat Price_asc ss))
   \<and> sorted (map (\<lambda>s. - svc_price s) (processedServices search cat Price_desc ss))
   \<and> sorted (map svc_min (processedServices search cat Min_asc ss))
   \<and> filter (\<lambda>s. speed_key s = k) (processedServices search cat Speed ss)
       = filter (\<lambda>s. speed_key s = k) (filter (service_matches search cat) ss)"
  by (simp add: processedServices_def sorted_js_sort js_sort_stable mset_js_sort Let_def split: SortOption.splits)

text \<open>No service is offered on two pages, and none twice on one.\<close>

theorem catalogue_pages_disjoint: "distinct ALL_ALLOWED_SMM_SERVICE_IDS"
  by code_simp

text \<open>Dismissing a dialog whose order is under way and opening the next one: the answer to the first order
  closes the second dialog, with whatever was typed into it.\<close>

theorem late_answer_closes_next_dialog:
  assumes "inflight p = [x]" "isModalOpen p"
  shows "\<not> isModalOpen (order_settled x Placed (handleOrderSelect s (onClose p)))"
  using assms by (simp add: order_settled_def onClose_def notify_def handleOrderSelect_def)

end
