(* ===== verification/AutoJoin.thy ===== *)
theory AutoJoin
  imports Regex Helpers
begin

text \<open>
  The auto-join page, \<open>src/frontend/src/app/(dashboard)/groups-channels/auto-join/page.tsx\<close>: reading the targets from
  free text, merging stored and live logs, and the job that the page watches.

  The clock texts of the log rows are made by the argument \<open>clock\<close>; the dash shown for a missing value is the
  argument \<open>dash\<close>, because it is not a character up to 255.
\<close>

section \<open>parseRawTargets\<close>

definition url_char :: "char \<Rightarrow> bool" where
  "url_char c \<longleftrightarrow> is_word c \<or> c = CHR ''+'' \<or> c = CHR ''/'' \<or> c = CHR ''-''"

definition scheme_re :: regex where
  "scheme_re = seqs [iword ''http'', Maybe (\<lambda>c. lower_char c = CHR ''s''), Txt ''://'']"

definition url_re :: regex where
  "url_re = seqs [Opt scheme_re, iword ''t.me/'', Opt (Alt (iword ''joinchat/'') (Txt ''+'')), Plus url_char]"

definition at_re :: regex where
  "at_re = seqs [Cls (\<lambda>c. c = CHR ''@''), Cls is_alpha, Between is_word 4 31]"

fun VALID_USERNAME :: "string \<Rightarrow> bool" where
  "VALID_USERNAME [] = False"
| "VALID_USERNAME (c # t) = (is_alpha c \<and> list_all is_word t \<and> 4 \<le> length t \<and> length t \<le> 31)"

text \<open>The list of items and the set of those seen, in lower case.\<close>

definition add_target :: "string \<Rightarrow> string list \<times> string list \<Rightarrow> string list \<times> string list" where
  "add_target val st =
     (let clean = trim val; lower = toLowerCase clean
      in if clean = [] \<or> lower \<in> set (snd st) then st else (fst st @ [clean], snd st @ [lower]))"

definition with_scheme :: "string \<Rightarrow> string" where
  "with_scheme link = (if steps scheme_re (link, []) \<noteq> [] then link else ''https://'' @ link)"

definition line_targets :: "string \<Rightarrow> string list" where
  "line_targets trimmed =
     (let urls = match_all url_re trimmed; ats = match_all at_re trimmed
      in if urls \<noteq> [] then map with_scheme urls
         else if ats \<noteq> [] then ats
         else if VALID_USERNAME trimmed then [''@'' @ trimmed] else [])"

definition add_line :: "string list \<times> string list \<Rightarrow> string \<Rightarrow> string list \<times> string list" where
  "add_line st line =
     (let trimmed = trim line in if trimmed = [] then st else fold add_target (line_targets trimmed) st)"

definition parseRawTargets :: "string \<Rightarrow> string list" where
  "parseRawTargets txt = fst (foldl add_line ([], []) (split_on (CHR 10) txt))"

definition target_type :: "string \<Rightarrow> string" where
  "target_type t = (if startsWith t ''http'' then ''link'' else ''username'')"

section \<open>Logs\<close>

record auto_join_log =
  log_id :: "string option"
  log_target :: "string option"
  log_status :: "string option"
  log_error_type :: "string option"
  log_error_message :: "string option"
  log_chat_title :: "string option"
  log_chat_type :: "string option"
  log_joined_at :: "string option"
  log_account_id :: "string option"
  log_account_name :: "string option"

record log_row =
  row_key :: string
  row_time :: string
  row_account :: string
  row_target :: string
  row_status :: string
  row_error_type :: "string option"
  row_detail :: string

definition logIdentity :: "string option \<Rightarrow> string option \<Rightarrow> string" where
  "logIdentity accountId target =
     (case accountId of None \<Rightarrow> ''?'' | Some a \<Rightarrow> a) @ ''|'' @ (case target of None \<Rightarrow> ''?'' | Some t \<Rightarrow> t)"

definition or_else :: "string option \<Rightarrow> string \<Rightarrow> string" where
  "or_else v d = (if truthy v then the v else d)"

text \<open>A stored row, whose id and target are always there, and a live one.\<close>

definition persisted_row :: "(string option \<Rightarrow> string) \<Rightarrow> string \<Rightarrow> auto_join_log \<Rightarrow> log_row" where
  "persisted_row clock dash l =
     \<lparr>row_key = or_else (log_id l) [], row_time = clock (log_joined_at l), row_account = or_else (log_account_name l) dash,
      row_target = or_else (log_target l) [], row_status = or_else (log_status l) [], row_error_type = log_error_type l,
      row_detail = or_else (log_error_message l) (or_else (log_chat_title l) (or_else (log_chat_type l) dash))\<rparr>"

definition live_row :: "(string option \<Rightarrow> string) \<Rightarrow> string \<Rightarrow> auto_join_log \<Rightarrow> log_row" where
  "live_row clock dash l =
     \<lparr>row_key = ''live:'' @ logIdentity (log_account_id l) (log_target l), row_time = clock None,
      row_account = or_else (log_account_name l) dash, row_target = or_else (log_target l) dash,
      row_status = or_else (log_status l) ''error'', row_error_type = log_error_type l,
      row_detail = or_else (log_error_message l) (or_else (log_chat_title l) (or_else (log_chat_type l) dash))\<rparr>"

definition push_row :: "string \<times> log_row \<Rightarrow> log_row list \<times> string list \<Rightarrow> log_row list \<times> string list" where
  "push_row x st = (if fst x \<in> set (snd st) then st else (fst st @ [snd x], snd st @ [fst x]))"

definition log_identity :: "auto_join_log \<Rightarrow> string" where
  "log_identity l = logIdentity (log_account_id l) (log_target l)"

definition normalizedLogs ::
    "(string option \<Rightarrow> string) \<Rightarrow> string \<Rightarrow> auto_join_log list option \<Rightarrow> auto_join_log list \<Rightarrow> log_row list" where
  "normalizedLogs clock dash persistedLogs liveLogs =
     fst (fold push_row (map (\<lambda>l. (log_identity l, live_row clock dash l)) liveLogs)
       (fold push_row (map (\<lambda>l. (log_identity l, persisted_row clock dash l))
          (case persistedLogs of None \<Rightarrow> [] | Some ls \<Rightarrow> ls)) ([], [])))"

definition LOG_RENDER_CAP :: nat where "LOG_RENDER_CAP = 500"

definition visibleLogs :: "log_row list \<Rightarrow> log_row list" where
  "visibleLogs rows = take LOG_RENDER_CAP rows"

section \<open>The job that the page watches\<close>

definition TERMINAL_STATUSES :: "string list" where
  "TERMINAL_STATUSES = [''completed'', ''cancelled'', ''failed'']"

definition isTerminal :: "string option \<Rightarrow> bool" where
  "isTerminal status \<longleftrightarrow> truthy status \<and> the status \<in> set TERMINAL_STATUSES"

text \<open>Storage that is unavailable reads as nothing and ignores writes.  \<open>job_status\<close> and \<open>jobError\<close> are what the query
  of the watched job reports; \<open>jp_cache\<close> is what the cache of the queries holds for the jobs asked for before: the status
  last answered, if any, and whether the last request failed.\<close>

record job_page =
  jp_mounted :: bool
  activeJobId :: "string option"
  activeJobLoaded :: bool
  job_status :: "string option"
  jobError :: bool
  storage_ok :: bool
  stored_job :: "string option"
  jp_cache :: "(string, string option \<times> bool) jsmap"
  jp_ended :: "string list"

definition readStoredJobId :: "job_page \<Rightarrow> string option" where
  "readStoredJobId s = (if storage_ok s then stored_job s else None)"

definition writeStoredJobId :: "string option \<Rightarrow> job_page \<Rightarrow> job_page" where
  "writeStoredJobId jobId s =
     (if storage_ok s then s\<lparr>stored_job := (if truthy jobId then jobId else None)\<rparr> else s)"

text \<open>Another job id is another query: it reports what the cache holds for it, and nothing when that is nothing.\<close>

definition cached_job :: "job_page \<Rightarrow> string option \<Rightarrow> string option \<times> bool" where
  "cached_job s jobId =
     (case jobId of
        None \<Rightarrow> (None, False)
      | Some i \<Rightarrow> (case map_get (jp_cache s) i of None \<Rightarrow> (None, False) | Some q \<Rightarrow> q))"

definition set_active :: "string option \<Rightarrow> job_page \<Rightarrow> job_page" where
  "set_active jobId s =
     (if activeJobId s = jobId then s
      else s\<lparr>activeJobId := jobId, job_status := fst (cached_job s jobId), jobError := snd (cached_job s jobId)\<rparr>)"

definition attachJob :: "string option \<Rightarrow> job_page \<Rightarrow> job_page" where
  "attachJob jobId s = writeStoredJobId jobId (if jp_mounted s then set_active jobId s else s)"

text \<open>The two effects on the job: a job that has ended is not remembered, one that cannot be loaded is given up.\<close>

definition job_effects :: "job_page \<Rightarrow> job_page" where
  "job_effects s =
     (let s1 = (if truthy (activeJobId s) \<and> isTerminal (job_status s) then writeStoredJobId None s else s)
      in if truthy (activeJobId s1) \<and> jobError s1 then attachJob None s1 else s1)"

definition mount_page :: "job_page \<Rightarrow> job_page" where
  "mount_page s = (set_active (readStoredJobId s) s)\<lparr>jp_mounted := True, activeJobLoaded := True\<rparr>"

definition unmount_page :: "job_page \<Rightarrow> job_page" where
  "unmount_page s = s\<lparr>jp_mounted := False, activeJobId := None, activeJobLoaded := False, job_status := None, jobError := False\<rparr>"

definition job_created :: "string \<Rightarrow> job_page \<Rightarrow> job_page" where
  "job_created i s = (let s' = attachJob (Some i) s in if jp_mounted s then job_effects s' else s')"

text \<open>What the query reports also goes to the cache.\<close>

definition report_job :: "string \<Rightarrow> string option \<Rightarrow> bool \<Rightarrow> job_page \<Rightarrow> job_page" where
  "report_job i status err s =
     s\<lparr>job_status := status, jobError := err, jp_cache := map_set (jp_cache s) i (status, err)\<rparr>"

definition job_answered :: "string \<Rightarrow> job_page \<Rightarrow> job_page" where
  "job_answered status s =
     (case activeJobId s of
        None \<Rightarrow> s
      | Some i \<Rightarrow>
          job_effects ((report_job i (Some status) False s)\<lparr>
            jp_ended := (if isTerminal (Some status) \<and> i \<notin> set (jp_ended s) then jp_ended s @ [i] else jp_ended s)\<rparr>))"

definition job_failed :: "job_page \<Rightarrow> job_page" where
  "job_failed s =
     (case activeJobId s of None \<Rightarrow> s | Some i \<Rightarrow> job_effects (report_job i (job_status s) True s))"

text \<open>The cache drops the entry of a job that is not watched after some time.\<close>

definition forget_job :: "string \<Rightarrow> job_page \<Rightarrow> job_page" where
  "forget_job i s = s\<lparr>jp_cache := map_delete (jp_cache s) i\<rparr>"

definition handleDeleteJob :: "string \<Rightarrow> job_page \<Rightarrow> job_page" where
  "handleDeleteJob jobId s = (if activeJobId s = Some jobId then job_effects (attachJob None s) else s)"

definition first_page :: "bool \<Rightarrow> job_page" where
  "first_page ok = \<lparr>jp_mounted = False, activeJobId = None, activeJobLoaded = False, job_status = None, jobError = False,
     storage_ok = ok, stored_job = None, jp_cache = [], jp_ended = []\<rparr>"

text \<open>Jobs have ids that are not empty, and a job that has ended does not run again.\<close>

inductive job_step :: "job_page \<Rightarrow> unit \<Rightarrow> job_page \<Rightarrow> bool" where
  mounts: "\<not> jp_mounted s \<Longrightarrow> job_step s () (job_effects (mount_page s))"
| leaves: "jp_mounted s \<Longrightarrow> job_step s () (unmount_page s)"
| creates: "i \<noteq> [] \<Longrightarrow> i \<notin> set (jp_ended s) \<Longrightarrow> job_step s () (job_created i s)"
| opens: "jp_mounted s \<Longrightarrow> i \<noteq> [] \<Longrightarrow> job_step s () (job_effects (attachJob (Some i) s))"
| answers: "jp_mounted s \<Longrightarrow> activeJobId s = Some i \<Longrightarrow> isTerminal (Some status) \<or> i \<notin> set (jp_ended s) \<Longrightarrow>
    job_step s () (job_answered status s)"
| fails: "jp_mounted s \<Longrightarrow> activeJobId s \<noteq> None \<Longrightarrow> job_step s () (job_failed s)"
| forgets: "activeJobId s \<noteq> Some i \<Longrightarrow> job_step s () (forget_job i s)"
| deletes: "jp_mounted s \<Longrightarrow> job_step s () (handleDeleteJob i s)"

section \<open>The shape of the targets\<close>

definition is_link :: "string \<Rightarrow> bool" where
  "is_link t \<longleftrightarrow> steps scheme_re (t, []) \<noteq> [] \<and> list_all (\<lambda>c. \<not> is_ws c) t"

definition is_mention :: "string \<Rightarrow> bool" where
  "is_mention t \<longleftrightarrow> (\<exists>u. t = CHR ''@'' # u \<and> VALID_USERNAME u)"

lemma url_char_no_ws: "url_char c \<Longrightarrow> \<not> is_ws c" "is_word c \<Longrightarrow> \<not> is_ws c"
  by (auto simp: url_char_def is_word_def is_alpha_def is_digit_def is_ws_def)

lemma lower_no_ws: "lower_char c = d \<Longrightarrow> \<not> is_ws d \<Longrightarrow> \<not> is_ws c"
  by (auto simp: lower_char_def is_ws_def)

lemma iword_over: "w \<noteq> [] \<Longrightarrow> list_all (\<lambda>c. \<not> is_ws (lower_char c)) w \<Longrightarrow> over (\<lambda>c. \<not> is_ws c) (iword w)"
proof -
  have "over P (seqs (map f w))" if "w \<noteq> []" "list_all (\<lambda>c. over P (f c)) w" for P and f :: "char \<Rightarrow> regex" and w
    using that
  proof (induction w rule: induct_list012)
    case (3 x y zs)
    then show ?case by simp
  qed simp_all
  then show "w \<noteq> [] \<Longrightarrow> list_all (\<lambda>c. \<not> is_ws (lower_char c)) w \<Longrightarrow> over (\<lambda>c. \<not> is_ws c) (iword w)"
    unfolding iword_def using lower_no_ws by (simp add: list_all_iff)
qed

lemma url_over: "over (\<lambda>c. \<not> is_ws c) url_re"
proof -
  have "\<not> is_ws c" if "lower_char c = CHR ''s''" for c using that lower_no_ws by (auto simp: is_ws_def)
  moreover have "over (\<lambda>c. \<not> is_ws c) (iword ''http'')" "over (\<lambda>c. \<not> is_ws c) (iword ''t.me/'')"
    "over (\<lambda>c. \<not> is_ws c) (iword ''joinchat/'')"
    by (intro iword_over; simp add: lower_char_def is_ws_def)+
  moreover have "list_all (\<lambda>c. \<not> is_ws c) ''://''" "\<not> is_ws CHR ''+''" by (simp_all add: is_ws_def)
  ultimately show ?thesis
    by (simp add: url_re_def scheme_re_def Opt_def url_char_no_ws)
qed

lemma https_scheme: "steps scheme_re (''https://'' @ t, []) \<noteq> []"
  by (simp add: scheme_re_def iword_def) (simp add: lower_char_def)

lemma with_scheme_link: "m \<in> set (match_all url_re s) \<Longrightarrow> is_link (with_scheme m)"
  using match_all_over [OF url_over] https_scheme by (auto simp: is_link_def with_scheme_def is_ws_def)

lemma at_steps:
  assumes "(t, cs) \<in> set (steps at_re (u, []))"
  shows "is_mention (consumed u t)"
proof -
  obtain c w where u: "u = CHR ''@'' # c # w" "is_alpha c"
    using assms by (auto simp: at_re_def split: list.splits if_splits)
  obtain n where n: "t = drop n w" "4 \<le> n" "n \<le> 31" "n \<le> run_length is_word w"
    using assms u by (auto simp: at_re_def)
  have "n \<le> length w" using n(4) length_takeWhile_le [of is_word w] by (simp add: run_length_def)
  then have "consumed u t = CHR ''@'' # c # take n w" "length (take n w) = n" using u n(1) by (auto simp: consumed_def)
  then show ?thesis using u(2) n run_take [OF n(4)] by (auto simp: is_mention_def)
qed

lemma at_nonempty: "m \<in> set (match_all at_re s) \<Longrightarrow> is_mention m"
proof -
  have "m \<noteq> []" if "m \<in> set (match_all at_re s)" for m s
    using that
  proof (induction "at_re" s rule: match_all.induct)
    case (1 s)
    show ?case
    proof (cases "steps at_re (s, [])")
      case Nil
      then show ?thesis using 1 by (cases s) (simp_all add: match_all_miss)
    next
      case (Cons x xs)
      obtain t cs where x: "x = (t, cs)" by (cases x)
      have m: "is_mention (consumed s t)" using at_steps [of t cs s] Cons x by simp
      then have "length s - length t \<noteq> 0" by (auto simp: is_mention_def consumed_def)
      then have "length t < length s" by simp
      then have "match_all at_re s = consumed s t # match_all at_re t" "m \<in> set (match_all at_re t) \<Longrightarrow> m \<noteq> []"
        using match_all_hit Cons x "1.hyps"(2) [OF Cons x [symmetric]] by auto
      then show ?thesis using "1.prems" m by (auto simp: is_mention_def)
    qed
  qed
  then show "m \<in> set (match_all at_re s) \<Longrightarrow> is_mention m"
    using match_all_mem [of m at_re s] at_steps by blast
qed

lemma line_targets_shape: "t \<in> set (line_targets l) \<Longrightarrow> is_link t \<or> is_mention t"
  using with_scheme_link at_nonempty by (auto simp: line_targets_def Let_def is_mention_def split: if_splits)

lemma shape_trim: "is_link t \<or> is_mention t \<Longrightarrow> trim t = t \<and> t \<noteq> []"
proof -
  assume a: "is_link t \<or> is_mention t"
  have "list_all (\<lambda>c. \<not> is_ws c) (CHR ''@'' # u)" if "VALID_USERNAME u" for u
    using that url_char_no_ws by (cases u) (auto simp: list_all_iff is_ws_def is_word_def)
  then have "list_all (\<lambda>c. \<not> is_ws c) t" using a by (auto simp: is_link_def is_mention_def)
  moreover have "t \<noteq> []" using a by (auto simp: is_link_def is_mention_def scheme_re_def iword_def)
  ultimately show ?thesis by (simp add: trim_no_ws)
qed

text \<open>What a line adds keeps the items distinct without regard to case.\<close>

definition targets_ok :: "string list \<times> string list \<Rightarrow> bool" where
  "targets_ok st \<longleftrightarrow> snd st = map toLowerCase (fst st) \<and> distinct (snd st) \<and> list_all (\<lambda>t. is_link t \<or> is_mention t) (fst st)"

lemma targets_ok_add: "targets_ok st \<Longrightarrow> is_link t \<or> is_mention t \<Longrightarrow> targets_ok (add_target t st)"
  using shape_trim [of t] by (auto simp: targets_ok_def add_target_def Let_def)

lemma targets_ok_line: "targets_ok st \<Longrightarrow> targets_ok (add_line st l)"
proof -
  have "targets_ok (fold add_target ts st)" if "\<forall>t\<in>set ts. is_link t \<or> is_mention t" "targets_ok st" for ts st
    using that by (induction ts arbitrary: st) (simp_all add: targets_ok_add)
  then show "targets_ok st \<Longrightarrow> targets_ok (add_line st l)"
    using line_targets_shape by (auto simp: add_line_def Let_def)
qed

lemma targets_ok_lines: "targets_ok st \<Longrightarrow> targets_ok (foldl add_line st ls)"
  by (induction ls arbitrary: st) (simp_all add: targets_ok_line)

section \<open>A list of usernames\<close>

lemma lower_slash: "lower_char c = CHR ''/'' \<Longrightarrow> c = CHR ''/''"
proof -
  assume a: "lower_char c = CHR ''/''"
  have "lower_char c = c \<or> 97 \<le> (of_char (lower_char c) :: nat)" by (auto simp: lower_char_def Let_def)
  then show ?thesis using a by auto
qed

lemma url_needs: "needs (\<lambda>c. c = CHR ''/'') url_re"
proof -
  have "needs (\<lambda>c. c = CHR ''/'') (iword ''t.me/'')"
    unfolding iword_def list.map seqs.simps
    by (rule needs_Seq2, rule needs_Seq2, rule needs_Seq2, rule needs_Seq2, rule needs_Cls) (simp add: lower_char_def [of "CHR ''/''"] lower_slash)
  then show ?thesis unfolding url_re_def seqs.simps by (simp add: needs_Seq1 needs_Seq2)
qed

lemma at_needs: "needs (\<lambda>c. c = CHR ''@'') at_re"
  unfolding at_re_def seqs.simps by (rule needs_Seq1) (rule needs_Cls)

lemma word_chars: "is_word c \<Longrightarrow> c \<noteq> CHR ''/'' \<and> c \<noteq> CHR ''@'' \<and> c \<noteq> CHR 10"
  by (auto simp: is_word_def is_alpha_def is_digit_def)

lemma username_chars: "VALID_USERNAME u \<Longrightarrow> list_all is_word u"
  by (cases u) (auto simp: is_word_def)

lemma at_match:
  assumes "VALID_USERNAME u"
  shows "match_all at_re (CHR ''@'' # u) = [CHR ''@'' # u]"
proof -
  obtain c w where u: "u = c # w" "is_alpha c" "list_all is_word w" "4 \<le> length w" "length w \<le> 31" using assms by (cases u) auto
  have "run_length is_word w = length w" using run_length_append [OF u(3), of "[]"] by simp
  then have "steps (Between is_word 4 31) (w, []) = ([], []) # map (\<lambda>n. (drop n w, [])) (rev [4..<length w])"
    using u(4,5) by (simp add: min_absorb2)
  then have "\<exists>xs. steps at_re (CHR ''@'' # u, []) = ([], []) # xs"
    unfolding at_re_def seqs.simps u(1) using u(2) by simp
  then have "match_all at_re (CHR ''@'' # u) = consumed (CHR ''@'' # u) [] # match_all at_re []"
    using match_all_hit [of at_re "CHR ''@'' # u" "[]"] by auto
  moreover have "match_all at_re [] = []" using needs_match_all [OF at_needs, of "[]"] by simp
  ultimately show ?thesis by (simp add: consumed_def)
qed

lemma mention_line: "VALID_USERNAME u \<Longrightarrow> line_targets (CHR ''@'' # u) = [CHR ''@'' # u]"
proof -
  assume u: "VALID_USERNAME u"
  then have "list_all (\<lambda>c. c \<noteq> CHR ''/'') (CHR ''@'' # u)"
    using username_chars word_chars by (fastforce simp: list_all_iff)
  then have "match_all url_re (CHR ''@'' # u) = []" using needs_match_all [OF url_needs] by blast
  then show ?thesis by (simp add: line_targets_def at_match [OF u])
qed

lemma bare_line: "VALID_USERNAME u \<Longrightarrow> line_targets u = [CHR ''@'' # u]"
proof -
  assume u: "VALID_USERNAME u"
  then have chars: "list_all (\<lambda>c. c \<noteq> CHR ''/'') u" "list_all (\<lambda>c. c \<noteq> CHR ''@'') u"
    using username_chars word_chars by (fastforce simp: list_all_iff)+
  then have "match_all url_re u = []" "match_all at_re u = []"
    using needs_match_all [OF url_needs] needs_match_all [OF at_needs] by blast+
  then show ?thesis using u by (simp add: line_targets_def)
qed

text \<open>Usernames one per line, each with or without the sign in front.\<close>

fun written :: "(bool \<times> string) list \<Rightarrow> string" where
  "written [] = []"
| "written [(b, u)] = (if b then CHR ''@'' # u else u)"
| "written ((b, u) # x # xs) = (if b then CHR ''@'' # u else u) @ CHR 10 # written (x # xs)"

lemma written_lines:
  "\<forall>(b, u) \<in> set us. VALID_USERNAME u \<Longrightarrow> us \<noteq> [] \<Longrightarrow>
   split_on (CHR 10) (written us) = map (\<lambda>(b, u). if b then CHR ''@'' # u else u) us"
proof (induction us rule: written.induct)
  case (2 b u)
  then have "CHR 10 \<notin> set u" using username_chars word_chars by (fastforce simp: list_all_iff)
  then show ?case by (simp add: split_on_no_sep)
next
  case (3 b u x xs)
  have "VALID_USERNAME u" using "3.prems"(1) by simp
  then have "CHR 10 \<notin> set u" using username_chars word_chars by (fastforce simp: list_all_iff)
  then have "CHR 10 \<notin> set (if b then CHR ''@'' # u else u)" by simp
  then have "split_on (CHR 10) (written ((b, u) # x # xs)) = (if b then CHR ''@'' # u else u) # split_on (CHR 10) (written (x # xs))"
    unfolding written.simps by (rule split_on_append_sep)
  moreover have "\<forall>(b, u) \<in> set (x # xs). VALID_USERNAME u" using "3.prems"(1) by simp
  ultimately show ?case using "3.IH" by (simp only: list.map prod.case) simp
qed simp

lemma add_username_line:
  assumes "VALID_USERNAME u" "toLowerCase (CHR ''@'' # u) \<notin> set (snd st)"
  shows "add_line st (if b then CHR ''@'' # u else u) = (fst st @ [CHR ''@'' # u], snd st @ [toLowerCase (CHR ''@'' # u)])"
proof -
  have m: "is_mention (CHR ''@'' # u)" using assms(1) by (simp add: is_mention_def)
  have t: "trim (CHR ''@'' # u) = CHR ''@'' # u" using shape_trim m by blast
  have "list_all (\<lambda>c. \<not> is_ws c) u" using username_chars [OF assms(1)] url_char_no_ws by (auto simp: list_all_iff)
  then have "trim u = u" "u \<noteq> []" using trim_no_ws assms(1) by auto
  then show ?thesis
    using assms(2) t bare_line [OF assms(1)] mention_line [OF assms(1)]
    by (cases b) (simp_all add: add_line_def add_target_def Let_def)
qed

lemma add_username_lines:
  "\<forall>(b, u) \<in> set us. VALID_USERNAME u \<Longrightarrow>
   distinct (snd st @ map (\<lambda>(b, u). toLowerCase (CHR ''@'' # u)) us) \<Longrightarrow>
   fst (foldl add_line st (map (\<lambda>(b, u). if b then CHR ''@'' # u else u) us)) = fst st @ map (\<lambda>(b, u). CHR ''@'' # u) us"
proof (induction us arbitrary: st)
  case (Cons x us)
  obtain b u where x: "x = (b, u)" by (cases x)
  define st' where "st' = (fst st @ [CHR ''@'' # u], snd st @ [toLowerCase (CHR ''@'' # u)])"
  have "add_line st (if b then CHR ''@'' # u else u) = st'"
    unfolding st'_def using Cons.prems x by (intro add_username_line) auto
  then have "foldl add_line st (map (\<lambda>(b, u). if b then CHR ''@'' # u else u) (x # us))
      = foldl add_line st' (map (\<lambda>(b, u). if b then CHR ''@'' # u else u) us)"
    by (simp only: x list.map prod.case foldl_Cons)
  moreover have "distinct (snd st' @ map (\<lambda>(b, u). toLowerCase (CHR ''@'' # u)) us)" using Cons.prems(2) x by (simp add: st'_def)
  ultimately show ?case using Cons.IH [of st'] Cons.prems(1) x by (simp add: st'_def)
qed simp

section \<open>Merging the logs\<close>

text \<open>The first occurrence of every element.\<close>

definition firsts :: "'a list \<Rightarrow> 'a list" where
  "firsts xs = rev (remdups (rev xs))"

lemma firsts_snoc: "firsts (xs @ [x]) = (if x \<in> set xs then firsts xs else firsts xs @ [x])"
  by (simp add: firsts_def)

lemma set_firsts [simp]: "set (firsts xs) = set xs"
  by (simp add: firsts_def)

lemma push_rows: "fold push_row xs ([], []) = (map (\<lambda>k. the (map_of xs k)) (firsts (map fst xs)), firsts (map fst xs))"
proof (induction xs rule: rev_induct)
  case Nil
  then show ?case by (simp add: firsts_def)
next
  case (snoc x xs)
  have old: "map (\<lambda>k. the (map_of (xs @ [x]) k)) (firsts (map fst xs)) = map (\<lambda>k. the (map_of xs k)) (firsts (map fst xs))"
  proof (rule map_cong [OF refl])
    fix k assume "k \<in> set (firsts (map fst xs))"
    then have "map_of xs k \<noteq> None" by (auto simp: map_of_eq_None_iff)
    then show "the (map_of (xs @ [x]) k) = the (map_of xs k)" by (auto simp: map_add_def split: option.splits)
  qed
  have new: "the (map_of (xs @ [x]) (fst x)) = snd x" if "fst x \<notin> fst ` set xs"
    using that by (cases x) (simp add: map_add_def map_of_eq_None_iff [THEN iffD2])
  show ?case using snoc old new by (cases "fst x \<in> fst ` set xs") (simp_all add: push_row_def firsts_snoc)
qed

text \<open>The row of an attempt: the stored one, or else the first live one.\<close>

definition attempt_row :: "(string option \<Rightarrow> string) \<Rightarrow> string \<Rightarrow> auto_join_log list \<Rightarrow> auto_join_log list \<Rightarrow> string \<Rightarrow> log_row" where
  "attempt_row clock dash stored live i =
     (case find (\<lambda>l. log_identity l = i) stored of
        Some l \<Rightarrow> persisted_row clock dash l
      | None \<Rightarrow> live_row clock dash (the (find (\<lambda>l. log_identity l = i) live)))"

lemma map_of_find: "map_of (map (\<lambda>l. (f l, g l)) ls) i = map_option g (find (\<lambda>l. f l = i) ls)"
  by (induction ls) auto

section \<open>The invariant of the watched job\<close>

text \<open>\<open>job_pre\<close> holds before the effects have run too: then the query of the watched job may report an error.\<close>

definition job_pre :: "job_page \<Rightarrow> bool" where
  "job_pre s \<longleftrightarrow>
     (job_status s, jobError s) = cached_job s (activeJobId s)
     \<and> (\<forall>i. isTerminal (fst (cached_job s (Some i))) \<longrightarrow> i \<in> set (jp_ended s))
     \<and> (\<not> jp_mounted s \<longrightarrow> activeJobId s = None)
     \<and> (storage_ok s \<longrightarrow> stored_job s \<noteq> Some [])
     \<and> (\<forall>i. activeJobId s = Some i \<longrightarrow> i \<noteq> [] \<and> (storage_ok s \<longrightarrow> stored_job s = Some i \<or> i \<in> set (jp_ended s)))"

definition job_inv :: "job_page \<Rightarrow> bool" where
  "job_inv s \<longleftrightarrow> job_pre s \<and> (activeJobId s \<noteq> None \<longrightarrow> \<not> jobError s)"

lemma not_terminal_None [simp]: "\<not> isTerminal None"
  by (simp add: isTerminal_def)

lemma job_preD:
  assumes "job_pre s"
  shows "job_status s = fst (cached_job s (activeJobId s))" "jobError s = snd (cached_job s (activeJobId s))"
    "isTerminal (fst (cached_job s (Some i))) \<Longrightarrow> i \<in> set (jp_ended s)"
    "\<not> jp_mounted s \<Longrightarrow> activeJobId s = None" "storage_ok s \<Longrightarrow> stored_job s \<noteq> Some []"
    "activeJobId s = Some i \<Longrightarrow> i \<noteq> []" "activeJobId s = Some i \<Longrightarrow> storage_ok s \<Longrightarrow> stored_job s = Some i \<or> i \<in> set (jp_ended s)"
  using assms unfolding job_pre_def by (metis fst_conv snd_conv)+

lemma cached_job_cong: "jp_cache t = jp_cache s \<Longrightarrow> cached_job t = cached_job s"
  by (rule ext) (simp add: cached_job_def split: option.splits)

lemma cached_job_None [simp]: "cached_job s None = (None, False)"
  by (simp add: cached_job_def)

lemma write_keeps [simp]:
  "activeJobId (writeStoredJobId j s) = activeJobId s" "job_status (writeStoredJobId j s) = job_status s"
  "jobError (writeStoredJobId j s) = jobError s" "jp_mounted (writeStoredJobId j s) = jp_mounted s"
  "storage_ok (writeStoredJobId j s) = storage_ok s" "jp_ended (writeStoredJobId j s) = jp_ended s"
  "cached_job (writeStoredJobId j s) = cached_job s"
  "stored_job (writeStoredJobId j s) = (if storage_ok s then (if truthy j then j else None) else stored_job s)"
  by (simp_all add: writeStoredJobId_def) (auto intro: cached_job_cong)

lemma set_active_keeps [simp]:
  "activeJobId (set_active j s) = j" "jp_mounted (set_active j s) = jp_mounted s" "storage_ok (set_active j s) = storage_ok s"
  "jp_ended (set_active j s) = jp_ended s" "stored_job (set_active j s) = stored_job s" "cached_job (set_active j s) = cached_job s"
  by (simp_all add: set_active_def) (auto intro: cached_job_cong)

lemma set_active_reports: "job_pre s \<Longrightarrow> (job_status (set_active j s), jobError (set_active j s)) = cached_job s j"
  by (auto simp: set_active_def job_pre_def)

lemma job_pre_attach: "job_pre s \<Longrightarrow> j \<noteq> Some [] \<Longrightarrow> job_pre (attachJob j s)"
  using set_active_reports [of s j] unfolding attachJob_def job_pre_def [of "writeStoredJobId _ _"]
  by (auto simp: job_preD split: if_splits dest: job_preD)

lemma job_pre_write: "job_pre s \<Longrightarrow> isTerminal (job_status s) \<Longrightarrow> job_pre (writeStoredJobId None s)"
  using job_preD(3) [of s] unfolding job_pre_def [of "writeStoredJobId _ _"]
  by (auto simp: job_preD)

text \<open>The effects lead back into the invariant: a job whose query fails is no longer watched.\<close>

lemma job_inv_effects:
  assumes "job_pre s"
  shows "job_inv (job_effects s)"
proof -
  define s1 where "s1 = (if truthy (activeJobId s) \<and> isTerminal (job_status s) then writeStoredJobId None s else s)"
  have pre: "job_pre s1" using assms job_pre_write by (simp add: s1_def)
  show ?thesis
  proof (cases "truthy (activeJobId s1) \<and> jobError s1")
    case True
    then have "jp_mounted s1" using job_preD(4) [OF pre] by (cases "jp_mounted s1") simp_all
    then have "activeJobId (attachJob None s1) = None" by (simp add: attachJob_def)
    then show ?thesis
      using True job_pre_attach [OF pre, of None] by (simp add: job_effects_def s1_def [symmetric] Let_def job_inv_def)
  next
    case False
    have "truthy (activeJobId s1)" if "activeJobId s1 \<noteq> None" using that job_preD(6) [OF pre] by auto
    then show ?thesis using False pre by (auto simp: job_effects_def s1_def [symmetric] Let_def job_inv_def)
  qed
qed

lemma job_pre_mount: "job_pre s \<Longrightarrow> job_pre (mount_page s)"
proof -
  assume pre: "job_pre s"
  let ?j = "readStoredJobId s"
  have "cached_job (mount_page s) = cached_job s"
    unfolding mount_page_def by (rule trans [OF cached_job_cong set_active_keeps(6)]) simp
  moreover have "?j \<noteq> Some []" "storage_ok s \<Longrightarrow> stored_job s = ?j" using job_preD(5) [OF pre] by (auto simp: readStoredJobId_def)
  moreover have "activeJobId (mount_page s) = ?j" "(job_status (mount_page s), jobError (mount_page s)) = cached_job s ?j"
    using set_active_reports [OF pre, of ?j] by (simp_all add: mount_page_def)
  ultimately show ?thesis
    using job_preD(3,5) [OF pre] by (auto simp: job_pre_def mount_page_def)
qed

lemma cached_report: "cached_job (report_job i st e s) j = (if j = Some i then (st, e) else cached_job s j)"
  by (auto simp: cached_job_def report_job_def split: option.splits)

lemma job_pre_report:
  assumes pre: "job_pre s" and i: "activeJobId s = Some i" and "isTerminal st \<Longrightarrow> i \<in> set (jp_ended s)"
  shows "job_pre (report_job i st e s)"
  using assms(3) i job_preD [OF pre] unfolding job_pre_def [of "report_job _ _ _ _"] cached_report
  by (auto simp: report_job_def)

lemma job_pre_ended: "job_pre s \<Longrightarrow> job_pre (s\<lparr>jp_ended := jp_ended s @ is\<rparr>)"
proof -
  have "cached_job (s\<lparr>jp_ended := jp_ended s @ is\<rparr>) = cached_job s" by (rule cached_job_cong) simp
  then show "job_pre s \<Longrightarrow> job_pre (s\<lparr>jp_ended := jp_ended s @ is\<rparr>)" by (auto simp: job_pre_def)
qed

lemma job_inv_answered:
  assumes inv: "job_inv s" and i: "activeJobId s = Some i"
  shows "job_inv (job_answered status s)"
proof -
  let ?e = "if isTerminal (Some status) \<and> i \<notin> set (jp_ended s) then jp_ended s @ [i] else jp_ended s"
  have "job_pre (s\<lparr>jp_ended := ?e\<rparr>)" using inv job_pre_ended [of s "[i]"] by (auto simp: job_inv_def)
  then have "job_pre (report_job i (Some status) False (s\<lparr>jp_ended := ?e\<rparr>))"
    using i by (intro job_pre_report) auto
  moreover have "report_job i (Some status) False (s\<lparr>jp_ended := ?e\<rparr>) = (report_job i (Some status) False s)\<lparr>jp_ended := ?e\<rparr>"
    by (simp add: report_job_def)
  ultimately show ?thesis using job_inv_effects i by (simp add: job_answered_def)
qed

lemma job_inv_failed:
  assumes inv: "job_inv s"
  shows "job_inv (job_failed s)"
proof (cases "activeJobId s")
  case (Some i)
  have pre: "job_pre s" using inv by (simp add: job_inv_def)
  have "isTerminal (job_status s) \<Longrightarrow> i \<in> set (jp_ended s)" using job_preD(1,3) [OF pre] Some by simp
  then show ?thesis using job_inv_effects [OF job_pre_report [OF pre Some]] Some by (simp add: job_failed_def)
qed (use inv in \<open>simp add: job_failed_def\<close>)

lemma job_step_inv: "job_step s u t \<Longrightarrow> job_inv s \<Longrightarrow> job_inv t"
proof (induction rule: job_step.induct)
  case (leaves s)
  have "cached_job (unmount_page s) = cached_job s" by (rule cached_job_cong) (simp add: unmount_page_def)
  then show ?case using leaves by (auto simp: job_inv_def job_pre_def unmount_page_def)
next
  case (creates i s)
  then have "job_pre (attachJob (Some i) s)" by (simp add: job_pre_attach job_inv_def)
  moreover have "activeJobId (attachJob (Some i) s) = None" if "\<not> jp_mounted s"
    using that creates(3) job_preD(4) [of s] by (simp add: attachJob_def job_inv_def)
  ultimately show ?case using job_inv_effects by (auto simp: job_created_def Let_def job_inv_def)
next
  case (answers s i status)
  then show ?case using job_inv_answered by blast
next
  case (forgets s i)
  then have pre: "job_pre s" and err: "activeJobId s \<noteq> None \<Longrightarrow> \<not> jobError s" by (simp_all add: job_inv_def)
  have c: "cached_job (forget_job i s) j = (if j = Some i then (None, False) else cached_job s j)" for j
    by (auto simp: cached_job_def forget_job_def split: option.splits)
  show ?case
    using err forgets(1) job_preD [OF pre] unfolding job_inv_def job_pre_def c by (auto simp: forget_job_def)
next
  case (deletes s i)
  then have "job_inv (job_effects (attachJob None s))" by (intro job_inv_effects job_pre_attach) (simp_all add: job_inv_def)
  then show ?case using deletes(2) by (simp add: handleDeleteJob_def)
next
  case (mounts s)
  then have "job_pre s" by (simp add: job_inv_def)
  then show ?case by (intro job_inv_effects job_pre_mount)
next
  case (opens s i)
  then have "job_pre s" "Some i \<noteq> Some []" by (simp_all add: job_inv_def)
  then show ?case by (intro job_inv_effects job_pre_attach)
qed (rule job_inv_failed)

interpretation ajm: machine "\<lambda>s. s = first_page ok" job_step job_inv for ok
proof
  show "job_inv s" if "s = first_page ok" for s using that by (simp add: job_inv_def job_pre_def first_page_def cached_job_def map_get_def)
qed (rule job_step_inv)

section \<open>Properties\<close>

text \<open>C27: every target read from the text is a link with a scheme or the sign \<open>@\<close> and a valid username, without
  white space, and no two are equal up to case.\<close>

theorem targets_well_formed:
  "distinct (map toLowerCase (parseRawTargets txt)) \<and> list_all (\<lambda>t. is_link t \<or> is_mention t) (parseRawTargets txt)"
proof -
  have "targets_ok ([], [])" by (simp add: targets_ok_def)
  then have "targets_ok (foldl add_line ([], []) (split_on (CHR 10) txt))" by (rule targets_ok_lines)
  then show ?thesis unfolding targets_ok_def parseRawTargets_def by metis
qed

text \<open>Valid usernames written one per line, with or without the sign, are all read, in their order and as
  they are written, provided that no two are equal up to case.\<close>

theorem usernames_are_read:
  assumes "\<forall>(b, u) \<in> set us. VALID_USERNAME u" "us \<noteq> []" "distinct (map (\<lambda>(b, u). toLowerCase u) us)"
  shows "parseRawTargets (written us) = map (\<lambda>(b, u). CHR ''@'' # u) us"
proof -
  have eq: "map (\<lambda>(b, u). toLowerCase (CHR ''@'' # u)) us = map (Cons (lower_char CHR ''@'')) (map (\<lambda>(b, u). toLowerCase u) us)"
    by (simp add: toLowerCase_def case_prod_beta')
  have "distinct (map (\<lambda>(b, u). toLowerCase (CHR ''@'' # u)) us)"
    unfolding eq using assms(3) by (subst distinct_map) simp
  then show ?thesis
    using add_username_lines [OF assms(1), of "([], [])"] by (simp add: parseRawTargets_def written_lines [OF assms(1,2)])
qed

theorem usernames_are_read_witness:
  "parseRawTargets (written [(True, ''telegram''), (False, ''Durov_1'')]) = map (\<lambda>(b, u). CHR ''@'' # u) [(True, ''telegram''), (False, ''Durov_1'')]"
proof (rule usernames_are_read)
  show "distinct (map (\<lambda>(b, u). toLowerCase u) [(True, ''telegram''), (False, ''Durov_1'')])" by code_simp
qed (simp_all add: is_alpha_def is_word_def is_digit_def)

text \<open>The merged log shows every join attempt exactly once, at its first place, with the stored row if
  there is one and the first live row otherwise.\<close>

theorem logs_merged:
  "normalizedLogs clock dash stored live =
     (let ps = (case stored of None \<Rightarrow> [] | Some ls \<Rightarrow> ls)
      in map (attempt_row clock dash ps live) (firsts (map log_identity (ps @ live))))"
proof -
  define ps where "ps = (case stored of None \<Rightarrow> [] | Some ls \<Rightarrow> ls)"
  let ?xs = "map (\<lambda>l. (log_identity l, persisted_row clock dash l)) ps @ map (\<lambda>l. (log_identity l, live_row clock dash l)) live"
  have "normalizedLogs clock dash stored live = fst (fold push_row ?xs ([], []))"
    by (simp add: normalizedLogs_def ps_def)
  also have "\<dots> = map (\<lambda>k. the (map_of ?xs k)) (firsts (map log_identity (ps @ live)))"
    unfolding push_rows by (simp only: fst_conv map_append map_map comp_def)
  also have "\<dots> = map (attempt_row clock dash ps live) (firsts (map log_identity (ps @ live)))"
  proof (rule map_cong [OF refl])
    fix k assume "k \<in> set (firsts (map log_identity (ps @ live)))"
    then have k: "k \<in> log_identity ` set ps \<or> k \<in> log_identity ` set live" by auto
    show "the (map_of ?xs k) = attempt_row clock dash ps live k"
    proof (cases "find (\<lambda>l. log_identity l = k) ps")
      case None
      then have "k \<in> log_identity ` set live" using k by (auto simp: find_None_iff)
      then have "find (\<lambda>l. log_identity l = k) live \<noteq> None" by (auto simp: find_None_iff)
      then show ?thesis using None by (auto simp: attempt_row_def map_add_def map_of_find)
    qed (simp add: attempt_row_def map_add_def map_of_find)
  qed
  finally show ?thesis by (simp add: ps_def Let_def)
qed

text \<open>C25: a job that the page watches and that has not ended is watched again after the page was left and opened
  again, whatever was started, opened, answered and deleted before.\<close>

theorem running_job_survives_reload:
  assumes "reach (\<lambda>s. s = first_page True) job_step s" "storage_ok s" "activeJobId s = Some i" "i \<notin> set (jp_ended s)"
  shows "activeJobId (job_effects (mount_page (unmount_page s))) = Some i"
proof -
  have pre: "job_pre s" and ok: "\<not> jobError s" using ajm.reach_inv [OF assms(1)] assms(3) by (auto simp: job_inv_def)
  have stored: "stored_job s = Some i" "i \<noteq> []" using job_preD(6,7) [OF pre assms(3)] assms(2,4) by auto
  have cache: "cached_job (unmount_page s) = cached_job s" by (rule cached_job_cong) (simp add: unmount_page_def)
  have err: "\<not> snd (cached_job s (Some i))" "\<not> isTerminal (fst (cached_job s (Some i)))"
    using job_preD(2,3) [OF pre] ok assms(3,4) by auto
  have "mount_page (unmount_page s) = (set_active (Some i) (unmount_page s))\<lparr>jp_mounted := True, activeJobLoaded := True\<rparr>"
    using assms(2) stored(1) by (simp add: mount_page_def unmount_page_def readStoredJobId_def)
  moreover have "job_status (set_active (Some i) (unmount_page s)) = fst (cached_job s (Some i))"
    "jobError (set_active (Some i) (unmount_page s)) = snd (cached_job s (Some i))"
    using cache by (simp_all add: set_active_def unmount_page_def)
  ultimately show ?thesis using err stored by (simp add: job_effects_def)
qed

theorem running_job_survives_reload_witness:
  "activeJobId (job_effects (mount_page (unmount_page (job_created ''j'' (job_effects (mount_page (first_page True))))))) = Some ''j''"
proof (rule running_job_survives_reload)
  let ?s = "job_effects (mount_page (first_page True))"
  have "reach (\<lambda>s. s = first_page True) job_step (first_page True)" by (rule reach_start) simp
  moreover have "job_step (first_page True) () ?s" by (rule job_step.mounts) (simp add: first_page_def)
  ultimately have "reach (\<lambda>s. s = first_page True) job_step ?s" by (rule reach_step)
  moreover have "job_step ?s () (job_created ''j'' ?s)"
    by (rule job_step.creates) (simp_all add: first_page_def mount_page_def job_effects_def readStoredJobId_def)
  ultimately show "reach (\<lambda>s. s = first_page True) job_step (job_created ''j'' ?s)" by (rule reach_step)
  show "storage_ok (job_created ''j'' ?s)" by code_simp
  show "activeJobId (job_created ''j'' ?s) = Some ''j''" by code_simp
  show "''j'' \<notin> set (jp_ended (job_created ''j'' ?s))" by code_simp
qed

text \<open>One failed request for the job, for whatever reason, makes the page forget a job that runs.\<close>

theorem failed_poll_forgets_job:
  assumes "jp_mounted s" "activeJobId s = Some i" "i \<noteq> []" "storage_ok s"
  shows "activeJobId (job_failed s) = None \<and> stored_job (job_failed s) = None"
  using assms by (auto simp: job_failed_def report_job_def job_effects_def attachJob_def set_active_def writeStoredJobId_def Let_def)

text \<open>A link with its scheme in capitals is read as a link but sent as a username, and the domain of a mail
  address is read as a username.\<close>

theorem capital_scheme_is_username:
  "parseRawTargets ''HTTPS://t.me/abcde'' = [''HTTPS://t.me/abcde'']" "target_type ''HTTPS://t.me/abcde'' = ''username''"
  by code_simp+

theorem mail_domain_is_target: "parseRawTargets ''write to me@gmail.com'' = [''@gmail'']"
  by code_simp

end
