(* ===== verification/AutoLeave.thy ===== *)
theory AutoLeave
  imports SocketHooks AutoJoin QueryCache
begin

text \<open>
  The auto-leave page, \<open>src/frontend/src/app/(dashboard)/groups-channels/auto-leave/page.tsx\<close>, on top of the job socket
  hook.  Events are JSON values; the clock texts and the generated row keys are the arguments \<open>now\<close> and \<open>key\<close>.
  Reading and writing the stored job id is as on the auto-join page.
\<close>

record leave_row =
  lr_key :: string
  lr_time :: string
  lr_account :: json
  lr_target :: json
  lr_chatType :: json
  lr_status :: json
  lr_errorType :: json
  lr_detail :: json

record leave_page =
  lv_active :: "string option"
  lv_stored :: "string option"
  lv_storage_ok :: bool
  lv_view :: job_view
  lv_live :: "leave_row list"
  lv_flood :: "json option"
  lv_groups :: bool
  lv_channels :: bool
  lv_selected :: "string list"
  lv_scanned :: "(string, json) jsmap"
  lv_hasScanned :: bool
  lv_skipCreator :: bool
  lv_delay :: int
  lv_randomize :: bool

definition new_leave_page :: "bool \<Rightarrow> string option \<Rightarrow> leave_page" where
  "new_leave_page ok stored =
     \<lparr>lv_active = None, lv_stored = stored, lv_storage_ok = ok, lv_view = initial_view, lv_live = [], lv_flood = None,
      lv_groups = True, lv_channels = False, lv_selected = [], lv_scanned = [], lv_hasScanned = False, lv_skipCreator = True,
      lv_delay = 5, lv_randomize = False\<rparr>"

definition leave_read :: "leave_page \<Rightarrow> string option" where
  "leave_read s = (if lv_storage_ok s then lv_stored s else None)"

definition leave_write :: "string option \<Rightarrow> leave_page \<Rightarrow> leave_page" where
  "leave_write jobId s = (if lv_storage_ok s then s\<lparr>lv_stored := (if truthy jobId then jobId else None)\<rparr> else s)"

text \<open>A change of the job runs the cleanup of the socket hook, which empties its state.\<close>

definition leave_set_active :: "string option \<Rightarrow> leave_page \<Rightarrow> leave_page" where
  "leave_set_active jobId s =
     (if lv_active s = jobId then s
      else s\<lparr>lv_active := jobId, lv_view := (if truthy (lv_active s) then
        (lv_view s)\<lparr>v_logs := [], v_phaseMessage := JStr [], v_progress := JNull\<rparr> else lv_view s)\<rparr>)"

definition leave_mount :: "leave_page \<Rightarrow> leave_page" where
  "leave_mount s = (if truthy (leave_read s) then leave_set_active (leave_read s) s else s)"

definition leave_attachJob :: "string option \<Rightarrow> leave_page \<Rightarrow> leave_page" where
  "leave_attachJob i s = (leave_write i (leave_set_active i s))\<lparr>lv_live := [], lv_flood := None\<rparr>"

text \<open>\<open>a || b\<close> on values that may be missing, and \<open>x || null\<close>.\<close>

definition jor_json :: "json option \<Rightarrow> json \<Rightarrow> json" where
  "jor_json v d = (if opt_truthy v then the v else d)"

section \<open>The live feed\<close>

definition live_leave_row :: "string \<Rightarrow> string \<Rightarrow> bool \<Rightarrow> bool \<Rightarrow> json \<Rightarrow> leave_row" where
  "live_leave_row key now groups channels latest =
     (let isSkipped = (jget latest ''type'' = Some (JStr ''item_skipped''))
      in \<lparr>lr_key = key, lr_time = now, lr_account = jor_json (jget latest ''account_name'') (JStr ''Akun''),
          lr_target = jor_json (jget latest ''target'') (JStr ''-''),
          lr_chatType = jor_json (jget latest ''chat_type'')
            (if groups \<and> \<not> channels then JStr ''group'' else if channels \<and> \<not> groups then JStr ''channel'' else JNull),
          lr_status = (if isSkipped then JStr ''skipped'' else jor_json (jget latest ''target_status'') (JStr ''success'')),
          lr_errorType = jor_json (jget latest ''error_type'') JNull,
          lr_detail = jor_json (jget latest ''error_message'')
            (jor_json (jget latest ''reason'') (JStr (if isSkipped then ''Dilewati (Creator)'' else ''Berhasil keluar'')))\<rparr>)"

definition flood_text :: "json \<Rightarrow> json" where
  "flood_text latest =
     jor_json (jget latest ''message'')
       (JStr (''Flood wait Telegram. Menunggu '' @ js_String (jor_json (jget latest ''wait_seconds'') (JNum 30)) @ ''s...''))"

text \<open>The effect on the hook's logs and the two switches: it looks at the last log only.\<close>

definition sync_live :: "string \<Rightarrow> string \<Rightarrow> leave_page \<Rightarrow> leave_page" where
  "sync_live key now s =
     (let wsLogs = v_logs (lv_view s)
      in if wsLogs = [] then s
         else
           let latest = last wsLogs; ty = jget latest ''type''
           in if \<not> jtruthy latest then s
              else if ty = Some (JStr ''flood_wait'') then s\<lparr>lv_flood := Some (flood_text latest)\<rparr>
              else if ty = Some (JStr ''progress'') \<or> ty = Some (JStr ''item_skipped'')
              then s\<lparr>lv_flood := None,
                     lv_live := take LOG_RENDER_CAP (live_leave_row key now (lv_groups s) (lv_channels s) latest # lv_live s)\<rparr>
              else s)"

text \<open>An event of the socket reaches the hook; if it changes the logs the effect runs.\<close>

definition leave_event :: "string \<Rightarrow> string \<Rightarrow> json \<Rightarrow> leave_page \<Rightarrow> leave_page" where
  "leave_event key now data s =
     (case lv_active s of
        None \<Rightarrow> s
      | Some i \<Rightarrow>
          let v = fst (handleEvent Autoleave_job i data (lv_view s)); s' = s\<lparr>lv_view := v\<rparr>
          in if v_logs v = v_logs (lv_view s) then s' else sync_live key now s')"

definition toggle_groups :: "string \<Rightarrow> string \<Rightarrow> leave_page \<Rightarrow> leave_page" where
  "toggle_groups key now s = sync_live key now (s\<lparr>lv_groups := \<not> lv_groups s\<rparr>)"

definition toggle_channels :: "string \<Rightarrow> string \<Rightarrow> leave_page \<Rightarrow> leave_page" where
  "toggle_channels key now s = sync_live key now (s\<lparr>lv_channels := \<not> lv_channels s\<rparr>)"

definition stored_leave_row :: "(json option \<Rightarrow> string) \<Rightarrow> json \<Rightarrow> leave_row" where
  "stored_leave_row clock p =
     \<lparr>lr_key = opt_String (jget p ''id''), lr_time = clock (jget p ''left_at''),
      lr_account = jor_json (jget p ''account_name'') (JStr ''Akun''), lr_target = key_or_null (jget p ''target''),
      lr_chatType = key_or_null (jget p ''chat_type''), lr_status = key_or_null (jget p ''status''),
      lr_errorType = key_or_null (jget p ''error_type''),
      lr_detail = jor_json (jget p ''error_message'')
        (JStr (if jget p ''status'' = Some (JStr ''success'') then ''Berhasil keluar''
               else if jget p ''status'' = Some (JStr ''skipped'') then ''Dilewati'' else ''Gagal''))\<rparr>"

definition combinedLogs :: "(json option \<Rightarrow> string) \<Rightarrow> json list option \<Rightarrow> leave_page \<Rightarrow> leave_row list" where
  "combinedLogs clock persistedLogs s =
     (if lv_live s \<noteq> [] then lv_live s
      else case persistedLogs of None \<Rightarrow> [] | Some ps \<Rightarrow> map (stored_leave_row clock) ps)"

section \<open>Scanning, starting and deleting\<close>

definition scan_answered :: "json list \<Rightarrow> leave_page \<Rightarrow> leave_page" where
  "scan_answered accounts s =
     s\<lparr>lv_scanned := foldl (\<lambda>m acc. map_set m (opt_String (jget acc ''account_id'')) acc) [] accounts, lv_hasScanned := True\<rparr>"

text \<open>The counts are numbers.\<close>

fun count_of :: "json option \<Rightarrow> int" where
  "count_of (Some (JNum n)) = n" | "count_of _ = 0"

definition totalScanned :: "string \<Rightarrow> leave_page \<Rightarrow> int" where
  "totalScanned field s =
     sum_list (map (\<lambda>i. case map_get (lv_scanned s) i of None \<Rightarrow> 0 | Some acc \<Rightarrow> count_of (jget acc field)) (lv_selected s))"

definition currentJobStatus :: "json option \<Rightarrow> leave_page \<Rightarrow> json" where
  "currentJobStatus activeJob s =
     jor_json (if v_progress (lv_view s) = JNull then None else jget (v_progress (lv_view s)) ''status'')
       (jor_json (case activeJob of None \<Rightarrow> None | Some j \<Rightarrow> jget j ''status'') (JStr ''pending''))"

definition leaveType :: "leave_page \<Rightarrow> string" where
  "leaveType s = (if lv_groups s \<and> lv_channels s then ''both'' else if lv_groups s then ''groups'' else ''channels'')"

datatype start_outcome = NoAccount | NoTarget | StartJob json

definition handleStartAutoLeave :: "leave_page \<Rightarrow> start_outcome" where
  "handleStartAutoLeave s =
     (if lv_selected s = [] then NoAccount
      else if \<not> lv_groups s \<and> \<not> lv_channels s then NoTarget
      else StartJob (JObj [(''account_ids'', str_list (lv_selected s)), (''leave_type'', JStr (leaveType s)),
        (''skip_creator'', JBool (lv_skipCreator s)), (''delay_per_chat'', JNum (lv_delay s)),
        (''delay_randomized'', JBool (lv_randomize s))]))"

definition leave_handleDeleteJob :: "string \<Rightarrow> leave_page \<Rightarrow> leave_page" where
  "leave_handleDeleteJob jobId s = (if lv_active s = Some jobId then leave_attachJob None s else s)"

section \<open>The page over time\<close>

inductive leave_step :: "leave_page \<Rightarrow> unit \<Rightarrow> leave_page \<Rightarrow> bool" where
  restores: "leave_step s () (leave_mount s)"
| attaches: "leave_step s () (leave_attachJob i s)"
| receives: "leave_step s () (leave_event key now data s)"
| switches: "t \<in> {toggle_groups key now s, toggle_channels key now s} \<Longrightarrow> leave_step s () t"
| scans: "leave_step s () (scan_answered accounts s)"
| chooses: "leave_step s () (s\<lparr>lv_selected := ids\<rparr>)"
| removes: "leave_step s () (leave_handleDeleteJob i s)"

text \<open>The hook's logs are events of type \<open>log\<close>, which the effect ignores.\<close>

definition leave_inv :: "leave_page \<Rightarrow> bool" where
  "leave_inv s \<longleftrightarrow>
     list_all (\<lambda>l. jget l ''type'' = Some (JStr ''log'')) (v_logs (lv_view s)) \<and> lv_live s = [] \<and> lv_flood s = None"

lemma sync_live_idle: "leave_inv s \<Longrightarrow> sync_live key now s = s"
  by (auto simp: leave_inv_def sync_live_def Let_def list_all_iff)

lemma handleEvent_logs:
  "v_logs (fst (handleEvent ty i data v)) = v_logs v
   \<or> (jget data ''type'' = Some (JStr ''log'') \<and> v_logs (fst (handleEvent ty i data v)) = v_logs v @ [data])"
  by (simp add: handleEvent_def)

lemma leave_inv_event: "leave_inv s \<Longrightarrow> leave_inv (leave_event key now data s)"
proof (cases "lv_active s")
  case (Some i)
  assume inv: "leave_inv s"
  let ?v = "fst (handleEvent Autoleave_job i data (lv_view s))"
  have "leave_inv (s\<lparr>lv_view := ?v\<rparr>)"
    using inv handleEvent_logs [of Autoleave_job i data "lv_view s"] by (auto simp: leave_inv_def)
  then show ?thesis using sync_live_idle Some by (simp add: leave_event_def Let_def)
qed (simp add: leave_event_def)

lemma leave_inv_attach: "leave_inv s \<Longrightarrow> leave_inv (leave_attachJob i s)"
  by (simp add: leave_inv_def leave_attachJob_def leave_write_def leave_set_active_def)

lemma leave_step_inv: "leave_step s u t \<Longrightarrow> leave_inv s \<Longrightarrow> leave_inv t"
proof (induction rule: leave_step.induct)
  case (switches t key now s)
  have "leave_inv (s\<lparr>lv_groups := b\<rparr>)" "leave_inv (s\<lparr>lv_channels := b\<rparr>)" for b
    using switches by (simp_all add: leave_inv_def)
  then show ?case using switches sync_live_idle by (auto simp: toggle_groups_def toggle_channels_def)
qed (simp_all add: leave_inv_event leave_inv_attach leave_handleDeleteJob_def,
     simp_all add: leave_inv_def leave_mount_def leave_set_active_def scan_answered_def)

interpretation alm: machine "\<lambda>s. s = new_leave_page ok stored" leave_step leave_inv for ok stored
proof
  show "leave_inv s" if "s = new_leave_page ok stored" for s
    using that by (simp add: leave_inv_def new_leave_page_def initial_view_def)
qed (rule leave_step_inv)

section \<open>Properties\<close>

text \<open>Whatever events the socket delivers, the live feed of the page stays empty and no flood notice is
  shown: the hook keeps only events of type \<open>log\<close>, the page waits for others.  What is shown is always the stored log.\<close>

theorem live_feed_stays_empty:
  assumes "reach (\<lambda>s. s = new_leave_page ok stored) leave_step s"
  shows "lv_live s = [] \<and> lv_flood s = None
    \<and> combinedLogs clock persisted s = (case persisted of None \<Rightarrow> [] | Some ps \<Rightarrow> map (stored_leave_row clock) ps)"
  using alm.reach_inv [OF assms] by (simp add: leave_inv_def combinedLogs_def)

theorem live_feed_stays_empty_witness:
  "lv_live (leave_event ''k'' ''n'' (JObj [(''type'', JStr ''flood_wait'')]) (leave_attachJob (Some ''j'') (new_leave_page True None))) = []
   \<and> lv_flood (leave_event ''k'' ''n'' (JObj [(''type'', JStr ''flood_wait'')]) (leave_attachJob (Some ''j'') (new_leave_page True None))) = None"
proof -
  let ?p = "new_leave_page True None"
  have "reach (\<lambda>s. s = ?p) leave_step ?p" by (rule reach_start) simp
  then have "reach (\<lambda>s. s = ?p) leave_step (leave_attachJob (Some ''j'') ?p)" by (rule reach_step) (rule leave_step.attaches)
  then have "reach (\<lambda>s. s = ?p) leave_step (leave_event ''k'' ''n'' (JObj [(''type'', JStr ''flood_wait'')]) (leave_attachJob (Some ''j'') ?p))"
    by (rule reach_step) (rule leave_step.receives)
  from live_feed_stays_empty [OF this] show ?thesis by blast
qed

text \<open>A started job names at least one account and exactly the kinds of chats that are switched on.\<close>

theorem started_leave_job:
  "handleStartAutoLeave s = StartJob j \<Longrightarrow> lv_selected s \<noteq> [] \<and> (lv_groups s \<or> lv_channels s)
    \<and> (leaveType s = ''both'') = (lv_groups s \<and> lv_channels s)
    \<and> (leaveType s = ''groups'') = (lv_groups s \<and> \<not> lv_channels s)
    \<and> (leaveType s = ''channels'') = (\<not> lv_groups s \<and> lv_channels s)"
  by (auto simp: handleStartAutoLeave_def leaveType_def split: if_splits)

text \<open>A job that has ended is remembered like any other: opening the page again shows it as the active one.\<close>

theorem ended_leave_job_comes_back:
  assumes "lv_storage_ok s" "lv_stored s = Some i" "i \<noteq> []"
  shows "lv_active (leave_mount (leave_event key now (JObj [(''type'', JStr ''completed'')]) s)) = Some i"
proof -
  have "lv_stored (sync_live key now u) = lv_stored u" "lv_storage_ok (sync_live key now u) = lv_storage_ok u" for u
    by (simp_all add: sync_live_def Let_def)
  then have "leave_read (leave_event key now (JObj [(''type'', JStr ''completed'')]) s) = Some i"
    using assms by (simp add: leave_read_def leave_event_def Let_def split: option.splits)
  then show ?thesis using assms(3) by (simp add: leave_mount_def leave_set_active_def)
qed

end
