(* ===== verification/WalletPage.thy ===== *)
theory WalletPage
  imports BankAccounts CommerceHooks Helpers
begin

text \<open>
  The wallet page, \<open>src/frontend/src/app/(dashboard)/wallet/page.tsx\<close>: the amount field, top-ups, withdrawals
  confirmed by a code sent by e-mail, and the history.

  The page's state is the record \<open>wallet_page\<close>; requests under way are kept with what their continuation uses, so
  answers may come in any order.  The payout accounts are those of \<open>BankAccounts\<close>.  Amounts are exact integers;
  the rounding of numbers beyond 53 bits is not modelled.  Notices are recorded by the keys of their texts.  The
  display of an active payment is modelled as far as it touches the state: nothing ever starts it.
\<close>

section \<open>Amounts\<close>

definition TOPUP_PRESETS :: "int list" where "TOPUP_PRESETS = [50000, 100000, 250000, 500000, 1000000]"

definition WITHDRAW_PRESETS :: "int list" where "WITHDRAW_PRESETS = [25000, 50000, 100000, 250000, 500000]"

text \<open>\<open>replace(/^0+(?=\d)/, "")\<close> on digits: leading zeros go, the last digit stays.\<close>

fun strip_zeros :: "string \<Rightarrow> string" where
  "strip_zeros (c # d # ds) = (if c = CHR ''0'' then strip_zeros (d # ds) else c # d # ds)"
| "strip_zeros s = s"

text \<open>\<open>replace(/\B(?=(\d{3})+(?!\d))/g, ".")\<close> on digits: a dot wherever a positive multiple of three digits follows.\<close>

fun group3 :: "string \<Rightarrow> string" where
  "group3 [] = []"
| "group3 (c # cs) = (if cs \<noteq> [] \<and> length cs mod 3 = 0 then c # CHR ''.'' # group3 cs else c # group3 cs)"

definition formatNumberInput :: "string \<Rightarrow> string" where
  "formatNumberInput value =
     (let digits = only_digits value in if digits = [] then [] else group3 (strip_zeros digits))"

definition parsedAmount :: "string \<Rightarrow> int option" where
  "parsedAmount amount = (let digits = only_digits amount in if digits = [] then None else parseInt10 digits)"

definition formatTimer :: "int \<Rightarrow> string" where
  "formatTimer seconds = padStart2 (int_str (seconds div 60)) @ '':'' @ padStart2 (int_str (seconds mod 60))"

text \<open>The position of the caret after the dots were set again: behind as many digits as before.\<close>

fun caret_loop :: "nat \<Rightarrow> nat \<Rightarrow> nat \<Rightarrow> string \<Rightarrow> nat" where
  "caret_loop before seen i [] = 0"
| "caret_loop before seen i (c # cs) =
     (let seen' = (if is_digit c then Suc seen else seen)
      in if seen' = before then Suc i else caret_loop before seen' (Suc i) cs)"

definition new_caret :: "string \<Rightarrow> nat option \<Rightarrow> nat" where
  "new_caret rawVal selection =
     (let start = (case selection of None \<Rightarrow> length rawVal | Some n \<Rightarrow> n);
          before = length (only_digits (take start rawVal))
      in if before = 0 then 0 else caret_loop before 0 0 (formatNumberInput rawVal))"

subsection \<open>Lemmas\<close>

lemma only_digits_group3 [simp]: "only_digits (group3 s) = only_digits s"
  by (induction s rule: group3.induct) (auto simp: only_digits_def)

lemma strip_zeros_digits: "list_all is_digit s \<Longrightarrow> list_all is_digit (strip_zeros s)"
  by (induction s rule: strip_zeros.induct) auto

lemma strip_zeros_Nil [simp]: "strip_zeros s = [] \<longleftrightarrow> s = []"
  by (induction s rule: strip_zeros.induct) auto

lemma strip_zeros_idem [simp]: "strip_zeros (strip_zeros s) = strip_zeros s"
  by (induction s rule: strip_zeros.induct) auto

lemma digits_val_zero: "digits_val (CHR ''0'' # s) = digits_val s"
  by (simp add: digits_val_def digit_val_def)

lemma digits_val_strip [simp]: "digits_val (strip_zeros s) = digits_val s"
  by (induction s rule: strip_zeros.induct) (auto simp: digits_val_zero)

lemma only_digits_format: "only_digits (formatNumberInput s) = strip_zeros (only_digits s)"
  by (simp add: formatNumberInput_def Let_def only_digits_id strip_zeros_digits)

lemma parsedAmount_eq: "parsedAmount s = (if only_digits s = [] then None else Some (int (digits_val (only_digits s))))"
  by (simp add: parsedAmount_def parseInt10_digits)

lemma parsedAmount_format [simp]: "parsedAmount (formatNumberInput s) = parsedAmount s"
  by (simp add: parsedAmount_eq only_digits_format)

lemma parsedAmount_nonneg: "parsedAmount s = Some n \<Longrightarrow> 0 \<le> n"
  by (simp add: parsedAmount_eq split: if_splits)

lemma parsedAmount_int_str: "0 \<le> n \<Longrightarrow> parsedAmount (int_str n) = Some n"
  by (simp add: parsedAmount_eq int_str_def only_digits_id nat_str_digits)

lemma caret_loop_digits:
  "seen < before \<Longrightarrow> before \<le> seen + length (only_digits s) \<Longrightarrow>
     \<exists>n. caret_loop before seen i s = i + n \<and> 0 < n \<and> n \<le> length s \<and> length (only_digits (take n s)) = before - seen
       \<and> is_digit (s ! (n - 1))"
proof (induction s arbitrary: seen i)
  case Nil
  then show ?case by (simp add: only_digits_def)
next
  case (Cons c cs)
  show ?case
  proof (cases "is_digit c \<and> Suc seen = before")
    case True
    then show ?thesis by (intro exI [of _ 1]) (auto simp: only_digits_def)
  next
    case False
    let ?seen = "if is_digit c then Suc seen else seen"
    have c: "?seen < before" "before \<le> ?seen + length (only_digits cs)"
      using Cons.prems False by (auto simp: only_digits_def)
    from Cons.IH [OF c, of "Suc i"] obtain n where n: "caret_loop before ?seen (Suc i) cs = Suc i + n" "0 < n" "n \<le> length cs"
      "length (only_digits (take n cs)) = before - ?seen" "is_digit (cs ! (n - 1))" by blast
    show ?thesis
    proof (intro exI [of _ "Suc n"] conjI)
      show "caret_loop before seen i (c # cs) = i + Suc n" using n(1) c(1) by (auto simp: Let_def split: if_splits)
      show "length (only_digits (take (Suc n) (c # cs))) = before - seen"
        using n(4) c(1) by (auto simp: only_digits_def split: if_splits)
      show "is_digit ((c # cs) ! (Suc n - 1))" using n(2,5) by (cases n) simp_all
    qed (use n in simp_all)
  qed
qed

section \<open>Transactions\<close>

record WalletTransactionItem =
  it_id :: string
  it_user_id :: string
  it_user_email :: "string option"
  it_type :: string
  it_amount :: int
  it_total_amount :: "int option"
  it_method :: string
  it_note :: "string option"
  it_status :: string
  it_qris_url :: "string option"
  it_qris_image :: "string option"
  it_provider_trx_id :: "string option"
  it_crypto_currency :: "string option"
  it_crypto_network :: "string option"
  it_crypto_amount :: "string option"
  it_crypto_address :: "string option"
  it_tx_hash :: "string option"
  it_exchange_rate :: "int option"
  it_expired_at :: "string option"
  it_admin_note :: "string option"
  it_created_at :: string
  it_processed_at :: "string option"

record WalletTransaction =
  tx_id :: string
  tx_type :: string
  tx_amount :: int
  tx_totalAmount :: "int option"
  tx_method :: string
  tx_note :: string
  tx_createdAt :: string
  tx_status :: string
  tx_qrisUrl :: "string option"
  tx_qrisImage :: "string option"
  tx_expiredAt :: "string option"
  tx_adminNote :: "string option"
  tx_userId :: string
  tx_userEmail :: "string option"
  tx_processedAt :: "string option"

definition to_request :: "WalletTransactionItem \<Rightarrow> WalletTransaction" where
  "to_request t =
     \<lparr>tx_id = it_id t, tx_type = it_type t, tx_amount = it_amount t, tx_totalAmount = it_total_amount t, tx_method = it_method t,
      tx_note = (case it_note t of None \<Rightarrow> [] | Some n \<Rightarrow> n), tx_createdAt = it_created_at t, tx_status = it_status t,
      tx_qrisUrl = it_qris_url t, tx_qrisImage = it_qris_image t, tx_expiredAt = it_expired_at t,
      tx_adminNote = opt_or (it_admin_note t) None, tx_userId = it_user_id t, tx_userEmail = opt_or (it_user_email t) None,
      tx_processedAt = opt_or (it_processed_at t) None\<rparr>"

definition pendingCount :: "WalletTransaction list \<Rightarrow> nat" where
  "pendingCount rs = length (filter (\<lambda>r. tx_status r = ''pending'') rs)"

definition total_approved :: "string \<Rightarrow> WalletTransaction list \<Rightarrow> int" where
  "total_approved ty rs = foldl (\<lambda>n r. n + tx_amount r) 0 (filter (\<lambda>r. tx_type r = ty \<and> tx_status r = ''approved'') rs)"

definition totalApprovedTopup :: "WalletTransaction list \<Rightarrow> int" where
  "totalApprovedTopup = total_approved ''topup''"

definition totalApprovedWithdraw :: "WalletTransaction list \<Rightarrow> int" where
  "totalApprovedWithdraw = total_approved ''withdraw''"

definition request_matches :: "string \<Rightarrow> string \<Rightarrow> string \<Rightarrow> WalletTransaction \<Rightarrow> bool" where
  "request_matches typeFilter statusFilter search r \<longleftrightarrow>
     (typeFilter = ''all'' \<or> tx_type r = typeFilter) \<and> (statusFilter = ''all'' \<or> tx_status r = statusFilter)
     \<and> (trim search = [] \<or>
          (let query = trim (toLowerCase search)
           in str_includes (toLowerCase (tx_id r)) query \<or> str_includes (toLowerCase (tx_method r)) query
              \<or> str_includes (toLowerCase (tx_note r)) query))"

definition filteredRequests :: "string \<Rightarrow> string \<Rightarrow> string \<Rightarrow> WalletTransaction list \<Rightarrow> WalletTransaction list" where
  "filteredRequests typeFilter statusFilter search rs = filter (request_matches typeFilter statusFilter search) rs"

section \<open>The page\<close>

datatype wallet_tab = TopupTab | WithdrawTab

datatype topup_method = QRIS | USDT_BEP20 | USDT_TRC20 | USDT_POLYGON

fun topup_method_str :: "topup_method \<Rightarrow> string" where
  "topup_method_str QRIS = ''QRIS''"
| "topup_method_str USDT_BEP20 = ''USDT_BEP20''"
| "topup_method_str USDT_TRC20 = ''USDT_TRC20''"
| "topup_method_str USDT_POLYGON = ''USDT_POLYGON''"

record withdraw_data =
  wd_amount :: int
  wd_method :: "json option"
  wd_note :: string

text \<open>The requests of the page; \<open>ResendOtp\<close> sends what \<open>AskOtp\<close> sends, from the dialog.\<close>

datatype wallet_call =
    Topup int topup_method string
  | AskOtp withdraw_data
  | ResendOtp withdraw_data
  | Withdraw withdraw_data string
  | CheckStatus string

datatype wallet_toast =
    TopupFailed "string option" | OtpSent "string option" | OtpFailed "string option" | OtpResent | ResendFailed "string option"
  | WithdrawSubmitted | WithdrawFailed "string option" | PaymentConfirmed | PaymentPending | PaymentCheckFailed

record wallet_page =
  wl_accounts :: "UserBankAccount list"
  wl_balance :: int
  wl_email :: "string option"
  wl_tab :: wallet_tab
  wl_topupMethod :: topup_method
  wl_amount :: string
  wl_method :: "json option"
  wl_note :: string
  wl_selectedAccountId :: string
  wl_requests :: "WalletTransaction list"
  wl_submitting :: bool
  wl_verifying :: bool
  wl_notice :: "string option"
  wl_otpDialogOpen :: bool
  wl_otpCode :: string
  wl_otpCooldown :: int
  wl_otpMaskedEmail :: string
  wl_requestingOtp :: bool
  wl_pendingWithdrawData :: "withdraw_data option"
  wl_activePayment :: "string option"
  wl_inflight :: "wallet_call list"
  wl_sent :: "(int \<times> wallet_call) list"
  wl_otp_answered :: "withdraw_data list"
  wl_toasts :: "wallet_toast list"
  wl_pushed :: "string list"

definition new_wallet_page :: wallet_page where
  "new_wallet_page =
     \<lparr>wl_accounts = [], wl_balance = 0, wl_email = None, wl_tab = TopupTab, wl_topupMethod = QRIS, wl_amount = [],
      wl_method = Some (JStr ''bank''), wl_note = [], wl_selectedAccountId = ''manual'', wl_requests = [], wl_submitting = False,
      wl_verifying = False, wl_notice = None, wl_otpDialogOpen = False, wl_otpCode = [], wl_otpCooldown = 0, wl_otpMaskedEmail = [],
      wl_requestingOtp = False, wl_pendingWithdrawData = None, wl_activePayment = None, wl_inflight = [], wl_sent = [],
      wl_otp_answered = [], wl_toasts = [], wl_pushed = []\<rparr>"

text \<open>Sending a request; the log also keeps the balance shown at that moment.\<close>

definition send_call :: "wallet_call \<Rightarrow> wallet_page \<Rightarrow> wallet_page" where
  "send_call c p = p\<lparr>wl_inflight := c # wl_inflight p, wl_sent := (wl_balance p, c) # wl_sent p\<rparr>"

definition toasted :: "wallet_toast \<Rightarrow> wallet_page \<Rightarrow> wallet_page" where
  "toasted t p = p\<lparr>wl_toasts := wl_toasts p @ [t]\<rparr>"

definition defaultAccount :: "UserBankAccount list \<Rightarrow> UserBankAccount option" where
  "defaultAccount as = (case find isDefault as of Some a \<Rightarrow> Some a | None \<Rightarrow> (case as of [] \<Rightarrow> None | a # _ \<Rightarrow> Some a))"

definition exceedsBalance :: "wallet_page \<Rightarrow> bool" where
  "exceedsBalance p \<longleftrightarrow> wl_tab p = WithdrawTab \<and> (case parsedAmount (wl_amount p) of None \<Rightarrow> False | Some n \<Rightarrow> n > wl_balance p)"

definition belowMinimum :: "wallet_page \<Rightarrow> bool" where
  "belowMinimum p \<longleftrightarrow> (case parsedAmount (wl_amount p) of None \<Rightarrow> False | Some n \<Rightarrow> n < 10000)"

definition canSubmit :: "wallet_page \<Rightarrow> bool" where
  "canSubmit p \<longleftrightarrow> parsedAmount (wl_amount p) \<noteq> None \<and> \<not> exceedsBalance p \<and> \<not> belowMinimum p \<and> \<not> wl_submitting p"

definition change_tab :: "wallet_tab \<Rightarrow> wallet_page \<Rightarrow> wallet_page" where
  "change_tab t p =
     p\<lparr>wl_tab := t, wl_activePayment := (if t = WithdrawTab then None else wl_activePayment p), wl_amount := [], wl_notice := None\<rparr>"

definition handlePreset :: "int \<Rightarrow> wallet_page \<Rightarrow> wallet_page" where
  "handlePreset value p = p\<lparr>wl_amount := formatNumberInput (int_str value), wl_notice := None\<rparr>"

definition handleAmountChange :: "string \<Rightarrow> wallet_page \<Rightarrow> wallet_page" where
  "handleAmountChange rawVal p = p\<lparr>wl_amount := formatNumberInput rawVal, wl_notice := None\<rparr>"

definition bullet :: string where "bullet = '' '' @ [CHR 0xE2, CHR 0x80, CHR 0xA2] @ '' ''"

definition handleAccountSelect :: "string \<Rightarrow> wallet_page \<Rightarrow> wallet_page" where
  "handleAccountSelect accId p =
     (if accId = ''manual'' then p\<lparr>wl_selectedAccountId := accId, wl_note := []\<rparr>
      else case find (\<lambda>a. acc_id a = accId) (wl_accounts p) of
             None \<Rightarrow> p\<lparr>wl_selectedAccountId := accId\<rparr>
           | Some acc \<Rightarrow>
               p\<lparr>wl_selectedAccountId := accId, wl_method := acc_type acc,
                 wl_note := opt_String (acc_provider acc) @ bullet @ js_String (accountNumber acc) @ '' ('' @ js_String (accountHolder acc) @ '')''\<rparr>)"

text \<open>The account that the select shows as chosen.\<close>

definition shown_account :: "wallet_page \<Rightarrow> string option" where
  "shown_account p =
     (if wl_selectedAccountId p \<noteq> ''manual'' then Some (wl_selectedAccountId p)
      else case wl_accounts p of [] \<Rightarrow> None | a # _ \<Rightarrow> Some (acc_id a))"

text \<open>\<open>method.toUpperCase()\<close> throws for a method that is not a string.\<close>

definition withdraw_request :: "int \<Rightarrow> wallet_page \<Rightarrow> js_error + withdraw_data" where
  "withdraw_request amount p =
     (let chosenAcc = (if wl_selectedAccountId p \<noteq> ''manual'' then find (\<lambda>a. acc_id a = wl_selectedAccountId p) (wl_accounts p) else None);
          finalMethod = (case chosenAcc of Some a \<Rightarrow> acc_provider a | None \<Rightarrow> wl_method p)
      in if trim (wl_note p) \<noteq> [] then Inr \<lparr>wd_amount = amount, wd_method = finalMethod, wd_note = trim (wl_note p)\<rparr>
         else case chosenAcc of
                Some a \<Rightarrow> Inr \<lparr>wd_amount = amount, wd_method = finalMethod,
                   wd_note = opt_String (acc_provider a) @ bullet @ js_String (accountNumber a)\<rparr>
              | None \<Rightarrow> (case wl_method p of
                    Some (JStr m) \<Rightarrow> Inr \<lparr>wd_amount = amount, wd_method = finalMethod, wd_note = toUpperCase m\<rparr>
                  | _ \<Rightarrow> Inl TypeError))"

definition topup_note :: "wallet_page \<Rightarrow> string" where
  "topup_note p =
     or_str (trim (wl_note p)) (if wl_topupMethod p = QRIS then ''Paymenku QRIS TeleBos'' else topup_method_str (wl_topupMethod p) @ '' TeleBos'')"

definition submit_wallet :: "wallet_page \<Rightarrow> wallet_page" where
  "submit_wallet p =
     (case parsedAmount (wl_amount p) of
        None \<Rightarrow> p
      | Some amount \<Rightarrow>
          if \<not> canSubmit p then p
          else
            let p1 = p\<lparr>wl_submitting := True, wl_notice := None\<rparr>
            in if wl_tab p = TopupTab then send_call (Topup amount (wl_topupMethod p) (topup_note p)) p1
               else case withdraw_request amount p of
                      Inl _ \<Rightarrow> p1
                    | Inr d \<Rightarrow> send_call (AskOtp d) (p1\<lparr>wl_pendingWithdrawData := Some d, wl_requestingOtp := True\<rparr>))"

text \<open>Dismissing the dialog of the code, and its close button.\<close>

definition close_otp :: "wallet_page \<Rightarrow> wallet_page" where
  "close_otp p =
     (if wl_submitting p then p else p\<lparr>wl_otpDialogOpen := False, wl_otpCode := [], wl_pendingWithdrawData := None\<rparr>)"

definition type_otp :: "string \<Rightarrow> wallet_page \<Rightarrow> wallet_page" where
  "type_otp v p = p\<lparr>wl_otpCode := take 6 (only_digits v)\<rparr>"

definition resend_otp :: "wallet_page \<Rightarrow> wallet_page" where
  "resend_otp p =
     (case wl_pendingWithdrawData p of
        None \<Rightarrow> p
      | Some d \<Rightarrow> (if wl_otpCooldown p > 0 \<or> wl_requestingOtp p then p else send_call (ResendOtp d) (p\<lparr>wl_requestingOtp := True\<rparr>)))"

definition confirm_withdraw :: "wallet_page \<Rightarrow> wallet_page" where
  "confirm_withdraw p =
     (case wl_pendingWithdrawData p of
        None \<Rightarrow> p
      | Some d \<Rightarrow> (if length (wl_otpCode p) \<noteq> 6 then p
                   else send_call (Withdraw d (trim (wl_otpCode p))) (p\<lparr>wl_submitting := True\<rparr>)))"

definition check_payment :: "wallet_page \<Rightarrow> wallet_page" where
  "check_payment p =
     (case wl_activePayment p of None \<Rightarrow> p | Some i \<Rightarrow> send_call (CheckStatus i) (p\<lparr>wl_verifying := True\<rparr>))"

text \<open>\<open>Done id\<close> is the answer to a top-up, \<open>Code\<close> that to a request for a code; \<open>Paid\<close> tells whether a payment came in.\<close>

datatype wallet_answer =
    Done string
  | Code "string option" "int option" "string option"
  | Accepted
  | Paid bool
  | Failed "string option"

definition detail_of :: "string option \<Rightarrow> string option" where "detail_of d = (if truthy d then d else None)"

definition cooldown_of :: "int option \<Rightarrow> int" where
  "cooldown_of c = (case c of None \<Rightarrow> 60 | Some n \<Rightarrow> (if n = 0 then 60 else n))"

definition topup_done :: "string \<Rightarrow> wallet_page \<Rightarrow> wallet_page" where
  "topup_done i p =
     p\<lparr>wl_amount := [], wl_note := [], wl_submitting := False, wl_notice := Some ''wallet.topupSubmitted'',
       wl_pushed := wl_pushed p @ [''/wallet/invoice/'' @ i]\<rparr>"

definition otp_sent :: "withdraw_data \<Rightarrow> string option \<Rightarrow> int option \<Rightarrow> string option \<Rightarrow> wallet_page \<Rightarrow> wallet_page" where
  "otp_sent d email cooldown message p =
     toasted (OtpSent (detail_of message))
       (p\<lparr>wl_otpMaskedEmail := (case opt_or email (wl_email p) of None \<Rightarrow> [] | Some e \<Rightarrow> e), wl_otpCooldown := cooldown_of cooldown,
          wl_otpCode := [], wl_otpDialogOpen := True, wl_requestingOtp := False, wl_submitting := False,
          wl_otp_answered := d # wl_otp_answered p\<rparr>)"

definition otp_resent :: "withdraw_data \<Rightarrow> int option \<Rightarrow> wallet_page \<Rightarrow> wallet_page" where
  "otp_resent d cooldown p =
     toasted OtpResent (p\<lparr>wl_otpCooldown := cooldown_of cooldown, wl_requestingOtp := False, wl_otp_answered := d # wl_otp_answered p\<rparr>)"

definition withdraw_done :: "wallet_page \<Rightarrow> wallet_page" where
  "withdraw_done p =
     toasted WithdrawSubmitted
       (p\<lparr>wl_otpDialogOpen := False, wl_amount := [], wl_note := [], wl_selectedAccountId := ''manual'', wl_pendingWithdrawData := None,
          wl_otpCode := [], wl_notice := Some ''wallet.withdrawSubmitted'', wl_submitting := False\<rparr>)"

fun wallet_answered :: "wallet_call \<Rightarrow> wallet_answer \<Rightarrow> wallet_page \<Rightarrow> wallet_page" where
  "wallet_answered (Topup _ _ _) (Done i) p = topup_done i p"
| "wallet_answered (Topup _ _ _) (Failed d) p = toasted (TopupFailed (detail_of d)) (p\<lparr>wl_submitting := False\<rparr>)"
| "wallet_answered (AskOtp d) (Code e c m) p = otp_sent d e c m p"
| "wallet_answered (AskOtp _) (Failed d) p = toasted (OtpFailed (detail_of d)) (p\<lparr>wl_requestingOtp := False, wl_submitting := False\<rparr>)"
| "wallet_answered (ResendOtp d) (Code _ c _) p = otp_resent d c p"
| "wallet_answered (ResendOtp _) (Failed d) p = toasted (ResendFailed (detail_of d)) (p\<lparr>wl_requestingOtp := False\<rparr>)"
| "wallet_answered (Withdraw _ _) Accepted p = withdraw_done p"
| "wallet_answered (Withdraw _ _) (Failed d) p = toasted (WithdrawFailed (detail_of d)) (p\<lparr>wl_submitting := False\<rparr>)"
| "wallet_answered (CheckStatus _) (Paid b) p =
     (if b then toasted PaymentConfirmed (p\<lparr>wl_activePayment := None, wl_verifying := False\<rparr>)
      else toasted PaymentPending (p\<lparr>wl_verifying := False\<rparr>))"
| "wallet_answered (CheckStatus _) (Failed _) p = toasted PaymentCheckFailed (p\<lparr>wl_verifying := False\<rparr>)"
| "wallet_answered _ _ p = p"

fun fits :: "wallet_call \<Rightarrow> wallet_answer \<Rightarrow> bool" where
  "fits (Topup _ _ _) (Done _) = True" | "fits (AskOtp _) (Code _ _ _) = True" | "fits (ResendOtp _) (Code _ _ _) = True"
| "fits (Withdraw _ _) Accepted = True" | "fits (CheckStatus _) (Paid _) = True" | "fits _ (Failed _) = True" | "fits _ _ = False"

definition wallet_settled :: "wallet_call \<Rightarrow> wallet_answer \<Rightarrow> wallet_page \<Rightarrow> wallet_page" where
  "wallet_settled c a p = wallet_answered c a (p\<lparr>wl_inflight := remove1 c (wl_inflight p)\<rparr>)"

section \<open>The page as a machine\<close>

text \<open>The store's accounts are from \<open>S\<close>.  The dialog is modal; buttons act as the markup enables them, and the select
  reports a choice only when it differs from the account it shows.\<close>

inductive wallet_step :: "UserBankAccount set \<Rightarrow> wallet_page \<Rightarrow> unit \<Rightarrow> wallet_page \<Rightarrow> bool" for S where
  store_changes: "set as \<subseteq> S \<Longrightarrow> wallet_step S p () (p\<lparr>wl_accounts := as\<rparr>)"
| user_changes: "wallet_step S p () (p\<lparr>wl_balance := b, wl_email := e\<rparr>)"
| history_loads: "wallet_step S p () (p\<lparr>wl_requests := map to_request ts\<rparr>)"
| tab_clicked: "\<not> wl_otpDialogOpen p \<Longrightarrow> wallet_step S p () (change_tab t p)"
| preset_clicked: "\<not> wl_otpDialogOpen p \<Longrightarrow> v \<in> set (if wl_tab p = TopupTab then TOPUP_PRESETS else WITHDRAW_PRESETS) \<Longrightarrow>
    wallet_step S p () (handlePreset v p)"
| amount_typed: "\<not> wl_otpDialogOpen p \<Longrightarrow> wallet_step S p () (handleAmountChange v p)"
| topup_method_chosen: "\<not> wl_otpDialogOpen p \<Longrightarrow> wallet_step S p () (p\<lparr>wl_topupMethod := m\<rparr>)"
| account_chosen: "\<not> wl_otpDialogOpen p \<Longrightarrow> a \<in> set (wl_accounts p) \<Longrightarrow> shown_account p \<noteq> Some (acc_id a) \<Longrightarrow>
    wallet_step S p () (handleAccountSelect (acc_id a) p)"
| submitted: "\<not> wl_otpDialogOpen p \<Longrightarrow> canSubmit p \<Longrightarrow> wallet_step S p () (submit_wallet p)"
| otp_closed: "wl_otpDialogOpen p \<Longrightarrow> wallet_step S p () (close_otp p)"
| otp_typed: "wl_otpDialogOpen p \<Longrightarrow> wallet_step S p () (type_otp v p)"
| otp_resend: "wl_otpDialogOpen p \<Longrightarrow> wallet_step S p () (resend_otp p)"
| otp_confirmed: "wl_otpDialogOpen p \<Longrightarrow> \<not> wl_submitting p \<Longrightarrow> wallet_step S p () (confirm_withdraw p)"
| cools_down: "0 < wl_otpCooldown p \<Longrightarrow> wallet_step S p () (p\<lparr>wl_otpCooldown := max 0 (wl_otpCooldown p - 1)\<rparr>)"
| payment_checked: "\<not> wl_verifying p \<Longrightarrow> wallet_step S p () (check_payment p)"
| answered: "c \<in> set (wl_inflight p) \<Longrightarrow> fits c a \<Longrightarrow> wallet_step S p () (wallet_settled c a p)"

text \<open>The requests that the flag \<open>submitting\<close> stands for.\<close>

fun moves_money :: "wallet_call \<Rightarrow> bool" where
  "moves_money (Topup _ _ _) = True" | "moves_money (AskOtp _) = True" | "moves_money (Withdraw _ _) = True" | "moves_money _ = False"

definition money_calls :: "wallet_page \<Rightarrow> wallet_call list" where
  "money_calls p = filter moves_money (wl_inflight p)"

text \<open>A request that may leave the page.\<close>

fun call_ok :: "withdraw_data list \<Rightarrow> int \<times> wallet_call \<Rightarrow> bool" where
  "call_ok as (b, Topup n _ note) = (10000 \<le> n \<and> note \<noteq> [])"
| "call_ok as (b, AskOtp d) = (10000 \<le> wd_amount d \<and> wd_amount d \<le> b)"
| "call_ok as (b, ResendOtp d) = (d \<in> set as)"
| "call_ok as (b, Withdraw d code) = (d \<in> set as \<and> length code = 6 \<and> list_all is_digit code)"
| "call_ok as (b, CheckStatus _) = False"

text \<open>What a pending call knows of the page.\<close>

fun call_fits_page :: "wallet_page \<Rightarrow> wallet_call \<Rightarrow> bool" where
  "call_fits_page p (AskOtp d) = (\<not> wl_otpDialogOpen p \<and> wl_pendingWithdrawData p = Some d)"
| "call_fits_page p (Topup _ _ _) = (\<not> wl_otpDialogOpen p)"
| "call_fits_page p (CheckStatus _) = False"
| "call_fits_page p _ = True"

definition wallet_inv :: "wallet_page \<Rightarrow> bool" where
  "wallet_inv p \<longleftrightarrow>
     wl_activePayment p = None
     \<and> list_all (call_ok (wl_otp_answered p)) (wl_sent p)
     \<and> list_all (call_fits_page p) (wl_inflight p)
     \<and> set (wl_inflight p) \<subseteq> snd ` set (wl_sent p)
     \<and> length (money_calls p) \<le> (if wl_submitting p then 1 else 0)
     \<and> (wl_otpDialogOpen p \<longrightarrow> (\<exists>d. wl_pendingWithdrawData p = Some d \<and> d \<in> set (wl_otp_answered p)))
     \<and> list_all is_digit (wl_otpCode p) \<and> length (wl_otpCode p) \<le> 6"

lemma call_fits_cong:
  assumes "wl_otpDialogOpen q = wl_otpDialogOpen p" "wl_pendingWithdrawData q = wl_pendingWithdrawData p"
  shows "call_fits_page q = call_fits_page p"
proof
  show "call_fits_page q c = call_fits_page p c" for c using assms by (cases c) simp_all
qed

lemma wallet_inv_cong:
  assumes "wl_activePayment q = wl_activePayment p" "wl_otp_answered q = wl_otp_answered p" "wl_sent q = wl_sent p"
    "wl_inflight q = wl_inflight p" "wl_submitting q = wl_submitting p" "wl_otpDialogOpen q = wl_otpDialogOpen p"
    "wl_pendingWithdrawData q = wl_pendingWithdrawData p" "wl_otpCode q = wl_otpCode p"
  shows "wallet_inv q = wallet_inv p"
  unfolding wallet_inv_def money_calls_def assms call_fits_cong [OF assms(6,7)] ..

lemma call_ok_more: "call_ok as x \<Longrightarrow> set as \<subseteq> set bs \<Longrightarrow> call_ok bs x"
  by (cases x; cases "snd x") auto

lemma call_ok_answer: "list_all (call_ok as) xs \<Longrightarrow> list_all (call_ok (d # as)) xs"
  by (auto simp: list_all_iff intro: call_ok_more)

lemma wallet_inv_change_tab: "wallet_inv (change_tab t p) = wallet_inv p" if "wl_activePayment p = None"
  by (rule wallet_inv_cong) (simp_all add: change_tab_def that)

lemma wallet_inv_account: "wallet_inv (handleAccountSelect i p) = wallet_inv p"
  by (rule wallet_inv_cong) (simp_all add: handleAccountSelect_def split: option.splits)

lemma canSubmit_amount:
  assumes "canSubmit p" "parsedAmount (wl_amount p) = Some n"
  shows "10000 \<le> n" "wl_tab p = WithdrawTab \<Longrightarrow> n \<le> wl_balance p" "\<not> wl_submitting p"
  using assms by (auto simp: canSubmit_def exceedsBalance_def belowMinimum_def)

lemma withdraw_request_amount: "withdraw_request n p = Inr d \<Longrightarrow> wd_amount d = n"
  by (auto simp: withdraw_request_def Let_def split: if_splits option.splits json.splits)

lemma topup_note_nonempty: "topup_note p \<noteq> []"
  by (cases "wl_topupMethod p") (auto simp: topup_note_def or_str_def)

lemma wallet_inv_submit:
  assumes inv: "wallet_inv p" and modal: "\<not> wl_otpDialogOpen p" and can: "canSubmit p"
  shows "wallet_inv (submit_wallet p)"
proof -
  obtain n where n: "parsedAmount (wl_amount p) = Some n" using can by (auto simp: canSubmit_def)
  note amount = canSubmit_amount [OF can n]
  have idle: "money_calls p = []" using inv amount(3) by (simp add: wallet_inv_def)
  have no_ask: "AskOtp d \<notin> set (wl_inflight p)" for d using idle by (auto simp: money_calls_def filter_empty_conv)
  have stays: "call_fits_page q c" if "c \<in> set (wl_inflight p)" "\<not> wl_otpDialogOpen q" for c q
  proof -
    have "call_fits_page p c" using inv that(1) by (simp add: wallet_inv_def list_all_iff)
    then show ?thesis using that no_ask by (cases c) auto
  qed
  show ?thesis
  proof (cases "wl_tab p")
    case TopupTab
    then show ?thesis
      using inv n can amount idle modal stays topup_note_nonempty [of p]
      by (auto simp: submit_wallet_def wallet_inv_def send_call_def Let_def money_calls_def list_all_iff)
  next
    case WithdrawTab
    then show ?thesis
    proof (cases "withdraw_request n p")
      case (Inl e)
      then show ?thesis using inv n can amount idle modal stays WithdrawTab
        by (auto simp: submit_wallet_def wallet_inv_def Let_def money_calls_def list_all_iff)
    next
      case (Inr d)
      then show ?thesis
        using inv n can amount idle modal stays WithdrawTab withdraw_request_amount [OF Inr]
        by (auto simp: submit_wallet_def wallet_inv_def send_call_def Let_def money_calls_def list_all_iff)
    qed
  qed
qed

lemma filter_remove1_le: "length (filter P (remove1 x xs)) \<le> length (filter P xs)"
  by (induction xs) auto

lemma filter_remove1_less: "x \<in> set xs \<Longrightarrow> P x \<Longrightarrow> Suc (length (filter P (remove1 x xs))) = length (filter P xs)"
  by (induction xs) auto

lemma wallet_inv_close:
  assumes "wallet_inv p" "wl_otpDialogOpen p"
  shows "wallet_inv (close_otp p)"
proof (cases "wl_submitting p")
  case False
  then have idle: "money_calls p = []" using assms(1) by (simp add: wallet_inv_def)
  have "call_fits_page q c" if "c \<in> set (wl_inflight p)" for c q
  proof -
    have "\<not> moves_money c" using idle that by (auto simp: money_calls_def filter_empty_conv)
    moreover have "call_fits_page p c" using assms(1) that by (simp add: wallet_inv_def list_all_iff)
    ultimately show ?thesis by (cases c) auto
  qed
  then show ?thesis using assms(1) False by (simp add: close_otp_def wallet_inv_def money_calls_def list_all_iff)
qed (use assms in \<open>simp add: close_otp_def\<close>)

lemma wallet_inv_type: "wallet_inv p \<Longrightarrow> wallet_inv (type_otp v p)"
proof -
  assume inv: "wallet_inv p"
  have "list_all is_digit (take 6 (only_digits v))"
    using digits_only_digits [of v] by (metis append_take_drop_id list_all_append)
  moreover have "call_fits_page (p\<lparr>wl_otpCode := w\<rparr>) = call_fits_page p" for w by (rule call_fits_cong) simp_all
  ultimately show ?thesis using inv by (simp add: type_otp_def wallet_inv_def money_calls_def)
qed

lemma wallet_inv_resend:
  assumes "wallet_inv p" "wl_otpDialogOpen p"
  shows "wallet_inv (resend_otp p)"
proof -
  have fits: "call_fits_page (p\<lparr>wl_requestingOtp := True, wl_inflight := i, wl_sent := t\<rparr>) = call_fits_page p" for i t
    by (rule call_fits_cong) simp_all
  show ?thesis
    using assms by (auto simp: resend_otp_def wallet_inv_def send_call_def money_calls_def fits split: option.splits)
qed

lemma wallet_inv_confirm:
  assumes "wallet_inv p" "wl_otpDialogOpen p" "\<not> wl_submitting p"
  shows "wallet_inv (confirm_withdraw p)"
proof -
  have fits: "call_fits_page (p\<lparr>wl_submitting := True, wl_inflight := i, wl_sent := t\<rparr>) = call_fits_page p" for i t
    by (rule call_fits_cong) simp_all
  have "trim (wl_otpCode p) = wl_otpCode p" using assms(1) by (simp add: wallet_inv_def trim_digits)
  then show ?thesis
    using assms by (auto simp: confirm_withdraw_def wallet_inv_def send_call_def money_calls_def fits split: option.splits)
qed

text \<open>Taking a call off the list keeps the invariant, and leaves no money call when it was one.\<close>

lemma wallet_inv_take:
  assumes "wallet_inv p" "c \<in> set (wl_inflight p)"
  shows "wallet_inv (p\<lparr>wl_inflight := remove1 c (wl_inflight p)\<rparr>)"
    "moves_money c \<Longrightarrow> filter moves_money (remove1 c (wl_inflight p)) = []"
proof -
  have fits: "call_fits_page (p\<lparr>wl_inflight := i\<rparr>) = call_fits_page p" for i by (rule call_fits_cong) simp_all
  have "length (filter moves_money (remove1 c (wl_inflight p))) \<le> (if wl_submitting p then 1 else 0)"
    using filter_remove1_le [of moves_money c "wl_inflight p"] assms(1) by (auto simp: wallet_inv_def money_calls_def)
  moreover have "list_all (call_fits_page p) (remove1 c (wl_inflight p))" "set (remove1 c (wl_inflight p)) \<subseteq> snd ` set (wl_sent p)"
    using assms(1) set_remove1_subset [of c "wl_inflight p"] by (auto simp: wallet_inv_def list_all_iff)
  ultimately show "wallet_inv (p\<lparr>wl_inflight := remove1 c (wl_inflight p)\<rparr>)"
    using assms(1) by (simp add: wallet_inv_def money_calls_def fits)
  show "filter moves_money (remove1 c (wl_inflight p)) = []" if "moves_money c"
  proof -
    have "length (filter moves_money (wl_inflight p)) \<le> 1"
      using assms(1) by (simp add: wallet_inv_def money_calls_def split: if_splits)
    then have "length (filter moves_money (remove1 c (wl_inflight p))) = 0"
      using filter_remove1_less [where P = moves_money, OF assms(2) that] by linarith
    then show ?thesis by simp
  qed
qed

text \<open>An answered money call leaves only calls that do not depend on the dialog.\<close>

lemma quiet_fits:
  assumes "list_all (call_fits_page p) cs" "filter moves_money cs = []"
  shows "list_all (call_fits_page q) cs"
proof -
  have "call_fits_page q c" if "c \<in> set cs" for c
  proof -
    have "call_fits_page p c" "\<not> moves_money c" using assms that by (auto simp: list_all_iff filter_empty_conv)
    then show ?thesis by (cases c) auto
  qed
  then show ?thesis by (simp add: list_all_iff)
qed

lemma wallet_inv_settled:
  assumes inv: "wallet_inv p" and c: "c \<in> set (wl_inflight p)" and f: "fits c a"
  shows "wallet_inv (wallet_settled c a p)"
proof -
  let ?p = "p\<lparr>wl_inflight := remove1 c (wl_inflight p)\<rparr>"
  have p: "wallet_inv ?p" by (rule wallet_inv_take [OF inv c])
  have cf: "call_fits_page p c" using inv c by (simp add: wallet_inv_def list_all_iff)
  have ok: "\<exists>b. call_ok (wl_otp_answered p) (b, c)"
    using inv c by (force simp: wallet_inv_def list_all_iff)
  show ?thesis
  proof (cases "moves_money c")
    case True
    have quiet: "filter moves_money (remove1 c (wl_inflight p)) = []" by (rule wallet_inv_take(2) [OF inv c True])
    have fits: "list_all (call_fits_page q) (remove1 c (wl_inflight p))" for q
      using quiet_fits [OF _ quiet, of ?p] p by (simp add: wallet_inv_def)
    show ?thesis
      using p True cf f quiet fits
      by (cases c; cases a) (auto simp: wallet_settled_def wallet_inv_def money_calls_def toasted_def topup_done_def otp_sent_def
        withdraw_done_def Let_def intro: call_ok_answer)
  next
    case False
    have same: "wallet_inv (toasted t q) = wallet_inv q" for t q by (rule wallet_inv_cong) (simp_all add: toasted_def)
    have flag: "wallet_inv (q\<lparr>wl_requestingOtp := b\<rparr>) = wallet_inv q" "wallet_inv (q\<lparr>wl_otpCooldown := n\<rparr>) = wallet_inv q" for q b n
      by (rule wallet_inv_cong; simp)+
    have more: "wallet_inv (q\<lparr>wl_otp_answered := d # wl_otp_answered q\<rparr>)" if "wallet_inv q" for q d
    proof -
      have "call_fits_page (q\<lparr>wl_otp_answered := d # wl_otp_answered q\<rparr>) = call_fits_page q" by (rule call_fits_cong) simp_all
      then show ?thesis using that by (auto simp: wallet_inv_def money_calls_def intro: call_ok_answer)
    qed
    show ?thesis
    proof (cases c)
      case (ResendOtp d)
      show ?thesis
      proof (cases a)
        case (Code e n m)
        have "wallet_settled c a p = toasted OtpResent ((?p\<lparr>wl_otpCooldown := cooldown_of n\<rparr>\<lparr>wl_requestingOtp := False\<rparr>)
            \<lparr>wl_otp_answered := d # wl_otp_answered (?p\<lparr>wl_otpCooldown := cooldown_of n\<rparr>\<lparr>wl_requestingOtp := False\<rparr>)\<rparr>)"
          using ResendOtp Code by (simp add: wallet_settled_def otp_resent_def)
        then show ?thesis using p by (simp only: same) (rule more, simp only: flag)
      next
        case (Failed e)
        then show ?thesis using p ResendOtp by (simp add: wallet_settled_def same flag)
      qed (use f ResendOtp in simp_all)
    qed (use False cf in simp_all)
  qed
qed

lemma wallet_step_inv: "wallet_step S p u q \<Longrightarrow> wallet_inv p \<Longrightarrow> wallet_inv q"
proof (induction rule: wallet_step.induct)
  case (store_changes as p)
  then show ?case using wallet_inv_cong [of "p\<lparr>wl_accounts := as\<rparr>" p] by simp
next
  case (user_changes p e b)
  then show ?case using wallet_inv_cong [of "p\<lparr>wl_balance := b, wl_email := e\<rparr>" p] by simp
next
  case (history_loads p ts)
  then show ?case using wallet_inv_cong [of "p\<lparr>wl_requests := map to_request ts\<rparr>" p] by simp
next
  case (tab_clicked p t)
  then show ?case using wallet_inv_change_tab [of p t] by (simp add: wallet_inv_def)
next
  case (preset_clicked p v)
  then show ?case using wallet_inv_cong [of "handlePreset v p" p] by (simp add: handlePreset_def)
next
  case (amount_typed p v)
  then show ?case using wallet_inv_cong [of "handleAmountChange v p" p] by (simp add: handleAmountChange_def)
next
  case (topup_method_chosen p m)
  then show ?case using wallet_inv_cong [of "p\<lparr>wl_topupMethod := m\<rparr>" p] by simp
next
  case (cools_down p)
  then show ?case using wallet_inv_cong [of "p\<lparr>wl_otpCooldown := max 0 (wl_otpCooldown p - 1)\<rparr>" p] by simp
next
  case (payment_checked p)
  then have "check_payment p = p" by (simp add: check_payment_def wallet_inv_def)
  then show ?case using payment_checked by simp
qed (simp_all add: wallet_inv_account wallet_inv_submit wallet_inv_close wallet_inv_type wallet_inv_resend wallet_inv_confirm wallet_inv_settled)

interpretation wpm: machine "\<lambda>p. p = new_wallet_page" "wallet_step S" wallet_inv for S
proof
  show "wallet_inv p" if "p = new_wallet_page" for p
    using that by (simp add: wallet_inv_def new_wallet_page_def money_calls_def)
qed (rule wallet_step_inv)

section \<open>Properties\<close>

subsection \<open>The amount field\<close>

text \<open>C17: grouping the digits of the amount field never changes the amount: what is typed or pasted is read as the
  same number after the dots were set, formatting again changes nothing, and a preset is read back as itself.\<close>

theorem amount_survives_formatting:
  "parsedAmount (formatNumberInput v) = parsedAmount v \<and> formatNumberInput (formatNumberInput v) = formatNumberInput v
   \<and> parsedAmount (formatNumberInput (int_str (int n))) = Some (int n)"
proof (intro conjI)
  show "formatNumberInput (formatNumberInput v) = formatNumberInput v"
    using only_digits_format [of v] by (simp add: formatNumberInput_def [of "formatNumberInput v"]) (simp add: formatNumberInput_def Let_def)
qed (simp_all add: parsedAmount_int_str)

text \<open>The caret stays behind the digit it was behind, as long as that digit is still there.\<close>

lemma caret_stays:
  assumes "k \<le> length v" "only_digits (take k v) \<noteq> []"
    "length (only_digits (take k v)) \<le> length (only_digits (formatNumberInput v))"
  shows "length (only_digits (take (new_caret v (Some k)) (formatNumberInput v))) = length (only_digits (take k v))
    \<and> is_digit (formatNumberInput v ! (new_caret v (Some k) - 1))"
  using caret_loop_digits [of 0 "length (only_digits (take k v))" "formatNumberInput v" 0] assms
  by (auto simp: new_caret_def Let_def)

text \<open>Typing at the caret.\<close>

definition type_char :: "string \<times> nat \<Rightarrow> char \<Rightarrow> string \<times> nat" where
  "type_char x c = (let raw = take (snd x) (fst x) @ c # drop (snd x) (fst x) in (formatNumberInput raw, new_caret raw (Some (Suc (snd x)))))"

text \<open>A digit typed after a leading zero replaces it, but the caret jumps to the front, so the digits that follow
  go to the wrong place: typing \<open>05000\<close> gives \<open>500\<close>.\<close>

theorem leading_zero_loses_caret: "foldl type_char ([], 0) ''05000'' = (''500'', 3)"
  by code_simp

lemma group3_small: "group3 ''1000000'' = ''1.000.000''" "formatNumberInput ''a0012,5'' = ''125''"
  by code_simp+

subsection \<open>Withdrawals\<close>

text \<open>C16: every withdrawal that leaves the page carries exactly the amount, destination and note for which a code was
  asked and sent, together with six digits; every code asked for was for at least 10 000 and at most the balance
  shown; and at most one top-up, request for a code or withdrawal is under way at a time, whatever is typed,
  chosen, closed and answered in whatever order.\<close>

theorem withdrawal_as_confirmed:
  assumes "reach (\<lambda>p. p = new_wallet_page) (wallet_step S) p"
  shows "list_all (call_ok (wl_otp_answered p)) (wl_sent p) \<and> length (money_calls p) \<le> 1"
  using wpm.reach_inv [OF assms] by (auto simp: wallet_inv_def split: if_splits)

text \<open>The display of an active payment, with its polling, is never reached.\<close>

theorem payment_display_unreachable:
  assumes "reach (\<lambda>p. p = new_wallet_page) (wallet_step S) p"
  shows "wl_activePayment p = None"
  using wpm.reach_inv [OF assms] by (simp add: wallet_inv_def)

definition demo_payout :: UserBankAccount where
  "demo_payout = \<lparr>acc_id = ''a1'', acc_type = Some (JStr ''ewallet''), acc_provider = Some (JStr ''DANA''), accountNumber = JStr ''0812'',
     accountHolder = JStr ''Ani'', isDefault = True, acc_createdAt = JNull\<rparr>"

definition wallet_demo_typed :: wallet_page where
  "wallet_demo_typed = handleAmountChange ''50000'' (change_tab WithdrawTab (new_wallet_page\<lparr>wl_balance := 70000, wl_email := None\<rparr>\<lparr>wl_accounts := [demo_payout]\<rparr>))"

lemma wallet_demo_typed_reach: "reach (\<lambda>p. p = new_wallet_page) (wallet_step {demo_payout}) wallet_demo_typed"
proof -
  let ?r = "reach (\<lambda>p. p = new_wallet_page) (wallet_step {demo_payout})"
  let ?p1 = "new_wallet_page\<lparr>wl_balance := 70000, wl_email := None\<rparr>"
  let ?p2 = "?p1\<lparr>wl_accounts := [demo_payout]\<rparr>"
  let ?p3 = "change_tab WithdrawTab ?p2"
  have "?r new_wallet_page" by (rule reach_start) simp
  moreover have "wallet_step {demo_payout} new_wallet_page () ?p1" by (rule wallet_step.user_changes)
  ultimately have "?r ?p1" by (rule reach_step)
  moreover have "wallet_step {demo_payout} ?p1 () ?p2" by (rule wallet_step.store_changes) simp
  ultimately have "?r ?p2" by (rule reach_step)
  moreover have "wallet_step {demo_payout} ?p2 () ?p3" by (rule wallet_step.tab_clicked) (simp add: new_wallet_page_def)
  ultimately have "?r ?p3" by (rule reach_step)
  moreover have "wallet_step {demo_payout} ?p3 () wallet_demo_typed"
    unfolding wallet_demo_typed_def by (rule wallet_step.amount_typed) (simp add: change_tab_def new_wallet_page_def)
  ultimately show ?thesis by (rule reach_step)
qed

lemma wallet_demo_typed_eq:
  "wallet_demo_typed = new_wallet_page\<lparr>wl_balance := 70000, wl_accounts := [demo_payout], wl_tab := WithdrawTab, wl_amount := ''50.000''\<rparr>"
proof -
  have "formatNumberInput ''50000'' = ''50.000''" by code_simp
  then show ?thesis by (simp add: wallet_demo_typed_def handleAmountChange_def change_tab_def new_wallet_page_def)
qed

lemma wallet_demo_typed_can: "canSubmit wallet_demo_typed" and wallet_demo_typed_amount: "parsedAmount (wl_amount wallet_demo_typed) = Some 50000"
proof -
  have "parsedAmount ''50.000'' = Some 50000"
    by (simp add: parsedAmount_eq only_digits_def digits_val_def digit_val_def is_digit_def)
  then show "canSubmit wallet_demo_typed" "parsedAmount (wl_amount wallet_demo_typed) = Some 50000"
    by (simp_all add: wallet_demo_typed_eq canSubmit_def exceedsBalance_def belowMinimum_def) (simp add: new_wallet_page_def)
qed

definition wallet_demo_request :: withdraw_data where
  "wallet_demo_request = \<lparr>wd_amount = 50000, wd_method = Some (JStr ''bank''), wd_note = ''BANK''\<rparr>"

lemma wallet_demo_submit_eq:
  "submit_wallet wallet_demo_typed = wallet_demo_typed\<lparr>wl_submitting := True, wl_pendingWithdrawData := Some wallet_demo_request, wl_requestingOtp := True,
     wl_inflight := [AskOtp wallet_demo_request], wl_sent := [(70000, AskOtp wallet_demo_request)]\<rparr>"
proof -
  have "toUpperCase ''bank'' = ''BANK''" "trim [] = []" by code_simp+
  then have "withdraw_request 50000 wallet_demo_typed = Inr wallet_demo_request"
    by (simp add: wallet_demo_typed_eq withdraw_request_def new_wallet_page_def wallet_demo_request_def)
  then show ?thesis
    using wallet_demo_typed_can by (simp add: submit_wallet_def wallet_demo_typed_amount Let_def send_call_def) (simp add: wallet_demo_typed_eq new_wallet_page_def)
qed

definition demo_code_sent :: wallet_page where
  "demo_code_sent = wallet_settled (AskOtp wallet_demo_request) (Code None None None) (submit_wallet wallet_demo_typed)"

definition demo_withdrawn :: wallet_page where "demo_withdrawn = confirm_withdraw (type_otp ''123 456'' demo_code_sent)"

lemma demo_code_sent_dialog: "wl_otpDialogOpen demo_code_sent" "\<not> wl_submitting demo_code_sent"
    "wl_pendingWithdrawData demo_code_sent = Some wallet_demo_request"
  by (simp_all add: demo_code_sent_def wallet_demo_submit_eq wallet_settled_def otp_sent_def toasted_def)

lemma demo_withdrawn_reach: "reach (\<lambda>p. p = new_wallet_page) (wallet_step {demo_payout}) demo_withdrawn"
proof -
  let ?r = "reach (\<lambda>p. p = new_wallet_page) (wallet_step {demo_payout})"
  let ?p = "submit_wallet wallet_demo_typed"
  have "\<not> wl_otpDialogOpen wallet_demo_typed" by (simp add: wallet_demo_typed_eq new_wallet_page_def)
  then have "wallet_step {demo_payout} wallet_demo_typed () ?p" by (rule wallet_step.submitted [OF _ wallet_demo_typed_can])
  with wallet_demo_typed_reach have "?r ?p" by (rule reach_step)
  moreover have "wallet_step {demo_payout} ?p () demo_code_sent"
    unfolding demo_code_sent_def by (rule wallet_step.answered) (simp_all add: wallet_demo_submit_eq)
  ultimately have "?r demo_code_sent" by (rule reach_step)
  moreover have "wallet_step {demo_payout} demo_code_sent () (type_otp ''123 456'' demo_code_sent)"
    by (rule wallet_step.otp_typed [OF demo_code_sent_dialog(1)])
  ultimately have "?r (type_otp ''123 456'' demo_code_sent)" by (rule reach_step)
  moreover have "wallet_step {demo_payout} (type_otp ''123 456'' demo_code_sent) () demo_withdrawn"
    unfolding demo_withdrawn_def by (rule wallet_step.otp_confirmed) (simp_all add: type_otp_def demo_code_sent_dialog)
  ultimately show ?thesis by (rule reach_step)
qed

theorem withdrawal_as_confirmed_witness:
  "list_all (call_ok (wl_otp_answered demo_withdrawn)) (wl_sent demo_withdrawn) \<and> length (money_calls demo_withdrawn) \<le> 1
   \<and> snd (hd (wl_sent demo_withdrawn)) = Withdraw wallet_demo_request ''123456''"
proof -
  have "take 6 (only_digits ''123 456'') = ''123456''" "trim ''123456'' = ''123456''" by code_simp+
  then have "snd (hd (wl_sent demo_withdrawn)) = Withdraw wallet_demo_request ''123456''"
    by (simp add: demo_withdrawn_def confirm_withdraw_def type_otp_def demo_code_sent_dialog send_call_def)
  then show ?thesis using withdrawal_as_confirmed [OF demo_withdrawn_reach] by blast
qed

subsection \<open>The account that is shown is not the account that is sent\<close>

text \<open>While nothing was chosen the select shows the first saved account, but the withdrawal names none: the
  request is for the method \<open>bank\<close> with the note \<open>BANK\<close>.\<close>

theorem shown_account_not_sent:
  assumes "wl_accounts p = a # as" "wl_selectedAccountId p = ''manual''" "trim (wl_note p) = []" "wl_method p = Some (JStr ''bank'')"
  shows "shown_account p = Some (acc_id a)
    \<and> withdraw_request n p = Inr \<lparr>wd_amount = n, wd_method = Some (JStr ''bank''), wd_note = ''BANK''\<rparr>"
proof -
  have "toUpperCase ''bank'' = ''BANK''" by code_simp
  then show ?thesis using assms by (simp add: shown_account_def withdraw_request_def)
qed

text \<open>A user with one saved account can not choose it, because it is already shown: no request for a withdrawal
  ever names it.\<close>

definition never_chosen :: "wallet_page \<Rightarrow> bool" where
  "never_chosen p \<longleftrightarrow> wl_selectedAccountId p = ''manual'' \<and> wl_note p = [] \<and> wl_method p = Some (JStr ''bank'')"

fun names_no_account :: "wallet_call \<Rightarrow> bool" where
  "names_no_account (AskOtp d) = (wd_method d = Some (JStr ''bank'') \<and> wd_note d = ''BANK'')"
| "names_no_account _ = True"

definition one_account_inv :: "UserBankAccount \<Rightarrow> wallet_page \<Rightarrow> bool" where
  "one_account_inv a p \<longleftrightarrow> set (wl_accounts p) \<subseteq> {a} \<and> never_chosen p \<and> list_all (\<lambda>x. names_no_account (snd x)) (wl_sent p)"

lemma never_chosen_request:
  assumes "never_chosen p"
  shows "withdraw_request n p = Inr \<lparr>wd_amount = n, wd_method = Some (JStr ''bank''), wd_note = ''BANK''\<rparr>"
proof -
  have "toUpperCase ''bank'' = ''BANK''" "trim [] = []" by code_simp+
  then show ?thesis using assms by (simp add: never_chosen_def withdraw_request_def)
qed

lemma one_account_answered: "one_account_inv a p \<Longrightarrow> one_account_inv a (wallet_answered c x p)"
  by (cases c; cases x)
    (simp_all add: one_account_inv_def never_chosen_def toasted_def topup_done_def otp_sent_def otp_resent_def withdraw_done_def)

lemma one_account_step: "wallet_step {a} p u q \<Longrightarrow> one_account_inv a p \<Longrightarrow> one_account_inv a q"
proof (induction rule: wallet_step.induct)
  case (account_chosen p b)
  then have "wl_accounts p \<noteq> []" "\<forall>x \<in> set (wl_accounts p). x = a" by (auto simp: one_account_inv_def)
  then have "shown_account p = Some (acc_id b)"
    using account_chosen by (cases "wl_accounts p") (auto simp: shown_account_def one_account_inv_def never_chosen_def)
  then show ?case using account_chosen by simp
next
  case (submitted p)
  then have "never_chosen p" by (simp add: one_account_inv_def)
  from never_chosen_request [OF this] show ?case
    using submitted by (auto simp: submit_wallet_def one_account_inv_def never_chosen_def send_call_def Let_def split: option.splits)
next
  case (answered c p x)
  have "one_account_inv a (p\<lparr>wl_inflight := remove1 c (wl_inflight p)\<rparr>)"
    using answered by (simp add: one_account_inv_def never_chosen_def)
  then show ?case by (simp add: wallet_settled_def one_account_answered)
qed (auto simp: one_account_inv_def never_chosen_def change_tab_def handlePreset_def handleAmountChange_def close_otp_def type_otp_def
  resend_otp_def confirm_withdraw_def check_payment_def send_call_def split: option.splits)

interpretation one_account: machine "\<lambda>p. p = new_wallet_page" "wallet_step {a}" "one_account_inv a" for a
proof
  show "one_account_inv a p" if "p = new_wallet_page" for p
    using that by (simp add: one_account_inv_def never_chosen_def new_wallet_page_def)
qed (rule one_account_step)

theorem single_account_never_sent:
  assumes "reach (\<lambda>p. p = new_wallet_page) (wallet_step {a}) p"
  shows "list_all (\<lambda>x. names_no_account (snd x)) (wl_sent p)"
  using one_account.reach_inv [OF assms] by (simp add: one_account_inv_def)

text \<open>The note of a chosen account stays when the tab changes, so the next top-up carries the account's number and
  holder as its note.\<close>

theorem account_note_sent_with_topup:
  assumes "find (\<lambda>x. acc_id x = i) (wl_accounts p) = Some a" "i \<noteq> ''manual''"
    "trim (opt_String (acc_provider a) @ bullet @ js_String (accountNumber a) @ '' ('' @ js_String (accountHolder a) @ '')'') = n" "n \<noteq> []"
  shows "topup_note (change_tab TopupTab (handleAccountSelect i p)) = n"
  using assms by (auto simp: topup_note_def change_tab_def handleAccountSelect_def or_str_def)

end
