(* ===== verification/InvoicePage.thy ===== *)
theory InvoicePage
  imports WalletPage
begin

text \<open>
  The invoice page, \<open>src/frontend/src/app/(dashboard)/wallet/invoice/[id]/page.tsx\<close>: which invoice it shows, the
  countdown, the polling of the payment's status and the generated QR payload.

  Time passes in whole seconds.  The effects of the page are re-run by React when one of their dependencies is a
  new value; \<open>same\<close> tells whether \<open>useMutation\<close> returns the same object on every rendering.  TanStack Query
  documents that it does not.  Dates are their milliseconds, read by the parameter \<open>ms\<close>.
\<close>

section \<open>What is shown\<close>

definition invoice_timer :: "int \<Rightarrow> string" where
  "invoice_timer seconds = (if seconds \<le> 0 then ''00:00'' else formatTimer seconds)"

definition formatUsdtNetworkLabel :: "string option \<Rightarrow> string option \<Rightarrow> string" where
  "formatUsdtNetworkLabel network meth =
     (let raw = toUpperCase (the (opt_or network (opt_or meth (Some []))))
      in if str_includes raw ''BEP20'' \<or> str_includes raw ''BSC'' then ''BNB Smart Chain (BEP-20)''
         else if str_includes raw ''TRC20'' \<or> str_includes raw ''TRON'' then ''TRON Network (TRC-20)''
         else if str_includes raw ''POLYGON'' \<or> str_includes raw ''MATIC'' then ''Polygon POS (ERC-20)''
         else or_str raw ''USDT On-Chain'')"

text \<open>The texts by their keys, and the page the invoice leads to.\<close>

record invoice_details =
  inv_title :: string
  inv_subtitle :: string
  inv_successTitle :: string
  inv_successDesc :: string
  inv_ctaText :: string
  inv_ctaHref :: string

definition invoice_texts :: "string \<Rightarrow> string \<Rightarrow> invoice_details" where
  "invoice_texts kind href =
     \<lparr>inv_title = ''wallet.invoice'' @ kind @ ''Title'', inv_subtitle = ''wallet.invoice'' @ kind @ ''Subtitle'',
      inv_successTitle = ''wallet.invoice'' @ kind @ ''SuccessTitle'', inv_successDesc = ''wallet.invoice'' @ kind @ ''SuccessDesc'',
      inv_ctaText = ''wallet.invoice'' @ kind @ ''Cta'', inv_ctaHref = href\<rparr>"

definition getInvoiceDetails :: "string option \<Rightarrow> invoice_details" where
  "getInvoiceDetails ty =
     (if ty = Some ''subscription'' then invoice_texts ''Subscription'' ''/subscriptions''
      else if ty = Some ''smm'' then invoice_texts ''Smm'' ''/orders/history''
      else if ty = Some ''marketplace'' then invoice_texts ''Marketplace'' ''/accounts''
      else invoice_texts ''Topup'' ''/wallet'')"

definition invoice_tx :: "WalletTransactionItem list option \<Rightarrow> string \<Rightarrow> WalletTransactionItem option" where
  "invoice_tx data invoiceId = (case data of None \<Rightarrow> None | Some ts \<Rightarrow> find (\<lambda>t. it_id t = invoiceId) ts)"

definition isCryptoInvoice :: "WalletTransactionItem \<Rightarrow> bool" where
  "isCryptoInvoice tx \<longleftrightarrow> it_crypto_currency tx = Some ''USDT'' \<or> startsWith (toUpperCase (it_method tx)) ''USDT''"

definition text_or_empty :: "string option \<Rightarrow> string" where
  "text_or_empty v = (case v of None \<Rightarrow> [] | Some s \<Rightarrow> s)"

definition cryptoAddress :: "WalletTransactionItem \<Rightarrow> string" where
  "cryptoAddress tx = text_or_empty (opt_or (it_crypto_address tx) (it_qris_url tx))"

definition cryptoAmount :: "WalletTransactionItem \<Rightarrow> string" where
  "cryptoAmount tx = text_or_empty (it_crypto_amount tx)"

definition due_amount :: "WalletTransactionItem \<Rightarrow> int" where
  "due_amount tx = (case it_total_amount tx of None \<Rightarrow> it_amount tx | Some n \<Rightarrow> n)"

text \<open>What \<open>handleCopyAmount\<close> puts on the clipboard.\<close>

definition valToCopy :: "WalletTransactionItem \<Rightarrow> string" where
  "valToCopy tx = (if isCryptoInvoice tx \<and> cryptoAmount tx \<noteq> [] then cryptoAmount tx else int_str (due_amount tx))"

definition generateQrisString :: "string \<Rightarrow> int \<Rightarrow> string" where
  "generateQrisString invoiceId amount =
     (let amountStr = int_str amount; pad = (\<lambda>n. padStart2 (int_str (int n)))
      in ''00020101021226610014ID.LINKAJA.WWW0118936009110022304930020300051440014ID.DANA.WWW01189360091100223049300203000520458125303360540''
         @ pad (length amountStr) @ amountStr @ ''5802ID5911TELEBOS PAY6007JAKARTA61051294062'' @ pad (length invoiceId + 4) @ ''01''
         @ pad (length invoiceId) @ invoiceId @ ''6304A1B2'')"

definition qrString :: "WalletTransactionItem \<Rightarrow> string" where
  "qrString tx =
     (if isCryptoInvoice tx then cryptoAddress tx
      else the (opt_or (it_qris_url tx) (Some (generateQrisString (it_id tx) (due_amount tx)))))"

section \<open>The countdown and the polling\<close>

text \<open>\<open>countdown\<close> tells whether the interval of one second runs; \<open>poll_in\<close> is the time until the interval of five
  seconds fires, if it is set.\<close>

record invoice_page =
  iv_tx :: "WalletTransactionItem option"
  iv_timeLeft :: int
  iv_countdown :: bool
  iv_poll_in :: "nat option"
  iv_verifying :: bool
  iv_checks :: nat
  iv_success :: nat

definition new_invoice_page :: invoice_page where
  "new_invoice_page =
     \<lparr>iv_tx = None, iv_timeLeft = 0, iv_countdown = False, iv_poll_in = None, iv_verifying = False, iv_checks = 0, iv_success = 0\<rparr>"

definition tx_pending :: "WalletTransactionItem option \<Rightarrow> bool" where
  "tx_pending tx = (case tx of None \<Rightarrow> False | Some t \<Rightarrow> it_status t = ''pending'')"

definition expiry :: "(string \<Rightarrow> int) \<Rightarrow> WalletTransactionItem \<Rightarrow> int" where
  "expiry ms tx = (if truthy (it_expired_at tx) then ms (the (it_expired_at tx)) else ms (it_created_at tx) + 60 * 60 * 1000)"

text \<open>Both effects, when the invoice is a new value.\<close>

definition countdown_effect :: "(string \<Rightarrow> int) \<Rightarrow> int \<Rightarrow> invoice_page \<Rightarrow> invoice_page" where
  "countdown_effect ms now p =
     (case iv_tx p of
        Some tx \<Rightarrow>
          (if it_status tx = ''pending'' then p\<lparr>iv_timeLeft := max 0 ((expiry ms tx - now) div 1000), iv_countdown := True\<rparr>
           else p\<lparr>iv_countdown := False\<rparr>)
      | None \<Rightarrow> p\<lparr>iv_countdown := False\<rparr>)"

definition poll_effect :: "invoice_page \<Rightarrow> invoice_page" where
  "poll_effect p = p\<lparr>iv_poll_in := (if tx_pending (iv_tx p) then Some 5 else None)\<rparr>"

definition data_arrives :: "(string \<Rightarrow> int) \<Rightarrow> int \<Rightarrow> WalletTransactionItem option \<Rightarrow> invoice_page \<Rightarrow> invoice_page" where
  "data_arrives ms now tx p = poll_effect (countdown_effect ms now (p\<lparr>iv_tx := tx\<rparr>))"

text \<open>A rendering: the polling effect runs again when \<open>checkTopupStatus\<close> is a new object.\<close>

definition rendered :: "bool \<Rightarrow> invoice_page \<Rightarrow> invoice_page" where
  "rendered same p = (if same then p else poll_effect p)"

definition timer_fires :: "bool \<Rightarrow> invoice_page \<Rightarrow> invoice_page" where
  "timer_fires same p =
     (if \<not> iv_countdown p then p
      else let prev = iv_timeLeft p; nxt = (if prev \<le> 1 then 0 else prev - 1);
               p' = p\<lparr>iv_timeLeft := nxt, iv_countdown := 1 < prev\<rparr>
           in if nxt = prev then p' else rendered same p')"

text \<open>A poll that fires starts a request, which renders the page.\<close>

definition poll_passes :: "bool \<Rightarrow> invoice_page \<Rightarrow> invoice_page" where
  "poll_passes same p =
     (case iv_poll_in p of
        None \<Rightarrow> p
      | Some n \<Rightarrow> (if 1 < n then p\<lparr>iv_poll_in := Some (n - 1)\<rparr>
                   else rendered same (p\<lparr>iv_poll_in := Some 5, iv_checks := Suc (iv_checks p)\<rparr>)))"

definition second_passes :: "bool \<Rightarrow> invoice_page \<Rightarrow> invoice_page" where
  "second_passes same p = timer_fires same (poll_passes same p)"

definition check_now :: "bool \<Rightarrow> invoice_page \<Rightarrow> invoice_page" where
  "check_now same p =
     (if iv_tx p = None \<or> iv_verifying p then p else rendered same (p\<lparr>iv_verifying := True, iv_checks := Suc (iv_checks p)\<rparr>))"

text \<open>An answer to the button, \<open>None\<close> when the request failed.\<close>

definition check_answered :: "bool \<Rightarrow> bool option \<Rightarrow> invoice_page \<Rightarrow> invoice_page" where
  "check_answered same paid p =
     rendered same (p\<lparr>iv_verifying := False, iv_success := (if paid = Some True then Suc (iv_success p) else iv_success p)\<rparr>)"

fun seconds_pass :: "bool \<Rightarrow> nat \<Rightarrow> invoice_page \<Rightarrow> invoice_page" where
  "seconds_pass same 0 p = p"
| "seconds_pass same (Suc n) p = seconds_pass same n (second_passes same p)"

section \<open>Polling starves\<close>

lemma starved_second:
  assumes "tx_pending (iv_tx p)" "iv_countdown p" "iv_poll_in p = Some 5" "0 < iv_timeLeft p"
  shows "second_passes False p = p\<lparr>iv_timeLeft := iv_timeLeft p - 1, iv_countdown := 1 < iv_timeLeft p\<rparr>"
  using assms by (simp add: second_passes_def poll_passes_def timer_fires_def rendered_def poll_effect_def Let_def)

lemma starved:
  assumes "tx_pending (iv_tx p)" "iv_countdown p" "iv_poll_in p = Some 5" "int n \<le> iv_timeLeft p"
  shows "iv_checks (seconds_pass False n p) = iv_checks p"
  using assms
proof (induction n arbitrary: p)
  case (Suc n)
  let ?q = "second_passes False p"
  have q: "?q = p\<lparr>iv_timeLeft := iv_timeLeft p - 1, iv_countdown := 1 < iv_timeLeft p\<rparr>"
    using Suc.prems by (intro starved_second) simp_all
  show ?case
  proof (cases n)
    case 0
    then show ?thesis by (simp add: q)
  next
    case (Suc m)
    then have "iv_checks (seconds_pass False n ?q) = iv_checks ?q"
      using Suc.prems by (intro Suc.IH) (simp_all add: q)
    then show ?thesis by (simp add: q)
  qed
qed simp

text \<open>With the object that TanStack Query returns anew on every rendering, the countdown restarts the polling
  interval every second: until the invoice has expired, the page asks for the payment's status not once.\<close>

theorem automatic_check_starves:
  assumes "it_status tx = ''pending''" "int n \<le> iv_timeLeft (data_arrives ms now (Some tx) p)"
  shows "iv_checks (seconds_pass False n (data_arrives ms now (Some tx) p)) = iv_checks p"
proof -
  let ?q = "data_arrives ms now (Some tx) p"
  have "tx_pending (iv_tx ?q)" "iv_countdown ?q" "iv_poll_in ?q = Some 5" "iv_checks ?q = iv_checks p"
    using assms(1) by (simp_all add: data_arrives_def countdown_effect_def poll_effect_def tx_pending_def)
  then show ?thesis using starved assms(2) by metis
qed

lemma steady_second:
  assumes "iv_poll_in p = Some k" "0 < k"
  shows "iv_poll_in (second_passes True p) = Some (if k = 1 then 5 else k - 1)"
    "iv_checks (second_passes True p) = (if k = 1 then Suc (iv_checks p) else iv_checks p)"
  using assms by (auto simp: second_passes_def poll_passes_def timer_fires_def rendered_def Let_def)

lemma steady_polls:
  "iv_poll_in p = Some k \<Longrightarrow> 0 < k \<Longrightarrow> k \<le> 5 \<Longrightarrow> iv_checks (seconds_pass True n p) = iv_checks p + (n + (5 - k)) div 5"
proof (induction n arbitrary: p k)
  case (Suc n)
  note s = steady_second [OF Suc.prems(1,2)]
  show ?case
  proof (cases "k = 1")
    case True
    then show ?thesis using Suc.IH [OF s(1)] s(2) by simp
  next
    case False
    then have "Suc n + (5 - k) = n + (5 - (k - 1))" using Suc.prems by simp
    then show ?thesis using Suc.IH [OF s(1)] s(2) False Suc.prems by simp
  qed
qed auto

text \<open>With a same object, as the code assumes, it asks every five seconds.\<close>

theorem steady_object_polls:
  assumes "it_status tx = ''pending''"
  shows "iv_checks (seconds_pass True n (data_arrives ms now (Some tx) p)) = iv_checks p + n div 5"
proof -
  let ?q = "data_arrives ms now (Some tx) p"
  have "iv_poll_in ?q = Some 5" "iv_checks ?q = iv_checks p"
    using assms by (simp_all add: data_arrives_def countdown_effect_def poll_effect_def tx_pending_def)
  then show ?thesis using steady_polls [of ?q 5 n] by simp
qed

section \<open>The generated QR payload\<close>

text \<open>An EMVCo payload is a sequence of fields: two digits of tag, two digits of length, and that many characters.\<close>

fun tlv_fields :: "nat \<Rightarrow> string \<Rightarrow> (string \<times> string) list option" where
  "tlv_fields 0 s = (if s = [] then Some [] else None)"
| "tlv_fields (Suc fuel) s =
     (if s = [] then Some []
      else if length s < 4 \<or> \<not> list_all is_digit (take 4 s) then None
      else let n = digits_val (take 2 (drop 2 s)); v = drop 4 s
           in if length v < n then None
              else map_option (\<lambda>fs. (take 2 s, take n v) # fs) (tlv_fields fuel (drop n v)))"

lemma tlv_step:
  assumes "length h = 4" "list_all is_digit h" "digits_val (drop 2 h) = length v"
  shows "tlv_fields (Suc n) (h @ v @ r) = map_option (\<lambda>fs. (take 2 h, v) # fs) (tlv_fields n r)"
proof -
  have "h \<noteq> []" using assms(1) by auto
  then show ?thesis using assms by (simp add: Let_def)
qed

lemma tlv_spoiled:
  assumes "\<And>m. tlv_fields m r = None" "length h = 4" "list_all is_digit h" "digits_val (drop 2 h) = length v"
  shows "tlv_fields n (h @ v @ r) = None"
proof (cases n)
  case 0
  have "h @ v @ r \<noteq> []" using assms(2) by auto
  then show ?thesis using 0 by (simp only: tlv_fields.simps if_False)
next
  case (Suc m)
  then show ?thesis using assms by (simp only: tlv_step option.map)
qed

text \<open>The payload that the page generates when the invoice has none is no such sequence, whatever the invoice: its
  fourth field would start with letters.\<close>

theorem generated_qris_malformed: "tlv_fields fuel (generateQrisString i a) = None"
proof -
  obtain r where g: "generateQrisString i a = ''0002'' @ ''01'' @ ''0102'' @ ''12'' @ ''2661''
      @ ''0014ID.LINKAJA.WWW0118936009110022304930020300051440014ID.DAN'' @ CHR ''A'' # r"
    by (simp add: generateQrisString_def Let_def)
  have digits: "digits_val (drop 2 ''0002'') = length ''01''" "digits_val (drop 2 ''0102'') = length ''12''"
    "digits_val (drop 2 ''2661'') = length ''0014ID.LINKAJA.WWW0118936009110022304930020300051440014ID.DAN''"
    "list_all is_digit ''0002''" "list_all is_digit ''0102''" "list_all is_digit ''2661''"
    by (simp_all add: digits_val_def digit_val_def is_digit_def)
  have bad: "tlv_fields n (CHR ''A'' # r) = None" for n by (cases n) (simp_all add: is_digit_def numeral_eq_Suc)
  show ?thesis unfolding g by (intro tlv_spoiled bad digits) simp_all
qed

end
