(* ===== verification/AccountSelector.thy ===== *)
theory AccountSelector
  imports Helpers
begin

text \<open>
  The account selector, \<open>src/frontend/src/components/accounts/account-selector.tsx\<close>, which the broadcast, invite and
  auto-reply pages share: the filter by folder and search text and the handlers that change the selection.  A
  selection is a JavaScript \<open>Set\<close> of ids, a list without repetitions in the order of insertion.
\<close>

section \<open>Sets in insertion order\<close>

definition js_add :: "'a list \<Rightarrow> 'a \<Rightarrow> 'a list" where "js_add s x = (if x \<in> set s then s else s @ [x])"

definition js_delete :: "'a list \<Rightarrow> 'a \<Rightarrow> 'a list" where "js_delete s x = filter (\<lambda>y. y \<noteq> x) s"

definition js_set :: "'a list \<Rightarrow> 'a list" where "js_set xs = foldl js_add [] xs"

lemma set_js_add [simp]: "set (js_add s x) = insert x (set s)"
  by (auto simp: js_add_def)

lemma set_js_delete [simp]: "set (js_delete s x) = set s - {x}"
  by (auto simp: js_delete_def)

lemma distinct_js_add [simp]: "distinct (js_add s x) = distinct s"
  by (auto simp: js_add_def)

lemma distinct_js_delete [simp]: "distinct s \<Longrightarrow> distinct (js_delete s x)"
  by (simp add: js_delete_def)

lemma set_foldl_add [simp]: "set (foldl js_add s xs) = set s \<union> set xs"
  by (induction xs arbitrary: s) auto

lemma distinct_foldl_add [simp]: "distinct (foldl js_add s xs) = distinct s"
  by (induction xs arbitrary: s) auto

lemma set_foldl_delete [simp]: "set (foldl js_delete s xs) = set s - set xs"
  by (induction xs arbitrary: s) auto

lemma distinct_foldl_delete: "distinct s \<Longrightarrow> distinct (foldl js_delete s xs)"
  by (induction xs arbitrary: s) auto

lemma set_js_set [simp]: "set (js_set xs) = set xs" and distinct_js_set [simp]: "distinct (js_set xs)"
  by (simp_all add: js_set_def)

lemma js_set_distinct: "distinct xs \<Longrightarrow> js_set xs = xs"
proof -
  have "foldl js_add s xs = s @ xs" if "distinct (s @ xs)" for s
    using that
  proof (induction xs arbitrary: s)
    case (Cons x xs)
    then have "x \<notin> set s" by auto
    then have "foldl js_add s (x # xs) = foldl js_add (s @ [x]) xs" by (simp add: js_add_def)
    also have "\<dots> = (s @ [x]) @ xs" using Cons.prems by (intro Cons.IH) simp
    finally show ?case by simp
  qed simp
  from this [of "[]"] show "distinct xs \<Longrightarrow> js_set xs = xs" by (simp add: js_set_def)
qed

section \<open>Accounts\<close>

text \<open>The properties of an account that the selector and its pages read.\<close>

record Account =
  ac_id :: string
  ac_phone :: "string option"
  ac_telegram_id :: "int option"
  ac_first_name :: "string option"
  ac_last_name :: "string option"
  ac_username :: "string option"
  ac_is_active :: bool
  ac_for_sale :: bool
  ac_folder_ids :: "string list option"

section \<open>The filter\<close>

definition or_blank :: "string option \<Rightarrow> string" where "or_blank v = (case v of None \<Rightarrow> [] | Some s \<Rightarrow> s)"

text \<open>\<open>replace(/^@/, "")\<close>.\<close>

definition drop_at :: "string \<Rightarrow> string" where "drop_at s = (case s of CHR ''@'' # t \<Rightarrow> t | _ \<Rightarrow> s)"

definition account_search :: "string \<Rightarrow> Account \<Rightarrow> bool" where
  "account_search searchQuery acc \<longleftrightarrow>
     (let rawQ = trim (toLowerCase searchQuery); cleanQ = drop_at rawQ; digitQ = only_digits rawQ;
          fullName = toLowerCase (or_blank (ac_first_name acc) @ '' '' @ or_blank (ac_last_name acc));
          username = drop_at (toLowerCase (or_blank (ac_username acc)));
          rawPhone = toLowerCase (or_blank (ac_phone acc));
          tgId = (case ac_telegram_id acc of None \<Rightarrow> [] | Some n \<Rightarrow> (if n = 0 then [] else int_str n))
      in str_includes fullName rawQ \<or> (cleanQ \<noteq> [] \<and> str_includes fullName cleanQ)
         \<or> str_includes username cleanQ
         \<or> str_includes rawPhone rawQ \<or> (3 \<le> length digitQ \<and> str_includes (only_digits rawPhone) digitQ)
         \<or> str_includes tgId rawQ)"

definition account_matches :: "string option \<Rightarrow> string \<Rightarrow> Account \<Rightarrow> bool" where
  "account_matches selectedFolderId searchQuery acc \<longleftrightarrow>
     (truthy selectedFolderId \<longrightarrow> (case ac_folder_ids acc of None \<Rightarrow> False | Some fs \<Rightarrow> the selectedFolderId \<in> set fs))
     \<and> (trim searchQuery \<noteq> [] \<longrightarrow> account_search searchQuery acc)"

definition filteredAccounts :: "string option \<Rightarrow> string \<Rightarrow> Account list \<Rightarrow> Account list" where
  "filteredAccounts selectedFolderId searchQuery accounts = filter (account_matches selectedFolderId searchQuery) accounts"

section \<open>Changing the selection\<close>

text \<open>Each handler gives the selection that \<open>onChange\<close> is called with, \<open>None\<close> when it is not called.\<close>

definition handleToggle :: "bool \<Rightarrow> string \<Rightarrow> string list \<Rightarrow> string list option" where
  "handleToggle disabled i selected =
     (if disabled then None
      else let nextSet = js_set selected in Some (if i \<in> set nextSet then js_delete nextSet i else js_add nextSet i))"

definition handleSelectAll :: "bool \<Rightarrow> Account list \<Rightarrow> string list \<Rightarrow> string list option" where
  "handleSelectAll disabled shown selected =
     (if disabled \<or> shown = [] then None else Some (foldl js_add (js_set selected) (map ac_id shown)))"

definition handleDeselectAll :: "bool \<Rightarrow> Account list \<Rightarrow> string list \<Rightarrow> string list option" where
  "handleDeselectAll disabled shown selected =
     (if disabled then None else Some (foldl js_delete (js_set selected) (map ac_id shown)))"

definition isAllFilteredSelected :: "Account list \<Rightarrow> string list \<Rightarrow> bool" where
  "isAllFilteredSelected shown selected \<longleftrightarrow> shown \<noteq> [] \<and> list_all (\<lambda>a. ac_id a \<in> set selected) shown"

text \<open>What the controls of the selector can make of a selection: the offered accounts may be toggled one by one, all
  that are shown at once, or cleared.\<close>

inductive selection_step :: "Account list \<Rightarrow> string list \<Rightarrow> string list \<Rightarrow> bool" for accounts where
  toggled: "a \<in> set accounts \<Longrightarrow> handleToggle False (ac_id a) s = Some t \<Longrightarrow> selection_step accounts s t"
| all_selected: "handleSelectAll False (filteredAccounts f q accounts) s = Some t \<Longrightarrow> selection_step accounts s t"
| all_deselected: "handleDeselectAll False (filteredAccounts f q accounts) s = Some t \<Longrightarrow> selection_step accounts s t"
| cleared: "selection_step accounts s []"

lemma selection_step_sound:
  assumes "selection_step accounts s t"
  shows "distinct t" "set t \<subseteq> set s \<union> ac_id ` set accounts"
  using assms
  by (induction rule: selection_step.induct)
    (auto simp: handleToggle_def handleSelectAll_def handleDeselectAll_def filteredAccounts_def Let_def distinct_foldl_delete
      split: if_splits)

text \<open>The button for all accounts selects exactly those that are shown besides what was selected, shows that they are,
  and pressed again removes exactly the shown ones; accounts hidden by the filter keep their state.\<close>

theorem select_all_shown:
  assumes "shown = filteredAccounts f q accounts" "shown \<noteq> []" "handleSelectAll False shown s = Some t"
    "handleDeselectAll False shown t = Some u"
  shows "set t = set s \<union> ac_id ` set shown \<and> isAllFilteredSelected shown t \<and> set u = set s - ac_id ` set shown \<and> distinct u"
  using assms(2-)
  by (auto simp: handleSelectAll_def handleDeselectAll_def isAllFilteredSelected_def list_all_iff distinct_foldl_delete split: if_splits)

text \<open>Toggling an account twice restores the selection up to order.\<close>

theorem toggle_twice:
  assumes "handleToggle False i s = Some t" "handleToggle False i t = Some u"
  shows "set u = set s"
  using assms by (auto simp: handleToggle_def Let_def split: if_splits)

text \<open>A search for a user name finds the account with or without the sign, whatever the case.\<close>

theorem username_is_found:
  assumes "ac_username a = Some name" "trim (toLowerCase name) = toLowerCase name" "\<not> startsWith (toLowerCase name) ''@''"
  shows "account_search name a \<and> account_search (CHR ''@'' # name) a"
proof -
  let ?n = "toLowerCase name"
  have at: "toLowerCase (CHR ''@'' # name) = CHR ''@'' # ?n" by (simp add: toLowerCase_def lower_char_def)
  have "drop_at ?n = ?n" using assms(3) by (auto simp: drop_at_def split: list.splits char.splits bool.splits)
  moreover have "trim (CHR ''@'' # ?n) = CHR ''@'' # ?n"
  proof -
    have "rev (CHR ''@'' # ?n) = rev ?n @ ''@''" by simp
    have ws: "\<not> is_ws (CHR ''@'')" by (simp add: is_ws_def)
    have d: "dropWhile is_ws (rev ?n @ ''@'') = rev ?n @ ''@''"
    proof (cases "rev ?n")
      case (Cons c cs)
      have "rev (dropWhile is_ws (rev (dropWhile is_ws ?n))) = ?n" using assms(2) by (simp add: trim_def)
      then have "dropWhile is_ws (rev (dropWhile is_ws ?n)) = rev ?n" by (metis rev_rev_ident)
      then have "\<not> is_ws (hd (rev ?n))" using Cons by (metis hd_dropWhile list.distinct(1))
      then show ?thesis using Cons by simp
    qed (simp add: ws)
    then show ?thesis by (simp add: trim_def ws)
  qed
  moreover have "drop_at (CHR ''@'' # ?n) = ?n" by (simp add: drop_at_def)
  moreover have "str_includes ?n ?n" by (metis append_Nil append_Nil2 str_includes_iff)
  ultimately show ?thesis using assms(1,2) by (simp add: account_search_def at or_blank_def Let_def)
qed

end
