(* ===== verification/BroadcastPage.thy ===== *)
theory BroadcastPage
  imports AccountSelector JsValue
begin

text \<open>
  The page for a new broadcast, \<open>src/frontend/src/app/(dashboard)/broadcast/new/page.tsx\<close>: the form, its validation,
  the two dialogs and the request that starts the broadcast.

  The accounts of running and paused jobs are busy; they are not offered and are dropped from the selection by an
  effect.  The role of the user is a parameter.  Messages of the validation are constructors.  The page also has a
  panel for a running job, but nothing sets \<open>activeJobId\<close>, so the panel and what feeds it are left out.
\<close>

section \<open>Busy accounts\<close>

record broadcast_job =
  bj_status :: string
  bj_account_ids :: "string list option"

definition busyAccountIds :: "string list option \<Rightarrow> broadcast_job list option \<Rightarrow> string list" where
  "busyAccountIds summary allJobs =
     foldl js_add (js_set (case summary of None \<Rightarrow> [] | Some ids \<Rightarrow> ids))
       (concat (map (\<lambda>j. case bj_account_ids j of None \<Rightarrow> [] | Some ids \<Rightarrow> ids)
          (filter (\<lambda>j. bj_status j = ''running'' \<or> bj_status j = ''paused'') (case allJobs of None \<Rightarrow> [] | Some js \<Rightarrow> js))))"

definition allAccounts :: "Account list option \<Rightarrow> Account list" where
  "allAccounts raw = (case raw of None \<Rightarrow> [] | Some as \<Rightarrow> filter (\<lambda>a. ac_is_active a \<and> \<not> ac_for_sale a) as)"

lemma set_busy: "set (busyAccountIds summary jobs) =
    set (case summary of None \<Rightarrow> [] | Some ids \<Rightarrow> ids)
    \<union> {i. \<exists>j \<in> set (case jobs of None \<Rightarrow> [] | Some js \<Rightarrow> js). (bj_status j = ''running'' \<or> bj_status j = ''paused'')
          \<and> i \<in> set (case bj_account_ids j of None \<Rightarrow> [] | Some ids \<Rightarrow> ids)}"
  by (auto simp: busyAccountIds_def)

section \<open>The form\<close>

datatype text_mode = Multi_random | Single_text

datatype validation_error = NoAccount | OverLimit string nat nat | NoGroupList | NoTextList | NoText | BadStartTime | BadEndTime

record broadcast_request =
  sr_account_ids :: "string list"
  sr_group_list_id :: string
  sr_text_list_id :: "string option"
  sr_mode :: text_mode
  sr_custom_text :: "string option"
  sr_delay_per_group :: int
  sr_delay_after_all :: int
  sr_delay_randomized :: bool
  sr_log_destination :: "string option"
  sr_schedule_enabled :: bool
  sr_schedule_start_time :: "string option"
  sr_schedule_end_time :: "string option"

record broadcast_page =
  bp_raw :: "Account list option"
  bp_busy :: "string list"
  bp_selected :: "string list"
  bp_groupListId :: string
  bp_textListId :: string
  bp_mode :: text_mode
  bp_customText :: string
  bp_delayPerGroup :: string
  bp_delayAfterAll :: string
  bp_delayRandomized :: bool
  bp_scheduleEnabled :: bool
  bp_startTime :: string
  bp_endTime :: string
  bp_logDestination :: string
  bp_logWebOnly :: bool
  bp_confirmOpen :: bool
  bp_warningOpen :: bool
  bp_conflictNames :: "string list"
  bp_validationError :: "validation_error option"
  bp_attemptedSubmit :: bool
  bp_inflight :: "broadcast_request list"
  bp_posts :: "(string list \<times> broadcast_request) list"
  bp_pushed :: "string list"

definition new_broadcast_page :: broadcast_page where
  "new_broadcast_page =
     \<lparr>bp_raw = None, bp_busy = [], bp_selected = [], bp_groupListId = [], bp_textListId = [], bp_mode = Multi_random, bp_customText = [],
      bp_delayPerGroup = ''5'', bp_delayAfterAll = ''60'', bp_delayRandomized = False, bp_scheduleEnabled = False,
      bp_startTime = ''07:00'', bp_endTime = ''17:00'', bp_logDestination = ''@teleboslogging_bot'', bp_logWebOnly = False,
      bp_confirmOpen = False, bp_warningOpen = False, bp_conflictNames = [], bp_validationError = None, bp_attemptedSubmit = False,
      bp_inflight = [], bp_posts = [], bp_pushed = []\<rparr>"

text \<open>The accounts the selector offers.\<close>

definition offered :: "broadcast_page \<Rightarrow> Account list" where
  "offered p = filter (\<lambda>a. ac_id a \<notin> set (bp_busy p)) (allAccounts (bp_raw p))"

text \<open>A change of the form clears the validation error when one of the watched values changes.\<close>

definition watched :: "broadcast_page \<Rightarrow> string list \<times> string \<times> string \<times> string \<times> text_mode \<times> bool \<times> string \<times> string" where
  "watched p = (bp_selected p, bp_groupListId p, bp_textListId p, bp_customText p, bp_mode p, bp_scheduleEnabled p, bp_startTime p, bp_endTime p)"

definition edited :: "(broadcast_page \<Rightarrow> broadcast_page) \<Rightarrow> broadcast_page \<Rightarrow> broadcast_page" where
  "edited f p = (let q = f p in if watched q = watched p then q else q\<lparr>bp_validationError := None\<rparr>)"

text \<open>New data about busy accounts, with the effect that drops them from the selection.\<close>

definition busy_changes :: "string list \<Rightarrow> broadcast_page \<Rightarrow> broadcast_page" where
  "busy_changes busy = edited (\<lambda>p. p\<lparr>bp_busy := busy, bp_selected := (if busy = [] then bp_selected p else filter (\<lambda>i. i \<notin> set busy) (bp_selected p))\<rparr>)"

definition planMaxBroadcastAccounts :: "string \<Rightarrow> nat" where
  "planMaxBroadcastAccounts role =
     (if role = ''freetrial'' then 1 else if role = ''basic'' then 1 else if role = ''pro'' then 3
      else if role = ''premium'' then 5 else if role = ''owner'' then 9999 else 1)"

definition planName :: "string \<Rightarrow> string" where
  "planName role =
     (if role = ''freetrial'' then ''Free Trial'' else if role = ''basic'' then ''Starter'' else if role = ''pro'' then ''Pro''
      else if role = ''premium'' then ''Business'' else role)"

definition userRole :: "string option \<Rightarrow> string" where "userRole role = the (opt_or role (Some ''freetrial''))"

text \<open>\<open>/^([01]\d|2[0-3]):([0-5]\d)$/\<close>.\<close>

fun valid_time :: "string \<Rightarrow> bool" where
  "valid_time [a, b, c, d, e] =
     ((((a = CHR ''0'' \<or> a = CHR ''1'') \<and> is_digit b) \<or> (a = CHR ''2'' \<and> is_digit b \<and> digit_val b \<le> 3))
      \<and> c = CHR '':'' \<and> is_digit d \<and> digit_val d \<le> 5 \<and> is_digit e)"
| "valid_time _ = False"

definition form_error :: "string option \<Rightarrow> broadcast_page \<Rightarrow> validation_error option" where
  "form_error role p =
     (let n = length (bp_selected p); r = userRole role; maxAllowed = planMaxBroadcastAccounts r
      in if n = 0 then Some NoAccount
         else if n > maxAllowed then Some (OverLimit (or_str (planName r) r) maxAllowed n)
         else if bp_groupListId p = [] then Some NoGroupList
         else if bp_mode p = Multi_random \<and> bp_textListId p = [] then Some NoTextList
         else if bp_mode p = Single_text \<and> trim (bp_customText p) = [] then Some NoText
         else if bp_scheduleEnabled p \<and> (bp_startTime p = [] \<or> \<not> valid_time (trim (bp_startTime p))) then Some BadStartTime
         else if bp_scheduleEnabled p \<and> (bp_endTime p = [] \<or> \<not> valid_time (trim (bp_endTime p))) then Some BadEndTime
         else None)"

definition account_name :: "Account \<Rightarrow> string" where
  "account_name a = (case opt_or (ac_first_name a) (ac_phone a) of None \<Rightarrow> [] | Some n \<Rightarrow> n)"

definition handlePreStart :: "string option \<Rightarrow> broadcast_page \<Rightarrow> broadcast_page" where
  "handlePreStart role p =
     (let p1 = p\<lparr>bp_attemptedSubmit := True, bp_validationError := form_error role p\<rparr>
      in if form_error role p \<noteq> None then p1
         else
           let conflicts = filter (\<lambda>i. i \<in> set (bp_busy p)) (bp_selected p)
           in if conflicts \<noteq> []
              then p1\<lparr>bp_conflictNames := map account_name (filter (\<lambda>a. ac_id a \<in> set conflicts) (allAccounts (bp_raw p))), bp_warningOpen := True\<rparr>
              else p1\<lparr>bp_confirmOpen := True\<rparr>)"

definition start_payload :: "broadcast_page \<Rightarrow> broadcast_request" where
  "start_payload p =
     \<lparr>sr_account_ids = bp_selected p, sr_group_list_id = bp_groupListId p, sr_text_list_id = opt_or (Some (bp_textListId p)) None,
      sr_mode = bp_mode p, sr_custom_text = (if bp_mode p = Single_text then Some (bp_customText p) else None),
      sr_delay_per_group = max 1 (int_or (bp_delayPerGroup p) 5), sr_delay_after_all = max 0 (int_or (bp_delayAfterAll p) 0),
      sr_delay_randomized = bp_delayRandomized p,
      sr_log_destination = (if bp_logWebOnly p then Some ''web_only'' else opt_or (Some (trim (bp_logDestination p))) None),
      sr_schedule_enabled = bp_scheduleEnabled p,
      sr_schedule_start_time = (if bp_scheduleEnabled p then Some (trim (bp_startTime p)) else None),
      sr_schedule_end_time = (if bp_scheduleEnabled p then Some (trim (bp_endTime p)) else None)\<rparr>"

definition handleConfirmStart :: "broadcast_page \<Rightarrow> broadcast_page" where
  "handleConfirmStart p =
     (if bp_selected p = [] \<or> bp_groupListId p = [] then p
      else p\<lparr>bp_inflight := start_payload p # bp_inflight p, bp_posts := (bp_busy p, start_payload p) # bp_posts p\<rparr>)"

text \<open>The answer: the id of the job, \<open>None\<close> when the request failed.\<close>

definition start_answered :: "broadcast_request \<Rightarrow> string option \<Rightarrow> broadcast_page \<Rightarrow> broadcast_page" where
  "start_answered r answer p =
     (let p1 = p\<lparr>bp_inflight := remove1 r (bp_inflight p)\<rparr>; totalAccounts = length (sr_account_ids r)
      in case answer of
           None \<Rightarrow> p1
         | Some job \<Rightarrow>
             p1\<lparr>bp_confirmOpen := False, bp_warningOpen := False,
                bp_pushed := bp_pushed p1 @ [''/broadcast/success/'' @ job
                  @ (if 1 < totalAccounts then ''?totalJobs='' @ int_str (int totalAccounts) else [])]\<rparr>)"

definition proceed_anyway :: "broadcast_page \<Rightarrow> broadcast_page" where
  "proceed_anyway p = p\<lparr>bp_warningOpen := False, bp_confirmOpen := True\<rparr>"

section \<open>The page as a machine\<close>

text \<open>The dialogs are modal.  The buttons of the confirmation stay enabled while its request is under way.\<close>

inductive broadcast_step :: "string option \<Rightarrow> broadcast_page \<Rightarrow> unit \<Rightarrow> broadcast_page \<Rightarrow> bool" for role where
  accounts_load: "broadcast_step role p () (p\<lparr>bp_raw := raw\<rparr>)"
| jobs_load: "broadcast_step role p () (busy_changes (busyAccountIds summary jobs) p)"
| selects: "\<not> bp_confirmOpen p \<Longrightarrow> \<not> bp_warningOpen p \<Longrightarrow> selection_step (offered p) (bp_selected p) ids \<Longrightarrow>
    broadcast_step role p () (edited (\<lambda>p. p\<lparr>bp_selected := ids\<rparr>) p)"
| picks_lists: "\<not> bp_confirmOpen p \<Longrightarrow> \<not> bp_warningOpen p \<Longrightarrow>
    broadcast_step role p () (edited (\<lambda>p. p\<lparr>bp_groupListId := g, bp_textListId := t\<rparr>) p)"
| writes_text: "\<not> bp_confirmOpen p \<Longrightarrow> \<not> bp_warningOpen p \<Longrightarrow>
    broadcast_step role p () (edited (\<lambda>p. p\<lparr>bp_mode := m, bp_customText := v\<rparr>) p)"
| sets_delays: "\<not> bp_confirmOpen p \<Longrightarrow> \<not> bp_warningOpen p \<Longrightarrow>
    broadcast_step role p () (p\<lparr>bp_delayPerGroup := only_digits a, bp_delayAfterAll := only_digits b, bp_delayRandomized := c\<rparr>)"
| schedules: "\<not> bp_confirmOpen p \<Longrightarrow> \<not> bp_warningOpen p \<Longrightarrow>
    broadcast_step role p () (edited (\<lambda>p. p\<lparr>bp_scheduleEnabled := b, bp_startTime := v, bp_endTime := w\<rparr>) p)"
| logs_to: "\<not> bp_confirmOpen p \<Longrightarrow> \<not> bp_warningOpen p \<Longrightarrow> broadcast_step role p () (p\<lparr>bp_logDestination := v, bp_logWebOnly := b\<rparr>)"
| starts: "\<not> bp_confirmOpen p \<Longrightarrow> \<not> bp_warningOpen p \<Longrightarrow> bp_inflight p = [] \<Longrightarrow> broadcast_step role p () (handlePreStart role p)"
| warns: "bp_warningOpen p \<Longrightarrow> broadcast_step role p () (proceed_anyway p)"
| confirms: "bp_confirmOpen p \<Longrightarrow> broadcast_step role p () (handleConfirmStart p)"
| dismisses: "broadcast_step role p () (p\<lparr>bp_confirmOpen := False, bp_warningOpen := False\<rparr>)"
| answers: "r \<in> set (bp_inflight p) \<Longrightarrow> broadcast_step role p () (start_answered r a p)"

text \<open>What a request promises, with the accounts that were busy when it left.\<close>

definition start_ok :: "string option \<Rightarrow> string list \<times> broadcast_request \<Rightarrow> bool" where
  "start_ok role x \<longleftrightarrow>
     (let r = snd x
      in sr_account_ids r \<noteq> [] \<and> distinct (sr_account_ids r) \<and> set (sr_account_ids r) \<inter> set (fst x) = {}
         \<and> length (sr_account_ids r) \<le> planMaxBroadcastAccounts (userRole role)
         \<and> sr_group_list_id r \<noteq> []
         \<and> (case sr_mode r of Multi_random \<Rightarrow> truthy (sr_text_list_id r) \<and> sr_custom_text r = None
            | Single_text \<Rightarrow> trim (the (sr_custom_text r)) \<noteq> [])
         \<and> 1 \<le> sr_delay_per_group r \<and> 0 \<le> sr_delay_after_all r
         \<and> (sr_schedule_enabled r \<longrightarrow> valid_time (the (sr_schedule_start_time r)) \<and> valid_time (the (sr_schedule_end_time r))))"

definition broadcast_inv :: "string option \<Rightarrow> broadcast_page \<Rightarrow> bool" where
  "broadcast_inv role p \<longleftrightarrow>
     distinct (bp_selected p) \<and> set (bp_selected p) \<inter> set (bp_busy p) = {} \<and> \<not> bp_warningOpen p
     \<and> (bp_confirmOpen p \<longrightarrow> bp_selected p = [] \<or> form_error role p = None)
     \<and> list_all (start_ok role) (bp_posts p)"

lemma edited_fields [simp]:
  "bp_selected (edited f p) = bp_selected (f p)" "bp_busy (edited f p) = bp_busy (f p)" "bp_warningOpen (edited f p) = bp_warningOpen (f p)"
  "bp_confirmOpen (edited f p) = bp_confirmOpen (f p)" "bp_posts (edited f p) = bp_posts (f p)" "bp_groupListId (edited f p) = bp_groupListId (f p)"
  "bp_mode (edited f p) = bp_mode (f p)" "bp_textListId (edited f p) = bp_textListId (f p)" "bp_customText (edited f p) = bp_customText (f p)"
  "bp_scheduleEnabled (edited f p) = bp_scheduleEnabled (f p)" "bp_startTime (edited f p) = bp_startTime (f p)" "bp_endTime (edited f p) = bp_endTime (f p)"
  by (simp_all add: edited_def Let_def)

lemma form_error_cong:
  assumes "bp_selected q = bp_selected p" "bp_groupListId q = bp_groupListId p" "bp_mode q = bp_mode p" "bp_textListId q = bp_textListId p"
    "bp_customText q = bp_customText p" "bp_scheduleEnabled q = bp_scheduleEnabled p" "bp_startTime q = bp_startTime p" "bp_endTime q = bp_endTime p"
  shows "form_error role q = form_error role p"
  unfolding form_error_def assms ..

lemma form_error_None:
  "form_error role p = None \<longleftrightarrow>
     bp_selected p \<noteq> [] \<and> length (bp_selected p) \<le> planMaxBroadcastAccounts (userRole role) \<and> bp_groupListId p \<noteq> []
     \<and> (bp_mode p = Multi_random \<longrightarrow> bp_textListId p \<noteq> []) \<and> (bp_mode p = Single_text \<longrightarrow> trim (bp_customText p) \<noteq> [])
     \<and> (bp_scheduleEnabled p \<longrightarrow> bp_startTime p \<noteq> [] \<and> valid_time (trim (bp_startTime p)) \<and> bp_endTime p \<noteq> [] \<and> valid_time (trim (bp_endTime p)))"
  by (simp add: form_error_def Let_def not_less [symmetric]) blast

text \<open>Dropping accounts from a valid form leaves it valid or without accounts.\<close>

lemma form_error_drop:
  assumes "form_error role p = None" "bp_selected q = filter P (bp_selected p)" "bp_groupListId q = bp_groupListId p" "bp_mode q = bp_mode p"
    "bp_textListId q = bp_textListId p" "bp_customText q = bp_customText p" "bp_scheduleEnabled q = bp_scheduleEnabled p"
    "bp_startTime q = bp_startTime p" "bp_endTime q = bp_endTime p"
  shows "bp_selected q = [] \<or> form_error role q = None"
  using assms(1) le_trans [OF length_filter_le, of "bp_selected p" _ P] unfolding form_error_None assms(2-) by blast

lemma start_payload_ok:
  assumes "broadcast_inv role p" "bp_confirmOpen p" "bp_selected p \<noteq> []"
  shows "start_ok role (bp_busy p, start_payload p)"
proof -
  have "form_error role p = None" using assms by (simp add: broadcast_inv_def)
  then show ?thesis using assms(1,3)
    by (cases "bp_mode p") (auto simp: form_error_None start_ok_def start_payload_def broadcast_inv_def Let_def)
qed

lemma broadcast_step_inv: "broadcast_step role p u q \<Longrightarrow> broadcast_inv role p \<Longrightarrow> broadcast_inv role q"
proof (induction rule: broadcast_step.induct)
  case (jobs_load p summary jobs)
  let ?b = "busyAccountIds summary jobs"
  let ?q = "busy_changes ?b p"
  have drop: "bp_selected ?q = filter (\<lambda>i. i \<notin> set ?b) (bp_selected p)" by (simp add: busy_changes_def)
  have "bp_selected ?q = [] \<or> form_error role ?q = None" if "form_error role p = None"
    by (rule form_error_drop [OF that drop]) (simp_all add: busy_changes_def)
  then show ?case using jobs_load drop by (auto simp: broadcast_inv_def busy_changes_def)
next
  case (selects p ids)
  have "distinct ids" "set ids \<subseteq> set (bp_selected p) \<union> ac_id ` set (offered p)" using selection_step_sound [OF selects(3)] by auto
  moreover have "ac_id ` set (offered p) \<inter> set (bp_busy p) = {}" by (auto simp: offered_def)
  ultimately show ?case using selects by (auto simp: broadcast_inv_def)
next
  case (starts p)
  have "filter (\<lambda>i. i \<in> set (bp_busy p)) (bp_selected p) = []" using starts by (auto simp: broadcast_inv_def filter_empty_conv)
  moreover have "form_error role (p\<lparr>bp_attemptedSubmit := b, bp_validationError := e, bp_confirmOpen := c\<rparr>) = form_error role p" for b e c
    by (rule form_error_cong) simp_all
  ultimately show ?case using starts by (auto simp: broadcast_inv_def handlePreStart_def Let_def)
next
  case (confirms p)
  have "form_error role (p\<lparr>bp_inflight := i, bp_posts := t\<rparr>) = form_error role p" for i t by (rule form_error_cong) simp_all
  then show ?case using confirms start_payload_ok [of role p] by (auto simp: broadcast_inv_def handleConfirmStart_def)
next
  case (answers r p a)
  have "form_error role (p\<lparr>bp_inflight := i\<rparr>) = form_error role p" for i by (rule form_error_cong) simp_all
  then show ?case using answers by (auto simp: broadcast_inv_def start_answered_def Let_def split: option.splits)
next
  case (accounts_load p raw)
  have "form_error role (p\<lparr>bp_raw := raw\<rparr>) = form_error role p" by (rule form_error_cong) simp_all
  then show ?case using accounts_load by (simp add: broadcast_inv_def)
qed (simp_all add: broadcast_inv_def)

interpretation bpm: machine "\<lambda>p. p = new_broadcast_page" "broadcast_step role" "broadcast_inv role" for role
proof
  show "broadcast_inv role p" if "p = new_broadcast_page" for p using that by (simp add: broadcast_inv_def new_broadcast_page_def)
qed (rule broadcast_step_inv)

section \<open>Properties\<close>

text \<open>C18: whatever is selected, typed, confirmed and answered, and however the list of active jobs changes meanwhile,
  every broadcast the page starts is for at least one account and at most as many as the plan allows, none of them
  twice and none tied to an active broadcast that the page knows of; it names a group list and a text, waits at
  least a second between groups, and a schedule has two valid times.\<close>

theorem broadcasts_start_allowed:
  assumes "reach (\<lambda>p. p = new_broadcast_page) (broadcast_step role) p"
  shows "list_all (start_ok role) (bp_posts p)"
  using bpm.reach_inv [OF assms] by (simp add: broadcast_inv_def)

definition demo_sender :: Account where
  "demo_sender = \<lparr>ac_id = ''a1'', ac_phone = Some ''+62'', ac_telegram_id = None, ac_first_name = None, ac_last_name = None,
     ac_username = None, ac_is_active = True, ac_for_sale = False, ac_folder_ids = None\<rparr>"

definition demo_form :: broadcast_page where
  "demo_form = edited (\<lambda>p. p\<lparr>bp_groupListId := ''g'', bp_textListId := ''t''\<rparr>)
     (edited (\<lambda>p. p\<lparr>bp_selected := [''a1'']\<rparr>) (new_broadcast_page\<lparr>bp_raw := Some [demo_sender]\<rparr>))"

definition demo_started :: broadcast_page where "demo_started = handleConfirmStart (handlePreStart None demo_form)"

lemma demo_form_eq:
  "demo_form = new_broadcast_page\<lparr>bp_raw := Some [demo_sender], bp_selected := [''a1''], bp_groupListId := ''g'', bp_textListId := ''t''\<rparr>"
  by (simp add: demo_form_def edited_def Let_def new_broadcast_page_def)

lemma demo_prestart: "bp_confirmOpen (handlePreStart None demo_form)" and demo_form_ok: "form_error None demo_form = None"
proof -
  show ok: "form_error None demo_form = None"
    by (simp add: form_error_None demo_form_eq new_broadcast_page_def userRole_def planMaxBroadcastAccounts_def)
  show "bp_confirmOpen (handlePreStart None demo_form)"
    by (simp add: handlePreStart_def ok) (simp add: demo_form_eq new_broadcast_page_def)
qed

lemma demo_started_reach: "reach (\<lambda>p. p = new_broadcast_page) (broadcast_step None) demo_started"
proof -
  let ?r = "reach (\<lambda>p. p = new_broadcast_page) (broadcast_step None)"
  let ?p1 = "new_broadcast_page\<lparr>bp_raw := Some [demo_sender]\<rparr>"
  let ?p2 = "edited (\<lambda>p. p\<lparr>bp_selected := [''a1'']\<rparr>) ?p1"
  have "?r new_broadcast_page" by (rule reach_start) simp
  moreover have "broadcast_step None new_broadcast_page () ?p1" by (rule broadcast_step.accounts_load)
  ultimately have "?r ?p1" by (rule reach_step)
  moreover have "broadcast_step None ?p1 () ?p2"
  proof (rule broadcast_step.selects)
    have "demo_sender \<in> set (offered ?p1)" by (simp add: offered_def allAccounts_def demo_sender_def new_broadcast_page_def)
    then show "selection_step (offered ?p1) (bp_selected ?p1) [''a1'']"
      by (rule selection_step.toggled)
        (simp add: handleToggle_def js_set_def js_add_def demo_sender_def new_broadcast_page_def)
  qed (simp_all add: new_broadcast_page_def)
  ultimately have "?r ?p2" by (rule reach_step)
  moreover have "broadcast_step None ?p2 () demo_form"
    unfolding demo_form_def by (rule broadcast_step.picks_lists) (simp_all add: new_broadcast_page_def)
  ultimately have "?r demo_form" by (rule reach_step)
  moreover have "broadcast_step None demo_form () (handlePreStart None demo_form)"
    by (rule broadcast_step.starts) (simp_all add: demo_form_eq new_broadcast_page_def)
  ultimately have "?r (handlePreStart None demo_form)" by (rule reach_step)
  moreover have "broadcast_step None (handlePreStart None demo_form) () demo_started"
    unfolding demo_started_def by (rule broadcast_step.confirms [OF demo_prestart])
  ultimately show ?thesis by (rule reach_step)
qed

theorem broadcasts_start_allowed_witness:
  "list_all (start_ok None) (bp_posts demo_started) \<and> map (sr_account_ids \<circ> snd) (bp_posts demo_started) = [[''a1'']]"
proof -
  have "map (sr_account_ids \<circ> snd) (bp_posts demo_started) = [[''a1'']]"
    by (simp add: demo_started_def handleConfirmStart_def handlePreStart_def demo_form_ok start_payload_def Let_def)
      (simp add: demo_form_eq new_broadcast_page_def)
  then show ?thesis using broadcasts_start_allowed [OF demo_started_reach] by blast
qed

text \<open>The warning about busy accounts is never shown: the effect has dropped them before.\<close>

theorem conflict_warning_unreachable:
  assumes "reach (\<lambda>p. p = new_broadcast_page) (broadcast_step role) p"
  shows "\<not> bp_warningOpen p"
  using bpm.reach_inv [OF assms] by (simp add: broadcast_inv_def)

text \<open>The button of the confirmation stays enabled while its request is under way, so pressing it twice starts the
  broadcast twice.\<close>

theorem confirming_twice_starts_twice:
  assumes "bp_confirmOpen p" "bp_selected p \<noteq> []" "bp_groupListId p \<noteq> []"
  shows "broadcast_step role p () (handleConfirmStart p)
    \<and> broadcast_step role (handleConfirmStart p) () (handleConfirmStart (handleConfirmStart p))
    \<and> map snd (bp_posts (handleConfirmStart (handleConfirmStart p))) = start_payload p # start_payload p # map snd (bp_posts p)"
proof -
  have "start_payload (p\<lparr>bp_inflight := i, bp_posts := t\<rparr>) = start_payload p" for i t by (simp add: start_payload_def)
  then have "map snd (bp_posts (handleConfirmStart (handleConfirmStart p))) = start_payload p # start_payload p # map snd (bp_posts p)"
    using assms by (simp add: handleConfirmStart_def)
  moreover have "bp_confirmOpen (handleConfirmStart p)" using assms(1) by (simp add: handleConfirmStart_def)
  ultimately show ?thesis using assms(1) by (blast intro: broadcast_step.confirms)
qed

text \<open>An account that is put up for sale or deactivated after it was selected is no longer offered, but stays
  selected and is sent.\<close>

theorem unavailable_account_still_sent:
  assumes "bp_selected p = [i]" "i \<notin> set (bp_busy p)"
  shows "offered (p\<lparr>bp_raw := Some []\<rparr>) = [] \<and> sr_account_ids (start_payload (p\<lparr>bp_raw := Some []\<rparr>)) = [i]"
  using assms by (simp add: offered_def allAccounts_def start_payload_def)

text \<open>A pause of zero seconds becomes five seconds, a pause of one stays one.\<close>

theorem zero_delay_becomes_five:
  "bp_delayPerGroup p = ''0'' \<Longrightarrow> sr_delay_per_group (start_payload p) = 5"
  "bp_delayPerGroup p = ''1'' \<Longrightarrow> sr_delay_per_group (start_payload p) = 1"
  by (simp_all add: start_payload_def int_or_def parseInt10_digits is_digit_def digits_val_def digit_val_def)

text \<open>The times that pass are exactly those of a clock.\<close>

lemma valid_time_clock:
  assumes "h < 24" "m < 60"
  shows "valid_time (padStart2 (nat_str h) @ '':'' @ padStart2 (nat_str m))"
proof -
  have two: "padStart2 (nat_str n) = [digit_char (n div 10), digit_char (n mod 10)]" if "n < 100" for n
  proof (cases "n < 10")
    case True
    moreover have "digit_char 0 = CHR ''0''" by code_simp
    ultimately show ?thesis by (subst nat_str.simps) (simp add: padStart2_def)
  next
    case False
    then have "n div 10 < 10" using that by simp
    then have "nat_str (n div 10) = [digit_char (n div 10)]" by (subst nat_str.simps) simp
    then show ?thesis using False by (subst nat_str.simps) (simp add: padStart2_def)
  qed
  have "h div 10 = 0 \<or> h div 10 = 1 \<or> h div 10 = 2 \<and> h mod 10 \<le> 3" using assms(1) by presburger
  moreover have "digit_char 0 = CHR ''0''" "digit_char 1 = CHR ''1''" "digit_char (Suc 0) = CHR ''1''" "digit_char 2 = CHR ''2''"
    by code_simp+
  moreover have "m div 10 \<le> 5" using assms(2) by simp
  ultimately show ?thesis using assms by (auto simp: two)
qed

end
