(* ===== verification/Presentation.thy ===== *)
theory Presentation
  imports WalletPage "HOL-Library.While_Combinator"
begin

text \<open>
  Small parts that many pages show: \<open>src/frontend/src/lib/utils.ts\<close>, \<open>data/plans.ts\<close>, the page numbers of
  \<open>components/ui/pagination.tsx\<close>, the strength of a password (\<open>components/public/password-strength-indicator.tsx\<close>)
  and the stores of the theme and the layout.

  Dates are milliseconds; the formatting of \<open>Intl\<close> and \<open>JSON.parse\<close> are parameters.  The dash shown for an absent
  value is written by its UTF-8 bytes.
\<close>

section \<open>lib/utils.ts\<close>

definition dash :: string where "dash = [CHR 0xE2, CHR 0x80, CHR 0x94]"

text \<open>The argument tells whether there is a window, and which locale the store holds (\<open>None\<close> when reading it throws).\<close>

definition getLocale :: "bool \<Rightarrow> string option \<Rightarrow> string" where
  "getLocale window locale = (if window \<and> locale = Some ''id'' then ''id-ID'' else ''en-US'')"

definition formatDate :: "(string \<Rightarrow> int \<Rightarrow> string) \<Rightarrow> string \<Rightarrow> int option \<Rightarrow> string option \<Rightarrow> string" where
  "formatDate intl current date locale =
     (case date of None \<Rightarrow> dash | Some t \<Rightarrow> intl (the (opt_or locale (Some current))) t)"

definition formatRelative :: "(string \<Rightarrow> int \<Rightarrow> string) \<Rightarrow> string \<Rightarrow> int \<Rightarrow> int option \<Rightarrow> string option \<Rightarrow> string" where
  "formatRelative intl current now date locale =
     (case date of
        None \<Rightarrow> dash
      | Some target \<Rightarrow>
          let diff = now - target; mins = diff div 60000; hours = diff div 3600000; days = diff div 86400000;
              l = the (opt_or locale (Some current)); isID = startsWith l ''id''
          in if mins < 1 then (if isID then ''baru saja'' else ''just now'')
             else if mins < 60 then int_str mins @ (if isID then ''m yang lalu'' else ''m ago'')
             else if hours < 24 then int_str hours @ (if isID then ''j yang lalu'' else ''h ago'')
             else if days < 7 then int_str days @ (if isID then ''h yang lalu'' else ''d ago'')
             else formatDate intl current date (Some l))"

definition formatTransactionNote :: "(string \<Rightarrow> json option) \<Rightarrow> string \<Rightarrow> string option \<Rightarrow> string option \<Rightarrow> string" where
  "formatTransactionNote parse current note locale =
     (if \<not> truthy note then dash
      else
        let n = the note; trimmed = trim n; isId = startsWith (the (opt_or locale (Some current))) ''id'';
            buy = (if isId then ''Beli Akun Telegram ('' else ''Buy Telegram Account ('')
        in if startsWith trimmed ''{'' \<and> endsWith trimmed ''}''
           then (case parse trimmed of
                   None \<Rightarrow> n
                 | Some parsed \<Rightarrow>
                     if opt_truthy (jget parsed ''phone'') then buy @ opt_String (jget parsed ''phone'') @ '')''
                     else if opt_truthy (jget parsed ''account_id'')
                     then buy @ ''#'' @ take 8 (opt_String (jget parsed ''account_id'')) @ '')''
                     else if opt_truthy (jget parsed ''order_id'')
                     then (if isId then ''Pesanan SMM (#'' else ''SMM Order (#'') @ take 8 (opt_String (jget parsed ''order_id'')) @ '')''
                     else n)
           else n)"

text \<open>The relative time never says zero, and its unit is the largest that fits.\<close>

theorem relative_units:
  assumes "locale = Some ''en-US''" "0 \<le> now - t" "now - t < 7 * 86400000"
  shows "formatRelative intl c now (Some t) locale =
    (let d = now - t
     in if d < 60000 then ''just now''
        else if d < 3600000 then int_str (d div 60000) @ ''m ago''
        else if d < 86400000 then int_str (d div 3600000) @ ''h ago''
        else int_str (d div 86400000) @ ''d ago'')"
proof -
  let ?d = "now - t"
  have "(?d div 60000 < 1) = (?d < 60000)" "(?d div 60000 < 60) = (?d < 3600000)" "(?d div 3600000 < 24) = (?d < 86400000)"
    "?d div 86400000 < 7"
    using assms(3) by linarith+
  then show ?thesis using assms(1) by (simp add: formatRelative_def Let_def)
qed

section \<open>data/plans.ts\<close>

datatype PlanId = Freetrial | Basic | Pro | Premium

record Plan =
  plan_id :: PlanId
  plan_name :: string
  tagline :: string
  description :: string
  accountLimit :: nat
  monthlyPrice :: string
  plan_price :: string
  yearlyPrice :: string
  yearlyEquivalentPrice :: string
  yearlyDiscount :: string
  plan_amount :: int
  yearlyAmount :: int
  isPopular :: bool
  features :: "(string \<times> string option) list"
  footnote :: string

definition PLANS :: "Plan list" where
  "PLANS = [
   \<lparr>plan_id = Freetrial, plan_name = ''Free Trial'', tagline = ''Uji Coba Otomasi Dasar'',
      description = ''Coba fitur obrolan dan auto-reply selama 5 jam sejak pendaftaran. Pesan dilengkapi watermark.'',
      accountLimit = 1, monthlyPrice = ''Gratis'', plan_price = ''Gratis'', yearlyPrice = ''Gratis'', yearlyEquivalentPrice = ''Rp 0'',
      yearlyDiscount = ''0%'', plan_amount = 0, yearlyAmount = 0, isPopular = False,
      features = [
         (''1 akun Telegram aktif terhubung'', Some ''Batas 1 sesi Telegram untuk uji coba awal''),
         (''Obrolan teks & manajemen chat langsung'', None),
         (''Sistem auto-reply responder aktif'', None),
         (''Masa aktif trial 5 jam'', Some ''Otomatis kedaluwarsa setelah 5 jam sejak pendaftaran''),
         (''Pesan memiliki watermark resmi TeleBos'', None)],
      footnote = ''Gratis selama 5 jam dari saat Anda mendaftar. Tanpa butuh kartu kredit.''\<rparr>,
   \<lparr>plan_id = Basic, plan_name = ''Starter'', tagline = ''Kelola 1 Akun Tanpa Gangguan'',
      description = ''Kelola akun Telegram personal atau bisnis kecil dengan auto-reply dan auto-join grup/channel.'',
      accountLimit = 1, monthlyPrice = ''Rp 5.000'', plan_price = ''Rp 5.000'', yearlyPrice = ''Rp 50.000'', yearlyEquivalentPrice = ''Rp 4.167'',
      yearlyDiscount = ''17%'', plan_amount = 5000, yearlyAmount = 50000, isPopular = False,
      features = [
         (''1 akun Telegram aktif terhubung'', Some ''Kapasitas 1 akun Telegram untuk manajemen langsung''),
         (''Obrolan teks & manajemen chat langsung'', None),
         (''Auto-reply responder otomatis'', None),
         (''Auto-join grup & channel publik'', Some ''Bergabung ke komunitas secara otomatis via index''),
         (''Dukungan proxy standar & enkripsi sesi AES-256'', None)],
      footnote = ''Cocok untuk mulai mengelola komunikasi Telegram secara efisien dan mandiri.''\<rparr>,
   \<lparr>plan_id = Pro, plan_name = ''Pro'', tagline = ''Siaran Promosi Massal Tanpa Watermark'',
      description = ''Kirim pesan siaran massal terjadwal, kelola hingga 3 akun Telegram, dan perluas jangkauan komunitas.'',
      accountLimit = 3, monthlyPrice = ''Rp 10.000'', plan_price = ''Rp 10.000'', yearlyPrice = ''Rp 100.000'', yearlyEquivalentPrice = ''Rp 8.333'',
      yearlyDiscount = ''17%'', plan_amount = 10000, yearlyAmount = 100000, isPopular = False,
      features = [
         (''Kelola hingga 3 akun Telegram terhubung'', Some ''Mendukung hingga 3 akun Telegram aktif sekaligus''),
         (''Siaran broadcast massal tanpa watermark'', Some ''Kirim siaran pesan massal tanpa watermark telebos''),
         (''Jadwal broadcast otomatis & custom template'', None),
         (''Member Inviter & Auto-join grup'', None),
         (''Age Checker & Public Index grup/channel'', None),
         (''Sinkronisasi kontak & log riwayat aktivitas lengkap'', None)],
      footnote = ''Pilihan terbaik dan paling ekonomis untuk pemilik channel & pengelola grup aktif.''\<rparr>,
   \<lparr>plan_id = Premium, plan_name = ''Business'', tagline = ''Kapasitas Skala Besar & Prioritas Tertinggi'',
      description = ''Solusi terlengkap: kapasitas hingga 5 akun, scraping member target, auto-invite, dan prioritas server tercepat.'',
      accountLimit = 5, monthlyPrice = ''Rp 20.000'', plan_price = ''Rp 20.000'', yearlyPrice = ''Rp 200.000'', yearlyEquivalentPrice = ''Rp 16.667'',
      yearlyDiscount = ''17%'', plan_amount = 20000, yearlyAmount = 200000, isPopular = True,
      features = [
         (''Koneksi hingga 5 akun Telegram aktif'', Some ''Mendukung operasional multi-akun hingga 5 akun aktif''),
         (''Siaran broadcast massal dengan antrean server prioritas #1'', None),
         (''Scrape member grup target & auto-invite langsung'', None),
         (''Banding otomatis status SpamBot Telegram'', Some ''Sistem AI appeal otomatis ketika akun terkena limit''),
         (''Filter rotasi proxy & proteksi multi-sesi'', None),
         (''Akses prioritas fitur baru & bantuan teknis 24/7'', None)],
      footnote = ''Pilihan utama digital marketer, agensi, dan power seller akun Telegram.''\<rparr>]"

text \<open>\<open>None\<close> is the exception for an unknown plan.\<close>

definition getPlan :: "PlanId \<Rightarrow> Plan option" where
  "getPlan i = find (\<lambda>p. plan_id p = i) PLANS"

datatype billing_cycle = Monthly | Yearly

record plan_cost =
  priceFormatted :: string
  cost_amount :: int
  period :: string
  equivalent :: "string option"
  discount :: "string option"

definition getPlanPrice :: "PlanId \<Rightarrow> billing_cycle \<Rightarrow> plan_cost option" where
  "getPlanPrice i cycle =
     (case getPlan i of
        None \<Rightarrow> None
      | Some plan \<Rightarrow>
          Some (if i = Freetrial
                then \<lparr>priceFormatted = monthlyPrice plan, cost_amount = 0, period = [], equivalent = None, discount = None\<rparr>
                else if cycle = Yearly
                then \<lparr>priceFormatted = yearlyPrice plan, cost_amount = yearlyAmount plan, period = ''/tahun'',
                      equivalent = Some (yearlyEquivalentPrice plan), discount = Some (yearlyDiscount plan)\<rparr>
                else \<lparr>priceFormatted = monthlyPrice plan, cost_amount = plan_amount plan, period = ''/bulan'', equivalent = None, discount = None\<rparr>))"

text \<open>Every plan exists; exactly one is popular; the printed price of a paid plan is its amount, and a year costs ten
  months.\<close>

lemma plans_complete: "map plan_id PLANS = [Freetrial, Basic, Pro, Premium]"
  by (simp add: PLANS_def)

lemma one_popular_plan: "length (filter isPopular PLANS) = 1"
  by (simp add: PLANS_def)

theorem printed_price_is_charged:
  assumes "getPlanPrice i cycle = Some c" "i \<noteq> Freetrial"
  shows "parsedAmount (priceFormatted c) = Some (cost_amount c)"
proof -
  have digits: "parsedAmount ''Rp 5.000'' = Some 5000" "parsedAmount ''Rp 50.000'' = Some 50000" "parsedAmount ''Rp 10.000'' = Some 10000"
    "parsedAmount ''Rp 100.000'' = Some 100000" "parsedAmount ''Rp 20.000'' = Some 20000" "parsedAmount ''Rp 200.000'' = Some 200000"
    by (simp_all add: parsedAmount_eq only_digits_def is_digit_def digits_val_def digit_val_def)
  show ?thesis
    using assms by (cases i; cases cycle) (auto simp: getPlanPrice_def getPlan_def PLANS_def digits)
qed

theorem year_costs_ten_months:
  assumes "getPlanPrice i Yearly = Some y" "getPlanPrice i Monthly = Some m"
  shows "cost_amount y = 10 * cost_amount m"
  using assms by (cases i) (auto simp: getPlanPrice_def getPlan_def PLANS_def)

section \<open>Page numbers\<close>

datatype page_item = Page int | Ellipsis

text \<open>The loop over the neighbours; \<open>None\<close> would be a loop that does not end.\<close>

definition neighbour_loop :: "int \<Rightarrow> int \<Rightarrow> page_item list \<Rightarrow> page_item list option" where
  "neighbour_loop start end pages =
     map_option snd (while_option (\<lambda>(i, ps). i \<le> end) (\<lambda>(i, ps). (i + 1, ps @ [Page i])) (start, pages))"

definition generatePaginationPages :: "int \<Rightarrow> int \<Rightarrow> int \<Rightarrow> page_item list option" where
  "generatePaginationPages currentPage totalPages maxVisible =
     (if totalPages \<le> maxVisible then Some (map Page [1..totalPages])
      else
        let pages = [Page 1] @ (if currentPage > 3 then [Ellipsis] else [])
        in case neighbour_loop (max 2 (currentPage - 1)) (min (totalPages - 1) (currentPage + 1)) pages of
             None \<Rightarrow> None
           | Some ps \<Rightarrow> Some (ps @ (if currentPage < totalPages - 2 then [Ellipsis] else []) @ [Page totalPages]))"

text \<open>The loop ends, and appends the numbers from its first to its last.\<close>

lemma neighbour_loop_ends: "neighbour_loop a b ps = Some (ps @ map Page [a..b])"
proof -
  let ?P = "\<lambda>x :: int \<times> page_item list. \<exists>n. a \<le> n \<and> (n \<le> b + 1 \<or> n = a) \<and> x = (n, ps @ map Page [a..n - 1])"
  have stays: "?P ((\<lambda>(i, qs). (i + 1, qs @ [Page i])) x)" if "?P x" "(\<lambda>(i, qs). i \<le> b) x" for x
  proof -
    obtain n where n: "a \<le> n" "n \<le> b" "x = (n, ps @ map Page [a..n - 1])" using \<open>?P x\<close> \<open>(\<lambda>(i, qs). i \<le> b) x\<close> by auto
    then have "map Page [a..n - 1] @ [Page n] = map Page [a..n + 1 - 1]" by (simp add: upto_rec2)
    then show ?thesis using n by (intro exI [of _ "n + 1"]) auto
  qed
  have "\<exists>t. while_option (\<lambda>(i, qs). i \<le> b) (\<lambda>(i, qs). (i + 1, qs @ [Page i])) (a, ps) = Some t"
    by (rule measure_while_option_Some [of "\<lambda>_. True" _ _ "\<lambda>(i, qs). nat (b + 1 - i)"]) auto
  then obtain t where t: "while_option (\<lambda>(i, qs). i \<le> b) (\<lambda>(i, qs). (i + 1, qs @ [Page i])) (a, ps) = Some t" by blast
  have start: "?P (a, ps)" by (rule exI [of _ a]) simp
  have "?P t" by (rule while_option_rule [OF _ t, of ?P]) (use stays start in blast)+
  then obtain n where n: "a \<le> n" "n \<le> b + 1 \<or> n = a" "t = (n, ps @ map Page [a..n - 1])" by blast
  have "b < n" using while_option_stop [OF t] n(3) by simp
  have "[a..n - 1] = [a..b]"
  proof (cases "n \<le> b + 1")
    case True
    then have "n - 1 = b" using \<open>b < n\<close> by simp
    then show ?thesis by simp
  next
    case False
    then show ?thesis using n(2) by simp
  qed
  then show ?thesis using t n(3) by (simp add: neighbour_loop_def)
qed

text \<open>A row of page numbers without holes that are not marked, and without marks that hide nothing.\<close>

fun row_ok :: "page_item list \<Rightarrow> bool" where
  "row_ok (Page a # Page b # r) = (b = a + 1 \<and> row_ok (Page b # r))"
| "row_ok (Page a # Ellipsis # Page b # r) = (a + 1 < b \<and> row_ok (Page b # r))"
| "row_ok [Page a] = True"
| "row_ok _ = False"

lemma row_ok_upto: "row_ok (map Page [a..a + int n] @ r) = row_ok (Page (a + int n) # r)"
proof (induction n arbitrary: a)
  case (Suc n)
  have "[a..a + int (Suc n)] = a # [a + 1..a + 1 + int n]" by (simp add: upto_rec1 algebra_simps)
  moreover have "[a + 1..a + 1 + int n] = (a + 1) # [a + 1 + 1..a + 1 + int n]" by (rule upto_rec1) simp
  ultimately show ?case using Suc.IH [of "a + 1"] by (simp add: algebra_simps)
qed simp

lemma row_ok_span: "a \<le> b \<Longrightarrow> row_ok (map Page [a..b] @ r) = row_ok (Page b # r)"
  using row_ok_upto [of a "nat (b - a)" r] by simp

lemma row_ok_cons_span: "a \<le> b \<Longrightarrow> row_ok (Page c # map Page [a..b] @ r) \<longleftrightarrow> a = c + 1 \<and> row_ok (Page b # r)"
  using row_ok_span [of a b r] by (simp add: upto_rec1 [of a b])

lemma row_ok_gap_span: "a \<le> b \<Longrightarrow> row_ok (Page c # Ellipsis # map Page [a..b] @ r) \<longleftrightarrow> c + 1 < a \<and> row_ok (Page b # r)"
  using row_ok_span [of a b r] by (simp add: upto_rec1 [of a b])

text \<open>C34: the row of page numbers is always produced, its loop ends; it begins with the first page, ends with the last,
  shows the current page and its neighbours, increases, and an ellipsis stands exactly where pages are left out.\<close>

theorem page_row_complete:
  assumes "1 \<le> c" "c \<le> t" "1 \<le> m"
  shows "\<exists>row. generatePaginationPages c t m = Some row \<and> row_ok row \<and> hd row = Page 1 \<and> last row = Page t
    \<and> Page ` {max 1 (c - 1)..min t (c + 1)} \<subseteq> set row"
proof (cases "t \<le> m")
  case True
  have "[1..t] = 1 # [2..t]" "[1..t] = [1..t - 1] @ [t]" using assms upto_rec1 [of 1 t] upto_rec2 [of 1 t] by simp_all
  then have "hd (map Page [1..t]) = Page 1" "last (map Page [1..t]) = Page t" by (metis list.map(2) list.sel(1), metis last_snoc list.simps(8,9) map_append)
  moreover have "Page ` {max 1 (c - 1)..min t (c + 1)} \<subseteq> set (map Page [1..t])" by auto
  moreover have "row_ok (map Page [1..t])" using assms row_ok_span [of 1 t "[]"] by simp
  ultimately show ?thesis using True by (simp add: generatePaginationPages_def)
next
  case False
  let ?a = "max 2 (c - 1)" and ?b = "min (t - 1) (c + 1)"
  let ?row = "(Page 1 # (if c > 3 then [Ellipsis] else [])) @ map Page [?a..?b] @ (if c < t - 2 then [Ellipsis] else []) @ [Page t]"
  have row: "generatePaginationPages c t m = Some ?row"
    using False by (simp add: generatePaginationPages_def neighbour_loop_ends Let_def)
  have ok: "row_ok ?row"
  proof (cases "t = 2")
    case True
    then show ?thesis using assms by auto
  next
    case False
    then have ab: "?a \<le> ?b" using assms \<open>\<not> t \<le> m\<close> by simp
    show ?thesis using assms \<open>\<not> t \<le> m\<close> False ab by (auto simp: row_ok_cons_span row_ok_gap_span)
  qed
  have "Page p \<in> set ?row" if "p \<in> {max 1 (c - 1)..min t (c + 1)}" for p
  proof -
    have "p = 1 \<or> p = t \<or> p \<in> {?a..?b}" using that by auto
    then show ?thesis by auto
  qed
  then show ?thesis using row ok by auto
qed

theorem page_row_complete_witness:
  "\<exists>row. generatePaginationPages 5 10 7 = Some row \<and> row_ok row \<and> hd row = Page 1 \<and> last row = Page 10
    \<and> Page ` {max 1 (5 - 1)..min 10 (5 + 1)} \<subseteq> set row"
  by (rule page_row_complete) simp_all

section \<open>The strength of a password\<close>

record PasswordCriteria =
  minLength :: bool
  hasUpperLower :: bool
  hasNumber :: bool
  hasSpecial :: bool

definition in_range :: "nat \<Rightarrow> nat \<Rightarrow> char \<Rightarrow> bool" where
  "in_range a b c \<longleftrightarrow> a \<le> (of_char c :: nat) \<and> (of_char c :: nat) \<le> b"

definition evaluatePasswordCriteria :: "string \<Rightarrow> PasswordCriteria" where
  "evaluatePasswordCriteria password =
     \<lparr>minLength = (8 \<le> length password), hasUpperLower = (list_ex (in_range 97 122) password \<and> list_ex (in_range 65 90) password),
      hasNumber = list_ex is_digit password, hasSpecial = list_ex (\<lambda>c. \<not> is_alpha c \<and> \<not> is_digit c) password\<rparr>"

definition calculatePasswordScore :: "string \<Rightarrow> PasswordCriteria \<Rightarrow> int" where
  "calculatePasswordScore password criteria =
     (if password = [] then 0
      else
        let passed = (if minLength criteria then 1 else 0) + (if hasUpperLower criteria then 1 else 0)
                     + (if hasNumber criteria then 1 else 0) + (if hasSpecial criteria then 1 else 0)
        in if \<not> minLength criteria then 1 else max 1 passed)"

text \<open>The score lies between 0 and 4; 4 means that every criterion holds, and a short password is weak.\<close>

theorem password_score_bounds:
  "let s = calculatePasswordScore p (evaluatePasswordCriteria p)
   in 0 \<le> s \<and> s \<le> 4 \<and> (s = 0 \<longleftrightarrow> p = []) \<and> (length p < 8 \<longrightarrow> s \<le> 1)
      \<and> (s = 4 \<longleftrightarrow> 8 \<le> length p \<and> list_ex (in_range 97 122) p \<and> list_ex (in_range 65 90) p \<and> list_ex is_digit p
                  \<and> list_ex (\<lambda>c. \<not> is_alpha c \<and> \<not> is_digit c) p)"
  by (simp add: calculatePasswordScore_def evaluatePasswordCriteria_def Let_def)

section \<open>store/theme-store.ts\<close>

datatype Theme = Light | Dark | System

datatype ResolvedTheme = RLight | RDark

fun theme_str :: "Theme \<Rightarrow> string" where
  "theme_str Light = ''light''" | "theme_str Dark = ''dark''" | "theme_str System = ''system''"

text \<open>The store with the document's class and colour scheme and the stored choice; \<open>prefers_dark\<close> is what the system
  asks for, and in a browser storage may refuse to be read or written.\<close>

record theme_state =
  th_theme :: Theme
  th_resolved :: ResolvedTheme
  th_hydrated :: bool
  th_dark_class :: bool
  th_scheme :: "ResolvedTheme option"
  th_stored :: "string option"

definition getSystemTheme :: "bool \<Rightarrow> bool \<Rightarrow> ResolvedTheme" where
  "getSystemTheme window prefers_dark = (if \<not> window then RDark else if prefers_dark then RDark else RLight)"

fun resolveTheme :: "bool \<Rightarrow> bool \<Rightarrow> Theme \<Rightarrow> ResolvedTheme" where
  "resolveTheme window prefers_dark System = getSystemTheme window prefers_dark"
| "resolveTheme window prefers_dark Light = RLight"
| "resolveTheme window prefers_dark Dark = RDark"

definition applyThemeToDocument :: "bool \<Rightarrow> ResolvedTheme \<Rightarrow> theme_state \<Rightarrow> theme_state" where
  "applyThemeToDocument window resolved s =
     (if \<not> window then s else s\<lparr>th_dark_class := (resolved = RDark), th_scheme := Some resolved\<rparr>)"

definition init_theme :: "string option \<Rightarrow> bool \<Rightarrow> theme_state" where
  "init_theme stored dark_class =
     \<lparr>th_theme = System, th_resolved = RDark, th_hydrated = False, th_dark_class = dark_class, th_scheme = None, th_stored = stored\<rparr>"

definition setTheme :: "bool \<Rightarrow> bool \<Rightarrow> bool \<Rightarrow> Theme \<Rightarrow> theme_state \<Rightarrow> theme_state" where
  "setTheme window can_store prefers_dark theme s =
     (let s1 = (if window \<and> can_store then s\<lparr>th_stored := Some (theme_str theme)\<rparr> else s);
          resolved = resolveTheme window prefers_dark theme
      in (applyThemeToDocument window resolved s1)\<lparr>th_theme := theme, th_resolved := resolved\<rparr>)"

definition toggleTheme :: "bool \<Rightarrow> bool \<Rightarrow> bool \<Rightarrow> theme_state \<Rightarrow> theme_state" where
  "toggleTheme window can_store prefers_dark s =
     setTheme window can_store prefers_dark (if th_resolved s = RDark then Light else Dark) s"

definition saved_theme :: "bool \<Rightarrow> string option \<Rightarrow> Theme" where
  "saved_theme can_read stored =
     (if \<not> can_read then System
      else if stored = Some ''light'' then Light else if stored = Some ''dark'' then Dark else System)"

definition hydrate_theme :: "bool \<Rightarrow> bool \<Rightarrow> bool \<Rightarrow> theme_state \<Rightarrow> theme_state" where
  "hydrate_theme window can_read prefers_dark s =
     (if \<not> window then s
      else let theme = saved_theme can_read (th_stored s); resolved = resolveTheme window prefers_dark theme
           in (applyThemeToDocument window resolved s)\<lparr>th_theme := theme, th_resolved := resolved, th_hydrated := True\<rparr>)"

text \<open>A theme that could be stored is the theme after the page was loaded again, and the document then looks as the
  theme resolves for what the system asks for at that time.\<close>

theorem theme_survives_reload:
  "let s' = hydrate_theme True True prefers' (init_theme (th_stored (setTheme True True prefers theme s)) d)
   in th_theme s' = theme \<and> th_resolved s' = resolveTheme True prefers' theme \<and> th_dark_class s' = (th_resolved s' = RDark)
      \<and> th_scheme s' = Some (th_resolved s')"
  by (cases theme) (simp_all add: hydrate_theme_def setTheme_def saved_theme_def applyThemeToDocument_def init_theme_def Let_def)

text \<open>In a browser the document always looks as the store says, once a theme was set, toggled or hydrated.\<close>

definition theme_shown :: "theme_state \<Rightarrow> bool" where
  "theme_shown s \<longleftrightarrow> th_dark_class s = (th_resolved s = RDark) \<and> th_scheme s = Some (th_resolved s)"

theorem document_follows_theme:
  "theme_shown (setTheme True b prefers theme s) \<and> theme_shown (toggleTheme True b prefers s) \<and> theme_shown (hydrate_theme True b prefers s)"
  by (simp add: theme_shown_def toggleTheme_def setTheme_def hydrate_theme_def applyThemeToDocument_def Let_def)

text \<open>Toggling always changes what is seen, and twice restores it, but the choice to follow the system is lost.\<close>

theorem toggle_forgets_system:
  "th_resolved (toggleTheme True b prefers s) \<noteq> th_resolved s
   \<and> th_resolved (toggleTheme True b' prefers' (toggleTheme True b prefers s)) = th_resolved s
   \<and> th_theme (toggleTheme True b prefers s) \<noteq> System"
  by (cases "th_resolved s") (simp_all add: toggleTheme_def setTheme_def applyThemeToDocument_def Let_def)

section \<open>store/app-store.ts\<close>

record app_state =
  sidebarOpen :: bool
  selectedAccountId :: "string option"

definition init_app :: app_state where "init_app = \<lparr>sidebarOpen = False, selectedAccountId = None\<rparr>"

definition toggleSidebar :: "app_state \<Rightarrow> app_state" where "toggleSidebar s = s\<lparr>sidebarOpen := \<not> sidebarOpen s\<rparr>"

definition closeSidebar :: "app_state \<Rightarrow> app_state" where "closeSidebar s = s\<lparr>sidebarOpen := False\<rparr>"

definition setSelectedAccount :: "string option \<Rightarrow> app_state \<Rightarrow> app_state" where "setSelectedAccount i s = s\<lparr>selectedAccountId := i\<rparr>"

end
