(* ===== verification/PhoneInput.thy ===== *)
theory PhoneInput
  imports JsNumber
begin

text \<open>
  The phone field with its country, \<open>src/frontend/src/components/accounts/phone-input-with-country.tsx\<close>.

  The component keeps a country and a national number and reports the full number to its parent, which passes it
  back as \<open>value\<close>; an effect parses the value whenever it or the list of countries changes.  The model keeps the
  parent's value in the state, so a handler is followed by the effect when the value changed.  The flags are left
  out: they are emoji that nothing reads.
\<close>

section \<open>Countries\<close>

record TelegramCountry =
  iso2 :: string
  country_name :: string
  code :: string
  patterns :: "string list option"

definition country :: "string \<Rightarrow> string \<Rightarrow> string \<Rightarrow> string list option \<Rightarrow> TelegramCountry" where
  "country i n c p = \<lparr>iso2 = i, country_name = n, code = c, patterns = p\<rparr>"

definition DEFAULT_POPULAR_ISOS :: "string list" where
  "DEFAULT_POPULAR_ISOS = [''ID'', ''MY'', ''SG'', ''US'', ''GB'', ''RU'', ''AU'', ''DE'', ''IN'', ''PH'', ''VN'', ''TH'']"

definition FALLBACK_COUNTRIES :: "TelegramCountry list" where
  "FALLBACK_COUNTRIES =
     [country ''ID'' ''Indonesia'' ''62'' (Some [''XXX XXXXXX'']),
      country ''MY'' ''Malaysia'' ''60'' None,
      country ''SG'' ''Singapore'' ''65'' (Some [''XXXX XXXX'']),
      country ''US'' ''USA'' ''1'' (Some [''XXX XXX XXXX'']),
      country ''GB'' ''United Kingdom'' ''44'' (Some [''XX XXXX XXXX'']),
      country ''RU'' ''Russian Federation'' ''7'' (Some [''XXX XXX XXXX'']),
      country ''AU'' ''Australia'' ''61'' None,
      country ''DE'' ''Germany'' ''49'' None,
      country ''IN'' ''India'' ''91'' None,
      country ''PH'' ''Philippines'' ''63'' None,
      country ''VN'' ''Vietnam'' ''84'' None,
      country ''TH'' ''Thailand'' ''66'' None]"

definition COUNTRY_SAMPLE_FORMATS :: "(string \<times> string) list" where
  "COUNTRY_SAMPLE_FORMATS =
     [(''62'', ''812 3456 7890''), (''1'', ''201 555 0123''), (''44'', ''7911 123456''), (''60'', ''12 345 6789''),
      (''65'', ''8123 4567''), (''91'', ''98765 43210''), (''7'', ''912 345 6789''), (''61'', ''412 345 678''),
      (''49'', ''151 2345 6789''), (''33'', ''6 12 34 56 78''), (''81'', ''90 1234 5678''), (''82'', ''10 1234 5678''),
      (''84'', ''91 234 5678''), (''63'', ''912 345 6789''), (''66'', ''81 234 5678''), (''92'', ''301 2345678''),
      (''90'', ''512 345 6789''), (''380'', ''50 123 4567''), (''998'', ''90 123 4567''), (''971'', ''50 123 4567''),
      (''966'', ''50 123 4567''), (''234'', ''802 345 6789''), (''55'', ''11 91234 5678''), (''48'', ''512 345 678''),
      (''39'', ''312 345 6789''), (''34'', ''612 345 678''), (''31'', ''6 12345678''), (''52'', ''55 1234 5678''),
      (''57'', ''300 123 4567''), (''54'', ''11 1234 5678''), (''27'', ''82 123 4567''), (''254'', ''712 345678''),
      (''212'', ''612 345678''), (''213'', ''550 12 34 56''), (''994'', ''50 123 4567''), (''880'', ''1712 345678''),
      (''98'', ''912 345 6789''), (''375'', ''29 123 4567''), (''351'', ''912 345 678'')]"

text \<open>Each \<open>X\<close> of a pattern becomes the next digit, counting 2 to 9 and 1.\<close>

fun fill_pattern :: "nat \<Rightarrow> string \<Rightarrow> string" where
  "fill_pattern n [] = []"
| "fill_pattern n (c # cs) = (if c = CHR ''X'' then nat_str (n mod 9 + 1) @ fill_pattern (Suc n) cs else c # fill_pattern n cs)"

definition getDynamicPlaceholder :: "TelegramCountry \<Rightarrow> string" where
  "getDynamicPlaceholder c =
     (case opt_or (map_of COUNTRY_SAMPLE_FORMATS (code c)) (map_of COUNTRY_SAMPLE_FORMATS (toLowerCase (iso2 c))) of
        Some s \<Rightarrow> s
      | None \<Rightarrow> (case patterns c of
            Some (p # ps) \<Rightarrow> (if p \<noteq> [] then fill_pattern 1 p else ''123 456 7890'')
          | _ \<Rightarrow> ''123 456 7890''))"

text \<open>The country with the longest code that the digits begin with; the first one listed among equals.\<close>

definition match_country :: "TelegramCountry list \<Rightarrow> string \<Rightarrow> TelegramCountry option" where
  "match_country countries digits =
     find (\<lambda>c. startsWith digits (code c)) (js_sort (\<lambda>c. - int (length (code c))) countries)"

definition filteredCountries :: "string \<Rightarrow> TelegramCountry list \<Rightarrow> TelegramCountry list" where
  "filteredCountries search countries =
     (let q = toLowerCase (trim search)
      in if q = [] then countries
         else let cleanQ = takeWhile (\<lambda>c. c \<noteq> CHR ''+'') q @ drop 1 (dropWhile (\<lambda>c. c \<noteq> CHR ''+'') q)
              in filter (\<lambda>c. str_includes (toLowerCase (country_name c)) q \<or> str_includes (toLowerCase (iso2 c)) q
                            \<or> str_includes (code c) cleanQ) countries)"

definition popularCountries :: "TelegramCountry list \<Rightarrow> TelegramCountry list" where
  "popularCountries countries = List.map_filter (\<lambda>iso. find (\<lambda>c. iso2 c = iso) countries) DEFAULT_POPULAR_ISOS"

section \<open>The field\<close>

record phone_field =
  pf_countries :: "TelegramCountry list"
  pf_country :: TelegramCountry
  pf_national :: string
  pf_isOpen :: bool
  pf_search :: string
  pf_value :: string

definition default_country :: "TelegramCountry list \<Rightarrow> TelegramCountry" where
  "default_country cs = (case find (\<lambda>c. iso2 c = ''ID'') cs of Some c \<Rightarrow> c | None \<Rightarrow> hd cs)"

text \<open>The effect that parses the value.\<close>

definition parse_value :: "phone_field \<Rightarrow> phone_field" where
  "parse_value p =
     (if pf_value p = [] then p\<lparr>pf_national := []\<rparr>
      else
        let clean = filter (\<lambda>c. is_digit c \<or> c = CHR ''+'') (pf_value p)
        in case clean of
             CHR ''+'' # digitsOnly \<Rightarrow>
               (case match_country (pf_countries p) digitsOnly of
                  Some m \<Rightarrow> p\<lparr>pf_country := m, pf_national := drop (length (code m)) digitsOnly\<rparr>
                | None \<Rightarrow> p)
           | _ \<Rightarrow> p)"

definition new_phone_field :: "TelegramCountry list option \<Rightarrow> string \<Rightarrow> phone_field" where
  "new_phone_field cached value =
     (let cs = (case cached of None \<Rightarrow> FALLBACK_COUNTRIES | Some cs \<Rightarrow> cs)
      in parse_value \<lparr>pf_countries = cs, pf_country = default_country cs, pf_national = [], pf_isOpen = False, pf_search = [], pf_value = value\<rparr>)"

text \<open>\<open>onChange\<close>: the parent passes the number back, and a new value is parsed.\<close>

definition report :: "string \<Rightarrow> phone_field \<Rightarrow> phone_field" where
  "report full p = (if full = pf_value p then p else parse_value (p\<lparr>pf_value := full\<rparr>))"

definition full_number :: "TelegramCountry \<Rightarrow> string \<Rightarrow> string" where
  "full_number c n = (if n = [] then [] else CHR ''+'' # code c @ n)"

text \<open>The list of countries arrives; an empty one is ignored.\<close>

definition countries_loaded :: "TelegramCountry list \<Rightarrow> phone_field \<Rightarrow> phone_field" where
  "countries_loaded cs p =
     (if cs = [] then p
      else parse_value (p\<lparr>pf_countries := cs,
             pf_country := (case find (\<lambda>c. iso2 c = ''ID'') cs of
                 Some c \<Rightarrow> (if iso2 (pf_country p) = ''ID'' then c else pf_country p) | None \<Rightarrow> pf_country p)\<rparr>))"

definition handleSelectCountry :: "TelegramCountry \<Rightarrow> phone_field \<Rightarrow> phone_field" where
  "handleSelectCountry c p = report (full_number c (pf_national p)) (p\<lparr>pf_country := c, pf_isOpen := False, pf_search := []\<rparr>)"

definition handleNationalNumberChange :: "string \<Rightarrow> phone_field \<Rightarrow> phone_field" where
  "handleNationalNumberChange raw p =
     (let digits = only_digits raw;
          plain = (let sanitized = (if code (pf_country p) = ''62'' \<and> startsWith digits ''0'' then dropWhile (\<lambda>c. c = CHR ''0'') digits else digits)
                   in report (full_number (pf_country p) sanitized) (p\<lparr>pf_national := sanitized\<rparr>))
      in if startsWith (trim raw) ''+''
         then (case match_country (pf_countries p) digits of
                 Some m \<Rightarrow>
                   let remainder = drop (length (code m)) digits
                   in report (CHR ''+'' # code m @ remainder) (p\<lparr>pf_country := m, pf_national := remainder\<rparr>)
               | None \<Rightarrow> plain)
         else plain)"

section \<open>The field as a machine\<close>

text \<open>What is relied on of the lists: codes are digits, and Indonesia's is 62.\<close>

definition country_ok :: "TelegramCountry \<Rightarrow> bool" where
  "country_ok c \<longleftrightarrow> code c \<noteq> [] \<and> list_all is_digit (code c) \<and> (iso2 c = ''ID'' \<longrightarrow> code c = ''62'')"

inductive phone_step :: "phone_field \<Rightarrow> unit \<Rightarrow> phone_field \<Rightarrow> bool" where
  loads: "list_all country_ok cs \<Longrightarrow> phone_step p () (countries_loaded cs p)"
| selects: "c \<in> set (pf_countries p) \<Longrightarrow> phone_step p () (handleSelectCountry c p)"
| types: "phone_step p () (handleNationalNumberChange raw p)"
| opens: "phone_step p () (p\<lparr>pf_isOpen := b\<rparr>)"
| searches: "phone_step p () (p\<lparr>pf_search := q\<rparr>)"

definition phone_inv :: "phone_field \<Rightarrow> bool" where
  "phone_inv p \<longleftrightarrow>
     list_all country_ok (pf_countries p) \<and> country_ok (pf_country p) \<and> list_all is_digit (pf_national p)
     \<and> (if pf_value p = [] then pf_national p = [] else pf_value p = CHR ''+'' # code (pf_country p) @ pf_national p)"

lemma fallback_ok: "list_all country_ok FALLBACK_COUNTRIES"
  by (simp add: FALLBACK_COUNTRIES_def country_def country_ok_def is_digit_def)

lemma match_country_Some:
  assumes "match_country cs ds = Some m"
  shows "m \<in> set cs" "ds = code m @ drop (length (code m)) ds"
proof -
  have "find (\<lambda>c. startsWith ds (code c)) (js_sort (\<lambda>c. - int (length (code c))) cs) = Some m"
    using assms by (simp add: match_country_def)
  then have "m \<in> set (js_sort (\<lambda>c. - int (length (code c))) cs) \<and> startsWith ds (code m)"
    by (metis find_Some_iff nth_mem)
  then show "m \<in> set cs" "ds = code m @ drop (length (code m)) ds" by (auto simp: startsWith_iff)
qed

text \<open>A matching country has the longest of the fitting codes.\<close>

lemma match_country_longest:
  assumes "match_country cs ds = Some m" "c \<in> set cs" "startsWith ds (code c)"
  shows "length (code c) \<le> length (code m)"
proof -
  let ?f = "\<lambda>c. - int (length (code c))" and ?P = "\<lambda>c. startsWith ds (code c)"
  let ?s = "js_sort ?f cs"
  obtain i where i: "i < length ?s" "?P (?s ! i)" "m = ?s ! i" "\<forall>j < i. \<not> ?P (?s ! j)"
    using assms(1) unfolding match_country_def find_Some_iff by blast
  obtain j where j: "j < length ?s" "c = ?s ! j" using assms(2) by (metis in_set_conv_nth set_js_sort)
  have "i \<le> j" using i(4) j(2) assms(3) by (meson not_le)
  have "map ?f ?s ! i \<le> map ?f ?s ! j"
    by (rule sorted_nth_mono [OF sorted_js_sort \<open>i \<le> j\<close>]) (use j(1) in simp)
  then show ?thesis using i j by simp
qed

lemma digits_plus: "list_all is_digit ds \<Longrightarrow> filter (\<lambda>c. is_digit c \<or> c = CHR ''+'') (CHR ''+'' # ds) = CHR ''+'' # ds"
  by (simp add: list_all_iff)

text \<open>Parsing a value that begins with the code of the selected country keeps the display and the value in step.\<close>

lemma parse_value_inv:
  assumes "list_all country_ok (pf_countries p)" "country_ok (pf_country p)" "list_all is_digit n"
    "pf_value p = CHR ''+'' # code (pf_country p) @ n" "pf_national p = n"
  shows "phone_inv (parse_value p)"
proof -
  let ?d = "code (pf_country p) @ n"
  have d: "list_all is_digit ?d" using assms(2,3) by (simp add: country_ok_def)
  have clean: "filter (\<lambda>c. is_digit c \<or> c = CHR ''+'') (pf_value p) = CHR ''+'' # ?d" unfolding assms(4) by (rule digits_plus [OF d])
  show ?thesis
  proof (cases "match_country (pf_countries p) ?d")
    case None
    then show ?thesis using assms unfolding parse_value_def clean Let_def by (simp add: phone_inv_def)
  next
    case (Some m)
    then have "country_ok m" "?d = code m @ drop (length (code m)) ?d"
      using match_country_Some [OF Some] assms(1) by (auto simp: list_all_iff)
    moreover from this have "list_all is_digit (drop (length (code m)) ?d)" using d by (metis list_all_append)
    ultimately show ?thesis using assms(1,4) Some unfolding parse_value_def clean Let_def by (simp add: phone_inv_def)
  qed
qed

lemma report_inv:
  assumes "list_all country_ok (pf_countries p)" "country_ok (pf_country p)" "list_all is_digit (pf_national p)"
    "full = CHR ''+'' # code (pf_country p) @ pf_national p \<or> full = [] \<and> pf_national p = []"
  shows "phone_inv (report full p)"
proof (cases "full = pf_value p")
  case True
  then show ?thesis using assms by (auto simp: report_def phone_inv_def)
next
  case False
  then show ?thesis
  proof (cases "full = []")
    case True
    then show ?thesis using assms False by (auto simp: report_def parse_value_def phone_inv_def)
  next
    case full: False
    then have "phone_inv (parse_value (p\<lparr>pf_value := full\<rparr>))" using assms by (intro parse_value_inv) auto
    then show ?thesis using False by (simp add: report_def)
  qed
qed

lemma select_inv: "phone_inv p \<Longrightarrow> c \<in> set (pf_countries p) \<Longrightarrow> phone_inv (handleSelectCountry c p)"
  unfolding handleSelectCountry_def by (rule report_inv) (auto simp: phone_inv_def list_all_iff full_number_def)

lemma type_inv:
  assumes "phone_inv p"
  shows "phone_inv (handleNationalNumberChange raw p)"
proof -
  let ?d = "only_digits raw"
  let ?s = "if code (pf_country p) = ''62'' \<and> startsWith ?d ''0'' then dropWhile (\<lambda>c. c = CHR ''0'') ?d else ?d"
  have "list_all is_digit ?s"
    using digits_only_digits [of raw] by (auto simp: list_all_iff dest: set_dropWhileD)
  then have plain: "phone_inv (report (full_number (pf_country p) ?s) (p\<lparr>pf_national := ?s\<rparr>))"
    using assms by (intro report_inv) (auto simp: phone_inv_def full_number_def)
  show ?thesis
  proof (cases "match_country (pf_countries p) ?d")
    case None
    then show ?thesis using plain by (simp add: handleNationalNumberChange_def Let_def)
  next
    case (Some m)
    have "list_all is_digit (drop (length (code m)) ?d)"
      using digits_only_digits [of raw] by (auto simp: list_all_iff dest: in_set_dropD)
    moreover have "country_ok m" using match_country_Some(1) [OF Some] assms by (auto simp: phone_inv_def list_all_iff)
    ultimately have "phone_inv (report (CHR ''+'' # code m @ drop (length (code m)) ?d)
        (p\<lparr>pf_country := m, pf_national := drop (length (code m)) ?d\<rparr>))"
      using assms by (intro report_inv) (auto simp: phone_inv_def)
    then show ?thesis using plain Some by (simp add: handleNationalNumberChange_def Let_def)
  qed
qed

lemma loaded_inv:
  assumes inv: "phone_inv p" and cs: "list_all country_ok cs"
  shows "phone_inv (countries_loaded cs p)"
proof (cases "cs = []")
  case False
  let ?c = "case find (\<lambda>c. iso2 c = ''ID'') cs of Some c \<Rightarrow> (if iso2 (pf_country p) = ''ID'' then c else pf_country p) | None \<Rightarrow> pf_country p"
  have "country_ok ?c \<and> code ?c = code (pf_country p)"
  proof (cases "find (\<lambda>c. iso2 c = ''ID'') cs")
    case None
    then show ?thesis using inv by (simp add: phone_inv_def)
  next
    case (Some c)
    then have "c \<in> set cs" "iso2 c = ''ID''" by (auto simp: find_Some_iff)
    then show ?thesis using cs inv Some by (auto simp: phone_inv_def country_ok_def list_all_iff)
  qed
  then have c: "country_ok ?c" "code ?c = code (pf_country p)" by auto
  let ?q = "p\<lparr>pf_countries := cs, pf_country := ?c\<rparr>"
  have "phone_inv (parse_value ?q)"
  proof (cases "pf_value p = []")
    case True
    then show ?thesis using inv cs c by (simp add: parse_value_def phone_inv_def)
  next
    case False
    have n: "list_all is_digit (pf_national p)" and v: "pf_value ?q = CHR ''+'' # code (pf_country ?q) @ pf_national p"
      using inv c(2) False by (simp_all add: phone_inv_def)
    show ?thesis by (rule parse_value_inv [OF _ _ n v]) (use cs c(1) in simp_all)
  qed
  then show ?thesis using False by (simp add: countries_loaded_def)
qed (use inv in \<open>simp add: countries_loaded_def\<close>)

lemma phone_step_inv: "phone_step p u q \<Longrightarrow> phone_inv p \<Longrightarrow> phone_inv q"
  by (induction rule: phone_step.induct) (simp_all add: loaded_inv select_inv type_inv, simp_all add: phone_inv_def)

interpretation phm: machine "\<lambda>p. p = new_phone_field None []" phone_step phone_inv
proof
  have "default_country FALLBACK_COUNTRIES = country ''ID'' ''Indonesia'' ''62'' (Some [''XXX XXXXXX''])"
    by (simp add: default_country_def FALLBACK_COUNTRIES_def country_def)
  then show "phone_inv p" if "p = new_phone_field None []" for p
    using that fallback_ok by (simp add: new_phone_field_def parse_value_def phone_inv_def country_def country_ok_def is_digit_def)
qed (rule phone_step_inv)

section \<open>Properties\<close>

text \<open>C19: the number reported to the form is at every moment exactly what the field shows: empty, or the sign, the code
  of the country shown and the national number shown, all of it digits, however numbers are typed and pasted,
  countries chosen and the list of countries loaded.\<close>

theorem phone_value_is_shown:
  assumes "reach (\<lambda>p. p = new_phone_field None []) phone_step p"
  shows "if pf_value p = [] then pf_national p = []
    else pf_value p = CHR ''+'' # code (pf_country p) @ pf_national p \<and> list_all is_digit (tl (pf_value p))"
  using phm.reach_inv [OF assms] by (auto simp: phone_inv_def country_ok_def)

definition demo_phone :: phone_field where
  "demo_phone = handleNationalNumberChange ''+1 (415) 555'' (new_phone_field None [])"

lemma demo_phone_eq: "pf_value demo_phone = ''+1415555''" "pf_national demo_phone = ''415555''" "iso2 (pf_country demo_phone) = ''US''"
  by code_simp+

theorem phone_value_is_shown_witness:
  "pf_value demo_phone = CHR ''+'' # code (pf_country demo_phone) @ pf_national demo_phone \<and> list_all is_digit (tl (pf_value demo_phone))"
proof -
  have "reach (\<lambda>p. p = new_phone_field None []) phone_step (new_phone_field None [])" by (rule reach_start) simp
  moreover have "phone_step (new_phone_field None []) () demo_phone" unfolding demo_phone_def by (rule phone_step.types)
  ultimately have "reach (\<lambda>p. p = new_phone_field None []) phone_step demo_phone" by (rule reach_step)
  from phone_value_is_shown [OF this] show ?thesis by (simp add: demo_phone_eq)
qed

text \<open>An Indonesian number typed with its trunk zero is reported without it; pasted behind the country code it keeps
  the zero.\<close>

theorem pasted_trunk_zero_stays:
  "pf_value (handleNationalNumberChange ''0812'' (new_phone_field None [])) = ''+62812''"
  "pf_value (handleNationalNumberChange ''+62 0812'' (new_phone_field None [])) = ''+620812''"
  by code_simp+

text \<open>A pasted number whose code is not in the list is glued behind the code of the country shown.\<close>

theorem unknown_code_is_glued: "pf_value (handleNationalNumberChange ''+999 123'' (new_phone_field None [])) = ''+62999123''"
  by code_simp

text \<open>Of two countries with one code the first listed wins: after the second was chosen, typing a digit shows the first.\<close>

definition shared_code :: "TelegramCountry list" where
  "shared_code = [country ''RU'' ''Russia'' ''7'' None, country ''KZ'' ''Kazakhstan'' ''7'' None]"

theorem shared_code_flips:
  "let p = handleSelectCountry (shared_code ! 1) (countries_loaded shared_code (new_phone_field None []))
   in iso2 (pf_country p) = ''KZ'' \<and> iso2 (pf_country (handleNationalNumberChange ''701'' p)) = ''RU''"
  by code_simp

end
