(* ===== verification/AuthPages.thy ===== *)
theory AuthPages
  imports AuthRoute AuthStore I18n
begin

text \<open>
  The pages around signing in: \<open>src/frontend/src/app/login/page.tsx\<close>, \<open>login/two-factor/page.tsx\<close>,
  \<open>register/page.tsx\<close>, \<open>forgot-password/page.tsx\<close> and \<open>reset-password/page.tsx\<close>, over the session store and the
  authentication route.

  The Better Auth client is third-party: its answers are arguments.  \<open>signIn.social\<close> can throw, answer with an
  error or take the browser to Google; the client documents that requests answer with \<open>{ data, error }\<close> rather than
  throw.  What \<open>signIn.email\<close> makes of an error response is the parameter \<open>client\<close>, relied on to pass the fields of
  the body.  The texts are those of both dictionaries where a decision depends on them.
\<close>

section \<open>Texts\<close>

text \<open>The entries of \<open>lib/i18n/en.ts\<close> and \<open>id.ts\<close> that the pages set as errors.\<close>

fun text_of :: "locale_tag \<Rightarrow> string \<Rightarrow> string" where
  "text_of l k =
     (if k = ''login.emailNotVerified''
      then (case l of En \<Rightarrow> ''Your email has not been verified. Check your inbox or resend the verification email below.''
            | Id \<Rightarrow> ''Email Anda belum diverifikasi. Periksa kotak masuk atau kirim ulang email verifikasi di bawah.'')
      else if k = ''login.loginFailed''
      then (case l of En \<Rightarrow> ''Login failed. Check your credentials.'' | Id \<Rightarrow> ''Login gagal. Periksa kredensial Anda.'')
      else if k = ''login.tooManyMessage''
      then (case l of En \<Rightarrow> ''Too many attempts. Please wait and try again.'' | Id \<Rightarrow> ''Terlalu banyak percobaan. Silakan tunggu dan coba lagi.'')
      else if k = ''login.googleAuthFailed''
      then (case l of En \<Rightarrow> ''Failed to sign in with Google. Please try again.'' | Id \<Rightarrow> ''Gagal masuk dengan Google. Silakan coba lagi.'')
      else if k = ''login.enterEmailToResend''
      then (case l of En \<Rightarrow> ''Enter your email first to resend verification.''
            | Id \<Rightarrow> ''Masukkan email Anda terlebih dahulu untuk mengirim ulang verifikasi.'')
      else if k = ''login.resendFailed''
      then (case l of En \<Rightarrow> ''Could not resend the verification email. Please try again.''
            | Id \<Rightarrow> ''Gagal mengirim ulang email verifikasi. Silakan coba lagi.'')
      else if k = ''settings.totpInvalid''
      then (case l of En \<Rightarrow> ''Invalid verification code. Please try again.'' | Id \<Rightarrow> ''Kode verifikasi salah. Silakan coba lagi.'')
      else k)"

declare text_of.simps [simp del]

section \<open>The login page\<close>

record login_page =
  lg_email :: string
  lg_error :: string
  lg_errorCode :: "string option"
  lg_retryAfterMinutes :: "int option"
  lg_loading :: bool
  lg_googleLoading :: bool
  lg_verificationSent :: bool
  lg_resendLoading :: bool
  lg_pushed :: "string list"

definition new_login_page :: login_page where
  "new_login_page =
     \<lparr>lg_email = [], lg_error = [], lg_errorCode = None, lg_retryAfterMinutes = None, lg_loading = False, lg_googleLoading = False,
      lg_verificationSent = False, lg_resendLoading = False, lg_pushed = []\<rparr>"

text \<open>Where a signed-in user is taken.\<close>

definition landing :: "User option \<Rightarrow> string" where
  "landing u = (case u of None \<Rightarrow> ''/dashboard''
     | Some x \<Rightarrow> (if onboarding_completed x = Some False then ''/onboarding'' else ''/dashboard''))"

definition cleared :: "login_page \<Rightarrow> login_page" where
  "cleared p = p\<lparr>lg_error := [], lg_errorCode := None, lg_retryAfterMinutes := None, lg_verificationSent := False\<rparr>"

definition start_login :: "login_page \<Rightarrow> login_page" where
  "start_login p = (cleared p)\<lparr>lg_loading := True\<rparr>"

text \<open>The properties of the exception that the page reads; \<open>rejection\<close> is the message of a rejected call.\<close>

fun error_message :: "string \<Rightarrow> auth_error \<Rightarrow> string" where
  "error_message rejection (AuthError m _ _) = m" | "error_message rejection Rejected = rejection"

fun error_code :: "auth_error \<Rightarrow> string option" where
  "error_code (AuthError _ c _) = opt_or c None" | "error_code Rejected = None"

fun error_retry :: "auth_error \<Rightarrow> int option" where
  "error_retry (AuthError _ _ (Some n)) = (if n = 0 then None else Some n)" | "error_retry _ = None"

definition login_failed :: "locale_tag \<Rightarrow> string \<Rightarrow> auth_error \<Rightarrow> login_page \<Rightarrow> login_page" where
  "login_failed l rejection e p =
     (let c = error_code e; m = error_message rejection e; p1 = p\<lparr>lg_errorCode := c, lg_loading := False\<rparr>
      in if c = Some ''TWO_FACTOR_REQUIRED'' then p1\<lparr>lg_pushed := lg_pushed p @ [''/login/two-factor'']\<rparr>
         else if c = Some ''ACCOUNT_LOCKED''
         then p1\<lparr>lg_retryAfterMinutes := error_retry e, lg_error := or_str m (text_of l ''login.loginFailed'')\<rparr>
         else if c = Some ''TOO_MANY_REQUESTS'' then p1\<lparr>lg_error := or_str m (text_of l ''login.tooManyMessage'')\<rparr>
         else if c = Some ''EMAIL_NOT_VERIFIED'' \<or> str_includes (toLowerCase m) ''verify''
         then p1\<lparr>lg_error := text_of l ''login.emailNotVerified''\<rparr>
         else p1\<lparr>lg_error := or_str m (text_of l ''login.loginFailed'')\<rparr>)"

definition submit_login ::
    "locale_tag \<Rightarrow> string \<Rightarrow> signin_result \<Rightarrow> session_result \<Rightarrow> User option \<Rightarrow> login_page \<times> auth_state \<Rightarrow> login_page \<times> auth_state" where
  "submit_login l rejection signIn session me ps =
     (let (s, err, _) = login signIn session me (snd ps); p = start_login (fst ps)
      in case err of
           None \<Rightarrow> (p\<lparr>lg_pushed := lg_pushed p @ [landing (st_user s)], lg_loading := False\<rparr>, s)
         | Some e \<Rightarrow> (login_failed l rejection e p, s))"

text \<open>The answer to a resend: \<open>None\<close> when it succeeded, else the message of the error, possibly empty.\<close>

definition handleResendVerification :: "locale_tag \<Rightarrow> string option \<Rightarrow> login_page \<Rightarrow> login_page" where
  "handleResendVerification l answer p =
     (if lg_email p = [] then p\<lparr>lg_error := text_of l ''login.enterEmailToResend''\<rparr>
      else case answer of
             None \<Rightarrow> p\<lparr>lg_error := [], lg_verificationSent := True, lg_resendLoading := False\<rparr>
           | Some m \<Rightarrow> p\<lparr>lg_error := or_str m (text_of l ''login.resendFailed''), lg_resendLoading := False\<rparr>)"

datatype social_result = SocialThrows string | SocialError | SocialLeaves

definition handleGoogleSignIn :: "locale_tag \<Rightarrow> social_result \<Rightarrow> login_page \<Rightarrow> login_page" where
  "handleGoogleSignIn l answer p =
     (let p1 = (cleared p)\<lparr>lg_googleLoading := True\<rparr>
      in case answer of
           SocialThrows m \<Rightarrow> p1\<lparr>lg_error := or_str m (text_of l ''login.googleAuthFailed''), lg_googleLoading := False\<rparr>
         | _ \<Rightarrow> p1)"

definition showResend :: "login_page \<Rightarrow> bool" where
  "showResend p \<longleftrightarrow> lg_error p \<noteq> [] \<and> lg_errorCode p \<noteq> Some ''ACCOUNT_LOCKED'' \<and> lg_errorCode p \<noteq> Some ''TOO_MANY_REQUESTS''
     \<and> (str_includes (toLowerCase (lg_error p)) ''verif'' \<or> str_includes (toLowerCase (lg_error p)) ''verify'')"

text \<open>The buttons of the form.\<close>

definition form_enabled :: "login_page \<Rightarrow> bool" where
  "form_enabled p \<longleftrightarrow> \<not> lg_loading p \<and> \<not> lg_googleLoading p"

text \<open>The effect that takes a signed-in visitor away.\<close>

definition login_redirect :: "auth_state \<Rightarrow> string option" where
  "login_redirect s = (if \<not> isLoading s \<and> isAuthenticated s then Some (landing (st_user s)) else None)"

section \<open>The page of the second factor\<close>

datatype factor_mode = Totp | Backup

record factor_page =
  tf_code :: string
  tf_error :: string
  tf_loading :: bool
  tf_mode :: factor_mode
  tf_trustDevice :: bool
  tf_pushed :: "string list"

definition new_factor_page :: factor_page where
  "new_factor_page = \<lparr>tf_code = [], tf_error = [], tf_loading = False, tf_mode = Totp, tf_trustDevice = False, tf_pushed = []\<rparr>"

datatype factor_call = VerifyTotp string bool | VerifyBackupCode string

definition factor_call_of :: "factor_page \<Rightarrow> factor_call" where
  "factor_call_of p = (case tf_mode p of Totp \<Rightarrow> VerifyTotp (tf_code p) (tf_trustDevice p) | Backup \<Rightarrow> VerifyBackupCode (tf_code p))"

definition code_maxLength :: "factor_mode \<Rightarrow> nat" where "code_maxLength m = (case m of Totp \<Rightarrow> 6 | Backup \<Rightarrow> 10)"

text \<open>The input takes no more than its \<open>maxLength\<close>.\<close>

definition type_code :: "string \<Rightarrow> factor_page \<Rightarrow> factor_page" where
  "type_code v p = p\<lparr>tf_code := take (code_maxLength (tf_mode p)) v\<rparr>"

definition handleSwitchMode :: "factor_page \<Rightarrow> factor_page" where
  "handleSwitchMode p = p\<lparr>tf_error := [], tf_code := [], tf_mode := (if tf_mode p = Totp then Backup else Totp)\<rparr>"

text \<open>The verification answers with the message of an error, possibly empty, or succeeds; then the session is fetched.\<close>

definition submit_factor ::
    "locale_tag \<Rightarrow> string option \<Rightarrow> session_result \<Rightarrow> User option \<Rightarrow> factor_page \<times> auth_state \<Rightarrow> factor_page \<times> auth_state" where
  "submit_factor l err session me ps =
     (case err of
        Some m \<Rightarrow> ((fst ps)\<lparr>tf_error := or_str m (text_of l ''settings.totpInvalid''), tf_loading := False\<rparr>, snd ps)
      | None \<Rightarrow> ((fst ps)\<lparr>tf_error := [], tf_pushed := tf_pushed (fst ps) @ [''/dashboard''], tf_loading := False\<rparr>, fst (fetchMe session me (snd ps))))"

inductive factor_step :: "factor_page \<Rightarrow> factor_call list \<Rightarrow> factor_page \<Rightarrow> bool" where
  typed: "factor_step p [] (type_code v p)"
| switched: "factor_step p [] (handleSwitchMode p)"
| trusts: "factor_step p [] (p\<lparr>tf_trustDevice := b\<rparr>)"
| submitted: "\<not> tf_loading p \<Longrightarrow> tf_code p \<noteq> [] \<Longrightarrow> factor_step p [factor_call_of p] (p\<lparr>tf_error := [], tf_loading := True\<rparr>)"
| refused: "tf_loading p \<Longrightarrow> factor_step p [] (p\<lparr>tf_error := m, tf_loading := False\<rparr>)"

section \<open>The register page\<close>

record register_page =
  rg_error :: string
  rg_success :: string
  rg_loading :: bool
  rg_googleLoading :: bool
  rg_timers :: "(string \<times> nat) list"

definition new_register_page :: register_page where
  "new_register_page = \<lparr>rg_error = [], rg_success = [], rg_loading = False, rg_googleLoading = False, rg_timers = []\<rparr>"

text \<open>The checks before the request, by the keys of their texts.\<close>

definition register_error :: "string \<Rightarrow> string \<Rightarrow> bool \<Rightarrow> string option" where
  "register_error password confirmPassword agree =
     (if length password < 8 then Some ''register.passwordTooShort''
      else if password \<noteq> confirmPassword then Some ''register.passwordsDoNotMatch''
      else if \<not> agree then Some ''register.mustAgree'' else None)"

text \<open>The third component tells whether the store was asked.\<close>

definition submit_register ::
    "string \<Rightarrow> string \<Rightarrow> string \<Rightarrow> bool \<Rightarrow> signup_result \<Rightarrow> session_result \<Rightarrow> User option \<Rightarrow> register_page \<times> auth_state
      \<Rightarrow> register_page \<times> auth_state \<times> bool" where
  "submit_register rejection password confirmPassword agree signUp session me ps =
     (case register_error password confirmPassword agree of
        Some k \<Rightarrow> ((fst ps)\<lparr>rg_error := k\<rparr>, snd ps, False)
      | None \<Rightarrow>
          let (s, err, _) = register signUp session me (snd ps); p = (fst ps)\<lparr>rg_error := [], rg_success := [], rg_loading := False\<rparr>
          in case err of
               Some e \<Rightarrow> (p\<lparr>rg_error := or_str (error_message rejection e) ''register.registrationFailed''\<rparr>, s, True)
             | None \<Rightarrow>
                 if isAuthenticated s
                 then (p\<lparr>rg_success := ''register.accountCreated'', rg_timers := rg_timers p @ [(''/onboarding'', 1500)]\<rparr>, s, True)
                 else (p\<lparr>rg_success := ''register.verificationRequired'', rg_timers := rg_timers p @ [(''/login'', 4000)]\<rparr>, s, True))"

text \<open>What the page shows: a spinner, nothing, or the form with its notices.\<close>

datatype register_view = Spinner | Blank | RegisterForm string string

definition register_shows :: "register_page \<Rightarrow> auth_state \<Rightarrow> register_view" where
  "register_shows p s = (if isLoading s then Spinner else if isAuthenticated s then Blank else RegisterForm (rg_error p) (rg_success p))"

section \<open>Forgotten passwords\<close>

record forgot_page =
  fp_loading :: bool
  fp_sent :: bool

text \<open>The outcome of the request, thrown or answered, is an argument and ignored.\<close>

definition submit_forgot :: "http_response outcome \<Rightarrow> forgot_page \<Rightarrow> forgot_page" where
  "submit_forgot answer p = p\<lparr>fp_sent := True, fp_loading := False\<rparr>"

record reset_page =
  rp_error :: string
  rp_success :: string
  rp_loading :: bool
  rp_timers :: "(string \<times> nat) list"

text \<open>The second component tells whether the request was sent.\<close>

definition submit_reset :: "string option \<Rightarrow> string \<Rightarrow> string \<Rightarrow> string option \<Rightarrow> reset_page \<Rightarrow> reset_page \<times> bool" where
  "submit_reset token password confirmPassword err p =
     (let p1 = p\<lparr>rp_error := []\<rparr>
      in if password \<noteq> confirmPassword then (p1\<lparr>rp_error := ''Passwords do not match''\<rparr>, False)
         else if \<not> truthy token then (p1\<lparr>rp_error := ''Invalid or missing reset token''\<rparr>, False)
         else case err of
                None \<Rightarrow> (p1\<lparr>rp_success := ''Password reset successfully!'', rp_loading := False,
                              rp_timers := rp_timers p @ [(''/login'', 2000)]\<rparr>, True)
              | Some m \<Rightarrow> (p1\<lparr>rp_error := or_str m ''Failed to reset password'', rp_loading := False\<rparr>, True))"

section \<open>Properties\<close>

text \<open>What is relied on of the Better Auth client: an error carries the fields of the response's body.\<close>

definition client_reads_body :: "(http_response \<Rightarrow> auth_api_error) \<Rightarrow> bool" where
  "client_reads_body client \<longleftrightarrow>
     (\<forall>r. err_code (client r) = (case jget (resp_body r) ''code'' of Some (JStr c) \<Rightarrow> Some c | _ \<Rightarrow> None)
        \<and> err_message (client r) = (case jget (resp_body r) ''message'' of Some (JStr m) \<Rightarrow> Some m | _ \<Rightarrow> None)
        \<and> err_retryAfterMinutes (client r) = (case jget (resp_body r) ''retryAfterMinutes'' of Some (JNum n) \<Rightarrow> Some n | _ \<Rightarrow> None))"

text \<open>What \<open>signIn.email\<close> makes of the route's answer.\<close>

definition signin_of :: "(http_response \<Rightarrow> auth_api_error) \<Rightarrow> http_response \<Rightarrow> signin_result" where
  "signin_of client r = (if resp_ok r then SignInDone else SignInError (client r))"

text \<open>C5: while an account is locked, signing in with whatever password ends on the login page with the title of the
  lock, a waiting time of at least a minute, no offer to resend a verification, nobody signed in, and the form
  usable again: from the table of users through the route, the client and the store to the page.\<close>

theorem lock_reaches_login_page:
  assumes "client_reads_body client" "signin_request req email"
    "checkLockout lower tbl (e_check env) email = \<lparr>clr_locked = True, clr_lockedUntil = until, clr_remainingSeconds = rem\<rparr>"
    "pr_out (safePost lower betterAuth env tbl req) = Returned r" "\<not> lg_googleLoading p"
  shows "let (p', s') = submit_login l rejection (signin_of client r) session me (p, s)
    in lg_errorCode p' = Some ''ACCOUNT_LOCKED'' \<and> (\<exists>m \<ge> 1. lg_retryAfterMinutes p' = Some m) \<and> \<not> showResend p' \<and> s' = s
       \<and> lg_pushed p' = lg_pushed p \<and> form_enabled p'"
proof -
  let ?m = "retry_minutes rem"
  have r: "r = locked_response ?m" using safePost_blocked [OF assms(2,3)] assms(4) by simp
  have m: "1 \<le> ?m" by (simp add: retry_minutes_def)
  have body: "err_code (client r) = Some ''ACCOUNT_LOCKED''" "err_retryAfterMinutes (client r) = Some ?m"
    using assms(1) unfolding client_reads_body_def r locked_response_def by (simp_all add: map_get_def)
  have "signin_of client r = SignInError (client r)" by (simp add: signin_of_def r locked_response_def resp_ok_def)
  then show ?thesis
    using body m assms(5)
    by (auto simp: submit_login_def login_def login_failed_def start_login_def cleared_def showResend_def form_enabled_def Let_def)
qed

definition demo_client :: "http_response \<Rightarrow> auth_api_error" where
  "demo_client r =
     \<lparr>err_message = (case jget (resp_body r) ''message'' of Some (JStr m) \<Rightarrow> Some m | _ \<Rightarrow> None),
      err_code = (case jget (resp_body r) ''code'' of Some (JStr c) \<Rightarrow> Some c | _ \<Rightarrow> None),
      err_retryAfterMinutes = (case jget (resp_body r) ''retryAfterMinutes'' of Some (JNum n) \<Rightarrow> Some n | _ \<Rightarrow> None)\<rparr>"

theorem lock_reaches_login_page_witness:
  "let (p', s') = submit_login En ''Failed to fetch'' (signin_of demo_client (locked_response 14))
      (HasSession demo_ba_user (Some ''tok'')) None (new_login_page, init_auth)
    in lg_errorCode p' = Some ''ACCOUNT_LOCKED'' \<and> (\<exists>m \<ge> 1. lg_retryAfterMinutes p' = Some m) \<and> \<not> showResend p' \<and> s' = init_auth
       \<and> lg_pushed p' = lg_pushed new_login_page \<and> form_enabled p'"
proof (rule lock_reaches_login_page [OF _ demo_signin])
  show "client_reads_body demo_client" by (simp add: client_reads_body_def demo_client_def)
  show "checkLockout toLowerCase [demo_row\<lparr>lockedUntil := Some 900000000\<rparr>] (e_check (demo_renv 60000)) ''a@b.c''
      = \<lparr>clr_locked = True, clr_lockedUntil = Some 900000000, clr_remainingSeconds = Some 840\<rparr>"
    by (simp add: brute_force_defs demo_renv_def)
  then show "pr_out (safePost toLowerCase (demo_ba 200) (demo_renv 60000) [demo_row\<lparr>lockedUntil := Some 900000000\<rparr>] demo_req)
      = Returned (locked_response 14)"
    by (simp add: safePost_blocked [OF demo_signin] retry_minutes_def ceil_div_def)
qed (simp add: new_login_page_def)

text \<open>An address that is not verified gets the text of its language, with the resend button below it: the
  button is recognised by a part of the text that both dictionaries have.\<close>

theorem unverified_offers_resend:
  "let p' = login_failed l rejection (AuthError m (Some ''EMAIL_NOT_VERIFIED'') n) p
   in lg_error p' = text_of l ''login.emailNotVerified'' \<and> showResend p'"
  by (cases l)
    (simp_all add: login_failed_def opt_or.simps showResend_def text_of.simps toLowerCase_def lower_char_def)

text \<open>A failed resend takes the button away unless the message of the failure speaks of verifying: the page then
  shows the error alone, and the user has to fail at signing in again to be offered the button.\<close>

theorem failed_resend_offers_nothing:
  assumes "lg_email p \<noteq> []" "m \<noteq> []" "\<not> str_includes (toLowerCase m) ''verif''"
  shows "\<not> showResend (handleResendVerification l (Some m) p)"
proof -
  have "\<not> str_includes (toLowerCase m) ''verify''"
  proof
    assume "str_includes (toLowerCase m) ''verify''"
    then obtain a b where "toLowerCase m = a @ ''verify'' @ b" by (auto simp: str_includes_iff)
    then have "toLowerCase m = a @ ''verif'' @ (''y'' @ b)" by simp
    then show False using assms(3) unfolding str_includes_iff by blast
  qed
  then show ?thesis using assms by (simp add: handleResendVerification_def showResend_def or_str_def)
qed

text \<open>An error that Google's sign-in answers with, rather than throws, is dropped: no error is shown and the form
  stays disabled.\<close>

theorem google_error_locks_form:
  "lg_error (handleGoogleSignIn l SocialError p) = [] \<and> \<not> form_enabled (handleGoogleSignIn l SocialError p)"
  by (simp add: handleGoogleSignIn_def cleared_def form_enabled_def)

text \<open>The input of the second factor never holds more than its mode allows, so a backup code of Better Auth, two
  groups of five characters with a dash between them, cannot be sent as it was handed out.\<close>

definition factor_inv :: "factor_page \<Rightarrow> bool" where
  "factor_inv p \<longleftrightarrow> length (tf_code p) \<le> code_maxLength (tf_mode p)"

interpretation fcm: machine "\<lambda>p. p = new_factor_page" factor_step factor_inv
proof
  show "factor_inv p" if "p = new_factor_page" for p using that by (simp add: factor_inv_def new_factor_page_def)
  show "factor_inv q" if "factor_inv p" "factor_step p l q" for p l q
    using that(2,1) by (induction rule: factor_step.induct)
      (auto simp: factor_inv_def type_code_def handleSwitchMode_def code_maxLength_def split: factor_mode.splits)
qed

theorem backup_code_does_not_fit:
  assumes "reach (\<lambda>p. p = new_factor_page) factor_step p" "length a = 5" "length b = 5"
  shows "factor_call_of p \<noteq> VerifyBackupCode (a @ ''-'' @ b)"
  using fcm.reach_inv [OF assms(1)] assms(2,3)
  by (auto simp: factor_inv_def factor_call_of_def code_maxLength_def split: factor_mode.splits)

text \<open>What the register page asks the store: a password of eight characters at least, confirmed, with the terms agreed.\<close>

theorem register_asks_valid:
  "snd (snd (submit_register rejection password confirm agree signUp session me ps))
    \<longleftrightarrow> 8 \<le> length password \<and> password = confirm \<and> agree"
  by (auto simp: submit_register_def register_error_def Let_def split: option.splits prod.splits)

text \<open>A registration that signs in never shows its notice: the page is blank from then on.  The effect of the page
  sends the user to the dashboard and the timer to the onboarding.\<close>

theorem account_created_never_shown:
  assumes "submit_register rejection password confirm agree signUp session me (p, s) = (p', s', True)"
    "rg_success p' = ''register.accountCreated''"
  shows "register_shows p' s' \<in> {Spinner, Blank}"
  using assms
  by (auto simp: submit_register_def register_shows_def Let_def split: option.splits prod.splits if_splits)

text \<open>The page of a forgotten password ends the same whatever the request came to.\<close>

theorem forgotten_outcome_uniform: "submit_forgot answer p = submit_forgot answer' p"
  by (simp add: submit_forgot_def)

text \<open>A reset is requested with a token and a confirmed password only.\<close>

theorem reset_asks_valid:
  "snd (submit_reset token password confirm err p) \<longleftrightarrow> password = confirm \<and> truthy token"
  by (simp add: submit_reset_def Let_def split: option.splits)

end
