(* ===== verification/AddAccount.thy ===== *)
theory AddAccount
  imports Helpers Regex
begin

text \<open>
  Adding an account by session string or QR code, \<open>src/frontend/src/app/(dashboard)/accounts/add/page.tsx\<close>.  The
  third tab is the login form of \<open>LoginFlow\<close>; the function \<open>OTPLoginForm\<close> of the file is used nowhere and left out.

  The status of a QR login is one of the five the page's own type names.  The answers of the backend are arguments;
  requests under way are part of the state, with the values the closures captured when they were sent.
\<close>

section \<open>Session strings\<close>

datatype SessionFormat = Telethon | Gramjs | Pyrogram | RawBase64 | UnknownFormat

definition b64_char :: "char \<Rightarrow> bool" where
  "b64_char c \<longleftrightarrow> is_alpha c \<or> is_digit c \<or> c = CHR ''+'' \<or> c = CHR ''/''"

definition ascii_ws :: "char \<Rightarrow> bool" where
  "ascii_ws c \<longleftrightarrow> (of_char c :: nat) \<in> {9, 10, 12, 13, 32}"

text \<open>The forgiving decoder of the web platform: the length of what \<open>atob\<close> returns, \<open>None\<close> for its exception.\<close>

fun drop_padding :: "nat \<Rightarrow> string \<Rightarrow> string" where
  "drop_padding (Suc n) s = (if endsWith s ''='' then drop_padding n (butlast s) else s)"
| "drop_padding 0 s = s"

definition atob_length :: "string \<Rightarrow> nat option" where
  "atob_length s =
     (let d = filter (\<lambda>c. \<not> ascii_ws c) s; e = (if length d mod 4 = 0 then drop_padding 2 d else d)
      in if length e mod 4 = 1 \<or> \<not> list_all b64_char e then None else Some (length e * 6 div 8))"

definition key_char :: "char \<Rightarrow> bool" where
  "key_char c \<longleftrightarrow> is_alpha c \<or> is_digit c \<or> c \<in> set ''+/=_-''"

definition gramjs_re :: regex where
  "gramjs_re = seqs [Plus is_digit, Txt '':'', Plus is_digit, Txt ''.'', Plus is_digit, Txt ''.'', Plus is_digit, Txt ''.'', Plus is_digit,
     Txt '':'', Plus is_digit, Txt '':'', Plus key_char, Eos]"

definition detectSessionFormat :: "string \<Rightarrow> SessionFormat" where
  "detectSessionFormat s =
     (let trimmed = trim s
      in if trimmed = [] then UnknownFormat
         else if startsWith trimmed ''1'' \<and> 20 < length trimmed then Telethon
         else if steps gramjs_re (trimmed, []) \<noteq> [] then Gramjs
         else case atob_length (map (\<lambda>c. if c = CHR ''-'' then CHR ''+'' else if c = CHR ''_'' then CHR ''/'' else c) trimmed) of
                None \<Rightarrow> UnknownFormat
              | Some n \<Rightarrow> (if n = 256 then RawBase64 else if 268 \<le> n \<and> n \<le> 1000 then Pyrogram else UnknownFormat))"

definition FORMAT_LABELS :: "SessionFormat \<Rightarrow> string" where
  "FORMAT_LABELS f = (case f of Telethon \<Rightarrow> ''addAccount.sessionFormatTelethon'' | Gramjs \<Rightarrow> ''addAccount.sessionFormatGramjs''
     | Pyrogram \<Rightarrow> ''addAccount.sessionFormatPyrogram'' | RawBase64 \<Rightarrow> ''addAccount.sessionFormatRaw''
     | UnknownFormat \<Rightarrow> ''addAccount.sessionFormatUnknown'')"

record upload_form =
  up_session :: string
  up_error :: string
  up_loading :: bool
  up_detected :: SessionFormat
  up_pushed :: "string list"

definition type_session :: "string \<Rightarrow> upload_form \<Rightarrow> upload_form" where
  "type_session s p = p\<lparr>up_session := s, up_detected := detectSessionFormat s\<rparr>"

text \<open>The button is disabled while a request is under way and for the empty text; the request carries the text as it is.\<close>

definition upload_ready :: "upload_form \<Rightarrow> bool" where "upload_ready p \<longleftrightarrow> \<not> up_loading p \<and> up_session p \<noteq> []"

definition upload_start :: "upload_form \<Rightarrow> upload_form \<times> string list" where
  "upload_start p = (if upload_ready p then (p\<lparr>up_error := [], up_loading := True\<rparr>, [up_session p]) else (p, []))"

text \<open>The answer: the id of the account, or the detail of the error if it has one.\<close>

definition upload_answered :: "(string option, string) sum \<Rightarrow> upload_form \<Rightarrow> upload_form" where
  "upload_answered answer p =
     (case answer of
        Inr i \<Rightarrow> p\<lparr>up_pushed := up_pushed p @ [''/accounts/'' @ i], up_loading := False\<rparr>
      | Inl d \<Rightarrow> p\<lparr>up_error := the (opt_or d (Some ''addAccount.failedUpload'')), up_loading := False\<rparr>)"

section \<open>The QR login\<close>

datatype qr_status = QrPending | QrSuccess | QrNeeds2fa | QrFailed | QrExpired

record qr_answer =
  qa_status :: qr_status
  qa_account :: "string option"
  qa_error :: "string option"

text \<open>\<open>qr_poll\<close> is the closure of the polling interval while it runs; \<open>qr_polls\<close> and \<open>qr_inits\<close>, \<open>qr_submits\<close> are
  the requests under way; \<open>qr_pushes\<close> the addresses that timers will open.\<close>

record qr_form =
  qr_mounted :: bool
  qr_loading :: bool
  qr_error :: string
  qr_id :: string
  qr_url :: string
  qr_timeLeft :: int
  qr_status :: qr_status
  qr_password :: string
  qr_countdown :: bool
  qr_poll :: "(string \<times> qr_status) option"
  qr_inits :: nat
  qr_polls :: "(string \<times> qr_status) list"
  qr_submits :: "(string \<times> string) list"
  qr_pushes :: "string list"

text \<open>The effects of the countdown and of the polling, and their cleanups.\<close>

definition qr_effects :: "qr_form \<Rightarrow> qr_form" where
  "qr_effects p = p
     \<lparr>qr_countdown := (qr_mounted p \<and> qr_url p \<noteq> [] \<and> qr_timeLeft p > 0 \<and> qr_status p = QrPending),
      qr_poll := (if qr_mounted p \<and> qr_id p \<noteq> [] \<and> qr_status p \<notin> {QrSuccess, QrFailed, QrNeeds2fa, QrExpired}
                  then Some (qr_id p, qr_status p) else None)\<rparr>"

definition initQR :: "qr_form \<Rightarrow> qr_form" where
  "initQR p = qr_effects (p\<lparr>qr_error := [], qr_loading := True, qr_status := QrPending, qr_id := [], qr_url := [], qr_password := [],
                            qr_inits := Suc (qr_inits p)\<rparr>)"

definition new_qr_form :: qr_form where
  "new_qr_form = initQR
     \<lparr>qr_mounted = True, qr_loading = False, qr_error = [], qr_id = [], qr_url = [], qr_timeLeft = 300, qr_status = QrPending,
      qr_password = [], qr_countdown = False, qr_poll = None, qr_inits = 0, qr_polls = [], qr_submits = [], qr_pushes = []\<rparr>"

text \<open>Setting state after the form is gone has no effect.\<close>

definition set_qr :: "(qr_form \<Rightarrow> qr_form) \<Rightarrow> qr_form \<Rightarrow> qr_form" where
  "set_qr f p = (if qr_mounted p then qr_effects (f p) else p)"

definition init_answered :: "(string option, string \<times> string) sum \<Rightarrow> qr_form \<Rightarrow> qr_form" where
  "init_answered answer p =
     (let p1 = p\<lparr>qr_inits := qr_inits p - 1\<rparr>
      in case answer of
           Inr (i, url) \<Rightarrow> set_qr (\<lambda>p. p\<lparr>qr_id := i, qr_url := url, qr_timeLeft := 300, qr_loading := False\<rparr>) p1
         | Inl d \<Rightarrow> set_qr (\<lambda>p. p\<lparr>qr_error := the (opt_or d (Some ''Gagal membuat sesi QR Code'')), qr_loading := False\<rparr>) p1)"

definition qr_tick :: "qr_form \<Rightarrow> qr_form" where
  "qr_tick p =
     (if \<not> qr_countdown p then p
      else if qr_timeLeft p \<le> 1 then set_qr (\<lambda>p. p\<lparr>qr_status := QrExpired, qr_timeLeft := 0\<rparr>) p
      else set_qr (\<lambda>p. p\<lparr>qr_timeLeft := qr_timeLeft p - 1\<rparr>) p)"

definition poll_fires :: "qr_form \<Rightarrow> qr_form" where
  "poll_fires p = (case qr_poll p of None \<Rightarrow> p | Some c \<Rightarrow> p\<lparr>qr_polls := qr_polls p @ [c]\<rparr>)"

text \<open>The answer to a poll is compared with the status that its closure captured.  A failed poll is ignored.\<close>

definition poll_answered :: "nat \<Rightarrow> qr_answer option \<Rightarrow> qr_form \<Rightarrow> qr_form" where
  "poll_answered n answer p =
     (let captured = snd (qr_polls p ! n);
          p1 = p\<lparr>qr_polls := take n (qr_polls p) @ drop (Suc n) (qr_polls p)\<rparr>
      in case answer of
           None \<Rightarrow> p1
         | Some a \<Rightarrow>
             if qa_status a = captured then p1
             else
               let p2 = set_qr (\<lambda>p. p\<lparr>qr_status := qa_status a\<rparr>) p1
               in if qa_status a = QrSuccess \<and> truthy (qa_account a)
                  then p2\<lparr>qr_pushes := qr_pushes p2 @ [''/accounts/'' @ the (qa_account a)]\<rparr>
                  else if qa_status a = QrFailed
                  then set_qr (\<lambda>p. p\<lparr>qr_error := the (opt_or (qa_error a) (Some ''Login gagal. Silakan coba lagi.''))\<rparr>) p2
                  else if qa_status a = QrExpired
                  then set_qr (\<lambda>p. p\<lparr>qr_error := ''Kode QR sudah kedaluwarsa. Silakan generate ulang.''\<rparr>) p2
                  else p2)"

text \<open>The button of the second factor.\<close>

definition can_submit2FA :: "qr_form \<Rightarrow> bool" where
  "can_submit2FA p \<longleftrightarrow> qr_mounted p \<and> qr_status p = QrNeeds2fa \<and> \<not> qr_loading p \<and> qr_password p \<noteq> []"

definition submit2FA :: "qr_form \<Rightarrow> qr_form" where
  "submit2FA p = qr_effects (p\<lparr>qr_error := [], qr_loading := True, qr_submits := qr_submits p @ [(qr_id p, qr_password p)]\<rparr>)"

definition submit_answered :: "nat \<Rightarrow> (string option, qr_answer) sum \<Rightarrow> qr_form \<Rightarrow> qr_form" where
  "submit_answered n answer p =
     (let p1 = p\<lparr>qr_submits := take n (qr_submits p) @ drop (Suc n) (qr_submits p)\<rparr>
      in case answer of
           Inr a \<Rightarrow>
             if qa_status a = QrSuccess \<and> truthy (qa_account a)
             then (set_qr (\<lambda>p. p\<lparr>qr_status := QrSuccess, qr_loading := False\<rparr>) p1)
                    \<lparr>qr_pushes := qr_pushes p @ [''/accounts/'' @ the (qa_account a)]\<rparr>
             else set_qr (\<lambda>p. p\<lparr>qr_loading := False\<rparr>) p1
         | Inl d \<Rightarrow> set_qr (\<lambda>p. p\<lparr>qr_error := the (opt_or d (Some ''Password 2FA salah. Silakan coba lagi.'')), qr_loading := False\<rparr>) p1)"

definition leave_qr :: "qr_form \<Rightarrow> qr_form" where "leave_qr p = qr_effects (p\<lparr>qr_mounted := False\<rparr>)"

text \<open>The alert with the error, and the buttons that start a new code: in the alert, in the overlay of a code that ended,
  next to the countdown, and on the page of the second factor.\<close>

definition shows_error :: "qr_form \<Rightarrow> string option" where
  "shows_error p = (if qr_error p \<noteq> [] \<and> qr_status p \<noteq> QrNeeds2fa then Some (qr_error p) else None)"

definition can_init :: "qr_form \<Rightarrow> bool" where
  "can_init p \<longleftrightarrow> qr_mounted p \<and>
     (shows_error p \<noteq> None
      \<or> (qr_status p \<notin> {QrNeeds2fa, QrSuccess} \<and> (qr_timeLeft p \<le> 0 \<or> qr_status p \<in> {QrExpired, QrFailed}) \<and> \<not> qr_loading p)
      \<or> (qr_status p = QrPending \<and> qr_url p \<noteq> [] \<and> qr_timeLeft p > 0 \<and> \<not> qr_loading p)
      \<or> qr_status p = QrNeeds2fa)"

text \<open>The backend names a code and its address in every answer to an init.\<close>

definition names_code :: "(string option, string \<times> string) sum \<Rightarrow> bool" where
  "names_code answer \<longleftrightarrow> (case answer of Inl _ \<Rightarrow> True | Inr (i, u) \<Rightarrow> i \<noteq> [] \<and> u \<noteq> [])"

inductive qr_step :: "qr_form \<Rightarrow> unit \<Rightarrow> qr_form \<Rightarrow> bool" where
  inits: "can_init p \<Longrightarrow> qr_step p () (initQR p)"
| initiated: "0 < qr_inits p \<Longrightarrow> names_code answer \<Longrightarrow> qr_step p () (init_answered answer p)"
| ticks: "qr_step p () (qr_tick p)"
| polls: "qr_step p () (poll_fires p)"
| polled: "n < length (qr_polls p) \<Longrightarrow> qr_step p () (poll_answered n reply p)"
| types: "qr_status p = QrNeeds2fa \<Longrightarrow> qr_step p () (p\<lparr>qr_password := v\<rparr>)"
| submits: "can_submit2FA p \<Longrightarrow> qr_step p () (submit2FA p)"
| submitted: "n < length (qr_submits p) \<Longrightarrow> qr_step p () (submit_answered n outcome p)"
| leaves: "qr_step p () (leave_qr p)"

section \<open>Properties of session strings\<close>

lemma needs_Txt: "needs (\<lambda>d. d = c) (Txt [c])"
proof -
  have "\<not> startsWith u [c]" if "list_all (\<lambda>d. d \<noteq> c) u" for u using that by (cases u) auto
  then show ?thesis by (simp add: needs_def)
qed

lemma gramjs_needs: "needs (\<lambda>d. d = CHR '':'') gramjs_re"
  unfolding gramjs_re_def seqs.simps by (rule needs_Seq2, rule needs_Seq1, rule needs_Txt)

lemma std_char: "b64_char (if c = CHR ''-'' then CHR ''+'' else if c = CHR ''_'' then CHR ''/'' else c)"
  if "b64_char c \<or> c = CHR ''-'' \<or> c = CHR ''_''"
  using that by (auto simp: b64_char_def)

lemma b64_plain: "b64_char c \<Longrightarrow> \<not> ascii_ws c \<and> \<not> is_ws c \<and> c \<noteq> CHR '':'' \<and> c \<noteq> CHR ''=''"
  by (auto simp: b64_char_def ascii_ws_def is_ws_def is_alpha_def is_digit_def)

text \<open>A text of base64 characters, in either alphabet and with its padding or without, is told by the length it decodes to.\<close>

definition url_b64 :: "char \<Rightarrow> bool" where "url_b64 c \<longleftrightarrow> b64_char c \<or> c = CHR ''-'' \<or> c = CHR ''_''"

lemma url_plain: "url_b64 c \<Longrightarrow> \<not> is_ws c \<and> c \<noteq> CHR '':''"
  using b64_plain [of c] by (auto simp: url_b64_def is_ws_def)

lemma atob_padded:
  assumes "list_all b64_char k" "length k mod 4 = 2" "e = [] \<or> e = ''==''"
  shows "atob_length (k @ e) = Some (length k * 6 div 8)"
proof -
  have "k \<noteq> []" using assms(2) by auto
  then have last: "last k \<noteq> CHR ''=''" using assms(1) b64_plain by (metis last_in_set list_all_iff)
  have ws: "filter (\<lambda>c. \<not> ascii_ws c) k = k" using assms(1) b64_plain by (induction k) auto
  have len: "(length k + 2) mod 4 = 0" using assms(2) by presburger
  have pad: "drop_padding 2 (k @ ''=='') = k"
    by (simp add: numeral_2_eq_2 endsWith_def butlast_append)
  have e: "filter (\<lambda>c. \<not> ascii_ws c) e = e" using assms(3) by (auto simp: ascii_ws_def)
  show ?thesis
    using assms(3)
  proof
    assume "e = []"
    then show ?thesis using ws assms(1,2) by (simp add: atob_length_def)
  next
    assume "e = ''==''"
    then show ?thesis using ws e len pad assms(1,2) by (simp add: atob_length_def Let_def)
  qed
qed

theorem raw_key_is_recognised:
  assumes "list_all url_b64 k" "length k = 342" "hd k \<noteq> CHR ''1''" "e = [] \<or> e = ''==''"
  shows "detectSessionFormat (k @ e) = RawBase64"
proof -
  let ?m = "map (\<lambda>c. if c = CHR ''-'' then CHR ''+'' else if c = CHR ''_'' then CHR ''/'' else c)"
  have ne: "k \<noteq> []" using assms(2) by auto
  have "list_all (\<lambda>c. \<not> is_ws c) k" "list_all (\<lambda>c. c \<noteq> CHR '':'') k"
    by (rule list.pred_mono_strong [OF assms(1)], simp add: url_plain)+
  moreover have "list_all (\<lambda>c. \<not> is_ws c) e" "list_all (\<lambda>c. c \<noteq> CHR '':'') e" using assms(4) by (auto simp: is_ws_def)
  ultimately have ws: "list_all (\<lambda>c. \<not> is_ws c) (k @ e)" "list_all (\<lambda>c. c \<noteq> CHR '':'') (k @ e)" by simp_all
  have t: "trim (k @ e) = k @ e" by (rule trim_no_ws [OF ws(1)])
  have one: "\<not> startsWith (k @ e) ''1''" using ne assms(3) by (cases k) auto
  have re: "steps gramjs_re (k @ e, []) = []" using gramjs_needs ws(2) unfolding needs_def by blast
  have "list_all b64_char (?m k)" unfolding list_all_iff set_map ball_simps
    by (intro ballI std_char) (use assms(1) in \<open>simp add: list_all_iff url_b64_def\<close>)
  then have "atob_length (?m k @ e) = Some 256" using atob_padded [of "?m k" e] assms(2,4) by simp
  moreover have "?m (k @ e) = ?m k @ e" using assms(4) by auto
  ultimately show ?thesis using t one re ne by (simp add: detectSessionFormat_def Let_def)
qed

text \<open>A session string of GramJS for any data centre but the first is recognised.\<close>

lemma plus_takes:
  assumes "u \<noteq> []" "list_all p u" shows "(s, cs) \<in> set (steps (Plus p) (u @ s, cs))"
proof -
  have "length u \<le> run_length p (u @ s)" using assms(2) by (induction u) (auto simp: run_length_def)
  moreover have "0 < length u" using assms(1) by simp
  ultimately have "length u \<in> {1..<Suc (run_length p (u @ s))}" by (simp add: Suc_le_eq)
  then show ?thesis unfolding steps.simps set_map set_rev set_upt by (intro image_eqI [of _ _ "length u"]) simp_all
qed

lemma seq_plus: "u \<noteq> [] \<Longrightarrow> list_all p u \<Longrightarrow> st \<in> set (steps r (s, cs)) \<Longrightarrow> st \<in> set (steps (Seq (Plus p) r) (u @ s, cs))"
  using plus_takes [of u p s cs] by (simp del: steps.simps(6)) blast

lemma seq_txt: "st \<in> set (steps r (s, cs)) \<Longrightarrow> st \<in> set (steps (Seq (Txt w) r) (w @ s, cs))"
  by (simp add: startsWith_iff)

definition digits :: "string \<Rightarrow> bool" where "digits u \<longleftrightarrow> u \<noteq> [] \<and> list_all is_digit u"

theorem gramjs_is_recognised:
  assumes "digits dc" "hd dc \<noteq> CHR ''1''" "digits a" "digits b" "digits c" "digits d" "digits port" "k \<noteq> []" "list_all key_char k"
  shows "detectSessionFormat (dc @ '':'' @ a @ ''.'' @ b @ ''.'' @ c @ ''.'' @ d @ '':'' @ port @ '':'' @ k) = Gramjs"
proof -
  let ?s = "dc @ '':'' @ a @ ''.'' @ b @ ''.'' @ c @ ''.'' @ d @ '':'' @ port @ '':'' @ k"
  have "([], []) \<in> set (steps (Seq (Plus key_char) Eos) (k @ [], []))" by (rule seq_plus) (use assms in simp_all)
  then have "([], []) \<in> set (steps (Seq (Plus key_char) Eos) (k, []))" unfolding append_Nil2 .
  then have "([], []) \<in> set (steps gramjs_re (?s, []))"
    unfolding gramjs_re_def seqs.simps using assms(1-7) unfolding digits_def by (intro seq_plus seq_txt) simp_all
  then have re: "steps gramjs_re (?s, []) \<noteq> []" by (metis empty_iff list.set(1))
  have "key_char c \<Longrightarrow> \<not> is_ws c" for c by (auto simp: key_char_def is_ws_def is_digit_def is_alpha_def)
  then have key: "list_all (\<lambda>c. \<not> is_ws c) k" by (auto intro: list.pred_mono_strong [OF assms(9)])
  have "is_digit c \<Longrightarrow> \<not> is_ws c" for c by (auto simp: is_digit_def is_ws_def)
  then have plain: "list_all (\<lambda>c. \<not> is_ws c) u" if "digits u" for u
    using that by (auto simp: digits_def elim: list.pred_mono_strong)
  have "list_all (\<lambda>c. \<not> is_ws c) ?s" using key assms(1,3-7) by (simp add: plain) (simp add: is_ws_def)
  then have "trim ?s = ?s" by (rule trim_no_ws)
  moreover have "\<not> startsWith ?s ''1''" "?s \<noteq> []" using assms(1,2) by (cases dc; simp add: digits_def)+
  ultimately show ?thesis using re unfolding detectSessionFormat_def Let_def by (simp del: append.simps)
qed

text \<open>One of the first data centre is taken for a session string of Telethon.\<close>

theorem first_centre_is_telethon:
  "detectSessionFormat ''1:149.154.175.53:443:abcd'' = Telethon"
  by code_simp

section \<open>Properties of the QR login\<close>

text \<open>The intervals follow the state, a spinner has a request, and every poll under way saw the code pending.\<close>

definition qr_settled :: "qr_form \<Rightarrow> bool" where
  "qr_settled p \<longleftrightarrow>
     (qr_countdown p \<longleftrightarrow> qr_mounted p \<and> qr_url p \<noteq> [] \<and> qr_timeLeft p > 0 \<and> qr_status p = QrPending)
     \<and> qr_poll p = (if qr_mounted p \<and> qr_id p \<noteq> [] \<and> qr_status p = QrPending then Some (qr_id p, QrPending) else None)"

definition qr_awaits :: "qr_form \<Rightarrow> bool" where "qr_awaits p \<longleftrightarrow> 0 < qr_inits p \<or> qr_submits p \<noteq> []"

definition qr_inv :: "qr_form \<Rightarrow> bool" where
  "qr_inv p \<longleftrightarrow> qr_settled p \<and> (\<forall>c\<in>set (qr_polls p). snd c = QrPending) \<and> 0 \<le> qr_timeLeft p \<and> qr_timeLeft p \<le> 300
     \<and> (qr_mounted p \<and> qr_loading p \<longrightarrow> qr_awaits p)
     \<and> (qr_mounted p \<and> qr_status p = QrPending \<longrightarrow>
          0 < qr_inits p \<or> qr_error p \<noteq> [] \<or> qr_id p \<noteq> [] \<and> qr_url p \<noteq> [] \<and> 0 < qr_timeLeft p)"

lemma settled_effects [simp]: "qr_settled (qr_effects p)"
  by (cases "qr_status p") (simp_all add: qr_settled_def qr_effects_def)

lemma effects_sel [simp]:
  "qr_mounted (qr_effects p) = qr_mounted p" "qr_loading (qr_effects p) = qr_loading p" "qr_error (qr_effects p) = qr_error p"
  "qr_id (qr_effects p) = qr_id p" "qr_url (qr_effects p) = qr_url p" "qr_timeLeft (qr_effects p) = qr_timeLeft p"
  "qr_status (qr_effects p) = qr_status p" "qr_inits (qr_effects p) = qr_inits p" "qr_polls (qr_effects p) = qr_polls p"
  "qr_submits (qr_effects p) = qr_submits p" "qr_pushes (qr_effects p) = qr_pushes p"
  by (simp_all add: qr_effects_def)

lemma opt_or_text: "the (opt_or d (Some (c # cs))) \<noteq> []"
  by (cases d) auto

lemma qr_init_inv: "qr_inv p \<Longrightarrow> qr_inv (initQR p)"
  by (simp add: qr_inv_def initQR_def qr_awaits_def)

lemma settled_cong:
  "qr_settled (p\<lparr>qr_password := v\<rparr>) = qr_settled p" "qr_settled (p\<lparr>qr_polls := c\<rparr>) = qr_settled p"
  "qr_settled (p\<lparr>qr_inits := n\<rparr>) = qr_settled p" "qr_settled (p\<lparr>qr_submits := q\<rparr>) = qr_settled p"
  "qr_settled (p\<lparr>qr_pushes := u\<rparr>) = qr_settled p"
  by (simp_all add: qr_settled_def)

lemma set_qr_mounted: "qr_mounted p \<Longrightarrow> set_qr f p = qr_effects (f p)" and set_qr_gone: "\<not> qr_mounted p \<Longrightarrow> set_qr f p = p"
  by (simp_all add: set_qr_def)

lemma initiated_inv:
  assumes "qr_inv p" "names_code answer" shows "qr_inv (init_answered answer p)"
proof (cases "qr_mounted p")
  case True
  then show ?thesis
    using assms by (cases answer) (auto simp: qr_inv_def init_answered_def set_qr_mounted names_code_def opt_or_text qr_awaits_def)
next
  case False
  then show ?thesis using assms by (cases answer) (auto simp: qr_inv_def init_answered_def set_qr_gone settled_cong)
qed

lemma tick_inv: "qr_inv p \<Longrightarrow> qr_inv (qr_tick p)"
  by (cases "qr_mounted p")
    (auto simp: qr_inv_def qr_tick_def set_qr_mounted set_qr_gone qr_awaits_def qr_settled_def [of p])

lemma polls_inv: "qr_inv p \<Longrightarrow> qr_inv (poll_fires p)"
  by (auto simp: qr_inv_def poll_fires_def settled_cong qr_awaits_def split: option.splits) (auto simp: qr_settled_def split: if_splits)

lemma removed_subset: "set (take n xs @ drop (Suc n) xs) \<subseteq> set xs"
  using set_take_subset [of n xs] set_drop_subset [of "Suc n" xs] by auto

text \<open>The answer to a poll changes nothing that a request waits for.\<close>

lemma polled_inv:
  assumes "qr_inv p" "n < length (qr_polls p)" shows "qr_inv (poll_answered n reply p)"
proof -
  let ?p = "p\<lparr>qr_polls := take n (qr_polls p) @ drop (Suc n) (qr_polls p)\<rparr>"
  have p: "qr_inv ?p" using assms(1) removed_subset [of n "qr_polls p"] by (auto simp: qr_inv_def settled_cong qr_awaits_def)
  have pend: "snd (qr_polls p ! n) = QrPending" using assms by (simp add: qr_inv_def)
  have status: "qr_inv (set_qr (\<lambda>p. p\<lparr>qr_status := s\<rparr>) ?p)" if "s \<noteq> QrPending" for s
    using p that by (cases "qr_mounted p") (auto simp: qr_inv_def set_qr_mounted set_qr_gone qr_awaits_def)
  have err: "qr_inv (set_qr (\<lambda>p. p\<lparr>qr_error := c # e\<rparr>) q)" if "qr_inv q" for c e q
    using that by (cases "qr_mounted q") (auto simp: qr_inv_def set_qr_mounted set_qr_gone qr_awaits_def)
  have msg: "qr_inv (set_qr (\<lambda>p. p\<lparr>qr_error := the (opt_or d (Some (c # e)))\<rparr>) q)" if "qr_inv q" for c d e q
    using err [OF that] opt_or_text [of d c e] by (metis list.exhaust)
  have push: "qr_inv (q\<lparr>qr_pushes := u\<rparr>)" if "qr_inv q" for q u
    using that by (auto simp: qr_inv_def settled_cong qr_awaits_def)
  show ?thesis
    using pend p status by (auto simp: poll_answered_def Let_def intro!: push err msg split: option.splits)
qed

lemma submit_inv: "qr_inv p \<Longrightarrow> can_submit2FA p \<Longrightarrow> qr_inv (submit2FA p)"
  by (simp add: qr_inv_def submit2FA_def can_submit2FA_def qr_awaits_def)

lemma submitted_inv:
  assumes "qr_inv p" shows "qr_inv (submit_answered n outcome p)"
proof (cases "qr_mounted p")
  case True
  then show ?thesis
    using assms by (cases outcome) (auto simp: qr_inv_def submit_answered_def Let_def set_qr_mounted opt_or_text settled_cong qr_awaits_def)
next
  case False
  then show ?thesis
    using assms by (cases outcome) (auto simp: qr_inv_def submit_answered_def Let_def set_qr_gone settled_cong qr_awaits_def)
qed

lemma start_qr_inv: "qr_inv new_qr_form"
  by (simp add: new_qr_form_def initQR_def qr_inv_def qr_awaits_def)

interpretation qrm: machine "\<lambda>p. p = new_qr_form" qr_step qr_inv
proof
  show "qr_inv p" if "p = new_qr_form" for p using that start_qr_inv by simp
  show "qr_inv q" if "qr_inv p" "qr_step p l q" for p l q
    using that(2,1)
  proof (induction rule: qr_step.induct)
    case (types p v)
    then show ?case by (auto simp: qr_inv_def settled_cong qr_awaits_def)
  next
    case (leaves p)
    then show ?case by (simp add: qr_inv_def leave_qr_def)
  qed (simp_all add: qr_init_inv initiated_inv tick_inv polls_inv polled_inv submit_inv submitted_inv)
qed

text \<open>C20: the QR login never gets stuck, in whatever order answers, polls, ticks and clicks come: while its form is
  open and the login has not succeeded, a request is under way, or the code shown is being polled and counted
  down, or a button for a new code is there; and a spinner always has a request behind it.\<close>

theorem qr_login_never_stuck:
  assumes "reach (\<lambda>p. p = new_qr_form) qr_step p" "qr_mounted p" "qr_status p \<noteq> QrSuccess"
  shows "(qr_awaits p \<or> can_init p \<or> qr_poll p = Some (qr_id p, QrPending) \<and> qr_countdown p \<and> qr_url p \<noteq> [])
    \<and> (qr_loading p \<longrightarrow> qr_awaits p)"
proof -
  have inv: "qr_inv p" by (rule qrm.reach_inv [OF assms(1)])
  then have "qr_loading p \<longrightarrow> qr_awaits p" using assms(2) by (simp add: qr_inv_def)
  moreover have "qr_awaits p \<or> can_init p \<or> qr_poll p = Some (qr_id p, QrPending) \<and> qr_countdown p \<and> qr_url p \<noteq> []"
  proof (cases "qr_status p = QrPending")
    case True
    then show ?thesis using inv assms(2) by (auto simp: qr_inv_def qr_settled_def qr_awaits_def can_init_def shows_error_def)
  next
    case False
    then show ?thesis using inv assms(2,3) by (cases "qr_status p") (auto simp: qr_inv_def can_init_def)
  qed
  ultimately show ?thesis by blast
qed


definition demo_qr :: qr_form where
  "demo_qr = init_answered (Inr (''q1'', ''tg://login'')) new_qr_form"

lemma demo_qr_reach: "reach (\<lambda>p. p = new_qr_form) qr_step demo_qr"
  unfolding demo_qr_def
proof (rule reach_step)
  show "reach (\<lambda>p. p = new_qr_form) qr_step new_qr_form" by (rule reach_start) simp
  show "qr_step new_qr_form () (init_answered (Inr (''q1'', ''tg://login'')) new_qr_form)"
    by (rule qr_step.initiated) (simp_all add: names_code_def new_qr_form_def initQR_def)
qed

theorem qr_login_never_stuck_witness:
  "(qr_awaits demo_qr \<or> can_init demo_qr
      \<or> qr_poll demo_qr = Some (qr_id demo_qr, QrPending) \<and> qr_countdown demo_qr \<and> qr_url demo_qr \<noteq> [])
    \<and> (if qr_loading demo_qr then qr_awaits demo_qr else True)"
  using qr_login_never_stuck [OF demo_qr_reach] by (simp add: demo_qr_def new_qr_form_def initQR_def init_answered_def set_qr_def)

text \<open>A wrong password of the second factor is told by an error that the page does not show: the alert is left out
  on the page of the second factor.\<close>

theorem wrong_password_not_shown:
  assumes "qr_status p = QrNeeds2fa"
  shows "shows_error (submit_answered n (Inl d) p) = None"
  using assms by (simp add: shows_error_def submit_answered_def set_qr_def Let_def)

text \<open>The answer to a poll for a code that was replaced meanwhile is taken for the new one: the new code is marked as
  expired and no longer polled although it would be valid.\<close>

theorem stale_poll_ends_new_code:
  assumes "qr_mounted p" "qr_polls p = [(old, QrPending)]" "qr_id p = new" "old \<noteq> new"
  shows "let q = poll_answered 0 (Some \<lparr>qa_status = QrExpired, qa_account = None, qa_error = e\<rparr>) p
    in qr_id q = new \<and> qr_status q = QrExpired \<and> qr_poll q = None"
  using assms by (simp add: poll_answered_def set_qr_def Let_def) (simp add: qr_effects_def)

theorem stale_poll_reachable:
  "\<exists>p. reach (\<lambda>p. p = new_qr_form) qr_step p \<and> qr_mounted p \<and> qr_polls p = [(''q1'', QrPending)] \<and> qr_id p = ''q2'' \<and> qr_countdown p"
proof -
  let ?a = "poll_fires demo_qr" let ?b = "initQR ?a" let ?c = "init_answered (Inr (''q2'', ''tg://login'')) ?b"
  note defs = demo_qr_def new_qr_form_def initQR_def init_answered_def set_qr_def poll_fires_def qr_effects_def
  have a: "reach (\<lambda>p. p = new_qr_form) qr_step ?a" by (rule reach_step [OF demo_qr_reach qr_step.polls])
  have b: "reach (\<lambda>p. p = new_qr_form) qr_step ?b"
    by (rule reach_step [OF a qr_step.inits]) (simp add: can_init_def defs)
  have "reach (\<lambda>p. p = new_qr_form) qr_step ?c"
    by (rule reach_step [OF b qr_step.initiated]) (simp_all add: names_code_def initQR_def)
  moreover have "qr_mounted ?c" "qr_polls ?c = [(''q1'', QrPending)]" "qr_id ?c = ''q2''" "qr_countdown ?c" by (simp_all add: defs)
  ultimately show ?thesis by blast
qed

text \<open>A poll that is answered after the form was left still takes the user to the account.\<close>

theorem left_form_navigates:
  assumes "\<not> qr_mounted p" "qr_polls p = [(i, QrPending)]"
  shows "qr_pushes (poll_answered 0 (Some \<lparr>qa_status = QrSuccess, qa_account = Some ''a1'', qa_error = None\<rparr>) p) = qr_pushes p @ [''/accounts/a1'']"
  using assms by (simp add: poll_answered_def set_qr_def Let_def)

end
