(* ===== verification/Paging.thy ===== *)
theory Paging
  imports JsNumber
begin

text \<open>
  Lists shown in pages, as several pages of the client cut them: \<open>slice((page - 1) * size, page * size)\<close> of a list,
  \<open>Math.ceil(length / size)\<close> pages and the effect that brings a page number back into range.
\<close>

definition page_slice :: "nat \<Rightarrow> nat \<Rightarrow> 'a list \<Rightarrow> 'a list" where
  "page_slice k page xs = take k (drop ((page - 1) * k) xs)"

text \<open>\<open>Math.max(1, Math.ceil(n / size))\<close>.\<close>

definition page_count :: "nat \<Rightarrow> nat \<Rightarrow> nat" where
  "page_count k n = max 1 ((n + k - 1) div k)"

lemma page_count_positive [simp]: "0 < page_count k n" "Suc 0 \<le> page_count k n"
  by (simp_all add: page_count_def)

lemma page_count_enough:
  assumes "0 < k" shows "n \<le> page_count k n * k"
proof -
  let ?q = "(n + k - 1) div k"
  have "n + k - 1 < k + k * ?q" by (rule dividend_less_times_div [OF assms])
  then have "n \<le> ?q * k" using assms by (simp add: mult.commute [of k])
  also have "\<dots> \<le> page_count k n * k" by (rule mult_le_mono1) (simp add: page_count_def)
  finally show ?thesis .
qed

text \<open>The pages cut the list: one after the other they give the whole of it.\<close>

lemma take_pages: "concat (map (\<lambda>i. page_slice k (Suc i) xs) [0..<n]) = take (n * k) xs"
proof (induction n)
  case (Suc n)
  then have "concat (map (\<lambda>i. page_slice k (Suc i) xs) [0..<Suc n]) = take (n * k) xs @ take k (drop (n * k) xs)"
    by (simp add: page_slice_def)
  also have "\<dots> = take (Suc n * k) xs" by (simp add: take_add [symmetric] add.commute)
  finally show ?case .
qed simp

lemma pages_partition:
  "0 < k \<Longrightarrow> concat (map (\<lambda>i. page_slice k (Suc i) xs) [0..<page_count k (length xs)]) = xs"
  using page_count_enough [of k "length xs"] by (simp add: take_pages)

lemma set_page_slice: "set (page_slice k page xs) \<subseteq> set xs"
  unfolding page_slice_def by (meson order_trans set_drop_subset set_take_subset)

lemma length_page_slice: "length (page_slice k page xs) \<le> k"
  by (simp add: page_slice_def)

text \<open>Every page in range but that of an empty list shows something.\<close>

lemma page_slice_nonempty:
  assumes "0 < k" "1 \<le> page" "page \<le> page_count k (length xs)" "xs \<noteq> []"
  shows "page_slice k page xs \<noteq> []"
proof -
  have "(page - 1) * k < length xs"
  proof (cases "page = 1")
    case False
    let ?q = "(length xs + k - 1) div k"
    have "page \<le> ?q" using assms(3) False assms(2) by (simp add: page_count_def max_def split: if_splits)
    then have "(page - 1) * k \<le> (?q - 1) * k" by (simp add: diff_le_mono)
    also have "\<dots> = ?q * k - k" by (simp add: diff_mult_distrib)
    also have "\<dots> \<le> length xs + k - 1 - k" by (intro diff_le_mono) (simp add: div_times_less_eq_dividend)
    also have "\<dots> < length xs" using assms(1,4) by (cases xs) auto
    finally show ?thesis .
  qed (use assms(4) in simp)
  then show ?thesis using assms(1) by (simp add: page_slice_def)
qed

end
