(* ===== verification/Marketplace.thy ===== *)
theory Marketplace
  imports CommerceHooks Helpers Paging
begin

text \<open>
  Trading Telegram accounts: \<open>src/frontend/src/app/(dashboard)/orders/buy-accounts/page.tsx\<close> and
  \<open>sell-accounts/page.tsx\<close>.

  The lists come from the hooks of \<open>CommerceHooks\<close>, whose entries are read here as records; prices are integers of
  rupiah.  Translations that are missing fall back to texts of the page, which are left out with the notices' wording.
\<close>

section \<open>Buying: the list\<close>

record market_account =
  ma_id :: string
  ma_telegram_id :: "int option"
  ma_country_code :: "string option"
  ma_country_name :: "string option"
  ma_twofa :: bool
  ma_sell_price :: "int option"
  ma_buy_price :: "int option"
  ma_contacts :: "int option"
  ma_spam :: "string option"
  ma_age :: "string option"
  ma_resale :: bool

record stock_category =
  sc_country_code :: string
  sc_ready_stock :: int
  sc_price :: int

datatype spam_filter = AnySpam | CleanOnly | RiskOnly
datatype twofa_filter = AnyTwofa | TwofaDisabled | TwofaRequired
datatype resale_filter = AnySale | FreshOnly | ResaleOnly
datatype market_sort = PriceAsc | PriceDesc | ContactsDesc

definition market_price :: "market_account \<Rightarrow> int" where
  "market_price a = (case ma_buy_price a of Some p \<Rightarrow> p | None \<Rightarrow> (case ma_sell_price a of Some p \<Rightarrow> p | None \<Rightarrow> 7000))"

definition totalStockCount :: "stock_category list option \<Rightarrow> int" where
  "totalStockCount stock = (case stock of None \<Rightarrow> 0 | Some cs \<Rightarrow> sum_list (map sc_ready_stock cs))"

definition lowestPrice :: "stock_category list option \<Rightarrow> int" where
  "lowestPrice stock =
     (case stock of None \<Rightarrow> 0
      | Some cs \<Rightarrow> (case filter (\<lambda>p. p > 0) (map sc_price cs) of [] \<Rightarrow> 0 | p # ps \<Rightarrow> foldr min ps p))"

text \<open>\<open>String(id || "")\<close>, and the lower case of a text that may be missing.\<close>

definition tg_text :: "int option \<Rightarrow> string" where
  "tg_text i = (case i of None \<Rightarrow> [] | Some n \<Rightarrow> (if n = 0 then [] else int_str n))"

definition low :: "string option \<Rightarrow> string" where "low s = (case s of None \<Rightarrow> [] | Some t \<Rightarrow> toLowerCase t)"

definition market_search :: "string \<Rightarrow> market_account \<Rightarrow> bool" where
  "market_search searchQuery a \<longleftrightarrow>
     trim searchQuery = [] \<or>
     (let q = trim (toLowerCase searchQuery)
      in str_includes (tg_text (ma_telegram_id a)) q \<or> str_includes (low (ma_country_code a)) q \<or> str_includes (low (ma_country_name a)) q)"

definition spam_matches :: "spam_filter \<Rightarrow> market_account \<Rightarrow> bool" where
  "spam_matches f a \<longleftrightarrow> (case f of AnySpam \<Rightarrow> True | CleanOnly \<Rightarrow> ma_spam a = Some ''normal''
     | RiskOnly \<Rightarrow> ma_spam a = Some ''limited'' \<or> ma_spam a = Some ''risk'')"

definition twofa_matches :: "twofa_filter \<Rightarrow> market_account \<Rightarrow> bool" where
  "twofa_matches f a \<longleftrightarrow> (case f of AnyTwofa \<Rightarrow> True | TwofaDisabled \<Rightarrow> \<not> ma_twofa a | TwofaRequired \<Rightarrow> ma_twofa a)"

definition resale_matches :: "resale_filter \<Rightarrow> market_account \<Rightarrow> bool" where
  "resale_matches f a \<longleftrightarrow> (case f of AnySale \<Rightarrow> True | FreshOnly \<Rightarrow> \<not> ma_resale a | ResaleOnly \<Rightarrow> ma_resale a)"

definition market_list :: "string \<Rightarrow> spam_filter \<Rightarrow> twofa_filter \<Rightarrow> resale_filter \<Rightarrow> market_sort \<Rightarrow> market_account list option \<Rightarrow> market_account list" where
  "market_list searchQuery spam twofa resale sortBy rawAccounts =
     (case rawAccounts of None \<Rightarrow> []
      | Some raw \<Rightarrow>
          let list = filter (resale_matches resale) (filter (twofa_matches twofa) (filter (spam_matches spam) (filter (market_search searchQuery) raw)))
          in case sortBy of
               PriceAsc \<Rightarrow> js_sort market_price list
             | PriceDesc \<Rightarrow> js_sort (\<lambda>a. - market_price a) list
             | ContactsDesc \<Rightarrow> js_sort (\<lambda>a. - (case ma_contacts a of None \<Rightarrow> 0 | Some n \<Rightarrow> n)) list)"

section \<open>Buying: the page\<close>

datatype buy_method = AutoMethod | QrisMethod | Bep20Method | Trc20Method | PolygonMethod

definition method_str :: "buy_method \<Rightarrow> string option" where
  "method_str m = (case m of AutoMethod \<Rightarrow> None | QrisMethod \<Rightarrow> Some ''qris'' | Bep20Method \<Rightarrow> Some ''usdt_bep20''
     | Trc20Method \<Rightarrow> Some ''usdt_trc20'' | PolygonMethod \<Rightarrow> Some ''usdt_polygon'')"

record pending_buy =
  pb_id :: string
  pb_telegram_id :: "int option"
  pb_price :: int
  pb_country_code :: string
  pb_country_name :: string
  pb_spam :: "string option"
  pb_twofa :: bool
  pb_contacts :: "int option"
  pb_age :: "string option"

record bought_account =
  bo_id :: string
  bo_telegram_id :: "int option"
  bo_phone :: string
  bo_first_name :: "string option"
  bo_last_name :: "string option"
  bo_username :: "string option"

text \<open>The request under way, if any; \<open>bp_following\<close> counts the purchases that succeeded and wait for the session and
  the lists to be fetched again.  \<open>bp_posts\<close> are all requests sent.\<close>

record buy_page =
  bp_selectedCountry :: string
  bp_searchQuery :: string
  bp_spam :: spam_filter
  bp_twofa :: twofa_filter
  bp_resale :: resale_filter
  bp_sort :: market_sort
  bp_confirmOpen :: bool
  bp_pending :: "pending_buy option"
  bp_method :: buy_method
  bp_successOpen :: bool
  bp_bought :: "bought_account option"
  bp_buying :: "(pending_buy \<times> buy_method) option"
  bp_following :: nat
  bp_posts :: "(pending_buy \<times> buy_method) list"
  bp_pushed :: "string list"

definition new_buy_page :: buy_page where
  "new_buy_page =
     \<lparr>bp_selectedCountry = ''all'', bp_searchQuery = [], bp_spam = AnySpam, bp_twofa = AnyTwofa, bp_resale = AnySale, bp_sort = PriceAsc,
      bp_confirmOpen = False, bp_pending = None, bp_method = AutoMethod, bp_successOpen = False, bp_bought = None, bp_buying = None,
      bp_following = 0, bp_posts = [], bp_pushed = []\<rparr>"

definition shown_accounts :: "market_account list option \<Rightarrow> buy_page \<Rightarrow> market_account list" where
  "shown_accounts raw p = market_list (bp_searchQuery p) (bp_spam p) (bp_twofa p) (bp_resale p) (bp_sort p) raw"

definition hasActiveFilters :: "buy_page \<Rightarrow> bool" where
  "hasActiveFilters p \<longleftrightarrow> bp_selectedCountry p \<noteq> ''all'' \<or> trim (bp_searchQuery p) \<noteq> [] \<or> bp_spam p \<noteq> AnySpam \<or> bp_twofa p \<noteq> AnyTwofa \<or> bp_resale p \<noteq> AnySale"

definition clearAllFilters :: "buy_page \<Rightarrow> buy_page" where
  "clearAllFilters p = p\<lparr>bp_selectedCountry := ''all'', bp_searchQuery := [], bp_spam := AnySpam, bp_twofa := AnyTwofa, bp_resale := AnySale\<rparr>"

definition toggle_country :: "string \<Rightarrow> buy_page \<Rightarrow> buy_page" where
  "toggle_country c p = p\<lparr>bp_selectedCountry := (if bp_selectedCountry p = c then ''all'' else c)\<rparr>"

text \<open>The button of an account.\<close>

definition buy_now :: "market_account \<Rightarrow> buy_page \<Rightarrow> buy_page" where
  "buy_now a p =
     (let countryCode = the (opt_or (ma_country_code a) (Some (bp_selectedCountry p)));
          countryName = the (opt_or (ma_country_name a)
            (Some (if countryCode = ''+62'' then ''Indonesia'' else if countryCode = ''+91'' then ''India'' else ''Telegram Account'')))
      in p\<lparr>bp_pending := Some \<lparr>pb_id = ma_id a, pb_telegram_id = ma_telegram_id a, pb_price = market_price a, pb_country_code = countryCode,
             pb_country_name = countryName, pb_spam = ma_spam a, pb_twofa = ma_twofa a, pb_contacts = ma_contacts a, pb_age = ma_age a\<rparr>,
           bp_confirmOpen := True\<rparr>)"

definition canAfford :: "int option \<Rightarrow> market_account \<Rightarrow> bool" where
  "canAfford balance a \<longleftrightarrow> (case balance of None \<Rightarrow> True | Some b \<Rightarrow> b \<ge> market_price a)"

text \<open>Whether the confirming button announces a payment by QRIS rather than naming the default text.\<close>

definition says_qris :: "int option \<Rightarrow> buy_page \<Rightarrow> bool" where
  "says_qris balance p \<longleftrightarrow> (case (bp_pending p, balance) of (Some a, Some b) \<Rightarrow> b < pb_price a | _ \<Rightarrow> False)"

text \<open>\<open>handleBuyConfirm\<close> up to its request, the answers, and what follows a success once session and lists are back.\<close>

definition buy_confirm :: "buy_page \<Rightarrow> buy_page" where
  "buy_confirm p =
     (case bp_pending p of None \<Rightarrow> p
      | Some a \<Rightarrow> p\<lparr>bp_buying := Some (a, bp_method p), bp_posts := bp_posts p @ [(a, bp_method p)]\<rparr>)"

definition buy_request :: "pending_buy \<times> buy_method \<Rightarrow> mutation" where
  "buy_request x = useBuyAccount (pb_id (fst x)) (method_str (snd x))"

datatype buy_answer = PayInvoice string | Delivered bought_account | BuyRefused

definition buy_answered :: "buy_answer \<Rightarrow> buy_page \<Rightarrow> buy_page" where
  "buy_answered answer p =
     (let p1 = p\<lparr>bp_buying := None\<rparr>
      in case answer of
           PayInvoice i \<Rightarrow> p1\<lparr>bp_confirmOpen := False, bp_pending := None, bp_pushed := bp_pushed p @ [''/wallet/invoice/'' @ i]\<rparr>
         | Delivered a \<Rightarrow> p1\<lparr>bp_bought := Some a, bp_following := Suc (bp_following p)\<rparr>
         | BuyRefused \<Rightarrow> p1)"

definition buy_followed :: "buy_page \<Rightarrow> buy_page" where
  "buy_followed p = p\<lparr>bp_following := bp_following p - 1, bp_confirmOpen := False, bp_pending := None, bp_successOpen := True\<rparr>"

definition success_shown :: "buy_page \<Rightarrow> bool" where "success_shown p \<longleftrightarrow> bp_successOpen p \<and> bp_bought p \<noteq> None"

definition close_success :: "buy_page \<Rightarrow> buy_page" where "close_success p = p\<lparr>bp_successOpen := False, bp_bought := None\<rparr>"

text \<open>What the user can do, the dialogs being modal; the confirmation dialog ignores every button while its mutation is
  pending.  The filters that no control sets are missing.\<close>

inductive buy_step :: "buy_page \<Rightarrow> unit \<Rightarrow> buy_page \<Rightarrow> bool" where
  picks_country: "buy_step p () (toggle_country c p)"
| all_countries: "buy_step p () (p\<lparr>bp_selectedCountry := ''all''\<rparr>)"
| searches: "buy_step p () (p\<lparr>bp_searchQuery := q\<rparr>)"
| by_spam: "s \<in> {AnySpam, CleanOnly} \<Longrightarrow> buy_step p () (p\<lparr>bp_spam := s\<rparr>)"
| by_twofa: "t \<in> {AnyTwofa, TwofaDisabled} \<Longrightarrow> buy_step p () (p\<lparr>bp_twofa := t\<rparr>)"
| sorts: "buy_step p () (p\<lparr>bp_sort := o'\<rparr>)"
| clears: "buy_step p () (clearAllFilters p)"
| opens: "\<not> bp_confirmOpen p \<Longrightarrow> \<not> success_shown p \<Longrightarrow> a \<in> set (shown_accounts raw p) \<Longrightarrow> buy_step p () (buy_now a p)"
| cancels: "bp_confirmOpen p \<Longrightarrow> bp_buying p = None \<Longrightarrow> buy_step p () (p\<lparr>bp_confirmOpen := False\<rparr>)"
| pays_by: "bp_confirmOpen p \<Longrightarrow> buy_step p () (p\<lparr>bp_method := m\<rparr>)"
| confirms: "bp_confirmOpen p \<Longrightarrow> bp_buying p = None \<Longrightarrow> buy_step p () (buy_confirm p)"
| answered: "bp_buying p \<noteq> None \<Longrightarrow> buy_step p () (buy_answered answer p)"
| followed: "0 < bp_following p \<Longrightarrow> buy_step p () (buy_followed p)"
| finishes: "success_shown p \<Longrightarrow> buy_step p () (close_success p)"

section \<open>Selling\<close>

record sale_account =
  sl_id :: string
  sl_phone :: string
  sl_first_name :: "string option"
  sl_last_name :: "string option"
  sl_username :: "string option"
  sl_telegram_id :: "int option"
  sl_spam :: "string option"
  sl_price :: "int option"
  sl_active :: bool

definition PAGE_SIZE :: nat where "PAGE_SIZE = 10"

definition names_match :: "string option \<Rightarrow> string \<Rightarrow> bool" where
  "names_match s q \<longleftrightarrow> truthy s \<and> str_includes (toLowerCase (the s)) q"

definition sale_search :: "string \<Rightarrow> sale_account \<Rightarrow> bool" where
  "sale_search searchQuery a \<longleftrightarrow>
     trim searchQuery = [] \<or>
     (let q = trim (toLowerCase searchQuery)
      in str_includes (toLowerCase (sl_phone a)) q \<or> names_match (sl_first_name a) q \<or> names_match (sl_last_name a) q
         \<or> names_match (sl_username a) q \<or> (sl_telegram_id a \<notin> {None, Some 0} \<and> str_includes (tg_text (sl_telegram_id a)) q))"

text \<open>\<open>se_request\<close> is the request under way; \<open>se_posts\<close> are all requests, each with the list of accounts the page knew then.\<close>

record sell_page =
  se_eligible :: "sale_account list option"
  se_currentPage :: nat
  se_selectedIds :: "string list"
  se_confirmOpen :: bool
  se_selling :: bool
  se_searchQuery :: string
  se_clean :: bool
  se_request :: "string list option"
  se_posts :: "(sale_account list \<times> string list) list"

definition new_sell_page :: sell_page where
  "new_sell_page = \<lparr>se_eligible = None, se_currentPage = 1, se_selectedIds = [], se_confirmOpen = False, se_selling = False,
     se_searchQuery = [], se_clean = False, se_request = None, se_posts = []\<rparr>"

definition eligible_list :: "sell_page \<Rightarrow> sale_account list" where
  "eligible_list p = (case se_eligible p of None \<Rightarrow> [] | Some l \<Rightarrow> l)"

definition getPriceForAccount :: "sell_page \<Rightarrow> string \<Rightarrow> int" where
  "getPriceForAccount p i =
     (case find (\<lambda>a. sl_id a = i) (eligible_list p) of
        None \<Rightarrow> 0 | Some a \<Rightarrow> (case sl_price a of None \<Rightarrow> 0 | Some n \<Rightarrow> n))"

definition totalReceive :: "sell_page \<Rightarrow> int" where
  "totalReceive p = sum_list (map (getPriceForAccount p) (se_selectedIds p))"

definition totalPotentialValue :: "sell_page \<Rightarrow> int" where
  "totalPotentialValue p = sum_list (map (\<lambda>a. case sl_price a of None \<Rightarrow> 0 | Some n \<Rightarrow> n) (eligible_list p))"

definition filteredEligible :: "sell_page \<Rightarrow> sale_account list" where
  "filteredEligible p = filter (\<lambda>a. se_clean p \<longrightarrow> sl_spam a = Some ''normal'') (filter (sale_search (se_searchQuery p)) (eligible_list p))"

definition sellableAccounts :: "sell_page \<Rightarrow> sale_account list" where
  "sellableAccounts p = filter sl_active (filteredEligible p)"

definition sell_totalPages :: "sell_page \<Rightarrow> nat" where
  "sell_totalPages p = page_count PAGE_SIZE (length (filteredEligible p))"

definition paginatedEligible :: "sell_page \<Rightarrow> sale_account list" where
  "paginatedEligible p = page_slice PAGE_SIZE (se_currentPage p) (filteredEligible p)"

text \<open>The effect that brings the page into range.\<close>

definition clamp_page :: "sell_page \<Rightarrow> sell_page" where
  "clamp_page p = (if sell_totalPages p < se_currentPage p then p\<lparr>se_currentPage := sell_totalPages p\<rparr> else p)"

definition allFilteredSelected :: "sell_page \<Rightarrow> bool" where
  "allFilteredSelected p \<longleftrightarrow> sellableAccounts p \<noteq> [] \<and> list_all (\<lambda>a. sl_id a \<in> set (se_selectedIds p)) (sellableAccounts p)"

definition sell_selectAll :: "sell_page \<Rightarrow> sell_page" where
  "sell_selectAll p =
     (if sellableAccounts p = [] then p
      else p\<lparr>se_selectedIds := (if allFilteredSelected p then [] else map sl_id (sellableAccounts p))\<rparr>)"

text \<open>An account that is not active gets a notice instead.\<close>

definition handleToggleSelect :: "sale_account \<Rightarrow> sell_page \<Rightarrow> sell_page" where
  "handleToggleSelect a p =
     (if \<not> sl_active a then p
      else p\<lparr>se_selectedIds := (if sl_id a \<in> set (se_selectedIds p) then filter (\<lambda>i. i \<noteq> sl_id a) (se_selectedIds p)
                                else se_selectedIds p @ [sl_id a])\<rparr>)"

definition handleSellConfirm :: "sell_page \<Rightarrow> sell_page" where
  "handleSellConfirm p =
     (if se_selectedIds p = [] then p
      else if list_ex (\<lambda>a. sl_id a \<in> set (se_selectedIds p) \<and> \<not> sl_active a) (eligible_list p) then p
      else p\<lparr>se_selling := True, se_request := Some (se_selectedIds p), se_posts := se_posts p @ [(eligible_list p, se_selectedIds p)]\<rparr>)"

text \<open>\<open>None\<close> is a success.\<close>

definition sell_answered :: "api_failure option \<Rightarrow> sell_page \<Rightarrow> sell_page" where
  "sell_answered failure p =
     (let p1 = p\<lparr>se_request := None, se_selling := False\<rparr>
      in case failure of
           None \<Rightarrow> p1\<lparr>se_selectedIds := [], se_confirmOpen := False\<rparr>
         | Some e \<Rightarrow> (if isMarketplaceSellUnknownOutcome e then p1\<lparr>se_selectedIds := [], se_confirmOpen := False\<rparr> else p1))"

inductive sell_step :: "sell_page \<Rightarrow> unit \<Rightarrow> sell_page \<Rightarrow> bool" where
  refetched: "distinct (map sl_id l) \<Longrightarrow> sell_step p () (clamp_page (p\<lparr>se_eligible := Some l\<rparr>))"
| searched: "\<not> se_confirmOpen p \<Longrightarrow> sell_step p () (p\<lparr>se_searchQuery := q, se_currentPage := 1\<rparr>)"
| filtered: "\<not> se_confirmOpen p \<Longrightarrow> sell_step p () (p\<lparr>se_clean := b, se_currentPage := 1\<rparr>)"
| turned: "\<not> se_confirmOpen p \<Longrightarrow> 1 \<le> n \<Longrightarrow> n \<le> sell_totalPages p \<Longrightarrow> sell_step p () (p\<lparr>se_currentPage := n\<rparr>)"
| all_selected: "\<not> se_confirmOpen p \<Longrightarrow> sell_step p () (sell_selectAll p)"
| toggled: "\<not> se_confirmOpen p \<Longrightarrow> a \<in> set (paginatedEligible p) \<Longrightarrow> sell_step p () (handleToggleSelect a p)"
| opened: "\<not> se_confirmOpen p \<Longrightarrow> se_selectedIds p \<noteq> [] \<Longrightarrow> sell_step p () (p\<lparr>se_confirmOpen := True\<rparr>)"
| cancelled: "\<not> se_selling p \<Longrightarrow> sell_step p () (p\<lparr>se_confirmOpen := False\<rparr>)"
| confirmed: "se_confirmOpen p \<Longrightarrow> \<not> se_selling p \<Longrightarrow> sell_step p () (handleSellConfirm p)"
| sale_answered: "se_request p \<noteq> None \<Longrightarrow> sell_step p () (sell_answered failure p)"

section \<open>Properties of buying\<close>

text \<open>The list shows exactly the matching accounts, in the order asked for, equals in the order of the stock.\<close>

theorem market_list_exact:
  "mset (market_list q sp tf rs srt (Some raw))
      = mset (filter (\<lambda>a. market_search q a \<and> spam_matches sp a \<and> twofa_matches tf a \<and> resale_matches rs a) raw)
   \<and> sorted (map market_price (market_list q sp tf rs PriceAsc (Some raw)))
   \<and> sorted (map (\<lambda>a. - market_price a) (market_list q sp tf rs PriceDesc (Some raw)))
   \<and> filter (\<lambda>a. market_price a = k) (market_list q sp tf rs PriceAsc (Some raw))
      = filter (\<lambda>a. market_search q a \<and> spam_matches sp a \<and> twofa_matches tf a \<and> resale_matches rs a \<and> market_price a = k) raw"
  by (cases srt) (simp_all add: market_list_def mset_js_sort sorted_js_sort js_sort_stable Let_def conj_ac cong: conj_cong)

text \<open>The lowest price is positive and no positive price lies below it.\<close>

lemma foldr_min_le: "(x :: int) \<in> set (p # ps) \<Longrightarrow> foldr min ps p \<le> x"
  by (induction ps) (auto simp: min_le_iff_disj)

lemma foldr_min_in: "foldr min ps (p :: int) \<in> set (p # ps)"
  by (induction ps) (auto simp: min_def)

theorem lowest_price_is_least:
  assumes "c \<in> set cs" "sc_price c > 0"
  shows "0 < lowestPrice (Some cs) \<and> lowestPrice (Some cs) \<le> sc_price c \<and> (\<exists>d\<in>set cs. sc_price d = lowestPrice (Some cs))"
proof -
  let ?l = "filter (\<lambda>p. p > 0) (map sc_price cs)"
  have c: "sc_price c \<in> set ?l" using assms by auto
  then obtain p ps where l: "?l = p # ps" by (cases ?l) auto
  have low: "lowestPrice (Some cs) = foldr min ps p" using l by (simp add: lowestPrice_def)
  have "foldr min ps p \<in> set ?l" using foldr_min_in [of ps p] l by simp
  moreover have "foldr min ps p \<le> sc_price c" using c foldr_min_le l by (metis)
  ultimately show ?thesis using low by auto
qed

definition buy_inv :: "buy_page \<Rightarrow> bool" where
  "buy_inv p \<longleftrightarrow> (bp_confirmOpen p \<longrightarrow> bp_pending p \<noteq> None) \<and> bp_spam p \<noteq> RiskOnly \<and> bp_twofa p \<noteq> TwofaRequired \<and> bp_resale p = AnySale
     \<and> (case bp_buying p of None \<Rightarrow> True | Some x \<Rightarrow> x \<in> set (bp_posts p))"

lemmas buy_op_defs = toggle_country_def clearAllFilters_def buy_now_def buy_confirm_def buy_answered_def buy_followed_def close_success_def

interpretation bum: machine "\<lambda>p. p = new_buy_page" buy_step buy_inv
proof
  show "buy_inv p" if "p = new_buy_page" for p using that by (simp add: buy_inv_def new_buy_page_def)
  show "buy_inv q" if "buy_inv p" "buy_step p l q" for p l q
    using that(2,1)
    by (induction rule: buy_step.induct) (auto simp: buy_inv_def buy_op_defs Let_def split: buy_answer.splits option.splits)
qed

text \<open>Three of the filters cannot be reached: no control sets them.\<close>

theorem dead_filters:
  assumes "reach (\<lambda>p. p = new_buy_page) buy_step p"
  shows "bp_spam p \<noteq> RiskOnly \<and> bp_twofa p \<noteq> TwofaRequired \<and> bp_resale p = AnySale"
  using bum.reach_inv [OF assms] by (simp add: buy_inv_def)

definition demo_market :: market_account where
  "demo_market = \<lparr>ma_id = ''a1'', ma_telegram_id = Some 7, ma_country_code = Some ''+62'', ma_country_name = None, ma_twofa = False,
     ma_sell_price = None, ma_buy_price = Some 9000, ma_contacts = None, ma_spam = Some ''normal'', ma_age = None, ma_resale = False\<rparr>"

text \<open>Until the session and the lists are fetched again after a purchase, the dialog is open with its button enabled: a
  second click sends the purchase of the account that was just bought.\<close>

theorem bought_account_sent_again:
  "\<exists>p x. reach (\<lambda>p. p = new_buy_page) buy_step p \<and> bp_posts p = [x, x] \<and> bp_bought p \<noteq> None"
proof -
  let ?a = "buy_now demo_market new_buy_page"
  let ?b = "buy_answered (Delivered \<lparr>bo_id = ''a1'', bo_telegram_id = Some 7, bo_phone = ''62'', bo_first_name = None, bo_last_name = None, bo_username = None\<rparr>) (buy_confirm ?a)"
  note defs = buy_op_defs new_buy_page_def Let_def
  have a: "reach (\<lambda>p. p = new_buy_page) buy_step ?a"
  proof (rule reach_step)
    show "reach (\<lambda>p. p = new_buy_page) buy_step new_buy_page" by (rule reach_start) simp
    show "buy_step new_buy_page () ?a"
      by (rule buy_step.opens [where raw = "Some [demo_market]"])
        (simp_all add: new_buy_page_def success_shown_def shown_accounts_def market_list_def market_search_def spam_matches_def
          twofa_matches_def resale_matches_def trim_def)
  qed
  have b: "reach (\<lambda>p. p = new_buy_page) buy_step (buy_confirm ?a)"
    by (rule reach_step [OF a buy_step.confirms]) (simp_all add: defs)
  have c: "reach (\<lambda>p. p = new_buy_page) buy_step ?b"
    by (rule reach_step [OF b buy_step.answered]) (simp add: defs)
  have "reach (\<lambda>p. p = new_buy_page) buy_step (buy_confirm ?b)"
    by (rule reach_step [OF c buy_step.confirms]) (simp_all add: defs)
  moreover have "\<exists>x. bp_posts (buy_confirm ?b) = [x, x]" "bp_bought (buy_confirm ?b) \<noteq> None" by (simp_all add: defs)
  ultimately show ?thesis by blast
qed

text \<open>The end of a purchase closes whatever dialog is open by then.\<close>

theorem late_purchase_closes_dialog:
  assumes "bp_pending p = Some other" "bp_confirmOpen p"
  shows "bp_pending (buy_followed p) = None \<and> \<not> bp_confirmOpen (buy_followed p)"
  by (simp add: buy_followed_def)

text \<open>The chosen method of payment stays for the next account, and the confirming button speaks of QRIS for a short
  balance whatever method is chosen.\<close>

theorem method_survives_purchase: "bp_method (buy_now a (buy_followed p)) = bp_method p"
  by (simp add: buy_now_def buy_followed_def Let_def)

theorem button_ignores_method: "says_qris b (p\<lparr>bp_method := m\<rparr>) = says_qris b p"
  by (simp add: says_qris_def)

section \<open>Properties of selling\<close>

definition sale_allowed :: "sale_account list \<times> string list \<Rightarrow> bool" where
  "sale_allowed x \<longleftrightarrow> snd x \<noteq> [] \<and> distinct (snd x) \<and> (\<forall>a\<in>set (fst x). sl_id a \<in> set (snd x) \<longrightarrow> sl_active a)"

definition sell_inv :: "sell_page \<Rightarrow> bool" where
  "sell_inv p \<longleftrightarrow> distinct (map sl_id (eligible_list p)) \<and> distinct (se_selectedIds p) \<and> (se_selling p \<longleftrightarrow> se_request p \<noteq> None)
     \<and> list_all sale_allowed (se_posts p) \<and> 1 \<le> se_currentPage p \<and> se_currentPage p \<le> sell_totalPages p"

lemma clamp_sel [simp]:
  "se_eligible (clamp_page p) = se_eligible p" "se_selectedIds (clamp_page p) = se_selectedIds p" "se_selling (clamp_page p) = se_selling p"
  "se_request (clamp_page p) = se_request p" "se_posts (clamp_page p) = se_posts p" "eligible_list (clamp_page p) = eligible_list p"
  "sell_totalPages (clamp_page p) = sell_totalPages p"
  by (simp_all add: clamp_page_def eligible_list_def sell_totalPages_def filteredEligible_def)

lemma sell_pages_cong:
  "se_eligible q = se_eligible p \<Longrightarrow> se_searchQuery q = se_searchQuery p \<Longrightarrow> se_clean q = se_clean p \<Longrightarrow> sell_totalPages q = sell_totalPages p"
  by (simp add: sell_totalPages_def filteredEligible_def eligible_list_def)

lemma total_pages_positive [simp]: "Suc 0 \<le> sell_totalPages p"
  by (simp add: sell_totalPages_def)

lemma clamp_range: "1 \<le> se_currentPage p \<Longrightarrow> 1 \<le> se_currentPage (clamp_page p) \<and> se_currentPage (clamp_page p) \<le> sell_totalPages p"
  by (simp add: clamp_page_def)

lemma filtered_subset: "set (filteredEligible p) \<subseteq> set (eligible_list p)"
  by (auto simp: filteredEligible_def)

lemma distinct_sellable: "distinct (map sl_id (eligible_list p)) \<Longrightarrow> distinct (map sl_id (sellableAccounts p))"
  by (simp add: sellableAccounts_def filteredEligible_def distinct_map_filter)

lemma sell_select_inv:
  assumes "sell_inv p" "distinct ids" shows "sell_inv (p\<lparr>se_selectedIds := ids\<rparr>)"
  using assms by (auto simp: sell_inv_def eligible_list_def sell_totalPages_def filteredEligible_def)

lemma sell_confirm_inv: "sell_inv p \<Longrightarrow> sell_inv (handleSellConfirm p)"
  by (auto simp: handleSellConfirm_def sell_inv_def sale_allowed_def list_ex_iff eligible_list_def sell_totalPages_def filteredEligible_def)

interpretation sem: machine "\<lambda>p. p = new_sell_page" sell_step sell_inv
proof
  show "sell_inv p" if "p = new_sell_page" for p using that by (simp add: sell_inv_def new_sell_page_def eligible_list_def)
  show "sell_inv q" if "sell_inv p" "sell_step p l q" for p l q
    using that(2,1)
  proof (induction rule: sell_step.induct)
    case (refetched l p)
    then show ?case using clamp_range [of "p\<lparr>se_eligible := Some l\<rparr>"] by (simp add: sell_inv_def eligible_list_def)
  next
    case (all_selected p)
    then show ?case
      by (auto simp: sell_selectAll_def intro!: sell_select_inv) (simp add: sell_inv_def distinct_sellable)
  next
    case (toggled p a)
    then show ?case by (auto simp: handleToggleSelect_def intro!: sell_select_inv) (simp_all add: sell_inv_def)
  next
    case (confirmed p)
    then show ?case by (simp add: sell_confirm_inv)
  qed (auto simp: sell_inv_def eligible_list_def sell_answered_def Let_def sell_totalPages_def filteredEligible_def split: option.splits)
qed

text \<open>Whatever is searched, filtered, selected, refetched and answered in whatever order, every sale that is
  requested lists at least one account and none twice, none of them known to the page as inactive; at most one
  request is under way, with its dialog locked; and the page shown exists and is not empty while anything matches.\<close>

theorem sales_allowed:
  assumes "reach (\<lambda>p. p = new_sell_page) sell_step p"
  shows "list_all sale_allowed (se_posts p) \<and> (se_selling p \<longleftrightarrow> se_request p \<noteq> None)
    \<and> (paginatedEligible p = [] \<longleftrightarrow> filteredEligible p = [])"
proof -
  have inv: "sell_inv p" by (rule sem.reach_inv [OF assms])
  have "paginatedEligible p \<noteq> []" if "filteredEligible p \<noteq> []"
    using inv that unfolding paginatedEligible_def sell_inv_def sell_totalPages_def
    by (intro page_slice_nonempty) (simp_all add: PAGE_SIZE_def)
  moreover have "paginatedEligible p = []" if "filteredEligible p = []" using that by (simp add: paginatedEligible_def page_slice_def)
  ultimately show ?thesis using inv by (auto simp: sell_inv_def)
qed

definition demo_sale :: "string \<Rightarrow> sale_account" where
  "demo_sale i = \<lparr>sl_id = i, sl_phone = ''62'', sl_first_name = None, sl_last_name = None, sl_username = None, sl_telegram_id = None,
     sl_spam = Some ''normal'', sl_price = Some 5000, sl_active = True\<rparr>"

definition demo_selling :: sell_page where
  "demo_selling = sell_selectAll (clamp_page (new_sell_page\<lparr>se_eligible := Some [demo_sale ''a'', demo_sale ''b'']\<rparr>))"

lemma demo_selling_eq:
  "demo_selling = new_sell_page\<lparr>se_eligible := Some [demo_sale ''a'', demo_sale ''b''], se_selectedIds := [''a'', ''b'']\<rparr>"
  by code_simp

lemma demo_selling_reach: "reach (\<lambda>p. p = new_sell_page) sell_step demo_selling"
  unfolding demo_selling_def
proof (rule reach_step)
  show "reach (\<lambda>p. p = new_sell_page) sell_step (clamp_page (new_sell_page\<lparr>se_eligible := Some [demo_sale ''a'', demo_sale ''b'']\<rparr>))"
  proof (rule reach_step)
    show "reach (\<lambda>p. p = new_sell_page) sell_step new_sell_page" by (rule reach_start) simp
    show "sell_step new_sell_page () (clamp_page (new_sell_page\<lparr>se_eligible := Some [demo_sale ''a'', demo_sale ''b'']\<rparr>))"
      by (rule sell_step.refetched) (simp add: demo_sale_def)
  qed
  show "sell_step (clamp_page (new_sell_page\<lparr>se_eligible := Some [demo_sale ''a'', demo_sale ''b'']\<rparr>)) () (sell_selectAll (clamp_page (new_sell_page\<lparr>se_eligible := Some [demo_sale ''a'', demo_sale ''b'']\<rparr>)))"
    by (rule sell_step.all_selected) (simp add: clamp_page_def new_sell_page_def)
qed

theorem sales_allowed_witness:
  "list_all sale_allowed (se_posts demo_selling) \<and> (se_selling demo_selling \<longleftrightarrow> se_request demo_selling \<noteq> None)
    \<and> (paginatedEligible demo_selling = [] \<longleftrightarrow> filteredEligible demo_selling = [])"
  by (rule sales_allowed [OF demo_selling_reach])

text \<open>An account that has left the list meanwhile is still sold: the guard looks for inactive accounts in the list only,
  and the dialog values the missing account at nothing.\<close>

theorem vanished_account_sold:
  assumes "se_eligible p = Some []" "se_selectedIds p = [i]"
  shows "se_request (handleSellConfirm p) = Some [i] \<and> totalReceive p = 0"
  using assms by (simp add: handleSellConfirm_def eligible_list_def totalReceive_def getPriceForAccount_def)

theorem vanished_account_reachable:
  "\<exists>p. reach (\<lambda>p. p = new_sell_page) sell_step p \<and> se_eligible p = Some [] \<and> se_selectedIds p = [''a'', ''b''] \<and> se_confirmOpen p"
proof -
  let ?a = "demo_selling\<lparr>se_confirmOpen := True\<rparr>"
  have "reach (\<lambda>p. p = new_sell_page) sell_step ?a"
    by (rule reach_step [OF demo_selling_reach sell_step.opened]) (simp_all add: demo_selling_eq new_sell_page_def)
  then have "reach (\<lambda>p. p = new_sell_page) sell_step (clamp_page (?a\<lparr>se_eligible := Some []\<rparr>))"
    by (rule reach_step) (rule sell_step.refetched, simp)
  moreover have "se_confirmOpen (clamp_page (?a\<lparr>se_eligible := Some []\<rparr>))" by (simp add: clamp_page_def)
  moreover have "se_selectedIds (clamp_page (?a\<lparr>se_eligible := Some []\<rparr>)) = [''a'', ''b'']" by (simp add: demo_selling_eq)
  ultimately show ?thesis by (intro exI conjI) (assumption | simp)+
qed

text \<open>Selecting all under a filter drops what was selected outside of it.\<close>

theorem select_all_drops_hidden:
  assumes "sellableAccounts p \<noteq> []" "\<not> allFilteredSelected p" "i \<notin> sl_id ` set (sellableAccounts p)"
  shows "i \<notin> set (se_selectedIds (sell_selectAll p))"
  using assms by (auto simp: sell_selectAll_def)

end
