(* ===== verification/Settings.thy ===== *)
theory Settings
  imports Presentation
begin

text \<open>
  The settings page, \<open>src/frontend/src/app/(dashboard)/settings/page.tsx\<close>, with the table of its sections in
  \<open>components/settings/settings-nav.tsx\<close>.

  The answers of the Better Auth client and of the backend are arguments; the client documents that its calls answer
  with \<open>{ data, error }\<close> rather than throw.  Notices are left out, errors are kept by the keys of their texts where the
  page translates them.  A request under way is part of the state.
\<close>

section \<open>Sections and the address\<close>

datatype SettingsSectionKey = Profile | Security | TwoFa | ApiKeys | BankAccs | TelegramBot | Appearance | LanguageSec

definition section_str :: "SettingsSectionKey \<Rightarrow> string" where
  "section_str k = (case k of Profile \<Rightarrow> ''profile'' | Security \<Rightarrow> ''security'' | TwoFa \<Rightarrow> ''2fa'' | ApiKeys \<Rightarrow> ''api-keys''
     | BankAccs \<Rightarrow> ''bank-accounts'' | TelegramBot \<Rightarrow> ''telegram'' | Appearance \<Rightarrow> ''appearance'' | LanguageSec \<Rightarrow> ''language'')"

definition NAV_ITEMS :: "(SettingsSectionKey \<times> string \<times> string) list" where
  "NAV_ITEMS =
     [(Profile, ''settings.navProfile'', ''settings.navProfileDesc''),
      (Security, ''settings.navChangePassword'', ''settings.navChangePasswordDesc''),
      (TwoFa, ''settings.navTwoFactor'', ''settings.navTwoFactorDesc''),
      (ApiKeys, ''settings.navApiKeys'', ''settings.navApiKeysDesc''),
      (BankAccs, ''settings.navBankAccounts'', ''settings.navBankAccountsDesc''),
      (TelegramBot, ''settings.navTelegram'', ''settings.navTelegramDesc''),
      (Appearance, ''settings.navAppearance'', ''settings.navAppearanceDesc''),
      (LanguageSec, ''settings.navLanguage'', ''settings.navLanguageDesc'')]"

definition SECTION_TO_TAB :: "SettingsSectionKey \<Rightarrow> string option" where
  "SECTION_TO_TAB k = (if k = Profile then None else Some (section_str k))"

record settings_view =
  activeTab :: SettingsSectionKey
  mobileDetailOpen :: bool

text \<open>Opening a section also replaces the parameter \<open>tab\<close> of the address, whose parameters are the map.\<close>

definition openSection :: "SettingsSectionKey \<Rightarrow> (string, string) jsmap \<Rightarrow> settings_view \<times> (string, string) jsmap" where
  "openSection key params =
     (\<lparr>activeTab = key, mobileDetailOpen = True\<rparr>,
      case SECTION_TO_TAB key of Some tab \<Rightarrow> map_set params ''tab'' tab | None \<Rightarrow> map_delete params ''tab'')"

definition close_section :: "(string, string) jsmap \<Rightarrow> settings_view \<times> (string, string) jsmap" where
  "close_section params = (\<lparr>activeTab = Profile, mobileDetailOpen = False\<rparr>, map_delete params ''tab'')"

text \<open>The page as it opens: the effect reads the parameter.\<close>

definition open_settings :: "(string, string) jsmap \<Rightarrow> settings_view" where
  "open_settings params =
     (case find (\<lambda>k. map_get params ''tab'' = Some (section_str k)) [Appearance, LanguageSec, Security, TwoFa, ApiKeys, BankAccs, TelegramBot] of
        Some k \<Rightarrow> \<lparr>activeTab = k, mobileDetailOpen = True\<rparr>
      | None \<Rightarrow> \<lparr>activeTab = Profile, mobileDetailOpen = False\<rparr>)"

section \<open>Changing the password\<close>

record password_form =
  pw_current :: string
  pw_new :: string
  pw_confirm :: string
  pw_loading :: bool
  pw_error :: "string option"
  pw_success :: bool

text \<open>The strength the page shows: its score and the key of its text.\<close>

definition passwordStrength :: "string \<Rightarrow> int \<times> string" where
  "passwordStrength password =
     (if password = [] then (0, [])
      else
        let c = evaluatePasswordCriteria password;
            n = (if minLength c then 1 else 0) + (if hasUpperLower c then 1 else 0) + (if hasNumber c then 1 else 0) + (if hasSpecial c then 1 else 0 :: int)
        in if n \<le> 1 then (1, ''settings.passwordWeak'') else if n = 2 then (2, ''settings.passwordFair'')
           else if n = 3 then (3, ''settings.passwordGood'') else (4, ''settings.passwordStrong''))"

definition password_form_error :: "password_form \<Rightarrow> string option" where
  "password_form_error f =
     (if pw_new f \<noteq> pw_confirm f then Some ''settings.passwordsNoMatch''
      else if length (pw_new f) < 8 then Some ''settings.passwordMinLength''
      else if pw_current f = pw_new f then Some ''settings.passwordMustDiffer'' else None)"

definition password_ready :: "password_form \<Rightarrow> bool" where
  "password_ready f \<longleftrightarrow> \<not> pw_loading f \<and> pw_current f \<noteq> [] \<and> pw_new f \<noteq> [] \<and> pw_confirm f \<noteq> [] \<and> pw_new f = pw_confirm f"

text \<open>The request, if one is sent, carries the current and the new password.\<close>

definition handlePasswordSubmit :: "password_form \<Rightarrow> password_form \<times> (string \<times> string) option" where
  "handlePasswordSubmit f =
     (let f1 = f\<lparr>pw_error := None, pw_success := False\<rparr>
      in case password_form_error f of
           Some e \<Rightarrow> (f1\<lparr>pw_error := Some e\<rparr>, None)
         | None \<Rightarrow> (f1\<lparr>pw_loading := True\<rparr>, Some (pw_current f, pw_new f)))"

text \<open>The answer: \<open>None\<close> for a success, else the message of the error, possibly empty.\<close>

definition password_answered :: "string option \<Rightarrow> password_form \<Rightarrow> password_form" where
  "password_answered err f =
     (case err of
        None \<Rightarrow> f\<lparr>pw_success := True, pw_current := [], pw_new := [], pw_confirm := [], pw_loading := False\<rparr>
      | Some m \<Rightarrow> f\<lparr>pw_error := Some (or_str m ''settings.failedChangePassword''), pw_loading := False\<rparr>)"

section \<open>The second factor\<close>

datatype twofa_step_name = Inactive | PasswordPrompt | Verify | BackupCodes
datatype confirm_action = Disable | Regenerate
datatype twofa_call = EnableCall string | VerifyCall string | DisableCall string | RegenerateCall string

text \<open>\<open>tw_call\<close> is the request under way; \<open>tw_proved\<close> records whether, since the wizard was last closed, a code was
  verified or new codes were made with the password.\<close>

record twofa_page =
  tw_loading :: bool
  tw_error :: "string option"
  tw_password :: string
  tw_step :: twofa_step_name
  tw_uri :: string
  tw_code :: string
  tw_backupCodes :: "string list"
  tw_confirm :: "confirm_action option"
  tw_call :: "twofa_call option"
  tw_closing :: nat
  tw_proved :: bool

definition new_twofa_page :: twofa_page where
  "new_twofa_page = \<lparr>tw_loading = False, tw_error = None, tw_password = [], tw_step = Inactive, tw_uri = [], tw_code = [],
     tw_backupCodes = [], tw_confirm = None, tw_call = None, tw_closing = 0, tw_proved = False\<rparr>"

definition twofa_send :: "twofa_call \<Rightarrow> twofa_page \<Rightarrow> twofa_page" where
  "twofa_send c p = p\<lparr>tw_error := None, tw_loading := True, tw_call := Some c\<rparr>"

definition handleEnable2FAStart :: "twofa_page \<Rightarrow> twofa_page" where
  "handleEnable2FAStart p =
     (if tw_password p = [] then p\<lparr>tw_error := Some ''settings.passwordRequired''\<rparr> else twofa_send (EnableCall (tw_password p)) p)"

definition handleVerify2FACode :: "twofa_page \<Rightarrow> twofa_page" where
  "handleVerify2FACode p = (if length (trim (tw_code p)) < 6 then p else twofa_send (VerifyCall (trim (tw_code p))) p)"

definition handleDisable2FA :: "twofa_page \<Rightarrow> twofa_page" where
  "handleDisable2FA p =
     (if tw_password p = [] then p\<lparr>tw_error := Some ''settings.passwordRequired''\<rparr> else twofa_send (DisableCall (tw_password p)) p)"

definition handleRegenerateBackupCodes :: "twofa_page \<Rightarrow> twofa_page" where
  "handleRegenerateBackupCodes p =
     (if tw_password p = [] then p\<lparr>tw_error := Some ''settings.passwordRequired''\<rparr> else twofa_send (RegenerateCall (tw_password p)) p)"

datatype twofa_answer = TwofaError string | TwofaEnabled string "string list" | TwofaDone | TwofaCodes "string list"

definition twofa_failure :: "twofa_call \<Rightarrow> string" where
  "twofa_failure c = (case c of EnableCall _ \<Rightarrow> ''Failed to enable 2FA setup'' | VerifyCall _ \<Rightarrow> ''settings.totpInvalid''
     | DisableCall _ \<Rightarrow> ''Failed to disable 2FA'' | RegenerateCall _ \<Rightarrow> ''Failed to regenerate backup codes'')"

text \<open>The answers that belong to a call; the others change nothing but the spinner.  The answer to \<open>DisableCall\<close> stands for
  the request together with the fetch of the session that follows it.\<close>

definition twofa_answered :: "twofa_answer \<Rightarrow> twofa_page \<Rightarrow> twofa_page" where
  "twofa_answered answer p =
     (let p1 = p\<lparr>tw_call := None, tw_loading := False\<rparr>
      in case (tw_call p, answer) of
           (Some c, TwofaError m) \<Rightarrow> p1\<lparr>tw_error := Some (or_str m (twofa_failure c))\<rparr>
         | (Some (EnableCall _), TwofaEnabled uri codes) \<Rightarrow> p1\<lparr>tw_uri := uri, tw_backupCodes := codes, tw_step := Verify, tw_password := []\<rparr>
         | (Some (VerifyCall _), TwofaDone) \<Rightarrow> p1\<lparr>tw_step := BackupCodes, tw_proved := True\<rparr>
         | (Some (DisableCall _), TwofaDone) \<Rightarrow> p1\<lparr>tw_password := [], tw_confirm := None\<rparr>
         | (Some (RegenerateCall _), TwofaCodes codes) \<Rightarrow>
             p1\<lparr>tw_backupCodes := codes, tw_step := BackupCodes, tw_password := [], tw_confirm := None, tw_proved := True\<rparr>
         | _ \<Rightarrow> p1)"

text \<open>\<open>handleDoneEnabled\<close>: the session is fetched, then everything is cleared.\<close>

definition handleDoneEnabled :: "twofa_page \<Rightarrow> twofa_page" where "handleDoneEnabled p = p\<lparr>tw_closing := Suc (tw_closing p)\<rparr>"

definition done_fetched :: "twofa_page \<Rightarrow> twofa_page" where
  "done_fetched p = p\<lparr>tw_closing := tw_closing p - 1, tw_step := Inactive, tw_uri := [], tw_backupCodes := [], tw_code := [], tw_password := [],
     tw_error := None, tw_proved := False\<rparr>"

definition cancel_wizard :: "twofa_page \<Rightarrow> twofa_page" where
  "cancel_wizard p = p\<lparr>tw_step := Inactive, tw_password := [], tw_error := None\<rparr>"

definition cancel_action :: "twofa_page \<Rightarrow> twofa_page" where
  "cancel_action p = p\<lparr>tw_confirm := None, tw_password := [], tw_error := None\<rparr>"

definition type_totp :: "string \<Rightarrow> twofa_page \<Rightarrow> twofa_page" where
  "type_totp v p = p\<lparr>tw_code := only_digits (take 6 v), tw_error := None\<rparr>"

text \<open>The codes for the clipboard, a line each; \<open>None\<close> when nothing is copied.\<close>

definition copyBackupCodesToClipboard :: "twofa_page \<Rightarrow> string option" where
  "copyBackupCodesToClipboard p = (if tw_backupCodes p = [] then None else Some (join_with [CHR 10] (tw_backupCodes p)))"

text \<open>The controls: \<open>enabled\<close> tells whether the session says that the second factor is on.\<close>

inductive twofa_step :: "twofa_page \<Rightarrow> unit \<Rightarrow> twofa_page \<Rightarrow> bool" where
  sets_up: "tw_step p = Inactive \<Longrightarrow> tw_confirm p = None \<Longrightarrow> twofa_step p () (p\<lparr>tw_step := PasswordPrompt\<rparr>)"
| asks: "tw_step p = Inactive \<Longrightarrow> tw_confirm p = None \<Longrightarrow> twofa_step p () (p\<lparr>tw_confirm := Some a\<rparr>)"
| types_password: "tw_step p = PasswordPrompt \<or> tw_confirm p \<noteq> None \<Longrightarrow> twofa_step p () (p\<lparr>tw_password := v, tw_error := None\<rparr>)"
| types_code: "tw_step p = Verify \<Longrightarrow> twofa_step p () (type_totp v p)"
| cancels_wizard: "tw_step p \<in> {PasswordPrompt, Verify} \<Longrightarrow> twofa_step p () (cancel_wizard p)"
| cancels_action: "tw_confirm p \<noteq> None \<Longrightarrow> twofa_step p () (cancel_action p)"
| enables: "tw_step p = PasswordPrompt \<Longrightarrow> \<not> tw_loading p \<Longrightarrow> twofa_step p () (handleEnable2FAStart p)"
| verifies: "tw_step p = Verify \<Longrightarrow> \<not> tw_loading p \<Longrightarrow> 6 \<le> length (tw_code p) \<Longrightarrow> twofa_step p () (handleVerify2FACode p)"
| disables: "tw_confirm p = Some Disable \<Longrightarrow> \<not> tw_loading p \<Longrightarrow> twofa_step p () (handleDisable2FA p)"
| regenerates: "tw_confirm p = Some Regenerate \<Longrightarrow> \<not> tw_loading p \<Longrightarrow> twofa_step p () (handleRegenerateBackupCodes p)"
| call_answered: "tw_call p \<noteq> None \<Longrightarrow> twofa_step p () (twofa_answered answer p)"
| finishes: "tw_step p = BackupCodes \<Longrightarrow> twofa_step p () (handleDoneEnabled p)"
| finished: "0 < tw_closing p \<Longrightarrow> twofa_step p () (done_fetched p)"

section \<open>API keys\<close>

record api_key =
  ak_id :: string
  ak_name :: string
  ak_prefix :: string
  ak_scopes :: "string list"
  ak_expires_at :: "string option"
  ak_revoked_at :: "string option"
  ak_created_at :: string
  ak_last_used_at :: "string option"

record keys_page =
  ks_keys :: "api_key list"
  ks_loading :: bool
  ks_formOpen :: bool
  ks_name :: string
  ks_scopes :: "string list"
  ks_creating :: bool
  ks_secret :: "string option"

definition new_keys_page :: keys_page where
  "new_keys_page = \<lparr>ks_keys = [], ks_loading = True, ks_formOpen = False, ks_name = [], ks_scopes = [''profile:read''], ks_creating = False, ks_secret = None\<rparr>"

definition API_SCOPES :: "string list" where
  "API_SCOPES = [''profile:read'', ''accounts:read'', ''accounts:write'', ''jobs:read'']"

text \<open>The list arrives, or the request fails.\<close>

definition keys_loaded :: "api_key list option \<Rightarrow> keys_page \<Rightarrow> keys_page" where
  "keys_loaded answer p = (case answer of Some l \<Rightarrow> p\<lparr>ks_keys := l, ks_loading := False\<rparr> | None \<Rightarrow> p\<lparr>ks_loading := False\<rparr>)"

definition toggleApiScope :: "string \<Rightarrow> keys_page \<Rightarrow> keys_page" where
  "toggleApiScope scope p =
     p\<lparr>ks_scopes := (if scope \<in> set (ks_scopes p) then filter (\<lambda>s. s \<noteq> scope) (ks_scopes p) else ks_scopes p @ [scope])\<rparr>"

definition handleCreateApiKey :: "keys_page \<Rightarrow> keys_page \<times> (string \<times> string list) option" where
  "handleCreateApiKey p =
     (if trim (ks_name p) = [] \<or> ks_scopes p = [] then (p, None)
      else (p\<lparr>ks_creating := True\<rparr>, Some (trim (ks_name p), ks_scopes p)))"

definition key_created :: "(api_key \<times> string) option \<Rightarrow> keys_page \<Rightarrow> keys_page" where
  "key_created answer p =
     (case answer of
        Some (k, secret) \<Rightarrow> p\<lparr>ks_keys := k # ks_keys p, ks_secret := Some secret, ks_name := [], ks_formOpen := False, ks_creating := False\<rparr>
      | None \<Rightarrow> p\<lparr>ks_creating := False\<rparr>)"

text \<open>Revoking after the user confirmed; \<open>ok\<close> tells whether the request succeeded.\<close>

definition handleRevokeApiKey :: "string \<Rightarrow> bool \<Rightarrow> bool \<Rightarrow> string \<Rightarrow> keys_page \<Rightarrow> keys_page" where
  "handleRevokeApiKey i confirmed ok now p =
     (if confirmed \<and> ok then p\<lparr>ks_keys := map (\<lambda>k. if ak_id k = i then k\<lparr>ak_revoked_at := Some now\<rparr> else k) (ks_keys p)\<rparr> else p)"

section \<open>Payout accounts\<close>

record bank_form =
  bf_open :: bool
  bf_type :: string
  bf_provider :: string
  bf_number :: string
  bf_holder :: string
  bf_default :: bool

definition new_bank_form :: bank_form where
  "new_bank_form = \<lparr>bf_open = False, bf_type = ''bank'', bf_provider = ''BCA'', bf_number = [], bf_holder = [], bf_default = False\<rparr>"

definition BANKS :: "string list" where
  "BANKS = [''BCA'', ''Mandiri'', ''BRI'', ''BNI'', ''CIMB Niaga'', ''Permata'', ''BSI'', ''Danamon'', ''Bank Jago'', ''SeaBank'']"

definition WALLETS :: "string list" where "WALLETS = [''DANA'', ''GoPay'', ''OVO'', ''ShopeePay'', ''LinkAja'']"

definition providers_of :: "string \<Rightarrow> string list" where
  "providers_of ty = (if ty = ''bank'' then BANKS else WALLETS)"

definition choose_type :: "bool \<Rightarrow> bank_form \<Rightarrow> bank_form" where
  "choose_type bank f = (if bank then f\<lparr>bf_type := ''bank'', bf_provider := ''BCA''\<rparr> else f\<lparr>bf_type := ''ewallet'', bf_provider := ''DANA''\<rparr>)"

definition type_account_number :: "string \<Rightarrow> bank_form \<Rightarrow> bank_form" where
  "type_account_number v f = f\<lparr>bf_number := only_digits v\<rparr>"

text \<open>The account the store is asked to add; the form stays as it is until the answer.\<close>

definition handleSaveAccount :: "bank_form \<Rightarrow> new_account option" where
  "handleSaveAccount f =
     (if trim (bf_number f) = [] \<or> trim (bf_holder f) = [] then None
      else Some \<lparr>na_type = bf_type f, na_provider = bf_provider f, na_number = trim (bf_number f), na_holder = trim (bf_holder f), na_default = bf_default f\<rparr>)"

definition account_saved :: "bool \<Rightarrow> bank_form \<Rightarrow> bank_form" where
  "account_saved ok f = (if ok then f\<lparr>bf_open := False, bf_number := [], bf_holder := [], bf_default := False\<rparr> else f)"

inductive bank_form_step :: "bank_form \<Rightarrow> new_account option \<Rightarrow> bank_form \<Rightarrow> bool" where
  toggles_form: "bank_form_step f None (f\<lparr>bf_open := b\<rparr>)"
| chooses_type: "bank_form_step f None (choose_type b f)"
| chooses_provider: "v \<in> set (providers_of (bf_type f)) \<Longrightarrow> bank_form_step f None (f\<lparr>bf_provider := v\<rparr>)"
| types_number: "bank_form_step f None (type_account_number v f)"
| types_holder: "bank_form_step f None (f\<lparr>bf_holder := v\<rparr>)"
| ticks_default: "bank_form_step f None (f\<lparr>bf_default := b\<rparr>)"
| saves: "bank_form_step f (handleSaveAccount f) f"
| saved: "bank_form_step f None (account_saved ok f)"

section \<open>Properties\<close>

text \<open>The address leads back to the section that was opened, whatever other parameters it has.\<close>

theorem section_survives_reload:
  "activeTab (open_settings (snd (openSection key params))) = key"
  by (cases key) (simp_all add: openSection_def open_settings_def SECTION_TO_TAB_def section_str_def)

theorem other_parameters_stay:
  "k \<noteq> ''tab'' \<Longrightarrow> map_get (snd (openSection key params)) k = map_get params k"
  by (simp add: openSection_def split: option.splits)

text \<open>Only a valid, confirmed and different password is sent.\<close>

theorem password_sent_valid:
  "snd (handlePasswordSubmit f) =
     (if pw_new f = pw_confirm f \<and> 8 \<le> length (pw_new f) \<and> pw_current f \<noteq> pw_new f then Some (pw_current f, pw_new f) else None)"
  by (simp add: handlePasswordSubmit_def password_form_error_def Let_def)

text \<open>From eight characters on both pages rate a password alike; a shorter one that the register page calls weak can be
  good here.\<close>

theorem strength_agrees:
  assumes "8 \<le> length password"
  shows "fst (passwordStrength password) = calculatePasswordScore password (evaluatePasswordCriteria password)"
proof -
  have "password \<noteq> []" using assms by auto
  moreover have "minLength (evaluatePasswordCriteria password)" using assms by (simp add: evaluatePasswordCriteria_def)
  ultimately show ?thesis by (auto simp: passwordStrength_def calculatePasswordScore_def Let_def)
qed

theorem short_password_called_good:
  "passwordStrength ''Aa1'' = (2, ''settings.passwordFair'') \<and> passwordStrength ''Aa1!'' = (3, ''settings.passwordGood'')
   \<and> calculatePasswordScore ''Aa1!'' (evaluatePasswordCriteria ''Aa1!'') = 1"
  by code_simp

fun call_wf :: "twofa_call \<Rightarrow> bool" where
  "call_wf (VerifyCall c) = (length c = 6 \<and> list_all is_digit c)"
| "call_wf (EnableCall w) = (w \<noteq> [])" | "call_wf (DisableCall w) = (w \<noteq> [])" | "call_wf (RegenerateCall w) = (w \<noteq> [])"

definition twofa_inv :: "twofa_page \<Rightarrow> bool" where
  "twofa_inv p \<longleftrightarrow> (tw_loading p \<longleftrightarrow> tw_call p \<noteq> None) \<and> (tw_step p = BackupCodes \<longrightarrow> tw_proved p)
     \<and> list_all is_digit (tw_code p) \<and> length (tw_code p) \<le> 6
     \<and> (case tw_call p of None \<Rightarrow> True | Some c \<Rightarrow> call_wf c)"

lemma twofa_code: "list_all is_digit (only_digits (take 6 v)) \<and> length (only_digits (take 6 v)) \<le> 6"
  using length_filter_le [of is_digit "take 6 v"] by (auto simp: only_digits_def list_all_iff)

lemma twofa_inv_cong:
  assumes "tw_loading q = tw_loading p" "tw_call q = tw_call p" "tw_step q = tw_step p" "tw_proved q = tw_proved p" "tw_code q = tw_code p"
  shows "twofa_inv q = twofa_inv p"
  unfolding twofa_inv_def assms ..

lemma twofa_answered_inv: "twofa_inv p \<Longrightarrow> twofa_inv (twofa_answered answer p)"
  by (auto simp: twofa_answered_def twofa_inv_def Let_def split: option.splits twofa_call.splits twofa_answer.splits)

lemma verify_inv: "twofa_inv p \<Longrightarrow> twofa_inv (handleVerify2FACode p)"
  by (auto simp: handleVerify2FACode_def twofa_inv_def twofa_send_def trim_digits)

interpretation twm: machine "\<lambda>p. p = new_twofa_page" twofa_step twofa_inv
proof
  show "twofa_inv p" if "p = new_twofa_page" for p using that by (simp add: twofa_inv_def new_twofa_page_def)
  show "twofa_inv q" if "twofa_inv p" "twofa_step p l q" for p l q
    using that(2,1)
  proof (induction rule: twofa_step.induct)
    case (types_code p v)
    then show ?case using twofa_code [of v] by (simp add: twofa_inv_def type_totp_def split: option.splits twofa_call.splits)
  next
    case (call_answered p answer)
    then show ?case by (simp add: twofa_answered_inv)
  next
    case (verifies p)
    then show ?case by (simp add: verify_inv)
  qed (auto simp: twofa_inv_def cancel_wizard_def cancel_action_def handleEnable2FAStart_def handleDisable2FA_def handleRegenerateBackupCodes_def
        twofa_send_def handleDoneEnabled_def done_fetched_def split: option.splits twofa_call.splits)
qed

text \<open>On the page of the second factor, in whatever order the user, the answers and the fetches come: backup codes
  are shown only after a code was verified or new ones were made with the password; at most one request is under
  way, exactly while the spinner turns; and every request carries a code of six digits or a password.\<close>

theorem second_factor_guarded:
  assumes "reach (\<lambda>p. p = new_twofa_page) twofa_step p"
  shows "(tw_step p \<in> {Inactive, PasswordPrompt, Verify} \<or> tw_proved p) \<and> (tw_loading p \<longleftrightarrow> tw_call p \<noteq> None)
    \<and> (case tw_call p of None \<Rightarrow> True | Some c \<Rightarrow> call_wf c)"
proof -
  have "twofa_inv p" by (rule twm.reach_inv [OF assms])
  then show ?thesis unfolding twofa_inv_def by (cases "tw_step p") auto
qed

text \<open>A wizard whose password was sent.\<close>

lemma demo_twofa_reach:
  "reach (\<lambda>p. p = new_twofa_page) twofa_step (handleEnable2FAStart (new_twofa_page\<lparr>tw_step := PasswordPrompt, tw_password := ''pw'', tw_error := None\<rparr>))"
proof -
  have 1: "reach (\<lambda>p. p = new_twofa_page) twofa_step (new_twofa_page\<lparr>tw_step := PasswordPrompt\<rparr>)"
  proof (rule reach_step)
    show "reach (\<lambda>p. p = new_twofa_page) twofa_step new_twofa_page" by (rule reach_start) simp
    show "twofa_step new_twofa_page () (new_twofa_page\<lparr>tw_step := PasswordPrompt\<rparr>)"
      by (rule twofa_step.sets_up) (simp_all add: new_twofa_page_def)
  qed
  have 2: "reach (\<lambda>p. p = new_twofa_page) twofa_step (new_twofa_page\<lparr>tw_step := PasswordPrompt, tw_password := ''pw'', tw_error := None\<rparr>)"
    by (rule reach_step [OF 1]) (rule twofa_step.types_password, simp)
  show ?thesis by (rule reach_step [OF 2]) (rule twofa_step.enables, simp_all add: new_twofa_page_def)
qed

definition demo_enabling :: twofa_page where
  "demo_enabling = handleEnable2FAStart (new_twofa_page\<lparr>tw_step := PasswordPrompt, tw_password := ''pw'', tw_error := None\<rparr>)"

theorem second_factor_guarded_witness:
  "(tw_step demo_enabling \<in> {Inactive, PasswordPrompt, Verify} \<or> tw_proved demo_enabling)
    \<and> (tw_loading demo_enabling \<longleftrightarrow> tw_call demo_enabling \<noteq> None)
    \<and> (case tw_call demo_enabling of None \<Rightarrow> True | Some c \<Rightarrow> call_wf c)"
  unfolding demo_enabling_def by (rule second_factor_guarded [OF demo_twofa_reach])

text \<open>Closing the wizard waits for the session; a second click on the same button, answered late, closes the next
  wizard too and takes away codes that the user has not seen.\<close>

theorem late_close_takes_codes:
  assumes "tw_step p = BackupCodes" "tw_closing p = 1" "tw_backupCodes p = codes"
  shows "twofa_step p () (done_fetched p) \<and> tw_backupCodes (done_fetched p) = [] \<and> tw_step (done_fetched p) = Inactive"
  using assms twofa_step.finished [of p] by (simp add: done_fetched_def)

text \<open>The list of keys that arrives after a key was created drops the new key from the page.\<close>

theorem late_list_drops_key:
  "k \<notin> set l \<Longrightarrow> k \<notin> set (ks_keys (keys_loaded (Some l) (key_created (Some (k, secret)) p)))
     \<and> ks_secret (keys_loaded (Some l) (key_created (Some (k, secret)) p)) = Some secret"
  by (simp add: keys_loaded_def key_created_def)

text \<open>Choosing scopes twice changes nothing, and the request has a name and at least one scope.\<close>

theorem scopes_toggle_back: "set (ks_scopes (toggleApiScope s (toggleApiScope s p))) = set (ks_scopes p)"
  by (auto simp: toggleApiScope_def)

theorem key_request_valid:
  "snd (handleCreateApiKey p) = Some (n, ss) \<Longrightarrow> n \<noteq> [] \<and> trim n = n \<and> ss \<noteq> []"
  by (auto simp: handleCreateApiKey_def split: if_splits)

text \<open>What the form of payout accounts asks the store to add.\<close>

definition account_ok :: "new_account \<Rightarrow> bool" where
  "account_ok a \<longleftrightarrow> na_type a \<in> {''bank'', ''ewallet''} \<and> na_provider a \<in> set (providers_of (na_type a)) \<and> na_number a \<noteq> []
     \<and> list_all is_digit (na_number a) \<and> na_holder a \<noteq> [] \<and> trim (na_holder a) = na_holder a"

definition bank_form_inv :: "bank_form \<Rightarrow> bool" where
  "bank_form_inv f \<longleftrightarrow> bf_type f \<in> {''bank'', ''ewallet''} \<and> bf_provider f \<in> set (providers_of (bf_type f)) \<and> list_all is_digit (bf_number f)"

lemmas bank_form_defs = bank_form_inv_def choose_type_def type_account_number_def account_saved_def providers_of_def BANKS_def WALLETS_def only_digits_def

interpretation bfm: machine "\<lambda>f. f = new_bank_form" bank_form_step bank_form_inv
proof
  show "bank_form_inv f" if "f = new_bank_form" for f using that by (simp add: new_bank_form_def bank_form_defs)
  show "bank_form_inv g" if "bank_form_inv f" "bank_form_step f l g" for f l g
    using that(2,1) by (induction rule: bank_form_step.induct) (auto simp: bank_form_defs list_all_iff)
qed

theorem saved_accounts_well_formed:
  assumes "reach (\<lambda>f. f = new_bank_form) bank_form_step f" "handleSaveAccount f = Some a"
  shows "account_ok a"
  using bfm.reach_inv [OF assms(1)] assms(2)
  by (auto simp: bank_form_inv_def handleSaveAccount_def account_ok_def trim_digits split: if_splits)

text \<open>Nothing keeps the form from being sent again before the answer: two clicks save the account twice.\<close>

theorem two_clicks_save_twice:
  assumes "handleSaveAccount f = Some a" "acc_id (saved_account stamp1 now1 r1 a) \<noteq> acc_id (saved_account stamp2 now2 r2 a)"
  shows "bank_form_step f (Some a) f"
    and "{acc_id (saved_account stamp1 now1 r1 a), acc_id (saved_account stamp2 now2 r2 a)}
      \<subseteq> acc_id ` set (accounts (addAccount stamp2 now2 r2 a (addAccount stamp1 now1 r1 a s)))"
proof -
  show "bank_form_step f (Some a) f" using saves [of f] assms(1) by simp
  show "{acc_id (saved_account stamp1 now1 r1 a), acc_id (saved_account stamp2 now2 r2 a)}
      \<subseteq> acc_id ` set (accounts (addAccount stamp2 now2 r2 a (addAccount stamp1 now1 r1 a s)))"
    using assms(2) by (auto simp: addAccount_def insert_account_def Let_def image_iff)
qed

end
