(* ===== verification/Subscription.thy ===== *)
theory Subscription
  imports Presentation
begin

text \<open>
  The subscription page, \<open>src/frontend/src/app/(dashboard)/subscriptions/page.tsx\<close>, over the plan table of
  \<open>Presentation\<close>: what is shown of the current plan, the dialogs for paying and for redeeming a voucher.

  The answers of the hooks are arguments.  The dialogs are modal; the colours and icons of the plans, the table of
  features and the texts of the notices are left out.
\<close>

section \<open>The current plan\<close>

definition plan_str :: "PlanId \<Rightarrow> string" where
  "plan_str i = (case i of Freetrial \<Rightarrow> ''freetrial'' | Basic \<Rightarrow> ''basic'' | Pro \<Rightarrow> ''pro'' | Premium \<Rightarrow> ''premium'')"

definition PLAN_DISPLAY_NAMES :: "(string \<times> string) list" where
  "PLAN_DISPLAY_NAMES = [(''freetrial'', ''Free Trial''), (''basic'', ''Starter''), (''pro'', ''Pro''), (''premium'', ''Business''), (''owner'', ''Owner Access'')]"

definition ROLE_LIMITS :: "(string \<times> nat) list" where
  "ROLE_LIMITS = [(''freetrial'', 1), (''basic'', 1), (''pro'', 3), (''premium'', 5), (''owner'', 999999)]"

text \<open>The plan of the subscription, else the role of the user, else the trial.\<close>

definition currentPlan :: "string option \<Rightarrow> string option \<Rightarrow> string" where
  "currentPlan plan role = the (opt_or plan (opt_or role (Some ''freetrial'')))"

definition currentLimit :: "string \<Rightarrow> nat" where
  "currentLimit plan = (case map_of ROLE_LIMITS plan of None \<Rightarrow> 1 | Some n \<Rightarrow> n)"

text \<open>\<open>Math.round\<close> of the share in per cent, at most 100.\<close>

definition accountUsagePercent :: "nat \<Rightarrow> nat \<Rightarrow> int" where
  "accountUsagePercent limit used =
     (if 999999 \<le> limit then 0 else min 100 (\<lfloor>(of_nat used / of_nat limit :: rat) * 100 + 1 / 2\<rfloor>))"

definition slots_left :: "nat \<Rightarrow> nat \<Rightarrow> int" where "slots_left limit used = max 0 (int limit - int used)"

text \<open>The text of a running trial; \<open>None\<close> when it is not shown.\<close>

definition trial_left :: "bool \<Rightarrow> int option \<Rightarrow> string option" where
  "trial_left isActive secondsRemaining =
     (case secondsRemaining of
        Some s \<Rightarrow> (if isActive \<and> s > 0 then Some (int_str (s div 3600) @ '' jam '' @ int_str ((s mod 3600) div 60) @ '' menit tersisa'') else None)
      | None \<Rightarrow> None)"

record sub_tx =
  stx_id :: string
  stx_type :: string
  stx_status :: string
  stx_amount :: int
  stx_note :: "string option"

definition pendingSubscriptionTx :: "sub_tx list option \<Rightarrow> sub_tx option" where
  "pendingSubscriptionTx txs =
     (case txs of None \<Rightarrow> None | Some l \<Rightarrow> find (\<lambda>t. stx_type t = ''subscription'' \<and> stx_status t = ''pending'') l)"

section \<open>The buttons of the plans\<close>

definition cta_text :: "Plan \<Rightarrow> string \<Rightarrow> bool \<Rightarrow> string" where
  "cta_text plan current isActive =
     (let isCurrent = plan_str (plan_id plan) = current
      in if plan_id plan = Freetrial then (if isCurrent \<and> isActive then ''Trial Aktif'' else ''Trial Selesai'')
         else if isCurrent \<and> isActive then ''Paket Anda Saat Ini''
         else if isCurrent \<and> \<not> isActive then ''Perpanjang '' @ plan_name plan
         else ''Pilih '' @ plan_name plan)"

definition cta_disabled :: "Plan \<Rightarrow> string \<Rightarrow> bool \<Rightarrow> bool" where
  "cta_disabled plan current isActive \<longleftrightarrow> plan_id plan = Freetrial \<or> (plan_str (plan_id plan) = current \<and> isActive)"

definition raw_price :: "billing_cycle \<Rightarrow> Plan \<Rightarrow> int" where
  "raw_price cycle plan = (if cycle = Yearly then yearlyAmount plan else plan_amount plan)"

definition plan_affordable :: "int option \<Rightarrow> billing_cycle \<Rightarrow> Plan \<Rightarrow> bool" where
  "plan_affordable balance cycle plan \<longleftrightarrow> raw_price cycle plan \<le> (case balance of None \<Rightarrow> 0 | Some b \<Rightarrow> b) \<and> raw_price cycle plan > 0"

section \<open>The page\<close>

datatype sub_method = PayBalance | PayQris | PayBep20 | PayTrc20 | PayPolygon

record payment_modal =
  pm_id :: PlanId
  pm_title :: string
  pm_price :: int

record checkout =
  co_plan :: PlanId
  co_cycle :: billing_cycle
  co_method :: sub_method

text \<open>\<open>su_checkout\<close> and \<open>su_redeeming\<close> are the requests under way; \<open>su_posts\<close> all checkouts with the dialog they were
  sent from, \<open>su_redeemed\<close> all vouchers sent.\<close>

record sub_page =
  su_cycle :: billing_cycle
  su_showMatrix :: bool
  su_redeemOpen :: bool
  su_voucherCode :: string
  su_redeemError :: "string option"
  su_modal :: "payment_modal option"
  su_checkout :: "checkout option"
  su_redeeming :: "string option"
  su_posts :: "(payment_modal \<times> checkout) list"
  su_redeemed :: "string list"
  su_pushed :: "string list"

definition new_sub_page :: sub_page where
  "new_sub_page = \<lparr>su_cycle = Yearly, su_showMatrix = False, su_redeemOpen = False, su_voucherCode = [], su_redeemError = None,
     su_modal = None, su_checkout = None, su_redeeming = None, su_posts = [], su_redeemed = [], su_pushed = []\<rparr>"

definition handleSelectPlan :: "PlanId \<Rightarrow> string \<Rightarrow> sub_page \<Rightarrow> sub_page" where
  "handleSelectPlan i title p =
     (case getPlan i of None \<Rightarrow> p
      | Some plan \<Rightarrow> p\<lparr>su_modal := Some \<lparr>pm_id = i, pm_title = title, pm_price = raw_price (su_cycle p) plan\<rparr>\<rparr>)"

text \<open>\<open>handleCheckoutWithBalance\<close> and \<open>handleCheckoutQRIS\<close> up to the request, from the open dialog.\<close>

definition start_checkout :: "sub_method \<Rightarrow> payment_modal \<Rightarrow> sub_page \<Rightarrow> sub_page" where
  "start_checkout m d p =
     (let c = \<lparr>co_plan = pm_id d, co_cycle = su_cycle p, co_method = m\<rparr>
      in p\<lparr>su_checkout := Some c, su_posts := su_posts p @ [(d, c)]\<rparr>)"

text \<open>Their answers: an error, or a success with the id of an invoice if there is one.\<close>

datatype checkout_answer = CheckoutFailed | CheckoutDone "string option"

definition checkout_answered :: "checkout_answer \<Rightarrow> sub_page \<Rightarrow> sub_page" where
  "checkout_answered answer p =
     (let p1 = p\<lparr>su_checkout := None\<rparr>
      in case (su_checkout p, answer) of
           (Some c, CheckoutDone invoice) \<Rightarrow>
             if co_method c = PayBalance then p1\<lparr>su_modal := None\<rparr>
             else if truthy invoice then p1\<lparr>su_modal := None, su_pushed := su_pushed p @ [''/wallet/invoice/'' @ the invoice]\<rparr>
             else p1
         | _ \<Rightarrow> p1)"

definition type_voucher :: "string \<Rightarrow> sub_page \<Rightarrow> sub_page" where
  "type_voucher v p = p\<lparr>su_voucherCode := toUpperCase v, su_redeemError := None\<rparr>"

definition handleRedeemSubmit :: "sub_page \<Rightarrow> sub_page" where
  "handleRedeemSubmit p =
     (if trim (su_voucherCode p) = [] then p
      else let c = toUpperCase (trim (su_voucherCode p))
           in p\<lparr>su_redeemError := None, su_redeeming := Some c, su_redeemed := su_redeemed p @ [c]\<rparr>)"

text \<open>\<open>None\<close> is a success; an error has the server's detail and the exception's own message, each possibly missing.\<close>

definition redeem_answered :: "(string option \<times> string option) option \<Rightarrow> sub_page \<Rightarrow> sub_page" where
  "redeem_answered err p =
     (let p1 = p\<lparr>su_redeeming := None\<rparr>
      in case err of
           None \<Rightarrow> p1\<lparr>su_voucherCode := [], su_redeemOpen := False\<rparr>
         | Some (detail, message) \<Rightarrow> p1\<lparr>su_redeemError := opt_or detail (opt_or message (Some ''redeem.error''))\<rparr>)"

definition no_dialog :: "sub_page \<Rightarrow> bool" where "no_dialog p \<longleftrightarrow> su_modal p = None \<and> \<not> su_redeemOpen p"

inductive sub_step :: "sub_page \<Rightarrow> unit \<Rightarrow> sub_page \<Rightarrow> bool" where
  cycles: "no_dialog p \<Longrightarrow> sub_step p () (p\<lparr>su_cycle := c\<rparr>)"
| toggles_matrix: "no_dialog p \<Longrightarrow> sub_step p () (p\<lparr>su_showMatrix := \<not> su_showMatrix p\<rparr>)"
| selects: "no_dialog p \<Longrightarrow> plan \<in> set PLANS \<Longrightarrow> \<not> cta_disabled plan current active \<Longrightarrow>
    sub_step p () (handleSelectPlan (plan_id plan) (plan_name plan) p)"
| pays_balance: "su_modal p = Some d \<Longrightarrow> su_checkout p = None \<Longrightarrow> pm_price d \<le> balance \<Longrightarrow> sub_step p () (start_checkout PayBalance d p)"
| pays_otherwise: "su_modal p = Some d \<Longrightarrow> su_checkout p = None \<Longrightarrow> m \<noteq> PayBalance \<Longrightarrow> sub_step p () (start_checkout m d p)"
| closes: "sub_step p () (p\<lparr>su_modal := None\<rparr>)"
| checked_out: "su_checkout p \<noteq> None \<Longrightarrow> sub_step p () (checkout_answered answer p)"
| opens_redeem: "no_dialog p \<Longrightarrow> sub_step p () (p\<lparr>su_redeemOpen := True\<rparr>)"
| types_voucher: "su_redeemOpen p \<Longrightarrow> sub_step p () (type_voucher v p)"
| closes_redeem: "sub_step p () (p\<lparr>su_redeemOpen := False\<rparr>)"
| cancels_redeem: "su_redeemOpen p \<Longrightarrow> sub_step p () (p\<lparr>su_redeemOpen := False, su_redeemError := None\<rparr>)"
| redeems: "su_redeemOpen p \<Longrightarrow> su_redeeming p = None \<Longrightarrow> sub_step p () (handleRedeemSubmit p)"
| redeemed: "su_redeeming p \<noteq> None \<Longrightarrow> sub_step p () (redeem_answered err p)"

section \<open>Properties\<close>

text \<open>The limits and names of the page are those of the plan table.\<close>

theorem limits_match_plans:
  "list_all (\<lambda>p. currentLimit (plan_str (plan_id p)) = accountLimit p \<and> map_of PLAN_DISPLAY_NAMES (plan_str (plan_id p)) = Some (plan_name p)) PLANS"
  by (simp add: PLANS_def currentLimit_def ROLE_LIMITS_def PLAN_DISPLAY_NAMES_def plan_str_def)

theorem usage_in_range:
  assumes "0 < limit" shows "0 \<le> accountUsagePercent limit used \<and> accountUsagePercent limit used \<le> 100"
    and "limit < 999999 \<Longrightarrow> limit \<le> used \<Longrightarrow> accountUsagePercent limit used = 100 \<and> slots_left limit used = 0"
proof -
  have pos: "0 \<le> (of_nat used / of_nat limit :: rat) * 100 + 1 / 2" by simp
  then show "0 \<le> accountUsagePercent limit used \<and> accountUsagePercent limit used \<le> 100"
    unfolding accountUsagePercent_def by (simp add: le_floor_iff)
  show "accountUsagePercent limit used = 100 \<and> slots_left limit used = 0" if "limit < 999999" "limit \<le> used"
  proof -
    have "(1 :: rat) \<le> of_nat used / of_nat limit" using that(2) assms by (simp add: le_divide_eq)
    then have "100 \<le> \<lfloor>(of_nat used / of_nat limit :: rat) * 100 + 1 / 2\<rfloor>" by (simp add: le_floor_iff)
    then show ?thesis using that by (simp add: accountUsagePercent_def slots_left_def)
  qed
qed

text \<open>A request is for a paid plan, at the price of its cycle, which is what the dialog showed.\<close>

definition checkout_ok :: "payment_modal \<times> checkout \<Rightarrow> bool" where
  "checkout_ok x \<longleftrightarrow> co_plan (snd x) = pm_id (fst x) \<and> pm_id (fst x) \<noteq> Freetrial
     \<and> map_option cost_amount (getPlanPrice (co_plan (snd x)) (co_cycle (snd x))) = Some (pm_price (fst x))"

definition sub_inv :: "sub_page \<Rightarrow> bool" where
  "sub_inv p \<longleftrightarrow> list_all checkout_ok (su_posts p)
     \<and> (case su_modal p of None \<Rightarrow> True
        | Some d \<Rightarrow> pm_id d \<noteq> Freetrial \<and> map_option cost_amount (getPlanPrice (pm_id d) (su_cycle p)) = Some (pm_price d))
     \<and> list_all (\<lambda>c. c \<noteq> []) (su_redeemed p)"

lemma select_price:
  assumes "plan \<in> set PLANS" "plan_id plan \<noteq> Freetrial"
  shows "\<exists>q. getPlan (plan_id plan) = Some q \<and> map_option cost_amount (getPlanPrice (plan_id plan) c) = Some (raw_price c q)"
proof -
  have "plan_id plan \<in> plan_id ` set PLANS" using assms(1) by blast
  then obtain q where q: "getPlan (plan_id plan) = Some q" unfolding getPlan_def by (metis (mono_tags, lifting) find_None_iff imageE not_None_eq)
  then show ?thesis using assms(2) by (cases c) (simp_all add: getPlanPrice_def raw_price_def)
qed

interpretation sbm: machine "\<lambda>p. p = new_sub_page" sub_step sub_inv
proof
  show "sub_inv p" if "p = new_sub_page" for p using that by (simp add: sub_inv_def new_sub_page_def)
  show "sub_inv q" if "sub_inv p" "sub_step p l q" for p l q
    using that(2,1)
  proof (induction rule: sub_step.induct)
    case (selects p plan current active)
    then have "plan_id plan \<noteq> Freetrial" by (simp add: cta_disabled_def)
    then obtain q where "getPlan (plan_id plan) = Some q" "map_option cost_amount (getPlanPrice (plan_id plan) (su_cycle p)) = Some (raw_price (su_cycle p) q)"
      using select_price selects.hyps(2) by blast
    then show ?case using selects \<open>plan_id plan \<noteq> Freetrial\<close> by (simp add: sub_inv_def handleSelectPlan_def)
  next
    case (redeems p)
    have "upper_char c \<noteq> []" for c by (simp add: upper_char_def Let_def)
    then have "toUpperCase (trim v) \<noteq> []" if "trim v \<noteq> []" for v using that by (cases "trim v") (simp_all add: toUpperCase_def)
    then show ?case using redeems by (cases "su_modal p") (auto simp: sub_inv_def handleRedeemSubmit_def Let_def)
  qed (auto simp: sub_inv_def start_checkout_def checkout_ok_def checkout_answered_def type_voucher_def redeem_answered_def no_dialog_def Let_def
      split: option.splits checkout_answer.splits)
qed

text \<open>Every checkout that leaves the page is for the paid plan of its dialog, at the price that the dialog showed for
  the billing cycle of the request, however the user, the answers and the dialogs interleave; every voucher sent
  is a code.\<close>

theorem checkout_as_shown:
  assumes "reach (\<lambda>p. p = new_sub_page) sub_step p"
  shows "list_all checkout_ok (su_posts p) \<and> list_all (\<lambda>c. c \<noteq> []) (su_redeemed p)"
  using sbm.reach_inv [OF assms] by (simp add: sub_inv_def)

definition demo_checkout :: sub_page where
  "demo_checkout = start_checkout PayQris \<lparr>pm_id = Pro, pm_title = ''Pro'', pm_price = 100000\<rparr> (handleSelectPlan Pro ''Pro'' new_sub_page)"

lemma getPlan_pro: "getPlan Pro = Some (PLANS ! 2)" "plan_id (PLANS ! 2) = Pro" "plan_name (PLANS ! 2) = ''Pro''" "yearlyAmount (PLANS ! 2) = 100000"
  by (simp_all add: getPlan_def PLANS_def)

lemma demo_checkout_reach: "reach (\<lambda>p. p = new_sub_page) sub_step demo_checkout"
  unfolding demo_checkout_def
proof (rule reach_step)
  have "PLANS ! 2 \<in> set PLANS" by (simp add: PLANS_def)
  then have "sub_step new_sub_page () (handleSelectPlan (plan_id (PLANS ! 2)) (plan_name (PLANS ! 2)) new_sub_page)"
    by (rule sub_step.selects [rotated, where current = "''basic''" and active = True])
      (simp_all add: no_dialog_def new_sub_page_def cta_disabled_def getPlan_pro plan_str_def)
  then have "sub_step new_sub_page () (handleSelectPlan Pro ''Pro'' new_sub_page)" unfolding getPlan_pro .
  then show "reach (\<lambda>p. p = new_sub_page) sub_step (handleSelectPlan Pro ''Pro'' new_sub_page)"
    by (rule reach_step [rotated]) (rule reach_start, rule refl)
  show "sub_step (handleSelectPlan Pro ''Pro'' new_sub_page) ()
      (start_checkout PayQris \<lparr>pm_id = Pro, pm_title = ''Pro'', pm_price = 100000\<rparr> (handleSelectPlan Pro ''Pro'' new_sub_page))"
    by (rule sub_step.pays_otherwise) (simp_all add: handleSelectPlan_def getPlan_pro raw_price_def new_sub_page_def)
qed

theorem checkout_as_shown_witness:
  "list_all checkout_ok (su_posts demo_checkout) \<and> list_all (\<lambda>c. c \<noteq> []) (su_redeemed demo_checkout)"
  by (rule checkout_as_shown [OF demo_checkout_reach])

text \<open>A checkout that succeeds without an invoice tells the user nothing: the dialog stays open and can be sent again.\<close>

theorem missing_invoice_is_silent:
  assumes "su_checkout p = Some c" "co_method c \<noteq> PayBalance" "\<not> truthy invoice"
  shows "checkout_answered (CheckoutDone invoice) p = p\<lparr>su_checkout := None\<rparr>"
  using assms by (simp add: checkout_answered_def Let_def)

text \<open>The dialog can be closed while its request is under way; the answer then closes the dialog of whatever plan is
  open by then.\<close>

theorem late_checkout_closes_dialog:
  assumes "su_checkout p = Some c" "co_method c = PayBalance"
  shows "su_modal (checkout_answered (CheckoutDone invoice) (p\<lparr>su_modal := Some other\<rparr>)) = None"
  using assms by (simp add: checkout_answered_def Let_def)

end
