(* ===== verification/Contacts.thy ===== *)
theory Contacts
  imports AccountSelector JobHooks Regex Paging
begin

text \<open>
  The contacts page, \<open>src/frontend/src/app/(dashboard)/contacts/page.tsx\<close>: who may open it, reading contacts from typed
  lines and from files, and the page as a step relation over its controls, effects and answers.

  The lists that the hooks deliver are arguments of the steps; their requests are those of \<open>JobHooks\<close>.  Effects run
  before the next event: \<open>ct_settled\<close> is the account for which the effect of a new account has run.  Texts of
  notices and the rows of the details are left out.
\<close>

section \<open>Who may open the page\<close>

definition contacts_allowed :: "string option \<Rightarrow> bool" where
  "contacts_allowed role \<longleftrightarrow> \<not> (role \<noteq> Some ''pro'' \<and> role \<noteq> Some ''premium'' \<and> role \<noteq> Some ''owner'')"

section \<open>Reading contacts\<close>

record contact_item =
  ci_phone :: string
  ci_first :: "string option"
  ci_last :: "string option"

definition clean_phone :: "string \<Rightarrow> string" where
  "clean_phone s = filter (\<lambda>c. is_digit c \<or> c = CHR ''+'') s"

text \<open>Both readers go through what they read in order and keep a contact whose number is long enough and new.\<close>

fun keep_new :: "string list \<Rightarrow> contact_item option list \<Rightarrow> contact_item list" where
  "keep_new seen [] = []"
| "keep_new seen (x # xs) =
     (case x of
        None \<Rightarrow> keep_new seen xs
      | Some i \<Rightarrow> if length (ci_phone i) < 6 \<or> ci_phone i \<in> set seen then keep_new seen xs
                  else i # keep_new (ci_phone i # seen) xs)"

definition is_delimiter :: "char \<Rightarrow> bool" where
  "is_delimiter c \<longleftrightarrow> c = CHR '','' \<or> c = CHR '';'' \<or> c = CHR 9"

definition read_line :: "string \<Rightarrow> contact_item option" where
  "read_line rawLine =
     (let line = trim rawLine
      in if line = [] then None
         else let parts = map trim (split_where is_delimiter line)
              in Some \<lparr>ci_phone = clean_phone (hd parts),
                   ci_first = text_or_none (if 1 < length parts then parts ! 1 else []),
                   ci_last = text_or_none (join_with '' '' (drop 2 parts))\<rparr>)"

definition parseTextLines :: "string \<Rightarrow> contact_item list" where
  "parseTextLines txt = keep_new [] (map read_line (split_on (CHR 10) txt))"

text \<open>The three expressions \<open>/X[^:]*:([^\r\n]+)/i\<close>.\<close>

definition field_re :: "string \<Rightarrow> regex" where
  "field_re w = seqs [iword w, Star (\<lambda>c. c \<noteq> CHR '':''), Cls (\<lambda>c. c = CHR '':''), Capture (Plus (\<lambda>c. c \<noteq> CHR 13 \<and> c \<noteq> CHR 10))]"

definition field :: "string \<Rightarrow> string \<Rightarrow> string option" where
  "field w vcard = map_option hd (exec (field_re w) vcard)"

definition card_names :: "string \<Rightarrow> string \<times> string" where
  "card_names vcard =
     (case field ''FN'' vcard of
        Some fn \<Rightarrow> let names = split_on (CHR '' '') (trim fn) in (hd names, join_with '' '' (tl names))
      | None \<Rightarrow>
          (case field ''N'' vcard of
             Some n \<Rightarrow> let parts = split_on (CHR '';'') n in (if 1 < length parts then trim (parts ! 1) else [], trim (hd parts))
           | None \<Rightarrow> ([], [])))"

definition read_card :: "string \<Rightarrow> contact_item option" where
  "read_card vcard =
     (case field ''TEL'' vcard of
        None \<Rightarrow> None
      | Some tel \<Rightarrow> Some \<lparr>ci_phone = clean_phone (trim tel), ci_first = text_or_none (fst (card_names vcard)),
                       ci_last = text_or_none (snd (card_names vcard))\<rparr>)"

text \<open>\<open>split(/BEGIN:VCARD/i)\<close>: the parts between the places where the word stands.\<close>

function split_word :: "string \<Rightarrow> string \<Rightarrow> string list" where
  "split_word w [] = [[]]"
| "split_word w (c # s) =
     (if toLowerCase (take (length w) (c # s)) = toLowerCase w \<and> w \<noteq> [] then [] # split_word w (drop (length w) (c # s))
      else case split_word w s of [] \<Rightarrow> [[c]] | x # xs \<Rightarrow> (c # x) # xs)"
  by pat_completeness auto
termination by (relation "measure (length \<circ> snd)") auto

definition parse_vcards :: "string \<Rightarrow> contact_item list" where
  "parse_vcards content = keep_new [] (map read_card (tl (split_word ''BEGIN:VCARD'' content)))"

text \<open>The reader is chosen by the extension of the file.\<close>

definition parse_file :: "string \<Rightarrow> string \<Rightarrow> contact_item list" where
  "parse_file file_name content =
     (if toLowerCase (last (split_on (CHR ''.'') file_name)) = ''vcf'' then parse_vcards content else parseTextLines content)"

section \<open>Properties of the readers\<close>

definition item_ok :: "contact_item \<Rightarrow> bool" where
  "item_ok i \<longleftrightarrow> 6 \<le> length (ci_phone i) \<and> list_all (\<lambda>c. is_digit c \<or> c = CHR ''+'') (ci_phone i)
     \<and> ci_first i \<noteq> Some [] \<and> ci_last i \<noteq> Some []"

definition items_ok :: "contact_item list \<Rightarrow> bool" where
  "items_ok is \<longleftrightarrow> distinct (map ci_phone is) \<and> list_all item_ok is"

lemma keep_new_from: "i \<in> set (keep_new seen xs) \<Longrightarrow> Some i \<in> set xs \<and> 6 \<le> length (ci_phone i) \<and> ci_phone i \<notin> set seen"
proof (induction seen xs rule: keep_new.induct)
  case (2 seen x xs)
  then show ?case by (cases x) (auto split: if_splits)
qed simp

lemma keep_new_distinct: "distinct (map ci_phone (keep_new seen xs))"
proof (induction seen xs rule: keep_new.induct)
  case (2 seen x xs)
  then show ?case by (cases x) (auto dest: keep_new_from)
qed simp

text \<open>A list whose numbers are long enough and different is kept as it is.\<close>

lemma keep_new_all:
  "distinct (map ci_phone is) \<Longrightarrow> set (map ci_phone is) \<inter> set seen = {} \<Longrightarrow> list_all (\<lambda>i. 6 \<le> length (ci_phone i)) is \<Longrightarrow>
   keep_new seen (map Some is) = is"
  by (induction "is" arbitrary: seen) auto

lemma text_or_none_nonempty [simp]: "text_or_none s \<noteq> Some []"
  by (simp add: text_or_none_def)

lemma clean_phone_chars: "list_all (\<lambda>c. is_digit c \<or> c = CHR ''+'') (clean_phone s)"
  by (simp add: clean_phone_def list_all_iff)

lemma keep_new_ok:
  assumes "\<And>i. Some i \<in> set xs \<Longrightarrow> list_all (\<lambda>c. is_digit c \<or> c = CHR ''+'') (ci_phone i) \<and> ci_first i \<noteq> Some [] \<and> ci_last i \<noteq> Some []"
  shows "items_ok (keep_new [] xs)"
  using assms by (auto simp: items_ok_def item_ok_def list_all_iff keep_new_distinct dest: keep_new_from)

lemma read_line_ok: "read_line l = Some i \<Longrightarrow> list_all (\<lambda>c. is_digit c \<or> c = CHR ''+'') (ci_phone i) \<and> ci_first i \<noteq> Some [] \<and> ci_last i \<noteq> Some []"
  by (auto simp: read_line_def Let_def clean_phone_chars split: if_splits)

lemma read_card_ok: "read_card l = Some i \<Longrightarrow> list_all (\<lambda>c. is_digit c \<or> c = CHR ''+'') (ci_phone i) \<and> ci_first i \<noteq> Some [] \<and> ci_last i \<noteq> Some []"
  by (auto simp: read_card_def clean_phone_chars split: option.splits)

text \<open>Whatever is typed or uploaded, the contacts read have different numbers of at least six digits and plus signs.\<close>

lemma parsed_lines_ok: "items_ok (parseTextLines txt)"
  unfolding parseTextLines_def by (rule keep_new_ok) (auto dest: read_line_ok [OF sym])

lemma parsed_cards_ok: "items_ok (parse_vcards content)"
  unfolding parse_vcards_def by (rule keep_new_ok) (auto dest: read_card_ok [OF sym])

lemma parsed_file_ok: "items_ok (parse_file f content)"
  by (simp add: parse_file_def parsed_lines_ok parsed_cards_ok)

text \<open>The format that the dialog asks for, a line per contact.\<close>

definition write_line :: "contact_item \<Rightarrow> string" where
  "write_line i = ci_phone i @
     (if ci_first i = None \<and> ci_last i = None then []
      else '', '' @ or_blank (ci_first i) @ (case ci_last i of None \<Rightarrow> [] | Some l \<Rightarrow> '', '' @ l))"

definition name_ok :: "string option \<Rightarrow> bool" where
  "name_ok v \<longleftrightarrow> v \<noteq> Some [] \<and> trim (or_blank v) = or_blank v \<and> list_all (\<lambda>c. \<not> is_delimiter c \<and> c \<noteq> CHR 10) (or_blank v)"

definition printable :: "contact_item \<Rightarrow> bool" where
  "printable i \<longleftrightarrow> item_ok i \<and> name_ok (ci_first i) \<and> name_ok (ci_last i)"

lemma phone_char: "is_digit c \<or> c = CHR ''+'' \<Longrightarrow> \<not> is_ws c \<and> \<not> is_delimiter c \<and> c \<noteq> CHR 10"
  by (auto simp: is_digit_def is_ws_def is_delimiter_def)

lemma text_or_none_blank: "v \<noteq> Some [] \<Longrightarrow> text_or_none (or_blank v) = v"
  by (cases v) (auto simp: text_or_none_def or_blank_def)

lemma trim_space_cons: "trim (CHR '' '' # s) = trim s"
  by (simp add: trim_def is_ws_def)

lemma phone_facts:
  assumes "item_ok i"
  shows "ci_phone i \<noteq> []" "clean_phone (ci_phone i) = ci_phone i" "trim (ci_phone i) = ci_phone i"
    "list_all (\<lambda>c. \<not> is_delimiter c) (ci_phone i)" "CHR 10 \<notin> set (ci_phone i)"
    "\<not> is_ws (hd (ci_phone i))" "\<not> is_ws (last (ci_phone i))"
proof -
  have chars: "\<And>c. c \<in> set (ci_phone i) \<Longrightarrow> is_digit c \<or> c = CHR ''+''" and six: "6 \<le> length (ci_phone i)"
    using assms by (auto simp: item_ok_def list_all_iff)
  from six show ne: "ci_phone i \<noteq> []" by auto
  show "clean_phone (ci_phone i) = ci_phone i" using chars by (simp add: clean_phone_def filter_id_conv)
  show "list_all (\<lambda>c. \<not> is_delimiter c) (ci_phone i)" using chars phone_char by (auto simp: list_all_iff)
  show "CHR 10 \<notin> set (ci_phone i)" using chars phone_char by blast
  show ws: "\<not> is_ws (hd (ci_phone i))" "\<not> is_ws (last (ci_phone i))" using chars phone_char ne by simp_all
  show "trim (ci_phone i) = ci_phone i" by (rule trim_id) (simp add: ws)
qed

lemma delimiter_comma [simp]: "is_delimiter (CHR '','')" and delimiter_space [simp]: "\<not> is_delimiter (CHR '' '')"
  by (simp_all add: is_delimiter_def)

lemma name_facts:
  assumes "name_ok (Some f)"
  shows "f \<noteq> []" "trim f = f" "list_all (\<lambda>c. \<not> is_delimiter c) f" "CHR 10 \<notin> set f" "\<not> is_ws (last f)"
  using assms trim_ends [of f] by (auto simp: name_ok_def or_blank_def list_all_iff)

lemma write_line_trimmed:
  assumes "printable i" shows "trim (write_line i) = write_line i" "write_line i \<noteq> []" "CHR 10 \<notin> set (write_line i)"
proof -
  have i: "item_ok i" and f: "name_ok (ci_first i)" and l: "name_ok (ci_last i)" using assms by (simp_all add: printable_def)
  note p = phone_facts [OF i]
  show "write_line i \<noteq> []" using p(1) by (simp add: write_line_def)
  have "\<not> is_ws (hd (write_line i))" using p(1,6) by (simp add: write_line_def)
  moreover have "\<not> is_ws (last (write_line i))"
    using p(1,7) f l name_facts by (cases "ci_first i"; cases "ci_last i") (auto simp: write_line_def or_blank_def)
  ultimately show "trim (write_line i) = write_line i" by (intro trim_id) simp
  show "CHR 10 \<notin> set (write_line i)"
    using p(5) f l name_facts(4) by (cases "ci_first i"; cases "ci_last i") (auto simp: write_line_def or_blank_def)
qed

lemma read_write_line:
  assumes "printable i" shows "read_line (write_line i) = Some i"
proof -
  have i: "item_ok i" and f: "name_ok (ci_first i)" and l: "name_ok (ci_last i)" using assms by (simp_all add: printable_def)
  note p = phone_facts [OF i]
  have parts: "map trim (split_where is_delimiter (write_line i)) =
      ci_phone i # (if ci_first i = None \<and> ci_last i = None then [] else or_blank (ci_first i) # (case ci_last i of None \<Rightarrow> [] | Some l \<Rightarrow> [l]))"
  proof (cases "ci_first i")
    case None
    then show ?thesis using p l name_facts [of "the (ci_last i)"]
      by (cases "ci_last i")
        (simp_all add: write_line_def or_blank_def split_where_no_sep split_where_append_sep trim_space_cons, simp add: trim_def)
  next
    case (Some n)
    then have n: "n \<noteq> []" "trim n = n" "list_all (\<lambda>c. \<not> is_delimiter c) n" using name_facts f by auto
    show ?thesis
    proof (cases "ci_last i")
      case None
      then show ?thesis using p n Some
        by (simp add: write_line_def or_blank_def split_where_no_sep split_where_append_sep trim_space_cons)
    next
      case (Some m)
      then have m: "trim m = m" "list_all (\<lambda>c. \<not> is_delimiter c) m" using name_facts l by auto
      have "split_where is_delimiter (CHR '' '' # n @ CHR '','' # CHR '' '' # m) = (CHR '' '' # n) # [CHR '' '' # m]"
        using n m split_where_append_sep [of is_delimiter "CHR '' '' # n" "CHR '',''" "CHR '' '' # m"]
        by (simp add: split_where_no_sep)
      then show ?thesis using p n m Some \<open>ci_first i = Some n\<close>
        by (simp add: write_line_def or_blank_def split_where_append_sep trim_space_cons)
    qed
  qed
  have "text_or_none (or_blank (ci_first i)) = ci_first i" "text_or_none (or_blank (ci_last i)) = ci_last i"
    using i by (simp_all add: text_or_none_blank item_ok_def)
  then have names: "ci_first i = None \<Longrightarrow> text_or_none [] = ci_first i" "\<And>m. ci_last i = Some m \<Longrightarrow> text_or_none m = Some m"
    "ci_last i = None \<Longrightarrow> text_or_none [] = ci_last i" by (simp_all add: text_or_none_def or_blank_def)
  show ?thesis
    using parts write_line_trimmed [OF assms] p(2) names \<open>text_or_none (or_blank (ci_first i)) = ci_first i\<close>
    by (cases "ci_last i") (auto simp: read_line_def Let_def text_or_none_def or_blank_def)
qed

text \<open>C26: contacts written in the format that the dialog asks for, a line each, are read back as they were, and in
  their order.\<close>

theorem contacts_are_read:
  assumes "distinct (map ci_phone is)" "list_all printable is"
  shows "parseTextLines (join_with [CHR 10] (map write_line is)) = is"
proof (cases "is = []")
  case True
  then show ?thesis by (simp add: parseTextLines_def read_line_def trim_def)
next
  case False
  then have "split_on (CHR 10) (join_with [CHR 10] (map write_line is)) = map write_line is"
    using assms(2) write_line_trimmed(3) by (intro split_on_join) (auto simp: list_all_iff)
  moreover have "map read_line (map write_line is) = map Some is"
    using assms(2) by (auto simp: list_all_iff read_write_line)
  moreover have "list_all (\<lambda>i. 6 \<le> length (ci_phone i)) is"
    using assms(2) by (auto simp: list_all_iff printable_def item_ok_def)
  ultimately show ?thesis using assms(1) keep_new_all [of "is" "[]"] by (simp add: parseTextLines_def del: map_map)
qed

theorem contacts_are_read_witness:
  "parseTextLines (join_with [CHR 10] (map write_line
     [\<lparr>ci_phone = ''+628123456789'', ci_first = Some ''Budi'', ci_last = Some ''Santoso''\<rparr>,
      \<lparr>ci_phone = ''+628987654321'', ci_first = Some ''Siti'', ci_last = None\<rparr>,
      \<lparr>ci_phone = ''+628111222333'', ci_first = None, ci_last = None\<rparr>]))
   = [\<lparr>ci_phone = ''+628123456789'', ci_first = Some ''Budi'', ci_last = Some ''Santoso''\<rparr>,
      \<lparr>ci_phone = ''+628987654321'', ci_first = Some ''Siti'', ci_last = None\<rparr>,
      \<lparr>ci_phone = ''+628111222333'', ci_first = None, ci_last = None\<rparr>]"
  by (rule contacts_are_read)
    (simp_all add: printable_def item_ok_def name_ok_def or_blank_def is_digit_def is_delimiter_def trim_def is_ws_def)

text \<open>The expression for a field needs no backtracking: the value starts after the first colon that follows the word.  A direct
  search finds the same.\<close>

definition is_line :: "char \<Rightarrow> bool" where "is_line c \<longleftrightarrow> c \<noteq> CHR 13 \<and> c \<noteq> CHR 10"

definition value_after :: "string \<Rightarrow> string option" where
  "value_after s = (case dropWhile (\<lambda>c. c \<noteq> CHR '':'') s of [] \<Rightarrow> None | _ # v \<Rightarrow> text_or_none (takeWhile is_line v))"

fun find_field :: "string \<Rightarrow> string \<Rightarrow> string option" where
  "find_field w [] = None"
| "find_field w (c # s) =
     (if toLowerCase (take (length w) (c # s)) = toLowerCase w \<and> value_after (drop (length w) (c # s)) \<noteq> None
      then value_after (drop (length w) (c # s)) else find_field w s)"

lemma steps_run_sep:
  assumes "\<not> p d" "R = Seq (Cls (\<lambda>c. c = d)) r"
  shows "steps (Seq (Star p) R) (s, cs) = (case dropWhile p s of [] \<Rightarrow> [] | c # v \<Rightarrow> if c = d then steps r (v, cs) else [])"
proof -
  have R: "steps R (u, cs) = (case u of [] \<Rightarrow> [] | c # v \<Rightarrow> if c = d then steps r (v, cs) else [])" for u
    by (cases u) (simp_all add: assms(2))
  let ?g = "\<lambda>n. steps R (drop n s, cs)"
  have none: "?g n = []" if "n < run_length p s" for n
  proof -
    have "n < length s" using that length_takeWhile_le [of p s] by (simp add: run_length_def)
    then have "drop n s = s ! n # drop (Suc n) s" by (rule Cons_nth_drop_Suc [symmetric])
    moreover have "p (s ! n)" using that nth_mem [of n "takeWhile p s"] set_takeWhileD takeWhile_nth [of n p s]
      by (fastforce simp: run_length_def)
    ultimately show ?thesis using assms(1) by (auto simp: R)
  qed
  have "steps (Seq (Star p) R) (s, cs) = ?g (run_length p s) @ concat (map ?g (rev [0..<run_length p s]))"
    by (simp add: comp_def)
  also have "concat (map ?g (rev [0..<run_length p s])) = []" using none by simp
  also have "drop (run_length p s) s = dropWhile p s" by (simp add: run_length_def dropWhile_eq_drop)
  finally show ?thesis by (simp add: R)
qed

definition first_capture :: "re_state list \<Rightarrow> string option" where
  "first_capture xs = (case xs of [] \<Rightarrow> None | (_, cs) # _ \<Rightarrow> Some (hd cs))"

lemma first_capture_run: "first_capture (steps (Capture (Plus p)) (v, [])) = text_or_none (takeWhile p v)"
proof (cases "run_length p v")
  case 0
  then show ?thesis by (simp add: run_length_def text_or_none_def first_capture_def)
next
  case (Suc n)
  then have "Suc n \<le> length v" using length_takeWhile_le [of p v] by (simp add: run_length_def)
  then have "consumed v (drop (Suc n) v) = takeWhile p v"
    by (metis Suc consumed_drop run_length_def takeWhile_eq_take)
  moreover have "takeWhile p v \<noteq> []" using Suc by (auto simp: run_length_def)
  moreover have "rev [1..<Suc (run_length p v)] = Suc n # rev [1..<Suc n]" by (simp add: Suc)
  ultimately show ?thesis by (simp only: steps.simps list.map first_capture_def text_or_none_def split list.case) simp
qed

lemma first_capture_field:
  assumes "w \<noteq> []"
  shows "first_capture (steps (field_re w) (s, [])) =
    (if toLowerCase (take (length w) s) = toLowerCase w then value_after (drop (length w) s) else None)"
proof -
  define R where "R = Seq (Cls (\<lambda>c. c = CHR '':'')) (Capture (Plus is_line))"
  have "field_re w = Seq (iword w) (Seq (Star (\<lambda>c. c \<noteq> CHR '':'')) R)"
    by (simp add: field_re_def is_line_def R_def fun_eq_iff)
  then have hit: "steps (field_re w) (s, []) = (if toLowerCase (take (length w) s) = toLowerCase w then
      steps (Seq (Star (\<lambda>c. c \<noteq> CHR '':'')) R) (drop (length w) s, []) else [])"
    by (simp only: steps.simps(3) [of "iword w"] steps_iword) simp
  let ?u = "drop (length w) s"
  have run: "steps (Seq (Star (\<lambda>c. c \<noteq> CHR '':'')) R) (?u, []) =
      (case dropWhile (\<lambda>c. c \<noteq> CHR '':'') ?u of [] \<Rightarrow> [] | c # v \<Rightarrow> if c = CHR '':'' then steps (Capture (Plus is_line)) (v, []) else [])"
    by (rule steps_run_sep [OF _ R_def]) simp
  show ?thesis
  proof (cases "dropWhile (\<lambda>c. c \<noteq> CHR '':'') ?u")
    case Nil
    then show ?thesis unfolding hit run value_after_def Nil by (simp add: first_capture_def)
  next
    case (Cons c v)
    then have "c = CHR '':''" using hd_dropWhile [of "\<lambda>c. c \<noteq> CHR '':''" ?u] by simp
    then show ?thesis unfolding hit run value_after_def Cons using first_capture_run [of is_line v]
      by (cases "toLowerCase (take (length w) s) = toLowerCase w") (simp_all add: first_capture_def [of "[]"] del: steps.simps)
  qed
qed

theorem field_search: "w \<noteq> [] \<Longrightarrow> field w s = find_field w s"
proof (induction s)
  case Nil
  then show ?case using first_capture_field [OF Nil, of "[]"]
    by (cases "steps (field_re w) ([], [])") (auto simp: field_def first_capture_def toLowerCase_def value_after_def)
next
  case (Cons c s)
  have "field w (c # s) = (case first_capture (steps (field_re w) (c # s, [])) of None \<Rightarrow> field w s | Some v \<Rightarrow> Some v)"
    by (cases "steps (field_re w) (c # s, [])") (auto simp: field_def first_capture_def)
  then show ?case unfolding first_capture_field [OF Cons.prems] using Cons by (auto split: option.splits)
qed

lemma find_field_skip:
  "w \<noteq> [] \<Longrightarrow> list_all (\<lambda>c. lower_char c \<noteq> lower_char (hd w)) a \<Longrightarrow> find_field w (a @ s) = find_field w s"
  by (induction a) (auto simp: toLowerCase_def neq_Nil_conv)

lemma find_field_hit:
  "w \<noteq> [] \<Longrightarrow> toLowerCase u = toLowerCase w \<Longrightarrow> value_after r = Some v \<Longrightarrow> find_field w (u @ r) = Some v"
proof -
  assume a: "w \<noteq> []" "toLowerCase u = toLowerCase w" "value_after r = Some v"
  have l: "length u = length w" using arg_cong [OF a(2), of length] by (simp add: toLowerCase_def)
  then obtain c t where "u = c # t" using a(1) by (cases u) auto
  then show ?thesis using a l by (cases w) (simp_all)
qed

lemma value_after_colon:
  assumes "CHR '':'' \<notin> set r" "v \<noteq> []" "list_all is_line v" shows "value_after (r @ CHR '':'' # v @ CHR 10 # rest) = Some v"
proof -
  have "dropWhile (\<lambda>c. c \<noteq> CHR '':'') (r @ CHR '':'' # v @ CHR 10 # rest) = CHR '':'' # v @ CHR 10 # rest"
    using assms(1) by (subst dropWhile_append2) auto
  moreover have "takeWhile is_line (v @ CHR 10 # rest) = v"
    using assms(3) by (subst takeWhile_append2) (auto simp: list_all_iff is_line_def)
  ultimately show ?thesis using assms(2) by (simp add: value_after_def text_or_none_def)
qed

text \<open>A card that gives its version first and has no full name takes the version for the last name, because the letter
  N before a colon is that of the word VERSION.\<close>

theorem version_taken_for_name:
  assumes "vcard = CHR 10 # ''VERSION:'' @ v @ CHR 10 # rest" "v \<noteq> []" "list_all is_line v" "CHR '';'' \<notin> set v" "field ''FN'' vcard = None"
  shows "card_names vcard = ([], trim v)"
proof -
  have "vcard = (CHR 10 # ''VERSIO'') @ ''N'' @ [] @ CHR '':'' # v @ CHR 10 # rest" using assms(1) by simp
  moreover have "find_field ''N'' (''N'' @ [] @ CHR '':'' # v @ CHR 10 # rest) = Some v"
    by (rule find_field_hit) (use assms(2,3) in \<open>simp_all add: value_after_colon [of "[]", simplified]\<close>)
  ultimately have "field ''N'' vcard = Some v" using assms(1)
    using find_field_skip [of "''N''" "CHR 10 # ''VERSIO''"] by (simp add: field_search lower_char_def char_of_def)
  then show ?thesis using assms(4,5) by (simp add: card_names_def split_on_no_sep Let_def)
qed

text \<open>A name with the letters tel before the number makes the value of the next field the number, so the contact is lost
  when that field is an address.\<close>

theorem tel_in_name_hides_number:
  assumes "list_all (\<lambda>c. lower_char c \<noteq> CHR ''t'') a" "toLowerCase t = ''tel''" "CHR '':'' \<notin> set r" "v \<noteq> []" "list_all is_line v"
    "length (clean_phone (trim v)) < 6"
  shows "keep_new [] [read_card (a @ t @ r @ CHR '':'' # v @ CHR 10 # rest)] = []"
proof -
  have T: "lower_char (CHR ''T'') = CHR ''t''" by (simp add: lower_char_def char_of_def bit_Suc_0_iff)
  have "toLowerCase t = toLowerCase ''TEL''" using assms(2) by (simp add: toLowerCase_def lower_char_def char_of_def bit_Suc_0_iff)
  then have "find_field ''TEL'' (t @ r @ CHR '':'' # v @ CHR 10 # rest) = Some v"
    by (intro find_field_hit value_after_colon) (use assms in simp_all)
  moreover have "list_all (\<lambda>c. lower_char c \<noteq> lower_char (hd ''TEL'')) a" using assms(1) T by simp
  ultimately have "field ''TEL'' (a @ t @ r @ CHR '':'' # v @ CHR 10 # rest) = Some v"
    by (simp add: field_search find_field_skip)
  then show ?thesis using assms(6) by (simp add: read_card_def)
qed

section \<open>The page\<close>

datatype import_tab = Manual | FileTab
datatype export_format = Csv | Vcf | JsonFormat

text \<open>\<open>ct_files\<close> are the files being read, \<open>ct_import\<close> the account and contacts of the import under way, \<open>ct_imports\<close> all
  imports that were sent, \<open>ct_exports\<close> all downloads asked for and \<open>ct_deletes\<close> all contacts deleted.\<close>

record contacts_page =
  ct_account :: string
  ct_settled :: string
  ct_page :: nat
  ct_search :: string
  ct_selected :: "int option"
  ct_deleteTarget :: "int option"
  ct_deleteOpen :: bool
  ct_importOpen :: bool
  ct_exportOpen :: bool
  ct_tab :: import_tab
  ct_text :: string
  ct_parsed :: "contact_item list"
  ct_parsing :: bool
  ct_files :: "(string \<times> string) list"
  ct_import :: "(string \<times> contact_item list) option"
  ct_exporting :: "export_format option"
  ct_imports :: "(string \<times> contact_item list) list"
  ct_exports :: "(string \<times> export_format) list"
  ct_deletes :: "int list"

definition new_contacts_page :: "string option \<Rightarrow> contacts_page" where
  "new_contacts_page param =
     \<lparr>ct_account = or_blank param, ct_settled = or_blank param, ct_page = 1, ct_search = [], ct_selected = None, ct_deleteTarget = None,
      ct_deleteOpen = False, ct_importOpen = False, ct_exportOpen = False, ct_tab = Manual, ct_text = [], ct_parsed = [], ct_parsing = False,
      ct_files = [], ct_import = None, ct_exporting = None, ct_imports = [], ct_exports = [], ct_deletes = []\<rparr>"

text \<open>The accounts that may be chosen, and the effect that replaces an account that may not.\<close>

definition activeAccs :: "Account list option \<Rightarrow> Account list" where
  "activeAccs accounts = (case accounts of None \<Rightarrow> [] | Some l \<Rightarrow> filter (\<lambda>a. ac_is_active a \<and> \<not> ac_for_sale a) l)"

definition auto_select :: "Account list option \<Rightarrow> contacts_page \<Rightarrow> contacts_page" where
  "auto_select accounts p =
     (let isSelectedActive = list_ex (\<lambda>a. ac_id a = ct_account p) (activeAccs accounts)
      in if activeAccs accounts \<noteq> [] \<and> (ct_account p = [] \<or> \<not> isSelectedActive) then p\<lparr>ct_account := ac_id (hd (activeAccs accounts))\<rparr> else p)"

definition account_changed :: "contacts_page \<Rightarrow> contacts_page" where
  "account_changed p = p\<lparr>ct_selected := None, ct_page := 1, ct_search := [], ct_settled := ct_account p\<rparr>"

text \<open>The two queries of a rendered page.\<close>

definition contact_queries :: "contacts_page \<Rightarrow> query \<times> query" where
  "contact_queries p =
     (useContacts (ct_account p) (int (ct_page p)) 50 (text_or_none (ct_search p)), useContactDetail (ct_account p) (ct_selected p))"

definition handleConfirmDelete :: "contacts_page \<Rightarrow> contacts_page" where
  "handleConfirmDelete p =
     (let p1 = (case ct_deleteTarget p of None \<Rightarrow> p | Some i \<Rightarrow> p\<lparr>ct_deletes := ct_deletes p @ [i]\<rparr>)
      in p1\<lparr>ct_deleteOpen := False, ct_deleteTarget := None\<rparr>)"

definition contactDeleteClick :: "int \<Rightarrow> contacts_page \<Rightarrow> contacts_page" where
  "contactDeleteClick i p = p\<lparr>ct_deleteTarget := Some i, ct_deleteOpen := True\<rparr>"

definition totalPages :: "nat \<Rightarrow> nat" where "totalPages n = page_count 50 n"

text \<open>The controls of the import dialog.  Its effect parses the text when text or tab change on the manual tab.\<close>

definition parse_effect :: "contacts_page \<Rightarrow> contacts_page" where
  "parse_effect p = (if ct_tab p = Manual then p\<lparr>ct_parsed := parseTextLines (ct_text p)\<rparr> else p)"

definition set_text :: "string \<Rightarrow> contacts_page \<Rightarrow> contacts_page" where
  "set_text v p = (if v = ct_text p then p else parse_effect (p\<lparr>ct_text := v\<rparr>))"

definition set_tab :: "import_tab \<Rightarrow> contacts_page \<Rightarrow> contacts_page" where
  "set_tab t p = (if t = ct_tab p then p else parse_effect (p\<lparr>ct_tab := t\<rparr>))"

definition open_import :: "contacts_page \<Rightarrow> contacts_page" where
  "open_import p = set_text [] (p\<lparr>ct_parsed := [], ct_importOpen := True\<rparr>)"

definition handleFileUpload :: "(string \<times> string) option \<Rightarrow> contacts_page \<Rightarrow> contacts_page" where
  "handleFileUpload file p =
     (case file of None \<Rightarrow> p | Some f \<Rightarrow> p\<lparr>ct_parsing := True, ct_files := ct_files p @ [f]\<rparr>)"

text \<open>The content has been read, or reading it failed.\<close>

definition file_read :: "(string \<times> string) \<Rightarrow> bool \<Rightarrow> contacts_page \<Rightarrow> contacts_page" where
  "file_read f failed p =
     (let p1 = p\<lparr>ct_files := remove1 f (ct_files p), ct_parsing := False\<rparr>
      in if failed then p1 else p1\<lparr>ct_parsed := parse_file (fst f) (snd f)\<rparr>)"

definition handleExecuteImport :: "contacts_page \<Rightarrow> contacts_page" where
  "handleExecuteImport p =
     (if ct_parsed p = [] then p
      else p\<lparr>ct_import := Some (ct_account p, ct_parsed p), ct_imports := ct_imports p @ [(ct_account p, ct_parsed p)]\<rparr>)"

definition item_json :: "contact_item \<Rightarrow> json" where
  "item_json i = JObj ((''phone'', JStr (ci_phone i))
     # opt_prop ''first_name'' (map_option JStr (ci_first i)) @ opt_prop ''last_name'' (map_option JStr (ci_last i)))"

definition import_request :: "string \<times> contact_item list \<Rightarrow> mutation" where
  "import_request x = useImportContacts (fst x) (map item_json (snd x))"

definition import_answered :: "bool \<Rightarrow> contacts_page \<Rightarrow> contacts_page" where
  "import_answered succeeded p =
     (let p1 = p\<lparr>ct_import := None\<rparr>
      in if succeeded then (set_text [] (p1\<lparr>ct_importOpen := False\<rparr>))\<lparr>ct_parsed := []\<rparr> else p1)"

definition handleExecuteExport :: "export_format \<Rightarrow> contacts_page \<Rightarrow> contacts_page" where
  "handleExecuteExport fmt p =
     (if ct_account p = [] then p else p\<lparr>ct_exporting := Some fmt, ct_exports := ct_exports p @ [(ct_account p, fmt)]\<rparr>)"

definition export_answered :: "bool \<Rightarrow> contacts_page \<Rightarrow> contacts_page" where
  "export_answered succeeded p = p\<lparr>ct_exportOpen := (ct_exportOpen p \<and> \<not> succeeded), ct_exporting := None\<rparr>"

definition modal :: "contacts_page \<Rightarrow> bool" where "modal p \<longleftrightarrow> ct_importOpen p \<or> ct_exportOpen p \<or> ct_deleteOpen p"

definition settled :: "contacts_page \<Rightarrow> bool" where "settled p \<longleftrightarrow> ct_settled p = ct_account p"

inductive contacts_step :: "contacts_page \<Rightarrow> unit \<Rightarrow> contacts_page \<Rightarrow> bool" where
  accounts_arrive: "settled p \<Longrightarrow> list_all (\<lambda>a. ac_id a \<noteq> []) (activeAccs accounts) \<Longrightarrow> contacts_step p () (auto_select accounts p)"
| account_effect: "\<not> settled p \<Longrightarrow> contacts_step p () (account_changed p)"
| chooses_account: "settled p \<Longrightarrow> \<not> modal p \<Longrightarrow> contacts_step p () (p\<lparr>ct_account := a\<rparr>)"
| searches: "settled p \<Longrightarrow> \<not> modal p \<Longrightarrow> contacts_step p () (p\<lparr>ct_search := v, ct_page := 1\<rparr>)"
| turns_page: "settled p \<Longrightarrow> \<not> modal p \<Longrightarrow> 1 < totalPages n \<Longrightarrow> k \<in> {1..totalPages n} \<Longrightarrow> contacts_step p () (p\<lparr>ct_page := k\<rparr>)"
| opens_contact: "settled p \<Longrightarrow> \<not> modal p \<Longrightarrow> contacts_step p () (p\<lparr>ct_selected := Some i\<rparr>)"
| closes_contact: "settled p \<Longrightarrow> \<not> modal p \<Longrightarrow> contacts_step p () (p\<lparr>ct_selected := None\<rparr>)"
| opens_import: "settled p \<Longrightarrow> \<not> modal p \<Longrightarrow> ct_account p \<noteq> [] \<Longrightarrow> contacts_step p () (open_import p)"
| closes_import: "settled p \<Longrightarrow> ct_importOpen p \<Longrightarrow> contacts_step p () (p\<lparr>ct_importOpen := False\<rparr>)"
| switches_tab: "settled p \<Longrightarrow> ct_importOpen p \<Longrightarrow> contacts_step p () (set_tab t p)"
| types_text: "settled p \<Longrightarrow> ct_importOpen p \<Longrightarrow> ct_tab p = Manual \<Longrightarrow> contacts_step p () (set_text v p)"
| uploads: "settled p \<Longrightarrow> ct_importOpen p \<Longrightarrow> ct_tab p = FileTab \<Longrightarrow> contacts_step p () (handleFileUpload file p)"
| reads: "settled p \<Longrightarrow> f \<in> set (ct_files p) \<Longrightarrow> contacts_step p () (file_read f failed p)"
| sends_import: "settled p \<Longrightarrow> ct_importOpen p \<Longrightarrow> ct_parsed p \<noteq> [] \<Longrightarrow> ct_import p = None \<Longrightarrow> contacts_step p () (handleExecuteImport p)"
| import_ends: "settled p \<Longrightarrow> ct_import p \<noteq> None \<Longrightarrow> contacts_step p () (import_answered succeeded p)"
| opens_export: "settled p \<Longrightarrow> \<not> modal p \<Longrightarrow> ct_account p \<noteq> [] \<Longrightarrow> contacts_step p () (p\<lparr>ct_exportOpen := True\<rparr>)"
| closes_export: "settled p \<Longrightarrow> ct_exportOpen p \<Longrightarrow> contacts_step p () (p\<lparr>ct_exportOpen := False\<rparr>)"
| sends_export: "settled p \<Longrightarrow> ct_exportOpen p \<Longrightarrow> ct_exporting p = None \<Longrightarrow> contacts_step p () (handleExecuteExport fmt p)"
| export_ends: "settled p \<Longrightarrow> ct_exporting p \<noteq> None \<Longrightarrow> contacts_step p () (export_answered succeeded p)"
| confirms_delete: "settled p \<Longrightarrow> ct_deleteOpen p \<Longrightarrow> contacts_step p () (handleConfirmDelete p)"
| cancels_delete: "settled p \<Longrightarrow> ct_deleteOpen p \<Longrightarrow> contacts_step p () (p\<lparr>ct_deleteOpen := False\<rparr>)"

definition import_ok :: "string \<times> contact_item list \<Rightarrow> bool" where
  "import_ok x \<longleftrightarrow> fst x \<noteq> [] \<and> snd x \<noteq> [] \<and> items_ok (snd x)"

definition contacts_inv :: "contacts_page \<Rightarrow> bool" where
  "contacts_inv p \<longleftrightarrow> list_all import_ok (ct_imports p) \<and> items_ok (ct_parsed p) \<and> (ct_importOpen p \<longrightarrow> ct_account p \<noteq> [])
     \<and> list_all (\<lambda>x. fst x \<noteq> []) (ct_exports p) \<and> 1 \<le> ct_page p \<and> \<not> ct_deleteOpen p \<and> ct_deletes p = []"

lemma items_ok_Nil [simp]: "items_ok []" by (simp add: items_ok_def)

lemma auto_select_inv:
  assumes "contacts_inv p" "list_all (\<lambda>a. ac_id a \<noteq> []) (activeAccs accounts)" shows "contacts_inv (auto_select accounts p)"
proof -
  have "ac_id (hd (activeAccs accounts)) \<noteq> []" if "activeAccs accounts \<noteq> []" using assms(2) that by (cases "activeAccs accounts") auto
  then show ?thesis using assms(1) by (simp add: auto_select_def Let_def contacts_inv_def)
qed

interpretation ctm: machine "\<lambda>p. p = new_contacts_page param" contacts_step contacts_inv for param
proof
  show "contacts_inv p" if "p = new_contacts_page param" for p using that by (simp add: contacts_inv_def new_contacts_page_def)
  show "contacts_inv q" if "contacts_inv p" "contacts_step p l q" for p l q
    using that(2,1)
  proof (induction rule: contacts_step.induct)
    case (accounts_arrive p accounts)
    then show ?case by (simp add: auto_select_inv)
  next
    case (sends_import p)
    then show ?case by (simp add: contacts_inv_def handleExecuteImport_def import_ok_def)
  next
    case (sends_export p fmt)
    then show ?case by (cases "ct_account p = []") (simp_all add: contacts_inv_def handleExecuteExport_def)
  qed (simp_all add: contacts_inv_def account_changed_def open_import_def set_text_def set_tab_def parse_effect_def handleFileUpload_def file_read_def
      import_answered_def handleExecuteExport_def export_answered_def modal_def Let_def parsed_lines_ok parsed_file_ok split: option.splits)
qed

text \<open>Every import that leaves the page is for a chosen account and holds contacts with different numbers of at least
  six digits or plus signs and no empty names, however typing, uploads, answers and changes of the account interleave.\<close>

theorem imports_are_clean:
  assumes "reach (\<lambda>p. p = new_contacts_page param) contacts_step p"
  shows "list_all import_ok (ct_imports p)"
  using ctm.reach_inv [OF assms] by (simp add: contacts_inv_def)

text \<open>No control opens the dialog for deleting a contact: \<open>handleDeleteClick\<close> is not used, so nothing is ever deleted.\<close>

theorem nothing_is_deleted:
  assumes "reach (\<lambda>p. p = new_contacts_page param) contacts_step p"
  shows "\<not> ct_deleteOpen p \<and> ct_deletes p = []"
  using ctm.reach_inv [OF assms] by (simp add: contacts_inv_def)

text \<open>Before the effect of a new account runs, the page is rendered once with the contact that was open: the new account is
  asked for a contact of the old one.\<close>

theorem new_account_asked_for_old_contact:
  assumes "settled p" "ct_selected p = Some i" "a \<noteq> []" "a \<noteq> ct_account p"
  shows "q_enabled (snd (contact_queries (p\<lparr>ct_account := a\<rparr>)))
     \<and> snd (contact_queries (p\<lparr>ct_account := a\<rparr>)) = useContactDetail a (Some i)
     \<and> \<not> q_enabled (snd (contact_queries (account_changed (p\<lparr>ct_account := a\<rparr>))))"
  using assms by (simp add: contact_queries_def useContactDetail_def account_changed_def)

text \<open>A file that is read after the user has gone back to typing replaces the contacts read from the text, which then
  no longer shows what is imported.\<close>

theorem late_file_replaces_typed:
  shows "ct_parsed (file_read f False p) = parse_file (fst f) (snd f) \<and> ct_text (file_read f False p) = ct_text p"
  by (simp add: file_read_def Let_def)

text \<open>An import that ends after its dialog was closed and opened anew closes the new one and drops what was entered.\<close>

theorem late_import_drops_input:
  shows "ct_text (import_answered True p) = [] \<and> ct_parsed (import_answered True p) = [] \<and> \<not> ct_importOpen (import_answered True p)"
  by (simp add: import_answered_def set_text_def parse_effect_def Let_def)

end
