(* ===== verification/InvitePage.thy ===== *)
theory InvitePage
  imports AccountSelector JobHooks JsNumber
begin

text \<open>
  The pages for inviting members: \<open>invite/page.tsx\<close>, \<open>invite/history/page.tsx\<close> and \<open>invite/logs/page.tsx\<close> under
  \<open>src/frontend/src/app/(dashboard)\<close>, over the requests of \<open>JobHooks\<close>.

  The jobs and accounts that the hooks deliver are state that steps replace; the live events are those that the
  socket hook of \<open>SocketHooks\<close> collects.  Pairs of type and value are groups.
\<close>

section \<open>The page for a new job\<close>

record invite_job =
  ij_id :: string
  ij_destination :: string
  ij_status :: string
  ij_invited :: "nat option"
  ij_progress :: "int option"

record invite_payload =
  pl_account_ids :: "string list"
  pl_destination :: string
  pl_destination_type :: string
  pl_sources :: "(string \<times> string) list"
  pl_delay_per_invite :: int
  pl_delay_per_batch :: int
  pl_batch_size :: int

text \<open>\<open>iv_starting\<close> is the request under way; \<open>iv_started\<close> are all jobs asked for and \<open>iv_actions\<close> all actions on jobs.\<close>

record invite_page =
  iv_selected :: "string list"
  iv_dest :: string
  iv_destType :: string
  iv_sources :: "(string \<times> string) list"
  iv_newValue :: string
  iv_newType :: string
  iv_delayPerInvite :: string
  iv_delayPerBatch :: string
  iv_batchSize :: string
  iv_stopOpen :: bool
  iv_activeJobId :: "string option"
  iv_wsLogs :: "json list"
  iv_accounts :: "Account list option"
  iv_jobs :: "invite_job list option"
  iv_starting :: "invite_payload option"
  iv_started :: "invite_payload list"
  iv_actions :: "(string \<times> string) list"

definition new_invite_page :: invite_page where
  "new_invite_page = \<lparr>iv_selected = [], iv_dest = [], iv_destType = ''username'', iv_sources = [], iv_newValue = [], iv_newType = ''username'',
     iv_delayPerInvite = ''30'', iv_delayPerBatch = ''60'', iv_batchSize = ''5'', iv_stopOpen = False, iv_activeJobId = None, iv_wsLogs = [],
     iv_accounts = None, iv_jobs = None, iv_starting = None, iv_started = [], iv_actions = []\<rparr>"

definition invite_accounts :: "invite_page \<Rightarrow> Account list option" where
  "invite_accounts p = map_option (filter (\<lambda>a. ac_is_active a \<and> \<not> ac_for_sale a)) (iv_accounts p)"

text \<open>The job that is watched: the one started here, else the first that runs.\<close>

definition running_job :: "invite_page \<Rightarrow> invite_job option" where
  "running_job p = (case iv_jobs p of None \<Rightarrow> None | Some js \<Rightarrow> find (\<lambda>j. ij_status j = ''running'' \<or> ij_status j = ''paused'') js)"

definition currentTrackingId :: "invite_page \<Rightarrow> string option" where
  "currentTrackingId p = opt_or (iv_activeJobId p) (opt_or (map_option ij_id (running_job p)) None)"

definition activeJob :: "invite_page \<Rightarrow> invite_job option" where
  "activeJob p = (case iv_jobs p of None \<Rightarrow> None | Some js \<Rightarrow> find (\<lambda>j. Some (ij_id j) = currentTrackingId p) js)"

text \<open>The effects: live events are added to those kept, and a selection that is empty becomes the first account.\<close>

definition merge_live :: "json list \<Rightarrow> invite_page \<Rightarrow> invite_page" where
  "merge_live live p = (if live \<noteq> [] then p\<lparr>iv_wsLogs := iv_wsLogs p @ live\<rparr> else p)"

definition select_first :: "invite_page \<Rightarrow> invite_page" where
  "select_first p =
     (case invite_accounts p of
        Some (a # _) \<Rightarrow> (if iv_selected p = [] then p\<lparr>iv_selected := [ac_id a]\<rparr> else p)
      | _ \<Rightarrow> p)"

definition selector_disabled :: "invite_page \<Rightarrow> bool" where
  "selector_disabled p \<longleftrightarrow> truthy (currentTrackingId p) \<and> map_option ij_status (activeJob p) = Some ''running''"

definition addSourceGroup :: "invite_page \<Rightarrow> invite_page" where
  "addSourceGroup p =
     (if trim (iv_newValue p) = [] then p
      else p\<lparr>iv_sources := iv_sources p @ [(iv_newType p, trim (iv_newValue p))], iv_newValue := []\<rparr>)"

definition removeSourceGroup :: "nat \<Rightarrow> invite_page \<Rightarrow> invite_page" where
  "removeSourceGroup idx p = p\<lparr>iv_sources := take idx (iv_sources p) @ drop (Suc idx) (iv_sources p)\<rparr>"

definition invite_payload_of :: "invite_page \<Rightarrow> invite_payload" where
  "invite_payload_of p =
     \<lparr>pl_account_ids = iv_selected p, pl_destination = trim (iv_dest p), pl_destination_type = iv_destType p, pl_sources = iv_sources p,
      pl_delay_per_invite = max 5 (int_or (iv_delayPerInvite p) 30), pl_delay_per_batch = max 0 (int_or (iv_delayPerBatch p) 60),
      pl_batch_size = max 1 (int_or (iv_batchSize p) 5)\<rparr>"

definition handleStartInvite :: "invite_page \<Rightarrow> invite_page" where
  "handleStartInvite p =
     (if iv_selected p = [] \<or> trim (iv_dest p) = [] \<or> iv_sources p = [] then p
      else p\<lparr>iv_starting := Some (invite_payload_of p), iv_started := iv_started p @ [invite_payload_of p]\<rparr>)"

text \<open>The answer is the id of the job, \<open>None\<close> for a failure.\<close>

definition invite_answered :: "string option \<Rightarrow> invite_page \<Rightarrow> invite_page" where
  "invite_answered answer p =
     (let p1 = p\<lparr>iv_starting := None\<rparr>
      in case answer of None \<Rightarrow> p1 | Some i \<Rightarrow> p1\<lparr>iv_activeJobId := Some i, iv_wsLogs := []\<rparr>)"

definition start_shown :: "invite_page \<Rightarrow> bool" where
  "start_shown p \<longleftrightarrow> (case activeJob p of None \<Rightarrow> True | Some j \<Rightarrow> ij_status j \<in> {''completed'', ''failed'', ''cancelled''})"

definition start_enabled :: "invite_page \<Rightarrow> bool" where
  "start_enabled p \<longleftrightarrow> \<not> (iv_selected p = [] \<or> trim (iv_dest p) = [] \<or> iv_sources p = [] \<or> iv_starting p \<noteq> None)"

definition job_action :: "string \<Rightarrow> invite_page \<Rightarrow> invite_page" where
  "job_action action p = (case activeJob p of None \<Rightarrow> p | Some j \<Rightarrow> p\<lparr>iv_actions := iv_actions p @ [(ij_id j, action)]\<rparr>)"

definition confirm_stop :: "invite_page \<Rightarrow> invite_page" where
  "confirm_stop p = (job_action ''stop'' p)\<lparr>iv_stopOpen := False\<rparr>"

text \<open>The last twenty live events, the newest first.\<close>

definition live_preview :: "json list \<Rightarrow> json list" where
  "live_preview logs = rev (drop (length logs - 20) logs)"

inductive invite_step :: "invite_page \<Rightarrow> unit \<Rightarrow> invite_page \<Rightarrow> bool" where
  accounts_load: "invite_step p () (select_first (p\<lparr>iv_accounts := accs\<rparr>))"
| jobs_load: "invite_step p () (p\<lparr>iv_jobs := js\<rparr>)"
| live_events: "invite_step p () (merge_live ls p)"
| selects: "\<not> iv_stopOpen p \<Longrightarrow> \<not> selector_disabled p \<Longrightarrow> invite_accounts p = Some accs \<Longrightarrow> selection_step accs (iv_selected p) ids \<Longrightarrow>
    invite_step p () (select_first (p\<lparr>iv_selected := ids\<rparr>))"
| types: "\<not> iv_stopOpen p \<Longrightarrow> invite_step p () (p\<lparr>iv_dest := v, iv_destType := t, iv_newValue := n, iv_newType := m\<rparr>)"
| sets_delays: "\<not> iv_stopOpen p \<Longrightarrow> invite_step p () (p\<lparr>iv_delayPerInvite := v, iv_delayPerBatch := w, iv_batchSize := b\<rparr>)"
| adds: "\<not> iv_stopOpen p \<Longrightarrow> invite_step p () (addSourceGroup p)"
| removes: "\<not> iv_stopOpen p \<Longrightarrow> k < length (iv_sources p) \<Longrightarrow> invite_step p () (removeSourceGroup k p)"
| starts: "\<not> iv_stopOpen p \<Longrightarrow> start_shown p \<Longrightarrow> start_enabled p \<Longrightarrow> invite_step p () (handleStartInvite p)"
| started: "iv_starting p \<noteq> None \<Longrightarrow> invite_step p () (invite_answered answer p)"
| pauses: "\<not> iv_stopOpen p \<Longrightarrow> map_option ij_status (activeJob p) = Some ''running'' \<Longrightarrow> invite_step p () (job_action ''pause'' p)"
| resumes: "\<not> iv_stopOpen p \<Longrightarrow> map_option ij_status (activeJob p) = Some ''paused'' \<Longrightarrow> invite_step p () (job_action ''resume'' p)"
| asks_stop: "\<not> iv_stopOpen p \<Longrightarrow> map_option ij_status (activeJob p) = Some ''running'' \<Longrightarrow> invite_step p () (p\<lparr>iv_stopOpen := True\<rparr>)"
| stops: "iv_stopOpen p \<Longrightarrow> invite_step p () (confirm_stop p)"
| keeps: "iv_stopOpen p \<Longrightarrow> invite_step p () (p\<lparr>iv_stopOpen := False\<rparr>)"

section \<open>Properties\<close>

definition group_ok :: "string \<times> string \<Rightarrow> bool" where
  "group_ok g \<longleftrightarrow> snd g \<noteq> [] \<and> trim (snd g) = snd g"

definition payload_ok :: "invite_payload \<Rightarrow> bool" where
  "payload_ok r \<longleftrightarrow> pl_account_ids r \<noteq> [] \<and> distinct (pl_account_ids r) \<and> group_ok (pl_destination_type r, pl_destination r)
     \<and> pl_sources r \<noteq> [] \<and> list_all group_ok (pl_sources r) \<and> 5 \<le> pl_delay_per_invite r \<and> 0 \<le> pl_delay_per_batch r \<and> 1 \<le> pl_batch_size r"

definition invite_inv :: "invite_page \<Rightarrow> bool" where
  "invite_inv p \<longleftrightarrow> distinct (iv_selected p) \<and> list_all group_ok (iv_sources p) \<and> list_all payload_ok (iv_started p)
     \<and> list_all (\<lambda>x. snd x \<in> {''pause'', ''resume'', ''stop''}) (iv_actions p)"

lemma select_first_fields [simp]:
  "iv_sources (select_first p) = iv_sources p" "iv_started (select_first p) = iv_started p" "iv_actions (select_first p) = iv_actions p"
  "distinct (iv_selected (select_first p)) = distinct (iv_selected p)"
  by (auto simp: select_first_def split: option.splits list.splits)

lemma start_payload_allowed: "invite_inv p \<Longrightarrow> start_enabled p \<Longrightarrow> payload_ok (invite_payload_of p)"
  by (simp add: invite_inv_def start_enabled_def payload_ok_def invite_payload_of_def group_ok_def)

interpretation ivm: machine "\<lambda>p. p = new_invite_page" invite_step invite_inv
proof
  show "invite_inv p" if "p = new_invite_page" for p using that by (simp add: invite_inv_def new_invite_page_def)
  show "invite_inv q" if "invite_inv p" "invite_step p l q" for p l q
    using that(2,1)
  proof (induction rule: invite_step.induct)
    case (selects p accs ids)
    then show ?case using selection_step_sound(1) [OF selects.hyps(4)] by (simp add: invite_inv_def)
  next
    case (starts p)
    then show ?case using start_payload_allowed [of p] by (simp add: invite_inv_def handleStartInvite_def)
  next
    case (removes p k)
    then show ?case by (auto simp: invite_inv_def removeSourceGroup_def list_all_iff dest: in_set_takeD in_set_dropD)
  qed (auto simp: invite_inv_def merge_live_def addSourceGroup_def group_ok_def invite_answered_def job_action_def confirm_stop_def Let_def
      split: option.splits)
qed

text \<open>Every invitation that is started is for at least one account and none twice, from at least one group to a group
  with a name, and keeps the lower bounds of its pauses; actions are the three that the backend knows.\<close>

theorem invites_start_allowed:
  assumes "reach (\<lambda>p. p = new_invite_page) invite_step p"
  shows "list_all payload_ok (iv_started p) \<and> list_all (\<lambda>x. snd x \<in> {''pause'', ''resume'', ''stop''}) (iv_actions p)"
  using ivm.reach_inv [OF assms] by (simp add: invite_inv_def)

text \<open>The field for the pause between batches accepts 0, which is replaced by a minute; the upper bounds of the fields are
  not kept.\<close>

theorem zero_pause_is_a_minute:
  "pl_delay_per_batch (invite_payload_of (p\<lparr>iv_delayPerBatch := ''0''\<rparr>)) = 60
   \<and> pl_delay_per_invite (invite_payload_of (p\<lparr>iv_delayPerInvite := nat_str n\<rparr>)) = (if n = 0 then 30 else max 5 (int n))"
  by (simp add: invite_payload_of_def int_or_def parseInt10_digits is_digit_def digits_val_def digit_val_def)

lemma merged_logs [simp]: "iv_wsLogs (merge_live ls p) = iv_wsLogs p @ ls"
  by (simp add: merge_live_def)

lemma merged_fold: "iv_wsLogs (fold (\<lambda>k. merge_live (f k)) ks p) = iv_wsLogs p @ concat (map f ks)"
  by (induction ks arbitrary: p) simp_all

lemma sum_prefixes: "n \<le> length ls \<Longrightarrow> 2 * length (concat (map (\<lambda>k. take k ls) [1..<Suc n])) = n * (n + 1)"
  by (induction n) (simp_all add: min_absorb2)

text \<open>The hook delivers all live events so far each time one arrives, and the effect appends all of them: of \<open>n\<close> events
  \<open>n * (n + 1) / 2\<close> entries are kept.\<close>

theorem live_events_quadratic:
  "2 * length (iv_wsLogs (fold (\<lambda>k. merge_live (take k ls)) [1..<Suc (length ls)] p)) = 2 * length (iv_wsLogs p) + length ls * (length ls + 1)"
  using sum_prefixes [of "length ls" ls] by (simp only: merged_fold length_append distrib_left)

text \<open>Until the list of jobs is fetched again, the job just started is not in it, and the button for starting is offered
  again: a second click starts the same invitation twice.\<close>

theorem start_offered_twice:
  assumes "i \<noteq> []" "case iv_jobs p of None \<Rightarrow> True | Some js \<Rightarrow> i \<notin> ij_id ` set js" "iv_starting p = None" "start_enabled p"
  shows "start_shown (invite_answered (Some i) (handleStartInvite p)) \<and> start_enabled (invite_answered (Some i) (handleStartInvite p))
     \<and> iv_started (handleStartInvite (invite_answered (Some i) (handleStartInvite p))) = iv_started p @ [invite_payload_of p, invite_payload_of p]"
proof -
  let ?q = "invite_answered (Some i) (handleStartInvite p)"
  have q: "iv_jobs ?q = iv_jobs p" "iv_activeJobId ?q = Some i" "start_enabled ?q" "invite_payload_of ?q = invite_payload_of p"
    "iv_started ?q = iv_started p @ [invite_payload_of p]"
    using assms(4) by (simp_all add: invite_answered_def handleStartInvite_def start_enabled_def Let_def invite_payload_of_def)
  have "currentTrackingId ?q = Some i" using q(2) assms(1) by (simp add: currentTrackingId_def)
  then have "activeJob ?q = None" using q(1) assms(2) by (auto simp: activeJob_def find_None_iff split: option.splits)
  then show ?thesis using q by (simp add: start_shown_def handleStartInvite_def start_enabled_def)
qed

text \<open>The stop that is confirmed is for the job that is watched then, which may be another one than the question was
  asked for.\<close>

theorem stop_hits_other_job:
  assumes "iv_activeJobId p = None" "iv_jobs p = Some [j, k]" "ij_status j = ''running''" "ij_id j \<noteq> []"
    "ij_status k = ''running''" "ij_id k \<noteq> []" "ij_id j \<noteq> ij_id k"
  shows "map_option ij_id (activeJob p) = Some (ij_id j)
     \<and> iv_actions (confirm_stop ((p\<lparr>iv_stopOpen := True\<rparr>)\<lparr>iv_jobs := Some [j\<lparr>ij_status := ''completed''\<rparr>, k]\<rparr>)) = iv_actions p @ [(ij_id k, ''stop'')]"
  using assms by (simp add: activeJob_def currentTrackingId_def running_job_def confirm_stop_def job_action_def)

section \<open>The history and the logs\<close>

text \<open>The numbers above the table: all jobs, those that run, those that are complete, and the members invited.\<close>

definition history_metrics :: "invite_job list option \<Rightarrow> nat \<times> nat \<times> nat \<times> nat" where
  "history_metrics jobs =
     (case jobs of
        None \<Rightarrow> (0, 0, 0, 0)
      | Some js \<Rightarrow> (length js, length (filter (\<lambda>j. ij_status j = ''running'') js), length (filter (\<lambda>j. ij_status j = ''completed'') js),
          sum_list (map (\<lambda>j. case ij_invited j of None \<Rightarrow> 0 | Some n \<Rightarrow> n) js)))"

definition progress_width :: "invite_job \<Rightarrow> int" where
  "progress_width j = min 100 (max 0 (case ij_progress j of None \<Rightarrow> 0 | Some n \<Rightarrow> n))"

datatype row_action = Pause | StopJob | Resume | Retry | DeleteJob

definition row_actions :: "string \<Rightarrow> row_action list" where
  "row_actions status =
     (if status = ''running'' then [Pause, StopJob] else [])
     @ (if status = ''paused'' then [Resume] else [])
     @ (if status \<in> {''completed'', ''failed'', ''cancelled''} then [Retry, DeleteJob] else [])"

record history_page =
  hp_delete :: "string option"
  hp_stop :: "string option"
  hp_sent :: "mutation list"

definition confirm_delete_job :: "history_page \<Rightarrow> history_page" where
  "confirm_delete_job p = (if truthy (hp_delete p) then p\<lparr>hp_sent := hp_sent p @ [useDeleteInviteJob (the (hp_delete p))]\<rparr> else p)\<lparr>hp_delete := None\<rparr>"

definition confirm_stop_job :: "history_page \<Rightarrow> history_page" where
  "confirm_stop_job p = (if truthy (hp_stop p) then p\<lparr>hp_sent := hp_sent p @ [useInviteAction (the (hp_stop p)) ''stop'']\<rparr> else p)\<lparr>hp_stop := None\<rparr>"

text \<open>A click on one of the buttons of a row.\<close>

definition row_clicked :: "invite_job \<Rightarrow> row_action \<Rightarrow> history_page \<Rightarrow> history_page" where
  "row_clicked j a p =
     (case a of
        Pause \<Rightarrow> p\<lparr>hp_sent := hp_sent p @ [useInviteAction (ij_id j) ''pause'']\<rparr>
      | StopJob \<Rightarrow> p\<lparr>hp_stop := Some (ij_id j)\<rparr>
      | Resume \<Rightarrow> p\<lparr>hp_sent := hp_sent p @ [useInviteAction (ij_id j) ''resume'']\<rparr>
      | Retry \<Rightarrow> p\<lparr>hp_sent := hp_sent p @ [useRetryInviteJob (ij_id j)]\<rparr>
      | DeleteJob \<Rightarrow> p\<lparr>hp_delete := Some (ij_id j)\<rparr>)"

theorem row_actions_disjoint:
  "(set (row_actions s) \<inter> {Pause, StopJob} \<noteq> {} \<longleftrightarrow> s = ''running'') \<and> (Resume \<in> set (row_actions s) \<longleftrightarrow> s = ''paused'')
   \<and> (set (row_actions s) \<inter> {Retry, DeleteJob} \<noteq> {} \<longleftrightarrow> s \<in> {''completed'', ''failed'', ''cancelled''})"
  by (auto simp: row_actions_def)

text \<open>The page of the logs asks for the job chosen, else for the newest one; an empty filter is left out.\<close>

record logs_page =
  lp_job :: string
  lp_status :: string
  lp_search :: string

definition new_logs_page :: "string option \<Rightarrow> logs_page" where
  "new_logs_page job_id = \<lparr>lp_job = or_blank job_id, lp_status = [], lp_search = []\<rparr>"

definition effectiveJobId :: "invite_job list option \<Rightarrow> logs_page \<Rightarrow> string" where
  "effectiveJobId jobs p = (if lp_job p \<noteq> [] then lp_job p else case jobs of Some (j # _) \<Rightarrow> ij_id j | _ \<Rightarrow> [])"

definition log_filters :: "logs_page \<Rightarrow> (string \<times> string) list" where
  "log_filters p = (if lp_status p \<noteq> [] then [(''status'', lp_status p)] else []) @ (if lp_search p \<noteq> [] then [(''search'', lp_search p)] else [])"

definition logs_query :: "invite_job list option \<Rightarrow> logs_page \<Rightarrow> query" where
  "logs_query jobs p = useInviteLogs (effectiveJobId jobs p) (Some (log_filters p))"

definition choose_job :: "string \<Rightarrow> logs_page \<Rightarrow> logs_page" where
  "choose_job v p = p\<lparr>lp_job := (if v = ''_none'' then [] else v)\<rparr>"

definition choose_status :: "string \<Rightarrow> logs_page \<Rightarrow> logs_page" where
  "choose_status v p = p\<lparr>lp_status := (if v = ''all'' then [] else v)\<rparr>"

definition used_account :: "string \<Rightarrow> Account list option \<Rightarrow> string option \<Rightarrow> string" where
  "used_account dash accounts i =
     (case (case accounts of None \<Rightarrow> None | Some as \<Rightarrow> find (\<lambda>a. Some (ac_id a) = i) as) of
        Some a \<Rightarrow> or_str (or_blank (ac_first_name a)) ''Unknown'' @ '' ('' @ or_blank (ac_phone a) @ '')''
      | None \<Rightarrow> (if truthy i then take 8 (the i) else dash))"

text \<open>The entry for no job cannot be chosen while there are jobs: the newest one takes its place.\<close>

theorem no_job_cannot_be_chosen:
  assumes "jobs = Some (j # js)" "ij_id j \<noteq> []"
  shows "effectiveJobId jobs (choose_job ''_none'' p) = ij_id j \<and> q_enabled (logs_query jobs (choose_job ''_none'' p))"
  using assms by (simp add: effectiveJobId_def choose_job_def logs_query_def useInviteLogs_def)

end
