(* ===== verification/TextEditor.thy ===== *)
theory TextEditor
  imports Prelude
begin

text \<open>
  The text editor, \<open>src/frontend/src/components/ui/text-editor.tsx\<close>: the formatting buttons, the preview that turns the
  text into HTML, and the dialog around it.

  The replacements of the preview are global, without regard to case, and each of their groups \<open>([\s\S]*?)\<close> ends at
  the first place where what follows it stands; \<open>replace_between\<close> and \<open>replace_links\<close> search in this way.  The lists
  of emojis are arguments.
\<close>

section \<open>Searching\<close>

fun starts_ci :: "string \<Rightarrow> string \<Rightarrow> bool" where
  "starts_ci s [] = True"
| "starts_ci [] (c # w) = False"
| "starts_ci (d # s) (c # w) = (lower_char d = lower_char c \<and> starts_ci s w)"

text \<open>The first place where one of some words stands: what is before it, the word as written, what is after it.\<close>

fun find_first :: "string list \<Rightarrow> string \<Rightarrow> (string \<times> string \<times> string) option" where
  "find_first ws s =
     (case find (starts_ci s) ws of
        Some w \<Rightarrow> Some ([], take (length w) s, drop (length w) s)
      | None \<Rightarrow> (case s of [] \<Rightarrow> None | c # t \<Rightarrow> map_option (\<lambda>(a, m, b). (c # a, m, b)) (find_first ws t)))"

declare find_first.simps [simp del]

lemma find_first_split: "find_first ws s = Some (a, m, b) \<Longrightarrow> s = a @ m @ b"
proof (induction s arbitrary: a)
  case Nil
  then show ?case by (auto simp: find_first.simps [of _ "[]"] split: option.splits)
next
  case (Cons c t)
  then show ?case by (subst (asm) find_first.simps) (auto split: option.splits)
qed

lemma starts_ci_Nil [simp]: "starts_ci [] w = (w = [])"
  by (cases w) simp_all

lemma starts_ci_length: "starts_ci s w \<Longrightarrow> length w \<le> length s"
  by (induction s w rule: starts_ci.induct) auto

lemma find_first_word: "find_first ws s = Some (a, m, b) \<Longrightarrow> \<exists>w\<in>set ws. toLowerCase m = toLowerCase w"
proof (induction s arbitrary: a)
  case Nil
  then show ?case by (subst (asm) find_first.simps) (auto simp: find_Some_iff toLowerCase_def split: option.splits dest: nth_mem)
next
  case (Cons c t)
  have ci: "starts_ci s w \<Longrightarrow> map lower_char (take (length w) s) = map lower_char w" for s w
    by (induction s w rule: starts_ci.induct) auto
  from Cons show ?case
    by (subst (asm) find_first.simps) (auto simp: find_Some_iff toLowerCase_def ci split: option.splits)
qed

lemma find_first_shorter: "find_first ws s = Some (a, m, b) \<Longrightarrow> length b \<le> length s"
  using find_first_split by fastforce

text \<open>\<open>replace(/OPEN([\s\S]*?)CLOSE/gi, f)\<close>: \<open>f\<close> is given the opening word, the text between and the closing word.\<close>

function replace_between :: "string list \<Rightarrow> string list \<Rightarrow> (string \<Rightarrow> string \<Rightarrow> string \<Rightarrow> string) \<Rightarrow> string \<Rightarrow> string" where
  "replace_between opens closes f s =
     (case find_first opens s of
        None \<Rightarrow> s
      | Some (a, m, b) \<Rightarrow>
          (case find_first closes b of
             None \<Rightarrow> s
           | Some (c, n, d) \<Rightarrow> a @ f m c n @ (if length d < length s then replace_between opens closes f d else d)))"
  by pat_completeness auto
termination by (relation "measure (\<lambda>(_, _, _, s). length s)") auto

declare replace_between.simps [simp del]

text \<open>\<open>replace(/OPEN([\s\S]*?)MID([\s\S]*?)CLOSE/gi, f)\<close> with both groups.\<close>

function replace_links :: "string \<Rightarrow> string \<Rightarrow> string \<Rightarrow> (string \<Rightarrow> string \<Rightarrow> string) \<Rightarrow> string \<Rightarrow> string" where
  "replace_links opn mid cls f s =
     (case find_first [opn] s of
        None \<Rightarrow> s
      | Some (a, _, b) \<Rightarrow>
          (case find_first [mid] b of
             None \<Rightarrow> s
           | Some (u, _, c) \<Rightarrow>
               (case find_first [cls] c of
                  None \<Rightarrow> s
                | Some (t, _, d) \<Rightarrow> a @ f u t @ (if length d < length s then replace_links opn mid cls f d else d))))"
  by pat_completeness auto
termination by (relation "measure (\<lambda>(_, _, _, _, s). length s)") auto

declare replace_links.simps [simp del]

text \<open>The guards of the recursions always hold for the words of the sources, which are not empty.\<close>

lemma find_first_less:
  assumes "find_first ws s = Some (a, m, b)" "[] \<notin> set ws" shows "length b < length s"
proof -
  obtain w where w: "w \<in> set ws" "toLowerCase m = toLowerCase w" using find_first_word [OF assms(1)] by blast
  have "m \<noteq> []" using w assms(2) by (cases m) (auto simp: toLowerCase_def)
  then show ?thesis using find_first_split [OF assms(1)] by simp
qed

lemma replace_between_step:
  assumes "find_first opens s = Some (a, m, b)" "find_first closes b = Some (c, n, d)" "[] \<notin> set opens"
  shows "replace_between opens closes f s = a @ f m c n @ replace_between opens closes f d"
proof -
  have "length d < length s" using find_first_less [OF assms(1,3)] find_first_shorter [OF assms(2)] by simp
  then show ?thesis using assms(1,2) by (simp add: replace_between.simps [of _ _ _ s])
qed

lemma replace_links_step:
  assumes "find_first [opn] s = Some (a, m, b)" "find_first [mid] b = Some (u, k, c)" "find_first [cls] c = Some (t, l, d)" "opn \<noteq> []"
  shows "replace_links opn mid cls f s = a @ f u t @ replace_links opn mid cls f d"
proof -
  have "length b < length s" using find_first_less [OF assms(1)] assms(4) by simp
  then have "length d < length s" using find_first_shorter [OF assms(2)] find_first_shorter [OF assms(3)] by simp
  then show ?thesis using assms(1,2,3) by (simp add: replace_links.simps [of _ _ _ _ s])
qed

section \<open>The preview\<close>

text \<open>The three replacements of single characters, one after the other.\<close>

definition replace_char :: "char \<Rightarrow> string \<Rightarrow> string \<Rightarrow> string" where
  "replace_char c w s = concat (map (\<lambda>d. if d = c then w else [d]) s)"

definition escape_html :: "string \<Rightarrow> string" where
  "escape_html v = replace_char (CHR ''>'') ''&gt;'' (replace_char (CHR ''<'') ''&lt;'' (replace_char (CHR ''&'') ''&amp;'' v))"

text \<open>\<open>/^(https?:|tg:\/\/|mailto:)/i\<close>.\<close>

definition safe_scheme :: "string \<Rightarrow> bool" where
  "safe_scheme url \<longleftrightarrow> list_ex (starts_ci url) [''http:'', ''https:'', ''tg://'', ''mailto:'']"

definition quote :: string where "quote = ''\"''"

definition quoted_open :: string where "quoted_open = ''&lt;a href='' @ quote"
definition quoted_close :: string where "quoted_close = quote @ ''&gt;''"
definition entity_open :: string where "entity_open = ''&lt;a href=&quot;''"
definition entity_close :: string where "entity_close = ''&quot;&gt;''"

definition link_opens :: "string list" where "link_opens = [entity_open, quoted_open]"
definition link_closes :: "string list" where "link_closes = [entity_close, quoted_close]"

definition check_links :: "string \<Rightarrow> string" where
  "check_links s = replace_between link_opens link_closes
     (\<lambda>m url n. if safe_scheme (trim url) then m @ url @ n else ''&lt;a href=&quot;#&quot;&gt;'') s"

text \<open>A pair of tags: its name as typed, and what its tags become.\<close>

definition unescape_tag :: "string \<Rightarrow> string \<Rightarrow> string \<Rightarrow> string \<Rightarrow> string" where
  "unescape_tag tag opening closing s =
     replace_between [''&lt;'' @ tag @ ''&gt;''] [''&lt;/'' @ tag @ ''&gt;''] (\<lambda>_ t _. opening @ t @ closing) s"

definition code_open :: string where "code_open = ''<code class='bg-gray-800 text-pink-400 px-1 py-0.5 rounded text-xs font-mono'>''"
definition pre_open :: string where "pre_open = ''<pre class='bg-gray-900 text-gray-100 p-2 rounded text-xs font-mono my-1 overflow-x-auto'>''"
definition blockquote_open :: string where "blockquote_open = ''<blockquote class='border-l-2 border-primary-400 pl-2 italic my-1 text-gray-300'>''"
definition spoiler_open :: string where "spoiler_open = ''<span class='bg-gray-600 text-transparent hover:text-white cursor-pointer px-1 rounded transition'>''"

definition link_open :: string where "link_open = ''<a href='' @ [CHR 39]"
definition link_attributes :: string where
  "link_attributes = CHR 39 # '' target='_blank' rel='noreferrer' class='text-blue-400 underline hover:text-blue-300'>''"

definition html_link :: "string \<Rightarrow> string \<Rightarrow> string" where
  "html_link url t = link_open @ url @ link_attributes @ t @ ''</a>''"

definition renderedHtml :: "string \<Rightarrow> string" where
  "renderedHtml value =
     (if value = [] then ''<em>(Pesan kosong)</em>''
      else
        let s = check_links (escape_html value);
            s = unescape_tag ''b'' ''<strong>'' ''</strong>'' s;
            s = unescape_tag ''strong'' ''<strong>'' ''</strong>'' s;
            s = unescape_tag ''i'' ''<em>'' ''</em>'' s;
            s = unescape_tag ''em'' ''<em>'' ''</em>'' s;
            s = unescape_tag ''code'' code_open ''</code>'' s;
            s = unescape_tag ''pre'' pre_open ''</pre>'' s;
            s = unescape_tag ''blockquote'' blockquote_open ''</blockquote>'' s;
            s = unescape_tag ''tg-spoiler'' spoiler_open ''</span>'' s;
            s = replace_links entity_open entity_close ''&lt;/a&gt;'' html_link s;
            s = replace_links quoted_open quoted_close ''&lt;/a&gt;'' html_link s
        in replace_char (CHR 10) ''<br />'' s)"

section \<open>Which tags the preview contains\<close>

text \<open>Every tag of the result starts with one of these words, none of which contains an ampersand.\<close>

definition allowed_tags :: "string list" where
  "allowed_tags = [''<strong>'', ''</strong>'', ''<em>'', ''</em>'', ''<code class='', ''</code>'', ''<pre class='', ''</pre>'',
     ''<blockquote class='', ''</blockquote>'', ''<span class='', ''</span>'', ''<a href='', ''</a>'', ''<br />'']"

fun tags_ok :: "string \<Rightarrow> bool" where
  "tags_ok [] = True"
| "tags_ok (c # s) = ((c = CHR ''<'' \<longrightarrow> list_ex (startsWith (c # s)) allowed_tags) \<and> tags_ok s)"

lemma allowed_chars: "w \<in> set allowed_tags \<Longrightarrow> CHR ''&'' \<notin> set w \<and> CHR 34 \<notin> set w \<and> CHR 10 \<notin> set w"
  unfolding allowed_tags_def by (simp, elim disjE) simp_all

lemma startsWith_extend: "startsWith u w \<Longrightarrow> startsWith (u @ v) w"
  by (auto simp: startsWith_iff)

lemma tags_ok_append: "tags_ok u \<Longrightarrow> tags_ok v \<Longrightarrow> tags_ok (u @ v)"
proof (induction u)
  case (Cons c u)
  then show ?case using startsWith_extend [of "c # u" _ v] by (auto simp: list_ex_iff)
qed simp

lemma tags_ok_suffix: "tags_ok (u @ v) \<Longrightarrow> tags_ok v"
  by (induction u) auto

text \<open>A text with only allowed tags may be cut before a character that no tag contains.\<close>

lemma startsWith_cut: "startsWith (u @ x # v) w \<Longrightarrow> x \<notin> set w \<Longrightarrow> startsWith u w"
  by (auto simp: startsWith_iff append_eq_append_conv2 Cons_eq_append_conv)

lemma tags_ok_prefix: "tags_ok (u @ x # v) \<Longrightarrow> x \<in> {CHR ''&'', CHR 34} \<Longrightarrow> tags_ok u"
proof (induction u)
  case (Cons c u)
  have "startsWith (c # u) w" if "startsWith ((c # u) @ x # v) w" "w \<in> set allowed_tags" for w
    by (rule startsWith_cut [OF that(1)]) (use allowed_chars [OF that(2)] Cons.prems(2) in auto)
  then show ?case using Cons by (auto simp: list_ex_iff)
qed simp

lemma tags_ok_free: "CHR ''<'' \<notin> set s \<Longrightarrow> tags_ok s"
  by (induction s) auto

text \<open>The words that are searched for start with an ampersand or a quotation mark, and so do the places where they
  stand.\<close>

definition marked :: "string list \<Rightarrow> bool" where
  "marked ws \<longleftrightarrow> list_all (\<lambda>w. w \<noteq> [] \<and> hd w \<in> {CHR ''&'', CHR 34}) ws"

lemma find_first_marked:
  assumes "find_first ws s = Some (a, m, b)" "marked ws" "tags_ok s"
  shows "tags_ok a" "tags_ok b"
proof -
  obtain w where w: "w \<in> set ws" "toLowerCase m = toLowerCase w" using find_first_word [OF assms(1)] by blast
  then have "w \<noteq> [] \<and> hd w \<in> {CHR ''&'', CHR 34}" using assms(2) unfolding marked_def list_all_iff by blast
  then obtain x v where x: "w = x # v" "x \<in> {CHR ''&'', CHR 34}" by (cases w) simp_all
  then obtain y u where m: "m = y # u" using w(2) by (cases m) (auto simp: toLowerCase_def)
  have "lower_char x = x" using x(2) by (auto simp: lower_char_def)
  then have "lower_char y = x" using w(2) x(1) m by (simp add: toLowerCase_def)
  moreover have "\<not> 97 \<le> (of_char x :: nat)" using x(2) by auto
  ultimately have "y = x" by (rule lower_mark)
  then have "m = x # u" using m by simp
  then have s: "s = a @ x # u @ b" using find_first_split [OF assms(1)] by (simp only: append_Cons)
  show "tags_ok a" using tags_ok_prefix assms(3) x(2) s by blast
  show "tags_ok b" using tags_ok_suffix [of "a @ x # u" b] assms(3) s by simp
qed

lemma replace_between_tags:
  assumes "marked opens" "marked closes" "\<And>m c n. tags_ok c \<Longrightarrow> tags_ok (f m c n)"
  shows "tags_ok s \<Longrightarrow> tags_ok (replace_between opens closes f s)"
proof (induction "length s" arbitrary: s rule: less_induct)
  case less
  show ?case
  proof (cases "find_first opens s")
    case None
    then show ?thesis using less.prems by (simp add: replace_between.simps [of _ _ _ s])
  next
    case (Some x)
    then obtain a m b where ab: "find_first opens s = Some (a, m, b)" by (cases x) auto
    show ?thesis
    proof (cases "find_first closes b")
      case None
      then show ?thesis using ab less.prems by (simp add: replace_between.simps [of _ _ _ s])
    next
      case (Some y)
      then obtain c n d where cd: "find_first closes b = Some (c, n, d)" by (cases y) auto
      have ne: "[] \<notin> set opens" using assms(1) by (auto simp: marked_def list_all_iff)
      note ok = find_first_marked [OF ab assms(1) less.prems]
      note ok2 = find_first_marked [OF cd assms(2) ok(2)]
      have "length d < length s" using find_first_less [OF ab ne] find_first_shorter [OF cd] by simp
      then have "tags_ok (replace_between opens closes f d)" using less.hyps ok2(2) by blast
      then show ?thesis using ok(1) assms(3) [OF ok2(1)] by (simp add: replace_between_step [OF ab cd ne] tags_ok_append)
    qed
  qed
qed

lemma replace_links_tags:
  assumes "marked [opn]" "marked [mid]" "marked [cls]" "\<And>u t. tags_ok u \<Longrightarrow> tags_ok t \<Longrightarrow> tags_ok (f u t)"
  shows "tags_ok s \<Longrightarrow> tags_ok (replace_links opn mid cls f s)"
proof (induction "length s" arbitrary: s rule: less_induct)
  case less
  show ?case
  proof (cases "\<exists>a m b u k c t l d. find_first [opn] s = Some (a, m, b) \<and> find_first [mid] b = Some (u, k, c) \<and> find_first [cls] c = Some (t, l, d)")
    case False
    then have "replace_links opn mid cls f s = s"
      by (subst replace_links.simps) (auto split: option.splits)
    then show ?thesis using less.prems by simp
  next
    case True
    then obtain a m b u k c t l d where f: "find_first [opn] s = Some (a, m, b)" "find_first [mid] b = Some (u, k, c)" "find_first [cls] c = Some (t, l, d)"
      by blast
    have ne: "opn \<noteq> []" using assms(1) by (simp add: marked_def)
    note o1 = find_first_marked [OF f(1) assms(1) less.prems]
    note o2 = find_first_marked [OF f(2) assms(2) o1(2)]
    note o3 = find_first_marked [OF f(3) assms(3) o2(2)]
    have "length b < length s" using find_first_less [OF f(1)] ne by simp
    then have "length d < length s" using find_first_shorter [OF f(2)] find_first_shorter [OF f(3)] by simp
    then have "tags_ok (replace_links opn mid cls f d)" using less.hyps o3(2) by blast
    then show ?thesis using o1(1) assms(4) [OF o2(1) o3(1)] by (simp add: replace_links_step [OF f ne] tags_ok_append)
  qed
qed

lemma unescape_tag_ok: "tags_ok opening \<Longrightarrow> tags_ok closing \<Longrightarrow> tags_ok s \<Longrightarrow> tags_ok (unescape_tag tag opening closing s)"
  unfolding unescape_tag_def by (rule replace_between_tags) (simp_all add: marked_def tags_ok_append)

text \<open>After the escape there is no tag at all, and checking the links adds none.\<close>

lemma replace_between_free:
  assumes "\<And>m c n. x \<notin> set (m @ c @ n) \<Longrightarrow> x \<notin> set (f m c n)" "[] \<notin> set opens"
  shows "x \<notin> set s \<Longrightarrow> x \<notin> set (replace_between opens closes f s)"
proof (induction "length s" arbitrary: s rule: less_induct)
  case less
  show ?case
  proof (cases "\<exists>a m b c n d. find_first opens s = Some (a, m, b) \<and> find_first closes b = Some (c, n, d)")
    case False
    then have "replace_between opens closes f s = s" by (subst replace_between.simps) (auto split: option.splits)
    then show ?thesis using less.prems by simp
  next
    case True
    then obtain a m b c n d where f: "find_first opens s = Some (a, m, b)" "find_first closes b = Some (c, n, d)" by blast
    have s: "s = a @ m @ c @ n @ d" using find_first_split [OF f(1)] find_first_split [OF f(2)] by simp
    have "length d < length s" using find_first_less [OF f(1) assms(2)] find_first_shorter [OF f(2)] by simp
    then have "x \<notin> set (replace_between opens closes f d)" using less s by auto
    moreover have "x \<notin> set (f m c n)" using assms(1) less.prems s by auto
    moreover have "x \<notin> set a" using less.prems s by auto
    ultimately show ?thesis unfolding replace_between_step [OF f assms(2)] by simp
  qed
qed

lemma escape_html_free: "CHR ''<'' \<notin> set (escape_html v)"
  by (auto simp: escape_html_def replace_char_def split: if_splits)

lemma check_links_ok: "tags_ok (check_links (escape_html v))"
proof -
  have "CHR ''<'' \<notin> set (check_links (escape_html v))"
    unfolding check_links_def by (rule replace_between_free [OF _ _ escape_html_free]) (auto simp: link_opens_def entity_open_def quoted_open_def)
  then show ?thesis by (rule tags_ok_free)
qed

lemma replace_char_append [simp]: "replace_char x r (u @ v) = replace_char x r u @ replace_char x r v"
  by (simp add: replace_char_def)

lemma replace_char_id: "x \<notin> set w \<Longrightarrow> replace_char x r w = w"
  by (induction w) (auto simp: replace_char_def)

lemma startsWith_replace_char: "startsWith s w \<Longrightarrow> x \<notin> set w \<Longrightarrow> startsWith (replace_char x r s) w"
  by (auto simp: startsWith_iff replace_char_id)

lemma tags_ok_breaks: "tags_ok s \<Longrightarrow> tags_ok (replace_char (CHR 10) ''<br />'' s)"
proof (induction s)
  case (Cons c s)
  then have s: "tags_ok (replace_char (CHR 10) ''<br />'' s)" by simp
  have br: "tags_ok ''<br />''" by (simp add: allowed_tags_def)
  show ?case
  proof (cases "c = CHR 10")
    case True
    then have "replace_char (CHR 10) ''<br />'' (c # s) = ''<br />'' @ replace_char (CHR 10) ''<br />'' s" by (simp add: replace_char_def)
    then show ?thesis using tags_ok_append [OF br s] by simp
  next
    case False
    then have r: "replace_char (CHR 10) ''<br />'' (c # s) = c # replace_char (CHR 10) ''<br />'' s" by (simp add: replace_char_def)
    have "list_ex (startsWith (c # replace_char (CHR 10) ''<br />'' s)) allowed_tags" if c: "c = CHR ''<''"
    proof -
      obtain w where w: "w \<in> set allowed_tags" "startsWith (c # s) w" using Cons.prems c by (auto simp: list_ex_iff)
      have "startsWith (replace_char (CHR 10) ''<br />'' (c # s)) w"
        by (rule startsWith_replace_char [OF w(2)]) (use allowed_chars [OF w(1)] in simp)
      then show ?thesis using w(1) r by (auto simp: list_ex_iff)
    qed
    then show ?thesis using s r by simp
  qed
qed (simp add: replace_char_def)

lemma html_link_ok: "tags_ok u \<Longrightarrow> tags_ok t \<Longrightarrow> tags_ok (html_link u t)"
proof -
  have "tags_ok link_open" "tags_ok link_attributes" "tags_ok ''</a>''"
    by (simp_all add: allowed_tags_def link_open_def link_attributes_def)
  then show "tags_ok u \<Longrightarrow> tags_ok t \<Longrightarrow> tags_ok (html_link u t)" by (simp add: html_link_def tags_ok_append)
qed

text \<open>C21: whatever is typed, every less-than sign of the preview starts one of the tags of the editor: no other element can be
  written into the page.\<close>

theorem preview_only_allowed_tags: "tags_ok (renderedHtml value)"
proof (cases "value = []")
  case True
  then show ?thesis by (simp add: renderedHtml_def allowed_tags_def)
next
  case False
  have tags: "tags_ok ''<strong>''" "tags_ok ''</strong>''" "tags_ok ''<em>''" "tags_ok ''</em>''" "tags_ok code_open" "tags_ok ''</code>''"
    "tags_ok pre_open" "tags_ok ''</pre>''" "tags_ok blockquote_open" "tags_ok ''</blockquote>''" "tags_ok spoiler_open" "tags_ok ''</span>''"
    by (simp_all add: allowed_tags_def code_open_def pre_open_def blockquote_open_def spoiler_open_def)
  show ?thesis unfolding renderedHtml_def Let_def
    by (simp only: False if_False)
      (intro tags_ok_breaks replace_links_tags unescape_tag_ok check_links_ok tags html_link_ok;
       simp add: marked_def quote_def quoted_open_def quoted_close_def entity_open_def entity_close_def)
qed

section \<open>Links\<close>

text \<open>A text without the characters that the escapes and the search look for.\<close>

definition plain :: "string \<Rightarrow> bool" where
  "plain u \<longleftrightarrow> list_all (\<lambda>c. c \<notin> {CHR ''&'', CHR ''<'', CHR ''>'', CHR 34, CHR 10}) u"

lemma plain_append [simp]: "plain (u @ v) \<longleftrightarrow> plain u \<and> plain v"
  by (simp add: plain_def)

lemma find_first_skip:
  assumes "marked ws"
  shows "list_all (\<lambda>c. c \<notin> {CHR ''&'', CHR 34}) u \<Longrightarrow> find_first ws (u @ s) = map_option (\<lambda>(a, m, b). (u @ a, m, b)) (find_first ws s)"
proof (induction u)
  case Nil
  show ?case by (cases "find_first ws s") auto
next
  case (Cons c u)
  have "\<not> starts_ci (c # u @ s) w" if "w \<in> set ws" for w
  proof
    assume st: "starts_ci (c # u @ s) w"
    have "w \<noteq> [] \<and> hd w \<in> {CHR ''&'', CHR 34}" using assms that unfolding marked_def list_all_iff by blast
    then obtain x v where w: "w = x # v" "x \<in> {CHR ''&'', CHR 34}" by (cases w) simp_all
    have "lower_char x = x" "\<not> 97 \<le> (of_char x :: nat)" using w(2) by (auto simp: lower_char_def)
    moreover have "lower_char c = lower_char x" using st unfolding w(1) by simp
    ultimately have "c = x" by (metis lower_mark)
    then show False using Cons.prems w(2) by simp
  qed
  then have "find (starts_ci (c # u @ s)) ws = None" by (auto simp: find_None_iff)
  moreover have "find_first ws (u @ s) = map_option (\<lambda>(a, m, b). (u @ a, m, b)) (find_first ws s)" using Cons by simp
  ultimately show ?case by (subst find_first.simps) (simp add: option.map_comp comp_def split_def)
qed

lemma plain_skip: "plain u \<Longrightarrow> marked ws \<Longrightarrow> find_first ws (u @ s) = map_option (\<lambda>(a, m, b). (u @ a, m, b)) (find_first ws s)"
  by (rule find_first_skip) (auto simp: plain_def list_all_iff)

lemma find_first_Nil [simp]: "marked ws \<Longrightarrow> find_first ws [] = None"
  by (subst find_first.simps) (auto simp: find_None_iff find_Some_iff marked_def list_all_iff split: option.splits)

lemma find_first_hit: "w \<noteq> [] \<Longrightarrow> starts_ci s w \<Longrightarrow> find_first (w # ws) s = Some ([], take (length w) s, drop (length w) s)"
  by (subst find_first.simps) simp

lemma find_first_miss: "list_all (\<lambda>w. \<not> starts_ci (c # s) w) ws \<Longrightarrow> find_first ws (c # s) = map_option (\<lambda>(a, m, b). (c # a, m, b)) (find_first ws s)"
  by (subst find_first.simps) (auto simp: find_None_iff list_all_iff find_Some_iff split: option.splits dest: nth_mem)

lemma starts_ci_refl [simp]: "starts_ci (w @ s) w"
  by (induction w) auto

lemma find_first_here: "w \<noteq> [] \<Longrightarrow> find_first [w] (w @ s) = Some ([], w, s)"
  by (subst find_first_hit) simp_all

text \<open>What a link looks like after the escape, with the words around its address.\<close>

definition shaped :: "string \<Rightarrow> string \<Rightarrow> string \<Rightarrow> string \<Rightarrow> string" where
  "shaped opn u cls t = opn @ u @ cls @ t @ ''&lt;/a&gt;''"

lemmas shape_defs = shaped_def quoted_open_def quoted_close_def entity_open_def entity_close_def quote_def

lemma marked_words [simp]: "marked link_opens" "marked link_closes" "marked [CHR ''&'' # v]" "marked [CHR 34 # v]"
    "marked [quoted_open]" "marked [quoted_close]" "marked [entity_open]" "marked [entity_close]"
  by (simp_all add: marked_def link_opens_def link_closes_def quote_def quoted_open_def quoted_close_def entity_open_def entity_close_def)

lemma words_nonempty [simp]: "quoted_open \<noteq> []" "quoted_close \<noteq> []" "entity_open \<noteq> []" "entity_close \<noteq> []"
  by (simp_all add: quoted_open_def quoted_close_def entity_open_def entity_close_def)

lemma escape_plain: "plain u \<Longrightarrow> escape_html u = u"
proof -
  assume "plain u"
  then have "CHR ''&'' \<notin> set u" "CHR ''<'' \<notin> set u" "CHR ''>'' \<notin> set u" by (auto simp: plain_def list_all_iff)
  then show ?thesis by (simp add: escape_html_def replace_char_id)
qed

lemma escape_append: "escape_html (u @ v) = escape_html u @ escape_html v"
  by (simp add: escape_html_def)

lemma escape_link:
  assumes "plain u" "plain t"
  shows "escape_html (''<a href='' @ quote @ u @ quote @ ''>'' @ t @ ''</a>'') = shaped quoted_open u quoted_close t"
proof -
  have "escape_html ''<a href='' = ''&lt;a href=''" "escape_html quote = quote" "escape_html ''>'' = ''&gt;''" "escape_html ''</a>'' = ''&lt;/a&gt;''"
    by (simp_all add: escape_html_def replace_char_def quote_def)
  then show ?thesis by (simp only: escape_append escape_plain [OF assms(1)] escape_plain [OF assms(2)]) (simp add: shape_defs)
qed

lemma lower_marks:
  "lower_char (CHR ''&'') = CHR ''&''" "lower_char (CHR ''l'') = CHR ''l''" "lower_char (CHR ''t'') = CHR ''t''" "lower_char (CHR '';'') = CHR '';''"
  "lower_char (CHR ''a'') = CHR ''a''" "lower_char (CHR ''/'') = CHR ''/''" "lower_char (CHR ''g'') = CHR ''g''" "lower_char (CHR ''q'') = CHR ''q''"
  "lower_char (CHR ''u'') = CHR ''u''" "lower_char (CHR ''o'') = CHR ''o''" "lower_char (CHR ''h'') = CHR ''h''" "lower_char (CHR ''r'') = CHR ''r''"
  "lower_char (CHR ''e'') = CHR ''e''" "lower_char (CHR ''f'') = CHR ''f''" "lower_char (CHR ''='') = CHR ''=''" "lower_char (CHR '' '') = CHR '' ''"
  "lower_char (CHR 34) = CHR 34" "lower_char (CHR ''b'') = CHR ''b''" "lower_char (CHR ''s'') = CHR ''s''" "lower_char (CHR ''i'') = CHR ''i''"
  "lower_char (CHR ''c'') = CHR ''c''" "lower_char (CHR ''p'') = CHR ''p''"
  by (simp_all add: lower_char_def)

lemma no_tag_in_link:
  assumes "plain u" "plain t" "(opn, cls) \<in> {(quoted_open, quoted_close), (entity_open, entity_close)}"
    "lower_char h \<notin> {CHR ''a'', CHR ''/'', CHR ''g'', CHR ''q''}"
  shows "find_first [CHR ''&'' # CHR ''l'' # CHR ''t'' # CHR '';'' # h # w] (shaped opn u cls t) = None"
proof -
  have h: "CHR ''a'' \<noteq> lower_char h" "CHR ''/'' \<noteq> lower_char h" using assms(4) by auto
  let ?ws = "[CHR ''&'' # CHR ''l'' # CHR ''t'' # CHR '';'' # h # w]"
  have e: "find_first ?ws ''&lt;/a&gt;'' = None" using h by (simp add: find_first_miss lower_marks)
  have t: "find_first ?ws (t @ ''&lt;/a&gt;'') = None" by (simp only: plain_skip [OF assms(2)] marked_words e option.map)
  show ?thesis using assms(3)
  proof (elim insertE emptyE)
    assume o: "(opn, cls) = (quoted_open, quoted_close)"
    have "find_first ?ws (quoted_close @ t @ ''&lt;/a&gt;'') = None"
      using t by (simp add: quoted_close_def quote_def find_first_miss lower_marks)
    then have "find_first ?ws (u @ quoted_close @ t @ ''&lt;/a&gt;'') = None" by (simp only: plain_skip [OF assms(1)] marked_words option.map)
    then show ?thesis using o h by (simp add: shaped_def quoted_open_def quote_def find_first_miss lower_marks)
  next
    assume o: "(opn, cls) = (entity_open, entity_close)"
    have "find_first ?ws (entity_close @ t @ ''&lt;/a&gt;'') = None"
      using t by (simp add: entity_close_def find_first_miss lower_marks)
    then have "find_first ?ws (u @ entity_close @ t @ ''&lt;/a&gt;'') = None" by (simp only: plain_skip [OF assms(1)] marked_words option.map)
    then show ?thesis using o h by (simp add: shaped_def entity_open_def find_first_miss lower_marks)
  qed
qed

lemma link_end_misses:
  assumes "plain t" shows "find_first link_opens (t @ ''&lt;/a&gt;'') = None" "find_first [''&lt;/a&gt;''] (t @ ''&lt;/a&gt;'') = Some (t, ''&lt;/a&gt;'', [])"
proof -
  have "find_first link_opens ''&lt;/a&gt;'' = None"
    by (simp add: link_opens_def quoted_open_def entity_open_def quote_def find_first_miss lower_marks) (simp add: find_first.simps)
  then show "find_first link_opens (t @ ''&lt;/a&gt;'') = None" by (simp only: plain_skip [OF assms] marked_words option.map)
  have "find_first [''&lt;/a&gt;''] ''&lt;/a&gt;'' = Some ([], ''&lt;/a&gt;'', [])" using find_first_here [of "''&lt;/a&gt;''" "[]"] by simp
  then show "find_first [''&lt;/a&gt;''] (t @ ''&lt;/a&gt;'') = Some (t, ''&lt;/a&gt;'', [])"
    by (simp only: plain_skip [OF assms] marked_words option.map split append_Nil2)
qed

lemma find_second: "\<not> starts_ci (w @ s) v \<Longrightarrow> find_first [v, w] (w @ s) = Some ([], w, s)"
  by (subst find_first.simps) simp

lemma check_link:
  assumes "plain u" "plain t"
  shows "check_links (shaped quoted_open u quoted_close t) =
    (if safe_scheme (trim u) then shaped quoted_open u quoted_close t else shaped entity_open ''#'' entity_close t)"
proof -
  let ?rest = "t @ ''&lt;/a&gt;''"
  have o: "find_first link_opens (quoted_open @ s) = Some ([], quoted_open, s)" for s
    unfolding link_opens_def by (rule find_second) (simp add: quoted_open_def quote_def entity_open_def lower_marks)
  have c: "find_first link_closes (quoted_close @ s) = Some ([], quoted_close, s)" for s
    unfolding link_closes_def by (rule find_second) (simp add: quoted_close_def quote_def entity_close_def lower_marks)
  have uc: "find_first link_closes (u @ quoted_close @ ?rest) = Some (u, quoted_close, ?rest)"
    by (simp only: plain_skip [OF assms(1)] marked_words c option.map split append_Nil2)
  have "[] \<notin> set link_opens" by (simp add: link_opens_def quoted_open_def entity_open_def)
  then have "check_links (shaped quoted_open u quoted_close t) =
      (if safe_scheme (trim u) then quoted_open @ u @ quoted_close else ''&lt;a href=&quot;#&quot;&gt;'') @ check_links ?rest"
    unfolding check_links_def shaped_def by (subst replace_between_step [OF o uc]) simp_all
  moreover have "check_links ?rest = ?rest"
    unfolding check_links_def by (subst replace_between.simps) (simp add: link_end_misses [OF assms(2)])
  ultimately show ?thesis by (simp add: shaped_def entity_open_def entity_close_def)
qed

lemma unescape_link:
  assumes "plain u" "plain t" "(opn, cls) \<in> {(quoted_open, quoted_close), (entity_open, entity_close)}" "tag = h # w"
    "lower_char h \<notin> {CHR ''a'', CHR ''/'', CHR ''g'', CHR ''q''}"
  shows "unescape_tag tag opening closing (shaped opn u cls t) = shaped opn u cls t"
  unfolding unescape_tag_def by (subst replace_between.simps) (simp add: assms(4) no_tag_in_link [OF assms(1-3,5)])

lemma find_first_absent: "marked ws \<Longrightarrow> list_all (\<lambda>c. c \<notin> {CHR ''&'', CHR 34}) s \<Longrightarrow> find_first ws s = None"
  using find_first_skip [of ws s "[]"] by simp

lemma replace_link:
  assumes "plain u" "plain t" "marked [opn]" "marked [cls]" "opn \<noteq> []" "cls \<noteq> []"
  shows "replace_links opn cls ''&lt;/a&gt;'' html_link (shaped opn u cls t) = html_link u t"
proof -
  have o: "find_first [opn] (shaped opn u cls t) = Some ([], opn, u @ cls @ t @ ''&lt;/a&gt;'')"
    unfolding shaped_def by (rule find_first_here [OF assms(5)])
  have c: "find_first [cls] (u @ cls @ t @ ''&lt;/a&gt;'') = Some (u, cls, t @ ''&lt;/a&gt;'')"
    by (simp only: plain_skip [OF assms(1,4)] find_first_here [OF assms(6)] option.map split append_Nil2)
  have "replace_links opn cls ''&lt;/a&gt;'' html_link (shaped opn u cls t) = [] @ html_link u t @ replace_links opn cls ''&lt;/a&gt;'' html_link []"
    by (rule replace_links_step [OF o c link_end_misses(2) [OF assms(2)] assms(5)])
  then show ?thesis using assms(3) by (simp add: replace_links.simps [of _ _ _ _ "[]"])
qed

lemma links_shown:
  assumes "plain u" "plain t"
  shows "renderedHtml (''<a href='' @ quote @ u @ quote @ ''>'' @ t @ ''</a>'') = html_link (if safe_scheme (trim u) then u else ''#'') t"
proof -
  have no_amp: "list_all (\<lambda>c. c \<notin> {CHR ''&'', CHR 34}) (html_link u t)" "CHR 10 \<notin> set (html_link u t)" if "plain u" for u
    using that assms(2) by (auto simp: html_link_def link_open_def link_attributes_def plain_def list_all_iff)
  have same: "replace_links quoted_open quoted_close ''&lt;/a&gt;'' html_link (html_link u t) = html_link u t" if "plain u" for u
    using find_first_absent [OF _ no_amp(1) [OF that]] by (simp add: replace_links.simps [of quoted_open])
  have other: "replace_links entity_open entity_close ''&lt;/a&gt;'' html_link (shaped quoted_open u quoted_close t) = shaped quoted_open u quoted_close t"
  proof -
    have e: "find_first [entity_open] (t @ ''&lt;/a&gt;'') = None"
      using plain_skip [OF assms(2), of "[entity_open]" "''&lt;/a&gt;''"] by (simp add: entity_open_def find_first_miss lower_marks)
    then have "find_first [entity_open] (quoted_close @ t @ ''&lt;/a&gt;'') = None"
      by (simp add: quoted_close_def entity_open_def quote_def find_first_miss lower_marks)
    then have "find_first [entity_open] (u @ quoted_close @ t @ ''&lt;/a&gt;'') = None" by (simp only: plain_skip [OF assms(1)] marked_words option.map)
    then have "find_first [entity_open] (shaped quoted_open u quoted_close t) = None"
      by (simp add: shaped_def quoted_open_def entity_open_def quote_def find_first_miss lower_marks)
    then show ?thesis by (simp add: replace_links.simps [of entity_open])
  qed
  have tags: "unescape_tag tag a b (shaped opn u cls t) = shaped opn u cls t"
    if "plain u" "(opn, cls) \<in> {(quoted_open, quoted_close), (entity_open, entity_close)}"
      "tag \<in> {''b'', ''strong'', ''i'', ''em'', ''code'', ''pre'', ''blockquote'', ''tg-spoiler''}" for tag a b opn cls u
    using that(3) by (elim insertE emptyE; simp add: unescape_link [OF that(1) assms(2) that(2) refl] lower_marks)
  have sharp: "plain ''#''" by (simp add: plain_def)
  have "''<a href='' @ quote @ u @ quote @ ''>'' @ t @ ''</a>'' \<noteq> []" by simp
  then show ?thesis
    unfolding renderedHtml_def Let_def escape_link [OF assms] check_link [OF assms]
    using tags [OF assms(1), of quoted_open quoted_close] tags [OF sharp, of entity_open entity_close]
    by (simp add: other replace_link [OF assms] replace_link [OF sharp assms(2)] same [OF sharp] replace_char_id no_amp(2) [OF assms(1)] no_amp(2) [OF sharp])
qed

text \<open>C22: a link in the text becomes a link of the preview with its address as typed when the scheme of the address is
  allowed, and a link to the top of the page otherwise.\<close>

theorem links_are_checked:
  assumes "plain u" "plain t"
  shows "renderedHtml (''<a href='' @ quote @ u @ quote @ ''>'' @ t @ ''</a>'') = html_link (if safe_scheme (trim u) then u else ''#'') t"
  by (rule links_shown [OF assms])

theorem links_are_checked_witness:
  "renderedHtml (''<a href='' @ quote @ ''javascript:f()'' @ quote @ ''>'' @ ''t'' @ ''</a>'') = html_link (if safe_scheme (trim ''javascript:f()'') then ''javascript:f()'' else ''#'') ''t''"
  by (rule links_are_checked) (simp_all add: plain_def)

text \<open>Single quotation marks are not escaped, although the address is written between them: an address may close its
  attribute and add a handler.\<close>

lemma quote_closes_attribute:
  assumes "plain code" "plain t" "code \<noteq> []" "\<not> is_ws (last code)"
  shows "renderedHtml (''<a href='' @ quote @ (''https:'' @ CHR 39 # '' onmouseover='' @ CHR 39 # code) @ quote @ ''>'' @ t @ ''</a>'')
    = link_open @ ''https:'' @ CHR 39 # '' onmouseover='' @ CHR 39 # code @ link_attributes @ t @ ''</a>''"
proof -
  let ?u = "''https:'' @ CHR 39 # '' onmouseover='' @ CHR 39 # code"
  have u: "plain ?u" using assms(1) by (simp add: plain_def)
  have "trim ?u = ?u" using assms(3,4) by (intro trim_id) (simp add: is_ws_def)
  then have "safe_scheme (trim ?u)" by (simp add: safe_scheme_def)
  then show ?thesis using links_shown [OF u assms(2)] by (simp add: html_link_def)
qed

section \<open>The buttons\<close>

text \<open>\<open>substring\<close> of a text between two places in order.\<close>

definition substring :: "nat \<Rightarrow> nat \<Rightarrow> string \<Rightarrow> string" where
  "substring a b s = take (b - a) (drop a s)"

text \<open>The new text and the selection that is set afterwards; the text area is there, since the buttons are disabled without
  it.\<close>

definition applyTag :: "string \<Rightarrow> string \<Rightarrow> string \<Rightarrow> nat \<Rightarrow> nat \<Rightarrow> string \<Rightarrow> string \<times> nat \<times> nat" where
  "applyTag openTag closeTag defaultPlaceholder st en value =
     (if st \<noteq> en
      then let selected = substring st en value
           in (substring 0 st value @ (openTag @ selected @ closeTag) @ drop en value, st + length openTag, st + length openTag + length selected)
      else (substring 0 st value @ (openTag @ defaultPlaceholder @ closeTag) @ drop en value,
            st + length openTag, st + length openTag + length defaultPlaceholder))"

text \<open>The draft of a link is its address and its text; the places are those of the text area, or the end without one.\<close>

definition commitLink :: "string \<Rightarrow> string \<Rightarrow> (nat \<times> nat) option \<Rightarrow> string \<Rightarrow> string option" where
  "commitLink draft_url draft_text el value =
     (let url = trim draft_url
      in if url = [] then None
         else let (st, en) = (case el of None \<Rightarrow> (length value, length value) | Some p \<Rightarrow> p);
                  selected = or_str (trim draft_text) (or_str (substring st en value) url)
              in Some (substring 0 st value @ (''<a href='' @ quote @ replace_char (CHR 34) ''&quot;'' url @ quote @ ''>'' @ selected @ ''</a>'') @ drop en value))"

definition handleInsertEmoji :: "string \<Rightarrow> (nat \<times> nat) option \<Rightarrow> string \<Rightarrow> string" where
  "handleInsertEmoji emoji el value =
     (case el of None \<Rightarrow> value @ emoji | Some (st, en) \<Rightarrow> substring 0 st value @ emoji @ drop en value)"

definition filteredEmojis :: "string list list \<Rightarrow> string \<Rightarrow> nat \<Rightarrow> string list" where
  "filteredEmojis categories emojiSearch selected =
     (if trim emojiSearch = [] then (if selected < length categories then categories ! selected else [])
      else filter (\<lambda>em. str_includes em (toLowerCase emojiSearch)) (concat categories))"

text \<open>What was selected is selected again, between its new tags, and nothing else of the text changes.\<close>

theorem tag_keeps_selection:
  assumes "st \<le> en" "en \<le> length value" "applyTag opn cls ph st en value = (t, a, b)"
  shows "substring a b t = (if st = en then ph else substring st en value) \<and> t = take st value @ opn @ substring a b t @ cls @ drop en value"
  using assms by (auto simp: applyTag_def Let_def substring_def min_absorb2 split: if_splits)

text \<open>A link that is inserted into an empty text with an address and a text of plain characters is shown by the preview.\<close>

theorem inserted_link_is_shown:
  assumes "plain url" "plain t" "trim url \<noteq> []" "trim t \<noteq> []"
  shows "map_option renderedHtml (commitLink url t None []) = Some (html_link (if safe_scheme (trim url) then trim url else ''#'') (trim t))"
proof -
  have sub: "list_all P (trim s)" if "list_all P s" for P s
    using that by (auto simp: trim_def list_all_iff dest!: set_dropWhileD)
  have u: "plain (trim url)" and v: "plain (trim t)" using assms(1,2) sub by (auto simp: plain_def)
  have "replace_char (CHR 34) ''&quot;'' (trim url) = trim url"
    by (rule replace_char_id) (use u in \<open>auto simp: plain_def list_all_iff\<close>)
  then show ?thesis using assms(3,4) links_shown [OF u v] by (simp add: commitLink_def Let_def or_str_def substring_def)
qed

text \<open>The search for emojis compares the text with the emojis themselves, so a word finds none.\<close>

theorem emoji_words_find_nothing:
  assumes "trim q \<noteq> []" "list_all (\<lambda>em. set em \<inter> set (toLowerCase q) = {}) (concat categories)"
  shows "filteredEmojis categories q k = []"
proof -
  have "toLowerCase q \<noteq> []" using assms(1) by (cases q) (auto simp: toLowerCase_def trim_def)
  then obtain c where c: "c \<in> set (toLowerCase q)" by (cases "toLowerCase q") auto
  have "\<not> str_includes em (toLowerCase q)" if "em \<in> set (concat categories)" for em
  proof
    assume "str_includes em (toLowerCase q)"
    then have "c \<in> set em" using c by (auto simp: str_includes_iff)
    moreover have "set em \<inter> set (toLowerCase q) = {}" using assms(2) that unfolding list_all_iff by blast
    ultimately show False using c by blast
  qed
  then show ?thesis using assms(1) by (simp add: filteredEmojis_def filter_empty_conv)
qed

section \<open>The dialog\<close>

text \<open>\<open>tm_saves\<close> are all texts given to \<open>onSave\<close>.  While a save is under way the dialog cannot be closed and the editor
  is disabled.\<close>

record text_modal =
  tm_open :: bool
  tm_value :: string
  tm_draft :: string
  tm_saving :: bool
  tm_error :: "string option"
  tm_saves :: "string list"

definition sync_draft :: "text_modal \<Rightarrow> text_modal" where
  "sync_draft p = (if tm_open p then p\<lparr>tm_draft := tm_value p, tm_error := None\<rparr> else p)"

definition handleSaveText :: "text_modal \<Rightarrow> text_modal" where
  "handleSaveText p = p\<lparr>tm_saving := True, tm_error := None, tm_saves := tm_saves p @ [tm_draft p]\<rparr>"

text \<open>\<open>None\<close> is a success; an error has the server's detail and its own message, each possibly missing.\<close>

definition save_text_answered :: "(string option \<times> string option) option \<Rightarrow> text_modal \<Rightarrow> text_modal" where
  "save_text_answered err p =
     (let p1 = p\<lparr>tm_saving := False\<rparr>
      in case err of None \<Rightarrow> p1\<lparr>tm_open := False\<rparr>
         | Some (detail, message) \<Rightarrow> p1\<lparr>tm_error := opt_or detail (opt_or message (Some ''Gagal menyimpan pesan''))\<rparr>)"

definition max_text :: nat where "max_text = 4096"

inductive text_step :: "text_modal \<Rightarrow> unit \<Rightarrow> text_modal \<Rightarrow> bool" where
  opens: "\<not> tm_open p \<Longrightarrow> \<not> tm_saving p \<Longrightarrow> text_step p () (sync_draft (p\<lparr>tm_open := True, tm_value := v\<rparr>))"
| edits: "tm_open p \<Longrightarrow> \<not> tm_saving p \<Longrightarrow> text_step p () (p\<lparr>tm_draft := v\<rparr>)"
| closes: "tm_open p \<Longrightarrow> \<not> tm_saving p \<Longrightarrow> text_step p () (p\<lparr>tm_open := False\<rparr>)"
| saves: "tm_open p \<Longrightarrow> \<not> tm_saving p \<Longrightarrow> length (tm_draft p) \<le> max_text \<Longrightarrow> text_step p () (handleSaveText p)"
| saved: "tm_saving p \<Longrightarrow> text_step p () (save_text_answered err p)"

definition text_inv :: "text_modal \<Rightarrow> bool" where
  "text_inv p \<longleftrightarrow> list_all (\<lambda>t. length t \<le> max_text) (tm_saves p) \<and> (tm_saving p \<longrightarrow> tm_open p \<and> tm_saves p \<noteq> [] \<and> last (tm_saves p) = tm_draft p)"

definition closed_modal :: text_modal where
  "closed_modal = \<lparr>tm_open = False, tm_value = [], tm_draft = [], tm_saving = False, tm_error = None, tm_saves = []\<rparr>"

interpretation txm: machine "\<lambda>p. p = closed_modal" text_step text_inv
proof
  show "text_inv p" if "p = closed_modal" for p using that by (simp add: text_inv_def closed_modal_def)
  show "text_inv q" if "text_inv p" "text_step p l q" for p l q
    using that(2,1)
    by (induction rule: text_step.induct)
      (auto simp: text_inv_def sync_draft_def handleSaveText_def save_text_answered_def Let_def split: option.splits)
qed

theorem saved_text_is_shown:
  assumes "reach (\<lambda>p. p = closed_modal) text_step p"
  shows "list_all (\<lambda>t. length t \<le> 4096) (tm_saves p) \<and> (tm_saving p \<longrightarrow> tm_open p \<and> last (tm_saves p) = tm_draft p)"
  using txm.reach_inv [OF assms] by (simp add: text_inv_def max_text_def)

end
