(* ===== verification/AutoReply.thy ===== *)
theory AutoReply
  imports AccountSelector AccountHooks Paging
begin

text \<open>
  The auto-reply page, \<open>src/frontend/src/app/(dashboard)/auto-reply/page.tsx\<close>: the search, the selection over pages, the
  replies of single accounts and of all selected ones, over the requests of \<open>AccountHooks\<close>.  The dialog for the text is
  the one of \<open>TextEditor\<close>: it closes itself after a success and stays with the error after a failure.
\<close>

record reply_account = Account +
  ra_enabled :: "bool option"
  ra_text :: "string option"

text \<open>\<open>ar_update\<close> is the save of the dialog under way; \<open>ar_updates\<close> and \<open>ar_bulks\<close> are all requests sent.\<close>

type_synonym reply_update = "string \<times> bool \<times> string option"
type_synonym reply_bulk = "string list \<times> bool \<times> string option"

record reply_page =
  ar_raw :: "reply_account list option"
  ar_search :: string
  ar_page :: nat
  ar_selected :: "string list"
  ar_bulkText :: string
  ar_bulkEnabled :: bool
  ar_bulk :: "reply_bulk option"
  ar_showBulk :: bool
  ar_bulkMsg :: "(bool \<times> string) option"
  ar_editing :: "reply_account option"
  ar_modalEnabled :: bool
  ar_update :: "reply_update option"
  ar_updates :: "reply_update list"
  ar_bulks :: "reply_bulk list"

definition new_reply_page :: reply_page where
  "new_reply_page = \<lparr>ar_raw = None, ar_search = [], ar_page = 1, ar_selected = [], ar_bulkText = [], ar_bulkEnabled = True, ar_bulk = None,
     ar_showBulk = False, ar_bulkMsg = None, ar_editing = None, ar_modalEnabled = False, ar_update = None, ar_updates = [], ar_bulks = []\<rparr>"

definition ITEMS_PER_PAGE :: nat where "ITEMS_PER_PAGE = 10"

definition reply_accounts :: "reply_page \<Rightarrow> reply_account list" where
  "reply_accounts p = (case ar_raw p of None \<Rightarrow> [] | Some l \<Rightarrow> filter (\<lambda>a. ac_is_active a \<and> \<not> ac_for_sale a) l)"

definition reply_matches :: "string \<Rightarrow> reply_account \<Rightarrow> bool" where
  "reply_matches q a \<longleftrightarrow> str_includes (toLowerCase (or_blank (ac_first_name a))) q \<or> str_includes (toLowerCase (or_blank (ac_last_name a))) q
     \<or> str_includes (toLowerCase (or_blank (ac_username a))) q \<or> str_includes (or_blank (ac_phone a)) q"

definition filtered_replies :: "reply_page \<Rightarrow> reply_account list" where
  "filtered_replies p =
     (if trim (ar_search p) = [] then reply_accounts p else filter (reply_matches (toLowerCase (ar_search p))) (reply_accounts p))"

definition paginatedFiltered :: "reply_page \<Rightarrow> reply_account list" where
  "paginatedFiltered p = page_slice ITEMS_PER_PAGE (ar_page p) (filtered_replies p)"

definition totalActive :: "reply_page \<Rightarrow> nat" where
  "totalActive p = length (filter (\<lambda>a. ra_enabled a = Some True) (reply_accounts p))"

definition reply_search :: "string \<Rightarrow> reply_page \<Rightarrow> reply_page" where
  "reply_search v p = (if v = ar_search p then p else p\<lparr>ar_search := v, ar_page := 1\<rparr>)"

definition handleOpenEditor :: "reply_account \<Rightarrow> reply_page \<Rightarrow> reply_page" where
  "handleOpenEditor account p = p\<lparr>ar_editing := Some account, ar_modalEnabled := (ra_enabled account = Some True)\<rparr>"

definition handleSaveAccountMessage :: "string \<Rightarrow> reply_page \<Rightarrow> reply_page" where
  "handleSaveAccountMessage newText p =
     (case ar_editing p of
        None \<Rightarrow> p
      | Some a \<Rightarrow>
          let u = (ac_id a, ar_modalEnabled p, text_or_none (trim newText))
          in p\<lparr>ar_update := Some u, ar_updates := ar_updates p @ [u]\<rparr>)"

definition reply_saved :: "bool \<Rightarrow> reply_page \<Rightarrow> reply_page" where
  "reply_saved succeeded p = p\<lparr>ar_update := None, ar_editing := (if succeeded then None else ar_editing p)\<rparr>"

definition handleQuickToggle :: "reply_account \<Rightarrow> reply_page \<Rightarrow> reply_page" where
  "handleQuickToggle account p =
     p\<lparr>ar_updates := ar_updates p @ [(ac_id account, ra_enabled account \<noteq> Some True, opt_or (ra_text account) None)]\<rparr>"

definition toggleSelect :: "string \<Rightarrow> reply_page \<Rightarrow> reply_page" where
  "toggleSelect i p = p\<lparr>ar_selected := (if i \<in> set (ar_selected p) then js_delete (ar_selected p) i else js_add (ar_selected p) i)\<rparr>"

definition toggleSelectAll :: "reply_page \<Rightarrow> reply_page" where
  "toggleSelectAll p =
     (let pageIds = map ac_id (paginatedFiltered p)
      in if list_all (\<lambda>i. i \<in> set (ar_selected p)) pageIds then p\<lparr>ar_selected := foldl js_delete (ar_selected p) pageIds\<rparr>
         else p\<lparr>ar_selected := foldl js_add (ar_selected p) pageIds\<rparr>)"

definition handleBulkApply :: "reply_page \<Rightarrow> reply_page" where
  "handleBulkApply p =
     (if ar_selected p = [] then p
      else let b = (ar_selected p, ar_bulkEnabled p, text_or_none (trim (ar_bulkText p)))
           in p\<lparr>ar_bulk := Some b, ar_bulkMsg := None, ar_bulks := ar_bulks p @ [b]\<rparr>)"

text \<open>The answer counts the accounts that were updated and all of them; \<open>None\<close> is a failure.\<close>

definition bulk_answered :: "(nat \<times> nat) option \<Rightarrow> reply_page \<Rightarrow> reply_page" where
  "bulk_answered answer p =
     (let p1 = p\<lparr>ar_bulk := None\<rparr>
      in case answer of
           Some (updated, total_accounts) \<Rightarrow>
             p1\<lparr>ar_bulkMsg := Some (True, ''Updated '' @ nat_str updated @ '' of '' @ nat_str total_accounts @ '' accounts''), ar_selected := []\<rparr>
         | None \<Rightarrow> p1\<lparr>ar_bulkMsg := Some (False, ''Bulk update failed'')\<rparr>)"

definition bulk_request :: "reply_bulk \<Rightarrow> mutation" where
  "bulk_request b = (case b of (ids, enabled, txt) \<Rightarrow> useBulkUpdateAutoReply ids enabled txt)"

definition update_request :: "reply_update \<Rightarrow> mutation" where
  "update_request u = (case u of (i, enabled, txt) \<Rightarrow> useUpdateAutoReply i enabled txt)"

definition no_editor :: "reply_page \<Rightarrow> bool" where "no_editor p \<longleftrightarrow> ar_editing p = None \<and> \<not> ar_showBulk p"

inductive reply_step :: "reply_page \<Rightarrow> unit \<Rightarrow> reply_page \<Rightarrow> bool" where
  accounts_load: "reply_step p () (p\<lparr>ar_raw := raw\<rparr>)"
| searches: "no_editor p \<Longrightarrow> reply_step p () (reply_search v p)"
| turns_page: "no_editor p \<Longrightarrow> k \<in> {1..page_count ITEMS_PER_PAGE (length (filtered_replies p))} \<Longrightarrow> reply_step p () (p\<lparr>ar_page := k\<rparr>)"
| opens_editor: "no_editor p \<Longrightarrow> a \<in> set (paginatedFiltered p) \<Longrightarrow> reply_step p () (handleOpenEditor a p)"
| switches: "ar_editing p \<noteq> None \<Longrightarrow> reply_step p () (p\<lparr>ar_modalEnabled := b\<rparr>)"
| saves_reply: "ar_editing p \<noteq> None \<Longrightarrow> ar_update p = None \<Longrightarrow> reply_step p () (handleSaveAccountMessage v p)"
| reply_done: "ar_update p \<noteq> None \<Longrightarrow> reply_step p () (reply_saved b p)"
| closes_editor: "ar_update p = None \<Longrightarrow> reply_step p () (p\<lparr>ar_editing := None\<rparr>)"
| quick_toggles: "no_editor p \<Longrightarrow> a \<in> set (paginatedFiltered p) \<Longrightarrow> reply_step p () (handleQuickToggle a p)"
| selects: "no_editor p \<Longrightarrow> a \<in> set (paginatedFiltered p) \<Longrightarrow> reply_step p () (toggleSelect (ac_id a) p)"
| selects_all: "no_editor p \<Longrightarrow> reply_step p () (toggleSelectAll p)"
| clears: "no_editor p \<Longrightarrow> reply_step p () (p\<lparr>ar_selected := []\<rparr>)"
| opens_bulk: "no_editor p \<Longrightarrow> ar_selected p \<noteq> [] \<Longrightarrow> reply_step p () (p\<lparr>ar_showBulk := True\<rparr>)"
| sets_template: "ar_showBulk p \<Longrightarrow> reply_step p () (p\<lparr>ar_bulkText := v, ar_showBulk := False\<rparr>)"
| closes_bulk: "reply_step p () (p\<lparr>ar_showBulk := False\<rparr>)"
| switches_bulk: "no_editor p \<Longrightarrow> reply_step p () (p\<lparr>ar_bulkEnabled := b\<rparr>)"
| applies: "no_editor p \<Longrightarrow> ar_bulk p = None \<Longrightarrow> reply_step p () (handleBulkApply p)"
| applied: "ar_bulk p \<noteq> None \<Longrightarrow> reply_step p () (bulk_answered answer p)"
| message_fades: "reply_step p () (p\<lparr>ar_bulkMsg := None\<rparr>)"

section \<open>Properties\<close>

text \<open>The selection: one click on the box of the header selects the whole page or, when it is selected already, takes it
  out; other pages are not touched.\<close>

theorem select_all_page:
  "set (ar_selected (toggleSelectAll p)) =
     (if ac_id ` set (paginatedFiltered p) \<subseteq> set (ar_selected p) then set (ar_selected p) - ac_id ` set (paginatedFiltered p)
      else set (ar_selected p) \<union> ac_id ` set (paginatedFiltered p))"
  by (auto simp: toggleSelectAll_def Let_def list_all_iff)

definition bulk_ok :: "reply_bulk \<Rightarrow> bool" where
  "bulk_ok b = (case b of (ids, _, txt) \<Rightarrow> ids \<noteq> [] \<and> distinct ids \<and> (case txt of None \<Rightarrow> True | Some t \<Rightarrow> t \<noteq> [] \<and> trim t = t))"

definition update_ok :: "reply_update \<Rightarrow> bool" where
  "update_ok u = (case u of (_, _, txt) \<Rightarrow> txt \<noteq> Some [])"

definition reply_inv :: "reply_page \<Rightarrow> bool" where
  "reply_inv p \<longleftrightarrow> distinct (ar_selected p) \<and> list_all bulk_ok (ar_bulks p) \<and> list_all update_ok (ar_updates p) \<and> 1 \<le> ar_page p
     \<and> (ar_update p \<noteq> None \<longrightarrow> ar_editing p \<noteq> None)"

interpretation rpm: machine "\<lambda>p. p = new_reply_page" reply_step reply_inv
proof
  show "reply_inv p" if "p = new_reply_page" for p using that by (simp add: reply_inv_def new_reply_page_def)
  show "reply_inv q" if "reply_inv p" "reply_step p l q" for p l q
    using that(2,1)
  proof (induction rule: reply_step.induct)
    case (quick_toggles p a)
    have "opt_or t None \<noteq> Some []" for t by (cases t) auto
    then show ?case using quick_toggles by (simp add: reply_inv_def handleQuickToggle_def update_ok_def)
  qed (auto simp: reply_inv_def reply_search_def handleOpenEditor_def handleSaveAccountMessage_def reply_saved_def toggleSelect_def toggleSelectAll_def
      handleBulkApply_def bulk_answered_def bulk_ok_def update_ok_def text_or_none_def Let_def distinct_foldl_delete split: option.splits)
qed

text \<open>Every change of several accounts names at least one and none twice, and its text, if any, is trimmed and not empty.\<close>

theorem bulk_changes_sound:
  assumes "reach (\<lambda>p. p = new_reply_page) reply_step p"
  shows "list_all bulk_ok (ar_bulks p) \<and> list_all update_ok (ar_updates p)"
  using rpm.reach_inv [OF assms] by (simp add: reply_inv_def)

text \<open>Switching the replies of selected accounts without a template sends an empty text, which the backend stores: the
  messages of all these accounts are lost.\<close>

theorem bulk_switch_erases_texts:
  assumes "ar_selected p \<noteq> []" "trim (ar_bulkText p) = []"
  shows "map bulk_request (ar_bulks (handleBulkApply p)) =
    map bulk_request (ar_bulks p) @ [mutate ''POST'' ''/accounts/auto-reply/bulk''
       (Some (JObj [(''account_ids'', str_list (ar_selected p)), (''auto_reply_enabled'', JBool (ar_bulkEnabled p)), (''auto_reply_text'', JNull)]))
       (map skey [[''accounts'']])]"
  using assms by (simp add: handleBulkApply_def bulk_request_def text_or_none_def useBulkUpdateAutoReply_def text_or_null_def Let_def)

text \<open>The selection is not bound to the accounts that are there: an account that was signed out or put up for sale stays
  selected and is sent.\<close>

theorem bulk_keeps_gone_accounts:
  assumes "i \<in> set (ar_selected p)"
  shows "\<exists>b\<in>set (ar_bulks (handleBulkApply (p\<lparr>ar_raw := Some []\<rparr>))). i \<in> set (fst b)"
  using assms by (auto simp: handleBulkApply_def Let_def)

text \<open>What is selected while a change of several accounts is under way is lost with its answer.\<close>

theorem late_bulk_clears_selection: "ar_selected (bulk_answered (Some n) p) = []"
  by (simp add: bulk_answered_def Let_def split: prod.split)

text \<open>A search is empty when it is blank, but spaces around a word are searched for: a leading space finds no account
  whose names and number do not contain it.\<close>

theorem spaces_are_searched:
  assumes "trim v \<noteq> []" "CHR '' '' \<in> set v"
    "list_all (\<lambda>a. CHR '' '' \<notin> set (or_blank (ac_first_name a) @ or_blank (ac_last_name a) @ or_blank (ac_username a) @ or_blank (ac_phone a))) (reply_accounts p)"
  shows "filtered_replies (p\<lparr>ar_search := v\<rparr>) = []"
proof -
  have "lower_char (CHR '' '') = CHR '' ''" by (simp add: lower_char_def)
  then have sp: "CHR '' '' \<in> set (toLowerCase v)" using assms(2) by (force simp: toLowerCase_def)
  have low: "lower_char c = CHR '' '' \<Longrightarrow> c = CHR '' ''" for c by (rule lower_mark) simp_all
  have "\<not> str_includes (toLowerCase s) (toLowerCase v) \<and> \<not> str_includes s (toLowerCase v)" if "CHR '' '' \<notin> set s" for s
  proof -
    have "CHR '' '' \<notin> set (toLowerCase s)" using that low by (force simp: toLowerCase_def)
    then show ?thesis using sp that by (auto simp: str_includes_iff)
  qed
  then have "list_all (\<lambda>a. \<not> reply_matches (toLowerCase v) a) (reply_accounts p)"
    using assms(3) by (auto simp: list_all_iff reply_matches_def)
  then show ?thesis using assms(1) by (auto simp: filtered_replies_def reply_accounts_def filter_empty_conv list_all_iff)
qed

end
