(* ===== verification/BroadcastLists.thy ===== *)
theory BroadcastLists
  imports AutoJoin AccountSelector BroadcastHooks TextEditor
begin

text \<open>
  The lists of groups and of texts for broadcasts: \<open>broadcast/group-lists/page.tsx\<close> and \<open>broadcast/text-lists/page.tsx\<close>
  under \<open>src/frontend/src/app/(dashboard)\<close>, over the requests of \<open>BroadcastHooks\<close>, the expressions of \<open>AutoJoin\<close> and
  the dialog of \<open>TextEditor\<close>.  Every edit sends the whole list, made from the one that was fetched last.
\<close>

section \<open>parseBulkInput\<close>

datatype item_type = Username | Link | GroupId

record list_item =
  li_type :: item_type
  li_value :: string

definition bulk_url_re :: regex where
  "bulk_url_re = seqs [Opt scheme_re, iword ''t.me/'', Opt (iword ''joinchat/''), Plus url_char]"

definition trailing :: "char \<Rightarrow> bool" where
  "trailing c \<longleftrightarrow> c \<in> set '').,;:!?]''"

definition strip_end :: "string \<Rightarrow> string" where
  "strip_end s = rev (dropWhile trailing (rev s))"

definition host_re :: regex where "host_re = Seq scheme_re (iword ''t.me'')"

definition lower_host :: "string \<Rightarrow> string" where
  "lower_host s = (case steps host_re (s, []) of [] \<Rightarrow> s | (t, _) # _ \<Rightarrow> toLowerCase (consumed s t) @ t)"

definition clean_link :: "string \<Rightarrow> string" where
  "clean_link raw = lower_host (with_scheme (strip_end raw))"

text \<open>The items and the keys that were seen.\<close>

type_synonym bulk_state = "list_item list \<times> string list"

definition push_item :: "string \<Rightarrow> list_item \<Rightarrow> bulk_state \<Rightarrow> bulk_state" where
  "push_item key i st = (if key \<in> set (snd st) then st else (fst st @ [i], snd st @ [key]))"

definition addLink :: "string \<Rightarrow> bulk_state \<Rightarrow> bulk_state" where
  "addLink raw = push_item (clean_link raw) \<lparr>li_type = Link, li_value = clean_link raw\<rparr>"

definition addUsername :: "string \<Rightarrow> bulk_state \<Rightarrow> bulk_state" where
  "addUsername name = (let bare = drop_at name in push_item (''@'' @ toLowerCase bare) \<lparr>li_type = Username, li_value = ''@'' @ bare\<rparr>)"

definition bulk_line :: "bulk_state \<Rightarrow> string \<Rightarrow> bulk_state" where
  "bulk_line st line =
     (let trimmed = trim line; urls = match_all bulk_url_re trimmed; ats = match_all at_re trimmed
      in if trimmed = [] then st
         else if urls \<noteq> [] then fold addLink urls st
         else if ats \<noteq> [] then fold addUsername ats st
         else if VALID_USERNAME trimmed then addUsername trimmed st else st)"

definition parseBulkInput :: "string \<Rightarrow> list_item list" where
  "parseBulkInput txt = fst (foldl bulk_line ([], []) (split_on (CHR 10) txt))"

section \<open>What is read\<close>

definition item_key :: "list_item \<Rightarrow> string" where
  "item_key i = (if li_type i = Link then li_value i else toLowerCase (li_value i))"

definition read_ok :: "list_item \<Rightarrow> bool" where
  "read_ok i \<longleftrightarrow> (li_type i = Link \<and> is_link (li_value i)) \<or> (li_type i = Username \<and> is_mention (li_value i))"

definition bulk_state_ok :: "bulk_state \<Rightarrow> bool" where
  "bulk_state_ok st \<longleftrightarrow> snd st = map item_key (fst st) \<and> distinct (snd st) \<and> list_all read_ok (fst st)"

lemma bulk_state_push: "bulk_state_ok st \<Longrightarrow> read_ok i \<Longrightarrow> key = item_key i \<Longrightarrow> bulk_state_ok (push_item key i st)"
  by (auto simp: bulk_state_ok_def push_item_def)

lemma bulk_url_over: "over (\<lambda>c. \<not> is_ws c) bulk_url_re"
proof -
  have "over (\<lambda>c. \<not> is_ws c) url_re" by (rule url_over)
  then show ?thesis by (simp add: bulk_url_re_def url_re_def Opt_def)
qed

lemma lower_host_chars:
  "lower_char CHR ''h'' = CHR ''h''" "lower_char CHR ''t'' = CHR ''t''" "lower_char CHR ''p'' = CHR ''p''"
  "lower_char CHR ''s'' = CHR ''s''" "lower_char CHR '':'' = CHR '':''" "lower_char CHR ''/'' = CHR ''/''"
  "lower_char CHR ''.'' = CHR ''.''" "lower_char CHR ''m'' = CHR ''m''" "lower_char CHR ''e'' = CHR ''e''"
  by (simp_all add: lower_char_def)

lemma iword_lower: "(t, cs') \<in> set (steps (iword w) (s, cs)) \<Longrightarrow> \<exists>u. s = u @ t \<and> toLowerCase u = toLowerCase w"
  by (rule exI [of _ "take (length w) s"]) (simp add: steps_iword split: if_splits)

lemma scheme_lower:
  assumes "(t, cs) \<in> set (steps scheme_re (s, []))"
  shows "\<exists>w. s = w @ t \<and> toLowerCase w \<in> {''http://'', ''https://''}"
proof -
  let ?r = "Seq (Maybe (\<lambda>c. lower_char c = CHR ''s'')) (Txt ''://'')"
  have "(t, cs) \<in> set (steps (Seq (iword ''http'') ?r) (s, []))" using assms by (simp add: scheme_re_def)
  then obtain v d where v: "(v, d) \<in> set (steps (iword ''http'') (s, []))" "(t, cs) \<in> set (steps ?r (v, d))"
    by (rule steps_SeqE)
  obtain u where u: "s = u @ v" "toLowerCase u = toLowerCase ''http''" using iword_lower [OF v(1)] by blast
  have "\<exists>x. v = x @ t \<and> toLowerCase x \<in> {''://'', ''s://''}"
    using v(2)
    by (cases v) (auto simp: startsWith_iff toLowerCase_def lower_host_chars Cons_eq_append_conv split: if_splits)
  then show ?thesis using u by (auto simp: toLowerCase_def lower_host_chars)
qed

lemma host_lower:
  assumes "(t, cs) \<in> set (steps host_re (s, []))"
  shows "\<exists>w. s = w @ t \<and> toLowerCase w \<in> {''http://t.me'', ''https://t.me''}"
proof -
  obtain v d where v: "(v, d) \<in> set (steps scheme_re (s, []))" "(t, cs) \<in> set (steps (iword ''t.me'') (v, d))"
    using assms unfolding host_re_def by (rule steps_SeqE)
  then show ?thesis using scheme_lower [OF v(1)] iword_lower [OF v(2)] by (auto simp: toLowerCase_def lower_host_chars)
qed

lemma https_links: "steps scheme_re (''http://t.me'' @ t, []) \<noteq> []" "steps scheme_re (''https://t.me'' @ t, []) \<noteq> []"
  by (simp_all add: scheme_re_def steps_iword toLowerCase_def lower_host_chars)

lemma consumed_append [simp]: "consumed (w @ t) t = w"
  by (simp add: consumed_def)

lemma lower_host_link: "is_link s \<Longrightarrow> is_link (lower_host s)"
proof (cases "steps host_re (s, [])")
  case (Cons x xs)
  assume s: "is_link s"
  obtain t cs where x: "x = (t, cs)" by (cases x)
  obtain w where w: "s = w @ t" "toLowerCase w \<in> {''http://t.me'', ''https://t.me''}" using host_lower [of t cs s] Cons x by auto
  moreover have "lower_host s = toLowerCase w @ t" using Cons x w(1) by (simp add: lower_host_def)
  moreover have "list_all (\<lambda>c. \<not> is_ws c) t" using s w(1) by (simp add: is_link_def)
  moreover have "list_all (\<lambda>c. \<not> is_ws c) ''http://t.me''" "list_all (\<lambda>c. \<not> is_ws c) ''https://t.me''" by (simp_all add: is_ws_def)
  ultimately show ?thesis using https_links [of t] by (auto simp: is_link_def)
qed (simp add: lower_host_def)

lemma strip_end_chars: "set (strip_end s) \<subseteq> set s"
  using set_dropWhileD [of _ trailing "rev s"] by (auto simp: strip_end_def)

lemma clean_link_ok: "m \<in> set (match_all bulk_url_re s) \<Longrightarrow> is_link (clean_link m)"
proof -
  assume "m \<in> set (match_all bulk_url_re s)"
  then have "list_all (\<lambda>c. \<not> is_ws c) (strip_end m)"
    using match_all_over [OF bulk_url_over] strip_end_chars [of m] by (auto simp: list_all_iff)
  then have "is_link (with_scheme (strip_end m))" using https_scheme by (auto simp: is_link_def with_scheme_def is_ws_def)
  then show ?thesis by (simp add: clean_link_def lower_host_link)
qed

lemma bulk_link: "bulk_state_ok st \<Longrightarrow> is_link (clean_link m) \<Longrightarrow> bulk_state_ok (addLink m st)"
  unfolding addLink_def by (rule bulk_state_push) (auto simp: read_ok_def item_key_def)

lemma drop_at_at [simp]: "drop_at (CHR ''@'' # u) = u"
  by (simp add: drop_at_def)

lemma valid_no_at: "VALID_USERNAME u \<Longrightarrow> drop_at u = u"
proof (cases u)
  case (Cons c t)
  assume "VALID_USERNAME u"
  then have "c \<noteq> CHR ''@''" using Cons by (auto simp: is_alpha_def)
  then show ?thesis using Cons unfolding drop_at_def by (auto split: char.splits bool.splits)
qed simp

lemma bulk_username: "bulk_state_ok st \<Longrightarrow> VALID_USERNAME (drop_at m) \<Longrightarrow> bulk_state_ok (addUsername m st)"
  unfolding addUsername_def Let_def
  by (rule bulk_state_push) (auto simp: read_ok_def is_mention_def item_key_def toLowerCase_def lower_char_def)

lemma fold_keeps: "Q st \<Longrightarrow> \<forall>m\<in>set ms. P m \<Longrightarrow> (\<And>m s. P m \<Longrightarrow> Q s \<Longrightarrow> Q (f m s)) \<Longrightarrow> Q (fold f ms st)"
  by (induction ms arbitrary: st) simp_all

lemma bulk_links: "bulk_state_ok st \<Longrightarrow> \<forall>m\<in>set ms. is_link (clean_link m) \<Longrightarrow> bulk_state_ok (fold addLink ms st)"
  by (erule fold_keeps [where Q = bulk_state_ok and P = "\<lambda>m. is_link (clean_link m)"]) (auto intro: bulk_link)

lemma bulk_mentions: "bulk_state_ok st \<Longrightarrow> \<forall>m\<in>set ms. is_mention m \<Longrightarrow> bulk_state_ok (fold addUsername ms st)"
  by (erule fold_keeps [where Q = bulk_state_ok and P = is_mention]) (auto simp: is_mention_def bulk_username)

lemma bulk_line_ok: "bulk_state_ok st \<Longrightarrow> bulk_state_ok (bulk_line st l)"
  using clean_link_ok at_nonempty
  by (auto simp: bulk_line_def Let_def valid_no_at intro!: bulk_links bulk_mentions bulk_username)

lemma bulk_lines_ok: "bulk_state_ok st \<Longrightarrow> bulk_state_ok (foldl bulk_line st ls)"
  by (induction ls arbitrary: st) (simp_all add: bulk_line_ok)

lemma bulk_items: "list_all read_ok (parseBulkInput t) \<and> distinct (map item_key (parseBulkInput t))"
proof -
  have "bulk_state_ok ([], [])" by (simp add: bulk_state_ok_def)
  then have "bulk_state_ok (foldl bulk_line ([], []) (split_on (CHR 10) t))" by (rule bulk_lines_ok)
  then show ?thesis unfolding bulk_state_ok_def parseBulkInput_def by metis
qed

text \<open>What the bulk import reads from any text: links with a scheme and without white space and usernames of five to 32
  characters after an at sign, none twice; links count as different when their paths differ in case, usernames do not.\<close>

theorem bulk_items_sound:
  "list_all read_ok (parseBulkInput t) \<and> distinct (map item_key (parseBulkInput t))"
  by (rule bulk_items)

section \<open>The page of the group lists\<close>

text \<open>One input and one type serve all lists; \<open>gp_sent\<close> are all requests, \<open>gp_warnings\<close> counts the notices about several
  values.  The items given to a handler are those of the list as it was fetched last.\<close>

datatype group_request = CreateGroups string | UpdateGroups string "list_item list" | DeleteGroups string

record group_page =
  gp_showNew :: bool
  gp_newName :: string
  gp_type :: item_type
  gp_value :: string
  gp_bulkList :: "string option"
  gp_bulkText :: string
  gp_preview :: "list_item list"
  gp_expanded :: "string list"
  gp_confirm :: bool
  gp_delete :: "string option"
  gp_warnings :: nat
  gp_lists :: "string \<Rightarrow> list_item list"
  gp_sent :: "group_request list"

definition group_send :: "group_request \<Rightarrow> group_page \<Rightarrow> group_page" where
  "group_send r p = p\<lparr>gp_sent := gp_sent p @ [r]\<rparr>"

definition create_group_list :: "group_page \<Rightarrow> group_page" where
  "create_group_list p = (if trim (gp_newName p) = [] then p else group_send (CreateGroups (trim (gp_newName p))) p)"

definition group_list_created :: "bool \<Rightarrow> group_page \<Rightarrow> group_page" where
  "group_list_created succeeded p = (if succeeded then p\<lparr>gp_newName := [], gp_showNew := False\<rparr> else p)"

definition handleAddItem :: "string \<Rightarrow> list_item list \<Rightarrow> group_page \<Rightarrow> group_page" where
  "handleAddItem listId items p =
     (let txt = trim (gp_value p)
      in if txt = [] then p
         else if CHR 10 \<in> set txt \<or> CHR '' '' \<in> set txt then p\<lparr>gp_warnings := Suc (gp_warnings p)\<rparr>
         else group_send (UpdateGroups listId (items @ [\<lparr>li_type = gp_type p, li_value = txt\<rparr>])) p)"

definition item_added :: "bool \<Rightarrow> group_page \<Rightarrow> group_page" where
  "item_added succeeded p = (if succeeded then p\<lparr>gp_value := []\<rparr> else p)"

definition without_index :: "nat \<Rightarrow> 'a list \<Rightarrow> 'a list" where
  "without_index i xs = map snd (filter (\<lambda>(j, _). j \<noteq> i) (enumerate 0 xs))"

definition handleRemoveItem :: "string \<Rightarrow> nat \<Rightarrow> list_item list \<Rightarrow> group_page \<Rightarrow> group_page" where
  "handleRemoveItem listId index items p = group_send (UpdateGroups listId (without_index index items)) p"

definition close_bulk :: "group_page \<Rightarrow> group_page" where
  "close_bulk p = p\<lparr>gp_bulkText := [], gp_preview := [], gp_bulkList := None\<rparr>"

definition open_bulk :: "string \<Rightarrow> group_page \<Rightarrow> group_page" where
  "open_bulk listId p = p\<lparr>gp_bulkList := Some listId, gp_bulkText := [], gp_preview := []\<rparr>"

definition handleBulkParse :: "group_page \<Rightarrow> group_page" where
  "handleBulkParse p = p\<lparr>gp_preview := parseBulkInput (gp_bulkText p)\<rparr>"

definition handleBulkImport :: "string \<Rightarrow> list_item list \<Rightarrow> group_page \<Rightarrow> group_page" where
  "handleBulkImport listId items p = (if gp_preview p = [] then p else group_send (UpdateGroups listId (items @ gp_preview p)) p)"

definition bulk_imported :: "bool \<Rightarrow> group_page \<Rightarrow> group_page" where
  "bulk_imported succeeded p = (if succeeded then close_bulk p else p)"

definition toggle_list :: "string \<Rightarrow> group_page \<Rightarrow> group_page" where
  "toggle_list i p = p\<lparr>gp_expanded := (if i \<in> set (gp_expanded p) then js_delete (gp_expanded p) i else js_add (gp_expanded p) i)\<rparr>"

definition ask_delete_list :: "string \<Rightarrow> group_page \<Rightarrow> group_page" where
  "ask_delete_list i p = p\<lparr>gp_delete := Some i, gp_confirm := True\<rparr>"

definition confirm_delete_list :: "group_page \<Rightarrow> group_page" where
  "confirm_delete_list p =
     (let p1 = (case gp_delete p of None \<Rightarrow> p | Some i \<Rightarrow> if i = [] then p else group_send (DeleteGroups i) p)
      in p1\<lparr>gp_confirm := False, gp_delete := None\<rparr>)"

fun type_text :: "item_type \<Rightarrow> string" where
  "type_text Username = ''username''" | "type_text Link = ''link''" | "type_text GroupId = ''group_id''"

definition list_item_json :: "list_item \<Rightarrow> json" where
  "list_item_json i = JObj [(''type'', JStr (type_text (li_type i))), (''value'', JStr (li_value i))]"

fun group_mutation :: "group_request \<Rightarrow> mutation" where
  "group_mutation (CreateGroups n) = useCreateGroupList (JObj [(''name'', JStr n), (''items'', JArr [])])"
| "group_mutation (UpdateGroups i items) = useUpdateGroupList i [(''id'', JStr i), (''items'', JArr (map list_item_json items))]"
| "group_mutation (DeleteGroups i) = useDeleteGroupList i"

definition no_bulk :: "group_page \<Rightarrow> bool" where "no_bulk p \<longleftrightarrow> gp_bulkList p = None \<and> \<not> gp_confirm p"

inductive group_step :: "group_page \<Rightarrow> unit \<Rightarrow> group_page \<Rightarrow> bool" where
  fetches: "group_step p () (p\<lparr>gp_lists := ls\<rparr>)"
| shows_new: "no_bulk p \<Longrightarrow> group_step p () (p\<lparr>gp_showNew := b\<rparr>)"
| names: "gp_showNew p \<Longrightarrow> group_step p () (p\<lparr>gp_newName := v\<rparr>)"
| creates: "gp_showNew p \<Longrightarrow> group_step p () (create_group_list p)"
| created: "group_step p () (group_list_created b p)"
| types_item: "no_bulk p \<Longrightarrow> group_step p () (p\<lparr>gp_value := v\<rparr>)"
| picks_type: "no_bulk p \<Longrightarrow> group_step p () (p\<lparr>gp_type := ty\<rparr>)"
| adds: "no_bulk p \<Longrightarrow> i \<in> set (gp_expanded p) \<Longrightarrow> group_step p () (handleAddItem i (gp_lists p i) p)"
| added: "group_step p () (item_added b p)"
| removes: "no_bulk p \<Longrightarrow> i \<in> set (gp_expanded p) \<Longrightarrow> k < length (gp_lists p i) \<Longrightarrow> group_step p () (handleRemoveItem i k (gp_lists p i) p)"
| opens_bulk: "no_bulk p \<Longrightarrow> i \<in> set (gp_expanded p) \<Longrightarrow> group_step p () (open_bulk i p)"
| types_bulk: "gp_bulkList p \<noteq> None \<Longrightarrow> group_step p () (p\<lparr>gp_bulkText := v\<rparr>)"
| parses: "gp_bulkList p \<noteq> None \<Longrightarrow> trim (gp_bulkText p) \<noteq> [] \<Longrightarrow> group_step p () (handleBulkParse p)"
| imports_bulk: "gp_bulkList p = Some i \<Longrightarrow> group_step p () (handleBulkImport i (gp_lists p i) p)"
| bulk_done: "group_step p () (bulk_imported b p)"
| closes_bulk: "group_step p () (close_bulk p)"
| toggles: "no_bulk p \<Longrightarrow> group_step p () (toggle_list i p)"
| asks: "no_bulk p \<Longrightarrow> group_step p () (ask_delete_list i p)"
| shuts_confirm: "group_step p () (p\<lparr>gp_confirm := False\<rparr>)"
| confirms: "gp_confirm p \<Longrightarrow> group_step p () (confirm_delete_list p)"

definition new_group_page :: group_page where
  "new_group_page = \<lparr>gp_showNew = False, gp_newName = [], gp_type = Username, gp_value = [], gp_bulkList = None, gp_bulkText = [],
     gp_preview = [], gp_expanded = [], gp_confirm = False, gp_delete = None, gp_warnings = 0, gp_lists = (\<lambda>_. []), gp_sent = []\<rparr>"

definition group_request_ok :: "group_request \<Rightarrow> bool" where
  "group_request_ok r = (case r of CreateGroups n \<Rightarrow> n \<noteq> [] \<and> trim n = n | UpdateGroups _ _ \<Rightarrow> True | DeleteGroups i \<Rightarrow> i \<noteq> [])"

definition group_page_inv :: "group_page \<Rightarrow> bool" where
  "group_page_inv p \<longleftrightarrow>
     (gp_preview p \<noteq> [] \<longrightarrow> gp_bulkList p \<noteq> None) \<and> list_all read_ok (gp_preview p) \<and> distinct (map item_key (gp_preview p)) \<and>
     (gp_confirm p \<longrightarrow> gp_delete p \<noteq> None) \<and> list_all group_request_ok (gp_sent p)"

lemmas group_page_defs = group_send_def create_group_list_def group_list_created_def handleAddItem_def item_added_def handleRemoveItem_def
  close_bulk_def open_bulk_def handleBulkParse_def handleBulkImport_def bulk_imported_def toggle_list_def ask_delete_list_def
  confirm_delete_list_def no_bulk_def Let_def

interpretation glp: machine "\<lambda>p. p = new_group_page" group_step group_page_inv
proof
  show "group_page_inv p" if "p = new_group_page" for p using that by (simp add: group_page_inv_def new_group_page_def)
  show "group_page_inv q" if "group_page_inv p" "group_step p l q" for p l q
    using that(2,1) bulk_items
    by (induction rule: group_step.induct)
      (simp_all add: group_page_inv_def group_page_defs group_request_ok_def trim_idem split: option.splits)
qed

text \<open>On every reachable page: what the preview shows is sound and without duplicates and belongs to an open dialog, names are
  trimmed and not blank, and the confirmation has a list to delete.\<close>

theorem group_page_sound:
  assumes "reach (\<lambda>p. p = new_group_page) group_step p"
  shows "list_all read_ok (gp_preview p) \<and> distinct (map item_key (gp_preview p)) \<and> list_all group_request_ok (gp_sent p)
    \<and> (gp_preview p = [] \<or> gp_bulkList p \<noteq> None)"
  using glp.reach_inv [OF assms] by (auto simp: group_page_inv_def)

text \<open>The preview is not cleared when the text is edited: the import sends what was parsed before, whatever the box shows
  now, and appends it without looking for items that the list already has.\<close>

theorem stale_preview_is_imported:
  assumes "parseBulkInput t \<noteq> []"
  shows "gp_sent (handleBulkImport i items ((handleBulkParse (p\<lparr>gp_bulkText := t\<rparr>))\<lparr>gp_bulkText := v\<rparr>))
    = gp_sent p @ [UpdateGroups i (items @ parseBulkInput t)]"
  using assms by (simp add: group_page_defs)

lemma without_index_drop: "without_index k xs = take k xs @ drop (Suc k) xs"
proof -
  have all': "map snd (filter (\<lambda>(j, _). j \<noteq> k) (enumerate m ys)) = ys" if "k < m" for m and ys :: "'a list"
    using that by (induction ys arbitrary: m) auto
  have "map snd (filter (\<lambda>(j, _). j \<noteq> k) (enumerate m xs)) = take (k - m) xs @ drop (Suc (k - m)) xs" if "m \<le> k" for m
    using that
  proof (induction xs arbitrary: m)
    case (Cons x xs)
    show ?case
    proof (cases "m = k")
      case True
      have "map snd (filter (\<lambda>(j, _). j \<noteq> k) (enumerate (Suc k) ys)) = ys" for ys :: "'a list"
        using all' [of "Suc k" ys] by simp
      then show ?thesis using True by simp
    next
      case False
      then obtain d where d: "k - m = Suc d" "k - Suc m = d" using Cons.prems by (metis Suc_diff_Suc le_neq_implies_less)
      then show ?thesis using Cons.IH [of "Suc m"] Cons.prems False by simp
    qed
  qed simp
  from this [of 0] show ?thesis by (simp add: without_index_def)
qed

lemma ws_chars: "is_ws (CHR 10)" "is_ws CHR '' ''"
  by (simp_all add: is_ws_def)

text \<open>Two items added before the lists are fetched again: the second request is made from the same list, so the list that
  it stores misses the first item.\<close>

theorem second_add_drops_first:
  assumes "v \<noteq> []" "w \<noteq> []" "list_all (\<lambda>c. \<not> is_ws c) (v @ w)"
  defines "typed u q \<equiv> q\<lparr>gp_value := u\<rparr>"
  shows "gp_sent (handleAddItem i items (typed w (item_added True (handleAddItem i items (typed v p))))) =
    gp_sent p @ [UpdateGroups i (items @ [\<lparr>li_type = gp_type p, li_value = v\<rparr>]), UpdateGroups i (items @ [\<lparr>li_type = gp_type p, li_value = w\<rparr>])]"
proof -
  have "trim v = v" "trim w = w" "CHR 10 \<notin> set (v @ w)" "CHR '' '' \<notin> set (v @ w)"
    using assms(3) ws_chars by (auto simp: trim_no_ws list_all_iff)
  then show ?thesis using assms(1,2) by (simp add: group_page_defs typed_def)
qed

section \<open>The page of the text lists\<close>

text \<open>Every list has its own draft.  The dialog keeps the texts of the list as they were when it was opened.\<close>

record text_editor_modal =
  em_edit :: "nat option"
  em_list :: string
  em_listName :: string
  em_allTexts :: "string list"
  em_initial :: string

datatype text_request = CreateTexts string | UpdateTexts string "string list" | DeleteTexts string

record text_page =
  tp_showNew :: bool
  tp_newName :: string
  tp_drafts :: "(string, string) jsmap"
  tp_delete :: "string option"
  tp_modal :: "text_editor_modal option"
  tp_lists :: "string \<Rightarrow> string list"
  tp_sent :: "text_request list"

definition text_send :: "text_request \<Rightarrow> text_page \<Rightarrow> text_page" where
  "text_send r p = p\<lparr>tp_sent := tp_sent p @ [r]\<rparr>"

definition text_draft :: "text_page \<Rightarrow> string \<Rightarrow> string" where
  "text_draft p i = or_blank (map_get (tp_drafts p) i)"

definition create_text_list :: "text_page \<Rightarrow> text_page" where
  "create_text_list p = (if trim (tp_newName p) = [] then p else text_send (CreateTexts (trim (tp_newName p))) p)"

definition text_list_created :: "bool \<Rightarrow> text_page \<Rightarrow> text_page" where
  "text_list_created succeeded p = (if succeeded then p\<lparr>tp_newName := [], tp_showNew := False\<rparr> else p)"

definition handleAddText :: "string \<Rightarrow> string list \<Rightarrow> text_page \<Rightarrow> text_page" where
  "handleAddText listId texts p =
     (if trim (text_draft p listId) = [] then p else text_send (UpdateTexts listId (texts @ [trim (text_draft p listId)])) p)"

definition text_added :: "string \<Rightarrow> bool \<Rightarrow> text_page \<Rightarrow> text_page" where
  "text_added listId succeeded p = (if succeeded then p\<lparr>tp_drafts := map_set (tp_drafts p) listId []\<rparr> else p)"

definition handleRemoveText :: "string \<Rightarrow> nat \<Rightarrow> string list \<Rightarrow> text_page \<Rightarrow> text_page" where
  "handleRemoveText listId index texts p = text_send (UpdateTexts listId (without_index index texts)) p"

definition handleOpenAddModal :: "string \<Rightarrow> string list \<Rightarrow> string \<Rightarrow> text_page \<Rightarrow> text_page" where
  "handleOpenAddModal listId texts listName p =
     p\<lparr>tp_modal := Some \<lparr>em_edit = None, em_list = listId, em_listName = listName, em_allTexts = texts, em_initial = text_draft p listId\<rparr>\<rparr>"

definition handleOpenEditModal :: "string \<Rightarrow> nat \<Rightarrow> string \<Rightarrow> string list \<Rightarrow> string \<Rightarrow> text_page \<Rightarrow> text_page" where
  "handleOpenEditModal listId index txt texts listName p =
     p\<lparr>tp_modal := Some \<lparr>em_edit = Some index, em_list = listId, em_listName = listName, em_allTexts = texts, em_initial = txt\<rparr>\<rparr>"

text \<open>An index beyond the end, which the page never gives, would extend the array; the model only replaces.\<close>

definition modal_texts :: "text_editor_modal \<Rightarrow> string \<Rightarrow> string list" where
  "modal_texts m trimmed = (case em_edit m of None \<Rightarrow> em_allTexts m @ [trimmed] | Some k \<Rightarrow> (em_allTexts m)[k := trimmed])"

definition handleSaveModalText :: "string \<Rightarrow> text_page \<Rightarrow> text_page" where
  "handleSaveModalText savedValue p =
     (case tp_modal p of
        None \<Rightarrow> p
      | Some m \<Rightarrow> if trim savedValue = [] then p else text_send (UpdateTexts (em_list m) (modal_texts m (trim savedValue))) p)"

text \<open>The errors are caught in the handler, so the dialog sees a success and closes in both cases.\<close>

definition modal_saved :: "bool \<Rightarrow> text_page \<Rightarrow> text_page" where
  "modal_saved succeeded p =
     (case tp_modal p of
        None \<Rightarrow> p
      | Some m \<Rightarrow>
          (let p1 = (if succeeded \<and> em_edit m = None then p\<lparr>tp_drafts := map_set (tp_drafts p) (em_list m) []\<rparr> else p)
           in p1\<lparr>tp_modal := None\<rparr>))"

definition confirm_delete_texts :: "text_page \<Rightarrow> text_page" where
  "confirm_delete_texts p =
     (let p1 = (case tp_delete p of None \<Rightarrow> p | Some i \<Rightarrow> if i = [] then p else text_send (DeleteTexts i) p)
      in p1\<lparr>tp_delete := None\<rparr>)"

fun text_mutation :: "text_request \<Rightarrow> mutation" where
  "text_mutation (CreateTexts n) = useCreateTextList (JObj [(''name'', JStr n), (''texts'', JArr [])])"
| "text_mutation (UpdateTexts i ts) = useUpdateTextList i [(''id'', JStr i), (''texts'', JArr (map JStr ts))]"
| "text_mutation (DeleteTexts i) = useDeleteTextList i"

definition no_text_dialog :: "text_page \<Rightarrow> bool" where "no_text_dialog p \<longleftrightarrow> tp_modal p = None \<and> tp_delete p = None"

inductive texts_step :: "text_page \<Rightarrow> unit \<Rightarrow> text_page \<Rightarrow> bool" where
  fetches_texts: "texts_step p () (p\<lparr>tp_lists := ls\<rparr>)"
| shows_form: "no_text_dialog p \<Longrightarrow> texts_step p () (p\<lparr>tp_showNew := b\<rparr>)"
| names_list: "tp_showNew p \<Longrightarrow> texts_step p () (p\<lparr>tp_newName := v\<rparr>)"
| creates_list: "tp_showNew p \<Longrightarrow> texts_step p () (create_text_list p)"
| list_made: "texts_step p () (text_list_created b p)"
| drafts_text: "no_text_dialog p \<Longrightarrow> texts_step p () (p\<lparr>tp_drafts := map_set (tp_drafts p) i v\<rparr>)"
| adds_text: "no_text_dialog p \<Longrightarrow> texts_step p () (handleAddText i (tp_lists p i) p)"
| text_stored: "texts_step p () (text_added i b p)"
| removes_text: "no_text_dialog p \<Longrightarrow> k < length (tp_lists p i) \<Longrightarrow> texts_step p () (handleRemoveText i k (tp_lists p i) p)"
| opens_add: "no_text_dialog p \<Longrightarrow> texts_step p () (handleOpenAddModal i (tp_lists p i) n p)"
| opens_edit: "no_text_dialog p \<Longrightarrow> k < length (tp_lists p i) \<Longrightarrow> texts_step p () (handleOpenEditModal i k (tp_lists p i ! k) (tp_lists p i) n p)"
| saves_modal: "texts_step p () (handleSaveModalText v p)"
| modal_answers: "texts_step p () (modal_saved b p)"
| closes_modal: "texts_step p () (p\<lparr>tp_modal := None\<rparr>)"
| asks_delete: "no_text_dialog p \<Longrightarrow> texts_step p () (p\<lparr>tp_delete := Some i\<rparr>)"
| keeps_list: "texts_step p () (p\<lparr>tp_delete := None\<rparr>)"
| deletes_list: "texts_step p () (confirm_delete_texts p)"

definition new_text_page :: text_page where
  "new_text_page = \<lparr>tp_showNew = False, tp_newName = [], tp_drafts = [], tp_delete = None, tp_modal = None, tp_lists = (\<lambda>_. []), tp_sent = []\<rparr>"

definition text_request_ok :: "text_request \<Rightarrow> bool" where
  "text_request_ok r = (case r of CreateTexts n \<Rightarrow> n \<noteq> [] \<and> trim n = n | UpdateTexts _ _ \<Rightarrow> True | DeleteTexts i \<Rightarrow> i \<noteq> [])"

text \<open>The dialog only ever replaces a text that its list had, so no save leaves a hole in the array.\<close>

definition texts_inv :: "text_page \<Rightarrow> bool" where
  "texts_inv p \<longleftrightarrow>
     (case tp_modal p of None \<Rightarrow> True
      | Some m \<Rightarrow> (case em_edit m of None \<Rightarrow> True | Some k \<Rightarrow> k < length (em_allTexts m) \<and> em_initial m = em_allTexts m ! k)) \<and>
     list_all text_request_ok (tp_sent p)"

lemmas text_page_defs = text_send_def create_text_list_def text_list_created_def handleAddText_def text_added_def handleRemoveText_def
  handleOpenAddModal_def handleOpenEditModal_def handleSaveModalText_def modal_saved_def confirm_delete_texts_def Let_def

interpretation tlp: machine "\<lambda>p. p = new_text_page" texts_step texts_inv
proof
  show "texts_inv p" if "p = new_text_page" for p using that by (simp add: texts_inv_def new_text_page_def)
  show "texts_inv q" if "texts_inv p" "texts_step p l q" for p l q
    using that(2,1)
    by (induction rule: texts_step.induct)
      (simp_all add: texts_inv_def text_page_defs text_request_ok_def split: option.splits)
qed

theorem edits_existing_text:
  assumes "reach (\<lambda>p. p = new_text_page) texts_step p" "tp_modal p = Some m" "em_edit m = Some k"
  shows "k < length (em_allTexts m) \<and> em_initial m = em_allTexts m ! k"
  using tlp.reach_inv [OF assms(1)] assms(2,3) by (simp add: texts_inv_def)

text \<open>A save of the dialog is made from the texts of the time when it was opened: what was stored since is not in it.\<close>

theorem modal_save_overwrites:
  assumes "trim v \<noteq> []" "k < length texts"
  shows "tp_sent (handleSaveModalText v ((handleOpenEditModal i k (texts ! k) texts n p)\<lparr>tp_lists := newer\<rparr>))
    = tp_sent p @ [UpdateTexts i (texts[k := trim v])]"
  using assms by (simp add: text_page_defs modal_texts_def)

text \<open>A failed save closes the dialog as a success does, and no part of the page keeps what was written; the draft of a new
  text is the one from before.\<close>

theorem failed_modal_save_loses_text:
  assumes "tp_modal p = Some m"
  shows "modal_saved False (handleSaveModalText v p) = p\<lparr>tp_modal := None, tp_sent := tp_sent (handleSaveModalText v p)\<rparr>"
  using assms by (simp add: text_page_defs)

end
