(* ===== verification/DictTypes.thy ===== *)
theory DictTypes
  imports I18n
begin

text \<open>
  The interface \<open>Dict\<close> of \<open>src/frontend/src/lib/i18n/types.ts\<close>, which both dictionaries implement, as a shape: the keys
  of every group and which of them are texts.  The group \<open>broadcastErrors\<close> also has an index signature.

  \<open>conforms\<close> says that a dictionary has exactly the declared keys, each with the declared shape: every key of the dictionary
  takes the first declared property of its name, and none may be left.
\<close>

section \<open>Shapes\<close>

datatype shape = SText | SGroup "(string \<times> shape) list" | SOpen "(string \<times> shape) list"

fun take_key :: "string \<Rightarrow> (string \<times> 'a) list \<Rightarrow> ('a \<times> (string \<times> 'a) list) option" where
  "take_key k [] = None"
| "take_key k ((k', t) # ks) = (if k = k' then Some (t, ks) else map_option (\<lambda>(u, r). (u, (k', t) # r)) (take_key k ks))"

fun conforms :: "dict \<Rightarrow> shape \<Rightarrow> bool" where
  "conforms (Text s) t = (t = SText)"
| "conforms (Group fs) SText = False"
| "conforms (Group []) (SGroup ks) = (ks = [])"
| "conforms (Group []) (SOpen ks) = (ks = [])"
| "conforms (Group ((k, d) # fs)) (SGroup ks) =
     (case take_key k ks of None \<Rightarrow> False | Some (t, r) \<Rightarrow> conforms d t \<and> conforms (Group fs) (SGroup r))"
| "conforms (Group ((k, d) # fs)) (SOpen ks) =
     (case take_key k ks of None \<Rightarrow> conforms d SText \<and> conforms (Group fs) (SOpen ks) | Some (t, r) \<Rightarrow> conforms d t \<and> conforms (Group fs) (SOpen r))"

text \<open>The declared property of a shape; other keys of an index signature are not declared.\<close>

fun shape_get :: "shape option \<Rightarrow> string \<Rightarrow> shape option" where
  "shape_get None k = None"
| "shape_get (Some SText) k = None"
| "shape_get (Some (SGroup ks)) k = map_of ks k"
| "shape_get (Some (SOpen ks)) k = map_of ks k"

definition shape_at :: "string list \<Rightarrow> shape \<Rightarrow> shape option" where
  "shape_at keys t = foldl shape_get (Some t) keys"

section \<open>Lookups in a dictionary that conforms\<close>

lemma take_key_Some: "take_key k ks = Some (t, r) \<Longrightarrow> map_of ks k = Some t \<and> (\<forall>k'. k' \<noteq> k \<longrightarrow> map_of r k' = map_of ks k')"
  by (induction k ks arbitrary: r rule: take_key.induct) (auto split: if_splits)

lemma take_key_None: "take_key k ks = None \<Longrightarrow> map_of ks k = None"
  by (induction k ks rule: take_key.induct) (auto split: if_splits)

lemma fits_get:
  assumes "conforms d t" "shape_get (Some t) k = Some u"
  shows "\<exists>e. dict_get (Some d) k = Some e \<and> conforms e u"
  using assms
proof (induction d t rule: conforms.induct)
  case (5 k1 d fs ks)
  then show ?case by (cases "k = k1") (fastforce split: option.splits dest!: take_key_Some)+
next
  case (6 k1 d fs ks)
  then show ?case by (cases "k = k1") (fastforce split: option.splits dest!: take_key_Some take_key_None)+
qed auto

lemma missing_get:
  assumes "conforms d (SGroup ks)" "map_of ks k = None"
  shows "dict_get (Some d) k = None"
  using assms
proof (induction d "SGroup ks" arbitrary: ks rule: conforms.induct)
  case (5 k1 d fs ks)
  show ?case
  proof (cases "take_key k1 ks")
    case None
    then show ?thesis using "5.prems" by (simp add: conforms.simps(5))
  next
    case (Some p)
    obtain t r where p: "p = (t, r)" by (cases p)
    have m: "map_of ks k1 = Some t" "\<forall>k'. k' \<noteq> k1 \<longrightarrow> map_of r k' = map_of ks k'" using take_key_Some [OF Some [unfolded p]] by blast+
    then have n: "k \<noteq> k1" using "5.prems"(2) by auto
    then have "map_of r k = map_of ks k" using m(2) by blast
    then have "k \<noteq> k1" "map_of r k = None" using n "5.prems"(2) by simp_all
    then show ?thesis using "5.hyps"(2) [OF Some p [symmetric]] "5.prems"(1) Some p by (simp add: conforms.simps(5))
  qed
qed simp_all

lemma shape_stuck [simp]: "foldl shape_get None keys = None"
  by (induction keys) simp_all

lemma fits_lookup:
  assumes "conforms d t" "shape_at keys t = Some u"
  shows "\<exists>e. dict_lookup d keys = Some e \<and> conforms e u"
proof -
  have "\<exists>e. foldl dict_get (Some d) keys = Some e \<and> conforms e u" if "conforms d t" "foldl shape_get (Some t) keys = Some u" for d t
    using that
  proof (induction keys arbitrary: d t)
    case (Cons k keys)
    then obtain v where v: "shape_get (Some t) k = Some v" by (cases "shape_get (Some t) k") simp_all
    obtain e where e: "dict_get (Some d) k = Some e" "conforms e v" using fits_get [OF Cons.prems(1) v] by blast
    then show ?case using Cons.IH [OF e(2)] Cons.prems(2) v by simp
  qed simp
  then show ?thesis using assms by (simp add: dict_lookup_def shape_at_def)
qed

lemma fits_text: "conforms e SText \<Longrightarrow> \<exists>s. e = Text s"
  by (cases e) auto

text \<open>Evaluation: as long as the keys come in the declared order no search is needed.\<close>

declare conforms.simps(5,6) [simp del]

lemma fits_hit [simp]:
  "conforms (Group ((k, d) # fs)) (SGroup ((k, t) # ks)) = (conforms d t \<and> conforms (Group fs) (SGroup ks))"
  "conforms (Group ((k, d) # fs)) (SOpen ((k, t) # ks)) = (conforms d t \<and> conforms (Group fs) (SOpen ks))"
  by (simp_all add: conforms.simps(5,6))

lemma fits_miss [simp]:
  "k \<noteq> k' \<Longrightarrow> conforms (Group ((k, d) # fs)) (SGroup ((k', t) # ks)) =
     (case take_key k ks of None \<Rightarrow> False | Some (u, r) \<Rightarrow> conforms d u \<and> conforms (Group fs) (SGroup ((k', t) # r)))"
  by (auto simp: conforms.simps(5) split: option.splits)

section \<open>The interface\<close>

definition Dict_nav :: shape where
  "Dict_nav = SGroup [
     (''dashboard'', SText), (''accounts'', SText), (''chats'', SText), (''broadcast'', SText), (''autoReply'', SText), (''newBroadcast'', SText),
     (''groupLists'', SText), (''textLists'', SText), (''broadcastHistory'', SText), (''broadcastLogs'', SText), (''contacts'', SText),
     (''groupsChannels'', SText), (''help'', SText), (''orders'', SText), (''marketplace'', SText), (''telegramMembers'', SText),
     (''telegramReactions'', SText), (''telegramAutoReactions'', SText), (''telegramPostViews'', SText), (''telegramAutoPostViews'', SText),
     (''services'', SText), (''administrations'', SText), (''redeem'', SText), (''smm'', SText), (''ageChecker'', SText), (''tickets'', SText),
     (''aiSupport'', SText)]"

definition Dict_accountFolders :: shape where
  "Dict_accountFolders = SGroup [
     (''title'', SText), (''manageFolders'', SText), (''createFolder'', SText), (''renameFolder'', SText), (''deleteFolder'', SText),
     (''deleteConfirm'', SText), (''folderName'', SText), (''folderNamePlaceholder'', SText), (''noFolders'', SText), (''folderAccounts'', SText),
     (''allAccounts'', SText), (''addAccounts'', SText), (''searchAccounts'', SText), (''save'', SText), (''edit'', SText), (''delete'', SText),
     (''created'', SText), (''renamed'', SText), (''deleted'', SText), (''accountsAdded'', SText), (''accountsRemoved'', SText),
     (''nameRequired'', SText), (''folderFilter'', SText)]"

definition Dict_navbar :: shape where
  "Dict_navbar = SGroup [
     (''settings'', SText), (''logout'', SText), (''logoutTitle'', SText), (''logoutConfirm'', SText), (''cancel'', SText), (''yesLogout'', SText),
     (''user'', SText), (''balance'', SText), (''role'', SText)]"

definition Dict_notifications :: shape where
  "Dict_notifications = SGroup [
     (''open'', SText), (''title'', SText), (''unreadCount'', SText), (''allCaughtUp'', SText), (''markAllRead'', SText), (''clearAll'', SText),
     (''dismiss'', SText), (''emptyTitle'', SText), (''emptyDescription'', SText), (''loading'', SText), (''loadError'', SText), (''retry'', SText),
     (''unknownTitle'', SText), (''unknownDescription'', SText), (''supportTicketTitle'', SText), (''supportTicketMessage'', SText)]"

definition Dict_accountSwitcher :: shape where
  "Dict_accountSwitcher = SGroup [
     (''selectAccount'', SText)]"

definition Dict_login :: shape where
  "Dict_login = SGroup [
     (''brandSubtitle'', SText), (''toolkitTitle'', SText), (''featureMultipleAccounts'', SText), (''featureMultipleAccountsDesc'', SText),
     (''featureChatManagement'', SText), (''featureChatManagementDesc'', SText), (''featureSmartBroadcast'', SText),
     (''featureSmartBroadcastDesc'', SText), (''featureRealTimeLogs'', SText), (''featureRealTimeLogsDesc'', SText), (''footerTagline'', SText),
     (''welcomeBack'', SText), (''signInSubtitle'', SText), (''emailLabel'', SText), (''emailPlaceholder'', SText), (''passwordLabel'', SText),
     (''passwordPlaceholder'', SText), (''signIn'', SText), (''signingIn'', SText), (''loginFailed'', SText), (''noAccount'', SText),
     (''register'', SText), (''rememberMe'', SText), (''forgotPassword'', SText), (''verifiedSuccess'', SText), (''lockedTitle'', SText),
     (''retryEstimate'', SText), (''tooManyTitle'', SText), (''tooManyMessage'', SText), (''emailNotVerified'', SText), (''enterEmailToResend'', SText),
     (''resendVerification'', SText), (''resendingVerification'', SText), (''resendFailed'', SText), (''verificationSent'', SText),
     (''twoFactorTitle'', SText), (''twoFactorDesc'', SText), (''backupCodeTitle'', SText), (''backupCodeDesc'', SText), (''codeLabel'', SText),
     (''codePlaceholder'', SText), (''backupCodeLabel'', SText), (''backupCodePlaceholder'', SText), (''trustDevice'', SText), (''verify'', SText),
     (''verifying'', SText), (''useBackupCode'', SText), (''useTotp'', SText), (''backToLogin'', SText), (''showPassword'', SText),
     (''hidePassword'', SText), (''signInWithGoogle'', SText), (''orContinueWith'', SText), (''googleAuthFailed'', SText)]"

definition Dict_register :: shape where
  "Dict_register = SGroup [
     (''createAccount'', SText), (''getStarted'', SText), (''fullNameLabel'', SText), (''fullNamePlaceholder'', SText), (''emailLabel'', SText),
     (''emailPlaceholder'', SText), (''passwordLabel'', SText), (''passwordPlaceholder'', SText), (''passwordStrength'', SText),
     (''strengthWeak'', SText), (''strengthFair'', SText), (''strengthGood'', SText), (''strengthStrong'', SText), (''criteriaMinLength'', SText),
     (''criteriaUpperLower'', SText), (''criteriaNumber'', SText), (''criteriaSpecial'', SText), (''confirmPasswordLabel'', SText),
     (''confirmPasswordPlaceholder'', SText), (''passwordsDoNotMatch'', SText), (''passwordTooShort'', SText), (''showPassword'', SText),
     (''hidePassword'', SText), (''creatingAccount'', SText), (''createAccountBtn'', SText), (''accountCreated'', SText), (''registrationFailed'', SText),
     (''alreadyHaveAccount'', SText), (''signIn'', SText), (''agreePrefix'', SText), (''agreeAnd'', SText), (''mustAgree'', SText),
     (''verificationRequired'', SText), (''signUpWithGoogle'', SText), (''orContinueWith'', SText), (''googleAuthFailed'', SText),
     (''googleTermsNotice'', SText)]"

definition Dict_forgotPassword :: shape where
  "Dict_forgotPassword = SGroup [
     (''title'', SText), (''subtitle'', SText), (''emailLabel'', SText), (''emailPlaceholder'', SText), (''sendLink'', SText), (''sending'', SText),
     (''success'', SText), (''rememberPassword'', SText), (''backToLogin'', SText)]"

definition Dict_dashboard :: shape where
  "Dict_dashboard = SGroup [
     (''systemOnline'', SText), (''welcome'', SText), (''welcomeDesc'', SText), (''addAccount'', SText), (''totalAccounts'', SText),
     (''activeAccounts'', SText), (''broadcast'', SText), (''auditLog'', SText), (''accountsConnected'', SText), (''sessionsRunning'', SText),
     (''newBroadcast'', SText), (''viewLogs'', SText), (''quickNewBroadcast'', SText), (''quickNewBroadcastDesc'', SText), (''quickGroupLists'', SText),
     (''quickGroupListsDesc'', SText), (''quickHistory'', SText), (''quickHistoryDesc'', SText), (''connectedAccounts'', SText),
     (''connectedAccountsDesc'', SText), (''add'', SText), (''unnamed'', SText), (''online'', SText), (''offline'', SText), (''noAccounts'', SText),
     (''noAccountsDesc'', SText), (''addFirstAccount'', SText), (''viewAllAccounts'', SText)]"

definition Dict_accountsList :: shape where
  "Dict_accountsList = SGroup [
     (''title'', SText), (''subtitle'', SText), (''addAccount'', SText), (''failedToLoad'', SText), (''tryAgain'', SText), (''noAccounts'', SText),
     (''addYourFirst'', SText), (''searchPlaceholder'', SText), (''showingAccounts'', SText), (''prev'', SText), (''next'', SText),
     (''statusActive'', SText), (''statusLimited'', SText), (''statusInactive'', SText), (''statusExpired'', SText), (''statusPremium'', SText),
     (''statusAll'', SText), (''transferAccounts'', SText)]"

definition Dict_accountCard :: shape where
  "Dict_accountCard = SGroup [
     (''unnamed'', SText), (''viewDetails'', SText), (''delete'', SText), (''transfer'', SText), (''getOtp'', SText), (''active'', SText),
     (''inactive'', SText), (''expired'', SText), (''verified'', SText), (''premium'', SText), (''deleteConfirm'', SText)]"

definition Dict_accountOtpModal :: shape where
  "Dict_accountOtpModal = SGroup [
     (''title'', SText), (''description'', SText), (''otpCode'', SText), (''copyCode'', SText), (''codeCopied'', SText), (''recentBadge'', SText),
     (''expiredBadge'', SText), (''noOtpTitle'', SText), (''noOtpDesc'', SText), (''refresh'', SText), (''refreshing'', SText),
     (''recentMessages'', SText), (''noMessages'', SText), (''serviceNotice'', SText), (''warningNotice'', SText), (''errorTitle'', SText),
     (''retry'', SText)]"

definition Dict_accountSelector :: shape where
  "Dict_accountSelector = SGroup [
     (''defaultTitle'', SText), (''selectedBadge'', SText), (''selectAll'', SText), (''deselectAll'', SText), (''clear'', SText),
     (''searchPlaceholder'', SText), (''clearSearchTooltip'', SText), (''showingResults'', SText), (''resetSearch'', SText), (''allFolders'', SText),
     (''loading'', SText), (''noActiveAccounts'', SText), (''noMatchingAccounts'', SText), (''noMatchingDesc'', SText), (''clearSearchBtn'', SText)]"

definition Dict_transferAccounts :: shape where
  "Dict_transferAccounts = SGroup [
     (''dialogTitle'', SText), (''ownerOnly'', SText), (''dialogDesc'', SText), (''recipientEmailLabel'', SText), (''searchEmailPlaceholder'', SText),
     (''noUserFound'', SText), (''searchingUser'', SText), (''quotaWarningTitle'', SText), (''quotaWarningDesc'', SText), (''quotaExceededTitle'', SText),
     (''quotaExceededDesc'', SText), (''overrideQuotaLabel'', SText), (''selectAccountsLabel'', SText), (''selectAll'', SText), (''deselectAll'', SText),
     (''selectedCount'', SText), (''noAccountsAvailable'', SText), (''cancel'', SText), (''transferBtn'', SText), (''transferBtnCount'', SText),
     (''transferring'', SText), (''toastSelectWarningTitle'', SText), (''toastSelectWarningDesc'', SText), (''toastEmailWarningTitle'', SText),
     (''toastEmailWarningDesc'', SText), (''toastSuccessTitle'', SText), (''toastSuccessDesc'', SText), (''toastFailedTitle'', SText),
     (''toastFailedDesc'', SText)]"

definition Dict_addAccount :: shape where
  "Dict_addAccount = SGroup [
     (''title'', SText), (''subtitle'', SText), (''tabOtp'', SText), (''tabQr'', SText), (''tabUpload'', SText), (''qrBadge'', SText),
     (''qrTitle'', SText), (''qrSubtitle'', SText), (''qrStep1Title'', SText), (''qrStep1Desc'', SText), (''qrStep2Title'', SText),
     (''qrStep2Desc'', SText), (''qrStep3Title'', SText), (''qrStep3Desc'', SText), (''qrGenerating'', SText), (''qrWaitingScan'', SText),
     (''qrValidFor'', SText), (''qrExpiredTitle'', SText), (''qrExpiredDesc'', SText), (''qrReloadBtn'', SText), (''qrRefreshTooltip'', SText),
     (''qrTwoFaTitle'', SText), (''qrTwoFaWarning'', SText), (''qrTwoFaLabel'', SText), (''qrTwoFaPlaceholder'', SText), (''qrTwoFaConfirmBtn'', SText),
     (''qrTwoFaProcessing'', SText), (''qrTwoFaBack'', SText), (''qrSuccessTitle'', SText), (''qrSuccessDesc'', SText), (''qrSwitchToOtp'', SText),
     (''phoneLabel'', SText), (''phonePlaceholder'', SText), (''phoneHint'', SText), (''sendOtp'', SText), (''sending'', SText), (''otpTitle'', SText),
     (''otpSentTo'', SText), (''resendCode'', SText), (''resendAvailable'', SText), (''verifyLogin'', SText), (''verifying'', SText),
     (''changePhone'', SText), (''twoFaWarning'', SText), (''twoFaLabel'', SText), (''twoFaPlaceholder'', SText), (''twoFaHint'', SText),
     (''sessionLabel'', SText), (''sessionPlaceholder'', SText), (''sessionHint'', SText), (''sessionFormatDetected'', SText),
     (''sessionFormatTelethon'', SText), (''sessionFormatGramjs'', SText), (''sessionFormatPyrogram'', SText), (''sessionFormatRaw'', SText),
     (''sessionFormatUnknown'', SText), (''sessionInvalidFormat'', SText), (''uploadConnect'', SText), (''failedSendOtp'', SText),
     (''failedVerify'', SText), (''failedUpload'', SText), (''setupEmailRequired'', SText), (''setupEmailLabel'', SText), (''setupEmailSendCode'', SText),
     (''setupEmailCodePrompt'', SText), (''deliveryCodePrompt'', SText), (''thirdPartySigninUnavailable'', SText)]"

definition Dict_accountDetail :: shape where
  "Dict_accountDetail = SGroup [
     (''profileSettings'', SText), (''profileSettingsDesc'', SText), (''devices'', SText), (''devicesDesc'', SText), (''chats'', SText),
     (''chatsDesc'', SText), (''security'', SText), (''securityDesc'', SText), (''phone'', SText), (''username'', SText), (''bio'', SText),
     (''loginEmail'', SText), (''status'', SText), (''twoFa'', SText), (''added'', SText), (''active'', SText), (''inactive'', SText),
     (''expired'', SText), (''on'', SText), (''off'', SText), (''notFound'', SText), (''backToAccounts'', SText), (''dangerZone'', SText),
     (''dangerZoneDesc'', SText), (''deleteAccount'', SText), (''deleting'', SText), (''deleteConfirm'', SText), (''unnamed'', SText),
     (''spamStatus'', SText), (''spamStatusNormal'', SText), (''spamStatusLimited'', SText), (''spamStatusUnknown'', SText), (''spamLastChecked'', SText),
     (''checkSpamBtn'', SText), (''checkingSpam'', SText), (''spamLimitActive'', SText), (''estRegDate'', SText), (''telegramId'', SText),
     (''telegramIdCopied'', SText), (''contacts'', SText), (''groups'', SText), (''channels'', SText), (''owned'', SText), (''viewDetailsChat'', SText),
     (''viewDetailsChatDesc'', SText), (''contactsLink'', SText), (''contactsLinkDesc'', SText), (''groupsChannels'', SText),
     (''groupsChannelsDesc'', SText), (''appealBtn'', SText), (''appealTitle'', SText), (''appealReasonLabel'', SText),
     (''appealCustomReasonLabel'', SText), (''appealCustomReasonPlaceholder'', SText), (''appealSubmit'', SText), (''appealSubmitting'', SText),
     (''appealForceWarningTitle'', SText), (''appealForceWarningDesc'', SText), (''appealForceSubmit'', SText), (''appealCancel'', SText),
     (''appealSuccessTitle'', SText), (''appealSuccessDesc'', SText), (''appealCaptchaTitle'', SText), (''appealCaptchaDesc'', SText),
     (''appealCaptchaOpenBtn'', SText), (''appealCaptchaDoneBtn'', SText), (''appealCaptchaResuming'', SText), (''appealFailedTitle'', SText),
     (''appealFailedDesc'', SText), (''nameRequired'', SText)]"

definition Dict_broadcastDashboard :: shape where
  "Dict_broadcastDashboard = SGroup [
     (''title'', SText), (''desc'', SText), (''groupLists'', SText), (''groupListsDesc'', SText), (''textLists'', SText), (''textListsDesc'', SText),
     (''newBroadcast'', SText), (''newBroadcastDesc'', SText), (''broadcastHistory'', SText), (''broadcastHistoryDesc'', SText),
     (''broadcastLogs'', SText), (''broadcastLogsDesc'', SText), (''gettingStarted'', SText), (''step1'', SText), (''step2'', SText), (''step3'', SText),
     (''step4'', SText), (''noAccountsTitle'', SText), (''noAccountsDesc'', SText), (''noAccountsBtn'', SText), (''noGroupListsTitle'', SText),
     (''noGroupListsDesc'', SText), (''noGroupListsBtn'', SText), (''allAccountsBusyTitle'', SText), (''allAccountsBusyDesc'', SText),
     (''allAccountsBusyBtn'', SText)]"

definition Dict_newBroadcast :: shape where
  "Dict_newBroadcast = SGroup [
     (''title'', SText), (''desc'', SText), (''configuration'', SText), (''account'', SText), (''accountPlaceholder'', SText), (''groupList'', SText),
     (''groupListPlaceholder'', SText), (''mode'', SText), (''multiRandom'', SText), (''multiRandomDesc'', SText), (''singleText'', SText),
     (''singleTextDesc'', SText), (''textList'', SText), (''textListPlaceholder'', SText), (''messageText'', SText), (''messagePlaceholder'', SText),
     (''delayPerGroup'', SText), (''delayPerGroupSuffix'', SText), (''delayAfterAll'', SText), (''delayAfterAllSuffix'', SText),
     (''scheduleTitle'', SText), (''scheduleDesc'', SText), (''scheduleStartTime'', SText), (''scheduleStartTimeDesc'', SText),
     (''scheduleEndTime'', SText), (''scheduleEndTimeDesc'', SText), (''schedulePresets'', SText), (''scheduleInfo'', SText), (''loopTitle'', SText),
     (''loopDesc'', SText), (''startBroadcast'', SText), (''starting'', SText), (''failedToStart'', SText), (''progress'', SText), (''cycle'', SText),
     (''total'', SText), (''sent'', SText), (''failed'', SText), (''pause'', SText), (''resume'', SText), (''stop'', SText), (''live'', SText),
     (''stopConfirm'', SText)]"

definition Dict_groupLists :: shape where
  "Dict_groupLists = SGroup [
     (''title'', SText), (''desc'', SText), (''newList'', SText), (''listName'', SText), (''save'', SText), (''saving'', SText), (''noLists'', SText),
     (''createFirst'', SText), (''noItems'', SText), (''groups'', SText), (''bulkImport'', SText), (''bulkImportLabel'', SText),
     (''bulkImportDesc'', SText), (''bulkParse'', SText), (''bulkRefresh'', SText), (''bulkImportBtn'', SText), (''importGroups'', SText),
     (''add'', SText), (''multiValueError'', SText), (''typeUsername'', SText), (''typeLink'', SText), (''typeGroupId'', SText),
     (''deleteConfirm'', SText), (''placeholderUsername'', SText), (''placeholderLink'', SText), (''placeholderGroupId'', SText),
     (''viewDetails'', SText), (''hideDetails'', SText), (''delete'', SText)]"

definition Dict_textLists :: shape where
  "Dict_textLists = SGroup [
     (''title'', SText), (''desc'', SText), (''newList'', SText), (''listName'', SText), (''listNamePlaceholder'', SText), (''save'', SText),
     (''noLists'', SText), (''createFirst'', SText), (''noTexts'', SText), (''texts'', SText), (''addText'', SText), (''addTextPlaceholder'', SText),
     (''add'', SText), (''deleteConfirm'', SText), (''delete'', SText), (''editText'', SText), (''modalAddTitle'', SText), (''modalEditTitle'', SText)]"

definition Dict_broadcastHistory :: shape where
  "Dict_broadcastHistory = SGroup [
     (''title'', SText), (''desc'', SText), (''date'', SText), (''status'', SText), (''progress'', SText), (''sentFailed'', SText), (''actions'', SText),
     (''noJobs'', SText), (''startBroadcast'', SText), (''pause'', SText), (''resume'', SText), (''stop'', SText), (''cancel'', SText),
     (''retry'', SText), (''delete'', SText), (''viewLogs'', SText), (''stopConfirm'', SText), (''cancelConfirm'', SText), (''deleteConfirm'', SText),
     (''of'', SText), (''accounts'', SText), (''setup'', SText), (''groupList'', SText), (''textList'', SText), (''customText'', SText),
     (''summaryRunning'', SText), (''summaryAccountsInUse'', SText), (''summaryCompleted'', SText), (''summaryTotalSent'', SText),
     (''summaryTotalFailed'', SText), (''summaryTotalJobs'', SText), (''showing'', SText), (''jobsLabel'', SText), (''prev'', SText), (''next'', SText),
     (''delayPerGroup'', SText), (''delayAfterAll'', SText), (''delayRandomized'', SText), (''cycleDelay'', SText), (''telegramLog'', SText),
     (''accountsModalTitle'', SText), (''accountsModalDesc'', SText), (''active'', SText), (''inactive'', SText), (''showMoreAccounts'', SText),
     (''showLessAccounts'', SText), (''viewDetails'', SText), (''copy'', SText), (''copied'', SText)]"

definition Dict_broadcastLogs :: shape where
  "Dict_broadcastLogs = SGroup [
     (''title'', SText), (''desc'', SText), (''selectJob'', SText), (''sent'', SText), (''failed'', SText), (''searchGroup'', SText),
     (''allStatuses'', SText), (''success'', SText), (''error'', SText), (''skipped'', SText), (''allCycles'', SText), (''cycle'', SText),
     (''exportCsv'', SText), (''exportJson'', SText), (''noEntries'', SText), (''selectJobToView'', SText), (''colCycle'', SText), (''colGroup'', SText),
     (''colStatus'', SText), (''colErrorType'', SText), (''colMessage'', SText), (''colSentText'', SText), (''colTime'', SText), (''live'', SText),
     (''total'', SText), (''noEntriesForCycle'', SText), (''noEntriesMatchFilter'', SText)]"

definition Dict_broadcastErrors :: shape where
  "Dict_broadcastErrors = SOpen [
     (''private_channel'', SText), (''banned'', SText), (''admin_only'', SText), (''muted_permanent'', SText), (''muted_temporary'', SText),
     (''skipped_permanent'', SText), (''skipped_pending'', SText), (''must_join_discussion'', SText), (''topic_closed'', SText),
     (''media_forbidden'', SText), (''guest_restricted'', SText), (''invalid_username'', SText), (''invalid_link'', SText),
     (''too_many_channels'', SText), (''flood'', SText), (''peer_flood'', SText), (''slowmode'', SText)]"

definition Dict_chats :: shape where
  "Dict_chats = SGroup [
     (''title'', SText), (''live'', SText), (''offline'', SText), (''selectChats'', SText), (''exitSelection'', SText), (''search'', SText),
     (''all'', SText), (''archived'', SText), (''selectAccount'', SText), (''noAccounts'', SText), (''failedToLoad'', SText), (''retry'', SText),
     (''noArchived'', SText), (''noChats'', SText), (''prev'', SText), (''page'', SText), (''next'', SText), (''selected'', SText),
     (''archiveAll'', SText), (''unarchiveAll'', SText), (''deleteAll'', SText), (''batchDelete'', SText), (''selectChat'', SText),
     (''selectChatDesc'', SText), (''noMessages'', SText), (''loadOlder'', SText), (''sendFailed'', SText), (''typeMessage'', SText),
     (''addCaption'', SText), (''attachFile'', SText), (''reply'', SText), (''delete'', SText), (''archive'', SText), (''unarchive'', SText),
     (''deleteConfirm'', SText), (''batchDeleteConfirm'', SText), (''unknown'', SText)]"

definition Dict_autoReply :: shape where
  "Dict_autoReply = SGroup [
     (''title'', SText), (''desc'', SText), (''globalSettings'', SText), (''globalSettingsDesc'', SText), (''enableAll'', SText), (''disableAll'', SText),
     (''globalMessage'', SText), (''globalMessagePlaceholder'', SText), (''applyToAll'', SText), (''applying'', SText), (''applied'', SText),
     (''updated'', SText), (''perAccount'', SText), (''on'', SText), (''off'', SText), (''save'', SText), (''saved'', SText), (''active'', SText),
     (''replyMessage'', SText), (''replyPlaceholder'', SText), (''noAccounts'', SText), (''noAccountsDesc'', SText), (''addAccount'', SText),
     (''failedToLoad'', SText), (''retry'', SText), (''setText'', SText), (''editText'', SText), (''modalTitle'', SText), (''modalDesc'', SText),
     (''enableForAccount'', SText)]"

definition Dict_settings_1 :: "(string \<times> shape) list" where
  "Dict_settings_1 = [
     (''profileAndSettings'', SText), (''profileAndSettingsDesc'', SText), (''navProfile'', SText), (''navProfileDesc'', SText),
     (''navChangePassword'', SText), (''navChangePasswordDesc'', SText), (''navTwoFactor'', SText), (''navTwoFactorDesc'', SText),
     (''navApiKeys'', SText), (''navApiKeysDesc'', SText), (''navBankAccounts'', SText), (''navBankAccountsDesc'', SText), (''navTelegram'', SText),
     (''navTelegramDesc'', SText), (''navAppearance'', SText), (''navAppearanceDesc'', SText), (''navLanguage'', SText), (''navLanguageDesc'', SText),
     (''active'', SText), (''profile'', SText), (''profileDesc'', SText), (''editProfile'', SText), (''username'', SText), (''email'', SText),
     (''role'', SText), (''joinedSince'', SText), (''editProfileTitle'', SText), (''fullName'', SText), (''fullNamePlaceholder'', SText),
     (''saveChanges'', SText), (''profileSaved'', SText), (''failedSaveProfile'', SText), (''cancel'', SText), (''saving'', SText), (''unknown'', SText),
     (''fullNameRequired'', SText), (''changePasswordTitle'', SText), (''changePasswordCardDesc'', SText), (''passwordLastChanged'', SText),
     (''passwordLastChangedUnknown'', SText), (''twoFactorCardDesc'', SText), (''manageTwoFactor'', SText), (''status'', SText), (''statusOff'', SText),
     (''enabled'', SText), (''twoFaRecommendation'', SText), (''apiKeysTitle'', SText), (''apiKeysCardDesc'', SText), (''manageApiKeys'', SText),
     (''totalApiKeys'', SText), (''apiKeysCount'', SText), (''lastUsed'', SText), (''never'', SText), (''created'', SText),
     (''bankAccountsTitle'', SText), (''bankAccountsCardDesc'', SText), (''addAccount'', SText), (''totalAccounts'', SText), (''accountCount'', SText),
     (''appearance'', SText), (''appearanceCardDesc'', SText), (''theme'', SText), (''themeDarkDefault'', SText), (''language'', SText),
     (''languageCardDesc'', SText), (''languageLabel'', SText), (''title'', SText), (''desc'', SText), (''back'', SText), (''changePassword'', SText),
     (''changePasswordDesc'', SText), (''currentPassword'', SText), (''currentPasswordPlaceholder'', SText), (''newPassword'', SText),
     (''newPasswordPlaceholder'', SText), (''confirmPassword'', SText), (''confirmPasswordPlaceholder'', SText), (''passwordChanged'', SText),
     (''passwordWeak'', SText), (''passwordFair'', SText), (''passwordGood'', SText), (''passwordStrong'', SText), (''passwordsMatch'', SText),
     (''passwordsNoMatch'', SText), (''passwordMinLength'', SText), (''passwordMustDiffer'', SText), (''changePasswordBtn'', SText),
     (''changingPassword'', SText), (''sessionExpired'', SText), (''failedChangePassword'', SText), (''apiKeys'', SText), (''apiKeysDesc'', SText),
     (''createApiKey'', SText), (''apiKeyName'', SText), (''apiKeyNamePlaceholder'', SText), (''apiKeyScopes'', SText), (''apiKeyScopesDesc'', SText),
     (''profileRead'', SText), (''accountsRead'', SText), (''jobsRead'', SText), (''accountsWrite'', SText), (''generateKey'', SText),
     (''generatingKey'', SText), (''apiKeyCreated'', SText), (''apiKeyCreatedDesc'', SText), (''copySecret'', SText), (''copied'', SText),
     (''secretWarning'', SText), (''noApiKeys'', SText), (''revoke'', SText), (''revokeConfirm'', SText), (''revoked'', SText),
     (''failedLoadApiKeys'', SText), (''failedCreateApiKey'', SText), (''failedRevokeApiKey'', SText), (''twoFactorTitle'', SText),
     (''twoFactorDesc'', SText), (''twoFactorEnabledStatus'', SText), (''twoFactorDisabledStatus'', SText), (''off'', SText), (''enable2FA'', SText),
     (''disable2FA'', SText), (''setup2FATitle'', SText), (''setup2FADesc'', SText), (''enterCode'', SText), (''enterCodePlaceholder'', SText),
     (''verifyAndEnable'', SText), (''backupCodesTitle'', SText), (''backupCodesDesc'', SText), (''backupCodesCopied'', SText),
     (''saveBackupCodes'', SText), (''totpInvalid'', SText), (''totpSuccess'', SText), (''disableSuccess'', SText), (''regenerateBackupCodes'', SText),
     (''regenerateBackupCodesConfirm'', SText)]"

definition Dict_settings_2 :: "(string \<times> shape) list" where
  "Dict_settings_2 = [
     (''enterPasswordConfirm'', SText), (''enterPasswordConfirmDesc'', SText), (''passwordRequired'', SText), (''done'', SText),
     (''appearanceTab'', SText), (''appearanceDesc'', SText), (''themeMode'', SText), (''themeModeDesc'', SText), (''themeLight'', SText),
     (''themeLightDesc'', SText), (''themeDark'', SText), (''themeDarkDesc'', SText), (''themeSystem'', SText), (''themeSystemDesc'', SText),
     (''languageSection'', SText), (''languageSectionDesc'', SText), (''languageEn'', SText), (''languageEnDesc'', SText), (''languageId'', SText),
     (''languageIdDesc'', SText), (''languageSystem'', SText), (''languageSystemDesc'', SText), (''bankAccountsTab'', SText),
     (''bankAccountsDesc'', SText), (''addBankAccount'', SText), (''bankName'', SText), (''accountNumber'', SText), (''accountHolder'', SText),
     (''isDefaultAccount'', SText), (''setAsDefault'', SText), (''defaultBadge'', SText), (''deleteAccountConfirm'', SText),
     (''depositSettingsTitle'', SText), (''depositSettingsDesc'', SText), (''saveDepositSettings'', SText), (''depositSettingsSaved'', SText),
     (''noBankAccounts'', SText), (''noBankAccountsDesc'', SText), (''accountAdded'', SText), (''accountDeleted'', SText)]"

definition Dict_settings :: shape where
  "Dict_settings = SGroup (Dict_settings_1 @ Dict_settings_2)"

definition Dict_accountSettings :: shape where
  "Dict_accountSettings = SGroup [
     (''title'', SText), (''profilePhoto'', SText), (''changePhoto'', SText), (''delete'', SText), (''uploadPhoto'', SText), (''deletePhoto'', SText),
     (''noPhoto'', SText), (''notSet'', SText), (''photoHint'', SText), (''photoUpdated'', SText), (''photoDeleted'', SText), (''uploadFailed'', SText),
     (''deleteFailed'', SText), (''profile'', SText), (''editProfile'', SText), (''cancel'', SText), (''profileDesc'', SText),
     (''editingProfile'', SText), (''firstName'', SText), (''firstNameRequired'', SText), (''lastName'', SText), (''username'', SText),
     (''usernamePlaceholder'', SText), (''checkingUsername'', SText), (''usernameAvailable'', SText), (''usernameOccupied'', SText),
     (''usernameInvalid'', SText), (''usernamePurchaseAvailable'', SText), (''usernameUnchanged'', SText), (''usernameWillBeRemoved'', SText),
     (''usernameTooShort'', SText), (''usernameStartsWithDigit'', SText), (''usernameInvalidChars'', SText), (''usernameFloodWait'', SText),
     (''bio'', SText), (''bioPlaceholder'', SText), (''saving'', SText), (''save'', SText), (''profileUpdated'', SText), (''updateFailed'', SText),
     (''privacySecurity'', SText), (''whoCanSee'', SText), (''whoCanContact'', SText), (''messagesForwarding'', SText), (''lastSeen'', SText),
     (''photoPrivacy'', SText), (''bioPrivacy'', SText), (''birthday'', SText), (''phoneNumber'', SText), (''whoCanCall'', SText),
     (''whoCanAddGroups'', SText), (''whoCanFindByPhone'', SText), (''whoCanForward'', SText), (''whoCanSendVoice'', SText), (''everybody'', SText),
     (''myContacts'', SText), (''closeFriends'', SText), (''nobody'', SText), (''savePrivacy'', SText), (''privacyUpdated'', SText),
     (''unsavedChanges'', SText), (''twoFactor'', SText), (''enabled'', SText), (''disabled'', SText), (''enable2fa'', SText), (''disable2fa'', SText),
     (''new2faPassword'', SText), (''current2faPassword'', SText), (''change2faPassword'', SText), (''newPassword'', SText), (''confirmPassword'', SText),
     (''changePassword'', SText), (''forgotPassword'', SText), (''requestRecovery'', SText), (''recoveryCode'', SText), (''recover'', SText),
     (''recoveryInfo'', SText), (''recoverySent'', SText), (''recoveryEmail'', SText), (''recoveryEmailPlaceholder'', SText),
     (''recoveryEmailConfirmInfo'', SText), (''setEmail'', SText), (''loginEmail'', SText), (''loginEmailDesc'', SText), (''changeLoginEmail'', SText),
     (''changeLoginEmailDesc'', SText), (''newLoginEmail'', SText), (''sendVerificationCode'', SText), (''verificationCode'', SText),
     (''verifyEmail'', SText), (''unconfirmedEmail'', SText), (''waitingConfirmation'', SText), (''passwordHint'', SText),
     (''passwordsDontMatch'', SText), (''done'', SText), (''actionFailed'', SText), (''autoReply'', SText), (''autoReplyDesc'', SText),
     (''autoReplyOn'', SText), (''autoReplyOff'', SText), (''replyMessage'', SText), (''replyMessagePlaceholder'', SText), (''autoReplySaved'', SText),
     (''deleteContacts'', SText), (''deleteContactsDesc'', SText), (''deleteAllContacts'', SText), (''deleting'', SText), (''contactsDeleted'', SText),
     (''contactsDeleteConfirm'', SText), (''removePhotoConfirm'', SText)]"

definition Dict_devices :: shape where
  "Dict_devices = SGroup [
     (''title'', SText), (''activeSessions'', SText), (''noDevices'', SText), (''failedToLoad'', SText), (''terminate'', SText),
     (''terminateAll'', SText), (''terminateAllDesc'', SText), (''terminateAllBtn'', SText), (''terminating'', SText), (''terminateAllConfirm'', SText),
     (''unknownApp'', SText), (''since'', SText), (''thisDevice'', SText), (''otherDevices'', SText), (''sessionTerminated'', SText),
     (''terminateSessionFailed'', SText), (''otherSessionsTerminated'', SText), (''terminateOtherSessionsFailed'', SText)]"

definition Dict_utils :: shape where
  "Dict_utils = SGroup [
     (''dateEmpty'', SText), (''justNow'', SText), (''minutesAgo'', SText), (''hoursAgo'', SText), (''daysAgo'', SText)]"

definition Dict_common :: shape where
  "Dict_common = SGroup [
     (''language'', SText), (''english'', SText), (''indonesian'', SText), (''close'', SText)]"

definition Dict_groupsChannels :: shape where
  "Dict_groupsChannels = SGroup [
     (''title'', SText), (''groups'', SText), (''channels'', SText), (''searchGroups'', SText), (''searchChannels'', SText), (''noGroups'', SText),
     (''noChannels'', SText), (''owner'', SText), (''failedToLoad'', SText), (''retry'', SText), (''page'', SText), (''prev'', SText), (''next'', SText),
     (''joinNew'', SText), (''join'', SText), (''joinDescription'', SText), (''joinPlaceholder'', SText), (''joining'', SText),
     (''joinedSuccess'', SText), (''joinFailed'', SText), (''alreadyMember'', SText), (''identifier'', SText), (''sync'', SText), (''syncing'', SText),
     (''syncSuccess'', SText), (''syncFailed'', SText), (''lastSynced'', SText), (''neverSynced'', SText), (''syncRequiredDesc'', SText),
     (''memberCount'', SText), (''onlineCount'', SText), (''inviteLink'', SText), (''copyLink'', SText), (''copiedLink'', SText),
     (''copyAllLinks'', SText), (''copiedAllLinks'', SText), (''publicIndex'', SText), (''publicIndexDesc'', SText), (''proOnly'', SText),
     (''proOnlyDesc'', SText), (''upgradeNow'', SText), (''myChats'', SText), (''allChats'', SText), (''noPublicChats'', SText), (''autoJoin'', SText),
     (''autoJoinDesc'', SText), (''autoLeave'', SText), (''autoLeaveDesc'', SText)]"

definition Dict_autoJoin :: shape where
  "Dict_autoJoin = SGroup [
     (''live'', SText), (''offline'', SText), (''history'', SText), (''historyDesc'', SText), (''noJobs'', SText), (''jobId'', SText),
     (''created'', SText), (''status'', SText), (''progress'', SText), (''detail'', SText), (''inspect'', SText), (''delete'', SText),
     (''noActiveJob'', SText), (''logCap'', SText), (''runningInWorker'', SText), (''estimated'', SText), (''statusPending'', SText),
     (''statusRunning'', SText), (''statusPaused'', SText), (''statusCompleted'', SText), (''statusCancelled'', SText), (''statusFailed'', SText),
     (''success'', SText), (''already'', SText), (''failed'', SText), (''breadcrumb'', SText), (''pageTitle'', SText), (''pageSubtitle'', SText),
     (''manageGroupLists'', SText), (''viewMyChats'', SText), (''targetTitle'', SText), (''targetSubtitle'', SText), (''modeBulk'', SText),
     (''modeGroupLists'', SText), (''pasteLabel'', SText), (''targetsDetected'', SText), (''formatHint'', SText), (''clear'', SText),
     (''saveAsGroupList'', SText), (''saveListPlaceholder'', SText), (''save'', SText), (''selectSavedListLabel'', SText),
     (''selectListPlaceholder'', SText), (''targetsCount'', SText), (''noListSelected'', SText), (''selectAccountsTitle'', SText),
     (''selectAccountsDesc'', SText), (''executionTitle'', SText), (''joinDelayLabel'', SText), (''delayFast'', SText), (''delayRecommended'', SText),
     (''delaySafe'', SText), (''jitterTitle'', SText), (''jitterSubtitle'', SText), (''distributionTitle'', SText), (''distributeAll'', SText),
     (''distributeAllDesc'', SText), (''distributeRoundRobin'', SText), (''distributeRoundRobinDesc'', SText), (''startBtn'', SText),
     (''pauseBtn'', SText), (''resumeBtn'', SText), (''stopBtn'', SText), (''emptyJobLogs'', SText), (''emptyLiveLogs'', SText), (''loading'', SText),
     (''toastListSavedTitle'', SText), (''toastListSavedDesc'', SText), (''toastSaveFailedTitle'', SText), (''toastSaveFailedDesc'', SText),
     (''toastEmptyTargetsTitle'', SText), (''toastEmptyTargetsDesc'', SText), (''toastNoAccountTitle'', SText), (''toastNoAccountDesc'', SText),
     (''toastStartedTitle'', SText), (''toastStartedDesc'', SText)]"

definition Dict_notFound :: shape where
  "Dict_notFound = SGroup [
     (''title'', SText), (''description'', SText), (''backHome'', SText), (''viewDashboard'', SText), (''pageNotFound'', SText)]"

definition Dict_errors :: shape where
  "Dict_errors = SGroup [
     (''badge'', SGroup [(''401'', SText), (''403'', SText), (''404'', SText), (''500'', SText), (''503'', SText)]),
     (''unauthorized'', SGroup [(''title'', SText), (''description'', SText), (''actionLogin'', SText), (''actionHome'', SText)]),
     (''forbidden'', SGroup [(''title'', SText), (''description'', SText), (''actionDashboard'', SText), (''actionHome'', SText), (''actionSupport'', SText)]),
     (''notFound'', SGroup [(''title'', SText), (''description'', SText), (''actionHome'', SText), (''actionDashboard'', SText), (''actionBack'', SText)]),
     (''serverError'', SGroup [(''title'', SText), (''description'', SText), (''actionRetry'', SText), (''actionHome'', SText), (''actionReport'', SText)]),
     (''serviceUnavailable'', SGroup [(''title'', SText), (''description'', SText), (''actionRetry'', SText), (''actionStatus'', SText), (''actionHome'', SText)]),
     (''technicalDetails'', SText), (''copyError'', SText), (''copied'', SText), (''needHelp'', SText), (''contactSupport'', SText)]"

definition Dict_help :: shape where
  "Dict_help = SGroup [
     (''title'', SText), (''desc'', SText), (''gettingStarted'', SText), (''gettingStartedDesc'', SText), (''gettingStartedContent1'', SText),
     (''gettingStartedContent2'', SText), (''gettingStartedContent3'', SText), (''gettingStartedContent4'', SText), (''accounts'', SText),
     (''accountsDesc'', SText), (''accountsContent1'', SText), (''accountsContent2'', SText), (''accountsContent3'', SText),
     (''accountsContent4'', SText), (''accountsContent5'', SText), (''broadcast'', SText), (''broadcastDesc'', SText), (''broadcastContent1'', SText),
     (''broadcastContent2'', SText), (''broadcastContent3'', SText), (''broadcastContent4'', SText), (''broadcastContent5'', SText),
     (''broadcastContent6'', SText), (''autoReply'', SText), (''autoReplyDesc'', SText), (''autoReplyContent1'', SText), (''autoReplyContent2'', SText),
     (''autoReplyContent3'', SText), (''autoReplyContent4'', SText), (''memberInvite'', SText), (''memberInviteDesc'', SText),
     (''memberInviteContent1'', SText), (''memberInviteContent2'', SText), (''memberInviteContent3'', SText), (''memberInviteContent4'', SText),
     (''memberInviteContent5'', SText), (''troubleshooting'', SText), (''troubleshootingDesc'', SText), (''troubleshootingContent1'', SText),
     (''troubleshootingContent2'', SText), (''troubleshootingContent3'', SText), (''troubleshootingContent4'', SText),
     (''troubleshootingContent5'', SText), (''tips'', SText), (''tipsDesc'', SText), (''tipsContent1'', SText), (''tipsContent2'', SText),
     (''tipsContent3'', SText), (''tipsContent4'', SText), (''tipsContent5'', SText), (''marketplace'', SText), (''marketplaceDesc'', SText),
     (''marketplaceContent1'', SText), (''marketplaceContent2'', SText), (''marketplaceContent3'', SText), (''marketplaceContent4'', SText),
     (''marketplaceContent5'', SText), (''spamAppeal'', SText), (''spamAppealDesc'', SText), (''spamAppealContent1'', SText),
     (''spamAppealContent2'', SText), (''spamAppealContent3'', SText), (''spamAppealContent4'', SText), (''autoJoin'', SText), (''autoJoinDesc'', SText),
     (''autoJoinContent1'', SText), (''autoJoinContent2'', SText), (''autoJoinContent3'', SText), (''autoJoinContent4'', SText),
     (''autoJoinContent5'', SText), (''smmOrders'', SText), (''smmOrdersDesc'', SText), (''smmOrdersContent1'', SText), (''smmOrdersContent2'', SText),
     (''smmOrdersContent3'', SText), (''smmOrdersContent4'', SText), (''smmOrdersContent5'', SText), (''billing'', SText), (''billingDesc'', SText),
     (''billingContent1'', SText), (''billingContent2'', SText), (''billingContent3'', SText), (''billingContent4'', SText), (''billingContent5'', SText),
     (''stillStuck'', SText), (''stillStuckDesc'', SText), (''searchLabel'', SText), (''searchPlaceholder'', SText), (''apiTitle'', SText),
     (''apiDescription'', SText), (''noResults'', SText), (''clearSearch'', SText), (''articleCount'', SText), (''githubIssues'', SText),
     (''contactSupport'', SText), (''topicNotFound'', SText), (''topicNotFoundDesc'', SText), (''backToHelp'', SText), (''previous'', SText),
     (''next'', SText), (''developerResources'', SText), (''apiHeroTitle'', SText), (''apiHeroDesc'', SText), (''openDocs'', SText),
     (''downloadOpenApi'', SText), (''secureTitle'', SText), (''secureDesc'', SText), (''scopedTitle'', SText), (''scopedDesc'', SText),
     (''versionedTitle'', SText), (''versionedDesc'', SText), (''authWarningTitle'', SText), (''authWarningDesc'', SText), (''serverExample'', SText),
     (''aiSupport'', SText), (''aiSupportTitle'', SText), (''aiSupportOnline'', SText), (''aiSupportOffline'', SText), (''aiSupportGuest'', SText),
     (''aiSupportGuestDesc'', SText), (''aiSupportUser'', SText), (''aiSupportPlaceholder'', SText), (''aiSupportSend'', SText),
     (''aiSupportEscalate'', SText), (''aiSupportEscalateDesc'', SText), (''aiSupportEscalateBtn'', SText), (''aiSupportEscalateSuccess'', SText),
     (''aiSupportRecentOrders'', SText), (''aiSupportOrderDetails'', SText), (''aiSupportNeedHelp'', SText), (''aiSupportDisclaimer'', SText),
     (''aiSupportClearChat'', SText), (''aiSupportTicketCreated'', SText)]"

definition Dict_landing_1 :: "(string \<times> shape) list" where
  "Dict_landing_1 = [
     (''loading'', SText), (''navHome'', SText), (''navFeatures'', SText), (''navWorkflow'', SText), (''navPrivacy'', SText), (''navTos'', SText),
     (''getStarted'', SText), (''signIn'', SText), (''heroOverline'', SText), (''heroTitle'', SText), (''heroSubtitle'', SText), (''heroCta'', SText),
     (''heroSecondary'', SText), (''statAccounts'', SText), (''statServices'', SText), (''statPillars'', SText), (''heroProof'', SText),
     (''proofAccounts'', SText), (''proofBroadcast'', SText), (''proofChat'', SText), (''proofAutomation'', SText), (''proofMonitoring'', SText),
     (''surfaceIllustrative'', SText), (''surfaceReady'', SText), (''surfaceConnected'', SText), (''surfaceQueued'', SText), (''surfacePacing'', SText),
     (''surfaceDelivered'', SText), (''surfaceUnread'', SText), (''surfaceAssigned'', SText), (''surfaceEnabled'', SText), (''surfaceMatched'', SText),
     (''surfaceRunning'', SText), (''surfaceComplete'', SText), (''surfaceAttention'', SText), (''surfaceAccount'', SText), (''surfaceTargets'', SText),
     (''surfaceDelay'', SText), (''surfaceProgress'', SText), (''surfaceRule'', SText), (''surfaceNextAction'', SText), (''sculptureAccounts'', SText),
     (''sculptureQueue'', SText), (''sculptureChats'', SText), (''sculptureRules'', SText), (''storyProblemKicker'', SText),
     (''storyProblemTitle'', SText), (''storyProblemDesc'', SText), (''storyProblemPoint1'', SText), (''storyProblemPoint2'', SText),
     (''storyProblemPoint3'', SText), (''storyConsequenceKicker'', SText), (''storyConsequenceTitle'', SText), (''storyConsequenceDesc'', SText),
     (''storySolutionKicker'', SText), (''storySolutionTitle'', SText), (''storySolutionDesc'', SText), (''flowKicker'', SText), (''flowTitle'', SText),
     (''flowSubtitle'', SText), (''flowOverloadTitle'', SText), (''flowOverloadDesc'', SText), (''flowFragmentedTitle'', SText),
     (''flowFragmentedDesc'', SText), (''flowControlTitle'', SText), (''flowControlDesc'', SText), (''flowAutomatedTitle'', SText),
     (''flowAutomatedDesc'', SText), (''flowActionTitle'', SText), (''flowActionDesc'', SText), (''flowNodeAccounts'', SText),
     (''flowNodeMessages'', SText), (''flowNodeAutomation'', SText), (''flowNodeControl'', SText), (''flowNodeAction'', SText),
     (''flowStatusIncoming'', SText), (''flowStatusFragmented'', SText), (''flowStatusUnified'', SText), (''flowStatusRunning'', SText),
     (''flowStatusComplete'', SText), (''flowExpandLabel'', SText), (''flowCollapseLabel'', SText), (''slabKicker'', SText), (''slabTitle'', SText),
     (''slabSubtitle'', SText), (''slabAccountsTitle'', SText), (''slabAccountsDesc'', SText), (''slabBroadcastTitle'', SText),
     (''slabBroadcastDesc'', SText), (''slabChatTitle'', SText), (''slabChatDesc'', SText), (''slabAutomationTitle'', SText),
     (''slabAutomationDesc'', SText), (''slabMonitorTitle'', SText), (''slabMonitorDesc'', SText), (''slabVisualSignal'', SText),
     (''slabVisualControl'', SText), (''slabVisualVisible'', SText), (''slabVisualQueue'', SText), (''slabVisualDelay'', SText),
     (''slabVisualDeliver'', SText), (''slabVisualTrigger'', SText), (''slabVisualRule'', SText), (''slabVisualAction'', SText),
     (''outcomeAccountsTitle'', SText), (''outcomeAccountsDesc'', SText), (''outcomeBroadcastTitle'', SText), (''outcomeBroadcastDesc'', SText),
     (''outcomeVisibilityTitle'', SText), (''outcomeVisibilityDesc'', SText), (''capabilitiesTitle'', SText), (''capabilitiesSubtitle'', SText),
     (''capabilityAccountsTitle'', SText), (''capabilityAccountsDesc'', SText), (''capabilityAccountsPoint1'', SText),
     (''capabilityAccountsPoint2'', SText), (''capabilityAccountsPoint3'', SText), (''capabilityBroadcastTitle'', SText),
     (''capabilityBroadcastDesc'', SText), (''capabilityBroadcastPoint1'', SText), (''capabilityBroadcastPoint2'', SText),
     (''capabilityBroadcastPoint3'', SText), (''capabilityAutomationTitle'', SText), (''capabilityAutomationDesc'', SText),
     (''capabilityAutomationPoint1'', SText), (''capabilityAutomationPoint2'', SText), (''capabilityAutomationPoint3'', SText),
     (''workflowTitle'', SText), (''workflowSubtitle'', SText), (''workflowConnectTitle'', SText), (''workflowConnectDesc'', SText),
     (''workflowConfigureTitle'', SText), (''workflowConfigureDesc'', SText), (''workflowOperateTitle'', SText), (''workflowOperateDesc'', SText),
     (''workflowReviewTitle'', SText), (''workflowReviewDesc'', SText), (''trustKicker'', SText), (''trustTitle'', SText), (''trustDesc'', SText),
     (''trustPoint1'', SText), (''trustPoint2'', SText), (''trustPoint3'', SText), (''trustPoint4'', SText), (''infraKicker'', SText),
     (''infraTitle'', SText), (''infraDesc'', SText)]"

definition Dict_landing_2 :: "(string \<times> shape) list" where
  "Dict_landing_2 = [
     (''infraDomainsTitle'', SText), (''infraServicesTitle'', SText), (''infraRuntimeTitle'', SText), (''infraStatusStable'', SText),
     (''infraStatusReverse'', SText), (''infraFeaturesTitle'', SText), (''infraFeaturesDesc'', SText), (''infraCtaTitle'', SText),
     (''infraCtaDesc'', SText), (''infraCtaSecondary'', SText), (''infraTrust1Title'', SText), (''infraTrust1Desc'', SText),
     (''infraTrust2Title'', SText), (''infraTrust2Desc'', SText), (''infraTrust3Title'', SText), (''infraTrust3Desc'', SText), (''ctaKicker'', SText),
     (''ctaTitle'', SText), (''ctaSubtitle'', SText), (''ctaButton'', SText), (''footerDescription'', SText), (''footerProduct'', SText),
     (''footerHelp'', SText), (''footerLegal'', SText), (''footerTelegram'', SText), (''footerCopyright'', SText)]"

definition Dict_landing :: shape where
  "Dict_landing = SGroup (Dict_landing_1 @ Dict_landing_2)"

definition Dict_privacy :: shape where
  "Dict_privacy = SGroup [
     (''title'', SText), (''lastUpdated'', SText), (''intro'', SText), (''section1Title'', SText), (''section1Desc'', SText), (''section2Title'', SText),
     (''section2Desc'', SText), (''section3Title'', SText), (''section3Desc'', SText), (''section4Title'', SText), (''section4Desc'', SText),
     (''section5Title'', SText), (''section5Desc'', SText), (''section6Title'', SText), (''section6Desc'', SText)]"

definition Dict_tos :: shape where
  "Dict_tos = SGroup [
     (''title'', SText), (''lastUpdated'', SText), (''intro'', SText), (''section1Title'', SText), (''section1Desc'', SText), (''section2Title'', SText),
     (''section2Desc'', SText), (''section3Title'', SText), (''section3Desc'', SText), (''section4Title'', SText), (''section4Desc'', SText),
     (''section5Title'', SText), (''section5Desc'', SText), (''section6Title'', SText), (''section6Desc'', SText), (''section7Title'', SText),
     (''section7Desc'', SText)]"

definition Dict_announcement :: shape where
  "Dict_announcement = SGroup [
     (''loading'', SText), (''telegramDown'', SText), (''telegramDegraded'', SText), (''telegramUp'', SText), (''unknown'', SText)]"

definition Dict_contacts :: shape where
  "Dict_contacts = SGroup [
     (''title'', SText), (''selectAccount'', SText), (''search'', SText), (''totalContacts'', SText), (''noAccounts'', SText), (''failedToLoad'', SText),
     (''retry'', SText), (''noContacts'', SText), (''prev'', SText), (''page'', SText), (''next'', SText), (''selectContact'', SText),
     (''selectContactDesc'', SText), (''phone'', SText), (''username'', SText), (''about'', SText), (''mutual'', SText), (''notMutual'', SText),
     (''commonChats'', SText), (''unknown'', SText), (''delete'', SText), (''deleteConfirm'', SText), (''contactsCount'', SText), (''chat'', SText),
     (''sendMessage'', SText), (''importContacts'', SText), (''importContactsDesc'', SText), (''exportContacts'', SText), (''exportContactsDesc'', SText),
     (''bulkInput'', SText), (''uploadFile'', SText), (''importSuccess'', SText), (''importing'', SText), (''exporting'', SText), (''accountAge'', SText),
     (''spamStatus'', SText), (''clean'', SText), (''limited'', SText)]"

definition Dict_invite :: shape where
  "Dict_invite = SGroup [
     (''title'', SText), (''desc'', SText), (''navLabel'', SText), (''newInvite'', SText), (''inviteHistory'', SText), (''inviteLogs'', SText),
     (''destination'', SText), (''destinationPlaceholder'', SText), (''destinationType'', SText), (''typeUsername'', SText), (''typeLink'', SText),
     (''typeGroupId'', SText), (''sourceGroups'', SText), (''sourceGroupsDesc'', SText), (''addSource'', SText), (''sourcePlaceholder'', SText),
     (''delayPerInvite'', SText), (''delayPerInviteSuffix'', SText), (''delayPerBatch'', SText), (''delayPerBatchSuffix'', SText), (''batchSize'', SText),
     (''batchSizeSuffix'', SText), (''account'', SText), (''accountPlaceholder'', SText), (''startInvite'', SText), (''starting'', SText),
     (''failedToStart'', SText), (''progress'', SText), (''totalMembers'', SText), (''invited'', SText), (''alreadyMember'', SText), (''failed'', SText),
     (''skipped'', SText), (''pause'', SText), (''resume'', SText), (''stop'', SText), (''stopConfirm'', SText), (''live'', SText), (''scraping'', SText),
     (''inviting'', SText), (''phaseScraping'', SText), (''phaseInviting'', SText), (''noJobs'', SText), (''startNew'', SText), (''date'', SText),
     (''status'', SText), (''actions'', SText), (''retry'', SText), (''delete'', SText), (''deleteConfirm'', SText), (''viewLogs'', SText),
     (''selectJob'', SText), (''allStatuses'', SText), (''success'', SText), (''error'', SText), (''noEntries'', SText), (''selectJobToView'', SText),
     (''colUser'', SText), (''colUsername'', SText), (''colSource'', SText), (''colStatus'', SText), (''colErrorType'', SText),
     (''colErrorMessage'', SText), (''colTime'', SText), (''selectAccounts'', SText), (''selected'', SText), (''selectAll'', SText),
     (''deselectAll'', SText), (''searchAccountsPlaceholder'', SText), (''noActiveAccounts'', SText), (''destUsernameLabel'', SText),
     (''destLinkLabel'', SText), (''destGroupIdLabel'', SText), (''sourcesAdded'', SText), (''delaysConfig'', SText), (''colAccount'', SText),
     (''historyDesc'', SText), (''logsDesc'', SText), (''searchLogsPlaceholder'', SText), (''metricTotalTasks'', SText), (''metricRunning'', SText),
     (''metricCompleted'', SText), (''metricTotalInvited'', SText), (''target'', SText), (''floodWait'', SText), (''peerFlood'', SText),
     (''privacyRestricted'', SText), (''of'', SText)]"

definition Dict_orders_1 :: "(string \<times> shape) list" where
  "Dict_orders_1 = [
     (''title'', SText), (''desc'', SText), (''newOrder'', SText), (''massOrder'', SText), (''history'', SText), (''services'', SText),
     (''selectService'', SText), (''dataTarget'', SText), (''dataTargetPlaceholder'', SText), (''invalidTarget'', SText), (''quantity'', SText),
     (''price'', SText), (''totalPrice'', SText), (''placeOrder'', SText), (''placingOrder'', SText), (''orderPlaced'', SText), (''orderFailed'', SText),
     (''status'', SText), (''date'', SText), (''refreshStatus'', SText), (''refreshAll'', SText), (''noOrders'', SText), (''startOrdering'', SText),
     (''category'', SText), (''telegramOnly'', SText), (''allServices'', SText), (''serviceName'', SText), (''min'', SText), (''max'', SText),
     (''note'', SText), (''speed'', SText), (''searchService'', SText), (''addMore'', SText), (''remove'', SText), (''totalAll'', SText),
     (''insufficientBalance'', SText), (''yourBalance'', SText), (''topUp'', SText), (''massOrderDesc'', SText), (''refreshSuccess'', SText),
     (''buyAccounts'', SText), (''sellAccounts'', SText), (''sellAccount'', SText), (''buyDesc'', SText), (''sellDesc'', SText),
     (''escrowExchange'', SText), (''liveCustodyPool'', SText), (''automatedAppraisal'', SText), (''liquidationDesk'', SText),
     (''totalReadyStock'', SText), (''verifiedSessions'', SText), (''startingFrom'', SText), (''regionalPricing'', SText), (''coverage'', SText),
     (''globalPrefixes'', SText), (''escrowProtection'', SText), (''escrowWarranty'', SText), (''active'', SText), (''filterByCountry'', SText),
     (''allCountries'', SText), (''searchBuyPlaceholder'', SText), (''searchSellPlaceholder'', SText), (''spamAll'', SText), (''cleanOnly'', SText),
     (''twofaAll'', SText), (''twofaDisabled'', SText), (''twofaRequired'', SText), (''sortLowestPrice'', SText), (''sortHighestPrice'', SText),
     (''sortMostContacts'', SText), (''resetFilter'', SText), (''showingAccounts'', SText), (''cleanSpam'', SText), (''riskSpam'', SText),
     (''uncheckedSpam'', SText), (''accountAge'', SText), (''newSession'', SText), (''resaleAsset'', SText), (''personalSession'', SText),
     (''contactsCount'', SText), (''registeredDate'', SText), (''verifiedMtproto'', SText), (''telebosEscrow'', SText), (''verifiedSellerPool'', SText),
     (''needsMoreBalance'', SText), (''buyNow'', SText), (''clearFilters'', SText), (''noMatchingAccounts'', SText), (''noStockCategory'', SText),
     (''adjustFiltersHint'', SText), (''soldOutHint'', SText), (''confirmBuyAccountTitle'', SText), (''confirmBuyAccountSubtitle'', SText),
     (''unitPrice'', SText), (''verificationFee'', SText), (''feeWaived'', SText), (''totalDeducted'', SText), (''warrantyNotice'', SText),
     (''confirmAndPay'', SText), (''cancel'', SText), (''purchaseSuccessTitle'', SText), (''accountTransferredTitle'', SText),
     (''credentialsDesc'', SText), (''phoneNumber'', SText), (''username'', SText), (''fullName'', SText), (''copy'', SText), (''copied'', SText),
     (''downloadSession'', SText), (''goToAccounts'', SText), (''close'', SText), (''estimatedValue'', SText), (''potentialPayout'', SText),
     (''settlementRail'', SText), (''instantPayout'', SText), (''directWalletCredit'', SText), (''pricingNoticeTitle'', SText),
     (''escrowNoticeBadge'', SText), (''ruleDynamicTitle'', SText), (''ruleDynamicDesc'', SText), (''ruleDeferredTitle'', SText),
     (''ruleDeferredDesc'', SText), (''ruleCustodyTitle'', SText), (''ruleCustodyDesc'', SText), (''accountExpiredCannotSell'', SText),
     (''accountExpiredCannotSellDesc'', SText), (''accountsEligibleCount'', SText), (''selectedCount'', SText), (''selectAllAvailable'', SText),
     (''clearSelection'', SText), (''accountIdentity'', SText), (''appraisedPayout'', SText), (''noSellableAccountsTitle'', SText),
     (''noSellableAccountsDesc'', SText), (''goToAccountsHub'', SText), (''selectedLabel'', SText), (''totalPayoutLabel'', SText),
     (''sellSelectedBtn'', SText), (''confirmSellModalTitle'', SText), (''confirmSellModalSubtitle'', SText), (''listingSummary'', SText),
     (''accountQuantity'', SText), (''estimatedPayoutTotal'', SText), (''sellAgreementNotice'', SText), (''confirmListingBtn'', SText),
     (''itemizedValuation'', SText), (''sellAgreementDialogNotice'', SText)]"

definition Dict_orders_2 :: "(string \<times> shape) list" where
  "Dict_orders_2 = [
     (''deferredSettlementDesc'', SText), (''settledHint'', SText), (''accountAgeCol'', SText), (''spamHealthCol'', SText), (''unnamedAccount'', SText),
     (''unableToLoadAccounts'', SText), (''errorInventory'', SText), (''orderFulfilled'', SText), (''purchaseFailed'', SText),
     (''continueShopping'', SText), (''manageInMyAccounts'', SText), (''autoReplacementDesc'', SText), (''resale'', SText), (''personal'', SText),
     (''clean'', SText), (''limited'', SText), (''cleanSpamBotOnly'', SText), (''unableToLoadEligible'', SText), (''errorFetchingEligible'', SText),
     (''accountsListedSuccess'', SText), (''submissionFailed'', SText), (''saleStatusNeedsConfirmation'', SText), (''saleStatusUnknownDesc'', SText),
     (''readyStock'', SText), (''balanceToReceive'', SText), (''pricePerAccount'', SText), (''eligibleAccounts'', SText), (''noEligibleAccounts'', SText),
     (''confirmSellTitle'', SText), (''confirmSellMsg'', SText), (''confirmBuyTitle'', SText), (''confirmBuyMsg'', SText), (''buySuccess'', SText),
     (''sellSuccess'', SText), (''twoFaStatus'', SText), (''recoveryEmail'', SText), (''available'', SText), (''unavailable'', SText),
     (''sellPrice'', SText), (''buyPrice'', SText), (''cancelSell'', SText), (''confirmCancelSellTitle'', SText), (''confirmCancelSellMsg'', SText),
     (''cancelSellSuccess'', SText), (''forSaleAlertTitle'', SText), (''forSaleAlertDesc'', SText), (''accountHistory'', SText), (''smmHistory'', SText),
     (''notificationCreatedTitle'', SText), (''notificationCreatedMessage'', SText), (''notificationMassCreatedTitle'', SText),
     (''notificationMassCreatedMessage'', SText), (''notificationFailedTitle'', SText), (''notificationFailedMessage'', SText),
     (''notificationStatusChangedTitle'', SText), (''notificationStatusChangedMessage'', SText), (''notificationRefreshFailedTitle'', SText),
     (''notificationRefreshFailedMessage'', SText), (''notificationSellListedTitle'', SText), (''notificationSellListedSingleTitle'', SText),
     (''notificationSellListedMessage'', SText), (''notificationSellListedSingleMessage'', SText), (''notificationSellPendingTitle'', SText),
     (''notificationSellPendingMessage'', SText), (''notificationSellFailedTitle'', SText), (''notificationSellFailedMessage'', SText),
     (''notificationBuySuccessTitle'', SText), (''notificationBuySuccessMessage'', SText), (''notificationBuySuccessDetailedMessage'', SText),
     (''notificationBuyFailedTitle'', SText), (''notificationBuyFailedMessage'', SText), (''notificationSellCanceledTitle'', SText),
     (''notificationSellCanceledMessage'', SText), (''notificationSellCancelFailedTitle'', SText), (''notificationSellCancelFailedMessage'', SText),
     (''notificationSaleSuccessTitle'', SText), (''notificationSaleSuccessMessage'', SText), (''notificationSaleSuccessWithAmountMessage'', SText),
     (''notificationListingInvalidTitle'', SText), (''notificationListingInvalidMessage'', SText)]"

definition Dict_orders :: shape where
  "Dict_orders = SGroup (Dict_orders_1 @ Dict_orders_2)"

definition Dict_adminSmm :: shape where
  "Dict_adminSmm = SGroup [
     (''overview'', SText), (''services'', SText), (''allOrders'', SText), (''settings'', SText)]"

definition Dict_smmOrderManager :: shape where
  "Dict_smmOrderManager = SGroup [
     (''nav'', SGroup [(''members'', SText), (''membersTag'', SText), (''reactions'', SText), (''reactionsTag'', SText), (''autoReactions'', SText), (''autoReactionsTag'', SText), (''postViews'', SText), (''postViewsTag'', SText), (''autoPostViews'', SText), (''autoPostViewsTag'', SText), (''history'', SText), (''historyTag'', SText)]),
     (''serverActive'', SText), (''activeServices'', SText), (''options'', SText), (''allTestedConnected'', SText), (''startingPrice'', SText),
     (''cheapestRate'', SText), (''averageSpeed'', SText), (''autoProcessed'', SText), (''systemStatus'', SText), (''cloudEngine'', SText),
     (''searchPlaceholder'', SText), (''sortBy'', SText), (''sortDefault'', SText), (''sortPriceAsc'', SText), (''sortPriceDesc'', SText),
     (''sortSpeed'', SText), (''sortMinAsc'', SText), (''allSubcategories'', SText), (''showingServices'', SText), (''of'', SText), (''services'', SText),
     (''resetSearch'', SText), (''loadErrorTitle'', SText), (''loadErrorDesc'', SText), (''emptyTitle'', SText), (''emptyDesc'', SText),
     (''minOrder'', SText), (''maxOrder'', SText), (''processingSpeed'', SText), (''completedBadge'', SText), (''showInstructions'', SText),
     (''hideInstructions'', SText), (''targetFormat'', SText), (''pricePerThousand'', SText), (''orderNow'', SText), (''minLimit'', SText),
     (''maxLimit'', SText), (''ratePer1k'', SText), (''quantityLimit'', SText), (''commentsOptional'', SText), (''commentsPlaceholder'', SText),
     (''unitRate'', SText), (''quantityLabel'', SText), (''estimatedTotal'', SText), (''sufficientBalance'', SText), (''insufficientBalanceMsg'', SText),
     (''yourBalance'', SText), (''cancel'', SText), (''confirmOrder'', SText), (''processing'', SText), (''minOrderToast'', SText),
     (''maxOrderToast'', SText), (''orderSuccessToast'', SText), (''orderErrorFallback'', SText)]"

definition Dict_orderServices :: shape where
  "Dict_orderServices = SGroup [
     (''autoReactions'', SGroup [(''title'', SText), (''desc'', SText), (''targetPlaceholder'', SText), (''targetHelper'', SText), (''targetExample'', SText)]),
     (''postViews'', SGroup [(''title'', SText), (''desc'', SText), (''targetPlaceholder'', SText), (''targetHelper'', SText), (''targetExample'', SText)]),
     (''members'', SGroup [(''title'', SText), (''desc'', SText), (''targetPlaceholder'', SText), (''targetHelper'', SText), (''targetExample'', SText)]),
     (''reactions'', SGroup [(''title'', SText), (''desc'', SText), (''targetPlaceholder'', SText), (''targetHelper'', SText), (''targetExample'', SText)]),
     (''autoPostViews'', SGroup [(''title'', SText), (''desc'', SText), (''targetPlaceholder'', SText), (''targetHelper'', SText), (''targetExample'', SText)])]"

definition Dict_admin :: shape where
  "Dict_admin = SGroup [
     (''title'', SText), (''desc'', SText), (''overview'', SText), (''analytics'', SText), (''userAnalytics'', SText),
     (''telegramAccountAnalytics'', SText), (''automationAnalytics'', SText), (''financialAnalytics'', SText), (''systemHealthAnalytics'', SText),
     (''securityAnalytics'', SText), (''dashboard'', SText), (''dashboardDesc'', SText), (''platformOverview'', SText), (''smmProviderStatus'', SText),
     (''controlDeck'', SText), (''healthAndDistribution'', SText), (''accountDistribution'', SText), (''userDistribution'', SText),
     (''refreshData'', SText), (''systemOperational'', SText), (''accessDenied'', SText), (''accessDeniedDesc'', SText), (''backToDashboard'', SText),
     (''sellingAccounts'', SText), (''users'', SText), (''userManagement'', SText), (''balanceManagement'', SText), (''totalUsers'', SText),
     (''totalBroadcastJobs'', SText), (''totalInviteJobs'', SText), (''totalAutoReplyJobs'', SText), (''totalAccountsConnected'', SText),
     (''searchUsers'', SText), (''email'', SText), (''fullName'', SText), (''role'', SText), (''balance'', SText), (''orders'', SText),
     (''actions'', SText), (''addBalance'', SText), (''deductBalance'', SText), (''updateRole'', SText), (''changeToPremium'', SText),
     (''changeToPro'', SText), (''changeToBasic'', SText), (''amount'', SText), (''amountPlaceholder'', SText), (''confirmAddBalance'', SText),
     (''confirmDeductBalance'', SText), (''userNotFound'', SText), (''balanceUpdated'', SText), (''roleUpdated'', SText), (''changeToOwner'', SText),
     (''deleteUser'', SText), (''deleteConfirm'', SText), (''totalRedeemCodes'', SText), (''totalRedeemed'', SText), (''manageBroadcasts'', SText),
     (''broadcastsDesc'', SText), (''pauseAllRunning'', SText), (''stopAllRunning'', SText), (''clearFinished'', SText), (''pauseJob'', SText),
     (''resumeJob'', SText), (''stopJob'', SText), (''deleteJob'', SText), (''pauseConfirm'', SText), (''resumeConfirm'', SText),
     (''stopConfirm'', SText), (''deleteJobConfirm'', SText), (''bulkPauseConfirm'', SText), (''bulkStopConfirm'', SText), (''bulkClearConfirm'', SText),
     (''manageAutoReplies'', SText), (''autoRepliesDesc'', SText), (''connectedAccounts'', SText), (''activeAccounts'', SText),
     (''expiredAccounts'', SText), (''limitedAccounts'', SText), (''broadcastRunning'', SText), (''broadcastFinished'', SText),
     (''broadcastFailed'', SText), (''broadcastTotal'', SText), (''userDetails'', SText), (''userOverview'', SText), (''accountHealth'', SText),
     (''broadcastStats'', SText), (''accountPrices'', SText), (''transactions'', SText), (''systemConfig'', SText), (''onboarding'', SText),
     (''onboardingTitle'', SText), (''onboardingSubtitle'', SText)]"

definition Dict_wallet_1 :: "(string \<times> shape) list" where
  "Dict_wallet_1 = [
     (''title'', SText), (''desc'', SText), (''currentBalance'', SText), (''balanceHint'', SText), (''topUp'', SText), (''withdraw'', SText),
     (''topupInstruction'', SText), (''accountName'', SText), (''copyAccount'', SText), (''placeholderWarning'', SText),
     (''placeholderWarningDesc'', SText), (''copied'', SText), (''copyFailed'', SText), (''amount'', SText), (''quickAmount'', SText),
     (''destinationMethod'', SText), (''bankTransfer'', SText), (''ewallet'', SText), (''transferRef'', SText), (''accountRef'', SText),
     (''optional'', SText), (''insufficient'', SText), (''minimum'', SText), (''submitTopup'', SText), (''submitWithdraw'', SText),
     (''manualNotice'', SText), (''history'', SText), (''pending'', SText), (''noRequests'', SText), (''needHelp'', SText), (''contactSupport'', SText),
     (''topupSubmitted'', SText), (''withdrawSubmitted'', SText),
     (''status'', SGroup [(''pending'', SText), (''approved'', SText), (''rejected'', SText)]), (''createPayment'', SText), (''downloadQr'', SText),
     (''downloadQrSuccess'', SText), (''qrisNotice'', SText), (''qrisBadge'', SText), (''expiresIn'', SText), (''iHavePaid'', SText),
     (''verifyingPayment'', SText), (''cancelPayment'', SText), (''invoiceId'', SText), (''paymentStepsTitle'', SText), (''paymentStep1'', SText),
     (''paymentStep2'', SText), (''paymentStep3'', SText), (''paymentStep4'', SText), (''changeAmount'', SText), (''qrisSupported'', SText),
     (''paymentConfirmed'', SText), (''allTransactions'', SText), (''deposits'', SText), (''withdrawals'', SText), (''allStatus'', SText),
     (''searchPlaceholder'', SText), (''transactionDetails'', SText), (''selectSavedAccount'', SText), (''useManualAccount'', SText),
     (''manageBankAccounts'', SText), (''totalDeposits'', SText), (''totalWithdrawals'', SText), (''noMatchingTransactions'', SText), (''close'', SText),
     (''depositAmount'', SText), (''withdrawAmount'', SText), (''transactionId'', SText), (''transactionType'', SText), (''depositType'', SText),
     (''withdrawType'', SText), (''methodProvider'', SText), (''noteAccount'', SText), (''adminFee'', SText), (''adminFeeFree'', SText),
     (''transactionTime'', SText), (''statusExplanationPending'', SText), (''statusExplanationApproved'', SText), (''statusExplanationRejected'', SText),
     (''qrProcessError'', SText), (''qrDownloadError'', SText), (''paymentRecordedToast'', SText), (''topupFailedToast'', SText),
     (''withdrawFailedToast'', SText), (''notificationTopupCreatedTitle'', SText), (''notificationTopupCreatedMessage'', SText),
     (''notificationTopupApprovedTitle'', SText), (''notificationTopupApprovedMessage'', SText), (''notificationTopupRejectedTitle'', SText),
     (''notificationTopupRejectedMessage'', SText), (''notificationWithdrawCreatedTitle'', SText), (''notificationWithdrawCreatedMessage'', SText),
     (''notificationWithdrawApprovedTitle'', SText), (''notificationWithdrawApprovedMessage'', SText), (''notificationWithdrawRejectedTitle'', SText),
     (''notificationWithdrawRejectedMessage'', SText), (''withdrawOtpTitle'', SText), (''withdrawOtpDesc'', SText), (''withdrawOtpSent'', SText),
     (''withdrawOtpLabel'', SText), (''withdrawOtpPlaceholder'', SText), (''withdrawOtpResend'', SText), (''withdrawOtpResendIn'', SText),
     (''withdrawOtpConfirm'', SText), (''withdrawOtpSending'', SText), (''notificationAdminAdjustmentTitle'', SText),
     (''notificationAdminAdjustmentMessage'', SText), (''notificationRedeemSuccessTitle'', SText), (''notificationRedeemSuccessMessage'', SText),
     (''paymentPendingToast'', SText), (''paymentCheckFailed'', SText), (''totalTransferBill'', SText), (''includesUniqueCode'', SText),
     (''copyAmountTitle'', SText), (''uniqueCodeNotice'', SText), (''nationalPaymentStandard'', SText), (''checkingStatus'', SText),
     (''checkPaymentStatus'', SText), (''autoCheckNotice'', SText), (''supportsLabel'', SText), (''selectDestinationAccount'', SText),
     (''defaultBadge'', SText), (''noSavedAccountsDesc'', SText), (''addAccount'', SText), (''topupNotice'', SText), (''withdrawalAccountsTitle'', SText),
     (''manage'', SText), (''accountHolderPrefix'', SText), (''noSavedAccountsShort'', SText), (''addAccountInSettings'', SText),
     (''savedAccountsHint'', SText), (''transactionTermsTitle'', SText), (''termQrisFree'', SText), (''termWithdrawSpeed'', SText),
     (''termMinimumLimit'', SText), (''needHelpShort'', SText), (''historySubtitle'', SText), (''resetFilter'', SText),
     (''showingTransactionsCount'', SText), (''modalTransferBillNotice'', SText), (''openQrisPayment'', SText), (''yourEmail'', SText),
     (''withdrawOtpSentSimple'', SText)]"

definition Dict_wallet_2 :: "(string \<times> shape) list" where
  "Dict_wallet_2 = [
     (''withdrawOtpRequestFailed'', SText), (''otpResentSuccess'', SText), (''otpResendFailed'', SText), (''invoiceNotFound'', SText),
     (''invoiceNotFoundDesc'', SText), (''backToWallet'', SText), (''paymentStatusLabel'', SText), (''waitingForPayment'', SText),
     (''successful'', SText), (''cancelled'', SText), (''saveQrCode'', SText), (''back'', SText), (''checkPayment'', SText),
     (''invoiceTotalPaid'', SText), (''completionTime'', SText), (''viewWallet'', SText), (''cancelledExpiredTitle'', SText),
     (''cancelledExpiredDesc'', SText), (''invoiceSubscriptionTitle'', SText), (''invoiceSubscriptionSubtitle'', SText),
     (''invoiceSubscriptionSuccessTitle'', SText), (''invoiceSubscriptionSuccessDesc'', SText), (''invoiceSubscriptionCta'', SText),
     (''invoiceSmmTitle'', SText), (''invoiceSmmSubtitle'', SText), (''invoiceSmmSuccessTitle'', SText), (''invoiceSmmSuccessDesc'', SText),
     (''invoiceSmmCta'', SText), (''invoiceMarketplaceTitle'', SText), (''invoiceMarketplaceSubtitle'', SText),
     (''invoiceMarketplaceSuccessTitle'', SText), (''invoiceMarketplaceSuccessDesc'', SText), (''invoiceMarketplaceCta'', SText),
     (''invoiceTopupTitle'', SText), (''invoiceTopupSubtitle'', SText), (''invoiceTopupSuccessTitle'', SText), (''invoiceTopupSuccessDesc'', SText),
     (''invoiceTopupCta'', SText)]"

definition Dict_wallet :: shape where
  "Dict_wallet = SGroup (Dict_wallet_1 @ Dict_wallet_2)"

definition Dict_pricing :: shape where
  "Dict_pricing = SGroup [
     (''kicker'', SText), (''title'', SText), (''subtitle'', SText), (''perMonth'', SText), (''perYear'', SText), (''saveDiscount'', SText),
     (''monthly'', SText), (''yearly'', SText), (''equivalentMonthly'', SText),
     (''cta'', SGroup [(''freetrial'', SText), (''basic'', SText), (''pro'', SText), (''premium'', SText)]), (''currentPlan'', SText),
     (''popular'', SText), (''headers'', SGroup [(''freetrial'', SText), (''basic'', SText), (''pro'', SText), (''premium'', SText)]),
     (''desc'', SGroup [(''freetrial'', SText), (''basic'', SText), (''pro'', SText), (''premium'', SText)]),
     (''footnote'', SGroup [(''freetrial'', SText), (''basic'', SText), (''pro'', SText), (''premium'', SText)]),
     (''compare'', SGroup [(''title'', SText), (''subtitle'', SText), (''limits'', SText), (''rows'', SGroup [(''accounts'', SText), (''broadcast'', SText), (''autoReply'', SText), (''scheduling'', SText), (''scrape'', SText), (''autoJoin'', SText), (''proxy'', SText), (''appeals'', SText), (''queue'', SText), (''support'', SText)]), (''values'', SGroup [(''free'', SText), (''upTo3'', SText), (''upTo5'', SText), (''unlimited'', SText), (''no'', SText), (''yes'', SText), (''included'', SText), (''standard'', SText), (''best'', SText), (''hours'', SText)])]),
     (''faq'', SGroup [(''title'', SText), (''items'', SGroup [(''payment'', SGroup [(''q'', SText), (''a'', SText)]), (''upgrade'', SGroup [(''q'', SText), (''a'', SText)]), (''cancel'', SGroup [(''q'', SText), (''a'', SText)]), (''spam'', SGroup [(''q'', SText), (''a'', SText)])])]),
     (''ctaBand'', SGroup [(''title'', SText), (''body'', SText), (''action'', SText)])]"

definition Dict_subscription :: shape where
  "Dict_subscription = SGroup [
     (''title'', SText), (''desc'', SText), (''currentPlan'', SText), (''expiresAt'', SText), (''daysRemaining'', SText), (''features'', SText),
     (''planBasic'', SText), (''planPro'', SText), (''planPremium'', SText), (''planOwner'', SText), (''lifetime'', SText), (''noSubscription'', SText),
     (''active'', SText), (''expired'', SText), (''featureAccounts'', SText), (''featureBroadcast'', SText), (''featureInvite'', SText),
     (''featureAutoReply'', SText), (''featureChat'', SText), (''featureContacts'', SText), (''featurePriority'', SText), (''upgradePlans'', SText),
     (''redeemBtn'', SText), (''perMonth'', SText), (''basicDesc'', SText), (''proDesc'', SText), (''premiumDesc'', SText), (''upgradePrompt'', SText),
     (''recommended'', SText), (''featureAllFuture'', SText), (''included'', SText), (''notIncluded'', SText), (''compareFeatures'', SText),
     (''feature'', SText), (''upgradeYourPlan'', SText), (''mySubscription'', SText), (''personal'', SText), (''business'', SText),
     (''yourCurrentPlan'', SText), (''startWithBasics'', SText), (''everythingInFree'', SText), (''everythingInPro'', SText), (''tryTelebos'', SText),
     (''expandedAccess'', SText), (''yourTelegramAssistant'', SText), (''billingHelp'', SText), (''upgradeToPro'', SText), (''upgradeToPremium'', SText),
     (''voucherRedeemTitle'', SText), (''voucherRedeemDesc'', SText), (''voucherCodePlaceholder'', SText), (''redeemCodeAction'', SText),
     (''contactSupportPrompt'', SText), (''invoiceCreated'', SText)]"

definition Dict_redeem :: shape where
  "Dict_redeem = SGroup [
     (''title'', SText), (''desc'', SText), (''codeLabel'', SText), (''codePlaceholder'', SText), (''redeem'', SText), (''redeeming'', SText),
     (''success'', SText), (''error'', SText), (''invalidCode'', SText), (''expiredCode'', SText), (''maxUsed'', SText), (''heroTitle'', SText),
     (''heroDesc'', SText), (''yourBalance'', SText), (''yourPlan'', SText), (''howItWorks'', SText), (''balanceCodeDesc'', SText),
     (''subscriptionCodeDesc'', SText), (''pasteCode'', SText), (''creditsAdded'', SText), (''planUpgraded'', SText), (''validUntil'', SText),
     (''viewSubscription'', SText)]"

definition Dict_adminRedeem :: shape where
  "Dict_adminRedeem = SGroup [
     (''title'', SText), (''desc'', SText), (''createCode'', SText), (''codeType'', SText), (''plan'', SText), (''amount'', SText), (''maxUses'', SText),
     (''durationDays'', SText), (''expiresAt'', SText), (''prefix'', SText), (''createdCodes'', SText), (''logs'', SText), (''code'', SText),
     (''type'', SText), (''used'', SText), (''status'', SText), (''createdBy'', SText), (''createdAt'', SText), (''active'', SText),
     (''inactive'', SText), (''typeBalance'', SText), (''typeSubscription'', SText), (''noCodes'', SText), (''codeCreated'', SText),
     (''deleteConfirm'', SText), (''user'', SText), (''redeemedAt'', SText), (''detail'', SText), (''noLogs'', SText)]"

definition Dict_ageChecker :: shape where
  "Dict_ageChecker = SGroup [
     (''title'', SText), (''subtitle'', SText), (''inputLabel'', SText), (''inputPlaceholder'', SText), (''checkButton'', SText), (''checking'', SText),
     (''resultTitle'', SText), (''estRegDate'', SText), (''estAge'', SText), (''statusLabel'', SText), (''explanationTitle'', SText),
     (''explanationText'', SText), (''errorInvalidId'', SText), (''statusExact'', SText), (''statusApprox'', SText), (''statusOlder'', SText),
     (''statusNewer'', SText), (''statusUnknown'', SText), (''scanButton'', SText), (''scanning'', SText), (''scanSuccess'', SText)]"

definition Dict_actions :: shape where
  "Dict_actions = SGroup [
     (''refresh'', SText)]"

definition Dict_theme :: shape where
  "Dict_theme = SGroup [
     (''title'', SText), (''light'', SText), (''dark'', SText), (''system'', SText), (''appearance'', SText), (''toggleTheme'', SText)]"

definition Dict_onboarding :: shape where
  "Dict_onboarding = SGroup [
     (''skip'', SText), (''back'', SText), (''next'', SText), (''finish'', SText), (''stepIndicator'', SText), (''step1Badge'', SText),
     (''step1Title'', SText), (''step1Subtitle'', SText), (''roleSoloTitle'', SText), (''roleSoloDesc'', SText), (''roleAgencyTitle'', SText),
     (''roleAgencyDesc'', SText), (''roleCommunityTitle'', SText), (''roleCommunityDesc'', SText), (''roleDeveloperTitle'', SText),
     (''roleDeveloperDesc'', SText), (''roleExploreTitle'', SText), (''roleExploreDesc'', SText), (''step2Badge'', SText), (''step2Title'', SText),
     (''step2Subtitle'', SText), (''refFriendTitle'', SText), (''refFriendDesc'', SText), (''refTelegramTitle'', SText), (''refTelegramDesc'', SText),
     (''refSocialTitle'', SText), (''refSocialDesc'', SText), (''refSearchTitle'', SText), (''refSearchDesc'', SText), (''refForumTitle'', SText),
     (''refForumDesc'', SText), (''refAdsTitle'', SText), (''refAdsDesc'', SText), (''step3Badge'', SText), (''step3Title'', SText),
     (''step3Subtitle'', SText), (''vol1to5Title'', SText), (''vol1to5Desc'', SText), (''vol6to20Title'', SText), (''vol6to20Desc'', SText),
     (''vol21to50Title'', SText), (''vol21to50Desc'', SText), (''vol50PlusTitle'', SText), (''vol50PlusDesc'', SText), (''step4Badge'', SText),
     (''step4Title'', SText), (''step4Subtitle'', SText), (''featBroadcastTitle'', SText), (''featBroadcastDesc'', SText), (''featScrapeTitle'', SText),
     (''featScrapeDesc'', SText), (''featWebChatTitle'', SText), (''featWebChatDesc'', SText), (''featProxyTitle'', SText), (''featProxyDesc'', SText),
     (''featAutoReplyTitle'', SText), (''featAutoReplyDesc'', SText), (''featSmmTitle'', SText), (''featSmmDesc'', SText), (''step5Badge'', SText),
     (''step5Title'', SText), (''step5Subtitle'', SText), (''summaryRoleLabel'', SText), (''summaryRefLabel'', SText), (''summaryVolLabel'', SText),
     (''summaryFeatLabel'', SText), (''addAccountCta'', SText), (''addAccountCtaDesc'', SText), (''goToDashboardCta'', SText),
     (''goToDashboardCtaDesc'', SText), (''welcomeBannerTitle'', SText), (''welcomeBannerDesc'', SText), (''welcomeBannerCta'', SText),
     (''promptModalTitle'', SText), (''promptModalDesc'', SText), (''promptBenefit1'', SText), (''promptBenefit2'', SText), (''promptBenefit3'', SText),
     (''promptStartCta'', SText), (''promptSkipCta'', SText)]"

definition Dict :: shape where
  "Dict = SGroup [
     (''nav'', Dict_nav), (''accountFolders'', Dict_accountFolders), (''navbar'', Dict_navbar), (''notifications'', Dict_notifications),
     (''accountSwitcher'', Dict_accountSwitcher), (''login'', Dict_login), (''register'', Dict_register), (''forgotPassword'', Dict_forgotPassword),
     (''dashboard'', Dict_dashboard), (''accountsList'', Dict_accountsList), (''accountCard'', Dict_accountCard),
     (''accountOtpModal'', Dict_accountOtpModal), (''accountSelector'', Dict_accountSelector), (''transferAccounts'', Dict_transferAccounts),
     (''addAccount'', Dict_addAccount), (''accountDetail'', Dict_accountDetail), (''broadcastDashboard'', Dict_broadcastDashboard),
     (''newBroadcast'', Dict_newBroadcast), (''groupLists'', Dict_groupLists), (''textLists'', Dict_textLists),
     (''broadcastHistory'', Dict_broadcastHistory), (''broadcastLogs'', Dict_broadcastLogs), (''broadcastErrors'', Dict_broadcastErrors),
     (''chats'', Dict_chats), (''autoReply'', Dict_autoReply), (''settings'', Dict_settings), (''accountSettings'', Dict_accountSettings),
     (''devices'', Dict_devices), (''utils'', Dict_utils), (''common'', Dict_common), (''groupsChannels'', Dict_groupsChannels),
     (''autoJoin'', Dict_autoJoin), (''notFound'', Dict_notFound), (''errors'', Dict_errors), (''help'', Dict_help), (''landing'', Dict_landing),
     (''privacy'', Dict_privacy), (''tos'', Dict_tos), (''announcement'', Dict_announcement), (''contacts'', Dict_contacts), (''invite'', Dict_invite),
     (''orders'', Dict_orders), (''adminSmm'', Dict_adminSmm), (''smmOrderManager'', Dict_smmOrderManager), (''orderServices'', Dict_orderServices),
     (''admin'', Dict_admin), (''wallet'', Dict_wallet), (''pricing'', Dict_pricing), (''subscription'', Dict_subscription), (''redeem'', Dict_redeem),
     (''adminRedeem'', Dict_adminRedeem), (''ageChecker'', Dict_ageChecker), (''actions'', Dict_actions), (''theme'', Dict_theme),
     (''onboarding'', Dict_onboarding)]"

end
