(* ===== verification/DictEn.thy ===== *)
theory DictEn
  imports DictTypes
begin

text \<open>
  The English texts, \<open>src/frontend/src/lib/i18n/en.ts\<close>: one definition per group of the dictionary, in the order of the file,
  and for each the lemma that it has exactly the keys that the interface declares.  Characters beyond 255 are written as
  their UTF-8 bytes.
\<close>

section \<open>The texts\<close>

definition en_nav :: dict where
  "en_nav = Group [
     (''dashboard'', Text ''Dashboard''), (''accounts'', Text ''Accounts''), (''chats'', Text ''Chats''), (''broadcast'', Text ''Broadcast''),
     (''autoReply'', Text ''Auto Reply DM''), (''newBroadcast'', Text ''New Broadcast''), (''groupLists'', Text ''Group Lists''),
     (''textLists'', Text ''Text Lists''), (''broadcastHistory'', Text ''Broadcast History''), (''broadcastLogs'', Text ''Broadcast Logs''),
     (''contacts'', Text ''Contacts''), (''groupsChannels'', Text ''Groups & Channels''), (''help'', Text ''Help''), (''orders'', Text ''Orders''),
     (''marketplace'', Text ''Marketplace''), (''telegramMembers'', Text ''Telegram Members''), (''telegramReactions'', Text ''Telegram Reactions''),
     (''telegramAutoReactions'', Text ''Telegram Auto Reactions''), (''telegramPostViews'', Text ''Telegram Post Views''),
     (''telegramAutoPostViews'', Text ''Telegram Auto Post Views''), (''services'', Text ''Services''), (''administrations'', Text ''Administrations''),
     (''redeem'', Text ''Redeem''), (''smm'', Text ''SMM''), (''ageChecker'', Text ''Age Checker''), (''tickets'', Text ''Support Tickets''),
     (''aiSupport'', Text ''AI Support'')]"

definition en_accountFolders :: dict where
  "en_accountFolders = Group [
     (''title'', Text ''Account Folders''), (''manageFolders'', Text ''Manage Folders''), (''createFolder'', Text ''Create Folder''),
     (''renameFolder'', Text ''Rename Folder''), (''deleteFolder'', Text ''Delete Folder''),
     (''deleteConfirm'', Text ''Delete this folder? Accounts in the folder will not be deleted.''), (''folderName'', Text ''Folder Name''),
     (''folderNamePlaceholder'', Text ''e.g. Personal, Work, Client A''),
     (''noFolders'', Text ''No folders yet. Create your first folder to organize accounts.''), (''folderAccounts'', Text ''Accounts in \"{name}\"''),
     (''allAccounts'', Text ''All Accounts''), (''addAccounts'', Text ''Add Accounts''), (''searchAccounts'', Text ''Search accounts...''),
     (''save'', Text ''Save''), (''edit'', Text ''Edit''), (''delete'', Text ''Delete''), (''created'', Text ''Folder created''),
     (''renamed'', Text ''Folder renamed''), (''deleted'', Text ''Folder deleted''), (''accountsAdded'', Text ''Accounts added to folder''),
     (''accountsRemoved'', Text ''Accounts removed from folder''), (''nameRequired'', Text ''Folder name is required''),
     (''folderFilter'', Text ''Filter by folder'')]"

definition en_navbar :: dict where
  "en_navbar = Group [
     (''settings'', Text ''Settings''), (''logout'', Text ''Logout''), (''logoutTitle'', Text ''Logout''),
     (''logoutConfirm'', Text ''Are you sure you want to logout from your account?''), (''cancel'', Text ''Cancel''),
     (''yesLogout'', Text ''Yes, Logout''), (''user'', Text ''User''), (''balance'', Text ''Balance''), (''role'', Text ''Role'')]"

definition en_notifications :: dict where
  "en_notifications = Group [
     (''open'', Text ''Open notifications''), (''title'', Text ''Notifications''), (''unreadCount'', Text ''{count} unread''),
     (''allCaughtUp'', Text (''You'' @ [CHR 39] @ ''re all caught up'')), (''markAllRead'', Text ''Mark all read''),
     (''clearAll'', Text ''Clear all notifications''), (''dismiss'', Text ''Dismiss notification''), (''emptyTitle'', Text ''No notifications yet''),
     (''emptyDescription'', Text ''Important updates about your accounts and operations will appear here.''),
     (''loading'', Text ''Loading notifications...''), (''loadError'', Text ''Notifications could not be loaded.''), (''retry'', Text ''Try again''),
     (''unknownTitle'', Text ''Account update''), (''unknownDescription'', Text ''An operation on your account was updated.''),
     (''supportTicketTitle'', Text ''New Support Ticket''), (''supportTicketMessage'', Text ''Ticket #{ticket_number} from {sender}'')]"

definition en_accountSwitcher :: dict where
  "en_accountSwitcher = Group [
     (''selectAccount'', Text ''Select account'')]"

definition en_login :: dict where
  "en_login = Group [
     (''brandSubtitle'', Text ''Multi-Account Telegram Manager''), (''toolkitTitle'', Text ''Professional Automation Toolkit''),
     (''featureMultipleAccounts'', Text ''Multiple Accounts''),
     (''featureMultipleAccountsDesc'', Text ''Manage multiple Telegram accounts simultaneously with real-time sync.''),
     (''featureChatManagement'', Text ''Chat Management''),
     (''featureChatManagementDesc'', Text ''Monitor chats, active dialogues, and read messages across accounts.''),
     (''featureSmartBroadcast'', Text ''Smart Broadcast''),
     (''featureSmartBroadcastDesc'', Text ''Automate sending with custom schedules, templates, and safety delays.''),
     (''featureRealTimeLogs'', Text ''Real-time Logs''),
     (''featureRealTimeLogsDesc'', Text ''Keep track of broadcast campaigns with comprehensive telemetry.''),
     (''footerTagline'', Text ''Secure, fast, and multi-session architecture.''), (''welcomeBack'', Text ''Welcome back''),
     (''signInSubtitle'', Text ''Sign in to your TeleBos account''), (''emailLabel'', Text ''Email''), (''emailPlaceholder'', Text ''you@example.com''),
     (''passwordLabel'', Text ''Password''),
     (''passwordPlaceholder'', Text ([CHR 226, CHR 128, CHR 162, CHR 226, CHR 128, CHR 162, CHR 226, CHR 128, CHR 162, CHR 226, CHR 128, CHR 162, CHR 226, CHR 128, CHR 162, CHR 226, CHR 128, CHR 162, CHR 226, CHR 128, CHR 162, CHR 226, CHR 128, CHR 162])),
     (''signIn'', Text ''Sign in''), (''signingIn'', Text ''Signing in...''), (''loginFailed'', Text ''Login failed. Check your credentials.''),
     (''noAccount'', Text (''Don'' @ [CHR 39] @ ''t have an account?'')), (''register'', Text ''Register''), (''rememberMe'', Text ''Remember me''),
     (''forgotPassword'', Text ''Forgot password?''), (''verifiedSuccess'', Text ''Email verified successfully. You can now sign in.''),
     (''lockedTitle'', Text ''Account temporarily locked''), (''retryEstimate'', Text ''Estimated wait: {minutes} minutes''),
     (''tooManyTitle'', Text ''Too many attempts''), (''tooManyMessage'', Text ''Too many attempts. Please wait and try again.''),
     (''emailNotVerified'', Text ''Your email has not been verified. Check your inbox or resend the verification email below.''),
     (''enterEmailToResend'', Text ''Enter your email first to resend verification.''), (''resendVerification'', Text ''Resend verification email''),
     (''resendingVerification'', Text (''Resending'' @ [CHR 226, CHR 128, CHR 166])),
     (''resendFailed'', Text ''Could not resend the verification email. Please try again.''),
     (''verificationSent'', Text ''Verification email sent. Check your inbox.''), (''twoFactorTitle'', Text ''Two-Factor Verification''),
     (''twoFactorDesc'', Text ''Enter the 6-digit code from your authenticator app.''), (''backupCodeTitle'', Text ''Verify Backup Code''),
     (''backupCodeDesc'', Text ''Enter one of your emergency backup codes.''), (''codeLabel'', Text ''Verification Code''),
     (''codePlaceholder'', Text ''e.g. 123456''), (''backupCodeLabel'', Text ''Backup Code''), (''backupCodePlaceholder'', Text ''e.g. abcde12345''),
     (''trustDevice'', Text ''Trust this device for 30 days''), (''verify'', Text ''Verify''), (''verifying'', Text ''Verifying...''),
     (''useBackupCode'', Text ''Use a backup code''), (''useTotp'', Text ''Use authenticator app''), (''backToLogin'', Text ''Back to sign in''),
     (''showPassword'', Text ''Show password''), (''hidePassword'', Text ''Hide password''), (''signInWithGoogle'', Text ''Sign in with Google''),
     (''orContinueWith'', Text ''or sign in with email''), (''googleAuthFailed'', Text ''Failed to sign in with Google. Please try again.'')]"

definition en_register :: dict where
  "en_register = Group [
     (''createAccount'', Text ''Create account''), (''getStarted'', Text ''Get started with TeleBos''), (''fullNameLabel'', Text ''Full Name''),
     (''fullNamePlaceholder'', Text ''John Doe''), (''emailLabel'', Text ''Email''), (''emailPlaceholder'', Text ''you@example.com''),
     (''passwordLabel'', Text ''Password''), (''passwordPlaceholder'', Text ''Min. 8 characters''), (''passwordStrength'', Text ''Password strength''),
     (''strengthWeak'', Text ''Weak''), (''strengthFair'', Text ''Fair''), (''strengthGood'', Text ''Good''), (''strengthStrong'', Text ''Strong''),
     (''criteriaMinLength'', Text ''At least 8 characters''), (''criteriaUpperLower'', Text ''Uppercase & lowercase''),
     (''criteriaNumber'', Text ''Contains numbers (0-9)''), (''criteriaSpecial'', Text ''Special symbols (!@#$...)''),
     (''confirmPasswordLabel'', Text ''Confirm Password''), (''confirmPasswordPlaceholder'', Text ''Confirm your password''),
     (''passwordsDoNotMatch'', Text ''Passwords do not match.''), (''passwordTooShort'', Text ''Password must be at least 8 characters.''),
     (''showPassword'', Text ''Show password''), (''hidePassword'', Text ''Hide password''), (''creatingAccount'', Text ''Creating account...''),
     (''createAccountBtn'', Text ''Create account''), (''accountCreated'', Text ''Account created! Redirecting to login...''),
     (''registrationFailed'', Text ''Registration failed. Please try again.''), (''alreadyHaveAccount'', Text ''Already have an account?''),
     (''signIn'', Text ''Sign in''), (''agreePrefix'', Text ''I have read and agree to the''), (''agreeAnd'', Text ''and''),
     (''mustAgree'', Text ''You must agree to the Privacy Policy and Terms of Service to continue.''),
     (''verificationRequired'', Text ''Registration complete. Check your email to verify your account before signing in.''),
     (''signUpWithGoogle'', Text ''Sign up with Google''), (''orContinueWith'', Text ''or sign up with email''),
     (''googleAuthFailed'', Text ''Failed to sign up with Google. Please try again.''),
     (''googleTermsNotice'', Text ''By continuing with Google, you agree to our Terms of Service and Privacy Policy.'')]"

definition en_forgotPassword :: dict where
  "en_forgotPassword = Group [
     (''title'', Text ''Reset password''), (''subtitle'', Text (''Enter your email and we'' @ [CHR 39] @ ''ll send you a secure reset link.'')),
     (''emailLabel'', Text ''Email''), (''emailPlaceholder'', Text ''you@example.com''), (''sendLink'', Text ''Send reset link''),
     (''sending'', Text ''Sending reset link...''),
     (''success'', Text ''If an account exists for that email, a reset link is on its way. Check your inbox.''),
     (''rememberPassword'', Text ''Remember your password?''), (''backToLogin'', Text ''Back to sign in'')]"

definition en_dashboard :: dict where
  "en_dashboard = Group [
     (''systemOnline'', Text ''System Online''), (''welcome'', Text ''Welcome to TeleBos''),
     (''welcomeDesc'', Text ''Manage all Telegram sessions, automate broadcasts, and monitor your messaging campaigns.''),
     (''addAccount'', Text ''Add Account''), (''totalAccounts'', Text ''Total Accounts''), (''activeAccounts'', Text ''Active Accounts''),
     (''broadcast'', Text ''Broadcast''), (''auditLog'', Text ''Audit Log''), (''accountsConnected'', Text ''Connected accounts''),
     (''sessionsRunning'', Text ''Running sessions''), (''newBroadcast'', Text ''New''), (''viewLogs'', Text ''View''),
     (''quickNewBroadcast'', Text ''New Broadcast''), (''quickNewBroadcastDesc'', Text ''Start sending messages to groups''),
     (''quickGroupLists'', Text ''Group Lists''), (''quickGroupListsDesc'', Text ''Manage target groups''), (''quickHistory'', Text ''History''),
     (''quickHistoryDesc'', Text ''View previous broadcasts''), (''connectedAccounts'', Text ''Connected Accounts''),
     (''connectedAccountsDesc'', Text ''Manage and check Telegram profile statuses''), (''add'', Text ''Add''), (''unnamed'', Text ''Unnamed''),
     (''online'', Text ''Online''), (''offline'', Text ''Offline''), (''noAccounts'', Text ''No Accounts Yet''),
     (''noAccountsDesc'', Text (''You haven'' @ [CHR 39] @ ''t added any Telegram sessions yet. Add your first account to start managing and broadcasting.'')),
     (''addFirstAccount'', Text ''Add First Account''), (''viewAllAccounts'', Text ''View all accounts'')]"

definition en_accountsList :: dict where
  "en_accountsList = Group [
     (''title'', Text ''Accounts''), (''subtitle'', Text ''Manage your Telegram accounts''), (''addAccount'', Text ''Add Account''),
     (''failedToLoad'', Text ''Failed to load accounts.''), (''tryAgain'', Text ''Try again''),
     (''noAccounts'', Text ''No Telegram accounts added yet.''), (''addYourFirst'', Text ''Add Your First Account''),
     (''searchPlaceholder'', Text ''Search name, phone, user ID, username...''),
     (''showingAccounts'', Text ''Showing {start}-{end} of {total} accounts''), (''prev'', Text ''Previous''), (''next'', Text ''Next''),
     (''statusActive'', Text ''Active''), (''statusLimited'', Text ''Limited''), (''statusInactive'', Text ''Inactive''),
     (''statusExpired'', Text ''Expired''), (''statusPremium'', Text ''Premium''), (''statusAll'', Text ''All''),
     (''transferAccounts'', Text ''Transfer Accounts'')]"

definition en_accountCard :: dict where
  "en_accountCard = Group [
     (''unnamed'', Text ''Unnamed''), (''viewDetails'', Text ''View Details''), (''delete'', Text ''Delete''), (''transfer'', Text ''Transfer''),
     (''getOtp'', Text ''Get OTP''), (''active'', Text ''Active''), (''inactive'', Text ''Inactive''), (''expired'', Text ''Expired''),
     (''verified'', Text ''Verified''), (''premium'', Text ''Premium''), (''deleteConfirm'', Text ''Delete this account?'')]"

definition en_accountOtpModal :: dict where
  "en_accountOtpModal = Group [
     (''title'', Text ''Telegram Login OTP''), (''description'', Text ''Check official Telegram OTP login messages (User ID: 777000)''),
     (''otpCode'', Text ''OTP Code''), (''copyCode'', Text ''Copy Code''), (''codeCopied'', Text ''Code Copied!''), (''recentBadge'', Text ''Just Now''),
     (''expiredBadge'', Text ''Expired (>15m)''), (''noOtpTitle'', Text ''No OTP Received Yet''),
     (''noOtpDesc'', Text ''Telegram has not sent a login code to this account yet. Please request a login code from your Telegram app, then click Refresh.''),
     (''refresh'', Text ''Refresh''), (''refreshing'', Text ''Checking...''), (''recentMessages'', Text ''Messages from 777000''),
     (''noMessages'', Text ''No messages from Telegram Notifications yet.''),
     (''serviceNotice'', Text ''These messages are fetched directly from official Telegram service (777000).''),
     (''warningNotice'', Text ''Never share this code with anyone!''), (''errorTitle'', Text ''Failed to Get OTP''), (''retry'', Text ''Try Again'')]"

definition en_accountSelector :: dict where
  "en_accountSelector = Group [
     (''defaultTitle'', Text ''Select Telegram Accounts''), (''selectedBadge'', Text ''selected''), (''selectAll'', Text ''Select All''),
     (''deselectAll'', Text ''Deselect All''), (''clear'', Text ''Clear''), (''searchPlaceholder'', Text ''Search accounts by name or phone...''),
     (''clearSearchTooltip'', Text ''Clear search (Esc)''), (''showingResults'', Text ''Showing {filtered} of {total} accounts''),
     (''resetSearch'', Text ''Reset keywords''), (''allFolders'', Text ''All folders''), (''loading'', Text ''Loading accounts...''),
     (''noActiveAccounts'', Text ''No active accounts available.''), (''noMatchingAccounts'', Text ''No accounts match search or filters''),
     (''noMatchingDesc'', Text ''Try changing your search query or switching folder filter.''), (''clearSearchBtn'', Text ''Clear Search'')]"

definition en_transferAccounts :: dict where
  "en_transferAccounts = Group [
     (''dialogTitle'', Text ''Transfer Telegram Accounts''), (''ownerOnly'', Text ''Owner Only''),
     (''dialogDesc'', Text ''Transfer Telegram account ownership to another user via email address''),
     (''recipientEmailLabel'', Text ''Recipient User Email''),
     (''searchEmailPlaceholder'', Text ''Enter or search recipient email (e.g. user@gmail.com)...''),
     (''noUserFound'', Text ''No user found with that email''), (''searchingUser'', Text ''Searching user...''),
     (''quotaWarningTitle'', Text ''Recipient Plan Quota Limit Warning''),
     (''quotaWarningDesc'', Text ''The recipient currently holds {current}/{max} accounts on the {plan} plan.''),
     (''quotaExceededTitle'', Text ''Quota Exceeded''),
     (''quotaExceededDesc'', Text ''Transferring {count} accounts will exceed recipient quota by {exceeded} accounts.''),
     (''overrideQuotaLabel'', Text ''Override recipient account quota (allow transfer)''),
     (''selectAccountsLabel'', Text ''Select Accounts to Transfer''), (''selectAll'', Text ''Select All''), (''deselectAll'', Text ''Deselect All''),
     (''selectedCount'', Text ''{selected} / {total} accounts selected''), (''noAccountsAvailable'', Text ''No active accounts available for transfer.''),
     (''cancel'', Text ''Cancel''), (''transferBtn'', Text ''Transfer Accounts''), (''transferBtnCount'', Text ''Transfer {count} Accounts''),
     (''transferring'', Text ''Transferring...''), (''toastSelectWarningTitle'', Text ''Select Account''),
     (''toastSelectWarningDesc'', Text ''Select at least 1 Telegram account to transfer.''),
     (''toastEmailWarningTitle'', Text ''Recipient Email Required''),
     (''toastEmailWarningDesc'', Text (''Please enter the recipient user'' @ [CHR 39] @ ''s email address.'')),
     (''toastSuccessTitle'', Text ''Transfer Successful''),
     (''toastSuccessDesc'', Text ''Successfully transferred {count} accounts to {email} ({name}).''), (''toastFailedTitle'', Text ''Transfer Failed''),
     (''toastFailedDesc'', Text ''Failed to transfer accounts. Please check and try again.'')]"

definition en_addAccount :: dict where
  "en_addAccount = Group [
     (''title'', Text ''Add Account''), (''subtitle'', Text ''Login to a Telegram account via OTP or upload a session''),
     (''tabOtp'', Text ''Login via OTP''), (''tabQr'', Text ''QR Code''), (''tabUpload'', Text ''Upload Session''),
     (''qrBadge'', Text ''Official Telegram Login''), (''qrTitle'', Text ''Quick Login via QR Code''),
     (''qrSubtitle'', Text ''Scan this QR code using the Telegram app on your phone to connect your account instantly.''),
     (''qrStep1Title'', Text ''Open Telegram''), (''qrStep1Desc'', Text ''Open the Telegram app on your phone''),
     (''qrStep2Title'', Text ''Devices Menu''), (''qrStep2Desc'', Text ''Settings > Devices > Link Desktop Device''),
     (''qrStep3Title'', Text ''Scan Code''), (''qrStep3Desc'', Text ''Point your camera at this screen to confirm''),
     (''qrGenerating'', Text ''Generating secure Telegram QR session...''), (''qrWaitingScan'', Text ''Waiting for phone scan...''),
     (''qrValidFor'', Text ''Valid for:''), (''qrExpiredTitle'', Text ''QR Code Expired''),
     (''qrExpiredDesc'', Text ''The scan timeout has expired for your account security.''), (''qrReloadBtn'', Text ''Generate New QR Code''),
     (''qrRefreshTooltip'', Text ''Refresh QR code now''), (''qrTwoFaTitle'', Text ''Two-Step Verification (2FA)''),
     (''qrTwoFaWarning'', Text ''Your account is protected by a 2FA Cloud Password. Enter your password to complete authorization.''),
     (''qrTwoFaLabel'', Text ''2FA Password''), (''qrTwoFaPlaceholder'', Text ''Enter your 2FA password...''),
     (''qrTwoFaConfirmBtn'', Text ''Confirm & Log In''), (''qrTwoFaProcessing'', Text ''Verifying password...''),
     (''qrTwoFaBack'', Text ([CHR 226, CHR 134, CHR 144] @ '' Generate New QR Code'')), (''qrSuccessTitle'', Text ''Login Successful!''),
     (''qrSuccessDesc'', Text ''Telegram account connected successfully. Redirecting...''), (''qrSwitchToOtp'', Text ''Use Phone Number (OTP) Login''),
     (''phoneLabel'', Text ''Phone Number''), (''phonePlaceholder'', Text ''812 3456 7890''),
     (''phoneHint'', Text ''Select country code on the left, then enter your phone number''), (''sendOtp'', Text ''Send OTP Code''),
     (''sending'', Text ''Sending...''), (''otpTitle'', Text ''Enter the 5-digit code sent to''),
     (''otpSentTo'', Text ''Enter the 5-digit code sent to''), (''resendCode'', Text ''Resend code''),
     (''resendAvailable'', Text ''Resend available in''), (''verifyLogin'', Text ''Verify & Login''), (''verifying'', Text ''Verifying...''),
     (''changePhone'', Text ([CHR 226, CHR 134, CHR 144] @ '' Change phone number'')),
     (''twoFaWarning'', Text ''This account has two-step verification (2FA) enabled. Enter your Telegram password.''),
     (''twoFaLabel'', Text ''2FA Password''), (''twoFaPlaceholder'', Text ''Enter 2FA password...''),
     (''twoFaHint'', Text ''The password you set in Settings > Privacy & Security > Two-Step Verification''), (''sessionLabel'', Text ''Session String''),
     (''sessionPlaceholder'', Text (''Paste your session string here '' @ [CHR 226, CHR 128, CHR 148] @ '' supports Telethon, GramJS, and Pyrogram'')),
     (''sessionHint'', Text ''Auto-detects format. Telethon, GramJS, Pyrogram, and raw auth key session strings are supported. Converts automatically.''),
     (''sessionFormatDetected'', Text ''detected''), (''sessionFormatTelethon'', Text ''Telethon''), (''sessionFormatGramjs'', Text ''GramJS''),
     (''sessionFormatPyrogram'', Text ''Pyrogram''), (''sessionFormatRaw'', Text ''Raw Auth Key''), (''sessionFormatUnknown'', Text ''Unknown''),
     (''sessionInvalidFormat'', Text ''Format not recognized. Make sure you pasted a valid session string from Telethon, GramJS, or Pyrogram.''),
     (''uploadConnect'', Text ''Upload & Connect''), (''failedSendOtp'', Text ''Failed to send OTP''), (''failedVerify'', Text ''Failed to verify code''),
     (''failedUpload'', Text ''Failed to upload session''),
     (''setupEmailRequired'', Text ''Telegram requires you to set up a login email before continuing.''),
     (''setupEmailLabel'', Text ''Telegram login email''), (''setupEmailSendCode'', Text ''Send email code''),
     (''setupEmailCodePrompt'', Text ''Enter the code sent to your email''), (''deliveryCodePrompt'', Text ''Enter the code from {delivery}''),
     (''thirdPartySigninUnavailable'', Text ''Telegram reported third-party sign-in availability. It is not available in TeleBos yet.'')]"

definition en_accountDetail :: dict where
  "en_accountDetail = Group [
     (''profileSettings'', Text ''Profile & Settings''), (''profileSettingsDesc'', Text ''Edit profile and account automation''),
     (''devices'', Text ''Devices''), (''devicesDesc'', Text ''View and manage active sessions''), (''chats'', Text ''Chats''),
     (''chatsDesc'', Text ''View chats for this account''), (''security'', Text ''Security''), (''securityDesc'', Text ''2FA and privacy settings''),
     (''phone'', Text ''Phone''), (''username'', Text ''Username''), (''bio'', Text ''Bio''), (''loginEmail'', Text ''Login Email''),
     (''status'', Text ''Status''), (''twoFa'', Text ''2FA''), (''added'', Text ''Added''), (''active'', Text ''Active''),
     (''inactive'', Text ''Inactive''), (''expired'', Text ''Expired''), (''on'', Text ''On''), (''off'', Text ''Off''),
     (''notFound'', Text ''Account not found.''), (''backToAccounts'', Text ''Back to Accounts''), (''dangerZone'', Text ''Danger Zone (Logout)''),
     (''dangerZoneDesc'', Text ''Log out this account session from TeleBos. Session data will be deleted (your Telegram account remains safe).''),
     (''deleteAccount'', Text ''Logout from TeleBos''), (''deleting'', Text ''Logging out...''),
     (''deleteConfirm'', Text ''Are you sure you want to log out this account from TeleBos? The session will be removed.''),
     (''unnamed'', Text ''Unnamed''), (''spamStatus'', Text ''Spam Status''), (''spamStatusNormal'', Text ''Normal (No Limits)''),
     (''spamStatusLimited'', Text ''Limited (Spam Block)''), (''spamStatusUnknown'', Text ''Unknown''), (''spamLastChecked'', Text ''Last Checked''),
     (''checkSpamBtn'', Text ''Check Spam Status''), (''checkingSpam'', Text ''Checking...''), (''spamLimitActive'', Text ''Spam Limit Active''),
     (''estRegDate'', Text ''Estimated Reg. Date''), (''telegramId'', Text ''Telegram ID''), (''telegramIdCopied'', Text ''Copied!''),
     (''contacts'', Text ''Contacts''), (''groups'', Text ''Groups''), (''channels'', Text ''Channels''), (''owned'', Text ''{count} owned''),
     (''viewDetailsChat'', Text ''View Details & Chat''), (''viewDetailsChatDesc'', Text ''Profile, devices, privacy and 2FA settings''),
     (''contactsLink'', Text ''Contacts''), (''contactsLinkDesc'', Text ''View and manage synced contacts''),
     (''groupsChannels'', Text ''Groups & Channels''), (''groupsChannelsDesc'', Text ''Browse groups and channels this account belongs to''),
     (''appealBtn'', Text ''Appeal Spam Restriction''), (''appealTitle'', Text ''Submit Appeal to @spambot''),
     (''appealReasonLabel'', Text ''Select Appeal Reason''), (''appealCustomReasonLabel'', Text ''Custom Appeal Reason''),
     (''appealCustomReasonPlaceholder'', Text ''Type your custom reason here...''), (''appealSubmit'', Text ''Submit Appeal''),
     (''appealSubmitting'', Text ''Submitting...''), (''appealForceWarningTitle'', Text ''Appeal Already Submitted''),
     (''appealForceWarningDesc'', Text ''We detected that you have already submitted an appeal for this account. Submitting again may cause your account to be ignored or blocked by @spambot. Do you want to proceed anyway?''),
     (''appealForceSubmit'', Text ''Yes, Force Submit''), (''appealCancel'', Text ''Cancel''),
     (''appealSuccessTitle'', Text ''Appeal Submitted Successfully''),
     (''appealSuccessDesc'', Text ''Your appeal has been successfully submitted to @spambot. The account status will be updated.''),
     (''appealCaptchaTitle'', Text ''Captcha Verification Required''),
     (''appealCaptchaDesc'', Text (''Telegram requires captcha verification to process this appeal. Please click the link below to open the verification page in your browser, solve the Turnstile checkbox, and then click '' @ [CHR 39] @ ''Done'' @ [CHR 39] @ '' below to continue.'')),
     (''appealCaptchaOpenBtn'', Text ''Open Captcha in Browser''), (''appealCaptchaDoneBtn'', Text ''Done, Continue''),
     (''appealCaptchaResuming'', Text ''Continuing...''), (''appealFailedTitle'', Text ''Appeal Failed''),
     (''appealFailedDesc'', Text ''An error occurred while submitting appeal to @spambot: {error}''),
     (''nameRequired'', Text ''Appeal reason cannot be empty'')]"

definition en_broadcastDashboard :: dict where
  "en_broadcastDashboard = Group [
     (''title'', Text ''Broadcast''), (''desc'', Text ''Send messages to multiple groups at once''), (''groupLists'', Text ''Group Lists''),
     (''groupListsDesc'', Text ''Manage your target groups and channels''), (''textLists'', Text ''Text Lists''),
     (''textListsDesc'', Text ''Manage message templates and collections''), (''newBroadcast'', Text ''New Broadcast''),
     (''newBroadcastDesc'', Text ''Start a new broadcast campaign''), (''broadcastHistory'', Text ''Broadcast History''),
     (''broadcastHistoryDesc'', Text ''Manage past and active broadcasts''), (''broadcastLogs'', Text ''Broadcast Logs''),
     (''broadcastLogsDesc'', Text ''View results and error logs''), (''gettingStarted'', Text ''Getting Started''),
     (''step1'', Text ''Create a Group List with target groups/channels''), (''step2'', Text ''Create a Text List with message templates''),
     (''step3'', Text ''Go to New Broadcast, select account, list, and delays''),
     (''step4'', Text ''Monitor progress in real-time and check Logs for results''), (''noAccountsTitle'', Text ''No Accounts Connected''),
     (''noAccountsDesc'', Text ''You need to add at least one Telegram account before you can use the broadcast feature.''),
     (''noAccountsBtn'', Text ''Add Telegram Account''), (''noGroupListsTitle'', Text ''No Group Lists Created''),
     (''noGroupListsDesc'', Text ''You need to create at least one Group List with your target groups before starting a broadcast.''),
     (''noGroupListsBtn'', Text ''Create Group List''), (''allAccountsBusyTitle'', Text ''All Accounts Are Broadcasting''),
     (''allAccountsBusyDesc'', Text ''Every sending account currently has an active broadcast. Stop them or wait for completion before starting a new one.''),
     (''allAccountsBusyBtn'', Text ''View Broadcast History'')]"

definition en_newBroadcast :: dict where
  "en_newBroadcast = Group [
     (''title'', Text ''New Broadcast''), (''desc'', Text ''Configure and start a broadcast''), (''configuration'', Text ''Configuration''),
     (''account'', Text ''Account''), (''accountPlaceholder'', Text ''Select account...''), (''groupList'', Text ''Group List''),
     (''groupListPlaceholder'', Text ''Select group list...''), (''mode'', Text ''Mode''), (''multiRandom'', Text ''Multi Random''),
     (''multiRandomDesc'', Text ''Random text per group''), (''singleText'', Text ''Single Text''), (''singleTextDesc'', Text ''Same text for all''),
     (''textList'', Text ''Text List''), (''textListPlaceholder'', Text ''Select text list...''), (''messageText'', Text ''Message Text''),
     (''messagePlaceholder'', Text ''Type your broadcast message...''), (''delayPerGroup'', Text ''Delay per Group (seconds)''),
     (''delayPerGroupSuffix'', Text (''1 '' @ [CHR 226, CHR 128, CHR 147] @ '' 3600 seconds'')),
     (''delayAfterAll'', Text ''Delay After All Groups (seconds)''), (''delayAfterAllSuffix'', Text ''Delay before looping from start''),
     (''scheduleTitle'', Text ''Scheduled Broadcast (Operating Hours)''),
     (''scheduleDesc'', Text ''Set automatic start and end operating hours. Outside these hours, the broadcast will automatically pause and resume the following day.''),
     (''scheduleStartTime'', Text ''Start Time''), (''scheduleStartTimeDesc'', Text ''Broadcast will automatically start / resume at this time.''),
     (''scheduleEndTime'', Text ''End Time (Auto Pause)''), (''scheduleEndTimeDesc'', Text ''Broadcast will automatically pause at this time.''),
     (''schedulePresets'', Text ''Quick presets:''),
     (''scheduleInfo'', Text ''If the broadcast is started outside operating hours, it will immediately enter Standby / Paused status and automatically resume when the start time arrives.''),
     (''loopTitle'', Text ''Repeating Broadcast (Loop)''),
     (''loopDesc'', Text ''Broadcast will automatically repeat from the first group after sending to all groups. Use the Stop button to end the broadcast.''),
     (''startBroadcast'', Text ''Start Broadcast''), (''starting'', Text ''Starting...''), (''failedToStart'', Text ''Failed to start''),
     (''progress'', Text ''Progress''), (''cycle'', Text ''Cycle''), (''total'', Text ''Total''),
     (''sent'', Text (''Sent '' @ [CHR 226, CHR 156, CHR 147])), (''failed'', Text (''Failed '' @ [CHR 226, CHR 156, CHR 151])),
     (''pause'', Text ''Pause''), (''resume'', Text ''Resume''), (''stop'', Text ''Stop''), (''live'', Text ''Live''),
     (''stopConfirm'', Text ''Stop this broadcast?'')]"

definition en_groupLists :: dict where
  "en_groupLists = Group [
     (''title'', Text ''Group Lists''), (''desc'', Text ''Manage target groups for broadcast''), (''newList'', Text ''New List''),
     (''listName'', Text ''List name''), (''save'', Text ''Save''), (''saving'', Text ''Saving...''), (''noLists'', Text ''No group lists yet.''),
     (''createFirst'', Text ''Create your first list''), (''noItems'', Text ''No items yet''), (''groups'', Text ''groups''),
     (''bulkImport'', Text ''Bulk Import Groups''), (''bulkImportLabel'', Text ''Bulk Import''),
     (''bulkImportDesc'', Text (''Paste Telegram links / usernames '' @ [CHR 226, CHR 128, CHR 148] @ '' one per line or from any text. Format: https://t.me/username, @username, or invite links.'')),
     (''bulkParse'', Text ''Parse & Preview''), (''bulkRefresh'', Text ''Refresh''), (''bulkImportBtn'', Text ''Import''),
     (''importGroups'', Text ''Groups''), (''add'', Text ''Add''),
     (''multiValueError'', Text ''Only one value allowed here. To add multiple groups at once, use Bulk Import.''),
     (''typeUsername'', Text ''@username''), (''typeLink'', Text ''Link''), (''typeGroupId'', Text ''Group ID''),
     (''deleteConfirm'', Text ''Delete this list?''), (''placeholderUsername'', Text ''@group''), (''placeholderLink'', Text ''t.me/...''),
     (''placeholderGroupId'', Text ''123456789''), (''viewDetails'', Text ''View Details''), (''hideDetails'', Text ''Hide Details''),
     (''delete'', Text ''Delete'')]"

definition en_textLists :: dict where
  "en_textLists = Group [
     (''title'', Text ''Text Lists''), (''desc'', Text ''Manage message templates''), (''newList'', Text ''New List''),
     (''listName'', Text ''List name''), (''listNamePlaceholder'', Text ''List name (e.g. Promo Templates)''), (''save'', Text ''Save''),
     (''noLists'', Text ''No text lists yet.''), (''createFirst'', Text ''Create your first text list''), (''noTexts'', Text ''No texts yet''),
     (''texts'', Text ''texts''), (''addText'', Text ''Add''), (''addTextPlaceholder'', Text ''Add a message text...''), (''add'', Text ''Add''),
     (''deleteConfirm'', Text ''Delete this text list?''), (''delete'', Text ''Delete''), (''editText'', Text ''Edit Text''),
     (''modalAddTitle'', Text ''Add Message to Text List''), (''modalEditTitle'', Text ''Edit Text List Message'')]"

definition en_broadcastHistory :: dict where
  "en_broadcastHistory = Group [
     (''title'', Text ''Broadcast History''), (''desc'', Text ''Manage past and active broadcast jobs''), (''date'', Text ''Date''),
     (''status'', Text ''Status''), (''progress'', Text ''Progress''), (''sentFailed'', Text ''Sent / Failed''), (''actions'', Text ''Actions''),
     (''noJobs'', Text ''No broadcast jobs yet''), (''startBroadcast'', Text ''Start a Broadcast''), (''pause'', Text ''Pause''),
     (''resume'', Text ''Resume''), (''stop'', Text ''Stop''), (''cancel'', Text ''Cancel''), (''retry'', Text ''Retry''), (''delete'', Text ''Delete''),
     (''viewLogs'', Text ''View Logs''), (''stopConfirm'', Text ''Stop this broadcast?''), (''cancelConfirm'', Text ''Cancel this pending broadcast?''),
     (''deleteConfirm'', Text ''Delete this broadcast job?''), (''of'', Text ''of''), (''accounts'', Text ''Sending Accounts''),
     (''setup'', Text ''Setup Details''), (''groupList'', Text ''Group List''), (''textList'', Text ''Text List''),
     (''customText'', Text ''Custom Text''), (''summaryRunning'', Text ''Running Broadcasts''), (''summaryAccountsInUse'', Text ''Accounts In Use''),
     (''summaryCompleted'', Text ''Completed Broadcasts''), (''summaryTotalSent'', Text ''Messages Sent''),
     (''summaryTotalFailed'', Text ''Messages Failed''), (''summaryTotalJobs'', Text ''Total Broadcasts''), (''showing'', Text ''Showing''),
     (''jobsLabel'', Text ''broadcasts''), (''prev'', Text ''Prev''), (''next'', Text ''Next''), (''delayPerGroup'', Text ''Delay per Group''),
     (''delayAfterAll'', Text ''Inter-Cycle Delay''), (''delayRandomized'', Text ''Random''), (''cycleDelay'', Text ''Cycle''),
     (''telegramLog'', Text ''Telegram Log''), (''accountsModalTitle'', Text ''Sending Account Details''),
     (''accountsModalDesc'', Text ''List of Telegram accounts assigned to this broadcast job.''), (''active'', Text ''Active''),
     (''inactive'', Text ''Inactive''), (''showMoreAccounts'', Text ''more accounts (Show)''), (''showLessAccounts'', Text ''Collapse''),
     (''viewDetails'', Text ''View Details''), (''copy'', Text ''Copy''), (''copied'', Text ''Copied'')]"

definition en_broadcastLogs :: dict where
  "en_broadcastLogs = Group [
     (''title'', Text ''Broadcast Logs''), (''desc'', Text ''View detailed delivery results per cycle''),
     (''selectJob'', Text ''Select a broadcast job...''), (''sent'', Text ''Sent''), (''failed'', Text ''Failed''),
     (''searchGroup'', Text ''Search group...''), (''allStatuses'', Text ''All Statuses''), (''success'', Text ''Success''), (''error'', Text ''Error''),
     (''skipped'', Text ''Skipped''), (''allCycles'', Text ''All Cycles''), (''cycle'', Text ''Cycle''), (''exportCsv'', Text ''Export CSV''),
     (''exportJson'', Text ''Export JSON''), (''noEntries'', Text ''No log entries found.''),
     (''selectJobToView'', Text ''Select a broadcast job to view logs''), (''colCycle'', Text ''Cycle''), (''colGroup'', Text ''Group''),
     (''colStatus'', Text ''Status''), (''colErrorType'', Text ''Error Type''), (''colMessage'', Text ''Message''), (''colSentText'', Text ''Sent Text''),
     (''colTime'', Text ''Time''), (''live'', Text ''LIVE''), (''total'', Text ''Total''),
     (''noEntriesForCycle'', Text ''No log entries for this cycle.''), (''noEntriesMatchFilter'', Text ''No entries match the current filters.'')]"

definition en_broadcastErrors :: dict where
  "en_broadcastErrors = Group [
     (''private_channel'', Text ''Channel is private or account has been kicked/banned from this group by admin/bot''),
     (''banned'', Text ''Account is restricted by Telegram SpamBot or banned from this group''),
     (''admin_only'', Text ''Only admins are allowed to send messages in this group''),
     (''muted_permanent'', Text ''Account is permanently muted in this group by admin''),
     (''muted_temporary'', Text ''Account is temporarily muted in this group''),
     (''skipped_permanent'', Text ''Skipped: Target already permanently failed in previous cycles''),
     (''skipped_pending'', Text ''Skipped: Awaiting join cooldown/turn''),
     (''must_join_discussion'', Text ''You must join the discussion group before commenting''),
     (''topic_closed'', Text ''This forum topic is closed by group admins''),
     (''media_forbidden'', Text ''Group policy restricts sending links/media for regular members''),
     (''guest_restricted'', Text ''Account is restricted during new-member probation period''),
     (''invalid_username'', Text ''Group username not found or invalid''), (''invalid_link'', Text ''Invite link is expired or invalid''),
     (''too_many_channels'', Text ''Account has joined too many channels/groups''), (''flood'', Text ''Telegram flood wait limit reached''),
     (''peer_flood'', Text ''Telegram peer flood limit reached''), (''slowmode'', Text ''Slowmode active in this group'')]"

definition en_chats :: dict where
  "en_chats = Group [
     (''title'', Text ''Chats''), (''live'', Text ''Live''), (''offline'', Text ''Offline''), (''selectChats'', Text ''Select chats''),
     (''exitSelection'', Text ''Exit selection mode''), (''search'', Text ''Search chats...''), (''all'', Text ''All''),
     (''archived'', Text ''Archived''), (''selectAccount'', Text ''Select account...''), (''noAccounts'', Text ''No accounts added''),
     (''failedToLoad'', Text ''Failed to load''), (''retry'', Text ''Retry''), (''noArchived'', Text ''No archived chats''),
     (''noChats'', Text ''No chats found''), (''prev'', Text ''Prev''), (''page'', Text ''Page''), (''next'', Text ''Next''),
     (''selected'', Text ''selected''), (''archiveAll'', Text ''Archive All''), (''unarchiveAll'', Text ''Unarchive All''),
     (''deleteAll'', Text ''Delete All''), (''batchDelete'', Text ''Delete Chats''), (''selectChat'', Text ''Select a Chat''),
     (''selectChatDesc'', Text ''Click any conversation on the left to view its messages and start chatting.''),
     (''noMessages'', Text ''No messages yet''), (''loadOlder'', Text ''Load older messages''),
     (''sendFailed'', Text ''Failed to send message. Please try again.''), (''typeMessage'', Text ''Type a message...''),
     (''addCaption'', Text ''Add a caption...''), (''attachFile'', Text ''Attach File''), (''reply'', Text ''Reply''), (''delete'', Text ''Delete''),
     (''archive'', Text ''Archive''), (''unarchive'', Text ''Unarchive''), (''deleteConfirm'', Text ''Delete \"{name}\"? This cannot be undone.''),
     (''batchDeleteConfirm'', Text ''Delete {count} chat(s)? This cannot be undone.''), (''unknown'', Text ''Unknown'')]"

definition en_announcement :: dict where
  "en_announcement = Group [
     (''loading'', Text ''Checking Telegram status...''),
     (''telegramDown'', Text ([CHR 226, CHR 154, CHR 160, CHR 239, CHR 184, CHR 143] @ '' Telegram is currently experiencing issues. Some features may be affected.'')),
     (''telegramDegraded'', Text ([CHR 226, CHR 154, CHR 160, CHR 239, CHR 184, CHR 143] @ '' Telegram services are partially degraded. Some features may be slower than usual.'')),
     (''telegramUp'', Text ([CHR 226, CHR 156, CHR 133] @ '' Telegram services are operating normally.'')),
     (''unknown'', Text ''Telegram service status is currently unavailable.'')]"

definition en_contacts :: dict where
  "en_contacts = Group [
     (''title'', Text ''Contacts''), (''selectAccount'', Text ''Select an account''), (''search'', Text ''Search contacts...''),
     (''totalContacts'', Text ''Total Contacts''), (''noAccounts'', Text ''No accounts available''), (''failedToLoad'', Text ''Failed to load contacts''),
     (''retry'', Text ''Retry''), (''noContacts'', Text ''No contacts found''), (''prev'', Text ''Prev''), (''page'', Text ''Page''),
     (''next'', Text ''Next''), (''selectContact'', Text ''Select a Contact''),
     (''selectContactDesc'', Text ''Choose a contact from the list to view their details.''), (''phone'', Text ''Phone''),
     (''username'', Text ''Username''), (''about'', Text ''About''), (''mutual'', Text ''Mutual Contact''),
     (''notMutual'', Text ''Not a Mutual Contact''), (''commonChats'', Text ''Common Groups''), (''unknown'', Text ''Unknown''),
     (''delete'', Text ''Delete''), (''deleteConfirm'', Text ''Delete \"{name}\" from contacts?''), (''contactsCount'', Text ''{count} contacts''),
     (''chat'', Text ''Chat''), (''sendMessage'', Text ''Send Message''), (''importContacts'', Text ''Import Contacts''),
     (''importContactsDesc'', Text (''Import phone numbers to this account'' @ [CHR 39] @ ''s Telegram address book.'')),
     (''exportContacts'', Text ''Export Contacts''),
     (''exportContactsDesc'', Text (''Download this account'' @ [CHR 39] @ ''s contacts in your preferred format.'')),
     (''bulkInput'', Text ''Bulk Input''), (''uploadFile'', Text ''Upload File''), (''importSuccess'', Text ''Successfully imported {count} contacts!''),
     (''importing'', Text ''Importing...''), (''exporting'', Text ''Downloading file...''), (''accountAge'', Text ''Account Age''),
     (''spamStatus'', Text ''Spam Status''), (''clean'', Text ''Clean''), (''limited'', Text ''Limited'')]"

definition en_autoReply :: dict where
  "en_autoReply = Group [
     (''title'', Text ''Auto-Reply''),
     (''desc'', Text ''Automatically reply to first direct messages from users. Manage settings for all your accounts here.''),
     (''globalSettings'', Text ''Global Settings''), (''globalSettingsDesc'', Text ''Apply the same auto-reply config to all accounts at once.''),
     (''enableAll'', Text ''Enable for all accounts''), (''disableAll'', Text ''Disable for all accounts''),
     (''globalMessage'', Text ''Global Reply Message''), (''globalMessagePlaceholder'', Text ''Hello! Thanks for reaching out. How can I help?''),
     (''applyToAll'', Text ''Apply to All Accounts''), (''applying'', Text ''Applying...''), (''applied'', Text ''Applied to {count} account(s)''),
     (''updated'', Text ''Updated {success}, {failed} failed''), (''perAccount'', Text ''Per Account''), (''on'', Text ''ON''), (''off'', Text ''OFF''),
     (''save'', Text ''Save''), (''saved'', Text ''Saved!''), (''active'', Text ''Active''), (''replyMessage'', Text ''Reply Message''),
     (''replyPlaceholder'', Text ''Auto-reply message (leave empty to disable)''), (''noAccounts'', Text ''Auto-Reply''),
     (''noAccountsDesc'', Text ''No accounts connected. Add an account first to configure auto-reply.''), (''addAccount'', Text ''Add Account''),
     (''failedToLoad'', Text ''Failed to load accounts''), (''retry'', Text ''Retry''), (''setText'', Text ''Set Text''),
     (''editText'', Text ''Edit Text''), (''modalTitle'', Text ''Configure Auto-Reply Message''),
     (''modalDesc'', Text ''Automatic welcome message sent to users the first time they direct message this account.''),
     (''enableForAccount'', Text ''Enable Auto-Reply for this account'')]"

definition en_settings_1 :: "(string \<times> dict) list" where
  "en_settings_1 = [
     (''profileAndSettings'', Text ''Profile & Settings''),
     (''profileAndSettingsDesc'', Text ''Manage your account, security, and platform preferences to fit your needs.''),
     (''navProfile'', Text ''Profile''), (''navProfileDesc'', Text ''Account information and personal data''),
     (''navChangePassword'', Text ''Change Password''), (''navChangePasswordDesc'', Text ''Update your account password''),
     (''navTwoFactor'', Text ''Two-Factor Authentication''), (''navTwoFactorDesc'', Text ''Add an extra layer of security''),
     (''navApiKeys'', Text ''Integration API Keys''), (''navApiKeysDesc'', Text ''Manage API keys for integrations''),
     (''navBankAccounts'', Text ''Bank Accounts''), (''navBankAccountsDesc'', Text ''Store and manage bank & e-wallet accounts''),
     (''navTelegram'', Text ''Telegram Bot''), (''navTelegramDesc'', Text ''Connect official Telegram bot with secure token''),
     (''navAppearance'', Text ''Appearance''), (''navAppearanceDesc'', Text ''Customize how the app looks''), (''navLanguage'', Text ''Language''),
     (''navLanguageDesc'', Text ''Choose the language you use''), (''active'', Text ''Active''), (''profile'', Text ''Profile''),
     (''profileDesc'', Text ''Manage your account information and personal data.''), (''editProfile'', Text ''Edit Profile''),
     (''username'', Text ''Username''), (''email'', Text ''Email''), (''role'', Text ''Role''), (''joinedSince'', Text ''Joined Since''),
     (''editProfileTitle'', Text ''Edit Profile''), (''fullName'', Text ''Full Name''), (''fullNamePlaceholder'', Text ''Enter your full name''),
     (''saveChanges'', Text ''Save Changes''), (''profileSaved'', Text ''Profile updated successfully.''),
     (''failedSaveProfile'', Text ''Failed to update profile. Please try again.''), (''cancel'', Text ''Cancel''), (''saving'', Text ''Saving...''),
     (''unknown'', Text ''Unknown''), (''fullNameRequired'', Text ''Full name is required.''), (''changePasswordTitle'', Text ''Change Password''),
     (''changePasswordCardDesc'', Text ''Make sure your password is strong and unique to keep your account secure.''),
     (''passwordLastChanged'', Text ''Password last changed''), (''passwordLastChangedUnknown'', Text ''Never changed''),
     (''twoFactorCardDesc'', Text ''Enable 2FA for an additional layer of security on your account.''), (''manageTwoFactor'', Text ''Manage 2FA''),
     (''status'', Text ''Status''), (''statusOff'', Text ''Not enabled''), (''enabled'', Text ''Enabled''),
     (''twoFaRecommendation'', Text ''We recommend enabling 2FA with an authenticator app such as Google Authenticator or Authy.''),
     (''apiKeysTitle'', Text ''Integration API Keys''), (''apiKeysCardDesc'', Text ''Manage API keys to integrate external services with TeleBos.''),
     (''manageApiKeys'', Text ''Manage API Keys''), (''totalApiKeys'', Text ''Total API Keys''), (''apiKeysCount'', Text ''{count} keys''),
     (''lastUsed'', Text ''Last used''), (''never'', Text ''Never''), (''created'', Text ''Created''), (''bankAccountsTitle'', Text ''Bank Accounts''),
     (''bankAccountsCardDesc'', Text ''Store and manage bank and e-wallet accounts for transactions and payments.''),
     (''addAccount'', Text ''Add Account''), (''totalAccounts'', Text ''Total Accounts''), (''accountCount'', Text ''{count} accounts''),
     (''appearance'', Text ''Appearance''), (''appearanceCardDesc'', Text ''Adjust how the app looks to match your preferences.''),
     (''theme'', Text ''Theme''), (''themeDarkDefault'', Text ''Dark (Default)''), (''language'', Text ''Language''),
     (''languageCardDesc'', Text ''Choose the language you use in TeleBos.''), (''languageLabel'', Text ''Language''), (''title'', Text ''Settings''),
     (''desc'', Text ''Manage your account preferences and security''), (''back'', Text ''Back''), (''changePassword'', Text ''Change Password''),
     (''changePasswordDesc'', Text (''Update your account password. You'' @ [CHR 39] @ ''ll need to use the new password on your next login.'')),
     (''currentPassword'', Text ''Current Password''), (''currentPasswordPlaceholder'', Text ''Enter your current password''),
     (''newPassword'', Text ''New Password''), (''newPasswordPlaceholder'', Text ''Enter your new password''),
     (''confirmPassword'', Text ''Confirm New Password''), (''confirmPasswordPlaceholder'', Text ''Confirm your new password''),
     (''passwordChanged'', Text ''Password changed successfully! Use your new password on next login.''),
     (''passwordWeak'', Text (''Weak '' @ [CHR 226, CHR 128, CHR 148] @ '' try adding numbers and symbols'')),
     (''passwordFair'', Text (''Fair '' @ [CHR 226, CHR 128, CHR 148] @ '' add mixed case and symbols'')), (''passwordGood'', Text ''Good password''),
     (''passwordStrong'', Text ''Strong password''), (''passwordsMatch'', Text ([CHR 226, CHR 156, CHR 147] @ '' Passwords match'')),
     (''passwordsNoMatch'', Text ([CHR 226, CHR 156, CHR 151] @ '' Passwords do not match'')),
     (''passwordMinLength'', Text ''Password must be at least 8 characters long''),
     (''passwordMustDiffer'', Text ''New password cannot be the same as your current password''), (''changePasswordBtn'', Text ''Change Password''),
     (''changingPassword'', Text ''Changing password...''), (''sessionExpired'', Text ''Session expired. Please login again.''),
     (''failedChangePassword'', Text ''Failed to change password. Please try again.''), (''apiKeys'', Text ''Integration API keys''),
     (''apiKeysDesc'', Text ''Create scoped credentials for websites and server-side tools. Your secret is shown only once.''),
     (''createApiKey'', Text ''Create API key''), (''apiKeyName'', Text ''Key name''), (''apiKeyNamePlaceholder'', Text ''e.g. Customer portal''),
     (''apiKeyScopes'', Text ''Permissions''), (''apiKeyScopesDesc'', Text ''Choose only the access this integration needs.''),
     (''profileRead'', Text ''Read your profile''), (''accountsRead'', Text ''Read account metadata''), (''jobsRead'', Text ''Read job status''),
     (''accountsWrite'', Text ''Add or authenticate Telegram accounts''), (''generateKey'', Text ''Generate API key''),
     (''generatingKey'', Text ''Generating...''), (''apiKeyCreated'', Text ''API key created''), (''apiKeyCreatedDesc'', Text ''Your key is ready.''),
     (''copySecret'', Text ''Copy secret''), (''copied'', Text ''Copied to clipboard''),
     (''secretWarning'', Text ''Copy this secret now. It will not be shown again after you close this message.''),
     (''noApiKeys'', Text ''No integration keys yet.''), (''revoke'', Text ''Revoke''),
     (''revokeConfirm'', Text ''Revoke this API key? Existing integrations will stop working immediately.''), (''revoked'', Text ''Revoked''),
     (''failedLoadApiKeys'', Text ''Unable to load API keys.''), (''failedCreateApiKey'', Text ''Unable to create API key.''),
     (''failedRevokeApiKey'', Text ''Unable to revoke API key.''), (''twoFactorTitle'', Text ''Two-Factor Authentication (2FA)''),
     (''twoFactorDesc'', Text ''Add an extra layer of security to your account using a TOTP authenticator app.''),
     (''twoFactorEnabledStatus'', Text ''Two-Factor Authentication is active.''),
     (''twoFactorDisabledStatus'', Text ''Two-Factor Authentication is not active.''), (''off'', Text ''Disabled''), (''enable2FA'', Text ''Enable 2FA''),
     (''disable2FA'', Text ''Disable 2FA''), (''setup2FATitle'', Text ''Setup Two-Factor Authentication''),
     (''setup2FADesc'', Text ''Scan the QR code with your authenticator app (like Google Authenticator, Authy, or Bitwarden) and enter the verification code.''),
     (''enterCode'', Text ''Verification Code''), (''enterCodePlaceholder'', Text ''e.g. 123456''), (''verifyAndEnable'', Text ''Verify & Enable''),
     (''backupCodesTitle'', Text ''Backup Codes''),
     (''backupCodesDesc'', Text ''Store these backup codes in a safe place. You can use them to sign in if you lose access to your authenticator app. Each code can only be used once.''),
     (''backupCodesCopied'', Text ''Backup codes copied to clipboard''), (''saveBackupCodes'', Text ''Copy Backup Codes''),
     (''totpInvalid'', Text ''Invalid verification code. Please try again.''),
     (''totpSuccess'', Text ''Two-Factor Authentication enabled successfully!''),
     (''disableSuccess'', Text ''Two-Factor Authentication disabled successfully!''), (''regenerateBackupCodes'', Text ''Regenerate Backup Codes'')]"

definition en_settings_2 :: "(string \<times> dict) list" where
  "en_settings_2 = [
     (''regenerateBackupCodesConfirm'', Text ''Are you sure you want to regenerate backup codes? Existing codes will stop working immediately.''),
     (''enterPasswordConfirm'', Text ''Confirm Password''), (''enterPasswordConfirmDesc'', Text ''Please enter your password to confirm this action.''),
     (''passwordRequired'', Text ''Password is required.''), (''done'', Text ''Done''), (''appearanceTab'', Text ''Appearance''),
     (''appearanceDesc'', Text ''Customize the theme and visual appearance of your workspace.''), (''themeMode'', Text ''Theme Mode''),
     (''themeModeDesc'', Text ''Choose your preferred color theme or match your operating system.''), (''themeLight'', Text ''Light''),
     (''themeLightDesc'', Text ''Clean, crisp light appearance for bright environments.''), (''themeDark'', Text ''Dark''),
     (''themeDarkDesc'', Text ''Deep slate palette designed for sustained, low-glare work.''), (''themeSystem'', Text ''System''),
     (''themeSystemDesc'', Text ''Automatically synchronize with your operating system settings.''), (''languageSection'', Text ''Language''),
     (''languageSectionDesc'', Text ''Choose your preferred display language or match your system settings.''), (''languageEn'', Text ''English''),
     (''languageEnDesc'', Text ''Standard English interface.''), (''languageId'', Text ''Bahasa Indonesia''),
     (''languageIdDesc'', Text ''Antarmuka dalam Bahasa Indonesia.''), (''languageSystem'', Text ''System Default''),
     (''languageSystemDesc'', Text ''Automatically match your browser or operating system language.''), (''bankAccountsTab'', Text ''Bank Accounts''),
     (''bankAccountsDesc'', Text ''Manage your destination bank accounts and e-wallets for balance withdrawal and deposit configurations.''),
     (''addBankAccount'', Text ''Add New Account''), (''bankName'', Text ''Bank / E-Wallet Provider''),
     (''accountNumber'', Text ''Account / Phone Number''), (''accountHolder'', Text ''Account Holder Name''),
     (''isDefaultAccount'', Text ''Set as default payout account''), (''setAsDefault'', Text ''Set Default''), (''defaultBadge'', Text ''Default''),
     (''deleteAccountConfirm'', Text ''Are you sure you want to remove this account?''),
     (''depositSettingsTitle'', Text ''Platform Deposit Account Settings''),
     (''depositSettingsDesc'', Text ''Configure the merchant name and receiving QRIS/bank details for user deposits.''),
     (''saveDepositSettings'', Text ''Save Deposit Settings''), (''depositSettingsSaved'', Text ''Deposit settings saved successfully!''),
     (''noBankAccounts'', Text ''No Saved Accounts''),
     (''noBankAccountsDesc'', Text ''Add a bank account or e-wallet to streamline your balance withdrawal requests.''),
     (''accountAdded'', Text ''Account added successfully!''), (''accountDeleted'', Text ''Account removed successfully.'')]"

definition en_settings :: dict where
  "en_settings = Group (en_settings_1 @ en_settings_2)"

definition en_accountSettings :: dict where
  "en_accountSettings = Group [
     (''title'', Text ''Settings''), (''profilePhoto'', Text ''Profile Photo''), (''changePhoto'', Text ''Change Photo''), (''delete'', Text ''Delete''),
     (''uploadPhoto'', Text ''Upload Photo''), (''deletePhoto'', Text ''Delete Photo''), (''noPhoto'', Text ''No profile photo''),
     (''notSet'', Text ''Not set''), (''photoHint'', Text ''JPG, PNG, or GIF. Max 5 MB.''),
     (''photoUpdated'', Text ''Profile photo updated successfully!''), (''photoDeleted'', Text ''Profile photo deleted successfully!''),
     (''uploadFailed'', Text ''Failed to upload photo''), (''deleteFailed'', Text ''Failed to delete photo''), (''profile'', Text ''Profile''),
     (''editProfile'', Text ''Edit Profile''), (''cancel'', Text ''Cancel''),
     (''profileDesc'', Text ''Public profile information of your Telegram account.''),
     (''editingProfile'', Text ''Edit name, username, and bio of this Telegram account.''), (''firstName'', Text ''First Name''),
     (''firstNameRequired'', Text ''First name cannot be empty.''), (''lastName'', Text ''Last Name''), (''username'', Text ''Username''),
     (''usernamePlaceholder'', Text ''without @''), (''checkingUsername'', Text ''Checking availability...''),
     (''usernameAvailable'', Text ''Username is available''), (''usernameOccupied'', Text ''Username is already taken''),
     (''usernameInvalid'', Text ''Invalid username format (5-32 characters, a-z, 0-9, _)''),
     (''usernamePurchaseAvailable'', Text ''This username is only available via Fragment auction''),
     (''usernameUnchanged'', Text ''Your current username''), (''usernameWillBeRemoved'', Text ''Username will be removed from your account''),
     (''usernameTooShort'', Text ''Username must be at least 5 characters''), (''usernameStartsWithDigit'', Text ''Username cannot start with a number''),
     (''usernameInvalidChars'', Text ''Username can only contain letters, numbers, and underscores''),
     (''usernameFloodWait'', Text ''Too many username checks. Please wait a moment''), (''bio'', Text ''Bio''),
     (''bioPlaceholder'', Text ''Write a short bio...''), (''saving'', Text ''Saving...''), (''save'', Text ''Save''),
     (''profileUpdated'', Text ''Profile updated successfully!''), (''updateFailed'', Text ''Failed to update profile''),
     (''privacySecurity'', Text ''Privacy & Security''), (''whoCanSee'', Text ''Who can see my personal info''),
     (''whoCanContact'', Text ''Who can contact me''), (''messagesForwarding'', Text ''Messages & Forwarding''),
     (''lastSeen'', Text ''Last Seen & Online''), (''photoPrivacy'', Text ''Profile Photo''), (''bioPrivacy'', Text ''Bio''),
     (''birthday'', Text ''Birthday''), (''phoneNumber'', Text ''Phone Number''), (''whoCanCall'', Text ''Who can call me''),
     (''whoCanAddGroups'', Text ''Who can add me to groups''), (''whoCanFindByPhone'', Text ''Who can find me by phone''),
     (''whoCanForward'', Text ''Who can forward my messages''), (''whoCanSendVoice'', Text ''Who can send me voice messages''),
     (''everybody'', Text ''Everybody''), (''myContacts'', Text ''My Contacts''), (''closeFriends'', Text ''Close Friends''),
     (''nobody'', Text ''Nobody''), (''savePrivacy'', Text ''Save Privacy Settings''), (''privacyUpdated'', Text ''Privacy settings updated!''),
     (''unsavedChanges'', Text ''{count} unsaved change(s)''), (''twoFactor'', Text ''Two-Factor Authentication''), (''enabled'', Text ''Enabled''),
     (''disabled'', Text ''Disabled''), (''enable2fa'', Text ''Enable 2FA''), (''disable2fa'', Text ''Disable 2FA''),
     (''new2faPassword'', Text ''New 2FA password''), (''current2faPassword'', Text ''Current 2FA password''),
     (''change2faPassword'', Text ''Change 2FA Password''), (''newPassword'', Text ''New password''), (''confirmPassword'', Text ''Confirm password''),
     (''changePassword'', Text ''Change Password''), (''forgotPassword'', Text ''Forgot password?''), (''requestRecovery'', Text ''Send Recovery Code''),
     (''recoveryCode'', Text ''Recovery code from email''), (''recover'', Text ''Recover Account''),
     (''recoveryInfo'', Text ''Recovery code will be sent to your recovery email''), (''recoverySent'', Text ''Recovery code sent to {email}''),
     (''recoveryEmail'', Text ''Recovery Email''), (''recoveryEmailPlaceholder'', Text ''recovery@email.com''),
     (''recoveryEmailConfirmInfo'', Text ''Enter the confirmation code sent to your recovery email.''), (''setEmail'', Text ''Set Email''),
     (''loginEmail'', Text ''Login Email''), (''loginEmailDesc'', Text ''OTP login codes are sent to this email''),
     (''changeLoginEmail'', Text ''Change Login Email''), (''changeLoginEmailDesc'', Text ''Enter a new email address to receive login codes''),
     (''newLoginEmail'', Text ''New email address''), (''sendVerificationCode'', Text ''Send Code''),
     (''verificationCode'', Text ''Verification code from email''), (''verifyEmail'', Text ''Verify Email''),
     (''unconfirmedEmail'', Text ''Unconfirmed Email''), (''waitingConfirmation'', Text ''waiting confirmation''),
     (''passwordHint'', Text ''Password Hint''), (''passwordsDontMatch'', Text (''Passwords don'' @ [CHR 39] @ ''t match'')), (''done'', Text ''Done!''),
     (''actionFailed'', Text ''Action failed''), (''autoReply'', Text ''Auto-Reply (Welcome Message)''),
     (''autoReplyDesc'', Text ''When enabled, this account will automatically reply to the first direct message from any user. It will not reply in groups, channels, or to bots. Each user receives the reply only once.''),
     (''autoReplyOn'', Text ''Auto-reply is ON''), (''autoReplyOff'', Text ''Auto-reply is OFF''), (''replyMessage'', Text ''Reply Message''),
     (''replyMessagePlaceholder'', Text ''Hello! Thanks for reaching out. How can I help you?''),
     (''autoReplySaved'', Text ''Auto-reply settings saved!''), (''deleteContacts'', Text ''Delete Synced Contacts''),
     (''deleteContactsDesc'', Text ''Remove all contacts that are synced to this Telegram account.''),
     (''deleteAllContacts'', Text ''Delete All Synced Contacts''), (''deleting'', Text ''Deleting...''),
     (''contactsDeleted'', Text ''Synced contacts deleted!''), (''contactsDeleteConfirm'', Text ''Delete all synced contacts from this account?''),
     (''removePhotoConfirm'', Text ''Remove profile photo?'')]"

definition en_devices :: dict where
  "en_devices = Group [
     (''title'', Text ''Devices''), (''activeSessions'', Text ''Active sessions for {name}''), (''noDevices'', Text ''No devices found.''),
     (''failedToLoad'', Text ''Failed to load devices.''), (''terminate'', Text ''Terminate this session''),
     (''terminateAll'', Text ''Terminate All Other Sessions''),
     (''terminateAllDesc'', Text ''Log out from all other devices except the current TeleBos session.''),
     (''terminateAllBtn'', Text ''Terminate All Other Sessions''), (''terminating'', Text ''Terminating...''),
     (''terminateAllConfirm'', Text ''Terminate all other sessions? This device will stay connected.''), (''unknownApp'', Text ''Unknown App''),
     (''since'', Text ''Since {date}''), (''thisDevice'', Text ''This Device''), (''otherDevices'', Text ''Other Devices''),
     (''sessionTerminated'', Text ''Device session terminated successfully''), (''terminateSessionFailed'', Text ''Failed to terminate device session''),
     (''otherSessionsTerminated'', Text ''All other sessions terminated successfully''),
     (''terminateOtherSessionsFailed'', Text ''Failed to terminate other sessions'')]"

definition en_utils :: dict where
  "en_utils = Group [
     (''dateEmpty'', Text ([CHR 226, CHR 128, CHR 148])), (''justNow'', Text ''just now''), (''minutesAgo'', Text ''{m}m ago''),
     (''hoursAgo'', Text ''{h}h ago''), (''daysAgo'', Text ''{d}d ago'')]"

definition en_common :: dict where
  "en_common = Group [
     (''language'', Text ''Language''), (''english'', Text ''English''), (''indonesian'', Text ''Indonesia''), (''close'', Text ''Close'')]"

definition en_groupsChannels :: dict where
  "en_groupsChannels = Group [
     (''title'', Text ''Groups & Channels''), (''groups'', Text ''Groups''), (''channels'', Text ''Channels''),
     (''searchGroups'', Text ''Search groups...''), (''searchChannels'', Text ''Search channels...''), (''noGroups'', Text ''No groups found''),
     (''noChannels'', Text ''No channels found''), (''owner'', Text ''Owner''), (''failedToLoad'', Text ''Failed to load''), (''retry'', Text ''Retry''),
     (''page'', Text ''Page''), (''prev'', Text ''Prev''), (''next'', Text ''Next''), (''joinNew'', Text ''Join New Group/Channel''),
     (''join'', Text ''Join''), (''joinDescription'', Text ''Enter a @username or invite link to join a new group or channel.''),
     (''joinPlaceholder'', Text ''@group or t.me/... or invite link''), (''joining'', Text ''Joining...''),
     (''joinedSuccess'', Text ''Joined successfully!''), (''joinFailed'', Text ''Failed to join''), (''alreadyMember'', Text ''Already a member''),
     (''identifier'', Text ''Username or Invite Link''), (''sync'', Text ''Sync Groups & Channels''), (''syncing'', Text ''Syncing...''),
     (''syncSuccess'', Text ''Groups & channels synced successfully!''), (''syncFailed'', Text ''Sync failed!''),
     (''lastSynced'', Text ''Last synced: {time}''), (''neverSynced'', Text ''Never synced''),
     (''syncRequiredDesc'', Text ''To optimize VPS performance, groups and channels are only synced on demand. Please sync now to fetch them.''),
     (''memberCount'', Text ''Total Members''), (''onlineCount'', Text ''Online''), (''inviteLink'', Text ''Invite Link''),
     (''copyLink'', Text ''Copy Link''), (''copiedLink'', Text ''Link copied!''), (''copyAllLinks'', Text ''Copy All Links''),
     (''copiedAllLinks'', Text ''All invite links copied!''), (''publicIndex'', Text ''Public Index''),
     (''publicIndexDesc'', Text ''Explore public groups and channels across all Telegram accounts.''), (''proOnly'', Text ''Pro Only Feature''),
     (''proOnlyDesc'', Text ''This page is restricted to Pro members. Upgrade your plan to access public groups and channels from all accounts.''),
     (''upgradeNow'', Text ''Upgrade Now''), (''myChats'', Text ''My Chats''), (''allChats'', Text ''All Public Chats''),
     (''noPublicChats'', Text ''No public groups or channels found.''), (''autoJoin'', Text ''Auto Join''),
     (''autoJoinDesc'', Text ''Automatically join multiple groups and channels using your Telegram accounts.''), (''autoLeave'', Text ''Auto Leave''),
     (''autoLeaveDesc'', Text ''Automatically leave multiple groups and channels using your Telegram accounts.'')]"

definition en_autoJoin :: dict where
  "en_autoJoin = Group [
     (''live'', Text ''Live''), (''offline'', Text ''Offline''), (''history'', Text ''Job History''),
     (''historyDesc'', Text ''Recent runs. Click a row to inspect its log.''), (''noJobs'', Text ''No auto join jobs yet.''), (''jobId'', Text ''Job''),
     (''created'', Text ''Created''), (''status'', Text ''Status''), (''progress'', Text ''Progress''), (''detail'', Text ''Detail''),
     (''inspect'', Text ''Inspect log''), (''delete'', Text ''Delete job''), (''noActiveJob'', Text ''No auto join job is running yet.''),
     (''logCap'', Text ''Showing the newest {shown} of {total} entries.''),
     (''runningInWorker'', Text (''This run is executing in the backend worker. You can leave this page '' @ [CHR 226, CHR 128, CHR 148] @ '' it keeps going.'')),
     (''estimated'', Text ''Estimated joins''), (''statusPending'', Text ''Pending''), (''statusRunning'', Text ''Running''),
     (''statusPaused'', Text ''Paused''), (''statusCompleted'', Text ''Completed''), (''statusCancelled'', Text ''Cancelled''),
     (''statusFailed'', Text ''Failed''), (''success'', Text ''Success''), (''already'', Text ''Member''), (''failed'', Text ''Failed''),
     (''breadcrumb'', Text ''Groups & Channels''), (''pageTitle'', Text ''Auto Join Groups & Channels''),
     (''pageSubtitle'', Text ''Join multiple Telegram groups and channels in bulk with your accounts. Enter links or usernames manually or use saved group lists.''),
     (''manageGroupLists'', Text ''Manage Group Lists''), (''viewMyChats'', Text ''View My Chats''), (''targetTitle'', Text ''Target Groups / Channels''),
     (''targetSubtitle'', Text ''Select the target source to join''), (''modeBulk'', Text ''Bulk Input''), (''modeGroupLists'', Text ''Group Lists''),
     (''pasteLabel'', Text ''Paste links / usernames per line:''), (''targetsDetected'', Text ''{count} targets detected''),
     (''formatHint'', Text ''Format: @user, t.me/name, or private link t.me/+hash.''), (''clear'', Text ''Clear''),
     (''saveAsGroupList'', Text ''Save as Group List''), (''saveListPlaceholder'', Text ''List name (e.g. Crypto & Airdrop Channels)''),
     (''save'', Text ''Save''), (''selectSavedListLabel'', Text ''Select Saved Group List:''),
     (''selectListPlaceholder'', Text ''-- Select Group List --''), (''targetsCount'', Text ''{count} targets''),
     (''noListSelected'', Text ''No list selected yet. Select a list above or switch to Bulk Input mode.''),
     (''selectAccountsTitle'', Text ''Select Telegram Accounts''), (''selectAccountsDesc'', Text ''Select accounts to join groups/channels''),
     (''executionTitle'', Text ''Execution Settings''), (''joinDelayLabel'', Text ''Join Delay (Interval per target):''),
     (''delayFast'', Text ''2s (Fast)''), (''delayRecommended'', Text ''5s (Recommended)''), (''delaySafe'', Text ''30s (Very Safe)''),
     (''jitterTitle'', Text (''Randomize Jitter ('' @ [CHR 177] @ '' 2s)'')), (''jitterSubtitle'', Text ''Add delay variation for natural behavior''),
     (''distributionTitle'', Text ''Account Distribution Method:''), (''distributeAll'', Text ''All Accounts''),
     (''distributeAllDesc'', Text ''Each account joins all targets''), (''distributeRoundRobin'', Text ''Round-Robin''),
     (''distributeRoundRobinDesc'', Text ''Distribute targets evenly among accounts''), (''startBtn'', Text ''Start Auto Join ({count} Joins)''),
     (''pauseBtn'', Text ''Pause''), (''resumeBtn'', Text ''Resume''), (''stopBtn'', Text ''Stop''),
     (''emptyJobLogs'', Text ''No logs for this job yet.''),
     (''emptyLiveLogs'', Text ''No activity logs yet. Start auto join to see live results here.''), (''loading'', Text ''Loading...''),
     (''toastListSavedTitle'', Text ''Group List Saved''), (''toastListSavedDesc'', Text ''Successfully saved \"{name}\" with {count} targets.''),
     (''toastSaveFailedTitle'', Text ''Failed to Save''), (''toastSaveFailedDesc'', Text ''An error occurred while saving list.''),
     (''toastEmptyTargetsTitle'', Text ''Target is Empty''),
     (''toastEmptyTargetsDesc'', Text ''Please enter targets or select a Group List with targets.''),
     (''toastNoAccountTitle'', Text ''No Account Selected''),
     (''toastNoAccountDesc'', Text ''Select at least one active Telegram account to start joining.''),
     (''toastStartedTitle'', Text ''Auto Join Started''),
     (''toastStartedDesc'', Text ''Processing {total} total joins for {accounts} accounts in backend worker.'')]"

definition en_notFound :: dict where
  "en_notFound = Group [
     (''title'', Text ''Page Not Found''),
     (''description'', Text (''Oops! The page you'' @ [CHR 39] @ ''re looking for doesn'' @ [CHR 39] @ ''t exist or has been moved.'')),
     (''backHome'', Text ''Back to Home''), (''viewDashboard'', Text ''Go to Dashboard''), (''pageNotFound'', Text ''404'')]"

definition en_errors :: dict where
  "en_errors = Group [
     (''badge'', Group [(''401'', Text (''401 '' @ [CHR 226, CHR 128, CHR 162] @ '' Unauthorized'')), (''403'', Text (''403 '' @ [CHR 226, CHR 128, CHR 162] @ '' Access Forbidden'')), (''404'', Text (''404 '' @ [CHR 226, CHR 128, CHR 162] @ '' Not Found'')), (''500'', Text (''500 '' @ [CHR 226, CHR 128, CHR 162] @ '' Server Error'')), (''503'', Text (''503 '' @ [CHR 226, CHR 128, CHR 162] @ '' Service Unavailable''))]),
     (''unauthorized'', Group [(''title'', Text ''Session Expired or Login Required''), (''description'', Text ''You need to be signed in to your TeleBos account to access this page.''), (''actionLogin'', Text ''Sign In Now''), (''actionHome'', Text ''Back to Home'')]),
     (''forbidden'', Group [(''title'', Text ''Access Forbidden''), (''description'', Text ''Your account does not have permission to view or manage this resource.''), (''actionDashboard'', Text ''Go to Dashboard''), (''actionHome'', Text ''Back to Home''), (''actionSupport'', Text ''Contact Support'')]),
     (''notFound'', Group [(''title'', Text ''Page Not Found''), (''description'', Text (''The page you are looking for doesn'' @ [CHR 39] @ ''t exist, was removed, or the link is broken.'')), (''actionHome'', Text ''Back to Home''), (''actionDashboard'', Text ''Go to Dashboard''), (''actionBack'', Text ''Go Back'')]),
     (''serverError'', Group [(''title'', Text ''Internal Server Error''), (''description'', Text ''An unexpected server issue occurred while processing your request.''), (''actionRetry'', Text ''Reload Page''), (''actionHome'', Text ''Back to Home''), (''actionReport'', Text ''Report Issue'')]),
     (''serviceUnavailable'', Group [(''title'', Text ''Service Under Maintenance''), (''description'', Text ''Our server is temporarily undergoing maintenance or experiencing heavy load. Please try again in a few moments.''), (''actionRetry'', Text ''Try Again''), (''actionStatus'', Text ''Check Status''), (''actionHome'', Text ''Back to Home'')]),
     (''technicalDetails'', Text ''Technical Details''), (''copyError'', Text ''Copy Error Details''),
     (''copied'', Text ''Error details copied to clipboard''), (''needHelp'', Text ''Need further assistance?''),
     (''contactSupport'', Text ''Contact Support Team'')]"

definition en_help :: dict where
  "en_help = Group [
     (''title'', Text ''Help & Documentation''), (''desc'', Text ''Learn how to use TeleBos effectively.''),
     (''gettingStarted'', Text ''Getting Started''), (''gettingStartedDesc'', Text ''Everything you need to begin using TeleBos.''),
     (''gettingStartedContent1'', Text (''Create an account by registering with your email and password. After logging in, you'' @ [CHR 39] @ ''ll see the main dashboard where you can manage all your Telegram accounts.'')),
     (''gettingStartedContent2'', Text (''Add your first Telegram account using the '' @ [CHR 39] @ ''Add Account'' @ [CHR 39] @ '' button on the Accounts page. You can connect via OTP (a code sent to your Telegram app), QR Code scan, or by uploading a session string from Telethon, GramJS, or Pyrogram.'')),
     (''gettingStartedContent3'', Text ''Once connected, your account will appear in the Accounts list with its status (online/offline). You can view chats, manage settings, and start broadcasting.''),
     (''gettingStartedContent4'', Text ''Navigate the app using the sidebar on the left. The dashboard gives you a quick overview of your accounts, broadcast stats, and quick actions.''),
     (''accounts'', Text ''Account Management''), (''accountsDesc'', Text ''How to add, manage, and secure your Telegram accounts.''),
     (''accountsContent1'', Text (''Go to Accounts '' @ [CHR 226, CHR 134, CHR 146] @ '' Add Account. Choose between OTP login (recommended), QR Code scan, or session string upload. For OTP, enter your phone number with country code and click '' @ [CHR 39] @ ''Send OTP Code'' @ [CHR 39] @ ''.'')),
     (''accountsContent2'', Text (''Enter the 5-digit verification code sent to your Telegram app. If you have 2FA enabled, you'' @ [CHR 39] @ ''ll be prompted to enter your password after the OTP.'')),
     (''accountsContent3'', Text ''You can upload a session string from an existing Telethon, GramJS, or Pyrogram session. The format is auto-detected and converted automatically.''),
     (''accountsContent4'', Text ''From the account detail page, you can edit your profile (name, username, bio), change your profile photo, configure privacy settings, and manage active devices.''),
     (''accountsContent5'', Text ''To keep your accounts safe, use the 2FA setup on the account settings page. All session strings are encrypted at rest using Fernet encryption.''),
     (''broadcast'', Text ''Broadcasting''), (''broadcastDesc'', Text ''Send messages to multiple groups and channels at once.''),
     (''broadcastContent1'', Text (''First, create a Group List '' @ [CHR 226, CHR 128, CHR 148] @ '' a collection of target groups/channels. Go to Broadcast '' @ [CHR 226, CHR 134, CHR 146] @ '' Group Lists. You can add groups one by one or use bulk import with @usernames or invite links.'')),
     (''broadcastContent2'', Text (''Create a Text List with your message templates. Go to Broadcast '' @ [CHR 226, CHR 134, CHR 146] @ '' Text Lists. Add one or more messages '' @ [CHR 226, CHR 128, CHR 148] @ '' if you use multiple texts in '' @ [CHR 39] @ ''Multi Random'' @ [CHR 39] @ '' mode, a random one is selected per group.'')),
     (''broadcastContent3'', Text (''Go to Broadcast '' @ [CHR 226, CHR 134, CHR 146] @ '' New Broadcast. Select an account, a group list, and either a text list or write a custom message. Choose your mode: '' @ [CHR 39] @ ''Multi Random'' @ [CHR 39] @ '' picks a random text per group, '' @ [CHR 39] @ ''Single Text'' @ [CHR 39] @ '' sends the same message to all.'')),
     (''broadcastContent4'', Text (''Configure delays: '' @ [CHR 39] @ ''Delay per Group'' @ [CHR 39] @ '' (how long to wait between sending to each group), and '' @ [CHR 39] @ ''Delay After All'' @ [CHR 39] @ '' (pause before restarting in loop mode). Enable '' @ [CHR 39] @ ''Loop'' @ [CHR 39] @ '' to repeat the broadcast continuously.'')),
     (''broadcastContent5'', Text (''Click '' @ [CHR 39] @ ''Start Broadcast'' @ [CHR 39] @ ''. You can monitor progress in real-time via WebSocket '' @ [CHR 226, CHR 128, CHR 148] @ '' see success/failure counts per cycle. Use Pause, Resume, or Stop to control the job. View detailed logs per cycle in the Broadcast Logs page.'')),
     (''broadcastContent6'', Text (''Flood control is automatic. When Telegram rate-limits are hit, the system multiplies the delay (up to 5 minutes max) and retries. Looping jobs stay '' @ [CHR 39] @ ''running'' @ [CHR 39] @ '' until manually stopped.'')),
     (''autoReply'', Text ''Auto-Reply''), (''autoReplyDesc'', Text ''Automatically reply to first-time messages from users.''),
     (''autoReplyContent1'', Text ''Auto-reply sends a welcome message to users who send you a direct message for the first time. It only fires on private chats (not groups or channels) and only once per user.''),
     (''autoReplyContent2'', Text (''Go to Auto-Reply in the sidebar. You'' @ [CHR 39] @ ''ll see a global settings section and per-account controls. Use '' @ [CHR 39] @ ''Apply to All Accounts'' @ [CHR 39] @ '' to set the same message everywhere, or configure each account individually.'')),
     (''autoReplyContent3'', Text (''Toggle auto-reply ON for each account and type your reply message. Each user receives the reply only once '' @ [CHR 226, CHR 128, CHR 148] @ '' the system tracks replies in the AutoReplyLog.'')),
     (''autoReplyContent4'', Text ''Auto-reply works even when your account shows as offline. The reply is sent from the account that received the message, using its own identity.''),
     (''memberInvite'', Text ''Member Invite''), (''memberInviteDesc'', Text ''Invite members from source groups to your channel or group.''),
     (''memberInviteContent1'', Text ''The Member Invite tool lets you scrape members from one or more source groups and invite them to a destination group or channel. Great for growing your community.''),
     (''memberInviteContent2'', Text ''Go to Invite in the sidebar. Set your destination group/channel (via @username, invite link, or group ID). Then add one or more source groups to scrape members from.''),
     (''memberInviteContent3'', Text (''Configure delays: '' @ [CHR 39] @ ''Delay per Invite'' @ [CHR 39] @ '' (time between each invite action), '' @ [CHR 39] @ ''Batch Size'' @ [CHR 39] @ '' (how many invites before an extra delay), and '' @ [CHR 39] @ ''Delay per Batch'' @ [CHR 39] @ '' (extra pause after each batch). Start the invite job.'')),
     (''memberInviteContent4'', Text ''The job runs in two phases: Scraping (collecting members from source groups, automatically deduplicated) and Inviting (sending invites to each member). Progress is shown in real-time.''),
     (''memberInviteContent5'', Text (''Members who are already in the destination are skipped. Rate limiting is handled automatically '' @ [CHR 226, CHR 128, CHR 148] @ '' the system respects Telegram'' @ [CHR 39] @ ''s anti-spam restrictions.'')),
     (''troubleshooting'', Text ''Troubleshooting''), (''troubleshootingDesc'', Text ''Common issues and how to resolve them.''),
     (''troubleshootingContent1'', Text ''OTP not arriving: Make sure your phone number includes the country code (e.g., +62 for Indonesia). Check that you have Telegram installed and can receive messages. Try requesting the code again after 30 seconds.''),
     (''troubleshootingContent2'', Text ''Session expired / disconnected: Go to the account settings page and reconnect the account. The system also attempts auto-reconnect on server startup for all active accounts.''),
     (''troubleshootingContent3'', Text (''Broadcast not sending: Check that your account is active and online. Verify the group list has valid groups (the account must be a member). Check the Broadcast Logs for specific error types like '' @ [CHR 39] @ ''not_member'' @ [CHR 39] @ '', '' @ [CHR 39] @ ''flood'' @ [CHR 39] @ '', or '' @ [CHR 39] @ ''invalid_username'' @ [CHR 39] @ ''.'')),
     (''troubleshootingContent4'', Text ''2FA password required: If you have Telegram 2FA enabled, look for the 2FA prompt after entering the OTP code. Enter your Telegram password (not your TeleBos password).''),
     (''troubleshootingContent5'', Text ''Rate limits / Flood wait: TeleBos automatically handles flood waits by increasing the delay. For persistent rate limits, reduce your Delay per Group setting and avoid broadcasting to large group lists in one session.''),
     (''tips'', Text ''Pro Tips''), (''tipsDesc'', Text ''Get the most out of TeleBos with these power-user tips.''),
     (''tipsContent1'', Text (''Use session string upload to quickly migrate existing Telethon, Pyrogram, or GramJS sessions '' @ [CHR 226, CHR 128, CHR 148] @ '' no OTP needed for accounts you'' @ [CHR 39] @ ''re already logged into.'')),
     (''tipsContent2'', Text (''Create multiple Text Lists for different campaigns and reuse them. You can also use a single long text list with '' @ [CHR 39] @ ''Multi Random'' @ [CHR 39] @ '' mode for varied messaging.'')),
     (''tipsContent3'', Text ''Monitor broadcast logs in real-time using the WebSocket-powered progress panel. Export logs as CSV or JSON for external analysis.''),
     (''tipsContent4'', Text ''Use the Language Switcher in the top-right corner to toggle between English and Indonesian. Your preference persists across sessions.''),
     (''tipsContent5'', Text ''Keep your group lists organized with meaningful names. Use the bulk import feature to quickly add many groups from a text file or clipboard.''),
     (''marketplace'', Text ''Account Marketplace''),
     (''marketplaceDesc'', Text ''Sell your Telegram accounts to other users, or buy accounts that are available.''),
     (''marketplaceContent1'', Text (''To sell an account: open Accounts '' @ [CHR 226, CHR 134, CHR 146] @ '' Sell Accounts. Pick an account whose phone number is already verified, then set your asking price. A listed account cannot be used or managed until you cancel the listing.'')),
     (''marketplaceContent2'', Text (''Asking prices follow the automatic Telegram ID prefix pricing, so there is nothing to calculate by hand. The Marketplace buy price sits slightly above the sell price '' @ [CHR 226, CHR 128, CHR 148] @ '' that difference is the platform margin.'')),
     (''marketplaceContent3'', Text ''The buyer pays the buy price, you receive the sell price, and the account changes hands together with its login session. Once sold, you can no longer manage the account.''),
     (''marketplaceContent4'', Text (''In Order History, each account trade shows a status: '' @ [CHR 39] @ ''Selesai'' @ [CHR 39] @ '' (Done) means it sold, '' @ [CHR 39] @ ''Proses'' @ [CHR 39] @ '' (In Process) means the account is still listed and waiting for a buyer. Telegram SMM orders (members, views, reactions) appear on the same page with different statuses.'')),
     (''marketplaceContent5'', Text ''If the Buy Accounts page looks empty, there are currently no accounts available in the Marketplace. It only lists accounts that are actively listed and not yet sold.''),
     (''spamAppeal'', Text ''Limited Accounts & Appeals''),
     (''spamAppealDesc'', Text ''How to recover an account that Telegram has restricted (limited status).''),
     (''spamAppealContent1'', Text ''An account with limited status is restricted by Telegram and cannot be used for broadcasting or invites. A blocked account is more severe: Telegram has usually deactivated it permanently.''),
     (''spamAppealContent2'', Text (''To submit an appeal, open the details of the limited account and click '' @ [CHR 39] @ ''Ajukan Banding'' @ [CHR 39] @ '' (Submit Appeal). You can select from ready-made presets, generate a message using AI, or enter your own custom reason. TeleBos sends the appeal directly to Telegram'' @ [CHR 39] @ ''s @SpamBot.'')),
     (''spamAppealContent3'', Text (''If Telegram requires captcha verification (Cloudflare Turnstile), the system provides a link for you to solve in your browser. Once solved, click '' @ [CHR 39] @ ''Done'' @ [CHR 39] @ '' to proceed. The account status will update automatically once reviewed by Telegram.'')),
     (''spamAppealContent4'', Text (''Common question: '' @ [CHR 39] @ ''My account is limited but not recovering?'' @ [CHR 39] @ '' '' @ [CHR 226, CHR 128, CHR 148] @ '' make sure the account is still connected on the Accounts page. Appeals only run for connected accounts, and an account already sold in the Marketplace cannot appeal until it is bought back.'')),
     (''autoJoin'', Text ''Auto Join Groups''), (''autoJoinDesc'', Text ''Register your accounts into a batch of groups automatically.''),
     (''autoJoinContent1'', Text (''Auto Join saves you from joining groups one at a time by hand. Open Groups & Channels '' @ [CHR 226, CHR 134, CHR 146] @ '' Auto Join, pick the accounts to use, then set your destination groups or channels '' @ [CHR 226, CHR 128, CHR 148] @ '' by @username, invite link, or group ID.'')),
     (''autoJoinContent2'', Text (''There are two distribution modes. '' @ [CHR 39] @ ''All Accounts'' @ [CHR 39] @ '' sends every account to every group, with all accounts finishing one group before moving to the next. '' @ [CHR 39] @ ''Distribute'' @ [CHR 39] @ '' hands each group to a single account round-robin, so any group is only joined once.'')),
     (''autoJoinContent3'', Text (''Set '' @ [CHR 39] @ ''Delay per Group'' @ [CHR 39] @ '' to control pacing. The delay sits between groups, not between individual joins '' @ [CHR 226, CHR 128, CHR 148] @ '' so three accounts against one group costs one delay, not three. Turn on randomised delay to avoid a pattern that is too regular.'')),
     (''autoJoinContent4'', Text (''While a run is going, progress is shown live, including successful joins, accounts that were already members, and failures. An account already in the target group counts as '' @ [CHR 39] @ ''already joined'' @ [CHR 39] @ '' rather than as a failure.'')),
     (''autoJoinContent5'', Text (''Rate limits are handled automatically so you stay inside Telegram'' @ [CHR 39] @ ''s anti-spam rules. There is no need to tune delays manually unless you want to run more conservatively.'')),
     (''smmOrders'', Text ''Telegram SMM Services''),
     (''smmOrdersDesc'', Text ''Order Telegram channel/group members, post views, and reactions via the SMM panel.''),
     (''smmOrdersContent1'', Text ''SMM services in TeleBos are dedicated exclusively to Telegram, providing engagement such as Telegram channel/group members, Telegram post views, and Telegram post reactions. These services operate via an upstream SMM panel and are entirely separate from buying and selling Telegram accounts in the Marketplace.''),
     (''smmOrdersContent2'', Text ''To place an order: choose your Telegram service category (such as Post Views, Members, or Reactions), select an available service, set the quantity (keeping within the minimum and maximum limits), then enter your target Telegram channel link, group link, or post URL depending on the service.''),
     (''smmOrdersContent3'', Text (''Displayed prices already include the platform markup. Balance is deducted when the order is created, and the order moves through '' @ [CHR 39] @ ''Pending'' @ [CHR 39] @ '' '' @ [CHR 226, CHR 134, CHR 146] @ '' '' @ [CHR 39] @ ''In Process'' @ [CHR 39] @ '' '' @ [CHR 226, CHR 134, CHR 146] @ '' '' @ [CHR 39] @ ''Completed'' @ [CHR 39] @ '' or '' @ [CHR 39] @ ''Failed'' @ [CHR 39] @ '' as the upstream panel reports progress.'')),
     (''smmOrdersContent4'', Text (''You can monitor or refresh all running orders from the same page. An order sitting at '' @ [CHR 39] @ ''In Process'' @ [CHR 39] @ '' is still running upstream '' @ [CHR 226, CHR 128, CHR 148] @ '' these usually need time before they complete.'')),
     (''smmOrdersContent5'', Text (''Some services are labelled '' @ [CHR 39] @ ''Not Guaranteed'' @ [CHR 39] @ '' or '' @ [CHR 39] @ ''No Refill'' @ [CHR 39] @ '', meaning the delivered members or views do not include refill guarantees if drop-offs occur. Pick a guaranteed (Refill) service when you need lasting results.'')),
     (''billing'', Text ''Balance, Subscription & Redeem Codes''),
     (''billingDesc'', Text ''How to top up your balance, use redeem codes, and understand your plan tier.''),
     (''billingContent1'', Text ''Balance pays for Marketplace purchases and SMM orders. It is deducted automatically when a transaction succeeds, and refunded if the order fails.''),
     (''billingContent2'', Text ''Redeem codes can be exchanged on the Redeem page. The code value is added straight to your balance, and each code can only be used once.''),
     (''billingContent3'', Text ''Available subscription plans are: Free Trial, Basic, Pro, and Premium. Advanced automation features like mass broadcasting, auto-join, and member scraping require a Pro or Premium plan.''),
     (''billingContent4'', Text ''To check your plan and subscription period, open the Subscriptions page. Your subscription status decides which features are available to your account.''),
     (''billingContent5'', Text (''Balance is deducted immediately when an order is created. If an order is cancelled or marked '' @ [CHR 39] @ ''Failed'' @ [CHR 39] @ '' by the system or upstream provider, your balance is automatically refunded in full back to your TeleBos wallet.'')),
     (''stillStuck'', Text ''Still Stuck?''),
     (''stillStuckDesc'', Text (''If you'' @ [CHR 39] @ ''re experiencing issues not covered here, chat with our AI Support '' @ [CHR 226, CHR 128, CHR 148] @ '' it'' @ [CHR 39] @ ''s online 24/7 and can help resolve most problems right away.'')),
     (''searchLabel'', Text ''Search help articles''), (''searchPlaceholder'', Text (''Search help articles'' @ [CHR 226, CHR 128, CHR 166])),
     (''apiTitle'', Text ''API Documentation''), (''apiDescription'', Text ''Integrate other websites with the scoped TeleBos API.''),
     (''noResults'', Text (''No results found for '' @ [CHR 226, CHR 128, CHR 156] @ ''{query}'' @ [CHR 226, CHR 128, CHR 157])),
     (''clearSearch'', Text ''Clear search''), (''articleCount'', Text ''{count} articles''), (''githubIssues'', Text ''GitHub Issues''),
     (''contactSupport'', Text ''Chat with AI Support''), (''topicNotFound'', Text ''Help topic not found''),
     (''topicNotFoundDesc'', Text (''The page you'' @ [CHR 39] @ ''re looking for doesn'' @ [CHR 39] @ ''t exist.'')),
     (''backToHelp'', Text ''Back to Help''), (''previous'', Text ''Previous''), (''next'', Text ''Next''),
     (''developerResources'', Text ''Developer resources''), (''apiHeroTitle'', Text ''Connect your website to TeleBos''),
     (''apiHeroDesc'', Text ''Use the official OpenAPI reference to discover stable endpoints, request schemas, and response formats. External integrations are intentionally limited to safe, scoped capabilities.''),
     (''openDocs'', Text ''Open interactive docs''), (''downloadOpenApi'', Text ''Download OpenAPI JSON''), (''secureTitle'', Text ''Secure by default''),
     (''secureDesc'', Text ''Never share a TeleBos browser session token with another website. Integration credentials use scoped Bearer API keys.''),
     (''scopedTitle'', Text ''Scoped access''),
     (''scopedDesc'', Text ''API keys are designed for the minimum access needed. Read-only account and profile capabilities come first.''),
     (''versionedTitle'', Text ''Versioned contract''),
     (''versionedDesc'', Text ''External endpoints live under /api/public/v1 and are separate from the internal dashboard API.''),
     (''authWarningTitle'', Text ''Authentication warning''),
     (''authWarningDesc'', Text ''The TeleBos web app uses a Better Auth session header for first-party requests. That token represents your web session and must not be copied into browser scripts, plugins, or third-party services. Use an integration API key instead when API-key management is enabled for your account.''),
     (''serverExample'', Text ''Quick server-to-server example''), (''aiSupport'', Text ''TeleBos AI Support''),
     (''aiSupportTitle'', Text ''TeleBos AI Support''), (''aiSupportOnline'', Text (''Online '' @ [CHR 226, CHR 128, CHR 162] @ '' Fast Response'')),
     (''aiSupportOffline'', Text ''Offline''), (''aiSupportGuest'', Text ''Guest Mode (Not Logged In)''),
     (''aiSupportGuestDesc'', Text ''Log in to check your order status and account balance.''), (''aiSupportUser'', Text ''Connected Account: {name}''),
     (''aiSupportPlaceholder'', Text ''Ask about issues, orders, or features...''), (''aiSupportSend'', Text ''Send message''),
     (''aiSupportEscalate'', Text ''Contact Admin''),
     (''aiSupportEscalateDesc'', Text ''Issue unresolved? Escalate this conversation to our human support team.''),
     (''aiSupportEscalateBtn'', Text ''Submit Ticket to Admin''),
     (''aiSupportEscalateSuccess'', Text ''Support ticket #{ticket} created! Our admin team will review your issue shortly.''),
     (''aiSupportRecentOrders'', Text ''Recent Order History''), (''aiSupportOrderDetails'', Text ''Order Details''),
     (''aiSupportNeedHelp'', Text ''Need direct assistance?''),
     (''aiSupportDisclaimer'', Text ''TeleBos AI may make mistakes. Order data is verified directly from the system.''),
     (''aiSupportClearChat'', Text ''Clear Chat History''), (''aiSupportTicketCreated'', Text ''Ticket Successfully Created'')]"

definition en_landing_1 :: "(string \<times> dict) list" where
  "en_landing_1 = [
     (''loading'', Text (''Loading TeleBos'' @ [CHR 226, CHR 128, CHR 166])), (''navHome'', Text ''Home''), (''navFeatures'', Text ''Features''),
     (''navWorkflow'', Text ''Workflow''), (''navPrivacy'', Text ''Privacy''), (''navTos'', Text ''Terms''), (''getStarted'', Text ''Get Started''),
     (''signIn'', Text ''Sign in''), (''heroOverline'', Text ''Telegram Automation & Multi-Account Platform''),
     (''heroTitle'', Text ''Manage Multiple Telegram Accounts, Broadcast at Scale, and Automate Growth.''),
     (''heroSubtitle'', Text ''Stop juggling dozens of browser tabs or cloned apps. Automate promotions to hundreds of groups, reply to customers from one unified inbox, and scale your Telegram business safely without rapid bans.''),
     (''heroCta'', Text ''Start Free Today''), (''heroSecondary'', Text ''Explore Features''), (''statAccounts'', Text ''managed accounts''),
     (''statServices'', Text ''delivered messages''), (''statPillars'', Text ''cloud uptime 24/7''),
     (''heroProof'', Text ''The trusted platform for marketers, agencies, and sellers to automate Telegram growth.''),
     (''proofAccounts'', Text ([CHR 240, CHR 159, CHR 155, CHR 161, CHR 239, CHR 184, CHR 143] @ '' Multi-Account Safety'')),
     (''proofBroadcast'', Text ([CHR 226, CHR 154, CHR 161] @ '' Anti-Flood Protection'')),
     (''proofChat'', Text ([CHR 240, CHR 159, CHR 146, CHR 172] @ '' Unified Multi-Account Inbox'')),
     (''proofAutomation'', Text ([CHR 240, CHR 159, CHR 164, CHR 150] @ '' 24/7 Cloud Automation'')),
     (''proofMonitoring'', Text ([CHR 240, CHR 159, CHR 148, CHR 132] @ '' Smart Account Rotation'')),
     (''surfaceIllustrative'', Text ''TeleBos Dashboard Preview''), (''surfaceReady'', Text ''Ready to send''), (''surfaceConnected'', Text ''Active''),
     (''surfaceQueued'', Text ''Broadcast Queue''), (''surfacePacing'', Text ''Auto Delay Active''), (''surfaceDelivered'', Text ''Delivered''),
     (''surfaceUnread'', Text ''Incoming Message''), (''surfaceAssigned'', Text ''In progress''), (''surfaceEnabled'', Text ''Active''),
     (''surfaceMatched'', Text ''Rule Matched''), (''surfaceRunning'', Text ''Running in Cloud''), (''surfaceComplete'', Text ''Complete''),
     (''surfaceAttention'', Text ''Needs check''), (''surfaceAccount'', Text ''Account''), (''surfaceTargets'', Text ''Target Groups''),
     (''surfaceDelay'', Text ''Delay''), (''surfaceProgress'', Text ''Delivery Progress''), (''surfaceRule'', Text ''Reply Rule''),
     (''surfaceNextAction'', Text ''Action''), (''sculptureAccounts'', Text ''Accounts''), (''sculptureQueue'', Text ''Queue''),
     (''sculptureChats'', Text ''Chats''), (''sculptureRules'', Text ''Rules''), (''storyProblemKicker'', Text ''The Telegram Growth Bottleneck''),
     (''storyProblemTitle'', Text ''Manual promotion across dozens of accounts burns time and risks bans.''),
     (''storyProblemDesc'', Text ''The more accounts you operate for sales and promotions, the more chaotic it becomes using traditional desktop clients.''),
     (''storyProblemPoint1'', Text ''Exhausting manual switching between accounts that crashes your laptop or phone.''),
     (''storyProblemPoint2'', Text ''Hot customer leads get buried and ignored because chats are scattered everywhere.''),
     (''storyProblemPoint3'', Text ''Accounts get banned rapidly due to haphazard broadcasting without smart delays.''),
     (''storyConsequenceKicker'', Text ''The Solution''),
     (''storyConsequenceTitle'', Text ''Automate your entire operation from one secure web dashboard.''),
     (''storyConsequenceDesc'', Text ''TeleBos handles the heavy lifting of broadcasts, member growth, and instant auto-replies so you can focus on closing deals and scaling your business.''),
     (''storySolutionKicker'', Text ''Core Advantage''), (''storySolutionTitle'', Text ''One automated platform to skyrocket your reach on Telegram.''),
     (''storySolutionDesc'', Text ''Promote to hundreds of groups, acquire targeted audiences, and serve customers 24/7 from a single browser screen.''),
     (''flowKicker'', Text ''Automated Flow''), (''flowTitle'', Text ''How TeleBos Powers Your Telegram Growth''),
     (''flowSubtitle'', Text ''From your first promotional message to thousands of active members in your community, everything runs protected.''),
     (''flowOverloadTitle'', Text ''1. Connect Multiple Accounts Easily''),
     (''flowOverloadDesc'', Text ''Link your Telegram accounts securely without installing multiple client apps or clunky portable clones.''),
     (''flowFragmentedTitle'', Text ''2. Prepare Target Groups & Message Templates''),
     (''flowFragmentedDesc'', Text ''Select your target communities, configure message spins, and set safe anti-flood delays.''),
     (''flowControlTitle'', Text ''3. Run Broadcasts & Auto-Join Automatically''),
     (''flowControlDesc'', Text ''The system automatically rotates sender accounts and paces delivery to keep your accounts healthy.''),
     (''flowAutomatedTitle'', Text ''4. Auto-Reply to Customer Inquiries 24/7''),
     (''flowAutomatedDesc'', Text ''Deploy instant auto-replies to answer customer questions immediately when they reach out.''),
     (''flowActionTitle'', Text ''5. Track Results & Scale Up''),
     (''flowActionDesc'', Text ''Review real-time delivery logs, connect more accounts, and multiply your sales pipeline effortlessly.''),
     (''flowNodeAccounts'', Text ''Accounts''), (''flowNodeMessages'', Text ''Messages''), (''flowNodeAutomation'', Text ''Automation''),
     (''flowNodeControl'', Text ''TeleBos''), (''flowNodeAction'', Text ''Outcomes''), (''flowStatusIncoming'', Text ''Multi-Account''),
     (''flowStatusFragmented'', Text ''Target Ready''), (''flowStatusUnified'', Text ''Safe Rotation''), (''flowStatusRunning'', Text ''Auto-Reply''),
     (''flowStatusComplete'', Text ''Closing''), (''flowExpandLabel'', Text ''Show detail''), (''flowCollapseLabel'', Text ''Hide detail''),
     (''slabKicker'', Text ''How to use it''), (''slabTitle'', Text ''Every feature here recovers time and money you lose to Telegram every day.''),
     (''slabSubtitle'', Text ''Not a feature list. Five ways to run Telegram that pay for themselves, from the biggest daily leak to the fastest win.''),
     (''slabAccountsTitle'', Text ''Account control & multi-login''),
     (''slabAccountsDesc'', Text ''Connect and monitor dozens of accounts from one browser tab without cloning apps or logging in and out.''),
     (''slabBroadcastTitle'', Text ''Broadcast orchestration & mass messaging''),
     (''slabBroadcastDesc'', Text ''Broadcast promotions to hundreds of target groups with automatic account rotation and smart anti-flood pacing.''),
     (''slabChatTitle'', Text ''Live conversation handling & unified inbox''),
     (''slabChatDesc'', Text ''Read and reply to customer chats across all accounts from a single inbox so no paying lead gets lost.''),
     (''slabAutomationTitle'', Text ''Automation rules & auto-replies''),
     (''slabAutomationDesc'', Text ''Automatically join target groups and deploy 24/7 auto-reply bots to answer buyers while you sleep.''),
     (''slabMonitorTitle'', Text ''Operational monitoring & SpamBot appeal''),
     (''slabMonitorDesc'', Text ''Monitor account health in real time and submit AI-assisted SpamBot appeals with a single click if limited.''),
     (''slabVisualSignal'', Text ''Signal''), (''slabVisualControl'', Text ''Control''), (''slabVisualVisible'', Text ''Visible''),
     (''slabVisualQueue'', Text ''Queue''), (''slabVisualDelay'', Text ''Delay''), (''slabVisualDeliver'', Text ''Deliver''),
     (''slabVisualTrigger'', Text ''Trigger''), (''slabVisualRule'', Text ''Rule''), (''slabVisualAction'', Text ''Action''),
     (''trustKicker'', Text ''Enterprise Security''), (''ctaKicker'', Text ([CHR 240, CHR 159, CHR 154, CHR 128] @ '' Get Started'')),
     (''outcomeAccountsTitle'', Text ''Broadcast at Scale Without Ban Anxiety''),
     (''outcomeAccountsDesc'', Text ''Schedule promotional messages to hundreds of groups simultaneously. TeleBos automatically rotates sending accounts and applies smart delays to bypass Telegram limits.''),
     (''outcomeBroadcastTitle'', Text ''Auto-Join & Grow Community Members Automatically''),
     (''outcomeBroadcastDesc'', Text ''Join target communities and invite potential buyers to your business channels automatically. The fastest way to build an engaged buyer audience.''),
     (''outcomeVisibilityTitle'', Text ''Unified Inbox for All Chats + 24/7 Auto-Reply Bot''),
     (''outcomeVisibilityDesc'', Text ''View and respond to customer messages across all accounts in one screen. Enable instant auto-replies so leads never wait when you are away.''),
     (''capabilitiesTitle'', Text ''What You Can Do With TeleBos''),
     (''capabilitiesSubtitle'', Text ''The all-in-one automation platform to maximize promotional reach, grow communities, and manage Telegram accounts safely.''),
     (''capabilityAccountsTitle'', Text ''Account Marketplace & SMM Booster Services''),
     (''capabilityAccountsDesc'', Text ''Need aged, warm Telegram accounts? Or instant channel members, post views, and emoji reactions? Order on demand using your wallet balance.''),
     (''capabilityAccountsPoint1'', Text ''Aged, ready-to-use Telegram accounts''),
     (''capabilityAccountsPoint2'', Text ''Channel member and subscriber growth''),
     (''capabilityAccountsPoint3'', Text ''Instant post views and emoji reaction boost''),
     (''capabilityBroadcastTitle'', Text ''SpamBot Check & AI-Assisted Account Appeals''),
     (''capabilityBroadcastDesc'', Text ''Detect limited accounts instantly and submit official Telegram unban appeals written by AI with a single click.''),
     (''capabilityBroadcastPoint1'', Text ''Real-time SpamBot status detection''),
     (''capabilityBroadcastPoint2'', Text ''AI-generated unban appeal arguments''),
     (''capabilityBroadcastPoint3'', Text ''Step-by-step account recovery guidance''),
     (''capabilityAutomationTitle'', Text ''24/7 Cloud Execution Without Keeping PC On''),
     (''capabilityAutomationDesc'', Text ''All broadcast tasks and automations execute reliably on our cloud servers. Shut down your laptop, promotions keep running.''),
     (''capabilityAutomationPoint1'', Text ''High-uptime cloud servers running 24/7''),
     (''capabilityAutomationPoint2'', Text ''Transparent, real-time delivery logs''),
     (''capabilityAutomationPoint3'', Text ''Automatic notifications on job completion''), (''workflowTitle'', Text ''Get Started in 3 Simple Steps''),
     (''workflowSubtitle'', Text ''Zero complicated software installation. Ready to use in 2 minutes.''),
     (''workflowConnectTitle'', Text ''01. Connect Your Accounts''),
     (''workflowConnectDesc'', Text ''Link your Telegram accounts securely via OTP or session string import. All accounts appear instantly on your dashboard.''),
     (''workflowConfigureTitle'', Text ''02. Choose Your Growth Tasks''),
     (''workflowConfigureDesc'', Text ''Select target groups for promotion, define auto-join communities, or configure instant auto-reply messages.''),
     (''workflowOperateTitle'', Text ''03. Let the System Work''),
     (''workflowOperateDesc'', Text ''Sit back while TeleBos executes your campaigns 24/7 in the cloud. Track progress live from your web workspace.''),
     (''workflowReviewTitle'', Text ''04. Analyze & Scale''),
     (''workflowReviewDesc'', Text ''Inspect delivery analytics, identify high-converting messages, and add more accounts to multiply your outreach.''),
     (''trustTitle'', Text ''Engineered to Keep Your Accounts Safe''),
     (''trustDesc'', Text ''We know your Telegram accounts are vital business assets. TeleBos is built with strict privacy and security standards.''),
     (''trustPoint1'', Text (''End-to-End Credential Encryption '' @ [CHR 226, CHR 128, CHR 148] @ '' Telegram sessions are symmetrically encrypted with Fernet before storage.'')),
     (''trustPoint2'', Text (''Official MTProto Native Protocol '' @ [CHR 226, CHR 128, CHR 148] @ '' Powered by genuine Telegram protocol connections, never fragile web scrapers.'')),
     (''trustPoint3'', Text (''Adaptive Anti-Flood Protections '' @ [CHR 226, CHR 128, CHR 148] @ '' Intelligently calibrated delays protect your accounts against Telegram FloodWait limits.'')),
     (''trustPoint4'', Text (''24/7 Continuous Cloud Execution '' @ [CHR 226, CHR 128, CHR 148] @ '' Tasks run uninterrupted on our cloud even when your devices are offline.'')),
     (''infraKicker'', Text ''Infrastructure''), (''infraTitle'', Text ''Runs on a VPS for maximum performance.'')]"

definition en_landing_2 :: "(string \<times> dict) list" where
  "en_landing_2 = [
     (''infraDesc'', Text ''TeleBos runs on VPS infrastructure behind PM2 + nginx, so the app stays online and is ready whenever you are.''),
     (''infraDomainsTitle'', Text ''Domains & server''), (''infraServicesTitle'', Text ''Apps & services''), (''infraRuntimeTitle'', Text ''Runtime''),
     (''infraStatusStable'', Text ''Running steadily''), (''infraStatusReverse'', Text ''IPv4 & nginx''),
     (''infraFeaturesTitle'', Text ''Everything you need to run Telegram accounts''),
     (''infraFeaturesDesc'', Text ''From account management to automation, TeleBos gives you the features you need in one platform.''),
     (''infraCtaTitle'', Text ''Ready to get more out of your Telegram accounts?''),
     (''infraCtaDesc'', Text ''Start now and see how much easier running many accounts with TeleBos is.''),
     (''infraCtaSecondary'', Text ''Read the documentation''), (''infraTrust1Title'', Text ''Secure & stable''),
     (''infraTrust1Desc'', Text ''Encrypted system, monitored continuously''), (''infraTrust2Title'', Text ''Easy to use''),
     (''infraTrust2Desc'', Text ''A simple, intuitive interface''), (''infraTrust3Title'', Text ''24/7 support''),
     (''infraTrust3Desc'', Text ''Our team is ready to help, any time''), (''ctaTitle'', Text ''Ready to Supercharge Your Telegram Growth?''),
     (''ctaSubtitle'', Text ''Create your free account in 30 seconds. Experience the effortless power of multi-account management and safe broadcasts.''),
     (''ctaButton'', Text ''Create Free Account Now''),
     (''footerDescription'', Text ''The premier Telegram automation and multi-account management platform for modern marketers and businesses.''),
     (''footerProduct'', Text ''Product''), (''footerHelp'', Text ''Help''), (''footerLegal'', Text ''Legal''),
     (''footerTelegram'', Text ''Join TeleBos Telegram Channel!''), (''footerCopyright'', Text ([CHR 169] @ '' 2026 TeleBos. All rights reserved.''))]"

definition en_landing :: dict where
  "en_landing = Group (en_landing_1 @ en_landing_2)"

definition en_privacy :: dict where
  "en_privacy = Group [
     (''title'', Text ''Privacy Policy''), (''lastUpdated'', Text ''Last updated: October 17, 2026''),
     (''intro'', Text ''At TeleBos, we prioritize your privacy and data security. This Privacy Policy transparently explains how we collect, use, store, process, and safeguard your information when you use our Telegram management, automation, account marketplace, and SMM engagement platform.''),
     (''section1Title'', Text ''Information We Collect''),
     (''section1Desc'', Text ''We collect user account credentials (email address, securely bcrypt-hashed passwords, profile name), Telegram account authentication data (strictly encrypted MTProto session strings and encrypted 2FA passwords), custom proxy configurations (encrypted), financial transaction records (QRIS top-up history, encrypted bank account / e-wallet numbers for withdrawals, immutable wallet ledger entries), Telegram SMM order data (target Telegram links and order quantities), and operational metadata (broadcast logs, member inviter logs, auto-reply logs, and account status indicators).''),
     (''section2Title'', Text ''How We Use Your Information''),
     (''section2Desc'', Text ''Your information is used solely to power TeleBos services: authenticating your login sessions, executing Telegram MTProto requests via Telethon (session strings remain encrypted at rest), executing scheduled automation workflows (broadcasts, group invites, auto-replies, auto-joins, and SpamBot appeals), facilitating peer-to-peer Telegram account marketplace trades, routing Telegram SMM engagement orders to upstream providers, verifying withdrawals via email OTP, and delivering real-time status updates via WebSockets. We never sell your personal data to any third parties.''),
     (''section3Title'', Text ''Data Storage, Encryption & Security''),
     (''section3Desc'', Text ''We implement enterprise-grade layered security. Telegram session strings, 2FA passwords, proxy credentials, and withdrawal destination bank/e-wallet numbers are encrypted at rest using Fernet symmetric encryption (AES-128-CBC with HMAC-SHA256 authentication). User passwords are saved with bcrypt hashing, and Better Auth session tokens are stored hashed (SHA-256) in PostgreSQL. All balance mutations are recorded in an append-only, immutable double-entry ledger. All communications are protected over HTTPS/TLS and authenticated WebSockets.''),
     (''section4Title'', Text ''Data Retention & Deletion Rights''),
     (''section4Desc'', Text ''Your Telegram session data and associated credentials are kept only as long as the Telegram account remains connected to TeleBos. You have the right to disconnect any Telegram account at any time, which permanently deletes the encrypted session string and 2FA password from our database. You can also request complete deletion of your TeleBos user account. Financial ledger records and transaction audits are retained for legitimate accounting reconciliation and fraud prevention compliance.''),
     (''section5Title'', Text ''Third-Party Services & Data Processors''),
     (''section5Desc'', Text ''To deliver our services, TeleBos interfaces with external processors: (1) Official Telegram MTProto servers to execute account actions; (2) KlikQRIS payment gateway to generate dynamic QRIS invoices and verify payment webhooks with HMAC signatures; (3) BuzzerPanel upstream SMM provider to fulfill Telegram-only engagement orders (only public target links and quantities are submitted, never your session credentials). Our underlying PostgreSQL databases, Redis caching queues, and background workers are isolated within our secure infrastructure.''),
     (''section6Title'', Text ''User Rights & Privacy Support''),
     (''section6Desc'', Text ''You maintain full rights to access your profile data, update withdrawal destination details, disconnect your Telegram accounts, and request privacy support. If you have questions, concerns, or requests regarding this Privacy Policy, please contact the TeleBos team via the Help Center, official dashboard support tickets, or our official Telegram community channel.'')]"

definition en_tos :: dict where
  "en_tos = Group [
     (''title'', Text ''Terms of Service''), (''lastUpdated'', Text ''Last updated: October 17, 2026''),
     (''intro'', Text ''By accessing, registering, or using TeleBos, you agree to be bound by these Terms of Service. Please read them thoroughly before using the platform. If you do not agree with any part of these terms, you must not use TeleBos.''),
     (''section1Title'', Text ''Acceptance of Terms & Telegram Disclaimer''),
     (''section1Desc'', Text (''By accessing or using TeleBos, you agree to comply with these Terms of Service and all applicable laws and regulations. CRITICAL NOTICE: TeleBos is an independent third-party platform and is NOT affiliated, associated, authorized, endorsed by, or in any way officially connected with Telegram FZ-LLC or Telegram Messenger Inc. The name '' @ [CHR 39] @ ''Telegram'' @ [CHR 39] @ '' is used solely for compatibility identification. You are solely responsible for ensuring your use complies with Telegram'' @ [CHR 39] @ ''s official Terms of Service.'')),
     (''section2Title'', Text ''Description of Services & Platform Ecosystem''),
     (''section2Desc'', Text (''TeleBos provides web-based software for managing and automating Telegram operations, including: (1) Multi-account Telegram management and automation workflows (bulk broadcasts, member inviter, auto-join, intelligent auto-reply, account age checker, and SpamBot appeal assistant); (2) Peer-to-peer (P2P) Telegram Account Marketplace with prefix-based pricing; (3) Telegram-only SMM engagement services (post views, reactions, and group/channel members); and (4) Wallet balance management for automated QRIS deposits and withdrawals. All services are provided strictly on an '' @ [CHR 39] @ ''as is'' @ [CHR 39] @ '' and '' @ [CHR 39] @ ''as available'' @ [CHR 39] @ '' basis.'')),
     (''section3Title'', Text ''User Responsibilities & Anti-Abuse Policies''),
     (''section3Desc'', Text (''You are responsible for maintaining the confidentiality of your account credentials and 2FA security. You are strictly prohibited from using TeleBos for illegal purposes, fraud (phishing/scams), malware distribution, child sexual abuse material (CSAM), terrorism, or abusive mass-spamming that violates laws or Telegram policies. You acknowledge that message frequencies and automation volumes are under your sole control, and you bear full responsibility for any rate limits (FloodWait) or account restrictions imposed by Telegram'' @ [CHR 39] @ ''s algorithms.'')),
     (''section4Title'', Text ''Account Marketplace & Telegram SMM Terms''),
     (''section4Desc'', Text ''Purchasing a Telegram account in the Marketplace is a final, non-refundable transaction once session ownership transfer is committed in the database; TeleBos does not offer unilateral order reversals. SMM engagement orders are provisioned exclusively for Telegram targets through upstream providers; your wallet balance is charged upfront. Active SMM orders cannot be cancelled mid-process unless the upstream provider marks the order as Canceled or Partial, in which case TeleBos automatically prorates and refunds the unfulfilled amount back to your wallet balance.''),
     (''section5Title'', Text ''Wallet Balance, Payments & Withdrawals''),
     (''section5Desc'', Text ''Balance top-ups are processed via dynamic QRIS (KlikQRIS) or official voucher codes. Successfully credited balances represent internal digital credits for platform services and cannot be refunded or subject to chargebacks. Fund withdrawals to verified bank accounts or e-wallets require email OTP verification and are audited via an immutable double-entry ledger. We reserve the right to freeze or cancel withdrawals linked to suspicious activity, system exploits, or policy violations.''),
     (''section6Title'', Text ''Limitation of Liability & Telegram Platform Risks''),
     (''section6Desc'', Text (''To the maximum extent permitted by law, TeleBos and its operators shall not be liable for any direct, indirect, incidental, or consequential damages resulting from your use of the platform. This includes, without limitation, account bans, phone number restrictions, FloodWait delays, group/channel deletions, or loss of access enacted by Telegram'' @ [CHR 39] @ ''s anti-spam algorithms. You assume full risk when employing automation on third-party messaging networks.'')),
     (''section7Title'', Text ''Termination, Amendments & Intellectual Property''),
     (''section7Desc'', Text ''We reserve the right to suspend or terminate any user account at our discretion for violating these terms, exploiting system bugs, or abusing API quotas. All TeleBos branding, logos, and UI designs are proprietary. We may amend these Terms of Service at any time with notification through the platform. Continued use of TeleBos after amendments constitutes your acceptance of the revised terms.'')]"

definition en_invite :: dict where
  "en_invite = Group [
     (''title'', Text ''Member Invite''), (''desc'', Text ''Invite members from source groups to a destination group or channel''),
     (''navLabel'', Text ''Members Inviter''), (''newInvite'', Text ''New Invite''), (''inviteHistory'', Text ''Invite History''),
     (''inviteLogs'', Text ''Invite Logs''), (''destination'', Text ''Destination Group/Channel''),
     (''destinationPlaceholder'', Text ''@group or t.me/... or group ID''), (''destinationType'', Text ''Type''), (''typeUsername'', Text ''@username''),
     (''typeLink'', Text ''Invite Link''), (''typeGroupId'', Text ''Group ID''), (''sourceGroups'', Text ''Source Groups''),
     (''sourceGroupsDesc'', Text ''Add groups to scrape members from. Members will be deduplicated.''), (''addSource'', Text ''Add Source Group''),
     (''sourcePlaceholder'', Text ''@group or t.me/... or group ID''), (''delayPerInvite'', Text ''Delay per Invite (seconds)''),
     (''delayPerInviteSuffix'', Text (''5 '' @ [CHR 226, CHR 128, CHR 147] @ '' 3600 seconds'')), (''delayPerBatch'', Text ''Delay per Batch (seconds)''),
     (''delayPerBatchSuffix'', Text ''Extra delay every N invites''), (''batchSize'', Text ''Batch Size''),
     (''batchSizeSuffix'', Text ''Invites before extra delay''), (''account'', Text ''Account''), (''accountPlaceholder'', Text ''Select account...''),
     (''startInvite'', Text ''Start Invite''), (''starting'', Text ''Starting...''), (''failedToStart'', Text ''Failed to start invite''),
     (''progress'', Text ''Progress''), (''totalMembers'', Text ''Total Members''), (''invited'', Text (''Invited '' @ [CHR 226, CHR 156, CHR 147])),
     (''alreadyMember'', Text ''Already Member''), (''failed'', Text (''Failed '' @ [CHR 226, CHR 156, CHR 151])), (''skipped'', Text ''Skipped''),
     (''pause'', Text ''Pause''), (''resume'', Text ''Resume''), (''stop'', Text ''Stop''), (''stopConfirm'', Text ''Stop this invite job?''),
     (''live'', Text ''Live''), (''scraping'', Text ''Scraping''), (''inviting'', Text ''Inviting''),
     (''phaseScraping'', Text ''Scraping members from source groups...''), (''phaseInviting'', Text ''Inviting members to destination...''),
     (''noJobs'', Text ''No invite jobs yet''), (''startNew'', Text ''Start New Invite''), (''date'', Text ''Date''), (''status'', Text ''Status''),
     (''actions'', Text ''Actions''), (''retry'', Text ''Retry''), (''delete'', Text ''Delete''), (''deleteConfirm'', Text ''Delete this invite job?''),
     (''viewLogs'', Text ''View Logs''), (''selectJob'', Text ''Select an invite job...''), (''allStatuses'', Text ''All Statuses''),
     (''success'', Text ''Success''), (''error'', Text ''Error''), (''noEntries'', Text ''No log entries found.''),
     (''selectJobToView'', Text ''Select an invite job to view logs''), (''colUser'', Text ''User''), (''colUsername'', Text ''Username''),
     (''colSource'', Text ''Source Group''), (''colStatus'', Text ''Status''), (''colErrorType'', Text ''Error Type''),
     (''colErrorMessage'', Text ''Error Message''), (''colTime'', Text ''Time''), (''selectAccounts'', Text ''Select Accounts''),
     (''selected'', Text ''selected''), (''selectAll'', Text ''Select All''), (''deselectAll'', Text ''Deselect All''),
     (''searchAccountsPlaceholder'', Text ''Search accounts by name or phone...''),
     (''noActiveAccounts'', Text ''No active accounts available for invite.''), (''destUsernameLabel'', Text ''Destination Group @username''),
     (''destLinkLabel'', Text ''Destination Group Invite Link''), (''destGroupIdLabel'', Text ''Destination Group ID''),
     (''sourcesAdded'', Text ''sources added''), (''delaysConfig'', Text ''Delay & Batch Configuration''), (''colAccount'', Text ''Executor Account''),
     (''historyDesc'', Text ''Monitor and manage all your member invite tasks.''), (''logsDesc'', Text ''Detailed logs of member invite executions.''),
     (''searchLogsPlaceholder'', Text ''Search username, name, or error...''), (''metricTotalTasks'', Text ''Total Tasks''),
     (''metricRunning'', Text ''Running''), (''metricCompleted'', Text ''Completed''), (''metricTotalInvited'', Text ''Total Invited''),
     (''target'', Text ''Target''), (''floodWait'', Text ''Flood Wait''), (''peerFlood'', Text ''Peer Flood''),
     (''privacyRestricted'', Text ''Privacy Restricted''), (''of'', Text ''of'')]"

definition en_orders_1 :: "(string \<times> dict) list" where
  "en_orders_1 = [
     (''title'', Text ''Orders''), (''desc'', Text ''Order Telegram services from our SMM panel''), (''newOrder'', Text ''New Order''),
     (''massOrder'', Text ''Mass Order''), (''history'', Text ''Order History''), (''services'', Text ''Services''),
     (''selectService'', Text ''Select a service...''), (''dataTarget'', Text ''Target (URL/Username)''),
     (''dataTargetPlaceholder'', Text ''https://t.me/... or @username''),
     (''invalidTarget'', Text ''Invalid target. Use a https://t.me/... link, @username, username, or numeric ID.''), (''quantity'', Text ''Quantity''),
     (''price'', Text ''Price''), (''totalPrice'', Text ''Total Price''), (''placeOrder'', Text ''Place Order''),
     (''placingOrder'', Text ''Placing Order...''), (''orderPlaced'', Text ''Order placed successfully!''), (''orderFailed'', Text ''Order failed''),
     (''status'', Text ''Status''), (''date'', Text ''Date''), (''refreshStatus'', Text ''Refresh Status''), (''refreshAll'', Text ''Refresh All''),
     (''noOrders'', Text ''No orders yet''), (''startOrdering'', Text ''Place Your First Order''), (''category'', Text ''Category''),
     (''telegramOnly'', Text ''Telegram Services''), (''allServices'', Text ''All Services''), (''serviceName'', Text ''Service Name''),
     (''min'', Text ''Min''), (''max'', Text ''Max''), (''note'', Text ''Note''), (''speed'', Text ''Speed''),
     (''searchService'', Text ''Search services...''), (''addMore'', Text ''Add More''), (''remove'', Text ''Remove''),
     (''totalAll'', Text ''Total All''), (''insufficientBalance'', Text ''Insufficient balance''), (''yourBalance'', Text ''Your Balance''),
     (''topUp'', Text ''Top Up''),
     (''massOrderDesc'', Text ''Create multiple orders at once by adding items below. Each item can have a different service and target.''),
     (''refreshSuccess'', Text ''Status refreshed''), (''buyAccounts'', Text ''Buy Accounts''), (''sellAccounts'', Text ''Sell Accounts''),
     (''sellAccount'', Text ''Sell Account''),
     (''buyDesc'', Text ''Acquire pre-warmed, non-restricted Telegram sessions with verified MTProto credentials and 30-minute automated escrow replacement warranty.''),
     (''sellDesc'', Text ''Monetize your verified Telegram sessions. Once listed, your accounts are presented to active buyers and settled directly into your platform wallet.''),
     (''escrowExchange'', Text ''Marketplace // Escrow Exchange''), (''liveCustodyPool'', Text ''Live Custody Pool''),
     (''automatedAppraisal'', Text ''Automated Appraisal''), (''liquidationDesk'', Text ''Liquidation // OTC Desk''),
     (''totalReadyStock'', Text ''Total Ready Stock''), (''verifiedSessions'', Text ''Verified MTProto sessions''),
     (''startingFrom'', Text ''Starting From''), (''regionalPricing'', Text ''Regional tier pricing''), (''coverage'', Text ''Coverage''),
     (''globalPrefixes'', Text ''Global carrier prefixes''), (''escrowProtection'', Text ''Escrow Protection''),
     (''escrowWarranty'', Text ''30-Min Warranty''), (''active'', Text ''Active''), (''filterByCountry'', Text ''Filter By Country / Region''),
     (''allCountries'', Text ''All Countries''), (''searchBuyPlaceholder'', Text ''Search by ID, country name, or dial prefix...''),
     (''searchSellPlaceholder'', Text ''Search by phone, name, or username...''), (''spamAll'', Text ''Spam: All''), (''cleanOnly'', Text ''Clean Only''),
     (''twofaAll'', Text ''2FA: All''), (''twofaDisabled'', Text ''Disabled''), (''twofaRequired'', Text ''Required''),
     (''sortLowestPrice'', Text ''Price: Lowest First''), (''sortHighestPrice'', Text ''Price: Highest First''),
     (''sortMostContacts'', Text ''Most Contacts''), (''resetFilter'', Text ''Reset''),
     (''showingAccounts'', Text ''Showing {count} available accounts''), (''cleanSpam'', Text ''Spam Clean''), (''riskSpam'', Text ''Spam Risk''),
     (''uncheckedSpam'', Text ''Unchecked''), (''accountAge'', Text ''Age: {age}''), (''newSession'', Text ''New Session''),
     (''resaleAsset'', Text ''Resale Asset''), (''personalSession'', Text ''Personal''), (''contactsCount'', Text ''{count} contacts''),
     (''registeredDate'', Text ''Registered {date}''), (''verifiedMtproto'', Text ''Verified MTProto''), (''telebosEscrow'', Text ''TeleBos Escrow''),
     (''verifiedSellerPool'', Text ''Verified Seller Pool''), (''needsMoreBalance'', Text ''Needs Rp {amount} more''), (''buyNow'', Text ''Buy Now''),
     (''clearFilters'', Text ''Clear All Filters''), (''noMatchingAccounts'', Text ''No accounts match current filters''),
     (''noStockCategory'', Text ''No Ready Stock in this Category''),
     (''adjustFiltersHint'', Text ''Try adjusting your search query, country selection, or spam filters to see more results.''),
     (''soldOutHint'', Text ''All accounts in this category are currently sold out. Fresh sessions arrive continuously.''),
     (''confirmBuyAccountTitle'', Text ''Confirm Telegram Account Purchase''),
     (''confirmBuyAccountSubtitle'', Text ''You are acquiring permanent custody of this verified Telegram account. The session archive will be decrypted and delivered to your account vault immediately.''),
     (''unitPrice'', Text ''Unit Price:''), (''verificationFee'', Text ''Escrow Verification Fee:''), (''feeWaived'', Text ''Rp 0 (Waived)''),
     (''totalDeducted'', Text ''Total Deducted:''),
     (''warrantyNotice'', Text ''30-Minute Escrow Warranty: If session credentials or MTProto auth keys fail upon initial sync, your balance will be refunded immediately.''),
     (''confirmAndPay'', Text ''Confirm & Pay''), (''cancel'', Text ''Cancel''), (''purchaseSuccessTitle'', Text ''Purchase Successful!''),
     (''accountTransferredTitle'', Text ''Account Transferred''), (''credentialsDesc'', Text ''Credentials & Session details''),
     (''phoneNumber'', Text ''Phone Number''), (''username'', Text ''Username''), (''fullName'', Text ''Full Name''), (''copy'', Text ''Copy''),
     (''copied'', Text ''Copied to clipboard''), (''downloadSession'', Text ''Download Session''), (''goToAccounts'', Text ''Go to Accounts''),
     (''close'', Text ''Close''), (''estimatedValue'', Text ''Estimated Value''), (''potentialPayout'', Text ''Total potential liquidation payout''),
     (''settlementRail'', Text ''Settlement Rail''), (''instantPayout'', Text ''Instant Payout''),
     (''directWalletCredit'', Text ''Direct wallet credit upon buyer checkout''),
     (''pricingNoticeTitle'', Text ''Algorithmic Pricing & Escrow Settlement Rules''), (''escrowNoticeBadge'', Text ''Escrow Notice''),
     (''ruleDynamicTitle'', Text ''Dynamic Prefix Appraisal''),
     (''ruleDynamicDesc'', Text ''Price is computed automatically based on carrier country prefix, account registration age, and SpamBot health status.''),
     (''ruleDeferredTitle'', Text ''Deferred Settlement''),
     (''ruleDeferredDesc'', Text ''Funds are not credited immediately. Balance will be deposited the exact instant a buyer purchases your listed account.''),
     (''ruleCustodyTitle'', Text ''Session Custody & Integrity''),
     (''ruleCustodyDesc'', Text ''Active broadcasts and auto-replies for the listed accounts will be paused to preserve session integrity for the buyer.''),
     (''accountExpiredCannotSell'', Text ''Expired accounts cannot be sold''),
     (''accountExpiredCannotSellDesc'', Text ''This account session has expired or disconnected and cannot be listed for sale.''),
     (''accountsEligibleCount'', Text ''{filtered} of {total} accounts eligible''), (''selectedCount'', Text ''{count} selected''),
     (''selectAllAvailable'', Text ''Select All Available''), (''clearSelection'', Text ''Clear Selection''),
     (''accountIdentity'', Text ''Account Identity''), (''appraisedPayout'', Text ''Appraised Payout''),
     (''noSellableAccountsTitle'', Text ''No Eligible Accounts For Sale''),
     (''noSellableAccountsDesc'', Text ''All your connected Telegram sessions are either currently listed in escrow, sold, or unverified. Connect fresh sessions to monetize them.''),
     (''goToAccountsHub'', Text ''Go to Accounts Hub''), (''selectedLabel'', Text ''Selected:''), (''totalPayoutLabel'', Text ''Total Payout:''),
     (''sellSelectedBtn'', Text ''Sell Selected Accounts''), (''confirmSellModalTitle'', Text ''Confirm Marketplace Listing''),
     (''confirmSellModalSubtitle'', Text ''Accounts will be transferred to marketplace escrow.''), (''listingSummary'', Text ''Listing Summary''),
     (''accountQuantity'', Text ''Number of accounts:''), (''estimatedPayoutTotal'', Text ''Estimated Payout:''),
     (''sellAgreementNotice'', Text ''By confirming, you agree to place these accounts in escrow. While listed, active automated jobs on these accounts will be temporarily suspended.''),
     (''confirmListingBtn'', Text ''Confirm Listing''), (''itemizedValuation'', Text ''Itemized Valuation Breakdown''),
     (''sellAgreementDialogNotice'', Text ''Are you sure you want to list these {count} Telegram account(s) for sale? Active automation (broadcasting and auto-replies) will be suspended on these sessions to maintain buyer trust.'')]"

definition en_orders_2 :: "(string \<times> dict) list" where
  "en_orders_2 = [
     (''deferredSettlementDesc'', Text ''Your wallet balance is credited automatically at the moment a buyer pays for your listed account. You can withdraw or use these credits immediately upon sale.''),
     (''settledHint'', Text ''Funds settled into wallet immediately upon buyer purchase.''), (''accountAgeCol'', Text ''Account Age''),
     (''spamHealthCol'', Text ''Spam Health''), (''unnamedAccount'', Text ''Unnamed Account''),
     (''unableToLoadAccounts'', Text ''Unable to Load Accounts''),
     (''errorInventory'', Text ''There was an error communicating with the marketplace inventory.''), (''orderFulfilled'', Text ''Order Fulfilled''),
     (''purchaseFailed'', Text ''Purchase Failed''), (''continueShopping'', Text ''Continue Shopping''),
     (''manageInMyAccounts'', Text ''Manage in My Accounts''), (''autoReplacementDesc'', Text ''Auto-replacement on login fail''),
     (''resale'', Text ''Resale''), (''personal'', Text ''Personal''), (''clean'', Text ''Clean''), (''limited'', Text ''Limited''),
     (''cleanSpamBotOnly'', Text ''Clean SpamBot Only''), (''unableToLoadEligible'', Text ''Unable to Load Eligible Accounts''),
     (''errorFetchingEligible'', Text ''There was a network or server error fetching your accounts.''),
     (''accountsListedSuccess'', Text ''Accounts Listed For Sale''), (''submissionFailed'', Text ''Submission Failed''),
     (''saleStatusNeedsConfirmation'', Text ''Sale status needs confirmation''),
     (''saleStatusUnknownDesc'', Text (''Telegram may have finished updating this account. We refreshed your accounts'' @ [CHR 226, CHR 128, CHR 148] @ ''check its sale status before trying again.'')),
     (''readyStock'', Text ''Ready Stock''), (''balanceToReceive'', Text ''Balance to Receive''), (''pricePerAccount'', Text ''Price per Account''),
     (''eligibleAccounts'', Text ''Eligible Accounts''),
     (''noEligibleAccounts'', Text ''No accounts eligible for sale found. Accounts must be connected and verified.''),
     (''confirmSellTitle'', Text ''Confirm Selling Account''),
     (''confirmSellMsg'', Text ''Are you sure you want to sell the selected account(s)? This will stop all active broadcasts and automation, and you will lose access to them immediately.''),
     (''confirmBuyTitle'', Text ''Confirm Purchasing Account''),
     (''confirmBuyMsg'', Text ''Are you sure you want to buy this account? The purchase price will be deducted from your balance.''),
     (''buySuccess'', Text ''Account purchased successfully!''), (''sellSuccess'', Text ''Account(s) sold successfully!''),
     (''twoFaStatus'', Text ''Two-Factor Auth (2FA)''), (''recoveryEmail'', Text ''Recovery Email''), (''available'', Text ''Available''),
     (''unavailable'', Text ''Unavailable''), (''sellPrice'', Text ''Sell Price''), (''buyPrice'', Text ''Buy Price''),
     (''cancelSell'', Text ''Cancel Sale''), (''confirmCancelSellTitle'', Text ''Confirm Cancel Sale''),
     (''confirmCancelSellMsg'', Text ''Are you sure you want to cancel the sale of this account? The account will be returned to your active accounts list and you will be able to manage it again.''),
     (''cancelSellSuccess'', Text ''Account sale cancelled successfully!''), (''forSaleAlertTitle'', Text ''Account listed for sale''),
     (''forSaleAlertDesc'', Text ''This account is currently listed on the marketplace. You cannot manage or use this account unless you cancel the sale.''),
     (''accountHistory'', Text ''Account Transactions''), (''smmHistory'', Text ''SMM Orders''), (''notificationCreatedTitle'', Text ''Order created''),
     (''notificationCreatedMessage'', Text ''{service} has been submitted and is waiting for processing.''),
     (''notificationMassCreatedTitle'', Text ''Orders created''),
     (''notificationMassCreatedMessage'', Text ''{count} orders have been submitted and are waiting for processing.''),
     (''notificationFailedTitle'', Text ''Order could not be created''),
     (''notificationFailedMessage'', Text ''Review the order details and try again.''),
     (''notificationStatusChangedTitle'', Text ''Order status updated''), (''notificationStatusChangedMessage'', Text ''{service} is now {status}.''),
     (''notificationRefreshFailedTitle'', Text ''Order status could not be refreshed''),
     (''notificationRefreshFailedMessage'', Text ''Try refreshing the order status again in a moment.''),
     (''notificationSellListedTitle'', Text ''Account listed for sale''),
     (''notificationSellListedSingleTitle'', Text ''Account successfully listed for sale''),
     (''notificationSellListedMessage'', Text ''{count} account(s) are now listed in the marketplace.''),
     (''notificationSellListedSingleMessage'', Text ''Account {identifier} is now listed on the marketplace{priceDetail}.''),
     (''notificationSellPendingTitle'', Text ''Account listing needs confirmation''),
     (''notificationSellPendingMessage'', Text ''We could not confirm the listing. Refresh your accounts before trying again.''),
     (''notificationSellFailedTitle'', Text ''Account could not be listed''),
     (''notificationSellFailedMessage'', Text ''Review the account status and try again.''),
     (''notificationBuySuccessTitle'', Text ''Account purchase successful!''),
     (''notificationBuySuccessDetailedMessage'', Text ''Account {identifier} was successfully purchased for {amount} and added to your managed accounts.''),
     (''notificationBuySuccessMessage'', Text ''Account {identifier} has been added to your managed accounts.''),
     (''notificationBuyFailedTitle'', Text ''Account purchase failed''), (''notificationBuyFailedMessage'', Text ''Review your balance and try again.''),
     (''notificationSellCanceledTitle'', Text ''Sale listing canceled''),
     (''notificationSellCanceledMessage'', Text ''Sale listing for account {identifier} was canceled and returned to your managed accounts.''),
     (''notificationSellCancelFailedTitle'', Text ''Sale listing could not be canceled''),
     (''notificationSellCancelFailedMessage'', Text ''Try canceling the listing again in a moment.''),
     (''notificationSaleSuccessTitle'', Text ''Your account has been sold!''),
     (''notificationSaleSuccessWithAmountMessage'', Text ''Account {identifier} has been successfully sold, {amount} has been added to your balance.''),
     (''notificationSaleSuccessMessage'', Text ''Account {identifier} was sold and the proceeds were added to your balance.''),
     (''notificationListingInvalidTitle'', Text ''Sale listing removed automatically''),
     (''notificationListingInvalidMessage'', Text ''Account {identifier} was removed from the marketplace because its Telegram session is no longer valid.'')]"

definition en_orders :: dict where
  "en_orders = Group (en_orders_1 @ en_orders_2)"

definition en_adminSmm :: dict where
  "en_adminSmm = Group [
     (''overview'', Text ''Overview''), (''services'', Text ''Services''), (''allOrders'', Text ''SMM Orders''), (''settings'', Text ''Settings'')]"

definition en_smmOrderManager :: dict where
  "en_smmOrderManager = Group [
     (''nav'', Group [(''members'', Text ''Telegram Members''), (''membersTag'', Text ''Channel & Group''), (''reactions'', Text ''Reactions''), (''reactionsTag'', Text ''Post Emojis''), (''autoReactions'', Text ''Auto Reactions''), (''autoReactionsTag'', Text ''Future Posts''), (''postViews'', Text ''Post Views''), (''postViewsTag'', Text ''Impressions''), (''autoPostViews'', Text ''Auto Post Views''), (''autoPostViewsTag'', Text ''Future Posts''), (''history'', Text ''Order History''), (''historyTag'', Text ''All Orders'')]),
     (''serverActive'', Text ''Server Active''), (''activeServices'', Text ''Active Services''), (''options'', Text ''Options''),
     (''allTestedConnected'', Text ''All tested & connected''), (''startingPrice'', Text ''Starting Price''),
     (''cheapestRate'', Text ''Cheapest rate available''), (''averageSpeed'', Text ''Average Speed''), (''autoProcessed'', Text ''Auto-processed''),
     (''systemStatus'', Text ''System Status''), (''cloudEngine'', Text ''TeleBos Cloud Engine''),
     (''searchPlaceholder'', Text ''Search ID, service name, or keyword...''), (''sortBy'', Text ''Sort by:''), (''sortDefault'', Text ''Default''),
     (''sortPriceAsc'', Text ''Price: Lowest''), (''sortPriceDesc'', Text ''Price: Highest''), (''sortSpeed'', Text ''Speed: Fastest''),
     (''sortMinAsc'', Text ''Min Order: Lowest''), (''allSubcategories'', Text ''All Subcategories''), (''showingServices'', Text ''Showing''),
     (''of'', Text ''of''), (''services'', Text ''services''), (''resetSearch'', Text ''Reset search''),
     (''loadErrorTitle'', Text ''Failed to Load Services''),
     (''loadErrorDesc'', Text ''There was an issue synchronizing the SMM service catalog. Please reload the page.''),
     (''emptyTitle'', Text ''No Services Found''), (''emptyDesc'', Text ''Services for this category are being updated or currently unavailable.''),
     (''minOrder'', Text ''Min Order''), (''maxOrder'', Text ''Max Order''), (''processingSpeed'', Text ''Processing Speed''),
     (''completedBadge'', Text ''Delivered''), (''showInstructions'', Text ''View Instructions & Details''),
     (''hideInstructions'', Text ''Hide Service Instructions''), (''targetFormat'', Text ''Target Format:''),
     (''pricePerThousand'', Text ''Price / 1,000''), (''orderNow'', Text ''Order Now''), (''minLimit'', Text ''Min Limit''),
     (''maxLimit'', Text ''Max Limit''), (''ratePer1k'', Text ''Rate / 1k''), (''quantityLimit'', Text ''Limit:''),
     (''commentsOptional'', Text ''Additional Comments (Optional)''),
     (''commentsPlaceholder'', Text ''For custom comments services: one comment per line...''), (''unitRate'', Text ''Unit Rate:''),
     (''quantityLabel'', Text ''Quantity:''), (''estimatedTotal'', Text ''Estimated Total Cost:''),
     (''sufficientBalance'', Text ''Sufficient balance. Remaining balance:''), (''insufficientBalanceMsg'', Text ''Insufficient balance. Required:''),
     (''yourBalance'', Text ''Your balance:''), (''cancel'', Text ''Cancel''), (''confirmOrder'', Text ''Confirm Order''),
     (''processing'', Text ''Processing...''), (''minOrderToast'', Text ''Minimum order quantity is {min}.''),
     (''maxOrderToast'', Text ''Maximum order quantity is {max}.''),
     (''orderSuccessToast'', Text ''Order for {name} ({quantity}) submitted successfully.''),
     (''orderErrorFallback'', Text ''An error occurred while processing your order.'')]"

definition en_orderServices :: dict where
  "en_orderServices = Group [
     (''autoReactions'', Group [(''title'', Text ''Telegram Auto Reactions''), (''desc'', Text ''Automate emoji reactions for each new post on your Telegram channel 24/7 without manual ordering.''), (''targetPlaceholder'', Text ''https://t.me/channel_name or @channel_name''), (''targetHelper'', Text ''Enter your public channel username or link. The system will monitor new posts and automatically apply reactions.''), (''targetExample'', Text ''https://t.me/channel_name'')]),
     (''postViews'', Group [(''title'', Text ''Telegram Post Views & Impressions''), (''desc'', Text ''Instantly boost post impressions and readers on your Telegram channel to strengthen social proof and channel credibility.''), (''targetPlaceholder'', Text ''https://t.me/channel_name/1234 (Post link)''), (''targetHelper'', Text ''Enter the specific public channel post link, or use multi-link format if supported by the selected service.''), (''targetExample'', Text ''https://t.me/channel_name/123'')]),
     (''members'', Group [(''title'', Text ''Telegram Members & Subscribers''), (''desc'', Text ''Order high-quality Telegram group members and channel subscribers with fast, stable delivery guaranteed by TeleBos Cloud Gateway.''), (''targetPlaceholder'', Text ''https://t.me/channel_name or @channel_name''), (''targetHelper'', Text ''Ensure your channel or group is public during delivery, or use the official invite link if supported.''), (''targetExample'', Text ''https://t.me/channel_name or @channel_name'')]),
     (''reactions'', Group [(''title'', Text ''Telegram Post Reactions''), (''desc'', Text ''Boost Telegram post engagement with positive emoji reactions, diverse interactive emojis, and instant views.''), (''targetPlaceholder'', Text ''https://t.me/channel_name/1234 (Public post link)''), (''targetHelper'', Text ''A specific link to a single public channel post is required. Format: https://t.me/username/123.''), (''targetExample'', Text ''https://t.me/channel_name/123'')]),
     (''autoPostViews'', Group [(''title'', Text ''Telegram Auto Post Views''), (''desc'', Text ''Automatically deliver impressions and views to upcoming posts on your Telegram channel 24/7 without manual intervention.''), (''targetPlaceholder'', Text ''https://t.me/channel_name or @channel_name''), (''targetHelper'', Text ''Enter your public channel username or link. The system monitors new posts and delivers views automatically.''), (''targetExample'', Text ''https://t.me/channel_name'')])]"

definition en_admin :: dict where
  "en_admin = Group [
     (''title'', Text ''Admin Panel''), (''desc'', Text ''Manage users, balances, and roles''), (''overview'', Text ''Overview''),
     (''analytics'', Text ''Analytics Overview''), (''userAnalytics'', Text ''User Analytics''),
     (''telegramAccountAnalytics'', Text ''Telegram Account Analytics''), (''automationAnalytics'', Text ''Automation Analytics''),
     (''financialAnalytics'', Text ''Revenue & Balance''), (''systemHealthAnalytics'', Text ''System Health''),
     (''securityAnalytics'', Text ''Security & Audit''), (''dashboard'', Text ''Admin Dashboard''),
     (''dashboardDesc'', Text ''Platform health, infrastructure metrics, and owner control center''), (''platformOverview'', Text ''Platform Overview''),
     (''smmProviderStatus'', Text ''SMM Provider Status''), (''controlDeck'', Text ''Owner Action Control Deck''),
     (''healthAndDistribution'', Text ''System Health & Distribution''), (''accountDistribution'', Text ''Account Status Breakdown''),
     (''userDistribution'', Text ''User Plan Distribution''), (''refreshData'', Text ''Refresh Data''),
     (''systemOperational'', Text ''System Operational''), (''accessDenied'', Text ''Access Denied''),
     (''accessDeniedDesc'', Text ''Only users with the Owner role are authorized to access the Admin Panel.''),
     (''backToDashboard'', Text ''Return to Dashboard''), (''sellingAccounts'', Text ''In Marketplace''), (''users'', Text ''Users''),
     (''userManagement'', Text ''User Management''), (''balanceManagement'', Text ''Balance Management''), (''totalUsers'', Text ''Total Users''),
     (''totalBroadcastJobs'', Text ''Total Broadcast Jobs''), (''totalInviteJobs'', Text ''Total Invite Jobs''),
     (''totalAutoReplyJobs'', Text ''Total Auto-Reply Jobs''), (''totalAccountsConnected'', Text ''Connected Accounts''),
     (''searchUsers'', Text ''Search users...''), (''email'', Text ''Email''), (''fullName'', Text ''Full Name''), (''role'', Text ''Role''),
     (''balance'', Text ''Balance''), (''orders'', Text ''Orders''), (''actions'', Text ''Actions''), (''addBalance'', Text ''Add Balance''),
     (''deductBalance'', Text ''Deduct Balance''), (''updateRole'', Text ''Update Role''), (''changeToPremium'', Text ''Upgrade to Premium''),
     (''changeToPro'', Text ''Upgrade to Pro''), (''changeToBasic'', Text ''Downgrade to Basic''), (''amount'', Text ''Amount''),
     (''amountPlaceholder'', Text ''Enter amount...''), (''confirmAddBalance'', Text ''Add balance to this user?''),
     (''confirmDeductBalance'', Text ''Deduct balance from this user?''), (''userNotFound'', Text ''User not found''),
     (''balanceUpdated'', Text ''Balance updated successfully''), (''roleUpdated'', Text ''Role updated successfully''),
     (''changeToOwner'', Text ''Set as Owner''), (''deleteUser'', Text ''Delete User''),
     (''deleteConfirm'', Text ''Delete this user? This action cannot be undone.''), (''totalRedeemCodes'', Text ''Redeem Codes''),
     (''totalRedeemed'', Text ''Codes Redeemed''), (''manageBroadcasts'', Text ''Manage Broadcasts''),
     (''broadcastsDesc'', Text ''Monitor, pause, resume, and manage broadcast jobs across all users''), (''pauseAllRunning'', Text ''Pause All Running''),
     (''stopAllRunning'', Text ''Stop All Running''), (''clearFinished'', Text ''Clean Finished Jobs''), (''pauseJob'', Text ''Pause Job''),
     (''resumeJob'', Text ''Resume Job''), (''stopJob'', Text ''Stop Job''), (''deleteJob'', Text ''Delete Job''),
     (''pauseConfirm'', Text ''Are you sure you want to pause this broadcast job?''),
     (''resumeConfirm'', Text ''Are you sure you want to resume this broadcast job?''),
     (''stopConfirm'', Text ''Are you sure you want to stop/cancel this broadcast job?''),
     (''deleteJobConfirm'', Text ''Delete this broadcast job and its logs? This cannot be undone.''),
     (''bulkPauseConfirm'', Text ''Are you sure you want to pause ALL currently running broadcast jobs?''),
     (''bulkStopConfirm'', Text ''Are you sure you want to stop/cancel ALL active broadcast jobs?''),
     (''bulkClearConfirm'', Text ''Delete all completed, failed, and cancelled broadcast jobs?''), (''manageAutoReplies'', Text ''Manage Auto-Replies''),
     (''autoRepliesDesc'', Text ''Monitor and control auto-reply bot responders across accounts''), (''connectedAccounts'', Text ''Connected Accounts''),
     (''activeAccounts'', Text ''Active Accounts''), (''expiredAccounts'', Text ''Expired Accounts''), (''limitedAccounts'', Text ''Limited Accounts''),
     (''broadcastRunning'', Text ''Broadcasts Running''), (''broadcastFinished'', Text ''Broadcasts Finished''),
     (''broadcastFailed'', Text ''Broadcasts Failed''), (''broadcastTotal'', Text ''Total Broadcasts''), (''userDetails'', Text ''User Details''),
     (''userOverview'', Text ''User Overview''), (''accountHealth'', Text ''Telegram Account Health''),
     (''broadcastStats'', Text ''Broadcast Statistics''), (''accountPrices'', Text ''Account Prices''),
     (''transactions'', Text ''Deposit & Withdrawal Flow''), (''systemConfig'', Text ''System Configuration''),
     (''onboarding'', Text ''Onboarding Analytics''), (''onboardingTitle'', Text ''Onboarding & Discovery Analytics''),
     (''onboardingSubtitle'', Text ''New user onboarding questionnaire telemetry, acquisition channels, account capacity, and core feature interests.'')]"

definition en_pricing :: dict where
  "en_pricing = Group [
     (''kicker'', Text ''Plans & pricing''), (''title'', Text ''Start free. Upgrade when you actually need to.''),
     (''subtitle'', Text ''Every plan is paid with a voucher code, so you are not handing over a card before you have seen it work. Switch tiers whenever the work grows.''),
     (''perMonth'', Text ''/mo''), (''perYear'', Text ''/yr''), (''saveDiscount'', Text ''Save {discount}''), (''monthly'', Text ''Monthly''),
     (''yearly'', Text ''Yearly''), (''equivalentMonthly'', Text ''Equivalent {price}/mo, billed yearly''),
     (''cta'', Group [(''freetrial'', Text ''Start free''), (''basic'', Text ''Get Starter''), (''pro'', Text ''Get Pro''), (''premium'', Text ''Get Business'')]),
     (''currentPlan'', Text ''Your current plan''), (''popular'', Text ''Most chosen''),
     (''headers'', Group [(''freetrial'', Text ''Free Trial''), (''basic'', Text ''Starter''), (''pro'', Text ''Pro''), (''premium'', Text ''Business'')]),
     (''desc'', Group [(''freetrial'', Text ''Try it for free for 5 hours. 1 account, auto-reply, with watermark.''), (''basic'', Text ''Start small. Manage one account and use auto-join without watermark.''), (''pro'', Text ''For anyone already broadcasting daily and needs auto-reply running without anyone watching it.''), (''premium'', Text ''For agencies and teams needing higher capacity: up to 5 accounts, member scraping, and the fastest server queue.'')]),
     (''footnote'', Group [(''freetrial'', Text ''Free for 5 hours after you sign up.''), (''basic'', Text ''Perfect for getting started with efficient account management.''), (''pro'', Text ''The sensible pick for channels and groups that are live every day.''), (''premium'', Text ''Used by digital marketers and agencies already past the volume wall.'')]),
     (''compare'', Group [(''title'', Text ''What actually differs''), (''subtitle'', Text ''Only the limits that matter between tiers.''), (''limits'', Text ''Main limits''), (''rows'', Group [(''accounts'', Text ''Connected Telegram accounts''), (''broadcast'', Text ''Mass broadcast''), (''autoReply'', Text ''Auto-reply''), (''scheduling'', Text ''Scheduled sends''), (''scrape'', Text ''Group member scraping''), (''autoJoin'', Text ''Auto-join & auto-invite''), (''proxy'', Text ''Proxy rotation & multi-session''), (''appeals'', Text ''Automatic SpamBot appeals''), (''queue'', Text ''Server queue priority''), (''support'', Text ''Support'')]), (''values'', Group [(''free'', Text ''1 account''), (''upTo3'', Text ''up to 3 accounts''), (''upTo5'', Text ''up to 5 accounts''), (''unlimited'', Text ''up to 5 accounts''), (''no'', Text ([CHR 226, CHR 128, CHR 148])), (''yes'', Text ([CHR 226, CHR 156, CHR 147])), (''included'', Text ([CHR 226, CHR 156, CHR 147])), (''standard'', Text ''Standard''), (''best'', Text ''Best''), (''hours'', Text ''24/7'')])]),
     (''faq'', Group [(''title'', Text ''Questions people ask first''), (''items'', Group [(''payment'', Group [(''q'', Text ''How do I pay?''), (''a'', Text ''With a voucher code. Redeem it on the subscription page and the plan activates immediately - no card involved.'')]), (''upgrade'', Group [(''q'', Text ''Can I change plans mid-cycle?''), (''a'', Text ''Yes. The unused part of your period converts to balance, so you never pay twice for the same days.'')]), (''cancel'', Group [(''q'', Text ''If I stop, do I lose my data?''), (''a'', Text ''No. Connected Telegram accounts stay connected; only the paid features switch off.'')]), (''spam'', Group [(''q'', Text ''Why does proxy rotation matter?''), (''a'', Text ''One IP sending hundreds of messages hits the limit fast. Rotation makes the traffic look like it comes from many different people.'')])])]),
     (''ctaBand'', Group [(''title'', Text ''Start on the free plan''), (''body'', Text ''Nothing to decide yet. Open the dashboard and see the difference first.''), (''action'', Text ''Open the dashboard'')])]"

definition en_subscription :: dict where
  "en_subscription = Group [
     (''title'', Text ''Subscription''), (''desc'', Text ''Manage your subscription plan''), (''currentPlan'', Text ''Current Plan''),
     (''expiresAt'', Text ''Expires at''), (''daysRemaining'', Text ''Days remaining''), (''features'', Text ''Features''),
     (''planBasic'', Text ''Basic''), (''planPro'', Text ''Pro''), (''planPremium'', Text ''Premium''), (''planOwner'', Text ''Owner''),
     (''lifetime'', Text ''Lifetime''), (''noSubscription'', Text ''No Active Subscription''), (''active'', Text ''Active''),
     (''expired'', Text ''Expired''), (''featureAccounts'', Text ''Multiple Telegram accounts''),
     (''featureBroadcast'', Text ''Smart broadcast to groups/channels''), (''featureInvite'', Text ''Member invite & scraping''),
     (''featureAutoReply'', Text ''Auto-reply system''), (''featureChat'', Text ''Real-time chat monitoring''),
     (''featureContacts'', Text ''Contact management''), (''featurePriority'', Text ''Priority support''), (''upgradePlans'', Text ''Available Plans''),
     (''redeemBtn'', Text ''Redeem Code''), (''perMonth'', Text ''/mo''), (''basicDesc'', Text ''Get started with essential Telegram management tools''),
     (''proDesc'', Text ''Unlock automation and multi-account power features''),
     (''premiumDesc'', Text ''Unlimited access with priority support and all features''),
     (''upgradePrompt'', Text ''Upgrade with a redeem code to unlock more features''), (''recommended'', Text ''Recommended''),
     (''featureAllFuture'', Text ''All future features included''), (''included'', Text ''Included''), (''notIncluded'', Text ''Not included''),
     (''compareFeatures'', Text ''Compare Features''), (''feature'', Text ''Feature''), (''upgradeYourPlan'', Text ''Upgrade your plan''),
     (''mySubscription'', Text ''My subscription''), (''personal'', Text ''Personal''), (''business'', Text ''Business''),
     (''yourCurrentPlan'', Text ''Your current plan''), (''startWithBasics'', Text ''Start with the basics:''),
     (''everythingInFree'', Text ''Everything in Free, and:''), (''everythingInPro'', Text ''Everything in Pro, and:''),
     (''tryTelebos'', Text ''Try TeleBos''), (''expandedAccess'', Text ''Expanded access''),
     (''yourTelegramAssistant'', Text ''Your Telegram assistant''), (''billingHelp'', Text ''Have an existing plan? See billing help''),
     (''upgradeToPro'', Text ''Upgrade to Pro''), (''upgradeToPremium'', Text ''Upgrade to Premium''),
     (''voucherRedeemTitle'', Text ''Redeem Subscription Voucher''),
     (''voucherRedeemDesc'', Text ''Enter your voucher code to activate or extend your subscription plan.''),
     (''voucherCodePlaceholder'', Text ''Enter voucher code...''), (''redeemCodeAction'', Text ''Redeem Now''),
     (''contactSupportPrompt'', Text ''Need a subscription voucher? Contact our support on Telegram.''),
     (''invoiceCreated'', Text ''Payment invoice created successfully! Redirecting to payment...'')]"

definition en_wallet_1 :: "(string \<times> dict) list" where
  "en_wallet_1 = [
     (''title'', Text ''Wallet''), (''desc'', Text ''Top up your balance or withdraw your earnings.''), (''currentBalance'', Text ''Available Balance''),
     (''balanceHint'', Text ''Used for buying Telegram accounts and SMM services.''), (''topUp'', Text ''Top Up''), (''withdraw'', Text ''Withdraw''),
     (''topupInstruction'', Text ''Transfer the exact amount to the account below, then submit your request. Your balance is credited once we confirm the transfer.''),
     (''accountName'', Text ''Account name''), (''copyAccount'', Text ''Copy account details''),
     (''placeholderWarning'', Text ''Deposit details are not configured yet''),
     (''placeholderWarningDesc'', Text ''Replace the placeholder bank details before accepting real top-ups.''), (''copied'', Text ''Copied''),
     (''copyFailed'', Text ''Could not copy to clipboard. Please copy manually.''), (''amount'', Text ''Amount''),
     (''quickAmount'', Text ''Quick amount''), (''destinationMethod'', Text ''Destination''), (''bankTransfer'', Text ''Bank transfer''),
     (''ewallet'', Text ''E-wallet''), (''transferRef'', Text ''Transfer reference''), (''accountRef'', Text ''Your account number''),
     (''optional'', Text ''optional''), (''insufficient'', Text ''Amount exceeds your available balance.''),
     (''minimum'', Text ''Minimum request is Rp 10.000.''), (''submitTopup'', Text ''Create Payment''),
     (''submitWithdraw'', Text ''Submit Withdraw Request''),
     (''manualNotice'', Text ''Requests are reviewed manually by our team. Your balance only changes after the request is approved.''),
     (''history'', Text ''Request History''), (''pending'', Text ''pending''), (''noRequests'', Text ''No top-up or withdraw requests yet.''),
     (''needHelp'', Text ''Need a faster response? Our support team can confirm a transfer directly.''), (''contactSupport'', Text ''Contact support''),
     (''topupSubmitted'', Text ''Top-up request submitted. We will confirm once the transfer is verified.''),
     (''withdrawSubmitted'', Text ''Withdraw request submitted. Funds are released after approval.''),
     (''status'', Group [(''pending'', Text ''Pending''), (''approved'', Text ''Approved''), (''rejected'', Text ''Rejected'')]),
     (''createPayment'', Text ''Create Payment''), (''downloadQr'', Text ''Download QR Code''),
     (''downloadQrSuccess'', Text ''QR Code downloaded successfully!''),
     (''qrisNotice'', Text ''Scan the QR code using any Indonesian m-Banking or E-Wallet app.''), (''qrisBadge'', Text ''Automatic & Instant''),
     (''expiresIn'', Text ''Payment expires in''), (''iHavePaid'', Text ''I Have Paid''), (''verifyingPayment'', Text ''Verifying payment...''),
     (''cancelPayment'', Text ''Change Amount / Cancel''), (''invoiceId'', Text ''Order ID''), (''paymentStepsTitle'', Text ''How to Pay with QRIS''),
     (''paymentStep1'', Text ''Open your m-Banking (BCA, Mandiri, BRI, etc.) or E-Wallet app (GoPay, OVO, DANA, ShopeePay).''),
     (''paymentStep2'', Text ''Select QRIS / Scan menu, then point your camera at the QR code or upload the downloaded image.''),
     (''paymentStep3'', Text ''Verify the merchant name TELEBOS and amount, then confirm your payment.''),
     (''paymentStep4'', Text ''The system automatically detects your payment and credits your account without manual confirmation.''),
     (''changeAmount'', Text ''Change Amount''), (''qrisSupported'', Text ''Supports all Indonesian banks & e-wallets''),
     (''paymentConfirmed'', Text ''QRIS payment confirmed successfully! Balance has been updated.''), (''allTransactions'', Text ''All Transactions''),
     (''deposits'', Text ''Deposits (Top Up)''), (''withdrawals'', Text ''Withdrawals''), (''allStatus'', Text ''All Statuses''),
     (''searchPlaceholder'', Text ''Search transaction ID, bank, or note...''), (''transactionDetails'', Text ''Transaction Details''),
     (''selectSavedAccount'', Text ''Select Saved Account''), (''useManualAccount'', Text ''Enter Another Account Manually''),
     (''manageBankAccounts'', Text ''Manage Accounts''), (''totalDeposits'', Text ''Total Deposits''), (''totalWithdrawals'', Text ''Total Withdrawals''),
     (''noMatchingTransactions'', Text ''No transactions match the selected filters.''), (''close'', Text ''Close''),
     (''depositAmount'', Text ''Deposit Amount''), (''withdrawAmount'', Text ''Withdrawal Amount''), (''transactionId'', Text ''Transaction ID''),
     (''transactionType'', Text ''Transaction Type''), (''depositType'', Text ''Deposit Balance''), (''withdrawType'', Text ''Withdrawal Funds''),
     (''methodProvider'', Text ''Method / Provider''), (''noteAccount'', Text ''Note / Account''), (''adminFee'', Text ''Admin Fee''),
     (''adminFeeFree'', Text ''Rp 0 (Free)''), (''transactionTime'', Text ''Transaction Time''),
     (''statusExplanationPending'', Text ''This transaction is currently in the automatic/manual verification queue. Balance will update once approved.''),
     (''statusExplanationApproved'', Text ''Transaction successfully completed. Your account balance has been updated.''),
     (''statusExplanationRejected'', Text ''This transaction was rejected by the system or admin. Please review payment details or contact support.''),
     (''qrProcessError'', Text ''Failed to process QR image''), (''qrDownloadError'', Text ''Failed to download QR code''),
     (''paymentRecordedToast'', Text ''Payment invoice recorded. Please wait for automatic or admin verification.''),
     (''topupFailedToast'', Text ''Failed to create top-up invoice''), (''withdrawFailedToast'', Text ''Failed to submit withdrawal request''),
     (''notificationTopupCreatedTitle'', Text ''Top-up Invoice Created''),
     (''notificationTopupCreatedMessage'', Text ''Invoice for {amount} ({method}) created. Please complete the payment before expiry.''),
     (''notificationTopupApprovedTitle'', Text ''Top-up Successful''),
     (''notificationTopupApprovedMessage'', Text ''Balance of {amount} has been successfully added to your wallet.''),
     (''notificationTopupRejectedTitle'', Text ''Top-up Cancelled / Expired''),
     (''notificationTopupRejectedMessage'', Text ''Top-up invoice for {amount} has expired or was rejected.''),
     (''notificationWithdrawCreatedTitle'', Text ''Withdrawal Requested''),
     (''notificationWithdrawCreatedMessage'', Text ''Withdrawal of {amount} ({method}) is pending admin approval.''),
     (''notificationWithdrawApprovedTitle'', Text ''Withdrawal Approved''),
     (''notificationWithdrawApprovedMessage'', Text ''Withdrawal of {amount} has been approved and disbursed.''),
     (''notificationWithdrawRejectedTitle'', Text ''Withdrawal Rejected''),
     (''notificationWithdrawRejectedMessage'', Text ''Withdrawal of {amount} was rejected. Funds returned to your balance.''),
     (''withdrawOtpTitle'', Text ''Security Verification for Withdrawal''),
     (''withdrawOtpDesc'', Text ''For the security of your funds, please enter the 6-digit verification code sent to your email.''),
     (''withdrawOtpSent'', Text ''Verification code sent to {email}''), (''withdrawOtpLabel'', Text ''OTP Code (6-Digit)''),
     (''withdrawOtpPlaceholder'', Text ''Enter 6-digit code''), (''withdrawOtpResend'', Text ''Resend Code''),
     (''withdrawOtpResendIn'', Text ''Resend in {seconds}s''), (''withdrawOtpConfirm'', Text ''Confirm & Withdraw''),
     (''withdrawOtpSending'', Text ''Processing...''), (''notificationAdminAdjustmentTitle'', Text ''Balance Adjustment''),
     (''notificationAdminAdjustmentMessage'', Text ''Your balance was adjusted ({action}) by {amount} by admin.''),
     (''notificationRedeemSuccessTitle'', Text ''Voucher Redeemed''),
     (''notificationRedeemSuccessMessage'', Text ''Voucher {code} has been successfully redeemed.''),
     (''paymentPendingToast'', Text ''Payment not detected yet. The system checks automatically every 5 seconds, or please check again shortly.''),
     (''paymentCheckFailed'', Text ''Failed to check payment status. Please try again shortly.''), (''totalTransferBill'', Text ''Total Transfer Bill''),
     (''includesUniqueCode'', Text ''Includes Unique Code''), (''copyAmountTitle'', Text ''Copy transfer amount''),
     (''uniqueCodeNotice'', Text ''You must transfer the exact amount including the last 3 digits for automatic balance crediting.''),
     (''nationalPaymentStandard'', Text ''National Payment Standard''), (''checkingStatus'', Text ''Checking Status...''),
     (''checkPaymentStatus'', Text ''Check Payment Status''),
     (''autoCheckNotice'', Text ''Payment status is automatically checked every 5 seconds. Balance will be updated immediately once transfer succeeds.''),
     (''supportsLabel'', Text ''Supports:''), (''selectDestinationAccount'', Text ''Select destination account''), (''defaultBadge'', Text ''Primary''),
     (''noSavedAccountsDesc'', Text ''You do not have any saved accounts for withdrawals yet.''), (''addAccount'', Text ''Add Account''),
     (''topupNotice'', Text ''After clicking Create Payment, you can scan or download the QRIS code to complete the transaction.''),
     (''withdrawalAccountsTitle'', Text ''Withdrawal Account''), (''manage'', Text ''Manage''), (''accountHolderPrefix'', Text ''Holder:''),
     (''noSavedAccountsShort'', Text ''No withdrawal accounts saved yet.''), (''addAccountInSettings'', Text ''+ Add Account in Settings''),
     (''savedAccountsHint'', Text ''Saved accounts make withdrawals faster without needing to retype account numbers.''),
     (''transactionTermsTitle'', Text ''Transaction Terms''), (''termQrisFree'', Text ''QRIS deposit is automatically verified with zero admin fee.''),
     (''termWithdrawSpeed'', Text ''Withdrawals are processed in 1-15 minutes during business hours.''),
     (''termMinimumLimit'', Text ''Minimum deposit and withdrawal is Rp 10.000.''), (''needHelpShort'', Text ''Need help?''),
     (''historySubtitle'', Text ''Complete history of deposit (top up) and withdrawal transactions for your account.''),
     (''resetFilter'', Text ''Reset Filter''), (''showingTransactionsCount'', Text ''Showing {current} of {total} transactions''),
     (''modalTransferBillNotice'', Text ''Transfer Bill: {amount} (includes unique code)''), (''openQrisPayment'', Text ''Open QRIS Payment''),
     (''yourEmail'', Text ''your email''), (''withdrawOtpSentSimple'', Text ''OTP verification code has been sent to your email.'')]"

definition en_wallet_2 :: "(string \<times> dict) list" where
  "en_wallet_2 = [
     (''withdrawOtpRequestFailed'', Text ''Failed to request withdrawal OTP code.''),
     (''otpResentSuccess'', Text ''A new OTP verification code has been sent to your email.''),
     (''otpResendFailed'', Text ''Failed to resend OTP code.''), (''invoiceNotFound'', Text ''Invoice Not Found''),
     (''invoiceNotFoundDesc'', Text ''Transaction not found or you do not have access.''), (''backToWallet'', Text ''Back to Wallet''),
     (''paymentStatusLabel'', Text ''Payment Status:''), (''waitingForPayment'', Text ''Waiting for Payment''), (''successful'', Text ''Successful''),
     (''cancelled'', Text ''Cancelled''), (''saveQrCode'', Text ''Save QR Code''), (''back'', Text ''Back''), (''checkPayment'', Text ''Check Payment''),
     (''invoiceTotalPaid'', Text ''Total Paid:''), (''completionTime'', Text ''Completion Time:''), (''viewWallet'', Text ''View Wallet''),
     (''cancelledExpiredTitle'', Text ''Transaction Cancelled / Expired''),
     (''cancelledExpiredDesc'', Text ''The payment window for this invoice has expired or was cancelled. Please initiate a new transaction if you wish to proceed.''),
     (''invoiceSubscriptionTitle'', Text ''Subscription Invoice''),
     (''invoiceSubscriptionSubtitle'', Text ''Complete QRIS payment to activate your subscription package.''),
     (''invoiceSubscriptionSuccessTitle'', Text ''Subscription Successfully Activated!''),
     (''invoiceSubscriptionSuccessDesc'', Text ''QRIS payment verified. Your subscription package is now active and ready to use.''),
     (''invoiceSubscriptionCta'', Text ''Open Subscription Page''), (''invoiceSmmTitle'', Text ''SMM Service Invoice''),
     (''invoiceSmmSubtitle'', Text ''Complete QRIS payment to process your SMM service order.''),
     (''invoiceSmmSuccessTitle'', Text ''SMM Order Successfully Processed!''),
     (''invoiceSmmSuccessDesc'', Text ''QRIS payment verified. Your SMM service order is being processed by the system.''),
     (''invoiceSmmCta'', Text ''View Order History''), (''invoiceMarketplaceTitle'', Text ''Telegram Account Purchase Invoice''),
     (''invoiceMarketplaceSubtitle'', Text ''Complete QRIS payment to claim and transfer Telegram accounts to your workspace.''),
     (''invoiceMarketplaceSuccessTitle'', Text ''Telegram Account Successfully Transferred!''),
     (''invoiceMarketplaceSuccessDesc'', Text ''QRIS payment verified. Telegram account sessions transferred to your account vault.''),
     (''invoiceMarketplaceCta'', Text ''Manage Accounts''), (''invoiceTopupTitle'', Text ''Top Up Invoice''),
     (''invoiceTopupSubtitle'', Text ''Complete QRIS payment to add balance to your wallet.''),
     (''invoiceTopupSuccessTitle'', Text ''Payment Successful! Balance Added''),
     (''invoiceTopupSuccessDesc'', Text ''QRIS payment verified. Balance successfully added to your wallet.''),
     (''invoiceTopupCta'', Text ''Go to My Wallet'')]"

definition en_wallet :: dict where
  "en_wallet = Group (en_wallet_1 @ en_wallet_2)"

definition en_redeem :: dict where
  "en_redeem = Group [
     (''title'', Text ''Redeem Code''), (''desc'', Text ''Enter a redeem code to get credits or subscription access''),
     (''codeLabel'', Text ''Redeem Code''), (''codePlaceholder'', Text ''Enter your code here...''), (''redeem'', Text ''Redeem''),
     (''redeeming'', Text ''Redeeming...''), (''success'', Text ''Code redeemed successfully!''), (''error'', Text ''Failed to redeem code''),
     (''invalidCode'', Text ''Invalid code. Please check and try again.''), (''expiredCode'', Text ''This code has expired.''),
     (''maxUsed'', Text ''This code has reached its maximum usage limit.''), (''heroTitle'', Text ''Redeem Your Code''),
     (''heroDesc'', Text ''Enter a redeem code below to add credits to your balance or activate a subscription plan.''),
     (''yourBalance'', Text ''Your Balance''), (''yourPlan'', Text ''Your Plan''), (''howItWorks'', Text ''How Redeem Codes Work''),
     (''balanceCodeDesc'', Text ''Balance codes add credits to your wallet that can be used for purchasing accounts and services.''),
     (''subscriptionCodeDesc'', Text ''Subscription codes upgrade your plan to Pro or Premium with a set duration.''), (''pasteCode'', Text ''Paste''),
     (''creditsAdded'', Text ''credits added to your balance''), (''planUpgraded'', Text ''Plan upgraded to''), (''validUntil'', Text ''Valid until''),
     (''viewSubscription'', Text ''View Subscription Details'')]"

definition en_adminRedeem :: dict where
  "en_adminRedeem = Group [
     (''title'', Text ''Redeem Codes''), (''desc'', Text ''Create and manage redeem codes for users''), (''createCode'', Text ''Create Code''),
     (''codeType'', Text ''Code Type''), (''plan'', Text ''Plan''), (''amount'', Text ''Amount''), (''maxUses'', Text ''Max Uses''),
     (''durationDays'', Text ''Duration (days)''), (''expiresAt'', Text ''Code Expires At''), (''prefix'', Text ''Code Prefix (optional)''),
     (''createdCodes'', Text ''Created Codes''), (''logs'', Text ''Redemption Logs''), (''code'', Text ''Code''), (''type'', Text ''Type''),
     (''used'', Text ''Used''), (''status'', Text ''Status''), (''createdBy'', Text ''Created By''), (''createdAt'', Text ''Created At''),
     (''active'', Text ''Active''), (''inactive'', Text ''Inactive''), (''typeBalance'', Text ''Balance''), (''typeSubscription'', Text ''Subscription''),
     (''noCodes'', Text ''No redeem codes created yet.''), (''codeCreated'', Text ''Redeem code created successfully!''),
     (''deleteConfirm'', Text ''Deactivate this code? It can no longer be used.''), (''user'', Text ''User''), (''redeemedAt'', Text ''Redeemed At''),
     (''detail'', Text ''Detail''), (''noLogs'', Text ''No redemption logs yet.'')]"

definition en_ageChecker :: dict where
  "en_ageChecker = Group [
     (''title'', Text ''Telegram ID Age Checker''), (''subtitle'', Text ''Estimate when a Telegram account was created based on its numeric User ID.''),
     (''inputLabel'', Text ''Telegram ID''), (''inputPlaceholder'', Text ''Enter a Telegram ID (e.g. 1350180828)''),
     (''checkButton'', Text ''Estimate Registration Date''), (''checking'', Text ''Calculating...''), (''resultTitle'', Text ''Estimation Results''),
     (''estRegDate'', Text ''Estimated Registration Date''), (''estAge'', Text ''Estimated Age''), (''statusLabel'', Text ''Estimate Status''),
     (''explanationTitle'', Text ''How does it work?''),
     (''explanationText'', Text ''Telegram User IDs are assigned sequentially. This utility estimates the registration date by performing linear interpolation between known, verified sign-up timestamps in our database. The accuracy depends on the density of datapoints around the target ID.''),
     (''errorInvalidId'', Text ''Please enter a valid positive numeric Telegram ID.''), (''statusExact'', Text ''Verified Exact Match''),
     (''statusApprox'', Text ''Interpolated Estimate (Approximate)''), (''statusOlder'', Text ''Older than dataset minimum (Approximate)''),
     (''statusNewer'', Text ''Newer than dataset maximum (Approximate)''), (''statusUnknown'', Text ''Unknown (Unable to interpolate)''),
     (''scanButton'', Text ''Scan Dialogs for Datapoints''), (''scanning'', Text ''Scanning...''),
     (''scanSuccess'', Text ''Successfully scanned and harvested {count} new registration datapoints!'')]"

definition en_actions :: dict where
  "en_actions = Group [
     (''refresh'', Text ''Refresh'')]"

definition en_theme :: dict where
  "en_theme = Group [
     (''title'', Text ''Theme''), (''light'', Text ''Light''), (''dark'', Text ''Dark''), (''system'', Text ''System''),
     (''appearance'', Text ''Appearance''), (''toggleTheme'', Text ''Toggle theme'')]"

definition en_onboarding :: dict where
  "en_onboarding = Group [
     (''skip'', Text ''Skip to Dashboard''), (''back'', Text ''Back''), (''next'', Text ''Continue''), (''finish'', Text ''Finish & Go to Dashboard''),
     (''stepIndicator'', Text ''Question {current} of {total}''), (''step1Badge'', Text ''Step 1: Role & Profile''),
     (''step1Title'', Text ''How do you plan to use TeleBos?''),
     (''step1Subtitle'', Text (''We'' @ [CHR 39] @ ''ll tailor your dashboard and feature recommendations to match your business needs.'')),
     (''roleSoloTitle'', Text ''Solo Entrepreneur / Personal Business''),
     (''roleSoloDesc'', Text ''Managing your own business, online shop, or personal brand marketing on Telegram.''),
     (''roleAgencyTitle'', Text ''Agency & Marketing Team''),
     (''roleAgencyDesc'', Text ''Managing multiple bulk broadcast campaigns and client accounts simultaneously.''),
     (''roleCommunityTitle'', Text ''Crypto & Trading Community''),
     (''roleCommunityDesc'', Text ''Growing community groups, broadcasting market signals, and auto-inviting members.''),
     (''roleDeveloperTitle'', Text ''Developer / Automation Engineer''),
     (''roleDeveloperDesc'', Text ''API integration, bot scripts, data scraping, and buzzer panel automation.''),
     (''roleExploreTitle'', Text ''Other / Exploring Platform''),
     (''roleExploreDesc'', Text ''Looking around and testing features available across TeleBos.''), (''step2Badge'', Text ''Step 2: Discovery Source''),
     (''step2Title'', Text ''How did you hear about TeleBos?''),
     (''step2Subtitle'', Text ''Help us understand how you found out about our Telegram management platform.''),
     (''refFriendTitle'', Text ''Friend / Partner Referral''),
     (''refFriendDesc'', Text ''Directly recommended by a colleague, friend, or business partner.''),
     (''refTelegramTitle'', Text ''Telegram Group / Channel''),
     (''refTelegramDesc'', Text ''Found via a shared post, channel discussion, or Telegram community.''),
     (''refSocialTitle'', Text ''Social Media (X, TikTok, Instagram)''),
     (''refSocialDesc'', Text ''Discovered through video tutorials, reviews, or social posts.''), (''refSearchTitle'', Text ''Google / Search Engine''),
     (''refSearchDesc'', Text ''Searched for Telegram multi-account or bulk broadcast software on Google.''),
     (''refForumTitle'', Text ''Discussion Forum / GitHub''), (''refForumDesc'', Text ''Found on developer forums, Reddit, or GitHub repositories.''),
     (''refAdsTitle'', Text ''Online Advertisement''), (''refAdsDesc'', Text ''Saw a promotional ad or sponsored article on the web.''),
     (''step3Badge'', Text ''Step 3: Account Scale''), (''step3Title'', Text ''How many Telegram accounts do you plan to manage?''),
     (''step3Subtitle'', Text ''This helps us calculate your proxy pool requirements and account warmup schedule.''),
     (''vol1to5Title'', Text ''1 - 5 Telegram Accounts''), (''vol1to5Desc'', Text ''Perfect for beginners, small online shops, or individual users.''),
     (''vol6to20Title'', Text ''6 - 20 Telegram Accounts''), (''vol6to20Desc'', Text ''Growing business operations needing active daily promotions.''),
     (''vol21to50Title'', Text ''21 - 50 Telegram Accounts''), (''vol21to50Desc'', Text ''Power users running continuous high-volume broadcast cycles.''),
     (''vol50PlusTitle'', Text ''50+ Accounts (Large Scale)''),
     (''vol50PlusDesc'', Text ''Professional marketing agencies or large-scale multi-proxy operations.''),
     (''step4Badge'', Text ''Step 4: Priority Features''), (''step4Title'', Text ''What features are you most interested in?''),
     (''step4Subtitle'', Text ''Select all that apply to your workflows (multiple choices allowed).''),
     (''featBroadcastTitle'', Text ''Scheduled Bulk Broadcasts''),
     (''featBroadcastDesc'', Text ''Send automated marketing blasts with anti-ban sleep cycles and account rotation.''),
     (''featScrapeTitle'', Text ''Member Scraping & Auto-Invite''),
     (''featScrapeDesc'', Text ''Scrape active members from target groups and auto-invite them into your channel.''),
     (''featWebChatTitle'', Text ''Multi-Account Web Chat''),
     (''featWebChatDesc'', Text ''Read and reply to client chats across all accounts straight from the web browser.''),
     (''featProxyTitle'', Text ''Proxy Management & Session Isolation''),
     (''featProxyDesc'', Text ''Dedicated IP fingerprint protection per account to prevent blanket account bans.''),
     (''featAutoReplyTitle'', Text ''Auto-Reply & AI Chatbot Support''),
     (''featAutoReplyDesc'', Text ''Automate 24/7 inquiry handling with keyword matching rules or AI agents.''),
     (''featSmmTitle'', Text ''SMM Booster & Buzzer Services''),
     (''featSmmDesc'', Text ''Instantly order Telegram channel members, post reactions, and views via BuzzerPanel.''),
     (''step5Badge'', Text ''Step 5: Ready to Launch''),
     (''step5Title'', Text (''Your Workspace is Configured! '' @ [CHR 240, CHR 159, CHR 142, CHR 137])),
     (''step5Subtitle'', Text (''Thank you for sharing! We'' @ [CHR 39] @ ''ve customized your TeleBos workspace to fit your goals.'')),
     (''summaryRoleLabel'', Text ''Primary Role''), (''summaryRefLabel'', Text ''Discovery Source''), (''summaryVolLabel'', Text ''Account Target''),
     (''summaryFeatLabel'', Text ''Key Features''), (''addAccountCta'', Text ''Connect First Telegram Account''),
     (''addAccountCtaDesc'', Text ''Add your first phone number to start chatting, broadcasting, and managing channels.''),
     (''goToDashboardCta'', Text ''Go to Main Dashboard''),
     (''goToDashboardCtaDesc'', Text ''Access the full dashboard overview and manage all Telegram modules.''),
     (''welcomeBannerTitle'', Text ''New to TeleBos? Complete the quick onboarding survey!''),
     (''welcomeBannerDesc'', Text ''Help us personalize your dashboard and feature suggestions to match your goals.''),
     (''welcomeBannerCta'', Text ''Start Survey''), (''promptModalTitle'', Text (''Welcome to TeleBos! '' @ [CHR 240, CHR 159, CHR 154, CHR 128])),
     (''promptModalDesc'', Text ''Help us personalize your workspace and feature recommendations in just 1 minute.''),
     (''promptBenefit1'', Text ''Tailor your dashboard layout and Telegram analytics.''),
     (''promptBenefit2'', Text ''Smart recommendations for broadcast, scraping, and multi-account automation.''),
     (''promptBenefit3'', Text ''Quick 60-second questionnaire without complicated setup.''), (''promptStartCta'', Text ''Start Onboarding Now''),
     (''promptSkipCta'', Text ''Skip for Now'')]"

definition en_dict :: dict where
  "en_dict = Group [
     (''nav'', en_nav), (''accountFolders'', en_accountFolders), (''navbar'', en_navbar), (''notifications'', en_notifications),
     (''accountSwitcher'', en_accountSwitcher), (''login'', en_login), (''register'', en_register), (''forgotPassword'', en_forgotPassword),
     (''dashboard'', en_dashboard), (''accountsList'', en_accountsList), (''accountCard'', en_accountCard), (''accountOtpModal'', en_accountOtpModal),
     (''accountSelector'', en_accountSelector), (''transferAccounts'', en_transferAccounts), (''addAccount'', en_addAccount),
     (''accountDetail'', en_accountDetail), (''broadcastDashboard'', en_broadcastDashboard), (''newBroadcast'', en_newBroadcast),
     (''groupLists'', en_groupLists), (''textLists'', en_textLists), (''broadcastHistory'', en_broadcastHistory), (''broadcastLogs'', en_broadcastLogs),
     (''broadcastErrors'', en_broadcastErrors), (''chats'', en_chats), (''announcement'', en_announcement), (''contacts'', en_contacts),
     (''autoReply'', en_autoReply), (''settings'', en_settings), (''accountSettings'', en_accountSettings), (''devices'', en_devices),
     (''utils'', en_utils), (''common'', en_common), (''groupsChannels'', en_groupsChannels), (''autoJoin'', en_autoJoin), (''notFound'', en_notFound),
     (''errors'', en_errors), (''help'', en_help), (''landing'', en_landing), (''privacy'', en_privacy), (''tos'', en_tos), (''invite'', en_invite),
     (''orders'', en_orders), (''adminSmm'', en_adminSmm), (''smmOrderManager'', en_smmOrderManager), (''orderServices'', en_orderServices),
     (''admin'', en_admin), (''pricing'', en_pricing), (''subscription'', en_subscription), (''wallet'', en_wallet), (''redeem'', en_redeem),
     (''adminRedeem'', en_adminRedeem), (''ageChecker'', en_ageChecker), (''actions'', en_actions), (''theme'', en_theme), (''onboarding'', en_onboarding)]"

section \<open>Their shape\<close>

lemma fits_en_nav: "conforms en_nav Dict_nav"
  by (simp add: en_nav_def Dict_nav_def)

lemma fits_en_accountFolders: "conforms en_accountFolders Dict_accountFolders"
  by (simp add: en_accountFolders_def Dict_accountFolders_def)

lemma fits_en_navbar: "conforms en_navbar Dict_navbar"
  by (simp add: en_navbar_def Dict_navbar_def)

lemma fits_en_notifications: "conforms en_notifications Dict_notifications"
  by (simp add: en_notifications_def Dict_notifications_def)

lemma fits_en_accountSwitcher: "conforms en_accountSwitcher Dict_accountSwitcher"
  by (simp add: en_accountSwitcher_def Dict_accountSwitcher_def)

lemma fits_en_login: "conforms en_login Dict_login"
  by (simp add: en_login_def Dict_login_def)

lemma fits_en_register: "conforms en_register Dict_register"
  by (simp add: en_register_def Dict_register_def)

lemma fits_en_forgotPassword: "conforms en_forgotPassword Dict_forgotPassword"
  by (simp add: en_forgotPassword_def Dict_forgotPassword_def)

lemma fits_en_dashboard: "conforms en_dashboard Dict_dashboard"
  by (simp add: en_dashboard_def Dict_dashboard_def)

lemma fits_en_accountsList: "conforms en_accountsList Dict_accountsList"
  by (simp add: en_accountsList_def Dict_accountsList_def)

lemma fits_en_accountCard: "conforms en_accountCard Dict_accountCard"
  by (simp add: en_accountCard_def Dict_accountCard_def)

lemma fits_en_accountOtpModal: "conforms en_accountOtpModal Dict_accountOtpModal"
  by (simp add: en_accountOtpModal_def Dict_accountOtpModal_def)

lemma fits_en_accountSelector: "conforms en_accountSelector Dict_accountSelector"
  by (simp add: en_accountSelector_def Dict_accountSelector_def)

lemma fits_en_transferAccounts: "conforms en_transferAccounts Dict_transferAccounts"
  by (simp add: en_transferAccounts_def Dict_transferAccounts_def)

lemma fits_en_addAccount: "conforms en_addAccount Dict_addAccount"
  by (simp add: en_addAccount_def Dict_addAccount_def)

lemma fits_en_accountDetail: "conforms en_accountDetail Dict_accountDetail"
  by (simp add: en_accountDetail_def Dict_accountDetail_def)

lemma fits_en_broadcastDashboard: "conforms en_broadcastDashboard Dict_broadcastDashboard"
  by (simp add: en_broadcastDashboard_def Dict_broadcastDashboard_def)

lemma fits_en_newBroadcast: "conforms en_newBroadcast Dict_newBroadcast"
  by (simp add: en_newBroadcast_def Dict_newBroadcast_def)

lemma fits_en_groupLists: "conforms en_groupLists Dict_groupLists"
  by (simp add: en_groupLists_def Dict_groupLists_def)

lemma fits_en_textLists: "conforms en_textLists Dict_textLists"
  by (simp add: en_textLists_def Dict_textLists_def)

lemma fits_en_broadcastHistory: "conforms en_broadcastHistory Dict_broadcastHistory"
  by (simp add: en_broadcastHistory_def Dict_broadcastHistory_def)

lemma fits_en_broadcastLogs: "conforms en_broadcastLogs Dict_broadcastLogs"
  by (simp add: en_broadcastLogs_def Dict_broadcastLogs_def)

lemma fits_en_broadcastErrors: "conforms en_broadcastErrors Dict_broadcastErrors"
  by (simp add: en_broadcastErrors_def Dict_broadcastErrors_def)

lemma fits_en_chats: "conforms en_chats Dict_chats"
  by (simp add: en_chats_def Dict_chats_def)

lemma fits_en_announcement: "conforms en_announcement Dict_announcement"
  by (simp add: en_announcement_def Dict_announcement_def)

lemma fits_en_contacts: "conforms en_contacts Dict_contacts"
  by (simp add: en_contacts_def Dict_contacts_def)

lemma fits_en_autoReply: "conforms en_autoReply Dict_autoReply"
  by (simp add: en_autoReply_def Dict_autoReply_def)

lemma fits_en_settings: "conforms en_settings Dict_settings"
  by (simp add: en_settings_def en_settings_1_def en_settings_2_def Dict_settings_def Dict_settings_1_def Dict_settings_2_def)

lemma fits_en_accountSettings: "conforms en_accountSettings Dict_accountSettings"
  by (simp add: en_accountSettings_def Dict_accountSettings_def)

lemma fits_en_devices: "conforms en_devices Dict_devices"
  by (simp add: en_devices_def Dict_devices_def)

lemma fits_en_utils: "conforms en_utils Dict_utils"
  by (simp add: en_utils_def Dict_utils_def)

lemma fits_en_common: "conforms en_common Dict_common"
  by (simp add: en_common_def Dict_common_def)

lemma fits_en_groupsChannels: "conforms en_groupsChannels Dict_groupsChannels"
  by (simp add: en_groupsChannels_def Dict_groupsChannels_def)

lemma fits_en_autoJoin: "conforms en_autoJoin Dict_autoJoin"
  by (simp add: en_autoJoin_def Dict_autoJoin_def)

lemma fits_en_notFound: "conforms en_notFound Dict_notFound"
  by (simp add: en_notFound_def Dict_notFound_def)

lemma fits_en_errors: "conforms en_errors Dict_errors"
  by (simp add: en_errors_def Dict_errors_def)

lemma fits_en_help: "conforms en_help Dict_help"
  by (simp add: en_help_def Dict_help_def)

lemma fits_en_landing: "conforms en_landing Dict_landing"
  by (simp add: en_landing_def en_landing_1_def en_landing_2_def Dict_landing_def Dict_landing_1_def Dict_landing_2_def)

lemma fits_en_privacy: "conforms en_privacy Dict_privacy"
  by (simp add: en_privacy_def Dict_privacy_def)

lemma fits_en_tos: "conforms en_tos Dict_tos"
  by (simp add: en_tos_def Dict_tos_def)

lemma fits_en_invite: "conforms en_invite Dict_invite"
  by (simp add: en_invite_def Dict_invite_def)

lemma fits_en_orders: "conforms en_orders Dict_orders"
  by (simp add: en_orders_def en_orders_1_def en_orders_2_def Dict_orders_def Dict_orders_1_def Dict_orders_2_def)

lemma fits_en_adminSmm: "conforms en_adminSmm Dict_adminSmm"
  by (simp add: en_adminSmm_def Dict_adminSmm_def)

lemma fits_en_smmOrderManager: "conforms en_smmOrderManager Dict_smmOrderManager"
  by (simp add: en_smmOrderManager_def Dict_smmOrderManager_def)

lemma fits_en_orderServices: "conforms en_orderServices Dict_orderServices"
  by (simp add: en_orderServices_def Dict_orderServices_def)

lemma fits_en_admin: "conforms en_admin Dict_admin"
  by (simp add: en_admin_def Dict_admin_def)

lemma fits_en_pricing: "conforms en_pricing Dict_pricing"
  by (simp add: en_pricing_def Dict_pricing_def)

lemma fits_en_subscription: "conforms en_subscription Dict_subscription"
  by (simp add: en_subscription_def Dict_subscription_def)

lemma fits_en_wallet: "conforms en_wallet Dict_wallet"
  by (simp add: en_wallet_def en_wallet_1_def en_wallet_2_def Dict_wallet_def Dict_wallet_1_def Dict_wallet_2_def)

lemma fits_en_redeem: "conforms en_redeem Dict_redeem"
  by (simp add: en_redeem_def Dict_redeem_def)

lemma fits_en_adminRedeem: "conforms en_adminRedeem Dict_adminRedeem"
  by (simp add: en_adminRedeem_def Dict_adminRedeem_def)

lemma fits_en_ageChecker: "conforms en_ageChecker Dict_ageChecker"
  by (simp add: en_ageChecker_def Dict_ageChecker_def)

lemma fits_en_actions: "conforms en_actions Dict_actions"
  by (simp add: en_actions_def Dict_actions_def)

lemma fits_en_theme: "conforms en_theme Dict_theme"
  by (simp add: en_theme_def Dict_theme_def)

lemma fits_en_onboarding: "conforms en_onboarding Dict_onboarding"
  by (simp add: en_onboarding_def Dict_onboarding_def)

lemma fits_en_dict: "conforms en_dict Dict"
  by (simp add: en_dict_def Dict_def fits_en_nav fits_en_accountFolders fits_en_navbar fits_en_notifications fits_en_accountSwitcher fits_en_login fits_en_register fits_en_forgotPassword fits_en_dashboard fits_en_accountsList fits_en_accountCard fits_en_accountOtpModal fits_en_accountSelector fits_en_transferAccounts fits_en_addAccount fits_en_accountDetail fits_en_broadcastDashboard fits_en_newBroadcast fits_en_groupLists fits_en_textLists fits_en_broadcastHistory fits_en_broadcastLogs fits_en_broadcastErrors fits_en_chats fits_en_announcement fits_en_contacts fits_en_autoReply fits_en_settings fits_en_accountSettings fits_en_devices fits_en_utils fits_en_common fits_en_groupsChannels fits_en_autoJoin fits_en_notFound fits_en_errors fits_en_help fits_en_landing fits_en_privacy fits_en_tos fits_en_invite fits_en_orders fits_en_adminSmm fits_en_smmOrderManager fits_en_orderServices fits_en_admin fits_en_pricing fits_en_subscription fits_en_wallet fits_en_redeem fits_en_adminRedeem fits_en_ageChecker fits_en_actions fits_en_theme fits_en_onboarding)

end
