(* ===== verification/DictId.thy ===== *)
theory DictId
  imports DictTypes
begin

text \<open>
  The Indonesian texts, \<open>src/frontend/src/lib/i18n/id.ts\<close>: one definition per group of the dictionary, in the order of the file,
  and for each the lemma that it has exactly the keys that the interface declares.  Characters beyond 255 are written as
  their UTF-8 bytes.
\<close>

section \<open>The texts\<close>

definition id_nav :: dict where
  "id_nav = Group [
     (''dashboard'', Text ''Dasbor''), (''accounts'', Text ''Akun''), (''chats'', Text ''Obrolan''), (''broadcast'', Text ''Siaran''),
     (''autoReply'', Text ''Balas DM Otomatis''), (''newBroadcast'', Text ''Siaran Baru''), (''groupLists'', Text ''Daftar Grup''),
     (''textLists'', Text ''Daftar Teks''), (''broadcastHistory'', Text ''Riwayat Siaran''), (''broadcastLogs'', Text ''Log Siaran''),
     (''contacts'', Text ''Kontak''), (''groupsChannels'', Text ''Grup & Saluran''), (''help'', Text ''Bantuan''), (''orders'', Text ''Pesanan''),
     (''marketplace'', Text ''Marketplace''), (''telegramMembers'', Text ''Member Telegram''), (''telegramReactions'', Text ''Reaksi Telegram''),
     (''telegramAutoReactions'', Text ''Reaksi Otomatis Telegram''), (''telegramPostViews'', Text ''Views Post Telegram''),
     (''telegramAutoPostViews'', Text ''Auto Views Post Telegram''), (''services'', Text ''Layanan''), (''administrations'', Text ''Administrasi''),
     (''redeem'', Text ''Redeem''), (''smm'', Text ''SMM''), (''ageChecker'', Text ''Cek Umur ID''), (''tickets'', Text ''Tiket Bantuan''),
     (''aiSupport'', Text ''AI Support'')]"

definition id_accountFolders :: dict where
  "id_accountFolders = Group [
     (''title'', Text ''Folder Akun''), (''manageFolders'', Text ''Kelola Folder''), (''createFolder'', Text ''Buat Folder''),
     (''renameFolder'', Text ''Ubah Nama Folder''), (''deleteFolder'', Text ''Hapus Folder''),
     (''deleteConfirm'', Text ''Hapus folder ini? Akun di dalam folder tidak akan dihapus.''), (''folderName'', Text ''Nama Folder''),
     (''folderNamePlaceholder'', Text ''Misal: Pribadi, Kerja, Klien A''),
     (''noFolders'', Text ''Belum ada folder. Buat folder pertama untuk mengatur akun.''), (''folderAccounts'', Text ''Akun di \"{name}\"''),
     (''allAccounts'', Text ''Semua Akun''), (''addAccounts'', Text ''Tambah Akun''), (''searchAccounts'', Text ''Cari akun...''),
     (''save'', Text ''Simpan''), (''edit'', Text ''Edit''), (''delete'', Text ''Hapus''), (''created'', Text ''Folder dibuat''),
     (''renamed'', Text ''Nama folder diubah''), (''deleted'', Text ''Folder dihapus''), (''accountsAdded'', Text ''Akun ditambahkan ke folder''),
     (''accountsRemoved'', Text ''Akun dihapus dari folder''), (''nameRequired'', Text ''Nama folder wajib diisi''),
     (''folderFilter'', Text ''Filter berdasarkan folder'')]"

definition id_navbar :: dict where
  "id_navbar = Group [
     (''settings'', Text ''Pengaturan''), (''logout'', Text ''Keluar''), (''logoutTitle'', Text ''Keluar''),
     (''logoutConfirm'', Text ''Apakah Anda yakin ingin keluar dari akun ini?''), (''cancel'', Text ''Batal''), (''yesLogout'', Text ''Ya, Keluar''),
     (''user'', Text ''Pengguna''), (''balance'', Text ''Saldo''), (''role'', Text ''Peran'')]"

definition id_notifications :: dict where
  "id_notifications = Group [
     (''open'', Text ''Buka notifikasi''), (''title'', Text ''Notifikasi''), (''unreadCount'', Text ''{count} belum dibaca''),
     (''allCaughtUp'', Text ''Semua sudah dibaca''), (''markAllRead'', Text ''Tandai semua dibaca''), (''clearAll'', Text ''Hapus semua notifikasi''),
     (''dismiss'', Text ''Tutup notifikasi''), (''emptyTitle'', Text ''Belum ada notifikasi''),
     (''emptyDescription'', Text ''Pembaruan penting tentang akun dan operasi Anda akan muncul di sini.''), (''loading'', Text ''Memuat notifikasi...''),
     (''loadError'', Text ''Notifikasi tidak dapat dimuat.''), (''retry'', Text ''Coba lagi''), (''unknownTitle'', Text ''Pembaruan akun''),
     (''unknownDescription'', Text ''Ada pembaruan pada salah satu operasi akun Anda.''), (''supportTicketTitle'', Text ''Tiket Bantuan Baru''),
     (''supportTicketMessage'', Text ''Tiket #{ticket_number} dari {sender}'')]"

definition id_accountSwitcher :: dict where
  "id_accountSwitcher = Group [
     (''selectAccount'', Text ''Pilih akun'')]"

definition id_login :: dict where
  "id_login = Group [
     (''brandSubtitle'', Text ''Manajer Telegram Multi-Akun''), (''toolkitTitle'', Text ''Toolkit Otomatisasi Profesional''),
     (''featureMultipleAccounts'', Text ''Multi Akun''),
     (''featureMultipleAccountsDesc'', Text ''Kelola beberapa akun Telegram secara bersamaan dengan sinkronisasi real-time.''),
     (''featureChatManagement'', Text ''Manajemen Obrolan''),
     (''featureChatManagementDesc'', Text ''Pantau obrolan, dialog aktif, dan baca pesan di seluruh akun.''),
     (''featureSmartBroadcast'', Text ''Siaran Cerdas''),
     (''featureSmartBroadcastDesc'', Text ''Otomatiskan pengiriman dengan jadwal khusus, templat, dan penundaan keamanan.''),
     (''featureRealTimeLogs'', Text ''Log Real-time''),
     (''featureRealTimeLogsDesc'', Text ''Pantau kampanye siaran dengan telemetri yang komprehensif.''),
     (''footerTagline'', Text ''Arsitektur aman, cepat, dan multi-sesi.''), (''welcomeBack'', Text ''Selamat datang''),
     (''signInSubtitle'', Text ''Masuk ke akun TeleBos Anda''), (''emailLabel'', Text ''Email''), (''emailPlaceholder'', Text ''anda@example.com''),
     (''passwordLabel'', Text ''Kata Sandi''),
     (''passwordPlaceholder'', Text ([CHR 226, CHR 128, CHR 162, CHR 226, CHR 128, CHR 162, CHR 226, CHR 128, CHR 162, CHR 226, CHR 128, CHR 162, CHR 226, CHR 128, CHR 162, CHR 226, CHR 128, CHR 162, CHR 226, CHR 128, CHR 162, CHR 226, CHR 128, CHR 162])),
     (''signIn'', Text ''Masuk''), (''signingIn'', Text ''Memasuki...''), (''loginFailed'', Text ''Login gagal. Periksa kredensial Anda.''),
     (''noAccount'', Text ''Belum punya akun?''), (''register'', Text ''Daftar''), (''rememberMe'', Text ''Ingat saya''),
     (''forgotPassword'', Text ''Lupa kata sandi?''), (''verifiedSuccess'', Text ''Email berhasil diverifikasi. Anda sekarang dapat masuk.''),
     (''lockedTitle'', Text ''Akun dikunci sementara''), (''retryEstimate'', Text ''Perkiraan waktu tunggu: {minutes} menit''),
     (''tooManyTitle'', Text ''Terlalu banyak percobaan''), (''tooManyMessage'', Text ''Terlalu banyak percobaan. Silakan tunggu dan coba lagi.''),
     (''emailNotVerified'', Text ''Email Anda belum diverifikasi. Periksa kotak masuk atau kirim ulang email verifikasi di bawah.''),
     (''enterEmailToResend'', Text ''Masukkan email Anda terlebih dahulu untuk mengirim ulang verifikasi.''),
     (''resendVerification'', Text ''Kirim ulang email verifikasi''),
     (''resendingVerification'', Text (''Mengirim ulang'' @ [CHR 226, CHR 128, CHR 166])),
     (''resendFailed'', Text ''Gagal mengirim ulang email verifikasi. Silakan coba lagi.''),
     (''verificationSent'', Text ''Email verifikasi telah dikirim. Periksa kotak masuk Anda.''), (''twoFactorTitle'', Text ''Verifikasi Dua Langkah''),
     (''twoFactorDesc'', Text ''Masukkan 6 digit kode dari aplikasi autentikator Anda.''), (''backupCodeTitle'', Text ''Verifikasi Kode Cadangan''),
     (''backupCodeDesc'', Text ''Masukkan salah satu kode cadangan darurat Anda.''), (''codeLabel'', Text ''Kode Verifikasi''),
     (''codePlaceholder'', Text ''misal: 123456''), (''backupCodeLabel'', Text ''Kode Cadangan''),
     (''backupCodePlaceholder'', Text ''misal: abcde12345''), (''trustDevice'', Text ''Percayai perangkat ini selama 30 hari''),
     (''verify'', Text ''Verifikasi''), (''verifying'', Text ''Memverifikasi...''), (''useBackupCode'', Text ''Gunakan kode cadangan''),
     (''useTotp'', Text ''Gunakan aplikasi autentikator''), (''backToLogin'', Text ''Kembali ke login''),
     (''showPassword'', Text ''Tampilkan kata sandi''), (''hidePassword'', Text ''Sembunyikan kata sandi''),
     (''signInWithGoogle'', Text ''Masuk dengan Google''), (''orContinueWith'', Text ''atau masuk dengan email''),
     (''googleAuthFailed'', Text ''Gagal masuk dengan Google. Silakan coba lagi.'')]"

definition id_register :: dict where
  "id_register = Group [
     (''createAccount'', Text ''Buat Akun''), (''getStarted'', Text ''Mulai dengan TeleBos''), (''fullNameLabel'', Text ''Nama Lengkap''),
     (''fullNamePlaceholder'', Text ''John Doe''), (''emailLabel'', Text ''Email''), (''emailPlaceholder'', Text ''anda@example.com''),
     (''passwordLabel'', Text ''Kata Sandi''), (''passwordPlaceholder'', Text ''Min. 8 karakter''), (''passwordStrength'', Text ''Kekuatan Kata Sandi''),
     (''strengthWeak'', Text ''Lemah''), (''strengthFair'', Text ''Sedang''), (''strengthGood'', Text ''Baik''),
     (''strengthStrong'', Text ''Sangat Kuat''), (''criteriaMinLength'', Text ''Minimal 8 karakter''),
     (''criteriaUpperLower'', Text ''Huruf besar & kecil''), (''criteriaNumber'', Text ''Mengandung angka (0-9)''),
     (''criteriaSpecial'', Text ''Simbol khusus (!@#$...)''), (''confirmPasswordLabel'', Text ''Konfirmasi Kata Sandi''),
     (''confirmPasswordPlaceholder'', Text ''Ulangi kata sandi''), (''passwordsDoNotMatch'', Text ''Kata sandi dan konfirmasi kata sandi tidak cocok.''),
     (''passwordTooShort'', Text ''Kata sandi minimal 8 karakter.''), (''showPassword'', Text ''Tampilkan kata sandi''),
     (''hidePassword'', Text ''Sembunyikan kata sandi''), (''creatingAccount'', Text ''Membuat akun...''), (''createAccountBtn'', Text ''Buat Akun''),
     (''accountCreated'', Text ''Akun berhasil dibuat! Mengarahkan ke login...''),
     (''registrationFailed'', Text ''Pendaftaran gagal. Silakan coba lagi.''), (''alreadyHaveAccount'', Text ''Sudah punya akun?''),
     (''signIn'', Text ''Masuk''), (''agreePrefix'', Text ''Saya telah membaca dan menyetujui''), (''agreeAnd'', Text ''dan''),
     (''mustAgree'', Text ''Anda harus menyetujui Kebijakan Privasi dan Ketentuan Layanan untuk melanjutkan.''),
     (''verificationRequired'', Text ''Pendaftaran selesai. Periksa email untuk memverifikasi akun Anda sebelum masuk.''),
     (''signUpWithGoogle'', Text ''Daftar dengan Google''), (''orContinueWith'', Text ''atau daftar dengan email''),
     (''googleAuthFailed'', Text ''Gagal mendaftar dengan Google. Silakan coba lagi.''),
     (''googleTermsNotice'', Text ''Dengan melanjutkan dengan Google, Anda menyetujui Ketentuan Layanan dan Kebijakan Privasi kami.'')]"

definition id_forgotPassword :: dict where
  "id_forgotPassword = Group [
     (''title'', Text ''Atur ulang kata sandi''),
     (''subtitle'', Text ''Masukkan email Anda dan kami akan mengirimkan tautan pengaturan ulang yang aman.''), (''emailLabel'', Text ''Email''),
     (''emailPlaceholder'', Text ''anda@example.com''), (''sendLink'', Text ''Kirim tautan reset''), (''sending'', Text ''Mengirim tautan reset...''),
     (''success'', Text ''Jika akun dengan email tersebut tersedia, tautan reset sedang dikirim. Periksa kotak masuk Anda.''),
     (''rememberPassword'', Text ''Ingat kata sandi Anda?''), (''backToLogin'', Text ''Kembali ke halaman masuk'')]"

definition id_dashboard :: dict where
  "id_dashboard = Group [
     (''systemOnline'', Text ''Sistem Online''), (''welcome'', Text ''Selamat Datang di TeleBos''),
     (''welcomeDesc'', Text ''Kelola semua sesi Telegram, otomatiskan siaran, dan pantau kampanye pesan Anda.''), (''addAccount'', Text ''Tambah Akun''),
     (''totalAccounts'', Text ''Total Akun''), (''activeAccounts'', Text ''Akun Aktif''), (''broadcast'', Text ''Siaran''),
     (''auditLog'', Text ''Log Audit''), (''accountsConnected'', Text ''Akun terhubung''), (''sessionsRunning'', Text ''Sesi berjalan''),
     (''newBroadcast'', Text ''Mulai''), (''viewLogs'', Text ''Lihat''), (''quickNewBroadcast'', Text ''Siaran Baru''),
     (''quickNewBroadcastDesc'', Text ''Mulai kirim pesan ke grup''), (''quickGroupLists'', Text ''Daftar Grup''),
     (''quickGroupListsDesc'', Text ''Kelola target grup''), (''quickHistory'', Text ''Riwayat''),
     (''quickHistoryDesc'', Text ''Lihat siaran sebelumnya''), (''connectedAccounts'', Text ''Akun Terhubung''),
     (''connectedAccountsDesc'', Text ''Kelola dan periksa status profil Telegram''), (''add'', Text ''Tambah''), (''unnamed'', Text ''Tanpa Nama''),
     (''online'', Text ''Online''), (''offline'', Text ''Offline''), (''noAccounts'', Text ''Belum Ada Akun''),
     (''noAccountsDesc'', Text ''Anda belum menambahkan sesi Telegram. Tambahkan akun pertama untuk mulai mengelola dan broadcast.''),
     (''addFirstAccount'', Text ''Tambah Akun Pertama''), (''viewAllAccounts'', Text ''Lihat semua akun'')]"

definition id_accountsList :: dict where
  "id_accountsList = Group [
     (''title'', Text ''Akun''), (''subtitle'', Text ''Kelola akun Telegram Anda''), (''addAccount'', Text ''Tambah Akun''),
     (''failedToLoad'', Text ''Gagal memuat akun.''), (''tryAgain'', Text ''Coba lagi''), (''noAccounts'', Text ''Belum ada akun Telegram.''),
     (''addYourFirst'', Text ''Tambah Akun Pertama''), (''searchPlaceholder'', Text ''Cari nama, no hp, user ID, username...''),
     (''showingAccounts'', Text ''Menampilkan {start}-{end} dari {total} akun''), (''prev'', Text ''Sebelumnya''), (''next'', Text ''Berikutnya''),
     (''statusActive'', Text ''Aktif''), (''statusLimited'', Text ''Dibatasi''), (''statusInactive'', Text ''Nonaktif''),
     (''statusExpired'', Text ''Kedaluwarsa''), (''statusPremium'', Text ''Premium''), (''statusAll'', Text ''Semua''),
     (''transferAccounts'', Text ''Transfer Akun'')]"

definition id_accountCard :: dict where
  "id_accountCard = Group [
     (''unnamed'', Text ''Tanpa Nama''), (''viewDetails'', Text ''Lihat Detail''), (''delete'', Text ''Hapus''), (''transfer'', Text ''Transfer''),
     (''getOtp'', Text ''Dapatkan OTP''), (''active'', Text ''Aktif''), (''inactive'', Text ''Nonaktif''), (''expired'', Text ''Kedaluwarsa''),
     (''verified'', Text ''Terverifikasi''), (''premium'', Text ''Premium''), (''deleteConfirm'', Text ''Hapus akun ini?'')]"

definition id_accountOtpModal :: dict where
  "id_accountOtpModal = Group [
     (''title'', Text ''OTP Masuk Telegram''), (''description'', Text ''Pengecekan pesan kode OTP resmi dari Telegram (ID Pengguna: 777000)''),
     (''otpCode'', Text ''Kode OTP''), (''copyCode'', Text ''Salin Kode''), (''codeCopied'', Text ''Kode Disalin!''),
     (''recentBadge'', Text ''Baru Saja''), (''expiredBadge'', Text ''Kedaluwarsa (>15 mnt)''), (''noOtpTitle'', Text ''Belum Ada Kode OTP Masuk''),
     (''noOtpDesc'', Text ''Telegram belum mengirimkan kode login ke akun ini. Silakan lakukan permintaan masuk pada aplikasi Telegram Anda, lalu klik Muat Ulang.''),
     (''refresh'', Text ''Muat Ulang''), (''refreshing'', Text ''Memeriksa...''), (''recentMessages'', Text ''Riwayat Pesan dari 777000''),
     (''noMessages'', Text ''Belum ada riwayat pesan dari Telegram Notifications.''),
     (''serviceNotice'', Text ''Pesan ini diambil langsung dari akun layanan resmi Telegram (777000).''),
     (''warningNotice'', Text ''Jangan pernah berikan kode ini kepada siapa pun!''), (''errorTitle'', Text ''Gagal Mengambil OTP''),
     (''retry'', Text ''Coba Lagi'')]"

definition id_accountSelector :: dict where
  "id_accountSelector = Group [
     (''defaultTitle'', Text ''Pilih Akun Telegram''), (''selectedBadge'', Text ''dipilih''), (''selectAll'', Text ''Pilih Semua''),
     (''deselectAll'', Text ''Batal Pilih''), (''clear'', Text ''Bersihkan''), (''searchPlaceholder'', Text ''Cari akun berdasarkan nama atau nomor...''),
     (''clearSearchTooltip'', Text ''Hapus pencarian (Esc)''), (''showingResults'', Text ''Menampilkan {filtered} dari {total} akun''),
     (''resetSearch'', Text ''Reset kata kunci''), (''allFolders'', Text ''Semua folder''), (''loading'', Text ''Memuat daftar akun...''),
     (''noActiveAccounts'', Text ''Tidak ada akun aktif yang tersedia.''),
     (''noMatchingAccounts'', Text ''Tidak ada akun yang sesuai pencarian atau filter''),
     (''noMatchingDesc'', Text ''Coba ubah kata kunci pencarian atau ganti filter folder.''), (''clearSearchBtn'', Text ''Hapus Pencarian'')]"

definition id_transferAccounts :: dict where
  "id_transferAccounts = Group [
     (''dialogTitle'', Text ''Transfer Akun Telegram''), (''ownerOnly'', Text ''Owner Only''),
     (''dialogDesc'', Text ''Pindahkan kepemilikan akun Telegram ke pengguna lain melalui alamat email''),
     (''recipientEmailLabel'', Text ''Email Pengguna Tujuan (Penerima)''),
     (''searchEmailPlaceholder'', Text ''Masukkan atau cari email penerima (contoh: user@gmail.com)...''),
     (''noUserFound'', Text ''Pengguna dengan email tersebut tidak ditemukan''), (''searchingUser'', Text ''Mencari pengguna...''),
     (''quotaWarningTitle'', Text ''Peringatan Batas Kuota Paket Penerima''),
     (''quotaWarningDesc'', Text ''Penerima saat ini memiliki {current}/{max} akun pada paket {plan}.''),
     (''quotaExceededTitle'', Text ''Batas Kuota Terlampaui''),
     (''quotaExceededDesc'', Text ''Memindahkan {count} akun akan melebihi kuota akun penerima sebanyak {exceeded} akun.''),
     (''overrideQuotaLabel'', Text ''Abaikan batas kuota akun penerima (izinkan transfer)''),
     (''selectAccountsLabel'', Text ''Pilih Akun yang Akan Dipindahkan''), (''selectAll'', Text ''Pilih Semua''), (''deselectAll'', Text ''Batal Pilih''),
     (''selectedCount'', Text ''{selected} / {total} akun dipilih''),
     (''noAccountsAvailable'', Text ''Tidak ada akun aktif yang tersedia untuk dipindahkan.''), (''cancel'', Text ''Batal''),
     (''transferBtn'', Text ''Transfer Akun''), (''transferBtnCount'', Text ''Transfer {count} Akun''), (''transferring'', Text ''Memindahkan...''),
     (''toastSelectWarningTitle'', Text ''Pilih akun''), (''toastSelectWarningDesc'', Text ''Pilih setidaknya 1 akun Telegram untuk dipindahkan.''),
     (''toastEmailWarningTitle'', Text ''Email tujuan diperlukan''), (''toastEmailWarningDesc'', Text ''Masukkan email user tujuan penerima akun.''),
     (''toastSuccessTitle'', Text ''Transfer Berhasil''), (''toastSuccessDesc'', Text ''Berhasil memindahkan {count} akun ke {email} ({name}).''),
     (''toastFailedTitle'', Text ''Gagal Transfer Akun''), (''toastFailedDesc'', Text ''Gagal memindahkan akun. Silakan periksa kembali.'')]"

definition id_addAccount :: dict where
  "id_addAccount = Group [
     (''title'', Text ''Tambah Akun''), (''subtitle'', Text ''Masuk ke akun Telegram melalui OTP atau unggah sesi''),
     (''tabOtp'', Text ''Login via OTP''), (''tabQr'', Text ''QR Code''), (''tabUpload'', Text ''Unggah Sesi''),
     (''qrBadge'', Text ''Login Cepat Telegram''), (''qrTitle'', Text ''Masuk Cepat via QR Code''),
     (''qrSubtitle'', Text ''Pindai kode QR menggunakan aplikasi Telegram di ponsel Anda untuk menghubungkan akun secara instan.''),
     (''qrStep1Title'', Text ''Buka Telegram''), (''qrStep1Desc'', Text ''Buka aplikasi Telegram di HP Anda''),
     (''qrStep2Title'', Text ''Menu Perangkat''), (''qrStep2Desc'', Text ''Pengaturan > Perangkat > Tautkan Perangkat Desktop''),
     (''qrStep3Title'', Text ''Pindai Kode''), (''qrStep3Desc'', Text ''Arahkan kamera ke layar ini untuk konfirmasi''),
     (''qrGenerating'', Text ''Menyiapkan sesi QR Telegram aman...''), (''qrWaitingScan'', Text ''Menunggu pemindaian dari ponsel Anda...''),
     (''qrValidFor'', Text ''Berlaku hingga:''), (''qrExpiredTitle'', Text ''Kode QR Kedaluwarsa''),
     (''qrExpiredDesc'', Text ''Waktu pemindaian telah habis demi keamanan akun.''), (''qrReloadBtn'', Text ''Muat Ulang Kode QR''),
     (''qrRefreshTooltip'', Text ''Refresh kode QR sekarang''), (''qrTwoFaTitle'', Text ''Verifikasi 2 Langkah (2FA)''),
     (''qrTwoFaWarning'', Text ''Akun Anda dilindungi oleh Cloud Password 2FA. Silakan masukkan password Anda untuk menyelesaikan otorisasi.''),
     (''qrTwoFaLabel'', Text ''Password 2FA''), (''qrTwoFaPlaceholder'', Text ''Masukkan kata sandi 2FA Anda...''),
     (''qrTwoFaConfirmBtn'', Text ''Konfirmasi & Masuk''), (''qrTwoFaProcessing'', Text ''Memverifikasi password...''),
     (''qrTwoFaBack'', Text ([CHR 226, CHR 134, CHR 144] @ '' Generate QR Code Baru'')), (''qrSuccessTitle'', Text ''Login Berhasil!''),
     (''qrSuccessDesc'', Text ''Akun Telegram berhasil terhubung. Mengalihkan...''), (''qrSwitchToOtp'', Text ''Gunakan Login Nomor HP (OTP)''),
     (''phoneLabel'', Text ''Nomor Telepon''), (''phonePlaceholder'', Text ''812 3456 7890''),
     (''phoneHint'', Text ''Pilih kode negara di sebelah kiri, lalu ketik nomor Anda''), (''sendOtp'', Text ''Kirim Kode OTP''),
     (''sending'', Text ''Mengirim...''), (''otpTitle'', Text ''Masukkan kode 5 digit yang dikirim ke''),
     (''otpSentTo'', Text ''Masukkan kode 5 digit yang dikirim ke''), (''resendCode'', Text ''Kirim ulang kode''),
     (''resendAvailable'', Text ''Kirim ulang dalam''), (''verifyLogin'', Text ''Verifikasi & Masuk''), (''verifying'', Text ''Memverifikasi...''),
     (''changePhone'', Text ([CHR 226, CHR 134, CHR 144] @ '' Ganti nomor telepon'')),
     (''twoFaWarning'', Text ''Akun ini memiliki verifikasi 2 langkah (2FA). Masukkan password Telegram Anda.''), (''twoFaLabel'', Text ''Password 2FA''),
     (''twoFaPlaceholder'', Text ''Masukkan password 2FA...''),
     (''twoFaHint'', Text ''Password yang Anda atur di Settings > Privacy & Security > Two-Step Verification''), (''sessionLabel'', Text ''String Sesi''),
     (''sessionPlaceholder'', Text (''Tempel string sesi Anda di sini '' @ [CHR 226, CHR 128, CHR 148] @ '' mendukung Telethon, GramJS, dan Pyrogram'')),
     (''sessionHint'', Text ''Mendeteksi format otomatis. String sesi Telethon, GramJS, Pyrogram, dan raw auth key didukung. Dikonversi secara otomatis.''),
     (''sessionFormatDetected'', Text ''terdeteksi''), (''sessionFormatTelethon'', Text ''Telethon''), (''sessionFormatGramjs'', Text ''GramJS''),
     (''sessionFormatPyrogram'', Text ''Pyrogram''), (''sessionFormatRaw'', Text ''Raw Auth Key''), (''sessionFormatUnknown'', Text ''Tidak Dikenali''),
     (''sessionInvalidFormat'', Text ''Format tidak dikenali. Pastikan Anda menempelkan string sesi yang valid dari Telethon, GramJS, atau Pyrogram.''),
     (''uploadConnect'', Text ''Unggah & Hubungkan''), (''failedSendOtp'', Text ''Gagal mengirim OTP''),
     (''failedVerify'', Text ''Gagal memverifikasi kode''), (''failedUpload'', Text ''Gagal mengunggah sesi''),
     (''setupEmailRequired'', Text ''Telegram meminta Anda menyiapkan email login sebelum melanjutkan.''),
     (''setupEmailLabel'', Text ''Email login Telegram''), (''setupEmailSendCode'', Text ''Kirim kode email''),
     (''setupEmailCodePrompt'', Text ''Masukkan kode yang dikirim ke email Anda''), (''deliveryCodePrompt'', Text ''Masukkan kode dari {delivery}''),
     (''thirdPartySigninUnavailable'', Text ''Telegram melaporkan opsi sign-in pihak ketiga. Opsi tersebut belum tersedia di TeleBos.'')]"

definition id_accountDetail :: dict where
  "id_accountDetail = Group [
     (''profileSettings'', Text ''Profil & Pengaturan''), (''profileSettingsDesc'', Text ''Edit profil dan otomatisasi akun''),
     (''devices'', Text ''Perangkat''), (''devicesDesc'', Text ''Lihat dan kelola sesi aktif''), (''chats'', Text ''Obrolan''),
     (''chatsDesc'', Text ''Lihat obrolan untuk akun ini''), (''security'', Text ''Keamanan''), (''securityDesc'', Text ''Pengaturan 2FA dan privasi''),
     (''phone'', Text ''Telepon''), (''username'', Text ''Nama Pengguna''), (''bio'', Text ''Bio''), (''loginEmail'', Text ''Email Login''),
     (''status'', Text ''Status''), (''twoFa'', Text ''2FA''), (''added'', Text ''Ditambahkan''), (''active'', Text ''Aktif''),
     (''inactive'', Text ''Nonaktif''), (''expired'', Text ''Kedaluwarsa''), (''on'', Text ''Nyala''), (''off'', Text ''Mati''),
     (''notFound'', Text ''Akun tidak ditemukan.''), (''backToAccounts'', Text ''Kembali ke Akun''), (''dangerZone'', Text ''Zona Bahaya (Logout)''),
     (''dangerZoneDesc'', Text ''Logout sesi akun ini dari TeleBos. Data sesi akan dihapus dari sistem (akun Telegram asli Anda tetap aman).''),
     (''deleteAccount'', Text ''Logout dari TeleBos''), (''deleting'', Text ''Sedang logout...''),
     (''deleteConfirm'', Text ''Apakah Anda yakin ingin logout akun ini dari TeleBos? Sesi akan dihapus dari aplikasi.''),
     (''unnamed'', Text ''Tanpa Nama''), (''spamStatus'', Text ''Status Spam''), (''spamStatusNormal'', Text ''Normal (Tanpa Batasan)''),
     (''spamStatusLimited'', Text ''Dibatasi (Spam Block)''), (''spamStatusUnknown'', Text ''Tidak Diketahui''),
     (''spamLastChecked'', Text ''Terakhir Dicek''), (''checkSpamBtn'', Text ''Cek Status Spam''), (''checkingSpam'', Text ''Mengecek...''),
     (''spamLimitActive'', Text ''Batas Spam Aktif''), (''estRegDate'', Text ''Estimasi Tgl. Registrasi''), (''telegramId'', Text ''ID Telegram''),
     (''telegramIdCopied'', Text ''Disalin!''), (''contacts'', Text ''Kontak''), (''groups'', Text ''Grup''), (''channels'', Text ''Saluran''),
     (''owned'', Text ''{count} dimiliki''), (''viewDetailsChat'', Text ''Lihat Detail & Chat''),
     (''viewDetailsChatDesc'', Text ''Profil, perangkat, privasi, dan pengaturan 2FA''), (''contactsLink'', Text ''Kontak''),
     (''contactsLinkDesc'', Text ''Lihat dan kelola kontak yang tersinkronisasi''), (''groupsChannels'', Text ''Grup & Saluran''),
     (''groupsChannelsDesc'', Text ''Jelajahi grup dan saluran yang dimiliki akun ini''), (''appealBtn'', Text ''Ajukan Banding Pembatasan''),
     (''appealTitle'', Text ''Ajukan Banding ke @spambot''), (''appealReasonLabel'', Text ''Pilih Alasan Banding''),
     (''appealCustomReasonLabel'', Text ''Alasan Banding Kustom''), (''appealCustomReasonPlaceholder'', Text ''Ketik alasan kustom Anda di sini...''),
     (''appealSubmit'', Text ''Kirim Banding''), (''appealSubmitting'', Text ''Mengirim...''),
     (''appealForceWarningTitle'', Text ''Banding Sudah Pernah Dikirim''),
     (''appealForceWarningDesc'', Text ''Kami mendeteksi Anda sudah pernah mengajukan banding sebelumnya untuk akun ini. Mengirimkan banding lagi dapat menyebabkan akun Anda diabaikan atau diblokir oleh @spambot. Apakah Anda ingin tetap melanjutkan?''),
     (''appealForceSubmit'', Text ''Ya, Tetap Kirim''), (''appealCancel'', Text ''Batal''), (''appealSuccessTitle'', Text ''Banding Berhasil Dikirim''),
     (''appealSuccessDesc'', Text ''Permohonan banding Anda telah berhasil dikirim ke @spambot. Status akun akan segera diperbarui.''),
     (''appealCaptchaTitle'', Text ''Verifikasi Captcha Diperlukan''),
     (''appealCaptchaDesc'', Text (''Telegram memerlukan verifikasi captcha untuk memproses banding ini. Silakan klik tautan di bawah ini untuk membuka halaman verifikasi di browser Anda, selesaikan captcha Turnstile, kemudian kembali ke sini dan klik '' @ [CHR 39] @ ''Selesai'' @ [CHR 39] @ '' untuk melanjutkan.'')),
     (''appealCaptchaOpenBtn'', Text ''Buka Captcha di Browser''), (''appealCaptchaDoneBtn'', Text ''Selesai, Lanjutkan''),
     (''appealCaptchaResuming'', Text ''Melanjutkan...''), (''appealFailedTitle'', Text ''Banding Gagal''),
     (''appealFailedDesc'', Text ''Terjadi kesalahan saat mengajukan banding ke @spambot: {error}''),
     (''nameRequired'', Text ''Alasan banding tidak boleh kosong'')]"

definition id_broadcastDashboard :: dict where
  "id_broadcastDashboard = Group [
     (''title'', Text ''Siaran''), (''desc'', Text ''Kirim pesan ke banyak grup sekaligus''), (''groupLists'', Text ''Daftar Grup''),
     (''groupListsDesc'', Text ''Kelola grup dan saluran target Anda''), (''textLists'', Text ''Daftar Teks''),
     (''textListsDesc'', Text ''Kelola templat dan koleksi pesan''), (''newBroadcast'', Text ''Siaran Baru''),
     (''newBroadcastDesc'', Text ''Mulai kampanye siaran baru''), (''broadcastHistory'', Text ''Riwayat Siaran''),
     (''broadcastHistoryDesc'', Text ''Kelola siaran masa lalu dan aktif''), (''broadcastLogs'', Text ''Log Siaran''),
     (''broadcastLogsDesc'', Text ''Lihat hasil dan log kesalahan''), (''gettingStarted'', Text ''Panduan Awal''),
     (''step1'', Text ''Buat Daftar Grup dengan grup/saluran target''), (''step2'', Text ''Buat Daftar Teks dengan templat pesan''),
     (''step3'', Text ''Buka Siaran Baru, pilih akun, daftar, dan penundaan''),
     (''step4'', Text ''Pantau progres real-time dan periksa Log untuk hasil''), (''noAccountsTitle'', Text ''Belum Ada Akun Terhubung''),
     (''noAccountsDesc'', Text ''Anda perlu menambahkan setidaknya satu akun Telegram sebelum dapat menggunakan fitur siaran.''),
     (''noAccountsBtn'', Text ''Tambah Akun Telegram''), (''noGroupListsTitle'', Text ''Belum Ada Daftar Grup''),
     (''noGroupListsDesc'', Text ''Anda perlu membuat setidaknya satu Daftar Grup dengan grup target Anda sebelum memulai siaran.''),
     (''noGroupListsBtn'', Text ''Buat Daftar Grup''), (''allAccountsBusyTitle'', Text ''Semua Akun Sedang Siaran''),
     (''allAccountsBusyDesc'', Text ''Setiap akun pengirim saat ini memiliki siaran aktif. Hentikan atau tunggu hingga selesai sebelum memulai siaran baru.''),
     (''allAccountsBusyBtn'', Text ''Lihat Riwayat Siaran'')]"

definition id_newBroadcast :: dict where
  "id_newBroadcast = Group [
     (''title'', Text ''Siaran Baru''), (''desc'', Text ''Konfigurasi dan mulai siaran''), (''configuration'', Text ''Konfigurasi''),
     (''account'', Text ''Akun''), (''accountPlaceholder'', Text ''Pilih akun...''), (''groupList'', Text ''Daftar Grup''),
     (''groupListPlaceholder'', Text ''Pilih daftar grup...''), (''mode'', Text ''Mode''), (''multiRandom'', Text ''Multi Acak''),
     (''multiRandomDesc'', Text ''Teks acak per grup''), (''singleText'', Text ''Teks Tunggal''), (''singleTextDesc'', Text ''Teks sama untuk semua''),
     (''textList'', Text ''Daftar Teks''), (''textListPlaceholder'', Text ''Pilih daftar teks...''), (''messageText'', Text ''Teks Pesan''),
     (''messagePlaceholder'', Text ''Ketik pesan siaran Anda...''), (''delayPerGroup'', Text ''Jeda per Grup (detik)''),
     (''delayPerGroupSuffix'', Text (''1 '' @ [CHR 226, CHR 128, CHR 147] @ '' 3600 detik'')),
     (''delayAfterAll'', Text ''Jeda Setelah Semua Grup (detik)''), (''delayAfterAllSuffix'', Text ''Jeda sebelum mengulang dari awal''),
     (''scheduleTitle'', Text ''Broadcast Terjadwal (Jam Operasional)''),
     (''scheduleDesc'', Text ''Atur waktu mulai dan selesai siaran otomatis. Di luar jam ini, broadcast akan otomatis dijeda (pause) dan lanjut kembali esok harinya.''),
     (''scheduleStartTime'', Text ''Jam Mulai Siaran''), (''scheduleStartTimeDesc'', Text ''Siaran otomatis mulai / resume pada jam ini.''),
     (''scheduleEndTime'', Text ''Jam Selesai Siaran (Auto Pause)''), (''scheduleEndTimeDesc'', Text ''Siaran otomatis dijeda (pause) pada jam ini.''),
     (''schedulePresets'', Text ''Preset cepat:''),
     (''scheduleInfo'', Text ''Jika broadcast dimulai di luar rentang jam operasional, status akan langsung masuk ke Standby / Paused dan otomatis mulai mengirim saat jam mulai tiba.''),
     (''loopTitle'', Text ''Siaran Berulang (Loop)''),
     (''loopDesc'', Text ''Siaran akan otomatis mengulang dari grup pertama setelah selesai mengirim ke semua grup. Gunakan tombol Stop untuk menghentikan siaran.''),
     (''startBroadcast'', Text ''Mulai Siaran''), (''starting'', Text ''Memulai...''), (''failedToStart'', Text ''Gagal memulai''),
     (''progress'', Text ''Progres''), (''cycle'', Text ''Siklus''), (''total'', Text ''Total''),
     (''sent'', Text (''Terkirim '' @ [CHR 226, CHR 156, CHR 147])), (''failed'', Text (''Gagal '' @ [CHR 226, CHR 156, CHR 151])),
     (''pause'', Text ''Jeda''), (''resume'', Text ''Lanjutkan''), (''stop'', Text ''Berhenti''), (''live'', Text ''Langsung''),
     (''stopConfirm'', Text ''Hentikan siaran ini?'')]"

definition id_groupLists :: dict where
  "id_groupLists = Group [
     (''title'', Text ''Daftar Grup''), (''desc'', Text ''Kelola grup target untuk siaran''), (''newList'', Text ''Daftar Baru''),
     (''listName'', Text ''Nama daftar''), (''save'', Text ''Simpan''), (''saving'', Text ''Menyimpan...''),
     (''noLists'', Text ''Belum ada daftar grup.''), (''createFirst'', Text ''Buat daftar pertama''), (''noItems'', Text ''Belum ada item''),
     (''groups'', Text ''grup''), (''bulkImport'', Text ''Impor Massal Grup''), (''bulkImportLabel'', Text ''Upload Massal''),
     (''bulkImportDesc'', Text (''Tempel tautan/nama pengguna Telegram '' @ [CHR 226, CHR 128, CHR 148] @ '' satu per baris atau dari teks apa pun. Format: https://t.me/username, @username, atau tautan undangan.'')),
     (''bulkParse'', Text ''Parse & Pratinjau''), (''bulkRefresh'', Text ''Refresh''), (''bulkImportBtn'', Text ''Impor''),
     (''importGroups'', Text ''Grup''), (''add'', Text ''Tambah''),
     (''multiValueError'', Text ''Hanya boleh satu nilai di sini. Untuk menambah banyak grup sekaligus, gunakan Upload Massal.''),
     (''typeUsername'', Text ''@username''), (''typeLink'', Text ''Tautan''), (''typeGroupId'', Text ''ID Grup''),
     (''deleteConfirm'', Text ''Hapus daftar ini?''), (''placeholderUsername'', Text ''@grup''), (''placeholderLink'', Text ''t.me/...''),
     (''placeholderGroupId'', Text ''123456789''), (''viewDetails'', Text ''Lihat Detail''), (''hideDetails'', Text ''Tutup Detail''),
     (''delete'', Text ''Hapus'')]"

definition id_textLists :: dict where
  "id_textLists = Group [
     (''title'', Text ''Daftar Teks''), (''desc'', Text ''Kelola templat pesan''), (''newList'', Text ''Daftar Baru''),
     (''listName'', Text ''Nama daftar''), (''listNamePlaceholder'', Text ''Nama daftar (mis. Templat Promo)''), (''save'', Text ''Simpan''),
     (''noLists'', Text ''Belum ada daftar teks.''), (''createFirst'', Text ''Buat daftar teks pertama''), (''noTexts'', Text ''Belum ada teks''),
     (''texts'', Text ''teks''), (''addText'', Text ''Tambah''), (''addTextPlaceholder'', Text ''Tambah teks pesan...''), (''add'', Text ''Tambah''),
     (''deleteConfirm'', Text ''Hapus daftar teks ini?''), (''delete'', Text ''Hapus''), (''editText'', Text ''Edit Teks''),
     (''modalAddTitle'', Text ''Tambah Pesan ke Daftar Teks''), (''modalEditTitle'', Text ''Edit Pesan Daftar Teks'')]"

definition id_broadcastHistory :: dict where
  "id_broadcastHistory = Group [
     (''title'', Text ''Riwayat Siaran''), (''desc'', Text ''Kelola pekerjaan siaran masa lalu dan aktif''), (''date'', Text ''Tanggal''),
     (''status'', Text ''Status''), (''progress'', Text ''Progres''), (''sentFailed'', Text ''Terkirim / Gagal''), (''actions'', Text ''Aksi''),
     (''noJobs'', Text ''Belum ada siaran''), (''startBroadcast'', Text ''Mulai Siaran''), (''pause'', Text ''Jeda''), (''resume'', Text ''Lanjutkan''),
     (''stop'', Text ''Berhenti''), (''cancel'', Text ''Batalkan''), (''retry'', Text ''Ulangi''), (''delete'', Text ''Hapus''),
     (''viewLogs'', Text ''Lihat Log''), (''stopConfirm'', Text ''Hentikan siaran ini?''), (''cancelConfirm'', Text ''Batalkan siaran yang tertunda?''),
     (''deleteConfirm'', Text ''Hapus pekerjaan siaran ini?''), (''of'', Text ''dari''), (''accounts'', Text ''Akun Pengirim''),
     (''setup'', Text ''Konfigurasi Siaran''), (''groupList'', Text ''Grup''), (''textList'', Text ''Template Pesan''),
     (''customText'', Text ''Teks Kustom''), (''summaryRunning'', Text ''Broadcast Berjalan''), (''summaryAccountsInUse'', Text ''Akun Dipakai''),
     (''summaryCompleted'', Text ''Broadcast Selesai''), (''summaryTotalSent'', Text ''Pesan Terkirim''), (''summaryTotalFailed'', Text ''Pesan Gagal''),
     (''summaryTotalJobs'', Text ''Total Broadcast''), (''showing'', Text ''Menampilkan''), (''jobsLabel'', Text ''siaran''),
     (''prev'', Text ''Sebelumnya''), (''next'', Text ''Berikutnya''), (''delayPerGroup'', Text ''Jeda per Grup''),
     (''delayAfterAll'', Text ''Jeda Antar Siklus''), (''delayRandomized'', Text ''Acak''), (''cycleDelay'', Text ''Siklus''),
     (''telegramLog'', Text ''Log Telegram''), (''accountsModalTitle'', Text ''Detail Akun Pengirim''),
     (''accountsModalDesc'', Text ''Daftar akun Telegram yang digunakan untuk tugas siaran ini.''), (''active'', Text ''Aktif''),
     (''inactive'', Text ''Nonaktif''), (''showMoreAccounts'', Text ''akun lainnya (Tampilkan)''), (''showLessAccounts'', Text ''Ringkas''),
     (''viewDetails'', Text ''Lihat Detail''), (''copy'', Text ''Salin''), (''copied'', Text ''Tersalin'')]"

definition id_broadcastLogs :: dict where
  "id_broadcastLogs = Group [
     (''title'', Text ''Log Siaran''), (''desc'', Text ''Lihat hasil pengiriman detail per siklus''), (''selectJob'', Text ''Pilih pekerjaan siaran...''),
     (''sent'', Text ''Terkirim''), (''failed'', Text ''Gagal''), (''searchGroup'', Text ''Cari grup...''), (''allStatuses'', Text ''Semua Status''),
     (''success'', Text ''Sukses''), (''error'', Text ''Gagal''), (''skipped'', Text ''Dilewati''), (''allCycles'', Text ''Semua Siklus''),
     (''cycle'', Text ''Siklus''), (''exportCsv'', Text ''Ekspor CSV''), (''exportJson'', Text ''Ekspor JSON''),
     (''noEntries'', Text ''Tidak ada entri log.''), (''selectJobToView'', Text ''Pilih pekerjaan siaran untuk melihat log''),
     (''colCycle'', Text ''Siklus''), (''colGroup'', Text ''Grup''), (''colStatus'', Text ''Status''), (''colErrorType'', Text ''Tipe Error''),
     (''colMessage'', Text ''Pesan''), (''colSentText'', Text ''Teks Terkirim''), (''colTime'', Text ''Waktu''), (''live'', Text ''LIVE''),
     (''total'', Text ''Total''), (''noEntriesForCycle'', Text ''Tidak ada entri log untuk siklus ini.''),
     (''noEntriesMatchFilter'', Text ''Tidak ada entri yang cocok dengan filter saat ini.'')]"

definition id_broadcastErrors :: dict where
  "id_broadcastErrors = Group [
     (''private_channel'', Text ''Channel bersifat privat atau akun telah di-kick/banned dari grup ini oleh admin/bot''),
     (''banned'', Text ''Akun dibatasi oleh SpamBot Telegram atau dibanned dari grup ini''),
     (''admin_only'', Text ''Hanya admin yang diizinkan mengirim pesan di grup ini''),
     (''muted_permanent'', Text ''Akun dibungkam (mute) permanen oleh admin grup ini''),
     (''muted_temporary'', Text ''Akun sedang di-mute sementara oleh admin grup''),
     (''skipped_permanent'', Text ''Dilewati: target sudah gagal permanen di cycle sebelumnya''),
     (''skipped_pending'', Text ''Dilewati: masih menunggu giliran join (cooldown)''),
     (''must_join_discussion'', Text ''Harus join grup diskusi terlebih dahulu sebelum mengirim pesan''),
     (''topic_closed'', Text ''Topik di forum grup ini sudah ditutup oleh admin''),
     (''media_forbidden'', Text ''Grup ini melarang pengiriman link/media untuk member biasa''),
     (''guest_restricted'', Text ''Akun dibatasi masa percobaan anggota baru (probation)''),
     (''invalid_username'', Text ''Username grup tidak ditemukan atau tidak valid''),
     (''invalid_link'', Text ''Tautan undangan (invite link) kedaluwarsa atau tidak valid''),
     (''too_many_channels'', Text ''Akun telah mencapai batas maksimal bergabung grup/channel''), (''flood'', Text ''Terkena flood wait Telegram''),
     (''peer_flood'', Text ''Terkena peer flood Telegram''), (''slowmode'', Text ''Slowmode aktif pada grup ini'')]"

definition id_chats :: dict where
  "id_chats = Group [
     (''title'', Text ''Obrolan''), (''live'', Text ''Langsung''), (''offline'', Text ''Offline''), (''selectChats'', Text ''Pilih obrolan''),
     (''exitSelection'', Text ''Keluar mode pilih''), (''search'', Text ''Cari obrolan...''), (''all'', Text ''Semua''),
     (''archived'', Text ''Diarsipkan''), (''selectAccount'', Text ''Pilih akun...''), (''noAccounts'', Text ''Belum ada akun''),
     (''failedToLoad'', Text ''Gagal memuat''), (''retry'', Text ''Coba lagi''), (''noArchived'', Text ''Tidak ada obrolan diarsipkan''),
     (''noChats'', Text ''Tidak ada obrolan''), (''prev'', Text ''Sebelum''), (''page'', Text ''Halaman''), (''next'', Text ''Berikut''),
     (''selected'', Text ''dipilih''), (''archiveAll'', Text ''Arsipkan Semua''), (''unarchiveAll'', Text ''Batalkan Arsip Semua''),
     (''deleteAll'', Text ''Hapus Semua''), (''batchDelete'', Text ''Hapus Obrolan''), (''selectChat'', Text ''Pilih Obrolan''),
     (''selectChatDesc'', Text ''Klik percakapan di sebelah kiri untuk melihat pesan dan mulai mengobrol.''), (''noMessages'', Text ''Belum ada pesan''),
     (''loadOlder'', Text ''Muat pesan lama''), (''sendFailed'', Text ''Gagal mengirim pesan. Silakan coba lagi.''),
     (''typeMessage'', Text ''Ketik pesan...''), (''addCaption'', Text ''Tambah keterangan...''), (''attachFile'', Text ''Lampirkan File''),
     (''reply'', Text ''Balas''), (''delete'', Text ''Hapus''), (''archive'', Text ''Arsipkan''), (''unarchive'', Text ''Buka Arsip''),
     (''deleteConfirm'', Text ''Hapus \"{name}\"? Tindakan ini tidak dapat dibatalkan.''),
     (''batchDeleteConfirm'', Text ''Hapus {count} obrolan? Tindakan ini tidak dapat dibatalkan.''), (''unknown'', Text ''Tidak Diketahui'')]"

definition id_announcement :: dict where
  "id_announcement = Group [
     (''loading'', Text ''Memeriksa status Telegram...''),
     (''telegramDown'', Text ([CHR 226, CHR 154, CHR 160, CHR 239, CHR 184, CHR 143] @ '' Telegram saat ini mengalami gangguan. Beberapa fitur mungkin terpengaruh.'')),
     (''telegramDegraded'', Text ([CHR 226, CHR 154, CHR 160, CHR 239, CHR 184, CHR 143] @ '' Layanan Telegram mengalami penurunan kinerja. Beberapa fitur mungkin lebih lambat dari biasanya.'')),
     (''telegramUp'', Text ([CHR 226, CHR 156, CHR 133] @ '' Layanan Telegram beroperasi normal.'')),
     (''unknown'', Text ''Status layanan Telegram saat ini tidak tersedia.'')]"

definition id_contacts :: dict where
  "id_contacts = Group [
     (''title'', Text ''Kontak''), (''selectAccount'', Text ''Pilih akun''), (''search'', Text ''Cari kontak...''),
     (''totalContacts'', Text ''Total Kontak''), (''noAccounts'', Text ''Tidak ada akun tersedia''), (''failedToLoad'', Text ''Gagal memuat kontak''),
     (''retry'', Text ''Coba Lagi''), (''noContacts'', Text ''Tidak ada kontak ditemukan''), (''prev'', Text ''Sebelumnya''),
     (''page'', Text ''Halaman''), (''next'', Text ''Berikutnya''), (''selectContact'', Text ''Pilih Kontak''),
     (''selectContactDesc'', Text ''Pilih kontak dari daftar untuk melihat detailnya.''), (''phone'', Text ''Telepon''),
     (''username'', Text ''Nama Pengguna''), (''about'', Text ''Tentang''), (''mutual'', Text ''Kontak Bersama''),
     (''notMutual'', Text ''Bukan Kontak Bersama''), (''commonChats'', Text ''Grup Bersama''), (''unknown'', Text ''Tidak Diketahui''),
     (''delete'', Text ''Hapus''), (''deleteConfirm'', Text ''Hapus \"{name}\" dari kontak?''), (''contactsCount'', Text ''{count} kontak''),
     (''chat'', Text ''Chat''), (''sendMessage'', Text ''Kirim Pesan''), (''importContacts'', Text ''Impor Kontak''),
     (''importContactsDesc'', Text ''Impor nomor telepon ke buku kontak Telegram akun ini.''), (''exportContacts'', Text ''Ekspor Kontak''),
     (''exportContactsDesc'', Text ''Unduh kontak akun ini dalam format pilihan Anda.''), (''bulkInput'', Text ''Input Massal''),
     (''uploadFile'', Text ''Unggah File''), (''importSuccess'', Text ''Berhasil mengimpor {count} kontak!''),
     (''importing'', Text ''Sedang mengimpor...''), (''exporting'', Text ''Mengunduh file...''), (''accountAge'', Text ''Umur Akun''),
     (''spamStatus'', Text ''Status Spam''), (''clean'', Text ''Bersih''), (''limited'', Text ''Terbatas'')]"

definition id_autoReply :: dict where
  "id_autoReply = Group [
     (''title'', Text ''Balas Otomatis''),
     (''desc'', Text ''Balas otomatis pesan langsung pertama dari pengguna. Kelola pengaturan untuk semua akun Anda di sini.''),
     (''globalSettings'', Text ''Pengaturan Global''),
     (''globalSettingsDesc'', Text ''Terapkan konfigurasi balas otomatis yang sama ke semua akun sekaligus.''),
     (''enableAll'', Text ''Aktifkan untuk semua akun''), (''disableAll'', Text ''Nonaktifkan untuk semua akun''),
     (''globalMessage'', Text ''Pesan Balasan Global''),
     (''globalMessagePlaceholder'', Text ''Halo! Terima kasih telah menghubungi. Ada yang bisa dibantu?''),
     (''applyToAll'', Text ''Terapkan ke Semua Akun''), (''applying'', Text ''Menerapkan...''), (''applied'', Text ''Diterapkan ke {count} akun''),
     (''updated'', Text ''Berhasil {success}, {failed} gagal''), (''perAccount'', Text ''Per Akun''), (''on'', Text ''NYALA''), (''off'', Text ''MATI''),
     (''save'', Text ''Simpan''), (''saved'', Text ''Tersimpan!''), (''active'', Text ''Aktif''), (''replyMessage'', Text ''Pesan Balasan''),
     (''replyPlaceholder'', Text ''Pesan balas otomatis (kosongkan untuk menonaktifkan)''), (''noAccounts'', Text ''Balas Otomatis''),
     (''noAccountsDesc'', Text ''Belum ada akun terhubung. Tambahkan akun terlebih dahulu untuk mengatur balas otomatis.''),
     (''addAccount'', Text ''Tambah Akun''), (''failedToLoad'', Text ''Gagal memuat akun''), (''retry'', Text ''Coba lagi''),
     (''setText'', Text ''Atur Teks''), (''editText'', Text ''Ubah Teks''), (''modalTitle'', Text ''Atur Pesan Balas Otomatis''),
     (''modalDesc'', Text ''Pesan selamat datang otomatis yang dikirim ke pengguna saat pertama kali mengirim DM ke akun ini.''),
     (''enableForAccount'', Text ''Aktifkan Balas Otomatis untuk akun ini'')]"

definition id_settings_1 :: "(string \<times> dict) list" where
  "id_settings_1 = [
     (''profileAndSettings'', Text ''Profil & Pengaturan''),
     (''profileAndSettingsDesc'', Text ''Kelola akun, keamanan, dan preferensi platform sesuai kebutuhan Anda.''), (''navProfile'', Text ''Profil''),
     (''navProfileDesc'', Text ''Informasi akun dan data pribadi''), (''navChangePassword'', Text ''Ubah Kata Sandi''),
     (''navChangePasswordDesc'', Text ''Perbarui kata sandi akun Anda''), (''navTwoFactor'', Text ''Autentikasi Dua Faktor''),
     (''navTwoFactorDesc'', Text ''Tingkatkan keamanan akun Anda''), (''navApiKeys'', Text ''Kunci API Integrasi''),
     (''navApiKeysDesc'', Text ''Kelola kunci API untuk integrasi''), (''navBankAccounts'', Text ''Rekening Bank''),
     (''navBankAccountsDesc'', Text ''Simpan dan kelola rekening bank serta e-wallet''), (''navTelegram'', Text ''Bot Telegram''),
     (''navTelegramDesc'', Text ''Hubungkan bot Telegram resmi dengan token aman''), (''navAppearance'', Text ''Tampilan''),
     (''navAppearanceDesc'', Text ''Atur tampilan aplikasi''), (''navLanguage'', Text ''Bahasa''),
     (''navLanguageDesc'', Text ''Pilih bahasa yang Anda gunakan''), (''active'', Text ''Aktif''), (''profile'', Text ''Profil''),
     (''profileDesc'', Text ''Kelola informasi akun dan data pribadi Anda.''), (''editProfile'', Text ''Edit Profil''), (''username'', Text ''Username''),
     (''email'', Text ''Email''), (''role'', Text ''Peran''), (''joinedSince'', Text ''Bergabung Sejak''), (''editProfileTitle'', Text ''Edit Profil''),
     (''fullName'', Text ''Nama Lengkap''), (''fullNamePlaceholder'', Text ''Masukkan nama lengkap Anda''), (''saveChanges'', Text ''Simpan Perubahan''),
     (''profileSaved'', Text ''Profil berhasil diperbarui.''), (''failedSaveProfile'', Text ''Gagal memperbarui profil. Silakan coba lagi.''),
     (''cancel'', Text ''Batal''), (''saving'', Text ''Menyimpan...''), (''unknown'', Text ''Tidak diketahui''),
     (''fullNameRequired'', Text ''Nama lengkap wajib diisi.''), (''changePasswordTitle'', Text ''Ubah Kata Sandi''),
     (''changePasswordCardDesc'', Text ''Pastikan kata sandi Anda kuat dan unik untuk menjaga keamanan akun.''),
     (''passwordLastChanged'', Text ''Kata sandi terakhir diubah''), (''passwordLastChangedUnknown'', Text ''Belum pernah diubah''),
     (''twoFactorCardDesc'', Text ''Aktifkan 2FA untuk lapisan keamanan tambahan pada akun Anda.''), (''manageTwoFactor'', Text ''Atur 2FA''),
     (''status'', Text ''Status''), (''statusOff'', Text ''Tidak aktif''), (''enabled'', Text ''Aktif''),
     (''twoFaRecommendation'', Text ''Kami sarankan untuk mengaktifkan 2FA menggunakan aplikasi authenticator seperti Google Authenticator atau Authy.''),
     (''apiKeysTitle'', Text ''Kunci API Integrasi''),
     (''apiKeysCardDesc'', Text ''Kelola kunci API untuk mengintegrasikan layanan eksternal dengan TeleBos.''),
     (''manageApiKeys'', Text ''Kelola API Keys''), (''totalApiKeys'', Text ''Total Kunci API''), (''apiKeysCount'', Text ''{count} kunci''),
     (''lastUsed'', Text ''Terakhir digunakan''), (''never'', Text ''Belum pernah''), (''created'', Text ''Dibuat''),
     (''bankAccountsTitle'', Text ''Rekening Bank''),
     (''bankAccountsCardDesc'', Text ''Simpan dan kelola rekening bank dan e-wallet untuk transaksi dan pembayaran.''),
     (''addAccount'', Text ''Tambah Akun''), (''totalAccounts'', Text ''Total Rekening''), (''accountCount'', Text ''{count} rekening''),
     (''appearance'', Text ''Tampilan''), (''appearanceCardDesc'', Text ''Sesuaikan tampilan aplikasi sesuai preferensi Anda.''),
     (''theme'', Text ''Tema''), (''themeDarkDefault'', Text ''Gelap (Default)''), (''language'', Text ''Bahasa''),
     (''languageCardDesc'', Text ''Pilih bahasa yang Anda gunakan di TeleBos.''), (''languageLabel'', Text ''Bahasa''), (''title'', Text ''Pengaturan''),
     (''desc'', Text ''Kelola preferensi akun dan keamanan Anda''), (''back'', Text ''Kembali''), (''changePassword'', Text ''Ubah Kata Sandi''),
     (''changePasswordDesc'', Text ''Perbarui kata sandi akun Anda. Anda perlu menggunakan kata sandi baru pada login berikutnya.''),
     (''currentPassword'', Text ''Kata Sandi Saat Ini''), (''currentPasswordPlaceholder'', Text ''Masukkan kata sandi saat ini''),
     (''newPassword'', Text ''Kata Sandi Baru''), (''newPasswordPlaceholder'', Text ''Masukkan kata sandi baru''),
     (''confirmPassword'', Text ''Konfirmasi Kata Sandi Baru''), (''confirmPasswordPlaceholder'', Text ''Konfirmasi kata sandi baru''),
     (''passwordChanged'', Text ''Kata sandi berhasil diubah! Gunakan kata sandi baru Anda pada login berikutnya.''),
     (''passwordWeak'', Text (''Lemah '' @ [CHR 226, CHR 128, CHR 148] @ '' coba tambahkan angka dan simbol'')),
     (''passwordFair'', Text (''Cukup '' @ [CHR 226, CHR 128, CHR 148] @ '' tambahkan huruf campuran dan simbol'')),
     (''passwordGood'', Text ''Kata sandi baik''), (''passwordStrong'', Text ''Kata sandi kuat''),
     (''passwordsMatch'', Text ([CHR 226, CHR 156, CHR 147] @ '' Kata sandi cocok'')),
     (''passwordsNoMatch'', Text ([CHR 226, CHR 156, CHR 151] @ '' Kata sandi tidak cocok'')),
     (''passwordMinLength'', Text ''Kata sandi minimal 8 karakter''),
     (''passwordMustDiffer'', Text ''Kata sandi baru tidak boleh sama dengan kata sandi saat ini''), (''changePasswordBtn'', Text ''Ubah Kata Sandi''),
     (''changingPassword'', Text ''Mengubah kata sandi...''), (''sessionExpired'', Text ''Sesi berakhir. Silakan login lagi.''),
     (''failedChangePassword'', Text ''Gagal mengubah kata sandi. Silakan coba lagi.''), (''apiKeys'', Text ''API key integrasi''),
     (''apiKeysDesc'', Text ''Buat kredensial dengan izin terbatas untuk website dan tools server. Secret hanya ditampilkan sekali.''),
     (''createApiKey'', Text ''Buat API key''), (''apiKeyName'', Text ''Nama key''), (''apiKeyNamePlaceholder'', Text ''Contoh: Portal pelanggan''),
     (''apiKeyScopes'', Text ''Izin akses''), (''apiKeyScopesDesc'', Text ''Pilih hanya akses yang dibutuhkan integrasi ini.''),
     (''profileRead'', Text ''Baca profil Anda''), (''accountsRead'', Text ''Baca metadata akun''), (''jobsRead'', Text ''Baca status pekerjaan''),
     (''accountsWrite'', Text ''Tambah atau autentikasi akun Telegram''), (''generateKey'', Text ''Buat Kunci API''),
     (''generatingKey'', Text ''Membuat...''), (''apiKeyCreated'', Text ''API key berhasil dibuat''),
     (''apiKeyCreatedDesc'', Text ''Key Anda siap digunakan.''), (''copySecret'', Text ''Salin secret''), (''copied'', Text ''Disalin ke clipboard''),
     (''secretWarning'', Text ''Salin secret ini sekarang. Secret tidak akan ditampilkan lagi setelah pesan ini ditutup.''),
     (''noApiKeys'', Text ''Belum ada key integrasi.''), (''revoke'', Text ''Cabut''),
     (''revokeConfirm'', Text ''Cabut API key ini? Integrasi yang menggunakannya akan langsung berhenti.''), (''revoked'', Text ''Dicabut''),
     (''failedLoadApiKeys'', Text ''Gagal memuat API key.''), (''failedCreateApiKey'', Text ''Gagal membuat API key.''),
     (''failedRevokeApiKey'', Text ''Gagal mencabut API key.''), (''twoFactorTitle'', Text ''Autentikasi Dua Faktor (2FA)''),
     (''twoFactorDesc'', Text ''Tambahkan lapisan keamanan ekstra ke akun Anda menggunakan aplikasi autentikator TOTP.''),
     (''twoFactorEnabledStatus'', Text ''Autentikasi Dua Faktor aktif.''), (''twoFactorDisabledStatus'', Text ''Autentikasi Dua Faktor tidak aktif.''),
     (''off'', Text ''Tidak Aktif''), (''enable2FA'', Text ''Aktifkan 2FA''), (''disable2FA'', Text ''Nonaktifkan 2FA''),
     (''setup2FATitle'', Text ''Atur Autentikasi Dua Faktor''),
     (''setup2FADesc'', Text ''Scan QR code menggunakan aplikasi autentikator Anda (seperti Google Authenticator, Authy, atau Bitwarden) lalu masukkan kode verifikasi.''),
     (''enterCode'', Text ''Kode Verifikasi''), (''enterCodePlaceholder'', Text ''misal: 123456''), (''verifyAndEnable'', Text ''Verifikasi & Aktifkan''),
     (''backupCodesTitle'', Text ''Kode Cadangan''),
     (''backupCodesDesc'', Text ''Simpan kode cadangan ini di tempat yang aman. Anda dapat menggunakannya untuk login jika kehilangan akses ke aplikasi autentikator. Setiap kode hanya dapat digunakan sekali.''),
     (''backupCodesCopied'', Text ''Kode cadangan disalin ke clipboard''), (''saveBackupCodes'', Text ''Salin Kode Cadangan''),
     (''totpInvalid'', Text ''Kode verifikasi salah. Silakan coba lagi.''), (''totpSuccess'', Text ''Autentikasi Dua Faktor berhasil diaktifkan!''),
     (''disableSuccess'', Text ''Autentikasi Dua Faktor berhasil dinonaktifkan!''), (''regenerateBackupCodes'', Text ''Regenerate Kode Cadangan'')]"

definition id_settings_2 :: "(string \<times> dict) list" where
  "id_settings_2 = [
     (''regenerateBackupCodesConfirm'', Text ''Apakah Anda yakin ingin membuat ulang kode cadangan? Kode cadangan lama akan langsung tidak berfungsi.''),
     (''enterPasswordConfirm'', Text ''Konfirmasi Kata Sandi''),
     (''enterPasswordConfirmDesc'', Text ''Silakan masukkan kata sandi Anda untuk mengonfirmasi tindakan ini.''),
     (''passwordRequired'', Text ''Kata sandi diperlukan.''), (''done'', Text ''Selesai''), (''appearanceTab'', Text ''Tampilan''),
     (''appearanceDesc'', Text ''Sesuaikan tema dan tampilan visual ruang kerja Anda.''), (''themeMode'', Text ''Mode Tema''),
     (''themeModeDesc'', Text ''Pilih tema warna favorit Anda atau sesuaikan dengan sistem operasi.''), (''themeLight'', Text ''Terang''),
     (''themeLightDesc'', Text ''Tampilan cerah yang bersih dan jelas untuk ruangan terang.''), (''themeDark'', Text ''Gelap''),
     (''themeDarkDesc'', Text ''Palet deep slate yang nyaman di mata untuk pemakaian jangka panjang.''), (''themeSystem'', Text ''Sistem''),
     (''themeSystemDesc'', Text ''Sinkronisasi otomatis mengikuti preferensi sistem operasi Anda.''), (''languageSection'', Text ''Bahasa''),
     (''languageSectionDesc'', Text ''Pilih bahasa antarmuka yang Anda inginkan atau ikuti pengaturan sistem Anda.''), (''languageEn'', Text ''English''),
     (''languageEnDesc'', Text ''Tampilan antarmuka berbahasa Inggris.''), (''languageId'', Text ''Bahasa Indonesia''),
     (''languageIdDesc'', Text ''Tampilan antarmuka dalam Bahasa Indonesia.''), (''languageSystem'', Text ''Ikuti Sistem''),
     (''languageSystemDesc'', Text ''Secara otomatis mengikuti bahasa browser atau sistem operasi Anda.''), (''bankAccountsTab'', Text ''Rekening Bank''),
     (''bankAccountsDesc'', Text ''Kelola daftar rekening bank dan e-wallet Anda untuk penarikan saldo, serta pengaturan pembayaran.''),
     (''addBankAccount'', Text ''Tambah Rekening Baru''), (''bankName'', Text ''Nama Bank / E-Wallet''),
     (''accountNumber'', Text ''Nomor Rekening / No. HP''), (''accountHolder'', Text ''Nama Pemilik Rekening''),
     (''isDefaultAccount'', Text ''Jadikan sebagai rekening utama penarikan''), (''setAsDefault'', Text ''Jadikan Utama''),
     (''defaultBadge'', Text ''Rekening Utama''), (''deleteAccountConfirm'', Text ''Apakah Anda yakin ingin menghapus rekening ini?''),
     (''depositSettingsTitle'', Text ''Pengaturan Rekening Deposit Platform''),
     (''depositSettingsDesc'', Text ''Pengaturan akun penampung dan merchant QRIS untuk menerima deposit saldo dari pengguna.''),
     (''saveDepositSettings'', Text ''Simpan Pengaturan Deposit''), (''depositSettingsSaved'', Text ''Pengaturan rekening deposit berhasil disimpan!''),
     (''noBankAccounts'', Text ''Belum Ada Rekening Tersimpan''),
     (''noBankAccountsDesc'', Text ''Tambahkan rekening bank atau e-wallet untuk memudahkan proses penarikan saldo.''),
     (''accountAdded'', Text ''Rekening berhasil ditambahkan!''), (''accountDeleted'', Text ''Rekening berhasil dihapus.'')]"

definition id_settings :: dict where
  "id_settings = Group (id_settings_1 @ id_settings_2)"

definition id_accountSettings :: dict where
  "id_accountSettings = Group [
     (''title'', Text ''Pengaturan''), (''profilePhoto'', Text ''Foto Profil''), (''changePhoto'', Text ''Ganti Foto''), (''delete'', Text ''Hapus''),
     (''uploadPhoto'', Text ''Unggah Foto''), (''deletePhoto'', Text ''Hapus Foto''), (''noPhoto'', Text ''Belum ada foto profil''),
     (''notSet'', Text ''Belum diatur''), (''photoHint'', Text ''JPG, PNG, atau GIF. Maks 5 MB.''),
     (''photoUpdated'', Text ''Foto profil berhasil diperbarui!''), (''photoDeleted'', Text ''Foto profil berhasil dihapus!''),
     (''uploadFailed'', Text ''Gagal mengunggah foto''), (''deleteFailed'', Text ''Gagal menghapus foto''), (''profile'', Text ''Profil''),
     (''editProfile'', Text ''Edit Profil''), (''cancel'', Text ''Batal''), (''profileDesc'', Text ''Informasi publik profil akun Telegram Anda.''),
     (''editingProfile'', Text ''Ubah nama, nama pengguna, dan bio akun Telegram.''), (''firstName'', Text ''Nama Depan''),
     (''firstNameRequired'', Text ''Nama depan tidak boleh kosong.''), (''lastName'', Text ''Nama Belakang''), (''username'', Text ''Nama Pengguna''),
     (''usernamePlaceholder'', Text ''tanpa @''), (''checkingUsername'', Text ''Memeriksa ketersediaan...''),
     (''usernameAvailable'', Text ''Username tersedia''), (''usernameOccupied'', Text ''Username sudah digunakan oleh akun lain''),
     (''usernameInvalid'', Text ''Format username tidak valid (5-32 karakter, a-z, 0-9, _)''),
     (''usernamePurchaseAvailable'', Text ''Username ini hanya tersedia melalui lelang Fragment''),
     (''usernameUnchanged'', Text ''Username Anda saat ini''), (''usernameWillBeRemoved'', Text ''Username akan dihapus dari akun Anda''),
     (''usernameTooShort'', Text ''Username minimal 5 karakter''), (''usernameStartsWithDigit'', Text ''Username tidak boleh diawali dengan angka''),
     (''usernameInvalidChars'', Text ''Username hanya boleh huruf, angka, dan underscore''),
     (''usernameFloodWait'', Text ''Terlalu banyak permintaan cek. Silakan tunggu sesaat''), (''bio'', Text ''Bio''),
     (''bioPlaceholder'', Text ''Tulis bio singkat...''), (''saving'', Text ''Menyimpan...''), (''save'', Text ''Simpan''),
     (''profileUpdated'', Text ''Profil berhasil diperbarui!''), (''updateFailed'', Text ''Gagal memperbarui profil''),
     (''privacySecurity'', Text ''Privasi & Keamanan''), (''whoCanSee'', Text ''Siapa yang dapat melihat info pribadi saya''),
     (''whoCanContact'', Text ''Siapa yang dapat menghubungi saya''), (''messagesForwarding'', Text ''Pesan & Penerusan''),
     (''lastSeen'', Text ''Terakhir Dilihat & Online''), (''photoPrivacy'', Text ''Foto Profil''), (''bioPrivacy'', Text ''Bio''),
     (''birthday'', Text ''Ulang Tahun''), (''phoneNumber'', Text ''Nomor Telepon''), (''whoCanCall'', Text ''Siapa yang dapat menelepon saya''),
     (''whoCanAddGroups'', Text ''Siapa yang dapat menambah saya ke grup''),
     (''whoCanFindByPhone'', Text ''Siapa yang dapat menemukan saya via telepon''), (''whoCanForward'', Text ''Siapa yang dapat meneruskan pesan saya''),
     (''whoCanSendVoice'', Text ''Siapa yang dapat mengirim pesan suara''), (''everybody'', Text ''Semua Orang''), (''myContacts'', Text ''Kontak Saya''),
     (''closeFriends'', Text ''Teman Dekat''), (''nobody'', Text ''Tidak Ada''), (''savePrivacy'', Text ''Simpan Pengaturan Privasi''),
     (''privacyUpdated'', Text ''Pengaturan privasi diperbarui!''), (''unsavedChanges'', Text ''{count} perubahan belum disimpan''),
     (''twoFactor'', Text ''Autentikasi Dua Faktor''), (''enabled'', Text ''Aktif''), (''disabled'', Text ''Nonaktif''),
     (''enable2fa'', Text ''Aktifkan 2FA''), (''disable2fa'', Text ''Nonaktifkan 2FA''), (''new2faPassword'', Text ''Password 2FA baru''),
     (''current2faPassword'', Text ''Password 2FA saat ini''), (''change2faPassword'', Text ''Ubah Password 2FA''),
     (''newPassword'', Text ''Password baru''), (''confirmPassword'', Text ''Konfirmasi password''), (''changePassword'', Text ''Ubah Password''),
     (''forgotPassword'', Text ''Lupa password?''), (''requestRecovery'', Text ''Kirim Kode Pemulihan''),
     (''recoveryCode'', Text ''Kode pemulihan dari email''), (''recover'', Text ''Pulihkan Akun''),
     (''recoveryInfo'', Text ''Kode pemulihan akan dikirim ke email pemulihan Anda''), (''recoverySent'', Text ''Kode pemulihan terkirim ke {email}''),
     (''recoveryEmail'', Text ''Email Pemulihan''), (''recoveryEmailPlaceholder'', Text ''pemulihan@email.com''),
     (''recoveryEmailConfirmInfo'', Text ''Masukkan kode konfirmasi yang dikirim ke email pemulihan Anda.''), (''setEmail'', Text ''Atur Email''),
     (''loginEmail'', Text ''Email Login''), (''loginEmailDesc'', Text ''Kode OTP login dikirim ke email ini''),
     (''changeLoginEmail'', Text ''Ubah Email Login''), (''changeLoginEmailDesc'', Text ''Masukkan alamat email baru untuk menerima kode login''),
     (''newLoginEmail'', Text ''Alamat email baru''), (''sendVerificationCode'', Text ''Kirim Kode''),
     (''verificationCode'', Text ''Kode verifikasi dari email''), (''verifyEmail'', Text ''Verifikasi Email''),
     (''unconfirmedEmail'', Text ''Email Belum Dikonfirmasi''), (''waitingConfirmation'', Text ''menunggu konfirmasi''),
     (''passwordHint'', Text ''Petunjuk Password''), (''passwordsDontMatch'', Text ''Password tidak cocok''), (''done'', Text ''Selesai!''),
     (''actionFailed'', Text ''Aksi gagal''), (''autoReply'', Text ''Balas Otomatis (Pesan Selamat Datang)''),
     (''autoReplyDesc'', Text ''Saat diaktifkan, akun ini akan otomatis membalas pesan langsung pertama dari pengguna mana pun. Tidak akan membalas di grup, saluran, atau ke bot. Setiap pengguna hanya menerima balasan sekali.''),
     (''autoReplyOn'', Text ''Balas otomatis NYALA''), (''autoReplyOff'', Text ''Balas otomatis MATI''), (''replyMessage'', Text ''Pesan Balasan''),
     (''replyMessagePlaceholder'', Text ''Halo! Terima kasih telah menghubungi. Ada yang bisa dibantu?''),
     (''autoReplySaved'', Text ''Pengaturan balas otomatis tersimpan!''), (''deleteContacts'', Text ''Hapus Kontak Tersinkronisasi''),
     (''deleteContactsDesc'', Text ''Hapus semua kontak yang tersinkronisasi ke akun Telegram ini.''),
     (''deleteAllContacts'', Text ''Hapus Semua Kontak Tersinkronisasi''), (''deleting'', Text ''Menghapus...''),
     (''contactsDeleted'', Text ''Kontak tersinkronisasi dihapus!''),
     (''contactsDeleteConfirm'', Text ''Hapus semua kontak tersinkronisasi dari akun ini?''), (''removePhotoConfirm'', Text ''Hapus foto profil?'')]"

definition id_devices :: dict where
  "id_devices = Group [
     (''title'', Text ''Perangkat''), (''activeSessions'', Text ''Sesi aktif untuk {name}''), (''noDevices'', Text ''Tidak ada perangkat.''),
     (''failedToLoad'', Text ''Gagal memuat perangkat.''), (''terminate'', Text ''Akhiri sesi ini''), (''terminateAll'', Text ''Akhiri Semua Sesi Lain''),
     (''terminateAllDesc'', Text ''Keluar dari semua perangkat lain kecuali sesi TeleBos saat ini.''),
     (''terminateAllBtn'', Text ''Akhiri Semua Sesi Lain''), (''terminating'', Text ''Mengakhiri...''),
     (''terminateAllConfirm'', Text ''Akhiri semua sesi lain? Perangkat ini akan tetap terhubung.''), (''unknownApp'', Text ''Aplikasi Tidak Diketahui''),
     (''since'', Text ''Sejak {date}''), (''thisDevice'', Text ''Perangkat Ini''), (''otherDevices'', Text ''Perangkat Lain''),
     (''sessionTerminated'', Text ''Sesi perangkat berhasil diakhiri''), (''terminateSessionFailed'', Text ''Gagal mengakhiri sesi perangkat''),
     (''otherSessionsTerminated'', Text ''Semua sesi lain berhasil diakhiri''), (''terminateOtherSessionsFailed'', Text ''Gagal mengakhiri sesi lain'')]"

definition id_utils :: dict where
  "id_utils = Group [
     (''dateEmpty'', Text ([CHR 226, CHR 128, CHR 148])), (''justNow'', Text ''baru saja''), (''minutesAgo'', Text ''{m}m lalu''),
     (''hoursAgo'', Text ''{h}j lalu''), (''daysAgo'', Text ''{d}h lalu'')]"

definition id_common :: dict where
  "id_common = Group [
     (''language'', Text ''Bahasa''), (''english'', Text ''English''), (''indonesian'', Text ''Indonesia''), (''close'', Text ''Tutup'')]"

definition id_groupsChannels :: dict where
  "id_groupsChannels = Group [
     (''title'', Text ''Grup & Saluran''), (''groups'', Text ''Grup''), (''channels'', Text ''Saluran''), (''searchGroups'', Text ''Cari grup...''),
     (''searchChannels'', Text ''Cari saluran...''), (''noGroups'', Text ''Tidak ada grup ditemukan''),
     (''noChannels'', Text ''Tidak ada saluran ditemukan''), (''owner'', Text ''Pemilik''), (''failedToLoad'', Text ''Gagal memuat''),
     (''retry'', Text ''Coba lagi''), (''page'', Text ''Halaman''), (''prev'', Text ''Sebelum''), (''next'', Text ''Berikut''),
     (''joinNew'', Text ''Gabung Grup/Saluran Baru''), (''join'', Text ''Gabung''),
     (''joinDescription'', Text ''Masukkan @username atau tautan undangan untuk bergabung ke grup atau saluran baru.''),
     (''joinPlaceholder'', Text ''@grup atau t.me/... atau tautan undangan''), (''joining'', Text ''Bergabung...''),
     (''joinedSuccess'', Text ''Berhasil bergabung!''), (''joinFailed'', Text ''Gagal bergabung''), (''alreadyMember'', Text ''Sudah menjadi anggota''),
     (''identifier'', Text ''Username atau Tautan Undangan''), (''sync'', Text ''Sinkronkan Grup & Saluran''), (''syncing'', Text ''Menyinkronkan...''),
     (''syncSuccess'', Text ''Grup & saluran berhasil disinkronkan!''), (''syncFailed'', Text ''Sinkronisasi gagal!''),
     (''lastSynced'', Text ''Sinkronisasi terakhir: {time}''), (''neverSynced'', Text ''Belum pernah disinkronkan''),
     (''syncRequiredDesc'', Text ''Untuk mengoptimalkan kinerja VPS, grup dan saluran hanya disinkronkan sesuai permintaan. Silakan sinkronkan sekarang untuk memuatnya.''),
     (''memberCount'', Text ''Total Anggota''), (''onlineCount'', Text ''Online''), (''inviteLink'', Text ''Tautan Undangan''),
     (''copyLink'', Text ''Salin Link''), (''copiedLink'', Text ''Link disalin!''), (''copyAllLinks'', Text ''Salin Semua Link''),
     (''copiedAllLinks'', Text ''Semua link undangan disalin!''), (''publicIndex'', Text ''Indeks Publik''),
     (''publicIndexDesc'', Text ''Jelajahi grup dan saluran publik dari semua akun Telegram Anda.''), (''proOnly'', Text ''Fitur Khusus Pro''),
     (''proOnlyDesc'', Text ''Halaman ini hanya dapat diakses oleh anggota Pro. Tingkatkan paket Anda untuk mengakses grup dan saluran publik dari semua akun.''),
     (''upgradeNow'', Text ''Tingkatkan Sekarang''), (''myChats'', Text ''Obrolan Saya''), (''allChats'', Text ''Semua Grup Publik''),
     (''noPublicChats'', Text ''Grup atau saluran publik tidak ditemukan.''), (''autoJoin'', Text ''Auto Join''),
     (''autoJoinDesc'', Text ''Bergabung ke banyak grup dan channel secara otomatis dengan akun Telegram Anda.''), (''autoLeave'', Text ''Auto Leave''),
     (''autoLeaveDesc'', Text ''Keluar dari banyak grup dan channel secara otomatis dengan akun Telegram Anda.'')]"

definition id_autoJoin :: dict where
  "id_autoJoin = Group [
     (''live'', Text ''Langsung''), (''offline'', Text ''Terputus''), (''history'', Text ''Riwayat Job''),
     (''historyDesc'', Text ''Proses terbaru. Klik baris untuk melihat log-nya.''), (''noJobs'', Text ''Belum ada job auto join.''),
     (''jobId'', Text ''Job''), (''created'', Text ''Dibuat''), (''status'', Text ''Status''), (''progress'', Text ''Progres''),
     (''detail'', Text ''Detail''), (''inspect'', Text ''Lihat log''), (''delete'', Text ''Hapus job''),
     (''noActiveJob'', Text ''Belum ada job auto join yang berjalan.''), (''logCap'', Text ''Menampilkan {shown} entri terbaru dari {total}.''),
     (''runningInWorker'', Text (''Proses ini berjalan di worker backend. Anda boleh meninggalkan halaman ini '' @ [CHR 226, CHR 128, CHR 148] @ '' proses tetap jalan.'')),
     (''estimated'', Text ''Perkiraan join''), (''statusPending'', Text ''Menunggu''), (''statusRunning'', Text ''Berjalan''),
     (''statusPaused'', Text ''Dijeda''), (''statusCompleted'', Text ''Selesai''), (''statusCancelled'', Text ''Dibatalkan''),
     (''statusFailed'', Text ''Gagal''), (''success'', Text ''Sukses''), (''already'', Text ''Member''), (''failed'', Text ''Gagal''),
     (''breadcrumb'', Text ''Grup & Saluran''), (''pageTitle'', Text ''Auto Join Grup & Saluran''),
     (''pageSubtitle'', Text ''Bergabung ke banyak grup dan channel Telegram secara massal dengan akun Anda. Masukkan link atau username secara manual atau gunakan daftar dari Group Lists.''),
     (''manageGroupLists'', Text ''Kelola Group Lists''), (''viewMyChats'', Text ''Lihat My Chats''),
     (''targetTitle'', Text ''Daftar Grup / Saluran Target''), (''targetSubtitle'', Text ''Pilih sumber target yang akan diikuti''),
     (''modeBulk'', Text ''Input Massal''), (''modeGroupLists'', Text ''Group Lists''), (''pasteLabel'', Text ''Tempel Link / Username per baris:''),
     (''targetsDetected'', Text ''{count} target terdeteksi''), (''formatHint'', Text ''Format: @user, t.me/name, atau link private t.me/+hash.''),
     (''clear'', Text ''Hapus''), (''saveAsGroupList'', Text ''Simpan ke Group List''),
     (''saveListPlaceholder'', Text ''Nama list (cth: Channel Crypto & Airdrop)''), (''save'', Text ''Simpan''),
     (''selectSavedListLabel'', Text ''Pilih Group List Tersimpan:''), (''selectListPlaceholder'', Text ''-- Pilih Group List --''),
     (''targetsCount'', Text ''{count} target''),
     (''noListSelected'', Text ''Belum ada list yang dipilih. Silakan pilih list di atas atau gunakan mode Input Massal.''),
     (''selectAccountsTitle'', Text ''Pilih Akun Telegram''),
     (''selectAccountsDesc'', Text ''Pilih akun yang akan digunakan untuk bergabung ke grup/channel''),
     (''executionTitle'', Text ''Pengaturan Eksekusi''), (''joinDelayLabel'', Text ''Jeda Bergabung (Interval tiap target):''),
     (''delayFast'', Text ''2s (Cepat)''), (''delayRecommended'', Text ''5s (Disarankan)''), (''delaySafe'', Text ''30s (Sangat Aman)''),
     (''jitterTitle'', Text (''Randomize Jitter ('' @ [CHR 177] @ '' 2s)'')), (''jitterSubtitle'', Text ''Variasi jeda agar lebih natural''),
     (''distributionTitle'', Text ''Metode Distribusi Akun:''), (''distributeAll'', Text ''Semua Akun''),
     (''distributeAllDesc'', Text ''Tiap akun join ke semua target''), (''distributeRoundRobin'', Text ''Bagi Rata (Round-Robin)''),
     (''distributeRoundRobinDesc'', Text ''Bagi target secara merata antar akun''), (''startBtn'', Text ''Mulai Auto Join ({count} Join)''),
     (''pauseBtn'', Text ''Jeda''), (''resumeBtn'', Text ''Lanjutkan''), (''stopBtn'', Text ''Hentikan''),
     (''emptyJobLogs'', Text ''Belum ada log untuk job ini.''),
     (''emptyLiveLogs'', Text ''Belum ada log aktivitas. Mulai auto join untuk melihat hasil di sini.''), (''loading'', Text ''Memuat...''),
     (''toastListSavedTitle'', Text ''Group List Disimpan''), (''toastListSavedDesc'', Text ''Berhasil menyimpan \"{name}\" dengan {count} target.''),
     (''toastSaveFailedTitle'', Text ''Gagal Menyimpan''), (''toastSaveFailedDesc'', Text ''Terjadi kesalahan saat menyimpan list.''),
     (''toastEmptyTargetsTitle'', Text ''Target Kosong''),
     (''toastEmptyTargetsDesc'', Text ''Silakan masukkan target atau pilih Group List yang memiliki target.''),
     (''toastNoAccountTitle'', Text ''Akun Belum Dipilih''),
     (''toastNoAccountDesc'', Text ''Pilih setidaknya satu akun Telegram yang aktif untuk mulai bergabung.''),
     (''toastStartedTitle'', Text ''Auto Join Dimulai''),
     (''toastStartedDesc'', Text ''Memproses {total} total join untuk {accounts} akun di worker backend.'')]"

definition id_notFound :: dict where
  "id_notFound = Group [
     (''title'', Text ''Halaman Tidak Ditemukan''), (''description'', Text ''Uppss! Halaman yang Anda cari tidak ada atau telah dipindahkan.''),
     (''backHome'', Text ''Kembali ke Beranda''), (''viewDashboard'', Text ''Ke Dashboard''), (''pageNotFound'', Text ''404'')]"

definition id_errors :: dict where
  "id_errors = Group [
     (''badge'', Group [(''401'', Text (''401 '' @ [CHR 226, CHR 128, CHR 162] @ '' Belum Terotentikasi'')), (''403'', Text (''403 '' @ [CHR 226, CHR 128, CHR 162] @ '' Akses Ditolak'')), (''404'', Text (''404 '' @ [CHR 226, CHR 128, CHR 162] @ '' Tidak Ditemukan'')), (''500'', Text (''500 '' @ [CHR 226, CHR 128, CHR 162] @ '' Gangguan Server'')), (''503'', Text (''503 '' @ [CHR 226, CHR 128, CHR 162] @ '' Layanan Tidak Tersedia''))]),
     (''unauthorized'', Group [(''title'', Text ''Sesi Berakhir atau Perlu Masuk''), (''description'', Text ''Anda perlu masuk ke akun TeleBos Anda untuk mengakses halaman atau fitur ini.''), (''actionLogin'', Text ''Masuk Sekarang''), (''actionHome'', Text ''Kembali ke Beranda'')]),
     (''forbidden'', Group [(''title'', Text ''Akses Ditolak''), (''description'', Text ''Akun Anda tidak memiliki izin untuk melihat atau mengelola halaman ini.''), (''actionDashboard'', Text ''Kembali ke Dashboard''), (''actionHome'', Text ''Ke Beranda''), (''actionSupport'', Text ''Hubungi Bantuan'')]),
     (''notFound'', Group [(''title'', Text ''Halaman Tidak Ditemukan''), (''description'', Text ''Halaman yang Anda tuju tidak ditemukan, tautan rusak, atau telah dipindahkan.''), (''actionHome'', Text ''Kembali ke Beranda''), (''actionDashboard'', Text ''Ke Dashboard''), (''actionBack'', Text ''Kembali ke Halaman Sebelumnya'')]),
     (''serverError'', Group [(''title'', Text ''Terjadi Kesalahan Server''), (''description'', Text ''Sistem mendeteksi kendala pada server internal kami saat memproses permintaan Anda.''), (''actionRetry'', Text ''Muat Ulang Halaman''), (''actionHome'', Text ''Kembali ke Beranda''), (''actionReport'', Text ''Laporkan Masalah'')]),
     (''serviceUnavailable'', Group [(''title'', Text ''Layanan Dalam Pemeliharaan''), (''description'', Text ''Server kami sedang dalam jadwal pemeliharaan atau sedang mengalami beban tinggi sementara waktu. Silakan coba kembali sesaat lagi.''), (''actionRetry'', Text ''Coba Lagi''), (''actionStatus'', Text ''Cek Status Layanan''), (''actionHome'', Text ''Kembali ke Beranda'')]),
     (''technicalDetails'', Text ''Detail Teknis''), (''copyError'', Text ''Salin Pesan Error''), (''copied'', Text ''Pesan error berhasil disalin''),
     (''needHelp'', Text ''Butuh bantuan lebih lanjut?''), (''contactSupport'', Text ''Hubungi Tim Support'')]"

definition id_help :: dict where
  "id_help = Group [
     (''title'', Text ''Bantuan & Dokumentasi''), (''desc'', Text ''Pelajari cara menggunakan TeleBos secara efektif.''),
     (''gettingStarted'', Text ''Memulai''), (''gettingStartedDesc'', Text ''Semua yang Anda butuhkan untuk mulai menggunakan TeleBos.''),
     (''gettingStartedContent1'', Text ''Buat akun dengan mendaftar menggunakan email dan kata sandi Anda. Setelah masuk, Anda akan melihat dasbor utama tempat Anda dapat mengelola semua akun Telegram Anda.''),
     (''gettingStartedContent2'', Text (''Tambahkan akun Telegram pertama Anda menggunakan tombol '' @ [CHR 39] @ ''Tambah Akun'' @ [CHR 39] @ '' di halaman Akun. Anda dapat terhubung via OTP (kode yang dikirim ke Telegram), pindai QR Code, atau dengan mengunggah string sesi dari Telethon, GramJS, atau Pyrogram.'')),
     (''gettingStartedContent3'', Text ''Setelah terhubung, akun Anda akan muncul di daftar Akun dengan statusnya (online/offline). Anda dapat melihat obrolan, mengelola pengaturan, dan memulai siaran.''),
     (''gettingStartedContent4'', Text ''Navigasi aplikasi menggunakan sidebar di sebelah kiri. Dasbor memberi Anda gambaran cepat tentang akun, statistik siaran, dan tindakan cepat.''),
     (''accounts'', Text ''Manajemen Akun''), (''accountsDesc'', Text ''Cara menambah, mengelola, dan mengamankan akun Telegram Anda.''),
     (''accountsContent1'', Text (''Buka Akun '' @ [CHR 226, CHR 134, CHR 146] @ '' Tambah Akun. Pilih antara login OTP, pemindaian QR Code, atau unggah string sesi. Untuk OTP, masukkan nomor telepon Anda dengan kode negara dan klik '' @ [CHR 39] @ ''Kirim Kode OTP'' @ [CHR 39] @ ''.'')),
     (''accountsContent2'', Text ''Masukkan kode verifikasi 5 digit yang dikirim ke aplikasi Telegram Anda. Jika Anda mengaktifkan 2FA, Anda akan diminta memasukkan kata sandi setelah OTP.''),
     (''accountsContent3'', Text ''Anda dapat mengunggah string sesi dari sesi Telethon, GramJS, atau Pyrogram yang sudah ada. Formatnya terdeteksi otomatis dan dikonversi secara otomatis.''),
     (''accountsContent4'', Text ''Dari halaman detail akun, Anda dapat mengedit profil (nama, nama pengguna, bio), mengubah foto profil, mengonfigurasi pengaturan privasi, dan mengelola perangkat aktif.''),
     (''accountsContent5'', Text ''Untuk menjaga keamanan akun Anda, gunakan pengaturan 2FA di halaman pengaturan akun. Semua string sesi dienkripsi saat disimpan menggunakan enkripsi Fernet.''),
     (''broadcast'', Text ''Siaran''), (''broadcastDesc'', Text ''Kirim pesan ke banyak grup dan saluran sekaligus.''),
     (''broadcastContent1'', Text (''Pertama, buat Daftar Grup '' @ [CHR 226, CHR 128, CHR 148] @ '' kumpulan grup/saluran target. Buka Siaran '' @ [CHR 226, CHR 134, CHR 146] @ '' Daftar Grup. Anda dapat menambahkan grup satu per satu atau menggunakan impor massal dengan @nama pengguna atau tautan undangan.'')),
     (''broadcastContent2'', Text (''Buat Daftar Teks dengan templat pesan Anda. Buka Siaran '' @ [CHR 226, CHR 134, CHR 146] @ '' Daftar Teks. Tambahkan satu atau lebih pesan '' @ [CHR 226, CHR 128, CHR 148] @ '' jika Anda menggunakan banyak teks dalam mode '' @ [CHR 39] @ ''Multi Acak'' @ [CHR 39] @ '', teks acak dipilih per grup.'')),
     (''broadcastContent3'', Text (''Buka Siaran '' @ [CHR 226, CHR 134, CHR 146] @ '' Siaran Baru. Pilih akun, daftar grup, dan daftar teks atau tulis pesan kustom. Pilih mode Anda: '' @ [CHR 39] @ ''Multi Acak'' @ [CHR 39] @ '' memilih teks acak per grup, '' @ [CHR 39] @ ''Teks Tunggal'' @ [CHR 39] @ '' mengirim pesan yang sama ke semua.'')),
     (''broadcastContent4'', Text (''Konfigurasi penundaan: '' @ [CHR 39] @ ''Jeda per Grup'' @ [CHR 39] @ '' (berapa lama menunggu antara pengiriman ke setiap grup), dan '' @ [CHR 39] @ ''Jeda Setelah Semua'' @ [CHR 39] @ '' (jeda sebelum memulai ulang dalam mode loop). Aktifkan '' @ [CHR 39] @ ''Ulangi'' @ [CHR 39] @ '' untuk mengulang siaran terus menerus.'')),
     (''broadcastContent5'', Text (''Klik '' @ [CHR 39] @ ''Mulai Siaran'' @ [CHR 39] @ ''. Anda dapat memantau progres secara real-time melalui WebSocket '' @ [CHR 226, CHR 128, CHR 148] @ '' lihat hitungan sukses/gagal per siklus. Gunakan Jeda, Lanjutkan, atau Berhenti untuk mengontrol pekerjaan. Lihat log detail per siklus di halaman Log Siaran.'')),
     (''broadcastContent6'', Text (''Kontrol flood berjalan otomatis. Ketika batas Telegram tercapai, sistem mengalikan penundaan (maksimal 5 menit) dan mencoba lagi. Pekerjaan looping tetap '' @ [CHR 39] @ ''berjalan'' @ [CHR 39] @ '' sampai dihentikan secara manual.'')),
     (''autoReply'', Text ''Balas Otomatis''), (''autoReplyDesc'', Text ''Balas otomatis pesan pertama dari pengguna.''),
     (''autoReplyContent1'', Text ''Balas otomatis mengirim pesan selamat datang kepada pengguna yang mengirim pesan langsung kepada Anda untuk pertama kalinya. Ini hanya berlaku pada obrolan pribadi (bukan grup atau saluran) dan hanya sekali per pengguna.''),
     (''autoReplyContent2'', Text (''Buka Balas Otomatis di sidebar. Anda akan melihat bagian pengaturan global dan kontrol per akun. Gunakan '' @ [CHR 39] @ ''Terapkan ke Semua Akun'' @ [CHR 39] @ '' untuk mengatur pesan yang sama di semua tempat, atau konfigurasi setiap akun secara individual.'')),
     (''autoReplyContent3'', Text (''Aktifkan balas otomatis untuk setiap akun dan ketik pesan balasan Anda. Setiap pengguna hanya menerima balasan sekali '' @ [CHR 226, CHR 128, CHR 148] @ '' sistem melacak balasan di AutoReplyLog.'')),
     (''autoReplyContent4'', Text ''Balas otomatis tetap berfungsi bahkan saat akun Anda sedang offline. Balasan dikirim dari akun yang menerima pesan, menggunakan identitasnya sendiri.''),
     (''memberInvite'', Text ''Undang Member''), (''memberInviteDesc'', Text ''Undang member dari grup sumber ke saluran atau grup Anda.''),
     (''memberInviteContent1'', Text ''Alat Undang Member memungkinkan Anda mengambil member dari satu atau lebih grup sumber dan mengundang mereka ke grup atau saluran tujuan. Sangat berguna untuk mengembangkan komunitas Anda.''),
     (''memberInviteContent2'', Text ''Buka Undang di sidebar. Atur grup/saluran tujuan Anda (via @nama pengguna, tautan undangan, atau ID grup). Kemudian tambahkan satu atau lebih grup sumber untuk mengambil member.''),
     (''memberInviteContent3'', Text (''Konfigurasi penundaan: '' @ [CHR 39] @ ''Jeda per Undangan'' @ [CHR 39] @ '' (waktu antara setiap tindakan undangan), '' @ [CHR 39] @ ''Ukuran Batch'' @ [CHR 39] @ '' (berapa banyak undangan sebelum jeda ekstra), dan '' @ [CHR 39] @ ''Jeda per Batch'' @ [CHR 39] @ '' (jeda tambahan setelah setiap batch). Mulai pekerjaan undangan.'')),
     (''memberInviteContent4'', Text ''Pekerjaan berjalan dalam dua fase: Mengambil (mengumpulkan member dari grup sumber, otomatis dihilangkan duplikatnya) dan Mengundang (mengirim undangan ke setiap member). Progres ditampilkan secara real-time.''),
     (''memberInviteContent5'', Text (''Member yang sudah ada di tujuan dilewati. Pembatasan kecepatan ditangani secara otomatis '' @ [CHR 226, CHR 128, CHR 148] @ '' sistem menghormati batasan anti-spam Telegram.'')),
     (''troubleshooting'', Text ''Pemecahan Masalah''), (''troubleshootingDesc'', Text ''Masalah umum dan cara mengatasinya.''),
     (''troubleshootingContent1'', Text ''OTP tidak sampai: Pastikan nomor telepon Anda menyertakan kode negara (mis., +62 untuk Indonesia). Periksa apakah Anda memiliki Telegram terpasang dan dapat menerima pesan. Coba minta kode lagi setelah 30 detik.''),
     (''troubleshootingContent2'', Text ''Sesi kedaluwarsa/terputus: Buka halaman pengaturan akun dan sambungkan kembali akun tersebut. Sistem juga mencoba menyambungkan kembali secara otomatis saat server dimulai untuk semua akun aktif.''),
     (''troubleshootingContent3'', Text (''Siaran tidak terkirim: Periksa apakah akun Anda aktif dan online. Verifikasi daftar grup memiliki grup yang valid (akun harus menjadi anggota). Periksa Log Siaran untuk tipe kesalahan spesifik seperti '' @ [CHR 39] @ ''not_member'' @ [CHR 39] @ '', '' @ [CHR 39] @ ''flood'' @ [CHR 39] @ '', atau '' @ [CHR 39] @ ''invalid_username'' @ [CHR 39] @ ''.'')),
     (''troubleshootingContent4'', Text ''Kata sandi 2FA diperlukan: Jika Anda mengaktifkan 2FA Telegram, cari prompt 2FA setelah memasukkan kode OTP. Masukkan kata sandi Telegram Anda (bukan kata sandi TeleBos Anda).''),
     (''troubleshootingContent5'', Text ''Batas kecepatan / Flood wait: TeleBos secara otomatis menangani flood wait dengan meningkatkan penundaan. Untuk batas kecepatan yang persisten, kurangi pengaturan Jeda per Grup Anda dan hindari menyiarkan ke daftar grup besar dalam satu sesi.''),
     (''tips'', Text ''Tips Pro''), (''tipsDesc'', Text ''Dapatkan hasil maksimal dari TeleBos dengan tips power-user ini.''),
     (''tipsContent1'', Text (''Gunakan unggahan string sesi untuk memigrasi sesi Telethon, Pyrogram, atau GramJS yang ada dengan cepat '' @ [CHR 226, CHR 128, CHR 148] @ '' tidak perlu OTP untuk akun yang sudah Anda masuki.'')),
     (''tipsContent2'', Text (''Buat beberapa Daftar Teks untuk kampanye yang berbeda dan gunakan kembali. Anda juga dapat menggunakan satu daftar teks panjang dengan mode '' @ [CHR 39] @ ''Multi Acak'' @ [CHR 39] @ '' untuk pesan yang bervariasi.'')),
     (''tipsContent3'', Text ''Pantau log siaran secara real-time menggunakan panel progres bertenaga WebSocket. Ekspor log sebagai CSV atau JSON untuk analisis eksternal.''),
     (''tipsContent4'', Text ''Gunakan Pemilih Bahasa di sudut kanan atas untuk beralih antara Bahasa Inggris dan Indonesia. Preferensi Anda bertahan di seluruh sesi.''),
     (''tipsContent5'', Text ''Jaga agar daftar grup Anda tetap terorganisir dengan nama yang bermakna. Gunakan fitur impor massal untuk menambahkan banyak grup dengan cepat dari file teks atau clipboard.''),
     (''marketplace'', Text ''Marketplace Akun''),
     (''marketplaceDesc'', Text ''Jual akun Telegram Anda ke pengguna lain, atau beli akun yang tersedia.''),
     (''marketplaceContent1'', Text (''Untuk menjual akun: buka Akun '' @ [CHR 226, CHR 134, CHR 146] @ '' Jual Akun. Pilih akun yang sudah tervalidasi nomor teleponnya (phone verified), lalu tentukan harga jualnya. Akun yang sedang dijual tidak dapat dipakai atau dikelola sampai pembatalan penjualan.'')),
     (''marketplaceContent2'', Text (''Harga jual mengikuti aturan harga berdasarkan awalan ID Telegram secara otomatis, jadi Anda tidak perlu menghitung manual. Harga beli di Marketplace sedikit lebih tinggi dari harga jual '' @ [CHR 226, CHR 128, CHR 148] @ '' selisih itu menjadi margin platform.'')),
     (''marketplaceContent3'', Text ''Pembeli membayar harga beli, Anda menerima harga jual, lalu akun langsung berpindah kepemilikan beserta sesi login-nya. Akun yang sudah terjual tidak lagi bisa Anda kelola.''),
     (''marketplaceContent4'', Text (''Di halaman Riwayat Order, setiap transaksi akun menampilkan status: '' @ [CHR 39] @ ''Selesai'' @ [CHR 39] @ '' berarti sudah laku, '' @ [CHR 39] @ ''Proses'' @ [CHR 39] @ '' berarti akun masih terdaftar di Marketplace menunggu pembeli. Pesanan SMM Telegram (members, views, reactions) juga tampil di halaman yang sama dengan status yang berbeda.'')),
     (''marketplaceContent5'', Text ''Jika halaman Beli Akun tampak kosong, itu berarti saat ini tidak ada akun yang tersedia di Marketplace. Halaman itu hanya menampilkan akun yang aktif terdaftar dan belum terjual.''),
     (''spamAppeal'', Text ''Akun Terbatas & Appeal''), (''spamAppealDesc'', Text ''Cara memulihkan akun yang dibatasi oleh Telegram (status limited).''),
     (''spamAppealContent1'', Text ''Akun dengan status limited dibatasi oleh Telegram dan tidak dapat digunakan untuk broadcast atau invite. Akun dengan status blocked lebih parah: akun tersebut biasanya sudah dinonaktifkan permanen oleh Telegram.''),
     (''spamAppealContent2'', Text (''Untuk mengajukan banding, buka detail akun yang berstatus Limited dan klik tombol '' @ [CHR 39] @ ''Ajukan Banding'' @ [CHR 39] @ ''. Anda dapat memilih alasan dari templat yang tersedia, pesan unik berbasis AI, atau teks kustom Anda sendiri. TeleBos akan memproses permohonan tersebut ke @SpamBot Telegram.'')),
     (''spamAppealContent3'', Text (''Jika Telegram meminta verifikasi captcha (Cloudflare Turnstile), sistem akan menyediakan tautan untuk Anda selesaikan di browser. Setelah verifikasi selesai, klik '' @ [CHR 39] @ ''Selesai'' @ [CHR 39] @ '' untuk melanjutkan. Status akun akan diperbarui otomatis setelah diproses oleh pihak Telegram.'')),
     (''spamAppealContent4'', Text (''Pertanyaan umum: '' @ [CHR 39] @ ''Akun saya limited tapi tidak dipulihkan?'' @ [CHR 39] @ '' '' @ [CHR 226, CHR 128, CHR 148] @ '' pastikan akun masih terhubung di halaman Akun. Appeal hanya berjalan pada akun yang tersambung, dan akun yang sudah terjual di Marketplace tidak dapat di-appeal sampai dibeli kembali.'')),
     (''autoJoin'', Text ''Auto Join Grup''), (''autoJoinDesc'', Text ''Mendaftarkan akun Anda ke sekumpulan grup secara otomatis.''),
     (''autoJoinContent1'', Text (''Auto Join berguna untuk mendaftarkan akun-akun Anda ke banyak grup sekaligus tanpa harus mengklik satu per satu. Buka Grup & Saluran '' @ [CHR 226, CHR 134, CHR 146] @ '' Auto Join, pilih akun yang akan digunakan, lalu tentukan grup atau saluran tujuan '' @ [CHR 226, CHR 128, CHR 148] @ '' bisa lewat @nama pengguna, tautan undangan, atau ID grup.'')),
     (''autoJoinContent2'', Text (''Ada dua mode distribusi. '' @ [CHR 39] @ ''Semua Akun'' @ [CHR 39] @ '' mengirim setiap akun ke setiap grup, dengan semua akun menyelesaikan satu grup sebelum lanjut ke grup berikutnya. '' @ [CHR 39] @ ''Distribusi'' @ [CHR 39] @ '' membagi grup ke masing-masing akun secara bergantian, jadi setiap grup hanya diikuti satu akun.'')),
     (''autoJoinContent3'', Text (''Atur '' @ [CHR 39] @ ''Jeda per Grup'' @ [CHR 39] @ '' untuk mengatur kecepatan. Jeda diterapkan di antara grup, bukan di antara setiap bergabung '' @ [CHR 226, CHR 128, CHR 148] @ '' jadi tiga akun ke satu grup hanya incurs satu jeda, bukan tiga. Aktifkan jeda acak untuk menghindari pola yang terlalu rutin.'')),
     (''autoJoinContent4'', Text (''Saat pekerjaan berjalan, progres ditampilkan secara real-time, termasuk jumlah berhasil, sudah gabung sebelumnya, dan gagal. Akun yang sudah menjadi anggota grup dihitung sebagai '' @ [CHR 39] @ ''sudah gabung'' @ [CHR 39] @ '', bukan sebagai kegagalan.'')),
     (''autoJoinContent5'', Text ''Batasan kecepatan ditangani otomatis oleh sistem agar tidak melanggar aturan spam Telegram. Anda tidak perlu mengatur jeda secara manual kecuali ingin berjalan lebih aman.''),
     (''smmOrders'', Text ''Layanan SMM Telegram''),
     (''smmOrdersDesc'', Text ''Layanan penambahan member channel/grup, post views, dan reaksi Telegram melalui panel SMM.''),
     (''smmOrdersContent1'', Text ''Layanan SMM di TeleBos dikhususkan untuk ekosistem Telegram, seperti Telegram channel/group members, Telegram post views, dan Telegram post reactions. Layanan ini bekerja melalui panel SMM upstream dan terpisah dari transaksi jual/beli akun Telegram di Marketplace.''),
     (''smmOrdersContent2'', Text ''Cara memesan: pilih kategori layanan Telegram yang diinginkan (seperti Post Views, Members, atau Reactions), pilih layanan yang tersedia, tentukan jumlah (perhatikan batas minimum dan maksimum tiap layanan), lalu masukkan target berupa tautan channel, grup, atau post Telegram sesuai jenis layanan.''),
     (''smmOrdersContent3'', Text (''Harga yang ditampilkan sudah termasuk markup platform. Saldo Anda dipotong saat pesanan dibuat, dan pesanan akan berstatus '' @ [CHR 39] @ ''Menunggu'' @ [CHR 39] @ '' '' @ [CHR 226, CHR 134, CHR 146] @ '' '' @ [CHR 39] @ ''Proses'' @ [CHR 39] @ '' '' @ [CHR 226, CHR 134, CHR 146] @ '' '' @ [CHR 39] @ ''Selesai'' @ [CHR 39] @ '' atau '' @ [CHR 39] @ ''Gagal'' @ [CHR 39] @ '' mengikuti progres dari panel upstream.'')),
     (''smmOrdersContent4'', Text (''Anda dapat memantau atau menyegarkan status semua pesanan yang sedang berjalan dari halaman yang sama. Pesanan dalam status '' @ [CHR 39] @ ''Proses'' @ [CHR 39] @ '' masih berjalan di panel upstream '' @ [CHR 226, CHR 128, CHR 148] @ '' biasanya butuh waktu sebelum selesai.'')),
     (''smmOrdersContent5'', Text (''Beberapa layanan ditandai '' @ [CHR 39] @ ''Not Guaranteed'' @ [CHR 39] @ '' atau '' @ [CHR 39] @ ''No Refill'' @ [CHR 39] @ '', yang berarti jumlah member/views tidak dijamin 100% dan tidak dapat diisi ulang jika terjadi penurunan. Pilih layanan bergaransi (Refill) jika Anda membutuhkan hasil yang lebih stabil.'')),
     (''billing'', Text ''Saldo, Langganan & Kode Redeem''),
     (''billingDesc'', Text ''Cara menambah saldo, memakai kode redeem, dan memahami tingkat paket Anda.''),
     (''billingContent1'', Text ''Saldo digunakan untuk membayar pembelian di Marketplace dan pesanan SMM. Saldo dipotong otomatis saat transaksi berhasil, dan dikembalikan jika pesanan gagal.''),
     (''billingContent2'', Text ''Kode redeem dapat ditukarkan melalui halaman Redeem. Nilai kode langsung ditambahkan ke saldo dan kode hanya dapat dipakai satu kali.''),
     (''billingContent3'', Text ''Terdapat paket langganan: Free Trial, Basic, Pro, dan Premium. Fitur otomasi seperti siaran massal (broadcast), auto-join, dan scraping member memerlukan paket Pro atau Premium.''),
     (''billingContent4'', Text ''Untuk memeriksa paket dan masa langganan Anda, buka halaman Langganan. Status langganan menentukan fitur mana yang tersedia untuk akun Anda.''),
     (''billingContent5'', Text (''Saldo dipotong langsung saat Anda membuat pesanan. Jika pesanan dibatalkan atau berstatus '' @ [CHR 39] @ ''Gagal'' @ [CHR 39] @ '' oleh sistem atau penyedia upstream, saldo akan otomatis dikembalikan (refund) secara penuh ke dompet TeleBos Anda.'')),
     (''stillStuck'', Text ''Masih Mengalami Masalah?''),
     (''stillStuckDesc'', Text (''Jika Anda mengalami masalah yang tidak tercakup di sini, hubungi Bantuan AI kami '' @ [CHR 226, CHR 128, CHR 148] @ '' online 24/7 dan siap membantu menyelesaikan sebagian besar kendala.'')),
     (''searchLabel'', Text ''Cari artikel bantuan''), (''searchPlaceholder'', Text (''Cari artikel bantuan'' @ [CHR 226, CHR 128, CHR 166])),
     (''apiTitle'', Text ''Dokumentasi API''), (''apiDescription'', Text ''Integrasikan situs lain dengan API TeleBos yang memiliki cakupan terbatas.''),
     (''noResults'', Text (''Tidak ada hasil untuk '' @ [CHR 226, CHR 128, CHR 156] @ ''{query}'' @ [CHR 226, CHR 128, CHR 157])),
     (''clearSearch'', Text ''Hapus pencarian''), (''articleCount'', Text ''{count} artikel''), (''githubIssues'', Text ''Isu GitHub''),
     (''contactSupport'', Text ''Hubungi Bantuan AI''), (''topicNotFound'', Text ''Topik bantuan tidak ditemukan''),
     (''topicNotFoundDesc'', Text ''Halaman yang Anda cari tidak ada.''), (''backToHelp'', Text ''Kembali ke Bantuan''),
     (''previous'', Text ''Sebelumnya''), (''next'', Text ''Berikutnya''), (''developerResources'', Text ''Sumber daya pengembang''),
     (''apiHeroTitle'', Text ''Hubungkan situs Anda ke TeleBos''),
     (''apiHeroDesc'', Text ''Gunakan referensi OpenAPI resmi untuk melihat endpoint stabil, skema permintaan, dan format respons. Integrasi eksternal sengaja dibatasi pada kapabilitas yang aman dan terlingkup.''),
     (''openDocs'', Text ''Buka dokumentasi interaktif''), (''downloadOpenApi'', Text ''Unduh JSON OpenAPI''),
     (''secureTitle'', Text ''Aman secara bawaan''),
     (''secureDesc'', Text ''Jangan pernah membagikan token sesi browser TeleBos ke situs lain. Kredensial integrasi menggunakan API key Bearer dengan cakupan terbatas.''),
     (''scopedTitle'', Text ''Akses terlingkup''),
     (''scopedDesc'', Text ''API key dirancang untuk akses minimum yang diperlukan. Kapabilitas akun dan profil baca-saja diprioritaskan.''),
     (''versionedTitle'', Text ''Kontrak berversi''),
     (''versionedDesc'', Text ''Endpoint eksternal berada di /api/public/v1 dan terpisah dari API dashboard internal.''),
     (''authWarningTitle'', Text ''Peringatan autentikasi''),
     (''authWarningDesc'', Text ''Aplikasi web TeleBos menggunakan header sesi Better Auth untuk permintaan pihak pertama. Token tersebut mewakili sesi web Anda dan tidak boleh disalin ke skrip browser, plugin, atau layanan pihak ketiga. Gunakan API key integrasi saat pengelolaan API key tersedia untuk akun Anda.''),
     (''serverExample'', Text ''Contoh cepat server-ke-server''), (''aiSupport'', Text ''AI Support TeleBos''),
     (''aiSupportTitle'', Text ''Bantuan AI TeleBos''), (''aiSupportOnline'', Text (''Online '' @ [CHR 226, CHR 128, CHR 162] @ '' Respons Cepat'')),
     (''aiSupportOffline'', Text ''Offline''), (''aiSupportGuest'', Text ''Mode Tamu (Belum Login)''),
     (''aiSupportGuestDesc'', Text ''Login untuk memeriksa status pesanan dan saldo akun Anda.''), (''aiSupportUser'', Text ''Akun Terhubung: {name}''),
     (''aiSupportPlaceholder'', Text ''Tanyakan kendala, pesanan, atau fitur...''), (''aiSupportSend'', Text ''Kirim pesan''),
     (''aiSupportEscalate'', Text ''Hubungi Admin''),
     (''aiSupportEscalateDesc'', Text ''Pertanyaan belum terselesaikan? Teruskan percakapan ini ke tim admin manusia.''),
     (''aiSupportEscalateBtn'', Text ''Kirim Tiket ke Admin''),
     (''aiSupportEscalateSuccess'', Text ''Tiket bantuan #{ticket} telah dibuat! Tim admin akan segera meninjau kendala Anda.''),
     (''aiSupportRecentOrders'', Text ''Riwayat Pesanan Terbaru''), (''aiSupportOrderDetails'', Text ''Detail Pesanan''),
     (''aiSupportNeedHelp'', Text ''Butuh bantuan langsung?''),
     (''aiSupportDisclaimer'', Text ''AI TeleBos dapat membuat kesalahan. Data pesanan diverifikasi langsung dari sistem.''),
     (''aiSupportClearChat'', Text ''Hapus Riwayat Chat''), (''aiSupportTicketCreated'', Text ''Tiket Berhasil Dibuat'')]"

definition id_landing_1 :: "(string \<times> dict) list" where
  "id_landing_1 = [
     (''loading'', Text (''Memuat TeleBos'' @ [CHR 226, CHR 128, CHR 166])), (''navHome'', Text ''Beranda''), (''navFeatures'', Text ''Fitur''),
     (''navWorkflow'', Text ''Alur kerja''), (''navPrivacy'', Text ''Privasi''), (''navTos'', Text ''Ketentuan''),
     (''getStarted'', Text ''Mulai Sekarang''), (''signIn'', Text ''Masuk''), (''heroOverline'', Text ''Platform Otomasi & Multi-Akun Telegram''),
     (''heroTitle'', Text ''Kelola Puluhan Akun Telegram, Broadcast Massal, dan Tambah Member Otomatis.''),
     (''heroSubtitle'', Text ''Tinggalkan cara manual buka banyak tab atau clone app. Otomatiskan promosi ke ratusan grup, balas chat dari satu inbox, dan kembangkan bisnis Telegram Anda tanpa risiko akun cepat banned.''),
     (''heroCta'', Text (''Mulai Sekarang '' @ [CHR 226, CHR 128, CHR 148] @ '' Gratis'')), (''heroSecondary'', Text ''Pelajari Fitur''),
     (''statAccounts'', Text ''Akun Terkelola''), (''statServices'', Text ''Pesan Sukses Terkirim''), (''statPillars'', Text ''Cloud Online 24/7''),
     (''heroProof'', Text ''Platform andalan marketer, agency, dan seller untuk mengotomatiskan pertumbuhan Telegram.''),
     (''proofAccounts'', Text ([CHR 240, CHR 159, CHR 155, CHR 161, CHR 239, CHR 184, CHR 143] @ '' Multi-Account Aman'')),
     (''proofBroadcast'', Text ([CHR 226, CHR 154, CHR 161] @ '' Anti-Flood Protection'')),
     (''proofChat'', Text ([CHR 240, CHR 159, CHR 146, CHR 172] @ '' Satu Inbox Semua Chat'')),
     (''proofAutomation'', Text ([CHR 240, CHR 159, CHR 164, CHR 150] @ '' Otomasi Berjalan 24 Jam'')),
     (''proofMonitoring'', Text ([CHR 240, CHR 159, CHR 148, CHR 132] @ '' Rotasi Akun Otomatis'')),
     (''surfaceIllustrative'', Text ''Preview Dashboard TeleBos''), (''surfaceReady'', Text ''Siap Kirim''), (''surfaceConnected'', Text ''Aktif''),
     (''surfaceQueued'', Text ''Antrean Promosi''), (''surfacePacing'', Text ''Auto Delay Aktif''), (''surfaceDelivered'', Text ''Terkirim''),
     (''surfaceUnread'', Text ''Pesan Masuk''), (''surfaceAssigned'', Text ''Sedang Ditangani''), (''surfaceEnabled'', Text ''Aktif''),
     (''surfaceMatched'', Text ''Pemicu Cocok''), (''surfaceRunning'', Text ''Berjalan di Cloud''), (''surfaceComplete'', Text ''Selesai''),
     (''surfaceAttention'', Text ''Perlu Cek''), (''surfaceAccount'', Text ''Akun''), (''surfaceTargets'', Text ''Target Grup''),
     (''surfaceDelay'', Text ''Jeda Waktu''), (''surfaceProgress'', Text ''Progres Kirim''), (''surfaceRule'', Text ''Aturan Balas''),
     (''surfaceNextAction'', Text ''Tindakan''), (''sculptureAccounts'', Text ''Akun''), (''sculptureQueue'', Text ''Antrean''),
     (''sculptureChats'', Text ''Chat''), (''sculptureRules'', Text ''Aturan''), (''storyProblemKicker'', Text ''Kendala Bisnis Telegram''),
     (''storyProblemTitle'', Text ''Promosi manual di banyak akun menyita waktu dan berisiko banned.''),
     (''storyProblemDesc'', Text ''Makin banyak akun yang Anda pegang untuk promosi atau jualan, makin pusing mengelolanya jika masih pakai cara lama.''),
     (''storyProblemPoint1'', Text ''Capek bolak-balik login puluhan akun atau pasang clone app yang bikin HP/laptop berat.''),
     (''storyProblemPoint2'', Text ''Chat calon pembeli sering terlewat dan telat dibalas karena tersebar di mana-mana.''),
     (''storyProblemPoint3'', Text ''Akun gampang terkena limit atau banned permanen akibat broadcast serampangan tanpa jeda aman.''),
     (''storyConsequenceKicker'', Text ''Solusinya''),
     (''storyConsequenceTitle'', Text ''Otomatiskan semuanya dari satu dashboard yang aman dan praktis.''),
     (''storyConsequenceDesc'', Text ''TeleBos hadir agar Anda bisa fokus closing dan mengembangkan bisnis, sementara urusan broadcast, invite member, dan auto-reply diselesaikan otomatis oleh sistem kami.''),
     (''storySolutionKicker'', Text ''Keunggulan Utama''),
     (''storySolutionTitle'', Text ''Satu platform serba otomatis untuk meroketkan omset Anda di Telegram.''),
     (''storySolutionDesc'', Text ''Kirim promosi ke ratusan grup, kumpulkan audiens baru, dan layani pelanggan 24 jam nonstop dari satu layar browser.''),
     (''flowKicker'', Text ''Alur Otomasi''), (''flowTitle'', Text ''Bagaimana TeleBos Membantu Bisnis Anda?''),
     (''flowSubtitle'', Text ''Dari pesan promosi pertama hingga ribuan member baru di channel Anda, semua berjalan teratur dan terlindungi.''),
     (''flowOverloadTitle'', Text ''1. Sambungkan Banyak Akun Sekaligus''),
     (''flowOverloadDesc'', Text ''Hubungkan puluhan akun Telegram Anda dengan aman tanpa perlu instal banyak aplikasi.''),
     (''flowFragmentedTitle'', Text ''2. Susun Target Grup & Pesan Promosi''),
     (''flowFragmentedDesc'', Text ''Pilih grup target promosi, siapkan variasi teks, dan tentukan delay waktu yang aman.''),
     (''flowControlTitle'', Text ''3. Jalankan Broadcast & Auto-Join''),
     (''flowControlDesc'', Text ''Sistem otomatis merotasi akun pengirim dan mengirimkan pesan secara berkala agar terhindar dari spam filter.''),
     (''flowAutomatedTitle'', Text ''4. Balas Chat Calon Pembeli Otomatis''),
     (''flowAutomatedDesc'', Text ''Aktifkan auto-reply instan untuk menjawab pertanyaan pelanggan tercepat saat mereka tertarik dengan promosi Anda.''),
     (''flowActionTitle'', Text ''5. Pantau Hasil & Tambah Jangkauan''),
     (''flowActionDesc'', Text ''Cek laporan real-time pesan terkirim, tingkatkan jumlah akun, dan perluas jangkauan pasar Anda.''),
     (''flowNodeAccounts'', Text ''Akun''), (''flowNodeMessages'', Text ''Pesan''), (''flowNodeAutomation'', Text ''Otomasi''),
     (''flowNodeControl'', Text ''TeleBos''), (''flowNodeAction'', Text ''Hasil''), (''flowStatusIncoming'', Text ''Multi-Akun''),
     (''flowStatusFragmented'', Text ''Target Siap''), (''flowStatusUnified'', Text ''Rotasi Aman''), (''flowStatusRunning'', Text ''Auto-Reply''),
     (''flowStatusComplete'', Text ''Closing''), (''flowExpandLabel'', Text ''Lihat detail''), (''flowCollapseLabel'', Text ''Tutup detail''),
     (''slabKicker'', Text ''Cara pakainya''), (''slabTitle'', Text ''Setiap fitur di sini untuk mengembalikan waktu dan uang yang hilang di Telegram.''),
     (''slabSubtitle'', Text ''Bukan daftar fitur. Ini lima cara pakai Telegram yang bikin balik modal, dari yang paling sering bikin rugi sampai yang paling cepat bikin cuan.''),
     (''slabAccountsTitle'', Text ''Kelola Puluhan Akun Telegram''),
     (''slabAccountsDesc'', Text ''Tambahkan dan pantau seluruh akun Telegram Anda dari satu layar browser. Bebas ribet clone app atau login-logout.''),
     (''slabBroadcastTitle'', Text ''Broadcast Massal Anti-Banned''),
     (''slabBroadcastDesc'', Text ''Kirim promosi ke ratusan grup target dengan rotasi banyak akun otomatis dan jeda cerdas pencegah limit Telegram.''),
     (''slabChatTitle'', Text ''Satu Inbox untuk Semua Chat''),
     (''slabChatDesc'', Text ''Balas semua chat pelanggan dari berbagai akun di satu tempat. Tidak ada lagi pesan pembeli yang tertinggal.''),
     (''slabAutomationTitle'', Text ''Auto-Reply & Auto-Join Cerdas''),
     (''slabAutomationDesc'', Text ''Masuk ke grup target secara otomatis dan pasang bot balasan 24/7 untuk melayani pelanggan saat Anda offline.''),
     (''slabMonitorTitle'', Text ''Cek SpamBot & Appeal AI Otomatis''),
     (''slabMonitorDesc'', Text ''Pantau kesehatan akun secara real-time dan ajukan banding SpamBot otomatis dengan bantuan AI jika terkena limit.''),
     (''slabVisualSignal'', Text ''Status''), (''slabVisualControl'', Text ''Kendali''), (''slabVisualVisible'', Text ''Aktif''),
     (''slabVisualQueue'', Text ''Antrean''), (''slabVisualDelay'', Text ''Jeda''), (''slabVisualDeliver'', Text ''Kirim''),
     (''slabVisualTrigger'', Text ''Pemicu''), (''slabVisualRule'', Text ''Aturan''), (''slabVisualAction'', Text ''Aksi''),
     (''trustKicker'', Text ''Keamanan Terjamin''), (''ctaKicker'', Text ([CHR 240, CHR 159, CHR 154, CHR 128] @ '' Mulai Sekarang'')),
     (''outcomeAccountsTitle'', Text ''Kirim Promosi Massal ke Ratusan Grup Sekaligus''),
     (''outcomeAccountsDesc'', Text ''Jadwalkan broadcast promosi tanpa khawatir akun dibatasi. Sistem cerdas TeleBos otomatis merotasi akun pengirim dan mengatur jeda waktu aman.''),
     (''outcomeBroadcastTitle'', Text ''Auto-Join & Tambah Member Komunitas Otomatis''),
     (''outcomeBroadcastDesc'', Text ''Gabung ke puluhan grup target secara otomatis dan kumpulkan audiens potensial ke grup/channel bisnis Anda untuk melipatgandakan closing.''),
     (''outcomeVisibilityTitle'', Text ''Satu Inbox untuk Semua Chat + Bot Auto-Reply 24 Jam''),
     (''outcomeVisibilityDesc'', Text ''Balas seluruh pesan calon pembeli dari satu dashboard web. Pasang auto-reply instan agar pelanggan tidak lari ke kompetitor saat Anda sedang istirahat.''),
     (''capabilitiesTitle'', Text ''Apa Saja yang Bisa Anda Lakukan di TeleBos?''),
     (''capabilitiesSubtitle'', Text ''Solusi lengkap serba otomatis untuk melejitkan promosi, memperbesar komunitas, dan mengelola akun Telegram Anda dengan aman.''),
     (''capabilityAccountsTitle'', Text ''Marketplace Akun Siap Pakai & Booster SMM''),
     (''capabilityAccountsDesc'', Text ''Butuh akun umur matang? Atau butuh suntik subscriber, views, dan reaksi emoji? Belanja langsung lewat katalog saldo wallet.''),
     (''capabilityAccountsPoint1'', Text ''Akun Telegram siap pakai umur matang''),
     (''capabilityAccountsPoint2'', Text ''Layanan tambah subscriber & member''),
     (''capabilityAccountsPoint3'', Text ''Booster views dan emoji reaction instan''),
     (''capabilityBroadcastTitle'', Text ''Cek SpamBot & Lepas Batasan Akun via AI''),
     (''capabilityBroadcastDesc'', Text ''Ketahui akun yang terkena limit Telegram dan ajukan banding resmi dengan argumen AI cerdas hanya dengan satu klik mudah.''),
     (''capabilityBroadcastPoint1'', Text ''Deteksi dini status SpamBot''),
     (''capabilityBroadcastPoint2'', Text ''Argumen banding dibuat otomatis oleh AI''),
     (''capabilityBroadcastPoint3'', Text ''Panduan pemulihan akun langkah demi langkah''),
     (''capabilityAutomationTitle'', Text ''Otomasi Cloud 24/7 Tanpa Perlu Laptop Nyala''),
     (''capabilityAutomationDesc'', Text ''Semua tugas broadcast dan otomasi berjalan di server cloud kami. Matikan laptop atau HP Anda, promosi tetap berjalan lancar.''),
     (''capabilityAutomationPoint1'', Text ''Server cloud stabil beroperasi 24 jam''),
     (''capabilityAutomationPoint2'', Text ''Log pengiriman transparan dan real-time''),
     (''capabilityAutomationPoint3'', Text ''Notifikasi otomatis saat tugas selesai''), (''workflowTitle'', Text ''Mulai Hanya dalam 3 Langkah Mudah''),
     (''workflowSubtitle'', Text ''Tidak perlu instalasi aplikasi rumit. Langsung siap dipakai dalam 2 menit.''),
     (''workflowConnectTitle'', Text ''01. Hubungkan Akun Anda''),
     (''workflowConnectDesc'', Text ''Masukkan akun Telegram dengan aman via OTP login atau import session string. Semua akun langsung aktif di dashboard Anda.''),
     (''workflowConfigureTitle'', Text ''02. Tentukan Tugas Promosi''),
     (''workflowConfigureDesc'', Text ''Pilih target grup untuk broadcast promosi, tentukan target auto-join, atau atur pesan balasan otomatis.''),
     (''workflowOperateTitle'', Text ''03. Biarkan Sistem Bekerja''),
     (''workflowOperateDesc'', Text ''Duduk santai! TeleBos menjalankan pengiriman di cloud 24/7. Pantau progres terkirim secara real-time dari satu layar.''),
     (''workflowReviewTitle'', Text ''04. Evaluasi & Scale Up''),
     (''workflowReviewDesc'', Text ''Lihat laporan keberhasilan, analisa pesan yang paling efektif, dan tambah akun untuk melipatgandakan jangkauan pasar Anda.''),
     (''trustTitle'', Text ''Dirancang untuk Menjaga Akun Anda Tetap Aman''),
     (''trustDesc'', Text ''Kami memahami bahwa akun Telegram adalah aset bisnis Anda. TeleBos dibangun dengan standar proteksi dan privasi tertinggi.''),
     (''trustPoint1'', Text (''Enkripsi Kredensial Penuh '' @ [CHR 226, CHR 128, CHR 148] @ '' Nilai sesi Telegram dienkripsi dengan standar Fernet simetris sebelum disimpan.'')),
     (''trustPoint2'', Text (''Protokol Asli MTProto '' @ [CHR 226, CHR 128, CHR 148] @ '' Menggunakan koneksi resmi Telegram, bukan bot browser yang mudah terdeteksi.'')),
     (''trustPoint3'', Text (''Proteksi Anti-Flood & Auto-Delay '' @ [CHR 226, CHR 128, CHR 148] @ '' Melindungi akun dari batasan FloodWait dan SpamBot Telegram.'')),
     (''trustPoint4'', Text (''Berjalan 24 Jam di Cloud '' @ [CHR 226, CHR 128, CHR 148] @ '' Komputer atau HP dimatikan, tugas broadcast dan otomasi Anda tetap berjalan lancar.'')),
     (''infraKicker'', Text ''Infrastruktur''), (''infraTitle'', Text ''Dijalankan di server VPS untuk performa maksimal.'')]"

definition id_landing_2 :: "(string \<times> dict) list" where
  "id_landing_2 = [
     (''infraDesc'', Text ''TeleBos berjalan di infrastruktur VPS dengan konfigurasi PM2 + nginx, jadi aplikasinya selalu online dan siap dipakai kapan saja.''),
     (''infraDomainsTitle'', Text ''Domain & server''), (''infraServicesTitle'', Text ''Aplikasi & layanan''), (''infraRuntimeTitle'', Text ''Runtime''),
     (''infraStatusStable'', Text ''Berjalan stabil''), (''infraStatusReverse'', Text ''IPv4 & nginx''),
     (''infraFeaturesTitle'', Text ''Semua yang Anda butuhkan untuk mengelola Telegram''),
     (''infraFeaturesDesc'', Text ''Dari manajemen akun sampai otomatisasi, TeleBos memberi Anda seluruh fitur yang dibutuhkan dalam satu platform.''),
     (''infraCtaTitle'', Text ''Siap mengoptimalkan akun Telegram Anda?''),
     (''infraCtaDesc'', Text ''Mulai sekarang dan rasakan kemudahan mengelola banyak akun dengan TeleBos.''),
     (''infraCtaSecondary'', Text ''Lihat dokumentasi''), (''infraTrust1Title'', Text ''Aman & stabil''),
     (''infraTrust1Desc'', Text ''Sistem terenkripsi dan terus dipantau''), (''infraTrust2Title'', Text ''Mudah digunakan''),
     (''infraTrust2Desc'', Text ''Antarmuka sederhana dan intuitif''), (''infraTrust3Title'', Text ''Support 24/7''),
     (''infraTrust3Desc'', Text ''Tim kami siap membantu kapan saja''), (''ctaTitle'', Text ''Siap Melejitkan Promosi Anda di Telegram?''),
     (''ctaSubtitle'', Text ''Daftar akun gratis sekarang dalam 30 detik. Rasakan kemudahan mengelola puluhan akun dan broadcast massal dengan aman.''),
     (''ctaButton'', Text ''Buat Akun Gratis Sekarang''),
     (''footerDescription'', Text ''Platform otomasi dan manajemen multi-akun Telegram untuk melipatgandakan promosi dan jangkauan bisnis Anda.''),
     (''footerProduct'', Text ''Produk''), (''footerHelp'', Text ''Bantuan''), (''footerLegal'', Text ''Legal''),
     (''footerTelegram'', Text ''Join TeleBos Telegram Channel!''), (''footerCopyright'', Text ([CHR 169] @ '' 2026 TeleBos. Hak cipta dilindungi.''))]"

definition id_landing :: dict where
  "id_landing = Group (id_landing_1 @ id_landing_2)"

definition id_privacy :: dict where
  "id_privacy = Group [
     (''title'', Text ''Kebijakan Privasi''), (''lastUpdated'', Text ''Terakhir diperbarui: 17 Oktober 2026''),
     (''intro'', Text ''Di TeleBos, kami memprioritaskan privasi dan keamanan data Anda. Kebijakan Privasi ini menjelaskan secara transparan bagaimana kami mengumpulkan, menggunakan, menyimpan, memproses, dan melindungi data Anda saat menggunakan platform manajemen, automasi, marketplace akun, dan layanan SMM Telegram kami.''),
     (''section1Title'', Text ''Informasi yang Kami Kumpulkan''),
     (''section1Desc'', Text ''Kami mengumpulkan data akun pengguna (email, kata sandi yang di-hash dengan aman, nama profil), data otentikasi Telegram (string sesi MTProto dan kata sandi 2FA yang dienkripsi ketat), konfigurasi proxy kustom (dienkripsi), rincian transaksi keuangan (riwayat top-up QRIS, detail penarikan dana termasuk nomor rekening bank atau e-wallet yang dienkripsi, mutasi buku besar dompet), data pesanan SMM Telegram (tautan target dan parameter pesanan), serta metadata operasional (log siaran, pengundang anggota, auto-reply, dan log status akun).''),
     (''section2Title'', Text ''Bagaimana Kami Menggunakan Informasi Anda''),
     (''section2Desc'', Text ''Data Anda digunakan secara eksklusif untuk mengoperasikan fitur TeleBos: memverifikasi otentikasi login, mengeksekusi perintah MTProto Telegram melalui pustaka Telethon (string sesi selalu dienkripsi saat disimpan), menjalankan tugas automasi terjadwal (siaran massal, undangan grup, auto-reply, auto-join, dan banding SpamBot), memfasilitasi transaksi marketplace akun Telegram, meneruskan pesanan SMM Telegram ke penyedia upstream, memproses penarikan saldo via OTP email, serta mengirimkan notifikasi real-time via WebSocket. Kami tidak pernah menjual data pribadi Anda kepada pihak mana pun.''),
     (''section3Title'', Text ''Penyimpanan, Enkripsi & Keamanan Data''),
     (''section3Desc'', Text ''Kami menerapkan standar keamanan berlapis kelas enterprise. String sesi Telegram, kata sandi 2FA, kredensial proxy, dan nomor rekening penarikan dana dienkripsi saat istirahat (at rest) menggunakan enkripsi simetris Fernet (AES-128-CBC dengan autentikasi HMAC-SHA256). Kata sandi pengguna di-hash menggunakan bcrypt, dan token sesi Better Auth di-hash menggunakan SHA-256 di basis data. Seluruh transaksi saldo dicatat dalam buku besar ganda yang tidak dapat diubah (immutable double-entry ledger). Seluruh komunikasi data dilindungi melalui enkripsi transport HTTPS/TLS.''),
     (''section4Title'', Text ''Retensi Data & Hak Penghapusan''),
     (''section4Desc'', Text ''Data sesi Telegram dan kredensial Anda disimpan selama akun Telegram tersebut terhubung di platform kami. Anda berhak memutuskan koneksi akun Telegram kapan saja, yang akan menghapus string sesi dan kredensial 2FA terenkripsi secara permanen dari basis data. Anda juga dapat meminta penghapusan akun TeleBos secara menyeluruh. Log transaksi keuangan dan riwayat buku besar dompet dapat disimpan dalam periode tertentu untuk keperluan audit rekonsiliasi keuangan dan kepatuhan pencegahan penipuan.''),
     (''section5Title'', Text ''Layanan Pihak Ketiga & Pemrosesan Data''),
     (''section5Desc'', Text ''Untuk menyediakan layanannya, TeleBos terhubung dengan beberapa mitra eksternal: (1) Server Telegram MTProto resmi untuk menjalankan aksi akun; (2) Gateway pembayaran KlikQRIS untuk memproses pembuatan dan verifikasi invoice QRIS otomatis; (3) Penyedia layanan upstream BuzzerPanel untuk memproses pesanan engagement Telegram (hanya tautan publik dan jumlah target yang diteruskan, tanpa kredensial sesi Anda). Infrastruktur basis data PostgreSQL, Redis caching, dan background worker kami kelola secara terisolasi demi memastikan integritas data.''),
     (''section6Title'', Text ''Hak Pengguna & Dukungan Privasi''),
     (''section6Desc'', Text ''Anda memiliki hak penuh untuk mengakses data profil Anda, memperbarui informasi penarikan dana, memutuskan integrasi akun Telegram Anda, serta meminta bantuan terkait privasi data. Jika Anda memiliki pertanyaan atau kendala mengenai Kebijakan Privasi ini, silakan hubungi tim TeleBos melalui Pusat Bantuan, tiket dukungan resmi di dashboard, atau kanal komunitas resmi Telegram TeleBos.'')]"

definition id_tos :: dict where
  "id_tos = Group [
     (''title'', Text ''Ketentuan Layanan''), (''lastUpdated'', Text ''Terakhir diperbarui: 17 Oktober 2026''),
     (''intro'', Text ''Dengan mengakses atau mendaftar di TeleBos, Anda menyetujui Ketentuan Layanan ini secara penuh. Harap baca dengan saksama sebelum menggunakan platform. Jika Anda tidak menyetujui bagian mana pun dari ketentuan ini, Anda tidak diperkenankan menggunakan layanan TeleBos.''),
     (''section1Title'', Text ''Penerimaan Ketentuan & Penafian Afiliasi Telegram''),
     (''section1Desc'', Text (''Dengan mengakses TeleBos, Anda terikat oleh Ketentuan Layanan ini serta semua hukum dan peraturan yang berlaku. PENTING: TeleBos adalah platform pihak ketiga independen yang TIDAK berafiliasi, disponsori, didukung, atau bermitra secara resmi dengan Telegram FZ-LLC atau Telegram Messenger Inc. Nama '' @ [CHR 39] @ ''Telegram'' @ [CHR 39] @ '' digunakan semata-mata untuk mengidentifikasi kompatibilitas platform. Anda bertanggung jawab penuh untuk mematuhi Ketentuan Layanan resmi dari Telegram saat menggunakan perangkat lunak ini.'')),
     (''section2Title'', Text ''Deskripsi Layanan & Ekosistem Platform''),
     (''section2Desc'', Text (''TeleBos menyediakan perangkat lunak berbasis web untuk manajemen dan automasi ekosistem Telegram, meliputi: (1) Manajemen multi-akun Telegram dan automasi alur kerja (siaran massal, pengundang anggota grup/kanal, auto-join, auto-reply cerdas, pemeriksa usia akun, dan asisten banding SpamBot); (2) Marketplace Akun Telegram peer-to-peer (P2P) dengan penetapan harga berbasis prefiks; (3) Layanan pemesanan engagement SMM khusus Telegram (views postingan, reaksi, dan anggota grup/kanal); serta (4) Sistem Saldo Dompet (Wallet) untuk deposit otomatis dan penarikan dana. Seluruh layanan disediakan atas dasar '' @ [CHR 39] @ ''apa adanya'' @ [CHR 39] @ '' (as-is).'')),
     (''section3Title'', Text ''Tanggung Jawab Pengguna & Kebijakan Anti-Spam''),
     (''section3Desc'', Text ''Anda bertanggung jawab menjaga kerahasiaan kredensial akun dan keamanan 2FA Anda. Anda secara tegas dilarang menggunakan TeleBos untuk aktivitas ilegal, penipuan (scam/phishing), penyebaran malware, pornografi anak (CSAM), terorisme, atau spam massal yang melanggar hukum. Anda memahami bahwa intensitas pengiriman pesan dan volume tindakan automasi ditentukan sepenuhnya oleh Anda sendiri, dan Anda bertanggung jawab penuh atas segala konsekuensi atau batasan akun (FloodWait) yang diterapkan oleh algoritma Telegram akibat konfigurasi Anda.''),
     (''section4Title'', Text ''Ketentuan Marketplace Akun & Layanan SMM Telegram''),
     (''section4Desc'', Text ''Transaksi pembelian akun Telegram di Marketplace bersifat final dan langsung memindahkan hak kepemilikan sesi setelah transaksi diverifikasi di sistem; TeleBos tidak memfasilitasi pembatalan sepihak setelah pembelian berhasil. Layanan pesanan SMM disediakan khusus untuk target Telegram melalui penyedia upstream; saldo akan didebit di awal pemesanan. Pesanan SMM yang sedang diproses tidak dapat dibatalkan, kecuali jika sistem penyedia upstream mengembalikan status Gagal (Canceled) atau Sebagian (Partial), di mana sistem TeleBos akan mengembalikan sisa saldo secara prorata otomatis ke dompet Anda.''),
     (''section5Title'', Text ''Sistem Saldo Dompet, Pembayaran & Penarikan Dana''),
     (''section5Desc'', Text ''Pengisian saldo (top-up) dilakukan melalui gateway QRIS otomatis (KlikQRIS) atau penukaran kode voucher resmi. Saldo yang telah berhasil ditambahkan adalah kredit digital untuk bertransaksi di dalam platform dan tidak dapat di-chargeback secara sepihak. Penarikan saldo (withdrawal) ke rekening bank atau e-wallet terverifikasi dilindungi melalui verifikasi OTP email serta pencatatan buku besar ganda (double-entry ledger) yang aman dan konsisten. Kami berhak menahan penarikan dana yang terindikasi mencurigakan atau hasil aktivitas kecurangan.''),
     (''section6Title'', Text ''Batasan Tanggung Jawab & Risiko Algoritma Telegram''),
     (''section6Desc'', Text ''Sejauh diizinkan oleh hukum, TeleBos beserta pengembangnya tidak bertanggung jawab atas kerugian langsung, tidak langsung, insidental, atau konsekuensial yang timbul dari penggunaan layanan kami. Hal ini mencakup namun tidak terbatas pada penangguhan akun (account ban), pembatasan nomor telepon oleh Telegram, kegagalan pengiriman pesan, pembersihan anggota oleh algoritma Telegram, atau kehilangan akses data. Anda menggunakan fitur automasi Telegram dengan risiko yang Anda tanggung sepenuhnya.''),
     (''section7Title'', Text ''Penghentian Akun, Perubahan Ketentuan & Hak Cipta''),
     (''section7Desc'', Text ''Kami berhak menangguhkan, membatasi, atau menghentikan akun pengguna secara sepihak jika ditemukan pelanggaran terhadap ketentuan ini, manipulasi celah sistem, atau penyalahgunaan API yang membahayakan infrastruktur. Hak kekayaan intelektual atas nama, logo, dan antarmuka TeleBos dilindungi undang-undang. Kami berhak memperbarui ketentuan ini sewaktu-waktu dengan pemberitahuan melalui platform. Penggunaan layanan yang berkelanjutan menandakan persetujuan Anda terhadap perubahan tersebut.'')]"

definition id_invite :: dict where
  "id_invite = Group [
     (''title'', Text ''Undang Member''), (''desc'', Text ''Undang member dari grup sumber ke grup atau channel tujuan''),
     (''navLabel'', Text ''Undang Member''), (''newInvite'', Text ''Undangan Baru''), (''inviteHistory'', Text ''Riwayat Undangan''),
     (''inviteLogs'', Text ''Log Undangan''), (''destination'', Text ''Grup/Channel Tujuan''),
     (''destinationPlaceholder'', Text ''@grup atau t.me/... atau ID grup''), (''destinationType'', Text ''Tipe''),
     (''typeUsername'', Text ''@username''), (''typeLink'', Text ''Link Undangan''), (''typeGroupId'', Text ''ID Grup''),
     (''sourceGroups'', Text ''Grup Sumber''),
     (''sourceGroupsDesc'', Text ''Tambahkan grup untuk mengambil member. Member akan dihilangkan duplikatnya.''),
     (''addSource'', Text ''Tambah Grup Sumber''), (''sourcePlaceholder'', Text ''@grup atau t.me/... atau ID grup''),
     (''delayPerInvite'', Text ''Jeda per Undangan (detik)''), (''delayPerInviteSuffix'', Text (''5 '' @ [CHR 226, CHR 128, CHR 147] @ '' 3600 detik'')),
     (''delayPerBatch'', Text ''Jeda per Batch (detik)''), (''delayPerBatchSuffix'', Text ''Jeda tambahan setiap N undangan''),
     (''batchSize'', Text ''Ukuran Batch''), (''batchSizeSuffix'', Text ''Undangan sebelum jeda tambahan''), (''account'', Text ''Akun''),
     (''accountPlaceholder'', Text ''Pilih akun...''), (''startInvite'', Text ''Mulai Undangan''), (''starting'', Text ''Memulai...''),
     (''failedToStart'', Text ''Gagal memulai undangan''), (''progress'', Text ''Progres''), (''totalMembers'', Text ''Total Member''),
     (''invited'', Text (''Diundang '' @ [CHR 226, CHR 156, CHR 147])), (''alreadyMember'', Text ''Sudah Member''),
     (''failed'', Text (''Gagal '' @ [CHR 226, CHR 156, CHR 151])), (''skipped'', Text ''Dilewati''), (''pause'', Text ''Jeda''),
     (''resume'', Text ''Lanjutkan''), (''stop'', Text ''Berhenti''), (''stopConfirm'', Text ''Hentikan undangan ini?''), (''live'', Text ''Langsung''),
     (''scraping'', Text ''Mengambil''), (''inviting'', Text ''Mengundang''), (''phaseScraping'', Text ''Mengambil member dari grup sumber...''),
     (''phaseInviting'', Text ''Mengundang member ke tujuan...''), (''noJobs'', Text ''Belum ada undangan''),
     (''startNew'', Text ''Mulai Undangan Baru''), (''date'', Text ''Tanggal''), (''status'', Text ''Status''), (''actions'', Text ''Aksi''),
     (''retry'', Text ''Ulangi''), (''delete'', Text ''Hapus''), (''deleteConfirm'', Text ''Hapus undangan ini?''), (''viewLogs'', Text ''Lihat Log''),
     (''selectJob'', Text ''Pilih undangan...''), (''allStatuses'', Text ''Semua Status''), (''success'', Text ''Sukses''), (''error'', Text ''Gagal''),
     (''noEntries'', Text ''Tidak ada entri log.''), (''selectJobToView'', Text ''Pilih undangan untuk melihat log''), (''colUser'', Text ''Pengguna''),
     (''colUsername'', Text ''Username''), (''colSource'', Text ''Grup Sumber''), (''colStatus'', Text ''Status''),
     (''colErrorType'', Text ''Tipe Error''), (''colErrorMessage'', Text ''Pesan Error''), (''colTime'', Text ''Waktu''),
     (''selectAccounts'', Text ''Pilih Akun''), (''selected'', Text ''terpilih''), (''selectAll'', Text ''Pilih Semua''),
     (''deselectAll'', Text ''Batalkan Pilih Semua''), (''searchAccountsPlaceholder'', Text ''Cari akun berdasarkan nama atau nomor...''),
     (''noActiveAccounts'', Text ''Tidak ada akun aktif yang tersedia untuk invite.''), (''destUsernameLabel'', Text ''@username Grup Tujuan''),
     (''destLinkLabel'', Text ''Link Undangan Grup Tujuan''), (''destGroupIdLabel'', Text ''ID Grup Tujuan''),
     (''sourcesAdded'', Text ''sumber ditambahkan''), (''delaysConfig'', Text ''Pengaturan Jeda & Batch''), (''colAccount'', Text ''Akun Eksekutor''),
     (''historyDesc'', Text ''Pantau dan kelola seluruh riwayat tugas undangan member Anda.''),
     (''logsDesc'', Text ''Rincian log eksekusi undangan member secara mendalam.''),
     (''searchLogsPlaceholder'', Text ''Cari username, nama, atau error...''), (''metricTotalTasks'', Text ''Total Tugas''),
     (''metricRunning'', Text ''Sedang Berjalan''), (''metricCompleted'', Text ''Selesai''), (''metricTotalInvited'', Text ''Total Terundang''),
     (''target'', Text ''Target''), (''floodWait'', Text ''Flood Wait''), (''peerFlood'', Text ''Peer Flood''),
     (''privacyRestricted'', Text ''Dibatasi Privasi''), (''of'', Text ''dari'')]"

definition id_orders_1 :: "(string \<times> dict) list" where
  "id_orders_1 = [
     (''title'', Text ''Pesanan''), (''desc'', Text ''Pesan layanan Telegram dari panel SMM kami''), (''newOrder'', Text ''Pesanan Baru''),
     (''massOrder'', Text ''Pesanan Massal''), (''history'', Text ''Riwayat Pesanan''), (''services'', Text ''Layanan''),
     (''selectService'', Text ''Pilih layanan...''), (''dataTarget'', Text ''Target (URL/Username)''),
     (''dataTargetPlaceholder'', Text ''https://t.me/... atau @username''),
     (''invalidTarget'', Text ''Target tidak valid. Gunakan link https://t.me/..., @username, username, atau ID numerik.''),
     (''quantity'', Text ''Jumlah''), (''price'', Text ''Harga''), (''totalPrice'', Text ''Total Harga''), (''placeOrder'', Text ''Buat Pesanan''),
     (''placingOrder'', Text ''Membuat Pesanan...''), (''orderPlaced'', Text ''Pesanan berhasil dibuat!''), (''orderFailed'', Text ''Pesanan gagal''),
     (''status'', Text ''Status''), (''date'', Text ''Tanggal''), (''refreshStatus'', Text ''Perbarui Status''),
     (''refreshAll'', Text ''Perbarui Semua''), (''noOrders'', Text ''Belum ada pesanan''), (''startOrdering'', Text ''Buat Pesanan Pertama''),
     (''category'', Text ''Kategori''), (''telegramOnly'', Text ''Layanan Telegram''), (''allServices'', Text ''Semua Layanan''),
     (''serviceName'', Text ''Nama Layanan''), (''min'', Text ''Min''), (''max'', Text ''Maks''), (''note'', Text ''Catatan''),
     (''speed'', Text ''Kecepatan''), (''searchService'', Text ''Cari layanan...''), (''addMore'', Text ''Tambah Lagi''), (''remove'', Text ''Hapus''),
     (''totalAll'', Text ''Total Semua''), (''insufficientBalance'', Text ''Saldo tidak cukup''), (''yourBalance'', Text ''Saldo Anda''),
     (''topUp'', Text ''Isi Saldo''),
     (''massOrderDesc'', Text ''Buat beberapa pesanan sekaligus dengan menambahkan item di bawah. Setiap item bisa memiliki layanan dan target berbeda.''),
     (''refreshSuccess'', Text ''Status diperbarui''), (''buyAccounts'', Text ''Beli Akun Telegram''), (''sellAccounts'', Text ''Jual Akun Telegram''),
     (''sellAccount'', Text ''Jual Akun''),
     (''buyDesc'', Text ''Dapatkan sesi Telegram terverifikasi tanpa batasan dengan kredensial MTProto valid dan garansi penggantian escrow 30 menit.''),
     (''sellDesc'', Text ''Monetisasi akun Telegram Anda yang terverifikasi. Setelah didaftarkan, akun Anda akan ditampilkan kepada pembeli dan saldo langsung masuk ke dompet Anda saat terjual.''),
     (''escrowExchange'', Text ''Marketplace // Bursa Escrow''), (''liveCustodyPool'', Text ''Pool Kustodi Aktif''),
     (''automatedAppraisal'', Text ''Taksiran Otomatis''), (''liquidationDesk'', Text ''Likuidasi // Meja OTC''),
     (''totalReadyStock'', Text ''Total Stok Tersedia''), (''verifiedSessions'', Text ''Sesi MTProto terverifikasi''),
     (''startingFrom'', Text ''Mulai Dari''), (''regionalPricing'', Text ''Tingkat harga wilayah''), (''coverage'', Text ''Cakupan Wilayah''),
     (''globalPrefixes'', Text ''Prefix nomor global''), (''escrowProtection'', Text ''Perlindungan Escrow''),
     (''escrowWarranty'', Text ''Garansi 30 Menit''), (''active'', Text ''Aktif''), (''filterByCountry'', Text ''Filter Berdasarkan Negara / Wilayah''),
     (''allCountries'', Text ''Semua Negara''), (''searchBuyPlaceholder'', Text ''Cari ID telegram, nama negara, atau kode prefix...''),
     (''searchSellPlaceholder'', Text ''Cari nomor telepon, nama, atau username...''), (''spamAll'', Text ''Spam: Semua''),
     (''cleanOnly'', Text ''Hanya Bebas Spam''), (''twofaAll'', Text ''2FA: Semua''), (''twofaDisabled'', Text ''Nonaktif''),
     (''twofaRequired'', Text ''Perlu 2FA''), (''sortLowestPrice'', Text ''Harga: Termurah''), (''sortHighestPrice'', Text ''Harga: Termahal''),
     (''sortMostContacts'', Text ''Kontak Terbanyak''), (''resetFilter'', Text ''Reset Filter''),
     (''showingAccounts'', Text ''Menampilkan {count} akun tersedia''), (''cleanSpam'', Text ''Bebas Spam''), (''riskSpam'', Text ''Risiko Spam''),
     (''uncheckedSpam'', Text ''Belum Dicek''), (''accountAge'', Text ''Usia: {age}''), (''newSession'', Text ''Sesi Baru''),
     (''resaleAsset'', Text ''Akun Resale''), (''personalSession'', Text ''Pribadi''), (''contactsCount'', Text ''{count} kontak''),
     (''registeredDate'', Text ''Terdaftar {date}''), (''verifiedMtproto'', Text ''MTProto Terverifikasi''), (''telebosEscrow'', Text ''TeleBos Escrow''),
     (''verifiedSellerPool'', Text ''Pool Penjual Terverifikasi''), (''needsMoreBalance'', Text ''Kurang Rp {amount}''),
     (''buyNow'', Text ''Beli Sekarang''), (''clearFilters'', Text ''Hapus Semua Filter''),
     (''noMatchingAccounts'', Text ''Tidak ada akun yang cocok dengan filter''), (''noStockCategory'', Text ''Stok Belum Tersedia di Kategori Ini''),
     (''adjustFiltersHint'', Text ''Coba ubah kata kunci pencarian, pilihan negara, atau filter spam untuk melihat hasil lainnya.''),
     (''soldOutHint'', Text ''Semua akun di kategori ini saat ini sudah terjual. Stok baru masuk secara berkala.''),
     (''confirmBuyAccountTitle'', Text ''Konfirmasi Pembelian Akun Telegram''),
     (''confirmBuyAccountSubtitle'', Text ''Anda akan mengambil alih kepemilikan akun Telegram terverifikasi ini. Sesi akun akan langsung ditransfer ke daftar akun Anda.''),
     (''unitPrice'', Text ''Harga Satuan:''), (''verificationFee'', Text ''Biaya Verifikasi Escrow:''), (''feeWaived'', Text ''Rp 0 (Gratis)''),
     (''totalDeducted'', Text ''Total Dipotong:''),
     (''warrantyNotice'', Text ''Garansi Escrow 30 Menit: Jika kredensial sesi atau kunci MTProto gagal saat sinkronisasi awal, saldo Anda akan langsung dikembalikan.''),
     (''confirmAndPay'', Text ''Konfirmasi & Bayar''), (''cancel'', Text ''Batal''), (''purchaseSuccessTitle'', Text ''Pembelian Berhasil!''),
     (''accountTransferredTitle'', Text ''Akun Berhasil Ditransfer''), (''credentialsDesc'', Text ''Rincian Kredensial & Sesi''),
     (''phoneNumber'', Text ''Nomor Telepon''), (''username'', Text ''Username''), (''fullName'', Text ''Nama Lengkap''), (''copy'', Text ''Salin''),
     (''copied'', Text ''Disalin ke clipboard''), (''downloadSession'', Text ''Unduh Sesi''), (''goToAccounts'', Text ''Buka Daftar Akun''),
     (''close'', Text ''Tutup''), (''estimatedValue'', Text ''Perkiraan Total Nilai''),
     (''potentialPayout'', Text ''Potensi hasil penjualan seluruh akun''), (''settlementRail'', Text ''Pencairan Dana''),
     (''instantPayout'', Text ''Otomatis Masuk Saldo''), (''directWalletCredit'', Text ''Saldo masuk otomatis begitu akun dibeli''),
     (''pricingNoticeTitle'', Text ''Ketentuan Penaksiran Harga & Escrow Penjualan''), (''escrowNoticeBadge'', Text ''Ketentuan Escrow''),
     (''ruleDynamicTitle'', Text ''Penaksiran Berdasarkan Prefix & Usia''),
     (''ruleDynamicDesc'', Text ''Harga dihitung secara otomatis berdasarkan kode negara operator, usia pembuatan akun, dan status SpamBot.''),
     (''ruleDeferredTitle'', Text ''Pembayaran Saat Terjual''),
     (''ruleDeferredDesc'', Text ''Dana tidak langsung masuk saat mendaftar. Saldo akan langsung dikreditkan saat akun Anda berhasil dibeli oleh pengguna lain.''),
     (''ruleCustodyTitle'', Text ''Pengamanan Sesi''),
     (''ruleCustodyDesc'', Text ''Broadcast dan auto-reply aktif pada akun yang dijual akan dijeda agar integritas sesi akun tetap terjaga untuk pembeli.''),
     (''accountExpiredCannotSell'', Text ''Akun kedaluwarsa tidak dapat dijual''),
     (''accountExpiredCannotSellDesc'', Text ''Sesi akun ini telah kedaluwarsa atau terputus sehingga tidak dapat didaftarkan untuk dijual.''),
     (''accountsEligibleCount'', Text ''{filtered} dari {total} akun memenuhi syarat''), (''selectedCount'', Text ''{count} dipilih''),
     (''selectAllAvailable'', Text ''Pilih Semua''), (''clearSelection'', Text ''Batalkan Pilihan''), (''accountIdentity'', Text ''Identitas Akun''),
     (''appraisedPayout'', Text ''Harga Jual''), (''noSellableAccountsTitle'', Text ''Tidak Ada Akun yang Siap Dijual''),
     (''noSellableAccountsDesc'', Text ''Semua akun Telegram Anda sedang dalam antrean jual, sudah terjual, atau belum terverifikasi. Hubungkan akun baru untuk mulai menjual.''),
     (''goToAccountsHub'', Text ''Buka Manajemen Akun''), (''selectedLabel'', Text ''Dipilih:''), (''totalPayoutLabel'', Text ''Total Diterima:''),
     (''sellSelectedBtn'', Text ''Jual Akun Terpilih''), (''confirmSellModalTitle'', Text ''Konfirmasi Penjualan Akun''),
     (''confirmSellModalSubtitle'', Text ''Akun akan didaftarkan ke escrow marketplace untuk dijual.''),
     (''listingSummary'', Text ''Ringkasan Penjualan''), (''accountQuantity'', Text ''Jumlah akun:''),
     (''estimatedPayoutTotal'', Text ''Perkiraan Hasil Penjualan:''),
     (''sellAgreementNotice'', Text ''Dengan mengonfirmasi, Anda setuju untuk mendaftarkan akun-akun ini ke escrow. Selama dalam daftar jual, tugas otomatisasi pada akun ini akan dijeda.''),
     (''confirmListingBtn'', Text ''Konfirmasi & Jual''), (''itemizedValuation'', Text ''Rincian Taksiran Per Akun''),
     (''sellAgreementDialogNotice'', Text ''Apakah Anda yakin ingin mendaftarkan {count} akun Telegram ini untuk dijual? Otomatisasi aktif (broadcast dan auto-reply) akan dijeda pada sesi-sesi ini untuk menjaga kepercayaan pembeli.'')]"

definition id_orders_2 :: "(string \<times> dict) list" where
  "id_orders_2 = [
     (''deferredSettlementDesc'', Text ''Saldo dompet Anda otomatis bertambah begitu pembeli membayar akun yang Anda daftarkan. Anda dapat mencairkan atau menggunakan saldo tersebut segera setelah terjual.''),
     (''settledHint'', Text ''Dana langsung masuk ke saldo dompet saat pembeli melakukan pembayaran.''), (''accountAgeCol'', Text ''Usia Akun''),
     (''spamHealthCol'', Text ''Status Spam''), (''unnamedAccount'', Text ''Akun Tanpa Nama''), (''unableToLoadAccounts'', Text ''Gagal Memuat Akun''),
     (''errorInventory'', Text ''Terjadi kesalahan saat menghubungi inventaris marketplace.''), (''orderFulfilled'', Text ''Pesanan Berhasil''),
     (''purchaseFailed'', Text ''Pembelian Gagal''), (''continueShopping'', Text ''Lanjut Belanja''),
     (''manageInMyAccounts'', Text ''Kelola di Akun Saya''), (''autoReplacementDesc'', Text ''Garansi penggantian otomatis jika gagal login''),
     (''resale'', Text ''Resale''), (''personal'', Text ''Pribadi''), (''clean'', Text ''Bersih''), (''limited'', Text ''Terbatas''),
     (''cleanSpamBotOnly'', Text ''Hanya Bebas SpamBot''), (''unableToLoadEligible'', Text ''Gagal Memuat Akun yang Memenuhi Syarat''),
     (''errorFetchingEligible'', Text ''Terjadi kesalahan jaringan atau server saat mengambil akun Anda.''),
     (''accountsListedSuccess'', Text ''Akun Berhasil Didaftarkan untuk Dijual''), (''submissionFailed'', Text ''Pendaftaran Gagal''),
     (''saleStatusNeedsConfirmation'', Text ''Status penjualan perlu konfirmasi''),
     (''saleStatusUnknownDesc'', Text (''Telegram mungkin sudah selesai memperbarui akun ini. Kami telah memperbarui daftar akun Anda'' @ [CHR 226, CHR 128, CHR 148] @ ''periksa status penjualannya sebelum mencoba lagi.'')),
     (''readyStock'', Text ''Stok Tersedia''), (''balanceToReceive'', Text ''Saldo yang Akan Diterima''), (''pricePerAccount'', Text ''Harga per Akun''),
     (''eligibleAccounts'', Text ''Akun yang Memenuhi Syarat''),
     (''noEligibleAccounts'', Text ''Tidak ada akun yang memenuhi syarat untuk dijual. Akun harus terhubung dan terverifikasi.''),
     (''confirmSellTitle'', Text ''Konfirmasi Jual Akun''),
     (''confirmSellMsg'', Text ''Apakah Anda yakin ingin menjual akun yang dipilih? Tindakan ini akan menghentikan semua siaran dan otomatisasi aktif, dan Anda akan langsung kehilangan akses ke akun tersebut.''),
     (''confirmBuyTitle'', Text ''Konfirmasi Beli Akun''),
     (''confirmBuyMsg'', Text ''Apakah Anda yakin ingin membeli akun ini? Harga pembelian akan dipotong dari saldo Anda.''),
     (''buySuccess'', Text ''Akun berhasil dibeli!''), (''sellSuccess'', Text ''Akun berhasil dijual!''),
     (''twoFaStatus'', Text ''Autentikasi Dua Faktor (2FA)''), (''recoveryEmail'', Text ''Email Pemulihan''), (''available'', Text ''Tersedia''),
     (''unavailable'', Text ''Tidak Tersedia''), (''sellPrice'', Text ''Harga Jual''), (''buyPrice'', Text ''Harga Beli''),
     (''cancelSell'', Text ''Batal Jual''), (''confirmCancelSellTitle'', Text ''Konfirmasi Batal Jual''),
     (''confirmCancelSellMsg'', Text ''Apakah Anda yakin ingin membatalkan penjualan akun ini? Akun akan dikembalikan ke daftar akun aktif Anda, dan Anda dapat mengelolanya kembali.''),
     (''cancelSellSuccess'', Text ''Penjualan akun berhasil dibatalkan!''), (''forSaleAlertTitle'', Text ''Akun dalam antrean penjualan''),
     (''forSaleAlertDesc'', Text ''Akun ini saat ini terdaftar di marketplace. Anda tidak dapat mengelola atau menggunakan akun ini kecuali Anda membatalkan penjualan.''),
     (''accountHistory'', Text ''Transaksi Akun''), (''smmHistory'', Text ''Pesanan SMM''), (''notificationCreatedTitle'', Text ''Pesanan dibuat''),
     (''notificationCreatedMessage'', Text ''{service} telah dikirim dan menunggu diproses.''),
     (''notificationMassCreatedTitle'', Text ''Pesanan dibuat''),
     (''notificationMassCreatedMessage'', Text ''{count} pesanan telah dikirim dan menunggu diproses.''),
     (''notificationFailedTitle'', Text ''Pesanan tidak dapat dibuat''), (''notificationFailedMessage'', Text ''Periksa detail pesanan lalu coba lagi.''),
     (''notificationStatusChangedTitle'', Text ''Status pesanan diperbarui''),
     (''notificationStatusChangedMessage'', Text ''{service} sekarang berstatus {status}.''),
     (''notificationRefreshFailedTitle'', Text ''Status pesanan tidak dapat diperbarui''),
     (''notificationRefreshFailedMessage'', Text ''Coba perbarui status pesanan lagi sebentar lagi.''),
     (''notificationSellListedTitle'', Text ''Akun terdaftar untuk dijual''),
     (''notificationSellListedSingleTitle'', Text ''Akun berhasil didaftarkan untuk dijual''),
     (''notificationSellListedMessage'', Text ''{count} akun sekarang terdaftar di marketplace.''),
     (''notificationSellListedSingleMessage'', Text ''Akun {identifier} sekarang terdaftar di marketplace{priceDetail}.''),
     (''notificationSellPendingTitle'', Text ''Listing akun perlu dikonfirmasi''),
     (''notificationSellPendingMessage'', Text ''Listing belum dapat dikonfirmasi. Perbarui akun Anda sebelum mencoba lagi.''),
     (''notificationSellFailedTitle'', Text ''Akun tidak dapat didaftarkan''),
     (''notificationSellFailedMessage'', Text ''Periksa status akun lalu coba lagi.''), (''notificationBuySuccessTitle'', Text ''Akun berhasil dibeli''),
     (''notificationBuySuccessDetailedMessage'', Text ''Akun {identifier} berhasil dibeli seharga {amount} dan sudah ditambahkan ke akun kamu.''),
     (''notificationBuySuccessMessage'', Text ''Akun {identifier} sudah ditambahkan ke akun yang Anda kelola.''),
     (''notificationBuyFailedTitle'', Text ''Pembelian akun gagal''), (''notificationBuyFailedMessage'', Text ''Periksa saldo Anda lalu coba lagi.''),
     (''notificationSellCanceledTitle'', Text ''Listing penjualan dibatalkan''),
     (''notificationSellCanceledMessage'', Text ''Pendaftaran jual akun {identifier} telah dibatalkan dan kembali ke daftar akun kamu.''),
     (''notificationSellCancelFailedTitle'', Text ''Listing penjualan tidak dapat dibatalkan''),
     (''notificationSellCancelFailedMessage'', Text ''Coba batalkan listing lagi sebentar lagi.''),
     (''notificationSaleSuccessTitle'', Text ''Akun kamu berhasil terjual!''),
     (''notificationSaleSuccessWithAmountMessage'', Text ''Akun {identifier} telah berhasil terjual, {amount} sudah berhasil ditambahkan ke saldo kamu.''),
     (''notificationSaleSuccessMessage'', Text ''Akun {identifier} telah terjual dan hasilnya sudah ditambahkan ke saldo kamu.''),
     (''notificationListingInvalidTitle'', Text ''Pendaftaran jual dibatalkan otomatis''),
     (''notificationListingInvalidMessage'', Text ''Akun {identifier} ditarik dari marketplace karena sesi Telegram sudah tidak valid.'')]"

definition id_orders :: dict where
  "id_orders = Group (id_orders_1 @ id_orders_2)"

definition id_adminSmm :: dict where
  "id_adminSmm = Group [
     (''overview'', Text ''Ringkasan''), (''services'', Text ''Layanan''), (''allOrders'', Text ''Pesanan SMM''), (''settings'', Text ''Pengaturan'')]"

definition id_smmOrderManager :: dict where
  "id_smmOrderManager = Group [
     (''nav'', Group [(''members'', Text ''Member Telegram''), (''membersTag'', Text ''Channel & Grup''), (''reactions'', Text ''Reaksi''), (''reactionsTag'', Text ''Emoji Postingan''), (''autoReactions'', Text ''Reaksi Otomatis''), (''autoReactionsTag'', Text ''Postingan Mendatang''), (''postViews'', Text ''Views Postingan''), (''postViewsTag'', Text ''Impresi & Tayangan''), (''autoPostViews'', Text ''Auto Views Post''), (''autoPostViewsTag'', Text ''Postingan Mendatang''), (''history'', Text ''Riwayat Order''), (''historyTag'', Text ''Semua Pesanan'')]),
     (''serverActive'', Text ''Server Aktif''), (''activeServices'', Text ''Layanan Aktif''), (''options'', Text ''Pilihan''),
     (''allTestedConnected'', Text ''Semua teruji & terhubung''), (''startingPrice'', Text ''Harga Mulai''),
     (''cheapestRate'', Text ''Tarif termurah tersedia''), (''averageSpeed'', Text ''Kecepatan Rata-Rata''),
     (''autoProcessed'', Text ''Diproses otomatis''), (''systemStatus'', Text ''Status Sistem''), (''cloudEngine'', Text ''TeleBos Cloud Engine''),
     (''searchPlaceholder'', Text ''Cari ID, nama layanan, atau kata kunci...''), (''sortBy'', Text ''Urutkan:''), (''sortDefault'', Text ''Default''),
     (''sortPriceAsc'', Text ''Harga: Termurah''), (''sortPriceDesc'', Text ''Harga: Termahal''), (''sortSpeed'', Text ''Kecepatan: Tercepat''),
     (''sortMinAsc'', Text ''Min Order: Terkecil''), (''allSubcategories'', Text ''Semua Subkategori''), (''showingServices'', Text ''Menampilkan''),
     (''of'', Text ''dari''), (''services'', Text ''layanan''), (''resetSearch'', Text ''Reset pencarian''),
     (''loadErrorTitle'', Text ''Gagal Memuat Layanan''),
     (''loadErrorDesc'', Text ''Terjadi kendala saat menyinkronkan katalog layanan SMM. Silakan muat ulang halaman.''),
     (''emptyTitle'', Text ''Tidak Ada Layanan''), (''emptyDesc'', Text ''Layanan untuk kategori ini sedang diperbarui atau belum tersedia saat ini.''),
     (''minOrder'', Text ''Min Order''), (''maxOrder'', Text ''Max Order''), (''processingSpeed'', Text ''Kecepatan Proses''),
     (''completedBadge'', Text ''Selesai''), (''showInstructions'', Text ''Lihat Petunjuk & Keterangan''),
     (''hideInstructions'', Text ''Sembunyikan Petunjuk Layanan''), (''targetFormat'', Text ''Format Target:''),
     (''pricePerThousand'', Text ''Harga / 1.000''), (''orderNow'', Text ''Order Sekarang''), (''minLimit'', Text ''Batas Min''),
     (''maxLimit'', Text ''Batas Max''), (''ratePer1k'', Text ''Tarif / 1k''), (''quantityLimit'', Text ''Batas:''),
     (''commentsOptional'', Text ''Komentar Tambahan (Opsional)''),
     (''commentsPlaceholder'', Text ''Khusus layanan custom comments: satu komentar per baris...''), (''unitRate'', Text ''Tarif Satuan:''),
     (''quantityLabel'', Text ''Kuantitas:''), (''estimatedTotal'', Text ''Total Estimasi Biaya:''),
     (''sufficientBalance'', Text ''Saldo cukup. Sisa saldo:''), (''insufficientBalanceMsg'', Text ''Saldo kurang. Dibutuhkan''),
     (''yourBalance'', Text ''Saldo Anda:''), (''cancel'', Text ''Batal''), (''confirmOrder'', Text ''Konfirmasi Order''),
     (''processing'', Text ''Memproses...''), (''minOrderToast'', Text ''Jumlah pemesanan minimal adalah {min}.''),
     (''maxOrderToast'', Text ''Jumlah pemesanan maksimal adalah {max}.''),
     (''orderSuccessToast'', Text ''Order untuk {name} sebanyak {quantity} berhasil dikirim.''),
     (''orderErrorFallback'', Text ''Terjadi kesalahan saat memproses pesanan.'')]"

definition id_orderServices :: dict where
  "id_orderServices = Group [
     (''autoReactions'', Group [(''title'', Text ''Reaksi Otomatis Telegram''), (''desc'', Text ''Otomasi reaksi emoji untuk setiap postingan baru di channel Telegram Anda secara terjadwal dan konsisten 24/7 tanpa perlu order manual setiap post.''), (''targetPlaceholder'', Text ''https://t.me/channel_name atau @channel_name''), (''targetHelper'', Text ''Masukkan username atau link channel publik Anda. Sistem akan memantau postingan baru dan memberikan reaksi otomatis sesuai kuota.''), (''targetExample'', Text ''https://t.me/namachannel'')]),
     (''postViews'', Group [(''title'', Text ''Views & Impresi Post Telegram''), (''desc'', Text ''Tingkatkan jumlah impresi dan pembaca pada postingan Telegram Anda secara instan untuk memperkuat social proof dan kredibilitas channel.''), (''targetPlaceholder'', Text ''https://t.me/channel_name/1234 (Link postingan)''), (''targetHelper'', Text ''Masukkan link postingan spesifik channel publik atau gunakan format multi-link jika didukung oleh layanan yang dipilih.''), (''targetExample'', Text ''https://t.me/namachannel/123'')]),
     (''members'', Group [(''title'', Text ''Member & Subscriber Telegram''), (''desc'', Text ''Pesan anggota grup dan subscriber channel Telegram berkualitas tinggi dengan proses cepat, stabil, dan bergaransi dari server TeleBos Cloud Gateway.''), (''targetPlaceholder'', Text ''https://t.me/channel_name atau @channel_name''), (''targetHelper'', Text ''Pastikan channel atau grup bersifat publik saat proses pengisian, atau gunakan link tautan undangan resmi jika didukung.''), (''targetExample'', Text ''https://t.me/namachannel atau @namagrup'')]),
     (''reactions'', Group [(''title'', Text ''Reaksi Postingan Telegram''), (''desc'', Text ''Tingkatkan engagement postingan Telegram dengan reaksi emoji positif, beragam emoji interaktif, dan tayangan instan dari server TeleBos Cloud Gateway.''), (''targetPlaceholder'', Text ''https://t.me/channel_name/1234 (Link postingan publik)''), (''targetHelper'', Text ''Wajib menggunakan link spesifik satu postingan dari channel Telegram publik. Format: https://t.me/username/123.''), (''targetExample'', Text ''https://t.me/namachannel/123'')]),
     (''autoPostViews'', Group [(''title'', Text ''Auto Views Post Telegram''), (''desc'', Text ''Otomasi impresi dan views untuk setiap postingan baru di channel Telegram Anda secara konsisten 24/7 tanpa perlu order manual.''), (''targetPlaceholder'', Text ''https://t.me/channel_name atau @channel_name''), (''targetHelper'', Text ''Masukkan username atau tautan channel publik Anda. Sistem akan memantau postingan baru dan menyalurkan views secara otomatis.''), (''targetExample'', Text ''https://t.me/namachannel'')])]"

definition id_admin :: dict where
  "id_admin = Group [
     (''title'', Text ''Panel Admin''), (''desc'', Text ''Kelola pengguna, saldo, dan peran''), (''overview'', Text ''Ringkasan''),
     (''analytics'', Text ''Analytics Overview''), (''userAnalytics'', Text ''User Analytics''),
     (''telegramAccountAnalytics'', Text ''Telegram Account Analytics''), (''automationAnalytics'', Text ''Automation Analytics''),
     (''financialAnalytics'', Text ''Revenue & Saldo''), (''systemHealthAnalytics'', Text ''Kesehatan Sistem''),
     (''securityAnalytics'', Text ''Keamanan & Audit''), (''dashboard'', Text ''Dashboard Admin''),
     (''dashboardDesc'', Text ''Kesehatan sistem, metrik infrastruktur, dan pusat kontrol pemilik''), (''platformOverview'', Text ''Ringkasan Platform''),
     (''smmProviderStatus'', Text ''Status Provider SMM''), (''controlDeck'', Text ''Pusat Kontrol Aksi Owner''),
     (''healthAndDistribution'', Text ''Kesehatan Sistem & Distribusi''), (''accountDistribution'', Text ''Distribusi Status Akun''),
     (''userDistribution'', Text ''Distribusi Paket Pengguna''), (''refreshData'', Text ''Muat Ulang Data''),
     (''systemOperational'', Text ''Sistem Berjalan Normal''), (''accessDenied'', Text ''Akses Ditolak''),
     (''accessDeniedDesc'', Text ''Hanya akun dengan peran Owner yang memiliki akses ke Panel Admin.''),
     (''backToDashboard'', Text ''Kembali ke Dashboard''), (''sellingAccounts'', Text ''Di Marketplace''), (''users'', Text ''Pengguna''),
     (''userManagement'', Text ''Manajemen Pengguna''), (''balanceManagement'', Text ''Manajemen Saldo''), (''totalUsers'', Text ''Total Pengguna''),
     (''totalBroadcastJobs'', Text ''Total Broadcast''), (''totalInviteJobs'', Text ''Total Invite''),
     (''totalAutoReplyJobs'', Text ''Total Auto-Reply''), (''totalAccountsConnected'', Text ''Akun Terhubung''),
     (''searchUsers'', Text ''Cari pengguna...''), (''email'', Text ''Email''), (''fullName'', Text ''Nama Lengkap''), (''role'', Text ''Peran''),
     (''balance'', Text ''Saldo''), (''orders'', Text ''Pesanan''), (''actions'', Text ''Aksi''), (''addBalance'', Text ''Tambah Saldo''),
     (''deductBalance'', Text ''Kurang Saldo''), (''updateRole'', Text ''Ubah Peran''), (''changeToPremium'', Text ''Naikkan ke Premium''),
     (''changeToPro'', Text ''Naikkan ke Pro''), (''changeToBasic'', Text ''Turunkan ke Basic''), (''amount'', Text ''Jumlah''),
     (''amountPlaceholder'', Text ''Masukkan jumlah...''), (''confirmAddBalance'', Text ''Tambah saldo ke pengguna ini?''),
     (''confirmDeductBalance'', Text ''Kurang saldo dari pengguna ini?''), (''userNotFound'', Text ''Pengguna tidak ditemukan''),
     (''balanceUpdated'', Text ''Saldo berhasil diperbarui''), (''roleUpdated'', Text ''Peran berhasil diperbarui''),
     (''changeToOwner'', Text ''Jadikan Owner''), (''deleteUser'', Text ''Hapus Pengguna''),
     (''deleteConfirm'', Text ''Hapus pengguna ini? Tindakan ini tidak dapat dibatalkan.''), (''totalRedeemCodes'', Text ''Kode Redeem''),
     (''totalRedeemed'', Text ''Kode Ditukarkan''), (''manageBroadcasts'', Text ''Kelola Broadcast''),
     (''broadcastsDesc'', Text ''Pantau, jeda (pause), lanjutkan, dan kelola semua tugas broadcast seluruh pengguna''),
     (''pauseAllRunning'', Text ''Jeda Semua yang Berjalan''), (''stopAllRunning'', Text ''Hentikan Semua''),
     (''clearFinished'', Text ''Bersihkan Job Selesai''), (''pauseJob'', Text ''Jeda Broadcast''), (''resumeJob'', Text ''Lanjutkan Broadcast''),
     (''stopJob'', Text ''Hentikan Broadcast''), (''deleteJob'', Text ''Hapus Broadcast''),
     (''pauseConfirm'', Text ''Yakin ingin menjeda tugas broadcast ini?''), (''resumeConfirm'', Text ''Yakin ingin melanjutkan tugas broadcast ini?''),
     (''stopConfirm'', Text ''Yakin ingin menghentikan tugas broadcast ini?''),
     (''deleteJobConfirm'', Text ''Hapus tugas broadcast ini beserta seluruh lognya? Tindakan ini tidak dapat dibatalkan.''),
     (''bulkPauseConfirm'', Text ''Yakin ingin menjeda SEMUA broadcast yang sedang berjalan?''),
     (''bulkStopConfirm'', Text ''Yakin ingin menghentikan SEMUA broadcast aktif?''),
     (''bulkClearConfirm'', Text ''Hapus semua tugas broadcast yang sudah selesai, gagal, atau dihentikan?''),
     (''manageAutoReplies'', Text ''Kelola Auto Reply''), (''autoRepliesDesc'', Text ''Pantau dan kendalikan bot responder auto-reply di seluruh akun''),
     (''connectedAccounts'', Text ''Akun Terhubung''), (''activeAccounts'', Text ''Akun Aktif''), (''expiredAccounts'', Text ''Akun Expired''),
     (''limitedAccounts'', Text ''Akun Terbatasi''), (''broadcastRunning'', Text ''Broadcast Berjalan''),
     (''broadcastFinished'', Text ''Broadcast Selesai''), (''broadcastFailed'', Text ''Broadcast Gagal''), (''broadcastTotal'', Text ''Total Broadcast''),
     (''userDetails'', Text ''Detail Pengguna''), (''userOverview'', Text ''Ringkasan Pengguna''), (''accountHealth'', Text ''Kesehatan Akun Telegram''),
     (''broadcastStats'', Text ''Statistik Broadcast''), (''accountPrices'', Text ''Harga Akun''),
     (''transactions'', Text ''Transaksi Deposit & Penarikan''), (''systemConfig'', Text ''Konfigurasi Sistem''),
     (''onboarding'', Text ''Analitik Onboarding''), (''onboardingTitle'', Text ''Onboarding & Discovery Analytics''),
     (''onboardingSubtitle'', Text ''Survei onboarding pengguna baru, jalur referral, skala akun yang dikelola, dan preferensi modul utama TeleBos.'')]"

definition id_pricing :: dict where
  "id_pricing = Group [
     (''kicker'', Text ''Paket & harga''), (''title'', Text ''Mulai gratis. Naik kelas kalau memang perlu.''),
     (''subtitle'', Text ''Semua paket dibayar lewat voucher, jadi lo nggak perlu nyantumin kartu kredit dulu. Pindah paket kapan saja saat bisnis lo tumbuh.''),
     (''perMonth'', Text ''/bln''), (''perYear'', Text ''/thn''), (''saveDiscount'', Text ''Hemat {discount}''), (''monthly'', Text ''Bulanan''),
     (''yearly'', Text ''Tahunan''), (''equivalentMonthly'', Text ''Setara {price}/bln, ditagih tahunan''),
     (''cta'', Group [(''freetrial'', Text ''Mulai gratis''), (''basic'', Text ''Ambil Starter''), (''pro'', Text ''Ambil Pro''), (''premium'', Text ''Ambil Business'')]),
     (''currentPlan'', Text ''Paket lo sekarang''), (''popular'', Text ''Paling banyak dipilih''),
     (''headers'', Group [(''freetrial'', Text ''Free Trial''), (''basic'', Text ''Starter''), (''pro'', Text ''Pro''), (''premium'', Text ''Business'')]),
     (''desc'', Group [(''freetrial'', Text ''Coba gratis selama 5 jam. 1 akun, fitur auto-reply, dengan watermark.''), (''basic'', Text ''Cobain dulu. Kelola satu akun, balas chat, dan auto-join tanpa watermark.''), (''pro'', Text ''Untuk yang sudah broadcast tiap hari dan butuh auto-reply jalan tanpa lo supervise.''), (''premium'', Text ''Untuk agensi dan tim yang butuh kapasitas lebih besar: hingga 5 akun, scrape member, dan antrean server paling cepat.'')]),
     (''footnote'', Group [(''freetrial'', Text ''Gratis selama 5 jam dari saat lo mendaftar.''), (''basic'', Text ''Cocok untuk mulai coba kelola akun secara efisien.''), (''pro'', Text ''Pilihan paling masuk akal buat channel & grup yang aktif tiap hari.''), (''premium'', Text ''Dipakai digital marketer & agensi yang volumenya sudah tinggi.'')]),
     (''compare'', Group [(''title'', Text ''Bedanya apa?''), (''subtitle'', Text ''Yang berubah antar paket, tanpa basa-basi.''), (''limits'', Text ''Batas utama''), (''rows'', Group [(''accounts'', Text ''Akun Telegram terhubung''), (''broadcast'', Text ''Broadcast massal''), (''autoReply'', Text ''Auto-reply''), (''scheduling'', Text ''Jadwal terjadwal''), (''scrape'', Text ''Scrape member grup''), (''autoJoin'', Text ''Auto-join & auto-invite''), (''proxy'', Text ''Rotasi proxy & multi-sesi''), (''appeals'', Text ''Banding SpamBot otomatis''), (''queue'', Text ''Prioritas antrean server''), (''support'', Text ''Dukungan'')]), (''values'', Group [(''free'', Text ''1 akun''), (''upTo3'', Text ''sampai 3 akun''), (''upTo5'', Text ''sampai 5 akun''), (''unlimited'', Text ''sampai 5 akun''), (''no'', Text ([CHR 226, CHR 128, CHR 148])), (''yes'', Text ([CHR 226, CHR 156, CHR 147])), (''included'', Text ([CHR 226, CHR 156, CHR 147])), (''standard'', Text ''Standar''), (''best'', Text ''Terbaik''), (''hours'', Text ''24/7'')])]),
     (''faq'', Group [(''title'', Text ''Yang sering ditanyain''), (''items'', Group [(''payment'', Group [(''q'', Text ''Bayarnya gimana?''), (''a'', Text (''Pakai voucher kode. redeem di halaman subscription, langsung aktif '' @ [CHR 226, CHR 128, CHR 148] @ '' nggak perlu kartu kredit.''))]), (''upgrade'', Group [(''q'', Text ''Bisa ganti paket di tengah jalan?''), (''a'', Text ''Bisa. Sisa periode ikut dikonversi ke saldo, jadi lo nggak bayar dobel.'')]), (''cancel'', Group [(''q'', Text ''Kalau berhenti, data aku hilang?''), (''a'', Text ''Nggak. Akun Telegram yang udah terhubung tetap nyimpen, cuma fitur berbayarnya yang mati.'')]), (''spam'', Group [(''q'', Text ''Kenapa perlu rotasi proxy?''), (''a'', Text (''Satu IP ngirim ratusan pesan itu cepat kena limit. Rotasi bikin Telegram regards itu datang dari banyak '' @ [CHR 39] @ ''orang'' @ [CHR 39] @ ''.''))])])]),
     (''ctaBand'', Group [(''title'', Text ''Mulai dari paket gratis dulu''), (''body'', Text ''Nggak ada yang perlu lo outsync sebelum lihat hasilnya sendiri.''), (''action'', Text ''Buka dashboard'')])]"

definition id_subscription :: dict where
  "id_subscription = Group [
     (''title'', Text ''Langganan''), (''desc'', Text ''Kelola paket langganan Anda''), (''currentPlan'', Text ''Paket Saat Ini''),
     (''expiresAt'', Text ''Berakhir pada''), (''daysRemaining'', Text ''Hari tersisa''), (''features'', Text ''Fitur''), (''planBasic'', Text ''Basic''),
     (''planPro'', Text ''Pro''), (''planPremium'', Text ''Premium''), (''planOwner'', Text ''Owner''), (''lifetime'', Text ''Permanen''),
     (''noSubscription'', Text ''Tidak Ada Langganan Aktif''), (''active'', Text ''Aktif''), (''expired'', Text ''Kedaluwarsa''),
     (''featureAccounts'', Text ''Multiple akun Telegram''), (''featureBroadcast'', Text ''Broadcast pintar ke grup/channel''),
     (''featureInvite'', Text ''Undang anggota & scraping''), (''featureAutoReply'', Text ''Sistem auto-reply''),
     (''featureChat'', Text ''Pemantauan chat real-time''), (''featureContacts'', Text ''Manajemen kontak''),
     (''featurePriority'', Text ''Dukungan prioritas''), (''upgradePlans'', Text ''Paket Tersedia''), (''redeemBtn'', Text ''Tukar Kode''),
     (''perMonth'', Text ''/bln''), (''basicDesc'', Text ''Mulai dengan alat manajemen Telegram dasar''),
     (''proDesc'', Text ''Buka fitur automasi dan multi-akun''), (''premiumDesc'', Text ''Akses tanpa batas dengan dukungan prioritas dan semua fitur''),
     (''upgradePrompt'', Text ''Tingkatkan dengan kode redeem untuk membuka lebih banyak fitur''), (''recommended'', Text ''Direkomendasikan''),
     (''featureAllFuture'', Text ''Semua fitur mendatang''), (''included'', Text ''Termasuk''), (''notIncluded'', Text ''Tidak termasuk''),
     (''compareFeatures'', Text ''Bandingkan Fitur''), (''feature'', Text ''Fitur''), (''upgradeYourPlan'', Text ''Upgrade paket Anda''),
     (''mySubscription'', Text ''Langganan saya''), (''personal'', Text ''Personal''), (''business'', Text ''Bisnis''),
     (''yourCurrentPlan'', Text ''Paket Anda saat ini''), (''startWithBasics'', Text ''Mulai dengan fitur dasar:''),
     (''everythingInFree'', Text ''Semua fitur di Free, dan:''), (''everythingInPro'', Text ''Semua fitur di Pro, dan:''),
     (''tryTelebos'', Text ''Coba TeleBos''), (''expandedAccess'', Text ''Akses diperluas''), (''yourTelegramAssistant'', Text ''Asisten Telegram Anda''),
     (''billingHelp'', Text ''Punya voucher atau paket aktif? Lihat bantuan billing''), (''upgradeToPro'', Text ''Upgrade ke Pro''),
     (''upgradeToPremium'', Text ''Upgrade ke Premium''), (''voucherRedeemTitle'', Text ''Tukarkan Kode Voucher''),
     (''voucherRedeemDesc'', Text ''Masukkan kode voucher Anda untuk mengaktifkan atau memperpanjang paket langganan.''),
     (''voucherCodePlaceholder'', Text ''Masukkan kode voucher...''), (''redeemCodeAction'', Text ''Tukarkan Sekarang''),
     (''contactSupportPrompt'', Text ''Butuh kode voucher langganan? Hubungi admin support kami di Telegram.''),
     (''invoiceCreated'', Text ''Tagihan pembayaran berhasil dibuat! Mengalihkan ke halaman pembayaran...'')]"

definition id_wallet_1 :: "(string \<times> dict) list" where
  "id_wallet_1 = [
     (''title'', Text ''Dompet''), (''desc'', Text ''Isi saldo Anda atau tarik hasil penjualan.''), (''currentBalance'', Text ''Saldo Tersedia''),
     (''balanceHint'', Text ''Dipakai untuk membeli akun Telegram dan layanan SMM.''), (''topUp'', Text ''Isi Saldo''),
     (''withdraw'', Text ''Tarik Dana''),
     (''topupInstruction'', Text ''Transfer sesuai jumlah ke rekening di bawah, lalu kirim permintaan. Saldo ditambahkan setelah transfer kami konfirmasi.''),
     (''accountName'', Text ''Atas nama''), (''copyAccount'', Text ''Salin detail rekening''),
     (''placeholderWarning'', Text ''Detail rekening belum dikonfigurasi''),
     (''placeholderWarningDesc'', Text ''Ganti detail rekening placeholder sebelum menerima isi saldo sungguhan.''), (''copied'', Text ''Tersalin''),
     (''copyFailed'', Text ''Gagal menyalin. Silakan salin manual.''), (''amount'', Text ''Jumlah''), (''quickAmount'', Text ''Pilih jumlah cepat''),
     (''destinationMethod'', Text ''Tujuan''), (''bankTransfer'', Text ''Transfer bank''), (''ewallet'', Text ''E-wallet''),
     (''transferRef'', Text ''Referensi transfer''), (''accountRef'', Text ''Nomor rekening Anda''), (''optional'', Text ''opsional''),
     (''insufficient'', Text ''Jumlah melebihi saldo tersedia Anda.''), (''minimum'', Text ''Permintaan minimum Rp 10.000.''),
     (''submitTopup'', Text ''Buat Pembayaran''), (''submitWithdraw'', Text ''Kirim Permintaan Tarik Dana''),
     (''manualNotice'', Text ''Permintaan ditinjau manual oleh tim kami. Saldo berubah setelah permintaan disetujui.''),
     (''history'', Text ''Riwayat Permintaan''), (''pending'', Text ''menunggu''),
     (''noRequests'', Text ''Belum ada permintaan isi saldo atau tarik dana.''),
     (''needHelp'', Text ''Butuh respons lebih cepat? Tim support bisa mengonfirmasi transfer Anda langsung.''),
     (''contactSupport'', Text ''Hubungi support''),
     (''topupSubmitted'', Text ''Permintaan isi saldo terkirim. Kami konfirmasi setelah transfer terverifikasi.''),
     (''withdrawSubmitted'', Text ''Permintaan tarik dana terkirim. Dana dicairkan setelah disetujui.''),
     (''status'', Group [(''pending'', Text ''Menunggu''), (''approved'', Text ''Disetujui''), (''rejected'', Text ''Ditolak'')]),
     (''createPayment'', Text ''Buat Pembayaran''), (''downloadQr'', Text ''Unduh QR Code''), (''downloadQrSuccess'', Text ''QR Code berhasil diunduh!''),
     (''qrisNotice'', Text ''Scan kode QR menggunakan aplikasi m-Banking atau E-Wallet apa pun.''), (''qrisBadge'', Text ''Otomatis & Instan''),
     (''expiresIn'', Text ''Sisa waktu pembayaran''), (''iHavePaid'', Text ''Saya Sudah Bayar''),
     (''verifyingPayment'', Text ''Memverifikasi pembayaran...''), (''cancelPayment'', Text ''Ganti Nominal / Batalkan''),
     (''invoiceId'', Text ''No. Pesanan''), (''paymentStepsTitle'', Text ''Cara Pembayaran QRIS''),
     (''paymentStep1'', Text ''Buka aplikasi m-Banking (BCA, Mandiri, BRI, dll) atau E-Wallet (GoPay, OVO, DANA, ShopeePay).''),
     (''paymentStep2'', Text ''Pilih menu QRIS / Scan, lalu arahkan kamera ke kode QR atau unggah file QR yang telah diunduh.''),
     (''paymentStep3'', Text ''Periksa nama penerima TELEBOS dan nominal pembayaran, lalu konfirmasi pembayaran.''),
     (''paymentStep4'', Text ''Sistem otomatis mendeteksi dan menambah saldo akun Anda tanpa perlu konfirmasi manual.''),
     (''changeAmount'', Text ''Ganti Nominal''), (''qrisSupported'', Text ''Mendukung semua bank & e-wallet nasional''),
     (''paymentConfirmed'', Text ''Pembayaran QRIS berhasil dikonfirmasi! Saldo telah ditambahkan.''), (''allTransactions'', Text ''Semua Transaksi''),
     (''deposits'', Text ''Deposit (Isi Saldo)''), (''withdrawals'', Text ''Penarikan Dana''), (''allStatus'', Text ''Semua Status''),
     (''searchPlaceholder'', Text ''Cari ID transaksi, bank, atau catatan...''), (''transactionDetails'', Text ''Detail Transaksi''),
     (''selectSavedAccount'', Text ''Pilih Rekening Tersimpan''), (''useManualAccount'', Text ''Input Manual Nomor Lain''),
     (''manageBankAccounts'', Text ''Kelola Rekening''), (''totalDeposits'', Text ''Total Deposit''), (''totalWithdrawals'', Text ''Total Penarikan''),
     (''noMatchingTransactions'', Text ''Tidak ada transaksi yang sesuai dengan filter.''), (''close'', Text ''Tutup''),
     (''depositAmount'', Text ''Nominal Deposit''), (''withdrawAmount'', Text ''Nominal Penarikan''), (''transactionId'', Text ''ID Transaksi''),
     (''transactionType'', Text ''Jenis Transaksi''), (''depositType'', Text ''Deposit Saldo''), (''withdrawType'', Text ''Penarikan Dana''),
     (''methodProvider'', Text ''Metode / Provider''), (''noteAccount'', Text ''Catatan / Rekening''), (''adminFee'', Text ''Biaya Admin''),
     (''adminFeeFree'', Text ''Rp 0 (Gratis)''), (''transactionTime'', Text ''Waktu Transaksi''),
     (''statusExplanationPending'', Text ''Transaksi ini sedang dalam antrean verifikasi otomatis/manual. Saldo akan otomatis bertambah/berkurang setelah disetujui.''),
     (''statusExplanationApproved'', Text ''Transaksi telah berhasil diselesaikan. Saldo akun Anda telah diperbarui sesuai nominal transaksi ini.''),
     (''statusExplanationRejected'', Text ''Transaksi ini ditolak oleh sistem atau admin. Silakan periksa kembali detail pembayaran atau hubungi pusat bantuan.''),
     (''qrProcessError'', Text ''Gagal memproses gambar QR''), (''qrDownloadError'', Text ''Gagal mengunduh QR Code''),
     (''paymentRecordedToast'', Text ''Invoice pembayaran telah dicatat. Mohon tunggu verifikasi otomatis/admin.''),
     (''topupFailedToast'', Text ''Gagal membuat invoice top up''), (''withdrawFailedToast'', Text ''Gagal mengajukan penarikan''),
     (''notificationTopupCreatedTitle'', Text ''Tagihan Top Up Dibuat''),
     (''notificationTopupCreatedMessage'', Text ''Tagihan {amount} ({method}) telah dibuat. Selesaikan pembayaran sebelum batas waktu.''),
     (''notificationTopupApprovedTitle'', Text ''Top Up Berhasil''),
     (''notificationTopupApprovedMessage'', Text ''Saldo sebesar {amount} telah berhasil ditambahkan ke dompet Anda.''),
     (''notificationTopupRejectedTitle'', Text ''Top Up Dibatalkan / Kedaluwarsa''),
     (''notificationTopupRejectedMessage'', Text ''Tagihan top up sebesar {amount} telah kedaluwarsa atau dibatalkan.''),
     (''notificationWithdrawCreatedTitle'', Text ''Permintaan Penarikan Terkirim''),
     (''notificationWithdrawCreatedMessage'', Text ''Penarikan sebesar {amount} ({method}) sedang menunggu konfirmasi admin.''),
     (''notificationWithdrawApprovedTitle'', Text ''Penarikan Berhasil''),
     (''notificationWithdrawApprovedMessage'', Text ''Penarikan sebesar {amount} telah disetujui dan dicairkan ke rekening Anda.''),
     (''notificationWithdrawRejectedTitle'', Text ''Penarikan Ditolak''),
     (''notificationWithdrawRejectedMessage'', Text ''Penarikan sebesar {amount} ditolak. Saldo telah dikembalikan ke dompet Anda.''),
     (''withdrawOtpTitle'', Text ''Verifikasi Keamanan Penarikan Dana''),
     (''withdrawOtpDesc'', Text ''Demi keamanan dana Anda, masukkan 6-digit kode OTP yang kami kirimkan ke email Anda.''),
     (''withdrawOtpSent'', Text ''Kode verifikasi telah dikirim ke {email}''), (''withdrawOtpLabel'', Text ''Kode OTP (6-Digit)''),
     (''withdrawOtpPlaceholder'', Text ''Masukkan 6 digit angka''), (''withdrawOtpResend'', Text ''Kirim Ulang Kode''),
     (''withdrawOtpResendIn'', Text ''Kirim ulang dalam {seconds}d''), (''withdrawOtpConfirm'', Text ''Konfirmasi & Tarik Dana''),
     (''withdrawOtpSending'', Text ''Memproses...''), (''notificationAdminAdjustmentTitle'', Text ''Penyesuaian Saldo''),
     (''notificationAdminAdjustmentMessage'', Text ''Saldo Anda disesuaikan ({action}) sebesar {amount} oleh admin.''),
     (''notificationRedeemSuccessTitle'', Text ''Voucher Berhasil Digunakan''),
     (''notificationRedeemSuccessMessage'', Text ''Voucher {code} berhasil ditukarkan ke akun Anda.''),
     (''paymentPendingToast'', Text ''Pembayaran belum terdeteksi. Sistem mengecek status setiap 5 detik, atau coba periksa kembali sebentar lagi.''),
     (''paymentCheckFailed'', Text ''Gagal memeriksa status pembayaran. Silakan coba beberapa saat lagi.''),
     (''totalTransferBill'', Text ''Total Tagihan Transfer''), (''includesUniqueCode'', Text ''Termasuk Kode Unik''),
     (''copyAmountTitle'', Text ''Salin nominal transfer''),
     (''uniqueCodeNotice'', Text ''Wajib transfer tepat hingga 3 digit terakhir agar saldo otomatis masuk.''),
     (''nationalPaymentStandard'', Text ''Standar Pembayaran Nasional''), (''checkingStatus'', Text ''Mengecek Status...''),
     (''checkPaymentStatus'', Text ''Cek Status Pembayaran''),
     (''autoCheckNotice'', Text ''Status pembayaran otomatis diperiksa setiap 5 detik. Saldo langsung bertambah setelah transfer berhasil.''),
     (''supportsLabel'', Text ''Mendukung:''), (''selectDestinationAccount'', Text ''Pilih rekening tujuan''), (''defaultBadge'', Text ''Utama''),
     (''noSavedAccountsDesc'', Text ''Anda belum memiliki rekening tersimpan untuk penarikan dana.''), (''addAccount'', Text ''Tambahkan Rekening''),
     (''topupNotice'', Text ''Setelah menekan Buat Pembayaran, Anda dapat memindai atau mengunduh kode QRIS untuk menyelesaikan transaksi.''),
     (''withdrawalAccountsTitle'', Text ''Rekening Penarikan''), (''manage'', Text ''Kelola''), (''accountHolderPrefix'', Text ''A.N.''),
     (''noSavedAccountsShort'', Text ''Belum ada rekening penarikan yang disimpan.''),
     (''addAccountInSettings'', Text ''+ Tambah Rekening di Pengaturan''),
     (''savedAccountsHint'', Text ''Rekening yang disimpan akan mempermudah Anda melakukan penarikan saldo tanpa harus mengetik ulang nomor rekening.''),
     (''transactionTermsTitle'', Text ''Ketentuan Transaksi''), (''termQrisFree'', Text ''Deposit QRIS otomatis terverifikasi tanpa biaya admin.''),
     (''termWithdrawSpeed'', Text ''Penarikan diproses 1-15 menit pada jam kerja.''),
     (''termMinimumLimit'', Text ''Batas minimum deposit dan penarikan Rp 10.000.''), (''needHelpShort'', Text ''Butuh bantuan?''),
     (''historySubtitle'', Text ''Catatan lengkap riwayat deposit (isi saldo) dan penarikan dana akun Anda.''), (''resetFilter'', Text ''Reset Filter''),
     (''showingTransactionsCount'', Text ''Menampilkan {current} dari {total} transaksi''),
     (''modalTransferBillNotice'', Text ''Tagihan Transfer: {amount} (termasuk kode unik)''), (''openQrisPayment'', Text ''Buka QRIS Pembayaran''),
     (''yourEmail'', Text ''email Anda''), (''withdrawOtpSentSimple'', Text ''Kode OTP telah dikirimkan ke email Anda.'')]"

definition id_wallet_2 :: "(string \<times> dict) list" where
  "id_wallet_2 = [
     (''withdrawOtpRequestFailed'', Text ''Gagal meminta kode OTP penarikan dana.''),
     (''otpResentSuccess'', Text ''Kode OTP baru telah dikirimkan ke email Anda.''), (''otpResendFailed'', Text ''Gagal mengirim ulang kode OTP.''),
     (''invoiceNotFound'', Text ''Invoice Tidak Ditemukan''),
     (''invoiceNotFoundDesc'', Text ''Transaksi tidak ditemukan atau Anda tidak memiliki akses.''), (''backToWallet'', Text ''Kembali ke Dompet''),
     (''paymentStatusLabel'', Text ''Status Pembayaran:''), (''waitingForPayment'', Text ''Menunggu Pembayaran''), (''successful'', Text ''Berhasil''),
     (''cancelled'', Text ''Dibatalkan''), (''saveQrCode'', Text ''Simpan Kode QR''), (''back'', Text ''Kembali''),
     (''checkPayment'', Text ''Cek Pembayaran''), (''invoiceTotalPaid'', Text ''Total Dibayar:''), (''completionTime'', Text ''Waktu Penyelesaian:''),
     (''viewWallet'', Text ''Lihat Dompet''), (''cancelledExpiredTitle'', Text ''Transaksi Dibatalkan / Kedaluwarsa''),
     (''cancelledExpiredDesc'', Text ''Waktu pembayaran untuk invoice ini telah berakhir atau dibatalkan. Silakan lakukan transaksi baru jika ingin melanjutkan.''),
     (''invoiceSubscriptionTitle'', Text ''Invoice Langganan''),
     (''invoiceSubscriptionSubtitle'', Text ''Selesaikan pembayaran QRIS untuk mengaktifkan paket langganan Anda.''),
     (''invoiceSubscriptionSuccessTitle'', Text ''Langganan Berhasil Diaktifkan!''),
     (''invoiceSubscriptionSuccessDesc'', Text ''Pembayaran QRIS telah terverifikasi. Paket langganan Anda kini telah aktif dan siap digunakan.''),
     (''invoiceSubscriptionCta'', Text ''Buka Halaman Langganan''), (''invoiceSmmTitle'', Text ''Invoice Layanan SMM''),
     (''invoiceSmmSubtitle'', Text ''Selesaikan pembayaran QRIS untuk memproses pesanan layanan SMM Anda.''),
     (''invoiceSmmSuccessTitle'', Text ''Pesanan SMM Berhasil Diproses!''),
     (''invoiceSmmSuccessDesc'', Text ''Pembayaran QRIS telah terverifikasi. Pesanan layanan SMM Anda sedang diproses oleh sistem.''),
     (''invoiceSmmCta'', Text ''Lihat Riwayat Pesanan''), (''invoiceMarketplaceTitle'', Text ''Invoice Pembelian Akun Telegram''),
     (''invoiceMarketplaceSubtitle'', Text ''Selesaikan pembayaran QRIS untuk mengklaim dan mentransfer akun Telegram ke workspace Anda.''),
     (''invoiceMarketplaceSuccessTitle'', Text ''Akun Telegram Berhasil Ditransfer!''),
     (''invoiceMarketplaceSuccessDesc'', Text ''Pembayaran QRIS telah terverifikasi. Sesi akun Telegram telah ditransfer ke vault akun Anda.''),
     (''invoiceMarketplaceCta'', Text ''Buka Kelola Akun''), (''invoiceTopupTitle'', Text ''Invoice Top Up Saldo''),
     (''invoiceTopupSubtitle'', Text ''Selesaikan pembayaran QRIS untuk menambah saldo dompet Anda.''),
     (''invoiceTopupSuccessTitle'', Text ''Pembayaran Berhasil! Saldo Telah Masuk''),
     (''invoiceTopupSuccessDesc'', Text ''Pembayaran QRIS telah terverifikasi. Saldo telah berhasil ditambahkan ke dompet Anda.''),
     (''invoiceTopupCta'', Text ''Buka Dompet Saya'')]"

definition id_wallet :: dict where
  "id_wallet = Group (id_wallet_1 @ id_wallet_2)"

definition id_redeem :: dict where
  "id_redeem = Group [
     (''title'', Text ''Tukar Kode''), (''desc'', Text ''Masukkan kode redeem untuk mendapatkan kredit atau akses langganan''),
     (''codeLabel'', Text ''Kode Redeem''), (''codePlaceholder'', Text ''Masukkan kode Anda...''), (''redeem'', Text ''Tukar''),
     (''redeeming'', Text ''Menukarkan...''), (''success'', Text ''Kode berhasil ditukarkan!''), (''error'', Text ''Gagal menukarkan kode''),
     (''invalidCode'', Text ''Kode tidak valid. Periksa kembali.''), (''expiredCode'', Text ''Kode ini sudah kedaluwarsa.''),
     (''maxUsed'', Text ''Kode ini sudah mencapai batas maksimal penggunaan.''), (''heroTitle'', Text ''Tukar Kode Anda''),
     (''heroDesc'', Text ''Masukkan kode redeem di bawah untuk menambah kredit ke saldo atau mengaktifkan paket langganan.''),
     (''yourBalance'', Text ''Saldo Anda''), (''yourPlan'', Text ''Paket Anda''), (''howItWorks'', Text ''Cara Kerja Kode Redeem''),
     (''balanceCodeDesc'', Text ''Kode saldo menambahkan kredit ke dompet Anda yang dapat digunakan untuk membeli akun dan layanan.''),
     (''subscriptionCodeDesc'', Text ''Kode langganan meningkatkan paket Anda ke Pro atau Premium dengan durasi tertentu.''),
     (''pasteCode'', Text ''Tempel''), (''creditsAdded'', Text ''kredit ditambahkan ke saldo Anda''), (''planUpgraded'', Text ''Paket ditingkatkan ke''),
     (''validUntil'', Text ''Berlaku sampai''), (''viewSubscription'', Text ''Lihat Detail Langganan'')]"

definition id_adminRedeem :: dict where
  "id_adminRedeem = Group [
     (''title'', Text ''Kode Redeem''), (''desc'', Text ''Buat dan kelola kode redeem untuk pengguna''), (''createCode'', Text ''Buat Kode''),
     (''codeType'', Text ''Tipe Kode''), (''plan'', Text ''Paket''), (''amount'', Text ''Jumlah''), (''maxUses'', Text ''Maks Penggunaan''),
     (''durationDays'', Text ''Durasi (hari)''), (''expiresAt'', Text ''Kode Kedaluwarsa''), (''prefix'', Text ''Awalan Kode (opsional)''),
     (''createdCodes'', Text ''Kode yang Dibuat''), (''logs'', Text ''Riwayat Penukaran''), (''code'', Text ''Kode''), (''type'', Text ''Tipe''),
     (''used'', Text ''Terpakai''), (''status'', Text ''Status''), (''createdBy'', Text ''Dibuat Oleh''), (''createdAt'', Text ''Dibuat Pada''),
     (''active'', Text ''Aktif''), (''inactive'', Text ''Nonaktif''), (''typeBalance'', Text ''Saldo''), (''typeSubscription'', Text ''Langganan''),
     (''noCodes'', Text ''Belum ada kode redeem.''), (''codeCreated'', Text ''Kode redeem berhasil dibuat!''),
     (''deleteConfirm'', Text ''Nonaktifkan kode ini? Tidak dapat digunakan lagi.''), (''user'', Text ''Pengguna''),
     (''redeemedAt'', Text ''Ditukar Pada''), (''detail'', Text ''Detail''), (''noLogs'', Text ''Belum ada riwayat penukaran.'')]"

definition id_ageChecker :: dict where
  "id_ageChecker = Group [
     (''title'', Text ''Cek Umur ID Telegram''), (''subtitle'', Text ''Estimasi waktu pembuatan akun Telegram berdasarkan numeric User ID.''),
     (''inputLabel'', Text ''ID Telegram''), (''inputPlaceholder'', Text ''Masukkan ID Telegram (contoh: 1350180828)''),
     (''checkButton'', Text ''Estimasi Tanggal Registrasi''), (''checking'', Text ''Menghitung...''), (''resultTitle'', Text ''Hasil Estimasi''),
     (''estRegDate'', Text ''Estimasi Tanggal Registrasi''), (''estAge'', Text ''Estimasi Umur Akun''), (''statusLabel'', Text ''Status Estimasi''),
     (''explanationTitle'', Text ''Bagaimana cara kerjanya?''),
     (''explanationText'', Text ''User ID Telegram diberikan secara berurutan. Alat ini mengestimasi tanggal pendaftaran dengan melakukan interpolasi linear antara data pendaftaran yang terverifikasi di database kami. Akurasi estimasi bergantung pada kepadatan titik data di sekitar ID target.''),
     (''errorInvalidId'', Text ''Silakan masukkan ID Telegram angka positif yang valid.''), (''statusExact'', Text ''Cocok Persis Terverifikasi''),
     (''statusApprox'', Text ''Estimasi Interpolasi (Mendekati)''), (''statusOlder'', Text ''Lebih lama dari batas minimum dataset (Mendekati)''),
     (''statusNewer'', Text ''Lebih baru dari batas maksimum dataset (Mendekati)''),
     (''statusUnknown'', Text ''Tidak Diketahui (Gagal melakukan interpolasi)''), (''scanButton'', Text ''Pindai Dialog untuk Data Registrasi''),
     (''scanning'', Text ''Memindai...''), (''scanSuccess'', Text ''Berhasil memindai dan mengumpulkan {count} data registrasi baru!'')]"

definition id_actions :: dict where
  "id_actions = Group [
     (''refresh'', Text ''Segarkan'')]"

definition id_theme :: dict where
  "id_theme = Group [
     (''title'', Text ''Tema''), (''light'', Text ''Terang''), (''dark'', Text ''Gelap''), (''system'', Text ''Sistem''),
     (''appearance'', Text ''Tampilan''), (''toggleTheme'', Text ''Ganti tema'')]"

definition id_onboarding :: dict where
  "id_onboarding = Group [
     (''skip'', Text ''Lewati ke Dashboard''), (''back'', Text ''Kembali''), (''next'', Text ''Lanjutkan''),
     (''finish'', Text ''Selesai & Masuk Dashboard''), (''stepIndicator'', Text ''Pertanyaan {current} dari {total}''),
     (''step1Badge'', Text ''Langkah 1: Peran & Profil''), (''step1Title'', Text ''Bagaimana kamu berencana menggunakan TeleBos?''),
     (''step1Subtitle'', Text ''Kami akan menyesuaikan rekomendasi fitur dan dashboard sesuai dengan kebutuhan bisnismu.''),
     (''roleSoloTitle'', Text ''Solo Entrepreneur / Bisnis Pribadi''),
     (''roleSoloDesc'', Text ''Menjalankan bisnis sendiri, online shop, atau personal marketing di Telegram.''),
     (''roleAgencyTitle'', Text ''Agensi & Tim Marketing''),
     (''roleAgencyDesc'', Text ''Mengelola puluhan kampanye broadcast dan akun Telegram untuk banyak klien.''),
     (''roleCommunityTitle'', Text ''Komunitas Kripto & Trading''),
     (''roleCommunityDesc'', Text ''Membangun grup komunitas, broadcast sinyal, dan auto-invite member aktif.''),
     (''roleDeveloperTitle'', Text ''Developer / Automation Engineer''),
     (''roleDeveloperDesc'', Text ''Integrasi API, bot script, scraping data, dan manajemen panel buzzer.''),
     (''roleExploreTitle'', Text ''Lainnya / Ingin Eksplorasi Dulu''),
     (''roleExploreDesc'', Text ''Ingin mencoba dan melihat-lihat fitur yang tersedia di TeleBos.''),
     (''step2Badge'', Text ''Langkah 2: Sumber Informasi''), (''step2Title'', Text ''Dari mana kamu mengetahui tentang TeleBos?''),
     (''step2Subtitle'', Text ''Bantu kami memahami bagaimana kamu menemukan platform TeleBos.''),
     (''refFriendTitle'', Text ''Rekomendasi Teman / Partner''),
     (''refFriendDesc'', Text ''Direkomendasikan langsung oleh rekan kerja, teman, atau partner bisnis.''),
     (''refTelegramTitle'', Text ''Channel / Grup Telegram''),
     (''refTelegramDesc'', Text ''Melihat pesan, sharing, atau rekomendasi di komunitas Telegram lain.''),
     (''refSocialTitle'', Text ''Media Sosial (X, TikTok, Instagram)''),
     (''refSocialDesc'', Text ''Melihat konten review, video demo, atau postingan di media sosial.''),
     (''refSearchTitle'', Text ''Pencarian Google / Mesin Pencari''),
     (''refSearchDesc'', Text ''Mencari tool Telegram multi-akun atau broadcast Telegram di Google.''),
     (''refForumTitle'', Text ''Forum Diskusi / GitHub''),
     (''refForumDesc'', Text ''Menemukan di forum IT, grup Facebook, Reddit, atau repository GitHub.''),
     (''refAdsTitle'', Text ''Iklan / Sponsored Content''), (''refAdsDesc'', Text ''Melihat iklan promosi TeleBos di internet.''),
     (''step3Badge'', Text ''Langkah 3: Skala Penggunaan''), (''step3Title'', Text ''Berapa banyak akun Telegram yang ingin kamu kelola?''),
     (''step3Subtitle'', Text ''Ini membantu kami menyiapkan konfigurasi proxy pool dan rekomendasi warmup akun.''),
     (''vol1to5Title'', Text ''1 - 5 Akun Telegram''), (''vol1to5Desc'', Text ''Cocok untuk pemula, toko online, atau bisnis skala kecil.''),
     (''vol6to20Title'', Text ''6 - 20 Akun Telegram''), (''vol6to20Desc'', Text ''Kebutuhan tim berkembang untuk promosi harian yang konsisten.''),
     (''vol21to50Title'', Text ''21 - 50 Akun Telegram''), (''vol21to50Desc'', Text ''Power user dengan volume broadcast dan rotasi akun teratur.''),
     (''vol50PlusTitle'', Text ''50+ Akun Telegram (Skala Besar)''),
     (''vol50PlusDesc'', Text ''Agensi profesional atau operasi berskala besar dengan multi-proxy.''),
     (''step4Badge'', Text ''Langkah 4: Fitur Prioritas''), (''step4Title'', Text ''Fitur apa yang paling kamu cari di TeleBos?''),
     (''step4Subtitle'', Text ''Pilih semua yang kamu butuhkan (bisa memilih lebih dari satu fitur).''),
     (''featBroadcastTitle'', Text ''Broadcast Massal Terjadwal''),
     (''featBroadcastDesc'', Text ''Kirim pesan promosi massal dengan sleep cycle dan rotasi akun anti-banned.''),
     (''featScrapeTitle'', Text ''Scraping Member & Auto-Invite''),
     (''featScrapeDesc'', Text ''Scrape anggota grup target dan undang otomatis ke channel / grup bisnismu.''),
     (''featWebChatTitle'', Text ''Multi-Account Web Chat''),
     (''featWebChatDesc'', Text ''Baca dan balas chat pelanggan dari seluruh akun langsung di browser tanpa buka aplikasi.''),
     (''featProxyTitle'', Text ''Manajemen Proxy & Isolasi MTProto''),
     (''featProxyDesc'', Text ''Proteksi sidik jari IP unik per akun untuk mencegah deteksi spam dan ban massal.''),
     (''featAutoReplyTitle'', Text ''Auto-Reply & AI Chatbot Support''),
     (''featAutoReplyDesc'', Text ''Respon pesan otomatis 24/7 menggunakan aturan keyword pintar atau bot AI.''),
     (''featSmmTitle'', Text ''Booster SMM & Layanan Buzzer''),
     (''featSmmDesc'', Text ''Tingkatkan member, reaksi, dan views Telegram secara instan via BuzzerPanel ID.''),
     (''step5Badge'', Text ''Langkah 5: Siap Beraksi''), (''step5Title'', Text (''Workspace Kamu Sudah Siap! '' @ [CHR 240, CHR 159, CHR 142, CHR 137])),
     (''step5Subtitle'', Text ''Terima kasih atas jawabanmu! Kami telah menyesuaikan ruang kerja TeleBos sesuai profilmu.''),
     (''summaryRoleLabel'', Text ''Peran Utama''), (''summaryRefLabel'', Text ''Sumber Referral''), (''summaryVolLabel'', Text ''Target Akun''),
     (''summaryFeatLabel'', Text ''Fitur Pilihan''), (''addAccountCta'', Text ''Hubungkan Akun Telegram Pertama''),
     (''addAccountCtaDesc'', Text ''Tambahkan nomor Telegram pertamamu untuk langsung mulai memanfaatkan fitur TeleBos.''),
     (''goToDashboardCta'', Text ''Langsung Masuk ke Dashboard''),
     (''goToDashboardCtaDesc'', Text ''Jelajahi dasbor utama dan kelola seluruh modul Telegram dari satu tempat.''),
     (''welcomeBannerTitle'', Text ''Baru di TeleBos? Isi survei singkat untuk personalisasi!''),
     (''welcomeBannerDesc'', Text ''Bantu kami menyesuaikan rekomendasi fitur dan panduan sesuai kebutuhan bisnismu.''),
     (''welcomeBannerCta'', Text ''Mulai Onboarding''),
     (''promptModalTitle'', Text (''Selamat Datang di TeleBos! '' @ [CHR 240, CHR 159, CHR 154, CHR 128])),
     (''promptModalDesc'', Text ''Bantu kami menyesuaikan workspace dan rekomendasi fitur sesuai kebutuhan bisnis Anda hanya dalam 1 menit.''),
     (''promptBenefit1'', Text ''Personalisasi tata letak dashboard & metrik utama Telegram Anda.''),
     (''promptBenefit2'', Text ''Rekomendasi alur kerja broadcast, scrap, dan multi-akun otomatis.''),
     (''promptBenefit3'', Text ''Bisa diselesaikan kurang dari 60 detik tanpa konfigurasi rumit.''),
     (''promptStartCta'', Text ''Mulai Onboarding Sekarang''), (''promptSkipCta'', Text ''Lewati untuk Sekarang'')]"

definition id_dict :: dict where
  "id_dict = Group [
     (''nav'', id_nav), (''accountFolders'', id_accountFolders), (''navbar'', id_navbar), (''notifications'', id_notifications),
     (''accountSwitcher'', id_accountSwitcher), (''login'', id_login), (''register'', id_register), (''forgotPassword'', id_forgotPassword),
     (''dashboard'', id_dashboard), (''accountsList'', id_accountsList), (''accountCard'', id_accountCard), (''accountOtpModal'', id_accountOtpModal),
     (''accountSelector'', id_accountSelector), (''transferAccounts'', id_transferAccounts), (''addAccount'', id_addAccount),
     (''accountDetail'', id_accountDetail), (''broadcastDashboard'', id_broadcastDashboard), (''newBroadcast'', id_newBroadcast),
     (''groupLists'', id_groupLists), (''textLists'', id_textLists), (''broadcastHistory'', id_broadcastHistory), (''broadcastLogs'', id_broadcastLogs),
     (''broadcastErrors'', id_broadcastErrors), (''chats'', id_chats), (''announcement'', id_announcement), (''contacts'', id_contacts),
     (''autoReply'', id_autoReply), (''settings'', id_settings), (''accountSettings'', id_accountSettings), (''devices'', id_devices),
     (''utils'', id_utils), (''common'', id_common), (''groupsChannels'', id_groupsChannels), (''autoJoin'', id_autoJoin), (''notFound'', id_notFound),
     (''errors'', id_errors), (''help'', id_help), (''landing'', id_landing), (''privacy'', id_privacy), (''tos'', id_tos), (''invite'', id_invite),
     (''orders'', id_orders), (''adminSmm'', id_adminSmm), (''smmOrderManager'', id_smmOrderManager), (''orderServices'', id_orderServices),
     (''admin'', id_admin), (''pricing'', id_pricing), (''subscription'', id_subscription), (''wallet'', id_wallet), (''redeem'', id_redeem),
     (''adminRedeem'', id_adminRedeem), (''ageChecker'', id_ageChecker), (''actions'', id_actions), (''theme'', id_theme), (''onboarding'', id_onboarding)]"

section \<open>Their shape\<close>

lemma fits_id_nav: "conforms id_nav Dict_nav"
  by (simp add: id_nav_def Dict_nav_def)

lemma fits_id_accountFolders: "conforms id_accountFolders Dict_accountFolders"
  by (simp add: id_accountFolders_def Dict_accountFolders_def)

lemma fits_id_navbar: "conforms id_navbar Dict_navbar"
  by (simp add: id_navbar_def Dict_navbar_def)

lemma fits_id_notifications: "conforms id_notifications Dict_notifications"
  by (simp add: id_notifications_def Dict_notifications_def)

lemma fits_id_accountSwitcher: "conforms id_accountSwitcher Dict_accountSwitcher"
  by (simp add: id_accountSwitcher_def Dict_accountSwitcher_def)

lemma fits_id_login: "conforms id_login Dict_login"
  by (simp add: id_login_def Dict_login_def)

lemma fits_id_register: "conforms id_register Dict_register"
  by (simp add: id_register_def Dict_register_def)

lemma fits_id_forgotPassword: "conforms id_forgotPassword Dict_forgotPassword"
  by (simp add: id_forgotPassword_def Dict_forgotPassword_def)

lemma fits_id_dashboard: "conforms id_dashboard Dict_dashboard"
  by (simp add: id_dashboard_def Dict_dashboard_def)

lemma fits_id_accountsList: "conforms id_accountsList Dict_accountsList"
  by (simp add: id_accountsList_def Dict_accountsList_def)

lemma fits_id_accountCard: "conforms id_accountCard Dict_accountCard"
  by (simp add: id_accountCard_def Dict_accountCard_def)

lemma fits_id_accountOtpModal: "conforms id_accountOtpModal Dict_accountOtpModal"
  by (simp add: id_accountOtpModal_def Dict_accountOtpModal_def)

lemma fits_id_accountSelector: "conforms id_accountSelector Dict_accountSelector"
  by (simp add: id_accountSelector_def Dict_accountSelector_def)

lemma fits_id_transferAccounts: "conforms id_transferAccounts Dict_transferAccounts"
  by (simp add: id_transferAccounts_def Dict_transferAccounts_def)

lemma fits_id_addAccount: "conforms id_addAccount Dict_addAccount"
  by (simp add: id_addAccount_def Dict_addAccount_def)

lemma fits_id_accountDetail: "conforms id_accountDetail Dict_accountDetail"
  by (simp add: id_accountDetail_def Dict_accountDetail_def)

lemma fits_id_broadcastDashboard: "conforms id_broadcastDashboard Dict_broadcastDashboard"
  by (simp add: id_broadcastDashboard_def Dict_broadcastDashboard_def)

lemma fits_id_newBroadcast: "conforms id_newBroadcast Dict_newBroadcast"
  by (simp add: id_newBroadcast_def Dict_newBroadcast_def)

lemma fits_id_groupLists: "conforms id_groupLists Dict_groupLists"
  by (simp add: id_groupLists_def Dict_groupLists_def)

lemma fits_id_textLists: "conforms id_textLists Dict_textLists"
  by (simp add: id_textLists_def Dict_textLists_def)

lemma fits_id_broadcastHistory: "conforms id_broadcastHistory Dict_broadcastHistory"
  by (simp add: id_broadcastHistory_def Dict_broadcastHistory_def)

lemma fits_id_broadcastLogs: "conforms id_broadcastLogs Dict_broadcastLogs"
  by (simp add: id_broadcastLogs_def Dict_broadcastLogs_def)

lemma fits_id_broadcastErrors: "conforms id_broadcastErrors Dict_broadcastErrors"
  by (simp add: id_broadcastErrors_def Dict_broadcastErrors_def)

lemma fits_id_chats: "conforms id_chats Dict_chats"
  by (simp add: id_chats_def Dict_chats_def)

lemma fits_id_announcement: "conforms id_announcement Dict_announcement"
  by (simp add: id_announcement_def Dict_announcement_def)

lemma fits_id_contacts: "conforms id_contacts Dict_contacts"
  by (simp add: id_contacts_def Dict_contacts_def)

lemma fits_id_autoReply: "conforms id_autoReply Dict_autoReply"
  by (simp add: id_autoReply_def Dict_autoReply_def)

lemma fits_id_settings: "conforms id_settings Dict_settings"
  by (simp add: id_settings_def id_settings_1_def id_settings_2_def Dict_settings_def Dict_settings_1_def Dict_settings_2_def)

lemma fits_id_accountSettings: "conforms id_accountSettings Dict_accountSettings"
  by (simp add: id_accountSettings_def Dict_accountSettings_def)

lemma fits_id_devices: "conforms id_devices Dict_devices"
  by (simp add: id_devices_def Dict_devices_def)

lemma fits_id_utils: "conforms id_utils Dict_utils"
  by (simp add: id_utils_def Dict_utils_def)

lemma fits_id_common: "conforms id_common Dict_common"
  by (simp add: id_common_def Dict_common_def)

lemma fits_id_groupsChannels: "conforms id_groupsChannels Dict_groupsChannels"
  by (simp add: id_groupsChannels_def Dict_groupsChannels_def)

lemma fits_id_autoJoin: "conforms id_autoJoin Dict_autoJoin"
  by (simp add: id_autoJoin_def Dict_autoJoin_def)

lemma fits_id_notFound: "conforms id_notFound Dict_notFound"
  by (simp add: id_notFound_def Dict_notFound_def)

lemma fits_id_errors: "conforms id_errors Dict_errors"
  by (simp add: id_errors_def Dict_errors_def)

lemma fits_id_help: "conforms id_help Dict_help"
  by (simp add: id_help_def Dict_help_def)

lemma fits_id_landing: "conforms id_landing Dict_landing"
  by (simp add: id_landing_def id_landing_1_def id_landing_2_def Dict_landing_def Dict_landing_1_def Dict_landing_2_def)

lemma fits_id_privacy: "conforms id_privacy Dict_privacy"
  by (simp add: id_privacy_def Dict_privacy_def)

lemma fits_id_tos: "conforms id_tos Dict_tos"
  by (simp add: id_tos_def Dict_tos_def)

lemma fits_id_invite: "conforms id_invite Dict_invite"
  by (simp add: id_invite_def Dict_invite_def)

lemma fits_id_orders: "conforms id_orders Dict_orders"
  by (simp add: id_orders_def id_orders_1_def id_orders_2_def Dict_orders_def Dict_orders_1_def Dict_orders_2_def)

lemma fits_id_adminSmm: "conforms id_adminSmm Dict_adminSmm"
  by (simp add: id_adminSmm_def Dict_adminSmm_def)

lemma fits_id_smmOrderManager: "conforms id_smmOrderManager Dict_smmOrderManager"
  by (simp add: id_smmOrderManager_def Dict_smmOrderManager_def)

lemma fits_id_orderServices: "conforms id_orderServices Dict_orderServices"
  by (simp add: id_orderServices_def Dict_orderServices_def)

lemma fits_id_admin: "conforms id_admin Dict_admin"
  by (simp add: id_admin_def Dict_admin_def)

lemma fits_id_pricing: "conforms id_pricing Dict_pricing"
  by (simp add: id_pricing_def Dict_pricing_def)

lemma fits_id_subscription: "conforms id_subscription Dict_subscription"
  by (simp add: id_subscription_def Dict_subscription_def)

lemma fits_id_wallet: "conforms id_wallet Dict_wallet"
  by (simp add: id_wallet_def id_wallet_1_def id_wallet_2_def Dict_wallet_def Dict_wallet_1_def Dict_wallet_2_def)

lemma fits_id_redeem: "conforms id_redeem Dict_redeem"
  by (simp add: id_redeem_def Dict_redeem_def)

lemma fits_id_adminRedeem: "conforms id_adminRedeem Dict_adminRedeem"
  by (simp add: id_adminRedeem_def Dict_adminRedeem_def)

lemma fits_id_ageChecker: "conforms id_ageChecker Dict_ageChecker"
  by (simp add: id_ageChecker_def Dict_ageChecker_def)

lemma fits_id_actions: "conforms id_actions Dict_actions"
  by (simp add: id_actions_def Dict_actions_def)

lemma fits_id_theme: "conforms id_theme Dict_theme"
  by (simp add: id_theme_def Dict_theme_def)

lemma fits_id_onboarding: "conforms id_onboarding Dict_onboarding"
  by (simp add: id_onboarding_def Dict_onboarding_def)

lemma fits_id_dict: "conforms id_dict Dict"
  by (simp add: id_dict_def Dict_def fits_id_nav fits_id_accountFolders fits_id_navbar fits_id_notifications fits_id_accountSwitcher fits_id_login fits_id_register fits_id_forgotPassword fits_id_dashboard fits_id_accountsList fits_id_accountCard fits_id_accountOtpModal fits_id_accountSelector fits_id_transferAccounts fits_id_addAccount fits_id_accountDetail fits_id_broadcastDashboard fits_id_newBroadcast fits_id_groupLists fits_id_textLists fits_id_broadcastHistory fits_id_broadcastLogs fits_id_broadcastErrors fits_id_chats fits_id_announcement fits_id_contacts fits_id_autoReply fits_id_settings fits_id_accountSettings fits_id_devices fits_id_utils fits_id_common fits_id_groupsChannels fits_id_autoJoin fits_id_notFound fits_id_errors fits_id_help fits_id_landing fits_id_privacy fits_id_tos fits_id_invite fits_id_orders fits_id_adminSmm fits_id_smmOrderManager fits_id_orderServices fits_id_admin fits_id_pricing fits_id_subscription fits_id_wallet fits_id_redeem fits_id_adminRedeem fits_id_ageChecker fits_id_actions fits_id_theme fits_id_onboarding)

end
