(* ===== verification/Dictionaries.thy ===== *)
theory Dictionaries
  imports DictEn DictId AuthPages
begin

text \<open>
  What the two dictionaries promise to the function \<open>t\<close> and the hook \<open>useT\<close> of \<open>I18n\<close>: every text that the interface
  declares is there in both languages, with the same parameters; and what a key that is not declared shows.
\<close>

section \<open>Every text in both languages\<close>

abbreviation dictionary :: "locale_tag \<Rightarrow> dict" where
  "dictionary loc \<equiv> (case loc of En \<Rightarrow> en_dict | Id \<Rightarrow> id_dict)"

lemma dictionary_fits: "conforms (dictionary loc) Dict"
  by (cases loc) (simp_all only: locale_tag.case fits_en_dict fits_id_dict)

lemma translate_found:
  "dict_lookup (dictionary loc) (split_on (CHR ''.'') path) = Some (Text s) \<Longrightarrow>
    translate en_dict id_dict loc path params = (case params of None \<Rightarrow> s | Some ps \<Rightarrow> fill ps s)"
  by (simp add: translate_def Let_def split: option.split)

section \<open>Parameters\<close>

text \<open>The names that \<open>fill\<close> looks up, in order.\<close>

function params_of :: "string \<Rightarrow> string list" where
  "params_of [] = []"
| "params_of (c # cs) =
     (let key = takeWhile is_word cs; rest = dropWhile is_word cs
      in if c = CHR ''{'' \<and> key \<noteq> [] \<and> rest \<noteq> [] \<and> hd rest = CHR ''}'' then key # params_of (tl rest) else params_of cs)"
  by pat_completeness auto
termination
  by (relation "measure length") simp_all

declare params_of.simps(2) [simp del]

lemma fill_cong: "(\<And>k. k \<in> set (params_of s) \<Longrightarrow> ps k = qs k) \<Longrightarrow> fill ps s = fill qs s"
proof (induction s rule: params_of.induct)
  case (2 c cs)
  let ?hit = "c = CHR ''{'' \<and> takeWhile is_word cs \<noteq> [] \<and> dropWhile is_word cs \<noteq> [] \<and> hd (dropWhile is_word cs) = CHR ''}''"
  show ?case
  proof (cases ?hit)
    case True
    then have "params_of (c # cs) = takeWhile is_word cs # params_of (tl (dropWhile is_word cs))"
      by (simp add: params_of.simps(2))
    then show ?thesis using True "2.IH"(1) "2.prems" by (simp add: fill.simps(2) Let_def)
  next
    case False
    then have "params_of (c # cs) = params_of cs" unfolding params_of.simps(2) Let_def by argo
    moreover have "fill f (c # cs) = c # fill f cs" for f using False unfolding fill.simps(2) Let_def by argo
    ultimately show ?thesis using False "2.IH"(2) "2.prems" by simp
  qed
qed (simp add: fill.simps)

text \<open>Evaluation, one rule for each bit that tells a character from an opening brace.\<close>

lemma params_skip: "c \<noteq> CHR ''{'' \<Longrightarrow> params_of (c # s) = params_of s"
  by (simp add: params_of.simps)

lemma params_skip_bits:
  "params_of (Char False b c d e f g h # s) = params_of s" "params_of (Char a False c d e f g h # s) = params_of s"
  "params_of (Char a b True d e f g h # s) = params_of s" "params_of (Char a b c False e f g h # s) = params_of s"
  "params_of (Char a b c d False f g h # s) = params_of s" "params_of (Char a b c d e False g h # s) = params_of s"
  "params_of (Char a b c d e f False h # s) = params_of s" "params_of (Char a b c d e f g True # s) = params_of s"
  by (simp_all add: params_skip)

lemma params_brace:
  "params_of (CHR ''{'' # s) =
     (let key = takeWhile is_word s; rest = dropWhile is_word s
      in if key \<noteq> [] \<and> rest \<noteq> [] \<and> hd rest = CHR ''}'' then key # params_of (tl rest) else params_of s)"
  by (simp add: params_of.simps(2))

lemmas params_eval = params_skip_bits params_brace is_word_def is_alpha_def is_digit_def

fun agree :: "dict \<Rightarrow> dict \<Rightarrow> bool" where
  "agree (Text s) (Text t) = (set (params_of s) = set (params_of t))"
| "agree (Group []) (Group gs) = (gs = [])"
| "agree (Group ((k, d) # fs)) (Group ((k', e) # gs)) = (k = k' \<and> agree d e \<and> agree (Group fs) (Group gs))"
| "agree _ _ = False"

lemma agree_get:
  assumes "agree (Group fs) (Group gs)" "map_of fs k = Some d" "map_of gs k = Some e"
  shows "agree d e"
  using assms by (induction "Group fs" "Group gs" arbitrary: fs gs rule: agree.induct) (auto split: if_splits)

lemma agree_lookup:
  assumes "agree d e" "conforms d t" "conforms e t" "shape_at keys t = Some SText"
  shows "\<exists>u v. dict_lookup d keys = Some (Text u) \<and> dict_lookup e keys = Some (Text v) \<and> set (params_of u) = set (params_of v)"
proof -
  have "\<exists>u v. foldl dict_get (Some d) keys = Some (Text u) \<and> foldl dict_get (Some e) keys = Some (Text v) \<and> set (params_of u) = set (params_of v)"
    if "agree d e" "conforms d t" "conforms e t" "foldl shape_get (Some t) keys = Some SText" for d e t
    using that
  proof (induction keys arbitrary: d e t)
    case Nil
    then have "t = SText" by simp
    then obtain u v where "d = Text u" "e = Text v" using Nil fits_text by blast
    then show ?case using Nil by simp
  next
    case (Cons k keys)
    then obtain t' where t: "shape_get (Some t) k = Some t'" by (cases "shape_get (Some t) k") simp_all
    obtain a where a: "dict_get (Some d) k = Some a" "conforms a t'" using fits_get [OF Cons.prems(2) t] by blast
    obtain b where b: "dict_get (Some e) k = Some b" "conforms b t'" using fits_get [OF Cons.prems(3) t] by blast
    obtain fs gs where g: "d = Group fs" "e = Group gs" using t Cons.prems(2,3) by (cases d; cases e; cases t) auto
    have "agree a b" using agree_get [of fs gs k] Cons.prems(1) a(1) b(1) g by simp
    then show ?case using Cons.IH [OF _ a(2) b(2)] Cons.prems(4) a(1) b(1) t by simp
  qed
  then show ?thesis using assms by (simp add: dict_lookup_def shape_at_def)
qed

section \<open>The groups agree\<close>

lemma agree_nav: "agree en_nav id_nav"
  by (simp add: en_nav_def id_nav_def params_eval)

lemma agree_accountFolders: "agree en_accountFolders id_accountFolders"
  by (simp add: en_accountFolders_def id_accountFolders_def params_eval)

lemma agree_navbar: "agree en_navbar id_navbar"
  by (simp add: en_navbar_def id_navbar_def params_eval)

lemma agree_notifications: "agree en_notifications id_notifications"
  by (simp add: en_notifications_def id_notifications_def params_eval)

lemma agree_accountSwitcher: "agree en_accountSwitcher id_accountSwitcher"
  by (simp add: en_accountSwitcher_def id_accountSwitcher_def params_eval)

lemma agree_login: "agree en_login id_login"
  by (simp add: en_login_def id_login_def params_eval)

lemma agree_register: "agree en_register id_register"
  by (simp add: en_register_def id_register_def params_eval)

lemma agree_forgotPassword: "agree en_forgotPassword id_forgotPassword"
  by (simp add: en_forgotPassword_def id_forgotPassword_def params_eval)

lemma agree_dashboard: "agree en_dashboard id_dashboard"
  by (simp add: en_dashboard_def id_dashboard_def params_eval)

lemma agree_accountsList: "agree en_accountsList id_accountsList"
  by (simp add: en_accountsList_def id_accountsList_def params_eval)

lemma agree_accountCard: "agree en_accountCard id_accountCard"
  by (simp add: en_accountCard_def id_accountCard_def params_eval)

lemma agree_accountOtpModal: "agree en_accountOtpModal id_accountOtpModal"
  by (simp add: en_accountOtpModal_def id_accountOtpModal_def params_eval)

lemma agree_accountSelector: "agree en_accountSelector id_accountSelector"
  by (simp add: en_accountSelector_def id_accountSelector_def params_eval)

lemma agree_transferAccounts: "agree en_transferAccounts id_transferAccounts"
  by (simp add: en_transferAccounts_def id_transferAccounts_def params_eval)

lemma agree_addAccount: "agree en_addAccount id_addAccount"
  by (simp add: en_addAccount_def id_addAccount_def params_eval)

lemma agree_accountDetail: "agree en_accountDetail id_accountDetail"
  by (simp add: en_accountDetail_def id_accountDetail_def params_eval)

lemma agree_broadcastDashboard: "agree en_broadcastDashboard id_broadcastDashboard"
  by (simp add: en_broadcastDashboard_def id_broadcastDashboard_def params_eval)

lemma agree_newBroadcast: "agree en_newBroadcast id_newBroadcast"
  by (simp add: en_newBroadcast_def id_newBroadcast_def params_eval)

lemma agree_groupLists: "agree en_groupLists id_groupLists"
  by (simp add: en_groupLists_def id_groupLists_def params_eval)

lemma agree_textLists: "agree en_textLists id_textLists"
  by (simp add: en_textLists_def id_textLists_def params_eval)

lemma agree_broadcastHistory: "agree en_broadcastHistory id_broadcastHistory"
  by (simp add: en_broadcastHistory_def id_broadcastHistory_def params_eval)

lemma agree_broadcastLogs: "agree en_broadcastLogs id_broadcastLogs"
  by (simp add: en_broadcastLogs_def id_broadcastLogs_def params_eval)

lemma agree_broadcastErrors: "agree en_broadcastErrors id_broadcastErrors"
  by (simp add: en_broadcastErrors_def id_broadcastErrors_def params_eval)

lemma agree_chats: "agree en_chats id_chats"
  by (simp add: en_chats_def id_chats_def params_eval)

lemma agree_announcement: "agree en_announcement id_announcement"
  by (simp add: en_announcement_def id_announcement_def params_eval)

lemma agree_contacts: "agree en_contacts id_contacts"
  by (simp add: en_contacts_def id_contacts_def params_eval)

lemma agree_autoReply: "agree en_autoReply id_autoReply"
  by (simp add: en_autoReply_def id_autoReply_def params_eval)

lemma agree_settings: "agree en_settings id_settings"
  by (simp add: en_settings_def en_settings_1_def en_settings_2_def id_settings_def id_settings_1_def id_settings_2_def params_eval)

lemma agree_accountSettings: "agree en_accountSettings id_accountSettings"
  by (simp add: en_accountSettings_def id_accountSettings_def params_eval)

lemma agree_devices: "agree en_devices id_devices"
  by (simp add: en_devices_def id_devices_def params_eval)

lemma agree_utils: "agree en_utils id_utils"
  by (simp add: en_utils_def id_utils_def params_eval)

lemma agree_common: "agree en_common id_common"
  by (simp add: en_common_def id_common_def params_eval)

lemma agree_groupsChannels: "agree en_groupsChannels id_groupsChannels"
  by (simp add: en_groupsChannels_def id_groupsChannels_def params_eval)

lemma agree_autoJoin: "agree en_autoJoin id_autoJoin"
  by (simp add: en_autoJoin_def id_autoJoin_def params_eval)

lemma agree_notFound: "agree en_notFound id_notFound"
  by (simp add: en_notFound_def id_notFound_def params_eval)

lemma agree_errors: "agree en_errors id_errors"
  by (simp add: en_errors_def id_errors_def params_eval)

lemma agree_help: "agree en_help id_help"
  by (simp add: en_help_def id_help_def params_eval)

lemma agree_landing: "agree en_landing id_landing"
  by (simp add: en_landing_def en_landing_1_def en_landing_2_def id_landing_def id_landing_1_def id_landing_2_def params_eval)

lemma agree_privacy: "agree en_privacy id_privacy"
  by (simp add: en_privacy_def id_privacy_def params_eval)

lemma agree_tos: "agree en_tos id_tos"
  by (simp add: en_tos_def id_tos_def params_eval)

lemma agree_invite: "agree en_invite id_invite"
  by (simp add: en_invite_def id_invite_def params_eval)

lemma agree_orders: "agree en_orders id_orders"
  by (simp add: en_orders_def en_orders_1_def en_orders_2_def id_orders_def id_orders_1_def id_orders_2_def params_eval)

lemma agree_adminSmm: "agree en_adminSmm id_adminSmm"
  by (simp add: en_adminSmm_def id_adminSmm_def params_eval)

lemma agree_smmOrderManager: "agree en_smmOrderManager id_smmOrderManager"
  by (simp add: en_smmOrderManager_def id_smmOrderManager_def params_eval)

lemma agree_orderServices: "agree en_orderServices id_orderServices"
  by (simp add: en_orderServices_def id_orderServices_def params_eval)

lemma agree_admin: "agree en_admin id_admin"
  by (simp add: en_admin_def id_admin_def params_eval)

lemma agree_pricing: "agree en_pricing id_pricing"
  by (simp add: en_pricing_def id_pricing_def params_eval)

lemma agree_subscription: "agree en_subscription id_subscription"
  by (simp add: en_subscription_def id_subscription_def params_eval)

lemma agree_wallet: "agree en_wallet id_wallet"
  by (simp add: en_wallet_def en_wallet_1_def en_wallet_2_def id_wallet_def id_wallet_1_def id_wallet_2_def params_eval)

lemma agree_redeem: "agree en_redeem id_redeem"
  by (simp add: en_redeem_def id_redeem_def params_eval)

lemma agree_adminRedeem: "agree en_adminRedeem id_adminRedeem"
  by (simp add: en_adminRedeem_def id_adminRedeem_def params_eval)

lemma agree_ageChecker: "agree en_ageChecker id_ageChecker"
  by (simp add: en_ageChecker_def id_ageChecker_def params_eval)

lemma agree_actions: "agree en_actions id_actions"
  by (simp add: en_actions_def id_actions_def params_eval)

lemma agree_theme: "agree en_theme id_theme"
  by (simp add: en_theme_def id_theme_def params_eval)

lemma agree_onboarding: "agree en_onboarding id_onboarding"
  by (simp add: en_onboarding_def id_onboarding_def params_eval)

lemma agree_dicts: "agree en_dict id_dict"
  by (simp add: en_dict_def id_dict_def agree_nav agree_accountFolders agree_navbar agree_notifications agree_accountSwitcher agree_login agree_register agree_forgotPassword agree_dashboard agree_accountsList agree_accountCard agree_accountOtpModal agree_accountSelector agree_transferAccounts agree_addAccount agree_accountDetail agree_broadcastDashboard agree_newBroadcast agree_groupLists agree_textLists agree_broadcastHistory agree_broadcastLogs agree_broadcastErrors agree_chats agree_announcement agree_contacts agree_autoReply agree_settings agree_accountSettings agree_devices agree_utils agree_common agree_groupsChannels agree_autoJoin agree_notFound agree_errors agree_help agree_landing agree_privacy agree_tos agree_invite agree_orders agree_adminSmm agree_smmOrderManager agree_orderServices agree_admin agree_pricing agree_subscription agree_wallet agree_redeem agree_adminRedeem agree_ageChecker agree_actions agree_theme agree_onboarding)

section \<open>Properties\<close>

text \<open>C23: a text that the interface declares is in both dictionaries, with the same parameters in both, and is shown from the
  dictionary of the language itself: neither the text of the other language nor the path is ever shown instead, and the
  values that a page gives for one language fill the other as well.\<close>

theorem declared_texts_are_translated:
  assumes "shape_at (split_on (CHR ''.'') path) Dict = Some SText"
  shows "\<exists>s t. dict_lookup en_dict (split_on (CHR ''.'') path) = Some (Text s)
    \<and> dict_lookup id_dict (split_on (CHR ''.'') path) = Some (Text t) \<and> set (params_of s) = set (params_of t)
    \<and> translate en_dict id_dict loc path params =
        (let shown = (case loc of En \<Rightarrow> s | Id \<Rightarrow> t) in case params of None \<Rightarrow> shown | Some ps \<Rightarrow> fill ps shown)"
proof -
  obtain s t where st: "dict_lookup en_dict (split_on (CHR ''.'') path) = Some (Text s)"
    "dict_lookup id_dict (split_on (CHR ''.'') path) = Some (Text t)" "set (params_of s) = set (params_of t)"
    using agree_lookup [OF agree_dicts fits_en_dict fits_id_dict assms] by blast
  have "dict_lookup (dictionary loc) (split_on (CHR ''.'') path) = Some (Text (case loc of En \<Rightarrow> s | Id \<Rightarrow> t))"
    using st(1,2) by (cases loc) simp_all
  from translate_found [OF this] show ?thesis using st by (simp add: Let_def)
qed

theorem declared_texts_are_translated_witness:
  "\<exists>s t. dict_lookup en_dict [''nav'', ''dashboard''] = Some (Text s) \<and> dict_lookup id_dict [''nav'', ''dashboard''] = Some (Text t)
    \<and> set (params_of s) = set (params_of t)
    \<and> translate en_dict id_dict Id ''nav.dashboard'' None = t"
proof -
  have p: "split_on (CHR ''.'') ''nav.dashboard'' = [''nav'', ''dashboard'']" by simp
  have "shape_at [''nav'', ''dashboard''] Dict = Some SText" by (simp add: shape_at_def Dict_def Dict_nav_def)
  then show ?thesis using declared_texts_are_translated [of "''nav.dashboard''" Id None] unfolding p Let_def by simp
qed

text \<open>Keys that pages use and no dictionary has.\<close>

definition undeclared_keys :: "string list" where
  "undeclared_keys = [''orders.create'', ''accountSwitcher.accounts'', ''common.saving'', ''common.cancel'', ''accountsList.expired'',
     ''broadcastHistory.showAllAccounts'', ''newBroadcast.selectAccount'']"

lemma missing_text:
  assumes "split_on (CHR ''.'') path = [g, k]" "shape_get (Some Dict) g = Some t" "shape_get (Some t) k = None" "\<exists>ks. t = SGroup ks"
  shows "translate en_dict id_dict loc path None = path"
proof -
  obtain ks where t: "t = SGroup ks" using assms(4) by blast
  have "dict_get (dict_get (Some (dictionary l)) g) k = None" for l
  proof -
    obtain e where "dict_get (Some (dictionary l)) g = Some e" "conforms e (SGroup ks)" using fits_get [OF dictionary_fits assms(2)] t by blast
    then show ?thesis using missing_get [of e ks k] assms(3) t by simp
  qed
  from this [of loc] this [of En] show ?thesis by (simp add: translate_def dict_lookup_def assms(1))
qed

lemma missing_orders_create: "translate en_dict id_dict loc ''orders.create'' None = ''orders.create''"
  by (rule missing_text [of _ "''orders''" "''create''" Dict_orders]) (simp_all add: Dict_def Dict_orders_def Dict_orders_1_def Dict_orders_2_def)

lemma missing_accountSwitcher_accounts: "translate en_dict id_dict loc ''accountSwitcher.accounts'' None = ''accountSwitcher.accounts''"
  by (rule missing_text [of _ "''accountSwitcher''" "''accounts''" Dict_accountSwitcher]) (simp_all add: Dict_def Dict_accountSwitcher_def)

lemma missing_common_saving: "translate en_dict id_dict loc ''common.saving'' None = ''common.saving''"
  by (rule missing_text [of _ "''common''" "''saving''" Dict_common]) (simp_all add: Dict_def Dict_common_def)

lemma missing_common_cancel: "translate en_dict id_dict loc ''common.cancel'' None = ''common.cancel''"
  by (rule missing_text [of _ "''common''" "''cancel''" Dict_common]) (simp_all add: Dict_def Dict_common_def)

lemma missing_accountsList_expired: "translate en_dict id_dict loc ''accountsList.expired'' None = ''accountsList.expired''"
  by (rule missing_text [of _ "''accountsList''" "''expired''" Dict_accountsList]) (simp_all add: Dict_def Dict_accountsList_def)

lemma missing_broadcastHistory_showAllAccounts: "translate en_dict id_dict loc ''broadcastHistory.showAllAccounts'' None = ''broadcastHistory.showAllAccounts''"
  by (rule missing_text [of _ "''broadcastHistory''" "''showAllAccounts''" Dict_broadcastHistory]) (simp_all add: Dict_def Dict_broadcastHistory_def)

lemma missing_newBroadcast_selectAccount: "translate en_dict id_dict loc ''newBroadcast.selectAccount'' None = ''newBroadcast.selectAccount''"
  by (rule missing_text [of _ "''newBroadcast''" "''selectAccount''" Dict_newBroadcast]) (simp_all add: Dict_def Dict_newBroadcast_def)

text \<open>The path itself is shown for such a key, in both languages; an alternative text after \<open>||\<close> is never reached.\<close>

theorem undeclared_keys_show_their_path:
  "list_all (\<lambda>path. translate en_dict id_dict loc path None = path) undeclared_keys"
  by (simp add: undeclared_keys_def missing_orders_create missing_accountSwitcher_accounts missing_common_saving missing_common_cancel
      missing_accountsList_expired missing_broadcastHistory_showAllAccounts missing_newBroadcast_selectAccount)

text \<open>The texts that the login pages of \<open>AuthPages\<close> show as errors are those of the dictionaries.\<close>

lemma two_steps:
  assumes "split_on (CHR ''.'') path = [g, k]" "dict_get (dict_get (Some (dictionary loc)) g) k = Some (Text s)"
  shows "translate en_dict id_dict loc path None = s"
  using translate_found [of loc path s None] assms by (simp add: dict_lookup_def)

definition login_keys :: "string list" where
  "login_keys = [''login.emailNotVerified'', ''login.loginFailed'', ''login.tooManyMessage'', ''login.googleAuthFailed'',
     ''login.enterEmailToResend'', ''login.resendFailed'']"

lemma login_group: "dict_get (Some (dictionary loc)) ''login'' = Some (case loc of En \<Rightarrow> en_login | Id \<Rightarrow> id_login)"
  by (cases loc) (simp_all add: en_dict_def id_dict_def)

lemma login_text_emailNotVerified: "translate en_dict id_dict loc ''login.emailNotVerified'' None = text_of loc ''login.emailNotVerified''"
proof (rule two_steps [of _ "''login''" "''emailNotVerified''"])
  show "dict_get (dict_get (Some (dictionary loc)) ''login'') ''emailNotVerified'' = Some (Text (text_of loc ''login.emailNotVerified''))"
    unfolding login_group by (cases loc) (simp_all add: en_login_def id_login_def text_of.simps)
qed simp

lemma login_text_loginFailed: "translate en_dict id_dict loc ''login.loginFailed'' None = text_of loc ''login.loginFailed''"
proof (rule two_steps [of _ "''login''" "''loginFailed''"])
  show "dict_get (dict_get (Some (dictionary loc)) ''login'') ''loginFailed'' = Some (Text (text_of loc ''login.loginFailed''))"
    unfolding login_group by (cases loc) (simp_all add: en_login_def id_login_def text_of.simps)
qed simp

lemma login_text_tooManyMessage: "translate en_dict id_dict loc ''login.tooManyMessage'' None = text_of loc ''login.tooManyMessage''"
proof (rule two_steps [of _ "''login''" "''tooManyMessage''"])
  show "dict_get (dict_get (Some (dictionary loc)) ''login'') ''tooManyMessage'' = Some (Text (text_of loc ''login.tooManyMessage''))"
    unfolding login_group by (cases loc) (simp_all add: en_login_def id_login_def text_of.simps)
qed simp

lemma login_text_googleAuthFailed: "translate en_dict id_dict loc ''login.googleAuthFailed'' None = text_of loc ''login.googleAuthFailed''"
proof (rule two_steps [of _ "''login''" "''googleAuthFailed''"])
  show "dict_get (dict_get (Some (dictionary loc)) ''login'') ''googleAuthFailed'' = Some (Text (text_of loc ''login.googleAuthFailed''))"
    unfolding login_group by (cases loc) (simp_all add: en_login_def id_login_def text_of.simps)
qed simp

lemma login_text_enterEmailToResend: "translate en_dict id_dict loc ''login.enterEmailToResend'' None = text_of loc ''login.enterEmailToResend''"
proof (rule two_steps [of _ "''login''" "''enterEmailToResend''"])
  show "dict_get (dict_get (Some (dictionary loc)) ''login'') ''enterEmailToResend'' = Some (Text (text_of loc ''login.enterEmailToResend''))"
    unfolding login_group by (cases loc) (simp_all add: en_login_def id_login_def text_of.simps)
qed simp

lemma login_text_resendFailed: "translate en_dict id_dict loc ''login.resendFailed'' None = text_of loc ''login.resendFailed''"
proof (rule two_steps [of _ "''login''" "''resendFailed''"])
  show "dict_get (dict_get (Some (dictionary loc)) ''login'') ''resendFailed'' = Some (Text (text_of loc ''login.resendFailed''))"
    unfolding login_group by (cases loc) (simp_all add: en_login_def id_login_def text_of.simps)
qed simp

theorem login_texts_are_translations:
  "list_all (\<lambda>k. translate en_dict id_dict loc k None = text_of loc k) login_keys"
  by (simp add: login_keys_def login_text_emailNotVerified
      login_text_loginFailed
      login_text_tooManyMessage
      login_text_googleAuthFailed
      login_text_enterEmailToResend
      login_text_resendFailed)

end
