(* ===== verification/Email.thy ===== *)
theory Email
  imports AuthRoute
begin

text \<open>
  The e-mails, \<open>src/frontend/src/lib/email.ts\<close>: the five templates, the shell around them and the request to the mail
  service, with the hooks of \<open>src/frontend/src/lib/auth.ts\<close> that send them.  A template is the list of its lines.  The environment
  variables, the year, the time and the text that \<open>toLocaleString\<close> makes of a date are arguments; characters beyond 255 are
  written as their UTF-8 bytes.
\<close>

section \<open>The request to the mail service\<close>

text \<open>A variable that is not set is the empty text: the code takes both for missing.\<close>

record mail_env =
  BETTER_AUTH_URL :: string
  NEXT_PUBLIC_URL :: string
  RESEND_API_KEY :: string
  RESEND_FROM_EMAIL :: string

definition getBaseUrl :: "mail_env \<Rightarrow> string" where
  "getBaseUrl env =
     (let url = or_str (BETTER_AUTH_URL env) (or_str (NEXT_PUBLIC_URL env) ''https://telebos.id'')
      in if url \<noteq> [] \<and> last url = CHR ''/'' then butlast url else url)"

record mail_request =
  mr_authorization :: string
  mr_from :: string
  mr_to :: "string list"
  mr_subject :: string
  mr_html :: string

text \<open>The answer: \<open>fetch\<close> throws, or the body is no JSON, or its status and the text of its body with the id in it.\<close>

datatype fetch_answer = FetchThrows | NoJson | Answer bool string

datatype mail_result = MailSent string | KeyMissing | MailRefused string | MailFailed

definition sendEmail :: "mail_env \<Rightarrow> fetch_answer \<Rightarrow> string \<Rightarrow> string \<Rightarrow> string \<Rightarrow> mail_request option \<times> mail_result" where
  "sendEmail env answer recipient subject html =
     (if RESEND_API_KEY env = [] then (None, KeyMissing)
      else (Some \<lparr>mr_authorization = ''Bearer '' @ RESEND_API_KEY env,
                  mr_from = ''TeleBos <'' @ or_str (RESEND_FROM_EMAIL env) ''onboarding@resend.dev'' @ ''>'',
                  mr_to = [recipient], mr_subject = subject, mr_html = html\<rparr>,
            case answer of FetchThrows \<Rightarrow> MailFailed | NoJson \<Rightarrow> MailFailed
            | Answer ok body \<Rightarrow> if ok then MailSent body else MailRefused body))"

section \<open>The shell\<close>

datatype tone = Blue | Amber | Rose

fun accentGradient :: "tone \<Rightarrow> string" where
  "accentGradient Blue = ''linear-gradient(90deg, #2563eb 0%, #3b82f6 100%)''"
| "accentGradient Amber = ''linear-gradient(90deg, #d97706 0%, #f59e0b 100%)''"
| "accentGradient Rose = ''linear-gradient(90deg, #dc2626 0%, #ef4444 100%)''"

fun badgeBg :: "tone \<Rightarrow> string" where
  "badgeBg Blue = ''#eff6ff''" | "badgeBg Amber = ''#fffbeb''" | "badgeBg Rose = ''#fef2f2''"

fun badgeBorder :: "tone \<Rightarrow> string" where
  "badgeBorder Blue = ''#bfdbfe''" | "badgeBorder Amber = ''#fde68a''" | "badgeBorder Rose = ''#fecaca''"

fun badgeTextColor :: "tone \<Rightarrow> string" where
  "badgeTextColor Blue = ''#1d4ed8''" | "badgeTextColor Amber = ''#b45309''" | "badgeTextColor Rose = ''#b91c1c''"

text \<open>The lines above the content, the line with it and the lines below.\<close>

definition shell_top :: "string \<Rightarrow> string \<Rightarrow> string \<Rightarrow> string \<Rightarrow> tone \<Rightarrow> string list" where
  "shell_top baseUrl title preheader badgeText tone = (let logoUrl = baseUrl @ ''/telebos_logo.PNG'' in [
     [],
     ''<!DOCTYPE html PUBLIC \"-//W3C//DTD XHTML 1.0 Transitional//EN\" \"http://www.w3.org/TR/xhtml1/DTD/xhtml1-transitional.dtd\">'',
     ''<html xmlns=\"http://www.w3.org/1999/xhtml\" lang=\"id\">'',
     ''<head>'',
     ''  <meta http-equiv=\"Content-Type\" content=\"text/html; charset=UTF-8\" />'',
     ''  <meta name=\"viewport\" content=\"width=device-width, initial-scale=1.0\" />'',
     ''  <meta name=\"x-apple-disable-message-reformatting\" />'',
     ''  <title>'' @ title @ ''</title>'',
     ''  <style type=\"text/css\">'',
     ''    body {'',
     ''      margin: 0 !important;'',
     ''      padding: 0 !important;'',
     ''      background-color: #f1f5f9;'',
     ''      font-family: -apple-system, BlinkMacSystemFont, '' @ [CHR 39] @ ''Segoe UI'' @ [CHR 39] @ '', Roboto, Helvetica, Arial, sans-serif;'',
     ''      -webkit-font-smoothing: antialiased;'',
     ''      -moz-osx-font-smoothing: grayscale;'',
     ''    }'',
     ''    table { border-collapse: collapse; mso-table-lspace: 0pt; mso-table-rspace: 0pt; }'',
     ''    td, p, a, span { mso-line-height-rule: exactly; }'',
     ''    img { border: 0; outline: none; text-decoration: none; -ms-interpolation-mode: bicubic; }'',
     ''    a { text-decoration: none; }'',
     ''    @media only screen and (max-width: 600px) {'',
     ''      .email-wrapper { padding: 16px 8px !important; }'',
     ''      .email-card { width: 100% !important; border-radius: 8px !important; }'',
     ''      .email-header { padding: 24px 20px 16px 20px !important; }'',
     ''      .email-body { padding: 24px 20px !important; }'',
     ''      .email-footer { padding: 20px 20px !important; }'',
     ''      .email-h1 { font-size: 20px !important; line-height: 28px !important; }'',
     ''      .btn-container { width: 100% !important; }'',
     ''      .btn-link { display: block !important; width: 100% !important; text-align: center !important; padding: 14px 20px !important; box-sizing: border-box !important; }'',
     ''    }'',
     ''  </style>'',
     ''</head>'',
     ''<body style=\"margin: 0; padding: 0; background-color: #f1f5f9;\">'',
     ''  <!-- Preheader text for inbox previews -->'',
     ''  <div style=\"display: none; max-height: 0px; overflow: hidden; font-size: 1px; line-height: 1px; color: #fff; opacity: 0;\">'',
     ''    '' @ preheader,
     ''    &nbsp;&zwnj;&nbsp;&zwnj;&nbsp;&zwnj;&nbsp;&zwnj;&nbsp;&zwnj;&nbsp;&zwnj;&nbsp;&zwnj;&nbsp;&zwnj;&nbsp;&zwnj;&nbsp;&zwnj;'',
     ''  </div>'',
     [],
     ''  <table role=\"presentation\" width=\"100%\" cellpadding=\"0\" cellspacing=\"0\" border=\"0\" style=\"background-color: #f1f5f9;\" class=\"email-wrapper\">'',
     ''    <tr>'',
     ''      <td align=\"center\" style=\"padding: 40px 12px;\">'',
     ''        <!-- Email Container -->'',
     ''        <table role=\"presentation\" width=\"100%\" cellpadding=\"0\" cellspacing=\"0\" border=\"0\" style=\"max-width: 560px; background-color: #ffffff; border-radius: 12px; border: 1px solid #e2e8f0; box-shadow: 0 4px 16px -2px rgba(15, 23, 42, 0.05); overflow: hidden;\" class=\"email-card\">'',
     ''          <!-- Top Accent Stripe -->'',
     ''          <tr>'',
     ''            <td height=\"4\" style=\"background: '' @ accentGradient tone @ ''; line-height: 4px; font-size: 4px;\">&nbsp;</td>'',
     ''          </tr>'',
     [],
     ''          <!-- Header with TeleBos Logo -->'',
     ''          <tr>'',
     ''            <td align=\"center\" style=\"padding: 32px 32px 20px 32px; border-bottom: 1px solid #f1f5f9;\" class=\"email-header\">'',
     ''              <table role=\"presentation\" cellpadding=\"0\" cellspacing=\"0\" border=\"0\" style=\"margin: 0 auto;\">'',
     ''                <tr>'',
     ''                  <td align=\"center\">'',
     ''                    <a href=\"'' @ baseUrl @ ''\" target=\"_blank\" style=\"text-decoration: none; display: inline-block;\">'',
     ''                      <img src=\"'' @ logoUrl @ ''\" alt=\"TeleBos\" width=\"128\" style=\"display: block; max-width: 128px; width: 128px; height: auto; border: 0; outline: none;\" />'',
     ''                    </a>'',
     ''                  </td>'',
     ''                </tr>'',
     ''                <tr>'',
     ''                  <td align=\"center\" style=\"padding-top: 8px;\">'',
     ''                    <span style=\"font-family: -apple-system, BlinkMacSystemFont, '' @ [CHR 39] @ ''Segoe UI'' @ [CHR 39] @ '', Roboto, sans-serif; font-size: 11px; font-weight: 500; color: #94a3b8; letter-spacing: 0.05em; text-transform: uppercase;\">'',
     ''                      Telegram Multi-Account Platform'',
     ''                    </span>'',
     ''                  </td>'',
     ''                </tr>'',
     ''              </table>'',
     ''            </td>'',
     ''          </tr>'',
     [],
     ''          <!-- Main Content Body -->'',
     ''          <tr>'',
     ''            <td style=\"padding: 36px 36px 28px 36px;\" class=\"email-body\">'',
     ''              <!-- Category Badge -->'',
     ''              <table role=\"presentation\" cellpadding=\"0\" cellspacing=\"0\" border=\"0\" style=\"margin-bottom: 16px;\">'',
     ''                <tr>'',
     ''                  <td style=\"background-color: '' @ badgeBg tone @ ''; border: 1px solid '' @ badgeBorder tone @ ''; border-radius: 9999px; padding: 4px 12px;\">'',
     ''                    <span style=\"font-family: -apple-system, BlinkMacSystemFont, '' @ [CHR 39] @ ''Segoe UI'' @ [CHR 39] @ '', Roboto, sans-serif; font-size: 11px; font-weight: 600; color: '' @ badgeTextColor tone @ ''; letter-spacing: 0.04em; text-transform: uppercase;\">'',
     ''                      '' @ badgeText,
     ''                    </span>'',
     ''                  </td>'',
     ''                </tr>'',
     ''              </table>'',
     [],
     ''              <!-- Injected Content -->''])"

definition shell_bottom :: "nat \<Rightarrow> string list" where
  "shell_bottom currentYear = [
     ''            </td>'',
     ''          </tr>'',
     [],
     ''          <!-- Anti-Phishing Security & Signature Footer -->'',
     ''          <tr>'',
     ''            <td style=\"padding: 24px 36px; background-color: #f8fafc; border-top: 1px solid #e2e8f0; text-align: center;\" class=\"email-footer\">'',
     ''              <table role=\"presentation\" width=\"100%\" cellpadding=\"0\" cellspacing=\"0\" border=\"0\">'',
     ''                <tr>'',
     ''                  <td align=\"center\" style=\"padding-bottom: 12px;\">'',
     ''                    <p style=\"font-family: -apple-system, BlinkMacSystemFont, '' @ [CHR 39] @ ''Segoe UI'' @ [CHR 39] @ '', Roboto, sans-serif; font-size: 12px; line-height: 18px; color: #64748b; margin: 0;\">'',
     ''                      <strong style=\"color: #475569;\">Pemberitahuan Keamanan:</strong> TeleBos tidak akan pernah meminta kata sandi Anda melalui email. Pastikan tautan selalu mengarah ke domain resmi kami.'',
     ''                    </p>'',
     ''                  </td>'',
     ''                </tr>'',
     ''                <tr>'',
     ''                  <td align=\"center\" style=\"border-top: 1px solid #e2e8f0; padding-top: 12px;\">'',
     ''                    <p style=\"font-family: -apple-system, BlinkMacSystemFont, '' @ [CHR 39] @ ''Segoe UI'' @ [CHR 39] @ '', Roboto, sans-serif; font-size: 12px; line-height: 18px; color: #94a3b8; margin: 0 0 4px 0;\">'',
     ''                      Email ini dikirim otomatis oleh sistem keamanan resmi TeleBos.'',
     ''                    </p>'',
     ''                    <p style=\"font-family: -apple-system, BlinkMacSystemFont, '' @ [CHR 39] @ ''Segoe UI'' @ [CHR 39] @ '', Roboto, sans-serif; font-size: 11px; line-height: 16px; color: #94a3b8; margin: 0;\">'',
     ''                      &copy; '' @ nat_str currentYear @ '' TeleBos. Seluruh hak cipta dilindungi undang-undang.'',
     ''                    </p>'',
     ''                  </td>'',
     ''                </tr>'',
     ''              </table>'',
     ''            </td>'',
     ''          </tr>'',
     ''        </table>'',
     ''      </td>'',
     ''    </tr>'',
     ''  </table>'',
     ''</body>'',
     ''</html>'',
     ''  '']"

definition renderEmailShell :: "string \<Rightarrow> nat \<Rightarrow> string \<Rightarrow> string \<Rightarrow> string \<Rightarrow> tone \<Rightarrow> string \<Rightarrow> string" where
  "renderEmailShell baseUrl currentYear title preheader badgeText tone contentHtml =
     trim (join_with [CHR 10] (shell_top baseUrl title preheader badgeText tone @
       [''              '' @ contentHtml] @ shell_bottom currentYear))"

section \<open>The templates\<close>

text \<open>The line that greets the reader, the same in all of them.\<close>

definition greeting :: "string \<Rightarrow> string" where
  "greeting name = ''      Halo <strong>'' @ or_str name ''Pengguna TeleBos'' @ ''</strong>,''"

definition verification_content :: "string \<Rightarrow> string \<Rightarrow> string" where
  "verification_content name url = join_with [CHR 10] [
     [],
     ''    <h1 style=\"font-family: -apple-system, BlinkMacSystemFont, '' @ [CHR 39] @ ''Segoe UI'' @ [CHR 39] @ '', Roboto, sans-serif; font-size: 22px; font-weight: 700; color: #0f172a; line-height: 30px; margin: 0 0 16px 0; letter-spacing: -0.02em;\" class=\"email-h1\">'',
     ''      Verifikasi Alamat Email Anda'',
     ''    </h1>'',
     ''    <p style=\"font-family: -apple-system, BlinkMacSystemFont, '' @ [CHR 39] @ ''Segoe UI'' @ [CHR 39] @ '', Roboto, sans-serif; font-size: 15px; line-height: 24px; color: #334155; margin: 0 0 16px 0;\">'',
     greeting name,
     ''    </p>'',
     ''    <p style=\"font-family: -apple-system, BlinkMacSystemFont, '' @ [CHR 39] @ ''Segoe UI'' @ [CHR 39] @ '', Roboto, sans-serif; font-size: 15px; line-height: 24px; color: #334155; margin: 0 0 24px 0;\">'',
     ''      Terima kasih telah mendaftar di TeleBos. Untuk mengaktifkan akun Anda dan mulai mengelola akun Telegram Anda dengan aman, silakan konfirmasi alamat email ini dengan menekan tombol berikut:'',
     ''    </p>'',
     [],
     ''    <!-- Primary Button -->'',
     ''    <table role=\"presentation\" width=\"100%\" cellpadding=\"0\" cellspacing=\"0\" border=\"0\" style=\"margin: 28px 0;\" class=\"btn-container\">'',
     ''      <tr>'',
     ''        <td align=\"center\">'',
     ''          <table role=\"presentation\" cellpadding=\"0\" cellspacing=\"0\" border=\"0\">'',
     ''            <tr>'',
     ''              <td align=\"center\" style=\"border-radius: 8px; background-color: #2563eb;\">'',
     ''                <a href=\"'' @ url @ ''\" target=\"_blank\" class=\"btn-link\" style=\"display: inline-block; padding: 14px 36px; font-family: -apple-system, BlinkMacSystemFont, '' @ [CHR 39] @ ''Segoe UI'' @ [CHR 39] @ '', Roboto, sans-serif; font-size: 15px; font-weight: 600; color: #ffffff !important; text-decoration: none; border-radius: 8px; background-color: #2563eb; letter-spacing: -0.01em;\">'',
     ''                  Verifikasi Email Saya &rarr;'',
     ''                </a>'',
     ''              </td>'',
     ''            </tr>'',
     ''          </table>'',
     ''        </td>'',
     ''      </tr>'',
     ''    </table>'',
     [],
     ''    <!-- Security Info Box -->'',
     ''    <div style=\"background-color: #f8fafc; border: 1px solid #e2e8f0; border-radius: 8px; padding: 16px; margin: 24px 0;\">'',
     ''      <p style=\"font-family: -apple-system, BlinkMacSystemFont, '' @ [CHR 39] @ ''Segoe UI'' @ [CHR 39] @ '', Roboto, sans-serif; font-size: 13px; line-height: 20px; color: #475569; margin: 0;\">'',
     ''        <strong style=\"color: #0f172a;\">Catatan:</strong> Tautan verifikasi ini berlaku selama <strong>24 jam</strong>. Jika Anda tidak merasa mendaftar di TeleBos, Anda dapat mengabaikan email ini dengan aman tanpa tindakan lebih lanjut.'',
     ''      </p>'',
     ''    </div>'',
     [],
     ''    <!-- URL Fallback -->'',
     ''    <div style=\"border-top: 1px solid #f1f5f9; padding-top: 20px; margin-top: 24px;\">'',
     ''      <p style=\"font-family: -apple-system, BlinkMacSystemFont, '' @ [CHR 39] @ ''Segoe UI'' @ [CHR 39] @ '', Roboto, sans-serif; font-size: 12px; line-height: 18px; color: #64748b; margin: 0 0 8px 0;\">'',
     ''        Jika tombol di atas tidak berfungsi, salin dan tempel tautan berikut ke browser web Anda:'',
     ''      </p>'',
     ''      <div style=\"background-color: #f1f5f9; border-radius: 6px; padding: 10px 12px; font-family: ui-monospace, SFMono-Regular, Menlo, Monaco, Consolas, monospace; font-size: 11px; line-height: 16px; color: #2563eb; word-break: break-all;\">'',
     ''        <a href=\"'' @ url @ ''\" target=\"_blank\" style=\"color: #2563eb; text-decoration: underline;\">'' @ url @ ''</a>'',
     ''      </div>'',
     ''    </div>'',
     ''  '']"

definition getVerificationEmailHtml :: "string \<Rightarrow> nat \<Rightarrow> string \<Rightarrow> string \<Rightarrow> string" where
  "getVerificationEmailHtml baseUrl currentYear name url =
     renderEmailShell baseUrl currentYear ''Verifikasi Alamat Email Anda - TeleBos'' ''Konfirmasi alamat email Anda untuk mengaktifkan akun TeleBos.'' ''Aktivasi Akun'' Blue (verification_content name url)"

definition reset_content :: "string \<Rightarrow> string \<Rightarrow> string" where
  "reset_content name url = join_with [CHR 10] [
     [],
     ''    <h1 style=\"font-family: -apple-system, BlinkMacSystemFont, '' @ [CHR 39] @ ''Segoe UI'' @ [CHR 39] @ '', Roboto, sans-serif; font-size: 22px; font-weight: 700; color: #0f172a; line-height: 30px; margin: 0 0 16px 0; letter-spacing: -0.02em;\" class=\"email-h1\">'',
     ''      Atur Ulang Kata Sandi Akun'',
     ''    </h1>'',
     ''    <p style=\"font-family: -apple-system, BlinkMacSystemFont, '' @ [CHR 39] @ ''Segoe UI'' @ [CHR 39] @ '', Roboto, sans-serif; font-size: 15px; line-height: 24px; color: #334155; margin: 0 0 16px 0;\">'',
     greeting name,
     ''    </p>'',
     ''    <p style=\"font-family: -apple-system, BlinkMacSystemFont, '' @ [CHR 39] @ ''Segoe UI'' @ [CHR 39] @ '', Roboto, sans-serif; font-size: 15px; line-height: 24px; color: #334155; margin: 0 0 24px 0;\">'',
     ''      Kami menerima permintaan untuk mengatur ulang kata sandi akun TeleBos Anda. Tekan tombol di bawah ini untuk membuat kata sandi baru yang aman:'',
     ''    </p>'',
     [],
     ''    <!-- Primary Button -->'',
     ''    <table role=\"presentation\" width=\"100%\" cellpadding=\"0\" cellspacing=\"0\" border=\"0\" style=\"margin: 28px 0;\" class=\"btn-container\">'',
     ''      <tr>'',
     ''        <td align=\"center\">'',
     ''          <table role=\"presentation\" cellpadding=\"0\" cellspacing=\"0\" border=\"0\">'',
     ''            <tr>'',
     ''              <td align=\"center\" style=\"border-radius: 8px; background-color: #2563eb;\">'',
     ''                <a href=\"'' @ url @ ''\" target=\"_blank\" class=\"btn-link\" style=\"display: inline-block; padding: 14px 36px; font-family: -apple-system, BlinkMacSystemFont, '' @ [CHR 39] @ ''Segoe UI'' @ [CHR 39] @ '', Roboto, sans-serif; font-size: 15px; font-weight: 600; color: #ffffff !important; text-decoration: none; border-radius: 8px; background-color: #2563eb; letter-spacing: -0.01em;\">'',
     ''                  Atur Ulang Kata Sandi &rarr;'',
     ''                </a>'',
     ''              </td>'',
     ''            </tr>'',
     ''          </table>'',
     ''        </td>'',
     ''      </tr>'',
     ''    </table>'',
     [],
     ''    <!-- Security Info Box -->'',
     ''    <div style=\"background-color: #f8fafc; border: 1px solid #e2e8f0; border-radius: 8px; padding: 16px; margin: 24px 0;\">'',
     ''      <p style=\"font-family: -apple-system, BlinkMacSystemFont, '' @ [CHR 39] @ ''Segoe UI'' @ [CHR 39] @ '', Roboto, sans-serif; font-size: 13px; line-height: 20px; color: #475569; margin: 0;\">'',
     ''        <strong style=\"color: #0f172a;\">Keamanan:</strong> Tautan ini hanya berlaku selama <strong>1 jam</strong>. Jika Anda tidak mengajukan permintaan ini, kata sandi akun Anda tetap aman dan tidak ada perubahan yang terjadi.'',
     ''      </p>'',
     ''    </div>'',
     [],
     ''    <!-- URL Fallback -->'',
     ''    <div style=\"border-top: 1px solid #f1f5f9; padding-top: 20px; margin-top: 24px;\">'',
     ''      <p style=\"font-family: -apple-system, BlinkMacSystemFont, '' @ [CHR 39] @ ''Segoe UI'' @ [CHR 39] @ '', Roboto, sans-serif; font-size: 12px; line-height: 18px; color: #64748b; margin: 0 0 8px 0;\">'',
     ''        Jika tombol di atas tidak berfungsi, salin dan tempel tautan berikut ke browser web Anda:'',
     ''      </p>'',
     ''      <div style=\"background-color: #f1f5f9; border-radius: 6px; padding: 10px 12px; font-family: ui-monospace, SFMono-Regular, Menlo, Monaco, Consolas, monospace; font-size: 11px; line-height: 16px; color: #2563eb; word-break: break-all;\">'',
     ''        <a href=\"'' @ url @ ''\" target=\"_blank\" style=\"color: #2563eb; text-decoration: underline;\">'' @ url @ ''</a>'',
     ''      </div>'',
     ''    </div>'',
     ''  '']"

definition getResetPasswordEmailHtml :: "string \<Rightarrow> nat \<Rightarrow> string \<Rightarrow> string \<Rightarrow> string" where
  "getResetPasswordEmailHtml baseUrl currentYear name url =
     renderEmailShell baseUrl currentYear ''Atur Ulang Kata Sandi - TeleBos'' ''Permintaan untuk mengatur ulang kata sandi akun TeleBos Anda.'' ''Keamanan Akun'' Blue (reset_content name url)"

definition signup_alert_content :: "string \<Rightarrow> string \<Rightarrow> string" where
  "signup_alert_content name email = join_with [CHR 10] [
     [],
     ''    <h1 style=\"font-family: -apple-system, BlinkMacSystemFont, '' @ [CHR 39] @ ''Segoe UI'' @ [CHR 39] @ '', Roboto, sans-serif; font-size: 22px; font-weight: 700; color: #0f172a; line-height: 30px; margin: 0 0 16px 0; letter-spacing: -0.02em;\" class=\"email-h1\">'',
     ''      Pemberitahuan Percobaan Pendaftaran'',
     ''    </h1>'',
     ''    <p style=\"font-family: -apple-system, BlinkMacSystemFont, '' @ [CHR 39] @ ''Segoe UI'' @ [CHR 39] @ '', Roboto, sans-serif; font-size: 15px; line-height: 24px; color: #334155; margin: 0 0 16px 0;\">'',
     greeting name,
     ''    </p>'',
     ''    <p style=\"font-family: -apple-system, BlinkMacSystemFont, '' @ [CHR 39] @ ''Segoe UI'' @ [CHR 39] @ '', Roboto, sans-serif; font-size: 15px; line-height: 24px; color: #334155; margin: 0 0 20px 0;\">'',
     ''      Sistem keamanan kami mendeteksi adanya upaya pendaftaran akun baru menggunakan alamat email Anda (<strong>'' @ email @ ''</strong>) di TeleBos.'',
     ''    </p>'',
     [],
     ''    <!-- Information Card -->'',
     ''    <div style=\"background-color: #fffbeb; border: 1px solid #fde68a; border-left: 4px solid #f59e0b; border-radius: 8px; padding: 16px 20px; margin: 24px 0;\">'',
     ''      <p style=\"font-family: -apple-system, BlinkMacSystemFont, '' @ [CHR 39] @ ''Segoe UI'' @ [CHR 39] @ '', Roboto, sans-serif; font-size: 14px; font-weight: 600; color: #92400e; margin: 0 0 6px 0;\">'',
     ''        Akun Anda Tetap Aman'',
     ''      </p>'',
     ''      <p style=\"font-family: -apple-system, BlinkMacSystemFont, '' @ [CHR 39] @ ''Segoe UI'' @ [CHR 39] @ '', Roboto, sans-serif; font-size: 13px; line-height: 20px; color: #b45309; margin: 0;\">'',
     ''        Pendaftaran ganda telah dicegah secara otomatis oleh sistem pertahanan kami. Tidak ada akun baru yang dibuat dan data Anda tidak terpengaruh.'',
     ''      </p>'',
     ''    </div>'',
     [],
     ''    <!-- Recommendations -->'',
     ''    <table role=\"presentation\" width=\"100%\" cellpadding=\"0\" cellspacing=\"0\" border=\"0\" style=\"margin: 20px 0;\">'',
     ''      <tr>'',
     ''        <td style=\"padding-bottom: 12px;\">'',
     ''          <p style=\"font-family: -apple-system, BlinkMacSystemFont, '' @ [CHR 39] @ ''Segoe UI'' @ [CHR 39] @ '', Roboto, sans-serif; font-size: 14px; line-height: 22px; color: #334155; margin: 0;\">'',
     ''            '' @ [CHR 226, CHR 128, CHR 162] @ '' <strong>Jika ini adalah Anda:</strong> Anda sudah memiliki akun TeleBos. Silakan langsung masuk menggunakan halaman login. Jika Anda lupa kata sandi, gunakan fitur Lupa Kata Sandi.'',
     ''          </p>'',
     ''        </td>'',
     ''      </tr>'',
     ''      <tr>'',
     ''        <td style=\"padding-bottom: 12px;\">'',
     ''          <p style=\"font-family: -apple-system, BlinkMacSystemFont, '' @ [CHR 39] @ ''Segoe UI'' @ [CHR 39] @ '', Roboto, sans-serif; font-size: 14px; line-height: 22px; color: #334155; margin: 0;\">'',
     ''            '' @ [CHR 226, CHR 128, CHR 162] @ '' <strong>Jika bukan Anda:</strong> Anda tidak perlu melakukan apa pun. Tidak ada pihak yang dapat mengakses akun Anda tanpa kata sandi Anda.'',
     ''          </p>'',
     ''        </td>'',
     ''      </tr>'',
     ''    </table>'',
     [],
     ''    <div style=\"background-color: #f8fafc; border: 1px solid #e2e8f0; border-radius: 8px; padding: 14px 16px; margin-top: 16px;\">'',
     ''      <p style=\"font-family: -apple-system, BlinkMacSystemFont, '' @ [CHR 39] @ ''Segoe UI'' @ [CHR 39] @ '', Roboto, sans-serif; font-size: 12px; line-height: 18px; color: #64748b; margin: 0;\">'',
     ''        '' @ [CHR 240, CHR 159, CHR 146, CHR 161] @ '' <strong>Saran Keamanan:</strong> Untuk perlindungan maksimal terhadap akun Anda, pastikan Anda telah mengaktifkan <strong>Verifikasi Dua Langkah (2FA)</strong> di menu Pengaturan Akun.'',
     ''      </p>'',
     ''    </div>'',
     ''  '']"

definition getUnknownSignupAlertEmailHtml :: "string \<Rightarrow> nat \<Rightarrow> string \<Rightarrow> string \<Rightarrow> string" where
  "getUnknownSignupAlertEmailHtml baseUrl currentYear name email =
     renderEmailShell baseUrl currentYear ''Percobaan Pendaftaran - TeleBos'' ''Peringatan keamanan mengenai percobaan pendaftaran dengan email Anda.'' ''Keamanan Akun'' Amber (signup_alert_content name email)"

definition locked_content :: "string \<Rightarrow> string \<Rightarrow> string \<Rightarrow> int \<Rightarrow> int \<Rightarrow> string" where
  "locked_content name email formattedTime remainingMinutes attempts = join_with [CHR 10] [
     [],
     ''    <h1 style=\"font-family: -apple-system, BlinkMacSystemFont, '' @ [CHR 39] @ ''Segoe UI'' @ [CHR 39] @ '', Roboto, sans-serif; font-size: 22px; font-weight: 700; color: #0f172a; line-height: 30px; margin: 0 0 16px 0; letter-spacing: -0.02em;\" class=\"email-h1\">'',
     ''      Akun Dikunci Sementara Waktu'',
     ''    </h1>'',
     ''    <p style=\"font-family: -apple-system, BlinkMacSystemFont, '' @ [CHR 39] @ ''Segoe UI'' @ [CHR 39] @ '', Roboto, sans-serif; font-size: 15px; line-height: 24px; color: #334155; margin: 0 0 16px 0;\">'',
     greeting name,
     ''    </p>'',
     ''    <p style=\"font-family: -apple-system, BlinkMacSystemFont, '' @ [CHR 39] @ ''Segoe UI'' @ [CHR 39] @ '', Roboto, sans-serif; font-size: 15px; line-height: 24px; color: #334155; margin: 0 0 20px 0;\">'',
     ''      Sistem pertahanan otomatis kami mendeteksi adanya <strong>'' @ int_str attempts @ '' kali percobaan masuk gagal</strong> secara beruntun pada akun Anda (<strong>'' @ email @ ''</strong>). Demi melindungi keamanan data Anda dari potensi serangan kata sandi (brute-force), akun Anda telah <strong>dikunci sementara</strong>.'',
     ''    </p>'',
     [],
     ''    <!-- Lock Status Card -->'',
     ''    <div style=\"background-color: #fef2f2; border: 1px solid #fecaca; border-left: 4px solid #dc2626; border-radius: 8px; padding: 16px 20px; margin: 24px 0;\">'',
     ''      <p style=\"font-family: -apple-system, BlinkMacSystemFont, '' @ [CHR 39] @ ''Segoe UI'' @ [CHR 39] @ '', Roboto, sans-serif; font-size: 14px; font-weight: 600; color: #991b1b; margin: 0 0 4px 0;\">'',
     ''        Jadwal Buka Kunci Otomatis'',
     ''      </p>'',
     ''      <p style=\"font-family: -apple-system, BlinkMacSystemFont, '' @ [CHR 39] @ ''Segoe UI'' @ [CHR 39] @ '', Roboto, sans-serif; font-size: 13px; line-height: 20px; color: #b91c1c; margin: 0;\">'',
     ''        Akun akan dibuka kembali secara otomatis pada: <strong>'' @ formattedTime @ ''</strong> (sekitar '' @ int_str remainingMinutes @ '' menit lagi).'',
     ''      </p>'',
     ''    </div>'',
     [],
     ''    <!-- Details Table -->'',
     ''    <table role=\"presentation\" width=\"100%\" cellpadding=\"0\" cellspacing=\"0\" border=\"0\" style=\"margin: 20px 0; border: 1px solid #e2e8f0; border-radius: 8px; overflow: hidden;\">'',
     ''      <tr style=\"background-color: #f8fafc;\">'',
     ''        <td style=\"padding: 12px 16px; font-family: -apple-system, BlinkMacSystemFont, '' @ [CHR 39] @ ''Segoe UI'' @ [CHR 39] @ '', Roboto, sans-serif; font-size: 13px; color: #64748b; border-bottom: 1px solid #e2e8f0;\">'',
     ''          Alamat Email'',
     ''        </td>'',
     ''        <td align=\"right\" style=\"padding: 12px 16px; font-family: -apple-system, BlinkMacSystemFont, '' @ [CHR 39] @ ''Segoe UI'' @ [CHR 39] @ '', Roboto, sans-serif; font-size: 13px; font-weight: 600; color: #0f172a; border-bottom: 1px solid #e2e8f0;\">'',
     ''          '' @ email,
     ''        </td>'',
     ''      </tr>'',
     ''      <tr>'',
     ''        <td style=\"padding: 12px 16px; font-family: -apple-system, BlinkMacSystemFont, '' @ [CHR 39] @ ''Segoe UI'' @ [CHR 39] @ '', Roboto, sans-serif; font-size: 13px; color: #64748b; border-bottom: 1px solid #e2e8f0;\">'',
     ''          Percobaan Gagal Terdeteksi'',
     ''        </td>'',
     ''        <td align=\"right\" style=\"padding: 12px 16px; font-family: -apple-system, BlinkMacSystemFont, '' @ [CHR 39] @ ''Segoe UI'' @ [CHR 39] @ '', Roboto, sans-serif; font-size: 13px; font-weight: 600; color: #dc2626; border-bottom: 1px solid #e2e8f0;\">'',
     ''          '' @ int_str attempts @ '' kali'',
     ''        </td>'',
     ''      </tr>'',
     ''      <tr style=\"background-color: #f8fafc;\">'',
     ''        <td style=\"padding: 12px 16px; font-family: -apple-system, BlinkMacSystemFont, '' @ [CHR 39] @ ''Segoe UI'' @ [CHR 39] @ '', Roboto, sans-serif; font-size: 13px; color: #64748b;\">'',
     ''          Status Akun'',
     ''        </td>'',
     ''        <td align=\"right\" style=\"padding: 12px 16px; font-family: -apple-system, BlinkMacSystemFont, '' @ [CHR 39] @ ''Segoe UI'' @ [CHR 39] @ '', Roboto, sans-serif; font-size: 13px; font-weight: 600; color: #b91c1c;\">'',
     ''          Terkunci Sementara'',
     ''        </td>'',
     ''      </tr>'',
     ''    </table>'',
     [],
     ''    <!-- Next Actions -->'',
     ''    <p style=\"font-family: -apple-system, BlinkMacSystemFont, '' @ [CHR 39] @ ''Segoe UI'' @ [CHR 39] @ '', Roboto, sans-serif; font-size: 14px; line-height: 22px; color: #334155; margin: 20px 0 8px 0;\">'',
     ''      <strong>Langkah selanjutnya:</strong>'',
     ''    </p>'',
     ''    <p style=\"font-family: -apple-system, BlinkMacSystemFont, '' @ [CHR 39] @ ''Segoe UI'' @ [CHR 39] @ '', Roboto, sans-serif; font-size: 13px; line-height: 20px; color: #475569; margin: 0 0 10px 0;\">'',
     ''      '' @ [CHR 226, CHR 128, CHR 162] @ '' Jika Anda lupa kata sandi, silakan gunakan fitur <strong>Lupa Kata Sandi</strong> setelah masa kunci berakhir untuk mengatur ulang kata sandi dengan aman.'',
     ''    </p>'',
     ''    <p style=\"font-family: -apple-system, BlinkMacSystemFont, '' @ [CHR 39] @ ''Segoe UI'' @ [CHR 39] @ '', Roboto, sans-serif; font-size: 13px; line-height: 20px; color: #475569; margin: 0;\">'',
     ''      '' @ [CHR 226, CHR 128, CHR 162] @ '' Jika Anda tidak melakukan percobaan ini, kemungkinan seseorang mencoba menebak kredensial Anda. Kami sangat menyarankan untuk segera memperbarui kata sandi Anda setelah akun terbuka kembali.'',
     ''    </p>'',
     ''  '']"

definition remaining_minutes :: "int \<Rightarrow> int \<Rightarrow> int" where
  "remaining_minutes locked_until now = - ((now - locked_until) div 60000)"

definition getAccountLockedEmailHtml :: "string \<Rightarrow> nat \<Rightarrow> (int \<Rightarrow> string) \<Rightarrow> int \<Rightarrow> string \<Rightarrow> string \<Rightarrow> int \<Rightarrow> int \<Rightarrow> string" where
  "getAccountLockedEmailHtml baseUrl currentYear toLocale now name email locked_until attempts =
     renderEmailShell baseUrl currentYear ''Akun Dikunci Sementara - TeleBos'' ''Pemberitahuan penguncian sementara akun TeleBos Anda demi keamanan.'' ''Perlindungan Akun'' Rose
       (locked_content name email (toLocale locked_until) (remaining_minutes locked_until now) attempts)"

definition suspicious_content :: "string \<Rightarrow> string \<Rightarrow> int \<Rightarrow> string" where
  "suspicious_content name email attempts = join_with [CHR 10] [
     [],
     ''    <h1 style=\"font-family: -apple-system, BlinkMacSystemFont, '' @ [CHR 39] @ ''Segoe UI'' @ [CHR 39] @ '', Roboto, sans-serif; font-size: 22px; font-weight: 700; color: #0f172a; line-height: 30px; margin: 0 0 16px 0; letter-spacing: -0.02em;\" class=\"email-h1\">'',
     ''      Pemberitahuan Percobaan Masuk Gagal'',
     ''    </h1>'',
     ''    <p style=\"font-family: -apple-system, BlinkMacSystemFont, '' @ [CHR 39] @ ''Segoe UI'' @ [CHR 39] @ '', Roboto, sans-serif; font-size: 15px; line-height: 24px; color: #334155; margin: 0 0 16px 0;\">'',
     greeting name,
     ''    </p>'',
     ''    <p style=\"font-family: -apple-system, BlinkMacSystemFont, '' @ [CHR 39] @ ''Segoe UI'' @ [CHR 39] @ '', Roboto, sans-serif; font-size: 15px; line-height: 24px; color: #334155; margin: 0 0 20px 0;\">'',
     ''      Sistem kami mendeteksi <strong>'' @ int_str attempts @ '' kali percobaan masuk gagal</strong> ke akun Anda (<strong>'' @ email @ ''</strong>).'',
     ''    </p>'',
     [],
     ''    <!-- Warning Card -->'',
     ''    <div style=\"background-color: #fffbeb; border: 1px solid #fde68a; border-left: 4px solid #f59e0b; border-radius: 8px; padding: 16px 20px; margin: 24px 0;\">'',
     ''      <p style=\"font-family: -apple-system, BlinkMacSystemFont, '' @ [CHR 39] @ ''Segoe UI'' @ [CHR 39] @ '', Roboto, sans-serif; font-size: 14px; font-weight: 600; color: #92400e; margin: 0 0 4px 0;\">'',
     ''        Peringatan Dini Keamanan'',
     ''      </p>'',
     ''      <p style=\"font-family: -apple-system, BlinkMacSystemFont, '' @ [CHR 39] @ ''Segoe UI'' @ [CHR 39] @ '', Roboto, sans-serif; font-size: 13px; line-height: 20px; color: #b45309; margin: 0;\">'',
     ''        Jika terjadi 5 kali percobaan gagal berturut-turut, akun Anda akan dikunci otomatis demi mencegah akses tidak sah.'',
     ''      </p>'',
     ''    </div>'',
     [],
     ''    <!-- Details Table -->'',
     ''    <table role=\"presentation\" width=\"100%\" cellpadding=\"0\" cellspacing=\"0\" border=\"0\" style=\"margin: 20px 0; border: 1px solid #e2e8f0; border-radius: 8px; overflow: hidden;\">'',
     ''      <tr style=\"background-color: #f8fafc;\">'',
     ''        <td style=\"padding: 12px 16px; font-family: -apple-system, BlinkMacSystemFont, '' @ [CHR 39] @ ''Segoe UI'' @ [CHR 39] @ '', Roboto, sans-serif; font-size: 13px; color: #64748b; border-bottom: 1px solid #e2e8f0;\">'',
     ''          Alamat Email'',
     ''        </td>'',
     ''        <td align=\"right\" style=\"padding: 12px 16px; font-family: -apple-system, BlinkMacSystemFont, '' @ [CHR 39] @ ''Segoe UI'' @ [CHR 39] @ '', Roboto, sans-serif; font-size: 13px; font-weight: 600; color: #0f172a; border-bottom: 1px solid #e2e8f0;\">'',
     ''          '' @ email,
     ''        </td>'',
     ''      </tr>'',
     ''      <tr>'',
     ''        <td style=\"padding: 12px 16px; font-family: -apple-system, BlinkMacSystemFont, '' @ [CHR 39] @ ''Segoe UI'' @ [CHR 39] @ '', Roboto, sans-serif; font-size: 13px; color: #64748b; border-bottom: 1px solid #e2e8f0;\">'',
     ''          Percobaan Gagal Saat Ini'',
     ''        </td>'',
     ''        <td align=\"right\" style=\"padding: 12px 16px; font-family: -apple-system, BlinkMacSystemFont, '' @ [CHR 39] @ ''Segoe UI'' @ [CHR 39] @ '', Roboto, sans-serif; font-size: 13px; font-weight: 600; color: #f59e0b; border-bottom: 1px solid #e2e8f0;\">'',
     ''          '' @ int_str attempts @ '' kali'',
     ''        </td>'',
     ''      </tr>'',
     ''      <tr style=\"background-color: #f8fafc;\">'',
     ''        <td style=\"padding: 12px 16px; font-family: -apple-system, BlinkMacSystemFont, '' @ [CHR 39] @ ''Segoe UI'' @ [CHR 39] @ '', Roboto, sans-serif; font-size: 13px; color: #64748b;\">'',
     ''          Batas Maksimum Sebelum Terkunci'',
     ''        </td>'',
     ''        <td align=\"right\" style=\"padding: 12px 16px; font-family: -apple-system, BlinkMacSystemFont, '' @ [CHR 39] @ ''Segoe UI'' @ [CHR 39] @ '', Roboto, sans-serif; font-size: 13px; font-weight: 600; color: #0f172a;\">'',
     ''          5 kali'',
     ''        </td>'',
     ''      </tr>'',
     ''    </table>'',
     [],
     ''    <p style=\"font-family: -apple-system, BlinkMacSystemFont, '' @ [CHR 39] @ ''Segoe UI'' @ [CHR 39] @ '', Roboto, sans-serif; font-size: 14px; line-height: 22px; color: #334155; margin: 20px 0 8px 0;\">'',
     ''      <strong>Apa yang perlu Anda lakukan?</strong>'',
     ''    </p>'',
     ''    <p style=\"font-family: -apple-system, BlinkMacSystemFont, '' @ [CHR 39] @ ''Segoe UI'' @ [CHR 39] @ '', Roboto, sans-serif; font-size: 13px; line-height: 20px; color: #475569; margin: 0 0 10px 0;\">'',
     ''      '' @ [CHR 226, CHR 128, CHR 162] @ '' <strong>Jika ini adalah Anda:</strong> Harap pastikan Anda memasukkan kata sandi yang benar. Jika lupa, silakan gunakan fitur <strong>Lupa Kata Sandi</strong> sebelum akun terkunci.'',
     ''    </p>'',
     ''    <p style=\"font-family: -apple-system, BlinkMacSystemFont, '' @ [CHR 39] @ ''Segoe UI'' @ [CHR 39] @ '', Roboto, sans-serif; font-size: 13px; line-height: 20px; color: #475569; margin: 0;\">'',
     ''      '' @ [CHR 226, CHR 128, CHR 162] @ '' <strong>Jika bukan Anda:</strong> Akun Anda saat ini masih aman. Namun kami menyarankan Anda untuk memantau aktivitas atau memperbarui kata sandi dengan kombinasi yang lebih kuat.'',
     ''    </p>'',
     ''  '']"

definition getSuspiciousLoginActivityEmailHtml :: "string \<Rightarrow> nat \<Rightarrow> string \<Rightarrow> string \<Rightarrow> int \<Rightarrow> string" where
  "getSuspiciousLoginActivityEmailHtml baseUrl currentYear name email attempts =
     renderEmailShell baseUrl currentYear ''Percobaan Masuk Gagal - TeleBos'' ''Peringatan dini aktivitas masuk gagal pada akun TeleBos Anda.'' ''Aktivitas Masuk'' Amber (suspicious_content name email attempts)"

section \<open>Who sends them\<close>

text \<open>The hooks of \<open>auth.ts\<close>: each waits for the request and drops its result, so the sign-up or the reset goes on in any case.\<close>

definition onExistingUserSignUp :: "mail_env \<Rightarrow> nat \<Rightarrow> fetch_answer \<Rightarrow> string \<Rightarrow> string \<Rightarrow> mail_request option" where
  "onExistingUserSignUp env currentYear answer name email =
     fst (sendEmail env answer email ''Percobaan Pendaftaran Menggunakan Email Anda - TeleBos''
       (getUnknownSignupAlertEmailHtml (getBaseUrl env) currentYear name email))"

definition sendResetPassword :: "mail_env \<Rightarrow> nat \<Rightarrow> fetch_answer \<Rightarrow> string \<Rightarrow> string \<Rightarrow> string \<Rightarrow> mail_request option" where
  "sendResetPassword env currentYear answer name email url =
     fst (sendEmail env answer email ''Atur Ulang Kata Sandi - TeleBos'' (getResetPasswordEmailHtml (getBaseUrl env) currentYear name url))"

definition verification_url :: "mail_env \<Rightarrow> string \<Rightarrow> string" where
  "verification_url env token =
     (let baseUrl = or_str (BETTER_AUTH_URL env) ''http://localhost:3000''
      in baseUrl @ ''/api/auth/verify-email?token='' @ token @ ''&callbackURL='' @ baseUrl @ ''/login?verified=true'')"

definition sendVerificationEmail :: "mail_env \<Rightarrow> nat \<Rightarrow> fetch_answer \<Rightarrow> string \<Rightarrow> string \<Rightarrow> string \<Rightarrow> mail_request option" where
  "sendVerificationEmail env currentYear answer name email token =
     fst (sendEmail env answer email ''Verifikasi Alamat Email Anda - TeleBos''
       (getVerificationEmailHtml (getBaseUrl env) currentYear name (verification_url env token)))"

text \<open>The notifications of \<open>AuthRoute\<close>, as text.\<close>

fun render_mail :: "mail_env \<Rightarrow> nat \<Rightarrow> (int \<Rightarrow> string) \<Rightarrow> int \<Rightarrow> mail_template \<Rightarrow> string" where
  "render_mail env currentYear toLocale now (AccountLockedEmail name email locked_until n) =
     getAccountLockedEmailHtml (getBaseUrl env) currentYear toLocale now name email locked_until n"
| "render_mail env currentYear toLocale now (SuspiciousLoginActivityEmail name email n) =
     getSuspiciousLoginActivityEmailHtml (getBaseUrl env) currentYear name email n"

section \<open>Properties\<close>

text \<open>Without a key nothing is sent; with one there is exactly one request, to the given address alone, with the key.\<close>

theorem mail_goes_to_one_address:
  "case fst (sendEmail env answer recipient subject html) of
     None \<Rightarrow> RESEND_API_KEY env = [] \<and> snd (sendEmail env answer recipient subject html) = KeyMissing
   | Some r \<Rightarrow> RESEND_API_KEY env \<noteq> [] \<and> mr_to r = [recipient] \<and> mr_html r = html
       \<and> (\<forall>i. snd (sendEmail env answer recipient subject html) = MailSent i \<longleftrightarrow> answer = Answer True i)"
  by (auto simp: sendEmail_def split: fetch_answer.splits)

lemma join_with_Cons: "xs \<noteq> [] \<Longrightarrow> join_with d (x # xs) = x @ d @ join_with d xs"
  by (cases xs) simp_all

text \<open>A line that depends on a value, among lines that do not.\<close>

lemma context_here: "\<exists>A B. \<forall>v. join_with d (g v # ys) = A @ g v @ B"
proof (cases ys)
  case Nil
  then show ?thesis by (intro exI [of _ "[]"]) simp
next
  case (Cons y zs)
  then show ?thesis by (intro exI [of _ "[]"] exI [of _ "d @ join_with d ys"]) simp
qed

lemma context_list: "\<exists>A B. \<forall>v. join_with d (us @ g v # f) = A @ g v @ B"
proof (induction us)
  case (Cons u us)
  then obtain A B where "\<forall>v. join_with d (us @ g v # f) = A @ g v @ B" by blast
  then have "\<forall>v. join_with d ((u # us) @ g v # f) = (u @ d @ A) @ g v @ B" by (simp add: join_with_Cons)
  then show ?case by blast
qed (simp add: context_here)

lemma trim_middle: "\<exists>c\<in>set u. \<not> is_ws c \<Longrightarrow> \<exists>c\<in>set w. \<not> is_ws c \<Longrightarrow> trim (u @ v @ w) = dropWhile is_ws u @ v @ rev (dropWhile is_ws (rev w))"
proof -
  assume u: "\<exists>c\<in>set u. \<not> is_ws c" and w: "\<exists>c\<in>set w. \<not> is_ws c"
  have "dropWhile is_ws (u @ v @ w) = dropWhile is_ws u @ v @ w" using u by (induction u) auto
  moreover have "dropWhile is_ws (rev w @ rev v @ rev (dropWhile is_ws u)) = dropWhile is_ws (rev w) @ rev v @ rev (dropWhile is_ws u)"
    using w by (auto simp: dropWhile_append1)
  ultimately show ?thesis by (simp add: trim_def)
qed

lemma line_in_join: "l \<in> set ls \<Longrightarrow> set l \<subseteq> set (join_with d ls)"
  by (induction d ls rule: join_with.induct) auto

lemma join_three: "xs \<noteq> [] \<Longrightarrow> ys \<noteq> [] \<Longrightarrow> join_with d (xs @ [v] @ ys) = join_with d xs @ d @ v @ d @ join_with d ys"
  by (induction xs rule: induct_list012) (simp_all add: join_with_Cons)

lemma shell_lines: "''<head>'' \<in> set (shell_top b t p x tn)" "''</html>'' \<in> set (shell_bottom y)"
  by (simp_all add: shell_top_def shell_bottom_def Let_def)

lemma visible_tag: "''<head>'' \<in> set ls \<or> ''</html>'' \<in> set ls \<Longrightarrow> \<exists>c\<in>set (join_with d ls). \<not> is_ws c"
proof -
  assume "''<head>'' \<in> set ls \<or> ''</html>'' \<in> set ls"
  then have "CHR ''<'' \<in> set (join_with d ls)" using line_in_join [of _ ls d] by fastforce
  then show ?thesis by (intro bexI [of _ "CHR ''<''"]) (simp_all add: is_ws_def)
qed

lemma shell_around: "\<exists>A B. \<forall>v. renderEmailShell b y t p x tn v = A @ v @ B"
proof -
  let ?i = "''              ''"
  let ?u = "join_with [CHR 10] (shell_top b t p x tn) @ [CHR 10] @ ?i" and ?w = "[CHR 10] @ join_with [CHR 10] (shell_bottom y)"
  have "\<exists>c\<in>set ?u. \<not> is_ws c" "\<exists>c\<in>set ?w. \<not> is_ws c"
    using visible_tag [of "shell_top b t p x tn"] visible_tag [of "shell_bottom y"] shell_lines by fastforce+
  then have "trim (?u @ v @ ?w) = dropWhile is_ws ?u @ v @ rev (dropWhile is_ws (rev ?w))" for v by (rule trim_middle)
  moreover have n: "shell_top b t p x tn \<noteq> []" "shell_bottom y \<noteq> []" by (simp_all add: shell_top_def shell_bottom_def Let_def)
  then have "renderEmailShell b y t p x tn v = trim (?u @ v @ ?w)" for v
    unfolding renderEmailShell_def join_three [OF n] by simp
  ultimately show ?thesis by metis
qed

lemma in_shell: "\<exists>A B. \<forall>v. f v = A @ g v @ B \<Longrightarrow> \<exists>A B. \<forall>v. renderEmailShell b y t p x tn (f v) = A @ g v @ B"
proof -
  assume "\<exists>A B. \<forall>v. f v = A @ g v @ B"
  then obtain A B where f: "\<forall>v. f v = A @ g v @ B" by blast
  obtain A' B' where "\<forall>v. renderEmailShell b y t p x tn v = A' @ v @ B'" using shell_around by blast
  then have "\<forall>v. renderEmailShell b y t p x tn (f v) = (A' @ A) @ g v @ (B @ B')" using f by simp
  then show ?thesis by blast
qed

lemma greeted: "\<exists>A B. \<forall>v. f v = A @ greeting v @ B \<Longrightarrow> \<exists>A B. \<forall>v. f v = A @ or_str v ''Pengguna TeleBos'' @ B"
proof -
  assume "\<exists>A B. \<forall>v. f v = A @ greeting v @ B"
  then obtain A B where "\<forall>v. f v = A @ greeting v @ B" by blast
  then have "\<forall>v. f v = (A @ ''      Halo <strong>'') @ or_str v ''Pengguna TeleBos'' @ (''</strong>,'' @ B)" by (simp add: greeting_def)
  then show ?thesis by blast
qed

lemma sixth_line: "\<exists>A B. \<forall>v. join_with d (l1 # l2 # l3 # l4 # l5 # g v # ys) = A @ g v @ B"
  using context_list [of d "[l1, l2, l3, l4, l5]" g ys] by simp

text \<open>The name that a user chose at the sign-up stands in the HTML as it is: nothing escapes it, so markup and links in a name
  are part of a message that the service sends to any address the sign-up names.\<close>

theorem name_is_not_escaped:
  "\<exists>A B. \<forall>name. getVerificationEmailHtml b y name url = A @ or_str name ''Pengguna TeleBos'' @ B"
  unfolding getVerificationEmailHtml_def verification_content_def by (rule greeted, rule in_shell, rule sixth_line)

theorem name_is_not_escaped_in_reset:
  "\<exists>A B. \<forall>name. getResetPasswordEmailHtml b y name url = A @ or_str name ''Pengguna TeleBos'' @ B"
  unfolding getResetPasswordEmailHtml_def reset_content_def by (rule greeted, rule in_shell, rule sixth_line)

text \<open>The notice of a lock gives the minutes that are left, rounded up: as long as the lock runs it is at least one, and it is
  never more than a minute too long.\<close>

theorem remaining_minutes_round_up:
  assumes "now < locked_until"
  shows "1 \<le> remaining_minutes locked_until now \<and> locked_until - now \<le> 60000 * remaining_minutes locked_until now
    \<and> 60000 * remaining_minutes locked_until now < locked_until - now + 60000"
proof -
  have "now - locked_until = 60000 * ((now - locked_until) div 60000) + (now - locked_until) mod 60000" by simp
  moreover have "0 \<le> (now - locked_until) mod 60000" "(now - locked_until) mod 60000 < 60000" by simp_all
  ultimately show ?thesis using assms unfolding remaining_minutes_def by linarith
qed

text \<open>The links of the mails start with the configured address, without a slash at its end.\<close>

theorem base_url_default: "BETTER_AUTH_URL env = [] \<Longrightarrow> NEXT_PUBLIC_URL env = [] \<Longrightarrow> getBaseUrl env = ''https://telebos.id''"
  by (simp add: getBaseUrl_def or_str_def)

text \<open>The link of a verification falls back to the local machine where the pictures of the same mail fall back to the public
  address or the one of the site: without \<open>BETTER_AUTH_URL\<close> a user cannot follow it.\<close>

theorem verification_link_of_unset_url:
  "BETTER_AUTH_URL env = [] \<Longrightarrow> startsWith (verification_url env token) ''http://localhost:3000/'' \<and>
    getBaseUrl env = getBaseUrl (env\<lparr>BETTER_AUTH_URL := or_str (NEXT_PUBLIC_URL env) ''https://telebos.id''\<rparr>)"
  by (simp add: verification_url_def getBaseUrl_def or_str_def Let_def startsWith_iff)

end
