(* ===== verification/BroadcastHistory.thy ===== *)
theory BroadcastHistory
  imports Paging AccountSelector BroadcastHooks Regex I18n
begin

text \<open>
  The history and the logs of broadcasts: \<open>broadcast/history/page.tsx\<close> and \<open>broadcast/logs/page.tsx\<close> under
  \<open>src/frontend/src/app/(dashboard)\<close>, with the accordion of \<open>components/broadcast/cycle-accordion.tsx\<close>, over the requests of
  \<open>BroadcastHooks\<close>.  The dash that stands for a missing value is the argument \<open>dash\<close>.
\<close>

section \<open>The history: figures\<close>

record job_row =
  bj_id :: string
  bj_accounts :: "string list"
  bj_group_list :: "string option"
  bj_text_list :: "string option"
  bj_mode :: string
  bj_custom_text :: "string option"
  bj_status :: string
  bj_sent :: int
  bj_failed :: int

record broadcast_summary =
  bs_running :: int
  bs_completed :: int
  bs_failed :: int
  bs_active_accounts :: int
  bs_total_accounts :: int
  bs_total_sent :: int
  bs_total_failed :: int

definition with_status :: "string \<Rightarrow> job_row list option \<Rightarrow> job_row list" where
  "with_status st jobs = (case jobs of None \<Rightarrow> [] | Some js \<Rightarrow> filter (\<lambda>j. bj_status j = st) js)"

definition count_status :: "(broadcast_summary \<Rightarrow> int) \<Rightarrow> string \<Rightarrow> broadcast_summary option \<Rightarrow> job_row list option \<Rightarrow> int" where
  "count_status field st s jobs = (case s of Some r \<Rightarrow> field r | None \<Rightarrow> int (length (with_status st jobs)))"

definition runningCount :: "broadcast_summary option \<Rightarrow> job_row list option \<Rightarrow> int" where
  "runningCount = count_status bs_running ''running''"

definition completedCount :: "broadcast_summary option \<Rightarrow> job_row list option \<Rightarrow> int" where
  "completedCount = count_status bs_completed ''completed''"

definition failedCount :: "broadcast_summary option \<Rightarrow> job_row list option \<Rightarrow> int" where
  "failedCount = count_status bs_failed ''failed''"

definition accounts_of :: "job_row list \<Rightarrow> string list" where
  "accounts_of js = foldl (foldl js_add) [] (map bj_accounts js)"

definition accountsInUse :: "broadcast_summary option \<Rightarrow> job_row list option \<Rightarrow> int" where
  "accountsInUse s jobs = (case s of Some r \<Rightarrow> bs_active_accounts r | None \<Rightarrow> int (length (accounts_of (with_status ''running'' jobs))))"

definition totalAccountsUsed :: "broadcast_summary option \<Rightarrow> job_row list option \<Rightarrow> int" where
  "totalAccountsUsed s jobs =
     (case s of Some r \<Rightarrow> bs_total_accounts r | None \<Rightarrow> int (length (accounts_of (case jobs of None \<Rightarrow> [] | Some js \<Rightarrow> js))))"

definition sum_field :: "(broadcast_summary \<Rightarrow> int) \<Rightarrow> (job_row \<Rightarrow> int) \<Rightarrow> broadcast_summary option \<Rightarrow> job_row list option \<Rightarrow> int" where
  "sum_field field part s jobs =
     (case s of Some r \<Rightarrow> field r | None \<Rightarrow> (case jobs of None \<Rightarrow> 0 | Some js \<Rightarrow> foldl (\<lambda>n j. n + part j) 0 js))"

definition totalSent :: "broadcast_summary option \<Rightarrow> job_row list option \<Rightarrow> int" where
  "totalSent = sum_field bs_total_sent bj_sent"

definition totalFailed :: "broadcast_summary option \<Rightarrow> job_row list option \<Rightarrow> int" where
  "totalFailed = sum_field bs_total_failed bj_failed"

text \<open>The name of a list by its id, for group lists and for text lists.\<close>

definition list_name :: "string \<Rightarrow> string \<Rightarrow> (string \<times> string) list option \<Rightarrow> string option \<Rightarrow> string" where
  "list_name dash unknown named i =
     (case i of
        None \<Rightarrow> dash
      | Some k \<Rightarrow> if k = [] then dash
          else (case named of None \<Rightarrow> unknown | Some ls \<Rightarrow> (case map_of ls k of None \<Rightarrow> unknown | Some n \<Rightarrow> n)))"

definition text_preview :: "nat \<Rightarrow> string \<Rightarrow> (string option \<Rightarrow> string) \<Rightarrow> job_row \<Rightarrow> string" where
  "text_preview k custom getTextListName job =
     (if bj_mode job = ''single_text''
      then (case bj_custom_text job of
              None \<Rightarrow> custom
            | Some t \<Rightarrow> if t = [] then custom else CHR 34 # take k t @ (if k < length t then ''...'' else []) @ [CHR 34])
      else getTextListName (bj_text_list job))"

section \<open>The history: controls\<close>

datatype job_control = PauseJob | StopJob | ResumeJob | CancelJob | RetryJob | DeleteJob | ViewLogs

definition renderJobActions :: "string \<Rightarrow> job_control list" where
  "renderJobActions status =
     (if status = ''running'' then [PauseJob, StopJob] else []) @
     (if status = ''paused'' then [ResumeJob, StopJob] else []) @
     (if status = ''pending'' then [CancelJob] else []) @
     (if status \<in> set [''completed'', ''cancelled'', ''failed''] then [RetryJob, DeleteJob] else []) @
     (if status \<noteq> ''pending'' then [ViewLogs] else [])"

definition statusVariant :: "string \<Rightarrow> string" where
  "statusVariant status =
     (if status = ''completed'' then ''success'' else if status = ''running'' then ''info''
      else if status = ''failed'' then ''destructive'' else if status = ''paused'' then ''warning'' else ''secondary'')"

datatype job_command = JobAction string string | JobDelete string | JobRetry string

fun job_mutation :: "job_command \<Rightarrow> mutation" where
  "job_mutation (JobAction i a) = useBroadcastAction i a"
| "job_mutation (JobDelete i) = useDeleteBroadcastJob i"
| "job_mutation (JobRetry i) = useRetryBroadcastJob i"

text \<open>\<open>hp_config\<close> is what the open question asks: its title and the request after a yes; it stays when the question is closed.\<close>

record history_view =
  hp_jobs :: "job_row list option"
  hp_page :: nat
  hp_open :: bool
  hp_config :: "(string \<times> job_command) option"
  hp_shown :: "job_row option"
  hp_route :: "string option"
  hp_sent :: "job_command list"

definition JOBS_PER_PAGE :: nat where "JOBS_PER_PAGE = 10"

definition job_list :: "history_view \<Rightarrow> job_row list" where
  "job_list p = (case hp_jobs p of None \<Rightarrow> [] | Some js \<Rightarrow> js)"

definition history_pages :: "history_view \<Rightarrow> nat" where
  "history_pages p = page_count JOBS_PER_PAGE (length (job_list p))"

definition pagedJobs :: "history_view \<Rightarrow> job_row list" where
  "pagedJobs p = page_slice JOBS_PER_PAGE (hp_page p) (job_list p)"

definition clamp_jobs_page :: "history_view \<Rightarrow> history_view" where
  "clamp_jobs_page p = (if history_pages p < hp_page p then p\<lparr>hp_page := history_pages p\<rparr> else p)"

definition jobs_answered :: "job_row list option \<Rightarrow> history_view \<Rightarrow> history_view" where
  "jobs_answered js p = clamp_jobs_page (p\<lparr>hp_jobs := js\<rparr>)"

definition openConfirm :: "string \<Rightarrow> job_command \<Rightarrow> history_view \<Rightarrow> history_view" where
  "openConfirm title r p = p\<lparr>hp_config := Some (title, r), hp_open := True\<rparr>"

definition send_job :: "job_command \<Rightarrow> history_view \<Rightarrow> history_view" where
  "send_job r p = p\<lparr>hp_sent := hp_sent p @ [r]\<rparr>"

definition click_job :: "job_row \<Rightarrow> job_control \<Rightarrow> history_view \<Rightarrow> history_view" where
  "click_job job c p =
     (case c of
        PauseJob \<Rightarrow> send_job (JobAction (bj_id job) ''pause'') p
      | ResumeJob \<Rightarrow> send_job (JobAction (bj_id job) ''resume'') p
      | StopJob \<Rightarrow> openConfirm ''broadcastHistory.stop'' (JobAction (bj_id job) ''stop'') p
      | CancelJob \<Rightarrow> openConfirm ''broadcastHistory.cancel'' (JobAction (bj_id job) ''stop'') p
      | RetryJob \<Rightarrow> send_job (JobRetry (bj_id job)) p
      | DeleteJob \<Rightarrow> openConfirm ''broadcastHistory.delete'' (JobDelete (bj_id job)) p
      | ViewLogs \<Rightarrow> p\<lparr>hp_route := Some (''/broadcast/logs?jobId='' @ bj_id job)\<rparr>)"

definition confirm_job :: "history_view \<Rightarrow> history_view" where
  "confirm_job p =
     (let p1 = (case hp_config p of None \<Rightarrow> p | Some (_, r) \<Rightarrow> send_job r p) in p1\<lparr>hp_open := False, hp_config := None\<rparr>)"

text \<open>The label of the button that says yes, whatever is asked.\<close>

definition confirm_label :: string where "confirm_label = ''broadcastHistory.stop''"

inductive history_step :: "history_view \<Rightarrow> unit \<Rightarrow> history_view \<Rightarrow> bool" where
  jobs_load: "history_step p () (jobs_answered js p)"
| turns: "\<not> hp_open p \<Longrightarrow> k \<in> {1..history_pages p} \<Longrightarrow> history_step p () (p\<lparr>hp_page := k\<rparr>)"
| clicks: "\<not> hp_open p \<Longrightarrow> job \<in> set (pagedJobs p) \<Longrightarrow> c \<in> set (renderJobActions (bj_status job)) \<Longrightarrow> history_step p () (click_job job c p)"
| agrees: "hp_open p \<Longrightarrow> history_step p () (confirm_job p)"
| declines: "history_step p () (p\<lparr>hp_open := False\<rparr>)"
| shows_accounts: "\<not> hp_open p \<Longrightarrow> job \<in> set (pagedJobs p) \<Longrightarrow> history_step p () (p\<lparr>hp_shown := Some job\<rparr>)"
| hides_accounts: "history_step p () (p\<lparr>hp_shown := None\<rparr>)"

definition first_history :: history_view where
  "first_history = \<lparr>hp_jobs = None, hp_page = 1, hp_open = False, hp_config = None, hp_shown = None, hp_route = None, hp_sent = []\<rparr>"

section \<open>The history: properties\<close>

text \<open>What a state of a job offers: a job can be stopped or deleted, never both, and retried only when it has ended.\<close>

theorem controls_by_status:
  "(PauseJob \<in> set (renderJobActions st) \<longleftrightarrow> st = ''running'') \<and> (ResumeJob \<in> set (renderJobActions st) \<longleftrightarrow> st = ''paused'') \<and>
   (StopJob \<in> set (renderJobActions st) \<longleftrightarrow> st \<in> {''running'', ''paused''}) \<and> (CancelJob \<in> set (renderJobActions st) \<longleftrightarrow> st = ''pending'') \<and>
   (DeleteJob \<in> set (renderJobActions st) \<longleftrightarrow> st \<in> {''completed'', ''cancelled'', ''failed''}) \<and>
   (RetryJob \<in> set (renderJobActions st) \<longleftrightarrow> DeleteJob \<in> set (renderJobActions st)) \<and>
   distinct (renderJobActions st)"
  by (auto simp: renderJobActions_def)

lemma set_foldl_js_add: "set (foldl js_add s xs) = set s \<union> set xs" "distinct s \<Longrightarrow> distinct (foldl js_add s xs)"
  by (induction xs arbitrary: s) auto

lemma accounts_of_set: "set (accounts_of js) = \<Union> (set ` set (map bj_accounts js)) \<and> distinct (accounts_of js)"
proof -
  have "set (foldl (foldl js_add) s xss) = set s \<union> \<Union> (set ` set xss)" "distinct s \<Longrightarrow> distinct (foldl (foldl js_add) s xss)"
    for s and xss :: "string list list"
    by (induction xss arbitrary: s) (auto simp: set_foldl_js_add)
  then show ?thesis by (simp add: accounts_of_def)
qed

text \<open>Without a summary the accounts in use are those of the running jobs, each once.\<close>

theorem accounts_in_use_counted:
  "accountsInUse None (Some js) = int (card (\<Union>j\<in>{j \<in> set js. bj_status j = ''running''}. set (bj_accounts j)))"
proof -
  have "length (accounts_of (with_status ''running'' (Some js))) = card (set (accounts_of (with_status ''running'' (Some js))))"
    using accounts_of_set by (metis distinct_card)
  then show ?thesis using accounts_of_set [of "with_status ''running'' (Some js)"] by (simp add: accountsInUse_def with_status_def)
qed

text \<open>On every reachable page the number is in range, so a page of a list that is not empty shows jobs; an open question has a
  request.\<close>

definition history_inv :: "history_view \<Rightarrow> bool" where
  "history_inv p \<longleftrightarrow> 1 \<le> hp_page p \<and> hp_page p \<le> history_pages p \<and> (hp_open p \<longrightarrow> hp_config p \<noteq> None)"

lemmas history_defs = jobs_answered_def clamp_jobs_page_def openConfirm_def send_job_def click_job_def confirm_job_def Let_def

interpretation hist: machine "\<lambda>p. p = first_history" history_step history_inv
proof
  show "history_inv p" if "p = first_history" for p
    using that by (simp add: history_inv_def first_history_def history_pages_def page_count_def)
  show "history_inv q" if "history_inv p" "history_step p l q" for p l q
    using that(2,1)
  proof (induction rule: history_step.induct)
    case (clicks p job c)
    then show ?case by (cases c) (simp_all add: history_inv_def history_defs history_pages_def job_list_def)
  next
    case (agrees p)
    then show ?case by (simp add: history_inv_def history_defs history_pages_def job_list_def split: option.splits prod.splits)
  qed (simp_all add: history_inv_def history_defs history_pages_def job_list_def)
qed

theorem history_page_shows_jobs:
  assumes "reach (\<lambda>p. p = first_history) history_step p" "job_list p \<noteq> []"
  shows "pagedJobs p \<noteq> []"
  using hist.reach_inv [OF assms(1)] page_slice_nonempty [of JOBS_PER_PAGE "hp_page p" "job_list p"] assms(2)
  by (simp add: history_inv_def pagedJobs_def history_pages_def JOBS_PER_PAGE_def)

text \<open>The question is not closed when the list is fetched again: a job that has ended meanwhile is still sent the request of
  the state it was in when the control was pressed.\<close>

theorem stale_question_is_sent:
  assumes "bj_status job = ''running''"
  shows "StopJob \<in> set (renderJobActions (bj_status job)) \<and>
    hp_sent (confirm_job (jobs_answered (Some [job\<lparr>bj_status := ''completed''\<rparr>]) (click_job job StopJob p))) = hp_sent p @ [JobAction (bj_id job) ''stop'']
    \<and> StopJob \<notin> set (renderJobActions (bj_status (job\<lparr>bj_status := ''completed''\<rparr>)))"
  using assms by (simp add: renderJobActions_def history_defs)

section \<open>The logs: cycles\<close>

record log_detail =
  ld_group :: "string option"
  ld_status :: string
  ld_account :: "string option"
  ld_account_name :: "string option"
  ld_error_type :: "string option"
  ld_error_message :: "string option"

record cycle_log =
  cl_cycle :: int
  cl_total :: int
  cl_sent :: int
  cl_fail :: int
  cl_details :: "log_detail list option"

record cycle_summary =
  cy_number :: int
  cy_total :: int
  cy_success :: int
  cy_error :: int
  cy_skipped :: "nat option"

definition summary_of :: "cycle_log \<Rightarrow> cycle_summary" where
  "summary_of l = \<lparr>cy_number = cl_cycle l, cy_total = cl_total l, cy_success = cl_sent l, cy_error = cl_fail l,
     cy_skipped = map_option (\<lambda>ds. length (filter (\<lambda>d. ld_status d = ''skipped'') ds)) (cl_details l)\<rparr>"

definition cycleSummaries :: "cycle_log list option \<Rightarrow> cycle_summary list" where
  "cycleSummaries logs = (case logs of None \<Rightarrow> [] | Some ls \<Rightarrow> sort_key cy_number (map summary_of ls))"

definition sortedCycles :: "cycle_log list option \<Rightarrow> cycle_summary list" where
  "sortedCycles logs = sort_key (\<lambda>c. - cy_number c) (cycleSummaries logs)"

definition latest_cycle :: "cycle_summary list \<Rightarrow> int" where
  "latest_cycle cs = Max (set (map cy_number cs))"

definition CYCLES_PER_PAGE :: nat where "CYCLES_PER_PAGE = 10"

text \<open>\<open>lp_known\<close> is the reference \<open>knownMaxCycleRef\<close>; \<open>lp_param\<close> the parameter \<open>jobId\<close> of the address.\<close>

record cycles_view =
  lp_param :: "string option"
  lp_jobs :: "job_row list option"
  lp_selected :: string
  lp_status :: string
  lp_search :: string
  lp_expanded :: "int option"
  lp_page :: nat
  lp_known :: "int option"
  lp_logs :: "cycle_log list option"

definition new_cycles_view :: "string option \<Rightarrow> cycles_view" where
  "new_cycles_view param = \<lparr>lp_param = param, lp_jobs = None, lp_selected = or_blank param, lp_status = [], lp_search = [], lp_expanded = None,
     lp_page = 1, lp_known = None, lp_logs = None\<rparr>"

text \<open>Selecting a job closes the cycle and goes to the first page; its logs are those of another query.\<close>

definition select_job :: "string \<Rightarrow> cycles_view \<Rightarrow> cycles_view" where
  "select_job i p = (if i = lp_selected p then p else p\<lparr>lp_selected := i, lp_expanded := None, lp_page := 1, lp_logs := None\<rparr>)"

definition auto_select_job :: "cycles_view \<Rightarrow> cycles_view" where
  "auto_select_job p =
     (case lp_jobs p of
        Some (j # js) \<Rightarrow>
          if lp_selected p = [] \<and> or_blank (lp_param p) = []
          then select_job (bj_id (case find (\<lambda>k. bj_status k = ''running'') (j # js) of Some r \<Rightarrow> r | None \<Rightarrow> j)) p else p
      | _ \<Rightarrow> p)"

definition pick_job :: "string \<Rightarrow> cycles_view \<Rightarrow> cycles_view" where
  "pick_job val p = auto_select_job (select_job (if val = ''_none'' then [] else val) p)"

definition selectedJob :: "cycles_view \<Rightarrow> job_row option" where
  "selectedJob p = (case lp_jobs p of None \<Rightarrow> None | Some js \<Rightarrow> find (\<lambda>j. bj_id j = lp_selected p) js)"

text \<open>The two effects after the logs were fetched: the latest cycle is opened when none is, and a new one is followed when
  it is later than the open one.  Both read the open cycle of the rendering before.\<close>

definition expand_latest :: "cycles_view \<Rightarrow> cycles_view \<Rightarrow> cycles_view" where
  "expand_latest before p =
     (let cs = cycleSummaries (lp_logs p)
      in if cs \<noteq> [] \<and> lp_expanded before = None then p\<lparr>lp_expanded := Some (latest_cycle cs)\<rparr> else p)"

definition follow_latest :: "cycles_view \<Rightarrow> cycles_view \<Rightarrow> cycles_view" where
  "follow_latest before p =
     (let cs = cycleSummaries (lp_logs p); latest = latest_cycle cs
      in if cs = [] then p
         else case lp_known p of
                None \<Rightarrow> p\<lparr>lp_known := Some latest\<rparr>
              | Some m \<Rightarrow>
                  if m < latest
                  then (let p1 = p\<lparr>lp_known := Some latest, lp_page := 1\<rparr>
                        in case lp_expanded before of None \<Rightarrow> p1 | Some e \<Rightarrow> if e < latest then p1\<lparr>lp_expanded := Some latest\<rparr> else p1)
                  else p)"

definition logs_answered :: "cycle_log list \<Rightarrow> cycles_view \<Rightarrow> cycles_view" where
  "logs_answered ls p = (let q = p\<lparr>lp_logs := Some ls\<rparr> in follow_latest q (expand_latest q q))"

definition totalCyclePages :: "cycles_view \<Rightarrow> nat" where
  "totalCyclePages p = page_count CYCLES_PER_PAGE (length (sortedCycles (lp_logs p)))"

definition displayedCycles :: "cycles_view \<Rightarrow> cycle_summary list" where
  "displayedCycles p = page_slice CYCLES_PER_PAGE (lp_page p) (sortedCycles (lp_logs p))"

text \<open>The open cycle cannot be closed, only exchanged.\<close>

definition toggle_cycle :: "int \<Rightarrow> cycles_view \<Rightarrow> cycles_view" where
  "toggle_cycle n p = p\<lparr>lp_expanded := Some n\<rparr>"

definition logsForCycle :: "cycles_view \<Rightarrow> log_detail list" where
  "logsForCycle p =
     (case (lp_logs p, lp_expanded p) of
        (Some ls, Some e) \<Rightarrow>
          (case find (\<lambda>l. cl_cycle l = e) ls of
             None \<Rightarrow> []
           | Some l \<Rightarrow>
               (let ds = (case cl_details l of None \<Rightarrow> [] | Some x \<Rightarrow> x);
                    d1 = (if lp_status p = [] then ds else filter (\<lambda>d. ld_status d = lp_status p) ds)
                in if lp_search p = [] then d1
                   else filter (\<lambda>d. str_includes (toLowerCase (or_blank (ld_group d))) (toLowerCase (lp_search p))) d1))
      | _ \<Rightarrow> [])"

definition export_address :: "string \<Rightarrow> cycles_view \<Rightarrow> (string \<times> string) option" where
  "export_address fmt p =
     (if lp_selected p = [] then None
      else Some (''/api/v1/broadcast/'' @ lp_selected p @ ''/logs/export?format='' @ fmt, ''broadcast_logs_'' @ lp_selected p @ ''.'' @ fmt))"

text \<open>The badge of the cycle that runs, in the accordion.\<close>

definition isLatestLive :: "cycles_view \<Rightarrow> cycle_summary \<Rightarrow> bool" where
  "isLatestLive p c \<longleftrightarrow>
     map_option bj_status (selectedJob p) = Some ''running'' \<and>
     Some (cy_number c) = (case lp_known p of Some m \<Rightarrow> Some m | None \<Rightarrow> if displayedCycles p = [] then None else Some (latest_cycle (displayedCycles p)))"

definition account_label :: "string \<Rightarrow> (string, string) jsmap \<Rightarrow> log_detail \<Rightarrow> string" where
  "account_label dash accountMap d =
     or_str (or_blank (ld_account_name d))
       (case ld_account d of None \<Rightarrow> dash
        | Some i \<Rightarrow> if i = [] then dash else or_str (or_blank (map_get accountMap i)) ''Deleted Account'')"

definition remaining_re :: regex where
  "remaining_re = seqs [Txt ''('', Capture (Seq (Plus (\<lambda>c. c \<noteq> CHR '')'')) (Txt '' remaining'')), Txt '')'']"

definition log_message :: "dict \<Rightarrow> dict \<Rightarrow> locale_tag \<Rightarrow> string \<Rightarrow> log_detail \<Rightarrow> string" where
  "log_message en ind loc dash d =
     (let plain = or_str (or_blank (ld_error_message d)) dash
      in case ld_error_type d of
           None \<Rightarrow> plain
         | Some t \<Rightarrow>
             if t = [] then plain
             else (let key = ''broadcastErrors.'' @ t; translated = useT en ind loc key None
                   in if translated = [] \<or> translated = key then plain
                      else if t = ''muted_temporary'' \<and> or_blank (ld_error_message d) \<noteq> []
                      then (case exec remaining_re (or_blank (ld_error_message d)) of
                              Some (m # _) \<Rightarrow> translated @ '' ('' @ m @ '')'' | _ \<Rightarrow> translated)
                      else translated))"

section \<open>The logs: properties\<close>

lemma cycle_numbers: "set (map cy_number (cycleSummaries (Some ls))) = cl_cycle ` set ls"
  by (simp add: cycleSummaries_def summary_of_def image_image)

lemma latest_of: "latest_cycle (cycleSummaries (Some ls)) = Max (cl_cycle ` set ls)"
  unfolding latest_cycle_def cycle_numbers ..

lemma no_summaries [simp]: "cycleSummaries (Some ls) = [] \<longleftrightarrow> ls = []"
  by (auto simp: cycleSummaries_def length_0_conv [symmetric] simp del: length_0_conv)

text \<open>The pages show every cycle once, the newest first.\<close>

theorem cycles_newest_first:
  "concat (map (\<lambda>i. displayedCycles (p\<lparr>lp_page := Suc i\<rparr>)) [0..<totalCyclePages p]) = sortedCycles (lp_logs p)
   \<and> sorted (map (\<lambda>c. - cy_number c) (sortedCycles (lp_logs p)))"
  using pages_partition [of CYCLES_PER_PAGE "sortedCycles (lp_logs p)"]
  by (simp add: displayedCycles_def totalCyclePages_def CYCLES_PER_PAGE_def sortedCycles_def)

lemma answered_fresh:
  assumes "ls \<noteq> []" "lp_expanded p = None"
  shows "lp_expanded (logs_answered ls p) = Some (Max (cl_cycle ` set ls))"
  using assms by (simp add: logs_answered_def expand_latest_def follow_latest_def Let_def latest_of split: option.splits)

lemma answered_open:
  assumes "ls \<noteq> []" "lp_expanded p = Some e" "lp_known p = Some m"
  shows "lp_expanded (logs_answered ls p) = (if m < Max (cl_cycle ` set ls) \<and> e < Max (cl_cycle ` set ls) then Some (Max (cl_cycle ` set ls)) else Some e)"
    and "lp_known (logs_answered ls p) = Some (max m (Max (cl_cycle ` set ls)))"
  using assms by (auto simp: logs_answered_def expand_latest_def follow_latest_def Let_def latest_of)

lemma answered_known:
  "ls \<noteq> [] \<Longrightarrow> lp_known (logs_answered ls p) = Some (case lp_known p of None \<Rightarrow> Max (cl_cycle ` set ls) | Some m \<Rightarrow> max m (Max (cl_cycle ` set ls)))"
  by (auto simp: logs_answered_def expand_latest_def follow_latest_def Let_def latest_of split: option.splits)

text \<open>On a fresh page a new cycle of the job is opened as soon as it comes.\<close>

theorem new_cycle_is_followed:
  assumes "ls \<noteq> []" "ls' \<noteq> []" "Max (cl_cycle ` set ls) < Max (cl_cycle ` set ls')"
  shows "lp_expanded (logs_answered ls' (logs_answered ls (new_cycles_view param))) = Some (Max (cl_cycle ` set ls'))"
proof -
  let ?q = "logs_answered ls (new_cycles_view param)"
  have "lp_expanded ?q = Some (Max (cl_cycle ` set ls))" using assms(1) by (simp add: answered_fresh new_cycles_view_def)
  moreover have "lp_known ?q = Some (Max (cl_cycle ` set ls))" using assms(1) by (simp add: answered_known new_cycles_view_def)
  ultimately show ?thesis using answered_open(1) [of ls' ?q] assms by simp
qed

text \<open>The known cycle survives the change of the job: after a job with more cycles, new cycles of the next job are neither
  opened nor marked as live.\<close>

theorem other_job_stops_following:
  assumes "lp_known p = Some m" "i \<noteq> lp_selected p" "ls \<noteq> []" "ls' \<noteq> []"
    and "Max (cl_cycle ` set ls) < Max (cl_cycle ` set ls')" "Max (cl_cycle ` set ls') < m"
  defines "q \<equiv> logs_answered ls' (logs_answered ls (select_job i p))"
  shows "lp_expanded q = Some (Max (cl_cycle ` set ls)) \<and> (cy_number c = Max (cl_cycle ` set ls') \<longrightarrow> \<not> isLatestLive q c)"
proof -
  let ?r = "logs_answered ls (select_job i p)"
  have s: "lp_expanded (select_job i p) = None" "lp_known (select_job i p) = Some m" using assms(1,2) by (simp_all add: select_job_def)
  have e: "lp_expanded ?r = Some (Max (cl_cycle ` set ls))" using answered_fresh s(1) assms(3) by blast
  have m: "lp_known ?r = Some m" using answered_known [OF assms(3)] s(2) assms(5,6) by simp
  have "lp_expanded q = Some (Max (cl_cycle ` set ls))" unfolding q_def using answered_open(1) [OF assms(4) e m] assms(6) by simp
  moreover have "lp_known q = Some m" unfolding q_def using answered_open(2) [OF assms(4) e m] assms(6) by simp
  then have "\<not> isLatestLive q c" if "cy_number c = Max (cl_cycle ` set ls')" using that assms(6) by (simp add: isLatestLive_def)
  ultimately show ?thesis by blast
qed

text \<open>Without a parameter in the address the entry for no job cannot be chosen: a job is selected again at once.\<close>

theorem none_is_not_selectable:
  assumes "lp_jobs p = Some js" "js \<noteq> []" "lp_param p = None" "\<forall>j\<in>set js. bj_id j \<noteq> []"
  shows "lp_selected (pick_job ''_none'' p) \<in> bj_id ` set js"
proof -
  obtain j ks where js: "js = j # ks" using assms(2) by (cases js) auto
  let ?r = "(case find (\<lambda>k. bj_status k = ''running'') (j # ks) of Some r \<Rightarrow> r | None \<Rightarrow> j)"
  have r: "?r \<in> set js" using js by (auto simp: find_Some_iff split: option.splits if_splits) 
  moreover have "lp_selected (pick_job ''_none'' p) = bj_id ?r"
    using assms(1,3,4) js r by (auto simp: pick_job_def auto_select_job_def select_job_def or_blank_def)
  ultimately show ?thesis by blast
qed

text \<open>The rows that are shown are those of the open cycle with the chosen status whose group has the searched text.\<close>

theorem shown_rows_match:
  assumes "d \<in> set (logsForCycle p)"
  shows "\<exists>l ls. lp_logs p = Some ls \<and> l \<in> set ls \<and> lp_expanded p = Some (cl_cycle l) \<and> (\<exists>ds. cl_details l = Some ds \<and> d \<in> set ds)
    \<and> (lp_status p = [] \<or> ld_status d = lp_status p)
    \<and> (lp_search p = [] \<or> str_includes (toLowerCase (or_blank (ld_group d))) (toLowerCase (lp_search p)))"
proof -
  obtain ls e where p: "lp_logs p = Some ls" "lp_expanded p = Some e"
    using assms by (cases "lp_logs p"; cases "lp_expanded p") (simp_all add: logsForCycle_def)
  obtain l where l: "find (\<lambda>l. cl_cycle l = e) ls = Some l"
    using assms p by (cases "find (\<lambda>l. cl_cycle l = e) ls") (simp_all add: logsForCycle_def)
  have "l \<in> set ls" "cl_cycle l = e" using l by (auto simp: find_Some_iff)
  moreover have "\<exists>ds. cl_details l = Some ds \<and> d \<in> set ds"
    using assms p l by (cases "cl_details l") (auto simp: logsForCycle_def Let_def split: if_splits)
  moreover have "lp_status p = [] \<or> ld_status d = lp_status p"
    "lp_search p = [] \<or> str_includes (toLowerCase (or_blank (ld_group d))) (toLowerCase (lp_search p))"
    using assms p l by (auto simp: logsForCycle_def Let_def split: if_splits)
  ultimately show ?thesis using p by blast
qed

end
