(* ===== verification/AccountSettings.thy ===== *)
theory AccountSettings
  imports AccountSelector AccountHooks
begin

text \<open>
  The settings of an account, \<open>src/frontend/src/components/accounts/account-settings-page.tsx\<close>, with
  \<open>app/(dashboard)/accounts/[id]/settings/two-fa-settings.tsx\<close>: the profile with the check of the username, privacy, the
  password of the account's own two-step verification, the login e-mail, the auto reply and the synced contacts.
\<close>

section \<open>The profile: the username\<close>

record profile =
  pf_first :: string
  pf_last :: string
  pf_username :: string
  pf_bio :: string

text \<open>The state of the query that checks a username; \<open>Unasked\<close> is a query that is not enabled and has no data.\<close>

datatype username_check = Unasked | CheckLoading | CheckError | Checked bool string

record profile_editor =
  pe_account :: profile
  pe_editing :: bool
  pe_draft :: profile
  pe_debounced :: string
  pe_checks :: "string \<Rightarrow> username_check"
  pe_pending :: bool
  pe_sent :: "profile list"
  pe_error :: string

definition strip_ats :: "string \<Rightarrow> string" where
  "strip_ats s = dropWhile (\<lambda>c. c = CHR ''@'') s"

definition clean_username :: "string \<Rightarrow> string" where
  "clean_username s = trim (strip_ats s)"

definition initialUsername :: "profile_editor \<Rightarrow> string" where
  "initialUsername p = clean_username (pf_username (pe_account p))"

definition cleanUsername :: "profile_editor \<Rightarrow> string" where
  "cleanUsername p = clean_username (pf_username (pe_draft p))"

definition isUsernameChanged :: "profile_editor \<Rightarrow> bool" where
  "isUsernameChanged p \<longleftrightarrow> toLowerCase (cleanUsername p) \<noteq> toLowerCase (initialUsername p)"

definition isTooShort :: "string \<Rightarrow> bool" where "isTooShort u \<longleftrightarrow> 0 < length u \<and> length u < 5"

definition isTooLong :: "string \<Rightarrow> bool" where "isTooLong u \<longleftrightarrow> 32 < length u"

definition startsWithDigit :: "string \<Rightarrow> bool" where "startsWithDigit u \<longleftrightarrow> (case u of [] \<Rightarrow> False | c # _ \<Rightarrow> is_digit c)"

definition hasInvalidChars :: "string \<Rightarrow> bool" where "hasInvalidChars u \<longleftrightarrow> 0 < length u \<and> \<not> list_all is_word u"

definition hasInvalidFormat :: "string \<Rightarrow> bool" where
  "hasInvalidFormat u \<longleftrightarrow> str_includes u ''__'' \<or> (u \<noteq> [] \<and> last u = CHR ''_'')"

definition isFormatValid :: "string \<Rightarrow> bool" where
  "isFormatValid u \<longleftrightarrow> 5 \<le> length u \<and> length u \<le> 32 \<and> \<not> startsWithDigit u \<and> \<not> hasInvalidChars u \<and> \<not> hasInvalidFormat u"

definition isCheckEligible :: "profile_editor \<Rightarrow> bool" where
  "isCheckEligible p \<longleftrightarrow>
     pe_editing p \<and> isUsernameChanged p \<and> 0 < length (cleanUsername p) \<and> isFormatValid (cleanUsername p) \<and> pe_debounced p = cleanUsername p"

text \<open>The query is that of the debounced name, also while another one is typed.\<close>

definition checkUsernameQuery :: "profile_editor \<Rightarrow> username_check" where
  "checkUsernameQuery p = pe_checks p (pe_debounced p)"

definition getUsernameStatus :: "profile_editor \<Rightarrow> string" where
  "getUsernameStatus p =
     (let u = cleanUsername p
      in if u = [] then (if initialUsername p \<noteq> [] then ''will_remove'' else ''empty'')
         else if \<not> isUsernameChanged p then ''unchanged''
         else if isTooShort u then ''too_short''
         else if startsWithDigit u then ''starts_with_digit''
         else if hasInvalidChars u then ''invalid_chars''
         else if isTooLong u \<or> hasInvalidFormat u then ''invalid_format''
         else if pe_debounced p \<noteq> u \<or> checkUsernameQuery p = CheckLoading then ''checking''
         else (case checkUsernameQuery p of
                 CheckError \<Rightarrow> ''error''
               | Checked available reason \<Rightarrow>
                   if available then ''available''
                   else if reason = ''purchase_available'' then ''purchase_available''
                   else if reason = ''flood_wait'' then ''flood_wait'' else ''occupied''
               | _ \<Rightarrow> ''idle''))"

definition isUsernameBlocked :: "profile_editor \<Rightarrow> bool" where
  "isUsernameBlocked p \<longleftrightarrow>
     (let u = cleanUsername p
      in isUsernameChanged p \<and> 0 < length u \<and>
         (isTooShort u \<or> startsWithDigit u \<or> hasInvalidChars u \<or> isTooLong u \<or> hasInvalidFormat u \<or>
          (case checkUsernameQuery p of Checked available _ \<Rightarrow> \<not> available | _ \<Rightarrow> False)))"

section \<open>The profile: editing\<close>

definition sync_profile :: "profile_editor \<Rightarrow> profile_editor" where
  "sync_profile p = (if pe_editing p then p else p\<lparr>pe_draft := pe_account p\<rparr>)"

definition account_loaded :: "profile \<Rightarrow> profile_editor \<Rightarrow> profile_editor" where
  "account_loaded a p = sync_profile (p\<lparr>pe_account := a\<rparr>)"

definition type_username :: "string \<Rightarrow> profile_editor \<Rightarrow> profile_editor" where
  "type_username v p = p\<lparr>pe_draft := (pe_draft p)\<lparr>pf_username := strip_ats v\<rparr>\<rparr>"

definition debounce :: "profile_editor \<Rightarrow> profile_editor" where
  "debounce p = p\<lparr>pe_debounced := cleanUsername p\<rparr>"

definition username_checked :: "string \<Rightarrow> username_check \<Rightarrow> profile_editor \<Rightarrow> profile_editor" where
  "username_checked u c p = p\<lparr>pe_checks := (pe_checks p)(u := c)\<rparr>"

definition cancel_profile :: "profile_editor \<Rightarrow> profile_editor" where
  "cancel_profile p = p\<lparr>pe_draft := pe_account p, pe_editing := False\<rparr>"

definition clean_profile :: "profile_editor \<Rightarrow> profile" where
  "clean_profile p = \<lparr>pf_first = trim (pf_first (pe_draft p)), pf_last = trim (pf_last (pe_draft p)), pf_username = cleanUsername p,
     pf_bio = trim (pf_bio (pe_draft p))\<rparr>"

text \<open>A refused save shows an error and sends nothing.\<close>

definition save_profile :: "profile_editor \<Rightarrow> profile_editor" where
  "save_profile p =
     (if trim (pf_first (pe_draft p)) = [] then p\<lparr>pe_error := ''accountSettings.firstNameRequired''\<rparr>
      else if isUsernameBlocked p
      then p\<lparr>pe_error := (if getUsernameStatus p = ''occupied'' then ''accountSettings.usernameOccupied'' else ''accountSettings.usernameInvalid'')\<rparr>
      else p\<lparr>pe_pending := True, pe_sent := pe_sent p @ [clean_profile p]\<rparr>)"

definition profile_saved :: "bool \<Rightarrow> profile_editor \<Rightarrow> profile_editor" where
  "profile_saved succeeded p = (if succeeded then sync_profile (p\<lparr>pe_pending := False, pe_editing := False\<rparr>) else p\<lparr>pe_pending := False\<rparr>)"

inductive profile_step :: "profile_editor \<Rightarrow> unit \<Rightarrow> profile_editor \<Rightarrow> bool" where
  loads: "profile_step p () (account_loaded a p)"
| edits: "\<not> pe_editing p \<Longrightarrow> profile_step p () (p\<lparr>pe_editing := True\<rparr>)"
| cancels: "pe_editing p \<Longrightarrow> \<not> pe_pending p \<Longrightarrow> profile_step p () (cancel_profile p)"
| types_username: "pe_editing p \<Longrightarrow> \<not> pe_pending p \<Longrightarrow> profile_step p () (type_username v p)"
| types_others: "pe_editing p \<Longrightarrow> \<not> pe_pending p \<Longrightarrow> length b \<le> 70 \<Longrightarrow>
    profile_step p () (p\<lparr>pe_draft := (pe_draft p)\<lparr>pf_first := f, pf_last := l, pf_bio := b\<rparr>\<rparr>)"
| debounces: "profile_step p () (debounce p)"
| checks: "isCheckEligible p \<Longrightarrow> profile_step p () (username_checked (pe_debounced p) CheckLoading p)"
| checked: "profile_step p () (username_checked u c p)"
| saves: "pe_editing p \<Longrightarrow> \<not> pe_pending p \<Longrightarrow> profile_step p () (save_profile p)"
| saved: "pe_pending p \<Longrightarrow> profile_step p () (profile_saved b p)"

definition new_profile_editor :: "profile \<Rightarrow> profile_editor" where
  "new_profile_editor a = \<lparr>pe_account = a, pe_editing = False, pe_draft = a, pe_debounced = clean_username (pf_username a), pe_checks = (\<lambda>_. Unasked),
     pe_pending = False, pe_sent = [], pe_error = []\<rparr>"

section \<open>The profile: properties\<close>

text \<open>A username that Telegram's rules allow.\<close>

definition legal_username :: "string \<Rightarrow> bool" where
  "legal_username u \<longleftrightarrow> 5 \<le> length u \<and> length u \<le> 32 \<and> list_all is_word u \<and> \<not> is_digit (hd u) \<and> \<not> str_includes u ''__'' \<and> last u \<noteq> CHR ''_''"

lemma format_valid_iff: "isFormatValid u \<longleftrightarrow> legal_username u"
  by (cases u) (auto simp: isFormatValid_def legal_username_def startsWithDigit_def hasInvalidChars_def hasInvalidFormat_def)

lemma not_blocked_legal:
  assumes "\<not> isUsernameBlocked p" "isUsernameChanged p" "cleanUsername p \<noteq> []"
  shows "legal_username (cleanUsername p)"
  using assms unfolding format_valid_iff [symmetric]
  by (auto simp: isUsernameBlocked_def Let_def isFormatValid_def isTooShort_def isTooLong_def)

text \<open>What the page sends: a first name that is not blank, and a username that is empty, the old one up to case or legal.\<close>

definition sent_profile_ok :: "profile \<Rightarrow> bool" where
  "sent_profile_ok f \<longleftrightarrow> pf_first f \<noteq> [] \<and> trim (pf_first f) = pf_first f \<and> trim (pf_last f) = pf_last f \<and> trim (pf_bio f) = pf_bio f"

theorem saves_checked_profile:
  assumes "pe_sent (save_profile p) \<noteq> pe_sent p"
  shows "\<exists>f. pe_sent (save_profile p) = pe_sent p @ [f] \<and> sent_profile_ok f
    \<and> (pf_username f = [] \<or> legal_username (pf_username f) \<or> toLowerCase (pf_username f) = toLowerCase (initialUsername p))"
proof -
  have f: "trim (pf_first (pe_draft p)) \<noteq> []" "\<not> isUsernameBlocked p"
    using assms by (auto simp: save_profile_def split: if_splits)
  then have "pe_sent (save_profile p) = pe_sent p @ [clean_profile p]" by (simp add: save_profile_def)
  moreover have "sent_profile_ok (clean_profile p)" using f(1) by (simp add: sent_profile_ok_def clean_profile_def)
  ultimately show ?thesis using not_blocked_legal [OF f(2)] by (auto simp: clean_profile_def isUsernameChanged_def)
qed

text \<open>The status says that a name is available only for a legal name that the server was asked about and found free.\<close>

theorem available_was_checked:
  assumes "getUsernameStatus p = ''available''"
  shows "legal_username (cleanUsername p) \<and> pe_debounced p = cleanUsername p \<and> (\<exists>r. pe_checks p (cleanUsername p) = Checked True r)"
proof -
  let ?u = "cleanUsername p"
  have c: "?u \<noteq> []" "isUsernameChanged p" "\<not> isTooShort ?u" "\<not> startsWithDigit ?u" "\<not> hasInvalidChars ?u" "\<not> isTooLong ?u" "\<not> hasInvalidFormat ?u"
    "pe_debounced p = ?u"
    using assms by (auto simp: getUsernameStatus_def Let_def split: if_splits)
  then have "\<exists>r. checkUsernameQuery p = Checked True r"
    using assms by (auto simp: getUsernameStatus_def Let_def split: username_check.splits if_splits)
  moreover have "isFormatValid ?u" using c by (auto simp: isFormatValid_def isTooShort_def isTooLong_def)
  ultimately show ?thesis using c(8) by (simp add: format_valid_iff checkUsernameQuery_def)
qed

text \<open>Only an answer against the name blocks the save: while the check is under way, or after it failed, a legal name that may
  be taken is sent.\<close>

theorem unchecked_name_is_saved:
  assumes "legal_username (cleanUsername p)" "trim (pf_first (pe_draft p)) \<noteq> []"
    and "\<forall>r. checkUsernameQuery p \<noteq> Checked False r"
  shows "pe_sent (save_profile p) = pe_sent p @ [clean_profile p]"
proof -
  have "isFormatValid (cleanUsername p)" using assms(1) format_valid_iff by blast
  then have "\<not> isUsernameBlocked p"
    using assms(3)
    by (auto simp: isUsernameBlocked_def Let_def isFormatValid_def isTooShort_def isTooLong_def split: username_check.splits)
  then show ?thesis using assms(2) by (simp add: save_profile_def)
qed

text \<open>Answers about an account that come while the profile is edited do not touch what was typed; a cancel goes back to the
  newest account.\<close>

theorem edit_survives_refetch: "pe_editing p \<Longrightarrow> pe_draft (account_loaded a p) = pe_draft p \<and> pe_draft (cancel_profile (account_loaded a p)) = a"
  by (simp add: account_loaded_def sync_profile_def cancel_profile_def)

definition profile_inv :: "profile_editor \<Rightarrow> bool" where
  "profile_inv p \<longleftrightarrow> (pe_editing p \<or> pe_draft p = pe_account p) \<and> (pe_pending p \<longrightarrow> pe_editing p \<and> pe_sent p \<noteq> []) \<and> list_all sent_profile_ok (pe_sent p)"

interpretation pfl: machine "\<lambda>p. \<exists>a. p = new_profile_editor a" profile_step profile_inv
proof
  show "profile_inv p" if "\<exists>a. p = new_profile_editor a" for p using that by (auto simp: profile_inv_def new_profile_editor_def)
  show "profile_inv q" if "profile_inv p" "profile_step p l q" for p l q
    using that(2,1)
    by (induction rule: profile_step.induct)
      (auto simp: profile_inv_def account_loaded_def sync_profile_def cancel_profile_def type_username_def debounce_def username_checked_def
         save_profile_def profile_saved_def clean_profile_def sent_profile_ok_def)
qed

theorem shown_profile_is_the_account:
  assumes "reach (\<lambda>p. \<exists>a. p = new_profile_editor a) profile_step p" "\<not> pe_editing p"
  shows "pe_draft p = pe_account p \<and> \<not> pe_pending p"
  using pfl.reach_inv [OF assms(1)] assms(2) by (auto simp: profile_inv_def)

section \<open>Privacy\<close>

definition PRIVACY_KEYS :: "string list" where
  "PRIVACY_KEYS = [''last_seen'', ''profile_photo'', ''bio'', ''birthday'', ''phone_number'', ''phone_call'', ''chat_invite'', ''added_by_phone'',
     ''forwards'', ''voice_messages'']"

definition PRIVACY_OPTIONS :: "string list" where
  "PRIVACY_OPTIONS = [''everybody'', ''contacts'', ''close_friends'', ''nobody'']"

record privacy_form =
  pv_data :: "(string, string) jsmap option"
  pv_dirty :: "(string, string) jsmap"
  pv_saving :: bool
  pv_msg :: string
  pv_sent :: "(string, string) jsmap list"

definition privacy_change :: "string \<Rightarrow> string \<Rightarrow> privacy_form \<Rightarrow> privacy_form" where
  "privacy_change k v p = p\<lparr>pv_dirty := map_set (pv_dirty p) k v\<rparr>"

definition privacy_value :: "privacy_form \<Rightarrow> string \<Rightarrow> string" where
  "privacy_value p k =
     (case map_get (pv_dirty p) k of
        Some v \<Rightarrow> v
      | None \<Rightarrow> or_str (case pv_data p of None \<Rightarrow> [] | Some d \<Rightarrow> or_blank (map_get d k)) ''everybody'')"

definition isDirty :: "privacy_form \<Rightarrow> bool" where "isDirty p \<longleftrightarrow> pv_dirty p \<noteq> []"

definition save_privacy :: "privacy_form \<Rightarrow> privacy_form" where
  "save_privacy p = (if \<not> isDirty p then p else p\<lparr>pv_saving := True, pv_msg := [], pv_sent := pv_sent p @ [pv_dirty p]\<rparr>)"

text \<open>\<open>None\<close> is a success; an error has the server's detail or not.\<close>

definition privacy_saved :: "string option option \<Rightarrow> privacy_form \<Rightarrow> privacy_form" where
  "privacy_saved err p =
     (case err of
        None \<Rightarrow> p\<lparr>pv_dirty := [], pv_msg := ''accountSettings.privacyUpdated'', pv_saving := False\<rparr>
      | Some detail \<Rightarrow> p\<lparr>pv_msg := or_str (or_blank detail) ''accountSettings.actionFailed'', pv_saving := False\<rparr>)"

text \<open>The colours of the two messages look for an English word in the text.\<close>

definition privacy_colour :: "string \<Rightarrow> string" where
  "privacy_colour msg = (if str_includes msg ''updated'' then ''text-green-600'' else ''text-red-500'')"

definition reply_colour :: "string \<Rightarrow> string" where
  "reply_colour msg = (if str_includes msg ''saved'' then ''text-green-600'' else ''text-red-500'')"

text \<open>What a save sends is what is shown for the keys that were changed, and only those.\<close>

theorem privacy_sends_changes:
  assumes "isDirty p"
  shows "pv_sent (save_privacy p) = pv_sent p @ [pv_dirty p] \<and> (\<forall>k v. map_get (pv_dirty p) k = Some v \<longrightarrow> privacy_value p k = v)"
  using assms by (simp add: save_privacy_def privacy_value_def)

text \<open>The choices stay open while a save is under way, and its success forgets all changes: one made meanwhile is neither sent nor
  shown any more.\<close>

theorem change_during_save_is_lost:
  assumes "map_get (pv_dirty p) k = None"
  shows "privacy_value (privacy_change k v (save_privacy p)) k = v
    \<and> \<not> isDirty (privacy_saved None (privacy_change k v (save_privacy p)))
    \<and> privacy_value (privacy_saved None (privacy_change k v (save_privacy p))) k = privacy_value p k"
  using assms by (simp add: privacy_change_def privacy_saved_def privacy_value_def isDirty_def save_privacy_def)

text \<open>When the settings cannot be read, everything is shown as open to everybody.\<close>

theorem unread_privacy_shows_everybody:
  "pv_data p = None \<Longrightarrow> pv_dirty p = [] \<Longrightarrow> privacy_value p k = ''everybody''"
  by (simp add: privacy_value_def or_str_def map_get_def)

section \<open>Two-step verification of the account\<close>

datatype twofa_tab = MainTab | ChangeTab | ForgotTab | RecoveryTab

datatype twofa_action =
    EnableTwoFA string
  | DisableTwoFA string
  | ChangePassword string string
  | RequestRecovery
  | Recover string string
  | RecoveryEmail string string
  | ConfirmEmail string

record twofa_settings =
  ts_enabled :: bool
  ts_has_recovery :: bool
  ts_password :: string
  ts_newPass :: string
  ts_confirmPass :: string
  ts_recoveryCode :: string
  ts_recoveryEmail :: string
  ts_emailCode :: string
  ts_needsConfirm :: bool
  ts_recoverySent :: bool
  ts_msg :: string
  ts_tab :: twofa_tab
  ts_pending :: "twofa_action option"
  ts_sent :: "twofa_action list"

definition new_twofa_settings :: twofa_settings where
  "new_twofa_settings = \<lparr>ts_enabled = False, ts_has_recovery = False, ts_password = [], ts_newPass = [], ts_confirmPass = [], ts_recoveryCode = [],
     ts_recoveryEmail = [], ts_emailCode = [], ts_needsConfirm = False, ts_recoverySent = False, ts_msg = [], ts_tab = MainTab, ts_pending = None,
     ts_sent = []\<rparr>"

definition twofa_request :: "twofa_action \<Rightarrow> twofa_settings \<Rightarrow> twofa_settings" where
  "twofa_request a p = p\<lparr>ts_pending := Some a, ts_sent := ts_sent p @ [a]\<rparr>"

text \<open>What each button sends; \<open>None\<close> when it is not shown or disabled.\<close>

definition enable_action :: "twofa_settings \<Rightarrow> twofa_action option" where
  "enable_action p = (if \<not> ts_enabled p \<and> ts_password p \<noteq> [] \<and> ts_pending p = None then Some (EnableTwoFA (ts_password p)) else None)"

definition disable_action :: "twofa_settings \<Rightarrow> twofa_action option" where
  "disable_action p =
     (if ts_enabled p \<and> ts_tab p = MainTab \<and> ts_password p \<noteq> [] \<and> ts_pending p = None then Some (DisableTwoFA (ts_password p)) else None)"

definition can_change_password :: "twofa_settings \<Rightarrow> bool" where
  "can_change_password p \<longleftrightarrow> ts_enabled p \<and> ts_tab p = ChangeTab \<and> ts_password p \<noteq> [] \<and> ts_newPass p \<noteq> [] \<and> ts_confirmPass p \<noteq> [] \<and> ts_pending p = None"

definition click_change_password :: "twofa_settings \<Rightarrow> twofa_settings" where
  "click_change_password p =
     (if ts_newPass p \<noteq> ts_confirmPass p then p\<lparr>ts_msg := ''accountSettings.passwordsDontMatch''\<rparr>
      else twofa_request (ChangePassword (ts_password p) (ts_newPass p)) p)"

definition forgot_action :: "twofa_settings \<Rightarrow> twofa_action option" where
  "forgot_action p =
     (if \<not> ts_enabled p \<or> ts_tab p \<noteq> ForgotTab \<or> ts_pending p \<noteq> None then None
      else if \<not> ts_recoverySent p then Some RequestRecovery
      else if ts_recoveryCode p \<noteq> [] \<and> ts_newPass p \<noteq> [] then Some (Recover (ts_recoveryCode p) (ts_newPass p)) else None)"

definition email_action :: "twofa_settings \<Rightarrow> twofa_action option" where
  "email_action p =
     (if \<not> ts_enabled p \<or> ts_tab p \<noteq> RecoveryTab \<or> ts_pending p \<noteq> None then None
      else if \<not> ts_needsConfirm p
      then (if ts_password p \<noteq> [] \<and> ts_recoveryEmail p \<noteq> [] then Some (RecoveryEmail (ts_password p) (ts_recoveryEmail p)) else None)
      else if ts_emailCode p \<noteq> [] then Some (ConfirmEmail (ts_emailCode p)) else None)"

text \<open>After the request, in \<open>mutationFn\<close>; \<open>needs\<close> is the answer of the server to a recovery e-mail.\<close>

definition twofa_done :: "bool \<Rightarrow> twofa_action \<Rightarrow> twofa_settings \<Rightarrow> twofa_settings" where
  "twofa_done needs a p =
     (case a of
        EnableTwoFA _ \<Rightarrow> p
      | DisableTwoFA _ \<Rightarrow> p\<lparr>ts_password := []\<rparr>
      | ChangePassword _ _ \<Rightarrow> p\<lparr>ts_password := [], ts_newPass := [], ts_confirmPass := [], ts_tab := MainTab\<rparr>
      | RequestRecovery \<Rightarrow> p\<lparr>ts_recoverySent := True\<rparr>
      | Recover _ _ \<Rightarrow> p\<lparr>ts_newPass := [], ts_recoveryCode := [], ts_tab := MainTab\<rparr>
      | RecoveryEmail _ _ \<Rightarrow>
          (let p1 = p\<lparr>ts_password := [], ts_recoveryEmail := []\<rparr>
           in if needs then p1\<lparr>ts_needsConfirm := True, ts_msg := ''Confirmation code sent to your email. Please check and enter it below.''\<rparr>
              else p1\<lparr>ts_needsConfirm := False, ts_tab := MainTab\<rparr>)
      | ConfirmEmail _ \<Rightarrow> p\<lparr>ts_emailCode := [], ts_needsConfirm := False, ts_tab := MainTab\<rparr>)"

definition twofa_action_answered :: "bool \<Rightarrow> string option option \<Rightarrow> twofa_settings \<Rightarrow> twofa_settings" where
  "twofa_action_answered needs err p =
     (case ts_pending p of
        None \<Rightarrow> p
      | Some a \<Rightarrow>
          (case err of
             None \<Rightarrow> (twofa_done needs a p)\<lparr>ts_msg := ''accountSettings.done'', ts_pending := None\<rparr>
           | Some detail \<Rightarrow> p\<lparr>ts_msg := or_str (or_blank detail) ''accountSettings.actionFailed'', ts_pending := None\<rparr>))"

definition open_twofa_tab :: "twofa_tab \<Rightarrow> twofa_settings \<Rightarrow> twofa_settings" where
  "open_twofa_tab t p = (let p1 = p\<lparr>ts_tab := t, ts_msg := []\<rparr> in if t = ForgotTab then p1\<lparr>ts_recoverySent := False\<rparr> else p1)"

definition cancel_twofa_tab :: "twofa_settings \<Rightarrow> twofa_settings" where
  "cancel_twofa_tab p =
     (case ts_tab p of
        ForgotTab \<Rightarrow> p\<lparr>ts_tab := MainTab, ts_recoverySent := False\<rparr>
      | RecoveryTab \<Rightarrow> if ts_needsConfirm p then p\<lparr>ts_needsConfirm := False, ts_emailCode := []\<rparr> else p\<lparr>ts_tab := MainTab\<rparr>
      | _ \<Rightarrow> p\<lparr>ts_tab := MainTab\<rparr>)"

inductive settings2_step :: "twofa_settings \<Rightarrow> unit \<Rightarrow> twofa_settings \<Rightarrow> bool" where
  status_loads: "settings2_step p () (p\<lparr>ts_enabled := e, ts_has_recovery := r\<rparr>)"
| types_secrets: "settings2_step p () (p\<lparr>ts_password := a, ts_newPass := b, ts_confirmPass := c, ts_recoveryCode := d, ts_recoveryEmail := m, ts_emailCode := k\<rparr>)"
| enables: "enable_action p = Some a \<Longrightarrow> settings2_step p () (twofa_request a p)"
| disables: "disable_action p = Some a \<Longrightarrow> settings2_step p () (twofa_request a p)"
| changes: "can_change_password p \<Longrightarrow> settings2_step p () (click_change_password p)"
| recovers: "forgot_action p = Some a \<Longrightarrow> settings2_step p () (twofa_request a p)"
| sets_email: "email_action p = Some a \<Longrightarrow> settings2_step p () (twofa_request a p)"
| answered: "ts_pending p \<noteq> None \<Longrightarrow> settings2_step p () (twofa_action_answered needs err p)"
| opens_tab: "ts_enabled p \<Longrightarrow> ts_tab p = MainTab \<Longrightarrow> (t = ForgotTab \<longrightarrow> ts_has_recovery p) \<Longrightarrow> settings2_step p () (open_twofa_tab t p)"
| cancels_tab: "ts_enabled p \<Longrightarrow> settings2_step p () (cancel_twofa_tab p)"
| msg_fades: "settings2_step p () (p\<lparr>ts_msg := []\<rparr>)"

text \<open>No request has an empty secret.\<close>

definition action_ok :: "twofa_action \<Rightarrow> bool" where
  "action_ok a =
     (case a of
        EnableTwoFA pw \<Rightarrow> pw \<noteq> [] | DisableTwoFA pw \<Rightarrow> pw \<noteq> [] | ChangePassword old new \<Rightarrow> old \<noteq> [] \<and> new \<noteq> [] | RequestRecovery \<Rightarrow> True
      | Recover code new \<Rightarrow> code \<noteq> [] \<and> new \<noteq> [] | RecoveryEmail pw mail \<Rightarrow> pw \<noteq> [] \<and> mail \<noteq> [] | ConfirmEmail code \<Rightarrow> code \<noteq> [])"

definition twofa_settings_inv :: "twofa_settings \<Rightarrow> bool" where
  "twofa_settings_inv p \<longleftrightarrow> list_all action_ok (ts_sent p) \<and> (\<forall>a. ts_pending p = Some a \<longrightarrow> ts_sent p \<noteq> [] \<and> last (ts_sent p) = a)"

lemmas twofa_settings_defs = twofa_request_def enable_action_def disable_action_def can_change_password_def click_change_password_def forgot_action_def
  email_action_def twofa_done_def twofa_action_answered_def open_twofa_tab_def cancel_twofa_tab_def Let_def

lemma twofa_done_keeps [simp]: "ts_sent (twofa_done n a p) = ts_sent p" "ts_pending (twofa_done n a p) = ts_pending p"
  by (cases a; simp add: twofa_done_def Let_def)+

interpretation tfs: machine "\<lambda>p. p = new_twofa_settings" settings2_step twofa_settings_inv
proof
  show "twofa_settings_inv p" if "p = new_twofa_settings" for p using that by (simp add: twofa_settings_inv_def new_twofa_settings_def)
  show "twofa_settings_inv q" if "twofa_settings_inv p" "settings2_step p l q" for p l q
    using that(2,1)
  proof (induction rule: settings2_step.induct)
    case (answered p needs err)
    then show ?case by (auto simp: twofa_settings_inv_def twofa_action_answered_def split: option.splits)
  next
    case (cancels_tab p)
    then show ?case by (cases "ts_tab p") (auto simp: twofa_settings_inv_def cancel_twofa_tab_def)
  qed (auto simp: twofa_settings_inv_def twofa_request_def enable_action_def disable_action_def can_change_password_def click_change_password_def
        forgot_action_def email_action_def open_twofa_tab_def action_ok_def Let_def split: if_splits option.splits)
qed

theorem twofa_requests_complete:
  assumes "reach (\<lambda>p. p = new_twofa_settings) settings2_step p"
  shows "list_all action_ok (ts_sent p)"
  using tfs.reach_inv [OF assms] by (simp add: twofa_settings_inv_def)

text \<open>The password that switched the verification on stays in the form, and the form that switches it off has the same field: the
  button that does it is ready at once, without the password being typed again.\<close>

theorem password_left_for_disable:
  assumes "enable_action p = Some a" "ts_tab p = MainTab"
  shows "disable_action ((twofa_action_answered n None (twofa_request a p))\<lparr>ts_enabled := True\<rparr>) = Some (DisableTwoFA (ts_password p))"
  using assms by (auto simp: twofa_settings_defs split: if_splits)

text \<open>The notice that a code was sent is overwritten before it is shown.\<close>

theorem code_notice_is_overwritten:
  assumes "email_action p = Some (RecoveryEmail pw mail)"
  shows "ts_msg (twofa_action_answered True None (twofa_request (RecoveryEmail pw mail) p)) = ''accountSettings.done''
    \<and> ts_needsConfirm (twofa_action_answered True None (twofa_request (RecoveryEmail pw mail) p))"
  using assms by (simp add: twofa_settings_defs)

text \<open>A password is changed only when it was written twice alike.\<close>

theorem change_needs_confirmation:
  assumes "ts_sent (click_change_password p) \<noteq> ts_sent p"
  shows "ts_newPass p = ts_confirmPass p \<and> ts_sent (click_change_password p) = ts_sent p @ [ChangePassword (ts_password p) (ts_newPass p)]"
  using assms by (auto simp: twofa_settings_defs split: if_splits)

section \<open>The login e-mail\<close>

record login_email =
  le_email :: string
  le_code :: string
  le_codeSent :: bool
  le_msg :: string
  le_sending :: "string option"
  le_verifying :: "(string \<times> string) option"
  le_codes :: "string list"
  le_verified :: "(string \<times> string) list"

definition new_login_email :: login_email where
  "new_login_email = \<lparr>le_email = [], le_code = [], le_codeSent = False, le_msg = [], le_sending = None, le_verifying = None, le_codes = [], le_verified = []\<rparr>"

definition send_login_code :: "login_email \<Rightarrow> login_email" where
  "send_login_code p = p\<lparr>le_sending := Some (le_email p), le_codes := le_codes p @ [le_email p]\<rparr>"

definition login_code_sent :: "string option option \<Rightarrow> login_email \<Rightarrow> login_email" where
  "login_code_sent err p =
     (case err of
        None \<Rightarrow> p\<lparr>le_sending := None, le_codeSent := True, le_msg := ''Verification code sent! Check your email.''\<rparr>
      | Some detail \<Rightarrow> p\<lparr>le_sending := None, le_msg := or_str (or_blank detail) ''accountSettings.actionFailed''\<rparr>)"

definition verify_login_code :: "login_email \<Rightarrow> login_email" where
  "verify_login_code p = p\<lparr>le_verifying := Some (le_email p, le_code p), le_verified := le_verified p @ [(le_email p, le_code p)]\<rparr>"

definition login_code_verified :: "string option option \<Rightarrow> login_email \<Rightarrow> login_email" where
  "login_code_verified err p =
     (case err of
        None \<Rightarrow> p\<lparr>le_verifying := None, le_msg := ''accountSettings.done'', le_email := [], le_code := [], le_codeSent := False\<rparr>
      | Some detail \<Rightarrow> p\<lparr>le_verifying := None, le_msg := or_str (or_blank detail) ''accountSettings.actionFailed''\<rparr>)"

definition cancel_login_email :: "login_email \<Rightarrow> login_email" where
  "cancel_login_email p = p\<lparr>le_codeSent := False, le_email := [], le_code := []\<rparr>"

inductive login_email_step :: "login_email \<Rightarrow> unit \<Rightarrow> login_email \<Rightarrow> bool" where
  types_email: "\<not> le_codeSent p \<Longrightarrow> login_email_step p () (p\<lparr>le_email := v\<rparr>)"
| sends_code: "\<not> le_codeSent p \<Longrightarrow> le_email p \<noteq> [] \<Longrightarrow> le_sending p = None \<Longrightarrow> login_email_step p () (send_login_code p)"
| code_sent: "le_sending p \<noteq> None \<Longrightarrow> login_email_step p () (login_code_sent err p)"
| types_code: "le_codeSent p \<Longrightarrow> login_email_step p () (p\<lparr>le_code := v\<rparr>)"
| verifies: "le_codeSent p \<Longrightarrow> le_code p \<noteq> [] \<Longrightarrow> le_verifying p = None \<Longrightarrow> login_email_step p () (verify_login_code p)"
| verified: "le_verifying p \<noteq> None \<Longrightarrow> login_email_step p () (login_code_verified err p)"
| cancels_email: "le_codeSent p \<Longrightarrow> login_email_step p () (cancel_login_email p)"
| email_msg_fades: "login_email_step p () (p\<lparr>le_msg := []\<rparr>)"

text \<open>A verification always follows a code that was sent and names a code; nothing is sent to an empty address.\<close>

definition login_email_inv :: "login_email \<Rightarrow> bool" where
  "login_email_inv p \<longleftrightarrow>
     [] \<notin> set (le_codes p) \<and> list_all (\<lambda>(_, c). c \<noteq> []) (le_verified p) \<and>
     (le_codeSent p \<or> le_verified p \<noteq> [] \<or> le_sending p \<noteq> None \<longrightarrow> le_codes p \<noteq> [])"

interpretation lem: machine "\<lambda>p. p = new_login_email" login_email_step login_email_inv
proof
  show "login_email_inv p" if "p = new_login_email" for p using that by (simp add: login_email_inv_def new_login_email_def)
  show "login_email_inv q" if "login_email_inv p" "login_email_step p l q" for p l q
    using that(2,1)
    by (induction rule: login_email_step.induct)
      (auto simp: login_email_inv_def send_login_code_def login_code_sent_def verify_login_code_def login_code_verified_def cancel_login_email_def
         split: option.splits)
qed

theorem verification_follows_a_code:
  assumes "reach (\<lambda>p. p = new_login_email) login_email_step p" "le_verified p \<noteq> []"
  shows "le_codes p \<noteq> [] \<and> [] \<notin> set (le_codes p)"
  using lem.reach_inv [OF assms(1)] assms(2) by (simp add: login_email_inv_def)

text \<open>The address can be edited while its code is being sent: the page then shows, and verifies, an address that never got a code.\<close>

theorem edited_address_is_verified:
  assumes "\<not> le_codeSent p" "le_email p \<noteq> []" "le_sending p = None" "c \<noteq> []"
    and q: "q = (login_code_sent None ((send_login_code p)\<lparr>le_email := v\<rparr>))\<lparr>le_code := c\<rparr>"
  shows "le_verified (verify_login_code q) = le_verified p @ [(v, c)] \<and> le_codes (verify_login_code q) = le_codes p @ [le_email p] \<and> le_codeSent q"
  unfolding q by (simp add: send_login_code_def login_code_sent_def verify_login_code_def)

section \<open>Auto reply and contacts\<close>

record reply_form =
  rf_enabled :: bool
  rf_text :: string
  rf_msg :: string

text \<open>The account's settings replace the form whenever they differ from the ones before.\<close>

definition sync_reply :: "bool option \<times> string option \<Rightarrow> bool option \<times> string option \<Rightarrow> reply_form \<Rightarrow> reply_form" where
  "sync_reply before now p =
     (if now = before then p else p\<lparr>rf_enabled := (fst now = Some True), rf_text := or_blank (snd now)\<rparr>)"

definition can_save_reply :: "bool \<Rightarrow> reply_form \<Rightarrow> bool" where
  "can_save_reply pending p \<longleftrightarrow> \<not> pending \<and> (rf_enabled p \<longrightarrow> trim (rf_text p) \<noteq> [])"

definition save_reply :: "string \<Rightarrow> reply_form \<Rightarrow> mutation" where
  "save_reply accountId p = useUpdateAutoReply accountId (rf_enabled p) (text_or_none (trim (rf_text p)))"

text \<open>A reply that is switched on has a text.\<close>

theorem saved_reply_has_text:
  assumes "can_save_reply pending p" "rf_enabled p"
  shows "text_or_none (trim (rf_text p)) = Some (trim (rf_text p)) \<and> trim (rf_text p) \<noteq> []"
  using assms by (simp add: can_save_reply_def text_or_none_def)

text \<open>A change of the account on the server erases what is being written.\<close>

theorem refetch_erases_reply: "now \<noteq> before \<Longrightarrow> rf_text (sync_reply before now p) = or_blank (snd now)"
  by (simp add: sync_reply_def)

text \<open>The question about the synced contacts: its answer does not close it.\<close>

record delete_contacts =
  dc_loading :: bool
  dc_open :: bool
  dc_requests :: nat

definition handleDeleteContacts :: "delete_contacts \<Rightarrow> delete_contacts" where
  "handleDeleteContacts p = p\<lparr>dc_loading := True, dc_requests := Suc (dc_requests p)\<rparr>"

definition contacts_deleted :: "delete_contacts \<Rightarrow> delete_contacts" where
  "contacts_deleted p = p\<lparr>dc_loading := False\<rparr>"

theorem question_stays_after_delete:
  "dc_open p \<Longrightarrow> dc_open (contacts_deleted (handleDeleteContacts p)) \<and> \<not> dc_loading (contacts_deleted (handleDeleteContacts p))"
  by (simp add: handleDeleteContacts_def contacts_deleted_def)

section \<open>Photo, access and the shared status\<close>

definition has_photo :: "bool option \<Rightarrow> int option \<Rightarrow> string option \<Rightarrow> bool" where
  "has_photo has_profile_photo photo_version path \<longleftrightarrow>
     has_profile_photo = Some True \<or> (case photo_version of None \<Rightarrow> False | Some v \<Rightarrow> 0 < v) \<or> or_blank path \<noteq> []"

definition hasAutoReplyAccess :: "string option \<Rightarrow> bool" where
  "hasAutoReplyAccess role \<longleftrightarrow> role \<in> {Some ''pro'', Some ''premium'', Some ''owner''}"

text \<open>A status that was not checked live does not touch the account.\<close>

definition synchronizeAccountTwoFAStatus :: "(string, json) jsmap option \<Rightarrow> bool \<Rightarrow> bool \<Rightarrow> (string, json) jsmap option" where
  "synchronizeAccountTwoFAStatus account enabled liveChecked =
     (if \<not> liveChecked then account else map_option (\<lambda>a. map_set a ''twofa_enabled'' (JBool enabled)) account)"

theorem only_live_status_is_written:
  "map_get (the (synchronizeAccountTwoFAStatus (Some a) e live)) k =
     (if live \<and> k = ''twofa_enabled'' then Some (JBool e) else map_get a k)"
  by (simp add: synchronizeAccountTwoFAStatus_def)

end
