(* ===== verification/Spec2Isabelle.thy ===== *)
theory Spec2Isabelle
  imports AuthRoute AuthHooks AuthStore SocketHooks I18n BankAccounts Drafts MediaToken ActivityHooks Helpers VoiceRecorder ChatList PageLanguage SpeedParser LoginFlow OrderManager AutoJoin AutoLeave InvoicePage BroadcastPage Presentation PhoneInput AuthPages AddAccount Marketplace Settings Subscription Contacts InvitePage TextEditor AutoReply BroadcastLists Dictionaries Email BroadcastHistory AccountSettings
begin

text \<open>
  Verification of the TeleBos web client.

  TeleBos is a service around Telegram accounts.  The repository has a Python backend and a Next.js client
  under \<open>src/frontend\<close>; this development verifies the client's own logic, that is the TypeScript
  modules under \<open>src/frontend/src\<close> that keep state or decide something.  Third-party code (Better Auth,
  axios, React Query, PostgreSQL's collation, the browser's WebSocket) enters as parameters or as steps of the
  environment; what is relied on is stated as a hypothesis of the theorem that needs it.

  \<^bold>\<open>How the parts work together.\<close>  Every page request passes the middleware, which checks for a session
  cookie and chooses the language that the translations start with.  Signing in goes through the
  authentication route, which counts failures in the lockout table around Better Auth; creating a user runs
  the database hooks, which mirror the user into the backend's table.  In the browser the session store
  distributes the session token to the API client and to the socket client and owns the signed-in user; the
  sockets deliver live events; the data hooks describe every request and which cached answers a change
  makes stale; the wallet store, the drafts and the media tokens keep their own state and local storage.

  \<^bold>\<open>Theories.\<close>
  \<^item> \<open>Prelude\<close>, \<open>JsNumber\<close>, \<open>JsValue\<close>, \<open>JsUri\<close>: the parts of JavaScript that the sources use: strings of code
    units up to 255, maps in insertion order (locale \<open>js_map\<close>), the stable sort, JSON values and
    their conversions, numbers read from text, URL encoding; and the locale \<open>machine\<close> of step relations with an
    invariant, which the stateful components interpret.
  \<^item> \<open>BruteForce\<close> (\<open>lib/brute-force.ts\<close>) and \<open>AuthRoute\<close> (\<open>app/api/auth/[...all]/route.ts\<close>): the table of users
    as rows, the queries as maps and filters over it, each of which may fail, and two clocks.  Shown: a lock
    lasts its time whatever fails meanwhile, the fifth failure locks, a locked account is answered 429, a
    success starts a reset of the counter, every failure is counted once, notices go out at the third failure and
    at a new lock; the reset is not awaited, and a late one lifts a lock.
  \<^item> \<open>AuthHooks\<close> (\<open>lib/auth.ts\<close>): the hooks over both user tables.  Shown: a sign-up is refused for a used
    address or ends in both tables in step, a lost race is undone; a failed insert leaves an orphan.
  \<^item> \<open>Socket\<close> and \<open>SocketPool\<close> (\<open>lib/socket.ts\<close>): an object over its native sockets and timers as a step
    relation, with the browser's events as steps; the cache of five sockets over a store of all objects ever
    created, to which the cache and the components refer.  Shown: the invariant of every reachable object, that
    disconnecting is final, that a lost connection is retried with a bounded delay and at most ten times, that the
    cache is bounded and refines a least-recently-used specification, and that every object it no longer holds is
    disconnected.
  \<^item> \<open>SocketHooks\<close> (\<open>hooks/use-socket.ts\<close>): the hook instances of a page over the cache, as a step relation of
    mounts, cleanups, socket events and delayed disconnects; a hook keeps the reference to the object it
    captured.  Shown: only mounted hooks are called back, a
    message reaches each of its hooks once, and a hook whose socket has left the cache is frozen.
  \<^item> \<open>AuthStore\<close> (\<open>store/auth-store.ts\<close>, \<open>lib/api.ts\<close>): the operations with the outcomes of their calls, whole
    and in parts between their awaits; the parts of several operations overlap in any order.  Shown: both clients
    always hold the same token; what logging in and out leave behind; a profile that arrives after a logout signs
    the user in again.
  \<^item> \<open>Middleware\<close> (\<open>middleware.ts\<close>), \<open>I18n\<close> (\<open>lib/i18n/index.ts\<close>) and \<open>PageLanguage\<close> (\<open>app/layout.tsx\<close>,
    \<open>app/providers.tsx\<close> and the moment at which the store is created).  Shown: protected pages need a session,
    redirects do not chain, the language of a page from the request to the mounted page (in this theory), choices
    survive a reload, placeholders are filled once; a server process keeps the language of its first request.
  \<^item> \<open>BankAccounts\<close> (\<open>store/bank-account-store.ts\<close>).  Shown: never two default accounts, and what a deletion
    and a choice leave; no credentials in local storage; what deciding a transaction changes; a lost default.
  \<^item> \<open>Drafts\<close> (\<open>lib/drafts.ts\<close>) and \<open>MediaToken\<close> (\<open>lib/media-token.ts\<close>).  Shown: the bound of 50 drafts with the
    oldest evicted, the round trip through local storage; tokens are used only while fresh, and a missing one is
    always requested.
  \<^item> \<open>QueryCache\<close> (queries and mutations as values, cache keys and their invalidation), \<open>AccountHooks\<close>,
    \<open>BroadcastHooks\<close>, \<open>JobHooks\<close>, \<open>CommerceHooks\<close> and \<open>Hooks\<close> (the files under \<open>hooks/\<close> named in their headers).
    Shown: queries that share a cache entry send the same request, which views a mutation refreshes and
    which it misses, and the aggregation of the marketplace's stock.
  \<^item> \<open>Helpers\<close> (\<open>smm-quantity.ts\<close>, \<open>autoJoinTaskPlan.ts\<close>, \<open>avatar.ts\<close>, \<open>telegram-target.ts\<close>, \<open>safe-url.ts\<close>).  Shown:
    clamped quantities, the pauses of a join plan, which targets and links pass.
  \<^item> \<open>ActivityHooks\<close> and \<open>AdminHooks\<close> (the remaining files under \<open>hooks/\<close>).  Shown: cache entries are sound over all
    hooks, and which views a change by an administrator misses.
  \<^item> \<open>VoiceRecorder\<close> and \<open>ChatPane\<close> (\<open>components/chat/MessagePane.tsx\<close>), \<open>ChatList\<close> (\<open>ChatsContent.tsx\<close>): the message
    pane and the chat list over pages of messages, live events and answers in any order.  Shown: which
    messages can be shown twice, grouping by date in any time zone, drafts across chats, the microphone, the order of the list, unread counters.
  \<^item> \<open>Regex\<close> (a backtracking semantics of regular expressions) and \<open>SpeedParser\<close> (\<open>lib/smm-speed-parser.ts\<close>).
    Shown: printed delivery times are read back.
  \<^item> \<open>LoginFlow\<close> (\<open>components/accounts/telegram-login-flow.tsx\<close>) and \<open>PhoneInput\<close>
    (\<open>phone-input-with-country.tsx\<close>): adding a Telegram account.  Shown: an abandoned login is cancelled at the
    backend whatever the order of answers, codes fit their field, the number reported is the one shown.
  \<^item> \<open>OrderManager\<close> (\<open>components/orders/smm-order-manager.tsx\<close>).  Shown: orders stay within the limits, the
    catalogue is filtered and sorted as asked.
  \<^item> \<open>AutoJoin\<close> and \<open>AutoLeave\<close> (the pages under \<open>groups-channels/\<close>), \<open>AccountSelector\<close> and \<open>BroadcastPage\<close>
    (\<open>broadcast/new/page.tsx\<close>).  Shown: targets are read from free text, a running job is watched again after a
    reload, what a started broadcast may contain.
  \<^item> \<open>WalletPage\<close> and \<open>InvoicePage\<close> (\<open>wallet/page.tsx\<close>, \<open>wallet/invoice/[id]/page.tsx\<close>).  Shown: the amount survives
    its formatting, a withdrawal carries what was confirmed, and that the automatic check of a payment starves.
  \<^item> \<open>AuthPages\<close> (the pages for signing in and registering).  Shown: what an account lock comes to on the screen,
    what the pages ask the store, and the notices that are lost.
  \<^item> \<open>Presentation\<close> (\<open>lib/utils.ts\<close>, \<open>data/plans.ts\<close>, page numbers, password strength, theme and layout stores).
  \<^item> \<open>AddAccount\<close> (\<open>accounts/add/page.tsx\<close>) and \<open>AccountSettings\<close> (\<open>account-settings-page.tsx\<close>,
    \<open>two-fa-settings.tsx\<close>): adding an account by session string or QR code, and the settings of one.  Shown: the QR
    login is never stuck, what is saved was checked or confirmed, and what is lost or sent unchecked.
  \<^item> \<open>Paging\<close> (lists cut into pages), \<open>Marketplace\<close> (\<open>orders/buy-accounts\<close>, \<open>orders/sell-accounts\<close>), \<open>Settings\<close>
    (\<open>settings/page.tsx\<close>, \<open>settings-nav.tsx\<close>) and \<open>Subscription\<close> (\<open>subscriptions/page.tsx\<close>).  Shown: lists and figures
    are exact, requests are valid and as shown, and which late answers act on the wrong dialog.
  \<^item> \<open>Contacts\<close> (\<open>contacts/page.tsx\<close>), \<open>InvitePage\<close> (the pages under \<open>invite/\<close>), \<open>AutoReply\<close> (\<open>auto-reply/page.tsx\<close>),
    \<open>BroadcastLists\<close> (\<open>broadcast/group-lists\<close>, \<open>broadcast/text-lists\<close>) and \<open>BroadcastHistory\<close> (\<open>broadcast/history\<close>,
    \<open>broadcast/logs\<close>, \<open>cycle-accordion.tsx\<close>).  Shown: contacts are read from lines and cards, which requests leave the
    pages, what each row offers, and where edits, questions or selections go stale.
  \<^item> \<open>TextEditor\<close> (\<open>components/ui/text-editor.tsx\<close>).  Shown: the preview writes no tag but the allowed ones, links
    are checked, formatting keeps the selection.
  \<^item> \<open>DictTypes\<close>, \<open>DictEn\<close>, \<open>DictId\<close> (\<open>lib/i18n/types.ts\<close>, \<open>en.ts\<close>, \<open>id.ts\<close>) and \<open>Dictionaries\<close>: the texts in full.
    Shown: both dictionaries have the declared texts with the same parameters; keys in use that neither has.
  \<^item> \<open>Email\<close> (\<open>lib/email.ts\<close>): the templates line by line and the hooks that send them.  Shown: one recipient, the
    minutes announced, the addresses of links, and that names are not escaped.
  \<^item> This theory: properties that span components.

  \<^bold>\<open>Bounds.\<close>  All functions are total and none uses fuel: loops are recursions over the list they walk;
  \<open>fill\<close>, \<open>params_of\<close>, \<open>split_ws\<close>, \<open>split_word\<close>, \<open>runs\<close>, \<open>match_all\<close>, \<open>replace_between\<close> and \<open>replace_links\<close>
  have termination proofs, and the loop of the page numbers is a
  \<open>while_option\<close> that is shown to end.  Numbers that the sources treat as integers are \<open>int\<close>; counters of the
  database have the limit of their column; the hash of avatars is a 32-bit word.  Strings hold the code units
  up to 255; the dictionaries and the e-mails write other characters as their UTF-8 bytes.

  \<^bold>\<open>Not modelled.\<close>  Markup, styling, focus and the wording of notices, because they decide nothing; monitoring and
  build configuration, which are data for third-party tools; the Python backend, of which the client uses the HTTP
  interface only, so that its answers are arguments; and the following pages, which add little logic of their own to the
  hooks that are modelled: support, onboarding, the dialogs of the account list, notifications and the administration
  pages with their statistics.  That a React component is called with its latest state, and that the browser delivers
  events one at a time, is taken as documented.
\<close>

section \<open>The language across server and client\<close>






text \<open>On a protected page under \<open>/id\<close>, a visitor whose stored choice is English gets the document in
  English, while the same answer overwrites the stored choice with Indonesian, and the mounted page turns Indonesian.\<close>

theorem id_prefix_overwrites_choice:
  assumes "isIdSubpath p" "\<not> is_static p" "\<not> isPublic (unlocalizedPath p)" "truthy (session_cookie request)"
    "p = url_path (nr_url request)" "map_get (nr_cookies request) ''telebo_locale'' = Some ''en''"
  shows "\<exists>hs. middleware request = Rewrite ((nr_url request)\<lparr>url_path := unlocalizedPath p\<rparr>) hs [(''telebo_locale'', ''id'')]
    \<and> hp_lang (RootLayout siteUrl (Some hs)) = ''en'' \<and> cur_locale (fst (open_page p (RootLayout siteUrl (Some hs)) b)) = Id"
proof -
  have "unlocalizedPath p \<noteq> ''/privacy''" "unlocalizedPath p \<noteq> ''/tos''"
    using assms(3) by (auto simp: isPublic_def PUBLIC_PATHS_def)
  then obtain hs where hs: "middleware request = Rewrite ((nr_url request)\<lparr>url_path := unlocalizedPath p\<rparr>) hs [(''telebo_locale'', ''id'')]"
      "map_get hs ''x-telebos-locale'' = Some (locale_str En)"
    using assms by (simp add: middleware_def handleLocalizedRoute_def Let_def)
  have "hp_lang (RootLayout siteUrl (Some hs)) = locale_str En" by (rule layout_reads [OF hs(2)])
  then show ?thesis
    using hs(1) open_page_ends [of "RootLayout siteUrl (Some hs)" En p b] assms(1) by (simp add: mounted_language_def)
qed

theorem id_prefix_overwrites_choice_witness:
  "\<exists>hs. middleware ((demo_request ''/id/wallet'')\<lparr>nr_cookies := [(''better-auth.session_token'', ''s''), (''telebo_locale'', ''en'')]\<rparr>)
      = Rewrite ((nr_url ((demo_request ''/id/wallet'')\<lparr>nr_cookies := [(''better-auth.session_token'', ''s''), (''telebo_locale'', ''en'')]\<rparr>))
          \<lparr>url_path := unlocalizedPath ''/id/wallet''\<rparr>) hs [(''telebo_locale'', ''id'')]
    \<and> hp_lang (RootLayout ''s'' (Some hs)) = ''en'' \<and> cur_locale (fst (open_page ''/id/wallet'' (RootLayout ''s'' (Some hs)) demo_browser)) = Id"
  by (rule id_prefix_overwrites_choice) (simp_all add: middleware_eval)

section \<open>Logging out and the sockets\<close>

text \<open>C9: when a logout has ended, whatever else was under way in the store and whatever the components did with the
  sockets before, the cache is empty and every socket ever created in the page is silent for good: whatever the browser
  and the components that still hold it do (subscribe, unsubscribe, disconnect; only the cache itself and the timer
  call \<open>connect\<close>), it opens no connection, sends nothing and calls no handler.\<close>

theorem logout_silences_sockets:
  assumes "reach (\<lambda>w. w = new_session) auth_step w" "ws \<in> set (objects (st_pool (fst (logout (aw_state w)))))"
    "run ws_step ws outs t"
  shows "sockets (st_pool (fst (logout (aw_state w)))) = []
    \<and> length (objects (st_pool (fst (logout (aw_state w))))) = length (objects (st_pool (aw_state w)))
    \<and> list_all (\<lambda>out. out = []) outs \<and> \<not> rws_connected t"
proof -
  let ?p = "st_pool (aw_state w)"
  have out: "st_pool (fst (logout (aw_state w))) = disconnectAll ?p"
    by (simp add: logout_def syncSessionToken_def Let_def)
  have inv: "pool_inv ?p" using aum.reach_inv [OF assms(1)] by (simp add: auth_inv_def)
  obtain a where "a < length (objects (disconnectAll ?p))" "ws = objects (disconnectAll ?p) ! a"
    using assms(2) unfolding out by (metis in_set_conv_nth)
  then have "ws_inv ws" "intentionalClose ws" using disconnectAll_closes [OF inv] by blast+
  then show ?thesis
    using closed_run [OF _ _ assms(3)] unfolding out by (simp add: disconnectAll_def disconnect_each(3))
qed

definition chatting :: auth_world where
  "chatting = \<lparr>aw_state = demo_session\<lparr>st_pool := demo_pool\<rparr>, aw_waiting = []\<rparr>"

lemma chatting_reach: "reach (\<lambda>w. w = new_session) auth_step chatting"
proof (rule reach_step [OF demo_world_reach])
  have "st_pool demo_session = empty_pool" by (simp add: demo_session_def auth_op_defs init_auth_def Let_def)
  then have "pool_step (st_pool (aw_state demo_world)) () demo_pool"
    unfolding demo_pool_def by (simp add: demo_world_def socket_channels_def pool_step.connects)
  from uses_pool [OF this] show "auth_step demo_world UsePool chatting" by (simp add: demo_world_def chatting_def)
qed

theorem logout_silences_sockets_witness:
  "sockets (st_pool (fst (logout (aw_state chatting)))) = []
    \<and> length (objects (st_pool (fst (logout (aw_state chatting))))) = length (objects (st_pool (aw_state chatting)))
    \<and> list_all (\<lambda>out. out = ([] :: effect list)) [[]]
    \<and> \<not> rws_connected (on (hd (objects (st_pool (fst (logout (aw_state chatting)))))) ''all'' 3)"
proof (rule logout_silences_sockets [OF chatting_reach])
  have "objects (st_pool (fst (logout (aw_state chatting)))) = [fst (disconnect (fst (connect (new_rws ''ws://h/ws/chats/1''))))]"
    by (simp add: chatting_def logout_def syncSessionToken_def Let_def disconnectAll_def demo_pool_eq disconnect_object_def change_object_def)
  then show "hd (objects (st_pool (fst (logout (aw_state chatting))))) \<in> set (objects (st_pool (fst (logout (aw_state chatting)))))"
    by simp
  show "run ws_step (hd (objects (st_pool (fst (logout (aw_state chatting)))))) [[]]
      (on (hd (objects (st_pool (fst (logout (aw_state chatting)))))) ''all'' 3)"
    by (simp add: ws_step.subscribe)
qed

text \<open>The colours of messages in the settings of an account look for an English word: in Indonesian both successes are red.\<close>

theorem success_is_red_in_indonesian:
  "map (\<lambda>loc. privacy_colour (translate en_dict id_dict loc ''accountSettings.privacyUpdated'' None)) [En, Id] = [''text-green-600'', ''text-red-500'']
   \<and> map (\<lambda>loc. reply_colour (translate en_dict id_dict loc ''accountSettings.autoReplySaved'' None)) [En, Id] = [''text-green-600'', ''text-red-500'']"
proof -
  have "translate en_dict id_dict loc ''accountSettings.privacyUpdated'' None =
      (case loc of En \<Rightarrow> ''Privacy settings updated!'' | Id \<Rightarrow> ''Pengaturan privasi diperbarui!'')" for loc
    by (rule two_steps [of _ "''accountSettings''" "''privacyUpdated''"])
      (cases loc; simp add: en_dict_def id_dict_def en_accountSettings_def id_accountSettings_def)+
  moreover have "translate en_dict id_dict loc ''accountSettings.autoReplySaved'' None =
      (case loc of En \<Rightarrow> ''Auto-reply settings saved!'' | Id \<Rightarrow> ''Pengaturan balas otomatis tersimpan!'')" for loc
    by (rule two_steps [of _ "''accountSettings''" "''autoReplySaved''"])
      (cases loc; simp add: en_dict_def id_dict_def en_accountSettings_def id_accountSettings_def)+
  ultimately show ?thesis by (simp add: privacy_colour_def reply_colour_def)
qed

end
